(* ===== verification/Prelude.thy ===== *)
theory Prelude
  imports Complex_Main "HOL-Library.Char_ord"
begin

text \<open>
  The shared ground of the development.

  \<^item> The effect of a service method: a computation that reads and writes the
    system state and either throws or returns (\<open>('s, 'e, 'a) comp\<close>), with the
    sequencing, \<^verbatim>\<open>try/catch\<close> and loop combinators the handlers are built from.
  \<^item> Two ways to reason about computations: the weakest precondition
    \<open>wp\<close>, which the simplifier computes (collection \<open>wp_simps\<close>), and
    \<open>preserves\<close>, the closure of a state invariant under a computation, with
    introduction rules in the collection \<open>preserves_intros\<close>.
  \<^item> Tables as lists of rows, with the SQL update the code issues:
    \<open>update_where\<close> (Prisma's \<^verbatim>\<open>update\<close>/\<^verbatim>\<open>updateMany\<close>) and \<open>guarded_update\<close>
    (a raw \<^verbatim>\<open>UPDATE ... WHERE key AND guard\<close> with its row count).
  \<^item> The string functions of JavaScript the code uses on ASCII text:
    case conversion, trimming, padding, digits.
\<close>

section \<open>Collections\<close>

named_theorems wp_simps "equations of the weakest precondition, one per combinator"
named_theorems run_simps "when a combinator returns, and with what"
named_theorems preserves_intros "closure of an invariant under the combinators"
named_theorems comp_defs "definitions of the computation combinators"
named_theorems eval_simps "definitions and equations that evaluate the model on a concrete input"

section \<open>Errors\<close>

text \<open>
  What the code throws: the NestJS HTTP exceptions, a plain \<^verbatim>\<open>Error\<close>, a Prisma
  error with its code, a failed call of a provider, the webhook module's
  \<^verbatim>\<open>CompensatedError\<close> (\<^verbatim>\<open>compensated-error.ts\<close>) and a DTO that fails validation.
\<close>

datatype error =
    BadRequest string
  | NotFound string
  | Unauthorized string
  | Forbidden string
  | InternalServerError string
  | Conflict string
  | BadGateway string
  | PlainError string
  | PrismaError string
  | ProviderError string
  | CompensatedError string
  | ValidationError string

section \<open>Computations: state and exceptions\<close>

type_synonym ('s, 'e, 'a) comp = "'s \<Rightarrow> ('e + 'a) \<times> 's"

definition returnM :: "'a \<Rightarrow> ('s, 'e, 'a) comp" where
  [comp_defs]: "returnM x = (\<lambda>s. (Inr x, s))"

definition throwM :: "'e \<Rightarrow> ('s, 'e, 'a) comp" where
  [comp_defs]: "throwM e = (\<lambda>s. (Inl e, s))"

definition bindM :: "('s, 'e, 'a) comp \<Rightarrow> ('a \<Rightarrow> ('s, 'e, 'b) comp) \<Rightarrow> ('s, 'e, 'b) comp" where
  [comp_defs]: "bindM m f = (\<lambda>s. case m s of (r, s') \<Rightarrow>
     (case r of Inl e \<Rightarrow> (Inl e, s') | Inr x \<Rightarrow> f x s'))"

definition thenM :: "('s, 'e, 'a) comp \<Rightarrow> ('s, 'e, 'b) comp \<Rightarrow> ('s, 'e, 'b) comp" where
  [comp_defs]: "thenM m k = bindM m (\<lambda>_. k)"

definition getM :: "('s \<Rightarrow> 'a) \<Rightarrow> ('s, 'e, 'a) comp" where
  [comp_defs]: "getM f = (\<lambda>s. (Inr (f s), s))"

definition modifyM :: "('s \<Rightarrow> 's) \<Rightarrow> ('s, 'e, unit) comp" where
  [comp_defs]: "modifyM f = (\<lambda>s. (Inr (), f s))"

text \<open>\<open>requireM b e\<close> is the code's \<^verbatim>\<open>if (!b) throw e\<close>.\<close>

definition requireM :: "bool \<Rightarrow> 'e \<Rightarrow> ('s, 'e, unit) comp" where
  [comp_defs]: "requireM b e = (if b then returnM () else throwM e)"

text \<open>\<open>someM v e\<close> is the code's \<^verbatim>\<open>if (!v) throw e\<close> followed by uses of \<^verbatim>\<open>v\<close>.\<close>

definition someM :: "'a option \<Rightarrow> 'e \<Rightarrow> ('s, 'e, 'a) comp" where
  [comp_defs]: "someM v e = (case v of None \<Rightarrow> throwM e | Some x \<Rightarrow> returnM x)"

text \<open>A pure function that may throw, run inside a computation.\<close>

definition liftM :: "'e + 'a \<Rightarrow> ('s, 'e, 'a) comp" where
  [comp_defs]: "liftM r = (case r of Inl e \<Rightarrow> throwM e | Inr x \<Rightarrow> returnM x)"

definition whenM :: "bool \<Rightarrow> ('s, 'e, unit) comp \<Rightarrow> ('s, 'e, unit) comp" where
  [comp_defs]: "whenM b m = (if b then m else returnM ())"

definition catchM :: "('s, 'e, 'a) comp \<Rightarrow> ('e \<Rightarrow> ('s, 'e, 'a) comp) \<Rightarrow> ('s, 'e, 'a) comp" where
  [comp_defs]: "catchM m h = (\<lambda>s. case m s of (r, s') \<Rightarrow>
     (case r of Inl e \<Rightarrow> h e s' | Inr x \<Rightarrow> (Inr x, s')))"

definition finallyM :: "('s, 'e, 'a) comp \<Rightarrow> ('s, 'e, unit) comp \<Rightarrow> ('s, 'e, 'a) comp" where
  [comp_defs]: "finallyM m c = (\<lambda>s. case m s of (r, s') \<Rightarrow>
     (case c s' of (r', s'') \<Rightarrow> (case r' of Inl e \<Rightarrow> (Inl e, s'') | Inr _ \<Rightarrow> (r, s''))))"

fun forM :: "'a list \<Rightarrow> ('a \<Rightarrow> ('s, 'e, unit) comp) \<Rightarrow> ('s, 'e, unit) comp" where
  "forM [] f = returnM ()"
| "forM (x # xs) f = thenM (f x) (forM xs f)"

section \<open>Weakest preconditions\<close>

definition wp :: "('s, 'e, 'a) comp \<Rightarrow> ('a \<Rightarrow> 's \<Rightarrow> bool) \<Rightarrow> ('e \<Rightarrow> 's \<Rightarrow> bool) \<Rightarrow> 's \<Rightarrow> bool" where
  "wp m Q E s = (case m s of (r, s') \<Rightarrow> (case r of Inl e \<Rightarrow> E e s' | Inr x \<Rightarrow> Q x s'))"

lemma wp_return [wp_simps]: "wp (returnM x) Q E s = Q x s"
  by (simp add: wp_def returnM_def)

lemma wp_throw [wp_simps]: "wp (throwM e) Q E s = E e s"
  by (simp add: wp_def throwM_def)

lemma wp_bind [wp_simps]: "wp (bindM m f) Q E s = wp m (\<lambda>x. wp (f x) Q E) E s"
  by (simp add: wp_def bindM_def split: prod.splits sum.splits)

lemma wp_then [wp_simps]: "wp (thenM m k) Q E s = wp m (\<lambda>_. wp k Q E) E s"
  by (simp add: thenM_def wp_bind)

lemma wp_get [wp_simps]: "wp (getM f) Q E s = Q (f s) s"
  by (simp add: wp_def getM_def)

lemma wp_modify [wp_simps]: "wp (modifyM f) Q E s = Q () (f s)"
  by (simp add: wp_def modifyM_def)

lemma wp_require [wp_simps]: "wp (requireM b e) Q E s = (if b then Q () s else E e s)"
  by (simp add: requireM_def wp_return wp_throw)

lemma wp_some [wp_simps]: "wp (someM v e) Q E s = (case v of None \<Rightarrow> E e s | Some x \<Rightarrow> Q x s)"
  by (simp add: someM_def wp_return wp_throw split: option.splits)

lemma wp_lift [wp_simps]: "wp (liftM r) Q E s = (case r of Inl e \<Rightarrow> E e s | Inr x \<Rightarrow> Q x s)"
  by (simp add: liftM_def wp_return wp_throw split: sum.splits)

lemma wp_when [wp_simps]: "wp (whenM b m) Q E s = (if b then wp m Q E s else Q () s)"
  by (simp add: whenM_def wp_return)

lemma wp_catch [wp_simps]: "wp (catchM m h) Q E s = wp m Q (\<lambda>e. wp (h e) Q E) s"
  by (simp add: wp_def catchM_def split: prod.splits sum.splits)

lemma wp_if [wp_simps]: "wp (if b then m else k) Q E s = (if b then wp m Q E s else wp k Q E s)"
  by simp

lemma wp_let [wp_simps]: "wp (let x = t in m x) Q E s = wp (m t) Q E s"
  by simp

lemma wp_case_option [wp_simps]:
  "wp (case v of None \<Rightarrow> m | Some x \<Rightarrow> k x) Q E s
     = (case v of None \<Rightarrow> wp m Q E s | Some x \<Rightarrow> wp (k x) Q E s)"
  by (simp split: option.splits)

lemma wp_alt: "wp m Q E s = (case fst (m s) of Inl e \<Rightarrow> E e (snd (m s)) | Inr x \<Rightarrow> Q x (snd (m s)))"
  by (simp add: wp_def split_beta)

lemma wp_mono: "wp m Q E s \<Longrightarrow> (\<And>x s'. Q x s' \<Longrightarrow> Q' x s') \<Longrightarrow> (\<And>e s'. E e s' \<Longrightarrow> E' e s') \<Longrightarrow> wp m Q' E' s"
  by (auto simp: wp_def split: prod.splits sum.splits)

section \<open>Successful runs\<close>

lemma run_return [run_simps]: "returnM x s = (Inr y, s') \<longleftrightarrow> y = x \<and> s' = s"
  by (auto simp: returnM_def)

lemma run_throw [run_simps]: "throwM e s = (Inr y, s') \<longleftrightarrow> False"
  by (simp add: throwM_def)

lemma run_bind [run_simps]:
  "bindM m f s = (Inr y, s') \<longleftrightarrow> (\<exists>x s1. m s = (Inr x, s1) \<and> f x s1 = (Inr y, s'))"
  by (auto simp: bindM_def split: prod.splits sum.splits)

lemma run_then [run_simps]:
  "thenM m k s = (Inr y, s') \<longleftrightarrow> (\<exists>x s1. m s = (Inr x, s1) \<and> k s1 = (Inr y, s'))"
  by (simp add: thenM_def run_bind)

lemma run_get [run_simps]: "getM f s = (Inr y, s') \<longleftrightarrow> y = f s \<and> s' = s"
  by (auto simp: getM_def)

lemma run_modify [run_simps]: "modifyM f s = (Inr y, s') \<longleftrightarrow> s' = f s"
  by (auto simp: modifyM_def)

lemma run_require [run_simps]: "requireM b e s = (Inr y, s') \<longleftrightarrow> b \<and> s' = s"
  by (auto simp: requireM_def run_return run_throw)

lemma run_some [run_simps]: "someM v e s = (Inr y, s') \<longleftrightarrow> v = Some y \<and> s' = s"
  by (auto simp: someM_def run_return run_throw split: option.splits)

lemma run_lift [run_simps]: "liftM r s = (Inr y, s') \<longleftrightarrow> r = Inr y \<and> s' = s"
  by (auto simp: liftM_def run_return run_throw split: sum.splits)

lemma run_when [run_simps]:
  "whenM b m s = (Inr y, s') \<longleftrightarrow> (if b then m s = (Inr y, s') else s' = s)"
  by (auto simp: whenM_def run_return)

lemma fst_run: "fst r = Inr x \<Longrightarrow> r = (Inr x, snd r)"
  by (simp add: prod_eq_iff)

section \<open>Invariants of computations\<close>

definition preserves :: "('s \<Rightarrow> bool) \<Rightarrow> ('s, 'e, 'a) comp \<Rightarrow> bool" where
  "preserves I m \<longleftrightarrow> (\<forall>s. I s \<longrightarrow> I (snd (m s)))"

lemma preservesD: "preserves I m \<Longrightarrow> I s \<Longrightarrow> I (snd (m s))"
  by (simp add: preserves_def)

lemma preserves_wp: "preserves I m \<longleftrightarrow> (\<forall>s. I s \<longrightarrow> wp m (\<lambda>_. I) (\<lambda>_. I) s)"
  by (simp add: preserves_def wp_alt split: sum.splits)

lemma preservesI: "(\<And>s. I s \<Longrightarrow> wp m (\<lambda>_. I) (\<lambda>_. I) s) \<Longrightarrow> preserves I m"
  by (simp add: preserves_wp)

lemma preserves_return [preserves_intros]: "preserves I (returnM x)"
  by (simp add: preserves_def returnM_def)

lemma preserves_throw [preserves_intros]: "preserves I (throwM e)"
  by (simp add: preserves_def throwM_def)

lemma preserves_bind [preserves_intros]:
  assumes "preserves I m" and "\<And>x. preserves I (f x)"
  shows "preserves I (bindM m f)"
  using assms by (force simp: preserves_wp wp_simps elim: wp_mono)

lemma preserves_then [preserves_intros]:
  "preserves I m \<Longrightarrow> preserves I k \<Longrightarrow> preserves I (thenM m k)"
  by (simp add: thenM_def preserves_bind)

lemma preserves_get [preserves_intros]: "preserves I (getM f)"
  by (simp add: preserves_def getM_def)

lemma preserves_modify: "(\<And>s. I s \<Longrightarrow> I (f s)) \<Longrightarrow> preserves I (modifyM f)"
  by (simp add: preserves_def modifyM_def)

lemma preserves_require [preserves_intros]: "preserves I (requireM b e)"
  by (simp add: requireM_def preserves_return preserves_throw)

lemma preserves_some [preserves_intros]: "preserves I (someM v e)"
  by (simp add: someM_def preserves_return preserves_throw split: option.splits)

lemma preserves_lift [preserves_intros]: "preserves I (liftM r)"
  by (simp add: liftM_def preserves_return preserves_throw split: sum.splits)

lemma preserves_when [preserves_intros]: "(b \<Longrightarrow> preserves I m) \<Longrightarrow> preserves I (whenM b m)"
  by (simp add: whenM_def preserves_return)

lemma preserves_if [preserves_intros]:
  "(b \<Longrightarrow> preserves I m) \<Longrightarrow> (\<not> b \<Longrightarrow> preserves I k) \<Longrightarrow> preserves I (if b then m else k)"
  by simp

lemma preserves_let [preserves_intros]: "preserves I (m t) \<Longrightarrow> preserves I (let x = t in m x)"
  by simp

lemma preserves_case_option [preserves_intros]:
  "(v = None \<Longrightarrow> preserves I m) \<Longrightarrow> (\<And>x. v = Some x \<Longrightarrow> preserves I (k x))
     \<Longrightarrow> preserves I (case v of None \<Rightarrow> m | Some x \<Rightarrow> k x)"
  by (simp split: option.splits)

lemma preserves_catch [preserves_intros]:
  assumes "preserves I m" and "\<And>e. preserves I (h e)"
  shows "preserves I (catchM m h)"
  using assms by (force simp: preserves_wp wp_simps elim: wp_mono)

lemma finallyM_state: "snd (finallyM m c s) = snd (c (snd (m s)))"
  by (simp add: finallyM_def split: prod.splits sum.splits)

lemma preserves_finally [preserves_intros]:
  "preserves I m \<Longrightarrow> preserves I c \<Longrightarrow> preserves I (finallyM m c)"
  by (simp add: preserves_def finallyM_state)

lemma preserves_for [preserves_intros]:
  "(\<And>x. preserves I (f x)) \<Longrightarrow> preserves I (forM xs f)"
  by (induction xs) (auto intro: preserves_return preserves_then)

section \<open>Tables\<close>

definition update_where :: "('r \<Rightarrow> bool) \<Rightarrow> ('r \<Rightarrow> 'r) \<Rightarrow> 'r list \<Rightarrow> 'r list" where
  "update_where p f rows = map (\<lambda>r. if p r then f r else r) rows"

text \<open>
  \<open>key\<close> selects the rows, \<open>upd\<close> is the guarded assignment: \<open>None\<close> where the
  guard of the \<^verbatim>\<open>WHERE\<close> clause fails.  The row count is what
  \<^verbatim>\<open>$executeRaw\<close> returns.
\<close>

definition guarded_update :: "('r \<Rightarrow> bool) \<Rightarrow> ('r \<Rightarrow> 'r option) \<Rightarrow> 'r list \<Rightarrow> 'r list" where
  "guarded_update key upd rows =
     map (\<lambda>r. if key r then (case upd r of None \<Rightarrow> r | Some r' \<Rightarrow> r') else r) rows"

definition guarded_count :: "('r \<Rightarrow> bool) \<Rightarrow> ('r \<Rightarrow> 'r option) \<Rightarrow> 'r list \<Rightarrow> nat" where
  "guarded_count key upd rows = length (filter (\<lambda>r. key r \<and> upd r \<noteq> None) rows)"

lemma update_where_all:
  "list_all P rows \<Longrightarrow> (\<And>r. P r \<Longrightarrow> p r \<Longrightarrow> P (f r)) \<Longrightarrow> list_all P (update_where p f rows)"
  by (auto simp: update_where_def list_all_iff)

lemma guarded_update_all:
  "list_all P rows \<Longrightarrow> (\<And>r r'. P r \<Longrightarrow> key r \<Longrightarrow> upd r = Some r' \<Longrightarrow> P r')
     \<Longrightarrow> list_all P (guarded_update key upd rows)"
  by (auto simp: guarded_update_def list_all_iff split: option.splits)

lemma guarded_update_none:
  "guarded_count key upd rows = 0 \<Longrightarrow> guarded_update key upd rows = rows"
  by (induction rows) (auto simp: guarded_update_def guarded_count_def split: if_splits)

lemma find_Some_in: "List.find p rows = Some r \<Longrightarrow> r \<in> set rows \<and> p r"
  by (metis find_Some_iff nth_mem)

section \<open>Strings\<close>

text \<open>A text that is there and not empty.\<close>

definition truthy :: "string option \<Rightarrow> string option" where
  "truthy x = (case x of None \<Rightarrow> None | Some s \<Rightarrow> (if s = [] then None else Some s))"

definition is_digit :: "char \<Rightarrow> bool" where
  "is_digit c \<longleftrightarrow> (48::nat) \<le> of_char c \<and> of_char c \<le> (57::nat)"

definition lower_char :: "char \<Rightarrow> char" where
  "lower_char c = (if (65::nat) \<le> of_char c \<and> of_char c \<le> (90::nat)
     then char_of (of_char c + (32::nat)) else c)"

definition upper_char :: "char \<Rightarrow> char" where
  "upper_char c = (if (97::nat) \<le> of_char c \<and> of_char c \<le> (122::nat)
     then char_of (of_char c - (32::nat)) else c)"

definition to_lower :: "string \<Rightarrow> string" where
  "to_lower s = map lower_char s"

definition to_upper :: "string \<Rightarrow> string" where
  "to_upper s = map upper_char s"

definition is_space :: "char \<Rightarrow> bool" where
  "is_space c \<longleftrightarrow> of_char c = (32::nat) \<or> (9::nat) \<le> of_char c \<and> of_char c \<le> (13::nat)"

definition trim :: "string \<Rightarrow> string" where
  "trim s = rev (dropWhile is_space (rev (dropWhile is_space s)))"

definition starts_with :: "string \<Rightarrow> string \<Rightarrow> bool" where
  "starts_with pre s \<longleftrightarrow> take (length pre) s = pre"

definition pad_start :: "nat \<Rightarrow> char \<Rightarrow> string \<Rightarrow> string" where
  "pad_start n c s = replicate (n - length s) c @ s"

definition pad_end :: "nat \<Rightarrow> char \<Rightarrow> string \<Rightarrow> string" where
  "pad_end n c s = s @ replicate (n - length s) c"

text \<open>\<open>strip_zeros\<close> is \<^verbatim>\<open>replace(/0+$/, '')\<close>.\<close>

definition strip_zeros :: "string \<Rightarrow> string" where
  "strip_zeros s = rev (dropWhile (\<lambda>c. c = CHR ''0'') (rev s))"

definition digit_char :: "nat \<Rightarrow> char" where
  "digit_char d = char_of (48 + d)"

definition digit_val :: "char \<Rightarrow> nat" where
  "digit_val c = of_char c - 48"

fun show_nat :: "nat \<Rightarrow> string" where
  "show_nat n = (if n < 10 then [digit_char n] else show_nat (n div 10) @ [digit_char (n mod 10)])"

declare show_nat.simps [simp del]

definition digits_nat :: "string \<Rightarrow> nat" where
  "digits_nat s = foldl (\<lambda>a c. 10 * a + digit_val c) 0 s"

definition show_int :: "int \<Rightarrow> string" where
  "show_int i = (if i < 0 then CHR ''-'' # show_nat (nat (- i)) else show_nat (nat i))"

lemma digit_val_char [simp]: "d < 10 \<Longrightarrow> digit_val (digit_char d) = d"
  by (simp add: digit_val_def digit_char_def)

lemma is_digit_char [simp]: "d < 10 \<Longrightarrow> is_digit (digit_char d)"
  by (simp add: is_digit_def digit_char_def)

lemma digit_chars [simp]:
  "digit_char 0 = CHR ''0''" "digit_char 1 = CHR ''1''" "digit_char (Suc 0) = CHR ''1''"
  "digit_char 2 = CHR ''2''" "digit_char 3 = CHR ''3''" "digit_char 4 = CHR ''4''"
  "digit_char 5 = CHR ''5''" "digit_char 6 = CHR ''6''" "digit_char 7 = CHR ''7''"
  "digit_char 8 = CHR ''8''" "digit_char 9 = CHR ''9''"
  by code_simp+

lemma show_nat_numeral [eval_simps]:
  "show_nat (numeral n) =
     (if numeral n < (10::nat) then [digit_char (numeral n)]
      else show_nat (numeral n div 10) @ [digit_char (numeral n mod 10)])"
  by (rule show_nat.simps)

lemma show_nat_small [simp]: "show_nat 0 = ''0''" "show_nat (Suc 0) = ''1''"
  by (simp_all add: show_nat.simps)

lemma char_of_numeral_eq [eval_simps]:
  "char_of (numeral n :: nat) = c \<longleftrightarrow> take_bit 8 (numeral n) = (of_char c :: nat)"
  by (simp add: char_of_eq_iff)

lemma replicate_numeral_Cons [eval_simps]:
  "replicate (numeral k) x = x # replicate (pred_numeral k) x"
  by (simp add: numeral_eq_Suc)

lemmas string_eval [eval_simps] =
  Let_def to_lower_def lower_char_def to_upper_def upper_char_def trim_def is_space_def
  pad_start_def pad_end_def strip_zeros_def is_digit_def digit_val_def digits_nat_def
  starts_with_def show_int_def

lemma digits_nat_append: "digits_nat (s @ t) = digits_nat s * 10 ^ length t + digits_nat t"
proof -
  have "foldl (\<lambda>a c. 10 * a + digit_val c) k t = k * 10 ^ length t + foldl (\<lambda>a c. 10 * a + digit_val c) 0 t" for k
  proof (induction t arbitrary: k)
    case Nil
    then show ?case by simp
  next
    case (Cons c t)
    let ?f = "\<lambda>a c. 10 * a + digit_val c"
    have "foldl ?f k (c # t) = (10 * k + digit_val c) * 10 ^ length t + foldl ?f 0 t"
      by (simp only: foldl_Cons Cons [of "10 * k + digit_val c"])
    moreover have "foldl ?f 0 (c # t) = (10 * 0 + digit_val c) * 10 ^ length t + foldl ?f 0 t"
      by (simp only: foldl_Cons Cons [of "10 * 0 + digit_val c"])
    ultimately show ?case by (simp only: distrib_right length_Cons power_Suc)
  qed
  from this [of "foldl (\<lambda>a c. 10 * a + digit_val c) 0 s"] show ?thesis
    by (simp only: digits_nat_def foldl_append)
qed

lemma digits_nat_Nil [simp]: "digits_nat [] = 0"
  by (simp add: digits_nat_def)

lemma digits_nat_single [simp]: "digits_nat [c] = digit_val c"
  by (simp add: digits_nat_def)

lemma digits_nat_show [simp]: "digits_nat (show_nat n) = n"
proof (induction n rule: show_nat.induct)
  case (1 n)
  then show ?case
    by (subst show_nat.simps) (auto simp: digits_nat_append)
qed

lemma show_nat_digits [simp]: "list_all is_digit (show_nat n)"
proof (induction n rule: show_nat.induct)
  case (1 n)
  then show ?case by (subst show_nat.simps) auto
qed

lemma show_nat_nonempty [simp]: "show_nat n \<noteq> []"
  by (subst show_nat.simps) simp

lemma digit_val_zero [simp]: "digit_val (CHR ''0'') = 0"
  by (simp add: digit_val_def)

lemma is_digit_zero [simp]: "is_digit (CHR ''0'')"
  by (simp add: is_digit_def)

lemma not_digit_dot [simp]: "\<not> is_digit (CHR ''.'')"
  by (simp add: is_digit_def)

lemma not_digit_minus [simp]: "\<not> is_digit (CHR ''-'')"
  by (simp add: is_digit_def)

lemma digits_nat_zeros [simp]: "digits_nat (replicate n (CHR ''0'')) = 0"
  by (induction n) (auto simp: digits_nat_append [of "[CHR ''0'']", simplified])

lemma digits_nat_pad_start [simp]: "digits_nat (pad_start n (CHR ''0'') s) = digits_nat s"
  by (simp add: pad_start_def digits_nat_append)

lemma length_show_nat_le: "n < 10 ^ d \<Longrightarrow> 0 < d \<Longrightarrow> length (show_nat n) \<le> d"
proof (induction n arbitrary: d rule: show_nat.induct)
  case (1 n)
  show ?case
  proof (cases "n < 10")
    case True
    then show ?thesis using "1.prems" by (subst show_nat.simps) simp
  next
    case False
    have d: "1 < d"
    proof (rule ccontr)
      assume "\<not> 1 < d"
      with "1.prems" have "d = 1" by simp
      with False "1.prems" show False by simp
    qed
    have "n div 10 < 10 ^ (d - 1)"
      using "1.prems" d by (cases d) (auto simp: less_mult_imp_div_less algebra_simps)
    with "1.IH" [OF False] d have "length (show_nat (n div 10)) \<le> d - 1" by simp
    with False d show ?thesis by (subst show_nat.simps) simp
  qed
qed

lemma pad_start_length: "length s \<le> n \<Longrightarrow> length (pad_start n c s) = n"
  by (simp add: pad_start_def)

lemma strip_zeros_decomp: "s = strip_zeros s @ replicate (length s - length (strip_zeros s)) (CHR ''0'')"
proof -
  let ?z = "takeWhile (\<lambda>c. c = CHR ''0'') (rev s)"
  have "rev s = ?z @ dropWhile (\<lambda>c. c = CHR ''0'') (rev s)" by simp
  then have s: "s = strip_zeros s @ rev ?z"
    unfolding strip_zeros_def by (metis rev_append rev_rev_ident)
  have "\<forall>c \<in> set ?z. c = CHR ''0''" by (auto dest: set_takeWhileD)
  then have "?z = replicate (length ?z) (CHR ''0'')"
    by (simp add: replicate_length_same)
  moreover have "length ?z = length s - length (strip_zeros s)"
    using arg_cong [OF s, of length] by simp
  ultimately have "rev ?z = replicate (length s - length (strip_zeros s)) (CHR ''0'')"
    by (metis rev_replicate)
  with s show ?thesis by simp
qed

lemma pad_end_strip_zeros: "length s = n \<Longrightarrow> pad_end n (CHR ''0'') (strip_zeros s) = s"
  unfolding pad_end_def using strip_zeros_decomp [of s] by simp

lemma strip_zeros_length: "length (strip_zeros s) \<le> length s"
  using length_dropWhile_le [of "\<lambda>c. c = CHR ''0''" "rev s"] by (simp add: strip_zeros_def)

lemma strip_zeros_all: "list_all P s \<Longrightarrow> list_all P (strip_zeros s)"
  by (auto simp: strip_zeros_def list_all_iff dest: set_dropWhileD)

lemma lower_upper_char [simp]: "lower_char (upper_char c) = lower_char c"
proof (cases "(97::nat) \<le> of_char c \<and> of_char c \<le> (122::nat)")
  case True
  then have "(of_char c - 32 :: nat) < 256" by linarith
  then have "(of_char c - 32) mod 256 = (of_char c - 32 :: nat)" by (rule mod_less)
  moreover have "(65::nat) \<le> of_char c - 32 \<and> of_char c - 32 \<le> (90::nat)" using True by linarith
  ultimately show ?thesis using True by (simp add: lower_char_def upper_char_def)
next
  case False
  then show ?thesis by (auto simp add: lower_char_def upper_char_def)
qed

lemma to_lower_upper [simp]: "to_lower (to_upper s) = to_lower s"
  by (simp add: to_lower_def to_upper_def)

lemma lower_lower_char [simp]: "lower_char (lower_char c) = lower_char c"
proof (cases "(65::nat) \<le> of_char c \<and> of_char c \<le> (90::nat)")
  case True
  then have "(of_char c + 32) mod 256 = (of_char c + 32 :: nat)" by simp
  with True show ?thesis by (simp add: lower_char_def)
next
  case False
  then show ?thesis by (auto simp add: lower_char_def)
qed

lemma to_lower_lower [simp]: "to_lower (to_lower s) = to_lower s"
  by (simp add: to_lower_def)


lemma upper_lower_char [simp]: "upper_char (lower_char c) = upper_char c"
proof (cases "(65::nat) \<le> of_char c \<and> of_char c \<le> (90::nat)")
  case True
  then have "(of_char c + 32) mod 256 = (of_char c + 32 :: nat)" by simp
  moreover have "(of_char c :: nat) < 97" using True by linarith
  ultimately show ?thesis using True by (simp add: lower_char_def upper_char_def)
next
  case False
  then show ?thesis by (auto simp add: lower_char_def)
qed

lemma to_upper_lower [simp]: "to_upper (to_lower s) = to_upper s"
  by (simp add: to_upper_def to_lower_def)

lemma to_upper_cong: "to_lower a = to_lower b \<Longrightarrow> to_upper a = to_upper b"
  by (metis to_upper_lower)

end
