(* ===== verification/Currency.thy ===== *)
theory Currency
  imports Prelude
begin

text \<open>
  Money as the code writes it (\<^verbatim>\<open>src/shared/utils/currency-precision.util.ts\<close> and the
  tables it reads): the decimals of a currency on a network, the conversion of a
  decimal string to base units (\<open>toBase\<close>), back (\<open>fromBase\<close>), the display for quotes
  (\<open>formatCryptoForQuote\<close>), and the cache of default networks the conversions fall
  back on.

  Strings are ASCII. \<^verbatim>\<open>BigInt\<close> values are unbounded, as \<open>int\<close>. The two uses of
  decimal.js are parameters (fields of \<open>conv\<close>): \<open>cv_decFixed s n\<close> is
  \<^verbatim>\<open>new Decimal(s).toFixed(n)\<close> and \<open>cv_decFloor s n\<close> is
  \<^verbatim>\<open>new Decimal(s).mul(10^n).floor()\<close>, both \<open>None\<close> where the constructor throws.
  \<^verbatim>\<open>BigInt(string)\<close> is modelled on decimal literals with an optional sign.
\<close>

section \<open>Tables\<close>

definition ALLOWED_CURRENCIES :: "string list" where
  "ALLOWED_CURRENCIES =
     [''btc'', ''usdt'', ''usdc'', ''eth'', ''bnb'', ''doge'', ''xrp'', ''sol'', ''link'',
      ''trx'', ''ngn'', ''usd'']"

definition CRYPTO_DECIMALS :: "(string \<times> nat) list" where
  "CRYPTO_DECIMALS =
     [(''btc'', 8), (''eth'', 18), (''usdt'', 6), (''usdc'', 6), (''bnb'', 18), (''doge'', 8),
      (''xrp'', 6), (''sol'', 9), (''link'', 18), (''trx'', 6)]"

definition FIAT_DECIMALS :: "(string \<times> nat) list" where
  "FIAT_DECIMALS =
     [(''ngn'', 2), (''usd'', 2), (''xof'', 0), (''xaf'', 0), (''aoa'', 2), (''dzd'', 2),
      (''bwp'', 2), (''bif'', 0), (''cve'', 2), (''cdf'', 2), (''dji'', 0), (''egp'', 2),
      (''ern'', 2), (''etb'', 2), (''gmd'', 2), (''ghs'', 2), (''gnf'', 0), (''kes'', 2),
      (''lsl'', 2), (''lrd'', 2), (''lyd'', 3), (''mga'', 2), (''mwk'', 2), (''mru'', 2),
      (''mur'', 2), (''mad'', 2), (''mzn'', 2), (''nad'', 2), (''rwf'', 0), (''stn'', 2),
      (''scr'', 2), (''sle'', 2), (''sos'', 0), (''zar'', 2), (''ssp'', 2), (''sdg'', 2),
      (''szl'', 2), (''tzs'', 0), (''tnd'', 3), (''ugx'', 0), (''zmw'', 2), (''zwg'', 2),
      (''eur'', 2), (''gbp'', 2), (''jpy'', 0), (''krw'', 0), (''vnd'', 0), (''kwd'', 3),
      (''bhd'', 3), (''omr'', 3), (''iqd'', 3), (''jod'', 3)]"

definition BASE_CURRENCY :: string where
  "BASE_CURRENCY = ''ngn''"

text \<open>Networks of a currency, in the order of the table: (id, decimals).\<close>

definition CURRENCY_PRECISION :: "(string \<times> (string \<times> nat) list) list" where
  "CURRENCY_PRECISION =
     [(''bnb'', [(''bep20'', 18)]),
      (''btc'', [(''btc'', 8), (''bep20'', 18)]),
      (''usdt'', [(''bep20'', 18), (''erc20'', 6), (''trc20'', 6), (''polygon'', 6),
                  (''solana'', 6), (''celo'', 6), (''optimism'', 6), (''ton'', 6)]),
      (''usdc'', [(''bep20'', 18), (''erc20'', 6), (''trc20'', 6), (''polygon'', 6),
                  (''solana'', 6), (''base'', 6)]),
      (''eth'', [(''erc20'', 18), (''bep20'', 18), (''base'', 18)]),
      (''trx'', [(''trc20'', 6)]),
      (''sol'', [(''solana'', 9), (''bep20'', 18)]),
      (''doge'', [(''doge'', 8)]),
      (''xrp'', [(''ripple'', 6)]),
      (''link'', [(''bep20'', 18)])]"

definition networks_of :: "string \<Rightarrow> (string \<times> nat) list" where
  "networks_of cur = (case map_of CURRENCY_PRECISION cur of None \<Rightarrow> [] | Some ns \<Rightarrow> ns)"

definition VALID_NETWORKS :: "string list" where
  "VALID_NETWORKS =
     [''btc'', ''bep20'', ''erc20'', ''trc20'', ''polygon'', ''solana'', ''celo'', ''optimism'',
      ''ton'', ''base'', ''doge'', ''ripple'']"

definition NETWORK_ALIASES :: "(string \<times> string) list" where
  "NETWORK_ALIASES =
     [(''bitcoin'', ''btc''), (''ethereum'', ''erc20''), (''tron'', ''trc20''),
      (''binance smart chain'', ''bep20''), (''polygon network'', ''polygon''),
      (''solana network'', ''solana''), (''celo network'', ''celo''),
      (''optimism network'', ''optimism''), (''ton network'', ''ton''),
      (''base network'', ''base'')]"

definition toCryptoNetwork :: "string \<Rightarrow> error + string" where
  "toCryptoNetwork raw =
     (let low = trim (to_lower raw)
      in if low \<in> set VALID_NETWORKS then Inr low
         else (case map_of NETWORK_ALIASES low of
                 Some a \<Rightarrow> Inr a
               | None \<Rightarrow> Inl (BadRequest (''Invalid network '' @ raw))))"

section \<open>Decimals of a currency\<close>

datatype net_or_dec = Net string | Dec nat

definition getCurrencyDecimals :: "string \<Rightarrow> net_or_dec option \<Rightarrow> error + nat" where
  "getCurrencyDecimals currency nd =
     (let cur = to_lower currency
      in if cur \<notin> set ALLOWED_CURRENCIES then Inl (BadRequest (''Unsupported currency: '' @ cur))
         else (case nd of
             Some (Dec d) \<Rightarrow> Inr d
           | _ \<Rightarrow>
             (case map_of FIAT_DECIMALS cur of
                Some d \<Rightarrow> Inr d
              | None \<Rightarrow>
                 (if networks_of cur = [] then
                    (case map_of CRYPTO_DECIMALS cur of
                       Some d \<Rightarrow> Inr d
                     | None \<Rightarrow> Inl (BadRequest (''Decimals not defined for currency: '' @ cur)))
                  else
                    (case nd of
                       Some (Net n) \<Rightarrow>
                         (if n = [] then
                            Inl (BadRequest (to_upper cur @ '' requires a network to determine decimals''))
                          else
                            (case List.find (\<lambda>(i, _). to_lower i = to_lower n) (networks_of cur) of
                               None \<Rightarrow> Inl (BadRequest (to_upper cur @ '' not supported on network '' @ n))
                             | Some (_, d) \<Rightarrow> Inr d))
                     | _ \<Rightarrow>
                         Inl (BadRequest (to_upper cur @ '' requires a network to determine decimals'')))))))"

section \<open>The conversions\<close>

record conv =
  cv_network :: "string \<Rightarrow> string option"
  cv_decFixed :: "string \<Rightarrow> nat \<Rightarrow> string option"
  cv_decFloor :: "string \<Rightarrow> nat \<Rightarrow> int option"

text \<open>The default network cache, a \<^verbatim>\<open>Map\<close> of the class.\<close>

definition setCachedDefaultNetwork ::
    "(string \<Rightarrow> string option) \<Rightarrow> string \<Rightarrow> string option \<Rightarrow> (string \<Rightarrow> string option)" where
  "setCachedDefaultNetwork cache currency network =
     (case network of
        None \<Rightarrow> cache
      | Some n \<Rightarrow>
         (if n = [] then cache
          else
            let cur = to_lower currency; net = to_lower n; ns = networks_of cur
            in if ns \<noteq> [] \<and> \<not> list_ex (\<lambda>(i, _). i = net) ns then cache
               else cache(cur \<mapsto> net)))"

definition getCachedDefaultNetwork :: "(string \<Rightarrow> string option) \<Rightarrow> string \<Rightarrow> string option" where
  "getCachedDefaultNetwork cache currency =
     (let cur = to_lower currency
      in case cache cur of
           Some n \<Rightarrow> Some n
         | None \<Rightarrow> (case networks_of cur of [] \<Rightarrow> None | (i, _) # _ \<Rightarrow> Some i))"

definition getDecimals :: "conv \<Rightarrow> string \<Rightarrow> error + nat" where
  "getDecimals cv currency =
     getCurrencyDecimals currency (map_option Net (getCachedDefaultNetwork (cv_network cv) currency))"

text \<open>
  \<open>resolve_decimals\<close> is the block that opens \<open>toBase\<close>, \<open>fromBase\<close> and
  \<open>formatCryptoForQuote\<close>: a number is taken as it is, otherwise the network given, or
  the cached default network, decides.
\<close>

definition resolve_decimals :: "conv \<Rightarrow> string \<Rightarrow> net_or_dec option \<Rightarrow> error + nat" where
  "resolve_decimals cv cur nd =
     (case nd of
        Some (Dec d) \<Rightarrow> Inr d
      | Some (Net n) \<Rightarrow> getCurrencyDecimals cur (Some (Net n))
      | None \<Rightarrow> getDecimals cv cur)"

text \<open>\<^verbatim>\<open>/[eE][+-]?\d+$/.test(s)\<close>\<close>

definition has_exponent :: "string \<Rightarrow> bool" where
  "has_exponent s =
     (let r = rev s; rest = dropWhile is_digit r
      in takeWhile is_digit r \<noteq> [] \<and>
         (case rest of
            [] \<Rightarrow> False
          | c # cs \<Rightarrow> c = CHR ''e'' \<or> c = CHR ''E'' \<or>
              ((c = CHR ''+'' \<or> c = CHR ''-'') \<and>
               (case cs of [] \<Rightarrow> False | k # _ \<Rightarrow> k = CHR ''e'' \<or> k = CHR ''E''))))"

text \<open>\<^verbatim>\<open>s.replace(/\.?0+$/, '')\<close>\<close>

definition strip_fraction_zeros :: "string \<Rightarrow> string" where
  "strip_fraction_zeros s =
     (let t = strip_zeros s
      in if t = s then s
         else if t \<noteq> [] \<and> last t = CHR ''.'' then butlast t else t)"

text \<open>
  \<^verbatim>\<open>/^-?\d+(\.\d+)?$/\<close>: the sign, the whole digits and the fraction digits of a string
  the expression accepts.
\<close>

definition parse_amount :: "string \<Rightarrow> (bool \<times> string \<times> string) option" where
  "parse_amount s =
     (let neg = (case s of [] \<Rightarrow> False | c # _ \<Rightarrow> c = CHR ''-'');
          r = (if neg then tl s else s);
          w = takeWhile is_digit r
      in if w = [] then None
         else (case dropWhile is_digit r of
             [] \<Rightarrow> Some (neg, w, [])
           | c # f \<Rightarrow>
               (if c = CHR ''.'' \<and> f \<noteq> [] \<and> list_all is_digit f then Some (neg, w, f) else None)))"

definition normalize_amount :: "conv \<Rightarrow> string \<Rightarrow> nat \<Rightarrow> error + string" where
  "normalize_amount cv amount d =
     (let n = trim amount
      in if has_exponent n then
           (case cv_decFixed cv n (d + 10) of
              None \<Rightarrow> Inl (BadRequest (''Invalid scientific notation format: '' @ amount))
            | Some f \<Rightarrow>
                let m = strip_fraction_zeros f
                in Inr (if m = [] \<or> m = ''-'' then ''0'' else m))
         else Inr n)"

definition base_units :: "string \<Rightarrow> string \<Rightarrow> nat \<Rightarrow> string \<Rightarrow> error + int" where
  "base_units amount cur d normalized =
     (case parse_amount normalized of
        None \<Rightarrow> Inl (BadRequest (''Invalid amount format: '' @ amount))
      | Some (neg, whole, fraction) \<Rightarrow>
          (if length fraction > d then
             Inl (BadRequest (to_upper cur @ '' supports at most '' @ show_nat d @ '' decimal places''))
           else
             let f = pad_end d (CHR ''0'') fraction;
                 v = int (digits_nat whole) * 10 ^ d + int (digits_nat f)
             in Inr (if neg then - v else v)))"

definition toBase :: "conv \<Rightarrow> string \<Rightarrow> string \<Rightarrow> net_or_dec option \<Rightarrow> error + int" where
  "toBase cv amount currency nd =
     (let cur = to_lower currency
      in case resolve_decimals cv cur nd of
           Inl e \<Rightarrow> Inl e
         | Inr d \<Rightarrow>
             (case normalize_amount cv amount d of
                Inl e \<Rightarrow> Inl e
              | Inr n \<Rightarrow> base_units amount cur d n))"

text \<open>The argument of \<open>fromBase\<close> is \<^verbatim>\<open>any\<close>: its run-time type decides.\<close>

datatype amount_arg =
    ABigInt int
  | ANumber int
  | AString string
  | ADecimal int
  | AOther

definition parse_bigint :: "string \<Rightarrow> error + int" where
  "parse_bigint s =
     (let t = trim s;
          neg = (t \<noteq> [] \<and> hd t = CHR ''-'');
          r = (if t \<noteq> [] \<and> (hd t = CHR ''-'' \<or> hd t = CHR ''+'') then tl t else t)
      in if t = [] then Inr 0
         else if r \<noteq> [] \<and> list_all is_digit r then
           Inr (if neg then - int (digits_nat r) else int (digits_nat r))
         else Inl (PlainError ''SyntaxError: Cannot convert to a BigInt''))"

definition arg_bigint :: "amount_arg \<Rightarrow> error + int" where
  "arg_bigint a =
     (case a of
        ABigInt i \<Rightarrow> Inr i
      | ANumber i \<Rightarrow> Inr i
      | AString s \<Rightarrow> parse_bigint s
      | ADecimal i \<Rightarrow> Inr i
      | AOther \<Rightarrow> Inr 0)"

definition is_fiat :: "string \<Rightarrow> bool" where
  "is_fiat cur \<longleftrightarrow> map_of FIAT_DECIMALS cur \<noteq> None"

definition display_units :: "string \<Rightarrow> nat \<Rightarrow> int \<Rightarrow> string" where
  "display_units cur d amount =
     (let a = nat (if amount < 0 then - amount else amount);
          whole = show_nat (a div 10 ^ d);
          fr = pad_start d (CHR ''0'') (show_nat (a mod 10 ^ d));
          result =
            (if is_fiat cur then whole @ ''.'' @ pad_end 2 (CHR ''0'') (take 2 fr)
             else
               let f = strip_zeros fr; f' = (if length f = 0 then ''0'' else f)
               in if f' \<noteq> ''0'' then whole @ ''.'' @ f' else whole)
      in if amount < 0 then ''-'' @ result else result)"

definition fromBase :: "conv \<Rightarrow> amount_arg \<Rightarrow> string \<Rightarrow> net_or_dec option \<Rightarrow> error + string" where
  "fromBase cv amount currency nd =
     (let cur = to_lower currency
      in case arg_bigint amount of
           Inl e \<Rightarrow> Inl e
         | Inr i \<Rightarrow>
             (case resolve_decimals cv cur nd of
                Inl e \<Rightarrow> Inl e
              | Inr d \<Rightarrow> Inr (display_units cur d i)))"

definition quote_units :: "nat \<Rightarrow> int \<Rightarrow> string" where
  "quote_units d amount =
     (let a = nat (if amount < 0 then - amount else amount);
          w = a div 10 ^ d;
          f = strip_zeros (pad_start d (CHR ''0'') (show_nat (a mod 10 ^ d)));
          result =
            (if w = 0 then (if length f = 0 then ''0.00'' else ''0.'' @ f)
             else
               let f' = (if length f = 0 then ''0'' else f)
               in if f' \<noteq> ''0'' then show_nat w @ ''.'' @ f' else show_nat w)
      in if amount < 0 then ''-'' @ result else result)"

definition formatCryptoForQuote :: "conv \<Rightarrow> amount_arg \<Rightarrow> string \<Rightarrow> net_or_dec option \<Rightarrow> error + string" where
  "formatCryptoForQuote cv amount currency nd =
     (let cur = to_lower currency
      in case resolve_decimals cv cur nd of
           Inl e \<Rightarrow> Inl e
         | Inr d \<Rightarrow>
             (case (case amount of
                      AString s \<Rightarrow>
                        (if CHR ''.'' \<in> set s then
                           (case cv_decFloor cv s d of
                              None \<Rightarrow> Inl (PlainError ''DecimalError: Invalid argument'')
                            | Some i \<Rightarrow> Inr i)
                         else parse_bigint s)
                    | _ \<Rightarrow> arg_bigint amount) of
                Inl e \<Rightarrow> Inl e
              | Inr i \<Rightarrow> Inr (quote_units d i)))"

section \<open>The asynchronous variants\<close>

text \<open>
  \<open>getDefaultNetwork\<close> asks the resolver installed with \<^verbatim>\<open>setDefaultNetworkResolver\<close>
  (\<open>None\<close>: none installed) and refreshes the cache before it is read, so the variants
  return the new cache with their result.
\<close>

type_synonym resolver = "(string \<Rightarrow> string option) option"

definition getDefaultNetwork :: "resolver \<Rightarrow> conv \<Rightarrow> string \<Rightarrow> conv \<times> string option" where
  "getDefaultNetwork rs cv currency =
     (let cur = to_lower currency
      in if is_fiat cur then (cv, None)
         else
           let network = (case rs of None \<Rightarrow> None | Some f \<Rightarrow> f cur);
               cv' = (case network of
                        None \<Rightarrow> cv
                      | Some n \<Rightarrow>
                          if n = [] then cv
                          else cv\<lparr>cv_network := setCachedDefaultNetwork (cv_network cv) cur (Some n)\<rparr>)
           in (cv', getCachedDefaultNetwork (cv_network cv') cur))"

definition resolveDecimalsOrNetwork ::
    "resolver \<Rightarrow> conv \<Rightarrow> string \<Rightarrow> net_or_dec option \<Rightarrow> conv \<times> net_or_dec option" where
  "resolveDecimalsOrNetwork rs cv currency nd =
     (case nd of
        Some x \<Rightarrow> (cv, Some x)
      | None \<Rightarrow> (case getDefaultNetwork rs cv currency of (cv', n) \<Rightarrow> (cv', map_option Net n)))"

definition toBaseAsync ::
    "resolver \<Rightarrow> conv \<Rightarrow> string \<Rightarrow> string \<Rightarrow> net_or_dec option \<Rightarrow> conv \<times> (error + int)" where
  "toBaseAsync rs cv amount currency nd =
     (case resolveDecimalsOrNetwork rs cv currency nd of
        (cv', nd') \<Rightarrow> (cv', toBase cv' amount currency nd'))"

definition fromBaseAsync ::
    "resolver \<Rightarrow> conv \<Rightarrow> amount_arg \<Rightarrow> string \<Rightarrow> net_or_dec option \<Rightarrow> conv \<times> (error + string)" where
  "fromBaseAsync rs cv amount currency nd =
     (case resolveDecimalsOrNetwork rs cv currency nd of
        (cv', nd') \<Rightarrow> (cv', fromBase cv' amount currency nd'))"

definition formatCryptoForQuoteAsync ::
    "resolver \<Rightarrow> conv \<Rightarrow> amount_arg \<Rightarrow> string \<Rightarrow> net_or_dec option \<Rightarrow> conv \<times> (error + string)" where
  "formatCryptoForQuoteAsync rs cv amount currency nd =
     (case resolveDecimalsOrNetwork rs cv currency nd of
        (cv', nd') \<Rightarrow> (cv', formatCryptoForQuote cv' amount currency nd'))"

section \<open>Lemmas: strings the conversions produce\<close>

lemma strip_zeros_last: "strip_zeros s \<noteq> [] \<Longrightarrow> last (strip_zeros s) \<noteq> CHR ''0''"
  using hd_dropWhile [of "\<lambda>c. c = CHR ''0''" "rev s"] by (simp add: strip_zeros_def last_rev)

lemma strip_zeros_neq_zero: "strip_zeros s \<noteq> ''0''"
proof
  assume "strip_zeros s = ''0''"
  with strip_zeros_last [of s] show False by simp
qed

lemma strip_zeros_Nil: "strip_zeros s = [] \<Longrightarrow> digits_nat s = 0"
proof -
  assume z: "strip_zeros s = []"
  have "s = replicate (length s) (CHR ''0'')"
    using strip_zeros_decomp [of s] z by simp
  then have "digits_nat s = digits_nat (replicate (length s) (CHR ''0''))" by simp
  then show ?thesis by simp
qed

definition render :: "bool \<Rightarrow> string \<Rightarrow> string \<Rightarrow> string" where
  "render neg w f = (if neg then ''-'' else []) @ w @ (if f = [] then [] else CHR ''.'' # f)"

definition amount_char :: "char \<Rightarrow> bool" where
  "amount_char c \<longleftrightarrow> is_digit c \<or> c = CHR ''.'' \<or> c = CHR ''-''"

lemma amount_char_space: "amount_char c \<Longrightarrow> \<not> is_space c"
  by (auto simp: amount_char_def is_digit_def is_space_def)

lemma amount_char_exp: "amount_char c \<Longrightarrow> c \<noteq> CHR ''e'' \<and> c \<noteq> CHR ''E'' \<and> c \<noteq> CHR ''+''"
  by (auto simp: amount_char_def is_digit_def)

lemma dropWhile_none: "list_all (\<lambda>c. \<not> p c) s \<Longrightarrow> dropWhile p s = s"
  by (cases s) auto

lemma trim_amount: "list_all amount_char s \<Longrightarrow> trim s = s"
proof -
  assume "list_all amount_char s"
  then have "list_all (\<lambda>c. \<not> is_space c) s" and "list_all (\<lambda>c. \<not> is_space c) (rev s)"
    by (auto simp: list_all_iff amount_char_space)
  then show ?thesis by (simp add: trim_def dropWhile_none)
qed

lemma no_exponent_amount: "list_all amount_char s \<Longrightarrow> \<not> has_exponent s"
proof -
  assume s: "list_all amount_char s"
  then have r: "\<And>c. c \<in> set (dropWhile is_digit (rev s)) \<Longrightarrow> amount_char c"
    by (auto simp: list_all_iff dest: set_dropWhileD)
  show ?thesis
  proof (cases "dropWhile is_digit (rev s)")
    case Nil
    then show ?thesis by (simp only: has_exponent_def Let_def list.case simp_thms not_False_eq_True)
  next
    case (Cons c cs)
    have "amount_char c" using r Cons by simp
    moreover have "\<And>k ks. cs = k # ks \<Longrightarrow> amount_char k" using r Cons by simp
    ultimately show ?thesis
      using amount_char_exp unfolding has_exponent_def Let_def Cons by (auto split: list.splits)
  qed
qed

lemma normalize_amount_plain: "list_all amount_char s \<Longrightarrow> normalize_amount cv s d = Inr s"
  by (simp add: normalize_amount_def trim_amount no_exponent_amount)

lemma render_chars:
  "list_all is_digit w \<Longrightarrow> list_all is_digit f \<Longrightarrow> list_all amount_char (render neg w f)"
  by (auto simp: render_def amount_char_def list_all_iff)

lemma takeWhile_digits: "list_all is_digit w \<Longrightarrow> takeWhile is_digit w = w"
  by (induction w) auto

lemma dropWhile_digits: "list_all is_digit w \<Longrightarrow> dropWhile is_digit w = []"
  by (induction w) auto

lemma takeWhile_digits_append:
  "list_all is_digit w \<Longrightarrow> takeWhile is_digit (w @ CHR ''.'' # f) = w"
  by (induction w) auto

lemma dropWhile_digits_append:
  "list_all is_digit w \<Longrightarrow> dropWhile is_digit (w @ CHR ''.'' # f) = CHR ''.'' # f"
  by (induction w) auto

lemma digit_not_minus: "is_digit c \<Longrightarrow> c \<noteq> CHR ''-''"
  by auto

lemma parse_render:
  assumes w: "list_all is_digit w" "w \<noteq> []" and f: "list_all is_digit f"
  shows "parse_amount (render neg w f) = Some (neg, w, f)"
proof -
  obtain c cs where wc: "w = c # cs" using w(2) by (cases w) auto
  with w(1) have c: "c \<noteq> CHR ''-''" using digit_not_minus by simp
  have "takeWhile is_digit (w @ (if f = [] then [] else CHR ''.'' # f)) = w"
    and "dropWhile is_digit (w @ (if f = [] then [] else CHR ''.'' # f))
      = (if f = [] then [] else CHR ''.'' # f)"
    using w by (simp_all add: takeWhile_digits dropWhile_digits takeWhile_digits_append dropWhile_digits_append)
  with w f c wc show ?thesis
    by (cases neg) (auto simp: parse_amount_def render_def Let_def)
qed

lemma base_units_render:
  assumes "list_all is_digit w" "w \<noteq> []" "list_all is_digit f" "length f \<le> d"
  shows "base_units amt cur d (render neg w f)
    = Inr ((if neg then - 1 else 1) * (int (digits_nat w) * 10 ^ d + int (digits_nat (pad_end d (CHR ''0'') f))))"
  using assms by (simp add: base_units_def parse_render Let_def)

section \<open>Lemmas: base units and their display\<close>

definition whole_part :: "nat \<Rightarrow> int \<Rightarrow> nat" where
  "whole_part d i = nat \<bar>i\<bar> div 10 ^ d"

definition frac_part :: "nat \<Rightarrow> int \<Rightarrow> nat" where
  "frac_part d i = nat \<bar>i\<bar> mod 10 ^ d"

definition frac_digits :: "nat \<Rightarrow> int \<Rightarrow> string" where
  "frac_digits d i = pad_start d (CHR ''0'') (show_nat (frac_part d i))"

lemma abs_if: "nat (if i < 0 then - i else i) = nat \<bar>i\<bar>" for i :: int
  by simp

lemma whole_frac: "int (whole_part d i) * 10 ^ d + int (frac_part d i) = \<bar>i\<bar>"
proof -
  have "nat \<bar>i\<bar> div 10 ^ d * 10 ^ d + nat \<bar>i\<bar> mod 10 ^ d = nat \<bar>i\<bar>"
    by (rule div_mult_mod_eq)
  then have "int (nat \<bar>i\<bar> div 10 ^ d * 10 ^ d + nat \<bar>i\<bar> mod 10 ^ d) = \<bar>i\<bar>" by simp
  then show ?thesis by (simp only: whole_part_def frac_part_def of_nat_add of_nat_mult of_nat_power) simp
qed

lemma frac_digits_digits [simp]: "list_all is_digit (frac_digits d i)"
  using show_nat_digits [of "frac_part d i"]
  by (auto simp: frac_digits_def pad_start_def list_all_iff)

lemma frac_digits_length: "0 < d \<Longrightarrow> length (frac_digits d i) = d"
  unfolding frac_digits_def
  by (rule pad_start_length, rule length_show_nat_le) (auto simp: frac_part_def)

lemma frac_digits_value [simp]: "digits_nat (frac_digits d i) = frac_part d i"
  by (simp add: frac_digits_def)

lemma frac_digits_zero: "frac_digits 0 i = ''0''"
proof -
  have "of_char (CHR ''0'') = (48::nat)" by simp
  then have "char_of (48::nat) = CHR ''0''" by (metis char_of_char)
  then have "show_nat 0 = ''0''" by (subst show_nat.simps) (simp add: digit_char_def)
  then show ?thesis by (simp add: frac_digits_def frac_part_def pad_start_def)
qed

lemma strip_frac_digits:
  "length (strip_zeros (frac_digits d i)) \<le> d \<and>
   digits_nat (pad_end d (CHR ''0'') (strip_zeros (frac_digits d i))) = frac_part d i"
proof (cases "d = 0")
  case True
  then show ?thesis by (simp add: frac_digits_zero strip_zeros_def pad_end_def frac_part_def)
next
  case False
  then have "length (frac_digits d i) = d" by (simp add: frac_digits_length)
  then show ?thesis
    using strip_zeros_length [of "frac_digits d i"] by (simp add: pad_end_strip_zeros)
qed

lemma display_units_crypto:
  "\<not> is_fiat cur \<Longrightarrow>
     display_units cur d i = render (i < 0) (show_nat (whole_part d i)) (strip_zeros (frac_digits d i))"
  using strip_zeros_neq_zero [of "frac_digits d i"]
  by (auto simp: display_units_def render_def whole_part_def frac_part_def frac_digits_def Let_def abs_if)

lemma display_units_fiat2:
  assumes "is_fiat cur"
  shows "display_units cur 2 i = render (i < 0) (show_nat (whole_part 2 i)) (frac_digits 2 i)"
proof -
  have L: "length (frac_digits 2 i) = 2" by (rule frac_digits_length) simp
  then have "take 2 (frac_digits 2 i) = frac_digits 2 i" and "frac_digits 2 i \<noteq> []" by auto
  with assms L show ?thesis
    unfolding display_units_def render_def Let_def abs_if pad_end_def
      whole_part_def [symmetric] frac_part_def [symmetric] frac_digits_def [symmetric]
    by simp
qed

text \<open>Reading back what was displayed, for a crypto and for a fiat with two decimals.\<close>

lemma toBase_render:
  assumes "resolve_decimals cv (to_lower cur) nd = Inr d"
    and "list_all is_digit w" "w \<noteq> []" "list_all is_digit f" "length f \<le> d"
  shows "toBase cv (render neg w f) cur nd
    = Inr ((if neg then - 1 else 1) * (int (digits_nat w) * 10 ^ d + int (digits_nat (pad_end d (CHR ''0'') f))))"
  using assms by (simp add: toBase_def normalize_amount_plain render_chars base_units_render)

lemma toBase_display:
  assumes r: "resolve_decimals cv (to_lower cur) nd = Inr d"
    and c: "\<not> is_fiat c \<or> d = 2"
  shows "toBase cv (display_units c d i) cur nd = Inr i"
proof (cases "is_fiat c")
  case False
  show ?thesis
    unfolding display_units_crypto [OF False]
    using toBase_render [OF r show_nat_digits show_nat_nonempty, of "strip_zeros (frac_digits d i)" "i < 0" "whole_part d i"]
      strip_frac_digits [of d i] whole_frac [of d i]
    by (simp add: strip_zeros_all split: if_splits)
next
  case True
  with c have d: "d = 2" by simp
  have "length (frac_digits 2 i) = 2" by (rule frac_digits_length) simp
  then show ?thesis
    unfolding d display_units_fiat2 [OF True]
    using toBase_render [OF r [unfolded d] show_nat_digits show_nat_nonempty, of "frac_digits 2 i" "i < 0" "whole_part 2 i"]
      whole_frac [of 2 i]
    by (simp add: pad_end_def split: if_splits)
qed


section \<open>Properties of the conversions\<close>

lemma fiat_two_decimals:
  assumes "getCurrencyDecimals cur nd = Inr d" "is_fiat (to_lower cur)" "\<forall>k. nd \<noteq> Some (Dec k)"
  shows "d = 2"
proof -
  have a: "to_lower cur \<in> set ALLOWED_CURRENCIES"
    using assms(1) by (simp add: getCurrencyDecimals_def Let_def split: if_splits)
  with assms(2) have "to_lower cur = ''ngn'' \<or> to_lower cur = ''usd''"
    by (auto simp: ALLOWED_CURRENCIES_def is_fiat_def FIAT_DECIMALS_def)
  with assms a show ?thesis
    by (auto simp: getCurrencyDecimals_def Let_def FIAT_DECIMALS_def split: option.splits net_or_dec.splits)
qed

lemma resolve_decimals_fiat:
  assumes "resolve_decimals cv cur nd = Inr d" "is_fiat (to_lower cur)" "\<forall>k. nd \<noteq> Some (Dec k)"
  shows "d = 2"
  using assms fiat_two_decimals
  by (auto simp: resolve_decimals_def getDecimals_def split: option.splits net_or_dec.splits)

text \<open>C39: what \<open>fromBase\<close> displays, \<open>toBase\<close> reads back to the same number of base units:
  for every crypto currency whatever the decimals, and for a fiat one whenever the
  decimals come from the table.\<close>

theorem fromBase_toBase_roundtrip:
  assumes "fromBase cv amount cur nd = Inr s"
    and "is_fiat (to_lower cur) \<longrightarrow> (\<forall>k. nd \<noteq> Some (Dec k))"
  shows "\<exists>i. arg_bigint amount = Inr i \<and> toBase cv s cur nd = Inr i"
proof -
  obtain i d where i: "arg_bigint amount = Inr i"
    and d: "resolve_decimals cv (to_lower cur) nd = Inr d"
    and s: "s = display_units (to_lower cur) d i"
    using assms(1) by (auto simp: fromBase_def Let_def split: sum.splits)
  have "\<not> is_fiat (to_lower cur) \<or> d = 2"
    using resolve_decimals_fiat [OF d] assms(2) by auto
  from toBase_display [OF d this] i s show ?thesis by auto
qed

text \<open>
  For evaluation by \<open>simp\<close>; the decimals oracle of the witnesses knows no scientific
  notation.
\<close>

lemmas currency_eval =
  ALLOWED_CURRENCIES_def CRYPTO_DECIMALS_def FIAT_DECIMALS_def CURRENCY_PRECISION_def networks_of_def
  getCurrencyDecimals_def getDecimals_def getCachedDefaultNetwork_def resolve_decimals_def
  has_exponent_def parse_amount_def normalize_amount_def base_units_def toBase_def
  arg_bigint_def is_fiat_def display_units_def fromBase_def quote_units_def formatCryptoForQuote_def

definition cv_example :: conv where
  "cv_example = \<lparr>cv_network = (\<lambda>_. None), cv_decFixed = (\<lambda>_ _. None), cv_decFloor = (\<lambda>_ _. None)\<rparr>"

theorem fromBase_toBase_roundtrip_witness:
  "fromBase cv_example (ABigInt (- 1500000)) ''usdt'' (Some (Net ''trc20'')) = Inr ''-1.5'' \<and>
   (\<exists>i. arg_bigint (ABigInt (- 1500000)) = Inr i \<and> toBase cv_example ''-1.5'' ''usdt'' (Some (Net ''trc20'')) = Inr i)"
proof -
  have f: "fromBase cv_example (ABigInt (- 1500000)) ''usdt'' (Some (Net ''trc20'')) = Inr ''-1.5''"
    by (simp add: currency_eval eval_simps)
  have "is_fiat (to_lower ''usdt'') \<longrightarrow> (\<forall>k. Some (Net ''trc20'') \<noteq> Some (Dec k))"
    by simp
  from f fromBase_toBase_roundtrip [OF f this] show ?thesis by blast
qed

text \<open>C38: without scientific notation \<open>toBase\<close> is exact: it accepts precisely the trimmed
  strings of the amount format with at most as many fraction digits as the currency
  has decimals on that network, and the base units it returns are the decimal number
  shifted, never a rounding of it.\<close>

theorem toBase_exact:
  assumes "\<not> has_exponent (trim amount)"
  shows "toBase cv amount cur nd = Inr i \<longleftrightarrow>
    (\<exists>d neg w f. resolve_decimals cv (to_lower cur) nd = Inr d
       \<and> parse_amount (trim amount) = Some (neg, w, f) \<and> length f \<le> d
       \<and> i * 10 ^ length f = (if neg then - 1 else 1) * int (digits_nat (w @ f)) * 10 ^ d)"
proof -
  have v: "(int (digits_nat w) * 10 ^ d + int (digits_nat (pad_end d (CHR ''0'') f))) * 10 ^ length f
      = int (digits_nat (w @ f)) * 10 ^ d" if "length f \<le> d" for d w f
  proof -
    have "(10::int) ^ d = 10 ^ (d - length f) * 10 ^ length f"
      using that by (simp flip: power_add)
    then show ?thesis
      by (simp add: pad_end_def digits_nat_append algebra_simps)
  qed
  have w: "(if neg then - x else x) = i \<longleftrightarrow> i * 10 ^ n = (if neg then - 1 else 1) * (x * 10 ^ n)"
    for neg and x i :: int and n :: nat
    by auto
  have n: "normalize_amount cv amount d = Inr (trim amount)" for d
    using assms by (simp add: normalize_amount_def Let_def)
  have b: "base_units amount (to_lower cur) d (trim amount) = Inr i \<longleftrightarrow>
      (\<exists>neg w f. parse_amount (trim amount) = Some (neg, w, f) \<and> length f \<le> d
         \<and> i * 10 ^ length f = (if neg then - 1 else 1) * int (digits_nat (w @ f)) * 10 ^ d)" for d
  proof (cases "parse_amount (trim amount)")
    case None
    then show ?thesis by (simp add: base_units_def)
  next
    case (Some p)
    obtain neg wh f where p: "p = (neg, wh, f)" by (cases p)
    let ?v = "int (digits_nat wh) * 10 ^ d + int (digits_nat (pad_end d (CHR ''0'') f))"
    have "base_units amount (to_lower cur) d (trim amount) = Inr i
        \<longleftrightarrow> length f \<le> d \<and> (if neg then - ?v else ?v) = i"
      by (simp add: base_units_def Some p Let_def)
    also have "\<dots> \<longleftrightarrow> length f \<le> d \<and> i * 10 ^ length f = (if neg then - 1 else 1) * (?v * 10 ^ length f)"
      by (simp only: w [where n = "length f"])
    also have "\<dots> \<longleftrightarrow> length f \<le> d
        \<and> i * 10 ^ length f = (if neg then - 1 else 1) * int (digits_nat (wh @ f)) * 10 ^ d"
      by (rule conj_cong [OF refl]) (simp only: v mult.assoc)
    finally show ?thesis by (simp add: Some p)
  qed
  show ?thesis
    by (cases "resolve_decimals cv (to_lower cur) nd") (simp_all add: toBase_def Let_def n b)
qed


theorem toBase_exact_witness:
  "\<not> has_exponent (trim '' 12.5 '') \<and> toBase cv_example '' 12.5 '' ''ngn'' None = Inr 1250 \<and>
   (\<exists>d neg w f. resolve_decimals cv_example (to_lower ''ngn'') None = Inr d
       \<and> parse_amount (trim '' 12.5 '') = Some (neg, w, f) \<and> length f \<le> d
       \<and> 1250 * 10 ^ length f = (if neg then - 1 else 1) * int (digits_nat (w @ f)) * 10 ^ d)"
proof -
  have e: "\<not> has_exponent (trim '' 12.5 '')" by (simp add: currency_eval eval_simps)
  have t: "toBase cv_example '' 12.5 '' ''ngn'' None = Inr 1250"
    by (simp add: currency_eval cv_example_def eval_simps)
  from toBase_exact [OF e, of cv_example "''ngn''" None 1250] t e show ?thesis by blast
qed

lemma toBase_no_exponent:
  "\<not> has_exponent (trim amount) \<Longrightarrow> toBase cv amount cur nd =
     (case resolve_decimals cv (to_lower cur) nd of Inl e \<Rightarrow> Inl e
      | Inr d \<Rightarrow> base_units amount (to_lower cur) d (trim amount))"
  by (simp add: toBase_def normalize_amount_def Let_def split: sum.splits)

lemma base_units_scale:
  assumes "base_units a cur d n = Inr i" "d \<le> d'"
  shows "base_units a cur d' n = Inr (i * 10 ^ (d' - d))"
proof -
  obtain neg wh f where p: "parse_amount n = Some (neg, wh, f)" and l: "length f \<le> d"
    and i: "i = (if neg then - 1 else 1) * (int (digits_nat wh) * 10 ^ d + int (digits_nat (pad_end d (CHR ''0'') f)))"
    using assms(1) by (auto simp: base_units_def Let_def split: option.splits if_splits)
  have "(10::int) ^ d' = 10 ^ (d' - d) * 10 ^ d" "(10::int) ^ (d' - length f) = 10 ^ (d' - d) * 10 ^ (d - length f)"
    using assms(2) l by (simp_all flip: power_add)
  then show ?thesis
    using assms(2) l by (simp add: base_units_def p Let_def i pad_end_def digits_nat_append algebra_simps)
qed

text \<open>The base unit of a currency is the one of the network the amount is read with:
  the same amount read for two networks with \<open>d\<close> and \<open>d'\<close> decimals differs by the
  factor \<open>10^(d' - d)\<close>. Stored balances keep their meaning only as long as the default
  network of the currency does (10^12 between USDT on erc20 and on bep20).\<close>

theorem toBase_network_scale:
  assumes "\<not> has_exponent (trim amount)"
    and "getCurrencyDecimals (to_lower cur) (Some (Net n)) = Inr d"
    and "getCurrencyDecimals (to_lower cur) (Some (Net n')) = Inr d'" "d \<le> d'"
    and "toBase cv amount cur (Some (Net n)) = Inr i"
  shows "toBase cv amount cur (Some (Net n')) = Inr (i * 10 ^ (d' - d))"
  using assms base_units_scale [of amount "to_lower cur" d "trim amount" i d']
  by (simp add: toBase_no_exponent resolve_decimals_def)

theorem toBase_network_scale_witness:
  "toBase cv_example ''2'' ''usdt'' (Some (Net ''bep20'')) = Inr (2000000 * 10 ^ (18 - 6))"
  by (rule toBase_network_scale [where n = "''erc20''"]) (simp_all add: currency_eval eval_simps)

subsection \<open>The cache of default networks\<close>

definition cache_ok :: "(string \<Rightarrow> string option) \<Rightarrow> bool" where
  "cache_ok c \<longleftrightarrow> (\<forall>cur n. c cur = Some n \<longrightarrow> networks_of cur \<noteq> [] \<longrightarrow> n \<in> fst ` set (networks_of cur) \<and> n \<noteq> [] \<and> to_lower n = n)"

lemma CURRENCY_PRECISION_networks:
  "list_all (\<lambda>(_, ns). list_all (\<lambda>(i, _). i \<noteq> [] \<and> to_lower i = i) ns) CURRENCY_PRECISION"
  by (simp add: CURRENCY_PRECISION_def to_lower_def lower_char_def)

lemma networks_of_id: "(i, d) \<in> set (networks_of cur) \<Longrightarrow> i \<noteq> [] \<and> to_lower i = i"
proof (cases "map_of CURRENCY_PRECISION cur")
  case (Some ns)
  assume "(i, d) \<in> set (networks_of cur)"
  then have "(i, d) \<in> set ns" by (simp add: networks_of_def Some)
  with map_of_SomeD [OF Some] CURRENCY_PRECISION_networks show ?thesis
    by (fastforce simp: list_all_iff)
qed (simp add: networks_of_def)

lemma cache_ok_set:
  assumes "cache_ok c" shows "cache_ok (setCachedDefaultNetwork c currency net)"
proof -
  have "n \<in> fst ` set (networks_of k) \<and> n \<noteq> [] \<and> to_lower n = n"
    if "list_ex (\<lambda>(i, _). i = n) (networks_of k)" for n k
    using that networks_of_id by (force simp: list_ex_iff)
  with assms show ?thesis
    unfolding cache_ok_def setCachedDefaultNetwork_def Let_def
    by (auto split: option.splits if_splits)
qed

lemma cache_ok_foldl:
  "cache_ok c \<Longrightarrow> cache_ok (foldl (\<lambda>c (cur, n). setCachedDefaultNetwork c cur n) c updates)"
  by (induction updates arbitrary: c) (auto simp: cache_ok_set)

lemma find_network:
  assumes "n \<in> fst ` set ns"
  shows "\<exists>i d. List.find (\<lambda>(i, _). to_lower i = to_lower n) ns = Some (i, d)"
proof (cases "List.find (\<lambda>(i, _). to_lower i = to_lower n) ns")
  case None
  with assms show ?thesis by (force simp: find_None_iff)
qed auto

lemma cached_network_decimals:
  assumes "cache_ok (cv_network cv)" "to_lower cur \<in> set ALLOWED_CURRENCIES" "networks_of (to_lower cur) \<noteq> []"
  shows "\<exists>d. getDecimals cv cur = Inr d"
proof -
  obtain n where n: "getCachedDefaultNetwork (cv_network cv) cur = Some n" "n \<in> fst ` set (networks_of (to_lower cur))"
    and "n \<noteq> []"
  proof (cases "cv_network cv (to_lower cur)")
    case (Some n)
    then show thesis using assms that [of n] by (auto simp: cache_ok_def getCachedDefaultNetwork_def)
  next
    case None
    obtain i d ns where e: "networks_of (to_lower cur) = (i, d) # ns" using assms(3) by (cases "networks_of (to_lower cur)") auto
    then have "i \<noteq> []"
      by (auto simp: networks_of_def CURRENCY_PRECISION_def split: if_splits)
    with None e show thesis using that [of i] by (simp add: getCachedDefaultNetwork_def)
  qed
  moreover obtain i d where "List.find (\<lambda>(i, _). to_lower i = to_lower n) (networks_of (to_lower cur)) = Some (i, d)"
    using find_network [OF n(2)] by blast
  ultimately show ?thesis
    using assms(2,3) by (auto simp: getDecimals_def getCurrencyDecimals_def Let_def split: option.splits)
qed

lemma allowed_fiat:
  "list_all (\<lambda>c. networks_of c = [] \<longrightarrow> map_of FIAT_DECIMALS c = Some 2) ALLOWED_CURRENCIES"
  by code_simp

text \<open>Whatever sequence of default networks is cached from an empty cache, the cached
  default resolves the decimals of every supported currency: no conversion without an
  explicit network can fail for its decimals.\<close>

theorem default_network_decimals_total:
  assumes "cv_network cv = foldl (\<lambda>c (cur, n). setCachedDefaultNetwork c cur n) (\<lambda>_. None) updates"
    and "to_lower cur \<in> set ALLOWED_CURRENCIES"
  shows "\<exists>d. getDecimals cv cur = Inr d"
proof (cases "networks_of (to_lower cur) = []")
  case True
  then have "map_of FIAT_DECIMALS (to_lower cur) = Some 2"
    using allowed_fiat assms(2) by (simp add: list_all_iff)
  with assms(2) show ?thesis
    by (simp add: getDecimals_def getCurrencyDecimals_def Let_def split: option.splits net_or_dec.splits)
next
  case False
  have "cache_ok (cv_network cv)"
    unfolding assms(1) by (rule cache_ok_foldl) (simp add: cache_ok_def)
  from cached_network_decimals [OF this assms(2) False] show ?thesis .
qed

theorem default_network_decimals_total_witness:
  "\<exists>d. getDecimals (cv_example\<lparr>cv_network := setCachedDefaultNetwork (\<lambda>_. None) ''USDT'' (Some ''TRC20'')\<rparr>) ''usdt'' = Inr d"
  by (rule default_network_decimals_total [where updates = "[(''USDT'', Some ''TRC20'')]"])
    (simp_all add: currency_eval eval_simps)

lemma frac_strip_nil: "strip_zeros (frac_digits d i) = [] \<Longrightarrow> frac_part d i = 0"
  using strip_zeros_Nil [of "frac_digits d i"] by simp

text \<open>The quote display and the balance display of a crypto amount are the same string,
  except for the amount zero, which quotes show as \<open>0.00\<close>.\<close>

theorem quote_display_agrees:
  assumes "\<not> is_fiat (to_lower cur)" and "i \<noteq> 0"
  shows "formatCryptoForQuote cv (ABigInt i) cur nd = fromBase cv (ABigInt i) cur nd"
proof -
  have "quote_units d i = display_units (to_lower cur) d i" for d
  proof -
    have nz: "\<not> (whole_part d i = 0 \<and> strip_zeros (frac_digits d i) = [])"
      using assms(2) whole_frac [of d i] frac_strip_nil [of d i] by auto
    show ?thesis
      using nz strip_zeros_neq_zero [of "frac_digits d i"] assms(1)
      unfolding quote_units_def display_units_def Let_def abs_if whole_part_def [symmetric]
        frac_part_def [symmetric] frac_digits_def [symmetric]
      by auto
  qed
  then show ?thesis
    unfolding formatCryptoForQuote_def fromBase_def Let_def
    by (simp add: arg_bigint_def split: sum.splits)
qed

theorem quote_display_agrees_witness:
  "formatCryptoForQuote cv_example (ABigInt 5) ''BTC'' None = fromBase cv_example (ABigInt 5) ''BTC'' None"
  by (rule quote_display_agrees) (simp_all add: currency_eval eval_simps)

end
