(* ===== verification/Store.thy ===== *)
theory Store
  imports Currency
begin

text \<open>
  The state the services work on: the rows of the Prisma schema
  (\<^verbatim>\<open>src/infrastructure/databases/prisma/schema\<close>) as records, the database as the
  record of its tables, and beside it the Redis temp store, the Redis cache of company
  liquidity and the log of the requests sent to providers and queues.

  A service method is a computation on \<open>sys\<close>; what runs inside
  \<^verbatim>\<open>prisma.$transaction\<close> is a computation on \<open>db\<close>, lifted by \<open>txM\<close>, which puts the
  database back when the callback throws. \<open>dbM\<close> lifts statements that run outside a
  transaction: what they wrote before a throw stays.

  \<^item> \<^verbatim>\<open>Decimal(78, 0)\<close> columns are \<open>int\<close> (base units), as are times (milliseconds).
  \<^item> JSON metadata is an association list of strings; \<open>mget\<close> reads a missing key as the
    empty string, as \<^verbatim>\<open>String(meta.k || '')\<close> does. JSON columns that are only written
    (raw payloads) and the columns \<^verbatim>\<open>createdAt\<close>/\<^verbatim>\<open>updatedAt\<close> are left out.
  \<^item> A table lists its rows in order of creation.
\<close>

section \<open>Enumerations\<close>

datatype txStatus = TxCOMPLETED | TxPENDING | TxFAILED | TxSUCCESS | TxCONFIRM

datatype txType = CREDIT | DEBIT | CARD_VERIFICATION_DEBIT | REFUND | COMPANY_NGN_DEPOSIT

datatype txContext =
    CtxDEPOSIT | CtxWITHDRAWAL | CtxTRANSFER | CtxBUY | CtxSELL | CtxCARD_VERIFICATION
  | CtxCARD_REFUND | CtxSWAP | CtxVAULT_SWAP | CtxBILL_PAYMENT | CtxAUTOSTACK

datatype paymentType = CARD | BANK_TRANSFER | PAYSTACK | CRYPTO_WALLET

datatype depositStatus = DepPENDING | DepCONFIRMED | DepCREDITED | DepFAILED

datatype withdrawalStatus = WdPENDING | WdPROCESSING | WdSUCCESS | WdREJECTED | WdFAILED

datatype webhookStatus = WhPending | WhProcessed | WhFailed

datatype vaultStatus = VPENDING | VACTIVE | VMATURED | VTERMINATED

datatype autoStackFrequency = DAILY | WEEKLY | MONTHLY

datatype autoStackStatus = ASPENDING | ASACTIVE | ASENDED | ASTERMINATED

datatype orderStatus = OrPENDING | OrCOMPLETED | OrCANCELLED | OrPROCESSING | OrFAILED

datatype paymentStatus = PayPENDING | PayPAID | PayFAILED

datatype orderType = OBUY | OSELL

datatype loanStatus =
    LnPENDING | LnQUIDAX_COMPLETED | LnPAYSTACK_COMPLETED | LnDISBURSED | LnFAILED | LnREPAID
  | LnDEADLINE_EXCEEDED

datatype billStatus = BpPENDING | BpPROCESSING | BpCOMPLETED | BpFAILED

section \<open>Rows\<close>

type_synonym meta = "(string \<times> string) list"

definition mget :: "meta \<Rightarrow> string \<Rightarrow> string" where
  "mget m k = (case map_of m k of None \<Rightarrow> [] | Some v \<Rightarrow> v)"

text \<open>\<open>mset_all kvs m\<close> is \<^verbatim>\<open>{ ...m, k1: v1, ... }\<close>.\<close>

definition mset_all :: "meta \<Rightarrow> meta \<Rightarrow> meta" where
  "mset_all kvs m = kvs @ m"

record wallet =
  w_id :: string
  w_quidaxWalletId :: string
  w_userId :: string
  w_currency :: string
  w_currencyId :: "string option"
  w_isCrypto :: bool
  w_baseBalance :: int
  w_reservedBalance :: int
  w_lockedAmount :: int
  w_loanCollateralAmount :: int
  w_stackedAmount :: int
  w_totalStackedInterest :: int
  w_totalLockedInterest :: int
  w_originalBalance :: string
  w_defaultNetwork :: "string option"

record liquidity =
  l_id :: string
  l_currency :: string
  l_network :: "string option"
  l_totalBalance :: int
  l_reservedBalance :: int
  l_internalBalance :: int
  l_totalLockedPrincipal :: int
  l_totalAccruedLockedInterest :: int
  l_totalLockedInterestPaid :: int
  l_totalAmountStacked :: int

record transaction =
  t_id :: string
  t_userId :: string
  t_uniqueId :: string
  t_currency :: string
  t_network :: "string option"
  t_receiverWalletId :: "string option"
  t_senderWalletId :: "string option"
  t_receiverWalletAddress :: "string option"
  t_senderWalletAddress :: "string option"
  t_platformWalletAddress :: "string option"
  t_paymentType :: "paymentType option"
  t_meta :: meta
  t_cryptoAmountBase :: "int option"
  t_cryptoAmountOriginal :: "string option"
  t_fiatAmountBase :: int
  t_fiatAmountOriginal :: "string option"
  t_platformFeeBase :: "int option"
  t_platformFeeOriginal :: "string option"
  t_bufferAmountBase :: "int option"
  t_bufferAmountOriginal :: "string option"
  t_networkFeeBase :: "int option"
  t_networkFeeOriginal :: "string option"
  t_totalAmountSentBase :: "int option"
  t_totalAmountSentOriginal :: "string option"
  t_executedCryptoAmountBase :: "int option"
  t_executedFiatAmountBase :: "int option"
  t_executionPrice :: "string option"
  t_fromCurrency :: "string option"
  t_toCurrency :: "string option"
  t_executedAt :: "int option"
  t_description :: "string option"
  t_status :: txStatus
  t_type :: txType
  t_context :: txContext
  t_isProcessed :: bool

record withdrawal =
  wd_id :: string
  wd_userId :: string
  wd_providerWithdrawalId :: "string option"
  wd_reference :: "string option"
  wd_currency :: string
  wd_network :: "string option"
  wd_amount :: string
  wd_fee :: "string option"
  wd_total :: "string option"
  wd_txHash :: "string option"
  wd_recipientType :: "string option"
  wd_recipientAddress :: "string option"
  wd_destinationTag :: "string option"
  wd_narration :: "string option"
  wd_transactionNote :: "string option"
  wd_status :: withdrawalStatus
  wd_reason :: "string option"
  wd_completedAtProvider :: "int option"
  wd_transactionId :: "string option"

record companyWithdrawal =
  cw_id :: string
  cw_transactionId :: string
  cw_providerReference :: string
  cw_description :: string
  cw_amountBase :: int
  cw_currency :: string
  cw_fee :: "string option"
  cw_total :: "string option"
  cw_txHash :: "string option"
  cw_failedReason :: "string option"
  cw_status :: withdrawalStatus
  cw_processedAt :: "int option"

record deposit =
  dp_id :: string
  dp_userId :: string
  dp_providerDepositId :: string
  dp_txHash :: "string option"
  dp_currency :: string
  dp_network :: "string option"
  dp_amount :: string
  dp_fee :: "string option"
  dp_depositAddress :: "string option"
  dp_destinationTag :: "string option"
  dp_confirmations :: "int option"
  dp_requiredConfirmations :: "int option"
  dp_status :: depositStatus
  dp_detectedAt :: int
  dp_confirmedAt :: "int option"

record swapTransaction =
  sw_id :: string
  sw_userId :: string
  sw_quidaxAccountId :: string
  sw_fromCurrency :: string
  sw_toCurrency :: string
  sw_amountOriginal :: string
  sw_quotedPriceOriginal :: "string option"
  sw_feeOriginal :: "string option"
  sw_toAmountOriginal :: "string option"
  sw_receivedAmountOriginal :: "string option"
  sw_quoteId :: "string option"
  sw_swapId :: "string option"
  sw_status :: string
  sw_confirmed :: bool
  sw_executionPriceOriginal :: "string option"
  sw_description :: "string option"

record vault =
  v_id :: string
  v_userId :: string
  v_currencyId :: string
  v_quoteId :: "string option"
  v_amountLocked :: int
  v_maturityDate :: int
  v_totalGain :: int
  v_interestRatePerAnum :: string
  v_transactionFee :: int
  v_rate :: int
  v_amountToReceive :: int
  v_bufferAmount :: int
  v_bufferPercent :: string
  v_requestedAt :: int
  v_status :: vaultStatus

record autoStack =
  a_id :: string
  a_userId :: string
  a_currencyId :: string
  a_planName :: string
  a_frequency :: autoStackFrequency
  a_amount :: int
  a_startDate :: int
  a_timeOfDay :: string
  a_dayOfWeek :: "string option"
  a_dayOfMonth :: "int option"
  a_transactionFee :: int
  a_accruedInterest :: int
  a_status :: autoStackStatus
  a_lastExecutedAt :: "int option"
  a_nextExecutionAt :: int
  a_nextInterestAt :: int
  a_endedAt :: "int option"

record user =
  u_id :: string
  u_quidaxAccountId :: "string option"
  u_pin :: "string option"
  u_amountReceived :: int
  u_amountSent :: int
  u_amountBought :: int
  u_amountSold :: int
  u_email :: string

record paymentAddress =
  pa_id :: string
  pa_walletId :: string
  pa_currency :: string
  pa_address :: "string option"
  pa_network :: "string option"
  pa_totalPayments :: int
  pa_depositCount :: int

record cryptoCurrency =
  c_id :: string
  c_symbol :: string

record webhook =
  wh_id :: string
  wh_provider :: string
  wh_eventType :: string
  wh_idempotencyKey :: string
  wh_payload :: string
  wh_userId :: "string option"
  wh_isProcessed :: bool
  wh_status :: webhookStatus
  wh_failedReason :: "string option"
  wh_isResolved :: bool
  wh_resolvedAt :: "int option"
  wh_resolutionComment :: "string option"
  wh_processedAt :: int
  wh_createdAt :: int

record order =
  o_id :: string
  o_transactionId :: string
  o_userId :: string
  o_cryptoAmountBase :: "int option"
  o_cryptoAmountOriginal :: "string option"
  o_fiatAmountBase :: int
  o_fiatAmountOriginal :: "string option"
  o_fiatCurrency :: string
  o_status :: orderStatus
  o_type :: orderType
  o_referenceNo :: "string option"
  o_paymentStatus :: paymentStatus
  o_paymentReference :: "string option"
  o_paymentChannel :: "string option"
  o_paymentAmountBase :: "int option"
  o_paymentAmountOriginal :: "string option"
  o_paymentDate :: "int option"

record failedLiquidity =
  fl_id :: string
  fl_transactionId :: string
  fl_transactionType :: "string option"
  fl_fromCurrency :: "string option"
  fl_toCurrency :: "string option"
  fl_amountOriginal :: "string option"
  fl_currency :: string
  fl_amountBase :: int
  fl_createdAt :: int

record billPayment =
  bp_id :: string
  bp_userId :: string
  bp_transactionId :: "string option"
  bp_status :: billStatus

record urgentLoan =
  ul_id :: string
  ul_userId :: string
  ul_quoteId :: string
  ul_collateralAssetId :: string
  ul_collateralAssetSymbol :: string
  ul_loanAmount :: int
  ul_interestAmount :: int
  ul_totalRepayable :: int
  ul_dueDate :: int
  ul_status :: loanStatus
  ul_collateralAmountAsset :: int
  ul_bankAccountName :: string
  ul_bankAccountNumber :: string
  ul_bankCode :: string
  ul_liquidityValue :: int
  ul_quidaxSwapId :: "string option"
  ul_paystackTransferId :: "string option"
  ul_failureReason :: "string option"

record bankAccount =
  ba_id :: string
  ba_userId :: string
  ba_bankName :: string
  ba_bankAccountName :: string
  ba_bankAccountNumber :: string
  ba_bankCode :: string

record paymentCard =
  pc_id :: string
  pc_userId :: string
  pc_reusable :: bool
  pc_cardType :: "string option"
  pc_last4 :: string


section \<open>The database and the system state\<close>

record db =
  d_wallets :: "wallet list"
  d_liquidity :: "liquidity list"
  d_transactions :: "transaction list"
  d_withdrawals :: "withdrawal list"
  d_companyWithdrawals :: "companyWithdrawal list"
  d_deposits :: "deposit list"
  d_swaps :: "swapTransaction list"
  d_vaults :: "vault list"
  d_autoStacks :: "autoStack list"
  d_users :: "user list"
  d_paymentAddresses :: "paymentAddress list"
  d_cryptoCurrencies :: "cryptoCurrency list"
  d_webhooks :: "webhook list"
  d_orders :: "order list"
  d_failedLiquidity :: "failedLiquidity list"
  d_billPayments :: "billPayment list"
  d_loans :: "urgentLoan list"
  d_bankAccounts :: "bankAccount list"
  d_paymentCards :: "paymentCard list"
  d_seq :: nat

text \<open>What is kept under a quote key of the temp store (JSON in Redis).\<close>

record vaultQuote =
  q_quoteId :: string
  q_userId :: string
  q_currencyId :: string
  q_currencySymbol :: string
  q_network :: string
  q_baseBalanceMinor :: int
  q_rateMinor :: int
  q_expiresAt :: int
  q_pinVerified :: bool
  q_amountMinor :: int
  q_bufferAmountMinor :: int
  q_totalChargeMinor :: int
  q_durationDays :: int
  q_maturityDate :: int
  q_bufferPercent :: string
  q_interestRatePerAnum :: "string option"
  q_expectedInterestMinor :: "int option"
  q_transactionFeeMinor :: "int option"
  q_amountToReceiveMinor :: "int option"

record autoStackQuote =
  aq_assetId :: string
  aq_asset :: string
  aq_amount :: string
  aq_amountInUsdt :: string
  aq_amountInUsdtBase :: int
  aq_rate :: string
  aq_expiresAt :: int
  aq_planName :: string
  aq_frequency :: "autoStackFrequency option"
  aq_paymentType :: "paymentType option"
  aq_paymentCardId :: "string option"
  aq_transactionFee :: "string option"
  aq_startDate :: "int option"
  aq_timeOfDay :: "string option"
  aq_dayOfWeek :: "string option"
  aq_dayOfMonth :: "int option"

record swapQuote =
  xq_quoteId :: string
  xq_userId :: string
  xq_from :: string
  xq_to :: string
  xq_fromNetwork :: string
  xq_toNetwork :: string
  xq_toDecimals :: nat
  xq_exactFromMinor :: int
  xq_estimatedOutMinor :: int
  xq_platformFeeMinor :: int
  xq_marketRateMinor :: int
  xq_protectedRateMinor :: int
  xq_bufferSpreadMinor :: int
  xq_bufferPercent :: string
  xq_totalBufferPercent :: string
  xq_pinVerified :: bool
  xq_expiresAt :: int
  xq_quotationId :: string

record sendPreview =
  sn_previewId :: string
  sn_userId :: string
  sn_currency :: string
  sn_network :: "string option"
  sn_toAddress :: string
  sn_destinationTag :: "string option"
  sn_requestedAmount :: string
  sn_requestedAmountBase :: int
  sn_networkFee :: string
  sn_networkFeeBase :: int
  sn_platformFee :: string
  sn_platformFeeBase :: int
  sn_walletDefaultNetwork :: "string option"
  sn_totalDeduction :: string
  sn_totalDeductionBase :: int
  sn_pinVerified :: bool
  sn_createdAt :: int
  sn_expiresAt :: int

record buyQuote =
  bq_quoteId :: string
  bq_userId :: string
  bq_crypto :: string
  bq_network :: string
  bq_fiatCurrency :: string
  bq_volumeCryptoMinor :: int
  bq_marketPriceMinor :: int
  bq_bufferedPriceMinor :: int
  bq_bufferSpreadMinor :: int
  bq_platformFeeMinor :: int
  bq_totalFiatMinor :: int
  bq_bufferPercent :: string
  bq_paymentMethodId :: string
  bq_cardId :: "string option"
  bq_pinVerified :: bool
  bq_expiresAt :: int

record sellQuote =
  lq_quoteId :: string
  lq_userId :: string
  lq_crypto :: string
  lq_network :: string
  lq_fiatCurrency :: string
  lq_exactCryptoMinor :: int
  lq_marketPriceMinor :: int
  lq_bufferedPriceMinor :: int
  lq_bufferSpreadMinor :: int
  lq_grossFiatMinor :: int
  lq_platformFeeMinor :: int
  lq_netFiatMinor :: int
  lq_bufferPercent :: string
  lq_bankAccountId :: "string option"
  lq_pinVerified :: bool
  lq_expiresAt :: int

record billQuote =
  iq_quoteId :: string
  iq_userId :: string
  iq_walletId :: string
  iq_category :: string
  iq_billerCode :: string
  iq_customerReference :: string
  iq_productCode :: "string option"
  iq_billAmountNgn :: string
  iq_cryptoAmount :: string
  iq_feeAmount :: string
  iq_totalToPay :: string
  iq_cryptoMinor :: int
  iq_feeMinor :: int
  iq_totalMinor :: int
  iq_expiresAt :: int

record loanQuote =
  hq_quoteId :: string
  hq_userId :: string
  hq_assetId :: string
  hq_asset :: string
  hq_walletBalanceBase :: int
  hq_walletBalanceOriginal :: string
  hq_loanAmount :: string
  hq_loanAmountBase :: int
  hq_collateralAmountOriginal :: string
  hq_collateralAmountBase :: int
  hq_tickerRate :: string
  hq_bankAccountId :: "string option"

datatype tempValue =
    TFlag string
  | TVaultQuote vaultQuote
  | TAutoStackQuote autoStackQuote
  | TSwapQuote swapQuote
  | TSendPreview sendPreview
  | TBuyQuote buyQuote
  | TSellQuote sellQuote
  | TBillQuote billQuote
  | TLoanQuote loanQuote

text \<open>The cached copy of a liquidity row: the balances as the strings written.\<close>

record liquidityCache =
  lc_totalBalance :: string
  lc_reservedBalance :: string
  lc_internalBalance :: string
  lc_totalLockedPrincipal :: string
  lc_totalAccruedLockedInterest :: string
  lc_network :: "string option"

text \<open>Requests to providers and queues, in the order they were sent.\<close>

datatype call =
    CallSweep string string string string
  | CallSwapRequest string string string
  | CallSwapConfirm string
  | CallSwapCancel string
  | CallOrderCancel string
  | CallChargeCard string string int
  | CallNotify string
  | CallDashboard string int
  | CallQueueCharge string int
  | CallEnqueue string string
  | CallWithdraw string string string
  | CallWithdrawCancel string
  | CallSwapRefresh string string
  | CallOrder string string string
  | CallRecipient string string
  | CallTransfer string int
  | CallPayBill string
  | CallInitPayment string int
  | CallRefund string
  | CallAlert string

record sys =
  s_db :: db
  s_temp :: "string \<Rightarrow> (tempValue \<times> int option) option"
  s_liqCache :: "string \<Rightarrow> liquidityCache option"
  s_liqExpiry :: "int option"
  s_calls :: "call list"

text \<open>
  What a request runs in: the conversions, the id generator of Prisma, the clock, what
  the code uses of decimal.js and the fault a \<^verbatim>\<open>$transaction\<close> (named by a label) meets in
  this run, if any. \<open>e_decStr\<close> is \<^verbatim>\<open>toString()\<close> of a decimal column, \<open>e_decValue s\<close> the
  exact value of \<^verbatim>\<open>new Decimal(s)\<close> (\<open>None\<close> where it throws), \<open>e_mulFixed2 a b\<close> is
  \<^verbatim>\<open>new Decimal(a).mul(new Decimal(b)).toFixed(2)\<close> and \<open>e_pctFloor n p\<close> is
  \<^verbatim>\<open>new Decimal(n).mul(p).div(100).floor()\<close>.
\<close>

record env =
  e_cv :: conv
  e_cuid :: "nat \<Rightarrow> string"
  e_now :: int
  e_decStr :: "int \<Rightarrow> string"
  e_decValue :: "string \<Rightarrow> rat option"
  e_mulFixed2 :: "string \<Rightarrow> string \<Rightarrow> string option"
  e_pctFloor :: "int \<Rightarrow> string \<Rightarrow> int option"
  e_txFault :: "string \<Rightarrow> error option"

type_synonym 'a dbm = "(db, error, 'a) comp"
type_synonym 'a sysm = "(sys, error, 'a) comp"

definition TRANSIENT_CODES :: "string list" where
  "TRANSIENT_CODES =
     [''P1000'', ''P1001'', ''P1002'', ''P1003'', ''P1008'', ''P1010'', ''P1011'', ''P1017'',
      ''P2024'', ''P2034'']"

definition isTransientPrismaError :: "error \<Rightarrow> bool" where
  "isTransientPrismaError e = (case e of PrismaError c \<Rightarrow> c \<in> set TRANSIENT_CODES | _ \<Rightarrow> False)"

section \<open>Lifting database computations\<close>

definition txM :: "env \<Rightarrow> string \<Rightarrow> 'a dbm \<Rightarrow> 'a sysm" where
  "txM env label m = (\<lambda>s. case e_txFault env label of
       Some e \<Rightarrow> (Inl e, s)
     | None \<Rightarrow> (case m (s_db s) of (r, d) \<Rightarrow>
         (case r of Inl e \<Rightarrow> (Inl e, s) | Inr x \<Rightarrow> (Inr x, s\<lparr>s_db := d\<rparr>))))"

definition dbM :: "'a dbm \<Rightarrow> 'a sysm" where
  "dbM m = (\<lambda>s. case m (s_db s) of (r, d) \<Rightarrow> (r, s\<lparr>s_db := d\<rparr>))"

definition callM :: "call \<Rightarrow> unit sysm" where
  "callM c = modifyM (\<lambda>s. s\<lparr>s_calls := s_calls s @ [c]\<rparr>)"

lemma wp_tx [wp_simps]:
  "wp (txM env label m) Q E s = (case e_txFault env label of
       Some e \<Rightarrow> E e s
     | None \<Rightarrow> wp m (\<lambda>x d. Q x (s\<lparr>s_db := d\<rparr>)) (\<lambda>e _. E e s) (s_db s))"
  by (simp add: wp_def txM_def split: option.splits prod.splits sum.splits)

lemma wp_db [wp_simps]:
  "wp (dbM m) Q E s = wp m (\<lambda>x d. Q x (s\<lparr>s_db := d\<rparr>)) (\<lambda>e d. E e (s\<lparr>s_db := d\<rparr>)) (s_db s)"
  by (simp add: wp_def dbM_def split: prod.splits sum.splits)

lemma run_tx [run_simps]:
  "txM env label m s = (Inr y, s') \<longleftrightarrow>
     e_txFault env label = None \<and> (\<exists>d. m (s_db s) = (Inr y, d) \<and> s' = s\<lparr>s_db := d\<rparr>)"
  by (auto simp: txM_def split: option.splits prod.splits sum.splits)

lemma wp_call [wp_simps]: "wp (callM c) Q E s = Q () (s\<lparr>s_calls := s_calls s @ [c]\<rparr>)"
  by (simp add: callM_def wp_simps)

text \<open>An invariant of the database, as an invariant of the system.\<close>

definition on_db :: "(db \<Rightarrow> bool) \<Rightarrow> sys \<Rightarrow> bool" where
  "on_db I s = I (s_db s)"

lemma preserves_tx [preserves_intros]: "preserves I m \<Longrightarrow> preserves (on_db I) (txM env label m)"
  by (auto simp: preserves_def on_db_def txM_def split: option.splits prod.splits sum.splits)

lemma preserves_db [preserves_intros]: "preserves I m \<Longrightarrow> preserves (on_db I) (dbM m)"
  by (auto simp: preserves_def on_db_def dbM_def split: prod.splits)

lemma preserves_call [preserves_intros]: "preserves (on_db I) (callM c)"
  by (simp add: callM_def preserves_def modifyM_def on_db_def)


section \<open>Statements\<close>

text \<open>\<^verbatim>\<open>mode: 'insensitive'\<close> and SQL's \<^verbatim>\<open>LOWER(a) = LOWER(b)\<close>.\<close>

definition ieq :: "string \<Rightarrow> string \<Rightarrow> bool" where
  "ieq a b \<longleftrightarrow> to_lower a = to_lower b"

definition freshM :: "env \<Rightarrow> string dbm" where
  "freshM env = bindM (getM (\<lambda>d. e_cuid env (d_seq d)))
     (\<lambda>i. thenM (modifyM (\<lambda>d. d\<lparr>d_seq := Suc (d_seq d)\<rparr>)) (returnM i))"

definition wallet_for :: "string \<Rightarrow> string \<Rightarrow> db \<Rightarrow> wallet option" where
  "wallet_for userId currency d =
     List.find (\<lambda>w. w_userId w = userId \<and> ieq (w_currency w) currency) (d_wallets d)"

definition wallet_by_currencyId :: "string \<Rightarrow> string \<Rightarrow> db \<Rightarrow> wallet option" where
  "wallet_by_currencyId userId currencyId d =
     List.find (\<lambda>w. w_userId w = userId \<and> w_currencyId w = Some currencyId) (d_wallets d)"

definition liquidity_for :: "string \<Rightarrow> db \<Rightarrow> liquidity option" where
  "liquidity_for currency d = List.find (\<lambda>l. ieq (l_currency l) currency) (d_liquidity d)"

definition transaction_by_id :: "string \<Rightarrow> db \<Rightarrow> transaction option" where
  "transaction_by_id i d = List.find (\<lambda>t. t_id t = i) (d_transactions d)"

definition transaction_by_uniqueId :: "string \<Rightarrow> db \<Rightarrow> transaction option" where
  "transaction_by_uniqueId u d = List.find (\<lambda>t. t_uniqueId t = u) (d_transactions d)"

definition crypto_by_id :: "string \<Rightarrow> db \<Rightarrow> cryptoCurrency option" where
  "crypto_by_id i d = List.find (\<lambda>c. c_id c = i) (d_cryptoCurrencies d)"

definition crypto_by_symbol :: "string \<Rightarrow> db \<Rightarrow> cryptoCurrency option" where
  "crypto_by_symbol y d = List.find (\<lambda>c. c_symbol c = y) (d_cryptoCurrencies d)"

definition user_by_id :: "string \<Rightarrow> db \<Rightarrow> user option" where
  "user_by_id i d = List.find (\<lambda>u. u_id u = i) (d_users d)"

text \<open>Raw \<^verbatim>\<open>UPDATE\<close> statements with a guard: the row count is the result.\<close>

definition sqlWallets :: "(wallet \<Rightarrow> bool) \<Rightarrow> (wallet \<Rightarrow> wallet option) \<Rightarrow> nat dbm" where
  "sqlWallets key upd = bindM (getM (\<lambda>d. guarded_count key upd (d_wallets d)))
     (\<lambda>n. thenM (modifyM (\<lambda>d. d\<lparr>d_wallets := guarded_update key upd (d_wallets d)\<rparr>)) (returnM n))"

definition sqlLiquidity :: "(liquidity \<Rightarrow> bool) \<Rightarrow> (liquidity \<Rightarrow> liquidity option) \<Rightarrow> nat dbm" where
  "sqlLiquidity key upd = bindM (getM (\<lambda>d. guarded_count key upd (d_liquidity d)))
     (\<lambda>n. thenM (modifyM (\<lambda>d. d\<lparr>d_liquidity := guarded_update key upd (d_liquidity d)\<rparr>)) (returnM n))"

text \<open>Prisma's \<^verbatim>\<open>update\<close>/\<^verbatim>\<open>updateMany\<close> of rows selected by a key.\<close>

definition updWallets :: "(wallet \<Rightarrow> bool) \<Rightarrow> (wallet \<Rightarrow> wallet) \<Rightarrow> unit dbm" where
  "updWallets p f = modifyM (\<lambda>d. d\<lparr>d_wallets := update_where p f (d_wallets d)\<rparr>)"

definition updLiquidity :: "(liquidity \<Rightarrow> bool) \<Rightarrow> (liquidity \<Rightarrow> liquidity) \<Rightarrow> unit dbm" where
  "updLiquidity p f = modifyM (\<lambda>d. d\<lparr>d_liquidity := update_where p f (d_liquidity d)\<rparr>)"

definition updTransactions :: "(transaction \<Rightarrow> bool) \<Rightarrow> (transaction \<Rightarrow> transaction) \<Rightarrow> unit dbm" where
  "updTransactions p f = modifyM (\<lambda>d. d\<lparr>d_transactions := update_where p f (d_transactions d)\<rparr>)"

definition updVaults :: "(vault \<Rightarrow> bool) \<Rightarrow> (vault \<Rightarrow> vault) \<Rightarrow> unit dbm" where
  "updVaults p f = modifyM (\<lambda>d. d\<lparr>d_vaults := update_where p f (d_vaults d)\<rparr>)"

definition updAutoStacks :: "(autoStack \<Rightarrow> bool) \<Rightarrow> (autoStack \<Rightarrow> autoStack) \<Rightarrow> unit dbm" where
  "updAutoStacks p f = modifyM (\<lambda>d. d\<lparr>d_autoStacks := update_where p f (d_autoStacks d)\<rparr>)"

definition updSwaps :: "(swapTransaction \<Rightarrow> bool) \<Rightarrow> (swapTransaction \<Rightarrow> swapTransaction) \<Rightarrow> unit dbm" where
  "updSwaps p f = modifyM (\<lambda>d. d\<lparr>d_swaps := update_where p f (d_swaps d)\<rparr>)"

definition updUsers :: "(user \<Rightarrow> bool) \<Rightarrow> (user \<Rightarrow> user) \<Rightarrow> unit dbm" where
  "updUsers p f = modifyM (\<lambda>d. d\<lparr>d_users := update_where p f (d_users d)\<rparr>)"

definition updWithdrawals :: "(withdrawal \<Rightarrow> bool) \<Rightarrow> (withdrawal \<Rightarrow> withdrawal) \<Rightarrow> unit dbm" where
  "updWithdrawals p f = modifyM (\<lambda>d. d\<lparr>d_withdrawals := update_where p f (d_withdrawals d)\<rparr>)"

definition updCompanyWithdrawals ::
    "(companyWithdrawal \<Rightarrow> bool) \<Rightarrow> (companyWithdrawal \<Rightarrow> companyWithdrawal) \<Rightarrow> unit dbm" where
  "updCompanyWithdrawals p f =
     modifyM (\<lambda>d. d\<lparr>d_companyWithdrawals := update_where p f (d_companyWithdrawals d)\<rparr>)"

text \<open>
  \<^verbatim>\<open>transaction.create\<close>: the columns the caller does not give have the defaults of the
  schema; \<^verbatim>\<open>transactionUniqueId\<close> is unique.
\<close>

definition new_transaction :: "string \<Rightarrow> string \<Rightarrow> string \<Rightarrow> string \<Rightarrow> txType \<Rightarrow> txContext \<Rightarrow> transaction" where
  "new_transaction i userId uniqueId currency ty ctx =
     \<lparr>t_id = i, t_userId = userId, t_uniqueId = uniqueId, t_currency = currency, t_network = None,
      t_receiverWalletId = None, t_senderWalletId = None, t_receiverWalletAddress = None, t_senderWalletAddress = None,
      t_platformWalletAddress = None, t_paymentType = None, t_meta = [],
      t_cryptoAmountBase = None, t_cryptoAmountOriginal = None, t_fiatAmountBase = 0,
      t_fiatAmountOriginal = None, t_platformFeeBase = None, t_platformFeeOriginal = None,
      t_bufferAmountBase = None, t_bufferAmountOriginal = None, t_networkFeeBase = None,
      t_networkFeeOriginal = None, t_totalAmountSentBase = None, t_totalAmountSentOriginal = None,
      t_executedCryptoAmountBase = None, t_executedFiatAmountBase = None, t_executionPrice = None, t_fromCurrency = None, t_toCurrency = None, t_executedAt = None,
      t_description = None, t_status = TxPENDING, t_type = ty, t_context = ctx, t_isProcessed = False\<rparr>"

definition insertTransaction :: "transaction \<Rightarrow> unit dbm" where
  "insertTransaction t = bindM (getM (transaction_by_uniqueId (t_uniqueId t)))
     (\<lambda>r. case r of
         Some _ \<Rightarrow> throwM (PrismaError ''P2002'')
       | None \<Rightarrow> modifyM (\<lambda>d. d\<lparr>d_transactions := d_transactions d @ [t]\<rparr>))"

definition updOrders :: "(order \<Rightarrow> bool) \<Rightarrow> (order \<Rightarrow> order) \<Rightarrow> unit dbm" where
  "updOrders p f = modifyM (\<lambda>d. d\<lparr>d_orders := update_where p f (d_orders d)\<rparr>)"

definition updBillPayments :: "(billPayment \<Rightarrow> bool) \<Rightarrow> (billPayment \<Rightarrow> billPayment) \<Rightarrow> unit dbm" where
  "updBillPayments p f = modifyM (\<lambda>d. d\<lparr>d_billPayments := update_where p f (d_billPayments d)\<rparr>)"

definition updLoans :: "(urgentLoan \<Rightarrow> bool) \<Rightarrow> (urgentLoan \<Rightarrow> urgentLoan) \<Rightarrow> unit dbm" where
  "updLoans p f = modifyM (\<lambda>d. d\<lparr>d_loans := update_where p f (d_loans d)\<rparr>)"

text \<open>Orders and failed liquidity records have a unique \<^verbatim>\<open>transactionId\<close>, withdrawals a unique \<^verbatim>\<open>reference\<close>.\<close>

definition order_by_transaction :: "string \<Rightarrow> db \<Rightarrow> order option" where
  "order_by_transaction i d = List.find (\<lambda>o'. o_transactionId o' = i) (d_orders d)"

definition insertOrder :: "order \<Rightarrow> unit dbm" where
  "insertOrder r = bindM (getM (order_by_transaction (o_transactionId r)))
     (\<lambda>x. if x = None then modifyM (\<lambda>d. d\<lparr>d_orders := d_orders d @ [r]\<rparr>) else throwM (PrismaError ''P2002''))"

definition failed_by_transaction :: "string \<Rightarrow> db \<Rightarrow> failedLiquidity option" where
  "failed_by_transaction i d = List.find (\<lambda>x. fl_transactionId x = i) (d_failedLiquidity d)"

definition insertFailedLiquidity :: "failedLiquidity \<Rightarrow> unit dbm" where
  "insertFailedLiquidity r = bindM (getM (failed_by_transaction (fl_transactionId r)))
     (\<lambda>x. if x = None then modifyM (\<lambda>d. d\<lparr>d_failedLiquidity := d_failedLiquidity d @ [r]\<rparr>)
          else throwM (PrismaError ''P2002''))"

definition deleteFailedLiquidity :: "string \<Rightarrow> unit dbm" where
  "deleteFailedLiquidity i = modifyM (\<lambda>d. d\<lparr>d_failedLiquidity := filter (\<lambda>x. fl_id x \<noteq> i) (d_failedLiquidity d)\<rparr>)"

definition insertWithdrawal :: "withdrawal \<Rightarrow> unit dbm" where
  "insertWithdrawal r = bindM (getM (\<lambda>d. List.find (\<lambda>x. wd_reference x \<noteq> None \<and> wd_reference x = wd_reference r) (d_withdrawals d)))
     (\<lambda>x. if x = None then modifyM (\<lambda>d. d\<lparr>d_withdrawals := d_withdrawals d @ [r]\<rparr>)
          else throwM (PrismaError ''P2002''))"

definition createSwap :: "swapTransaction \<Rightarrow> unit dbm" where
  "createSwap x = modifyM (\<lambda>d. d\<lparr>d_swaps := d_swaps d @ [x]\<rparr>)"

section \<open>The temp store\<close>

text \<open>
  \<^verbatim>\<open>TempStoreService\<close> over \<^verbatim>\<open>RedisService\<close>, for a Redis that answers. A value with an
  expiry is gone once the clock has passed it.
\<close>

definition live :: "int \<Rightarrow> int option \<Rightarrow> bool" where
  "live now expiry = (case expiry of None \<Rightarrow> True | Some t \<Rightarrow> now < t)"

definition temp_lookup :: "env \<Rightarrow> string \<Rightarrow> sys \<Rightarrow> tempValue option" where
  "temp_lookup env key s =
     (case s_temp s key of
        None \<Rightarrow> None
      | Some (v, x) \<Rightarrow> if live (e_now env) x then Some v else None)"

definition tempGet :: "env \<Rightarrow> string \<Rightarrow> tempValue option sysm" where
  "tempGet env key = getM (temp_lookup env key)"

definition tempSet :: "env \<Rightarrow> string \<Rightarrow> tempValue \<Rightarrow> int \<Rightarrow> unit sysm" where
  "tempSet env key v ttl = modifyM (\<lambda>s. s\<lparr>s_temp := (s_temp s)
     (key \<mapsto> (v, if ttl = 0 then None else Some (e_now env + ttl * 1000)))\<rparr>)"

definition tempDel :: "string \<Rightarrow> unit sysm" where
  "tempDel key = modifyM (\<lambda>s. s\<lparr>s_temp := (s_temp s)(key := None)\<rparr>)"

definition tempSetNx :: "env \<Rightarrow> string \<Rightarrow> tempValue \<Rightarrow> int \<Rightarrow> bool sysm" where
  "tempSetNx env key v ttl = bindM (tempGet env key)
     (\<lambda>r. case r of
         Some _ \<Rightarrow> returnM False
       | None \<Rightarrow> thenM (tempSet env key v ttl) (returnM True))"


section \<open>Weakest preconditions of the statements\<close>

lemma wp_fresh [wp_simps]: "wp (freshM env) Q E d = Q (e_cuid env (d_seq d)) (d\<lparr>d_seq := Suc (d_seq d)\<rparr>)"
  by (simp add: freshM_def wp_simps)

lemma wp_sqlWallets [wp_simps]:
  "wp (sqlWallets key upd) Q E d =
     Q (guarded_count key upd (d_wallets d)) (d\<lparr>d_wallets := guarded_update key upd (d_wallets d)\<rparr>)"
  by (simp add: sqlWallets_def wp_simps)

lemma wp_sqlLiquidity [wp_simps]:
  "wp (sqlLiquidity key upd) Q E d =
     Q (guarded_count key upd (d_liquidity d)) (d\<lparr>d_liquidity := guarded_update key upd (d_liquidity d)\<rparr>)"
  by (simp add: sqlLiquidity_def wp_simps)

lemma wp_updWallets [wp_simps]:
  "wp (updWallets p f) Q E d = Q () (d\<lparr>d_wallets := update_where p f (d_wallets d)\<rparr>)"
  by (simp add: updWallets_def wp_simps)

lemma wp_updLiquidity [wp_simps]:
  "wp (updLiquidity p f) Q E d = Q () (d\<lparr>d_liquidity := update_where p f (d_liquidity d)\<rparr>)"
  by (simp add: updLiquidity_def wp_simps)

lemma wp_updTransactions [wp_simps]:
  "wp (updTransactions p f) Q E d = Q () (d\<lparr>d_transactions := update_where p f (d_transactions d)\<rparr>)"
  by (simp add: updTransactions_def wp_simps)

lemma wp_updVaults [wp_simps]:
  "wp (updVaults p f) Q E d = Q () (d\<lparr>d_vaults := update_where p f (d_vaults d)\<rparr>)"
  by (simp add: updVaults_def wp_simps)

lemma wp_updAutoStacks [wp_simps]:
  "wp (updAutoStacks p f) Q E d = Q () (d\<lparr>d_autoStacks := update_where p f (d_autoStacks d)\<rparr>)"
  by (simp add: updAutoStacks_def wp_simps)

lemma wp_updSwaps [wp_simps]:
  "wp (updSwaps p f) Q E d = Q () (d\<lparr>d_swaps := update_where p f (d_swaps d)\<rparr>)"
  by (simp add: updSwaps_def wp_simps)

lemma wp_updUsers [wp_simps]:
  "wp (updUsers p f) Q E d = Q () (d\<lparr>d_users := update_where p f (d_users d)\<rparr>)"
  by (simp add: updUsers_def wp_simps)

lemma wp_updWithdrawals [wp_simps]:
  "wp (updWithdrawals p f) Q E d = Q () (d\<lparr>d_withdrawals := update_where p f (d_withdrawals d)\<rparr>)"
  by (simp add: updWithdrawals_def wp_simps)

lemma wp_updCompanyWithdrawals [wp_simps]:
  "wp (updCompanyWithdrawals p f) Q E d = Q () (d\<lparr>d_companyWithdrawals := update_where p f (d_companyWithdrawals d)\<rparr>)"
  by (simp add: updCompanyWithdrawals_def wp_simps)

lemma wp_updOrders [wp_simps]:
  "wp (updOrders p f) Q E d = Q () (d\<lparr>d_orders := update_where p f (d_orders d)\<rparr>)"
  by (simp add: updOrders_def wp_simps)

lemma wp_updBillPayments [wp_simps]:
  "wp (updBillPayments p f) Q E d = Q () (d\<lparr>d_billPayments := update_where p f (d_billPayments d)\<rparr>)"
  by (simp add: updBillPayments_def wp_simps)

lemma wp_updLoans [wp_simps]:
  "wp (updLoans p f) Q E d = Q () (d\<lparr>d_loans := update_where p f (d_loans d)\<rparr>)"
  by (simp add: updLoans_def wp_simps)

lemma wp_insertOrder [wp_simps]:
  "wp (insertOrder r) Q E d = (if order_by_transaction (o_transactionId r) d = None
     then Q () (d\<lparr>d_orders := d_orders d @ [r]\<rparr>) else E (PrismaError ''P2002'') d)"
  by (simp add: insertOrder_def wp_simps)

lemma wp_insertFailedLiquidity [wp_simps]:
  "wp (insertFailedLiquidity r) Q E d = (if failed_by_transaction (fl_transactionId r) d = None
     then Q () (d\<lparr>d_failedLiquidity := d_failedLiquidity d @ [r]\<rparr>) else E (PrismaError ''P2002'') d)"
  by (simp add: insertFailedLiquidity_def wp_simps)

lemma wp_deleteFailedLiquidity [wp_simps]:
  "wp (deleteFailedLiquidity i) Q E d =
     Q () (d\<lparr>d_failedLiquidity := filter (\<lambda>x. fl_id x \<noteq> i) (d_failedLiquidity d)\<rparr>)"
  by (simp add: deleteFailedLiquidity_def wp_simps)

lemma wp_insertWithdrawal [wp_simps]:
  "wp (insertWithdrawal r) Q E d =
     (if List.find (\<lambda>x. wd_reference x \<noteq> None \<and> wd_reference x = wd_reference r) (d_withdrawals d) = None
      then Q () (d\<lparr>d_withdrawals := d_withdrawals d @ [r]\<rparr>) else E (PrismaError ''P2002'') d)"
  by (simp add: insertWithdrawal_def wp_simps)

lemma wp_insertTransaction [wp_simps]:
  "wp (insertTransaction t) Q E d =
     (if transaction_by_uniqueId (t_uniqueId t) d = None
      then Q () (d\<lparr>d_transactions := d_transactions d @ [t]\<rparr>) else E (PrismaError ''P2002'') d)"
  by (simp add: insertTransaction_def wp_simps split: option.splits)

lemma wp_tempGet [wp_simps]: "wp (tempGet env key) Q E s = Q (temp_lookup env key s) s"
  by (simp add: tempGet_def wp_simps)

lemma wp_tempSet [wp_simps]:
  "wp (tempSet env key v ttl) Q E s = Q () (s\<lparr>s_temp := (s_temp s)
     (key \<mapsto> (v, if ttl = 0 then None else Some (e_now env + ttl * 1000)))\<rparr>)"
  by (simp add: tempSet_def wp_simps)

lemma wp_tempDel [wp_simps]: "wp (tempDel key) Q E s = Q () (s\<lparr>s_temp := (s_temp s)(key := None)\<rparr>)"
  by (simp add: tempDel_def wp_simps)

lemma wp_tempSetNx [wp_simps]:
  "wp (tempSetNx env key v ttl) Q E s =
     (if temp_lookup env key s = None
      then Q True (s\<lparr>s_temp := (s_temp s)
        (key \<mapsto> (v, if ttl = 0 then None else Some (e_now env + ttl * 1000)))\<rparr>)
      else Q False s)"
  by (simp add: tempSetNx_def wp_simps split: option.splits)

lemma run_sqlWallets [run_simps]:
  "sqlWallets key upd d = (Inr n, d') \<longleftrightarrow> n = guarded_count key upd (d_wallets d)
     \<and> d' = d\<lparr>d_wallets := guarded_update key upd (d_wallets d)\<rparr>"
  by (auto simp: sqlWallets_def run_simps)

lemma run_sqlLiquidity [run_simps]:
  "sqlLiquidity key upd d = (Inr n, d') \<longleftrightarrow> n = guarded_count key upd (d_liquidity d)
     \<and> d' = d\<lparr>d_liquidity := guarded_update key upd (d_liquidity d)\<rparr>"
  by (auto simp: sqlLiquidity_def run_simps)

lemma run_upd [run_simps]:
  "updWallets p1 f1 d = (Inr u, d') \<longleftrightarrow> d' = d\<lparr>d_wallets := update_where p1 f1 (d_wallets d)\<rparr>"
  "updLiquidity p2 f2 d = (Inr u, d') \<longleftrightarrow> d' = d\<lparr>d_liquidity := update_where p2 f2 (d_liquidity d)\<rparr>"
  "updTransactions p3 f3 d = (Inr u, d') \<longleftrightarrow> d' = d\<lparr>d_transactions := update_where p3 f3 (d_transactions d)\<rparr>"
  "updVaults p4 f4 d = (Inr u, d') \<longleftrightarrow> d' = d\<lparr>d_vaults := update_where p4 f4 (d_vaults d)\<rparr>"
  "updAutoStacks p5 f5 d = (Inr u, d') \<longleftrightarrow> d' = d\<lparr>d_autoStacks := update_where p5 f5 (d_autoStacks d)\<rparr>"
  "updSwaps p6 f6 d = (Inr u, d') \<longleftrightarrow> d' = d\<lparr>d_swaps := update_where p6 f6 (d_swaps d)\<rparr>"
  "updUsers p7 f7 d = (Inr u, d') \<longleftrightarrow> d' = d\<lparr>d_users := update_where p7 f7 (d_users d)\<rparr>"
  "updWithdrawals p8 f8 d = (Inr u, d') \<longleftrightarrow> d' = d\<lparr>d_withdrawals := update_where p8 f8 (d_withdrawals d)\<rparr>"
  "updCompanyWithdrawals p9 f9 d = (Inr u, d') \<longleftrightarrow>
     d' = d\<lparr>d_companyWithdrawals := update_where p9 f9 (d_companyWithdrawals d)\<rparr>"
  by (simp_all add: updWallets_def updLiquidity_def updTransactions_def updVaults_def updAutoStacks_def
      updSwaps_def updUsers_def updWithdrawals_def updCompanyWithdrawals_def run_simps)

lemma run_fresh [run_simps]:
  "freshM env d = (Inr i, d') \<longleftrightarrow> i = e_cuid env (d_seq d) \<and> d' = d\<lparr>d_seq := Suc (d_seq d)\<rparr>"
  by (auto simp: freshM_def run_simps)

lemma run_insertTransaction [run_simps]:
  "insertTransaction t d = (Inr u, d') \<longleftrightarrow> transaction_by_uniqueId (t_uniqueId t) d = None
     \<and> d' = d\<lparr>d_transactions := d_transactions d @ [t]\<rparr>"
  by (auto simp: insertTransaction_def run_simps split: option.splits)

lemma run_upd_more [run_simps]:
  "updOrders p1 f1 d = (Inr u, d') \<longleftrightarrow> d' = d\<lparr>d_orders := update_where p1 f1 (d_orders d)\<rparr>"
  "updBillPayments p2 f2 d = (Inr u, d') \<longleftrightarrow> d' = d\<lparr>d_billPayments := update_where p2 f2 (d_billPayments d)\<rparr>"
  "updLoans p3 f3 d = (Inr u, d') \<longleftrightarrow> d' = d\<lparr>d_loans := update_where p3 f3 (d_loans d)\<rparr>"
  "deleteFailedLiquidity i d = (Inr u, d') \<longleftrightarrow>
     d' = d\<lparr>d_failedLiquidity := filter (\<lambda>x. fl_id x \<noteq> i) (d_failedLiquidity d)\<rparr>"
  by (simp_all add: updOrders_def updBillPayments_def updLoans_def deleteFailedLiquidity_def run_simps)

lemma run_inserts [run_simps]:
  "insertOrder r1 d = (Inr u, d') \<longleftrightarrow> order_by_transaction (o_transactionId r1) d = None
     \<and> d' = d\<lparr>d_orders := d_orders d @ [r1]\<rparr>"
  "insertFailedLiquidity r2 d = (Inr u, d') \<longleftrightarrow> failed_by_transaction (fl_transactionId r2) d = None
     \<and> d' = d\<lparr>d_failedLiquidity := d_failedLiquidity d @ [r2]\<rparr>"
  "insertWithdrawal r3 d = (Inr u, d') \<longleftrightarrow>
     List.find (\<lambda>x. wd_reference x \<noteq> None \<and> wd_reference x = wd_reference r3) (d_withdrawals d) = None
     \<and> d' = d\<lparr>d_withdrawals := d_withdrawals d @ [r3]\<rparr>"
  by (auto simp: insertOrder_def insertFailedLiquidity_def insertWithdrawal_def run_simps split: if_splits)

lemma preserves_temp [preserves_intros]:
  "preserves (on_db I) (tempGet env key)"
  "preserves (on_db I) (tempSet env key v ttl)"
  "preserves (on_db I) (tempDel key)"
  "preserves (on_db I) (tempSetNx env key v ttl)"
  by (auto intro!: preservesI simp: wp_simps on_db_def)

section \<open>Balances\<close>

text \<open>
  The two accounts with a reservation: a wallet and a company liquidity row. Solvent
  means that what is reserved is there.
\<close>

definition wallet_ok :: "wallet \<Rightarrow> bool" where
  "wallet_ok w \<longleftrightarrow> 0 \<le> w_reservedBalance w \<and> w_reservedBalance w \<le> w_baseBalance w"

definition liquidity_ok :: "liquidity \<Rightarrow> bool" where
  "liquidity_ok l \<longleftrightarrow> 0 \<le> l_reservedBalance l \<and> l_reservedBalance l \<le> l_totalBalance l"

definition solvent :: "db \<Rightarrow> bool" where
  "solvent d \<longleftrightarrow> list_all wallet_ok (d_wallets d) \<and> list_all liquidity_ok (d_liquidity d)"

lemma solventD:
  "solvent d \<Longrightarrow> list_all wallet_ok (d_wallets d)" "solvent d \<Longrightarrow> list_all liquidity_ok (d_liquidity d)"
  by (simp_all add: solvent_def)

lemma solvent_update [simp]:
  "solvent (d\<lparr>d_wallets := ws\<rparr>) \<longleftrightarrow> list_all wallet_ok ws \<and> list_all liquidity_ok (d_liquidity d)"
  "solvent (d\<lparr>d_liquidity := ls\<rparr>) \<longleftrightarrow> list_all wallet_ok (d_wallets d) \<and> list_all liquidity_ok ls"
  "solvent (d\<lparr>d_transactions := ts\<rparr>) \<longleftrightarrow> solvent d"
  "solvent (d\<lparr>d_withdrawals := wds\<rparr>) \<longleftrightarrow> solvent d"
  "solvent (d\<lparr>d_companyWithdrawals := cws\<rparr>) \<longleftrightarrow> solvent d"
  "solvent (d\<lparr>d_deposits := dps\<rparr>) \<longleftrightarrow> solvent d"
  "solvent (d\<lparr>d_swaps := sws\<rparr>) \<longleftrightarrow> solvent d"
  "solvent (d\<lparr>d_vaults := vs\<rparr>) \<longleftrightarrow> solvent d"
  "solvent (d\<lparr>d_autoStacks := as\<rparr>) \<longleftrightarrow> solvent d"
  "solvent (d\<lparr>d_users := us\<rparr>) \<longleftrightarrow> solvent d"
  "solvent (d\<lparr>d_paymentAddresses := pas\<rparr>) \<longleftrightarrow> solvent d"
  "solvent (d\<lparr>d_webhooks := whs\<rparr>) \<longleftrightarrow> solvent d"
  "solvent (d\<lparr>d_orders := ords\<rparr>) \<longleftrightarrow> solvent d"
  "solvent (d\<lparr>d_failedLiquidity := fls\<rparr>) \<longleftrightarrow> solvent d"
  "solvent (d\<lparr>d_billPayments := bps\<rparr>) \<longleftrightarrow> solvent d"
  "solvent (d\<lparr>d_loans := uls\<rparr>) \<longleftrightarrow> solvent d"
  "solvent (d\<lparr>d_seq := n\<rparr>) \<longleftrightarrow> solvent d"
  by (simp_all add: solvent_def)

lemma solvent_modify: "(\<And>d. solvent (f d) = solvent d) \<Longrightarrow> preserves solvent (modifyM f)"
  by (rule preserves_modify) simp

lemma solvent_sqlWallets:
  "(\<And>w w'. wallet_ok w \<Longrightarrow> key w \<Longrightarrow> upd w = Some w' \<Longrightarrow> wallet_ok w') \<Longrightarrow> preserves solvent (sqlWallets key upd)"
  by (rule preservesI) (auto simp: wp_simps solvent_def intro: guarded_update_all)

lemma solvent_sqlLiquidity:
  "(\<And>l l'. liquidity_ok l \<Longrightarrow> key l \<Longrightarrow> upd l = Some l' \<Longrightarrow> liquidity_ok l')
     \<Longrightarrow> preserves solvent (sqlLiquidity key upd)"
  by (rule preservesI) (auto simp: wp_simps solvent_def intro: guarded_update_all)

lemma solvent_updWallets:
  "(\<And>w. wallet_ok w \<Longrightarrow> p w \<Longrightarrow> wallet_ok (f w)) \<Longrightarrow> preserves solvent (updWallets p f)"
  by (rule preservesI) (auto simp: wp_simps solvent_def intro: update_where_all)

lemma solvent_updLiquidity:
  "(\<And>l. liquidity_ok l \<Longrightarrow> p l \<Longrightarrow> liquidity_ok (f l)) \<Longrightarrow> preserves solvent (updLiquidity p f)"
  by (rule preservesI) (auto simp: wp_simps solvent_def intro: update_where_all)

lemma solvent_others [preserves_intros]:
  "preserves solvent (freshM env)"
  "preserves solvent (updTransactions p1 f1)"
  "preserves solvent (updVaults p2 f2)"
  "preserves solvent (updAutoStacks p3 f3)"
  "preserves solvent (updSwaps p4 f4)"
  "preserves solvent (updUsers p5 f5)"
  "preserves solvent (updWithdrawals p6 f6)"
  "preserves solvent (updCompanyWithdrawals p7 f7)"
  "preserves solvent (insertTransaction t)"
  "preserves solvent (updOrders p8 f8)"
  "preserves solvent (updBillPayments p9 f9)"
  "preserves solvent (updLoans p10 f10)"
  "preserves solvent (insertOrder r1)"
  "preserves solvent (insertFailedLiquidity r2)"
  "preserves solvent (insertWithdrawal r3)"
  "preserves solvent (deleteFailedLiquidity i)"
  by (auto intro!: preservesI simp: wp_simps)

end
