(* ===== verification/Account.thy ===== *)
theory Account
  imports Prelude
begin

text \<open>
  The contract of an account with reservations, shared by the user wallets
  (\<^verbatim>\<open>transaction.service.ts\<close>, the withdrawal webhook) and the company liquidity rows
  (\<^verbatim>\<open>company-liquidity.service.ts\<close>): amounts are reserved out of what is available, then
  released, or settled out of the total. The operations are the guarded SQL updates of
  one row: \<open>None\<close> is the update that matches no row.

  The locale \<open>account\<close> states what each update promises; the lemmas proved in it are what
  the services rely on: a reservation can always be undone or settled, and as long as
  every release and settlement is of an amount held, the books balance and no update
  fails.
\<close>

section \<open>Histories of holds\<close>

text \<open>
  A history of one account: amounts are held under a key, later dropped or paid.
  \<open>run_holds\<close> carries the account and the list of amounts held; a hold that the account
  refuses leaves both, as the code throws. \<open>None\<close> is a release or settlement the account
  refuses: the inconsistency the code reports.
\<close>

datatype 'k hold_op = Hold 'k int | Drop 'k | Pay 'k | Credit int

fun run_holds ::
    "(int \<Rightarrow> 'r \<Rightarrow> 'r option) \<Rightarrow> (int \<Rightarrow> 'r \<Rightarrow> 'r option) \<Rightarrow> (int \<Rightarrow> 'r \<Rightarrow> 'r option) \<Rightarrow> (int \<Rightarrow> 'r \<Rightarrow> 'r)
      \<Rightarrow> 'k hold_op list \<Rightarrow> 'r \<times> ('k \<times> int) list \<Rightarrow> ('r \<times> ('k \<times> int) list) option" where
  "run_holds rsv rel stl crd [] rh = Some rh"
| "run_holds rsv rel stl crd (Hold k a # ops) (r, hs) =
     (case rsv a r of
        None \<Rightarrow> run_holds rsv rel stl crd ops (r, hs)
      | Some r' \<Rightarrow> run_holds rsv rel stl crd ops (r', (k, a) # hs))"
| "run_holds rsv rel stl crd (Drop k # ops) (r, hs) =
     (case map_of hs k of
        None \<Rightarrow> run_holds rsv rel stl crd ops (r, hs)
      | Some a \<Rightarrow> (case rel a r of
          None \<Rightarrow> None
        | Some r' \<Rightarrow> run_holds rsv rel stl crd ops (r', remove1 (k, a) hs)))"
| "run_holds rsv rel stl crd (Pay k # ops) (r, hs) =
     (case map_of hs k of
        None \<Rightarrow> run_holds rsv rel stl crd ops (r, hs)
      | Some a \<Rightarrow> (case stl a r of
          None \<Rightarrow> None
        | Some r' \<Rightarrow> run_holds rsv rel stl crd ops (r', remove1 (k, a) hs)))"
| "run_holds rsv rel stl crd (Credit a # ops) (r, hs) = run_holds rsv rel stl crd ops (crd a r, hs)"

fun op_nonneg :: "'k hold_op \<Rightarrow> bool" where
  "op_nonneg (Hold k a) = (0 \<le> a)"
| "op_nonneg (Drop k) = True"
| "op_nonneg (Pay k) = True"
| "op_nonneg (Credit a) = (0 \<le> a)"

definition held :: "('k \<times> int) list \<Rightarrow> int" where
  "held hs = sum_list (map snd hs)"

lemma held_Nil [simp]: "held [] = 0"
  by (simp add: held_def)

lemma held_Cons [simp]: "held (h # hs) = snd h + held hs"
  by (simp add: held_def)

lemma held_remove1: "h \<in> set hs \<Longrightarrow> held (remove1 h hs) = held hs - snd h"
  by (induction hs) auto

lemma held_nonneg: "\<forall>h \<in> set hs. 0 \<le> snd h \<Longrightarrow> 0 \<le> held hs"
  by (induction hs) auto

lemma held_ge: "\<forall>h \<in> set hs. 0 \<le> snd h \<Longrightarrow> h \<in> set hs \<Longrightarrow> snd h \<le> held hs"
proof (induction hs)
  case (Cons h' hs)
  then have "0 \<le> held hs" by (simp add: held_nonneg)
  with Cons show ?case by (cases "h = h'") auto
qed simp

section \<open>Undoing a reservation\<close>

lemma guarded_update_undo:
  assumes "distinct (map ident rows)"
    and "\<And>r r'. upd r = Some r' \<Longrightarrow> ident r' = ident r"
    and "\<And>r r'. r \<in> set rows \<Longrightarrow> upd r = Some r' \<Longrightarrow> back r' = Some r"
    and "guarded_count (\<lambda>r. ident r = k) upd rows \<noteq> 0"
  shows "guarded_update (\<lambda>r. ident r = k) back (guarded_update (\<lambda>r. ident r = k) upd rows) = rows
    \<and> guarded_count (\<lambda>r. ident r = k) back (guarded_update (\<lambda>r. ident r = k) upd rows) \<noteq> 0"
  using assms
proof (induction rows)
  case Nil
  then show ?case by (simp add: guarded_count_def)
next
  case (Cons r rows)
  show ?case
  proof (cases "ident r = k")
    case True
    then have other: "\<forall>r' \<in> set rows. ident r' \<noteq> k" using Cons.prems(1) by (metis distinct.simps(2) image_eqI list.set_map list.simps(9))
    then have same: "guarded_update (\<lambda>r. ident r = k) u rows = rows"
      and none: "guarded_count (\<lambda>r. ident r = k) u rows = 0" for u
      by (auto simp: guarded_update_def guarded_count_def filter_empty_conv intro: map_idI)
    have "upd r \<noteq> None"
      using Cons.prems(4) True none [of upd] by (auto simp: guarded_count_def split: if_splits)
    then obtain r' where r': "upd r = Some r'" by auto
    then have "back r' = Some r" "ident r' = k"
      using Cons.prems(2) [of r r'] Cons.prems(3) [of r r'] True by auto
    with r' True other same show ?thesis
      by (simp add: guarded_update_def guarded_count_def)
  next
    case False
    then have "guarded_count (\<lambda>r. ident r = k) upd rows \<noteq> 0"
      using Cons.prems(4) by (simp add: guarded_count_def)
    with Cons False show ?thesis by (simp add: guarded_update_def guarded_count_def)
  qed
qed

lemma find_map: "(\<And>x. P (f x) = P x) \<Longrightarrow> List.find P (map f xs) = map_option f (List.find P xs)"
  by (induction xs) auto

lemma find_update_where:
  "(\<And>r. P (f r) = P r) \<Longrightarrow>
     List.find P (update_where p f rows) = map_option (\<lambda>r. if p r then f r else r) (List.find P rows)"
  unfolding update_where_def by (rule find_map) auto

lemma find_guarded_update:
  assumes "\<And>r r'. upd r = Some r' \<Longrightarrow> P r' = P r"
  shows "List.find P (guarded_update key upd rows)
    = map_option (\<lambda>r. if key r then (case upd r of None \<Rightarrow> r | Some r' \<Rightarrow> r') else r) (List.find P rows)"
  unfolding guarded_update_def by (rule find_map) (auto split: option.splits dest: assms)

section \<open>The contract\<close>

locale account =
  fixes total :: "'r \<Rightarrow> int" and reserved :: "'r \<Rightarrow> int"
    and reserve :: "int \<Rightarrow> 'r \<Rightarrow> 'r option"
    and release :: "int \<Rightarrow> 'r \<Rightarrow> 'r option"
    and settle :: "int \<Rightarrow> 'r \<Rightarrow> 'r option"
    and credit :: "int \<Rightarrow> 'r \<Rightarrow> 'r"
  assumes reserve_None: "reserve a r = None \<longleftrightarrow> total r - reserved r < a"
    and reserve_total: "reserve a r = Some r' \<Longrightarrow> total r' = total r"
    and reserve_reserved: "reserve a r = Some r' \<Longrightarrow> reserved r' = reserved r + a"
    and release_None: "release a r = None \<longleftrightarrow> reserved r < a"
    and release_total: "release a r = Some r' \<Longrightarrow> total r' = total r"
    and release_reserved: "release a r = Some r' \<Longrightarrow> reserved r' = reserved r - a"
    and settle_None: "settle a r = None \<longleftrightarrow> reserved r < a \<or> total r < a"
    and settle_total: "settle a r = Some r' \<Longrightarrow> total r' = total r - a"
    and settle_reserved: "settle a r = Some r' \<Longrightarrow> reserved r' = reserved r - a"
    and credit_total: "total (credit a r) = total r + a"
    and credit_reserved: "reserved (credit a r) = reserved r"
    and release_inverse: "reserve a r = Some r' \<Longrightarrow> release a r' = Some r'' \<Longrightarrow> r'' = r"
begin

definition ok :: "'r \<Rightarrow> bool" where
  "ok r \<longleftrightarrow> 0 \<le> reserved r \<and> reserved r \<le> total r"

lemma ok_reserve: "ok r \<Longrightarrow> 0 \<le> a \<Longrightarrow> reserve a r = Some r' \<Longrightarrow> ok r'"
  using reserve_None [of a r] reserve_total [of a r r'] reserve_reserved [of a r r']
  by (simp add: ok_def)

lemma ok_release: "ok r \<Longrightarrow> 0 \<le> a \<Longrightarrow> release a r = Some r' \<Longrightarrow> ok r'"
  using release_None [of a r] release_total [of a r r'] release_reserved [of a r r']
  by (simp add: ok_def)

lemma ok_settle: "ok r \<Longrightarrow> settle a r = Some r' \<Longrightarrow> ok r'"
  using settle_None [of a r] settle_total [of a r r'] settle_reserved [of a r r']
  by (simp add: ok_def)

lemma ok_credit: "ok r \<Longrightarrow> 0 \<le> a \<Longrightarrow> ok (credit a r)"
  by (simp add: ok_def credit_total credit_reserved)

lemma release_after_reserve:
  assumes "ok r" "reserve a r = Some r'"
  shows "release a r' = Some r"
proof (cases "release a r'")
  case None
  with assms release_None [of a r'] reserve_reserved [of a r r'] show ?thesis by (simp add: ok_def)
next
  case (Some r'')
  with release_inverse [OF assms(2)] show ?thesis by simp
qed

lemma settle_after_reserve:
  assumes "ok r" "reserve a r = Some r'"
  shows "\<exists>r''. settle a r' = Some r'' \<and> total r'' = total r - a \<and> reserved r'' = reserved r"
proof (cases "settle a r'")
  case None
  with assms settle_None [of a r'] reserve_None [of a r] reserve_total [of a r r'] reserve_reserved [of a r r']
  show ?thesis by (simp add: ok_def)
next
  case (Some r'')
  with assms settle_total [of a r' r''] settle_reserved [of a r' r''] reserve_total [of a r r']
    reserve_reserved [of a r r']
  show ?thesis by simp
qed

text \<open>The books balance: what is reserved is exactly what is held.\<close>

definition balanced :: "'r \<times> ('k \<times> int) list \<Rightarrow> bool" where
  "balanced rh \<longleftrightarrow> reserved (fst rh) = held (snd rh) \<and> (\<forall>h \<in> set (snd rh). 0 \<le> snd h)
     \<and> reserved (fst rh) \<le> total (fst rh)"

lemma balanced_ok: "balanced rh \<Longrightarrow> ok (fst rh)"
  using held_nonneg [of "snd rh"] by (simp add: balanced_def ok_def)

lemma balanced_hold: "balanced (r, hs) \<Longrightarrow> 0 \<le> a \<Longrightarrow> reserve a r = Some r' \<Longrightarrow> balanced (r', (k, a) # hs)"
  using reserve_None [of a r] reserve_total [of a r r'] reserve_reserved [of a r r']
  by (auto simp: balanced_def)

lemma balanced_drop:
  assumes "balanced (r, hs)" "map_of hs k = Some a"
  shows "\<exists>r'. release a r = Some r' \<and> balanced (r', remove1 (k, a) hs)"
proof -
  have i: "(k, a) \<in> set hs" using assms(2) by (rule map_of_SomeD)
  with assms(1) have a: "0 \<le> a" "a \<le> reserved r"
    using held_ge [of hs "(k, a)"] by (auto simp: balanced_def)
  then obtain r' where r': "release a r = Some r'" using release_None [of a r] by (cases "release a r") auto
  have "balanced (r', remove1 (k, a) hs)"
    using assms(1) i a release_total [OF r'] release_reserved [OF r'] notin_set_remove1
    by (auto simp: balanced_def held_remove1)
  with r' show ?thesis by blast
qed

lemma balanced_pay:
  assumes "balanced (r, hs)" "map_of hs k = Some a"
  shows "\<exists>r'. settle a r = Some r' \<and> balanced (r', remove1 (k, a) hs)"
proof -
  have i: "(k, a) \<in> set hs" using assms(2) by (rule map_of_SomeD)
  with assms(1) have a: "0 \<le> a" "a \<le> reserved r" "reserved r \<le> total r"
    using held_ge [of hs "(k, a)"] by (auto simp: balanced_def)
  then obtain r' where r': "settle a r = Some r'" using settle_None [of a r] by (cases "settle a r") auto
  have "balanced (r', remove1 (k, a) hs)"
    using assms(1) i a settle_total [OF r'] settle_reserved [OF r'] notin_set_remove1
    by (auto simp: balanced_def held_remove1)
  with r' show ?thesis by blast
qed

lemma balanced_credit: "balanced (r, hs) \<Longrightarrow> 0 \<le> a \<Longrightarrow> balanced (credit a r, hs)"
  by (simp add: balanced_def credit_total credit_reserved)

lemma run_holds_balanced:
  assumes "balanced rh" "list_all op_nonneg ops"
  shows "\<exists>rh'. run_holds reserve release settle credit ops rh = Some rh' \<and> balanced rh'"
  using assms
proof (induction ops arbitrary: rh)
  case Nil
  then show ?case by simp
next
  case (Cons x ops)
  obtain r hs where rh: "rh = (r, hs)" by (cases rh)
  show ?case
  proof (cases x)
    case (Hold k a)
    with Cons rh balanced_hold [of r hs a _ k] show ?thesis
      by (cases "reserve a r") auto
  next
    case (Drop k)
    with Cons rh balanced_drop [of r hs k] show ?thesis
      by (cases "map_of hs k") auto
  next
    case (Pay k)
    with Cons rh balanced_pay [of r hs k] show ?thesis
      by (cases "map_of hs k") auto
  next
    case (Credit a)
    with Cons rh balanced_credit [of r hs a] show ?thesis by auto
  qed
qed

end

end
