(* ===== verification/Ledger.thy ===== *)
theory Ledger
  imports Store Account
begin

text \<open>
  The two ledgers every money flow goes through:
  \<^item> \<^verbatim>\<open>CompanyLiquidityService\<close> (\<^verbatim>\<open>company-liquidity.service.ts\<close>): the liquidity of the company per
    currency, with its guarded SQL updates and the Redis cache in front of the reads;
  \<^item> \<^verbatim>\<open>TransactionService\<close> (\<^verbatim>\<open>transaction.service.ts\<close>): reservations on user wallets, the
    confirmation cooldown, the slippage check and the creation of transaction rows.

  A method that takes an optional \<^verbatim>\<open>tx\<close> is two definitions: the one given a transaction
  client is a computation on \<open>db\<close>; the one without (suffix \<open>_direct\<close>) runs on \<open>sys\<close> and
  refreshes the cache. Both row types are interpreted as instances of the locale
  \<open>account\<close>.
\<close>

section \<open>One liquidity row\<close>

definition l_reserve :: "int \<Rightarrow> liquidity \<Rightarrow> liquidity option" where
  "l_reserve a l = (if l_totalBalance l - l_reservedBalance l \<ge> a
     then Some (l\<lparr>l_reservedBalance := l_reservedBalance l + a\<rparr>) else None)"

definition l_release :: "int \<Rightarrow> liquidity \<Rightarrow> liquidity option" where
  "l_release a l = (if l_reservedBalance l \<ge> a
     then Some (l\<lparr>l_reservedBalance := l_reservedBalance l - a\<rparr>) else None)"

definition l_reduce :: "int \<Rightarrow> liquidity \<Rightarrow> liquidity option" where
  "l_reduce a l = (if l_totalBalance l - l_reservedBalance l \<ge> a
     then Some (l\<lparr>l_totalBalance := l_totalBalance l - a\<rparr>) else None)"

definition l_consume :: "int \<Rightarrow> liquidity \<Rightarrow> liquidity option" where
  "l_consume a l = (if l_reservedBalance l \<ge> a \<and> l_totalBalance l \<ge> a
     then Some (l\<lparr>l_reservedBalance := l_reservedBalance l - a,
                  l_totalBalance := l_totalBalance l - a\<rparr>) else None)"

definition l_add :: "int \<Rightarrow> liquidity \<Rightarrow> liquidity" where
  "l_add a l = l\<lparr>l_totalBalance := l_totalBalance l + a\<rparr>"

interpretation liquidity_account: account
  l_totalBalance l_reservedBalance l_reserve l_release l_consume l_add
  by unfold_locales
    (auto simp: l_reserve_def l_release_def l_consume_def l_add_def split: if_splits)

section \<open>CompanyLiquidityService\<close>

definition getDefaultLiquidityNetwork :: "string \<Rightarrow> string option" where
  "getDefaultLiquidityNetwork currency =
     (case networks_of (to_lower currency) of [] \<Rightarrow> None | (i, _) # _ \<Rightarrow> Some i)"

definition verifyCurrency :: "string \<Rightarrow> error + string" where
  "verifyCurrency currency =
     (let low = to_lower currency
      in if low \<in> set ALLOWED_CURRENCIES then Inr (to_upper low)
         else Inl (BadRequest (''Currency '' @ currency @ '' is not supported'')))"

definition CACHE_TTL_SECONDS :: int where
  "CACHE_TTL_SECONDS = 60"

text \<open>The cache is one Redis hash with one expiry for all its fields.\<close>

definition live_cache :: "env \<Rightarrow> sys \<Rightarrow> string \<Rightarrow> liquidityCache option" where
  "live_cache env s = (if live (e_now env) (s_liqExpiry s) then s_liqCache s else (\<lambda>_. None))"

definition getCache :: "env \<Rightarrow> string \<Rightarrow> liquidityCache option sysm" where
  "getCache env currency = getM (\<lambda>s. live_cache env s (to_upper currency))"

definition setCache :: "env \<Rightarrow> string \<Rightarrow> liquidityCache \<Rightarrow> unit sysm" where
  "setCache env currency data = modifyM (\<lambda>s. s\<lparr>
     s_liqCache := (live_cache env s)(to_upper currency \<mapsto> data),
     s_liqExpiry := Some (e_now env + CACHE_TTL_SECONDS * 1000)\<rparr>)"

definition cache_of_row :: "env \<Rightarrow> liquidity \<Rightarrow> liquidityCache" where
  "cache_of_row env l =
     \<lparr>lc_totalBalance = e_decStr env (l_totalBalance l),
      lc_reservedBalance = e_decStr env (l_reservedBalance l),
      lc_internalBalance = e_decStr env (l_internalBalance l),
      lc_totalLockedPrincipal = e_decStr env (l_totalLockedPrincipal l),
      lc_totalAccruedLockedInterest = e_decStr env (l_totalAccruedLockedInterest l),
      lc_network = (case l_network l of Some n \<Rightarrow> Some n | None \<Rightarrow> getDefaultLiquidityNetwork (l_currency l))\<rparr>"

definition syncCurrencyToCache :: "env \<Rightarrow> string \<Rightarrow> unit sysm" where
  "syncCurrencyToCache env currency =
     bindM (liftM (verifyCurrency currency)) (\<lambda>n.
     bindM (getM (\<lambda>s. liquidity_for n (s_db s))) (\<lambda>r.
       case r of
         None \<Rightarrow> returnM ()
       | Some l \<Rightarrow> setCache env (l_currency l) (cache_of_row env l)))"

definition syncAllToCache :: "env \<Rightarrow> unit sysm" where
  "syncAllToCache env =
     bindM (getM (\<lambda>s. d_liquidity (s_db s))) (\<lambda>ls.
       forM ls (\<lambda>l. setCache env (l_currency l) (cache_of_row env l)))"

text \<open>\<^verbatim>\<open>syncCurrencyToCache(...).catch(() => undefined)\<close>\<close>

definition sync_quietly :: "env \<Rightarrow> string \<Rightarrow> unit sysm" where
  "sync_quietly env n = catchM (syncCurrencyToCache env n) (\<lambda>_. returnM ())"

datatype balanceOp = Add | Subtract

definition syncInternalBalanceToCache :: "env \<Rightarrow> string \<Rightarrow> string \<Rightarrow> balanceOp \<Rightarrow> unit sysm" where
  "syncInternalBalanceToCache env currency amount op =
     catchM
       (bindM (liftM (verifyCurrency currency)) (\<lambda>n.
        bindM (getCache env n) (\<lambda>c.
        bindM (getM (\<lambda>s. liquidity_for n (s_db s))) (\<lambda>row.
          case (case c of Some x \<Rightarrow> Some x | None \<Rightarrow> map_option (cache_of_row env) row) of
            None \<Rightarrow> returnM ()
          | Some cached \<Rightarrow>
              bindM (liftM (parse_bigint (lc_internalBalance cached))) (\<lambda>current.
              bindM (liftM (parse_bigint amount)) (\<lambda>change.
                setCache env n (cached\<lparr>lc_internalBalance :=
                  show_int (if op = Add then current + change else current - change)\<rparr>)))))))
       (\<lambda>_. returnM ())"

definition getInternalBalance :: "env \<Rightarrow> string \<Rightarrow> int sysm" where
  "getInternalBalance env currency =
     bindM (liftM (verifyCurrency currency)) (\<lambda>n.
     bindM (getCache env n) (\<lambda>c.
       case c of
         Some cached \<Rightarrow> liftM (parse_bigint (lc_internalBalance cached))
       | None \<Rightarrow>
           bindM (getM (\<lambda>s. liquidity_for n (s_db s))) (\<lambda>r.
             case r of
               None \<Rightarrow> returnM 0
             | Some l \<Rightarrow> thenM (sync_quietly env n) (returnM (l_internalBalance l)))))"

definition l_key :: "string \<Rightarrow> liquidity \<Rightarrow> bool" where
  "l_key n l \<longleftrightarrow> ieq (l_currency l) n"

definition reserveLiquidity :: "string \<Rightarrow> int \<Rightarrow> bool dbm" where
  "reserveLiquidity currency amount =
     bindM (liftM (verifyCurrency currency)) (\<lambda>n.
     bindM (sqlLiquidity (l_key n) (l_reserve amount)) (\<lambda>result.
       returnM (result > 0)))"

definition releaseLiquidity :: "string \<Rightarrow> int \<Rightarrow> unit dbm" where
  "releaseLiquidity currency amount =
     bindM (liftM (verifyCurrency currency)) (\<lambda>n.
       if amount \<le> 0 then returnM ()
       else bindM (sqlLiquidity (l_key n) (l_release amount)) (\<lambda>result.
         requireM (result \<noteq> 0) (BadRequest ''Reserved company liquidity inconsistency'')))"

definition available_of :: "liquidity \<Rightarrow> int" where
  "available_of l = l_totalBalance l - l_reservedBalance l - l_totalLockedPrincipal l
     - l_totalAccruedLockedInterest l"

definition getAvailableLiquidity :: "string \<Rightarrow> int dbm" where
  "getAvailableLiquidity currency =
     bindM (liftM (verifyCurrency currency)) (\<lambda>n.
     bindM (getM (liquidity_for n)) (\<lambda>r.
       returnM (case r of None \<Rightarrow> 0 | Some l \<Rightarrow> available_of l)))"

definition cached_available :: "liquidityCache \<Rightarrow> error + int" where
  "cached_available c =
     (case parse_bigint (lc_totalBalance c) of Inl e \<Rightarrow> Inl e | Inr t \<Rightarrow>
     (case parse_bigint (lc_reservedBalance c) of Inl e \<Rightarrow> Inl e | Inr r \<Rightarrow>
     (case parse_bigint (lc_totalLockedPrincipal c) of Inl e \<Rightarrow> Inl e | Inr p \<Rightarrow>
     (case parse_bigint (lc_totalAccruedLockedInterest c) of Inl e \<Rightarrow> Inl e | Inr i \<Rightarrow>
        Inr (t - r - p - i)))))"

definition getAvailableLiquidity_direct :: "env \<Rightarrow> string \<Rightarrow> int sysm" where
  "getAvailableLiquidity_direct env currency =
     bindM (liftM (verifyCurrency currency)) (\<lambda>n.
     bindM (getCache env n) (\<lambda>c.
       case c of
         Some cached \<Rightarrow> liftM (cached_available cached)
       | None \<Rightarrow>
           bindM (getM (\<lambda>s. liquidity_for n (s_db s))) (\<lambda>r.
             case r of
               None \<Rightarrow> returnM 0
             | Some l \<Rightarrow> thenM (sync_quietly env n) (returnM (available_of l)))))"

definition getTotalBalance_direct :: "env \<Rightarrow> string \<Rightarrow> int sysm" where
  "getTotalBalance_direct env currency =
     bindM (liftM (verifyCurrency currency)) (\<lambda>n.
     bindM (getCache env n) (\<lambda>c.
       case c of
         Some cached \<Rightarrow> liftM (parse_bigint (lc_totalBalance cached))
       | None \<Rightarrow>
           bindM (getM (\<lambda>s. liquidity_for n (s_db s))) (\<lambda>r.
             case r of
               None \<Rightarrow> returnM 0
             | Some l \<Rightarrow> thenM (sync_quietly env n) (returnM (l_totalBalance l)))))"

definition isInternalBalanceExceeding :: "string \<Rightarrow> bool dbm" where
  "isInternalBalanceExceeding currency =
     bindM (liftM (verifyCurrency currency)) (\<lambda>n.
     bindM (getM (liquidity_for n)) (\<lambda>r.
       returnM (case r of None \<Rightarrow> False | Some l \<Rightarrow> l_internalBalance l > l_totalBalance l)))"

definition new_liquidity :: "string \<Rightarrow> string \<Rightarrow> liquidity" where
  "new_liquidity i n =
     \<lparr>l_id = i, l_currency = to_lower n, l_network = getDefaultLiquidityNetwork n,
      l_totalBalance = 0, l_reservedBalance = 0, l_internalBalance = 0,
      l_totalLockedPrincipal = 0, l_totalAccruedLockedInterest = 0,
      l_totalLockedInterestPaid = 0, l_totalAmountStacked = 0\<rparr>"

definition createLiquidity :: "env \<Rightarrow> string \<Rightarrow> (liquidity \<Rightarrow> liquidity) \<Rightarrow> unit dbm" where
  "createLiquidity env n f =
     bindM (freshM env) (\<lambda>i. modifyM (\<lambda>d. d\<lparr>d_liquidity := d_liquidity d @ [f (new_liquidity i n)]\<rparr>))"

definition addLiquidity :: "env \<Rightarrow> string \<Rightarrow> int \<Rightarrow> unit dbm" where
  "addLiquidity env currency amount =
     bindM (liftM (verifyCurrency currency)) (\<lambda>n.
     bindM (getM (liquidity_for n)) (\<lambda>r.
       case r of
         Some l \<Rightarrow> updLiquidity (\<lambda>k. l_id k = l_id l) (l_add amount)
       | None \<Rightarrow> createLiquidity env n (\<lambda>l. l\<lparr>l_totalBalance := amount\<rparr>)))"

definition reduceLiquidity :: "string \<Rightarrow> int \<Rightarrow> bool dbm" where
  "reduceLiquidity currency amount =
     bindM (liftM (verifyCurrency currency)) (\<lambda>n.
     bindM (sqlLiquidity (l_key n) (l_reduce amount)) (\<lambda>result. returnM (result > 0)))"

definition consumeReservedLiquidity :: "string \<Rightarrow> int \<Rightarrow> bool dbm" where
  "consumeReservedLiquidity currency amount =
     bindM (liftM (verifyCurrency currency)) (\<lambda>n.
     bindM (sqlLiquidity (l_key n) (l_consume amount)) (\<lambda>result. returnM (result > 0)))"

definition updateInternalBalance :: "env \<Rightarrow> string \<Rightarrow> int \<Rightarrow> balanceOp \<Rightarrow> unit dbm" where
  "updateInternalBalance env currency amount op =
     bindM (liftM (verifyCurrency currency)) (\<lambda>n.
     bindM (getM (liquidity_for n)) (\<lambda>r.
       case r of
         None \<Rightarrow>
           (if op = Subtract then throwM (BadRequest (''Company '' @ n @ '' internal balance inconsistency''))
            else createLiquidity env n (\<lambda>l. l\<lparr>l_internalBalance := amount\<rparr>))
       | Some l \<Rightarrow>
           (if op = Subtract \<and> l_internalBalance l < amount
            then throwM (BadRequest (''Company '' @ n @ '' internal balance inconsistency''))
            else updLiquidity (\<lambda>k. l_id k = l_id l)
              (\<lambda>k. k\<lparr>l_internalBalance := (if op = Add then l_internalBalance k + amount
                                            else l_internalBalance k - amount)\<rparr>))))"

text \<open>The calls without a transaction client refresh the cache when they wrote.\<close>

definition reserveLiquidity_direct :: "env \<Rightarrow> string \<Rightarrow> int \<Rightarrow> bool sysm" where
  "reserveLiquidity_direct env currency amount =
     bindM (dbM (reserveLiquidity currency amount)) (\<lambda>reserved.
       thenM (whenM reserved (sync_quietly env currency)) (returnM reserved))"

definition releaseLiquidity_direct :: "env \<Rightarrow> string \<Rightarrow> int \<Rightarrow> unit sysm" where
  "releaseLiquidity_direct env currency amount =
     thenM (dbM (releaseLiquidity currency amount))
       (whenM (amount > 0) (sync_quietly env currency))"


section \<open>One wallet row\<close>

definition w_reserve :: "int \<Rightarrow> wallet \<Rightarrow> wallet option" where
  "w_reserve a w = (if w_baseBalance w - w_reservedBalance w \<ge> a
     then Some (w\<lparr>w_reservedBalance := w_reservedBalance w + a\<rparr>) else None)"

definition w_release :: "int \<Rightarrow> wallet \<Rightarrow> wallet option" where
  "w_release a w = (if w_reservedBalance w \<ge> a
     then Some (w\<lparr>w_reservedBalance := w_reservedBalance w - a\<rparr>) else None)"

text \<open>The debit of a confirmed withdrawal (\<^verbatim>\<open>withdrawal.handler.ts\<close>) and the credit of a deposit.\<close>

definition w_settle :: "int \<Rightarrow> wallet \<Rightarrow> wallet option" where
  "w_settle a w = (if w_baseBalance w \<ge> a \<and> w_reservedBalance w \<ge> a
     then Some (w\<lparr>w_baseBalance := w_baseBalance w - a,
                  w_reservedBalance := w_reservedBalance w - a\<rparr>) else None)"

definition w_credit :: "int \<Rightarrow> wallet \<Rightarrow> wallet" where
  "w_credit a w = w\<lparr>w_baseBalance := w_baseBalance w + a\<rparr>"

interpretation wallet_account: account
  w_baseBalance w_reservedBalance w_reserve w_release w_settle w_credit
  by unfold_locales
    (auto simp: w_reserve_def w_release_def w_settle_def w_credit_def split: if_splits)

section \<open>TransactionService\<close>

definition getQuidaxUserId :: "string \<Rightarrow> string dbm" where
  "getQuidaxUserId userId =
     bindM (getM (user_by_id userId)) (\<lambda>u.
       case u of
         None \<Rightarrow> throwM (BadRequest ''Quidax account not linked for this user'')
       | Some v \<Rightarrow>
           (case u_quidaxAccountId v of
              None \<Rightarrow> throwM (BadRequest ''Quidax account not linked for this user'')
            | Some q \<Rightarrow> (if q = [] then throwM (BadRequest ''Quidax account not linked for this user'')
                         else returnM q)))"

text \<open>
  The last argument of \<open>reserveBalance\<close> and \<open>releaseBalance\<close> is optional in the code:
  \<open>None\<close> is \<^verbatim>\<open>undefined\<close>, \<open>Some None\<close> is \<^verbatim>\<open>null\<close>.
\<close>

definition network_matches :: "string option option \<Rightarrow> wallet \<Rightarrow> bool" where
  "network_matches n w \<longleftrightarrow> (case n of None \<Rightarrow> True | Some x \<Rightarrow> w_defaultNetwork w = x)"

definition reserveBalance :: "string \<Rightarrow> string \<Rightarrow> int \<Rightarrow> string option option \<Rightarrow> unit dbm" where
  "reserveBalance userId currency amount network =
     bindM (getM (wallet_for userId currency)) (\<lambda>r.
     bindM (someM r (BadRequest (currency @ '' wallet not found''))) (\<lambda>wallet.
     thenM (requireM (network_matches network wallet)
              (BadRequest (currency @ '' wallet network changed. Please request a new quote.'')))
     (bindM (sqlWallets (\<lambda>w. w_id w = w_id wallet) (w_reserve amount)) (\<lambda>result.
        requireM (result \<noteq> 0) (BadRequest (''Insufficient '' @ currency @ '' balance''))))))"

definition releaseBalance :: "string \<Rightarrow> string \<Rightarrow> int \<Rightarrow> string option option \<Rightarrow> unit dbm" where
  "releaseBalance userId currency amount network =
     bindM (getM (wallet_for userId currency)) (\<lambda>r.
     bindM (someM r (BadRequest (currency @ '' wallet not found''))) (\<lambda>wallet.
     thenM (requireM (network_matches network wallet)
              (BadRequest (currency @ '' wallet network changed. Please retry this operation.'')))
     (bindM (sqlWallets (\<lambda>w. w_id w = w_id wallet) (w_release amount)) (\<lambda>result.
        requireM (result \<noteq> 0) (BadRequest ''Reserved balance inconsistency'')))))"

definition QUOTE_COOLDOWN_SECONDS :: int where
  "QUOTE_COOLDOWN_SECONDS = 10"

text \<open>\<^verbatim>\<open>parseInt(s, 10)\<close> of a string; \<open>None\<close> is \<^verbatim>\<open>NaN\<close>.\<close>

definition parse_int :: "string \<Rightarrow> int option" where
  "parse_int s =
     (let t = dropWhile is_space s;
          neg = (t \<noteq> [] \<and> hd t = CHR ''-'');
          r = (if t \<noteq> [] \<and> (hd t = CHR ''-'' \<or> hd t = CHR ''+'') then tl t else t);
          ds = takeWhile is_digit r
      in if ds = [] then None
         else Some (if neg then - int (digits_nat ds) else int (digits_nat ds)))"

definition enforceConfirmationCooldown :: "env \<Rightarrow> string \<Rightarrow> unit sysm" where
  "enforceConfirmationCooldown env userId =
     bindM (tempGet env (''confirmation:cooldown:'' @ userId)) (\<lambda>v.
       case v of
         Some (TFlag lastStr) \<Rightarrow>
           (case parse_int lastStr of
              None \<Rightarrow> returnM ()
            | Some lastTime \<Rightarrow>
                (let elapsed = e_now env - lastTime;
                     remaining = - ((elapsed - QUOTE_COOLDOWN_SECONDS * 1000) div 1000)
                 in requireM (lastStr = [] \<or> elapsed \<ge> QUOTE_COOLDOWN_SECONDS * 1000)
                      (BadRequest (''Please wait '' @ show_int remaining @ '' second'' @
                         (if remaining > 1 then ''s'' else []) @
                         '' before making another confirmation.''))))
       | _ \<Rightarrow> returnM ())"

text \<open>
  The slippage check: the ticker answers \<open>single\<close> or, failing that, \<open>fallback\<close>. The prices
  are compared exactly, as decimal.js does; a string it rejects throws.
\<close>

definition checkPriceSlippage :: "env \<Rightarrow> string option \<Rightarrow> string option \<Rightarrow> string \<Rightarrow> bool \<Rightarrow> error + unit" where
  "checkPriceSlippage env single fallback quotedPrice isBuy =
     (let current =
        (case single of
           Some p \<Rightarrow> (if p = [] then None else Some p)
         | None \<Rightarrow> None);
          fb = (case fallback of
                  Some p \<Rightarrow> (if p = [] then None
                     else (case e_decValue env p of Some v \<Rightarrow> (if v > 0 then Some p else None) | None \<Rightarrow> Some p))
                | None \<Rightarrow> None)
      in case (case current of Some p \<Rightarrow> Some p | None \<Rightarrow> fb) of
           None \<Rightarrow> Inl (BadRequest ''Unable to fetch current market price for slippage protection'')
         | Some p \<Rightarrow>
             (case (e_decValue env p, e_decValue env quotedPrice) of
                (Some c, Some q) \<Rightarrow>
                  (if isBuy then
                     (if c > q then Inl (BadRequest ''Price has slipped beyond the guaranteed rate.'') else Inr ())
                   else
                     (if c < q then Inl (BadRequest ''Price has slipped below the guaranteed rate.'') else Inr ()))
              | _ \<Rightarrow> Inl (PlainError ''DecimalError: Invalid argument'')))"

definition validateNetworkExists :: "string \<Rightarrow> string \<Rightarrow> string option \<Rightarrow> unit dbm" where
  "validateNetworkExists userId currency network =
     (case network of
        None \<Rightarrow> returnM ()
      | Some n \<Rightarrow>
          (if n = [] then returnM ()
           else bindM (getM (\<lambda>d. list_ex (\<lambda>a.
                  list_ex (\<lambda>w. w_id w = pa_walletId a \<and> w_userId w = userId \<and> ieq (w_currency w) currency)
                    (d_wallets d)
                  \<and> (case pa_network a of None \<Rightarrow> False | Some k \<Rightarrow> ieq k n)) (d_paymentAddresses d))) (\<lambda>exists.
             requireM exists (BadRequest (''Network '' @ n @ '' is not supported for '' @ currency @ ''.'')))))"

text \<open>
  \<open>txParams\<close> is \<^verbatim>\<open>CreateTransactionParams\<close> (\<^verbatim>\<open>types.ts\<close>). \<open>createTransaction\<close> writes exactly
  the columns the code lists: the totals of the parameters are not among them.
\<close>

record txParams =
  p_userId :: string
  p_receiverWalletAddress :: "string option"
  p_senderWalletAddress :: "string option"
  p_paymentType :: "paymentType option"
  p_paymentMetadata :: meta
  p_platformWalletAddress :: "string option"
  p_transactionUniqueId :: string
  p_network :: "string option"
  p_currency :: string
  p_cryptoAmountBase :: "int option"
  p_fiatAmountBase :: int
  p_cryptoAmountOriginal :: "string option"
  p_fiatAmountOriginal :: "string option"
  p_platformFeeBase :: "int option"
  p_platformFeeOriginal :: "string option"
  p_bufferAmountBase :: "int option"
  p_bufferAmountOriginal :: "string option"
  p_totalAmountSentBase :: "int option"
  p_totalAmountSentOriginal :: "string option"
  p_transactionType :: txType
  p_transactionContext :: txContext
  p_status :: "txStatus option"

definition transaction_of_params :: "string \<Rightarrow> txParams \<Rightarrow> transaction" where
  "transaction_of_params i p =
     (new_transaction i (p_userId p) (p_transactionUniqueId p) (p_currency p) (p_transactionType p)
        (p_transactionContext p))\<lparr>
       t_receiverWalletAddress := p_receiverWalletAddress p,
       t_senderWalletAddress := p_senderWalletAddress p,
       t_paymentType := p_paymentType p,
       t_meta := p_paymentMetadata p,
       t_platformWalletAddress := p_platformWalletAddress p,
       t_network := p_network p,
       t_cryptoAmountBase := p_cryptoAmountBase p,
       t_fiatAmountBase := p_fiatAmountBase p,
       t_cryptoAmountOriginal := p_cryptoAmountOriginal p,
       t_fiatAmountOriginal := p_fiatAmountOriginal p,
       t_platformFeeBase := p_platformFeeBase p,
       t_bufferAmountBase := p_bufferAmountBase p,
       t_platformFeeOriginal := p_platformFeeOriginal p,
       t_bufferAmountOriginal := p_bufferAmountOriginal p,
       t_status := (case p_status p of None \<Rightarrow> TxPENDING | Some x \<Rightarrow> x)\<rparr>"

definition createTransaction :: "env \<Rightarrow> txParams \<Rightarrow> transaction dbm" where
  "createTransaction env p =
     bindM (freshM env) (\<lambda>i.
     thenM (insertTransaction (transaction_of_params i p)) (returnM (transaction_of_params i p)))"


section \<open>Solvency of the ledger operations\<close>

lemma liquidity_ok_account: "liquidity_ok l \<longleftrightarrow> liquidity_account.ok l"
  by (simp add: liquidity_ok_def liquidity_account.ok_def)

lemma wallet_ok_account: "wallet_ok w \<longleftrightarrow> wallet_account.ok w"
  by (simp add: wallet_ok_def wallet_account.ok_def)

lemma l_reduce_ok: "liquidity_ok l \<Longrightarrow> l_reduce a l = Some l' \<Longrightarrow> liquidity_ok l'"
  by (auto simp: l_reduce_def liquidity_ok_def split: if_splits)

lemma solvent_createLiquidity:
  assumes "\<And>i. liquidity_ok (f (new_liquidity i n))"
  shows "preserves solvent (createLiquidity env n f)"
  unfolding createLiquidity_def using assms
  by (intro preserves_intros preserves_modify) (simp add: solvent_def)

lemma solvent_reserveLiquidity [preserves_intros]:
  "0 \<le> a \<Longrightarrow> preserves solvent (reserveLiquidity currency a)"
  unfolding reserveLiquidity_def
  by (intro preserves_intros solvent_sqlLiquidity)
     (simp add: liquidity_ok_account liquidity_account.ok_reserve)

lemma solvent_releaseLiquidity [preserves_intros]:
  "preserves solvent (releaseLiquidity currency a)"
  unfolding releaseLiquidity_def
  by (intro preserves_intros solvent_sqlLiquidity)
     (auto simp: liquidity_ok_account intro: liquidity_account.ok_release [where a = a])

lemma solvent_consumeReservedLiquidity [preserves_intros]:
  "preserves solvent (consumeReservedLiquidity currency a)"
  unfolding consumeReservedLiquidity_def
  by (intro preserves_intros solvent_sqlLiquidity)
     (simp add: liquidity_ok_account liquidity_account.ok_settle)

lemma solvent_reduceLiquidity [preserves_intros]: "preserves solvent (reduceLiquidity currency a)"
  unfolding reduceLiquidity_def
  by (intro preserves_intros solvent_sqlLiquidity) (rule l_reduce_ok)

lemma solvent_addLiquidity [preserves_intros]:
  "0 \<le> a \<Longrightarrow> preserves solvent (addLiquidity env currency a)"
  unfolding addLiquidity_def
  by (intro preserves_intros solvent_updLiquidity solvent_createLiquidity)
     (simp_all add: liquidity_ok_account liquidity_account.ok_credit, simp add: liquidity_account.ok_def new_liquidity_def)

lemma solvent_updateInternalBalance [preserves_intros]:
  "preserves solvent (updateInternalBalance env currency a op)"
  unfolding updateInternalBalance_def
  by (intro preserves_intros solvent_updLiquidity solvent_createLiquidity)
     (simp_all add: liquidity_ok_def new_liquidity_def)

lemma solvent_reserveBalance [preserves_intros]:
  "0 \<le> a \<Longrightarrow> preserves solvent (reserveBalance userId currency a network)"
  unfolding reserveBalance_def
  by (intro preserves_intros solvent_sqlWallets)
     (simp add: wallet_ok_account wallet_account.ok_reserve)

lemma solvent_releaseBalance [preserves_intros]:
  "0 \<le> a \<Longrightarrow> preserves solvent (releaseBalance userId currency a network)"
  unfolding releaseBalance_def
  by (intro preserves_intros solvent_sqlWallets)
     (simp add: wallet_ok_account wallet_account.ok_release)

lemma solvent_createTransaction [preserves_intros]: "preserves solvent (createTransaction env p)"
  unfolding createTransaction_def by (intro preserves_intros)

lemma setCache_on_db [preserves_intros]: "preserves (on_db I) (setCache env c data)"
  by (rule preservesI) (simp add: setCache_def wp_simps on_db_def)

lemma sync_on_db [preserves_intros]:
  "preserves (on_db I) (syncCurrencyToCache env c)"
  "preserves (on_db I) (syncAllToCache env)"
  "preserves (on_db I) (sync_quietly env c)"
  unfolding sync_quietly_def syncCurrencyToCache_def syncAllToCache_def
  by (intro preserves_intros preserves_for)+

section \<open>Properties of the ledgers\<close>

lemma reserveBalance_eq:
  "reserveBalance userId currency a network d =
     (case wallet_for userId currency d of
        None \<Rightarrow> (Inl (BadRequest (currency @ '' wallet not found'')), d)
      | Some w \<Rightarrow>
          if \<not> network_matches network w
          then (Inl (BadRequest (currency @ '' wallet network changed. Please request a new quote.'')), d)
          else if guarded_count (\<lambda>v. w_id v = w_id w) (w_reserve a) (d_wallets d) = 0
          then (Inl (BadRequest (''Insufficient '' @ currency @ '' balance'')), d)
          else (Inr (), d\<lparr>d_wallets := guarded_update (\<lambda>v. w_id v = w_id w) (w_reserve a) (d_wallets d)\<rparr>))"
  by (auto simp: reserveBalance_def sqlWallets_def comp_defs guarded_update_none split: option.splits)

lemma releaseBalance_eq:
  "releaseBalance userId currency a network d =
     (case wallet_for userId currency d of
        None \<Rightarrow> (Inl (BadRequest (currency @ '' wallet not found'')), d)
      | Some w \<Rightarrow>
          if \<not> network_matches network w
          then (Inl (BadRequest (currency @ '' wallet network changed. Please retry this operation.'')), d)
          else if guarded_count (\<lambda>v. w_id v = w_id w) (w_release a) (d_wallets d) = 0
          then (Inl (BadRequest ''Reserved balance inconsistency''), d)
          else (Inr (), d\<lparr>d_wallets := guarded_update (\<lambda>v. w_id v = w_id w) (w_release a) (d_wallets d)\<rparr>))"
  by (auto simp: releaseBalance_def sqlWallets_def comp_defs guarded_update_none split: option.splits)

lemma balance_reservation_undone:
  assumes "solvent d" and "distinct (map w_id (d_wallets d))"
  shows "case reserveBalance userId currency a network d of
      (Inr _, d') \<Rightarrow> releaseBalance userId currency a network d' = (Inr (), d)
    | (Inl e, d') \<Rightarrow> d' = d"
proof (cases "wallet_for userId currency d")
  case None
  then show ?thesis by (simp add: reserveBalance_eq)
next
  case (Some w)
  let ?key = "\<lambda>v. w_id v = w_id w"
  let ?d' = "d\<lparr>d_wallets := guarded_update ?key (w_reserve a) (d_wallets d)\<rparr>"
  have f: "wallet_for userId currency ?d' = Some (case w_reserve a w of None \<Rightarrow> w | Some w' \<Rightarrow> w')"
  proof -
    have "(w_userId r' = userId \<and> ieq (w_currency r') currency) = (w_userId r = userId \<and> ieq (w_currency r) currency)"
      if "w_reserve a r = Some r'" for r r'
      using that by (auto simp: w_reserve_def split: if_splits)
    from find_guarded_update [of "w_reserve a", OF this] Some show ?thesis
      by (simp add: wallet_for_def)
  qed
  have rel: "w_release a r' = Some r" if "r \<in> set (d_wallets d)" "w_reserve a r = Some r'" for r r'
    using that assms(1) wallet_account.release_after_reserve [of r a r']
    by (simp add: solvent_def list_all_iff wallet_ok_account)
  have idp: "w_id r' = w_id r" if "w_reserve a r = Some r'" for r r'
    using that by (auto simp: w_reserve_def split: if_splits)
  have undo: "guarded_update ?key (w_release a) (d_wallets ?d') = d_wallets d
      \<and> guarded_count ?key (w_release a) (d_wallets ?d') \<noteq> 0"
    if "guarded_count ?key (w_reserve a) (d_wallets d) \<noteq> 0"
    using guarded_update_undo [OF assms(2) idp rel that] by simp
  have ids: "w_id (case w_reserve a w of None \<Rightarrow> w | Some w' \<Rightarrow> w') = w_id w"
    and net: "network_matches network (case w_reserve a w of None \<Rightarrow> w | Some w' \<Rightarrow> w') = network_matches network w"
    by (auto simp: w_reserve_def network_matches_def split: option.splits)
  show ?thesis
  proof (cases "network_matches network w \<and> guarded_count ?key (w_reserve a) (d_wallets d) \<noteq> 0")
    case True
    then have r: "reserveBalance userId currency a network d = (Inr (), ?d')"
      by (simp add: reserveBalance_eq Some)
    from True undo have "guarded_update ?key (w_release a) (d_wallets ?d') = d_wallets d"
      and "guarded_count ?key (w_release a) (d_wallets ?d') \<noteq> 0" by simp_all
    moreover obtain w' where w': "wallet_for userId currency ?d' = Some w'" "w_id w' = w_id w"
      "network_matches network w'" using f ids net True by metis
    ultimately have "releaseBalance userId currency a network ?d' = (Inr (), d)"
      by (simp add: releaseBalance_eq)
    with r show ?thesis by simp
  qed (auto simp: reserveBalance_eq Some)
qed

text \<open>A reservation on a user wallet can be undone exactly: whenever \<open>reserveBalance\<close> succeeds
  on a solvent database, \<open>releaseBalance\<close> of the same amount succeeds next and restores the
  database as it was; when it fails, it has changed nothing.\<close>

theorem reserve_release_balance:
  assumes "solvent d" and "distinct (map w_id (d_wallets d))"
  shows "case reserveBalance userId currency a network d of
      (Inr _, d') \<Rightarrow> releaseBalance userId currency a network d' = (Inr (), d)
    | (Inl e, d') \<Rightarrow> d' = d"
  by (rule balance_reservation_undone [OF assms])

text \<open>A small database and environment for the witnesses.\<close>

definition db_empty :: db where
  "db_empty = \<lparr>d_wallets = [], d_liquidity = [], d_transactions = [], d_withdrawals = [],
     d_companyWithdrawals = [], d_deposits = [], d_swaps = [], d_vaults = [], d_autoStacks = [],
     d_users = [], d_paymentAddresses = [], d_cryptoCurrencies = [], d_webhooks = [], d_orders = [],
     d_failedLiquidity = [], d_billPayments = [], d_loans = [], d_bankAccounts = [], d_paymentCards = [], d_seq = 0\<rparr>"

definition wallet_example :: wallet where
  "wallet_example = \<lparr>w_id = ''w1'', w_quidaxWalletId = ''q1'', w_userId = ''u1'', w_currency = ''USDT'',
     w_currencyId = Some ''c1'', w_isCrypto = True, w_baseBalance = 100, w_reservedBalance = 20,
     w_lockedAmount = 0, w_loanCollateralAmount = 0, w_stackedAmount = 0, w_totalStackedInterest = 0, w_totalLockedInterest = 0,
     w_originalBalance = ''0'', w_defaultNetwork = Some ''trc20''\<rparr>"

definition liquidity_example :: liquidity where
  "liquidity_example = (new_liquidity ''l1'' ''USDT'')\<lparr>l_totalBalance := 500, l_reservedBalance := 50,
     l_internalBalance := 100, l_totalLockedPrincipal := 300\<rparr>"

definition db_example :: db where
  "db_example = db_empty\<lparr>d_wallets := [wallet_example], d_liquidity := [liquidity_example],
     d_users := [\<lparr>u_id = ''u1'', u_quidaxAccountId = Some ''q9'', u_pin = Some ''pin'', u_amountReceived = 0,
       u_amountSent = 0, u_amountBought = 0, u_amountSold = 0, u_email = ''u@x''\<rparr>]\<rparr>"

theorem reserve_release_balance_witness:
  "case reserveBalance ''u1'' ''usdt'' 30 None db_example of
      (Inr _, d') \<Rightarrow> releaseBalance ''u1'' ''usdt'' 30 None d' = (Inr (), db_example)
    | (Inl e, d') \<Rightarrow> d' = db_example"
  by (rule reserve_release_balance)
    (simp_all add: db_example_def db_empty_def wallet_example_def liquidity_example_def
      new_liquidity_def solvent_def wallet_ok_def liquidity_ok_def)

lemma verifyCurrency_ieq: "verifyCurrency c = Inr n \<Longrightarrow> to_lower n = to_lower c"
  by (auto simp: verifyCurrency_def Let_def split: if_splits)

lemma reserveLiquidity_eq:
  "reserveLiquidity currency a d =
     (case verifyCurrency currency of
        Inl e \<Rightarrow> (Inl e, d)
      | Inr n \<Rightarrow> (Inr (guarded_count (l_key n) (l_reserve a) (d_liquidity d) > 0),
          d\<lparr>d_liquidity := guarded_update (l_key n) (l_reserve a) (d_liquidity d)\<rparr>))"
  by (simp add: reserveLiquidity_def sqlLiquidity_def comp_defs split: sum.splits)

lemma releaseLiquidity_eq:
  "releaseLiquidity currency a d =
     (case verifyCurrency currency of
        Inl e \<Rightarrow> (Inl e, d)
      | Inr n \<Rightarrow>
          if a \<le> 0 then (Inr (), d)
          else if guarded_count (l_key n) (l_release a) (d_liquidity d) = 0
          then (Inl (BadRequest ''Reserved company liquidity inconsistency''), d)
          else (Inr (), d\<lparr>d_liquidity := guarded_update (l_key n) (l_release a) (d_liquidity d)\<rparr>))"
  by (auto simp: releaseLiquidity_def sqlLiquidity_def comp_defs guarded_update_none split: sum.splits)

lemma liquidity_reservation_undone:
  assumes "solvent d" and "distinct (map (\<lambda>l. to_lower (l_currency l)) (d_liquidity d))" and "0 < a"
    and "reserveLiquidity currency a d = (Inr b, d')"
  shows "if b then releaseLiquidity currency a d' = (Inr (), d) else d' = d"
proof -
  obtain n where n: "verifyCurrency currency = Inr n"
    using assms(4) by (auto simp: reserveLiquidity_eq split: sum.splits)
  let ?k = "\<lambda>l. to_lower (l_currency l)"
  have key: "l_key n = (\<lambda>l. ?k l = to_lower n)" by (auto simp: l_key_def ieq_def)
  have b: "b \<longleftrightarrow> guarded_count (l_key n) (l_reserve a) (d_liquidity d) \<noteq> 0"
    and d': "d' = d\<lparr>d_liquidity := guarded_update (l_key n) (l_reserve a) (d_liquidity d)\<rparr>"
    using assms(4) by (auto simp: reserveLiquidity_eq n)
  show ?thesis
  proof (cases b)
    case False
    with b d' show ?thesis by (simp add: guarded_update_none)
  next
    case True
    have idp: "?k r' = ?k r" if "l_reserve a r = Some r'" for r r'
      using that by (auto simp: l_reserve_def split: if_splits)
    have rel: "l_release a r' = Some r" if "r \<in> set (d_liquidity d)" "l_reserve a r = Some r'" for r r'
      using that assms(1) liquidity_account.release_after_reserve [of r a r']
      by (simp add: solvent_def list_all_iff liquidity_ok_account)
    have "guarded_update (l_key n) (l_release a) (d_liquidity d') = d_liquidity d
        \<and> guarded_count (l_key n) (l_release a) (d_liquidity d') \<noteq> 0"
      using guarded_update_undo [OF assms(2) idp rel, where k = "to_lower n"] True b unfolding d' key by simp
    with True d' assms(3) show ?thesis by (simp add: releaseLiquidity_eq n)
  qed
qed

text \<open>A reservation of company liquidity can be undone exactly, and a refused one
  (\<open>False\<close>) has changed nothing.\<close>

theorem reserve_release_liquidity:
  assumes "solvent d" and "distinct (map (\<lambda>l. to_lower (l_currency l)) (d_liquidity d))" and "0 < a"
    and "reserveLiquidity currency a d = (Inr b, d')"
  shows "if b then releaseLiquidity currency a d' = (Inr (), d) else d' = d"
  by (rule liquidity_reservation_undone [OF assms])

theorem reserve_release_liquidity_witness:
  "\<exists>d'. reserveLiquidity ''USDT'' 30 db_example = (Inr True, d')
     \<and> releaseLiquidity ''USDT'' 30 d' = (Inr (), db_example)"
proof -
  let ?d' = "db_example\<lparr>d_liquidity := [liquidity_example\<lparr>l_reservedBalance := 80\<rparr>]\<rparr>"
  have r: "reserveLiquidity ''USDT'' 30 db_example = (Inr True, ?d')"
    by (simp add: reserveLiquidity_eq verifyCurrency_def ALLOWED_CURRENCIES_def l_key_def ieq_def
        guarded_count_def guarded_update_def l_reserve_def db_example_def liquidity_example_def
        new_liquidity_def eval_simps)
  have "if True then releaseLiquidity ''USDT'' 30 ?d' = (Inr (), db_example) else ?d' = db_example"
    by (rule reserve_release_liquidity [OF _ _ _ r])
      (simp_all add: db_example_def db_empty_def wallet_example_def liquidity_example_def
        new_liquidity_def solvent_def wallet_ok_def liquidity_ok_def)
  with r show ?thesis by auto
qed

text \<open>C34: the books of a user wallet balance: along any history in which every release or
  settlement is of an amount that is held, none of these updates is ever refused, the
  reserved balance stays the sum of the amounts held, and never exceeds the balance.\<close>

theorem wallet_holds_balance:
  assumes "wallet_ok w" "w_reservedBalance w = 0" "list_all op_nonneg ops"
  shows "\<exists>w' hs. run_holds w_reserve w_release w_settle w_credit ops (w, []) = Some (w', hs)
     \<and> w_reservedBalance w' = held hs \<and> held hs \<le> w_baseBalance w'"
proof -
  have "wallet_account.balanced (w, [])"
    using assms by (simp add: wallet_account.balanced_def wallet_ok_def)
  from wallet_account.run_holds_balanced [OF this assms(3)] show ?thesis
    by (auto simp: wallet_account.balanced_def)
qed

theorem wallet_holds_balance_witness:
  "\<exists>w' hs. run_holds w_reserve w_release w_settle w_credit
       [Hold (1::nat) 40, Hold 2 50, Hold 3 30, Drop 1, Credit 5, Pay 2]
       (wallet_example\<lparr>w_reservedBalance := 0\<rparr>, []) = Some (w', hs)
     \<and> w_reservedBalance w' = held hs \<and> held hs \<le> w_baseBalance w'"
  by (rule wallet_holds_balance) (simp_all add: wallet_ok_def wallet_example_def)

text \<open>The same for a row of company liquidity, under \<open>reserveLiquidity\<close>,
  \<open>releaseLiquidity\<close>, \<open>consumeReservedLiquidity\<close> and \<open>addLiquidity\<close>.\<close>

theorem liquidity_holds_balance:
  assumes "liquidity_ok l" "l_reservedBalance l = 0" "list_all op_nonneg ops"
  shows "\<exists>l' hs. run_holds l_reserve l_release l_consume l_add ops (l, []) = Some (l', hs)
     \<and> l_reservedBalance l' = held hs \<and> held hs \<le> l_totalBalance l'"
proof -
  have "liquidity_account.balanced (l, [])"
    using assms by (simp add: liquidity_account.balanced_def liquidity_ok_def)
  from liquidity_account.run_holds_balanced [OF this assms(3)] show ?thesis
    by (auto simp: liquidity_account.balanced_def)
qed

theorem liquidity_holds_balance_witness:
  "\<exists>l' hs. run_holds l_reserve l_release l_consume l_add [Hold (1::nat) 40, Credit 10, Pay 1]
       (liquidity_example\<lparr>l_reservedBalance := 0\<rparr>, []) = Some (l', hs)
     \<and> l_reservedBalance l' = held hs \<and> held hs \<le> l_totalBalance l'"
  by (rule liquidity_holds_balance) (simp_all add: liquidity_ok_def liquidity_example_def new_liquidity_def)

lemma setCache_eq:
  "setCache env c data s = (Inr (), s\<lparr>
     s_liqCache := (live_cache env s)(to_upper c \<mapsto> data),
     s_liqExpiry := Some (e_now env + CACHE_TTL_SECONDS * 1000)\<rparr>)"
  by (simp add: setCache_def modifyM_def)

lemma syncCurrencyToCache_eq:
  assumes "verifyCurrency currency = Inr n" and "liquidity_for n (s_db s) = Some l"
  shows "syncCurrencyToCache env currency s = setCache env (l_currency l) (cache_of_row env l) s"
  using assms by (simp add: syncCurrencyToCache_def bindM_def liftM_def getM_def returnM_def)

text \<open>For sixty seconds after \<open>syncCurrencyToCache\<close> the cached reading of the available
  liquidity is the reading of the database at that moment, whatever the clock: the strings
  in Redis carry the row. The hypothesis on \<open>e_decStr\<close> is that decimal.js prints the four
  columns without an exponent, as it does below 10^21.\<close>

theorem cache_read_coherent:
  assumes "verifyCurrency currency = Inr n" and "liquidity_for n (s_db s) = Some l"
    and "list_all (\<lambda>i. parse_bigint (e_decStr env i) = Inr i)
      [l_totalBalance l, l_reservedBalance l, l_totalLockedPrincipal l, l_totalAccruedLockedInterest l]"
    and "t < e_now env + 60000"
  shows "fst (getAvailableLiquidity_direct (env\<lparr>e_now := t\<rparr>) currency (snd (syncCurrencyToCache env currency s)))
    = fst (getAvailableLiquidity currency (s_db s))"
proof -
  have "ieq (l_currency l) n"
    using find_Some_in [OF assms(2) [unfolded liquidity_for_def]] by simp
  then have key: "to_upper (l_currency l) = to_upper n"
    unfolding ieq_def by (rule to_upper_cong)
  have sync: "snd (syncCurrencyToCache env currency s)
      = s\<lparr>s_liqCache := (live_cache env s)(to_upper n \<mapsto> cache_of_row env l),
          s_liqExpiry := Some (e_now env + 60000)\<rparr>"
    by (simp add: syncCurrencyToCache_eq [OF assms(1,2)] setCache_eq key CACHE_TTL_SECONDS_def)
  have avail: "cached_available (cache_of_row env l) = Inr (available_of l)"
    using assms(3) by (simp add: cached_available_def cache_of_row_def available_of_def)
  show ?thesis
    using assms(1,2,4)
    by (simp add: getAvailableLiquidity_direct_def getAvailableLiquidity_def getCache_def live_cache_def
        live_def comp_defs sync avail)
qed

text \<open>The environment of the witnesses: decimal.js prints the small numbers they use plainly.\<close>

definition env_example :: env where
  "env_example = \<lparr>e_cv = cv_example, e_cuid = show_nat, e_now = 1000, e_decStr = show_int,
     e_decValue = (\<lambda>_. None), e_mulFixed2 = (\<lambda>_ _. None), e_pctFloor = (\<lambda>_ _. None),
     e_txFault = (\<lambda>_. None)\<rparr>"

definition sys_example :: sys where
  "sys_example = \<lparr>s_db = db_example, s_temp = (\<lambda>_. None), s_liqCache = (\<lambda>_. None), s_liqExpiry = None,
     s_calls = []\<rparr>"

lemma parse_show_int [simp]: "parse_bigint (show_int i) = Inr i"
proof -
  have d: "hd (show_nat n) \<noteq> CHR ''-'' \<and> hd (show_nat n) \<noteq> CHR ''+''" for n
  proof -
    have "is_digit (hd (show_nat n))" using show_nat_digits [of n] by (cases "show_nat n") auto
    then show ?thesis by (auto simp: is_digit_def)
  qed
  have "list_all amount_char (show_int i)"
    using show_nat_digits by (auto simp: show_int_def amount_char_def list_all_iff)
  then have "trim (show_int i) = show_int i" by (rule trim_amount)
  then show ?thesis using d by (auto simp: parse_bigint_def Let_def show_int_def)
qed

theorem cache_read_coherent_witness:
  "fst (getAvailableLiquidity_direct (env_example\<lparr>e_now := 60999\<rparr>) ''usdt''
       (snd (syncCurrencyToCache env_example ''usdt'' sys_example)))
   = fst (getAvailableLiquidity ''usdt'' (s_db sys_example))"
  by (rule cache_read_coherent [where n = "''USDT''" and l = liquidity_example])
    (simp_all add: verifyCurrency_def ALLOWED_CURRENCIES_def sys_example_def env_example_def db_example_def
      liquidity_for_def ieq_def liquidity_example_def new_liquidity_def parse_bigint_def eval_simps)

text \<open>The guard of \<open>reserveLiquidity\<close> does not see what \<open>getAvailableLiquidity\<close> does: it
  accepts any amount up to the available liquidity plus the principal and the interest
  locked for users.\<close>

theorem reserve_guard_ignores_locked:
  "l_reserve a l \<noteq> None \<longleftrightarrow> a \<le> available_of l + l_totalLockedPrincipal l + l_totalAccruedLockedInterest l"
  by (auto simp: l_reserve_def available_of_def)

section \<open>The books: what users own against what the company records\<close>

text \<open>
  \<open>owed c\<close> is the sum of the user balances in a currency, \<open>internal c\<close> the internal balance
  the company records for it. \<open>keys_ok\<close> are the unique keys of the two tables.
\<close>

definition owed :: "string \<Rightarrow> db \<Rightarrow> int" where
  "owed c d = sum_list (map w_baseBalance (filter (\<lambda>w. ieq (w_currency w) c) (d_wallets d)))"

definition internal :: "string \<Rightarrow> db \<Rightarrow> int" where
  "internal c d = sum_list (map l_internalBalance (filter (\<lambda>l. ieq (l_currency l) c) (d_liquidity d)))"

definition keys_ok :: "db \<Rightarrow> bool" where
  "keys_ok d \<longleftrightarrow> distinct (map w_id (d_wallets d)) \<and> distinct (map l_id (d_liquidity d))
     \<and> distinct (map (\<lambda>l. to_lower (l_currency l)) (d_liquidity d))"

lemma sum_update_where:
  assumes "distinct (map ident rows)" "r \<in> set rows" "ident r = k"
    and "\<And>x. P (f x) = P x" "val (f r) = val r + a"
  shows "sum_list (map val (filter P (update_where (\<lambda>x. ident x = k) f rows)))
    = sum_list (map val (filter P rows)) + (if P r then a else (0::int))"
  using assms
proof (induction rows)
  case (Cons x rows)
  have skip: "update_where (\<lambda>x. ident x = k) f rows = rows" if "\<forall>x \<in> set rows. ident x \<noteq> k" for rows
    using that by (auto simp: update_where_def intro: map_idI)
  show ?case
  proof (cases "x = r")
    case True
    with Cons.prems have "\<forall>y \<in> set rows. ident y \<noteq> k"
      by (metis distinct.simps(2) image_eqI list.set_map list.simps(9))
    with True Cons.prems skip show ?thesis by (simp add: update_where_def)
  next
    case False
    with Cons.prems have "ident x \<noteq> k"
      by (metis distinct.simps(2) image_eqI list.set_map list.simps(9) set_ConsD)
    with False Cons show ?thesis by (simp add: update_where_def)
  qed
qed simp

lemma owed_update:
  assumes "keys_ok d" "w \<in> set (d_wallets d)" "w_id w = i"
    and "\<And>x. w_currency (f x) = w_currency x" "w_baseBalance (f w) = w_baseBalance w + a"
  shows "owed c (d\<lparr>d_wallets := update_where (\<lambda>x. w_id x = i) f (d_wallets d)\<rparr>)
    = owed c d + (if ieq (w_currency w) c then a else 0)"
  using sum_update_where [of w_id "d_wallets d" w i "\<lambda>w. ieq (w_currency w) c" f w_baseBalance a] assms
  by (simp add: owed_def keys_ok_def)

lemma internal_update:
  assumes "distinct (map l_id (d_liquidity d))" "l \<in> set (d_liquidity d)" "l_id l = i"
    and "\<And>x. l_currency (f x) = l_currency x" "l_internalBalance (f l) = l_internalBalance l + a"
  shows "internal c (d\<lparr>d_liquidity := update_where (\<lambda>x. l_id x = i) f (d_liquidity d)\<rparr>)
    = internal c d + (if ieq (l_currency l) c then a else 0)"
  using sum_update_where [of l_id "d_liquidity d" l i "\<lambda>l. ieq (l_currency l) c" f l_internalBalance a] assms
  by (simp add: internal_def)

lemma ieq_trans_lower: "ieq a b \<Longrightarrow> ieq a c \<longleftrightarrow> ieq b c"
  by (simp add: ieq_def)

lemma updateInternalBalance_internal:
  assumes "distinct (map l_id (d_liquidity d))" "updateInternalBalance env currency a op d = (Inr u, d')"
  shows "internal c d' = internal c d + (if ieq currency c then (if op = Add then a else - a) else 0)
    \<and> d_wallets d' = d_wallets d"
proof -
  obtain n where n: "verifyCurrency currency = Inr n"
    using assms(2) by (auto simp: updateInternalBalance_def comp_defs split: sum.splits)
  then have nc: "ieq n c = ieq currency c" using verifyCurrency_ieq [OF n] by (simp add: ieq_def)
  show ?thesis
  proof (cases "liquidity_for n d")
    case None
    then have "op = Add" and "d' = d\<lparr>d_seq := Suc (d_seq d), d_liquidity := d_liquidity d @
        [(new_liquidity (e_cuid env (d_seq d)) n)\<lparr>l_internalBalance := a\<rparr>]\<rparr>"
      using assms(2)
      by (cases op; auto simp: updateInternalBalance_def comp_defs n createLiquidity_def freshM_def split: if_splits)+
    with nc show ?thesis by (simp add: internal_def new_liquidity_def ieq_def)
  next
    case (Some l)
    then have l: "l \<in> set (d_liquidity d)" "ieq (l_currency l) n"
      using find_Some_in by (fastforce simp: liquidity_for_def)+
    have d': "d' = d\<lparr>d_liquidity := update_where (\<lambda>k. l_id k = l_id l)
        (\<lambda>k. k\<lparr>l_internalBalance := (if op = Add then l_internalBalance k + a else l_internalBalance k - a)\<rparr>)
        (d_liquidity d)\<rparr>"
      using assms(2) by (auto simp: updateInternalBalance_def comp_defs n Some updLiquidity_def split: if_splits)
    have "ieq (l_currency l) c = ieq currency c" using l(2) nc by (simp add: ieq_def)
    with internal_update [OF assms(1) l(1) refl, of "\<lambda>k. k\<lparr>l_internalBalance :=
        (if op = Add then l_internalBalance k + a else l_internalBalance k - a)\<rparr>" "if op = Add then a else - a" c]
    show ?thesis by (simp add: d')
  qed
qed

end
