(* ===== verification/Webhook.thy ===== *)
theory Webhook
  imports Ledger
begin

text \<open>
  Delivery of provider events: the controller that accepts them (\<^verbatim>\<open>webhook.controller.ts\<close>), the
  idempotency service in front of the queues (\<^verbatim>\<open>webhook-idempotency.service.ts\<close>) and the
  status of a webhook record.

  The signature check is the result of the provider's library (\<open>sigOk\<close>). A request meets a
  database fault in \<^verbatim>\<open>webhook.create\<close> or not (\<open>fault\<close>), and a fault of the queue when the job is added
  (\<open>queueFault\<close>).
\<close>

section \<open>WebhookIdempotencyService\<close>

definition webhook_by_key :: "string \<Rightarrow> db \<Rightarrow> webhook option" where
  "webhook_by_key k d = List.find (\<lambda>w. wh_idempotencyKey w = k) (d_webhooks d)"

definition webhook_by_id :: "string \<Rightarrow> db \<Rightarrow> webhook option" where
  "webhook_by_id i d = List.find (\<lambda>w. wh_id w = i) (d_webhooks d)"

definition updWebhooks :: "(webhook \<Rightarrow> bool) \<Rightarrow> (webhook \<Rightarrow> webhook) \<Rightarrow> unit dbm" where
  "updWebhooks p f = modifyM (\<lambda>d. d\<lparr>d_webhooks := update_where p f (d_webhooks d)\<rparr>)"

lemma wp_updWebhooks [wp_simps]:
  "wp (updWebhooks p f) Q E d = Q () (d\<lparr>d_webhooks := update_where p f (d_webhooks d)\<rparr>)"
  by (simp add: updWebhooks_def wp_simps)

record webhookEvent =
  ev_id :: string
  ev_provider :: string
  ev_type :: string
  ev_payload :: string
  ev_userId :: "string option"

text \<open>The first read of \<open>ensureUnique\<close>, outside any transaction: \<open>True\<close> when the key is free.\<close>

definition ensure_precheck :: "webhookEvent \<Rightarrow> bool dbm" where
  "ensure_precheck ev = getM (\<lambda>d. webhook_by_key (ev_id ev) d = None)"

definition webhook_row :: "env \<Rightarrow> string \<Rightarrow> webhookEvent \<Rightarrow> webhook" where
  "webhook_row env i ev =
     \<lparr>wh_id = i, wh_provider = ev_provider ev, wh_eventType = ev_type ev,
      wh_idempotencyKey = ev_id ev, wh_payload = ev_payload ev, wh_userId = ev_userId ev,
      wh_isProcessed = False, wh_status = WhPending, wh_failedReason = None,
      wh_isResolved = False, wh_resolvedAt = None, wh_resolutionComment = None,
      wh_processedAt = e_now env, wh_createdAt = e_now env\<rparr>"

text \<open>
  The \<^verbatim>\<open>try\<close> block: \<^verbatim>\<open>webhook.create\<close> under the unique key. A duplicate (\<^verbatim>\<open>P2002\<close>) and any
  other database error give \<^verbatim>\<open>isNew: false\<close> alike.
\<close>

definition ensure_create :: "env \<Rightarrow> error option \<Rightarrow> webhookEvent \<Rightarrow> (bool \<times> string option) dbm" where
  "ensure_create env fault ev =
     (case fault of
        Some _ \<Rightarrow> returnM (False, None)
      | None \<Rightarrow>
          bindM (getM (webhook_by_key (ev_id ev))) (\<lambda>existing.
            case existing of
              Some _ \<Rightarrow> returnM (False, None)
            | None \<Rightarrow>
                bindM (freshM env) (\<lambda>i.
                thenM (modifyM (\<lambda>d. d\<lparr>d_webhooks := d_webhooks d @ [webhook_row env i ev]\<rparr>))
                (returnM (True, Some i)))))"

definition ensureUnique :: "env \<Rightarrow> error option \<Rightarrow> webhookEvent \<Rightarrow> (bool \<times> string option) dbm" where
  "ensureUnique env fault ev =
     bindM (ensure_precheck ev) (\<lambda>free.
       if free then ensure_create env fault ev else returnM (False, None))"

definition markProcessed :: "string \<Rightarrow> unit dbm" where
  "markProcessed i = updWebhooks (\<lambda>w. wh_id w = i) (\<lambda>w. w\<lparr>wh_isProcessed := True, wh_status := WhProcessed\<rparr>)"

definition markFailed :: "string \<Rightarrow> string \<Rightarrow> unit dbm" where
  "markFailed i reason = updWebhooks (\<lambda>w. wh_id w = i)
     (\<lambda>w. w\<lparr>wh_isProcessed := False, wh_status := WhFailed, wh_failedReason := Some reason\<rparr>)"

definition getUnprocessedWebhooks :: "env \<Rightarrow> int \<Rightarrow> int \<Rightarrow> webhook list dbm" where
  "getUnprocessedWebhooks env olderThanHours maxAgeDays =
     (let cutoff = e_now env - olderThanHours * 60 * 60 * 1000;
          maxAge = e_now env - maxAgeDays * 24 * 60 * 60 * 1000
      in getM (\<lambda>d. take 50 (sort_key wh_createdAt
           (filter (\<lambda>w. \<not> wh_isProcessed w \<and> wh_createdAt w < cutoff \<and> maxAge \<le> wh_createdAt w)
             (d_webhooks d)))))"

definition getFailedWebhooks :: "string option \<Rightarrow> string option \<Rightarrow> nat \<Rightarrow> nat \<Rightarrow> (webhook list \<times> nat) dbm" where
  "getFailedWebhooks provider eventType page limit =
     getM (\<lambda>d.
       let found = filter (\<lambda>w. wh_status w = WhFailed \<and> \<not> wh_isResolved w
              \<and> (case provider of None \<Rightarrow> True | Some p \<Rightarrow> p = [] \<or> wh_provider w = p)
              \<and> (case eventType of None \<Rightarrow> True | Some t \<Rightarrow> t = [] \<or> wh_eventType w = t)) (d_webhooks d)
       in (take limit (drop ((page - 1) * limit) (rev (sort_key wh_createdAt found))), length found))"

definition resolveWebhook :: "env \<Rightarrow> string \<Rightarrow> string \<Rightarrow> unit dbm" where
  "resolveWebhook env i comment =
     bindM (getM (webhook_by_id i)) (\<lambda>r.
     bindM (someM r (PlainError (''Webhook '' @ i @ '' not found''))) (\<lambda>w.
     thenM (requireM (wh_status w = WhFailed) (PlainError (''Webhook '' @ i @ '' is not in failed status'')))
     (thenM (requireM (\<not> wh_isResolved w) (PlainError (''Webhook '' @ i @ '' is already resolved'')))
     (updWebhooks (\<lambda>v. wh_id v = i) (\<lambda>v. v\<lparr>wh_isResolved := True, wh_resolvedAt := Some (e_now env),
        wh_resolutionComment := Some comment\<rparr>)))))"

section \<open>The controller\<close>

definition resolveQuidaxQueue :: "string \<Rightarrow> string option" where
  "resolveQuidaxQueue event =
     (if starts_with ''swap_transaction.'' event then Some ''swap-transactions''
      else if event = ''order.done'' then Some ''sell-buy-orders''
      else if starts_with ''withdraw.'' event then Some ''send-transactions''
      else if event = ''wallet.address.generated'' then Some ''quidax-wallet-addresses''
      else if starts_with ''deposit.'' event then Some ''receive-transactions''
      else None)"

text \<open>\<^verbatim>\<open>queueService.add\<close>.\<close>

definition enqueue :: "error option \<Rightarrow> string \<Rightarrow> string \<Rightarrow> unit sysm" where
  "enqueue queueFault queue job =
     (case queueFault of Some e \<Rightarrow> throwM e | None \<Rightarrow> callM (CallEnqueue queue job))"

text \<open>Without an id of the data, or with an empty one, the request is answered and ignored.\<close>

definition handleQuidaxWebhook ::
    "env \<Rightarrow> error option \<Rightarrow> error option \<Rightarrow> string option \<Rightarrow> bool \<Rightarrow> string \<Rightarrow> string option \<Rightarrow> string \<Rightarrow> unit sysm" where
  "handleQuidaxWebhook env fault queueFault signature sigOk event dataId payload =
     thenM (requireM (case signature of None \<Rightarrow> False | Some s \<Rightarrow> s \<noteq> []) (BadRequest ''Missing Quidax signature''))
     (thenM (requireM sigOk (BadRequest ''Invalid Quidax signature''))
     (case truthy dataId of
        None \<Rightarrow> returnM ()
      | Some i \<Rightarrow>
          (case resolveQuidaxQueue event of
             None \<Rightarrow> returnM ()
           | Some queue \<Rightarrow>
               (let eventId = event @ ''_'' @ i in
                bindM (dbM (ensureUnique env fault
                  \<lparr>ev_id = eventId, ev_provider = ''Quidax'', ev_type = event, ev_payload = payload, ev_userId = None\<rparr>))
                  (\<lambda>(isNew, _). whenM isNew (enqueue queueFault queue (''webhook-'' @ eventId)))))))"

definition handlePaystackWebhook ::
    "env \<Rightarrow> error option \<Rightarrow> error option \<Rightarrow> string option \<Rightarrow> bool \<Rightarrow> string \<Rightarrow> string \<Rightarrow> string \<Rightarrow> unit sysm" where
  "handlePaystackWebhook env fault queueFault signature sigOk event dataId payload =
     thenM (requireM (case signature of None \<Rightarrow> False | Some s \<Rightarrow> s \<noteq> []) (BadRequest ''Missing Paystack signature''))
     (thenM (requireM sigOk (BadRequest ''Invalid Paystack signature''))
     (let eventId = event @ ''_'' @ dataId in
      bindM (dbM (ensureUnique env fault
        \<lparr>ev_id = eventId, ev_provider = ''Paystack'', ev_type = event, ev_payload = payload, ev_userId = None\<rparr>))
        (\<lambda>(isNew, _). whenM isNew (enqueue queueFault ''paystack'' (''paystack-webhook-'' @ eventId)))))"

text \<open>
  A notice of the bill provider: \<^verbatim>\<open>Number(payload.Merchant)\<close> (\<open>None\<close> for \<^verbatim>\<open>NaN\<close>), the three texts that
  can name the payment, the status and \<^verbatim>\<open>IsSuccessful === true\<close>; no notice is \<open>None\<close>.
\<close>

record xpressNotice =
  xn_merchant :: "int option"
  xn_transactionId :: "string option"
  xn_transactionReference :: "string option"
  xn_id :: "string option"
  xn_status :: "string option"
  xn_isSuccessful :: bool
  xn_payload :: string

definition xpress_reference :: "xpressNotice \<Rightarrow> string option" where
  "xpress_reference x = (case truthy (xn_transactionId x) of Some r \<Rightarrow> Some r
     | None \<Rightarrow> (case truthy (xn_transactionReference x) of Some r \<Rightarrow> Some r | None \<Rightarrow> truthy (xn_id x)))"

definition xpress_event :: "string \<Rightarrow> xpressNotice \<Rightarrow> string" where
  "xpress_event reference x = ''xpresspay_'' @ reference @ ''_''
     @ (case truthy (xn_status x) of None \<Rightarrow> ''unknown'' | Some st \<Rightarrow> st) @ ''_''
     @ (if xn_isSuccessful x then ''success'' else ''not_success'')"

definition handleXpresspayWebhook ::
    "env \<Rightarrow> error option \<Rightarrow> error option \<Rightarrow> string \<Rightarrow> string option \<Rightarrow> int option \<Rightarrow> xpressNotice option \<Rightarrow> unit sysm" where
  "handleXpresspayWebhook env fault queueFault configuredSecret webhookSecret merchantId notice =
     thenM (requireM (configuredSecret = [] \<or> webhookSecret = Some configuredSecret)
       (BadRequest ''Invalid Xpresspay webhook secret''))
     (case notice of
        None \<Rightarrow> returnM ()
      | Some x \<Rightarrow>
          if xn_merchant x = None \<or> xn_merchant x \<noteq> merchantId then returnM ()
          else (case xpress_reference x of
             None \<Rightarrow> returnM ()
           | Some reference \<Rightarrow>
               (let eventId = xpress_event reference x in
                bindM (dbM (ensureUnique env fault
                  \<lparr>ev_id = eventId, ev_provider = ''Xpresspay'', ev_type = ''xpresspay.webhook'', ev_payload = xn_payload x,
                   ev_userId = None\<rparr>))
                  (\<lambda>(isNew, _). whenM isNew (enqueue queueFault ''xpresspay'' (''xpresspay-webhook-'' @ eventId))))))"

section \<open>Deliveries\<close>

text \<open>A delivery of the Quidax endpoint: what the request carries and the faults it meets.\<close>

record delivery =
  dl_fault :: "error option"
  dl_queueFault :: "error option"
  dl_signature :: "string option"
  dl_sigOk :: bool
  dl_event :: string
  dl_dataId :: "string option"
  dl_payload :: string

definition deliver :: "env \<Rightarrow> delivery \<Rightarrow> sys \<Rightarrow> sys" where
  "deliver env x s = snd (handleQuidaxWebhook env (dl_fault x) (dl_queueFault x) (dl_signature x) (dl_sigOk x)
     (dl_event x) (dl_dataId x) (dl_payload x) s)"

definition deliverAll :: "env \<Rightarrow> delivery list \<Rightarrow> sys \<Rightarrow> sys" where
  "deliverAll env xs s = foldl (\<lambda>s x. deliver env x s) s xs"

text \<open>The key of a delivery the controller accepts.\<close>

definition accepted_key :: "delivery \<Rightarrow> string option" where
  "accepted_key x =
     (if (case dl_signature x of None \<Rightarrow> False | Some s \<Rightarrow> s \<noteq> []) \<and> dl_sigOk x
         \<and> resolveQuidaxQueue (dl_event x) \<noteq> None \<and> dl_fault x = None
      then map_option (\<lambda>i. dl_event x @ ''_'' @ i) (truthy (dl_dataId x)) else None)"

definition jobs :: "string \<Rightarrow> sys \<Rightarrow> nat" where
  "jobs k s = length (filter (\<lambda>c. \<exists>q. c = CallEnqueue q (''webhook-'' @ k)) (s_calls s))"

definition recorded :: "string \<Rightarrow> sys \<Rightarrow> bool" where
  "recorded k s \<longleftrightarrow> webhook_by_key k (s_db s) \<noteq> None"

lemma webhook_by_key_append:
  "webhook_by_key k (d\<lparr>d_webhooks := d_webhooks d @ [w], d_seq := n\<rparr>) \<noteq> None
     \<longleftrightarrow> webhook_by_key k d \<noteq> None \<or> wh_idempotencyKey w = k"
  by (auto simp: webhook_by_key_def find_None_iff)

lemma webhook_recorded: "webhook_by_key k d = None \<longleftrightarrow> k \<notin> wh_idempotencyKey ` set (d_webhooks d)"
  by (auto simp: webhook_by_key_def find_None_iff)

lemma ensureUnique_eq:
  "ensureUnique env fault ev d =
     (if webhook_by_key (ev_id ev) d \<noteq> None \<or> fault \<noteq> None then (Inr (False, None), d)
      else (Inr (True, Some (e_cuid env (d_seq d))),
        d\<lparr>d_webhooks := d_webhooks d @ [webhook_row env (e_cuid env (d_seq d)) ev], d_seq := Suc (d_seq d)\<rparr>))"
  by (auto simp: ensureUnique_def ensure_precheck_def ensure_create_def freshM_def comp_defs split: option.splits)

lemma ensureUnique_new:
  assumes "webhook_by_key (ev_id ev) d = None" "fault = None"
  shows "\<exists>w r. wh_idempotencyKey w = ev_id ev \<and> ensureUnique env fault ev d
    = (Inr (True, r), d\<lparr>d_webhooks := d_webhooks d @ [w], d_seq := Suc (d_seq d)\<rparr>)"
  using assms by (intro exI [of _ "webhook_row env (e_cuid env (d_seq d)) ev"])
    (simp add: ensureUnique_eq webhook_row_def)

lemma deliver_effect:
  "jobs k (deliver env x s) = jobs k s + (if accepted_key x = Some k \<and> \<not> recorded k s \<and> dl_queueFault x = None then 1 else 0)
   \<and> (recorded k (deliver env x s) \<longleftrightarrow> recorded k s \<or> accepted_key x = Some k)"
proof (cases "\<exists>i. accepted_key x = Some i")
  case False
  let ?sig = "case dl_signature x of None \<Rightarrow> False | Some g \<Rightarrow> g \<noteq> []"
  have "deliver env x s = s"
  proof (cases "?sig \<and> dl_sigOk x")
    case bad: False
    then show ?thesis by (auto simp: deliver_def handleQuidaxWebhook_def comp_defs)
  next
    case good: True
    show ?thesis
    proof (cases "truthy (dl_dataId x) = None \<or> resolveQuidaxQueue (dl_event x) = None")
      case True
      with good show ?thesis
        by (auto simp: deliver_def handleQuidaxWebhook_def comp_defs split: option.split)
    next
      case more: False
      with good False have "dl_fault x \<noteq> None" by (auto simp: accepted_key_def split: if_splits)
      with good more show ?thesis
        by (auto simp: deliver_def handleQuidaxWebhook_def comp_defs dbM_def ensureUnique_eq Let_def)
    qed
  qed
  with False show ?thesis by simp
next
  case True
  then obtain i where i: "accepted_key x = Some i" by blast
  then obtain q e where q: "resolveQuidaxQueue (dl_event x) = Some q" and e: "truthy (dl_dataId x) = Some e"
    and s: "dl_sigOk x" "dl_fault x = None" "\<exists>g. dl_signature x = Some g \<and> g \<noteq> []"
    and ie: "i = dl_event x @ ''_'' @ e"
    by (auto simp: accepted_key_def split: if_splits option.splits)
  show ?thesis
  proof (cases "recorded i s")
    case True
    then have "deliver env x s = s"
      using s q e by (auto simp: deliver_def handleQuidaxWebhook_def comp_defs dbM_def ensureUnique_eq recorded_def ie Let_def)
    with True i show ?thesis by auto
  next
    case False
    let ?ev = "\<lparr>ev_id = i, ev_provider = ''Quidax'', ev_type = dl_event x, ev_payload = dl_payload x, ev_userId = None\<rparr>"
    have "webhook_by_key (ev_id ?ev) (s_db s) = None" using False by (simp add: recorded_def)
    from ensureUnique_new [OF this refl, of env] obtain w r where w: "wh_idempotencyKey w = i"
      and u: "ensureUnique env None ?ev (s_db s) = (Inr (True, r),
        (s_db s)\<lparr>d_webhooks := d_webhooks (s_db s) @ [w], d_seq := Suc (d_seq (s_db s))\<rparr>)" by auto
    have d: "deliver env x s = s\<lparr>
        s_db := (s_db s)\<lparr>d_webhooks := d_webhooks (s_db s) @ [w], d_seq := Suc (d_seq (s_db s))\<rparr>,
        s_calls := s_calls s @ (if dl_queueFault x = None then [CallEnqueue q (''webhook-'' @ i)] else [])\<rparr>"
      using s q e u by (cases "dl_queueFault x")
        (auto simp: deliver_def handleQuidaxWebhook_def comp_defs dbM_def enqueue_def callM_def ie Let_def)
    have "jobs k (deliver env x s) = jobs k s + (if k = i \<and> dl_queueFault x = None then 1 else 0)"
      by (auto simp: d jobs_def)
    moreover have "recorded k (deliver env x s) \<longleftrightarrow> recorded k s \<or> k = i"
      unfolding recorded_def d using webhook_by_key_append [where k = k and d = "s_db s" and w = w] w by auto
    ultimately show ?thesis using i False by auto
  qed
qed

lemma deliverAll_effect:
  "jobs k (deliverAll env xs s)
     = jobs k s + (case List.find (\<lambda>x. accepted_key x = Some k) xs of None \<Rightarrow> 0
         | Some x \<Rightarrow> if \<not> recorded k s \<and> dl_queueFault x = None then 1 else 0)"
proof (induction xs arbitrary: s)
  case Nil
  then show ?case by (simp add: deliverAll_def)
next
  case (Cons x xs)
  have "deliverAll env (x # xs) s = deliverAll env xs (deliver env x s)" by (simp add: deliverAll_def)
  with Cons [of "deliver env x s"] deliver_effect [of k env x s] show ?case
    by (cases "accepted_key x = Some k") (simp_all split: option.split)
qed

text \<open>C29: whatever requests reach the Quidax endpoint, in whatever order and however often a
  provider repeats them: each event is put on its queue exactly once if the first well-signed delivery
  of it that reached the database also reached the queue, and never otherwise. A job the queue does not
  take is lost, since its event counts as received.\<close>

theorem deliver_exactly_once:
  assumes "d_webhooks (s_db s) = []" "s_calls s = []"
  shows "jobs k (deliverAll env xs s) = (case List.find (\<lambda>x. accepted_key x = Some k) xs of None \<Rightarrow> 0
    | Some x \<Rightarrow> if dl_queueFault x = None then 1 else 0)"
proof -
  have "jobs k s = 0" "\<not> recorded k s" using assms by (simp_all add: jobs_def recorded_def webhook_by_key_def)
  with deliverAll_effect [of k env xs s] show ?thesis by (simp split: option.split)
qed

theorem deliver_exactly_once_witness:
  "jobs ''deposit.successful_d1''
     (deliverAll env_example (replicate 3 \<lparr>dl_fault = None, dl_queueFault = None, dl_signature = Some ''s'', dl_sigOk = True,
        dl_event = ''deposit.successful'', dl_dataId = Some ''d1'', dl_payload = []\<rparr>)
       (sys_example\<lparr>s_db := db_empty\<rparr>)) = 1"
proof -
  let ?x = "\<lparr>dl_fault = None, dl_queueFault = None, dl_signature = Some ''s'', dl_sigOk = True,
        dl_event = ''deposit.successful'', dl_dataId = Some ''d1'', dl_payload = []\<rparr>"
  have "accepted_key ?x = Some ''deposit.successful_d1''"
    by (simp add: accepted_key_def resolveQuidaxQueue_def starts_with_def truthy_def)
  then show ?thesis
    by (subst deliver_exactly_once) (simp_all add: db_empty_def sys_example_def numeral_3_eq_3)
qed

text \<open>
  Requests for one event that race: every one of them may have passed the first read of
  \<open>ensureUnique\<close> before any reaches the insert. \<open>runCreates\<close> runs the inserts in the order
  the database takes them.
\<close>

fun runCreates :: "env \<Rightarrow> (error option \<times> webhookEvent) list \<Rightarrow> db \<Rightarrow> bool list" where
  "runCreates env [] d = []"
| "runCreates env ((fault, ev) # evs) d =
     (case ensure_create env fault ev d of
        (Inr (isNew, _), d') \<Rightarrow> isNew # runCreates env evs d'
      | (Inl _, d') \<Rightarrow> False # runCreates env evs d')"

lemma ensure_create_eq:
  "\<exists>d' r. ensure_create env fault ev d = (Inr (fault = None \<and> webhook_by_key (ev_id ev) d = None, r), d')
     \<and> (webhook_by_key k d' \<noteq> None \<longleftrightarrow> webhook_by_key k d \<noteq> None \<or> fault = None \<and> k = ev_id ev)"
proof (cases "fault = None \<and> webhook_by_key (ev_id ev) d = None")
  case False
  then show ?thesis by (auto simp: ensure_create_def comp_defs split: option.splits)
next
  case True
  then have "ensure_create env fault ev d = ensureUnique env fault ev d"
    by (simp add: ensureUnique_def ensure_precheck_def comp_defs)
  moreover from ensureUnique_new [OF conjunct2 [OF True] conjunct1 [OF True], of env]
  obtain w r where "wh_idempotencyKey w = ev_id ev" "ensureUnique env fault ev d
    = (Inr (True, r), d\<lparr>d_webhooks := d_webhooks d @ [w], d_seq := Suc (d_seq d)\<rparr>)"
    by auto
  ultimately show ?thesis
    using True webhook_by_key_append [where k = k and d = d and w = w] by auto
qed

text \<open>Of all the requests that race to record one event, at most one is told it is new,
  and exactly one when the database answers any of them.\<close>

theorem race_one_new:
  assumes "list_all (\<lambda>(_, ev). ev_id ev = k) evs" and "webhook_by_key k d = None"
  shows "length (filter (\<lambda>b. b) (runCreates env evs d)) = (if list_ex (\<lambda>(fault, _). fault = None) evs then 1 else 0)"
proof -
  have none: "length (filter (\<lambda>b. b) (runCreates env evs d)) = 0"
    if "webhook_by_key k d \<noteq> None" "list_all (\<lambda>(_, ev). ev_id ev = k) evs" for evs d
    using that
  proof (induction evs arbitrary: d)
    case (Cons x evs)
    obtain fault ev where x: "x = (fault, ev)" by (cases x)
    from ensure_create_eq [of env fault ev d k] Cons x show ?case by auto
  qed simp
  show ?thesis
    using assms
  proof (induction evs arbitrary: d)
    case (Cons x evs)
    obtain fault ev where x: "x = (fault, ev)" by (cases x)
    from ensure_create_eq [of env fault ev d k] obtain d' r where
      e: "ensure_create env fault ev d = (Inr (fault = None, r), d')"
      and d': "webhook_by_key k d' \<noteq> None \<longleftrightarrow> fault = None"
      using Cons.prems x by auto
    show ?case
    proof (cases "fault = None")
      case True
      with e d' none [of d' evs] Cons.prems x show ?thesis by simp
    next
      case False
      with e d' Cons x show ?thesis by auto
    qed
  qed simp
qed

definition event_example :: webhookEvent where
  "event_example = \<lparr>ev_id = ''e'', ev_provider = ''Quidax'', ev_type = ''order.done'', ev_payload = [], ev_userId = None\<rparr>"

theorem race_one_new_witness:
  "length (filter (\<lambda>b. b) (runCreates env_example
      [(Some (PrismaError ''P1001''), event_example), (None, event_example), (None, event_example)] db_empty)) = 1"
  by (subst race_one_new [where k = "''e''"])
    (simp_all add: event_example_def db_empty_def webhook_by_key_def)

text \<open>An administrator can resolve a webhook only when it has failed and is unresolved, and
  only once: after a success, every later attempt on the same record is refused and
  changes nothing.\<close>

theorem resolve_once:
  assumes "resolveWebhook env i comment d = (Inr u, d')"
  shows "(\<exists>w. webhook_by_id i d = Some w \<and> wh_status w = WhFailed \<and> \<not> wh_isResolved w)
    \<and> (\<exists>e. resolveWebhook env' i comment' d' = (Inl e, d'))"
proof -
  obtain w where w: "webhook_by_id i d = Some w" "wh_status w = WhFailed" "\<not> wh_isResolved w"
    and d': "d' = d\<lparr>d_webhooks := update_where (\<lambda>v. wh_id v = i)
      (\<lambda>v. v\<lparr>wh_isResolved := True, wh_resolvedAt := Some (e_now env), wh_resolutionComment := Some comment\<rparr>)
      (d_webhooks d)\<rparr>"
    using assms by (auto simp: resolveWebhook_def comp_defs updWebhooks_def split: option.splits if_splits)
  have "webhook_by_id i d' = Some (w\<lparr>wh_isResolved := True, wh_resolvedAt := Some (e_now env),
      wh_resolutionComment := Some comment\<rparr>)"
    using w(1) find_Some_in [OF w(1) [unfolded webhook_by_id_def]]
    unfolding d' webhook_by_id_def by (simp add: find_update_where)
  with w show ?thesis by (auto simp: resolveWebhook_def comp_defs)
qed

theorem resolve_once_witness:
  "\<exists>d'. resolveWebhook env_example ''w'' ''ok''
      (db_empty\<lparr>d_webhooks := [(webhook_row env_example ''w'' event_example)\<lparr>wh_status := WhFailed\<rparr>]\<rparr>) = (Inr (), d')
    \<and> (\<exists>e. resolveWebhook env_example ''w'' ''again'' d' = (Inl e, d'))"
proof -
  let ?d = "db_empty\<lparr>d_webhooks := [(webhook_row env_example ''w'' event_example)\<lparr>wh_status := WhFailed\<rparr>]\<rparr>"
  obtain d' where d': "resolveWebhook env_example ''w'' ''ok'' ?d = (Inr (), d')"
    by (simp add: resolveWebhook_def webhook_by_id_def webhook_row_def comp_defs updWebhooks_def)
  from resolve_once [OF d', of env_example "''again''"] d' show ?thesis by blast
qed

end
