(* ===== verification/Deposit.thy ===== *)
theory Deposit
  imports Webhook
begin

text \<open>
  The deposit webhook (\<^verbatim>\<open>deposit-successful.handler.ts\<close>): a deposit the provider confirms is
  credited once to the user's wallet and to the company's internal balance in one
  transaction, then swept to the company account.

  The answers of the provider are arguments: \<open>fetched\<close> is the result of \<^verbatim>\<open>fetchDeposit\<close>,
  \<open>price\<close> the ticker's price of the currency in NGN, \<open>sweep\<close> the reference
  \<^verbatim>\<open>withdrawToCompanyAccount\<close> returns. Prices are decimal strings.
\<close>

section \<open>Inputs\<close>

record depositData =
  dd_walletUserId :: "string option"
  dd_userId :: "string option"
  dd_id :: string
  dd_network :: "string option"
  dd_fee :: "string option"
  dd_depositAddress :: "string option"
  dd_paymentAddress :: "string option"
  dd_destinationTag :: "string option"
  dd_confirmations :: "int option"
  dd_requiredConfirmations :: "int option"
  dd_detectedAt :: "int option"
  dd_doneAt :: "int option"

record confirmedDeposit =
  cd_status :: string
  cd_txid :: "string option"
  cd_walletCurrency :: "string option"
  cd_currency :: "string option"
  cd_amount :: string

text \<open>\<^verbatim>\<open>a || b\<close> and \<^verbatim>\<open>a ?? b\<close> on optional strings.\<close>

definition or_else :: "string option \<Rightarrow> string option \<Rightarrow> string option" where
  "or_else a b = (case truthy a of Some s \<Rightarrow> Some s | None \<Rightarrow> b)"

definition nullish :: "'a option \<Rightarrow> 'a option \<Rightarrow> 'a option" where
  "nullish a b = (case a of Some x \<Rightarrow> Some x | None \<Rightarrow> b)"

definition err_msg :: "error \<Rightarrow> string" where
  "err_msg e = (case e of
       BadRequest m \<Rightarrow> m | NotFound m \<Rightarrow> m | Unauthorized m \<Rightarrow> m | InternalServerError m \<Rightarrow> m
     | Conflict m \<Rightarrow> m | BadGateway m \<Rightarrow> m | Forbidden m \<Rightarrow> m
     | PlainError m \<Rightarrow> m | PrismaError c \<Rightarrow> c | ProviderError m \<Rightarrow> m | CompensatedError m \<Rightarrow> m
     | ValidationError m \<Rightarrow> m)"

section \<open>Statements of the handler\<close>

definition upsertDeposit :: "env \<Rightarrow> string \<Rightarrow> string \<Rightarrow> depositData \<Rightarrow> confirmedDeposit \<Rightarrow> unit dbm" where
  "upsertDeposit env userId currency data conf =
     bindM (getM (\<lambda>d. list_ex (\<lambda>x. dp_providerDepositId x = dd_id data) (d_deposits d))) (\<lambda>exists.
       if exists then
         modifyM (\<lambda>d. d\<lparr>d_deposits := update_where (\<lambda>x. dp_providerDepositId x = dd_id data)
           (\<lambda>x. x\<lparr>dp_txHash := cd_txid conf,
                  dp_confirmations := nullish (dd_confirmations data) (dp_confirmations x),
                  dp_status := DepCONFIRMED,
                  dp_confirmedAt := nullish (dd_doneAt data) (Some (e_now env))\<rparr>) (d_deposits d)\<rparr>)
       else
         bindM (freshM env) (\<lambda>i. modifyM (\<lambda>d. d\<lparr>d_deposits := d_deposits d @
           [\<lparr>dp_id = i, dp_userId = userId, dp_providerDepositId = dd_id data, dp_txHash = cd_txid conf,
             dp_currency = currency, dp_network = dd_network data, dp_amount = cd_amount conf,
             dp_fee = dd_fee data, dp_depositAddress = dd_depositAddress data,
             dp_destinationTag = dd_destinationTag data, dp_confirmations = dd_confirmations data,
             dp_requiredConfirmations = dd_requiredConfirmations data, dp_status = DepCONFIRMED,
             dp_detectedAt = (case dd_detectedAt data of None \<Rightarrow> e_now env | Some t \<Rightarrow> t),
             dp_confirmedAt = nullish (dd_doneAt data) (Some (e_now env))\<rparr>]\<rparr>)))"

text \<open>The balance of a wallet right after an update, as \<^verbatim>\<open>RETURNING "baseBalance"\<close> gives it.\<close>

definition base_of :: "string \<Rightarrow> db \<Rightarrow> int option" where
  "base_of i d = map_option w_baseBalance (List.find (\<lambda>w. w_id w = i) (d_wallets d))"

text \<open>
  The second statement of every balance change: \<^verbatim>\<open>originalBalance\<close> is the display of the
  balance just returned.
\<close>

definition refreshOriginalBalance :: "env \<Rightarrow> string \<Rightarrow> string \<Rightarrow> unit dbm" where
  "refreshOriginalBalance env i currency =
     bindM (getM (base_of i)) (\<lambda>r.
     bindM (someM r (PlainError ''TypeError: undefined is not iterable'')) (\<lambda>base.
     bindM (liftM (fromBase (e_cv env) (ABigInt base) currency None)) (\<lambda>shown.
       updWallets (\<lambda>w. w_id w = i) (\<lambda>w. w\<lparr>w_originalBalance := shown\<rparr>))))"

definition insertCompanyWithdrawal :: "companyWithdrawal \<Rightarrow> unit dbm" where
  "insertCompanyWithdrawal c =
     bindM (getM (\<lambda>d. list_ex (\<lambda>x. cw_transactionId x = cw_transactionId c
         \<or> cw_providerReference x = cw_providerReference c) (d_companyWithdrawals d))) (\<lambda>dup.
       if dup then throwM (PrismaError ''P2002'')
       else modifyM (\<lambda>d. d\<lparr>d_companyWithdrawals := d_companyWithdrawals d @ [c]\<rparr>))"

definition ngnAmount :: "env \<Rightarrow> string option \<Rightarrow> string \<Rightarrow> error + int" where
  "ngnAmount env price amountStr =
     (case truthy price of
        None \<Rightarrow> Inr 0
      | Some p \<Rightarrow>
          (case e_decValue env p of
             None \<Rightarrow> Inr 0
           | Some v \<Rightarrow>
               (if v > 0 then
                  (case e_mulFixed2 env p amountStr of
                     None \<Rightarrow> Inl (PlainError ''DecimalError: Invalid argument'')
                   | Some n \<Rightarrow> toBase (e_cv env) n ''ngn'' None)
                else Inr 0)))"

section \<open>The handler\<close>

definition deposit_row ::
    "string \<Rightarrow> string \<Rightarrow> string \<Rightarrow> string \<Rightarrow> depositData \<Rightarrow> confirmedDeposit \<Rightarrow> int \<Rightarrow> transaction" where
  "deposit_row i userId walletId currency data conf amountBase =
     (new_transaction i userId (dd_id data) currency CREDIT CtxDEPOSIT)\<lparr>
       t_receiverWalletId := Some walletId,
       t_network := dd_network data,
       t_cryptoAmountBase := Some amountBase,
       t_cryptoAmountOriginal := Some (cd_amount conf),
       t_fiatAmountBase := 0,
       t_fiatAmountOriginal := Some ''0'',
       t_description := Some (''Deposit received: '' @ cd_amount conf @ '' '' @ currency),
       t_status := TxCOMPLETED,
       t_isProcessed := True\<rparr>"

text \<open>The callback of \<^verbatim>\<open>$transaction\<close>: \<open>None\<close> when the deposit was there already.\<close>

definition deposit_tx ::
    "env \<Rightarrow> string \<Rightarrow> string \<Rightarrow> string \<Rightarrow> depositData \<Rightarrow> confirmedDeposit \<Rightarrow> int \<Rightarrow> string option
      \<Rightarrow> (string \<times> int) option dbm" where
  "deposit_tx env userId walletId currency data conf amountBase price =
     thenM (upsertDeposit env userId currency data conf)
     (bindM (getM (transaction_by_uniqueId (dd_id data))) (\<lambda>existing.
        case existing of
          Some _ \<Rightarrow> returnM None
        | None \<Rightarrow>
            bindM (freshM env) (\<lambda>i.
            thenM (insertTransaction (deposit_row i userId walletId currency data conf amountBase))
            (thenM (updWallets (\<lambda>w. w_id w = walletId) (w_credit amountBase))
            (thenM (refreshOriginalBalance env walletId currency)
            (thenM (updateInternalBalance env currency amountBase Add)
            (bindM (liftM (ngnAmount env price (cd_amount conf))) (\<lambda>ngn.
             thenM (updUsers (\<lambda>u. u_id u = userId) (\<lambda>u. u\<lparr>u_amountReceived := u_amountReceived u + ngn\<rparr>))
             (thenM (case truthy (dd_paymentAddress data) of
                 None \<Rightarrow> returnM ()
               | Some a \<Rightarrow> modifyM (\<lambda>d. d\<lparr>d_paymentAddresses :=
                   update_where (\<lambda>p. pa_walletId p = walletId \<and> pa_address p = Some a)
                     (\<lambda>p. p\<lparr>pa_totalPayments := pa_totalPayments p + amountBase,
                            pa_depositCount := pa_depositCount p + 1\<rparr>) (d_paymentAddresses d)\<rparr>))
              (returnM (Some (i, ngn))))))))))))"

definition sweep_row :: "env \<Rightarrow> string \<Rightarrow> string \<Rightarrow> string \<Rightarrow> int \<Rightarrow> string \<Rightarrow> error option \<Rightarrow> companyWithdrawal" where
  "sweep_row env i transactionId ref amountBase currency failure =
     \<lparr>cw_id = i, cw_transactionId = transactionId, cw_providerReference = ref,
      cw_description = (case failure of None \<Rightarrow> ''Auto sweep for deposit initiated''
                                      | Some _ \<Rightarrow> ''Auto sweep FAILED''),
      cw_amountBase = amountBase, cw_currency = currency, cw_fee = None, cw_total = None,
      cw_txHash = None, cw_failedReason = map_option err_msg failure,
      cw_status = (case failure of None \<Rightarrow> WdPENDING | Some _ \<Rightarrow> WdFAILED),
      cw_processedAt = (case failure of None \<Rightarrow> None | Some _ \<Rightarrow> Some (e_now env))\<rparr>"

definition createSweep :: "env \<Rightarrow> string \<Rightarrow> string \<Rightarrow> int \<Rightarrow> string \<Rightarrow> error option \<Rightarrow> unit sysm" where
  "createSweep env transactionId ref amountBase currency failure =
     dbM (bindM (freshM env) (\<lambda>i.
       insertCompanyWithdrawal (sweep_row env i transactionId ref amountBase currency failure)))"

definition deposit_sweep ::
    "env \<Rightarrow> string \<Rightarrow> string \<Rightarrow> string \<Rightarrow> string \<Rightarrow> string \<Rightarrow> int \<Rightarrow> error + string \<Rightarrow> unit sysm" where
  "deposit_sweep env quidaxUserId depositId transactionId currency amountStr amountBase sweep =
     thenM (callM (CallSweep quidaxUserId currency amountStr depositId))
     (case sweep of
        Inl e \<Rightarrow> createSweep env transactionId (''failed-sweep-'' @ depositId) amountBase currency (Some e)
      | Inr ref \<Rightarrow>
          catchM (createSweep env transactionId ref amountBase currency None)
            (\<lambda>e. createSweep env transactionId ref amountBase currency (Some e)))"

definition deposit_credit ::
    "env \<Rightarrow> string \<Rightarrow> depositData \<Rightarrow> confirmedDeposit \<Rightarrow> string option \<Rightarrow> error + string \<Rightarrow> unit sysm" where
  "deposit_credit env quidaxUserId data conf price sweep =
     (let currency = to_upper (case or_else (cd_walletCurrency conf) (cd_currency conf) of
                                 None \<Rightarrow> [] | Some c \<Rightarrow> c)
      in
      bindM (getM (\<lambda>s. list_ex (\<lambda>t. t_uniqueId t = dd_id data \<and> t_context t = CtxDEPOSIT
          \<and> t_status t = TxCOMPLETED) (d_transactions (s_db s)))) (\<lambda>done.
      if done then returnM () else
      bindM (getM (\<lambda>s. List.find (\<lambda>u. u_quidaxAccountId u = Some quidaxUserId) (d_users (s_db s)))) (\<lambda>u.
      case u of None \<Rightarrow> returnM () | Some user \<Rightarrow>
      bindM (getM (\<lambda>s. wallet_for (u_id user) currency (s_db s))) (\<lambda>w.
      case w of None \<Rightarrow> returnM () | Some wallet \<Rightarrow>
      bindM (liftM (toBase (e_cv env) (cd_amount conf) currency None)) (\<lambda>amountBase.
      bindM (txM env ''deposit'' (deposit_tx env (u_id user) (w_id wallet) currency data conf amountBase price)) (\<lambda>r.
      case r of None \<Rightarrow> returnM () | Some (transactionId, ngn) \<Rightarrow>
        thenM (callM (CallNotify transactionId))
        (thenM (deposit_sweep env quidaxUserId (dd_id data) transactionId currency (cd_amount conf) amountBase sweep)
        (thenM (callM (CallDashboard (dd_id data) ngn))
        (syncAllToCache env)))))))))"

definition deposit_process ::
    "env \<Rightarrow> depositData \<Rightarrow> error + confirmedDeposit option \<Rightarrow> string option \<Rightarrow> error + string \<Rightarrow> unit sysm" where
  "deposit_process env data fetched price sweep =
     (case truthy (or_else (dd_walletUserId data) (dd_userId data)) of
        None \<Rightarrow> returnM ()
      | Some quidaxUserId \<Rightarrow>
          bindM (liftM fetched) (\<lambda>r.
            case r of
              None \<Rightarrow> returnM ()
            | Some conf \<Rightarrow>
                if to_lower (cd_status conf) \<noteq> ''accepted'' then returnM ()
                else deposit_credit env quidaxUserId data conf price sweep))"

section \<open>What the transaction writes\<close>

definition same_money :: "db \<Rightarrow> db \<Rightarrow> bool" where
  "same_money d d' \<longleftrightarrow> d_wallets d' = d_wallets d \<and> d_liquidity d' = d_liquidity d
     \<and> d_transactions d' = d_transactions d \<and> d_users d' = d_users d"

lemma same_money_refl [simp]: "same_money d d"
  by (simp add: same_money_def)

lemma same_money_trans: "same_money a b \<Longrightarrow> same_money b c \<Longrightarrow> same_money a c"
  by (simp add: same_money_def)

lemma upsertDeposit_money:
  "\<exists>d'. upsertDeposit env userId currency data conf d = (Inr (), d') \<and> same_money d d'"
  by (auto simp: upsertDeposit_def freshM_def comp_defs same_money_def)

lemma deposit_tx_replay:
  assumes "transaction_by_uniqueId (dd_id data) d \<noteq> None"
  shows "\<exists>d'. deposit_tx env userId walletId currency data conf amountBase price d = (Inr None, d') \<and> same_money d d'"
proof -
  obtain d1 where d1: "upsertDeposit env userId currency data conf d = (Inr (), d1)" "same_money d d1"
    using upsertDeposit_money by blast
  then have "transaction_by_uniqueId (dd_id data) d1 \<noteq> None"
    using assms by (simp add: same_money_def transaction_by_uniqueId_def)
  with d1 show ?thesis by (auto simp: deposit_tx_def comp_defs)
qed

definition credit_row :: "int \<Rightarrow> string \<Rightarrow> wallet \<Rightarrow> wallet" where
  "credit_row a shown w = (w_credit a w)\<lparr>w_originalBalance := shown\<rparr>"

lemma update_where_twice:
  "(\<And>r. p (f r) = p r) \<Longrightarrow> update_where p g (update_where p f rows) = update_where p (\<lambda>r. g (f r)) rows"
  by (simp add: update_where_def)

lemma refreshOriginalBalance_run:
  "refreshOriginalBalance env i currency d = (Inr u, d') \<longleftrightarrow>
     (\<exists>base shown. base_of i d = Some base \<and> fromBase (e_cv env) (ABigInt base) currency None = Inr shown
        \<and> d' = d\<lparr>d_wallets := update_where (\<lambda>w. w_id w = i) (\<lambda>w. w\<lparr>w_originalBalance := shown\<rparr>) (d_wallets d)\<rparr>)"
  by (auto simp: refreshOriginalBalance_def run_simps)

lemma base_of_credit:
  assumes "d_wallets d' = update_where (\<lambda>w. w_id w = i) (w_credit a) (d_wallets d)"
  shows "base_of i d' = map_option (\<lambda>b. b + a) (base_of i d)"
proof (cases "List.find (\<lambda>w. w_id w = i) (d_wallets d)")
  case None
  then show ?thesis using assms by (simp add: base_of_def find_update_where w_credit_def)
next
  case (Some w)
  then have "w_id w = i" using find_Some_in by fastforce
  with Some show ?thesis using assms by (simp add: base_of_def find_update_where w_credit_def)
qed

lemma updateInternalBalance_frame:
  assumes "updateInternalBalance env currency a op d = (Inr u, d')"
  shows "d_wallets d' = d_wallets d \<and> d_transactions d' = d_transactions d \<and> d_users d' = d_users d"
  using assms
  by (auto simp: updateInternalBalance_def createLiquidity_def run_simps split: option.splits if_splits)

lemma deposit_tx_new:
  assumes "deposit_tx env userId walletId currency data conf a price d = (Inr (Some (i, ngn)), d')"
  shows "transaction_by_uniqueId (dd_id data) d = None
    \<and> d_transactions d' = d_transactions d @ [deposit_row i userId walletId currency data conf a]
    \<and> (\<exists>base shown. base_of walletId d = Some base
        \<and> fromBase (e_cv env) (ABigInt (base + a)) currency None = Inr shown
        \<and> d_wallets d' = update_where (\<lambda>w. w_id w = walletId) (credit_row a shown) (d_wallets d))
    \<and> (\<exists>d1 d2. d_liquidity d1 = d_liquidity d \<and> updateInternalBalance env currency a Add d1 = (Inr (), d2)
        \<and> d_liquidity d' = d_liquidity d2)"
proof -
  obtain d1 where d1: "upsertDeposit env userId currency data conf d = (Inr (), d1)" "same_money d d1"
    using upsertDeposit_money by blast
  have none: "transaction_by_uniqueId (dd_id data) d1 = None"
    using assms d1(1) by (auto simp: deposit_tx_def run_simps split: option.splits)
  let ?row = "deposit_row i userId walletId currency data conf a"
  obtain shown base d3 d4 where base: "base_of walletId d = Some base"
    and shown: "fromBase (e_cv env) (ABigInt (base + a)) currency None = Inr shown"
    and d3: "d_liquidity d3 = d_liquidity d1" "d_transactions d3 = d_transactions d1 @ [?row]"
      "d_wallets d3 = update_where (\<lambda>w. w_id w = walletId) (credit_row a shown) (d_wallets d1)"
    and d4: "updateInternalBalance env currency a Add d3 = (Inr (), d4)"
    and d': "d_wallets d' = d_wallets d4" "d_liquidity d' = d_liquidity d4" "d_transactions d' = d_transactions d4"
  proof -
    obtain j d2 base' shown where j: "insertTransaction (deposit_row j userId walletId currency data conf a)
          (d1\<lparr>d_seq := Suc (d_seq d1)\<rparr>) = (Inr (), d2)"
      and sh: "base_of walletId (d2\<lparr>d_wallets := update_where (\<lambda>w. w_id w = walletId) (w_credit a) (d_wallets d2)\<rparr>) = Some base'"
        "fromBase (e_cv env) (ABigInt base') currency None = Inr shown"
      and rest: "\<exists>d4. updateInternalBalance env currency a Add (d2\<lparr>d_wallets := update_where (\<lambda>w. w_id w = walletId)
          (\<lambda>w. w\<lparr>w_originalBalance := shown\<rparr>) (update_where (\<lambda>w. w_id w = walletId) (w_credit a) (d_wallets d2))\<rparr>) = (Inr (), d4)
          \<and> d_wallets d' = d_wallets d4 \<and> d_liquidity d' = d_liquidity d4 \<and> d_transactions d' = d_transactions d4 \<and> j = i"
      using assms d1(1) none
      by (auto simp: deposit_tx_def run_simps refreshOriginalBalance_run split: option.splits)
    from j have d2: "d2 = d1\<lparr>d_seq := Suc (d_seq d1),
        d_transactions := d_transactions d1 @ [deposit_row j userId walletId currency data conf a]\<rparr>"
      by (simp add: run_simps)
    obtain d4 where d4: "updateInternalBalance env currency a Add (d2\<lparr>d_wallets := update_where (\<lambda>w. w_id w = walletId)
          (\<lambda>w. w\<lparr>w_originalBalance := shown\<rparr>) (update_where (\<lambda>w. w_id w = walletId) (w_credit a) (d_wallets d2))\<rparr>) = (Inr (), d4)"
      and d': "d_wallets d' = d_wallets d4" "d_liquidity d' = d_liquidity d4"
        "d_transactions d' = d_transactions d4" "j = i"
      using rest by blast
    obtain base where b: "base_of walletId d = Some base" "base' = base + a"
    proof -
      have w: "d_wallets d2 = d_wallets d" using d1(2) by (simp add: d2 same_money_def)
      with sh(1) base_of_credit [of "d2\<lparr>d_wallets := update_where (\<lambda>w. w_id w = walletId) (w_credit a) (d_wallets d2)\<rparr>"
          walletId a d] have "Some base' = map_option (\<lambda>b. b + a) (base_of walletId d)" by simp
      with that show ?thesis by (cases "base_of walletId d") auto
    qed
    show thesis
      by (rule that [OF b(1) _ _ _ _ d4 d'(1-3)])
        (use sh b d'(4) in \<open>auto simp: d2 update_where_def credit_row_def w_credit_def\<close>)
  qed
  from updateInternalBalance_frame [OF d4] d3 d4 d' base shown d1(2) none show ?thesis
    by (auto simp: same_money_def transaction_by_uniqueId_def)
qed

section \<open>At most one credit\<close>

definition gap :: "string \<Rightarrow> db \<Rightarrow> int" where
  "gap c d = internal c d - owed c d"

lemma wp_preserves: "preserves I m \<Longrightarrow> I s \<Longrightarrow> wp m (\<lambda>_. I) (\<lambda>_. I) s"
  by (simp add: preserves_wp)

lemma createSweep_on_db:
  "(\<And>d cws n. I (d\<lparr>d_companyWithdrawals := cws\<rparr>) = I d \<and> I (d\<lparr>d_seq := n\<rparr>) = I d)
     \<Longrightarrow> preserves (on_db I) (createSweep env t ref a currency failure)"
  by (rule preservesI)
    (simp add: createSweep_def insertCompanyWithdrawal_def wp_simps on_db_def)

lemma deposit_sweep_on_db:
  "(\<And>d cws n. I (d\<lparr>d_companyWithdrawals := cws\<rparr>) = I d \<and> I (d\<lparr>d_seq := n\<rparr>) = I d)
     \<Longrightarrow> preserves (on_db I) (deposit_sweep env q dep t currency amt a sweep)"
  unfolding deposit_sweep_def
  by (intro preserves_intros; cases sweep; simp; intro preserves_intros createSweep_on_db; simp)

text \<open>
  The handler changes the database in its transaction and in the sweep records only, so
  what holds of the transaction's outcome holds of the handler's.
\<close>

lemma deposit_process_rule:
  assumes frame: "\<And>d cws n. I (d\<lparr>d_companyWithdrawals := cws\<rparr>) = I d \<and> I (d\<lparr>d_seq := n\<rparr>) = I d"
    and init: "I (s_db s)"
    and tx: "\<And>conf currency (user :: user) w a r d'.
      fetched = Inr (Some conf) \<Longrightarrow> wallet_for (u_id user) currency (s_db s) = Some w \<Longrightarrow>
      toBase (e_cv env) (cd_amount conf) currency None = Inr a \<Longrightarrow>
      deposit_tx env (u_id user) (w_id w) currency data conf a price (s_db s) = (Inr r, d') \<Longrightarrow> I d'"
  shows "I (s_db (snd (deposit_process env data fetched price sweep s)))"
proof -
  have "wp (deposit_process env data fetched price sweep) (\<lambda>_. on_db I) (\<lambda>_. on_db I) s"
  proof (cases "\<exists>conf. fetched = Inr (Some conf)")
    case False
    then show ?thesis using init
      by (auto simp: deposit_process_def wp_simps on_db_def split: option.splits sum.splits)
  next
    case True
    then obtain conf where f: "fetched = Inr (Some conf)" by blast
    have "wp (deposit_credit env q data conf price sweep) (\<lambda>_. on_db I) (\<lambda>_. on_db I) s" for q
    proof -
      define currency where "currency = to_upper (case or_else (cd_walletCurrency conf) (cd_currency conf) of
        None \<Rightarrow> [] | Some c \<Rightarrow> c)"
      have rest: "wp (case r of None \<Rightarrow> returnM () | Some (t, n) \<Rightarrow>
          thenM (callM (CallNotify t))
          (thenM (deposit_sweep env q (dd_id data) t currency (cd_amount conf) a sweep)
          (thenM (callM (CallDashboard (dd_id data) n)) (syncAllToCache env)))) (\<lambda>_. on_db I) (\<lambda>_. on_db I) s'"
        if "on_db I s'" for s' r a
        using that
        by (intro wp_preserves) (auto split: option.split intro!: preserves_intros deposit_sweep_on_db simp: frame)
      have credit: "wp (bindM (txM env ''deposit'' (deposit_tx env (u_id user) (w_id w) currency data conf a price)) (\<lambda>r.
          case r of None \<Rightarrow> returnM () | Some (t, n) \<Rightarrow>
          thenM (callM (CallNotify t))
          (thenM (deposit_sweep env q (dd_id data) t currency (cd_amount conf) a sweep)
          (thenM (callM (CallDashboard (dd_id data) n)) (syncAllToCache env))))) (\<lambda>_. on_db I) (\<lambda>_. on_db I) s"
        if "wallet_for (u_id user) currency (s_db s) = Some w"
          "toBase (e_cv env) (cd_amount conf) currency None = Inr a" for user :: user and w a
      proof -
        have "wp (deposit_tx env (u_id user) (w_id w) currency data conf a price) (\<lambda>_. I) (\<lambda>_ _. True) (s_db s)"
          using tx [OF f that] by (auto simp: wp_def split: prod.splits sum.splits)
        then have "wp (deposit_tx env (u_id user) (w_id w) currency data conf a price)
            (\<lambda>r d. on_db I (s\<lparr>s_db := d\<rparr>)) (\<lambda>_ _. on_db I s) (s_db s)"
          using init by (auto simp: on_db_def wp_def split: prod.splits sum.splits)
        then show ?thesis
          unfolding wp_bind wp_tx
          by (auto split: option.split intro: init [folded on_db_def] elim!: wp_mono intro!: rest)
      qed
      show ?thesis
        unfolding deposit_credit_def Let_def currency_def [symmetric]
        using init credit
        by (auto simp: wp_get wp_return wp_lift wp_bind [of "getM _"] wp_bind [of "liftM _"] on_db_def
            split: option.splits sum.splits)
    qed
    then show ?thesis using init
      by (auto simp: deposit_process_def wp_simps on_db_def f split: option.splits)
  qed
  then show ?thesis by (auto simp: wp_alt on_db_def split: sum.splits)
qed

text \<open>A processing of the event: the webhook may be delivered and retried any number of times.\<close>

record depositRun =
  dr_env :: env
  dr_data :: depositData
  dr_fetched :: "error + confirmedDeposit option"
  dr_price :: "string option"
  dr_sweep :: "error + string"

definition run_deposit :: "depositRun \<Rightarrow> sys \<Rightarrow> sys" where
  "run_deposit x s = snd (deposit_process (dr_env x) (dr_data x) (dr_fetched x) (dr_price x) (dr_sweep x) s)"

text \<open>The number of processings that change a user balance.\<close>

fun credits :: "depositRun list \<Rightarrow> sys \<Rightarrow> nat" where
  "credits [] s = 0"
| "credits (x # xs) s =
     (if d_wallets (s_db (run_deposit x s)) = d_wallets (s_db s) then 0 else 1) + credits xs (run_deposit x s)"

lemma run_deposit_replay:
  assumes "transaction_by_uniqueId (dd_id (dr_data x)) (s_db s) \<noteq> None"
  shows "d_wallets (s_db (run_deposit x s)) = d_wallets (s_db s)
    \<and> transaction_by_uniqueId (dd_id (dr_data x)) (s_db (run_deposit x s)) \<noteq> None"
proof -
  let ?I = "\<lambda>d. d_wallets d = d_wallets (s_db s) \<and> transaction_by_uniqueId (dd_id (dr_data x)) d \<noteq> None"
  show ?thesis
    unfolding run_deposit_def
  proof (rule deposit_process_rule [of ?I])
    fix conf currency w a r d' and user :: user
    assume "deposit_tx (dr_env x) (u_id user) (w_id w) currency (dr_data x) conf a (dr_price x) (s_db s) = (Inr r, d')"
    with deposit_tx_replay [OF assms, of "dr_env x" "u_id user" "w_id w" currency conf a "dr_price x"] assms
    show "?I d'" by (auto simp: same_money_def transaction_by_uniqueId_def)
  qed (use assms in \<open>simp_all add: transaction_by_uniqueId_def\<close>)
qed

lemma run_deposit_new:
  "d_wallets (s_db (run_deposit x s)) = d_wallets (s_db s)
    \<or> transaction_by_uniqueId (dd_id (dr_data x)) (s_db (run_deposit x s)) \<noteq> None"
proof -
  let ?I = "\<lambda>d. d_wallets d = d_wallets (s_db s) \<or> transaction_by_uniqueId (dd_id (dr_data x)) d \<noteq> None"
  show ?thesis
    unfolding run_deposit_def
  proof (rule deposit_process_rule [of ?I])
    fix conf currency w a r d' and user :: user
    assume run: "deposit_tx (dr_env x) (u_id user) (w_id w) currency (dr_data x) conf a (dr_price x) (s_db s) = (Inr r, d')"
    show "?I d'"
    proof (cases "transaction_by_uniqueId (dd_id (dr_data x)) (s_db s)")
      case (Some t)
      with deposit_tx_replay [of "dr_data x" "s_db s" "dr_env x" "u_id user" "w_id w" currency conf a "dr_price x"] run
      show ?thesis by (auto simp: same_money_def transaction_by_uniqueId_def)
    next
      case None
      obtain d1 where "upsertDeposit (dr_env x) (u_id user) currency (dr_data x) conf (s_db s) = (Inr (), d1)"
        "same_money (s_db s) d1" using upsertDeposit_money by blast
      with run None obtain i ngn where "r = Some (i, ngn)"
        by (auto simp: deposit_tx_def run_simps same_money_def transaction_by_uniqueId_def split: option.splits)
      with deposit_tx_new run have "\<exists>t \<in> set (d_transactions d'). t_uniqueId t = dd_id (dr_data x)"
        by (fastforce simp: deposit_row_def new_transaction_def)
      then show ?thesis by (auto simp: transaction_by_uniqueId_def find_None_iff)
    qed
  qed (simp_all add: transaction_by_uniqueId_def)
qed

text \<open>C1: however often a deposit is delivered, retried or replayed, with whatever answers from
  the provider, the ticker and the sweep, and whatever faults on the way, at most one of
  the processings changes a user balance.\<close>

theorem deposit_at_most_once:
  assumes "list_all (\<lambda>x. dd_id (dr_data x) = k) xs"
  shows "credits xs s \<le> 1"
proof -
  have none: "credits xs s = 0" if "list_all (\<lambda>x. dd_id (dr_data x) = k) xs" "transaction_by_uniqueId k (s_db s) \<noteq> None" for xs s
    using that run_deposit_replay by (induction xs arbitrary: s) auto
  show ?thesis
    using assms
  proof (induction xs arbitrary: s)
    case (Cons x xs)
    then show ?case
      using run_deposit_new [of x s] none [of xs "run_deposit x s"] by auto
  qed simp
qed

definition deposit_example :: depositData where
  "deposit_example = \<lparr>dd_walletUserId = Some ''q9'', dd_userId = None, dd_id = ''dep1'', dd_network = None,
     dd_fee = None, dd_depositAddress = None, dd_paymentAddress = None, dd_destinationTag = None,
     dd_confirmations = None, dd_requiredConfirmations = None, dd_detectedAt = None, dd_doneAt = None\<rparr>"

definition run_example :: depositRun where
  "run_example = \<lparr>dr_env = env_example, dr_data = deposit_example,
     dr_fetched = Inr (Some \<lparr>cd_status = ''Accepted'', cd_txid = None, cd_walletCurrency = Some ''usdt'',
       cd_currency = None, cd_amount = ''5''\<rparr>), dr_price = None, dr_sweep = Inr ''r1''\<rparr>"

theorem deposit_at_most_once_witness: "credits [run_example, run_example] sys_example \<le> 1"
  by (rule deposit_at_most_once [where k = "''dep1''"]) (simp add: run_example_def deposit_example_def)

section \<open>The books after a deposit\<close>

lemma owed_credit:
  assumes "keys_ok d" "wallet_for userId currency d0 = Some w" "d_wallets d0 = d_wallets d"
    and "d_wallets d' = update_where (\<lambda>x. w_id x = w_id w) (credit_row a shown) (d_wallets d)"
  shows "owed c d' = owed c d + (if ieq currency c then a else 0)"
proof -
  have w: "w \<in> set (d_wallets d)" "ieq (w_currency w) currency"
    using find_Some_in [OF assms(2) [unfolded wallet_for_def]] assms(3) by simp_all
  have "owed c d' = owed c (d\<lparr>d_wallets := update_where (\<lambda>x. w_id x = w_id w) (credit_row a shown) (d_wallets d)\<rparr>)"
    by (simp add: owed_def assms(4))
  also have "\<dots> = owed c d + (if ieq (w_currency w) c then a else 0)"
    by (rule owed_update [OF assms(1) w(1) refl]) (simp_all add: credit_row_def w_credit_def)
  finally show ?thesis using w(2) by (simp add: ieq_def)
qed

lemma deposit_tx_gap:
  assumes "keys_ok d" "wallet_for userId currency d = Some w"
    and "deposit_tx env userId' (w_id w) currency data conf a price d = (Inr r, d')"
  shows "gap c d' = gap c d"
proof (cases r)
  case None
  show ?thesis
  proof (cases "transaction_by_uniqueId (dd_id data) d")
    case (Some t)
    with deposit_tx_replay [of data d env userId' "w_id w" currency conf a price] assms(3)
    show ?thesis by (auto simp: same_money_def gap_def internal_def owed_def)
  next
    case none: None
    obtain d1 where "upsertDeposit env userId' currency data conf d = (Inr (), d1)" "same_money d d1"
      using upsertDeposit_money by blast
    with assms(3) none None show ?thesis
      by (auto simp: deposit_tx_def run_simps same_money_def transaction_by_uniqueId_def split: option.splits)
  qed
next
  case (Some x)
  obtain i ngn where x: "x = (i, ngn)" by (cases x)
  from deposit_tx_new [OF assms(3) [unfolded Some x]] obtain shown d1 d2 where
    ws: "d_wallets d' = update_where (\<lambda>v. w_id v = w_id w) (credit_row a shown) (d_wallets d)"
    and l: "d_liquidity d1 = d_liquidity d" "updateInternalBalance env currency a Add d1 = (Inr (), d2)"
      "d_liquidity d' = d_liquidity d2" by auto
  have "owed c d' = owed c d + (if ieq currency c then a else 0)"
    by (rule owed_credit [OF assms(1,2) refl ws])
  moreover have "internal c d2 = internal c d1 + (if ieq currency c then a else 0)"
    using updateInternalBalance_internal [OF _ l(2)] assms(1) l(1) by (simp add: keys_ok_def)
  ultimately show ?thesis using l by (simp add: gap_def internal_def)
qed

text \<open>C15: a deposit keeps the company's books: whatever the handler does, and wherever it stops,
  the internal balance the company records in each currency moves exactly with what the
  users own in it.\<close>

theorem deposit_keeps_gap:
  assumes "keys_ok (s_db s)"
  shows "gap c (s_db (snd (deposit_process env data fetched price sweep s))) = gap c (s_db s)"
  by (rule deposit_process_rule [of "\<lambda>d. gap c d = gap c (s_db s)"])
    (auto simp: gap_def internal_def owed_def dest: deposit_tx_gap [OF assms, where c = c, unfolded gap_def internal_def owed_def])

theorem deposit_keeps_gap_witness:
  "gap ''usdt'' (s_db (run_deposit run_example sys_example)) = gap ''usdt'' (s_db sys_example)"
  unfolding run_deposit_def
  by (rule deposit_keeps_gap)
    (simp add: keys_ok_def sys_example_def db_example_def db_empty_def)

lemma solvent_refreshOriginalBalance [preserves_intros]:
  "preserves solvent (refreshOriginalBalance env i currency)"
  unfolding refreshOriginalBalance_def
  by (intro preserves_intros solvent_updWallets) (simp add: wallet_ok_def)

lemma solvent_deposit_tx:
  "0 \<le> a \<Longrightarrow> preserves solvent (deposit_tx env userId walletId currency data conf a price)"
  unfolding deposit_tx_def upsertDeposit_def
  by (intro preserves_intros solvent_updWallets; (rule solvent_modify)?; simp add: wallet_ok_account wallet_account.ok_credit)

text \<open>A deposit of a non-negative amount leaves every account of the system solvent, whatever
  happens on the way.\<close>

theorem deposit_keeps_solvent:
  assumes "solvent (s_db s)"
    and "\<And>conf currency i. fetched = Inr (Some conf) \<Longrightarrow> toBase (e_cv env) (cd_amount conf) currency None = Inr i \<Longrightarrow> 0 \<le> i"
  shows "solvent (s_db (snd (deposit_process env data fetched price sweep s)))"
proof (rule deposit_process_rule [of solvent])
  fix conf currency w a r d' and user :: user
  assume "fetched = Inr (Some conf)" "toBase (e_cv env) (cd_amount conf) currency None = Inr a"
    and run: "deposit_tx env (u_id user) (w_id w) currency data conf a price (s_db s) = (Inr r, d')"
  then have "0 \<le> a" using assms(2) by blast
  from preservesD [OF solvent_deposit_tx [OF this] assms(1)] run show "solvent d'" by (metis snd_conv)
qed (simp_all add: assms(1))

theorem deposit_keeps_solvent_witness: "solvent (s_db (run_deposit run_example sys_example))"
  unfolding run_deposit_def
proof (rule deposit_keeps_solvent)
  show "solvent (s_db sys_example)"
    by (simp add: sys_example_def db_example_def db_empty_def wallet_example_def liquidity_example_def
        new_liquidity_def solvent_def wallet_ok_def liquidity_ok_def)
next
  fix conf currency i
  assume "dr_fetched run_example = Inr (Some conf)" "toBase (e_cv (dr_env run_example)) (cd_amount conf) currency None = Inr i"
  then have "toBase cv_example ''5'' currency None = Inr i" by (auto simp: run_example_def env_example_def)
  moreover have "\<not> has_exponent (trim ''5'')" by (simp add: currency_eval eval_simps)
  ultimately obtain d where "base_units ''5'' (to_lower currency) d (trim ''5'') = Inr i"
    by (auto simp: toBase_no_exponent split: sum.splits)
  then show "0 \<le> i" by (auto simp: currency_eval eval_simps split: if_splits)
qed

end
