(* ===== verification/Vault.thy ===== *)
theory Vault
  imports Deposit
begin

text \<open>
  Fixed-term vaults (\<^verbatim>\<open>vault.service.ts\<close>): a quote and its preview live in the temp store, a
  confirmed vault locks a stablecoin at once, or reserves BTC and swaps it for USDT; an
  unlock pays the vault out, at maturity with its interest, before it less 5%.

  Arguments for what is outside: the configuration of a currency and its interest rate (two
  Redis caches), the answers of the swap provider, and \<open>pinOk\<close>, the comparison of the PIN
  with a stored hash. A decimal.js value is a string that denotes it; ids of quotes
  (\<^verbatim>\<open>uuid\<close>) are arguments. The clock is that of the request, in UTC.
\<close>

section \<open>Quote\<close>

record bufferTier =
  bt_orderType :: "string option"
  bt_bufferPercent :: "string option"
  bt_minAmount :: "string option"
  bt_maxAmount :: "string option"

record cryptoConfig =
  cc_id :: string
  cc_symbol :: string
  cc_bufferTiers :: "bufferTier list"
  cc_defaultBufferPercent :: "string option"
  cc_maxBufferPercent :: "string option"

definition decimal_error :: error where
  "decimal_error = PlainError ''DecimalError: Invalid argument''"

text \<open>\<open>None\<close> is \<^verbatim>\<open>null\<close>; a percent is kept with its value.\<close>

definition normalizeBufferPercent :: "env \<Rightarrow> string option \<Rightarrow> error + (string \<times> rat) option" where
  "normalizeBufferPercent env v =
     (case v of
        None \<Rightarrow> Inr None
      | Some s \<Rightarrow>
          (case e_decValue env s of
             None \<Rightarrow> Inl decimal_error
           | Some p \<Rightarrow> Inr (if p \<ge> 0 then Some (s, p) else None)))"

text \<open>\<^verbatim>\<open>toFixed(0)\<close> rounds half away from zero.\<close>

definition round_half_up :: "rat \<Rightarrow> int" where
  "round_half_up v = (if v < 0 then - \<lfloor>1 / 2 - v\<rfloor> else \<lfloor>v + 1 / 2\<rfloor>)"

definition normalizeBufferTierAmount :: "env \<Rightarrow> string option \<Rightarrow> error + int option" where
  "normalizeBufferTierAmount env v =
     (case v of
        None \<Rightarrow> Inr None
      | Some s \<Rightarrow>
          (case e_decValue env s of
             None \<Rightarrow> Inl decimal_error
           | Some p \<Rightarrow> Inr (Some (round_half_up p))))"

type_synonym tier = "string option \<times> (string \<times> rat) option \<times> int option \<times> int option"

definition normalizeTier :: "env \<Rightarrow> bufferTier \<Rightarrow> error + tier" where
  "normalizeTier env t =
     (case normalizeBufferPercent env (bt_bufferPercent t) of Inl e \<Rightarrow> Inl e | Inr p \<Rightarrow>
     (case normalizeBufferTierAmount env (bt_minAmount t) of Inl e \<Rightarrow> Inl e | Inr lo \<Rightarrow>
     (case normalizeBufferTierAmount env (bt_maxAmount t) of Inl e \<Rightarrow> Inl e | Inr hi \<Rightarrow>
        Inr (bt_orderType t, p, lo, hi))))"

fun normalizeTiers :: "env \<Rightarrow> bufferTier list \<Rightarrow> error + tier list" where
  "normalizeTiers env [] = Inr []"
| "normalizeTiers env (t # ts) =
     (case normalizeTier env t of Inl e \<Rightarrow> Inl e | Inr x \<Rightarrow>
     (case normalizeTiers env ts of Inl e \<Rightarrow> Inl e | Inr xs \<Rightarrow> Inr (x # xs)))"

fun tier_matches :: "int \<Rightarrow> string \<Rightarrow> tier \<Rightarrow> bool" where
  "tier_matches amount orderType (ty, _, lo, hi) =
     ((case truthy ty of None \<Rightarrow> True | Some k \<Rightarrow> to_lower k = orderType)
      \<and> (case (lo, hi) of (Some l, Some h) \<Rightarrow> l \<le> amount \<and> amount \<le> h | _ \<Rightarrow> False))"

definition not_configured :: "string \<Rightarrow> error" where
  "not_configured symbol =
     BadRequest (''Buffer not configured for '' @ symbol @ ''. Cannot create vault quote.'')"

definition getCurrencyBufferPercent ::
    "env \<Rightarrow> cryptoConfig option \<Rightarrow> string \<Rightarrow> int \<Rightarrow> string \<Rightarrow> error + (string \<times> rat)" where
  "getCurrencyBufferPercent env currency symbol amountMinor orderType =
     (case currency of
        None \<Rightarrow> Inl (not_configured symbol)
      | Some c \<Rightarrow>
          (case normalizeTiers env (cc_bufferTiers c) of
             Inl e \<Rightarrow> Inl e
           | Inr tiers \<Rightarrow>
               (let matching = (case List.find (tier_matches amountMinor orderType) tiers of
                                  None \<Rightarrow> None | Some (_, p, _, _) \<Rightarrow> p)
                in case (case matching of Some p \<Rightarrow> Inr (Some p)
                                        | None \<Rightarrow> normalizeBufferPercent env (cc_defaultBufferPercent c)) of
                     Inl e \<Rightarrow> Inl e
                   | Inr None \<Rightarrow> Inl (not_configured symbol)
                   | Inr (Some p) \<Rightarrow>
                       (case normalizeBufferPercent env (cc_maxBufferPercent c) of
                          Inl e \<Rightarrow> Inl e
                        | Inr m \<Rightarrow> Inr (case m of
                              None \<Rightarrow> p
                            | Some m \<Rightarrow> (if snd m > 0 \<and> snd p > snd m then m else p))))))"

definition VAULT_QUOTE_TTL_SECONDS :: int where
  "VAULT_QUOTE_TTL_SECONDS = 300"

record vaultQuoteView =
  vq_id :: string
  vq_currency :: string
  vq_principalAmount :: string
  vq_bufferAmount :: string
  vq_totalCharge :: string
  vq_duration :: string
  vq_rate :: string

definition shownM :: "env \<Rightarrow> int \<Rightarrow> string \<Rightarrow> string sysm" where
  "shownM env amount currency = liftM (fromBase (e_cv env) (ABigInt amount) currency None)"

definition vault_quote_buffer :: "env \<Rightarrow> cryptoConfig \<Rightarrow> string \<Rightarrow> int \<Rightarrow> error + (string \<times> int)" where
  "vault_quote_buffer env crypto symbol amountBase =
     (if symbol = ''BTC'' then
        (case getCurrencyBufferPercent env (Some crypto) symbol amountBase ''sell'' of
           Inl e \<Rightarrow> Inl e
         | Inr (p, _) \<Rightarrow>
             (case e_pctFloor env amountBase p of
                None \<Rightarrow> Inl decimal_error
              | Some b \<Rightarrow> Inr (p, b)))
      else Inr (''0'', 0))"

definition getVaultQuote ::
    "env \<Rightarrow> cryptoConfig option \<Rightarrow> string \<Rightarrow> string \<Rightarrow> string \<Rightarrow> int \<Rightarrow> string \<Rightarrow> vaultQuoteView sysm" where
  "getVaultQuote env crypto userId currencyId amount durationDays quoteId =
     bindM (someM crypto (NotFound ''Cryptocurrency not found'')) (\<lambda>c.
     let symbol = to_upper (cc_symbol c) in
     thenM (requireM (symbol \<in> set [''BTC'', ''USDT'', ''USDC''])
       (BadRequest ''Vault only available for BTC, USDT and USDC''))
     (bindM (getM (\<lambda>s. List.find (\<lambda>w. w_userId w = userId
         \<and> (case w_currencyId w of None \<Rightarrow> False | Some k \<Rightarrow> ieq k currencyId)) (d_wallets (s_db s)))) (\<lambda>r.
      bindM (someM r (NotFound ''Wallet not found'')) (\<lambda>wallet.
      bindM (someM (truthy (w_defaultNetwork wallet)) (BadRequest ''Wallet default network not configured'')) (\<lambda>network.
      bindM (liftM (toBase (e_cv env) amount symbol None)) (\<lambda>amountBase.
      bindM (liftM (vault_quote_buffer env c symbol amountBase)) (\<lambda>(percent, buffer).
      let charge = amountBase + buffer in
      thenM (requireM (w_baseBalance wallet - w_reservedBalance wallet \<ge> charge)
        (BadRequest ''Insufficient balance for principal and buffer''))
      (bindM (liftM (if symbol = ''BTC'' then Inr 0 else toBase (e_cv env) ''1'' ''USDT'' None)) (\<lambda>rate.
       thenM (tempSet env (''vault:'' @ quoteId) (TVaultQuote
         \<lparr>q_quoteId = quoteId, q_userId = userId, q_currencyId = currencyId, q_currencySymbol = symbol,
          q_network = network, q_baseBalanceMinor = w_baseBalance wallet, q_rateMinor = rate,
          q_expiresAt = e_now env + VAULT_QUOTE_TTL_SECONDS * 1000, q_pinVerified = False,
          q_amountMinor = amountBase, q_bufferAmountMinor = buffer, q_totalChargeMinor = charge,
          q_durationDays = durationDays, q_maturityDate = e_now env + durationDays * 86400000,
          q_bufferPercent = percent, q_interestRatePerAnum = None, q_expectedInterestMinor = None,
          q_transactionFeeMinor = None, q_amountToReceiveMinor = None\<rparr>) VAULT_QUOTE_TTL_SECONDS)
       (bindM (shownM env rate ''USDT'') (\<lambda>shownRate.
        bindM (shownM env amountBase symbol) (\<lambda>shownPrincipal.
        bindM (shownM env buffer symbol) (\<lambda>shownBuffer.
        bindM (shownM env charge symbol) (\<lambda>shownCharge.
          returnM \<lparr>vq_id = quoteId, vq_currency = symbol, vq_principalAmount = shownPrincipal,
            vq_bufferAmount = shownBuffer, vq_totalCharge = shownCharge,
            vq_duration = show_int durationDays, vq_rate = shownRate\<rparr>))))))))))))))"

section \<open>Preview\<close>

text \<open>\<^verbatim>\<open>BigInt\<close> division truncates.\<close>

definition bigdiv :: "int \<Rightarrow> int \<Rightarrow> int" where
  "bigdiv a b = (if (a < 0) = (b < 0) then \<bar>a\<bar> div \<bar>b\<bar> else - (\<bar>a\<bar> div \<bar>b\<bar>))"

text \<open>
  The environment variable is a percentage; \<^verbatim>\<open>parseFloat(...) || 100\<close> takes an unset one, and
  0, for 100.
\<close>

definition VAULT_TRANSACTION_FEE :: "rat option \<Rightarrow> rat" where
  "VAULT_TRANSACTION_FEE configured =
     (case configured of None \<Rightarrow> 100 | Some f \<Rightarrow> (if f = 0 then 100 else f))"

definition expected_interest :: "int \<Rightarrow> rat \<Rightarrow> int \<Rightarrow> int" where
  "expected_interest amountBase ratePercent days = bigdiv (amountBase * \<lfloor>ratePercent\<rfloor> * days) 36500"

definition vault_fee :: "rat \<Rightarrow> int \<Rightarrow> int" where
  "vault_fee fee payout = bigdiv (payout * \<lfloor>fee * 10000\<rfloor>) 1000000"

text \<open>The cached interest rate of a currency: its value and \<^verbatim>\<open>toString()\<close>.\<close>

type_synonym interestRate = "(rat \<times> string) option"

definition rate_missing :: error where
  "rate_missing = BadRequest ''Interest rate not configured for this currency''"

definition preview_of :: "rat \<Rightarrow> rat \<times> string \<Rightarrow> vaultQuote \<Rightarrow> vaultQuote" where
  "preview_of fee rate q =
     (let interest = expected_interest (q_amountMinor q) (fst rate) (q_durationDays q);
          payout = q_amountMinor q + interest;
          cost = vault_fee fee payout
      in q\<lparr>q_interestRatePerAnum := Some (snd rate),
           q_expectedInterestMinor := Some interest,
           q_transactionFeeMinor := Some cost,
           q_amountToReceiveMinor := Some (payout - cost)\<rparr>)"

definition ttl_left :: "env \<Rightarrow> vaultQuote \<Rightarrow> int" where
  "ttl_left env q = - ((e_now env - q_expiresAt q) div 1000)"

definition vault_quote_at :: "env \<Rightarrow> string \<Rightarrow> error \<Rightarrow> vaultQuote sysm" where
  "vault_quote_at env quoteId missing =
     bindM (tempGet env (''vault:'' @ quoteId)) (\<lambda>r.
       case r of Some (TVaultQuote q) \<Rightarrow> returnM q | _ \<Rightarrow> throwM missing)"

definition with_network :: "env \<Rightarrow> string \<Rightarrow> string \<Rightarrow> vaultQuote \<Rightarrow> vaultQuote sysm" where
  "with_network env userId quoteId q =
     (if q_network q \<noteq> [] then returnM q
      else bindM (getM (\<lambda>s. wallet_by_currencyId userId (q_currencyId q) (s_db s))) (\<lambda>w.
        bindM (someM (case w of None \<Rightarrow> None | Some x \<Rightarrow> truthy (w_defaultNetwork x))
            (BadRequest ''Wallet network not configured'')) (\<lambda>n.
        let q' = q\<lparr>q_network := n\<rparr> in
        thenM (tempSet env (''vault:'' @ quoteId) (TVaultQuote q') (ttl_left env q)) (returnM q'))))"

record vaultPreviewView =
  vp_quote :: vaultQuote
  vp_principalAmount :: string
  vp_bufferAmount :: string
  vp_totalCharge :: string
  vp_expectedInterest :: string
  vp_transactionFee :: string
  vp_amountToReceive :: string
  vp_rate :: string

definition minor :: "int option \<Rightarrow> int" where
  "minor v = (case v of None \<Rightarrow> 0 | Some i \<Rightarrow> i)"

definition preview_view :: "env \<Rightarrow> vaultQuote \<Rightarrow> vaultPreviewView sysm" where
  "preview_view env p =
     (let symbol = q_currencySymbol p in
      bindM (liftM (getDecimals (e_cv env) symbol)) (\<lambda>_.
      bindM (if symbol = ''BTC'' then (if q_rateMinor p = 0 then returnM ''0'' else shownM env (q_rateMinor p) ''USDT'')
             else returnM ''1'') (\<lambda>shownRate.
      bindM (shownM env (minor (q_transactionFeeMinor p)) symbol) (\<lambda>shownFee.
      bindM (shownM env (q_amountMinor p) symbol) (\<lambda>shownAmount.
      bindM (shownM env (q_bufferAmountMinor p) symbol) (\<lambda>shownBuffer.
      bindM (shownM env (q_totalChargeMinor p) symbol) (\<lambda>shownCharge.
      bindM (shownM env (minor (q_expectedInterestMinor p)) symbol) (\<lambda>shownInterest.
      bindM (shownM env (minor (q_amountToReceiveMinor p)) symbol) (\<lambda>shownPayout.
        returnM \<lparr>vp_quote = p, vp_principalAmount = shownAmount, vp_bufferAmount = shownBuffer,
          vp_totalCharge = shownCharge, vp_expectedInterest = shownInterest, vp_transactionFee = shownFee,
          vp_amountToReceive = shownPayout, vp_rate = shownRate\<rparr>)))))))))"

definition getVaultPreview ::
    "env \<Rightarrow> rat option \<Rightarrow> interestRate \<Rightarrow> string \<Rightarrow> string \<Rightarrow> vaultPreviewView sysm" where
  "getVaultPreview env configuredFee rate userId quoteId =
     bindM (vault_quote_at env quoteId (NotFound ''Quote not found'')) (\<lambda>q0.
     bindM (with_network env userId quoteId q0) (\<lambda>q.
     bindM (someM (case rate of None \<Rightarrow> None | Some r \<Rightarrow> (if fst r \<le> 0 then None else Some r)) rate_missing) (\<lambda>r.
     let p = preview_of (VAULT_TRANSACTION_FEE configuredFee) r q in
     thenM (tempSet env (''vault:'' @ quoteId) (TVaultQuote p) (ttl_left env q)) (preview_view env p))))"

section \<open>Confirmation\<close>

text \<open>What the preview added to the quote; \<open>None\<close> before the preview.\<close>

record vaultTerms =
  vt_rate :: string
  vt_interest :: int
  vt_fee :: int
  vt_payout :: int

definition terms_of :: "vaultQuote \<Rightarrow> vaultTerms option" where
  "terms_of q =
     (case (q_interestRatePerAnum q, q_expectedInterestMinor q, q_transactionFeeMinor q, q_amountToReceiveMinor q) of
        (Some r, Some i, Some f, Some a) \<Rightarrow> Some \<lparr>vt_rate = r, vt_interest = i, vt_fee = f, vt_payout = a\<rparr>
      | _ \<Rightarrow> None)"

definition isBTC :: "vaultQuote \<Rightarrow> bool" where
  "isBTC q \<longleftrightarrow> to_upper (q_currencySymbol q) = ''BTC''"

definition new_vault :: "env \<Rightarrow> string \<Rightarrow> string \<Rightarrow> string \<Rightarrow> vaultQuote \<Rightarrow> vaultTerms \<Rightarrow> vault" where
  "new_vault env i userId quoteId q vt =
     \<lparr>v_id = i, v_userId = userId, v_currencyId = q_currencyId q, v_quoteId = Some quoteId,
      v_amountLocked = q_amountMinor q, v_maturityDate = q_maturityDate q, v_totalGain = vt_interest vt,
      v_interestRatePerAnum = vt_rate vt, v_transactionFee = vt_fee vt, v_rate = q_rateMinor q,
      v_amountToReceive = vt_payout vt, v_bufferAmount = q_bufferAmountMinor q,
      v_bufferPercent = (if q_bufferPercent q = [] then ''0'' else q_bufferPercent q),
      v_requestedAt = e_now env, v_status = (if isBTC q then VPENDING else VACTIVE)\<rparr>"

definition createVault :: "vault \<Rightarrow> unit dbm" where
  "createVault v =
     bindM (getM (\<lambda>d. list_ex (\<lambda>x. v_quoteId x = v_quoteId v \<and> v_quoteId v \<noteq> None) (d_vaults d))) (\<lambda>dup.
       if dup then throwM (PrismaError ''P2002'')
       else modifyM (\<lambda>d. d\<lparr>d_vaults := d_vaults d @ [v]\<rparr>))"

definition QUIDAX_COMPANY_USERID :: string where
  "QUIDAX_COMPANY_USERID = ''me''"

definition shown_db :: "env \<Rightarrow> int \<Rightarrow> string \<Rightarrow> string dbm" where
  "shown_db env amount currency = liftM (fromBase (e_cv env) (ABigInt amount) currency None)"

text \<open>The debit of the wallet: BTC is reserved, a stablecoin moves from the balance to the locked amount.\<close>

definition vault_debit :: "env \<Rightarrow> string \<Rightarrow> vaultQuote \<Rightarrow> wallet \<Rightarrow> unit dbm" where
  "vault_debit env userId q wallet =
     (if isBTC q then reserveBalance userId ''BTC'' (q_totalChargeMinor q) None
      else
        let newBase = w_baseBalance wallet - q_totalChargeMinor q;
            newLocked = w_lockedAmount wallet + q_amountMinor q
        in bindM (shown_db env newBase (q_currencySymbol q)) (\<lambda>shown.
             updWallets (\<lambda>w. w_id w = w_id wallet)
               (\<lambda>w. w\<lparr>w_baseBalance := newBase, w_lockedAmount := newLocked, w_originalBalance := shown\<rparr>)))"

definition l_lock :: "int \<Rightarrow> int \<Rightarrow> liquidity \<Rightarrow> liquidity" where
  "l_lock a interest l = l\<lparr>l_totalLockedPrincipal := l_totalLockedPrincipal l + a,
     l_totalAccruedLockedInterest := l_totalAccruedLockedInterest l + interest\<rparr>"

definition vault_lock_funds :: "vaultQuote \<Rightarrow> vaultTerms \<Rightarrow> wallet \<Rightarrow> unit dbm" where
  "vault_lock_funds q vt wallet =
     thenM (updWallets (\<lambda>w. w_id w = w_id wallet)
         (\<lambda>w. w\<lparr>w_totalLockedInterest := w_totalLockedInterest w + vt_interest vt\<rparr>))
       (updLiquidity (\<lambda>l. ieq (l_currency l) (to_upper (q_currencySymbol q)))
         (l_lock (q_amountMinor q) (vt_interest vt)))"

text \<open>The records of the BTC swap: the ids of the transaction and of the swap.\<close>

definition vault_swap_rows :: "env \<Rightarrow> string \<Rightarrow> string \<Rightarrow> vaultQuote \<Rightarrow> wallet \<Rightarrow> string \<Rightarrow> (string \<times> string) dbm" where
  "vault_swap_rows env userId quoteId q wallet vaultId =
     bindM (shown_db env (q_amountMinor q) ''BTC'') (\<lambda>shownAmount.
     bindM (shown_db env (q_bufferAmountMinor q) ''BTC'') (\<lambda>shownBuffer.
     bindM (shown_db env (q_totalChargeMinor q) ''BTC'') (\<lambda>shownCharge.
     bindM (freshM env) (\<lambda>ti.
     thenM (insertTransaction ((new_transaction ti userId quoteId ''BTC'' DEBIT CtxVAULT_SWAP)\<lparr>
         t_network := w_defaultNetwork wallet,
         t_cryptoAmountBase := Some (q_amountMinor q),
         t_cryptoAmountOriginal := Some shownAmount,
         t_platformFeeBase := Some (q_bufferAmountMinor q),
         t_platformFeeOriginal := Some shownBuffer,
         t_totalAmountSentBase := Some (q_totalChargeMinor q),
         t_totalAmountSentOriginal := Some shownCharge,
         t_description := Some ''Vault Protection Swap: BTC to USDT''\<rparr>))
     (bindM (freshM env) (\<lambda>si.
      thenM (createSwap \<lparr>sw_id = si, sw_userId = userId, sw_quidaxAccountId = QUIDAX_COMPANY_USERID,
          sw_fromCurrency = ''BTC'', sw_toCurrency = ''USDT'', sw_amountOriginal = shownCharge,
          sw_quotedPriceOriginal = None, sw_feeOriginal = None, sw_toAmountOriginal = None,
     sw_receivedAmountOriginal = None, sw_quoteId = Some quoteId,
          sw_swapId = None, sw_status = ''PENDING'', sw_confirmed = False,
          sw_executionPriceOriginal = None, sw_description = Some (''vault_swap:'' @ vaultId)\<rparr>)
      (returnM (ti, si))))))))"

definition vault_confirm_tx ::
    "env \<Rightarrow> interestRate \<Rightarrow> string \<Rightarrow> string \<Rightarrow> vaultQuote \<Rightarrow> vaultTerms \<Rightarrow> (vault \<times> (string \<times> string) option) dbm" where
  "vault_confirm_tx env rate userId quoteId q vt =
     bindM (getM (wallet_by_currencyId userId (q_currencyId q))) (\<lambda>r.
     bindM (someM r (NotFound ''Wallet not found'')) (\<lambda>wallet.
     thenM (requireM (w_baseBalance wallet - w_reservedBalance wallet \<ge> q_totalChargeMinor q)
       (BadRequest ''Insufficient balance''))
     (thenM (vault_debit env userId q wallet)
     (thenM (requireM (case rate of None \<Rightarrow> False | Some x \<Rightarrow> fst x > 0) rate_missing)
     (bindM (freshM env) (\<lambda>i.
      let v = new_vault env i userId quoteId q vt in
      thenM (createVault v)
      (thenM (whenM (\<not> isBTC q) (vault_lock_funds q vt wallet))
      (if isBTC q
       then bindM (vault_swap_rows env userId quoteId q wallet i) (\<lambda>ids. returnM (v, Some ids))
       else returnM (v, None)))))))))"

text \<open>
  The swap. \<open>requested\<close> is the provider's quotation (its id and the USDT amount),
  \<open>confirmed\<close> the answer to its confirmation (status, id, USDT amount).
\<close>

type_synonym swapQuotation = "error + (string option \<times> string option)"
type_synonym swapConfirmation = "error + (string \<times> string option \<times> string option)"

definition quoted_usdt :: "env \<Rightarrow> swapQuotation \<Rightarrow> error + (string \<times> string \<times> int)" where
  "quoted_usdt env requested =
     (case requested of
        Inl e \<Rightarrow> Inl e
      | Inr (qid, to) \<Rightarrow>
          (case truthy qid of
             None \<Rightarrow> Inl (PlainError ''Quote refresh Failed'')
           | Some i \<Rightarrow>
               (case truthy to of
                  None \<Rightarrow> Inl (PlainError ''Swap quotation missing USDT amount'')
                | Some amount \<Rightarrow>
                    (case toBase (e_cv env) amount ''USDT'' None of
                       Inl e \<Rightarrow> Inl e
                     | Inr r \<Rightarrow> Inr (i, amount, r)))))"

definition setUniqueId :: "string \<Rightarrow> string \<Rightarrow> unit dbm" where
  "setUniqueId i u =
     bindM (getM (transaction_by_uniqueId u)) (\<lambda>r.
       thenM (requireM (case r of None \<Rightarrow> True | Some t \<Rightarrow> t_id t = i) (PrismaError ''P2002''))
         (updTransactions (\<lambda>t. t_id t = i) (\<lambda>t. t\<lparr>t_uniqueId := u\<rparr>)))"

definition vault_swap_confirm ::
    "env \<Rightarrow> string \<Rightarrow> string \<Rightarrow> string \<Rightarrow> string \<Rightarrow> int \<Rightarrow> swapConfirmation \<Rightarrow> unit sysm" where
  "vault_swap_confirm env ti si qid quoted expected confirmed =
     bindM (reserveLiquidity_direct env ''USDT'' expected) (\<lambda>reserved.
     thenM (requireM reserved (BadRequest ''Insufficient company USDT liquidity for vault''))
     (thenM (callM (CallSwapConfirm qid))
     (bindM (liftM confirmed) (\<lambda>(status, sid, to).
       case (if status = ''success'' then truthy sid else None) of
         None \<Rightarrow> throwM (PlainError ''Quote Confirmation Failed'')
       | Some i \<Rightarrow> txM env ''vault_swap''
           (thenM (setUniqueId ti i)
             (updSwaps (\<lambda>x. sw_id x = si)
               (\<lambda>x. x\<lparr>sw_swapId := Some i, sw_toAmountOriginal := or_else to (Some quoted)\<rparr>)))))))"

definition vault_compensate_tx :: "string \<Rightarrow> vaultQuote \<Rightarrow> string \<Rightarrow> string \<Rightarrow> string \<Rightarrow> int \<Rightarrow> unit dbm" where
  "vault_compensate_tx userId q vaultId ti si expected =
     thenM (releaseBalance userId ''BTC'' (q_totalChargeMinor q) None)
     (thenM (updTransactions (\<lambda>t. t_id t = ti) (\<lambda>t. t\<lparr>t_status := TxFAILED\<rparr>))
     (thenM (updSwaps (\<lambda>x. sw_id x = si) (\<lambda>x. x\<lparr>sw_status := ''FAILED''\<rparr>))
     (thenM (updVaults (\<lambda>v. v_id v = vaultId) (\<lambda>v. v\<lparr>v_status := VTERMINATED\<rparr>))
     (whenM (expected > 0) (releaseLiquidity ''USDT'' expected)))))"

definition vault_compensate ::
    "env \<Rightarrow> string \<Rightarrow> vaultQuote \<Rightarrow> string \<Rightarrow> string \<Rightarrow> string \<Rightarrow> int \<Rightarrow> unit sysm" where
  "vault_compensate env userId q vaultId ti si expected =
     thenM (txM env ''vault_compensate'' (vault_compensate_tx userId q vaultId ti si expected))
       (throwM (BadRequest ''Exchange failed. BTC balance has been released.''))"

text \<open>
  The \<^verbatim>\<open>try\<close> block: \<^verbatim>\<open>reservedExpectedUsdtMinor\<close> is assigned once the quotation is there, before
  the liquidity is reserved, and is what the \<^verbatim>\<open>catch\<close> releases.
\<close>

definition vault_swap ::
    "env \<Rightarrow> string \<Rightarrow> vaultQuote \<Rightarrow> string \<Rightarrow> string \<Rightarrow> string \<Rightarrow> swapQuotation \<Rightarrow> swapConfirmation \<Rightarrow> unit sysm" where
  "vault_swap env userId q vaultId ti si requested confirmed =
     (case fromBase (e_cv env) (ABigInt (q_totalChargeMinor q)) ''BTC'' None of
        Inl _ \<Rightarrow> vault_compensate env userId q vaultId ti si 0
      | Inr amount \<Rightarrow>
          thenM (callM (CallSwapRequest ''btc'' ''usdt'' amount))
          (case quoted_usdt env requested of
             Inl _ \<Rightarrow> vault_compensate env userId q vaultId ti si 0
           | Inr (qid, quoted, expected) \<Rightarrow>
               catchM (vault_swap_confirm env ti si qid quoted expected confirmed)
                 (\<lambda>_. vault_compensate env userId q vaultId ti si expected)))"

text \<open>The end: the quote is deleted, the user is notified (any failure of it is ignored), and the
  answer shows the amount locked.\<close>

definition vault_finish :: "env \<Rightarrow> string \<Rightarrow> vault \<Rightarrow> (vault \<times> string) sysm" where
  "vault_finish env quoteId v =
     bindM (getM (\<lambda>s. crypto_by_id (v_currencyId v) (s_db s))) (\<lambda>r.
     bindM (someM r (PlainError ''TypeError: Cannot read properties of null'')) (\<lambda>crypto.
     bindM (liftM (getDecimals (e_cv env) (c_symbol crypto))) (\<lambda>_.
     thenM (tempDel (''vault:'' @ quoteId))
     (thenM (catchM (bindM (shownM env (v_amountToReceive v) (c_symbol crypto)) (\<lambda>_.
        bindM (shownM env (v_amountLocked v) (c_symbol crypto)) (\<lambda>_. callM (CallNotify (v_id v))))) (\<lambda>_. returnM ()))
     (bindM (shownM env (v_amountLocked v) (c_symbol crypto)) (\<lambda>shown. returnM (v, shown)))))))"

definition vault_confirm_body ::
    "env \<Rightarrow> interestRate \<Rightarrow> string \<Rightarrow> string \<Rightarrow> swapQuotation \<Rightarrow> swapConfirmation \<Rightarrow> (vault \<times> string) sysm" where
  "vault_confirm_body env rate userId quoteId requested confirmed =
     bindM (vault_quote_at env quoteId (NotFound ''Quote not found or expired'')) (\<lambda>q.
     thenM (requireM (q_userId q = userId) (Unauthorized ''Unauthorized quote''))
     (thenM (requireM (e_now env \<le> q_expiresAt q) (BadRequest ''Quote expired''))
     (bindM (someM (terms_of q) (BadRequest ''Preview quote before confirming vault'')) (\<lambda>vt.
      bindM (txM env ''vault_confirm'' (vault_confirm_tx env rate userId quoteId q vt)) (\<lambda>(v, ids).
      thenM (case ids of
          None \<Rightarrow> returnM ()
        | Some (ti, si) \<Rightarrow> vault_swap env userId q (v_id v) ti si requested confirmed)
      (vault_finish env quoteId v))))))"

definition confirmVault ::
    "env \<Rightarrow> interestRate \<Rightarrow> string \<Rightarrow> string \<Rightarrow> swapQuotation \<Rightarrow> swapConfirmation \<Rightarrow> (vault \<times> string) sysm" where
  "confirmVault env rate userId quoteId requested confirmed =
     (let lockKey = ''vault_confirm_lock:'' @ userId @ '':'' @ quoteId in
      bindM (tempSetNx env lockKey (TFlag ''true'') 10) (\<lambda>acquired.
      thenM (requireM acquired (BadRequest ''Please wait before submitting again''))
      (finallyM (vault_confirm_body env rate userId quoteId requested confirmed) (tempDel lockKey))))"

section \<open>Unlock\<close>

definition active_vault :: "string \<Rightarrow> string \<Rightarrow> db \<Rightarrow> vault option" where
  "active_vault userId vaultId d =
     List.find (\<lambda>v. v_id v = vaultId \<and> v_userId v = userId \<and> v_status v = VACTIVE) (d_vaults d)"

definition vault_penalty :: "int \<Rightarrow> int" where
  "vault_penalty amountLocked = bigdiv (amountLocked * 5) 100"

text \<open>What an unlock returns to the balance, and the interest in it.\<close>

definition vault_payout :: "bool \<Rightarrow> vault \<Rightarrow> int \<times> int" where
  "vault_payout early v =
     (if early then (v_amountLocked v - vault_penalty (v_amountLocked v), 0)
      else (v_amountToReceive v,
        if v_amountToReceive v > v_amountLocked v then v_amountToReceive v - v_amountLocked v else 0))"

definition unlocked_wallet :: "int \<Rightarrow> string \<Rightarrow> int \<Rightarrow> int \<Rightarrow> wallet \<Rightarrow> wallet" where
  "unlocked_wallet newBase shown newLocked gain w =
     w\<lparr>w_baseBalance := newBase, w_lockedAmount := newLocked,
       w_totalLockedInterest := w_totalLockedInterest w - gain, w_originalBalance := shown\<rparr>"

definition l_unlock :: "int \<Rightarrow> int \<Rightarrow> int \<Rightarrow> liquidity \<Rightarrow> liquidity" where
  "l_unlock a gain paid l = l\<lparr>l_totalLockedPrincipal := max (l_totalLockedPrincipal l - a) 0,
     l_totalAccruedLockedInterest := max (l_totalAccruedLockedInterest l - gain) 0,
     l_totalLockedInterestPaid := l_totalLockedInterestPaid l + paid\<rparr>"

record unlockResult =
  ur_amount :: int
  ur_gain :: int
  ur_penalty :: int

text \<open>The transaction: the row is locked and its status read again.\<close>

definition vault_unlock_tx :: "env \<Rightarrow> string \<Rightarrow> string \<Rightarrow> bool \<Rightarrow> unlockResult dbm" where
  "vault_unlock_tx env userId vaultId early =
     bindM (getM (active_vault userId vaultId)) (\<lambda>r.
     bindM (someM r (BadRequest ''Vault already processed'')) (\<lambda>v.
     bindM (getM (crypto_by_id (v_currencyId v))) (\<lambda>c.
     bindM (someM c (PlainError ''TypeError: Cannot read properties of null'')) (\<lambda>crypto.
     bindM (getM (wallet_by_currencyId userId (v_currencyId v))) (\<lambda>w.
     bindM (someM w (NotFound ''Wallet not found for this currency'')) (\<lambda>wallet.
     let (amount, interest) = vault_payout early v;
         newBase = w_baseBalance wallet + amount;
         newLocked = (if w_lockedAmount wallet > v_amountLocked v then w_lockedAmount wallet - v_amountLocked v else 0);
         symbol = to_upper (c_symbol crypto)
     in bindM (shown_db env newBase (c_symbol crypto)) (\<lambda>shown.
     thenM (updWallets (\<lambda>x. w_id x = w_id wallet) (unlocked_wallet newBase shown newLocked (v_totalGain v)))
     (thenM (updVaults (\<lambda>x. v_id x = v_id v) (\<lambda>x. x\<lparr>v_status := (if early then VTERMINATED else VMATURED)\<rparr>))
     (thenM (whenM (symbol = ''USDT'' \<or> symbol = ''USDC'')
       (updLiquidity (\<lambda>l. ieq (l_currency l) symbol) (l_unlock (v_amountLocked v) (v_totalGain v) interest)))
     (returnM \<lparr>ur_amount = amount, ur_gain = interest, ur_penalty = vault_penalty (v_amountLocked v)\<rparr>))))))))))"

definition check_pin :: "(string \<Rightarrow> bool) \<Rightarrow> string \<Rightarrow> unit sysm" where
  "check_pin pinOk userId =
     bindM (getM (\<lambda>s. user_by_id userId (s_db s))) (\<lambda>u.
     bindM (someM (case u of None \<Rightarrow> None | Some x \<Rightarrow> truthy (u_pin x)) (BadRequest ''Set PIN first'')) (\<lambda>pin.
       requireM (pinOk pin) (BadRequest ''Invalid PIN'')))"

record unlockView =
  uv_early :: bool
  uv_unlockedAmount :: string
  uv_interestEarned :: string
  uv_penaltyCharged :: string

definition vault_unlock_body :: "env \<Rightarrow> (string \<Rightarrow> bool) \<Rightarrow> string \<Rightarrow> string \<Rightarrow> unlockView sysm" where
  "vault_unlock_body env pinOk userId vaultId =
     bindM (getM (\<lambda>s. active_vault userId vaultId (s_db s))) (\<lambda>r.
     bindM (someM r (NotFound ''Vault not found or already completed'')) (\<lambda>v.
     bindM (getM (\<lambda>s. wallet_by_currencyId userId (v_currencyId v) (s_db s))) (\<lambda>w.
     bindM (someM (case w of None \<Rightarrow> None | Some x \<Rightarrow> truthy (w_defaultNetwork x))
       (BadRequest ''Wallet configuration error'')) (\<lambda>_.
     let early = (e_now env < v_maturityDate v) in
     thenM (whenM early (check_pin pinOk userId))
     (bindM (txM env ''vault_unlock'' (vault_unlock_tx env userId vaultId early)) (\<lambda>res.
      bindM (getM (\<lambda>s. crypto_by_id (v_currencyId v) (s_db s))) (\<lambda>c.
      bindM (someM c (PlainError ''TypeError: Cannot read properties of null'')) (\<lambda>crypto.
      bindM (liftM (getDecimals (e_cv env) (c_symbol crypto))) (\<lambda>_.
      bindM (if early then shownM env (ur_penalty res) (c_symbol crypto) else returnM ''0'') (\<lambda>penalty.
      thenM (catchM (bindM (shownM env (ur_amount res) (c_symbol crypto)) (\<lambda>_.
         bindM (shownM env (ur_gain res) (c_symbol crypto)) (\<lambda>_. callM (CallNotify (v_id v))))) (\<lambda>_. returnM ()))
      (bindM (shownM env (ur_amount res) (c_symbol crypto)) (\<lambda>amount.
       bindM (shownM env (ur_gain res) (c_symbol crypto)) (\<lambda>gain.
         returnM \<lparr>uv_early = early, uv_unlockedAmount = amount, uv_interestEarned = gain,
           uv_penaltyCharged = penalty\<rparr>)))))))))))))"

definition vault_unlock :: "env \<Rightarrow> (string \<Rightarrow> bool) \<Rightarrow> string \<Rightarrow> string \<Rightarrow> unlockView sysm" where
  "vault_unlock env pinOk userId vaultId =
     (let lockKey = ''vault_unlock_lock:'' @ userId @ '':'' @ vaultId in
      bindM (tempSetNx env lockKey (TFlag ''true'') 10) (\<lambda>acquired.
      thenM (requireM acquired (BadRequest ''Please wait before submitting again''))
      (finallyM (vault_unlock_body env pinOk userId vaultId) (tempDel lockKey))))"

section \<open>Cancellation of a pending vault\<close>

definition vault_cancel_tx :: "env \<Rightarrow> string \<Rightarrow> vault \<Rightarrow> cryptoCurrency \<Rightarrow> swapTransaction option \<Rightarrow> unit dbm" where
  "vault_cancel_tx env userId v crypto sw =
     thenM (updVaults (\<lambda>x. v_id x = v_id v) (\<lambda>x. x\<lparr>v_status := VTERMINATED\<rparr>))
     (whenM (to_upper (c_symbol crypto) = ''BTC'')
       (thenM (releaseBalance userId ''BTC'' (v_amountLocked v + v_bufferAmount v) None)
         (case (case sw of None \<Rightarrow> None | Some x \<Rightarrow> truthy (sw_toAmountOriginal x)) of
            None \<Rightarrow> returnM ()
          | Some to \<Rightarrow> bindM (liftM (toBase (e_cv env) to ''USDT'' None)) (\<lambda>a. releaseLiquidity ''USDT'' a))))"

text \<open>\<open>fetched\<close>: the status the provider gives of the swap; \<open>cancelled\<close>: its answer to the cancel request.\<close>

definition cancelPendingVault ::
    "env \<Rightarrow> string \<Rightarrow> string \<Rightarrow> error + string option \<Rightarrow> error + unit \<Rightarrow> unit sysm" where
  "cancelPendingVault env userId vaultId fetched cancelled =
     bindM (getM (\<lambda>s. List.find (\<lambda>v. v_id v = vaultId \<and> v_userId v = userId \<and> v_status v = VPENDING)
       (d_vaults (s_db s)))) (\<lambda>r.
     bindM (someM r (NotFound ''Pending vault not found'')) (\<lambda>v.
     bindM (getM (\<lambda>s. crypto_by_id (v_currencyId v) (s_db s))) (\<lambda>c.
     bindM (someM c (PlainError ''TypeError: Cannot read properties of null'')) (\<lambda>crypto.
     bindM (getM (\<lambda>s. List.find (\<lambda>x. sw_userId x = userId \<and> sw_description x = Some (''vault_swap:'' @ v_id v))
       (d_swaps (s_db s)))) (\<lambda>sw.
     thenM (case (case sw of None \<Rightarrow> None | Some x \<Rightarrow> truthy (sw_swapId x)) of
         None \<Rightarrow> returnM ()
       | Some sid \<Rightarrow>
           bindM (liftM fetched) (\<lambda>status.
           thenM (requireM (to_lower (case status of None \<Rightarrow> [] | Some k \<Rightarrow> k) \<notin> set [''completed'', ''done''])
             (BadRequest ''Vault swap already processed and cannot be cancelled''))
           (thenM (callM (CallSwapCancel sid)) (liftM cancelled))))
     (txM env ''vault_cancel'' (vault_cancel_tx env userId v crypto sw)))))))"

section \<open>Reading vaults\<close>

record vaultView =
  vv_vault :: vault
  vv_currency :: string
  vv_amountLocked :: string
  vv_totalGain :: string
  vv_transactionFee :: string
  vv_rate :: string
  vv_amountToReceive :: string
  vv_bufferAmount :: string

definition vault_view :: "env \<Rightarrow> string \<Rightarrow> vault \<Rightarrow> vaultView sysm" where
  "vault_view env symbol v =
     bindM (liftM (getDecimals (e_cv env) symbol)) (\<lambda>_.
     bindM (shownM env (v_amountLocked v) symbol) (\<lambda>amount.
     bindM (shownM env (v_totalGain v) symbol) (\<lambda>gain.
     bindM (shownM env (v_transactionFee v) symbol) (\<lambda>cost.
     bindM (shownM env (v_rate v) ''USDT'') (\<lambda>rate.
     bindM (shownM env (v_amountToReceive v) symbol) (\<lambda>payout.
     bindM (shownM env (v_bufferAmount v) symbol) (\<lambda>buffer.
       returnM \<lparr>vv_vault = v, vv_currency = symbol, vv_amountLocked = amount, vv_totalGain = gain,
         vv_transactionFee = cost, vv_rate = rate, vv_amountToReceive = payout, vv_bufferAmount = buffer\<rparr>)))))))"

definition getVaultById :: "env \<Rightarrow> string \<Rightarrow> string \<Rightarrow> vaultView sysm" where
  "getVaultById env userId vaultId =
     bindM (getM (\<lambda>s. List.find (\<lambda>v. v_id v = vaultId \<and> v_userId v = userId) (d_vaults (s_db s)))) (\<lambda>r.
     bindM (someM r (NotFound ''Vault not found'')) (\<lambda>v.
     bindM (getM (\<lambda>s. crypto_by_id (v_currencyId v) (s_db s))) (\<lambda>c.
     bindM (getM (\<lambda>s. wallet_by_currencyId userId (v_currencyId v) (s_db s))) (\<lambda>w.
     thenM (requireM (case w of None \<Rightarrow> False | Some x \<Rightarrow> truthy (w_defaultNetwork x) \<noteq> None)
       (BadRequest ''Wallet default network not configured''))
     (bindM (someM c (PlainError ''TypeError: Cannot read properties of null'')) (\<lambda>crypto.
       vault_view env (c_symbol crypto) v))))))"

text \<open>The page of a listing: at most 20 rows, the newest first.\<close>

definition page_limit :: "int \<Rightarrow> int" where
  "page_limit n = min (max (if n = 0 then 10 else n) 1) 20"

definition page_number :: "int \<Rightarrow> int" where
  "page_number n = max (if n = 0 then 1 else n) 1"

definition page_of :: "int \<Rightarrow> int \<Rightarrow> 'a list \<Rightarrow> 'a list" where
  "page_of page limit rows =
     take (nat (page_limit limit)) (drop (nat ((page_number page - 1) * page_limit limit)) rows)"

definition page_count :: "int \<Rightarrow> nat \<Rightarrow> int" where
  "page_count limit n = - ((- int n) div page_limit limit)"

definition listed_vaults :: "string \<Rightarrow> bool \<Rightarrow> db \<Rightarrow> vault list" where
  "listed_vaults userId allStates d =
     rev (filter (\<lambda>v. v_userId v = userId \<and> (allStates \<or> v_status v = VPENDING \<or> v_status v = VACTIVE)) (d_vaults d))"

text \<open>
  Sums of decimal.js: \<open>do_mul\<close>, \<open>do_plus\<close> and \<open>do_fixed2\<close> are \<^verbatim>\<open>mul\<close>, \<^verbatim>\<open>plus\<close> and
  \<^verbatim>\<open>toFixed(2)\<close>. \<open>price\<close> is the ticker's answer for a pair.
\<close>

record decimalOps =
  do_mul :: "string \<Rightarrow> string \<Rightarrow> string"
  do_plus :: "string \<Rightarrow> string \<Rightarrow> string"
  do_fixed2 :: "string \<Rightarrow> string"

definition ngn_rate :: "(string \<Rightarrow> string option) \<Rightarrow> string \<Rightarrow> string" where
  "ngn_rate price symbol =
     (if to_upper symbol = ''NGN'' then ''1''
      else (case truthy (price (to_lower symbol @ ''ngn'')) of None \<Rightarrow> ''0'' | Some p \<Rightarrow> p))"

fun vault_views ::
    "env \<Rightarrow> decimalOps \<Rightarrow> (string \<Rightarrow> string option) \<Rightarrow> string \<Rightarrow> vault list \<Rightarrow> string \<times> string \<Rightarrow> (vaultView list \<times> string \<times> string) sysm" where
  "vault_views env dops price userId [] totals = returnM ([], totals)"
| "vault_views env dops price userId (v # vs) totals =
     bindM (getM (\<lambda>s. wallet_by_currencyId userId (v_currencyId v) (s_db s))) (\<lambda>w.
     bindM (getM (\<lambda>s. crypto_by_id (v_currencyId v) (s_db s))) (\<lambda>c.
     bindM (someM c (PlainError ''TypeError: Cannot read properties of null'')) (\<lambda>crypto.
     thenM (requireM (case w of None \<Rightarrow> False | Some x \<Rightarrow> truthy (w_defaultNetwork x) \<noteq> None)
       (BadRequest (''Wallet default network not configured for '' @ c_symbol crypto)))
     (bindM (vault_view env (c_symbol crypto) v) (\<lambda>view.
      bindM (vault_views env dops price userId vs
        (if v_status v = VACTIVE
         then (do_plus dops (fst totals) (do_mul dops (vv_amountLocked view) (ngn_rate price (c_symbol crypto))),
               do_plus dops (snd totals) (do_mul dops (vv_totalGain view) (ngn_rate price (c_symbol crypto))))
         else totals)) (\<lambda>(views, ts). returnM (view # views, ts)))))))"

record vaultsPage =
  vs_vaults :: "vaultView list"
  vs_totalLocked :: string
  vs_totalGain :: string
  vs_page :: int
  vs_limit :: int
  vs_total :: nat
  vs_totalPages :: int

definition getUserVaults ::
    "env \<Rightarrow> decimalOps \<Rightarrow> (string \<Rightarrow> string option) \<Rightarrow> string \<Rightarrow> int \<Rightarrow> int \<Rightarrow> bool \<Rightarrow> vaultsPage sysm" where
  "getUserVaults env dops price userId page limit allStates =
     bindM (getM (\<lambda>s. listed_vaults userId allStates (s_db s))) (\<lambda>rows.
     let vaults = page_of page limit rows;
         answer = (\<lambda>views locked gain. \<lparr>vs_vaults = views, vs_totalLocked = locked, vs_totalGain = gain,
            vs_page = page_number page, vs_limit = page_limit limit, vs_total = length rows,
            vs_totalPages = page_count limit (length rows)\<rparr>)
     in if vaults = [] then returnM (answer [] ''0.00'' ''0.00'')
        else bindM (vault_views env dops price userId vaults (''0'', ''0'')) (\<lambda>(views, locked, gain).
          returnM (answer views (do_fixed2 dops locked) (do_fixed2 dops gain))))"

definition getAllUserVaults ::
    "env \<Rightarrow> decimalOps \<Rightarrow> (string \<Rightarrow> string option) \<Rightarrow> string \<Rightarrow> int \<Rightarrow> int \<Rightarrow> vaultsPage sysm" where
  "getAllUserVaults env dops price userId page limit = getUserVaults env dops price userId page limit True"

section \<open>The arithmetic of a vault\<close>

lemma bigdiv_nonneg [simp]: "0 \<le> a \<Longrightarrow> 0 < b \<Longrightarrow> bigdiv a b = a div b"
  by (simp add: bigdiv_def)

text \<open>C35: The terms a preview fixes: the interest is the simple interest on the amount for the whole
  percents of the rate and the days, rounded down; payout and fee add up to amount and
  interest, and neither is negative when the fee is a percentage.\<close>

theorem preview_terms:
  assumes "0 \<le> q_amountMinor q" "0 \<le> q_durationDays q" "0 < fst rate" "0 \<le> fee" "fee \<le> 100"
  shows "\<exists>i f a. terms_of (preview_of fee rate q) = Some \<lparr>vt_rate = snd rate, vt_interest = i, vt_fee = f, vt_payout = a\<rparr>
    \<and> a + f = q_amountMinor q + i \<and> 0 \<le> i \<and> 0 \<le> f \<and> 0 \<le> a
    \<and> 36500 * i \<le> q_amountMinor q * \<lfloor>fst rate\<rfloor> * q_durationDays q
    \<and> q_amountMinor q * \<lfloor>fst rate\<rfloor> * q_durationDays q < 36500 * (i + 1)"
proof -
  let ?x = "q_amountMinor q * \<lfloor>fst rate\<rfloor> * q_durationDays q"
  let ?i = "expected_interest (q_amountMinor q) (fst rate) (q_durationDays q)"
  let ?p = "q_amountMinor q + ?i"
  let ?f = "vault_fee fee ?p"
  have x: "0 \<le> ?x" using assms by (intro mult_nonneg_nonneg) (simp_all add: zero_le_floor)
  then have i: "?i = ?x div 36500" by (simp add: expected_interest_def)
  then have i0: "0 \<le> ?i" using x by (simp add: pos_imp_zdiv_nonneg_iff)
  have p: "0 \<le> ?p" using assms(1) i0 by simp
  have s: "0 \<le> \<lfloor>fee * 10000\<rfloor>" "\<lfloor>fee * 10000\<rfloor> \<le> 1000000"
    using assms(4,5) by (simp_all add: zero_le_floor floor_le_iff)
  then have pf: "0 \<le> ?p * \<lfloor>fee * 10000\<rfloor>" using p by (intro mult_nonneg_nonneg)
  then have f: "?f = (?p * \<lfloor>fee * 10000\<rfloor>) div 1000000" by (simp add: vault_fee_def)
  have f0: "0 \<le> ?f" unfolding f using pf by (simp add: pos_imp_zdiv_nonneg_iff)
  have "?p * \<lfloor>fee * 10000\<rfloor> \<le> ?p * 1000000" using s p by (intro mult_left_mono)
  then have "?f \<le> (?p * 1000000) div 1000000" unfolding f by (intro zdiv_mono1) simp_all
  then have fp: "?f \<le> ?p" by simp
  have d: "36500 * (x div 36500) \<le> x \<and> x < 36500 * (x div 36500) + 36500" for x :: int by presburger
  have "36500 * ?i \<le> ?x \<and> ?x < 36500 * (?i + 1)" unfolding i using d [of ?x] by simp
  then show ?thesis
    using i0 f0 fp by (simp add: terms_of_def preview_of_def Let_def)
qed

definition vault_quote_example :: vaultQuote where
  "vault_quote_example = \<lparr>q_quoteId = ''vq'', q_userId = ''u1'', q_currencyId = ''c1'', q_currencySymbol = ''USDT'',
     q_network = ''trc20'', q_baseBalanceMinor = 100, q_rateMinor = 1, q_expiresAt = 301000, q_pinVerified = False,
     q_amountMinor = 60, q_bufferAmountMinor = 0, q_totalChargeMinor = 60, q_durationDays = 365,
     q_maturityDate = 31536001000, q_bufferPercent = ''0'', q_interestRatePerAnum = None,
     q_expectedInterestMinor = None, q_transactionFeeMinor = None, q_amountToReceiveMinor = None\<rparr>"

theorem preview_terms_witness:
  "\<exists>i f a. terms_of (preview_of 2 (10, ''10'') vault_quote_example) = Some \<lparr>vt_rate = ''10'', vt_interest = i, vt_fee = f, vt_payout = a\<rparr>
    \<and> a + f = 60 + i \<and> 0 \<le> a \<and> i = 6"
proof -
  have "0 \<le> q_amountMinor vault_quote_example" "0 \<le> q_durationDays vault_quote_example" "0 < fst (10 :: rat, ''10'')"
    by (simp_all add: vault_quote_example_def)
  from preview_terms [OF this, of 2] obtain i f a where
    "terms_of (preview_of 2 (10, ''10'') vault_quote_example) = Some \<lparr>vt_rate = ''10'', vt_interest = i, vt_fee = f, vt_payout = a\<rparr>"
    "a + f = 60 + i" "0 \<le> a" "36500 * i \<le> 219000" "219000 < 36500 * (i + 1)"
    by (auto simp: vault_quote_example_def)
  moreover from this(4,5) have "i = 6" by simp
  ultimately show ?thesis by blast
qed

text \<open>With no configured fee, and also with a configured fee of 0, the fee of a vault is 100%: the
  user gets nothing back at maturity, neither the amount nor the interest.\<close>

theorem unset_fee_takes_all:
  assumes "configured = None \<or> configured = Some 0"
    and "0 \<le> q_amountMinor q + expected_interest (q_amountMinor q) (fst rate) (q_durationDays q)"
  shows "q_amountToReceiveMinor (preview_of (VAULT_TRANSACTION_FEE configured) rate q) = Some 0"
proof -
  have "VAULT_TRANSACTION_FEE configured = 100" using assms(1) by (auto simp: VAULT_TRANSACTION_FEE_def)
  moreover have "\<lfloor>100 * 10000 :: rat\<rfloor> = 1000000" by simp
  ultimately show ?thesis using assms(2) by (simp add: preview_of_def Let_def vault_fee_def)
qed

theorem unset_fee_takes_all_witness:
  "q_amountToReceiveMinor (preview_of (VAULT_TRANSACTION_FEE (Some 0)) (10, ''10'') vault_quote_example) = Some 0"
  by (rule unset_fee_takes_all) (simp_all add: vault_quote_example_def expected_interest_def)

section \<open>Unlocking\<close>

lemma run_shown_db [run_simps]:
  "shown_db env a currency d = (Inr x, d') \<longleftrightarrow> fromBase (e_cv env) (ABigInt a) currency None = Inr x \<and> d' = d"
  by (simp add: shown_db_def run_simps)

lemma vault_unlock_run0:
  assumes "vault_unlock_tx env userId i early d = (Inr r, d')"
  shows "\<exists>v crypto w shown d2 u1. active_vault userId i d = Some v \<and> crypto_by_id (v_currencyId v) d = Some crypto
    \<and> wallet_by_currencyId userId (v_currencyId v) d = Some w
    \<and> r = \<lparr>ur_amount = fst (vault_payout early v), ur_gain = snd (vault_payout early v),
           ur_penalty = vault_penalty (v_amountLocked v)\<rparr>
    \<and> d2 = d\<lparr>d_wallets := update_where (\<lambda>x. w_id x = w_id w)
        (unlocked_wallet (w_baseBalance w + fst (vault_payout early v)) shown
          (if w_lockedAmount w > v_amountLocked v then w_lockedAmount w - v_amountLocked v else 0) (v_totalGain v)) (d_wallets d),
        d_vaults := update_where (\<lambda>x. v_id x = v_id v)
        (\<lambda>x. x\<lparr>v_status := (if early then VTERMINATED else VMATURED)\<rparr>) (d_vaults d)\<rparr>
    \<and> whenM (to_upper (c_symbol crypto) = ''USDT'' \<or> to_upper (c_symbol crypto) = ''USDC'')
       (updLiquidity (\<lambda>l. ieq (l_currency l) (to_upper (c_symbol crypto)))
         (l_unlock (v_amountLocked v) (v_totalGain v) (snd (vault_payout early v)))) d2 = (Inr u1, d')"
  using assms
  unfolding vault_unlock_tx_def run_bind run_then run_get run_some run_upd run_return run_shown_db Let_def split_beta
  apply (elim exE conjE)
  apply hypsubst_thin
  apply (intro exI conjI, assumption, assumption, assumption, rule refl, rule refl)
  by simp

text \<open>What is common to a liquidity row before and after an unlock.\<close>

definition l_money :: "liquidity \<Rightarrow> string \<times> int \<times> int \<times> int" where
  "l_money l = (l_currency l, l_internalBalance l, l_totalBalance l, l_reservedBalance l)"

lemma vault_unlock_run:
  assumes "vault_unlock_tx env userId i early d = (Inr r, d')"
  shows "\<exists>v crypto w shown. active_vault userId i d = Some v \<and> crypto_by_id (v_currencyId v) d = Some crypto
    \<and> wallet_by_currencyId userId (v_currencyId v) d = Some w
    \<and> r = \<lparr>ur_amount = fst (vault_payout early v), ur_gain = snd (vault_payout early v),
           ur_penalty = vault_penalty (v_amountLocked v)\<rparr>
    \<and> d_wallets d' = update_where (\<lambda>x. w_id x = w_id w)
        (unlocked_wallet (w_baseBalance w + fst (vault_payout early v)) shown
          (if w_lockedAmount w > v_amountLocked v then w_lockedAmount w - v_amountLocked v else 0) (v_totalGain v)) (d_wallets d)
    \<and> d_vaults d' = update_where (\<lambda>x. v_id x = v_id v)
        (\<lambda>x. x\<lparr>v_status := (if early then VTERMINATED else VMATURED)\<rparr>) (d_vaults d)
    \<and> map l_money (d_liquidity d') = map l_money (d_liquidity d)"
proof -
  have frame: "d_wallets d' = d_wallets d2 \<and> d_vaults d' = d_vaults d2 \<and> map l_money (d_liquidity d') = map l_money (d_liquidity d2)"
    if "whenM b (updLiquidity p (l_unlock a g x)) d2 = (Inr u1, d')" for b p a g x d2 and u1 :: unit
    using that by (cases b) (auto simp: run_when run_upd update_where_def l_unlock_def l_money_def)
  from vault_unlock_run0 [OF assms] show ?thesis
    by (elim exE conjE) (drule frame, simp, blast)
qed

lemma vault_unlock_final:
  assumes "vault_unlock_tx env userId i early d = (Inr r, d')"
  shows "active_vault u i d' = None"
proof -
  obtain v where v: "active_vault userId i d = Some v"
    and vs: "d_vaults d' = update_where (\<lambda>x. v_id x = v_id v)
        (\<lambda>x. x\<lparr>v_status := (if early then VTERMINATED else VMATURED)\<rparr>) (d_vaults d)"
    using vault_unlock_run [OF assms] by blast
  have "v_id v = i" using find_Some_in [OF v [unfolded active_vault_def]] by simp
  then show ?thesis by (auto simp: active_vault_def vs update_where_def find_None_iff)
qed


definition unlock_attempt :: "env \<times> string \<times> bool \<Rightarrow> string \<Rightarrow> db \<Rightarrow> (error + unlockResult) \<times> db" where
  "unlock_attempt x i d = (case x of (env, userId, early) \<Rightarrow> vault_unlock_tx env userId i early d)"

text \<open>Requests interleave between their reads and their transactions; the transactions run one
  after the other, each with the flag its request computed before.\<close>

fun payouts :: "string \<Rightarrow> (env \<times> string \<times> bool) list \<Rightarrow> db \<Rightarrow> nat" where
  "payouts i [] d = 0"
| "payouts i (x # xs) d =
     (case unlock_attempt x i d of
        (Inr _, d') \<Rightarrow> Suc (payouts i xs d')
      | (Inl _, _) \<Rightarrow> payouts i xs d)"

text \<open>C10: a vault pays out at most once, however many unlock requests of whichever users race: the
  transaction reads the status again under the row lock.\<close>

theorem vault_pays_once: "payouts i xs d \<le> 1"
proof -
  have none: "payouts i xs d = 0" if "\<And>u. active_vault u i d = None" for xs d
    using that
    by (induction xs) (auto simp: unlock_attempt_def vault_unlock_tx_def comp_defs split: prod.split)
  show ?thesis
  proof (induction xs arbitrary: d)
    case (Cons x xs)
    show ?case
    proof (cases "unlock_attempt x i d")
      case (Pair r d')
      show ?thesis
      proof (cases r)
        case (Inl e)
        with Pair Cons show ?thesis by simp
      next
        case (Inr u)
        with Pair have "active_vault v i d' = None" for v
          by (cases x) (auto simp: unlock_attempt_def dest: vault_unlock_final)
        with none Pair Inr show ?thesis by simp
      qed
    qed
  qed simp
qed

lemma penalty_bounds:
  assumes "0 \<le> a"
  shows "0 \<le> vault_penalty a" "vault_penalty a \<le> a" "100 * vault_penalty a \<le> 5 * a" "5 * a < 100 * (vault_penalty a + 1)"
  using assms by (simp_all add: vault_penalty_def)

text \<open>C22: What an unlock pays. The transaction raises what the company owes the user by exactly the
  amount it reports: at maturity the amount agreed, before it the amount locked less 5%
  rounded down (no interest); what is reserved on the wallet is untouched.\<close>

theorem vault_unlock_pays:
  assumes "keys_ok d" "vault_unlock_tx env userId i early d = (Inr r, d')" "active_vault userId i d = Some v"
    and "wallet_by_currencyId userId (v_currencyId v) d = Some w" "0 \<le> v_amountLocked v"
  shows "owed c d' = owed c d + (if ieq (w_currency w) c then ur_amount r else 0)
    \<and> internal c d' = internal c d
    \<and> (if early then ur_gain r = 0 \<and> 95 * v_amountLocked v \<le> 100 * ur_amount r
          \<and> 100 * ur_amount r < 95 * v_amountLocked v + 100
        else ur_amount r = v_amountToReceive v \<and> ur_gain r = max 0 (v_amountToReceive v - v_amountLocked v))
    \<and> map w_reservedBalance (d_wallets d') = map w_reservedBalance (d_wallets d)"
proof -
  obtain shown newLocked where
    r: "r = \<lparr>ur_amount = fst (vault_payout early v), ur_gain = snd (vault_payout early v),
           ur_penalty = vault_penalty (v_amountLocked v)\<rparr>"
    and ws: "d_wallets d' = update_where (\<lambda>x. w_id x = w_id w)
        (unlocked_wallet (w_baseBalance w + fst (vault_payout early v)) shown newLocked (v_totalGain v)) (d_wallets d)"
    and ls: "map l_money (d_liquidity d') = map l_money (d_liquidity d)"
    using vault_unlock_run [OF assms(2)] assms(3,4) by force
  have w: "w \<in> set (d_wallets d)"
    using find_Some_in [OF assms(4) [unfolded wallet_by_currencyId_def]] by simp
  have "owed c d' = owed c (d\<lparr>d_wallets := update_where (\<lambda>x. w_id x = w_id w)
        (unlocked_wallet (w_baseBalance w + fst (vault_payout early v)) shown newLocked (v_totalGain v)) (d_wallets d)\<rparr>)"
    by (simp add: owed_def ws)
  also have "\<dots> = owed c d + (if ieq (w_currency w) c then ur_amount r else 0)"
    by (rule owed_update [OF assms(1) w refl]) (simp_all add: unlocked_wallet_def r)
  finally have owed: "owed c d' = owed c d + (if ieq (w_currency w) c then ur_amount r else 0)" .
  have sums: "sum_list (map l_internalBalance (filter (\<lambda>l. ieq (l_currency l) c) ls))
      = sum_list (map (fst \<circ> snd) (filter (\<lambda>m. ieq (fst m) c) (map l_money ls)))" for ls
    by (induction ls) (auto simp: l_money_def)
  have internal: "internal c d' = internal c d" unfolding internal_def sums ls ..
  have "if early then ur_gain r = 0 \<and> 95 * v_amountLocked v \<le> 100 * ur_amount r
          \<and> 100 * ur_amount r < 95 * v_amountLocked v + 100
        else ur_amount r = v_amountToReceive v \<and> ur_gain r = max 0 (v_amountToReceive v - v_amountLocked v)"
    using penalty_bounds [OF assms(5)] by (simp add: r vault_payout_def)
  moreover have "map w_reservedBalance (d_wallets d') = map w_reservedBalance (d_wallets d)"
    by (simp add: ws update_where_def unlocked_wallet_def)
  ultimately show ?thesis using owed internal by blast
qed

definition vault_example :: vault where
  "vault_example = \<lparr>v_id = ''v1'', v_userId = ''u1'', v_currencyId = ''c1'', v_quoteId = Some ''vq'', v_amountLocked = 40,
     v_maturityDate = 5000, v_totalGain = 4, v_interestRatePerAnum = ''10'', v_transactionFee = 0, v_rate = 1,
     v_amountToReceive = 44, v_bufferAmount = 0, v_bufferPercent = ''0'', v_requestedAt = 0, v_status = VACTIVE\<rparr>"

definition db_vault :: db where
  "db_vault = db_example\<lparr>d_vaults := [vault_example], d_cryptoCurrencies := [\<lparr>c_id = ''c1'', c_symbol = ''usdt''\<rparr>],
     d_wallets := [wallet_example\<lparr>w_lockedAmount := 40\<rparr>]\<rparr>"

lemmas vault_eval =
  db_vault_def db_example_def db_empty_def wallet_example_def liquidity_example_def new_liquidity_def vault_example_def
  env_example_def vault_quote_example_def

theorem vault_unlock_pays_witness:
  "\<exists>r d'. vault_unlock_tx env_example ''u1'' ''v1'' True db_vault = (Inr r, d') \<and> owed ''usdt'' d' = owed ''usdt'' db_vault + 38"
proof -
  have "fromBase cv_example (ABigInt 138) ''usdt'' None = Inr ''0.000000000000000138''"
    by (simp add: cv_example_def currency_eval eval_simps)
  then have f: "fst (vault_unlock_tx env_example ''u1'' ''v1'' True db_vault) = Inr \<lparr>ur_amount = 38, ur_gain = 0, ur_penalty = 2\<rparr>"
    by (simp add: vault_unlock_tx_def comp_defs vault_eval active_vault_def crypto_by_id_def wallet_by_currencyId_def
        vault_payout_def vault_penalty_def shown_db_def updWallets_def updVaults_def updLiquidity_def split_beta Let_def)
  then have run: "vault_unlock_tx env_example ''u1'' ''v1'' True db_vault
      = (Inr \<lparr>ur_amount = 38, ur_gain = 0, ur_penalty = 2\<rparr>, snd (vault_unlock_tx env_example ''u1'' ''v1'' True db_vault))"
    by (simp add: prod_eq_iff)
  have "keys_ok db_vault" "active_vault ''u1'' ''v1'' db_vault = Some vault_example"
    "wallet_by_currencyId ''u1'' (v_currencyId vault_example) db_vault = Some (wallet_example\<lparr>w_lockedAmount := 40\<rparr>)"
    "0 \<le> v_amountLocked vault_example" "ieq ''USDT'' ''usdt''"
    by (simp_all add: vault_eval keys_ok_def active_vault_def wallet_by_currencyId_def ieq_def eval_simps)
  with vault_unlock_pays [OF _ run, of vault_example "wallet_example\<lparr>w_lockedAmount := 40\<rparr>" "''usdt''"] run
  show ?thesis by (auto simp: wallet_example_def)
qed

section \<open>Solvency\<close>

definition vault_amounts_ok :: "vault \<Rightarrow> bool" where
  "vault_amounts_ok v \<longleftrightarrow> 0 \<le> v_amountLocked v \<and> 0 \<le> v_amountToReceive v"

lemma payout_nonneg: "vault_amounts_ok v \<Longrightarrow> 0 \<le> fst (vault_payout early v)"
  using penalty_bounds(2) [of "v_amountLocked v"] by (auto simp: vault_amounts_ok_def vault_payout_def)

lemma update_where_at:
  assumes "distinct (map ident rows)" "r \<in> set rows" "list_all P rows" "P (f r)"
  shows "list_all P (update_where (\<lambda>x. ident x = ident r) f rows)"
proof -
  have "x = r" if "x \<in> set rows" "ident x = ident r" for x
    using that assms(1,2) by (auto simp: distinct_map inj_on_def)
  with assms show ?thesis by (auto simp: update_where_def list_all_iff)
qed

lemma liquidity_ok_money:
  assumes "map l_money ls' = map l_money ls" "list_all liquidity_ok ls"
  shows "list_all liquidity_ok ls'"
proof -
  have "list_all liquidity_ok xs = list_all (\<lambda>(c, i, t, r). 0 \<le> r \<and> r \<le> t) (map l_money xs)" for xs
    by (induction xs) (auto simp: l_money_def liquidity_ok_def)
  with assms show ?thesis by simp
qed

text \<open>Unlocking a vault with non-negative amounts leaves every account solvent.\<close>

theorem vault_unlock_keeps_solvent:
  assumes "solvent d" "keys_ok d" "list_all vault_amounts_ok (d_vaults d)"
    and "vault_unlock_tx env userId i early d = (Inr r, d')"
  shows "solvent d'"
proof -
  obtain v w shown newLocked where v: "active_vault userId i d = Some v"
    and w: "wallet_by_currencyId userId (v_currencyId v) d = Some w"
    and ws: "d_wallets d' = update_where (\<lambda>x. w_id x = w_id w)
        (unlocked_wallet (w_baseBalance w + fst (vault_payout early v)) shown newLocked (v_totalGain v)) (d_wallets d)"
    and ls: "map l_money (d_liquidity d') = map l_money (d_liquidity d)"
    using vault_unlock_run [OF assms(4)] by force
  have "vault_amounts_ok v" and w_in: "w \<in> set (d_wallets d)"
    using find_Some_in [OF v [unfolded active_vault_def]] find_Some_in [OF w [unfolded wallet_by_currencyId_def]] assms(3)
    by (simp_all add: list_all_iff)
  then have "wallet_ok (unlocked_wallet (w_baseBalance w + fst (vault_payout early v)) shown newLocked (v_totalGain v) w)"
    using payout_nonneg [of v early] solventD(1) [OF assms(1)]
    by (auto simp: wallet_ok_def unlocked_wallet_def list_all_iff)
  then have "list_all wallet_ok (d_wallets d')"
    unfolding ws using assms(2) w_in solventD(1) [OF assms(1)] by (intro update_where_at) (simp_all add: keys_ok_def)
  moreover have "list_all liquidity_ok (d_liquidity d')"
    by (rule liquidity_ok_money [OF ls solventD(2) [OF assms(1)]])
  ultimately show ?thesis by (simp add: solvent_def)
qed

theorem vault_unlock_keeps_solvent_witness:
  "\<exists>r d'. vault_unlock_tx env_example ''u1'' ''v1'' False db_vault = (Inr r, d') \<and> solvent d'"
proof -
  have "fromBase cv_example (ABigInt 144) ''usdt'' None = Inr ''0.000000000000000144''"
    by (simp add: cv_example_def currency_eval eval_simps)
  then have f: "\<exists>r. fst (vault_unlock_tx env_example ''u1'' ''v1'' False db_vault) = Inr r"
    by (simp add: vault_unlock_tx_def comp_defs vault_eval active_vault_def crypto_by_id_def wallet_by_currencyId_def
        vault_payout_def vault_penalty_def shown_db_def updWallets_def updVaults_def updLiquidity_def split_beta Let_def)
  then obtain r where run: "vault_unlock_tx env_example ''u1'' ''v1'' False db_vault
      = (Inr r, snd (vault_unlock_tx env_example ''u1'' ''v1'' False db_vault))"
    by (auto simp: prod_eq_iff)
  have "solvent db_vault" "keys_ok db_vault" "list_all vault_amounts_ok (d_vaults db_vault)"
    by (simp_all add: vault_eval solvent_def wallet_ok_def liquidity_ok_def keys_ok_def vault_amounts_ok_def)
  from vault_unlock_keeps_solvent [OF this run] run show ?thesis by blast
qed

section \<open>Confirming\<close>

lemma vault_confirm_run0:
  assumes "vault_confirm_tx env rate userId quoteId q vt d = (Inr (v, ids), d')" "\<not> isBTC q"
  shows "\<exists>w d1 i d2 u1 u2. wallet_by_currencyId userId (q_currencyId q) d = Some w
    \<and> q_totalChargeMinor q \<le> w_baseBalance w - w_reservedBalance w
    \<and> vault_debit env userId q w d = (Inr u1, d1)
    \<and> createVault (new_vault env i userId quoteId q vt) (d1\<lparr>d_seq := Suc (d_seq d1)\<rparr>) = (Inr u2, d2)
    \<and> vault_lock_funds q vt w d2 = (Inr (), d') \<and> v = new_vault env i userId quoteId q vt \<and> ids = None"
  using assms(1)
  unfolding vault_confirm_tx_def run_bind run_then run_get run_some run_require run_fresh run_when Let_def if_not_P [OF assms(2)]
    if_P [of "\<not> isBTC q", OF assms(2)] run_return
  apply (elim exE conjE)
  apply hypsubst_thin
  apply (intro exI conjI, assumption, assumption, assumption)
  by simp_all

definition locked :: "string \<Rightarrow> db \<Rightarrow> int" where
  "locked c d = sum_list (map w_lockedAmount (filter (\<lambda>w. ieq (w_currency w) c) (d_wallets d)))"

definition locked_principal :: "string \<Rightarrow> db \<Rightarrow> int" where
  "locked_principal c d = sum_list (map l_totalLockedPrincipal (filter (\<lambda>l. ieq (l_currency l) c) (d_liquidity d)))"

lemma vault_debit_run:
  assumes "vault_debit env userId q w d = (Inr u, d')" "\<not> isBTC q"
  shows "\<exists>shown. d' = d\<lparr>d_wallets := update_where (\<lambda>x. w_id x = w_id w)
    (\<lambda>x. x\<lparr>w_baseBalance := w_baseBalance w - q_totalChargeMinor q,
           w_lockedAmount := w_lockedAmount w + q_amountMinor q, w_originalBalance := shown\<rparr>) (d_wallets d)\<rparr>"
  using assms by (auto simp: vault_debit_def run_simps Let_def)

lemma createVault_run: "createVault v d = (Inr u, d') \<Longrightarrow> d' = d\<lparr>d_vaults := d_vaults d @ [v]\<rparr>"
  by (auto simp: createVault_def run_simps split: if_splits)

lemma vault_confirm_run:
  assumes "vault_confirm_tx env rate userId quoteId q vt d = (Inr (v, ids), d')" "\<not> isBTC q"
  shows "\<exists>w shown. wallet_by_currencyId userId (q_currencyId q) d = Some w
    \<and> q_totalChargeMinor q \<le> w_baseBalance w - w_reservedBalance w
    \<and> d_wallets d' = update_where (\<lambda>x. w_id x = w_id w)
        (\<lambda>x. x\<lparr>w_baseBalance := w_baseBalance w - q_totalChargeMinor q,
           w_lockedAmount := w_lockedAmount w + q_amountMinor q, w_originalBalance := shown,
           w_totalLockedInterest := w_totalLockedInterest x + vt_interest vt\<rparr>) (d_wallets d)
    \<and> d_liquidity d' = update_where (\<lambda>l. ieq (l_currency l) (to_upper (q_currencySymbol q)))
        (l_lock (q_amountMinor q) (vt_interest vt)) (d_liquidity d)"
proof -
  obtain w d1 i d2 u1 u2 where w: "wallet_by_currencyId userId (q_currencyId q) d = Some w"
    "q_totalChargeMinor q \<le> w_baseBalance w - w_reservedBalance w"
    and d1: "vault_debit env userId q w d = (Inr u1, d1)"
    and d2: "createVault (new_vault env i userId quoteId q vt) (d1\<lparr>d_seq := Suc (d_seq d1)\<rparr>) = (Inr u2, d2)"
    and d': "vault_lock_funds q vt w d2 = (Inr (), d')"
    using vault_confirm_run0 [OF assms] by blast
  obtain shown where d1': "d1 = d\<lparr>d_wallets := update_where (\<lambda>x. w_id x = w_id w)
    (\<lambda>x. x\<lparr>w_baseBalance := w_baseBalance w - q_totalChargeMinor q,
           w_lockedAmount := w_lockedAmount w + q_amountMinor q, w_originalBalance := shown\<rparr>) (d_wallets d)\<rparr>"
    using vault_debit_run [OF d1 assms(2)] by blast
  have "d_wallets d' = update_where (\<lambda>x. w_id x = w_id w)
        (\<lambda>x. x\<lparr>w_baseBalance := w_baseBalance w - q_totalChargeMinor q,
           w_lockedAmount := w_lockedAmount w + q_amountMinor q, w_originalBalance := shown,
           w_totalLockedInterest := w_totalLockedInterest x + vt_interest vt\<rparr>) (d_wallets d)
    \<and> d_liquidity d' = update_where (\<lambda>l. ieq (l_currency l) (to_upper (q_currencySymbol q)))
        (l_lock (q_amountMinor q) (vt_interest vt)) (d_liquidity d)"
    using d' createVault_run [OF d2]
    by (simp add: vault_lock_funds_def run_then run_upd d1' update_where_def)
  with w show ?thesis by blast
qed

text \<open>Confirming a stablecoin vault moves money without making any: what leaves the user's balance
  beyond the locked amount is the buffer, the interest is not taken from anybody, and the
  principal the company records as locked follows the users' locked amounts.\<close>

theorem vault_lock_conserves:
  assumes "keys_ok d" "\<not> isBTC q" "vault_confirm_tx env rate userId quoteId q vt d = (Inr (v, ids), d')"
    and "wallet_by_currencyId userId (q_currencyId q) d = Some w" "ieq (w_currency w) (q_currencySymbol q)"
    and "liquidity_for (q_currencySymbol q) d \<noteq> None"
  shows "owed c d' + locked c d' = owed c d + locked c d
      - (if ieq (w_currency w) c then q_totalChargeMinor q - q_amountMinor q else 0)
    \<and> locked c d' - locked_principal c d' = locked c d - locked_principal c d"
proof -
  obtain shown where ws: "d_wallets d' = update_where (\<lambda>x. w_id x = w_id w)
        (\<lambda>x. x\<lparr>w_baseBalance := w_baseBalance w - q_totalChargeMinor q,
           w_lockedAmount := w_lockedAmount w + q_amountMinor q, w_originalBalance := shown,
           w_totalLockedInterest := w_totalLockedInterest x + vt_interest vt\<rparr>) (d_wallets d)" (is "_ = update_where _ ?f _")
    and ls: "d_liquidity d' = update_where (\<lambda>l. ieq (l_currency l) (to_upper (q_currencySymbol q)))
        (l_lock (q_amountMinor q) (vt_interest vt)) (d_liquidity d)"
    using vault_confirm_run [OF assms(3,2)] assms(4) by force
  have w: "w \<in> set (d_wallets d)"
    using find_Some_in [OF assms(4) [unfolded wallet_by_currencyId_def]] by simp
  have dist: "distinct (map w_id (d_wallets d))" "distinct (map (\<lambda>l. to_lower (l_currency l)) (d_liquidity d))"
    using assms(1) by (simp_all add: keys_ok_def)
  have o: "owed c d' = owed c d + (if ieq (w_currency w) c then - q_totalChargeMinor q else 0)"
    unfolding owed_def ws by (rule sum_update_where [OF dist(1) w refl]) simp_all
  have l: "locked c d' = locked c d + (if ieq (w_currency w) c then q_amountMinor q else 0)"
    unfolding locked_def ws by (rule sum_update_where [OF dist(1) w refl]) simp_all
  obtain k where k: "k \<in> set (d_liquidity d)" "to_lower (l_currency k) = to_lower (q_currencySymbol q)"
    using assms(6) by (auto simp: liquidity_for_def find_None_iff ieq_def)
  have "locked_principal c d' = locked_principal c d + (if ieq (l_currency k) c then q_amountMinor q else 0)"
    unfolding locked_principal_def ls ieq_def to_lower_upper
    by (rule sum_update_where [OF dist(2) k]) (simp_all add: l_lock_def)
  moreover have "ieq (l_currency k) c = ieq (w_currency w) c" using k(2) assms(5) by (simp add: ieq_def)
  ultimately show ?thesis using o l by simp
qed

text \<open>A confirmed stablecoin vault leaves the wallet solvent, whatever the quote holds: the transaction
  compares the charge with what is not reserved.\<close>

lemma solvent_vault_confirm:
  assumes "solvent d" "keys_ok d" "\<not> isBTC q" "vault_confirm_tx env rate userId quoteId q vt d = (Inr (v, ids), d')"
  shows "solvent d'"
proof -
  obtain w shown where w: "wallet_by_currencyId userId (q_currencyId q) d = Some w"
    "q_totalChargeMinor q \<le> w_baseBalance w - w_reservedBalance w"
    and ws: "d_wallets d' = update_where (\<lambda>x. w_id x = w_id w)
        (\<lambda>x. x\<lparr>w_baseBalance := w_baseBalance w - q_totalChargeMinor q,
           w_lockedAmount := w_lockedAmount w + q_amountMinor q, w_originalBalance := shown,
           w_totalLockedInterest := w_totalLockedInterest x + vt_interest vt\<rparr>) (d_wallets d)"
    and ls: "d_liquidity d' = update_where (\<lambda>l. ieq (l_currency l) (to_upper (q_currencySymbol q)))
        (l_lock (q_amountMinor q) (vt_interest vt)) (d_liquidity d)"
    using vault_confirm_run [OF assms(4,3)] by force
  have w_in: "w \<in> set (d_wallets d)"
    using find_Some_in [OF w(1) [unfolded wallet_by_currencyId_def]] by simp
  have "list_all wallet_ok (d_wallets d')"
    unfolding ws using assms(2) w_in solventD(1) [OF assms(1)] w(2)
    by (intro update_where_at) (auto simp: keys_ok_def wallet_ok_def list_all_iff)
  moreover have "list_all liquidity_ok (d_liquidity d')"
    unfolding ls by (rule update_where_all [OF solventD(2) [OF assms(1)]]) (simp add: liquidity_ok_def l_lock_def)
  ultimately show ?thesis by (simp add: solvent_def)
qed

lemma db_vault_ok: "solvent db_vault" "keys_ok db_vault"
  by (simp_all add: vault_eval solvent_def wallet_ok_def liquidity_ok_def keys_ok_def)

theorem vault_lock_conserves_witness:
  "\<exists>v ids d'. vault_confirm_tx env_example (Some (10, ''10'')) ''u1'' ''vq2'' vault_quote_example
       \<lparr>vt_rate = ''10'', vt_interest = 6, vt_fee = 0, vt_payout = 66\<rparr> db_vault = (Inr (v, ids), d')
     \<and> locked ''usdt'' d' - locked_principal ''usdt'' d' = locked ''usdt'' db_vault - locked_principal ''usdt'' db_vault"
proof -
  let ?tx = "vault_confirm_tx env_example (Some (10, ''10'')) ''u1'' ''vq2'' vault_quote_example
       \<lparr>vt_rate = ''10'', vt_interest = 6, vt_fee = 0, vt_payout = 66\<rparr>"
  have btc: "\<not> isBTC vault_quote_example" by (simp add: isBTC_def vault_quote_example_def eval_simps)
  have "fromBase cv_example (ABigInt 40) ''USDT'' None = Inr ''0.00000000000000004''"
    by (simp add: cv_example_def currency_eval eval_simps)
  then have "\<exists>r. fst (?tx db_vault) = Inr r"
    by (simp add: vault_confirm_tx_def isBTC_def eval_simps vault_debit_def vault_lock_funds_def comp_defs vault_eval
        wallet_by_currencyId_def shown_db_def updWallets_def updLiquidity_def freshM_def createVault_def new_vault_def Let_def)
  then obtain v ids where run: "?tx db_vault = (Inr (v, ids), snd (?tx db_vault))"
    by (auto simp: prod_eq_iff)
  have "wallet_by_currencyId ''u1'' (q_currencyId vault_quote_example) db_vault = Some (wallet_example\<lparr>w_lockedAmount := 40\<rparr>)"
    "ieq (w_currency (wallet_example\<lparr>w_lockedAmount := 40\<rparr>)) (q_currencySymbol vault_quote_example)"
    "liquidity_for (q_currencySymbol vault_quote_example) db_vault \<noteq> None"
    by (simp_all add: vault_eval wallet_by_currencyId_def liquidity_for_def ieq_def eval_simps)
  from vault_lock_conserves [OF db_vault_ok(2) btc run this, of "''usdt''"] run show ?thesis by blast
qed

lemma solvent_modifies [preserves_intros]:
  "preserves solvent (createVault v)" "preserves solvent (createSwap x)" "preserves solvent (setUniqueId i u)"
  "preserves solvent (shown_db env a currency)"
  unfolding createVault_def createSwap_def setUniqueId_def shown_db_def
  by (intro preserves_intros solvent_modify; simp)+

lemma solvent_vault_swap_rows [preserves_intros]: "preserves solvent (vault_swap_rows env userId quoteId q w i)"
  unfolding vault_swap_rows_def by (intro preserves_intros)

lemma solvent_vault_confirm_btc:
  "isBTC q \<Longrightarrow> 0 \<le> q_totalChargeMinor q \<Longrightarrow> preserves solvent (vault_confirm_tx env rate userId quoteId q vt)"
  unfolding vault_confirm_tx_def vault_debit_def Let_def
  by simp (intro preserves_intros; simp)

lemma solvent_direct [preserves_intros]:
  "0 \<le> a \<Longrightarrow> preserves (on_db solvent) (reserveLiquidity_direct env currency a)"
  "preserves (on_db solvent) (releaseLiquidity_direct env currency a)"
  unfolding reserveLiquidity_direct_def releaseLiquidity_direct_def
  by (intro preserves_intros; assumption)+

lemma solvent_vault_compensate [preserves_intros]:
  "0 \<le> q_totalChargeMinor q \<Longrightarrow> preserves (on_db solvent) (vault_compensate env userId q v t x r)"
  unfolding vault_compensate_def vault_compensate_tx_def by (intro preserves_intros)

lemma solvent_vault_swap:
  assumes "0 \<le> q_totalChargeMinor q" "\<And>qid quoted r. quoted_usdt env requested = Inr (qid, quoted, r) \<Longrightarrow> 0 \<le> r"
  shows "preserves (on_db solvent) (vault_swap env userId q v t x requested confirmed)"
  unfolding vault_swap_def vault_swap_confirm_def
  using assms
  by (auto split: sum.split intro!: preserves_intros simp: split_beta)

lemma vault_finish_on_db [preserves_intros]: "preserves (on_db I) (vault_finish env quoteId v)"
  unfolding vault_finish_def shownM_def by (intro preserves_intros)

text \<open>C26: Whatever the quote, the provider's answers and the faults, \<open>confirmVault\<close> leaves every account
  solvent, when the stored quotes charge no negative amount and the provider quotes none.\<close>

theorem confirmVault_keeps_solvent:
  assumes "solvent (s_db s)" "keys_ok (s_db s)"
    and "\<And>k q x. s_temp s k = Some (TVaultQuote q, x) \<Longrightarrow> 0 \<le> q_totalChargeMinor q"
    and "\<And>qid quoted r. quoted_usdt env requested = Inr (qid, quoted, r) \<Longrightarrow> 0 \<le> r"
  shows "solvent (s_db (snd (confirmVault env rate userId quoteId requested confirmed s)))"
proof -
  let ?I = "\<lambda>_. on_db solvent"
  have tx: "wp (txM env ''vault_confirm'' (vault_confirm_tx env rate userId quoteId q vt)) ?I ?I s'"
    if "s_db s' = s_db s" "0 \<le> q_totalChargeMinor q" for s' q vt
  proof -
    have "solvent d'" if run: "vault_confirm_tx env rate userId quoteId q vt (s_db s) = (Inr r, d')" for r d'
    proof (cases "isBTC q")
      case True
      from preservesD [OF solvent_vault_confirm_btc [OF this \<open>0 \<le> q_totalChargeMinor q\<close>] assms(1)] run
      show ?thesis by (metis snd_conv)
    next
      case False
      with solvent_vault_confirm [OF assms(1,2)] run show ?thesis by (cases r) blast
    qed
    then have "wp (vault_confirm_tx env rate userId quoteId q vt) (\<lambda>_. solvent) (\<lambda>_ _. True) (s_db s)"
      by (auto simp: wp_def split: prod.split sum.split)
    then show ?thesis using that(1) assms(1)
      by (auto simp: wp_tx on_db_def split: option.split elim: wp_mono)
  qed
  have rest: "preserves (on_db solvent) (case r of (v, ids) \<Rightarrow>
      thenM (case ids of None \<Rightarrow> returnM () | Some (ti, si) \<Rightarrow> vault_swap env userId q (v_id v) ti si requested confirmed)
      (vault_finish env quoteId v))" if "0 \<le> q_totalChargeMinor q" for q r
    using solvent_vault_swap [OF that assms(4)]
    by (auto simp: split_beta intro!: preserves_intros)
  have body: "wp (vault_confirm_body env rate userId quoteId requested confirmed) ?I ?I s'"
    if "s_db s' = s_db s" "\<And>k q x. s_temp s' k = Some (TVaultQuote q, x) \<Longrightarrow> 0 \<le> q_totalChargeMinor q" for s'
  proof -
    have i: "on_db solvent s'" using that(1) assms(1) by (simp add: on_db_def)
    have q: "0 \<le> q_totalChargeMinor q" if "temp_lookup env k s' = Some (TVaultQuote q)" for k q
      using that \<open>\<And>k q x. s_temp s' k = Some (TVaultQuote q, x) \<Longrightarrow> 0 \<le> q_totalChargeMinor q\<close>
      by (auto simp: temp_lookup_def split: option.splits if_splits)
    have "wp (bindM (txM env ''vault_confirm'' (vault_confirm_tx env rate userId quoteId q vt)) (\<lambda>(v, ids).
      thenM (case ids of None \<Rightarrow> returnM () | Some (ti, si) \<Rightarrow> vault_swap env userId q (v_id v) ti si requested confirmed)
      (vault_finish env quoteId v))) ?I ?I s'" if "0 \<le> q_totalChargeMinor q" for q vt
      unfolding wp_bind
      by (rule wp_mono [OF tx [OF \<open>s_db s' = s_db s\<close> that]])
        (use rest [OF that] in \<open>unfold preserves_wp, blast\<close>)+
    then show ?thesis using i q
      by (auto simp: vault_confirm_body_def vault_quote_at_def wp_bind [of "tempGet _ _"] wp_bind [of "bindM _ _"]
        wp_bind [of "someM _ _"] wp_then [of "requireM _ _"] wp_tempGet wp_require wp_some wp_return wp_throw
        split: option.split tempValue.split)
  qed
  have "wp (finallyM (vault_confirm_body env rate userId quoteId requested confirmed) (tempDel k)) ?I ?I s'"
    if "s_db s' = s_db s" "\<And>k q x. s_temp s' k = Some (TVaultQuote q, x) \<Longrightarrow> 0 \<le> q_totalChargeMinor q" for s' k
    using body [OF that]
    by (auto simp: wp_def finallyM_def tempDel_def modifyM_def on_db_def split: prod.splits sum.splits)
  note fin = this
  define k where "k = ''vault_confirm_lock:'' @ userId @ '':'' @ quoteId"
  let ?s = "s\<lparr>s_temp := (s_temp s)(k \<mapsto> (TFlag ''true'', if (10::int) = 0 then None else Some (e_now env + 10 * 1000)))\<rparr>"
  have "wp (finallyM (vault_confirm_body env rate userId quoteId requested confirmed) (tempDel k)) ?I ?I ?s"
    by (rule fin) (use assms(3) in \<open>auto split: if_splits\<close>)
  then have "wp (confirmVault env rate userId quoteId requested confirmed) ?I ?I s"
    using assms(1) unfolding confirmVault_def Let_def wp_bind wp_then wp_tempSetNx wp_require k_def [symmetric]
    by (cases "temp_lookup env k s = None") (simp_all add: on_db_def)
  then show ?thesis by (auto simp: wp_alt on_db_def split: sum.splits)
qed

definition sys_vault :: sys where
  "sys_vault = sys_example\<lparr>s_db := db_vault, s_temp := (\<lambda>_. None)(''vault:vq2'' \<mapsto> (TVaultQuote vault_quote_example, None))\<rparr>"

theorem confirmVault_keeps_solvent_witness:
  "solvent (s_db (snd (confirmVault env_example (Some (10, ''10'')) ''u1'' ''vq2'' (Inr (Some ''k'', Some ''5''))
     (Inl (ProviderError ''down'')) sys_vault)))"
proof (rule confirmVault_keeps_solvent)
  show "solvent (s_db sys_vault)" "keys_ok (s_db sys_vault)" using db_vault_ok by (simp_all add: sys_vault_def)
  show "0 \<le> q_totalChargeMinor q" if "s_temp sys_vault k = Some (TVaultQuote q, x)" for k q x
    using that by (auto simp: sys_vault_def vault_quote_example_def split: if_splits)
  have "toBase cv_example ''5'' ''USDT'' None = Inr 5000000000000000000"
    by (simp add: cv_example_def currency_eval eval_simps)
  then show "0 \<le> r" if "quoted_usdt env_example (Inr (Some ''k'', Some ''5'')) = Inr (qid, quoted, r)" for qid quoted r
    using that by (simp add: quoted_usdt_def truthy_def env_example_def)
qed

section \<open>The locks\<close>

lemma temp_lookup_del [simp]: "temp_lookup env k (s\<lparr>s_temp := (s_temp s)(k := None)\<rparr>) = None"
  by (simp add: temp_lookup_def)

lemma finally_lock: "temp_lookup env k (snd (finallyM m (tempDel k) s)) = None"
  by (simp add: finallyM_state tempDel_def modifyM_def)

text \<open>One confirmation of a quote at a time: a call that finds the lock taken fails and changes
  nothing; a call that takes it gives it back on every path, errors of the transaction and
  of the compensation included.\<close>

theorem confirm_lock:
  "if temp_lookup env (''vault_confirm_lock:'' @ userId @ '':'' @ quoteId) s \<noteq> None
   then confirmVault env rate userId quoteId requested confirmed s
     = (Inl (BadRequest ''Please wait before submitting again''), s)
   else temp_lookup env' (''vault_confirm_lock:'' @ userId @ '':'' @ quoteId)
     (snd (confirmVault env rate userId quoteId requested confirmed s)) = None"
proof -
  define k where "k = ''vault_confirm_lock:'' @ userId @ '':'' @ quoteId"
  define m where "m = vault_confirm_body env rate userId quoteId requested confirmed"
  show ?thesis
    unfolding confirmVault_def Let_def k_def [symmetric] m_def [symmetric]
    by (cases "temp_lookup env k s")
      (simp_all add: tempSetNx_def tempGet_def tempSet_def bindM_def thenM_def requireM_def getM_def modifyM_def
        returnM_def throwM_def finally_lock)
qed

section \<open>A refused reservation of company liquidity\<close>

lemma liquidity_row_unique:
  assumes "keys_ok d" "liquidity_for c d = Some l" "x \<in> set (d_liquidity d)" "l_key c x"
  shows "x = l"
proof -
  have "l \<in> set (d_liquidity d)" "ieq (l_currency l) c"
    using find_Some_in [OF assms(2) [unfolded liquidity_for_def]] by simp_all
  with assms(1,3,4) show ?thesis
    by (auto simp: keys_ok_def l_key_def ieq_def distinct_map inj_on_def)
qed

lemma liquidity_count:
  assumes "keys_ok d" "liquidity_for c d = Some l"
  shows "guarded_count (l_key c) upd (d_liquidity d) = 0 \<longleftrightarrow> upd l = None"
proof -
  have l: "l \<in> set (d_liquidity d)" "l_key c l"
    using find_Some_in [OF assms(2) [unfolded liquidity_for_def]] by (simp_all add: l_key_def)
  have "guarded_count (l_key c) upd (d_liquidity d) = 0 \<longleftrightarrow> (\<forall>x \<in> set (d_liquidity d). \<not> (l_key c x \<and> upd x \<noteq> None))"
    by (simp add: guarded_count_def filter_empty_conv)
  also have "\<dots> \<longleftrightarrow> upd l = None"
  proof (intro iffI ballI notI)
    assume "\<forall>x \<in> set (d_liquidity d). \<not> (l_key c x \<and> upd x \<noteq> None)"
    from bspec [OF this l(1)] l(2) show "upd l = None" by simp
  next
    fix x
    assume "upd l = None" "x \<in> set (d_liquidity d)" "l_key c x \<and> upd x \<noteq> None"
    with liquidity_row_unique [OF assms, of x] show False by simp
  qed
  finally show ?thesis .
qed

lemma releaseBalance_liquidity:
  "releaseBalance userId currency a network d = (Inr u, d') \<Longrightarrow> d_liquidity d' = d_liquidity d"
  by (auto simp: releaseBalance_eq split: option.splits if_splits)

lemma vault_compensate_run:
  "vault_compensate env userId q i ti si r s =
     (case e_txFault env ''vault_compensate'' of
        Some e \<Rightarrow> (Inl e, s)
      | None \<Rightarrow>
          (case vault_compensate_tx userId q i ti si r (s_db s) of
             (Inl e, _) \<Rightarrow> (Inl e, s)
           | (Inr _, d) \<Rightarrow> (Inl (BadRequest ''Exchange failed. BTC balance has been released.''), s\<lparr>s_db := d\<rparr>)))"
  by (simp add: vault_compensate_def comp_defs txM_def split: option.split prod.split sum.split)

lemma refused_swap:
  assumes "fromBase (e_cv env) (ABigInt (q_totalChargeMinor q)) ''BTC'' None = Inr amount"
    and "quoted_usdt env requested = Inr (qid, quoted, r)"
    and "keys_ok (s_db s)" "liquidity_for ''USDT'' (s_db s) = Some l" "l_totalBalance l - l_reservedBalance l < r"
  shows "vault_swap env userId q i ti si requested confirmed s
    = vault_compensate env userId q i ti si r (s\<lparr>s_calls := s_calls s @ [CallSwapRequest ''btc'' ''usdt'' amount]\<rparr>)"
proof -
  have v: "verifyCurrency ''USDT'' = Inr ''USDT''"
    by (simp add: verifyCurrency_def ALLOWED_CURRENCIES_def eval_simps)
  have "guarded_count (l_key ''USDT'') (l_reserve r) (d_liquidity (s_db s)) = 0"
    using liquidity_count [OF assms(3,4)] assms(5) by (simp add: l_reserve_def)
  then have "reserveLiquidity ''USDT'' r (s_db s) = (Inr False, s_db s)"
    by (simp add: reserveLiquidity_eq v guarded_update_none)
  then show ?thesis
    using assms(1,2)
    by (simp add: vault_swap_def vault_swap_confirm_def reserveLiquidity_direct_def comp_defs callM_def dbM_def)
qed

text \<open>When the company cannot cover the quoted USDT, \<open>confirmVault\<close> still releases that amount of
  USDT, which it never reserved. Either the row has as much reserved for others, and loses
  it, or the release fails and takes the whole compensation back with it: the user's BTC
  stays reserved and the vault PENDING.\<close>

theorem refused_reservation_is_released:
  assumes "fromBase (e_cv env) (ABigInt (q_totalChargeMinor q)) ''BTC'' None = Inr amount"
    and "quoted_usdt env requested = Inr (qid, quoted, r)" "0 < r"
    and "keys_ok (s_db s)" "liquidity_for ''USDT'' (s_db s) = Some l" "l_totalBalance l - l_reservedBalance l < r"
    and "e_txFault env ''vault_compensate'' = None"
    and "releaseBalance userId ''BTC'' (q_totalChargeMinor q) None (s_db s) = (Inr (), d1)"
  shows "if r \<le> l_reservedBalance l
    then liquidity_for ''USDT'' (s_db (snd (vault_swap env userId q i ti si requested confirmed s)))
      = Some (l\<lparr>l_reservedBalance := l_reservedBalance l - r\<rparr>)
    else fst (vault_swap env userId q i ti si requested confirmed s) = Inl (BadRequest ''Reserved company liquidity inconsistency'')
      \<and> s_db (snd (vault_swap env userId q i ti si requested confirmed s)) = s_db s"
proof -
  let ?s = "s\<lparr>s_calls := s_calls s @ [CallSwapRequest ''btc'' ''usdt'' amount]\<rparr>"
  let ?d = "d1\<lparr>d_transactions := update_where (\<lambda>t. t_id t = ti) (\<lambda>t. t\<lparr>t_status := TxFAILED\<rparr>) (d_transactions d1),
     d_swaps := update_where (\<lambda>x. sw_id x = si) (\<lambda>x. x\<lparr>sw_status := ''FAILED''\<rparr>) (d_swaps d1),
     d_vaults := update_where (\<lambda>v. v_id v = i) (\<lambda>v. v\<lparr>v_status := VTERMINATED\<rparr>) (d_vaults d1)\<rparr>"
  have v: "verifyCurrency ''USDT'' = Inr ''USDT''"
    by (simp add: verifyCurrency_def ALLOWED_CURRENCIES_def eval_simps)
  have d1: "d_liquidity d1 = d_liquidity (s_db s)" by (rule releaseBalance_liquidity [OF assms(8)])
  have count: "guarded_count (l_key ''USDT'') (l_release r) (d_liquidity (s_db s)) = 0 \<longleftrightarrow> \<not> r \<le> l_reservedBalance l"
    using liquidity_count [OF assms(4,5)] by (simp add: l_release_def)
  have tx: "vault_compensate_tx userId q i ti si r (s_db s) = releaseLiquidity ''USDT'' r ?d"
    using assms(3,8) by (simp add: vault_compensate_tx_def comp_defs updTransactions_def updSwaps_def updVaults_def)
  show ?thesis
  proof (cases "r \<le> l_reservedBalance l")
    case True
    then have "releaseLiquidity ''USDT'' r ?d
        = (Inr (), ?d\<lparr>d_liquidity := guarded_update (l_key ''USDT'') (l_release r) (d_liquidity (s_db s))\<rparr>)"
      using assms(3) count by (simp add: releaseLiquidity_eq v d1)
    then have "d_liquidity (s_db (snd (vault_swap env userId q i ti si requested confirmed s)))
        = guarded_update (l_key ''USDT'') (l_release r) (d_liquidity (s_db s))"
      using assms(7)
      by (simp add: refused_swap [OF assms(1,2,4,5,6)] vault_compensate_run tx)
    moreover have "List.find (\<lambda>x. ieq (l_currency x) ''USDT'') (guarded_update (l_key ''USDT'') (l_release r) (d_liquidity (s_db s)))
        = Some (l\<lparr>l_reservedBalance := l_reservedBalance l - r\<rparr>)"
    proof -
      have "ieq (l_currency x') ''USDT'' = ieq (l_currency x) ''USDT''" if "l_release r x = Some x'" for x x'
        using that by (auto simp: l_release_def split: if_splits)
      from find_guarded_update [of "l_release r", OF this] assms(5) True
        find_Some_in [OF assms(5) [unfolded liquidity_for_def]]
      show ?thesis by (simp add: liquidity_for_def l_key_def l_release_def)
    qed
    ultimately show ?thesis using True by (simp add: liquidity_for_def)
  next
    case False
    then have "releaseLiquidity ''USDT'' r ?d = (Inl (BadRequest ''Reserved company liquidity inconsistency''), ?d)"
      using assms(3) count by (simp add: releaseLiquidity_eq v d1)
    then show ?thesis using False assms(7)
      by (simp add: refused_swap [OF assms(1,2,4,5,6)] vault_compensate_run tx)
  qed
qed

definition sys_refused :: sys where
  "sys_refused = sys_vault\<lparr>s_db := db_vault\<lparr>d_wallets := [wallet_example\<lparr>w_currency := ''BTC'', w_reservedBalance := 60\<rparr>]\<rparr>\<rparr>"

theorem refused_reservation_is_released_witness:
  "fst (vault_swap env_example ''u1'' vault_quote_example ''v9'' ''t9'' ''s9''
      (Inr (Some ''k'', Some ''0.00000000000000046'')) (Inl (ProviderError ''down'')) sys_refused)
     = Inl (BadRequest ''Reserved company liquidity inconsistency'')
   \<and> s_db (snd (vault_swap env_example ''u1'' vault_quote_example ''v9'' ''t9'' ''s9''
      (Inr (Some ''k'', Some ''0.00000000000000046'')) (Inl (ProviderError ''down'')) sys_refused)) = s_db sys_refused"
proof -
  have amount: "fromBase (e_cv env_example) (ABigInt (q_totalChargeMinor vault_quote_example)) ''BTC'' None = Inr ''0.0000006''"
    by (simp add: env_example_def vault_quote_example_def cv_example_def currency_eval eval_simps)
  have "toBase cv_example ''0.00000000000000046'' ''USDT'' None = Inr 460"
    by (simp add: cv_example_def currency_eval eval_simps)
  then have q: "quoted_usdt env_example (Inr (Some ''k'', Some ''0.00000000000000046'')) = Inr (''k'', ''0.00000000000000046'', 460)"
    by (simp add: quoted_usdt_def truthy_def env_example_def)
  have s: "keys_ok (s_db sys_refused)" "liquidity_for ''USDT'' (s_db sys_refused) = Some liquidity_example"
    "l_totalBalance liquidity_example - l_reservedBalance liquidity_example < 460" "e_txFault env_example ''vault_compensate'' = None"
    "\<not> 460 \<le> l_reservedBalance liquidity_example"
    by (simp_all add: sys_refused_def vault_eval keys_ok_def liquidity_for_def ieq_def eval_simps)
  have "fst (releaseBalance ''u1'' ''BTC'' (q_totalChargeMinor vault_quote_example) None (s_db sys_refused)) = Inr ()"
    by (simp add: sys_refused_def vault_eval releaseBalance_eq wallet_for_def ieq_def network_matches_def guarded_count_def
        w_release_def eval_simps)
  then obtain d1 where r: "releaseBalance ''u1'' ''BTC'' (q_totalChargeMinor vault_quote_example) None (s_db sys_refused) = (Inr (), d1)"
    by (metis prod.collapse)
  have "(0::int) < 460" by simp
  from refused_reservation_is_released [OF amount q this s(1-4) r] s(5) show ?thesis by simp
qed

section \<open>Two cancellations at once\<close>

definition vault_pending_example :: vault where
  "vault_pending_example = vault_example\<lparr>v_amountLocked := 28, v_bufferAmount := 2, v_status := VPENDING\<rparr>"

definition db_pending :: db where
  "db_pending = db_vault\<lparr>d_wallets := [wallet_example\<lparr>w_currency := ''BTC'', w_reservedBalance := 60\<rparr>],
     d_vaults := [vault_pending_example]\<rparr>"

text \<open>\<open>cancelPendingVault\<close> reads the status of the vault before its transaction and not in it: two
  cancellations that both found it PENDING both release its charge. Here 30 of the user's
  reserved 60 belong to the vault, and all 60 are released.\<close>

theorem vault_cancel_race_releases_twice:
  "\<exists>d1 d2. v_status vault_pending_example = VPENDING
     \<and> vault_cancel_tx env_example ''u1'' vault_pending_example \<lparr>c_id = ''c1'', c_symbol = ''btc''\<rparr> None db_pending = (Inr (), d1)
     \<and> map v_status (d_vaults d1) = [VTERMINATED]
     \<and> vault_cancel_tx env_example ''u1'' vault_pending_example \<lparr>c_id = ''c1'', c_symbol = ''btc''\<rparr> None d1 = (Inr (), d2)
     \<and> map w_reservedBalance (d_wallets db_pending) = [60] \<and> map w_reservedBalance (d_wallets d2) = [0]"
proof -
  let ?tx = "vault_cancel_tx env_example ''u1'' vault_pending_example \<lparr>c_id = ''c1'', c_symbol = ''btc''\<rparr> None"
  let ?d1 = "db_pending\<lparr>d_wallets := [wallet_example\<lparr>w_currency := ''BTC'', w_reservedBalance := 30\<rparr>],
     d_vaults := [vault_pending_example\<lparr>v_status := VTERMINATED\<rparr>]\<rparr>"
  let ?d2 = "db_pending\<lparr>d_wallets := [wallet_example\<lparr>w_currency := ''BTC'', w_reservedBalance := 0\<rparr>],
     d_vaults := [vault_pending_example\<lparr>v_status := VTERMINATED\<rparr>]\<rparr>"
  note eval = vault_cancel_tx_def comp_defs updVaults_def update_where_def releaseBalance_eq wallet_for_def ieq_def
    network_matches_def guarded_count_def guarded_update_def w_release_def db_pending_def vault_pending_example_def
    vault_eval eval_simps
  have "?tx db_pending = (Inr (), ?d1)" by (simp add: eval)
  moreover have "?tx ?d1 = (Inr (), ?d2)" by (simp add: eval)
  moreover have "v_status vault_pending_example = VPENDING" by (simp add: vault_pending_example_def)
  moreover have "map v_status (d_vaults ?d1) = [VTERMINATED]" "map w_reservedBalance (d_wallets db_pending) = [60]"
    "map w_reservedBalance (d_wallets ?d2) = [0]" by (simp_all add: db_pending_def)
  ultimately show ?thesis by (intro exI [of _ ?d1] exI [of _ ?d2] conjI)
qed

end
