(* ===== verification/Dates.thy ===== *)
theory Dates
  imports Store
begin

text \<open>
  The dates of JavaScript the schedules use, in UTC: a \<^verbatim>\<open>Date\<close> is its time in
  milliseconds. The calendar is that of the ECMAScript specification (days, years from
  their first day, months), with \<open>setUTCDate\<close>, \<open>setUTCMonth\<close>, which carry an overflow into
  the next month as \<^verbatim>\<open>MakeDay\<close> does, and \<open>toISOString\<close> with its reading back
  (\<^verbatim>\<open>new Date(s)\<close> for the 24 characters \<open>toISOString\<close> writes; any other string is taken for an
  invalid date, the code stores no other). Then the scheduling functions of
  \<^verbatim>\<open>autostack.service.ts\<close>.
\<close>

section \<open>The calendar\<close>

definition MS_PER_DAY :: int where
  "MS_PER_DAY = 86400000"

definition leap :: "int \<Rightarrow> bool" where
  "leap y \<longleftrightarrow> y mod 4 = 0 \<and> (y mod 100 \<noteq> 0 \<or> y mod 400 = 0)"

definition day_from_year :: "int \<Rightarrow> int" where
  "day_from_year y = 365 * (y - 1970) + (y - 1969) div 4 - (y - 1901) div 100 + (y - 1601) div 400"

definition month_start :: "bool \<Rightarrow> nat \<Rightarrow> int" where
  "month_start lp m =
     [0, 31, 59, 90, 120, 151, 181, 212, 243, 273, 304, 334] ! m + (if lp \<and> 2 \<le> m then 1 else 0)"

lemma div_step: "(0::int) < n \<Longrightarrow> (a + 1) div n - a div n = (if n dvd a + 1 then 1 else 0)"
proof (cases "n dvd a + 1")
  case True
  assume n: "0 < n"
  from True obtain k where k: "a + 1 = n * k" by blast
  then have "a = n * (k - 1) + (n - 1)" by (simp add: algebra_simps)
  then have "a div n = k - 1" using n by (intro int_div_pos_eq [where r = "n - 1"]) auto
  moreover have "(a + 1) div n = k" using k n by simp
  ultimately show ?thesis using True by simp
next
  case False
  assume n: "0 < n"
  have "a mod n \<noteq> n - 1"
  proof
    assume "a mod n = n - 1"
    then have "a + 1 = n * (a div n) + n" using mult_div_mod_eq [of n a] by linarith
    then have "n dvd a + 1" by simp
    with False show False ..
  qed
  then have "a mod n + 1 < n" "0 \<le> a mod n + 1"
    using pos_mod_bound [OF n, of a] pos_mod_sign [OF n, of a] by linarith+
  then have "(a + 1) div n = a div n"
    by (intro int_div_pos_eq [where r = "a mod n + 1"]) auto
  with False show ?thesis by simp
qed

lemma leap_days:
  "(b \<Longrightarrow> a) \<Longrightarrow> (c \<Longrightarrow> b) \<Longrightarrow>
     (365::int) + (if a then 1 else 0) - (if b then 1 else 0) + (if c then 1 else 0) = (if a \<and> (\<not> b \<or> c) then 366 else 365)"
  by (cases a; cases b; cases c; simp)

lemma year_length: "day_from_year (y + 1) - day_from_year y = (if leap y then 366 else 365)"
proof -
  have "(y - 1968) div 4 - (y - 1969) div 4 = (if 4 dvd y then 1 else 0)"
    using div_step [of 4 "y - 1969"] dvd_diff_left_iff [of 4 1968 y] by simp
  moreover have "(y - 1900) div 100 - (y - 1901) div 100 = (if 100 dvd y then 1 else 0)"
    using div_step [of 100 "y - 1901"] dvd_diff_left_iff [of 100 1900 y] by simp
  moreover have "(y - 1600) div 400 - (y - 1601) div 400 = (if 400 dvd y then 1 else 0)"
    using div_step [of 400 "y - 1601"] dvd_diff_left_iff [of 400 1600 y] by simp
  moreover have "day_from_year (y + 1) - day_from_year y = 365 + ((y - 1968) div 4 - (y - 1969) div 4)
      - ((y - 1900) div 100 - (y - 1901) div 100) + ((y - 1600) div 400 - (y - 1601) div 400)"
    by (simp add: day_from_year_def)
  ultimately have "day_from_year (y + 1) - day_from_year y = 365 + (if 4 dvd y then 1 else 0)
      - (if 100 dvd y then 1 else 0) + (if 400 dvd y then 1 else 0)"
    by (simp only:)
  moreover have "4 dvd y" if "100 dvd y" by (rule dvd_trans [OF _ that]) simp
  moreover have "100 dvd y" if "400 dvd y" by (rule dvd_trans [OF _ that]) simp
  ultimately show ?thesis unfolding leap_def mod_eq_0_iff_dvd by (simp only: leap_days)
qed

text \<open>The year of a day: the last one that starts on the day or before it.\<close>

function year_up :: "int \<Rightarrow> int \<Rightarrow> int" where
  "year_up d y = (if day_from_year (y + 1) \<le> d then year_up d (y + 1) else y)"
  by pat_completeness auto
termination
proof (relation "measure (\<lambda>(d, y). nat (d - day_from_year y))")
  show "((d, y + 1), (d, y)) \<in> measure (\<lambda>(d, y). nat (d - day_from_year y))"
    if "day_from_year (y + 1) \<le> d" for d y
    using that year_length [of y] by (auto split: if_splits)
qed simp

declare year_up.simps [simp del]

definition year_of :: "int \<Rightarrow> int" where
  "year_of d = year_up d (1970 + d div (if d < 0 then 365 else 366))"

function month_up :: "bool \<Rightarrow> int \<Rightarrow> nat \<Rightarrow> nat" where
  "month_up lp d m = (if m < 11 \<and> month_start lp (Suc m) \<le> d then month_up lp d (Suc m) else m)"
  by pat_completeness auto
termination by (relation "measure (\<lambda>(lp, d, m). 11 - m)") auto

declare month_up.simps [simp del]

definition utc_day :: "int \<Rightarrow> int" where
  "utc_day t = t div MS_PER_DAY"

definition getUTCFullYear :: "int \<Rightarrow> int" where
  "getUTCFullYear t = year_of (utc_day t)"

definition day_in_year :: "int \<Rightarrow> int" where
  "day_in_year t = utc_day t - day_from_year (getUTCFullYear t)"

text \<open>Months count from 0, days of the month from 1.\<close>

definition getUTCMonth :: "int \<Rightarrow> nat" where
  "getUTCMonth t = month_up (leap (getUTCFullYear t)) (day_in_year t) 0"

definition getUTCDate :: "int \<Rightarrow> int" where
  "getUTCDate t = day_in_year t - month_start (leap (getUTCFullYear t)) (getUTCMonth t) + 1"

text \<open>\<^verbatim>\<open>MakeDay(year, month, date)\<close>: the month may be outside 0..11, the date outside the month.\<close>

definition make_day :: "int \<Rightarrow> int \<Rightarrow> int \<Rightarrow> int" where
  "make_day y m dt =
     (let y' = y + m div 12 in day_from_year y' + month_start (leap y') (nat (m mod 12)) + dt - 1)"

definition setUTCDate :: "int \<Rightarrow> int \<Rightarrow> int" where
  "setUTCDate dt t = make_day (getUTCFullYear t) (int (getUTCMonth t)) dt * MS_PER_DAY + t mod MS_PER_DAY"

definition setUTCMonth :: "int \<Rightarrow> int \<Rightarrow> int" where
  "setUTCMonth m t = make_day (getUTCFullYear t) m (getUTCDate t) * MS_PER_DAY + t mod MS_PER_DAY"

definition two :: "int \<Rightarrow> string" where
  "two n = pad_start 2 (CHR ''0'') (show_nat (nat n))"

definition iso_year :: "int \<Rightarrow> string" where
  "iso_year y =
     (if 0 \<le> y \<and> y \<le> 9999 then pad_start 4 (CHR ''0'') (show_nat (nat y))
      else (if y < 0 then CHR ''-'' else CHR ''+'') # pad_start 6 (CHR ''0'') (show_nat (nat \<bar>y\<bar>)))"

definition toISOString :: "int \<Rightarrow> string" where
  "toISOString t =
     (let r = t mod MS_PER_DAY in
      iso_year (getUTCFullYear t) @ ''-'' @ two (int (getUTCMonth t) + 1) @ ''-'' @ two (getUTCDate t)
        @ ''T'' @ two (r div 3600000) @ '':'' @ two (r div 60000 mod 60) @ '':'' @ two (r div 1000 mod 60)
        @ ''.'' @ pad_start 3 (CHR ''0'') (show_nat (nat (r mod 1000))) @ ''Z'')"

definition field :: "nat \<Rightarrow> nat \<Rightarrow> string \<Rightarrow> string" where
  "field i n s = take n (drop i s)"

definition parseISO :: "string \<Rightarrow> int option" where
  "parseISO s =
     (let num = (\<lambda>i n. int (digits_nat (field i n s))) in
      if length s = 24 \<and> list_all is_digit (field 0 4 s @ field 5 2 s @ field 8 2 s @ field 11 2 s
           @ field 14 2 s @ field 17 2 s @ field 20 3 s)
         \<and> field 4 1 s = ''-'' \<and> field 7 1 s = ''-'' \<and> field 10 1 s = ''T'' \<and> field 13 1 s = '':''
         \<and> field 16 1 s = '':'' \<and> field 19 1 s = ''.'' \<and> field 23 1 s = ''Z''
         \<and> 1 \<le> num 5 2 \<and> num 5 2 \<le> 12 \<and> 1 \<le> num 8 2 \<and> num 8 2 \<le> 31
         \<and> num 11 2 \<le> 23 \<and> num 14 2 \<le> 59 \<and> num 17 2 \<le> 59
      then Some (make_day (num 0 4) (num 5 2 - 1) (num 8 2) * MS_PER_DAY
        + num 11 2 * 3600000 + num 14 2 * 60000 + num 17 2 * 1000 + num 20 3)
      else None)"

section \<open>Schedules\<close>

definition getNextExecutionAt :: "autoStackFrequency \<Rightarrow> int \<Rightarrow> int" where
  "getNextExecutionAt freq from =
     (case freq of
        DAILY \<Rightarrow> setUTCDate (getUTCDate from + 1) from
      | WEEKLY \<Rightarrow> setUTCDate (getUTCDate from + 7) from
      | MONTHLY \<Rightarrow> setUTCMonth (int (getUTCMonth from) + 1) from)"

definition period_days :: "autoStackFrequency \<Rightarrow> int" where
  "period_days freq = (case freq of DAILY \<Rightarrow> 1 | WEEKLY \<Rightarrow> 7 | MONTHLY \<Rightarrow> 30)"

definition getInterestDate :: "autoStackFrequency \<Rightarrow> int \<Rightarrow> int" where
  "getInterestDate freq from = setUTCDate (getUTCDate from + period_days freq) from"

definition isSameUtcDate :: "int \<Rightarrow> int \<Rightarrow> bool" where
  "isSameUtcDate left right \<longleftrightarrow> getUTCFullYear left = getUTCFullYear right
     \<and> getUTCMonth left = getUTCMonth right \<and> getUTCDate left = getUTCDate right"

definition isExecutionDue :: "int \<Rightarrow> int \<Rightarrow> bool \<Rightarrow> bool" where
  "isExecutionDue nextExecutionAt now includeSameUtcDate \<longleftrightarrow>
     nextExecutionAt \<le> now \<or> (includeSameUtcDate \<and> isSameUtcDate nextExecutionAt now)"

section \<open>The calendar is one\<close>

lemma month_up_le: "m \<le> 11 \<Longrightarrow> month_up lp d m \<le> 11"
  by (induction lp d m rule: month_up.induct) (subst month_up.simps, auto)

lemma month_le [simp]: "getUTCMonth t \<le> 11"
  by (simp add: getUTCMonth_def month_up_le)

lemma make_day_shift: "make_day y m (dt + k) = make_day y m dt + k"
  by (simp add: make_day_def Let_def)

lemma make_day_self: "make_day (getUTCFullYear t) (int (getUTCMonth t)) (getUTCDate t) = utc_day t"
proof -
  have "int (getUTCMonth t) div 12 = 0" "nat (int (getUTCMonth t) mod 12) = getUTCMonth t"
    using month_le [of t] by (simp_all add: nat_mod_distrib del: month_le)
  then show ?thesis by (simp add: make_day_def getUTCDate_def day_in_year_def)
qed

lemma day_and_time: "utc_day t * MS_PER_DAY + t mod MS_PER_DAY = t"
  by (simp add: utc_day_def)

lemma setUTCDate_add: "setUTCDate (getUTCDate t + k) t = t + k * MS_PER_DAY"
  using day_and_time [of t] by (simp add: setUTCDate_def make_day_shift make_day_self distrib_right)

lemma month_step:
  "m \<le> 11 \<Longrightarrow> make_day y (int m + 1) dt - make_day y (int m) dt \<in> {28, 29, 30, 31}"
proof -
  assume "m \<le> 11"
  then consider "m < 11" | "m = 11" by linarith
  then show ?thesis
  proof cases
    case 1
    then have "(int m + 1) div 12 = 0" "nat ((int m + 1) mod 12) = Suc m" "int m div 12 = 0" "nat (int m mod 12) = m"
      by auto
    moreover have "m \<in> set [0..<11]" using 1 by simp
    then have "m \<in> {0, 1, 2, 3, 4, 5, 6, 7, 8, 9, 10}" by (simp add: upt_rec, simp add: eval_nat_numeral)
    ultimately show ?thesis by (auto simp: make_day_def month_start_def Let_def)
  next
    case 2
    then show ?thesis using year_length [of y] by (auto simp: make_day_def month_start_def)
  qed
qed


lemma year_up_spec:
  "day_from_year y \<le> d \<Longrightarrow> day_from_year (year_up d y) \<le> d \<and> d < day_from_year (year_up d y + 1)"
  by (induction d y rule: year_up.induct) (subst (1 2) year_up.simps, auto)

lemma day_from_year_ge: "day_from_year (1970 + int n) \<le> 366 * int n"
proof (induction n)
  case 0
  then show ?case by (simp add: day_from_year_def)
next
  case (Suc n)
  have "day_from_year (1970 + int n + 1) - day_from_year (1970 + int n) \<le> 366"
    unfolding year_length by simp
  moreover have "1970 + int (Suc n) = 1970 + int n + 1" by simp
  ultimately show ?case using Suc by simp
qed

lemma day_from_year_le: "day_from_year (1970 - int n) \<le> - 365 * int n"
proof (induction n)
  case 0
  then show ?case by (simp add: day_from_year_def)
next
  case (Suc n)
  have "365 \<le> day_from_year (1970 - int (Suc n) + 1) - day_from_year (1970 - int (Suc n))"
    unfolding year_length by simp
  moreover have "1970 - int (Suc n) + 1 = 1970 - int n" by simp
  ultimately show ?case using Suc by simp
qed

lemma year_of_spec: "day_from_year (year_of d) \<le> d \<and> d < day_from_year (year_of d + 1)"
proof -
  have "day_from_year (1970 + d div (if d < 0 then 365 else 366)) \<le> d"
  proof (cases "d < 0")
    case True
    then have "d div 365 = - int (nat (- (d div 365)))" by simp
    moreover have "365 * (d div 365) \<le> d" by simp
    ultimately show ?thesis using day_from_year_le [of "nat (- (d div 365))"] True by simp
  next
    case False
    then have "d div 366 = int (nat (d div 366))" by simp
    moreover have "366 * (d div 366) \<le> d" by simp
    ultimately show ?thesis using day_from_year_ge [of "nat (d div 366)"] False by simp
  qed
  from year_up_spec [OF this] show ?thesis by (simp add: year_of_def)
qed

lemma day_in_year_bounds: "0 \<le> day_in_year t \<and> day_in_year t < (if leap (getUTCFullYear t) then 366 else 365)"
  using year_of_spec [of "utc_day t"] year_length [of "getUTCFullYear t"]
  by (simp add: day_in_year_def getUTCFullYear_def)

lemma month_up_spec:
  "m \<le> 11 \<Longrightarrow> month_start lp m \<le> d \<Longrightarrow>
     month_start lp (month_up lp d m) \<le> d
     \<and> (month_up lp d m = 11 \<or> d < month_start lp (Suc (month_up lp d m)))"
  by (induction lp d m rule: month_up.induct) (subst (1 2 3) month_up.simps, auto)

lemma month_span: "m < 11 \<Longrightarrow> month_start lp (Suc m) - month_start lp m \<le> 31"
proof -
  assume "m < 11"
  then have "m \<in> set [0..<11]" by simp
  then have "m \<in> {0, 1, 2, 3, 4, 5, 6, 7, 8, 9, 10}" by (simp add: upt_rec, simp add: eval_nat_numeral)
  then show ?thesis by (auto simp: month_start_def)
qed

lemma date_bounds: "1 \<le> getUTCDate t" "getUTCDate t \<le> 31"
proof -
  let ?lp = "leap (getUTCFullYear t)"
  have d: "0 \<le> day_in_year t" "day_in_year t < (if ?lp then 366 else 365)"
    using day_in_year_bounds by simp_all
  have "month_start ?lp 0 \<le> day_in_year t" using d by (simp add: month_start_def)
  from month_up_spec [OF _ this]
  have m: "month_start ?lp (getUTCMonth t) \<le> day_in_year t"
    "getUTCMonth t = 11 \<or> day_in_year t < month_start ?lp (Suc (getUTCMonth t))"
    by (simp_all add: getUTCMonth_def)
  show "1 \<le> getUTCDate t" using m(1) by (simp add: getUTCDate_def)
  show "getUTCDate t \<le> 31"
  proof (cases "getUTCMonth t = 11")
    case True
    then show ?thesis using d(2) by (simp add: getUTCDate_def month_start_def split: if_splits)
  next
    case False
    then have "getUTCMonth t < 11" using month_le [of t] by linarith
    from month_span [OF this, of ?lp] m(2) False show ?thesis by (simp add: getUTCDate_def)
  qed
qed

text \<open>An execution moves the schedule on: by one day, by seven, or by one calendar month, which is
  28 to 31 days and keeps the time of the day; interest is counted for 1, 7 or 30 days.\<close>

theorem next_execution:
  "getNextExecutionAt DAILY t = t + MS_PER_DAY
   \<and> getNextExecutionAt WEEKLY t = t + 7 * MS_PER_DAY
   \<and> getNextExecutionAt MONTHLY t - t \<in> (\<lambda>k. k * MS_PER_DAY) ` {28, 29, 30, 31}
   \<and> getInterestDate freq t = t + period_days freq * MS_PER_DAY"
proof -
  have "getNextExecutionAt MONTHLY t - t
      = (make_day (getUTCFullYear t) (int (getUTCMonth t) + 1) (getUTCDate t)
         - make_day (getUTCFullYear t) (int (getUTCMonth t)) (getUTCDate t)) * MS_PER_DAY"
    using day_and_time [of t] make_day_self [of t]
    by (simp add: getNextExecutionAt_def setUTCMonth_def algebra_simps)
  then have "getNextExecutionAt MONTHLY t - t \<in> (\<lambda>k. k * MS_PER_DAY) ` {28, 29, 30, 31}"
    using month_step [OF month_le, of "getUTCFullYear t" t "getUTCDate t"] by (intro image_eqI)
  moreover have "getNextExecutionAt DAILY t = t + MS_PER_DAY" "getNextExecutionAt WEEKLY t = t + 7 * MS_PER_DAY"
    using setUTCDate_add [of t 1] setUTCDate_add [of t 7] by (simp_all add: getNextExecutionAt_def)
  ultimately show ?thesis by (simp add: getInterestDate_def setUTCDate_add)
qed

lemma period_days_pos: "0 < period_days freq"
  by (simp add: period_days_def split: autoStackFrequency.split)

lemma next_execution_later: "from < getNextExecutionAt freq from"
  using next_execution [of "from" DAILY] by (cases freq) (auto simp: MS_PER_DAY_def)

text \<open>The day is the calendar date.\<close>

lemma same_utc_date: "isSameUtcDate a b \<longleftrightarrow> utc_day a = utc_day b"
proof
  assume "isSameUtcDate a b"
  then show "utc_day a = utc_day b"
    using make_day_self [of a] make_day_self [of b] by (simp add: isSameUtcDate_def)
next
  assume "utc_day a = utc_day b"
  then show "isSameUtcDate a b"
    by (simp add: isSameUtcDate_def getUTCFullYear_def getUTCMonth_def getUTCDate_def day_in_year_def)
qed


section \<open>Dates as text\<close>

lemma padded:
  assumes "0 \<le> n" "n < 10 ^ k" "0 < k"
  shows "length (pad_start k (CHR ''0'') (show_nat (nat n))) = k"
    "list_all is_digit (pad_start k (CHR ''0'') (show_nat (nat n)))"
    "int (digits_nat (pad_start k (CHR ''0'') (show_nat (nat n)))) = n"
proof -
  have "nat n < 10 ^ k" using assms(1,2) by (simp add: nat_less_iff)
  from length_show_nat_le [OF this assms(3)] show "length (pad_start k (CHR ''0'') (show_nat (nat n))) = k"
    by (rule pad_start_length)
  show "list_all is_digit (pad_start k (CHR ''0'') (show_nat (nat n)))"
    by (auto simp: pad_start_def list_all_iff is_digit_def [of "CHR ''0''"]) (metis list_all_iff show_nat_digits)
  show "int (digits_nat (pad_start k (CHR ''0'') (show_nat (nat n)))) = n"
    using assms(1) by simp
qed

lemma parseISO_fields:
  fixes y m d h mi sec ms :: string
  defines "s \<equiv> y @ ''-'' @ m @ ''-'' @ d @ ''T'' @ h @ '':'' @ mi @ '':'' @ sec @ ''.'' @ ms @ ''Z''"
  assumes "length y = 4" "length m = 2" "length d = 2" "length h = 2" "length mi = 2" "length sec = 2" "length ms = 3"
  shows "field 0 4 s = y" "field 5 2 s = m" "field 8 2 s = d" "field 11 2 s = h" "field 14 2 s = mi"
    "field 17 2 s = sec" "field 20 3 s = ms" "length s = 24" "field 4 1 s = ''-''" "field 7 1 s = ''-''"
    "field 10 1 s = ''T''" "field 13 1 s = '':''" "field 16 1 s = '':''" "field 19 1 s = ''.''" "field 23 1 s = ''Z''"
  using assms by (simp_all add: field_def)

lemma parseISO_parts:
  assumes "length y = 4" "length m = 2" "length d = 2" "length h = 2" "length mi = 2" "length sec = 2" "length ms = 3"
    and "list_all is_digit y" "list_all is_digit m" "list_all is_digit d" "list_all is_digit h"
      "list_all is_digit mi" "list_all is_digit sec" "list_all is_digit ms"
    and "int (digits_nat y) = yn" "int (digits_nat m) = mn" "int (digits_nat d) = dn" "int (digits_nat h) = hn"
      "int (digits_nat mi) = mn2" "int (digits_nat sec) = sn" "int (digits_nat ms) = msn"
    and "1 \<le> mn" "mn \<le> 12" "1 \<le> dn" "dn \<le> 31" "hn \<le> 23" "mn2 \<le> 59" "sn \<le> 59"
  shows "parseISO (y @ ''-'' @ m @ ''-'' @ d @ ''T'' @ h @ '':'' @ mi @ '':'' @ sec @ ''.'' @ ms @ ''Z'')
    = Some (make_day yn (mn - 1) dn * MS_PER_DAY + hn * 3600000 + mn2 * 60000 + sn * 1000 + msn)"
  unfolding parseISO_def parseISO_fields [OF assms(1-7)] Let_def
  using assms(8-) by simp

lemma iso_reads_back:
  assumes "0 \<le> getUTCFullYear t" "getUTCFullYear t \<le> 9999"
  shows "parseISO (toISOString t) = Some t"
proof -
  define r where "r = t mod MS_PER_DAY"
  have r: "0 \<le> r" "r < 86400000" by (simp_all add: r_def MS_PER_DAY_def)
  have m: "0 \<le> int (getUTCMonth t) + 1" "int (getUTCMonth t) + 1 \<le> 12"
    using month_le [of t] by linarith+
  have d: "0 \<le> getUTCDate t" "getUTCDate t < 10 ^ 2" using date_bounds [of t] by simp_all
  have h: "0 \<le> r div 3600000" "r div 3600000 \<le> 23" "0 \<le> r div 60000 mod 60" "r div 60000 mod 60 \<le> 59"
    "0 \<le> r div 1000 mod 60" "r div 1000 mod 60 \<le> 59" "0 \<le> r mod 1000" "r mod 1000 < 10 ^ 3"
    using r by (simp_all add: pos_imp_zdiv_nonneg_iff)
  have r': "r div 3600000 * 3600000 + r div 60000 mod 60 * 60000 + r div 1000 mod 60 * 1000 + r mod 1000 = r"
  proof -
    have "r div 60000 = r div 1000 div 60" "r div 3600000 = r div 60000 div 60"
      using zdiv_zmult2_eq [of 60 r 1000] zdiv_zmult2_eq [of 60 r 60000] by simp_all
    then show ?thesis
      using div_mult_mod_eq [of r 1000] div_mult_mod_eq [of "r div 1000" 60] div_mult_mod_eq [of "r div 60000" 60]
      by linarith
  qed
  have mm: "int (getUTCMonth t) + 1 < 10 ^ 2" using month_le [of t] by (simp del: month_le)
  have hh: "r div 3600000 < 10 ^ 2" "r div 60000 mod 60 < 10 ^ 2" "r div 1000 mod 60 < 10 ^ 2"
    unfolding power2_eq_square using h by linarith+
  have yy: "getUTCFullYear t < 10 ^ 4" using assms(2) by simp
  have iso: "toISOString t = pad_start 4 (CHR ''0'') (show_nat (nat (getUTCFullYear t))) @ ''-''
      @ two (int (getUTCMonth t) + 1) @ ''-'' @ two (getUTCDate t) @ ''T'' @ two (r div 3600000) @ '':''
      @ two (r div 60000 mod 60) @ '':'' @ two (r div 1000 mod 60) @ ''.''
      @ pad_start 3 (CHR ''0'') (show_nat (nat (r mod 1000))) @ ''Z''"
    using assms by (simp add: toISOString_def iso_year_def r_def [symmetric] Let_def)
  note py = padded [OF assms(1) yy zero_less_numeral] and pm = padded [OF m(1) mm zero_less_numeral]
    and pd = padded [OF d zero_less_numeral] and ph = padded [OF h(1) hh(1) zero_less_numeral]
    and pi = padded [OF h(3) hh(2) zero_less_numeral] and ps = padded [OF h(5) hh(3) zero_less_numeral]
    and pz = padded [OF h(7,8) zero_less_numeral]
  have "1 \<le> int (getUTCMonth t) + 1" by simp
  from parseISO_parts [OF py(1) pm(1) pd(1) ph(1) pi(1) ps(1) pz(1) py(2) pm(2) pd(2) ph(2) pi(2) ps(2) pz(2)
      py(3) pm(3) pd(3) ph(3) pi(3) ps(3) pz(3) this m(2) date_bounds h(2,4,6)]
  have "parseISO (toISOString t) = Some (make_day (getUTCFullYear t) (int (getUTCMonth t) + 1 - 1) (getUTCDate t) * MS_PER_DAY
      + r div 3600000 * 3600000 + r div 60000 mod 60 * 60000 + r div 1000 mod 60 * 1000 + r mod 1000)"
    unfolding iso two_def .
  also have "\<dots> = Some t"
    unfolding add_diff_cancel make_day_self using r' day_and_time [of t, folded r_def]
    by (simp only: add.assoc)
  finally show ?thesis .
qed

text \<open>What \<^verbatim>\<open>toISOString\<close> writes into the metadata of a transaction reads back as the same instant,
  for the years 0 to 9999: in particular two scheduled executions never share a reference.\<close>

theorem iso_roundtrip:
  assumes "0 \<le> getUTCFullYear t" "getUTCFullYear t \<le> 9999"
  shows "parseISO (toISOString t) = Some t"
  by (rule iso_reads_back [OF assms])

theorem iso_roundtrip_witness: "parseISO (toISOString 1735603200000) = Some 1735603200000"
proof (rule iso_roundtrip)
  have "getUTCFullYear 1735603200000 = 2024"
    by (simp add: getUTCFullYear_def year_of_def utc_day_def MS_PER_DAY_def year_up.simps day_from_year_def)
  then show "0 \<le> getUTCFullYear 1735603200000" "getUTCFullYear 1735603200000 \<le> 9999" by simp_all
qed

end
