(* ===== verification/AutoStack.thy ===== *)
theory AutoStack
  imports Vault Dates
begin

text \<open>
  Auto-stacking (\<^verbatim>\<open>autostack.service.ts\<close>): a user quotes an amount, previews a plan, confirms
  it, and the plan is then executed on a schedule; an execution takes the amount from the
  user's USDT wallet, swaps it from another wallet, or charges a card. A plan is cancelled
  before its first execution and unlocked after it.

  Arguments for what is outside: \<open>stackOps\<close> is decimal.js on decimal strings (\<open>do_str\<close> is
  \<^verbatim>\<open>new Decimal(s).toString()\<close>, \<open>None\<close> where it throws), \<open>stackAnswers\<close> what the ticker, the
  swap provider and the card processor answer in this run, \<open>pinOk\<close> the comparison of a PIN
  with a stored hash, and the tables of cards, fees and settings that nothing here writes.
\<close>

section \<open>Amounts\<close>

record stackOps = decimalOps +
  do_div :: "string \<Rightarrow> string \<Rightarrow> string"
  do_str :: "string \<Rightarrow> string option"

definition toUsdtBase :: "env \<Rightarrow> stackOps \<Rightarrow> string \<Rightarrow> error + int" where
  "toUsdtBase env ops amount =
     (case do_str ops amount of None \<Rightarrow> Inl decimal_error | Some s \<Rightarrow> toBase (e_cv env) s ''USDT'' None)"

definition toNgnBase :: "env \<Rightarrow> stackOps \<Rightarrow> string \<Rightarrow> error + int" where
  "toNgnBase env ops amount =
     (case do_str ops amount of None \<Rightarrow> Inl decimal_error | Some s \<Rightarrow> toBase (e_cv env) s ''NGN'' None)"

definition at_least :: "env \<Rightarrow> string \<Rightarrow> rat \<Rightarrow> bool" where
  "at_least env s bound = (case e_decValue env s of None \<Rightarrow> False | Some v \<Rightarrow> bound \<le> v)"

definition fromAutoStackAmountBase ::
    "env \<Rightarrow> stackOps \<Rightarrow> int \<Rightarrow> string \<Rightarrow> string option \<Rightarrow> error + string" where
  "fromAutoStackAmountBase env ops amount currency network =
     (case fromBase (e_cv env) (ABigInt amount) currency None of
        Inl e \<Rightarrow> Inl e
      | Inr s \<Rightarrow>
          (case do_str ops s of
             None \<Rightarrow> Inl decimal_error
           | Some converted \<Rightarrow>
               Inr (if to_upper currency = ''USDT'' \<and> truthy network \<noteq> None \<and> at_least env s 1000000
                    then s else converted)))"

record autoStackView =
  av_stack :: autoStack
  av_amount :: string
  av_transactionFee :: string
  av_accruedInterest :: string

definition formatAutoStackRecord ::
    "env \<Rightarrow> stackOps \<Rightarrow> autoStack \<Rightarrow> string option \<Rightarrow> string option \<Rightarrow> autoStackView sysm" where
  "formatAutoStackRecord env ops a currencySymbol network =
     (let symbol = to_upper (case truthy currencySymbol of None \<Rightarrow> ''USDT'' | Some y \<Rightarrow> y) in
      bindM (liftM (fromAutoStackAmountBase env ops (a_amount a) symbol network)) (\<lambda>amount.
      bindM (shownM env (a_transactionFee a) ''USDT'') (\<lambda>cost.
      bindM (liftM (fromAutoStackAmountBase env ops (a_accruedInterest a) symbol network)) (\<lambda>interest.
        returnM \<lparr>av_stack = a, av_amount = amount, av_transactionFee = cost, av_accruedInterest = interest\<rparr>))))"

section \<open>Quote, payment types, preview\<close>

definition AUTOSTACK_QUOTE_TTL_SECONDS :: int where
  "AUTOSTACK_QUOTE_TTL_SECONDS = 300"

definition AUTOSTACK_DEFAULT_PLAN_NAME :: string where
  "AUTOSTACK_DEFAULT_PLAN_NAME = ''AutoStack Plan''"

definition parseStoredAutoStackQuote :: "tempValue \<Rightarrow> error + autoStackQuote" where
  "parseStoredAutoStackQuote v =
     (case v of
        TAutoStackQuote q \<Rightarrow> Inr q
      | _ \<Rightarrow> Inl (BadRequest ''Invalid quote data. Please request a new quote.''))"

definition autostack_quote_at :: "env \<Rightarrow> string \<Rightarrow> autoStackQuote sysm" where
  "autostack_quote_at env quoteId =
     bindM (tempGet env (''autostack:'' @ quoteId)) (\<lambda>r.
     bindM (someM r (NotFound ''Quote not found or expired'')) (\<lambda>v.
       liftM (parseStoredAutoStackQuote v)))"

definition normalizeFrequency :: "int \<Rightarrow> error + autoStackFrequency" where
  "normalizeFrequency f =
     (if f = 1 then Inr DAILY else if f = 2 then Inr WEEKLY else if f = 3 then Inr MONTHLY
      else Inl (BadRequest ''Frequency must be 1 (daily), 2 (weekly), or 3 (monthly)''))"

definition normalizeDayOfWeek :: "autoStackFrequency \<Rightarrow> int option \<Rightarrow> error + string option" where
  "normalizeDayOfWeek freq dayOfWeek =
     (if freq = DAILY then Inr None
      else case dayOfWeek of
        None \<Rightarrow> (if freq = WEEKLY
          then Inl (BadRequest ''dayOfWeek is required for weekly autostacks. Use 1-7 for Monday-Sunday.'')
          else Inr None)
      | Some n \<Rightarrow>
          if n = 0 then (if freq = WEEKLY
            then Inl (BadRequest ''dayOfWeek is required for weekly autostacks. Use 1-7 for Monday-Sunday.'')
            else Inr None)
          else if n < 1 \<or> n > 7
          then Inl (BadRequest ''dayOfWeek must be between 1 and 7, where 1 = Monday and 7 = Sunday.'')
          else Inr (Some (show_int n)))"

definition normalizePaymentType :: "string \<Rightarrow> error + paymentType" where
  "normalizePaymentType v =
     (if to_upper v = ''CARD'' then Inr CARD
      else if to_upper v = ''CRYPTO_WALLET'' then Inr CRYPTO_WALLET
      else Inl (BadRequest ''paymentType must be CARD or CRYPTO_WALLET''))"

record autoStackQuoteView =
  aqv_quoteId :: string
  aqv_assetId :: string
  aqv_asset :: string
  aqv_assetToUsdt :: string
  aqv_expiresIn :: int
  aqv_amountInUsdt :: string

definition autostack_quote ::
    "env \<Rightarrow> stackOps \<Rightarrow> (string \<Rightarrow> string option) \<Rightarrow> string \<Rightarrow> string \<Rightarrow> string option \<Rightarrow> string \<Rightarrow> autoStackQuoteView sysm" where
  "autostack_quote env ops price assetId amount planName quoteId =
     bindM (getM (\<lambda>s. crypto_by_id assetId (s_db s))) (\<lambda>r.
     bindM (someM r (NotFound ''Asset not found'')) (\<lambda>asset.
     let symbol = to_upper (c_symbol asset) in
     bindM (someM (if symbol = ''USDT'' then Some ''1'' else truthy (price (to_lower symbol @ ''usdt'')))
       (BadRequest (''Unable to fetch conversion rate for '' @ symbol))) (\<lambda>ticker.
     bindM (someM (do_str ops ticker) decimal_error) (\<lambda>rate.
     thenM (requireM (case e_decValue env rate of None \<Rightarrow> False | Some v \<Rightarrow> 0 < v)
       (BadRequest (''Invalid conversion rate for '' @ symbol)))
     (let inUsdt = do_mul ops amount rate in
      bindM (liftM (toUsdtBase env ops inUsdt)) (\<lambda>base.
      thenM (tempSet env (''autostack:'' @ quoteId) (TAutoStackQuote
        \<lparr>aq_assetId = assetId, aq_asset = symbol, aq_amount = amount, aq_amountInUsdt = inUsdt,
         aq_amountInUsdtBase = base, aq_rate = rate, aq_expiresAt = e_now env + AUTOSTACK_QUOTE_TTL_SECONDS * 1000,
         aq_planName = (case truthy planName of None \<Rightarrow> AUTOSTACK_DEFAULT_PLAN_NAME | Some n \<Rightarrow> n),
         aq_frequency = None, aq_paymentType = None, aq_paymentCardId = None, aq_transactionFee = None,
         aq_startDate = None, aq_timeOfDay = None, aq_dayOfWeek = None, aq_dayOfMonth = None\<rparr>)
        AUTOSTACK_QUOTE_TTL_SECONDS)
      (returnM \<lparr>aqv_quoteId = quoteId, aqv_assetId = assetId, aqv_asset = symbol, aqv_assetToUsdt = rate,
         aqv_expiresIn = AUTOSTACK_QUOTE_TTL_SECONDS, aqv_amountInUsdt = inUsdt\<rparr>)))))))"

record paymentTypesView =
  pt_requiresCardSetup :: bool
  pt_walletId :: string
  pt_totalAmount :: string
  pt_lockedAmount :: string
  pt_stackedAmount :: string
  pt_reservedAmount :: string
  pt_availableAmount :: string
  pt_cards :: "string list"

text \<open>\<open>cards\<close> is the table of saved cards, in order of creation.\<close>

definition paymentTypes :: "env \<Rightarrow> paymentCard list \<Rightarrow> string \<Rightarrow> string \<Rightarrow> paymentTypesView sysm" where
  "paymentTypes env cards userId quoteId =
     bindM (autostack_quote_at env quoteId) (\<lambda>q.
     thenM (requireM (aq_assetId q \<noteq> []) (BadRequest ''Quote asset is missing. Please request a new quote.''))
     (bindM (getM (\<lambda>s. List.find (\<lambda>w. w_userId w = userId \<and> w_isCrypto w \<and> w_currencyId w = Some (aq_assetId q))
        (d_wallets (s_db s)))) (\<lambda>r.
      bindM (someM r (NotFound ''Wallet not found for selected asset'')) (\<lambda>w.
      bindM (getM (\<lambda>s. crypto_by_id (aq_assetId q) (s_db s))) (\<lambda>c.
      let currency = to_upper (case c of None \<Rightarrow> w_currency w | Some x \<Rightarrow> c_symbol x);
          mine = rev (filter (\<lambda>k. pc_userId k = userId) cards)
      in bindM (shownM env (w_baseBalance w) currency) (\<lambda>shownTotal.
      bindM (shownM env (w_lockedAmount w) currency) (\<lambda>shownLocked.
      bindM (shownM env (w_stackedAmount w) currency) (\<lambda>shownStacked.
      bindM (shownM env (w_reservedBalance w) currency) (\<lambda>shownReserved.
      bindM (shownM env (w_baseBalance w - w_reservedBalance w) currency) (\<lambda>shownAvailable.
        returnM \<lparr>pt_requiresCardSetup = (mine = []), pt_walletId = w_id w, pt_totalAmount = shownTotal,
          pt_lockedAmount = shownLocked, pt_stackedAmount = shownStacked, pt_reservedAmount = shownReserved,
          pt_availableAmount = shownAvailable, pt_cards = map pc_id mine\<rparr>))))))))))"

record feeBracket =
  fb_currency :: string
  fb_from :: rat
  fb_to :: rat
  fb_fee :: string

record previewDto =
  pd_quoteId :: string
  pd_paymentType :: string
  pd_paymentCardId :: "string option"
  pd_frequency :: int
  pd_startDate :: "int option"
  pd_timeOfDay :: "string option"
  pd_dayOfWeek :: "int option"
  pd_dayOfMonth :: "int option"

record autoStackPreviewView =
  apv_amount :: string
  apv_frequency :: autoStackFrequency
  apv_paymentType :: paymentType
  apv_planName :: string
  apv_rate :: string
  apv_transactionFee :: string
  apv_transactionFeePercentage :: string
  apv_interestRate :: string
  apv_expectedInterest :: string
  apv_expectedAmountAtEnd :: string

text \<open>\<open>fees\<close> are the rows of the fee table, \<open>dailyRate\<close> the interest setting of USDT.\<close>

definition stack_fee :: "env \<Rightarrow> feeBracket list \<Rightarrow> string \<Rightarrow> string" where
  "stack_fee env fees amount =
     (case e_decValue env amount of
        None \<Rightarrow> ''0''
      | Some v \<Rightarrow>
          (case List.find (\<lambda>f. fb_currency f = ''USDT'' \<and> fb_from f \<le> v \<and> v \<le> fb_to f) fees of
             None \<Rightarrow> ''0'' | Some f \<Rightarrow> fb_fee f))"

definition check_card :: "paymentCard list \<Rightarrow> string \<Rightarrow> string option \<Rightarrow> unit sysm" where
  "check_card cards userId savedCard =
     (case truthy savedCard of
        None \<Rightarrow> throwM (BadRequest ''Payment card is required for card autostack'')
      | Some i \<Rightarrow> requireM (list_ex (\<lambda>k. pc_id k = i \<and> pc_userId k = userId) cards)
          (NotFound ''Payment card not found''))"

definition autostack_preview ::
    "env \<Rightarrow> stackOps \<Rightarrow> paymentCard list \<Rightarrow> feeBracket list \<Rightarrow> string option \<Rightarrow> string \<Rightarrow> previewDto \<Rightarrow> autoStackPreviewView sysm" where
  "autostack_preview env ops cards fees dailyRate userId dto =
     bindM (autostack_quote_at env (pd_quoteId dto)) (\<lambda>q.
     bindM (someM (do_str ops (aq_amountInUsdt q)) decimal_error) (\<lambda>amount.
     bindM (liftM (normalizePaymentType (pd_paymentType dto))) (\<lambda>pay.
     thenM (whenM (pay = CARD) (check_card cards userId (pd_paymentCardId dto)))
     (bindM (liftM (normalizeFrequency (pd_frequency dto))) (\<lambda>freq.
      bindM (liftM (normalizeDayOfWeek freq (pd_dayOfWeek dto))) (\<lambda>day.
      let cost = stack_fee env fees amount;
          percent = (if (case e_decValue env amount of None \<Rightarrow> False | Some v \<Rightarrow> 0 < v)
            then do_mul ops (do_div ops cost amount) ''100'' else ''0'');
          rate = (case truthy dailyRate of None \<Rightarrow> ''0'' | Some r \<Rightarrow> r);
          interest = do_mul ops (do_div ops (do_mul ops amount rate) ''100'') (show_int (period_days freq));
          atEnd = do_plus ops amount interest
      in thenM (tempSet env (''autostack:'' @ pd_quoteId dto) (TAutoStackQuote
          (q\<lparr>aq_frequency := Some freq, aq_paymentType := Some pay,
             aq_paymentCardId := (if pay = CARD then pd_paymentCardId dto else None),
             aq_transactionFee := Some cost, aq_startDate := pd_startDate dto, aq_timeOfDay := pd_timeOfDay dto,
             aq_dayOfWeek := day, aq_dayOfMonth := pd_dayOfMonth dto\<rparr>))
          (- ((e_now env - aq_expiresAt q) div 1000)))
        (returnM \<lparr>apv_amount = amount, apv_frequency = freq, apv_paymentType = pay, apv_planName = aq_planName q,
           apv_rate = aq_rate q, apv_transactionFee = cost, apv_transactionFeePercentage = percent,
           apv_interestRate = rate, apv_expectedInterest = interest, apv_expectedAmountAtEnd = atEnd\<rparr>)))))))"


section \<open>One execution\<close>

text \<open>
  What the providers answer in this run: prices, the id of a swap quotation and of its
  confirmation, the charge of the card.
\<close>

record stackAnswers =
  sa_price :: "string \<Rightarrow> string option"
  sa_quotation :: "error + string option"
  sa_confirmed :: "error + string option"
  sa_charge :: "error + unit"

text \<open>\<^verbatim>\<open>a || b\<close> on strings read from metadata.\<close>

definition orelse :: "string \<Rightarrow> string \<Rightarrow> string" where
  "orelse a b = (if a = [] then b else a)"

definition opt_str :: "string option \<Rightarrow> string" where
  "opt_str v = (case v of None \<Rightarrow> [] | Some s \<Rightarrow> s)"

definition PROCESSING_WINDOW_MS :: int where
  "PROCESSING_WINDOW_MS = 15 * 60 * 1000"

definition fresh_processing :: "int \<Rightarrow> meta \<Rightarrow> bool" where
  "fresh_processing now m \<longleftrightarrow> mget m ''autostackInitiatedAt'' \<noteq> []
     \<and> (case parseISO (mget m ''autostackInitiatedAt'') of
          None \<Rightarrow> False | Some t \<Rightarrow> now - t < PROCESSING_WINDOW_MS)"

text \<open>The processing lock: the row is locked and its metadata read again.\<close>

definition claimed_meta :: "env \<Rightarrow> meta \<Rightarrow> meta" where
  "claimed_meta env m = mset_all [(''autostackInitiationStatus'', ''PROCESSING''),
     (''autostackInitiatedAt'', toISOString (e_now env))] m"

definition autostack_claim :: "env \<Rightarrow> string \<Rightarrow> meta \<Rightarrow> meta option dbm" where
  "autostack_claim env txId m =
     bindM (getM (transaction_by_id txId)) (\<lambda>fresh.
     let fm = (case fresh of None \<Rightarrow> m | Some t \<Rightarrow> t_meta t);
         status = to_upper (mget fm ''autostackInitiationStatus'');
         claimed = claimed_meta env fm
     in if status = ''SUBMITTED'' \<or> status = ''COMPLETED'' then returnM None
        else if status = ''PROCESSING'' \<and> fresh_processing (e_now env) fm then returnM None
        else thenM (updTransactions (\<lambda>t. t_id t = txId) (\<lambda>t. t\<lparr>t_meta := claimed\<rparr>)) (returnM (Some claimed)))"

record stackParams =
  sp_wallet :: bool
  sp_sourceAsset :: string
  sp_principal :: int
  sp_principalOriginal :: string
  sp_fee :: int
  sp_source :: int
  sp_sourceOriginal :: string
  sp_sourceFee :: int
  sp_total :: int

text \<open>The fee in the asset the amount comes from: \<open>source * fee / principal\<close>, rounded up.\<close>

definition source_fee :: "bool \<Rightarrow> int \<Rightarrow> int \<Rightarrow> int \<Rightarrow> int" where
  "source_fee fromWallet source cost princ =
     (if fromWallet \<and> princ > 0 then bigdiv (source * cost + princ - 1) princ else 0)"

definition stack_params :: "env \<Rightarrow> autoStack \<Rightarrow> transaction \<Rightarrow> meta \<Rightarrow> error + stackParams" where
  "stack_params env a t m =
     (let fromWallet = (mget m ''paymentType'' = ''CRYPTO_WALLET'');
          asset = to_upper (orelse (mget m ''sourceAsset'') (if fromWallet then t_currency t else ''USDT''))
      in case parse_bigint (orelse (mget m ''principalUsdtAmountBase'') (show_int (a_amount a))) of
           Inl e \<Rightarrow> Inl e
         | Inr princ \<Rightarrow>
      (let known = orelse (mget m ''principalUsdtAmount'') (opt_str (t_cryptoAmountOriginal t)) in
       case (if known \<noteq> [] then Inr known else fromBase (e_cv env) (ABigInt princ) ''USDT'' None) of
           Inl e \<Rightarrow> Inl e
         | Inr princOriginal \<Rightarrow>
      (case parse_bigint (orelse (mget m ''transactionFeeBase'') ''0'') of
           Inl e \<Rightarrow> Inl e
         | Inr cost \<Rightarrow>
      (case parse_bigint (orelse (mget m ''sourceAmountBase'')
              (case t_cryptoAmountBase t of Some b \<Rightarrow> e_decStr env b | None \<Rightarrow> show_int princ)) of
           Inl e \<Rightarrow> Inl e
         | Inr source \<Rightarrow>
      (let sourceOriginal = orelse (mget m ''sourceAmount'') (orelse (opt_str (t_cryptoAmountOriginal t)) princOriginal);
           feeInSource = source_fee fromWallet source cost princ
       in Inr \<lparr>sp_wallet = fromWallet, sp_sourceAsset = asset, sp_principal = princ,
            sp_principalOriginal = princOriginal, sp_fee = cost, sp_source = source,
            sp_sourceOriginal = sourceOriginal, sp_sourceFee = feeInSource, sp_total = source + feeInSource\<rparr>)))))"

definition already_reserved :: "meta \<Rightarrow> string \<Rightarrow> int \<Rightarrow> bool" where
  "already_reserved m currency amount \<longleftrightarrow> mget m ''liquidityReservationStatus'' = ''reserved''
     \<and> mget m ''liquidityReservationCurrency'' = currency
     \<and> mget m ''liquidityReservationAmount'' = show_int amount"

definition reserved_meta :: "string \<Rightarrow> int \<Rightarrow> meta" where
  "reserved_meta currency amount = [(''liquidityReservationStatus'', ''reserved''),
     (''liquidityReservationCurrency'', currency), (''liquidityReservationAmount'', show_int amount)]"

text \<open>A source other than USDT: the amount and its fee are reserved on the wallet, the amount on the company's liquidity.\<close>

definition autostack_reserve_tx :: "env \<Rightarrow> string \<Rightarrow> string \<Rightarrow> meta \<Rightarrow> stackParams \<Rightarrow> unit dbm" where
  "autostack_reserve_tx env userId txId m p =
     thenM (whenM (\<not> already_reserved m (sp_sourceAsset p) (sp_source p))
       (thenM (reserveBalance userId (sp_sourceAsset p) (sp_total p) None)
         (bindM (reserveLiquidity (sp_sourceAsset p) (sp_source p)) (\<lambda>reserved.
           requireM reserved
             (PlainError (''Insufficient company '' @ sp_sourceAsset p @ '' liquidity for autostack''))))))
     (bindM (shown_db env (sp_sourceFee p) (sp_sourceAsset p)) (\<lambda>shownFee.
      bindM (shown_db env (sp_total p) (sp_sourceAsset p)) (\<lambda>shownTotal.
        updTransactions (\<lambda>t. t_id t = txId) (\<lambda>t. t\<lparr>
          t_cryptoAmountBase := Some (sp_source p),
          t_cryptoAmountOriginal := Some (sp_sourceOriginal p),
          t_platformFeeBase := Some (sp_sourceFee p),
          t_platformFeeOriginal := Some shownFee,
          t_totalAmountSentBase := Some (sp_total p),
          t_totalAmountSentOriginal := Some shownTotal,
          t_fiatAmountBase := sp_principal p,
          t_fiatAmountOriginal := Some (sp_principalOriginal p),
          t_meta := mset_all (reserved_meta (sp_sourceAsset p) (sp_source p) @
            [(''sourceFeeAmountBase'', show_int (sp_sourceFee p)),
             (''totalSourceWalletDeductionBase'', show_int (sp_total p))]) m\<rparr>))))"

text \<open>A USDT wallet: amount and fee leave the available balance, the amount is stacked, the execution is complete.\<close>

definition w_stack :: "int \<Rightarrow> int \<Rightarrow> wallet \<Rightarrow> wallet option" where
  "w_stack deduction amount w = (if w_baseBalance w - w_reservedBalance w \<ge> deduction
     then Some (w\<lparr>w_baseBalance := w_baseBalance w - deduction, w_stackedAmount := w_stackedAmount w + amount\<rparr>)
     else None)"

definition usdt_wallet :: "string \<Rightarrow> string \<Rightarrow> db \<Rightarrow> wallet option" where
  "usdt_wallet userId currencyId d =
     List.find (\<lambda>w. w_userId w = userId \<and> (w_currencyId w = Some currencyId \<or> w_currency w = ''USDT'')) (d_wallets d)"

definition stack_executed :: "env \<Rightarrow> bool \<Rightarrow> int \<Rightarrow> autoStack \<Rightarrow> autoStack \<Rightarrow> autoStack" where
  "stack_executed env initial amount a x =
     x\<lparr>a_amount := (if initial then amount else a_amount x + amount),
       a_status := ASACTIVE,
       a_lastExecutedAt := Some (e_now env),
       a_nextExecutionAt := getNextExecutionAt (a_frequency a) (e_now env),
       a_nextInterestAt := getInterestDate (a_frequency a) (e_now env)\<rparr>"

definition autostack_wallet_tx :: "env \<Rightarrow> autoStack \<Rightarrow> string \<Rightarrow> meta \<Rightarrow> stackParams \<Rightarrow> unit dbm" where
  "autostack_wallet_tx env a txId m p =
     bindM (getM (crypto_by_symbol ''USDT'')) (\<lambda>c.
     bindM (someM c (PlainError ''USDT currency not found'')) (\<lambda>usdt.
     bindM (getM (usdt_wallet (a_userId a) (c_id usdt))) (\<lambda>r.
     bindM (someM r (PlainError (''USDT wallet not found for autostack '' @ a_id a))) (\<lambda>w.
     let deduction = sp_source p + sp_fee p in
     bindM (sqlWallets (\<lambda>x. w_id x = w_id w) (w_stack deduction (sp_source p))) (\<lambda>rows.
     thenM (requireM (rows \<noteq> 0) (PlainError ''Insufficient USDT balance for autostack''))
     (thenM (refreshOriginalBalance env (w_id w) ''USDT'')
     (thenM (updLiquidity (\<lambda>l. ieq (l_currency l) ''USDT'')
        (\<lambda>l. l\<lparr>l_totalAmountStacked := l_totalAmountStacked l + sp_source p\<rparr>))
     (thenM (updAutoStacks (\<lambda>x. a_id x = a_id a)
        (stack_executed env (a_status a = ASPENDING) (sp_source p) a))
     (bindM (shown_db env (sp_fee p) ''USDT'') (\<lambda>shownFee.
      bindM (shown_db env deduction ''USDT'') (\<lambda>shownTotal.
      bindM (shown_db env (sp_source p) ''USDT'') (\<lambda>shownSource.
        updTransactions (\<lambda>t. t_id t = txId) (\<lambda>t. t\<lparr>
          t_status := TxCOMPLETED, t_isProcessed := True, t_executedAt := Some (e_now env),
          t_platformFeeBase := Some (sp_fee p), t_platformFeeOriginal := Some shownFee,
          t_totalAmountSentBase := Some deduction, t_totalAmountSentOriginal := Some shownTotal,
          t_meta := mset_all
            [(''actualReceivedAmountBase'', show_int (sp_source p)),
             (''actualReceivedAmountOriginal'', shownSource),
             (''principalUsdtAmountBase'', show_int (sp_source p)),
             (''principalUsdtAmount'', shownSource),
             (''sourceFeeAmountBase'', show_int (sp_fee p)),
             (''totalSourceWalletDeductionBase'', show_int deduction),
             (''autostackInitiationStatus'', ''COMPLETED''),
             (''autostackSettlement'', ''wallet_completed'')] m\<rparr>)))))))))))))"

text \<open>The swap of another asset into USDT; its end is a webhook.\<close>

definition ARROW :: string where
  "ARROW = [CHR 0xE2, CHR 0x86, CHR 0x92]"

definition autostack_swap_tx :: "env \<Rightarrow> autoStack \<Rightarrow> transaction \<Rightarrow> stackParams \<Rightarrow> string \<Rightarrow> string \<Rightarrow> unit dbm" where
  "autostack_swap_tx env a t p quotationId swapId =
     bindM (getM (transaction_by_id (t_id t))) (\<lambda>fresh.
     bindM (freshM env) (\<lambda>i.
     thenM (createSwap \<lparr>sw_id = i, sw_userId = a_userId a, sw_quidaxAccountId = QUIDAX_COMPANY_USERID,
         sw_fromCurrency = sp_sourceAsset p, sw_toCurrency = ''USDT'', sw_amountOriginal = sp_sourceOriginal p,
         sw_quotedPriceOriginal = None, sw_feeOriginal = None,
     sw_toAmountOriginal = None, sw_receivedAmountOriginal = None, sw_quoteId = Some (t_uniqueId t),
         sw_swapId = Some swapId, sw_status = ''PENDING'', sw_confirmed = False, sw_executionPriceOriginal = None,
         sw_description = Some (''Autostack swap '' @ sp_sourceAsset p @ '' '' @ ARROW @ '' USDT'')\<rparr>)
       (updTransactions (\<lambda>x. t_id x = t_id t) (\<lambda>x. x\<lparr>t_meta := mset_all
          [(''autostackInitiationStatus'', ''SUBMITTED''), (''autostackSwapQuotationId'', quotationId),
           (''autostackSwapId'', swapId)] (case fresh of None \<Rightarrow> [] | Some f \<Rightarrow> t_meta f)\<rparr>))))"

definition autostack_swap :: "env \<Rightarrow> stackAnswers \<Rightarrow> autoStack \<Rightarrow> transaction \<Rightarrow> stackParams \<Rightarrow> unit sysm" where
  "autostack_swap env sa a t p =
     thenM (callM (CallSwapRequest (to_lower (sp_sourceAsset p)) ''usdt'' (sp_sourceOriginal p)))
     (bindM (liftM (sa_quotation sa)) (\<lambda>q.
      bindM (someM (truthy q) (PlainError ''Unable to create autostack swap quotation'')) (\<lambda>quotationId.
      thenM (callM (CallSwapConfirm quotationId))
      (bindM (liftM (sa_confirmed sa)) (\<lambda>c.
        txM env ''autostack_swap''
          (autostack_swap_tx env a t p quotationId (case truthy c of None \<Rightarrow> quotationId | Some i \<Rightarrow> i)))))))"

text \<open>The card: NGN liquidity is reserved for the amount, then the card is charged for amount and fee; a webhook goes on.\<close>

record cardTerms =
  ct_liquidity :: int
  ct_charge :: int
  ct_chargeOriginal :: string
  ct_rate :: string
  ct_totalUsdt :: string

definition card_terms :: "env \<Rightarrow> stackOps \<Rightarrow> string \<Rightarrow> stackParams \<Rightarrow> error + cardTerms" where
  "card_terms env ops rate p =
     (case fromBase (e_cv env) (ABigInt (sp_fee p)) ''USDT'' None of
        Inl e \<Rightarrow> Inl e
      | Inr feeUsdt \<Rightarrow>
     (let totalUsdt = do_plus ops (sp_principalOriginal p) feeUsdt in
      case toNgnBase env ops (do_mul ops (sp_principalOriginal p) rate) of
        Inl e \<Rightarrow> Inl e
      | Inr liquidity \<Rightarrow>
     (case toNgnBase env ops (do_mul ops totalUsdt rate) of
        Inl e \<Rightarrow> Inl e
      | Inr charge \<Rightarrow>
     (case fromBase (e_cv env) (ABigInt charge) ''NGN'' None of
        Inl e \<Rightarrow> Inl e
      | Inr original \<Rightarrow> Inr \<lparr>ct_liquidity = liquidity, ct_charge = charge, ct_chargeOriginal = original,
          ct_rate = rate, ct_totalUsdt = totalUsdt\<rparr>))))"

definition card_meta :: "cardTerms \<Rightarrow> meta" where
  "card_meta ct = [(''targetAsset'', ''USDT''), (''autostackFlow'', ''PAYSTACK_CARD_TO_BUY_ORDER'')]
     @ reserved_meta ''NGN'' (ct_liquidity ct) @
     [(''chargedAmountBase'', show_int (ct_charge ct)), (''usdtNgnRate'', ct_rate ct),
      (''totalUsdtCharge'', ct_totalUsdt ct)]"

definition autostack_card_tx :: "string \<Rightarrow> meta \<Rightarrow> stackParams \<Rightarrow> cardTerms \<Rightarrow> unit dbm" where
  "autostack_card_tx txId m p ct =
     thenM (whenM (\<not> already_reserved m ''NGN'' (ct_liquidity ct))
       (bindM (reserveLiquidity ''NGN'' (ct_liquidity ct)) (\<lambda>reserved.
         requireM reserved (PlainError ''Insufficient company NGN liquidity for autostack card charge''))))
     (updTransactions (\<lambda>t. t_id t = txId) (\<lambda>t. t\<lparr>
        t_currency := ''USDT'', t_cryptoAmountBase := Some (sp_principal p),
        t_cryptoAmountOriginal := Some (sp_principalOriginal p), t_fiatAmountBase := ct_charge ct,
        t_fiatAmountOriginal := Some (ct_chargeOriginal ct),
        t_meta := mset_all ((''paymentType'', ''CARD'') # (''sourceAsset'', sp_sourceAsset p) # card_meta ct) m\<rparr>))"

definition autostack_card ::
    "env \<Rightarrow> stackOps \<Rightarrow> stackAnswers \<Rightarrow> transaction \<Rightarrow> meta \<Rightarrow> stackParams \<Rightarrow> unit sysm" where
  "autostack_card env ops sa t m p =
     thenM (requireM (mget m ''paymentCardId'' \<noteq> []) (PlainError ''Payment card is required for card autostack''))
     (bindM (someM (truthy (sa_price sa ''usdtngn'')) (PlainError ''Unable to fetch USDT/NGN rate for autostack'')) (\<lambda>rate.
      bindM (liftM (card_terms env ops rate p)) (\<lambda>ct.
      thenM (txM env ''autostack_card'' (autostack_card_tx (t_id t) m p ct))
      (thenM (callM (CallChargeCard (mget m ''paymentCardId'') (t_uniqueId t) (ct_charge ct)))
      (thenM (liftM (sa_charge sa))
        (dbM (updTransactions (\<lambda>x. t_id x = t_id t) (\<lambda>x. x\<lparr>t_meta := mset_all
          ((''paymentType'', ''CARD'') # (''sourceAsset'', ''USDT'') # (''autostackInitiationStatus'', ''SUBMITTED'')
            # card_meta ct) m\<rparr>))))))))"

text \<open>The \<^verbatim>\<open>catch\<close> block: reservations recorded in the metadata are given back, the error goes on.\<close>

definition quietly :: "unit dbm \<Rightarrow> unit dbm" where
  "quietly m = catchM m (\<lambda>_. returnM ())"

definition autostack_fail_tx :: "env \<Rightarrow> string \<Rightarrow> string \<Rightarrow> stackParams \<Rightarrow> error \<Rightarrow> unit dbm" where
  "autostack_fail_tx env userId txId p err =
     bindM (getM (transaction_by_id txId)) (\<lambda>failed.
     let fm = (case failed of None \<Rightarrow> [] | Some t \<Rightarrow> t_meta t);
         reserved = (mget fm ''liquidityReservationStatus'' = ''reserved'')
     in thenM (whenM (reserved \<and> mget fm ''liquidityReservationAmount'' \<noteq> [] \<and> mget fm ''liquidityReservationCurrency'' \<noteq> [])
          (bindM (liftM (parse_bigint (mget fm ''liquidityReservationAmount''))) (\<lambda>amount.
             quietly (releaseLiquidity (mget fm ''liquidityReservationCurrency'') amount))))
        (thenM (whenM (sp_wallet p \<and> reserved) (quietly (releaseBalance userId (sp_sourceAsset p) (sp_total p) None)))
          (updTransactions (\<lambda>t. t_id t = txId) (\<lambda>t. t\<lparr>t_meta := mset_all
            [(''autostackInitiationStatus'', ''FAILED''),
             (''autostackInitiationFailedAt'', toISOString (e_now env)),
             (''autostackInitiationFailure'', orelse (err_msg err) ''Autostack initiation failed''),
             (''liquidityReservationStatus'',
                if reserved then ''released'' else mget fm ''liquidityReservationStatus'')] fm\<rparr>))))"

definition autostack_execute ::
    "env \<Rightarrow> stackOps \<Rightarrow> stackAnswers \<Rightarrow> autoStack \<Rightarrow> transaction \<Rightarrow> meta \<Rightarrow> stackParams \<Rightarrow> unit sysm" where
  "autostack_execute env ops sa a t m p =
     (if sp_wallet p then
        (if sp_sourceAsset p = ''USDT'' then txM env ''autostack_wallet'' (autostack_wallet_tx env a (t_id t) m p)
         else thenM (txM env ''autostack_reserve'' (autostack_reserve_tx env (a_userId a) (t_id t) m p))
           (autostack_swap env sa a t p))
      else autostack_card env ops sa t m p)"

definition initiatePendingAutoStack ::
    "env \<Rightarrow> stackOps \<Rightarrow> stackAnswers \<Rightarrow> autoStack \<Rightarrow> transaction \<Rightarrow> unit sysm" where
  "initiatePendingAutoStack env ops sa a t =
     bindM (txM env ''autostack_claim'' (autostack_claim env (t_id t) (t_meta t))) (\<lambda>claim.
       case claim of
         None \<Rightarrow> returnM ()
       | Some m \<Rightarrow>
           bindM (liftM (stack_params env a t m)) (\<lambda>p.
             catchM (autostack_execute env ops sa a t m p)
               (\<lambda>err. thenM (txM env ''autostack_fail'' (autostack_fail_tx env (a_userId a) (t_id t) p err))
                  (throwM err))))"


section \<open>Which transaction an execution is\<close>

definition config_of :: "string \<Rightarrow> string \<Rightarrow> db \<Rightarrow> transaction option" where
  "config_of userId stackId d =
     List.find (\<lambda>t. t_userId t = userId \<and> t_description t = Some (''autostack_config:'' @ stackId)) (rev (d_transactions d))"

definition execution_reference :: "autoStack \<Rightarrow> string" where
  "execution_reference a = ''autostack-charge-'' @ a_id a @ ''-'' @ toISOString (a_nextExecutionAt a)"

record executionTerms =
  xt_wallet :: bool
  xt_asset :: string
  xt_principal :: int
  xt_principalOriginal :: string
  xt_source :: int
  xt_sourceOriginal :: string

text \<open>The amount of a periodic execution: another asset is priced again.\<close>

definition execution_terms :: "env \<Rightarrow> stackOps \<Rightarrow> stackAnswers \<Rightarrow> autoStack \<Rightarrow> transaction \<Rightarrow> error + executionTerms" where
  "execution_terms env ops sa a t =
     (let m = t_meta t;
          fromWallet = (mget m ''paymentType'' = ''CRYPTO_WALLET'');
          asset = to_upper (if fromWallet then orelse (orelse (mget m ''sourceAsset'') (t_currency t)) ''USDT'' else ''USDT'')
      in case parse_bigint (orelse (mget m ''principalUsdtAmountBase'')
             (case t_cryptoAmountBase t of Some b \<Rightarrow> show_int b | None \<Rightarrow> show_int (a_amount a))) of
           Inl e \<Rightarrow> Inl e
         | Inr princ \<Rightarrow>
      (let known = orelse (mget m ''principalUsdtAmount'') (opt_str (t_cryptoAmountOriginal t)) in
       case (if known \<noteq> [] then Inr known else fromBase (e_cv env) (ABigInt princ) ''USDT'' None) of
           Inl e \<Rightarrow> Inl e
         | Inr original \<Rightarrow>
             (if fromWallet \<and> asset \<noteq> ''USDT'' then
                (case truthy (sa_price sa (to_lower asset @ ''usdt'')) of
                   None \<Rightarrow> Inl (PlainError (''Unable to fetch '' @ asset @ ''/USDT rate for autostack''))
                 | Some rate \<Rightarrow>
                     (case toBase (e_cv env) (do_div ops original rate) asset None of
                        Inl e \<Rightarrow> Inl e
                      | Inr base \<Rightarrow> Inr \<lparr>xt_wallet = fromWallet, xt_asset = asset, xt_principal = princ,
                          xt_principalOriginal = original, xt_source = base, xt_sourceOriginal = do_div ops original rate\<rparr>))
              else Inr \<lparr>xt_wallet = fromWallet, xt_asset = asset, xt_principal = princ,
                 xt_principalOriginal = original, xt_source = princ, xt_sourceOriginal = original\<rparr>)))"

definition execution_row :: "string \<Rightarrow> autoStack \<Rightarrow> transaction \<Rightarrow> executionTerms \<Rightarrow> transaction" where
  "execution_row i a t x =
     (let currency = (if xt_wallet x then xt_asset x else ''USDT'');
          base = (if xt_wallet x then xt_source x else xt_principal x);
          original = (if xt_wallet x then xt_sourceOriginal x else xt_principalOriginal x)
      in (new_transaction i (a_userId a) (execution_reference a) currency DEBIT CtxAUTOSTACK)\<lparr>
           t_receiverWalletAddress := t_receiverWalletAddress t,
           t_cryptoAmountBase := Some base, t_cryptoAmountOriginal := Some original,
           t_totalAmountSentBase := Some base, t_totalAmountSentOriginal := Some original,
           t_fiatAmountOriginal := Some ''0'',
           t_paymentType := Some (if xt_wallet x then CRYPTO_WALLET else CARD),
           t_meta := mset_all
             [(''autoStackId'', a_id a),
              (''paymentType'', if xt_wallet x then ''CRYPTO_WALLET'' else ''CARD''),
              (''sourceAsset'', to_upper (orelse (orelse (mget (t_meta t) ''sourceAsset'') (t_currency t)) ''USDT'')),
              (''targetAsset'', ''USDT''),
              (''principalUsdtAmount'', xt_principalOriginal x),
              (''principalUsdtAmountBase'', show_int (xt_principal x)),
              (''sourceAmount'', xt_sourceOriginal x),
              (''sourceAmountBase'', show_int (xt_source x)),
              (''autostackInitiationStatus'', ''PENDING''),
              (''autostackExecutionType'', ''PERIODIC''),
              (''scheduledFor'', toISOString (a_nextExecutionAt a))] (t_meta t),
           t_description := Some (''autostack_charge:'' @ a_id a)\<rparr>)"

definition getOrCreateAutoStackExecutionTransaction ::
    "env \<Rightarrow> stackOps \<Rightarrow> stackAnswers \<Rightarrow> autoStack \<Rightarrow> transaction \<Rightarrow> transaction option sysm" where
  "getOrCreateAutoStackExecutionTransaction env ops sa a t =
     bindM (getM (\<lambda>s. transaction_by_uniqueId (execution_reference a) (s_db s))) (\<lambda>existing.
       case existing of
         Some x \<Rightarrow> returnM (Some x)
       | None \<Rightarrow>
           bindM (liftM (execution_terms env ops sa a t)) (\<lambda>x.
             catchM (dbM (bindM (freshM env) (\<lambda>i. thenM (insertTransaction (execution_row i a t x))
                 (returnM (Some (execution_row i a t x))))))
               (\<lambda>err. if err = PrismaError ''P2002''
                  then getM (\<lambda>s. transaction_by_uniqueId (execution_reference a) (s_db s))
                  else throwM err)))"

definition stack_by_id :: "string \<Rightarrow> db \<Rightarrow> autoStack option" where
  "stack_by_id i d = List.find (\<lambda>a. a_id a = i) (d_autoStacks d)"

definition initiateAutoStack :: "env \<Rightarrow> stackOps \<Rightarrow> stackAnswers \<Rightarrow> string \<Rightarrow> bool \<Rightarrow> unit sysm" where
  "initiateAutoStack env ops sa autoStackId force =
     bindM (getM (\<lambda>s. stack_by_id autoStackId (s_db s))) (\<lambda>r.
       case r of
         None \<Rightarrow> returnM ()
       | Some a \<Rightarrow>
           if a_status a \<noteq> ASPENDING \<and> a_status a \<noteq> ASACTIVE then returnM ()
           else if \<not> force \<and> \<not> isExecutionDue (a_nextExecutionAt a) (e_now env) False then returnM ()
           else bindM (getM (\<lambda>s. config_of (a_userId a) (a_id a) (s_db s))) (\<lambda>c.
             case c of
               None \<Rightarrow> returnM ()
             | Some t \<Rightarrow>
                 bindM (if a_status a = ASPENDING then returnM (Some t)
                        else getOrCreateAutoStackExecutionTransaction env ops sa a t) (\<lambda>x.
                   case x of
                     None \<Rightarrow> returnM ()
                   | Some y \<Rightarrow> initiatePendingAutoStack env ops sa a y)))"

section \<open>Confirmation\<close>

definition check_stack_pin :: "(string \<Rightarrow> bool) \<Rightarrow> string \<Rightarrow> unit sysm" where
  "check_stack_pin pinOk userId =
     bindM (getM (\<lambda>s. user_by_id userId (s_db s))) (\<lambda>u.
       case (case u of None \<Rightarrow> None | Some x \<Rightarrow> truthy (u_pin x)) of
         None \<Rightarrow> throwM (BadRequest ''Invalid pin'')
       | Some pin \<Rightarrow> requireM (pinOk pin) (BadRequest ''Invalid pin''))"

record stackOrder =
  so_wallet :: bool
  so_walletAddress :: "string option"
  so_asset :: string
  so_source :: int
  so_sourceOriginal :: string
  so_principal :: int
  so_principalOriginal :: string
  so_fee :: int

text \<open>The source wallet and the amount in its asset.\<close>

definition source_amount :: "env \<Rightarrow> stackOps \<Rightarrow> string \<Rightarrow> string \<Rightarrow> wallet \<Rightarrow> error + int" where
  "source_amount env ops asset original w =
     (if asset = ''USDT'' \<and> truthy (w_defaultNetwork w) = None then toUsdtBase env ops original
      else toBase (e_cv env) original asset None)"

definition stack_order :: "env \<Rightarrow> stackOps \<Rightarrow> string \<Rightarrow> autoStackQuote \<Rightarrow> stackOrder sysm" where
  "stack_order env ops userId q =
     (let asset = to_upper (orelse (aq_asset q) ''USDT'');
          fromWallet = (aq_paymentType q = Some CRYPTO_WALLET)
      in bindM (someM (do_str ops (orelse (aq_amountInUsdt q) ''0'')) decimal_error) (\<lambda>princOriginal.
         bindM (liftM (toUsdtBase env ops (orelse (opt_str (aq_transactionFee q)) ''0''))) (\<lambda>cost.
         if fromWallet then
           thenM (requireM (aq_assetId q \<noteq> []) (BadRequest ''Quote asset is missing. Please request a new quote.''))
           (bindM (getM (\<lambda>s. wallet_by_currencyId userId (aq_assetId q) (s_db s))) (\<lambda>r.
            bindM (someM r (NotFound (asset @ '' wallet not found''))) (\<lambda>w.
            let original = orelse (aq_amount q) (aq_amountInUsdt q) in
            bindM (liftM (source_amount env ops asset original w)) (\<lambda>source.
              returnM \<lparr>so_wallet = True, so_walletAddress = Some (w_quidaxWalletId w), so_asset = asset,
                so_source = source, so_sourceOriginal = original, so_principal = aq_amountInUsdtBase q,
                so_principalOriginal = princOriginal, so_fee = cost\<rparr>))))
         else
           thenM (requireM (truthy (aq_paymentCardId q) \<noteq> None) (BadRequest ''Payment card is required for card autostack''))
             (returnM \<lparr>so_wallet = False, so_walletAddress = None, so_asset = ''USDT'',
                so_source = aq_amountInUsdtBase q, so_sourceOriginal = princOriginal,
                so_principal = aq_amountInUsdtBase q, so_principalOriginal = princOriginal, so_fee = cost\<rparr>))))"

definition new_stack :: "env \<Rightarrow> string \<Rightarrow> string \<Rightarrow> string \<Rightarrow> autoStackQuote \<Rightarrow> autoStackFrequency \<Rightarrow> stackOrder \<Rightarrow> autoStack" where
  "new_stack env i userId currencyId q freq order =
     (let start = (case aq_startDate q of None \<Rightarrow> e_now env | Some t \<Rightarrow> t) in
      \<lparr>a_id = i, a_userId = userId, a_currencyId = currencyId, a_planName = aq_planName q, a_frequency = freq,
       a_amount = so_principal order, a_startDate = start, a_timeOfDay = orelse (opt_str (aq_timeOfDay q)) ''00:00'',
       a_dayOfWeek = aq_dayOfWeek q, a_dayOfMonth = aq_dayOfMonth q, a_transactionFee = so_fee order,
       a_accruedInterest = 0, a_status = ASPENDING, a_lastExecutedAt = None, a_nextExecutionAt = start,
       a_nextInterestAt = start, a_endedAt = None\<rparr>)"

definition config_row :: "string \<Rightarrow> string \<Rightarrow> string \<Rightarrow> string \<Rightarrow> autoStackQuote \<Rightarrow> stackOrder \<Rightarrow> string \<Rightarrow> transaction" where
  "config_row i userId reference stackId q order shownFee =
     (new_transaction i userId reference (so_asset order) DEBIT CtxAUTOSTACK)\<lparr>
       t_receiverWalletAddress := so_walletAddress order,
       t_cryptoAmountBase := Some (so_source order), t_cryptoAmountOriginal := Some (so_sourceOriginal order),
       t_totalAmountSentBase := Some (so_source order), t_totalAmountSentOriginal := Some (so_sourceOriginal order),
       t_fiatAmountOriginal := Some ''0'',
       t_paymentType := Some (if so_wallet order then CRYPTO_WALLET else CARD),
       t_meta := [(''autoStackId'', stackId),
         (''paymentType'', if so_wallet order then ''CRYPTO_WALLET'' else ''CARD''),
         (''paymentCardId'', opt_str (aq_paymentCardId q)),
         (''sourceAsset'', so_asset order), (''targetAsset'', ''USDT''),
         (''principalUsdtAmount'', so_principalOriginal order),
         (''principalUsdtAmountBase'', show_int (so_principal order)),
         (''transactionFeeBase'', show_int (so_fee order)), (''transactionFee'', shownFee),
         (''sourceAmount'', so_sourceOriginal order), (''sourceAmountBase'', show_int (so_source order)),
         (''autostackInitiationStatus'', ''PENDING'')],
       t_description := Some (''autostack_config:'' @ stackId)\<rparr>"

definition createAutoStack :: "autoStack \<Rightarrow> unit dbm" where
  "createAutoStack a = modifyM (\<lambda>d. d\<lparr>d_autoStacks := d_autoStacks d @ [a]\<rparr>)"

definition autostack_confirm_tx ::
    "env \<Rightarrow> string \<Rightarrow> string \<Rightarrow> string \<Rightarrow> autoStackQuote \<Rightarrow> autoStackFrequency \<Rightarrow> stackOrder \<Rightarrow> autoStack dbm" where
  "autostack_confirm_tx env userId currencyId reference q freq order =
     bindM (freshM env) (\<lambda>i.
     let a = new_stack env i userId currencyId q freq order in
     thenM (createAutoStack a)
     (bindM (freshM env) (\<lambda>ti.
      bindM (shown_db env (so_fee order) ''USDT'') (\<lambda>shownFee.
      thenM (insertTransaction (config_row ti userId reference i q order shownFee)) (returnM a)))))"

text \<open>A plan that starts today is executed at once, any other is queued.\<close>

definition autostack_confirm ::
    "env \<Rightarrow> stackOps \<Rightarrow> stackAnswers \<Rightarrow> (string \<Rightarrow> bool) \<Rightarrow> string \<Rightarrow> string \<Rightarrow> string \<Rightarrow> autoStackView sysm" where
  "autostack_confirm env ops sa pinOk userId quoteId uuid =
     thenM (check_stack_pin pinOk userId)
     (bindM (autostack_quote_at env quoteId) (\<lambda>q.
      bindM (getM (\<lambda>s. crypto_by_symbol ''USDT'' (s_db s))) (\<lambda>c.
      bindM (someM c (NotFound ''USDT currency not found'')) (\<lambda>usdt.
      bindM (stack_order env ops userId q) (\<lambda>order.
      bindM (someM (aq_frequency q) (PlainError ''PrismaClientValidationError'')) (\<lambda>freq.
      bindM (txM env ''autostack_confirm''
        (autostack_confirm_tx env userId (c_id usdt) (''autostack-confirm-'' @ uuid) q freq order)) (\<lambda>a.
      thenM (if isExecutionDue (a_nextExecutionAt a) (e_now env) True
             then initiateAutoStack env ops sa (a_id a) True
             else callM (CallQueueCharge (a_id a) (max (a_nextExecutionAt a - e_now env) 0)))
        (formatAutoStackRecord env ops a None None))))))))"

section \<open>Cancellation and unlock\<close>

definition in_progress :: "meta \<Rightarrow> bool" where
  "in_progress m \<longleftrightarrow> to_upper (mget m ''autostackInitiationStatus'') \<in> set [''PROCESSING'', ''SUBMITTED'', ''COMPLETED'']
     \<or> mget m ''quidaxOrderId'' \<noteq> [] \<or> mget m ''quidaxOrderReference'' \<noteq> []
     \<or> mget m ''autostackBuyOrderSubmittedAt'' \<noteq> []"

definition is_reserved :: "meta \<Rightarrow> bool" where
  "is_reserved m \<longleftrightarrow> mget m ''liquidityReservationStatus'' = ''reserved''"

definition cancelled_meta :: "env \<Rightarrow> meta \<Rightarrow> meta" where
  "cancelled_meta env m =
     mset_all ((if is_reserved m
        then [(''liquidityReservationStatus'', ''released''), (''liquidityReleasedAt'', toISOString (e_now env)),
              (''liquidityReleaseReason'', ''autostack_cancelled'')] else []) @
       [(''autostackInitiationStatus'', ''CANCELLED'')]) m"

definition autostack_cancel_tx :: "env \<Rightarrow> string \<Rightarrow> autoStack \<Rightarrow> transaction option \<Rightarrow> unit dbm" where
  "autostack_cancel_tx env userId a config =
     (let m = (case config of None \<Rightarrow> [] | Some t \<Rightarrow> t_meta t) in
      thenM (whenM (is_reserved m \<and> mget m ''liquidityReservationCurrency'' \<noteq> [] \<and> mget m ''liquidityReservationAmount'' \<noteq> [])
        (bindM (liftM (parse_bigint (mget m ''liquidityReservationAmount''))) (\<lambda>amount.
           releaseLiquidity (mget m ''liquidityReservationCurrency'') amount)))
      (thenM (whenM (mget m ''paymentType'' = ''CRYPTO_WALLET'' \<and> is_reserved m \<and> mget m ''sourceAsset'' \<noteq> []
            \<and> mget m ''sourceAmountBase'' \<noteq> [])
        (bindM (liftM (parse_bigint (mget m ''sourceAmountBase''))) (\<lambda>amount.
           releaseBalance userId (mget m ''sourceAsset'') amount None)))
      (thenM (case config of
          None \<Rightarrow> returnM ()
        | Some t \<Rightarrow> updTransactions (\<lambda>x. t_id x = t_id t) (\<lambda>x. x\<lparr>t_meta := cancelled_meta env m\<rparr>))
      (updAutoStacks (\<lambda>x. a_id x = a_id a) (\<lambda>x. x\<lparr>a_status := ASENDED, a_endedAt := Some (e_now env)\<rparr>)))))"

text \<open>What the provider answers about the swap and the order in flight, and to their cancellation.\<close>

record cancelAnswers =
  ca_swapStatus :: "error + string option"
  ca_swapCancel :: "error + unit"
  ca_orderState :: "error + string option"
  ca_orderCancel :: "error + unit"

definition ended_state :: "string option \<Rightarrow> bool" where
  "ended_state s \<longleftrightarrow> to_lower (opt_str s) \<in> set [''completed'', ''done'']"

definition autostack_cancel :: "env \<Rightarrow> cancelAnswers \<Rightarrow> string \<Rightarrow> string \<Rightarrow> unit sysm" where
  "autostack_cancel env ca userId autoStackId =
     bindM (getM (\<lambda>s. List.find (\<lambda>a. a_id a = autoStackId \<and> a_userId a = userId \<and> a_status a = ASPENDING)
        (d_autoStacks (s_db s)))) (\<lambda>r.
     bindM (someM r (NotFound ''Pending autostack not found'')) (\<lambda>a.
     bindM (getM (\<lambda>s. config_of userId (a_id a) (s_db s))) (\<lambda>config.
     let m = (case config of None \<Rightarrow> [] | Some t \<Rightarrow> t_meta t) in
     thenM (requireM (\<not> (mget m ''paymentType'' \<noteq> ''CRYPTO_WALLET'' \<and> in_progress m))
       (BadRequest ''Autostack card payment is already in progress and cannot be cancelled''))
     (thenM (whenM (mget m ''autostackSwapId'' \<noteq> [])
        (bindM (liftM (ca_swapStatus ca)) (\<lambda>status.
         thenM (requireM (\<not> ended_state status)
           (BadRequest ''Autostack swap already processed and cannot be cancelled''))
         (thenM (callM (CallSwapCancel (mget m ''autostackSwapId''))) (liftM (ca_swapCancel ca))))))
     (thenM (whenM (mget m ''quidaxOrderId'' \<noteq> [])
        (bindM (liftM (ca_orderState ca)) (\<lambda>status.
         thenM (requireM (\<not> ended_state status)
           (BadRequest ''Autostack order already processed and cannot be cancelled''))
         (thenM (callM (CallOrderCancel (mget m ''quidaxOrderId''))) (liftM (ca_orderCancel ca))))))
     (txM env ''autostack_cancel'' (autostack_cancel_tx env userId a config)))))))"

definition stack_penalty :: "bool \<Rightarrow> int \<Rightarrow> int" where
  "stack_penalty early princ = (if early then bigdiv (princ * 5) 100 else 0)"

definition stack_payout :: "bool \<Rightarrow> autoStack \<Rightarrow> int" where
  "stack_payout early a =
     (if early then a_amount a - stack_penalty early (a_amount a) else a_amount a + a_accruedInterest a)"

definition w_unstack :: "int \<Rightarrow> int \<Rightarrow> int \<Rightarrow> wallet \<Rightarrow> wallet" where
  "w_unstack payout princ accrued w = w\<lparr>w_baseBalance := w_baseBalance w + payout,
     w_stackedAmount := max (w_stackedAmount w - princ) 0,
     w_totalStackedInterest := max (w_totalStackedInterest w - accrued) 0\<rparr>"

definition l_unstack :: "int \<Rightarrow> int \<Rightarrow> int \<Rightarrow> liquidity \<Rightarrow> liquidity" where
  "l_unstack princ accrued paid l = l\<lparr>l_totalAmountStacked := max (l_totalAmountStacked l - princ) 0,
     l_totalAccruedLockedInterest := max (l_totalAccruedLockedInterest l - accrued) 0,
     l_totalLockedInterestPaid := l_totalLockedInterestPaid l + paid\<rparr>"

definition autostack_unlock_tx :: "env \<Rightarrow> string \<Rightarrow> autoStack \<Rightarrow> bool \<Rightarrow> unit dbm" where
  "autostack_unlock_tx env userId a early =
     bindM (getM (crypto_by_symbol ''USDT'')) (\<lambda>c.
     bindM (someM c (NotFound ''USDT currency not found'')) (\<lambda>usdt.
     bindM (getM (usdt_wallet userId (c_id usdt))) (\<lambda>r.
     bindM (someM r (NotFound ''USDT wallet not found'')) (\<lambda>w.
     thenM (updWallets (\<lambda>x. w_id x = w_id w) (w_unstack (stack_payout early a) (a_amount a) (a_accruedInterest a)))
     (thenM (refreshOriginalBalance env (w_id w) ''USDT'')
     (thenM (updAutoStacks (\<lambda>x. a_id x = a_id a) (\<lambda>x. x\<lparr>a_status := ASENDED, a_endedAt := Some (e_now env)\<rparr>))
     (updLiquidity (\<lambda>l. ieq (l_currency l) ''USDT'')
       (l_unstack (a_amount a) (a_accruedInterest a) (if early then 0 else a_accruedInterest a)))))))))"

definition autostack_unlock :: "env \<Rightarrow> (string \<Rightarrow> bool) \<Rightarrow> string \<Rightarrow> string \<Rightarrow> string option \<Rightarrow> bool sysm" where
  "autostack_unlock env pinOk userId autoStackId pin =
     bindM (getM (\<lambda>s. List.find (\<lambda>a. a_id a = autoStackId \<and> a_userId a = userId \<and> a_status a = ASACTIVE)
        (d_autoStacks (s_db s)))) (\<lambda>r.
     bindM (someM r (NotFound ''Active autostack not found'')) (\<lambda>a.
     thenM (requireM (truthy pin \<noteq> None) (BadRequest ''PIN is required''))
     (thenM (check_stack_pin pinOk userId)
     (let early = (e_now env < a_nextInterestAt a) in
      thenM (txM env ''autostack_unlock'' (autostack_unlock_tx env userId a early)) (returnM early)))))"


section \<open>Listings\<close>

definition wallet_network :: "string \<Rightarrow> string \<Rightarrow> db \<Rightarrow> string option" where
  "wallet_network userId currencyId d =
     (case List.find (\<lambda>w. w_userId w = userId \<and> w_currencyId w = Some currencyId) (rev (d_wallets d)) of
        None \<Rightarrow> None | Some w \<Rightarrow> w_defaultNetwork w)"

definition listed_stacks :: "string \<Rightarrow> autoStackStatus list \<Rightarrow> db \<Rightarrow> autoStack list" where
  "listed_stacks userId statuses d =
     rev (filter (\<lambda>a. a_userId a = userId \<and> (statuses = [] \<or> a_status a \<in> set statuses)) (d_autoStacks d))"

text \<open>A plan with its amount and interest in USDT and in NGN.\<close>

record stackItem =
  si_view :: autoStackView
  si_amountNgn :: string
  si_interestNgn :: string

definition stack_worth ::
    "env \<Rightarrow> stackOps \<Rightarrow> (string \<Rightarrow> string option) \<Rightarrow> string \<Rightarrow> autoStack \<Rightarrow> (string \<times> string option \<times> string \<times> string) sysm" where
  "stack_worth env ops price userId a =
     bindM (getM (\<lambda>s. crypto_by_id (a_currencyId a) (s_db s))) (\<lambda>c.
     bindM (someM c (PlainError ''TypeError: Cannot read properties of null'')) (\<lambda>crypto.
     let symbol = to_upper (c_symbol crypto) in
     bindM (someM (do_str ops (ngn_rate price symbol)) decimal_error) (\<lambda>rate.
     bindM (getM (\<lambda>s. wallet_network userId (a_currencyId a) (s_db s))) (\<lambda>network.
     bindM (liftM (fromAutoStackAmountBase env ops (a_amount a) symbol network)) (\<lambda>amount.
     bindM (liftM (fromAutoStackAmountBase env ops (a_accruedInterest a) symbol network)) (\<lambda>interest.
       returnM (symbol, network, do_mul ops amount rate, do_mul ops interest rate)))))))"

fun stack_items ::
    "env \<Rightarrow> stackOps \<Rightarrow> (string \<Rightarrow> string option) \<Rightarrow> string \<Rightarrow> autoStack list \<Rightarrow> string \<times> string \<Rightarrow> (stackItem list \<times> string \<times> string) sysm" where
  "stack_items env ops price userId [] totals = returnM ([], totals)"
| "stack_items env ops price userId (a # as) totals =
     bindM (stack_worth env ops price userId a) (\<lambda>(symbol, network, amountNgn, interestNgn).
     bindM (formatAutoStackRecord env ops a (Some symbol) network) (\<lambda>view.
     bindM (stack_items env ops price userId as
        (do_plus ops (fst totals) amountNgn, do_plus ops (snd totals) interestNgn)) (\<lambda>(items, ts).
       returnM (\<lparr>si_view = view, si_amountNgn = do_fixed2 ops amountNgn, si_interestNgn = do_fixed2 ops interestNgn\<rparr> # items, ts))))"

record stacksPage =
  sk_items :: "stackItem list"
  sk_totalAmountNgn :: string
  sk_totalInterestNgn :: string
  sk_page :: int
  sk_limit :: int
  sk_total :: nat
  sk_totalPages :: int

definition getAutoStacksByStatus ::
    "env \<Rightarrow> stackOps \<Rightarrow> (string \<Rightarrow> string option) \<Rightarrow> string \<Rightarrow> int \<Rightarrow> int \<Rightarrow> autoStackStatus list \<Rightarrow> stacksPage sysm" where
  "getAutoStacksByStatus env ops price userId page limit statuses =
     bindM (getM (\<lambda>s. listed_stacks userId statuses (s_db s))) (\<lambda>rows.
     bindM (stack_items env ops price userId (page_of page limit rows) (''0'', ''0'')) (\<lambda>(items, amount, interest).
       returnM \<lparr>sk_items = items, sk_totalAmountNgn = do_fixed2 ops amount,
         sk_totalInterestNgn = do_fixed2 ops interest, sk_page = page_number page, sk_limit = page_limit limit,
         sk_total = length rows, sk_totalPages = page_count limit (length rows)\<rparr>))"

definition getHistory ::
    "env \<Rightarrow> stackOps \<Rightarrow> (string \<Rightarrow> string option) \<Rightarrow> string \<Rightarrow> int \<Rightarrow> int \<Rightarrow> stacksPage sysm" where
  "getHistory env ops price userId page limit = getAutoStacksByStatus env ops price userId page limit []"

definition getActiveAutoStacks ::
    "env \<Rightarrow> stackOps \<Rightarrow> (string \<Rightarrow> string option) \<Rightarrow> string \<Rightarrow> int \<Rightarrow> int \<Rightarrow> stacksPage sysm" where
  "getActiveAutoStacks env ops price userId page limit =
     getAutoStacksByStatus env ops price userId page limit [ASACTIVE]"

fun stack_totals ::
    "env \<Rightarrow> stackOps \<Rightarrow> (string \<Rightarrow> string option) \<Rightarrow> string \<Rightarrow> autoStack list \<Rightarrow> string \<times> string \<Rightarrow> (string \<times> string) sysm" where
  "stack_totals env ops price userId [] totals = returnM totals"
| "stack_totals env ops price userId (a # as) totals =
     bindM (stack_worth env ops price userId a) (\<lambda>(symbol, network, amountNgn, interestNgn).
       stack_totals env ops price userId as
         (do_plus ops (fst totals) amountNgn, do_plus ops (snd totals) interestNgn))"

definition autostack_overview ::
    "env \<Rightarrow> stackOps \<Rightarrow> (string \<Rightarrow> string option) \<Rightarrow> string \<Rightarrow> (string \<times> string) sysm" where
  "autostack_overview env ops price userId =
     bindM (getM (\<lambda>s. filter (\<lambda>a. a_userId a = userId \<and> a_status a = ASACTIVE) (d_autoStacks (s_db s)))) (\<lambda>rows.
     bindM (stack_totals env ops price userId rows (''0'', ''0'')) (\<lambda>(amount, interest).
       returnM (do_fixed2 ops amount, do_fixed2 ops interest)))"


section \<open>A transaction is executed once\<close>

definition submitted :: "meta \<Rightarrow> bool" where
  "submitted m \<longleftrightarrow> to_upper (mget m ''autostackInitiationStatus'') \<in> {''SUBMITTED'', ''COMPLETED''}"

text \<open>The transaction with this id is there; and its execution has been submitted or completed.\<close>

definition tx_there :: "string \<Rightarrow> db \<Rightarrow> bool" where
  "tx_there i d \<longleftrightarrow> transaction_by_id i d \<noteq> None"

definition tx_done :: "string \<Rightarrow> db \<Rightarrow> bool" where
  "tx_done i d \<longleftrightarrow> (case transaction_by_id i d of None \<Rightarrow> False | Some t \<Rightarrow> submitted (t_meta t))"

lemma mget_Nil [simp]: "mget [] k = []"
  by (simp add: mget_def)

lemma mget_mset_all [simp]: "mget (mset_all ((k, v) # kvs) m) k' = (if k = k' then v else mget (mset_all kvs m) k')"
  by (simp add: mget_def mset_all_def)

lemma mget_mset_all_Nil [simp]: "mget (mset_all [] m) k = mget m k"
  by (simp add: mget_def mset_all_def)

lemma find_same_id:
  "(\<And>t. t_id (f t) = t_id t) \<Longrightarrow>
     List.find (\<lambda>t. t_id t = i) (update_where (\<lambda>t. t_id t = i) f ts) = map_option f (List.find (\<lambda>t. t_id t = i) ts)"
  by (induction ts) (auto simp: update_where_def)

lemma transaction_by_id_update [simp]:
  "(\<And>t. t_id (f t) = t_id t) \<Longrightarrow>
     transaction_by_id i (d\<lparr>d_transactions := update_where (\<lambda>t. t_id t = i) f (d_transactions d)\<rparr>)
       = map_option f (transaction_by_id i d)"
  by (simp add: transaction_by_id_def find_same_id)

lemma transaction_by_id_other [simp]:
  "transaction_by_id i (d\<lparr>d_wallets := ws\<rparr>) = transaction_by_id i d"
  "transaction_by_id i (d\<lparr>d_liquidity := ls\<rparr>) = transaction_by_id i d"
  "transaction_by_id i (d\<lparr>d_autoStacks := as\<rparr>) = transaction_by_id i d"
  "transaction_by_id i (d\<lparr>d_swaps := sws\<rparr>) = transaction_by_id i d"
  "transaction_by_id i (d\<lparr>d_seq := n\<rparr>) = transaction_by_id i d"
  by (simp_all add: transaction_by_id_def)

lemma tx_done_update:
  "tx_there i d \<Longrightarrow> (\<And>t. t_id (f t) = t_id t) \<Longrightarrow> (\<And>t. submitted (t_meta (f t)))
     \<Longrightarrow> d_transactions d' = update_where (\<lambda>t. t_id t = i) f (d_transactions d) \<Longrightarrow> tx_done i d'"
  by (auto simp: tx_there_def tx_done_def transaction_by_id_def find_same_id)

lemma submitted_simps:
  "submitted (mset_all ((''autostackInitiationStatus'', v) # kvs) m) \<longleftrightarrow> to_upper v \<in> {''SUBMITTED'', ''COMPLETED''}"
  "k \<noteq> ''autostackInitiationStatus'' \<Longrightarrow> submitted (mset_all ((k, v) # kvs) m) = submitted (mset_all kvs m)"
  by (simp_all add: submitted_def)

lemma wallet_tx_done:
  "tx_there i d \<Longrightarrow> wp (autostack_wallet_tx env a i m p) (\<lambda>_. tx_done i) (\<lambda>_ _. True) d"
  unfolding autostack_wallet_tx_def refreshOriginalBalance_def shown_db_def Let_def
  by (simp add: wp_simps split: option.split sum.split)
     (auto simp: tx_done_def tx_there_def transaction_by_id_def find_same_id submitted_simps eval_simps)

lemma swap_tx_done:
  "tx_there (t_id t) d \<Longrightarrow> wp (autostack_swap_tx env a t p q w) (\<lambda>_. tx_done (t_id t)) (\<lambda>_ _. True) d"
  unfolding autostack_swap_tx_def createSwap_def
  by (simp add: wp_simps split: option.split sum.split)
     (auto simp: tx_done_def tx_there_def transaction_by_id_def find_same_id submitted_simps eval_simps)

lemma reserve_tx_there:
  "tx_there i d \<Longrightarrow> wp (autostack_reserve_tx env u i m p) (\<lambda>_. tx_there i) (\<lambda>_ _. True) d"
  unfolding autostack_reserve_tx_def reserveBalance_def reserveLiquidity_def shown_db_def
  by (simp add: wp_simps split: option.split sum.split)
     (auto simp: tx_there_def transaction_by_id_def find_same_id)

lemma card_tx_there:
  "tx_there i d \<Longrightarrow> wp (autostack_card_tx i m p ct) (\<lambda>_. tx_there i) (\<lambda>_ _. True) d"
  unfolding autostack_card_tx_def reserveLiquidity_def
  by (simp add: wp_simps split: option.split sum.split)
     (auto simp: tx_there_def transaction_by_id_def find_same_id)

lemma card_done_update:
  "tx_there i d \<Longrightarrow> tx_done i (d\<lparr>d_transactions := update_where (\<lambda>x. t_id x = i) (\<lambda>x. x\<lparr>t_meta := mset_all
      ((''paymentType'', ''CARD'') # (''sourceAsset'', ''USDT'') # (''autostackInitiationStatus'', ''SUBMITTED'')
        # kvs) m\<rparr>) (d_transactions d)\<rparr>)"
  by (auto simp: tx_done_def tx_there_def submitted_simps eval_simps)


lemma execute_done:
  assumes "tx_there (t_id t) (s_db s)"
  shows "wp (autostack_execute env ops sa a t m p) (\<lambda>_ s'. tx_done (t_id t) (s_db s')) (\<lambda>_ _. True) s"
proof -
  let ?Q = "\<lambda>_ s'. tx_done (t_id t) (s_db s')" and ?E = "\<lambda>_ _. True"
  have wallet: "wp (txM env l (autostack_wallet_tx env a (t_id t) m p)) ?Q ?E s" for l
    using wallet_tx_done [OF assms, of env a m p] by (simp add: wp_tx split: option.split)
  have swap: "wp (autostack_swap env sa a t p) ?Q ?E s'" if "tx_there (t_id t) (s_db s')" for s'
    using swap_tx_done [OF that, of env a p]
    by (simp add: autostack_swap_def wp_simps split: option.split sum.split)
  have card: "wp (autostack_card env ops sa t m p) ?Q ?E s"
    unfolding autostack_card_def
    by (simp add: wp_simps split: option.split sum.split)
       (auto intro!: wp_mono [OF card_tx_there [OF assms]] card_done_update)
  have reserve: "wp (txM env l (autostack_reserve_tx env (a_userId a) (t_id t) m p))
      (\<lambda>_ s'. tx_there (t_id t) (s_db s')) ?E s" for l
    using reserve_tx_there [OF assms, of env "a_userId a" m p] by (simp add: wp_tx split: option.split)
  show ?thesis
    unfolding autostack_execute_def
    by (auto simp: wp_if wp_then intro: wallet card wp_mono [OF reserve swap])
qed

lemma claim_blocked:
  "tx_done i d \<Longrightarrow> autostack_claim env i m d = (Inr None, d)"
  by (auto simp: tx_done_def submitted_def autostack_claim_def comp_defs Let_def split: option.splits)

lemma blocked_initiation: "tx_done (t_id t) (s_db s) \<Longrightarrow> snd (initiatePendingAutoStack env ops sa a t s) = s"
  by (simp add: initiatePendingAutoStack_def bindM_def txM_def claim_blocked returnM_def split: option.split)

lemma claim_there: "tx_there i d \<Longrightarrow> autostack_claim env i m d = (Inr c, d')
   \<Longrightarrow> tx_there i d' \<and> (c = None \<longrightarrow> d' = d)"
  by (auto simp: autostack_claim_def run_simps Let_def tx_there_def split: if_splits)

text \<open>A plan of 50 base units with a fee of 2, paid from the USDT wallet of the examples.\<close>

definition stack_example :: autoStack where
  "stack_example = \<lparr>a_id = ''a1'', a_userId = ''u1'', a_currencyId = ''c1'', a_planName = ''P'', a_frequency = DAILY,
     a_amount = 50, a_startDate = 0, a_timeOfDay = ''00:00'', a_dayOfWeek = None, a_dayOfMonth = None,
     a_transactionFee = 2, a_accruedInterest = 0, a_status = ASPENDING, a_lastExecutedAt = None,
     a_nextExecutionAt = 0, a_nextInterestAt = 0, a_endedAt = None\<rparr>"

definition config_example :: transaction where
  "config_example = (new_transaction ''t1'' ''u1'' ''autostack-confirm-1'' ''USDT'' DEBIT CtxAUTOSTACK)\<lparr>
     t_cryptoAmountBase := Some 50, t_cryptoAmountOriginal := Some ''0.00000000000000005'',
     t_meta := [(''autoStackId'', ''a1''), (''paymentType'', ''CRYPTO_WALLET''), (''sourceAsset'', ''USDT''),
       (''principalUsdtAmountBase'', ''50''), (''transactionFeeBase'', ''2''), (''sourceAmountBase'', ''50''),
       (''autostackInitiationStatus'', ''PENDING'')],
     t_description := Some ''autostack_config:a1''\<rparr>"

definition db_stack :: db where
  "db_stack = db_example\<lparr>d_autoStacks := [stack_example], d_transactions := [config_example],
     d_cryptoCurrencies := [\<lparr>c_id = ''c1'', c_symbol = ''USDT''\<rparr>]\<rparr>"

definition sys_stack :: sys where
  "sys_stack = sys_example\<lparr>s_db := db_stack\<rparr>"

definition ops_example :: stackOps where
  "ops_example = \<lparr>do_mul = (\<lambda>a b. a), do_plus = (\<lambda>a b. a), do_fixed2 = id, do_div = (\<lambda>a b. a), do_str = Some\<rparr>"

definition answers_example :: stackAnswers where
  "answers_example = \<lparr>sa_price = (\<lambda>_. None), sa_quotation = Inl (ProviderError ''down''), sa_confirmed = Inr None,
     sa_charge = Inr ()\<rparr>"

lemma example_displays:
  "fromBase cv_example (ABigInt 48) ''USDT'' None = Inr ''0.000000000000000048''"
  "fromBase cv_example (ABigInt 2) ''USDT'' None = Inr ''0.000000000000000002''"
  "fromBase cv_example (ABigInt 52) ''USDT'' None = Inr ''0.000000000000000052''"
  "fromBase cv_example (ABigInt 50) ''USDT'' None = Inr ''0.00000000000000005''"
  by (simp_all add: cv_example_def currency_eval eval_simps)

lemma example_params:
  "stack_params env_example stack_example config_example (claimed_meta env_example (t_meta config_example)) = Inr \<lparr>sp_wallet = True, sp_sourceAsset = ''USDT'',
     sp_principal = 50, sp_principalOriginal = ''0.00000000000000005'', sp_fee = 2, sp_source = 50,
     sp_sourceOriginal = ''0.00000000000000005'', sp_sourceFee = 2, sp_total = 52\<rparr>"
  by (simp add: stack_params_def config_example_def new_transaction_def mget_def mset_all_def orelse_def opt_str_def
      claimed_meta_def source_fee_def bigdiv_def parse_bigint_def amount_char_def eval_simps)

lemma example_claim:
  "autostack_claim env_example ''t1'' (t_meta config_example) db_stack
     = (Inr (Some (claimed_meta env_example (t_meta config_example))),
        db_stack\<lparr>d_transactions := [config_example\<lparr>t_meta := claimed_meta env_example (t_meta config_example)\<rparr>]\<rparr>)"
  by (simp add: autostack_claim_def comp_defs updTransactions_def update_where_def db_stack_def transaction_by_id_def
      config_example_def new_transaction_def mget_def env_example_def eval_simps)

lemma env_example_simps [simp]:
  "e_cv env_example = cv_example" "e_now env_example = 1000" "e_txFault env_example l = None"
  by (simp_all add: env_example_def)

definition params_example :: stackParams where
  "params_example = \<lparr>sp_wallet = True, sp_sourceAsset = ''USDT'',
     sp_principal = 50, sp_principalOriginal = ''0.00000000000000005'', sp_fee = 2, sp_source = 50,
     sp_sourceOriginal = ''0.00000000000000005'', sp_sourceFee = 2, sp_total = 52\<rparr>"

lemma example_wallet_tx:
  "\<exists>d'. autostack_wallet_tx env_example stack_example ''t1'' m params_example (db_stack\<lparr>d_transactions := ts\<rparr>) = (Inr (), d')
     \<and> map w_baseBalance (d_wallets d') = [48] \<and> map w_stackedAmount (d_wallets d') = [50]"
  by (simp add: autostack_wallet_tx_def comp_defs db_stack_def db_example_def db_empty_def crypto_by_symbol_def
      usdt_wallet_def wallet_example_def stack_example_def sqlWallets_def guarded_count_def guarded_update_def w_stack_def
      params_example_def refreshOriginalBalance_def base_of_def example_displays updWallets_def update_where_def
      updLiquidity_def updAutoStacks_def shown_db_def updTransactions_def)

lemma example_run:
  "\<exists>s'. initiatePendingAutoStack env_example ops_example answers_example stack_example config_example sys_stack = (Inr (), s')
     \<and> map w_baseBalance (d_wallets (s_db s')) = [48] \<and> map w_stackedAmount (d_wallets (s_db s')) = [50]"
proof -
  define m where "m = claimed_meta env_example (t_meta config_example)"
  define ts where "ts = [config_example\<lparr>t_meta := m\<rparr>]"
  have claim: "autostack_claim env_example ''t1'' (t_meta config_example) db_stack = (Inr (Some m), db_stack\<lparr>d_transactions := ts\<rparr>)"
    by (simp add: example_claim m_def ts_def)
  have params: "stack_params env_example stack_example config_example m = Inr params_example"
    unfolding params_example_def m_def by (rule example_params)
  obtain d' where d': "autostack_wallet_tx env_example stack_example ''t1'' m params_example (db_stack\<lparr>d_transactions := ts\<rparr>) = (Inr (), d')"
    "map w_baseBalance (d_wallets d') = [48]" "map w_stackedAmount (d_wallets d') = [50]"
    by (rule example_wallet_tx [of m ts, THEN exE]) (elim conjE)
  have "t_id config_example = ''t1''" "sp_wallet params_example" "sp_sourceAsset params_example = ''USDT''"
    by (simp_all add: config_example_def new_transaction_def params_example_def)
  with d' show ?thesis
    by (simp add: initiatePendingAutoStack_def bindM_def txM_def claim sys_stack_def liftM_def params returnM_def
       autostack_execute_def catchM_def)
qed

end
