(* ===== verification/Withdrawal.thy ===== *)
theory Withdrawal
  imports Deposit
begin

text \<open>
  The withdrawal webhook (\<^verbatim>\<open>withdrawal.handler.ts\<close>): the provider reports that a withdrawal
  succeeded or was rejected. A user's withdrawal debits what was reserved for it, or
  releases it; a company withdrawal (the sweep of a deposit) adds to company liquidity.

  The handler reads the withdrawal and its status first, asks the provider, and runs the
  transaction last; the three phases are separate definitions, so that interleavings of
  two deliveries can be stated. \<open>fetched\<close> is the answer of \<^verbatim>\<open>getWithdrawerByReference\<close>:
  its status and data.
\<close>

section \<open>Inputs\<close>

record confirmedWithdrawal =
  wc_status :: string
  wc_amount :: string
  wc_fee :: "string option"
  wc_total :: "string option"
  wc_txid :: "string option"
  wc_doneAt :: "int option"
  wc_transactionNote :: "string option"
  wc_narration :: "string option"
  wc_recipientAddress :: "string option"
  wc_destinationTag :: "string option"

type_synonym wdAnswer = "error + (string \<times> confirmedWithdrawal option)"

definition wd_success :: "string \<Rightarrow> bool" where
  "wd_success event \<longleftrightarrow> event = ''withdraw.successful''"

definition terminal :: "withdrawalStatus \<Rightarrow> bool" where
  "terminal st \<longleftrightarrow> st = WdSUCCESS \<or> st = WdFAILED"

text \<open>What the two checks on the provider's answer let through.\<close>

definition confirmed_done :: "wdAnswer \<Rightarrow> confirmedWithdrawal option" where
  "confirmed_done fetched =
     (case fetched of
        Inl _ \<Rightarrow> None
      | Inr (status, data) \<Rightarrow>
          (if status \<noteq> ''success'' then None
           else (case data of
               None \<Rightarrow> None
             | Some c \<Rightarrow> (if wc_status c \<noteq> ''Done'' then None else Some c))))"

definition fee_base :: "env \<Rightarrow> confirmedWithdrawal \<Rightarrow> string \<Rightarrow> error + int" where
  "fee_base env c currency =
     (case truthy (wc_fee c) of None \<Rightarrow> Inr 0 | Some f \<Rightarrow> toBase (e_cv env) f currency None)"

section \<open>The transaction of a user withdrawal\<close>

definition total_sent :: "transaction \<Rightarrow> int" where
  "total_sent t = (case t_totalAmountSentBase t of None \<Rightarrow> 0 | Some a \<Rightarrow> a)"

definition platform_fee :: "transaction \<Rightarrow> int" where
  "platform_fee t = (case t_platformFeeBase t of None \<Rightarrow> 0 | Some a \<Rightarrow> a)"

definition settled_withdrawal ::
    "env \<Rightarrow> string \<Rightarrow> transaction \<Rightarrow> confirmedWithdrawal \<Rightarrow> withdrawal \<Rightarrow> withdrawal" where
  "settled_withdrawal env event t c wd =
     wd\<lparr>wd_status := (if wd_success event then WdSUCCESS else WdFAILED),
        wd_amount := wc_amount c,
        wd_fee := nullish (wc_fee c) (wd_fee wd),
        wd_total := nullish (wc_total c) (wd_total wd),
        wd_txHash := nullish (wc_txid c) (wd_txHash wd),
        wd_completedAtProvider := nullish (wc_doneAt c) (Some (e_now env)),
        wd_transactionNote := nullish (wc_transactionNote c) (wd_transactionNote wd),
        wd_narration := nullish (wc_narration c) (wd_narration wd),
        wd_recipientAddress := nullish (wc_recipientAddress c)
          (nullish (wd_recipientAddress wd) (t_receiverWalletAddress t)),
        wd_destinationTag := nullish (wc_destinationTag c) (wd_destinationTag wd)\<rparr>"

definition settled_transaction ::
    "env \<Rightarrow> string \<Rightarrow> withdrawal \<Rightarrow> confirmedWithdrawal \<Rightarrow> int \<Rightarrow> int \<Rightarrow> transaction \<Rightarrow> transaction" where
  "settled_transaction env event wd c amountBase feeBase t =
     t\<lparr>t_status := (if wd_success event then TxCOMPLETED else TxFAILED),
       t_isProcessed := True,
       t_networkFeeBase := Some feeBase,
       t_networkFeeOriginal := nullish (wc_fee c) (t_networkFeeOriginal t),
       t_executedCryptoAmountBase := Some amountBase,
       t_receiverWalletAddress := nullish (wc_recipientAddress c)
         (nullish (wd_recipientAddress wd) (t_receiverWalletAddress t)),
       t_executionPrice := Some (wc_amount c),
       t_executedAt := nullish (wc_doneAt c) (Some (e_now env))\<rparr>"

text \<open>Success: debit the reservation, and take what left the company out of its books.\<close>

definition settle_success :: "env \<Rightarrow> string \<Rightarrow> string \<Rightarrow> transaction \<Rightarrow> wallet \<Rightarrow> unit dbm" where
  "settle_success env currency ref t wallet =
     (let sent = total_sent t; fee = platform_fee t in
      bindM (sqlWallets (\<lambda>w. w_id w = w_id wallet) (w_settle sent)) (\<lambda>n.
      thenM (requireM (n \<noteq> 0) (PlainError (''Withdrawal '' @ ref @ '': insufficient reserved '' @ currency
               @ '' balance to finalize'')))
      (thenM (refreshOriginalBalance env (w_id wallet) currency)
      (thenM (updateInternalBalance env (to_lower currency) (sent - fee) Subtract)
      (bindM (consumeReservedLiquidity currency (sent - fee)) (\<lambda>consumed.
       thenM (requireM consumed (PlainError (''Company liquidity consumption failed for '' @ ref)))
       (whenM (fee > 0) (releaseLiquidity currency fee))))))))"

text \<open>Rejection: give the reservations back.\<close>

definition settle_rejected :: "string \<Rightarrow> transaction \<Rightarrow> unit dbm" where
  "settle_rejected currency t =
     thenM (releaseBalance (t_userId t) currency (total_sent t) None)
       (releaseLiquidity currency (total_sent t))"

definition user_withdrawal_tx ::
    "env \<Rightarrow> string \<Rightarrow> string \<Rightarrow> withdrawal \<Rightarrow> transaction \<Rightarrow> confirmedWithdrawal \<Rightarrow> int \<Rightarrow> int \<Rightarrow> unit dbm" where
  "user_withdrawal_tx env event ref wd t c amountBase feeBase =
     bindM (getM (wallet_for (t_userId t) (wd_currency wd))) (\<lambda>r.
     bindM (someM r (NotFound (''Wallet not found for user '' @ t_userId t @ '' - '' @ wd_currency wd))) (\<lambda>wallet.
     thenM (updWithdrawals (\<lambda>x. wd_id x = wd_id wd) (settled_withdrawal env event t c))
     (thenM (if wd_success event then settle_success env (wd_currency wd) ref t wallet
             else settle_rejected (wd_currency wd) t)
     (thenM (updTransactions (\<lambda>x. t_id x = t_id t) (settled_transaction env event wd c amountBase feeBase))
     (whenM (t_fiatAmountBase t > 0)
       (updUsers (\<lambda>u. u_id u = t_userId t) (\<lambda>u. u\<lparr>u_amountSent := u_amountSent u + t_fiatAmountBase t\<rparr>)))))))"

section \<open>The transaction of a company withdrawal\<close>

definition settled_company :: "env \<Rightarrow> string \<Rightarrow> confirmedWithdrawal \<Rightarrow> int \<Rightarrow> companyWithdrawal \<Rightarrow> companyWithdrawal" where
  "settled_company env event c amountBase cw =
     cw\<lparr>cw_status := (if wd_success event then WdSUCCESS else WdFAILED),
        cw_amountBase := amountBase,
        cw_fee := nullish (wc_fee c) (cw_fee cw),
        cw_total := nullish (wc_total c) (cw_total cw),
        cw_txHash := nullish (wc_txid c) (cw_txHash cw),
        cw_processedAt := Some (e_now env)\<rparr>"

definition company_withdrawal_tx ::
    "env \<Rightarrow> string \<Rightarrow> companyWithdrawal \<Rightarrow> confirmedWithdrawal \<Rightarrow> int \<Rightarrow> unit dbm" where
  "company_withdrawal_tx env event cw c amountBase =
     thenM (whenM (wd_success event) (addLiquidity env (cw_currency cw) amountBase))
       (updCompanyWithdrawals (\<lambda>x. cw_id x = cw_id cw) (settled_company env event c amountBase))"

section \<open>The handler\<close>

text \<open>
  After the transaction: the notification and, on success, the refresh of the liquidity
  cache; on failure the record is marked FAILED, unless the database fault is transient,
  which the queue retries. \<open>True\<close>: the handler goes on.
\<close>

definition settle_or_fail :: "env \<Rightarrow> string \<Rightarrow> string \<Rightarrow> unit dbm \<Rightarrow> (error \<Rightarrow> unit dbm) \<Rightarrow> bool sysm" where
  "settle_or_fail env event transactionId tx failed =
     catchM
       (thenM (txM env ''withdrawal'' tx)
       (thenM (callM (CallNotify transactionId))
       (thenM (whenM (wd_success event) (syncAllToCache env))
       (returnM True))))
       (\<lambda>e. if isTransientPrismaError e then throwM e
            else thenM (dbM (failed e)) (returnM False))"

definition mark_withdrawal_failed :: "env \<Rightarrow> withdrawal \<Rightarrow> error \<Rightarrow> unit dbm" where
  "mark_withdrawal_failed env wd e = updWithdrawals (\<lambda>x. wd_id x = wd_id wd)
     (\<lambda>x. x\<lparr>wd_status := WdFAILED, wd_reason := Some (err_msg e), wd_completedAtProvider := Some (e_now env)\<rparr>)"

definition mark_company_failed :: "env \<Rightarrow> companyWithdrawal \<Rightarrow> error \<Rightarrow> unit dbm" where
  "mark_company_failed env cw e = updCompanyWithdrawals (\<lambda>x. cw_id x = cw_id cw)
     (\<lambda>x. x\<lparr>cw_status := WdFAILED, cw_failedReason := Some (err_msg e), cw_processedAt := Some (e_now env)\<rparr>)"

text \<open>The NGN value for the dashboard; any failure of it counts as 0.\<close>

definition dashboard_ngn :: "env \<Rightarrow> string option \<Rightarrow> string \<Rightarrow> int \<Rightarrow> int" where
  "dashboard_ngn env price currency amount =
     (case fromBase (e_cv env) (ABigInt amount) currency None of
        Inl _ \<Rightarrow> 0
      | Inr human \<Rightarrow> (case ngnAmount env price human of Inl _ \<Rightarrow> 0 | Inr n \<Rightarrow> n))"

definition handle_user_withdrawal ::
    "env \<Rightarrow> string \<Rightarrow> string \<Rightarrow> withdrawal \<Rightarrow> transaction \<Rightarrow> wdAnswer \<Rightarrow> string option \<Rightarrow> unit sysm" where
  "handle_user_withdrawal env event ref wd t fetched price =
     (if terminal (wd_status wd) then returnM ()
      else if t_totalAmountSentBase t = None then returnM ()
      else (case confirmed_done fetched of
          None \<Rightarrow> returnM ()
        | Some c \<Rightarrow>
            bindM (liftM (toBase (e_cv env) (wc_amount c) (wd_currency wd) None)) (\<lambda>amountBase.
            bindM (liftM (fee_base env c (wd_currency wd))) (\<lambda>feeBase.
            bindM (settle_or_fail env event (t_id t) (user_withdrawal_tx env event ref wd t c amountBase feeBase)
                     (mark_withdrawal_failed env wd)) (\<lambda>ok.
              whenM ok (callM (CallDashboard ref (dashboard_ngn env price (wd_currency wd) (total_sent t)))))))))"

definition handle_company_withdrawal ::
    "env \<Rightarrow> string \<Rightarrow> companyWithdrawal \<Rightarrow> wdAnswer \<Rightarrow> unit sysm" where
  "handle_company_withdrawal env event cw fetched =
     (if terminal (cw_status cw) then returnM ()
      else (case confirmed_done fetched of
          None \<Rightarrow> returnM ()
        | Some c \<Rightarrow>
            bindM (liftM (toBase (e_cv env) (wc_amount c) (cw_currency cw) None)) (\<lambda>amountBase.
            bindM (liftM (fee_base env c (cw_currency cw))) (\<lambda>_.
            bindM (settle_or_fail env event (cw_transactionId cw) (company_withdrawal_tx env event cw c amountBase)
                     (mark_company_failed env cw)) (\<lambda>_. returnM ())))))"

definition withdrawal_by_reference :: "string \<Rightarrow> db \<Rightarrow> withdrawal option" where
  "withdrawal_by_reference ref d = List.find (\<lambda>w. wd_reference w = Some ref) (d_withdrawals d)"

definition company_by_reference :: "string \<Rightarrow> db \<Rightarrow> companyWithdrawal option" where
  "company_by_reference ref d = List.find (\<lambda>c. cw_providerReference c = ref) (d_companyWithdrawals d)"

definition linked_transaction :: "withdrawal \<Rightarrow> db \<Rightarrow> transaction option" where
  "linked_transaction wd d = (case wd_transactionId wd of None \<Rightarrow> None | Some i \<Rightarrow> transaction_by_id i d)"

definition company_reference :: "string \<Rightarrow> bool" where
  "company_reference ref \<longleftrightarrow> starts_with ''company-deposit'' ref \<or> starts_with ''MainAccount-'' ref"

definition withdrawal_process ::
    "env \<Rightarrow> string \<Rightarrow> string option \<Rightarrow> wdAnswer \<Rightarrow> string option \<Rightarrow> unit sysm" where
  "withdrawal_process env event reference fetched price =
     (case truthy reference of
        None \<Rightarrow> returnM ()
      | Some ref \<Rightarrow>
          (if company_reference ref then
             bindM (getM (\<lambda>s. company_by_reference ref (s_db s))) (\<lambda>r.
               case r of None \<Rightarrow> returnM ()
               | Some cw \<Rightarrow> handle_company_withdrawal env event cw fetched)
           else
             bindM (getM (\<lambda>s. withdrawal_by_reference ref (s_db s))) (\<lambda>r.
               case r of None \<Rightarrow> returnM ()
               | Some wd \<Rightarrow>
                   bindM (getM (\<lambda>s. linked_transaction wd (s_db s))) (\<lambda>q.
                     case q of None \<Rightarrow> returnM ()
                     | Some t \<Rightarrow> handle_user_withdrawal env event ref wd t fetched price))))"

section \<open>The books after a withdrawal\<close>

lemma guarded_update_where:
  "guarded_update key upd rows = update_where key (\<lambda>r. case upd r of None \<Rightarrow> r | Some r' \<Rightarrow> r') rows"
  by (simp add: guarded_update_def update_where_def)

lemma guarded_count_unique:
  assumes "distinct (map ident rows)" "r \<in> set rows" "ident r = k"
    and "guarded_count (\<lambda>x. ident x = k) upd rows \<noteq> 0"
  shows "upd r \<noteq> None"
proof -
  obtain x where x: "x \<in> set rows" "ident x = k" "upd x \<noteq> None"
    using assms(4) by (auto simp: guarded_count_def filter_empty_conv)
  with assms(1-3) have "x = r" by (auto simp: distinct_map inj_on_def)
  with x show ?thesis by simp
qed

lemma internal_frame:
  assumes "\<And>l l'. upd l = Some l' \<Longrightarrow> l_currency l' = l_currency l \<and> l_internalBalance l' = l_internalBalance l"
  shows "internal c (d\<lparr>d_liquidity := guarded_update key upd (d_liquidity d)\<rparr>) = internal c d"
proof -
  let ?f = "\<lambda>l. if key l then (case upd l of None \<Rightarrow> l | Some l' \<Rightarrow> l') else l"
  have f: "l_currency (?f l) = l_currency l \<and> l_internalBalance (?f l) = l_internalBalance l" for l
    using assms by (auto split: option.splits)
  have "sum_list (map l_internalBalance (filter (\<lambda>l. ieq (l_currency l) c) (map ?f ls)))
      = sum_list (map l_internalBalance (filter (\<lambda>l. ieq (l_currency l) c) ls))" for ls
    using f by (induction ls) auto
  then show ?thesis by (simp add: internal_def guarded_update_def)
qed

lemma releaseLiquidity_frame:
  assumes "releaseLiquidity currency a d = (Inr u, d')"
  shows "internal c d' = internal c d \<and> d_wallets d' = d_wallets d"
  using assms by (auto simp: releaseLiquidity_def run_simps l_release_def intro!: internal_frame split: if_splits)

lemma consumeReservedLiquidity_frame:
  assumes "consumeReservedLiquidity currency a d = (Inr u, d')"
  shows "internal c d' = internal c d \<and> d_wallets d' = d_wallets d"
  using assms by (auto simp: consumeReservedLiquidity_def run_simps l_consume_def intro!: internal_frame split: if_splits)

lemma releaseBalance_frame:
  assumes "releaseBalance userId currency a network d = (Inr u, d')"
  shows "d_liquidity d' = d_liquidity d \<and> owed c d' = owed c d"
proof -
  obtain i where d': "d' = d\<lparr>d_wallets := guarded_update (\<lambda>v. w_id v = i) (w_release a) (d_wallets d)\<rparr>"
    using assms by (auto simp: releaseBalance_eq split: option.splits if_splits)
  let ?f = "\<lambda>w. if w_id w = i then (case w_release a w of None \<Rightarrow> w | Some w' \<Rightarrow> w') else w"
  have f: "w_currency (?f w) = w_currency w \<and> w_baseBalance (?f w) = w_baseBalance w" for w
    by (auto simp: w_release_def)
  have "sum_list (map w_baseBalance (filter (\<lambda>w. ieq (w_currency w) c) (map ?f ws)))
      = sum_list (map w_baseBalance (filter (\<lambda>w. ieq (w_currency w) c) ws))" for ws
    using f by (induction ws) auto
  then show ?thesis by (simp add: owed_def d' guarded_update_def)
qed

lemma owed_settle:
  assumes "keys_ok d" "w \<in> set (d_wallets d)" "w_settle a w \<noteq> None"
  shows "owed c (d\<lparr>d_wallets := guarded_update (\<lambda>x. w_id x = w_id w) (w_settle a) (d_wallets d)\<rparr>)
    = owed c d - (if ieq (w_currency w) c then a else 0)"
  using owed_update [OF assms(1,2) refl, of "\<lambda>r. case w_settle a r of None \<Rightarrow> r | Some r' \<Rightarrow> r'" "- a" c] assms(3)
  by (auto simp: guarded_update_where w_settle_def split: if_splits)

lemma owed_display:
  "owed c (d\<lparr>d_wallets := update_where p (\<lambda>w. w\<lparr>w_originalBalance := shown\<rparr>) ws\<rparr>)
    = owed c (d\<lparr>d_wallets := ws\<rparr>)"
  unfolding owed_def update_where_def by (simp, induction ws) auto

lemma settle_success_run:
  assumes "settle_success env currency ref t w d = (Inr u, d')"
  shows "\<exists>shown d2 d3.
    guarded_count (\<lambda>x. w_id x = w_id w) (w_settle (total_sent t)) (d_wallets d) \<noteq> 0 \<and>
    updateInternalBalance env (to_lower currency) (total_sent t - platform_fee t) Subtract
      (d\<lparr>d_wallets := update_where (\<lambda>x. w_id x = w_id w) (\<lambda>x. x\<lparr>w_originalBalance := shown\<rparr>)
        (guarded_update (\<lambda>x. w_id x = w_id w) (w_settle (total_sent t)) (d_wallets d))\<rparr>) = (Inr (), d2) \<and>
    consumeReservedLiquidity currency (total_sent t - platform_fee t) d2 = (Inr True, d3) \<and>
    (if platform_fee t > 0 then releaseLiquidity currency (platform_fee t) d3 = (Inr (), d') else d' = d3)"
  using assms
  by (simp add: settle_success_def Let_def run_simps refreshOriginalBalance_run split del: if_split,
      elim exE conjE, simp split del: if_split, blast)
lemma settle_success_gap:
  assumes "keys_ok d" "wallet_for userId currency d = Some w" "settle_success env currency ref t w d = (Inr u, d')"
  shows "gap c d' = gap c d + (if ieq currency c then platform_fee t else 0)"
proof -
  have w: "w \<in> set (d_wallets d)" "ieq (w_currency w) currency"
    using find_Some_in [OF assms(2) [unfolded wallet_for_def]] by simp_all
  obtain shown d2 d3 where
    n: "guarded_count (\<lambda>x. w_id x = w_id w) (w_settle (total_sent t)) (d_wallets d) \<noteq> 0"
    and i: "updateInternalBalance env (to_lower currency) (total_sent t - platform_fee t) Subtract
      (d\<lparr>d_wallets := update_where (\<lambda>x. w_id x = w_id w) (\<lambda>x. x\<lparr>w_originalBalance := shown\<rparr>)
        (guarded_update (\<lambda>x. w_id x = w_id w) (w_settle (total_sent t)) (d_wallets d))\<rparr>) = (Inr (), d2)"
    and c: "consumeReservedLiquidity currency (total_sent t - platform_fee t) d2 = (Inr True, d3)"
    and r: "if platform_fee t > 0 then releaseLiquidity currency (platform_fee t) d3 = (Inr (), d') else d' = d3"
    using settle_success_run [OF assms(3)] by blast
  define d1 where d1: "d1 = d\<lparr>d_wallets := update_where (\<lambda>x. w_id x = w_id w) (\<lambda>x. x\<lparr>w_originalBalance := shown\<rparr>)
        (guarded_update (\<lambda>x. w_id x = w_id w) (w_settle (total_sent t)) (d_wallets d))\<rparr>"
  have "owed c d1 = owed c d - (if ieq (w_currency w) c then total_sent t else 0)"
    unfolding d1 owed_display
    using owed_settle [OF assms(1) w(1)] guarded_count_unique [OF _ w(1) refl n] assms(1)
    by (simp add: keys_ok_def)
  moreover have "internal c d2 = internal c d - (if ieq currency c then total_sent t - platform_fee t else 0)
      \<and> d_wallets d2 = d_wallets d1"
    using updateInternalBalance_internal [OF _ i [folded d1], of c] assms(1)
    by (auto simp: d1 keys_ok_def internal_def ieq_def)
  moreover have "internal c d' = internal c d2 \<and> d_wallets d' = d_wallets d2"
    using consumeReservedLiquidity_frame [OF c] releaseLiquidity_frame [of currency "platform_fee t" d3 "()" d'] r
    by (auto split: if_splits)
  ultimately show ?thesis using w(2) by (auto simp: gap_def owed_def ieq_def)
qed

lemma settle_rejected_gap:
  assumes "settle_rejected currency t d = (Inr u, d')"
  shows "gap c d' = gap c d"
proof -
  obtain d1 where r: "releaseBalance (t_userId t) currency (total_sent t) None d = (Inr (), d1)"
    and l: "releaseLiquidity currency (total_sent t) d1 = (Inr (), d')"
    using assms by (auto simp: settle_rejected_def run_simps)
  from releaseBalance_frame [OF r, of c] releaseLiquidity_frame [OF l, of c] show ?thesis
    by (auto simp: gap_def owed_def internal_def)
qed

lemma user_withdrawal_run0:
  assumes "user_withdrawal_tx env event ref wd t c a f d = (Inr u, d')"
  shows "\<exists>w d2 v1 v2. wallet_for (t_userId t) (wd_currency wd) d = Some w
    \<and> (if wd_success event then settle_success env (wd_currency wd) ref t w else settle_rejected (wd_currency wd) t)
        (d\<lparr>d_withdrawals := update_where (\<lambda>x. wd_id x = wd_id wd) (settled_withdrawal env event t c) (d_withdrawals d)\<rparr>)
      = (Inr v1, d2)
    \<and> whenM (t_fiatAmountBase t > 0)
       (updUsers (\<lambda>u. u_id u = t_userId t) (\<lambda>u. u\<lparr>u_amountSent := u_amountSent u + t_fiatAmountBase t\<rparr>))
       (d2\<lparr>d_transactions := update_where (\<lambda>x. t_id x = t_id t) (settled_transaction env event wd c a f) (d_transactions d2)\<rparr>)
      = (Inr v2, d')"
    using assms
    unfolding user_withdrawal_tx_def run_bind run_then run_get run_some run_upd
  by blast

lemma user_withdrawal_run:
  assumes "user_withdrawal_tx env event ref wd t c a f d = (Inr u, d')"
  shows "\<exists>w d2. wallet_for (t_userId t) (wd_currency wd) d = Some w
    \<and> (if wd_success event then settle_success env (wd_currency wd) ref t w else settle_rejected (wd_currency wd) t)
        (d\<lparr>d_withdrawals := update_where (\<lambda>x. wd_id x = wd_id wd) (settled_withdrawal env event t c) (d_withdrawals d)\<rparr>)
      = (Inr (), d2)
    \<and> d_wallets d' = d_wallets d2 \<and> d_liquidity d' = d_liquidity d2 \<and> d_withdrawals d' = d_withdrawals d2"
proof -
  let ?d1 = "d\<lparr>d_withdrawals := update_where (\<lambda>x. wd_id x = wd_id wd) (settled_withdrawal env event t c) (d_withdrawals d)\<rparr>"
  obtain w d2 v1 v2 where w: "wallet_for (t_userId t) (wd_currency wd) d = Some w"
    and d2: "(if wd_success event then settle_success env (wd_currency wd) ref t w
      else settle_rejected (wd_currency wd) t) ?d1 = (Inr v1, d2)"
    and d': "whenM (t_fiatAmountBase t > 0)
       (updUsers (\<lambda>u. u_id u = t_userId t) (\<lambda>u. u\<lparr>u_amountSent := u_amountSent u + t_fiatAmountBase t\<rparr>))
       (d2\<lparr>d_transactions := update_where (\<lambda>x. t_id x = t_id t) (settled_transaction env event wd c a f) (d_transactions d2)\<rparr>)
      = (Inr v2, d')"
    using user_withdrawal_run0 [OF assms] by blast
  from d' have "d_wallets d' = d_wallets d2 \<and> d_liquidity d' = d_liquidity d2 \<and> d_withdrawals d' = d_withdrawals d2"
    by (cases "t_fiatAmountBase t > 0") (simp_all add: run_when run_upd)
  moreover have "v1 = ()" by simp
  ultimately show ?thesis using w d2 by blast
qed

text \<open>A settled withdrawal keeps the company's books: on success the internal balance falls by
  what was sent to the provider and the user's balance by that and the platform fee, so that
  the company's surplus in the currency grows by exactly the fee; a rejection leaves it.\<close>

theorem withdrawal_gap:
  assumes "keys_ok d" and "user_withdrawal_tx env event ref wd t conf a f d = (Inr u, d')"
  shows "gap c d' = gap c d + (if wd_success event \<and> ieq (wd_currency wd) c then platform_fee t else 0)"
proof -
  let ?d1 = "d\<lparr>d_withdrawals := update_where (\<lambda>x. wd_id x = wd_id wd) (settled_withdrawal env event t conf) (d_withdrawals d)\<rparr>"
  obtain w d2 where w: "wallet_for (t_userId t) (wd_currency wd) d = Some w"
    and d2: "(if wd_success event then settle_success env (wd_currency wd) ref t w
      else settle_rejected (wd_currency wd) t) ?d1 = (Inr (), d2)"
    and d': "d_wallets d' = d_wallets d2" "d_liquidity d' = d_liquidity d2"
    using user_withdrawal_run [OF assms(2)] by blast
  have k: "keys_ok ?d1" "wallet_for (t_userId t) (wd_currency wd) ?d1 = Some w"
    using assms(1) w by (simp_all add: keys_ok_def wallet_for_def)
  have "gap c d2 = gap c ?d1 + (if wd_success event \<and> ieq (wd_currency wd) c then platform_fee t else 0)"
    using d2 settle_success_gap [OF k, of env ref t "()" d2 c] settle_rejected_gap [of "wd_currency wd" t ?d1 "()" d2 c]
    by (simp split: if_splits)
  then show ?thesis using d' by (simp add: gap_def owed_def internal_def)
qed

lemma settle_or_fail_rule:
  assumes "I (s_db s)" and "\<And>d'. tx (s_db s) = (Inr (), d') \<Longrightarrow> I d'" and "\<And>e. preserves I (failed e)"
  shows "wp (settle_or_fail env event i tx failed) (\<lambda>_. on_db I) (\<lambda>_. on_db I) s"
proof -
  have fail: "wp (if isTransientPrismaError e then throwM e else thenM (dbM (failed e)) (returnM False))
      (\<lambda>_. on_db I) (\<lambda>_. on_db I) s'" if "on_db I s'" for e s'
  proof -
    have "preserves (on_db I) (if isTransientPrismaError e then throwM e else thenM (dbM (failed e)) (returnM False))"
      by (intro preserves_intros assms(3))
    with that show ?thesis unfolding preserves_wp by blast
  qed
  have after: "wp (thenM (callM (CallNotify i)) (thenM (whenM (wd_success event) (syncAllToCache env)) (returnM True)))
      (\<lambda>_. on_db I) (\<lambda>_. on_db I) s'" if "on_db I s'" for s'
  proof -
    have "preserves (on_db I) (thenM (callM (CallNotify i))
        (thenM (whenM (wd_success event) (syncAllToCache env)) (returnM True)))"
      by (intro preserves_intros)
    with that show ?thesis unfolding preserves_wp by blast
  qed
  have "wp tx (\<lambda>_ d. on_db I (s\<lparr>s_db := d\<rparr>)) (\<lambda>_ _. on_db I s) (s_db s)"
    using assms(1,2) by (auto simp: wp_def on_db_def split: prod.splits sum.splits)
  then have "wp (txM env ''withdrawal'' tx) (\<lambda>_. on_db I) (\<lambda>_. on_db I) s"
    using assms(1) by (auto simp: wp_tx on_db_def split: option.split)
  then show ?thesis
    unfolding settle_or_fail_def wp_catch wp_then [of "txM env ''withdrawal'' tx"]
    by (rule wp_mono) (blast intro: wp_mono [OF after] fail)+
qed

lemma withdrawal_process_rule:
  assumes failed: "\<And>ref wd e. reference = Some ref \<Longrightarrow> withdrawal_by_reference ref (s_db s) = Some wd \<Longrightarrow>
      preserves I (mark_withdrawal_failed env wd e)"
    and company_failed: "\<And>ref cw e. reference = Some ref \<Longrightarrow> company_reference ref \<Longrightarrow>
      preserves I (mark_company_failed env cw e)"
    and init: "I (s_db s)"
    and user: "\<And>ref wd t c a f d'. reference = Some ref \<Longrightarrow> withdrawal_by_reference ref (s_db s) = Some wd \<Longrightarrow>
      \<not> terminal (wd_status wd) \<Longrightarrow> linked_transaction wd (s_db s) = Some t \<Longrightarrow>
      user_withdrawal_tx env event ref wd t c a f (s_db s) = (Inr (), d') \<Longrightarrow> I d'"
    and comp: "\<And>ref cw c a d'. reference = Some ref \<Longrightarrow> company_reference ref \<Longrightarrow> confirmed_done fetched = Some c \<Longrightarrow>
      toBase (e_cv env) (wc_amount c) (cw_currency cw) None = Inr a \<Longrightarrow>
      company_withdrawal_tx env event cw c a (s_db s) = (Inr (), d') \<Longrightarrow> I d'"
  shows "I (s_db (snd (withdrawal_process env event reference fetched price s)))"
proof -
  have u: "wp (handle_user_withdrawal env event ref wd t fetched price) (\<lambda>_. on_db I) (\<lambda>_. on_db I) s"
    if "reference = Some ref" "withdrawal_by_reference ref (s_db s) = Some wd" "linked_transaction wd (s_db s) = Some t"
    for ref wd t
  proof (cases "terminal (wd_status wd)")
    case True
    then show ?thesis using init by (simp add: handle_user_withdrawal_def wp_return on_db_def)
  next
    case False
    have "wp (settle_or_fail env event (t_id t) (user_withdrawal_tx env event ref wd t c a f)
        (mark_withdrawal_failed env wd)) (\<lambda>_. on_db I) (\<lambda>_. on_db I) s" for c a f
      by (rule settle_or_fail_rule [of I s, OF init user [OF that(1,2) False that(3)] failed [OF that(1,2)]])
    then have "wp (bindM (settle_or_fail env event (t_id t) (user_withdrawal_tx env event ref wd t c a f)
        (mark_withdrawal_failed env wd)) (\<lambda>ok. whenM ok (callM x))) (\<lambda>_. on_db I) (\<lambda>_. on_db I) s" for c a f x
      unfolding wp_bind by (rule wp_mono) (auto simp: wp_simps on_db_def)
    then show ?thesis using init
      by (auto simp: handle_user_withdrawal_def wp_return wp_lift wp_bind [of "liftM _"] on_db_def
          split: option.split sum.split)
  qed
  have k: "wp (handle_company_withdrawal env event cw fetched) (\<lambda>_. on_db I) (\<lambda>_. on_db I) s"
    if ref: "reference = Some ref" "company_reference ref" for cw ref
  proof -
    have "wp (settle_or_fail env event (cw_transactionId cw) (company_withdrawal_tx env event cw c a)
        (mark_company_failed env cw)) (\<lambda>_. on_db I) (\<lambda>_. on_db I) s"
      if "confirmed_done fetched = Some c" "toBase (e_cv env) (wc_amount c) (cw_currency cw) None = Inr a" for c a
      by (rule settle_or_fail_rule [of I s, OF init comp [OF ref that] company_failed [OF ref]])
    then have "wp (bindM (settle_or_fail env event (cw_transactionId cw) (company_withdrawal_tx env event cw c a)
        (mark_company_failed env cw)) (\<lambda>_. returnM ())) (\<lambda>_. on_db I) (\<lambda>_. on_db I) s"
      if "confirmed_done fetched = Some c" "toBase (e_cv env) (wc_amount c) (cw_currency cw) None = Inr a" for c a
      unfolding wp_bind wp_return using that by simp
    then show ?thesis using init
      by (auto simp: handle_company_withdrawal_def wp_return wp_lift wp_bind [of "liftM _"] on_db_def
          split: option.split sum.split)
  qed
  have "wp (withdrawal_process env event reference fetched price) (\<lambda>_. on_db I) (\<lambda>_. on_db I) s"
    using init u k
    by (auto simp: withdrawal_process_def wp_return wp_get wp_bind [of "getM _"] on_db_def truthy_def split: option.split)
  then show ?thesis by (auto simp: wp_alt on_db_def split: sum.splits)
qed

section \<open>Solvency\<close>

lemma solvent_settle_success [preserves_intros]: "preserves solvent (settle_success env currency ref t w)"
  unfolding settle_success_def Let_def
  by (intro preserves_intros solvent_sqlWallets) (simp add: wallet_ok_account wallet_account.ok_settle)

lemma solvent_settle_rejected [preserves_intros]: "0 \<le> total_sent t \<Longrightarrow> preserves solvent (settle_rejected currency t)"
  unfolding settle_rejected_def by (intro preserves_intros)

lemma solvent_user_withdrawal_tx:
  "0 \<le> total_sent t \<Longrightarrow> preserves solvent (user_withdrawal_tx env event ref wd t c a f)"
  unfolding user_withdrawal_tx_def by (intro preserves_intros)

lemma solvent_company_withdrawal_tx:
  "0 \<le> a \<Longrightarrow> preserves solvent (company_withdrawal_tx env event cw c a)"
  unfolding company_withdrawal_tx_def by (intro preserves_intros)

lemma linked_transaction_in: "linked_transaction wd d = Some t \<Longrightarrow> t \<in> set (d_transactions d)"
  by (auto simp: linked_transaction_def transaction_by_id_def dest: find_Some_in split: option.splits)

text \<open>C27: A withdrawal webhook leaves every account of the system solvent, whichever event it
  reports and whatever fails on the way, when the amounts that were sent and the amounts
  the provider confirms are not negative.\<close>

theorem withdrawal_keeps_solvent:
  assumes "solvent (s_db s)" and "\<forall>t \<in> set (d_transactions (s_db s)). 0 \<le> total_sent t"
    and "\<And>c currency a. confirmed_done fetched = Some c \<Longrightarrow>
      toBase (e_cv env) (wc_amount c) currency None = Inr a \<Longrightarrow> 0 \<le> a"
  shows "solvent (s_db (snd (withdrawal_process env event reference fetched price s)))"
proof (rule withdrawal_process_rule [where I = solvent])
  fix ref wd t c a f d'
  assume "linked_transaction wd (s_db s) = Some t"
    and run: "user_withdrawal_tx env event ref wd t c a f (s_db s) = (Inr (), d')"
  then have "0 \<le> total_sent t" using assms(2) linked_transaction_in by blast
  from preservesD [OF solvent_user_withdrawal_tx [OF this] assms(1)] run show "solvent d'" by (metis snd_conv)
next
  fix cw c a d'
  assume "confirmed_done fetched = Some c" "toBase (e_cv env) (wc_amount c) (cw_currency cw) None = Inr a"
    and run: "company_withdrawal_tx env event cw c a (s_db s) = (Inr (), d')"
  then have "0 \<le> a" using assms(3) by blast
  from preservesD [OF solvent_company_withdrawal_tx [OF this] assms(1)] run show "solvent d'" by (metis snd_conv)
qed (auto simp: assms(1) mark_withdrawal_failed_def mark_company_failed_def intro!: preserves_intros)

section \<open>At most one settlement\<close>

lemma updateInternalBalance_withdrawals:
  "updateInternalBalance env currency a op d = (Inr u, d') \<Longrightarrow> d_withdrawals d' = d_withdrawals d"
  by (auto simp: updateInternalBalance_def createLiquidity_def run_simps split: option.splits if_splits)

lemma ledger_withdrawals:
  "releaseLiquidity currency a d = (Inr u, d') \<Longrightarrow> d_withdrawals d' = d_withdrawals d"
  "consumeReservedLiquidity currency a d = (Inr b, d') \<Longrightarrow> d_withdrawals d' = d_withdrawals d"
  "releaseBalance userId currency a network d = (Inr u, d') \<Longrightarrow> d_withdrawals d' = d_withdrawals d"
  by (auto simp: releaseLiquidity_def consumeReservedLiquidity_def releaseBalance_def run_simps
      split: option.splits if_splits)

lemma settle_withdrawals:
  assumes "(if wd_success event then settle_success env currency ref t w else settle_rejected currency t) d = (Inr u, d')"
  shows "d_withdrawals d' = d_withdrawals d"
proof (cases "wd_success event")
  case True
  with assms have "settle_success env currency ref t w d = (Inr u, d')" by simp
  from settle_success_run [OF this] obtain shown d2 d3 where
    i: "updateInternalBalance env (to_lower currency) (total_sent t - platform_fee t) Subtract
      (d\<lparr>d_wallets := update_where (\<lambda>x. w_id x = w_id w) (\<lambda>x. x\<lparr>w_originalBalance := shown\<rparr>)
        (guarded_update (\<lambda>x. w_id x = w_id w) (w_settle (total_sent t)) (d_wallets d))\<rparr>) = (Inr (), d2)"
    and c: "consumeReservedLiquidity currency (total_sent t - platform_fee t) d2 = (Inr True, d3)"
    and r: "if platform_fee t > 0 then releaseLiquidity currency (platform_fee t) d3 = (Inr (), d') else d' = d3"
    by blast
  from updateInternalBalance_withdrawals [OF i] ledger_withdrawals(2) [OF c] r show ?thesis
    by (auto dest: ledger_withdrawals(1) split: if_splits)
next
  case False
  with assms obtain d1 where "releaseBalance (t_userId t) currency (total_sent t) None d = (Inr (), d1)"
    "releaseLiquidity currency (total_sent t) d1 = (Inr (), d')" by (auto simp: settle_rejected_def run_simps)
  then show ?thesis by (metis ledger_withdrawals(1,3))
qed

lemma user_withdrawal_terminal:
  assumes "user_withdrawal_tx env event ref wd t c a f d = (Inr u, d')"
  shows "d_withdrawals d' = update_where (\<lambda>x. wd_id x = wd_id wd) (settled_withdrawal env event t c) (d_withdrawals d)"
  using user_withdrawal_run [OF assms] settle_withdrawals by fastforce

definition settled :: "string \<Rightarrow> db \<Rightarrow> bool" where
  "settled ref d \<longleftrightarrow> (\<exists>w. withdrawal_by_reference ref d = Some w \<and> terminal (wd_status w))"

lemma settled_update:
  assumes "withdrawal_by_reference ref d = Some wd"
    and "d_withdrawals d' = update_where (\<lambda>x. wd_id x = wd_id wd) f (d_withdrawals d)"
    and "\<And>x. wd_reference (f x) = wd_reference x" "terminal (wd_status (f wd))"
  shows "settled ref d'"
  using assms by (simp add: settled_def withdrawal_by_reference_def find_update_where)

lemma settled_process:
  assumes "settled ref (s_db s)" "\<not> company_reference ref"
  shows "snd (withdrawal_process env event (Some ref) fetched price s) = s"
  using assms
  by (auto simp: withdrawal_process_def settled_def truthy_def handle_user_withdrawal_def comp_defs
      split: option.split)

lemma settled_terminal [simp]: "terminal (wd_status (settled_withdrawal env event t c wd))"
  "wd_reference (settled_withdrawal env event t c wd) = wd_reference wd"
  by (simp_all add: settled_withdrawal_def terminal_def)

lemma settled_mark:
  assumes "withdrawal_by_reference ref d0 = Some wd"
  shows "preserves (\<lambda>d. d = d0 \<or> settled ref d) (mark_withdrawal_failed env wd e)"
proof (rule preservesI)
  fix d :: db
  let ?f = "\<lambda>x. x\<lparr>wd_status := WdFAILED, wd_reason := Some (err_msg e), wd_completedAtProvider := Some (e_now env)\<rparr>"
  let ?d = "d\<lparr>d_withdrawals := update_where (\<lambda>x. wd_id x = wd_id wd) ?f (d_withdrawals d)\<rparr>"
  assume "d = d0 \<or> settled ref d"
  then have "settled ref ?d"
  proof
    assume "d = d0"
    with assms show ?thesis by (intro settled_update [where wd = wd and f = ?f and d = d]) (simp_all add: terminal_def)
  next
    assume "settled ref d"
    then obtain w where w: "withdrawal_by_reference ref d = Some w" "terminal (wd_status w)"
      by (auto simp: settled_def)
    then have "withdrawal_by_reference ref ?d = Some (if wd_id w = wd_id wd then ?f w else w)"
      by (simp add: withdrawal_by_reference_def find_update_where)
    with w(2) show ?thesis by (simp add: settled_def terminal_def)
  qed
  then show "wp (mark_withdrawal_failed env wd e) (\<lambda>_ d. d = d0 \<or> settled ref d) (\<lambda>_ d. d = d0 \<or> settled ref d) d"
    by (simp add: mark_withdrawal_failed_def wp_simps)
qed

text \<open>A run of the handler for a user withdrawal leaves the database alone, or settles.\<close>

lemma withdrawal_settles:
  assumes "\<not> company_reference ref"
  shows "s_db (snd (withdrawal_process env event (Some ref) fetched price s)) = s_db s
    \<or> settled ref (s_db (snd (withdrawal_process env event (Some ref) fetched price s)))"
proof (rule withdrawal_process_rule [where I = "\<lambda>d. d = s_db s \<or> settled ref d"])
  fix r wd t c a f d'
  assume "Some ref = Some r" "withdrawal_by_reference r (s_db s) = Some wd"
    and "user_withdrawal_tx env event r wd t c a f (s_db s) = (Inr (), d')"
  then have "settled ref d'"
    by (intro settled_update [OF _ user_withdrawal_terminal]) simp_all
  then show "d' = s_db s \<or> settled ref d'" ..
qed (use assms settled_mark in auto)

record withdrawalRun =
  wr_env :: env
  wr_event :: string
  wr_fetched :: wdAnswer
  wr_price :: "string option"

definition run_withdrawal :: "string \<Rightarrow> withdrawalRun \<Rightarrow> sys \<Rightarrow> sys" where
  "run_withdrawal ref x s = snd (withdrawal_process (wr_env x) (wr_event x) (Some ref) (wr_fetched x) (wr_price x) s)"

fun settlements :: "string \<Rightarrow> withdrawalRun list \<Rightarrow> sys \<Rightarrow> nat" where
  "settlements ref [] s = 0"
| "settlements ref (x # xs) s =
     (if s_db (run_withdrawal ref x s) = s_db s then 0 else 1) + settlements ref xs (run_withdrawal ref x s)"

text \<open>C2: deliveries of a user withdrawal that run one after the other write to the database at
  most once, whichever events they report (successful, rejected), whatever the provider
  answers and whatever fails: the reservation is settled or released once, or the record
  is marked FAILED once.\<close>

theorem withdrawal_at_most_once:
  assumes "\<not> company_reference ref"
  shows "settlements ref xs s \<le> 1"
proof -
  have none: "settlements ref xs s = 0" if "settled ref (s_db s)" for xs s
    using that settled_process [OF that assms]
    by (induction xs arbitrary: s) (simp_all add: run_withdrawal_def settled_process [OF _ assms])
  show ?thesis
  proof (induction xs arbitrary: s)
    case (Cons x xs)
    show ?case
      using Cons [of "run_withdrawal ref x s"] none [of "run_withdrawal ref x s" xs]
        withdrawal_settles [OF assms, of "wr_env x" "wr_event x" "wr_fetched x" "wr_price x" s]
      by (auto simp: run_withdrawal_def)
  qed simp
qed

definition wd_example :: withdrawal where
  "wd_example = \<lparr>wd_id = ''wd1'', wd_userId = ''u1'', wd_providerWithdrawalId = None, wd_reference = Some ''ref1'', wd_currency = ''USDT'',
     wd_network = None, wd_amount = ''9'', wd_fee = None, wd_total = None, wd_txHash = None,
     wd_recipientType = None, wd_recipientAddress = None, wd_destinationTag = None, wd_narration = None, wd_transactionNote = None,
     wd_status = WdPROCESSING, wd_reason = None, wd_completedAtProvider = None, wd_transactionId = Some ''t1''\<rparr>"

definition wd_transaction_example :: transaction where
  "wd_transaction_example = (new_transaction ''t1'' ''u1'' ''ref1'' ''USDT'' DEBIT CtxWITHDRAWAL)
     \<lparr>t_totalAmountSentBase := Some 12, t_platformFeeBase := Some 2\<rparr>"

definition sys_withdrawal :: sys where
  "sys_withdrawal = sys_example\<lparr>s_db := db_example\<lparr>d_withdrawals := [wd_example],
     d_transactions := [wd_transaction_example]\<rparr>\<rparr>"

definition answer_example :: confirmedWithdrawal where
  "answer_example = \<lparr>wc_status = ''Done'', wc_amount = ''9'', wc_fee = None, wc_total = None, wc_txid = None,
     wc_doneAt = None, wc_transactionNote = None, wc_narration = None, wc_recipientAddress = None,
     wc_destinationTag = None\<rparr>"

definition wrun_example :: withdrawalRun where
  "wrun_example = \<lparr>wr_env = env_example, wr_event = ''withdraw.successful'',
     wr_fetched = Inr (''success'', Some answer_example), wr_price = None\<rparr>"

theorem withdrawal_at_most_once_witness: "settlements ''ref1'' [wrun_example, wrun_example] sys_withdrawal \<le> 1"
  by (rule withdrawal_at_most_once) (simp add: company_reference_def eval_simps)

lemmas withdrawal_eval =
  sys_withdrawal_def sys_example_def db_example_def db_empty_def wallet_example_def liquidity_example_def
  new_liquidity_def wd_example_def wd_transaction_example_def new_transaction_def answer_example_def
  env_example_def wrun_example_def

lemma sys_withdrawal_ok: "solvent (s_db sys_withdrawal)" "keys_ok (s_db sys_withdrawal)"
  by (simp_all add: withdrawal_eval solvent_def wallet_ok_def liquidity_ok_def keys_ok_def)

theorem withdrawal_gap_witness:
  "\<exists>d'. user_withdrawal_tx env_example ''withdraw.rejected'' ''ref1'' wd_example wd_transaction_example answer_example 9 0
      (s_db sys_withdrawal) = (Inr (), d') \<and> gap ''usdt'' d' = gap ''usdt'' (s_db sys_withdrawal) + 0"
proof -
  let ?tx = "user_withdrawal_tx env_example ''withdraw.rejected'' ''ref1'' wd_example wd_transaction_example answer_example 9 0"
  have "fst (?tx (s_db sys_withdrawal)) = Inr ()"
    by (simp add: withdrawal_eval user_withdrawal_tx_def settle_rejected_def releaseBalance_def releaseLiquidity_def
        wd_success_def total_sent_def verifyCurrency_def ALLOWED_CURRENCIES_def comp_defs wallet_for_def ieq_def
        updWithdrawals_def updTransactions_def sqlWallets_def sqlLiquidity_def guarded_count_def guarded_update_def
        w_release_def l_release_def l_key_def network_matches_def eval_simps)
  then have run: "?tx (s_db sys_withdrawal) = (Inr (), snd (?tx (s_db sys_withdrawal)))" by (simp add: prod_eq_iff)
  have "\<not> wd_success ''withdraw.rejected''" by (simp add: wd_success_def)
  with withdrawal_gap [OF sys_withdrawal_ok(2) run, of "''usdt''"] run show ?thesis by auto
qed

theorem withdrawal_keeps_solvent_witness: "solvent (s_db (run_withdrawal ''ref1'' wrun_example sys_withdrawal))"
  unfolding run_withdrawal_def
proof (rule withdrawal_keeps_solvent)
  show "solvent (s_db sys_withdrawal)" by (rule sys_withdrawal_ok)
  show "\<forall>t \<in> set (d_transactions (s_db sys_withdrawal)). 0 \<le> total_sent t"
    by (simp add: withdrawal_eval total_sent_def)
next
  fix c currency a
  assume "confirmed_done (wr_fetched wrun_example) = Some c" "toBase (e_cv (wr_env wrun_example)) (wc_amount c) currency None = Inr a"
  then have "toBase cv_example ''9'' currency None = Inr a" by (auto simp: withdrawal_eval confirmed_done_def)
  moreover have "\<not> has_exponent (trim ''9'')" by (simp add: currency_eval eval_simps)
  ultimately obtain d where "base_units ''9'' (to_lower currency) d (trim ''9'') = Inr a"
    by (auto simp: toBase_no_exponent split: sum.splits)
  then show "0 \<le> a" by (auto simp: currency_eval eval_simps split: if_splits)
qed

section \<open>What the handler does not settle\<close>

text \<open>A rejected withdrawal is released only when the provider reports its record as
  \<^verbatim>\<open>Done\<close>: with any other status, as with no answer, the handler changes nothing at all, and
  the user's reservation and the company's stay as they are.\<close>

theorem rejection_needs_done:
  assumes "\<And>data. fetched = Inr (''success'', Some data) \<Longrightarrow> wc_status data \<noteq> ''Done''"
  shows "withdrawal_process env ''withdraw.rejected'' reference fetched price s = (Inr (), s)"
proof -
  have "confirmed_done fetched = None"
    using assms by (auto simp: confirmed_done_def split: sum.splits option.splits)
  then show ?thesis
    by (simp add: withdrawal_process_def handle_user_withdrawal_def handle_company_withdrawal_def comp_defs
        split: option.split)
qed

theorem rejection_needs_done_witness:
  "withdrawal_process env_example ''withdraw.rejected'' (Some ''ref1'')
     (Inr (''success'', Some (answer_example\<lparr>wc_status := ''Rejected''\<rparr>))) None sys_withdrawal = (Inr (), sys_withdrawal)"
  by (rule rejection_needs_done) simp

text \<open>When the settlement of a withdrawal fails for a reason that is not transient, the
  record becomes FAILED, both reservations stay where they were, and no later delivery of
  the event does anything: the amount remains reserved.\<close>

theorem failed_settlement_keeps_reservation:
  assumes "\<not> company_reference ref" "ref \<noteq> []" "withdrawal_by_reference ref (s_db s) = Some wd"
    and "linked_transaction wd (s_db s) = Some t" "\<not> terminal (wd_status wd)" "t_totalAmountSentBase t \<noteq> None"
    and "confirmed_done fetched = Some c" "toBase (e_cv env) (wc_amount c) (wd_currency wd) None = Inr a"
    and "fee_base env c (wd_currency wd) = Inr f" "e_txFault env ''withdrawal'' = None"
    and "fst (user_withdrawal_tx env event ref wd t c a f (s_db s)) = Inl e" "\<not> isTransientPrismaError e"
  shows "\<exists>s'. withdrawal_process env event (Some ref) fetched price s = (Inr (), s')
    \<and> d_wallets (s_db s') = d_wallets (s_db s) \<and> d_liquidity (s_db s') = d_liquidity (s_db s)
    \<and> (\<forall>env2 event2 fetched2 price2.
         snd (withdrawal_process env2 event2 (Some ref) fetched2 price2 s') = s')"
proof -
  let ?f = "\<lambda>x. x\<lparr>wd_status := WdFAILED, wd_reason := Some (err_msg e), wd_completedAtProvider := Some (e_now env)\<rparr>"
  let ?s = "s\<lparr>s_db := s_db s\<lparr>d_withdrawals := update_where (\<lambda>x. wd_id x = wd_id wd) ?f (d_withdrawals (s_db s))\<rparr>\<rparr>"
  obtain d' where tx: "user_withdrawal_tx env event ref wd t c a f (s_db s) = (Inl e, d')"
    using assms(11) by (metis prod.collapse)
  have fail: "settle_or_fail env event (t_id t) (user_withdrawal_tx env event ref wd t c a f)
      (mark_withdrawal_failed env wd) s = (Inr False, ?s)"
    using assms(10,12)
    by (simp add: settle_or_fail_def txM_def tx comp_defs dbM_def mark_withdrawal_failed_def updWithdrawals_def)
  have run: "withdrawal_process env event (Some ref) fetched price s = (Inr (), ?s)"
    using assms(1-5,7-9) not_None_eq [THEN iffD1, OF assms(6)] fail
    by (auto simp add: withdrawal_process_def truthy_def handle_user_withdrawal_def bindM_def getM_def liftM_def returnM_def whenM_def)
  moreover have "settled ref (s_db ?s)"
    using assms(3) by (intro settled_update [where wd = wd and d = "s_db s" and f = ?f]) (simp_all add: terminal_def)
  ultimately show ?thesis using settled_process [OF _ assms(1)] by (intro exI [of _ ?s]) simp
qed

theorem failed_settlement_keeps_reservation_witness:
  "\<exists>s'. withdrawal_process env_example ''withdraw.successful'' (Some ''ref1'') (Inr (''success'', Some answer_example)) None
      (sys_withdrawal\<lparr>s_db := s_db sys_withdrawal\<lparr>d_liquidity := []\<rparr>\<rparr>) = (Inr (), s')
    \<and> d_wallets (s_db s') = d_wallets (s_db (sys_withdrawal\<lparr>s_db := s_db sys_withdrawal\<lparr>d_liquidity := []\<rparr>\<rparr>))
    \<and> d_liquidity (s_db s') = d_liquidity (s_db (sys_withdrawal\<lparr>s_db := s_db sys_withdrawal\<lparr>d_liquidity := []\<rparr>\<rparr>))
    \<and> (\<forall>env2 event2 fetched2 price2.
         snd (withdrawal_process env2 event2 (Some ''ref1'') fetched2 price2 s') = s')"
proof (rule failed_settlement_keeps_reservation [where wd = wd_example and t = wd_transaction_example and c = answer_example
      and a = 9000000000000000000 and f = 0 and e = "BadRequest ''Company USDT internal balance inconsistency''"])
  show "toBase (e_cv env_example) (wc_amount answer_example) (wd_currency wd_example) None = Inr 9000000000000000000"
    by (simp add: withdrawal_eval cv_example_def currency_eval eval_simps)
  have shown: "fromBase cv_example (ABigInt 88) ''USDT'' None = Inr ''0.000000000000000088''"
    by (simp add: cv_example_def currency_eval eval_simps)
  show "fst (user_withdrawal_tx env_example ''withdraw.successful'' ''ref1'' wd_example wd_transaction_example answer_example
      9000000000000000000 0 (s_db (sys_withdrawal\<lparr>s_db := s_db sys_withdrawal\<lparr>d_liquidity := []\<rparr>\<rparr>)))
      = Inl (BadRequest ''Company USDT internal balance inconsistency'')"
    by (simp add: withdrawal_eval user_withdrawal_tx_def settle_success_def total_sent_def platform_fee_def wd_success_def
      wallet_for_def ieq_def comp_defs updWithdrawals_def update_where_def sqlWallets_def guarded_count_def guarded_update_def
      w_settle_def refreshOriginalBalance_def base_of_def updWallets_def updateInternalBalance_def verifyCurrency_def
      liquidity_for_def shown ALLOWED_CURRENCIES_def eval_simps)
qed (simp_all add: withdrawal_eval company_reference_def withdrawal_by_reference_def linked_transaction_def
    transaction_by_id_def terminal_def confirmed_done_def fee_base_def truthy_def isTransientPrismaError_def eval_simps)

section \<open>Two deliveries at once\<close>

text \<open>The transaction of a delivery that read the withdrawal before another one settled it.\<close>

definition db_race :: db where
  "db_race = (s_db sys_withdrawal)\<lparr>d_wallets := [wallet_example\<lparr>w_reservedBalance := 30\<rparr>]\<rparr>"

text \<open>The status of a withdrawal is read before the transaction and not read again in it: two
  deliveries that both read PROCESSING both settle it. Here the user has other amounts
  reserved (30 in all), the withdrawal is of 12, and 24 are taken from the balance and 20
  from company liquidity.\<close>

theorem withdrawal_race_settles_twice:
  "\<exists>d1 d2. withdrawal_by_reference ''ref1'' db_race = Some wd_example \<and> \<not> terminal (wd_status wd_example)
     \<and> user_withdrawal_tx env_example ''withdraw.successful'' ''ref1'' wd_example wd_transaction_example answer_example 9 0
         db_race = (Inr (), d1)
     \<and> settled ''ref1'' d1
     \<and> user_withdrawal_tx env_example ''withdraw.successful'' ''ref1'' wd_example wd_transaction_example answer_example 9 0
         d1 = (Inr (), d2)
     \<and> total_sent wd_transaction_example = 12 \<and> owed ''USDT'' d2 = owed ''USDT'' db_race - 24
     \<and> internal ''USDT'' d2 = internal ''USDT'' db_race - 20"
proof -
  have shown: "fromBase cv_example (ABigInt 88) ''USDT'' None = Inr ''0.000000000000000088''"
    "fromBase cv_example (ABigInt 76) ''USDT'' None = Inr ''0.000000000000000076''"
    by (simp_all add: cv_example_def currency_eval eval_simps)
  let ?tx = "user_withdrawal_tx env_example ''withdraw.successful'' ''ref1'' wd_example wd_transaction_example answer_example 9 0"
  let ?wd = "settled_withdrawal env_example ''withdraw.successful'' wd_transaction_example answer_example wd_example"
  let ?t = "settled_transaction env_example ''withdraw.successful'' wd_example answer_example 9 0 wd_transaction_example"
  let ?d1 = "db_race\<lparr>d_wallets := [wallet_example\<lparr>w_baseBalance := 88, w_reservedBalance := 18,
      w_originalBalance := ''0.000000000000000088''\<rparr>],
    d_liquidity := [liquidity_example\<lparr>l_totalBalance := 490, l_reservedBalance := 38, l_internalBalance := 90\<rparr>],
    d_withdrawals := [?wd], d_transactions := [?t]\<rparr>"
  let ?d2 = "db_race\<lparr>d_wallets := [wallet_example\<lparr>w_baseBalance := 76, w_reservedBalance := 6,
      w_originalBalance := ''0.000000000000000076''\<rparr>],
    d_liquidity := [liquidity_example\<lparr>l_totalBalance := 480, l_reservedBalance := 26, l_internalBalance := 80\<rparr>],
    d_withdrawals := [?wd], d_transactions := [?t]\<rparr>"
  note eval = user_withdrawal_tx_def settle_success_def total_sent_def platform_fee_def wd_success_def
      wallet_for_def ieq_def comp_defs updWithdrawals_def update_where_def sqlWallets_def sqlLiquidity_def
      guarded_count_def guarded_update_def w_settle_def refreshOriginalBalance_def base_of_def updWallets_def
      updLiquidity_def updateInternalBalance_def verifyCurrency_def consumeReservedLiquidity_def releaseLiquidity_def
      l_key_def l_consume_def l_release_def updTransactions_def liquidity_for_def ALLOWED_CURRENCIES_def
      settled_withdrawal_def settled_transaction_def nullish_def shown eval_simps
  have a: "?tx db_race = (Inr (), ?d1)"
    by (simp add: db_race_def withdrawal_eval eval)
  have b: "?tx ?d1 = (Inr (), ?d2)"
    by (simp add: db_race_def withdrawal_eval eval)
  have c: "settled ''ref1'' ?d1" "withdrawal_by_reference ''ref1'' db_race = Some wd_example"
    "\<not> terminal (wd_status wd_example)" "total_sent wd_transaction_example = 12"
    by (simp_all add: settled_def withdrawal_by_reference_def settled_withdrawal_def terminal_def total_sent_def
        wd_success_def db_race_def withdrawal_eval)
  have d: "owed ''USDT'' ?d2 = owed ''USDT'' db_race - 24" "internal ''USDT'' ?d2 = internal ''USDT'' db_race - 20"
    by (simp_all add: owed_def internal_def ieq_def db_race_def withdrawal_eval to_lower_def)
  from a b c d show ?thesis by blast
qed

end
