(* ===== verification/StackBooks.thy ===== *)
theory StackBooks
  imports AutoStack Withdrawal
begin

text \<open>
  The books of auto-stacking. For USDT three sums go together: what the users hold stacked
  on their wallets, what the company records as stacked, and the amounts of the plans that
  are active. The lemmas follow them, and the reservations, through an execution, its
  failure, a cancellation and an unlock.
\<close>

section \<open>The sums\<close>

definition stacked :: "string \<Rightarrow> db \<Rightarrow> int" where
  "stacked c d = sum_list (map w_stackedAmount (filter (\<lambda>w. ieq (w_currency w) c) (d_wallets d)))"

definition total_stacked :: "string \<Rightarrow> db \<Rightarrow> int" where
  "total_stacked c d = sum_list (map l_totalAmountStacked (filter (\<lambda>l. ieq (l_currency l) c) (d_liquidity d)))"

definition plan_amount :: "autoStack \<Rightarrow> int" where
  "plan_amount a = (if a_status a = ASACTIVE then a_amount a else 0)"

definition active_plans :: "db \<Rightarrow> int" where
  "active_plans d = sum_list (map plan_amount (d_autoStacks d))"

definition stack_keys :: "db \<Rightarrow> bool" where
  "stack_keys d \<longleftrightarrow> keys_ok d \<and> distinct (map a_id (d_autoStacks d)) \<and> liquidity_for ''USDT'' d \<noteq> None"

lemma active_plans_update:
  assumes "distinct (map a_id (d_autoStacks d))" "a \<in> set (d_autoStacks d)"
    and "d_autoStacks d' = update_where (\<lambda>x. a_id x = a_id a) f (d_autoStacks d)"
  shows "active_plans d' = active_plans d + (plan_amount (f a) - plan_amount a)"
  using sum_update_where [of a_id "d_autoStacks d" a "a_id a" "\<lambda>_. True" f plan_amount "plan_amount (f a) - plan_amount a"]
    assms by (simp add: active_plans_def)

lemma total_stacked_update:
  assumes "stack_keys d" "liquidity_for ''USDT'' d = Some l"
    and "d_liquidity d' = update_where (\<lambda>x. ieq (l_currency x) ''USDT'') f (d_liquidity d)"
    and "\<And>x. l_currency (f x) = l_currency x"
  shows "total_stacked c d' = total_stacked c d
    + (if ieq ''USDT'' c then l_totalAmountStacked (f l) - l_totalAmountStacked l else 0)"
proof -
  have l: "l \<in> set (d_liquidity d)" "ieq (l_currency l) ''USDT''"
    using find_Some_in [OF assms(2) [unfolded liquidity_for_def]] by simp_all
  have dist: "distinct (map (\<lambda>x. to_lower (l_currency x)) (d_liquidity d))"
    using assms(1) by (simp add: stack_keys_def keys_ok_def)
  have k: "to_lower (l_currency l) = to_lower ''USDT''" using l(2) by (simp only: ieq_def)
  have "total_stacked c d' = total_stacked c d
      + (if ieq (l_currency l) c then l_totalAmountStacked (f l) - l_totalAmountStacked l else 0)"
    unfolding total_stacked_def assms(3) ieq_def
    by (rule sum_update_where [OF dist l(1) k]) (simp_all add: assms(4))
  then show ?thesis using ieq_trans_lower [OF l(2), of c] by simp
qed

lemma wallet_sum_update:
  assumes "keys_ok d" "w \<in> set (d_wallets d)" "d_wallets d' = update_where (\<lambda>x. w_id x = w_id w) f (d_wallets d)"
    and "\<And>x. w_currency (f x) = w_currency x"
  shows "owed c d' = owed c d + (if ieq (w_currency w) c then w_baseBalance (f w) - w_baseBalance w else 0)"
    and "stacked c d' = stacked c d + (if ieq (w_currency w) c then w_stackedAmount (f w) - w_stackedAmount w else 0)"
proof -
  have dist: "distinct (map w_id (d_wallets d))" using assms(1) by (simp add: keys_ok_def)
  show "owed c d' = owed c d + (if ieq (w_currency w) c then w_baseBalance (f w) - w_baseBalance w else 0)"
    unfolding owed_def assms(3) by (rule sum_update_where [OF dist assms(2) refl]) (simp_all add: assms(4))
  show "stacked c d' = stacked c d + (if ieq (w_currency w) c then w_stackedAmount (f w) - w_stackedAmount w else 0)"
    unfolding stacked_def assms(3) by (rule sum_update_where [OF dist assms(2) refl]) (simp_all add: assms(4))
qed

section \<open>An execution from the USDT wallet\<close>

definition shown_wallet :: "string \<Rightarrow> (wallet \<Rightarrow> wallet option) \<Rightarrow> wallet \<Rightarrow> wallet" where
  "shown_wallet shown upd w = (case upd w of None \<Rightarrow> w | Some w' \<Rightarrow> w')\<lparr>w_originalBalance := shown\<rparr>"

lemma w_stack_id: "w_id (case w_stack b a w of None \<Rightarrow> w | Some w' \<Rightarrow> w') = w_id w"
  by (simp add: w_stack_def)

lemma wallet_tx_run:
  assumes "autostack_wallet_tx env a i m p d = (Inr u, d')"
  shows "\<exists>c w shown. crypto_by_symbol ''USDT'' d = Some c \<and> usdt_wallet (a_userId a) (c_id c) d = Some w
    \<and> guarded_count (\<lambda>x. w_id x = w_id w) (w_stack (sp_source p + sp_fee p) (sp_source p)) (d_wallets d) \<noteq> 0
    \<and> d_wallets d' = update_where (\<lambda>x. w_id x = w_id w)
        (shown_wallet shown (w_stack (sp_source p + sp_fee p) (sp_source p))) (d_wallets d)
    \<and> d_liquidity d' = update_where (\<lambda>l. ieq (l_currency l) ''USDT'')
        (\<lambda>l. l\<lparr>l_totalAmountStacked := l_totalAmountStacked l + sp_source p\<rparr>) (d_liquidity d)
    \<and> d_autoStacks d' = update_where (\<lambda>x. a_id x = a_id a)
        (stack_executed env (a_status a = ASPENDING) (sp_source p) a) (d_autoStacks d)"
  using assms
  unfolding autostack_wallet_tx_def run_bind run_then run_get run_some run_upd run_require run_shown_db
    run_sqlWallets refreshOriginalBalance_run Let_def
  apply (elim exE conjE)
  apply hypsubst_thin
  apply (intro exI conjI, assumption, assumption, assumption)
  apply (simp_all add: guarded_update_where update_where_twice w_stack_id shown_wallet_def [abs_def])
  done

text \<open>C24: an execution from the USDT wallet moves the amount of the period from the balance to the stacked
  amount and charges the fee, nothing else: the users' balances and stacks together lose the
  fee only, and the three records of what is stacked (wallets, company, active plans) all rise
  by that amount.\<close>

theorem autostack_wallet_conserves:
  assumes "stack_keys d" "autostack_wallet_tx env a i m p d = (Inr u, d')"
    and "a \<in> set (d_autoStacks d)" "a_status a = ASPENDING \<or> a_status a = ASACTIVE"
    and "\<And>c w. usdt_wallet (a_userId a) c d = Some w \<Longrightarrow> ieq (w_currency w) ''USDT''"
  shows "owed ''USDT'' d' + stacked ''USDT'' d' = owed ''USDT'' d + stacked ''USDT'' d - sp_fee p
    \<and> stacked ''USDT'' d' = stacked ''USDT'' d + sp_source p
    \<and> total_stacked ''USDT'' d' = total_stacked ''USDT'' d + sp_source p
    \<and> active_plans d' = active_plans d + sp_source p"
proof -
  let ?u = "w_stack (sp_source p + sp_fee p) (sp_source p)"
  let ?g = "\<lambda>l :: liquidity. l\<lparr>l_totalAmountStacked := l_totalAmountStacked l + sp_source p\<rparr>"
  have keys: "keys_ok d" and ids: "distinct (map a_id (d_autoStacks d))" using assms(1) by (simp_all add: stack_keys_def)
  obtain l where l: "liquidity_for ''USDT'' d = Some l" using assms(1) by (auto simp: stack_keys_def)
  obtain c :: cryptoCurrency and w shown where w: "usdt_wallet (a_userId a) (c_id c) d = Some w"
    and n: "guarded_count (\<lambda>x. w_id x = w_id w) ?u (d_wallets d) \<noteq> 0"
    and ws: "d_wallets d' = update_where (\<lambda>x. w_id x = w_id w) (shown_wallet shown ?u) (d_wallets d)"
    and ls: "d_liquidity d' = update_where (\<lambda>l. ieq (l_currency l) ''USDT'') ?g (d_liquidity d)"
    and as: "d_autoStacks d' = update_where (\<lambda>x. a_id x = a_id a)
        (stack_executed env (a_status a = ASPENDING) (sp_source p) a) (d_autoStacks d)"
    using wallet_tx_run [OF assms(2)] by blast
  have w_in: "w \<in> set (d_wallets d)" using find_Some_in [OF w [unfolded usdt_wallet_def]] by simp
  have cur: "ieq (w_currency w) ''USDT''" by (rule assms(5) [OF w])
  have "?u w \<noteq> None" by (rule guarded_count_unique [OF _ w_in refl n]) (use keys in \<open>simp add: keys_ok_def\<close>)
  then have f: "w_baseBalance (shown_wallet shown ?u w) = w_baseBalance w - (sp_source p + sp_fee p)"
    "w_stackedAmount (shown_wallet shown ?u w) = w_stackedAmount w + sp_source p"
    by (auto simp: shown_wallet_def w_stack_def split: if_splits)
  have same: "w_currency (shown_wallet shown ?u x) = w_currency x" for x
    by (simp add: shown_wallet_def w_stack_def)
  have "total_stacked ''USDT'' d' = total_stacked ''USDT'' d + sp_source p"
    using total_stacked_update [OF assms(1) l ls, of "''USDT''"] by (simp add: ieq_def)
  moreover have "active_plans d' = active_plans d + sp_source p"
    using active_plans_update [OF ids assms(3) as] assms(4)
    by (auto simp: plan_amount_def stack_executed_def)
  ultimately show ?thesis
    using wallet_sum_update [OF keys w_in ws same, of "''USDT''"] f cur by simp
qed


section \<open>A failed execution\<close>

lemma reserveBalance_run:
  "reserveBalance u c a n d = (Inr v, d') \<Longrightarrow> d' = d\<lparr>d_wallets := d_wallets d'\<rparr>"
  by (auto simp: reserveBalance_eq split: option.splits if_splits)

lemma reserveLiquidity_run:
  "reserveLiquidity c a d = (Inr v, d') \<Longrightarrow> d' = d\<lparr>d_liquidity := d_liquidity d'\<rparr>"
  by (auto simp: reserveLiquidity_eq split: sum.splits)

text \<open>The releases read one table each.\<close>

lemma releaseBalance_table:
  assumes "releaseBalance u c a n d1 = (Inr (), d)" "d_wallets d2 = d_wallets d1"
  shows "releaseBalance u c a n d2 = (Inr (), d2\<lparr>d_wallets := d_wallets d\<rparr>)"
  using assms by (auto simp: releaseBalance_eq wallet_for_def split: option.splits if_splits)

lemma releaseLiquidity_table:
  assumes "releaseLiquidity c a d1 = (Inr (), d)" "d_liquidity d2 = d_liquidity d1"
  shows "releaseLiquidity c a d2 = (Inr (), d2\<lparr>d_liquidity := d_liquidity d\<rparr>)"
proof -
  have "d2 = d2\<lparr>d_liquidity := d_liquidity d2\<rparr>" by simp
  with assms show ?thesis by (auto simp: releaseLiquidity_eq split: sum.splits if_splits)
qed

lemma reserve_nothing:
  assumes "solvent d" "reserveLiquidity c 0 d = (Inr b, d')"
  shows "d_liquidity d' = d_liquidity d"
proof -
  have "l_reserve 0 l = Some l" if "l \<in> set (d_liquidity d)" for l
    using assms(1) that by (auto simp: l_reserve_def solvent_def list_all_iff liquidity_ok_def)
  then have "guarded_update k (l_reserve 0) (d_liquidity d) = d_liquidity d" for k
    by (auto simp: guarded_update_def intro: map_idI)
  with assms(2) show ?thesis by (auto simp: reserveLiquidity_eq split: sum.splits)
qed

text \<open>
  \<open>undoable\<close>: the failure transaction finds the database \<open>d1\<close> and can take the wallets and the
  liquidity back to those of \<open>d0\<close>: nothing is reserved, or what the metadata says is.
\<close>

definition back_liquidity :: "db \<Rightarrow> db \<Rightarrow> string \<Rightarrow> int \<Rightarrow> bool" where
  "back_liquidity d0 d1 c a \<longleftrightarrow> (\<forall>d2. d_liquidity d2 = d_liquidity d1 \<longrightarrow>
     releaseLiquidity c a d2 = (Inr (), d2\<lparr>d_liquidity := d_liquidity d0\<rparr>))"

definition back_wallets :: "db \<Rightarrow> db \<Rightarrow> string \<Rightarrow> string \<Rightarrow> int \<Rightarrow> bool" where
  "back_wallets d0 d1 u c a \<longleftrightarrow> (\<forall>d2. d_wallets d2 = d_wallets d1 \<longrightarrow>
     releaseBalance u c a None d2 = (Inr (), d2\<lparr>d_wallets := d_wallets d0\<rparr>))"

definition undoable :: "string \<Rightarrow> string \<Rightarrow> stackParams \<Rightarrow> db \<Rightarrow> db \<Rightarrow> bool" where
  "undoable u i p d0 d1 \<longleftrightarrow> (\<exists>t. transaction_by_id i d1 = Some t \<and>
     (\<not> is_reserved (t_meta t) \<and> d_wallets d1 = d_wallets d0 \<and> d_liquidity d1 = d_liquidity d0
      \<or> is_reserved (t_meta t)
        \<and> (\<exists>c a. mget (t_meta t) ''liquidityReservationCurrency'' = c \<and> c \<noteq> []
             \<and> mget (t_meta t) ''liquidityReservationAmount'' = show_int a \<and> back_liquidity d0 d1 c a)
        \<and> (if sp_wallet p then back_wallets d0 d1 u (sp_sourceAsset p) (sp_total p)
           else d_wallets d1 = d_wallets d0)))"

lemma show_int_nonempty [simp]: "show_int a \<noteq> []"
  by (simp add: show_int_def)

lemma fail_tx_restores:
  assumes "undoable u i p d0 d1"
  shows "\<exists>d2. autostack_fail_tx env u i p err d1 = (Inr (), d2) \<and> d_wallets d2 = d_wallets d0 \<and> d_liquidity d2 = d_liquidity d0"
proof -
  obtain t where t: "transaction_by_id i d1 = Some t"
    and cases: "\<not> is_reserved (t_meta t) \<and> d_wallets d1 = d_wallets d0 \<and> d_liquidity d1 = d_liquidity d0
      \<or> is_reserved (t_meta t)
        \<and> (\<exists>c a. mget (t_meta t) ''liquidityReservationCurrency'' = c \<and> c \<noteq> []
             \<and> mget (t_meta t) ''liquidityReservationAmount'' = show_int a \<and> back_liquidity d0 d1 c a)
        \<and> (if sp_wallet p then back_wallets d0 d1 u (sp_sourceAsset p) (sp_total p)
           else d_wallets d1 = d_wallets d0)"
    using assms unfolding undoable_def by blast
  from cases show ?thesis
  proof (elim disjE conjE exE)
    assume "\<not> is_reserved (t_meta t)" "d_wallets d1 = d_wallets d0" "d_liquidity d1 = d_liquidity d0"
    then show ?thesis
      by (simp add: autostack_fail_tx_def comp_defs Let_def t is_reserved_def updTransactions_def)
  next
    fix c a
    assume r: "is_reserved (t_meta t)" and c: "mget (t_meta t) ''liquidityReservationCurrency'' = c" "c \<noteq> []"
      "mget (t_meta t) ''liquidityReservationAmount'' = show_int a"
      and l: "back_liquidity d0 d1 c a"
      and w: "if sp_wallet p then back_wallets d0 d1 u (sp_sourceAsset p) (sp_total p) else d_wallets d1 = d_wallets d0"
    have rl: "releaseLiquidity c a d1 = (Inr (), d1\<lparr>d_liquidity := d_liquidity d0\<rparr>)"
      using l by (simp add: back_liquidity_def)
    show ?thesis
    proof (cases "sp_wallet p")
      case True
      with w have "releaseBalance u (sp_sourceAsset p) (sp_total p) None (d1\<lparr>d_liquidity := d_liquidity d0\<rparr>)
          = (Inr (), d1\<lparr>d_liquidity := d_liquidity d0, d_wallets := d_wallets d0\<rparr>)"
        by (simp add: back_wallets_def)
      with True rl r c show ?thesis
        by (simp add: autostack_fail_tx_def comp_defs Let_def t is_reserved_def updTransactions_def quietly_def)
    next
      case False
      with w rl r c show ?thesis
        by (simp add: autostack_fail_tx_def comp_defs Let_def t is_reserved_def updTransactions_def quietly_def)
    qed
  qed
qed


lemma verifyCurrency_nonempty: "verifyCurrency c = Inr n \<Longrightarrow> c \<noteq> []"
  by (auto simp: verifyCurrency_def ALLOWED_CURRENCIES_def eval_simps)

lemma reserveLiquidity_verified: "reserveLiquidity c a d = (Inr b, d') \<Longrightarrow> c \<noteq> []"
  by (auto simp: reserveLiquidity_eq dest: verifyCurrency_nonempty split: sum.splits)

lemma liquidity_back:
  assumes "solvent d" "keys_ok d" "0 \<le> a" "reserveLiquidity c a d = (Inr True, d')" "d_liquidity d1 = d_liquidity d'"
  shows "back_liquidity d d1 c a"
proof (cases "a = 0")
  case True
  have "releaseLiquidity c 0 d2 = (Inr (), d2)" for d2
    using assms(4) True by (auto simp: reserveLiquidity_eq releaseLiquidity_eq split: sum.splits)
  moreover have "d_liquidity d1 = d_liquidity d" using reserve_nothing [OF assms(1)] assms(4,5) True by simp
  ultimately show ?thesis using True by (auto simp: back_liquidity_def)
next
  case False
  then have "releaseLiquidity c a d' = (Inr (), d)"
    using liquidity_reservation_undone [OF assms(1) _ _ assms(4)] assms(2,3) by (simp add: keys_ok_def)
  from releaseLiquidity_table [OF this] assms(5) show ?thesis by (simp add: back_liquidity_def)
qed

lemma wallets_back:
  assumes "solvent d" "keys_ok d" "reserveBalance u c a None d = (Inr v, d')" "d_wallets d1 = d_wallets d'"
  shows "back_wallets d d1 u c a"
proof -
  have "releaseBalance u c a None d' = (Inr (), d)"
    using balance_reservation_undone [OF assms(1), of u c a None] assms(2,3) by (simp add: keys_ok_def)
  from releaseBalance_table [OF this] assms(4) show ?thesis by (simp add: back_wallets_def)
qed

lemma solvent_reserved: "solvent d \<Longrightarrow> 0 \<le> a \<Longrightarrow> reserveBalance u c a n d = (Inr v, d') \<Longrightarrow> solvent d'"
  using preservesD [OF solvent_reserveBalance, of a d u c n] by simp

lemma reserve_tx_run:
  assumes "autostack_reserve_tx env u i m p d = (Inr v, d1)" "\<not> is_reserved m"
  shows "\<exists>x dw y dl f. reserveBalance u (sp_sourceAsset p) (sp_total p) None d = (Inr x, dw)
    \<and> reserveLiquidity (sp_sourceAsset p) (sp_source p) dw = (Inr y, dl) \<and> y
    \<and> d1 = dl\<lparr>d_transactions := update_where (\<lambda>t. t_id t = i) f (d_transactions dl)\<rparr>
    \<and> (\<forall>t. t_id (f t) = t_id t \<and> t_meta (f t) = mset_all (reserved_meta (sp_sourceAsset p) (sp_source p) @
            [(''sourceFeeAmountBase'', show_int (sp_sourceFee p)),
             (''totalSourceWalletDeductionBase'', show_int (sp_total p))]) m)"
proof -
  have n: "\<not> already_reserved m (sp_sourceAsset p) (sp_source p)" using assms(2) by (simp add: already_reserved_def is_reserved_def)
  show ?thesis
    using assms(1)
    unfolding autostack_reserve_tx_def run_then run_bind run_when run_upd run_shown_db run_require if_P [OF n]
    apply (elim exE conjE)
    apply hypsubst_thin
    apply (intro exI conjI, assumption, assumption, assumption)
     apply (rule refl)
    apply simp
    done
qed

lemma reserve_tx_undoable:
  assumes "solvent d" "keys_ok d" "tx_there i d" "\<not> is_reserved m" "0 \<le> sp_source p" "0 \<le> sp_total p" "sp_wallet p"
    and "autostack_reserve_tx env u i m p d = (Inr v, d1)"
  shows "undoable u i p d d1"
proof -
  obtain x dw y dl and f :: "transaction \<Rightarrow> transaction"
    where w: "reserveBalance u (sp_sourceAsset p) (sp_total p) None d = (Inr x, dw)"
    and l0: "reserveLiquidity (sp_sourceAsset p) (sp_source p) dw = (Inr y, dl)" "y"
    and d1: "d1 = dl\<lparr>d_transactions := update_where (\<lambda>t. t_id t = i) f (d_transactions dl)\<rparr>"
    and f0: "\<forall>t. t_id (f t) = t_id t \<and> t_meta (f t) = mset_all (reserved_meta (sp_sourceAsset p) (sp_source p) @
            [(''sourceFeeAmountBase'', show_int (sp_sourceFee p)),
             (''totalSourceWalletDeductionBase'', show_int (sp_total p))]) m"
    using reserve_tx_run [OF assms(8,4)] by blast
  have l: "reserveLiquidity (sp_sourceAsset p) (sp_source p) dw = (Inr True, dl)" using l0 by simp
  have f: "\<And>t. t_id (f t) = t_id t" "\<And>t. t_meta (f t) = mset_all (reserved_meta (sp_sourceAsset p) (sp_source p) @
            [(''sourceFeeAmountBase'', show_int (sp_sourceFee p)),
             (''totalSourceWalletDeductionBase'', show_int (sp_total p))]) m" using f0 by simp_all
  note dw = reserveBalance_run [OF w] and dl = reserveLiquidity_run [OF l]
  have s: "solvent dw" by (rule solvent_reserved [OF assms(1,6) w])
  have "map w_id (d_wallets dw) = map w_id (d_wallets d)"
    using w by (auto simp: reserveBalance_eq guarded_update_def w_reserve_def split: option.splits if_splits)
  moreover have "d_liquidity dw = d_liquidity d" using arg_cong [OF dw, of d_liquidity] by simp
  ultimately have k: "keys_ok dw" using assms(2) by (simp add: keys_ok_def)
  have wl: "d_wallets d1 = d_wallets dw" "d_liquidity d1 = d_liquidity dl"
    unfolding d1 using arg_cong [OF dl, of d_wallets] by simp_all
  have ts: "d_transactions dl = d_transactions d" using arg_cong [OF dl, of d_transactions] arg_cong [OF dw, of d_transactions] by simp
  obtain t where t: "transaction_by_id i d = Some t" using assms(3) by (auto simp: tx_there_def)
  have t1: "transaction_by_id i d1 = Some (f t)"
    using t f(1) by (simp add: d1 transaction_by_id_def find_same_id ts)
  have bl: "back_liquidity d d1 (sp_sourceAsset p) (sp_source p)"
    using liquidity_back [OF s k assms(5) l wl(2)] \<open>d_liquidity dw = d_liquidity d\<close> by (simp add: back_liquidity_def)
  have bw: "back_wallets d d1 u (sp_sourceAsset p) (sp_total p)"
    by (rule wallets_back [OF assms(1,2) w wl(1)])
  have m: "is_reserved (t_meta (f t))" "mget (t_meta (f t)) ''liquidityReservationCurrency'' = sp_sourceAsset p"
    "mget (t_meta (f t)) ''liquidityReservationAmount'' = show_int (sp_source p)"
    unfolding f(2) by (simp_all add: is_reserved_def reserved_meta_def)
  show ?thesis
    unfolding undoable_def
    using t1 m bl bw assms(7) reserveLiquidity_verified [OF l]
    by (intro exI [of _ "f t"] conjI disjI2 exI [of _ "sp_sourceAsset p"] exI [of _ "sp_source p"]) simp_all
qed

lemma undoable_same:
  "transaction_by_id i d1 = Some t \<Longrightarrow> \<not> is_reserved (t_meta t) \<Longrightarrow> d_wallets d1 = d_wallets d0
     \<Longrightarrow> d_liquidity d1 = d_liquidity d0 \<Longrightarrow> undoable u i p d0 d1"
  by (auto simp: undoable_def)

lemma card_tx_undoable:
  assumes "solvent d" "keys_ok d" "tx_there i d" "\<not> is_reserved m" "0 \<le> ct_liquidity ct" "\<not> sp_wallet p"
    and "autostack_card_tx i m p ct d = (Inr v, d1)"
  shows "undoable u i p d d1"
proof -
  have n: "\<not> already_reserved m ''NGN'' (ct_liquidity ct)" using assms(4) by (simp add: already_reserved_def is_reserved_def)
  have "\<exists>y dl. reserveLiquidity ''NGN'' (ct_liquidity ct) d = (Inr y, dl) \<and> y
      \<and> updTransactions (\<lambda>t. t_id t = i) (\<lambda>t. t\<lparr>
        t_currency := ''USDT'', t_cryptoAmountBase := Some (sp_principal p),
        t_cryptoAmountOriginal := Some (sp_principalOriginal p), t_fiatAmountBase := ct_charge ct,
        t_fiatAmountOriginal := Some (ct_chargeOriginal ct),
        t_meta := mset_all ((''paymentType'', ''CARD'') # (''sourceAsset'', sp_sourceAsset p) # card_meta ct) m\<rparr>) dl
       = (Inr v, d1)"
    using assms(7) unfolding autostack_card_tx_def run_then run_bind run_when run_require if_P [OF n] by blast
  then obtain dl where l: "reserveLiquidity ''NGN'' (ct_liquidity ct) d = (Inr True, dl)"
    and d1: "updTransactions (\<lambda>t. t_id t = i) (\<lambda>t. t\<lparr>
        t_currency := ''USDT'', t_cryptoAmountBase := Some (sp_principal p),
        t_cryptoAmountOriginal := Some (sp_principalOriginal p), t_fiatAmountBase := ct_charge ct,
        t_fiatAmountOriginal := Some (ct_chargeOriginal ct),
        t_meta := mset_all ((''paymentType'', ''CARD'') # (''sourceAsset'', sp_sourceAsset p) # card_meta ct) m\<rparr>) dl
       = (Inr v, d1)" by auto
  note dl = reserveLiquidity_run [OF l]
  obtain t where t: "transaction_by_id i d = Some t" using assms(3) by (auto simp: tx_there_def)
  have there: "transaction_by_id i dl = Some t" using t arg_cong [OF dl, of d_transactions] by (simp add: transaction_by_id_def)
  then obtain t1 where t1: "transaction_by_id i d1 = Some t1"
    "t_meta t1 = mset_all ((''paymentType'', ''CARD'') # (''sourceAsset'', sp_sourceAsset p) # card_meta ct) m"
    using d1 by (auto simp: run_upd)
  have wl: "d_wallets d1 = d_wallets d" "d_liquidity d1 = d_liquidity dl"
    using d1 arg_cong [OF dl, of d_wallets] by (simp_all add: run_upd)
  have bl: "back_liquidity d d1 ''NGN'' (ct_liquidity ct)"
    by (rule liquidity_back [OF assms(1,2,5) l wl(2)])
  have m: "is_reserved (t_meta t1)" "mget (t_meta t1) ''liquidityReservationCurrency'' = ''NGN''"
    "mget (t_meta t1) ''liquidityReservationAmount'' = show_int (ct_liquidity ct)"
    unfolding t1(2) by (simp_all add: is_reserved_def card_meta_def reserved_meta_def)
  show ?thesis
    unfolding undoable_def
    using t1(1) m bl wl(1) assms(6)
    by (intro exI [of _ t1] conjI disjI2 exI [of _ "''NGN''"] exI [of _ "ct_liquidity ct"]) simp_all
qed


lemma wp_error_only: "P \<Longrightarrow> wp m (\<lambda>_ _. True) (\<lambda>_ _. P) s"
  by (simp add: wp_def split: prod.split sum.split)

lemma swap_keeps_db: "wp (autostack_swap env sa a t p) (\<lambda>_ _. True) (\<lambda>_ s'. s_db s' = s_db s) s"
  by (simp add: autostack_swap_def wp_simps wp_error_only split: option.split sum.split)

lemma execute_undoable:
  assumes "solvent (s_db s)" "keys_ok (s_db s)" "transaction_by_id (t_id t) (s_db s) = Some x" "\<not> is_reserved (t_meta x)"
    and "\<not> is_reserved m" "0 \<le> sp_source p" "0 \<le> sp_total p"
    and "\<And>rate ct. card_terms env ops rate p = Inr ct \<Longrightarrow> 0 \<le> ct_liquidity ct"
  shows "wp (autostack_execute env ops sa a t m p) (\<lambda>_ _. True)
    (\<lambda>_ s'. undoable (a_userId a) (t_id t) p (s_db s) (s_db s')) s"
proof -
  let ?E = "\<lambda>_ s'. undoable (a_userId a) (t_id t) p (s_db s) (s_db s')"
  have same: "undoable (a_userId a) (t_id t) p (s_db s) (s_db s)"
    by (rule undoable_same [OF assms(3,4)]) simp_all
  have there: "tx_there (t_id t) (s_db s)" using assms(3) by (simp add: tx_there_def)
  have wallet: "wp (txM env l (autostack_wallet_tx env a (t_id t) m p)) (\<lambda>_ _. True) ?E s" for l
    using same by (simp add: wp_tx wp_error_only split: option.split)
  have reserve: "wp (txM env l (autostack_reserve_tx env (a_userId a) (t_id t) m p)) ?E ?E s" if "sp_wallet p" for l
    using reserve_tx_undoable [OF assms(1,2) there assms(5,6,7) that] same
    unfolding wp_tx by (auto simp: wp_def split: option.split prod.split sum.split)
  have swap: "wp (autostack_swap env sa a t p) (\<lambda>_ _. True) ?E s'" if "?E () s'" for s'
    by (rule wp_mono [OF swap_keeps_db]) (use that in simp_all)
  have card: "wp (autostack_card env ops sa t m p) (\<lambda>_ _. True) ?E s" if "\<not> sp_wallet p"
  proof -
    have "wp (txM env ''autostack_card'' (autostack_card_tx (t_id t) m p ct))
        (\<lambda>_. wp (thenM (callM c) (thenM (liftM (sa_charge sa)) (dbM (updTransactions f g)))) (\<lambda>_ _. True) ?E) ?E s"
      if ct: "0 \<le> ct_liquidity ct" for ct c f g
      using card_tx_undoable [OF assms(1,2) there assms(5) ct \<open>\<not> sp_wallet p\<close>] same
      by (auto simp: wp_tx wp_simps wp_def [of "autostack_card_tx _ _ _ _"] split: option.split prod.split sum.split)
    then show ?thesis
      unfolding autostack_card_def wp_then [of "requireM _ _"] wp_bind wp_require wp_some wp_lift
        wp_then [of "txM _ _ _"]
      using same assms(8) by (auto split: option.split sum.split)
  qed
  show ?thesis
  proof (cases "sp_wallet p")
    case True
    have "wp (thenM (txM env ''autostack_reserve'' (autostack_reserve_tx env (a_userId a) (t_id t) m p))
        (autostack_swap env sa a t p)) (\<lambda>_ _. True) ?E s"
      unfolding wp_then by (rule wp_mono [OF reserve [OF True]]) (use swap in blast)+
    with True wallet show ?thesis by (simp add: autostack_execute_def)
  next
    case False
    then show ?thesis using card by (simp add: autostack_execute_def)
  qed
qed

lemma claim_run:
  assumes "autostack_claim env i m d = (Inr c, d')" "transaction_by_id i d = Some x"
  shows "d_wallets d' = d_wallets d \<and> d_liquidity d' = d_liquidity d
    \<and> (c = None \<longrightarrow> d' = d) \<and> (\<forall>fm. c = Some fm \<longrightarrow> fm = claimed_meta env (t_meta x)
         \<and> (\<exists>y. transaction_by_id i d' = Some y \<and> t_meta y = fm))"
  using assms by (auto simp: autostack_claim_def run_simps Let_def split: if_splits)

lemma reserved_claimed: "is_reserved (claimed_meta env m) = is_reserved m"
  by (simp add: is_reserved_def claimed_meta_def)

text \<open>C20: An execution that fails leaves nothing behind: whatever the provider, the card or the database
  refuses, and at whichever step, the wallets and the company's liquidity are at the end as they
  were before, reservations included. (The transaction of the failure itself must go through.)\<close>

theorem autostack_failure_restores:
  assumes "solvent (s_db s)" "keys_ok (s_db s)" "transaction_by_id (t_id t) (s_db s) = Some x" "\<not> is_reserved (t_meta x)"
    and "\<And>p. stack_params env a t (claimed_meta env (t_meta x)) = Inr p \<Longrightarrow> 0 \<le> sp_source p \<and> 0 \<le> sp_total p"
    and "\<And>p rate ct. stack_params env a t (claimed_meta env (t_meta x)) = Inr p
      \<Longrightarrow> card_terms env ops rate p = Inr ct \<Longrightarrow> 0 \<le> ct_liquidity ct"
    and "e_txFault env ''autostack_fail'' = None"
    and "initiatePendingAutoStack env ops sa a t s = (Inl e, s')"
  shows "d_wallets (s_db s') = d_wallets (s_db s) \<and> d_liquidity (s_db s') = d_liquidity (s_db s)"
proof -
  let ?fail = "\<lambda>p err. thenM (txM env ''autostack_fail'' (autostack_fail_tx env (a_userId a) (t_id t) p err)) (throwM err)"
  obtain r d where c: "autostack_claim env (t_id t) (t_meta t) (s_db s) = (r, d)" by (cases rule: prod.exhaust)
  show ?thesis
  proof (cases "e_txFault env ''autostack_claim''")
    case (Some f)
    then have "s' = s" using assms(8) by (simp add: initiatePendingAutoStack_def bindM_def txM_def)
    then show ?thesis by simp
  next
    case None
    show ?thesis
    proof (cases r)
      case (Inl f)
      with None c have "s' = s" using assms(8) by (simp add: initiatePendingAutoStack_def bindM_def txM_def)
      then show ?thesis by simp
    next
      case (Inr cl)
      have rest: "(case cl of None \<Rightarrow> returnM () | Some m \<Rightarrow> bindM (liftM (stack_params env a t m)) (\<lambda>p.
             catchM (autostack_execute env ops sa a t m p) (?fail p))) (s\<lparr>s_db := d\<rparr>) = (Inl e, s')"
        using assms(8) None c Inr by (simp add: initiatePendingAutoStack_def bindM_def txM_def)
      note cr = claim_run [OF c [unfolded Inr] assms(3)]
      obtain m where m: "cl = Some m" using rest by (cases cl) (auto simp: returnM_def)
      then obtain y where my: "m = claimed_meta env (t_meta x)" "transaction_by_id (t_id t) d = Some y" "t_meta y = m"
        using cr by blast
      have nr: "\<not> is_reserved m" using assms(4) by (simp add: my(1) reserved_claimed)
      show ?thesis
      proof (cases "stack_params env a t m")
        case (Inl f)
        then have "s' = s\<lparr>s_db := d\<rparr>" using rest m by (simp add: bindM_def liftM_def throwM_def)
        then show ?thesis using cr by simp
      next
        case (Inr p)
        have run: "catchM (autostack_execute env ops sa a t m p) (?fail p) (s\<lparr>s_db := d\<rparr>) = (Inl e, s')"
          using rest m Inr by (simp add: bindM_def liftM_def returnM_def)
        have d: "solvent d" "keys_ok d" using assms(1,2) cr by (simp_all add: solvent_def keys_ok_def)
        have "wp (autostack_execute env ops sa a t m p) (\<lambda>_ _. True)
            (\<lambda>_ s2. undoable (a_userId a) (t_id t) p d (s_db s2)) (s\<lparr>s_db := d\<rparr>)"
          using execute_undoable [of "s\<lparr>s_db := d\<rparr>" t y m p env ops sa a] d my nr assms(5,6) Inr by simp
        then obtain err s2 where e: "autostack_execute env ops sa a t m p (s\<lparr>s_db := d\<rparr>) = (Inl err, s2)"
          "undoable (a_userId a) (t_id t) p d (s_db s2)"
          using run by (auto simp: wp_def catchM_def split: prod.splits sum.splits)
        from fail_tx_restores [OF e(2)] obtain d2 where d2: "autostack_fail_tx env (a_userId a) (t_id t) p err (s_db s2) = (Inr (), d2)"
          "d_wallets d2 = d_wallets d" "d_liquidity d2 = d_liquidity d" by blast
        have "s' = s2\<lparr>s_db := d2\<rparr>"
          using run assms(7) d2(1) by (simp add: catchM_def e(1) thenM_def bindM_def txM_def throwM_def)
        then show ?thesis using d2 cr by simp
      qed
    qed
  qed
qed


text \<open>A plan paid in BTC, 50 base units with a fee of 2; 20 of the user's 100 are reserved for something else.\<close>

definition config_btc :: transaction where
  "config_btc = config_example\<lparr>t_currency := ''BTC'',
     t_meta := [(''autoStackId'', ''a1''), (''paymentType'', ''CRYPTO_WALLET''), (''sourceAsset'', ''BTC''),
       (''principalUsdtAmountBase'', ''50''), (''transactionFeeBase'', ''2''), (''sourceAmountBase'', ''50''),
       (''autostackInitiationStatus'', ''PENDING'')]\<rparr>"

definition db_btc :: db where
  "db_btc = db_stack\<lparr>d_transactions := [config_btc], d_wallets := [wallet_example\<lparr>w_currency := ''BTC''\<rparr>],
     d_liquidity := [(new_liquidity ''l2'' ''BTC'')\<lparr>l_totalBalance := 500\<rparr>]\<rparr>"

definition params_btc :: stackParams where
  "params_btc = params_example\<lparr>sp_sourceAsset := ''BTC''\<rparr>"

lemma btc_params:
  "stack_params env_example stack_example config_btc (claimed_meta env_example (t_meta config_btc)) = Inr params_btc"
  by (simp add: stack_params_def config_btc_def config_example_def new_transaction_def mget_def mset_all_def orelse_def
      opt_str_def claimed_meta_def source_fee_def bigdiv_def parse_bigint_def amount_char_def params_btc_def
      params_example_def eval_simps)

lemma btc_claim:
  "autostack_claim env_example ''t1'' (t_meta config_btc) db_btc
     = (Inr (Some (claimed_meta env_example (t_meta config_btc))),
        db_btc\<lparr>d_transactions := [config_btc\<lparr>t_meta := claimed_meta env_example (t_meta config_btc)\<rparr>]\<rparr>)"
  by (simp add: autostack_claim_def comp_defs updTransactions_def update_where_def db_btc_def transaction_by_id_def
      config_btc_def config_example_def new_transaction_def mget_def env_example_def eval_simps)

lemma db_btc_ok: "solvent db_btc" "keys_ok db_btc"
  by (simp_all add: db_btc_def db_stack_def db_example_def db_empty_def wallet_example_def solvent_def wallet_ok_def
      liquidity_ok_def keys_ok_def new_liquidity_def)

lemma result_fails: "fst r \<noteq> Inr () \<Longrightarrow> \<exists>e s'. r = (Inl e, s')"
  by (cases r; cases "fst r") auto

lemma catch_fails:
  assumes "fst (m s) \<noteq> Inr ()" "\<And>e s. fst (h e s) \<noteq> Inr ()"
  shows "\<exists>e s'. catchM m h s = (Inl e, s')"
proof -
  obtain e s' where "m s = (Inl e, s')" using result_fails [OF assms(1)] by blast
  then have "catchM m h s = h e s'" by (simp add: catchM_def)
  with result_fails [OF assms(2)] show ?thesis by simp
qed

theorem autostack_failure_restores_witness:
  "\<exists>e s'. initiatePendingAutoStack env_example ops_example answers_example stack_example config_btc
       (sys_example\<lparr>s_db := db_btc\<rparr>) = (Inl e, s')
     \<and> d_wallets (s_db s') = d_wallets db_btc \<and> d_liquidity (s_db s') = d_liquidity db_btc"
proof -
  let ?s = "sys_example\<lparr>s_db := db_btc\<rparr>"
  let ?exec = "autostack_execute env_example ops_example answers_example stack_example config_btc
    (claimed_meta env_example (t_meta config_btc)) params_btc"
  define fail where "fail = (\<lambda>err. thenM (txM env_example ''autostack_fail''
    (autostack_fail_tx env_example (a_userId stack_example) ''t1'' params_btc err)) (throwM err :: unit sysm))"
  define s1 where "s1 = ?s\<lparr>s_db := db_btc\<lparr>d_transactions := [config_btc\<lparr>t_meta := claimed_meta env_example (t_meta config_btc)\<rparr>]\<rparr>\<rparr>"
  have i: "t_id config_btc = ''t1''" by (simp add: config_btc_def config_example_def new_transaction_def)
  have "initiatePendingAutoStack env_example ops_example answers_example stack_example config_btc ?s = catchM ?exec fail s1"
    by (simp add: initiatePendingAutoStack_def bindM_def txM_def i btc_claim liftM_def btc_params returnM_def fail_def s1_def)
  moreover have "fst (?exec s) \<noteq> Inr ()" for s
  proof -
    have swap: "wp (autostack_swap env_example answers_example a t p) (\<lambda>_ _. False) (\<lambda>_ _. True) s" for a t p s
      by (simp add: autostack_swap_def answers_example_def wp_simps)
    have p: "sp_wallet params_btc" "sp_sourceAsset params_btc \<noteq> ''USDT''"
      by (simp_all add: params_btc_def params_example_def)
    have "wp ?exec (\<lambda>_ _. False) (\<lambda>_ _. True) s"
      unfolding autostack_execute_def if_P [OF p(1)] if_not_P [OF p(2)] wp_then
      by (rule wp_mono [OF wp_error_only [of True]]) (simp_all add: swap)
    then show ?thesis by (auto simp: wp_alt split: sum.splits)
  qed
  moreover have "fst (fail err s) \<noteq> Inr ()" for err s
    by (simp add: fail_def thenM_def bindM_def throwM_def split: prod.split sum.split)
  ultimately obtain e s' where run: "initiatePendingAutoStack env_example ops_example answers_example stack_example config_btc ?s = (Inl e, s')"
    using catch_fails [of ?exec s1 fail] by auto
  have x: "transaction_by_id (t_id config_btc) (s_db ?s) = Some config_btc" "\<not> is_reserved (t_meta config_btc)"
    by (simp_all add: i db_btc_def transaction_by_id_def is_reserved_def config_btc_def mget_def)
  have ct: "0 \<le> ct_liquidity ct" if "card_terms env_example ops_example rate params_btc = Inr ct" for rate ct
  proof -
    have "case toBase cv_example ''0.00000000000000005'' ''NGN'' None of Inl e \<Rightarrow> True | Inr b \<Rightarrow> 0 \<le> b"
      by (simp add: cv_example_def currency_eval eval_simps)
    with that show ?thesis
      by (auto simp: card_terms_def toNgnBase_def ops_example_def params_btc_def params_example_def Let_def split: sum.splits)
  qed
  have pos: "0 \<le> sp_source p \<and> 0 \<le> sp_total p" "p = params_btc"
    if "stack_params env_example stack_example config_btc (claimed_meta env_example (t_meta config_btc)) = Inr p" for p
    using that unfolding btc_params by (auto simp: params_btc_def params_example_def)
  have "d_wallets (s_db s') = d_wallets (s_db ?s) \<and> d_liquidity (s_db s') = d_liquidity (s_db ?s)"
    by (rule autostack_failure_restores [OF _ _ x pos(1) _ _ run]) (use db_btc_ok ct pos(2) in auto)
  with run show ?thesis by auto
qed


section \<open>A cancellation\<close>

text \<open>A cancellation of a pending plan gives back the amount but not the fee that was reserved with it:
  the plan of the example reserves 50 and a fee of 2 on the wallet; after its cancellation the
  2 are still reserved, and nothing refers to them any more.\<close>

theorem autostack_cancel_keeps_fee:
  "\<exists>d1 d2. autostack_reserve_tx env_example ''u1'' ''t1'' (claimed_meta env_example (t_meta config_btc)) params_btc db_btc = (Inr (), d1)
     \<and> autostack_cancel_tx env_example ''u1'' stack_example (config_of ''u1'' ''a1'' d1) d1 = (Inr (), d2)
     \<and> map w_reservedBalance (d_wallets db_btc) = [20]
     \<and> map w_reservedBalance (d_wallets d1) = [72] \<and> map w_reservedBalance (d_wallets d2) = [22]
     \<and> map l_reservedBalance (d_liquidity d2) = map l_reservedBalance (d_liquidity db_btc)"
proof -
  define m where "m = claimed_meta env_example (t_meta config_btc)"
  define rm where "rm = mset_all (reserved_meta ''BTC'' 50 @ [(''sourceFeeAmountBase'', show_int 2),
    (''totalSourceWalletDeductionBase'', show_int 52)]) m"
  have m: "\<not> already_reserved m ''BTC'' 50"
    by (simp add: m_def already_reserved_def claimed_meta_def config_btc_def mget_def mset_all_def)
  have shown: "fromBase cv_example (ABigInt 2) ''BTC'' None = Inr ''0.00000002''" "fromBase cv_example (ABigInt 52) ''BTC'' None = Inr ''0.00000052''"
    by (simp_all add: cv_example_def currency_eval eval_simps)
  let ?w = "\<lambda>r. wallet_example\<lparr>w_currency := ''BTC'', w_reservedBalance := r\<rparr>"
  let ?l = "\<lambda>r. (new_liquidity ''l2'' ''BTC'')\<lparr>l_totalBalance := 500, l_reservedBalance := r\<rparr>"
  let ?t = "config_btc\<lparr>t_cryptoAmountBase := Some 50, t_cryptoAmountOriginal := Some ''0.00000000000000005'',
     t_platformFeeBase := Some 2, t_platformFeeOriginal := Some ''0.00000002'', t_totalAmountSentBase := Some 52,
     t_totalAmountSentOriginal := Some ''0.00000052'', t_fiatAmountBase := 50,
     t_fiatAmountOriginal := Some ''0.00000000000000005'', t_meta := rm\<rparr>"
  let ?d1 = "db_btc\<lparr>d_wallets := [?w 72], d_liquidity := [?l 50], d_transactions := [?t]\<rparr>"
  have v: "verifyCurrency ''BTC'' = Inr ''BTC''" by (simp add: verifyCurrency_def ALLOWED_CURRENCIES_def eval_simps)
  have r1: "autostack_reserve_tx env_example ''u1'' ''t1'' m params_btc db_btc = (Inr (), ?d1)"
    by (simp add: autostack_reserve_tx_def m params_btc_def params_example_def comp_defs reserveBalance_eq reserveLiquidity_eq v
        wallet_for_def db_btc_def wallet_example_def ieq_def network_matches_def guarded_count_def guarded_update_def
        w_reserve_def l_key_def l_reserve_def new_liquidity_def shown_db_def shown updTransactions_def update_where_def
        config_btc_def config_example_def new_transaction_def rm_def)
  have c: "config_of ''u1'' ''a1'' ?d1 = Some ?t"
    by (simp add: config_of_def config_btc_def config_example_def new_transaction_def)
  have meta: "is_reserved rm" "mget rm ''liquidityReservationCurrency'' = ''BTC''" "mget rm ''liquidityReservationAmount'' = show_int 50"
    "mget rm ''paymentType'' = ''CRYPTO_WALLET''" "mget rm ''sourceAsset'' = ''BTC''" "mget rm ''sourceAmountBase'' = show_int 50"
    by (simp_all add: rm_def m_def is_reserved_def reserved_meta_def claimed_meta_def config_btc_def mget_def mset_all_def eval_simps)
  have "\<exists>d2. autostack_cancel_tx env_example ''u1'' stack_example (Some ?t) ?d1 = (Inr (), d2)
      \<and> d_wallets d2 = [?w 22] \<and> d_liquidity d2 = [?l 0]"
    by (simp add: autostack_cancel_tx_def meta comp_defs releaseBalance_eq releaseLiquidity_eq v
        wallet_for_def wallet_example_def ieq_def network_matches_def guarded_count_def guarded_update_def
        w_release_def l_key_def l_release_def new_liquidity_def updTransactions_def updAutoStacks_def)
  then obtain d2 where "autostack_cancel_tx env_example ''u1'' stack_example (Some ?t) ?d1 = (Inr (), d2)"
    "d_wallets d2 = [?w 22]" "d_liquidity d2 = [?l 0]" by blast
  with r1 c show ?thesis
    by (intro exI [of _ ?d1] exI [of _ d2]) (simp add: m_def [symmetric], simp add: db_btc_def wallet_example_def new_liquidity_def)
qed


section \<open>An unlock\<close>

definition paid_wallet :: "bool \<Rightarrow> autoStack \<Rightarrow> string \<Rightarrow> wallet \<Rightarrow> wallet" where
  "paid_wallet early a shown w =
     (w_unstack (stack_payout early a) (a_amount a) (a_accruedInterest a) w)\<lparr>w_originalBalance := shown\<rparr>"

lemma unlock_tx_run:
  assumes "autostack_unlock_tx env u a early d = (Inr v, d')"
  shows "\<exists>c w shown. crypto_by_symbol ''USDT'' d = Some c \<and> usdt_wallet u (c_id c) d = Some w
    \<and> d_wallets d' = update_where (\<lambda>x. w_id x = w_id w) (paid_wallet early a shown) (d_wallets d)
    \<and> d_autoStacks d' = update_where (\<lambda>x. a_id x = a_id a)
        (\<lambda>x. x\<lparr>a_status := ASENDED, a_endedAt := Some (e_now env)\<rparr>) (d_autoStacks d)
    \<and> d_liquidity d' = update_where (\<lambda>l. ieq (l_currency l) ''USDT'')
        (l_unstack (a_amount a) (a_accruedInterest a) (if early then 0 else a_accruedInterest a)) (d_liquidity d)"
  using assms
  unfolding autostack_unlock_tx_def run_bind run_then run_get run_some run_upd refreshOriginalBalance_run
  apply (elim exE conjE)
  apply hypsubst_thin
  apply (intro exI conjI, assumption, assumption)
    apply (simp_all add: update_where_twice w_unstack_def paid_wallet_def [abs_def])
  done

lemma plan_le_active:
  assumes "a \<in> set (d_autoStacks d)" "a_status a = ASACTIVE" "list_all (\<lambda>a. 0 \<le> a_amount a) (d_autoStacks d)"
  shows "a_amount a \<le> active_plans d"
proof -
  have "\<forall>x \<in> set (map plan_amount (d_autoStacks d)). 0 \<le> x"
    using assms(3) by (auto simp: plan_amount_def list_all_iff)
  moreover have "a_amount a \<in> set (map plan_amount (d_autoStacks d))"
    using assms(1,2) by (auto simp: plan_amount_def image_iff intro: bexI [of _ a])
  ultimately show ?thesis unfolding active_plans_def by (metis member_le_sum_list)
qed

lemma filter_unique:
  assumes "distinct xs" "x \<in> set xs" "P x" "\<And>y. y \<in> set xs \<Longrightarrow> P y \<Longrightarrow> y = x"
  shows "filter P xs = [x]"
proof -
  obtain ys zs where xs: "xs = ys @ x # zs" using split_list [OF assms(2)] by blast
  then have "x \<notin> set ys" "x \<notin> set zs" using assms(1) by simp_all
  then have "filter P ys = []" "filter P zs = []"
    using assms(4) unfolding xs filter_empty_conv by auto
  then show ?thesis using assms(3) by (simp add: xs)
qed

text \<open>C25: An unlock pays the user the amount stacked and its interest, or before the end of the period the
  amount less 5% rounded down; it takes the amount from the three records of what is stacked,
  so the company's record stays the sum of the active plans; reservations are untouched.\<close>

theorem autostack_unlock_pays:
  assumes "stack_keys d" "autostack_unlock_tx env u a early d = (Inr v, d')"
    and "a \<in> set (d_autoStacks d)" "a_status a = ASACTIVE" "list_all (\<lambda>a. 0 \<le> a_amount a) (d_autoStacks d)"
    and "total_stacked ''USDT'' d = active_plans d"
    and "\<And>c w. usdt_wallet u c d = Some w \<Longrightarrow> ieq (w_currency w) ''USDT'' \<and> a_amount a \<le> w_stackedAmount w"
  shows "owed ''USDT'' d' = owed ''USDT'' d + stack_payout early a
    \<and> stacked ''USDT'' d' = stacked ''USDT'' d - a_amount a
    \<and> total_stacked ''USDT'' d' = active_plans d' \<and> active_plans d' = active_plans d - a_amount a
    \<and> (early \<longrightarrow> 95 * a_amount a \<le> 100 * stack_payout early a \<and> 100 * stack_payout early a < 95 * a_amount a + 100)
    \<and> (\<not> early \<longrightarrow> stack_payout early a = a_amount a + a_accruedInterest a)"
proof -
  have keys: "keys_ok d" and ids: "distinct (map a_id (d_autoStacks d))" using assms(1) by (simp_all add: stack_keys_def)
  have pos: "0 \<le> a_amount a" using assms(3,5) by (auto simp: list_all_iff)
  have le: "a_amount a \<le> active_plans d" by (rule plan_le_active [OF assms(3,4,5)])
  obtain l where l: "liquidity_for ''USDT'' d = Some l" using assms(1) by (auto simp: stack_keys_def)
  obtain c :: cryptoCurrency and w shown where w: "usdt_wallet u (c_id c) d = Some w"
    and ws: "d_wallets d' = update_where (\<lambda>x. w_id x = w_id w) (paid_wallet early a shown) (d_wallets d)"
    and as: "d_autoStacks d' = update_where (\<lambda>x. a_id x = a_id a)
        (\<lambda>x. x\<lparr>a_status := ASENDED, a_endedAt := Some (e_now env)\<rparr>) (d_autoStacks d)"
    and ls: "d_liquidity d' = update_where (\<lambda>l. ieq (l_currency l) ''USDT'')
        (l_unstack (a_amount a) (a_accruedInterest a) (if early then 0 else a_accruedInterest a)) (d_liquidity d)"
    using unlock_tx_run [OF assms(2)] by blast
  have w_in: "w \<in> set (d_wallets d)" using find_Some_in [OF w [unfolded usdt_wallet_def]] by simp
  have cur: "ieq (w_currency w) ''USDT''" "a_amount a \<le> w_stackedAmount w" using assms(7) [OF w] by simp_all
  have same: "w_currency (paid_wallet early a shown x) = w_currency x" for x
    by (simp add: paid_wallet_def w_unstack_def)
  have f: "w_baseBalance (paid_wallet early a shown w) = w_baseBalance w + stack_payout early a"
    "w_stackedAmount (paid_wallet early a shown w) = w_stackedAmount w - a_amount a"
    using cur(2) by (simp_all add: paid_wallet_def w_unstack_def)
  have "total_stacked ''USDT'' d' = total_stacked ''USDT'' d + (max (l_totalAmountStacked l - a_amount a) 0 - l_totalAmountStacked l)"
    using total_stacked_update [OF assms(1) l ls, of "''USDT''"] by (simp add: ieq_def l_unstack_def)
  moreover have "l_totalAmountStacked l = total_stacked ''USDT'' d"
  proof -
    have one: "x = l" if "x \<in> set (d_liquidity d)" "ieq (l_currency x) ''USDT''" for x
      using liquidity_row_unique [OF keys l that(1)] that(2) by (simp add: l_key_def)
    have in_l: "l \<in> set (d_liquidity d)" "ieq (l_currency l) ''USDT''"
      using find_Some_in [OF l [unfolded liquidity_for_def]] by simp_all
    have "distinct (map l_id (d_liquidity d))" using keys by (simp add: keys_ok_def)
    then have "distinct (d_liquidity d)" by (simp add: distinct_map)
    from filter_unique [of _ _ "\<lambda>x. ieq (l_currency x) ''USDT''", OF this in_l one]
    have "filter (\<lambda>x. ieq (l_currency x) ''USDT'') (d_liquidity d) = [l]" .
    then show ?thesis by (simp add: total_stacked_def)
  qed
  ultimately have "total_stacked ''USDT'' d' = total_stacked ''USDT'' d - a_amount a" using le assms(6) by simp
  moreover have "active_plans d' = active_plans d - a_amount a"
    using active_plans_update [OF ids assms(3) as] assms(4) by (simp add: plan_amount_def)
  moreover have "early \<longrightarrow> 95 * a_amount a \<le> 100 * stack_payout early a \<and> 100 * stack_payout early a < 95 * a_amount a + 100"
    using pos by (auto simp: stack_payout_def stack_penalty_def)
  moreover have "\<not> early \<longrightarrow> stack_payout early a = a_amount a + a_accruedInterest a"
    by (simp add: stack_payout_def)
  ultimately show ?thesis
    using wallet_sum_update [OF keys w_in ws same, of "''USDT''"] f cur(1) assms(6) by simp
qed


lemmas stack_eval = db_stack_def db_example_def db_empty_def wallet_example_def liquidity_example_def new_liquidity_def

lemma db_stack_keys: "stack_keys (db_stack\<lparr>d_transactions := ts\<rparr>)"
  by (simp add: stack_keys_def keys_ok_def stack_eval stack_example_def liquidity_for_def ieq_def)

theorem autostack_wallet_conserves_witness:
  "\<exists>d'. autostack_wallet_tx env_example stack_example ''t1'' [] params_example (db_stack\<lparr>d_transactions := []\<rparr>) = (Inr (), d')
     \<and> owed ''USDT'' d' + stacked ''USDT'' d' = owed ''USDT'' db_stack + stacked ''USDT'' db_stack - 2
     \<and> active_plans d' = 50"
proof -
  let ?d = "db_stack\<lparr>d_transactions := []\<rparr>"
  obtain d' where run: "autostack_wallet_tx env_example stack_example ''t1'' [] params_example ?d = (Inr (), d')"
    by (rule example_wallet_tx [of "[]" "[]", THEN exE]) (elim conjE)
  have a: "stack_example \<in> set (d_autoStacks ?d)" "a_status stack_example = ASPENDING \<or> a_status stack_example = ASACTIVE"
    by (simp_all add: db_stack_def stack_example_def)
  have w: "ieq (w_currency w) ''USDT''" if "usdt_wallet (a_userId stack_example) c ?d = Some w" for c w
    using that by (auto simp: usdt_wallet_def stack_eval ieq_def split: if_splits)
  have z: "active_plans ?d = 0" "sp_fee params_example = 2" "sp_source params_example = 50"
    by (simp_all add: active_plans_def plan_amount_def db_stack_def stack_example_def params_example_def)
  have "owed ''USDT'' ?d = owed ''USDT'' db_stack" "stacked ''USDT'' ?d = stacked ''USDT'' db_stack"
    by (simp_all add: owed_def stacked_def)
  moreover have "owed ''USDT'' d' + stacked ''USDT'' d' = owed ''USDT'' ?d + stacked ''USDT'' ?d - sp_fee params_example
    \<and> stacked ''USDT'' d' = stacked ''USDT'' ?d + sp_source params_example
    \<and> total_stacked ''USDT'' d' = total_stacked ''USDT'' ?d + sp_source params_example
    \<and> active_plans d' = active_plans ?d + sp_source params_example"
    by (rule autostack_wallet_conserves [OF db_stack_keys run a]) (rule w)
  ultimately show ?thesis using z run by (intro exI [of _ d']) simp
qed

definition stack_active :: autoStack where
  "stack_active = stack_example\<lparr>a_status := ASACTIVE, a_accruedInterest := 3\<rparr>"

definition db_unlock :: db where
  "db_unlock = db_stack\<lparr>d_autoStacks := [stack_active], d_wallets := [wallet_example\<lparr>w_stackedAmount := 50\<rparr>],
     d_liquidity := [liquidity_example\<lparr>l_totalAmountStacked := 50\<rparr>]\<rparr>"

lemma unlock_displays:
  "fromBase cv_example (ABigInt 153) ''USDT'' None = Inr ''0.000000000000000153''"
  "fromBase cv_example (ABigInt 206) ''USDT'' None = Inr ''0.000000000000000206''"
  by (simp_all add: cv_example_def currency_eval eval_simps)

lemmas unlock_eval = autostack_unlock_tx_def comp_defs crypto_by_symbol_def usdt_wallet_def updWallets_def
  update_where_def refreshOriginalBalance_def base_of_def updAutoStacks_def updLiquidity_def stack_payout_def
  w_unstack_def l_unstack_def unlock_displays db_unlock_def stack_active_def stack_example_def stack_eval

text \<open>An unlock reads the status of the plan before its transaction and not in it: two unlocks that both
  found the plan ACTIVE both pay. The plan of 50 with an interest of 3 takes the user's balance
  from 100 to 206, the second time from a plan that has ended.\<close>

theorem autostack_unlock_race_pays_twice:
  "\<exists>d1 d2. a_status stack_active = ASACTIVE
     \<and> autostack_unlock_tx env_example ''u1'' stack_active False db_unlock = (Inr (), d1)
     \<and> map a_status (d_autoStacks d1) = [ASENDED]
     \<and> autostack_unlock_tx env_example ''u1'' stack_active False d1 = (Inr (), d2)
     \<and> map w_baseBalance (d_wallets db_unlock) = [100] \<and> map w_baseBalance (d_wallets d2) = [206]"
proof -
  let ?w = "\<lambda>b s. wallet_example\<lparr>w_stackedAmount := 0, w_baseBalance := b, w_originalBalance := s\<rparr>"
  let ?d = "\<lambda>b s n. db_unlock\<lparr>d_wallets := [?w b s],
     d_autoStacks := [stack_active\<lparr>a_status := ASENDED, a_endedAt := Some 1000\<rparr>],
     d_liquidity := [liquidity_example\<lparr>l_totalAmountStacked := 0, l_totalLockedInterestPaid := n\<rparr>]\<rparr>"
  have "autostack_unlock_tx env_example ''u1'' stack_active False db_unlock = (Inr (), ?d 153 ''0.000000000000000153'' 3)"
    by (simp add: unlock_eval ieq_def)
  moreover have "autostack_unlock_tx env_example ''u1'' stack_active False (?d 153 ''0.000000000000000153'' 3)
      = (Inr (), ?d 206 ''0.000000000000000206'' 6)"
    by (simp add: unlock_eval ieq_def)
  moreover have "a_status stack_active = ASACTIVE" "map w_baseBalance (d_wallets db_unlock) = [100]"
    by (simp_all add: stack_active_def db_unlock_def wallet_example_def)
  ultimately show ?thesis
    by (intro exI [of _ "?d 153 ''0.000000000000000153'' 3"] exI [of _ "?d 206 ''0.000000000000000206'' 6"]) simp
qed

theorem autostack_unlock_pays_witness:
  "\<exists>d'. autostack_unlock_tx env_example ''u1'' stack_active False db_unlock = (Inr (), d')
     \<and> owed ''USDT'' d' = owed ''USDT'' db_unlock + 53 \<and> active_plans d' = 0"
proof -
  have "fst (autostack_unlock_tx env_example ''u1'' stack_active False db_unlock) = Inr ()"
    by (simp add: unlock_eval ieq_def)
  then obtain d' where run: "autostack_unlock_tx env_example ''u1'' stack_active False db_unlock = (Inr (), d')"
    by (metis prod.collapse)
  have k: "stack_keys db_unlock"
    by (simp add: stack_keys_def keys_ok_def db_unlock_def stack_eval stack_active_def stack_example_def liquidity_for_def ieq_def)
  have a: "stack_active \<in> set (d_autoStacks db_unlock)" "a_status stack_active = ASACTIVE"
    "list_all (\<lambda>a. 0 \<le> a_amount a) (d_autoStacks db_unlock)" "total_stacked ''USDT'' db_unlock = active_plans db_unlock"
    by (simp_all add: db_unlock_def stack_active_def stack_example_def total_stacked_def active_plans_def plan_amount_def
        stack_eval ieq_def)
  have w: "ieq (w_currency w) ''USDT'' \<and> a_amount stack_active \<le> w_stackedAmount w" if "usdt_wallet ''u1'' c db_unlock = Some w" for c w
    using that by (auto simp: usdt_wallet_def db_unlock_def stack_active_def stack_example_def stack_eval ieq_def split: if_splits)
  have z: "active_plans db_unlock = 50" "a_amount stack_active = 50" "stack_payout False stack_active = 53"
    by (simp_all add: db_unlock_def active_plans_def plan_amount_def stack_active_def stack_example_def stack_payout_def)
  note pays = autostack_unlock_pays [OF k run a]
  have "owed ''USDT'' d' = owed ''USDT'' db_unlock + stack_payout False stack_active
      \<and> active_plans d' = active_plans db_unlock - a_amount stack_active"
    using pays w by blast
  with z run show ?thesis by (intro exI [of _ d']) simp
qed

end
