(* ===== verification/StackJobs.thy ===== *)
theory StackJobs
  imports StackBooks "HOL-Library.List_Lexorder"
begin

text \<open>
  The jobs of auto-stacking (\<^verbatim>\<open>autostack-interest.scheduler.ts\<close>): a dispatch run queues a charge
  job for every plan that is due, page after page; a charge job accrues the interest of the
  period and executes the plan.
\<close>

section \<open>Dispatch\<close>

definition BATCH_SIZE :: nat where
  "BATCH_SIZE = 200"

definition due_stacks :: "int \<Rightarrow> db \<Rightarrow> string list" where
  "due_stacks now d = sort (map a_id (filter (\<lambda>a. (a_status a = ASPENDING \<or> a_status a = ASACTIVE)
     \<and> a_nextExecutionAt a \<le> now) (d_autoStacks d)))"

text \<open>\<^verbatim>\<open>findMany({ orderBy: id, take, cursor, skip: 1 })\<close>.\<close>

definition page_after :: "nat \<Rightarrow> string option \<Rightarrow> string list \<Rightarrow> string list" where
  "page_after n cursor ids =
     take n (case cursor of None \<Rightarrow> ids | Some c \<Rightarrow> tl (dropWhile (\<lambda>i. i \<noteq> c) ids))"

definition charge_job :: "string \<Rightarrow> call" where
  "charge_job i = CallQueueCharge i 0"

text \<open>The loop, for a number of rounds: \<open>None\<close> when they are not enough. Nothing in it changes the plans, and they are
  read once: the code queries every page anew, so plans that others change between two queries are outside this
  reading.\<close>

fun dispatch_rounds :: "nat \<Rightarrow> nat \<Rightarrow> string list \<Rightarrow> string option \<Rightarrow> call list option" where
  "dispatch_rounds n 0 ids cursor = None"
| "dispatch_rounds n (Suc fuel) ids cursor =
     (case page_after n cursor ids of
        [] \<Rightarrow> Some []
      | page \<Rightarrow> map_option (\<lambda>cs. map charge_job page @ cs) (dispatch_rounds n fuel ids (Some (last page))))"

definition dispatchDueInterestShards :: "env \<Rightarrow> unit sysm" where
  "dispatchDueInterestShards env =
     bindM (tempSetNx env (''lock:scheduler:autostack-interest:dispatch:'' @ take 10 (toISOString (e_now env)))
        (TFlag ''1'') (60 * 20)) (\<lambda>acquired.
       if \<not> acquired then returnM ()
       else bindM (getM (\<lambda>s. due_stacks (e_now env) (s_db s))) (\<lambda>ids.
         case dispatch_rounds BATCH_SIZE (Suc (length ids)) ids None of
           None \<Rightarrow> throwM (PlainError ''dispatch did not end'')
         | Some cs \<Rightarrow> modifyM (\<lambda>s. s\<lparr>s_calls := s_calls s @ cs\<rparr>)))"

section \<open>Charge\<close>

text \<open>\<open>interestOf amount rate days\<close> is the interest decimal.js computes, rounded half up to a base unit.\<close>

type_synonym interestOf = "int \<Rightarrow> string \<Rightarrow> int \<Rightarrow> error + int"

definition accrue_tx :: "env \<Rightarrow> interestOf \<Rightarrow> string \<Rightarrow> autoStack \<Rightarrow> unit dbm" where
  "accrue_tx env interestOf rate a =
     bindM (getM (stack_by_id (a_id a))) (\<lambda>r.
       case r of
         None \<Rightarrow> returnM ()
       | Some fresh \<Rightarrow>
           if a_nextInterestAt fresh > e_now env then returnM ()
           else bindM (liftM (interestOf (a_amount fresh) rate (period_days (a_frequency a)))) (\<lambda>interest.
             thenM (updAutoStacks (\<lambda>x. a_id x = a_id a) (\<lambda>x. x\<lparr>a_accruedInterest := a_accruedInterest x + interest,
                 a_nextInterestAt := getInterestDate (a_frequency a) (e_now env)\<rparr>))
             (bindM (getM (\<lambda>d. List.find (\<lambda>w. w_userId w = a_userId a \<and> w_currency w = ''USDT'') (d_wallets d))) (\<lambda>w.
              thenM (case w of
                  None \<Rightarrow> returnM ()
                | Some k \<Rightarrow> updWallets (\<lambda>x. w_id x = w_id k)
                    (\<lambda>x. x\<lparr>w_totalStackedInterest := w_totalStackedInterest x + interest\<rparr>))
              (updLiquidity (\<lambda>l. ieq (l_currency l) ''USDT'')
                (\<lambda>l. l\<lparr>l_totalAccruedLockedInterest := l_totalAccruedLockedInterest l + interest\<rparr>))))))"

text \<open>What the job does once it has read the plan.\<close>

definition charge_stack ::
    "env \<Rightarrow> stackOps \<Rightarrow> stackAnswers \<Rightarrow> interestOf \<Rightarrow> string option \<Rightarrow> autoStack \<Rightarrow> unit sysm" where
  "charge_stack env ops sa interestOf dailyRate a =
     (if a_status a \<noteq> ASPENDING \<and> a_status a \<noteq> ASACTIVE then returnM ()
      else if \<not> isExecutionDue (a_nextExecutionAt a) (e_now env) False then returnM ()
      else if a_status a = ASPENDING then initiateAutoStack env ops sa (a_id a) False
      else thenM (txM env ''autostack_interest'' (accrue_tx env interestOf (orelse (opt_str dailyRate) ''0'') a))
        (initiateAutoStack env ops sa (a_id a) True))"

definition executeCharge ::
    "env \<Rightarrow> stackOps \<Rightarrow> stackAnswers \<Rightarrow> interestOf \<Rightarrow> string option \<Rightarrow> string \<Rightarrow> unit sysm" where
  "executeCharge env ops sa interestOf dailyRate autoStackId =
     bindM (getM (\<lambda>s. stack_by_id autoStackId (s_db s))) (\<lambda>r.
       case r of None \<Rightarrow> returnM () | Some a \<Rightarrow> charge_stack env ops sa interestOf dailyRate a)"


section \<open>Every plan that is due is queued once\<close>

lemma page_after_split:
  assumes "distinct (pre @ c # rest)"
  shows "page_after n (Some c) (pre @ c # rest) = take n rest"
proof -
  have "dropWhile (\<lambda>i. i \<noteq> c) (pre @ c # rest) = c # rest"
    using assms by (induction pre) auto
  then show ?thesis by (simp add: page_after_def)
qed

lemma dispatch_from:
  assumes "0 < n" "distinct (pre @ c # rest)" "length rest < fuel"
  shows "dispatch_rounds n fuel (pre @ c # rest) (Some c) = Some (map charge_job rest)"
  using assms(2,3)
proof (induction fuel arbitrary: pre c rest)
  case (Suc fuel)
  show ?case
  proof (cases "take n rest")
    case Nil
    then have "rest = []" using assms(1) by simp
    then show ?thesis using Suc.prems(1) by (simp add: page_after_split)
  next
    case (Cons x xs)
    define c' where "c' = last (take n rest)"
    have t: "take n rest = butlast (take n rest) @ [c']" using Cons by (simp add: c'_def)
    then have r: "rest = butlast (take n rest) @ c' # drop n rest"
      by (metis append.assoc append_Cons append_Nil append_take_drop_id)
    have "length (drop n rest) < fuel" using Suc.prems(2) assms(1) Cons by (cases rest) auto
    moreover have "distinct ((pre @ c # butlast (take n rest)) @ c' # drop n rest)"
      using Suc.prems(1) r by (metis append.assoc append_Cons)
    ultimately have "dispatch_rounds n fuel ((pre @ c # butlast (take n rest)) @ c' # drop n rest) (Some c')
        = Some (map charge_job (drop n rest))" by (rule Suc.IH [rotated])
    moreover have "(pre @ c # butlast (take n rest)) @ c' # drop n rest = pre @ c # rest" using r by simp
    ultimately have "dispatch_rounds n fuel (pre @ c # rest) (Some c') = Some (map charge_job (drop n rest))" by simp
    then have "dispatch_rounds n (Suc fuel) (pre @ c # rest) (Some c)
        = Some (map charge_job (take n rest) @ map charge_job (drop n rest))"
      using Suc.prems(1) Cons c'_def by (simp add: page_after_split)
    then show ?thesis by (simp flip: map_append)
  qed
qed simp

lemma dispatch_all:
  assumes "0 < n" "distinct ids" "length ids < fuel"
  shows "dispatch_rounds n fuel ids None = Some (map charge_job ids)"
proof (cases "take n ids")
  case Nil
  then have "ids = []" using assms(1) by simp
  then show ?thesis using assms(3) by (cases fuel) (simp_all add: page_after_def)
next
  case (Cons x xs)
  define c where "c = last (take n ids)"
  have "take n ids = butlast (take n ids) @ [c]" using Cons by (simp add: c_def)
  then have r: "butlast (take n ids) @ c # drop n ids = ids"
    by (metis append.assoc append_Cons append_Nil append_take_drop_id)
  obtain f where f: "fuel = Suc f" using assms(3) by (cases fuel) auto
  have "length (drop n ids) < f" using assms(1,3) Cons f by (cases ids) auto
  then have "dispatch_rounds n f ids (Some c) = Some (map charge_job (drop n ids))"
    using dispatch_from [OF assms(1), of "butlast (take n ids)" c "drop n ids" f] assms(2) r by simp
  then have "dispatch_rounds n fuel ids None = Some (map charge_job (take n ids) @ map charge_job (drop n ids))"
    using Cons c_def f by (simp add: page_after_def)
  then show ?thesis by (simp flip: map_append)
qed

text \<open>C36: a dispatch run ends, and queues one charge job for every plan that is due and for no other, in the
  order of their ids, however many pages they fill; a run that finds the lock of the day taken
  queues none.\<close>

theorem dispatch_queues_due:
  assumes "distinct (map a_id (d_autoStacks (s_db s)))"
  shows "dispatchDueInterestShards env s =
    (if temp_lookup env (''lock:scheduler:autostack-interest:dispatch:'' @ take 10 (toISOString (e_now env))) s \<noteq> None
     then (Inr (), s)
     else (Inr (), (snd (tempSet env (''lock:scheduler:autostack-interest:dispatch:'' @ take 10 (toISOString (e_now env)))
         (TFlag ''1'') 1200 s))
       \<lparr>s_calls := s_calls s @ map charge_job (due_stacks (e_now env) (s_db s))\<rparr>))"
proof -
  define k where "k = ''lock:scheduler:autostack-interest:dispatch:'' @ take 10 (toISOString (e_now env))"
  have "distinct (due_stacks (e_now env) (s_db s))"
    using assms by (simp add: due_stacks_def distinct_map_filter)
  then have d: "dispatch_rounds BATCH_SIZE (Suc (length (due_stacks (e_now env) (s_db s)))) (due_stacks (e_now env) (s_db s)) None
      = Some (map charge_job (due_stacks (e_now env) (s_db s)))"
    by (intro dispatch_all) (simp_all add: BATCH_SIZE_def)
  show ?thesis
    unfolding dispatchDueInterestShards_def k_def [symmetric]
    by (cases "temp_lookup env k s")
      (simp_all add: tempSetNx_def tempGet_def tempSet_def comp_defs d del: dispatch_rounds.simps)
qed


theorem dispatch_queues_due_witness:
  "dispatchDueInterestShards env_example sys_stack =
    (if temp_lookup env_example (''lock:scheduler:autostack-interest:dispatch:'' @ take 10 (toISOString (e_now env_example))) sys_stack \<noteq> None
     then (Inr (), sys_stack)
     else (Inr (), (snd (tempSet env_example (''lock:scheduler:autostack-interest:dispatch:'' @ take 10 (toISOString (e_now env_example)))
         (TFlag ''1'') 1200 sys_stack))
       \<lparr>s_calls := s_calls sys_stack @ map charge_job (due_stacks (e_now env_example) (s_db sys_stack))\<rparr>))"
  by (rule dispatch_queues_due) (simp add: sys_stack_def db_stack_def)

section \<open>Two jobs for one plan\<close>

definition plan_at :: "int \<Rightarrow> int \<Rightarrow> autoStack" where
  "plan_at amount next = stack_example\<lparr>a_status := ASACTIVE, a_amount := amount, a_nextExecutionAt := next,
     a_nextInterestAt := next\<rparr>"

definition executed_row :: "int \<Rightarrow> string \<Rightarrow> transaction \<Rightarrow> bool" where
  "executed_row next i t \<longleftrightarrow> t_id t = i \<and> t_uniqueId t = ''autostack-charge-a1-'' @ toISOString next
     \<and> t_description t = Some ''autostack_charge:a1'' \<and> t_status t = TxCOMPLETED"

definition execution_terms_example :: executionTerms where
  "execution_terms_example = \<lparr>xt_wallet = True, xt_asset = ''USDT'', xt_principal = 50,
     xt_principalOriginal = ''0.00000000000000005'', xt_source = 50, xt_sourceOriginal = ''0.00000000000000005''\<rparr>"

lemma example_terms:
  "execution_terms env_example ops_example answers_example a config_example = Inr execution_terms_example"
  by (simp add: execution_terms_def execution_terms_example_def config_example_def new_transaction_def mget_def orelse_def
      opt_str_def parse_bigint_def amount_char_def eval_simps)

lemma example_row:
  fixes a :: autoStack and i :: string
  defines "r \<equiv> execution_row i a config_example execution_terms_example"
  shows "t_currency r = ''USDT''" "t_cryptoAmountOriginal r = Some ''0.00000000000000005''" "t_id r = i"
    "t_uniqueId r = execution_reference a" "t_description r = Some (''autostack_charge:'' @ a_id a)"
    "mget (t_meta r) ''paymentType'' = ''CRYPTO_WALLET''" "mget (t_meta r) ''sourceAsset'' = ''USDT''"
    "mget (t_meta r) ''principalUsdtAmountBase'' = show_int 50" "mget (t_meta r) ''principalUsdtAmount'' = ''0.00000000000000005''"
    "mget (t_meta r) ''transactionFeeBase'' = ''2''" "mget (t_meta r) ''sourceAmountBase'' = show_int 50"
    "mget (t_meta r) ''sourceAmount'' = ''0.00000000000000005''" "mget (t_meta r) ''autostackInitiationStatus'' = ''PENDING''"
  by (simp_all add: Let_def r_def execution_row_def execution_terms_example_def config_example_def new_transaction_def orelse_def
      mget_def [of "_ # _"] to_upper_def upper_char_def)

lemma example_row_params:
  "stack_params env_example a (execution_row i a config_example execution_terms_example)
     (claimed_meta env_example (t_meta (execution_row i a config_example execution_terms_example)))
   = Inr params_example"
proof -
  have p: "parse_bigint ''2'' = Inr 2" by (simp add: parse_bigint_def amount_char_def eval_simps)
  have u: "to_upper ''USDT'' = ''USDT''" by (simp add: eval_simps)
  show ?thesis
    by (simp add: Let_def stack_params_def claimed_meta_def example_row orelse_def p u source_fee_def bigdiv_def params_example_def)
qed


lemma update_fresh:
  "List.find p ts = None \<Longrightarrow> p r \<Longrightarrow> update_where p f (ts @ [r]) = ts @ [f r]"
  by (induction ts) (auto simp: update_where_def split: if_splits)

lemma find_fresh: "List.find p ts = None \<Longrightarrow> p r \<Longrightarrow> List.find p (ts @ [r]) = Some r"
  by (induction ts) (auto split: if_splits)

definition example_wallet :: "int \<Rightarrow> int \<Rightarrow> string \<Rightarrow> wallet" where
  "example_wallet b k shown = wallet_example\<lparr>w_baseBalance := b, w_stackedAmount := k, w_originalBalance := shown\<rparr>"

definition example_a1 :: "autoStack \<Rightarrow> bool" where
  "example_a1 a \<longleftrightarrow> a_id a = ''a1'' \<and> a_userId a = ''u1'' \<and> a_status a = ASACTIVE"

text \<open>The USDT transaction on a database where the execution's row is the last one.\<close>

lemma example_execute:
  assumes "d_wallets d = [example_wallet b k sh]" "d_autoStacks d = [a]" "example_a1 a"
    and "d_cryptoCurrencies d = [\<lparr>c_id = ''c1'', c_symbol = ''USDT''\<rparr>]"
    and "d_transactions d = ts @ [r]" "List.find (\<lambda>t. t_id t = i) ts = None" "t_id r = i"
    and "72 \<le> b" "fromBase cv_example (ABigInt (b - 52)) ''USDT'' None = Inr sh'"
  shows "\<exists>d' r'. autostack_wallet_tx env_example a i m params_example d = (Inr (), d')
    \<and> d_wallets d' = [example_wallet (b - 52) (k + 50) sh'] \<and> d_autoStacks d' = [stack_executed env_example False 50 a a]
    \<and> d_transactions d' = ts @ [r'] \<and> t_id r' = i \<and> t_uniqueId r' = t_uniqueId r \<and> t_description r' = t_description r
    \<and> d_cryptoCurrencies d' = d_cryptoCurrencies d \<and> d_seq d' = d_seq d"
proof -
  have p: "sp_source params_example = 50" "sp_fee params_example = 2" by (simp_all add: params_example_def)
  have a: "a_userId a = ''u1''" "(a_status a = ASPENDING) = False" using assms(3) by (simp_all add: example_a1_def)
  note upd = update_fresh [OF assms(6), of r] 
  show ?thesis
    using assms(8)
    by (simp add: autostack_wallet_tx_def comp_defs assms(1,2,4,5,7,9) p a crypto_by_symbol_def usdt_wallet_def
        example_wallet_def wallet_example_def sqlWallets_def guarded_count_def guarded_update_def w_stack_def
        refreshOriginalBalance_def base_of_def updWallets_def update_where_def [of _ _ "[_]"] updLiquidity_def
        updAutoStacks_def shown_db_def example_displays updTransactions_def upd)
qed


lemma example_initiate:
  assumes w: "d_wallets (s_db s) = [example_wallet b k sh]" and a: "d_autoStacks (s_db s) = [a]" "example_a1 a"
    and c: "d_cryptoCurrencies (s_db s) = [\<lparr>c_id = ''c1'', c_symbol = ''USDT''\<rparr>]"
    and t: "d_transactions (s_db s) = ts" "config_of ''u1'' ''a1'' (s_db s) = Some config_example"
    and fresh: "List.find (\<lambda>t. t_uniqueId t = execution_reference a) ts = None"
      "List.find (\<lambda>t. t_id t = show_nat (d_seq (s_db s))) ts = None"
    and b: "72 \<le> b" "fromBase cv_example (ABigInt (b - 52)) ''USDT'' None = Inr sh'"
  shows "\<exists>s' r'. initiateAutoStack env_example ops_example answers_example ''a1'' True s = (Inr (), s')
    \<and> d_wallets (s_db s') = [example_wallet (b - 52) (k + 50) sh']
    \<and> d_autoStacks (s_db s') = [stack_executed env_example False 50 a a]
    \<and> d_transactions (s_db s') = ts @ [r'] \<and> t_id r' = show_nat (d_seq (s_db s)) \<and> t_uniqueId r' = execution_reference a
    \<and> t_description r' = Some (''autostack_charge:a1'')
    \<and> d_cryptoCurrencies (s_db s') = d_cryptoCurrencies (s_db s) \<and> d_seq (s_db s') = Suc (d_seq (s_db s))"
proof -
  let ?i = "show_nat (d_seq (s_db s))"
  define row where "row = execution_row ?i a config_example execution_terms_example"
  define m where "m = claimed_meta env_example (t_meta row)"
  define d1 where "d1 = (s_db s)\<lparr>d_seq := Suc (d_seq (s_db s)), d_transactions := ts @ [row]\<rparr>"
  define d2 where "d2 = (s_db s)\<lparr>d_seq := Suc (d_seq (s_db s)), d_transactions := ts @ [row\<lparr>t_meta := m\<rparr>]\<rparr>"
  have a': "a_id a = ''a1''" "a_userId a = ''u1''" "a_status a = ASACTIVE" using a(2) by (simp_all add: example_a1_def)
  have ri: "t_id row = ?i" "t_uniqueId row = execution_reference a" "t_description row = Some ''autostack_charge:a1''"
    by (simp_all add: row_def example_row a')
  have cuid: "e_cuid env_example = show_nat" by (simp add: env_example_def)
  have get: "getOrCreateAutoStackExecutionTransaction env_example ops_example answers_example a config_example s
      = (Inr (Some row), s\<lparr>s_db := d1\<rparr>)"
    by (simp add: getOrCreateAutoStackExecutionTransaction_def comp_defs transaction_by_uniqueId_def t(1) fresh(1)
        example_terms dbM_def catchM_def freshM_def insertTransaction_def ri row_def [symmetric] cuid d1_def)
  have status: "to_upper (mget (t_meta row) ''autostackInitiationStatus'') = ''PENDING''"
    by (simp add: row_def example_row eval_simps)
  have claim: "autostack_claim env_example ?i (t_meta row) d1 = (Inr (Some m), d2)"
    using update_fresh [OF fresh(2), of row "\<lambda>t. t\<lparr>t_meta := m\<rparr>"]
    by (simp add: autostack_claim_def comp_defs transaction_by_id_def d1_def find_fresh [OF fresh(2)] ri status Let_def
        m_def [symmetric] updTransactions_def d2_def)
  have params: "stack_params env_example a row m = Inr params_example"
    unfolding m_def row_def by (rule example_row_params)
  obtain d' r' where ex: "autostack_wallet_tx env_example a ?i m params_example d2 = (Inr (), d')"
    "d_wallets d' = [example_wallet (b - 52) (k + 50) sh'] \<and> d_autoStacks d' = [stack_executed env_example False 50 a a]
    \<and> d_transactions d' = ts @ [r'] \<and> t_id r' = ?i \<and> t_uniqueId r' = t_uniqueId (row\<lparr>t_meta := m\<rparr>)
    \<and> t_description r' = t_description (row\<lparr>t_meta := m\<rparr>)
    \<and> d_cryptoCurrencies d' = d_cryptoCurrencies d2 \<and> d_seq d' = d_seq d2"
    using example_execute [of d2 b k sh a ts "row\<lparr>t_meta := m\<rparr>" ?i sh' m] w a c fresh(2) b ri
    by (auto simp: d2_def)
  have p: "sp_wallet params_example" "sp_sourceAsset params_example = ''USDT''" by (simp_all add: params_example_def)
  have pend: "initiatePendingAutoStack env_example ops_example answers_example a row (s\<lparr>s_db := d1\<rparr>) = (Inr (), s\<lparr>s_db := d'\<rparr>)"
    by (simp add: initiatePendingAutoStack_def comp_defs txM_def ri claim params catchM_def autostack_execute_def p ex(1))
  have "initiateAutoStack env_example ops_example answers_example ''a1'' True s = (Inr (), s\<lparr>s_db := d'\<rparr>)"
    by (simp add: initiateAutoStack_def comp_defs stack_by_id_def a a' t(2) get pend)
  then show ?thesis
    using ex(2) ri by (intro exI [of _ "s\<lparr>s_db := d'\<rparr>"] exI [of _ r']) (simp add: d2_def)
qed


definition plan_due :: autoStack where
  "plan_due = stack_example\<lparr>a_status := ASACTIVE\<rparr>"

definition sys_due :: sys where
  "sys_due = sys_example\<lparr>s_db := db_stack\<lparr>d_autoStacks := [plan_due], d_wallets := [example_wallet 300 50 ''0'']\<rparr>\<rparr>"

definition no_interest :: interestOf where
  "no_interest = (\<lambda>amount rate days. Inr 0)"

lemma due_displays:
  "fromBase cv_example (ABigInt 248) ''USDT'' None = Inr ''0.000000000000000248''"
  "fromBase cv_example (ABigInt 196) ''USDT'' None = Inr ''0.000000000000000196''"
  by (simp_all add: cv_example_def currency_eval eval_simps)

lemma one_day: "getInterestDate DAILY 1000 = 86401000" "getNextExecutionAt DAILY 1000 = 86401000"
  using setUTCDate_add [of 1000 1] by (simp_all add: getInterestDate_def getNextExecutionAt_def period_days_def MS_PER_DAY_def)

lemma iso_differ: "toISOString 86401000 \<noteq> toISOString 0"
proof -
  have "getUTCFullYear 86401000 = 1970" "getUTCFullYear 0 = 1970"
    by (simp_all add: getUTCFullYear_def year_of_def utc_day_def MS_PER_DAY_def year_up.simps day_from_year_def)
  then have "parseISO (toISOString 86401000) = Some 86401000" "parseISO (toISOString 0) = Some 0"
    by (simp_all add: iso_reads_back)
  then show ?thesis by auto
qed

text \<open>Two jobs that both read a plan as due charge the user twice for one period: the second finds the
  schedule already moved on, but checks only the plan it read before, and then forces the
  execution of the next period. Here the balance goes from 300 to 248 and to 196, while the plan
  is not due again before a day has passed.\<close>

theorem charge_race_charges_twice:
  "\<exists>s1 s2 a1. charge_stack env_example ops_example answers_example no_interest None plan_due sys_due = (Inr (), s1)
     \<and> charge_stack env_example ops_example answers_example no_interest None plan_due s1 = (Inr (), s2)
     \<and> d_autoStacks (s_db s1) = [a1] \<and> \<not> isExecutionDue (a_nextExecutionAt a1) (e_now env_example) False
     \<and> map w_baseBalance (d_wallets (s_db sys_due)) = [300]
     \<and> map w_baseBalance (d_wallets (s_db s1)) = [248] \<and> map w_baseBalance (d_wallets (s_db s2)) = [196]"
proof -
  have due: "isExecutionDue (a_nextExecutionAt plan_due) 1000 False" "a_status plan_due = ASACTIVE" "a_id plan_due = ''a1''"
    by (simp_all add: isExecutionDue_def plan_due_def stack_example_def)
  have charge: "charge_stack env_example ops_example answers_example no_interest None plan_due s
      = thenM (txM env_example ''autostack_interest'' (accrue_tx env_example no_interest ''0'' plan_due))
        (initiateAutoStack env_example ops_example answers_example ''a1'' True) s" for s
    using due by (simp add: charge_stack_def orelse_def opt_str_def)
  define a0 where "a0 = plan_due\<lparr>a_nextInterestAt := 86401000\<rparr>"
  define d0 where "d0 = (s_db sys_due)\<lparr>d_autoStacks := [a0]\<rparr>"
  have accrue: "accrue_tx env_example no_interest ''0'' plan_due (s_db sys_due) = (Inr (), d0)"
    by (simp add: accrue_tx_def comp_defs stack_by_id_def sys_due_def plan_due_def stack_example_def no_interest_def
        updAutoStacks_def update_where_def one_day updWallets_def updLiquidity_def d0_def a0_def db_stack_def
        db_example_def db_empty_def example_wallet_def wallet_example_def liquidity_example_def new_liquidity_def)
  define s0 where "s0 = sys_due\<lparr>s_db := d0\<rparr>"
  have ts: "d_transactions (s_db s0) = [config_example]" "d_seq (s_db s0) = 0"
    "d_cryptoCurrencies (s_db s0) = [\<lparr>c_id = ''c1'', c_symbol = ''USDT''\<rparr>]"
    "d_wallets (s_db s0) = [example_wallet 300 50 ''0'']" "d_autoStacks (s_db s0) = [a0]"
    by (simp_all add: s0_def d0_def sys_due_def db_stack_def db_example_def db_empty_def)
  have cfg: "t_id config_example = ''t1''" "t_uniqueId config_example = ''autostack-confirm-1''"
    "t_description config_example = Some ''autostack_config:a1''" "t_userId config_example = ''u1''"
    by (simp_all add: config_example_def new_transaction_def)
  have a0: "example_a1 a0" "execution_reference a0 = ''autostack-charge-a1-'' @ toISOString 0"
    by (simp_all add: example_a1_def a0_def plan_due_def stack_example_def execution_reference_def)
  obtain s1 r1 where s1: "initiateAutoStack env_example ops_example answers_example ''a1'' True s0 = (Inr (), s1)"
    "d_wallets (s_db s1) = [example_wallet (300 - 52) (50 + 50) ''0.000000000000000248'']"
    "d_autoStacks (s_db s1) = [stack_executed env_example False 50 a0 a0]"
    "d_transactions (s_db s1) = [config_example] @ [r1]" "t_id r1 = show_nat 0" "t_uniqueId r1 = execution_reference a0"
    "t_description r1 = Some ''autostack_charge:a1''" "d_cryptoCurrencies (s_db s1) = d_cryptoCurrencies (s_db s0)"
    "d_seq (s_db s1) = Suc (d_seq (s_db s0))"
    using example_initiate [OF ts(4,5) a0(1) ts(3,1), where sh' = "''0.000000000000000248''"] due_displays(1) a0(2) ts(2)
    by (auto simp: config_of_def ts cfg)
  define a1 where "a1 = stack_executed env_example False 50 a0 a0"
  have a1: "example_a1 a1" "execution_reference a1 = ''autostack-charge-a1-'' @ toISOString 86401000"
    "a_nextInterestAt a1 = 86401000" "a_nextExecutionAt a1 = 86401000" "a_id a1 = ''a1''"
    by (simp_all add: example_a1_def a1_def a0_def plan_due_def stack_example_def execution_reference_def stack_executed_def one_day)
  obtain s2 where s2: "initiateAutoStack env_example ops_example answers_example ''a1'' True s1 = (Inr (), s2)"
    "d_wallets (s_db s2) = [example_wallet (248 - 52) (100 + 50) ''0.000000000000000196'']"
    using example_initiate [of s1 248 100 "''0.000000000000000248''" a1 "[config_example, r1]" "''0.000000000000000196''"]
      s1 a1 due_displays(2) ts iso_differ a0(2)
    by (auto simp: config_of_def cfg a1_def [symmetric])
  have skip: "accrue_tx env_example no_interest ''0'' plan_due (s_db s1) = (Inr (), s_db s1)"
    using s1(3) a1 due(3) by (simp add: accrue_tx_def comp_defs stack_by_id_def a1_def [symmetric])
  have "charge_stack env_example ops_example answers_example no_interest None plan_due sys_due = (Inr (), s1)"
    unfolding charge using s1(1) by (simp add: thenM_def bindM_def txM_def accrue s0_def)
  moreover have "charge_stack env_example ops_example answers_example no_interest None plan_due s1 = (Inr (), s2)"
    unfolding charge using s2(1) by (simp add: thenM_def bindM_def txM_def skip)
  ultimately show ?thesis
    using s1(2,3) s2(2) a1
    by (intro exI [of _ s1] exI [of _ s2] exI [of _ a1])
       (simp add: a1_def [symmetric] isExecutionDue_def sys_due_def example_wallet_def)
qed

end
