(* ===== verification/SwapWebhook.thy ===== *)
theory SwapWebhook
  imports StackBooks
begin

text \<open>
  The swap webhook (\<^verbatim>\<open>swap-transaction.handler.ts\<close>): the provider reports the end of a swap.
  A vault swap funds a pending BTC vault, or ends it; any other swap moves the user's
  balances, and that of an auto-stacking plan stacks what was received.

  The transactions are definitions of their own (suffix \<open>_tx\<close>), given what the handler read
  before them, so that interleavings of two deliveries can be stated. Arguments for what is
  outside: \<open>swapOps\<close> is decimal.js on the interest of a vault and the configured fee,
  \<open>swapAnswers\<close> what the provider and the ticker answer.
\<close>

section \<open>Inputs\<close>

record swapData =
  sd_id :: string
  sd_from_amount :: string
  sd_received_amount :: string
  sd_execution_price :: string
  sd_updatedAt :: "int option"

record swapConfirmed =
  xc_status :: string
  xc_from_amount :: string
  xc_received_amount :: string
  xc_execution_price :: string

text \<open>
  \<open>xo_gain a r n\<close> is \<^verbatim>\<open>new Decimal(a).mul(r).mul(n).div(36500)\<close> rounded down; \<open>xo_fee\<close> the
  configured fee, if any. \<open>xa_confirmed\<close> is \<^verbatim>\<open>data\<close> of \<^verbatim>\<open>getSwapTransaction\<close>, \<open>None\<close> when it or its
  id is missing.
\<close>

record swapOps =
  xo_gain :: "int \<Rightarrow> string \<Rightarrow> int \<Rightarrow> int"
  xo_fee :: "rat option"

record swapAnswers =
  xa_confirmed :: "error + swapConfirmed option"
  xa_price :: "string option"

definition terminal_swap :: "string \<Rightarrow> bool" where
  "terminal_swap status \<longleftrightarrow> status \<in> set [''COMPLETED'', ''FAILED'', ''completed'', ''failed'', ''reversed'']"

definition swap_date :: "env \<Rightarrow> swapData \<Rightarrow> int" where
  "swap_date env data = (case sd_updatedAt data of None \<Rightarrow> e_now env | Some t \<Rightarrow> t)"

definition swap_by_id :: "string \<Rightarrow> db \<Rightarrow> swapTransaction option" where
  "swap_by_id i d = List.find (\<lambda>x. sw_id x = i) (d_swaps d)"

definition vault_by_id :: "string \<Rightarrow> db \<Rightarrow> vault option" where
  "vault_by_id i d = List.find (\<lambda>v. v_id v = i) (d_vaults d)"

section \<open>Vault swaps\<close>

definition linked_vault_tx :: "string \<Rightarrow> string \<Rightarrow> db \<Rightarrow> transaction option" where
  "linked_vault_tx swapId userId d =
     List.find (\<lambda>t. t_uniqueId t = swapId \<and> t_context t = CtxVAULT_SWAP \<and> t_userId t = userId) (d_transactions d)"

definition expected_usdt :: "env \<Rightarrow> swapTransaction \<Rightarrow> vault \<Rightarrow> error + int" where
  "expected_usdt env sw v =
     (case truthy (sw_toAmountOriginal sw) of
        None \<Rightarrow> Inr (v_amountLocked v)
      | Some a \<Rightarrow> toBase (e_cv env) a ''USDT'' None)"

text \<open>USDT liquidity is released only when that much is reserved.\<close>

definition release_expected :: "int \<Rightarrow> unit dbm" where
  "release_expected expected =
     bindM (getM (liquidity_for ''USDT'')) (\<lambda>r.
     let reserved = (case r of None \<Rightarrow> 0 | Some l \<Rightarrow> l_reservedBalance l)
     in whenM (reserved \<ge> expected) (releaseLiquidity ''USDT'' expected))"

definition failure_event :: "string \<Rightarrow> bool" where
  "failure_event event \<longleftrightarrow> event \<in> set [''swap_transaction.failed'', ''swap_transaction.reversed'',
     ''swap_transaction.cancelled'', ''swap_transaction.canceled'']"

definition REVERSED :: string where
  "REVERSED = ''swap_transaction.reversed''"

definition failed_status :: "string \<Rightarrow> string" where
  "failed_status event = (if event = REVERSED then ''reversed'' else ''FAILED'')"

definition vault_swap_failure_tx :: "env \<Rightarrow> swapTransaction \<Rightarrow> swapData \<Rightarrow> string \<Rightarrow> string \<Rightarrow> unit dbm" where
  "vault_swap_failure_tx env sw data event vaultId =
     bindM (getM (vault_by_id vaultId)) (\<lambda>r.
       case r of
         None \<Rightarrow> returnM ()
       | Some v \<Rightarrow>
     if v_status v = VTERMINATED then returnM ()
     else bindM (getM (linked_vault_tx (sd_id data) (sw_userId sw))) (\<lambda>linked.
       thenM (case linked of
           None \<Rightarrow> returnM ()
         | Some t \<Rightarrow>
             whenM (t_status t \<noteq> TxFAILED)
               (let reservedBtc = (case t_totalAmountSentBase t of None \<Rightarrow> 0 | Some a \<Rightarrow> a)
                in thenM (whenM (reservedBtc > 0) (releaseBalance (sw_userId sw) ''BTC'' reservedBtc None))
                  (updTransactions (\<lambda>x. t_id x = t_id t) (\<lambda>x. x\<lparr>t_status := TxFAILED, t_isProcessed := True,
                     t_description := Some (if event = REVERSED
                       then ''Vault BTC swap reversed before funding vault''
                       else ''Vault BTC swap failed before funding vault'')\<rparr>))))
       (bindM (liftM (expected_usdt env sw v)) (\<lambda>expected.
        thenM (whenM (expected > 0) (release_expected expected))
        (thenM (updVaults (\<lambda>x. v_id x = vaultId) (\<lambda>x. x\<lparr>v_status := VTERMINATED\<rparr>))
          (updSwaps (\<lambda>x. sw_id x = sw_id sw) (\<lambda>x. x\<lparr>sw_status := failed_status event,
             sw_receivedAmountOriginal := Some (sd_received_amount data), sw_confirmed := False\<rparr>)))))))"

text \<open>Less was received than the vault was promised: the vault ends, both reservations are given back.\<close>

definition total_sent_of :: "transaction \<Rightarrow> error + int" where
  "total_sent_of t = (case t_totalAmountSentBase t of
       None \<Rightarrow> Inl (PlainError ''TypeError: Cannot read properties of null'')
     | Some a \<Rightarrow> Inr a)"

definition vault_swap_short :: "swapTransaction \<Rightarrow> swapData \<Rightarrow> string \<Rightarrow> transaction option \<Rightarrow> int \<Rightarrow> unit dbm" where
  "vault_swap_short sw data vaultId linked expected =
     thenM (updVaults (\<lambda>x. v_id x = vaultId) (\<lambda>x. x\<lparr>v_status := VTERMINATED\<rparr>))
     (thenM (release_expected expected)
     (thenM (case linked of
         None \<Rightarrow> returnM ()
       | Some t \<Rightarrow>
           bindM (liftM (total_sent_of t)) (\<lambda>sent.
           thenM (releaseBalance (sw_userId sw) ''BTC'' sent None)
             (updTransactions (\<lambda>x. t_id x = t_id t) (\<lambda>x. x\<lparr>t_status := TxFAILED,
                t_description := Some ''Swap received below principal threshold''\<rparr>))))
       (updSwaps (\<lambda>x. sw_id x = sw_id sw) (\<lambda>x. x\<lparr>sw_status := ''FAILED'',
          sw_receivedAmountOriginal := Some (sd_received_amount data), sw_confirmed := False\<rparr>))))"

definition vault_days :: "vault \<Rightarrow> int" where
  "vault_days v = max 1 (- ((v_requestedAt v - v_maturityDate v) div 86400000))"

text \<open>The reserved BTC leaves the wallet.\<close>

definition vault_swap_debit :: "env \<Rightarrow> string \<Rightarrow> wallet \<Rightarrow> int \<Rightarrow> unit dbm" where
  "vault_swap_debit env swapId btc charge =
     bindM (sqlWallets (\<lambda>x. w_id x = w_id btc) (w_settle charge)) (\<lambda>rows.
     thenM (requireM (rows \<noteq> 0)
       (PlainError (''Vault swap '' @ swapId @ '': insufficient reserved BTC balance to finalize'')))
     (thenM (refreshOriginalBalance env (w_id btc) ''BTC'')
       (updateInternalBalance env ''BTC'' charge Subtract)))"

text \<open>The USDT: what was expected is locked, the surplus goes to the balance.\<close>

definition w_fund :: "int \<Rightarrow> int \<Rightarrow> int \<Rightarrow> wallet \<Rightarrow> wallet" where
  "w_fund surplus amount gain w = w\<lparr>w_baseBalance := w_baseBalance w + surplus,
     w_lockedAmount := w_lockedAmount w + amount, w_totalLockedInterest := w_totalLockedInterest w + gain\<rparr>"

definition vault_swap_fund :: "env \<Rightarrow> wallet \<Rightarrow> int \<Rightarrow> int \<Rightarrow> int \<Rightarrow> unit dbm" where
  "vault_swap_fund env usdt expected received gain =
     thenM (updWallets (\<lambda>x. w_id x = w_id usdt) (w_fund (received - expected) expected gain))
     (thenM (refreshOriginalBalance env (w_id usdt) ''USDT'')
     (thenM (updateInternalBalance env ''USDT'' received Add)
     (thenM (release_expected expected)
       (updLiquidity (\<lambda>l. ieq (l_currency l) ''USDT'') (l_lock expected gain)))))"

text \<open>
  \<^verbatim>\<open>rate\<close> is a \<^verbatim>\<open>Decimal(78, 0)\<close> column: the database rounds what is written to it to an
  integer, halves away from zero.
\<close>

definition round_column :: "rat \<Rightarrow> int" where
  "round_column x = (if x < 0 then - \<lfloor>1 / 2 - x\<rfloor> else \<lfloor>x + 1 / 2\<rfloor>)"

definition execution_rate :: "env \<Rightarrow> string \<Rightarrow> error + int option" where
  "execution_rate env price =
     (if price = [] then Inr None
      else (case e_decValue env price of
          None \<Rightarrow> Inl (PlainError ''DecimalError: Invalid argument'')
        | Some x \<Rightarrow> Inr (Some (round_column x))))"

definition activated :: "cryptoCurrency option \<Rightarrow> int \<Rightarrow> int \<Rightarrow> int \<Rightarrow> int option \<Rightarrow> vault \<Rightarrow> vault" where
  "activated usdt expected gain cost rate v = v\<lparr>v_status := VACTIVE,
     v_currencyId := (case usdt of None \<Rightarrow> v_currencyId v | Some c \<Rightarrow> c_id c),
     v_amountLocked := expected, v_totalGain := gain, v_transactionFee := cost,
     v_amountToReceive := expected + gain - cost,
     v_rate := (case rate of None \<Rightarrow> v_rate v | Some r \<Rightarrow> r)\<rparr>"

definition vault_swap_funded ::
    "env \<Rightarrow> swapOps \<Rightarrow> swapTransaction \<Rightarrow> swapData \<Rightarrow> vault \<Rightarrow> transaction option \<Rightarrow> int \<Rightarrow> int \<Rightarrow> unit dbm" where
  "vault_swap_funded env ops sw data v linked expected received =
     bindM (getM (wallet_for (sw_userId sw) ''USDT'')) (\<lambda>u.
     bindM (getM (wallet_for (sw_userId sw) ''BTC'')) (\<lambda>b.
     bindM (someM u (PlainError ''Required wallets missing for vault swap'')) (\<lambda>usdt.
     bindM (someM b (PlainError ''Required wallets missing for vault swap'')) (\<lambda>btc.
     bindM (liftM (case linked of None \<Rightarrow> Inr 0 | Some t \<Rightarrow> total_sent_of t)) (\<lambda>charge.
     thenM (vault_swap_debit env (sd_id data) btc charge)
     (let gain = xo_gain ops expected (v_interestRatePerAnum v) (vault_days v);
          cost = vault_fee (VAULT_TRANSACTION_FEE (xo_fee ops)) (expected + gain)
      in thenM (vault_swap_fund env usdt expected received gain)
     (bindM (getM (crypto_by_symbol ''USDT'')) (\<lambda>c.
      bindM (liftM (execution_rate env (sd_execution_price data))) (\<lambda>rate.
      thenM (updVaults (\<lambda>x. v_id x = v_id v) (activated c expected gain cost rate))
      (thenM (case linked of
          None \<Rightarrow> returnM ()
        | Some t \<Rightarrow> updTransactions (\<lambda>x. t_id x = t_id t) (\<lambda>x. x\<lparr>t_status := TxCOMPLETED,
            t_isProcessed := True, t_executedAt := Some (e_now env),
            t_description := Some (''Vault funded via BTC swap: '' @ sd_from_amount data @ '' BTC '' @ ARROW @ '' ''
              @ sd_received_amount data @ '' USDT'')\<rparr>))
        (updSwaps (\<lambda>x. sw_id x = sw_id sw) (\<lambda>x. x\<lparr>sw_status := ''COMPLETED'',
           sw_receivedAmountOriginal := Some (sd_received_amount data), sw_confirmed := True\<rparr>))))))))))))"

definition vault_swap_completion_tx ::
    "env \<Rightarrow> swapOps \<Rightarrow> swapTransaction \<Rightarrow> swapData \<Rightarrow> string \<Rightarrow> unit dbm" where
  "vault_swap_completion_tx env ops sw data vaultId =
     bindM (getM (vault_by_id vaultId)) (\<lambda>r.
     if (case r of None \<Rightarrow> False | Some v \<Rightarrow> v_status v \<noteq> VACTIVE \<and> v_status v \<noteq> VPENDING) then returnM ()
     else bindM (getM (linked_vault_tx (sd_id data) (sw_userId sw))) (\<lambda>linked.
     if (case linked of None \<Rightarrow> False | Some t \<Rightarrow> t_status t = TxCOMPLETED) then returnM ()
     else bindM (someM r (PlainError (''Vault '' @ vaultId @ '' not found''))) (\<lambda>v.
     bindM (liftM (expected_usdt env sw v)) (\<lambda>expected.
     bindM (liftM (toBase (e_cv env) (sd_received_amount data) ''USDT'' None)) (\<lambda>received.
     if received < expected then vault_swap_short sw data vaultId linked expected
     else vault_swap_funded env ops sw data v linked expected received)))))"

definition COMPLETED_EVENT :: string where
  "COMPLETED_EVENT = ''swap_transaction.completed''"

text \<open>The update of the dashboard, whose failure is ignored, and of the cache.\<close>

definition swap_dashboard :: "env \<Rightarrow> string \<Rightarrow> string \<Rightarrow> unit sysm" where
  "swap_dashboard env swapId event =
     thenM (callM (CallDashboard swapId 0))
       (whenM (event = COMPLETED_EVENT) (syncAllToCache env))"

definition processVaultSwapCompletion ::
    "env \<Rightarrow> swapOps \<Rightarrow> swapTransaction \<Rightarrow> swapData \<Rightarrow> string \<Rightarrow> string \<Rightarrow> unit sysm" where
  "processVaultSwapCompletion env ops sw data event vaultId =
     (if event \<noteq> COMPLETED_EVENT
      then whenM (failure_event event) (txM env ''vault_swap_failure'' (vault_swap_failure_tx env sw data event vaultId))
      else thenM (txM env ''vault_swap_completion'' (vault_swap_completion_tx env ops sw data vaultId))
        (swap_dashboard env (sd_id data) event))"

section \<open>Other swaps\<close>

text \<open>
  The transaction a swap settles: its own, or that of the auto-stacking execution named by the
  quote id. A missing quote id is \<^verbatim>\<open>undefined\<close>, which drops the condition.
\<close>

definition linked_swap_tx :: "swapTransaction \<Rightarrow> string \<Rightarrow> db \<Rightarrow> transaction option" where
  "linked_swap_tx sw swapId d =
     (case List.find (\<lambda>t. t_uniqueId t = swapId \<and> t_context t = CtxSWAP \<and> t_type t = DEBIT
          \<and> t_userId t = sw_userId sw) (d_transactions d) of
        Some t \<Rightarrow> Some t
      | None \<Rightarrow> List.find (\<lambda>t. t_context t = CtxAUTOSTACK \<and> t_type t = DEBIT
          \<and> (case truthy (sw_quoteId sw) of None \<Rightarrow> True | Some q \<Rightarrow> t_uniqueId t = q)
          \<and> t_userId t = sw_userId sw) (d_transactions d))"

definition or0 :: "int option \<Rightarrow> int" where
  "or0 x = (case x of None \<Rightarrow> 0 | Some a \<Rightarrow> a)"

text \<open>What was booked when the swap was requested, and what is reserved for it (with the fee).\<close>

definition booked_amount :: "env \<Rightarrow> transaction option \<Rightarrow> swapData \<Rightarrow> string \<Rightarrow> error + int" where
  "booked_amount env linked data fromCurrency =
     (case linked of
        Some t \<Rightarrow> Inr (or0 (t_cryptoAmountBase t))
      | None \<Rightarrow> toBase (e_cv env) (sd_from_amount data) fromCurrency None)"

definition reserved_amount :: "transaction option \<Rightarrow> int \<Rightarrow> int" where
  "reserved_amount linked booked =
     (case linked of None \<Rightarrow> booked | Some t \<Rightarrow> or0 (t_cryptoAmountBase t) + or0 (t_platformFeeBase t))"

text \<open>What the handler has read and computed when it starts the transaction.\<close>

record swapBooking =
  sb_swap :: swapTransaction
  sb_data :: swapData
  sb_from :: string
  sb_to :: string
  sb_fromWallet :: wallet
  sb_toWallet :: wallet
  sb_linked :: "transaction option"
  sb_booked :: int
  sb_reserved :: int

definition failed_swap_meta :: "env \<Rightarrow> string \<Rightarrow> transaction \<Rightarrow> meta" where
  "failed_swap_meta env event t =
     (if t_context t = CtxAUTOSTACK then mset_all
        [(''liquidityReservationStatus'', ''released''), (''liquidityReleasedAt'', toISOString (e_now env)),
         (''liquidityReleaseReason'', if event = REVERSED then ''autostack_swap_reversed'' else ''autostack_swap_failed''),
         (''autostackInitiationStatus'', ''FAILED''),
         (''autostackSettlement'', if event = REVERSED then ''swap_reversed'' else ''swap_failed'')] (t_meta t)
      else t_meta t)"

definition swap_failure_tx :: "env \<Rightarrow> string \<Rightarrow> swapBooking \<Rightarrow> unit dbm" where
  "swap_failure_tx env event sb =
     thenM (releaseBalance (sw_userId (sb_swap sb)) (sb_from sb) (sb_reserved sb) None)
     (thenM (updSwaps (\<lambda>x. sw_id x = sw_id (sb_swap sb)) (\<lambda>x. x\<lparr>sw_status := failed_status event, sw_confirmed := False\<rparr>))
     (thenM (case sb_linked sb of
         None \<Rightarrow> returnM ()
       | Some t \<Rightarrow> updTransactions (\<lambda>x. t_id x = t_id t) (\<lambda>x. x\<lparr>t_status := TxFAILED, t_isProcessed := True,
           t_executedAt := Some (e_now env),
           t_description := Some (if event = REVERSED
             then ''Swap reversed: '' @ sd_from_amount (sb_data sb) @ '' '' @ sb_from sb @ '' refunded''
             else ''Swap failed: '' @ sd_from_amount (sb_data sb) @ '' '' @ sb_from sb @ '' '' @ ARROW @ '' '' @ sb_to sb),
           t_meta := failed_swap_meta env event x\<rparr>))
       (releaseLiquidity (sb_from sb) (sb_booked sb))))"

text \<open>The pieces of the settlement. The source wallet loses what was reserved.\<close>

definition swap_debit :: "env \<Rightarrow> swapBooking \<Rightarrow> int \<Rightarrow> unit dbm" where
  "swap_debit env sb fromAmount =
     bindM (sqlWallets (\<lambda>x. w_id x = w_id (sb_fromWallet sb)) (w_settle (sb_reserved sb))) (\<lambda>rows.
     thenM (requireM (rows \<noteq> 0) (PlainError (''Swap '' @ sd_id (sb_data sb) @ '': insufficient reserved ''
       @ sb_from sb @ '' balance to finalize'')))
     (thenM (refreshOriginalBalance env (w_id (sb_fromWallet sb)) (sb_from sb))
       (updateInternalBalance env (to_lower (sb_from sb)) fromAmount Subtract)))"

definition swap_credit :: "env \<Rightarrow> swapBooking \<Rightarrow> int \<Rightarrow> unit dbm" where
  "swap_credit env sb toAmount =
     thenM (updWallets (\<lambda>x. w_id x = w_id (sb_toWallet sb)) (w_credit toAmount))
     (thenM (refreshOriginalBalance env (w_id (sb_toWallet sb)) (sb_to sb))
       (updateInternalBalance env (to_lower (sb_to sb)) toAmount Add))"

definition stack_swap :: "transaction option \<Rightarrow> bool" where
  "stack_swap linked = (case linked of
       None \<Rightarrow> False
     | Some t \<Rightarrow> t_context t = CtxAUTOSTACK \<and> to_upper (mget (t_meta t) ''paymentType'') = ''CRYPTO_WALLET''
         \<and> mget (t_meta t) ''autoStackId'' \<noteq> [])"

definition settled_stack_swap :: "transaction option \<Rightarrow> bool" where
  "settled_stack_swap linked = (case linked of
       None \<Rightarrow> False
     | Some t \<Rightarrow> mget (t_meta t) ''autostackWebhookProcessedAt'' \<noteq> []
         \<or> mget (t_meta t) ''autostackSettlement'' = ''swap_completed''
         \<or> mget (t_meta t) ''liquidityReservationStatus'' = ''released'')"

definition completed_swap :: "env \<Rightarrow> swapBooking \<Rightarrow> swapConfirmed \<Rightarrow> int \<Rightarrow> transaction \<Rightarrow> transaction" where
  "completed_swap env sb c fromAmount x = x\<lparr>t_status := TxCOMPLETED, t_isProcessed := True,
     t_fromCurrency := Some (sb_from sb), t_toCurrency := Some (sb_to sb),
     t_cryptoAmountBase := Some fromAmount, t_cryptoAmountOriginal := Some (xc_from_amount c),
     t_executedCryptoAmountBase := Some fromAmount, t_executionPrice := Some (xc_execution_price c),
     t_executedAt := Some (swap_date env (sb_data sb)),
     t_description := Some (''Swap completed: '' @ xc_from_amount c @ '' '' @ sb_from sb @ '' '' @ ARROW @ '' ''
       @ xc_received_amount c @ '' '' @ sb_to sb)\<rparr>"

text \<open>An auto-stacking execution by swap: what was received is stacked, the source liquidity is consumed.\<close>

definition stack_swapped :: "int \<Rightarrow> int \<Rightarrow> autoStack \<Rightarrow> autoStack \<Rightarrow> autoStack" where
  "stack_swapped settledAt received a x = x\<lparr>
     a_amount := (if a_status a = ASPENDING then received else a_amount x + received),
     a_lastExecutedAt := Some settledAt,
     a_nextExecutionAt := getNextExecutionAt (a_frequency a) settledAt,
     a_nextInterestAt := getInterestDate (a_frequency a) settledAt,
     a_status := ASACTIVE\<rparr>"

definition swapped_meta :: "env \<Rightarrow> swapConfirmed \<Rightarrow> int \<Rightarrow> meta" where
  "swapped_meta env c received =
     [(''liquidityReservationStatus'', ''consumed''), (''liquidityConsumedAt'', toISOString (e_now env)),
      (''liquidityConsumedReason'', ''autostack_swap_completed''),
      (''actualReceivedAmountBase'', show_int received), (''actualReceivedAmountOriginal'', xc_received_amount c),
      (''principalUsdtAmountBase'', show_int received), (''principalUsdtAmount'', xc_received_amount c),
      (''autostackWebhookProcessedAt'', toISOString (e_now env)),
      (''autostackInitiationStatus'', ''COMPLETED''), (''autostackSettlement'', ''swap_completed'')]"

definition stack_swap_settle :: "env \<Rightarrow> swapBooking \<Rightarrow> swapConfirmed \<Rightarrow> transaction \<Rightarrow> int \<Rightarrow> unit dbm" where
  "stack_swap_settle env sb c t received =
     bindM (getM (stack_by_id (mget (t_meta t) ''autoStackId''))) (\<lambda>ra.
     bindM (getM (\<lambda>d. List.find (\<lambda>w. w_userId w = sw_userId (sb_swap sb) \<and> w_currency w = ''USDT'') (d_wallets d))) (\<lambda>rw.
       case ra of None \<Rightarrow> returnM () | Some a \<Rightarrow>
       (case rw of None \<Rightarrow> returnM () | Some w \<Rightarrow>
           thenM (updWallets (\<lambda>x. w_id x = w_id w) (\<lambda>x. x\<lparr>w_stackedAmount := w_stackedAmount x + received\<rparr>))
           (thenM (updAutoStacks (\<lambda>x. a_id x = a_id a) (stack_swapped (swap_date env (sb_data sb)) received a))
           (thenM (updateInternalBalance env (sb_to sb) received Add)
           (thenM (updLiquidity (\<lambda>l. ieq (l_currency l) (sb_to sb))
              (\<lambda>l. l\<lparr>l_totalAmountStacked := l_totalAmountStacked l + received\<rparr>))
           (bindM (consumeReservedLiquidity (sb_from sb) (sb_booked sb)) (\<lambda>consumed.
            thenM (requireM consumed (PlainError (''Autostack swap '' @ sw_id (sb_swap sb) @ '': unable to consume reserved ''
              @ sb_from sb @ '' liquidity'')))
              (updTransactions (\<lambda>x. t_id x = t_id t)
                (\<lambda>x. x\<lparr>t_meta := mset_all (swapped_meta env c received) (t_meta t)\<rparr>))))))))))"

definition swap_credit_row :: "env \<Rightarrow> string \<Rightarrow> swapBooking \<Rightarrow> swapConfirmed \<Rightarrow> int \<Rightarrow> transaction" where
  "swap_credit_row env i sb c toAmount =
     (new_transaction i (sw_userId (sb_swap sb)) (sd_id (sb_data sb) @ ''-credit'') (sb_to sb) CREDIT CtxSWAP)\<lparr>
       t_receiverWalletId := Some (w_id (sb_toWallet sb)),
       t_network := truthy (w_defaultNetwork (sb_toWallet sb)),
       t_fromCurrency := Some (sb_from sb), t_toCurrency := Some (sb_to sb),
       t_cryptoAmountBase := Some toAmount, t_cryptoAmountOriginal := Some (xc_received_amount c),
       t_executedCryptoAmountBase := Some toAmount, t_executionPrice := Some (xc_execution_price c),
       t_executedAt := Some (swap_date env (sb_data sb)),
       t_fiatAmountBase := 0, t_fiatAmountOriginal := Some ''0'',
       t_description := Some (''Swap received: '' @ xc_received_amount c @ '' '' @ sb_to sb),
       t_status := TxCOMPLETED, t_isProcessed := True\<rparr>"

text \<open>The NGN value of what was swapped, added to what the user has sent.\<close>

definition swap_ngn :: "env \<Rightarrow> string option \<Rightarrow> string \<Rightarrow> error + int" where
  "swap_ngn env price amount =
     (case truthy price of
        None \<Rightarrow> Inr 0
      | Some p \<Rightarrow>
          (case e_decValue env p of
             None \<Rightarrow> Inl (PlainError ''DecimalError: Invalid argument'')
           | Some v \<Rightarrow>
               (if v > 0 then
                  (case e_mulFixed2 env p amount of
                     None \<Rightarrow> Inl (PlainError ''DecimalError: Invalid argument'')
                   | Some n \<Rightarrow> toBase (e_cv env) n ''ngn'' None)
                else Inr 0)))"

definition swap_books :: "env \<Rightarrow> swapBooking \<Rightarrow> swapConfirmed \<Rightarrow> int \<Rightarrow> int \<Rightarrow> unit dbm" where
  "swap_books env sb c fromAmount toAmount =
     thenM (swap_debit env sb fromAmount)
     (thenM (whenM (\<not> stack_swap (sb_linked sb)) (swap_credit env sb toAmount))
       (case sb_linked sb of
          None \<Rightarrow> returnM ()
        | Some t \<Rightarrow>
            thenM (updTransactions (\<lambda>x. t_id x = t_id t) (completed_swap env sb c fromAmount))
              (whenM (stack_swap (sb_linked sb)) (stack_swap_settle env sb c t toAmount))))"

definition swap_records :: "env \<Rightarrow> swapBooking \<Rightarrow> swapConfirmed \<Rightarrow> int \<Rightarrow> string option \<Rightarrow> unit dbm" where
  "swap_records env sb c toAmount price =
     thenM (updSwaps (\<lambda>x. sw_id x = sw_id (sb_swap sb)) (\<lambda>x. x\<lparr>sw_status := ''COMPLETED'', sw_confirmed := True,
        sw_executionPriceOriginal := Some (xc_execution_price c),
        sw_receivedAmountOriginal := Some (xc_received_amount c), sw_amountOriginal := xc_from_amount c\<rparr>))
     (bindM (getM (transaction_by_uniqueId (sd_id (sb_data sb) @ ''-credit''))) (\<lambda>existing.
      thenM (whenM (\<not> stack_swap (sb_linked sb) \<and> existing = None)
        (bindM (freshM env) (\<lambda>i. insertTransaction (swap_credit_row env i sb c toAmount))))
      (thenM (whenM (\<not> stack_swap (sb_linked sb)) (releaseLiquidity (sb_from sb) (sb_booked sb)))
      (bindM (liftM (swap_ngn env price (xc_from_amount c))) (\<lambda>ngn.
        updUsers (\<lambda>u. u_id u = sw_userId (sb_swap sb)) (\<lambda>u. u\<lparr>u_amountSent := u_amountSent u + ngn\<rparr>))))))"

text \<open>The transaction: both rows are locked and their statuses read again; \<open>False\<close> when there is nothing to do.\<close>

definition swap_done :: "swapBooking \<Rightarrow> db \<Rightarrow> bool" where
  "swap_done sb d \<longleftrightarrow>
     (case swap_by_id (sw_id (sb_swap sb)) d of None \<Rightarrow> True | Some x \<Rightarrow> terminal_swap (sw_status x))
     \<or> (case sb_linked sb of
          None \<Rightarrow> False
        | Some t \<Rightarrow> (case transaction_by_id (t_id t) d of
              None \<Rightarrow> False
            | Some x \<Rightarrow> t_status x = TxCOMPLETED \<or> t_status x = TxFAILED))"

definition swap_settle_tx ::
    "env \<Rightarrow> swapBooking \<Rightarrow> swapConfirmed \<Rightarrow> int \<Rightarrow> int \<Rightarrow> string option \<Rightarrow> bool dbm" where
  "swap_settle_tx env sb c fromAmount toAmount price =
     bindM (getM (swap_done sb)) (\<lambda>done.
     if done \<or> (stack_swap (sb_linked sb) \<and> settled_stack_swap (sb_linked sb)) then returnM False
     else thenM (swap_books env sb c fromAmount toAmount)
       (thenM (swap_records env sb c toAmount price) (returnM True)))"

definition swap_booking ::
    "env \<Rightarrow> swapTransaction \<Rightarrow> swapData \<Rightarrow> wallet \<Rightarrow> wallet \<Rightarrow> transaction option \<Rightarrow> error + swapBooking" where
  "swap_booking env sw data fw tw linked =
     (case booked_amount env linked data (to_upper (sw_fromCurrency sw)) of
        Inl e \<Rightarrow> Inl e
      | Inr booked \<Rightarrow> Inr \<lparr>sb_swap = sw, sb_data = data, sb_from = to_upper (sw_fromCurrency sw),
          sb_to = to_upper (sw_toCurrency sw), sb_fromWallet = fw, sb_toWallet = tw, sb_linked = linked,
          sb_booked = booked, sb_reserved = reserved_amount linked booked\<rparr>)"

definition swap_settle :: "env \<Rightarrow> swapAnswers \<Rightarrow> swapBooking \<Rightarrow> string \<Rightarrow> unit sysm" where
  "swap_settle env xa sb event =
     bindM (liftM (xa_confirmed xa)) (\<lambda>r.
       case r of
         None \<Rightarrow> returnM ()
       | Some c \<Rightarrow>
     if xc_status c \<noteq> ''completed'' then returnM ()
     else bindM (liftM (toBase (e_cv env) (xc_from_amount c) (sb_from sb) None)) (\<lambda>fromAmount.
     bindM (liftM (toBase (e_cv env) (xc_received_amount c) (sb_to sb) None)) (\<lambda>toAmount.
     bindM (txM env ''swap_settle'' (swap_settle_tx env sb c fromAmount toAmount (xa_price xa))) (\<lambda>processed.
     whenM processed
       (thenM (case sb_linked sb of
           None \<Rightarrow> returnM ()
         | Some t \<Rightarrow> bindM (getM (\<lambda>s. transaction_by_id (t_id t) (s_db s))) (\<lambda>x.
             whenM (x \<noteq> None) (callM (CallNotify (t_id t)))))
         (swap_dashboard env (sd_id (sb_data sb)) event))))))"

definition processRegularSwap :: "env \<Rightarrow> swapAnswers \<Rightarrow> swapTransaction \<Rightarrow> swapData \<Rightarrow> string \<Rightarrow> unit sysm" where
  "processRegularSwap env xa sw data event =
     bindM (getM (\<lambda>s. wallet_for (sw_userId sw) (to_upper (sw_fromCurrency sw)) (s_db s))) (\<lambda>rf.
     bindM (getM (\<lambda>s. wallet_for (sw_userId sw) (to_upper (sw_toCurrency sw)) (s_db s))) (\<lambda>rt.
       case rf of None \<Rightarrow> returnM () | Some fw \<Rightarrow>
       (case rt of None \<Rightarrow> returnM () | Some tw \<Rightarrow>
           bindM (getM (\<lambda>s. linked_swap_tx sw (sd_id data) (s_db s))) (\<lambda>linked.
           bindM (liftM (swap_booking env sw data fw tw linked)) (\<lambda>sb.
           if event = REVERSED \<or> event = ''swap_transaction.failed''
           then thenM (txM env ''swap_failure'' (swap_failure_tx env event sb)) (swap_dashboard env (sd_id data) event)
           else swap_settle env xa sb event)))))"

definition vault_prefix :: string where
  "vault_prefix = ''vault_swap:''"

definition swap_process :: "env \<Rightarrow> swapOps \<Rightarrow> swapAnswers \<Rightarrow> swapData \<Rightarrow> string \<Rightarrow> unit sysm" where
  "swap_process env ops xa data event =
     bindM (getM (\<lambda>s. List.find (\<lambda>x. sw_swapId x = Some (sd_id data)) (d_swaps (s_db s)))) (\<lambda>r.
       case r of
         None \<Rightarrow> returnM ()
       | Some sw \<Rightarrow>
           if terminal_swap (sw_status sw) then returnM ()
           else (case sw_description sw of
               Some text \<Rightarrow>
                 if take (length vault_prefix) text = vault_prefix
                 then processVaultSwapCompletion env ops sw data event (drop (length vault_prefix) text)
                 else processRegularSwap env xa sw data event
             | None \<Rightarrow> processRegularSwap env xa sw data event))"

end
