(* ===== verification/SwapBooks.thy ===== *)
theory SwapBooks
  imports SwapWebhook
begin

text \<open>
  The books of the swap webhook: a swap settles once, what it moves between the sums of the
  ledgers, what a failed swap gives back, and the interleavings of two deliveries that the
  handler does not exclude.
\<close>

section \<open>Frames\<close>

text \<open>What does not depend on the tables that balances, transactions and plans are kept in.\<close>

named_theorems frame_intros "closure of a frame under the statements of the ledgers"

definition books_frame :: "(db \<Rightarrow> bool) \<Rightarrow> bool" where
  "books_frame I \<longleftrightarrow> (\<forall>d ws ls ts as us n. I (d\<lparr>d_wallets := ws\<rparr>) = I d \<and> I (d\<lparr>d_liquidity := ls\<rparr>) = I d
     \<and> I (d\<lparr>d_transactions := ts\<rparr>) = I d \<and> I (d\<lparr>d_autoStacks := as\<rparr>) = I d \<and> I (d\<lparr>d_users := us\<rparr>) = I d
     \<and> I (d\<lparr>d_seq := n\<rparr>) = I d)"

lemma books_frame_swaps: "books_frame (\<lambda>d. P (d_swaps d))"
  by (simp add: books_frame_def)

lemma books_frame_vaults: "books_frame (\<lambda>d. P (d_vaults d))"
  by (simp add: books_frame_def)

lemma frame_statements [frame_intros]:
  assumes "books_frame I"
  shows "preserves I (sqlWallets k u)" "preserves I (sqlLiquidity q v)" "preserves I (updWallets p f)"
    "preserves I (updLiquidity r g)" "preserves I (updTransactions t h)" "preserves I (updAutoStacks a j)"
    "preserves I (updUsers b l)" "preserves I (freshM env)" "preserves I (insertTransaction x)"
    "preserves I (refreshOriginalBalance env i c)"
  using assms
  by (auto simp: books_frame_def preserves_wp wp_simps insertTransaction_def refreshOriginalBalance_def split: option.split sum.split)

lemma frame_ledger [frame_intros]:
  assumes "books_frame I"
  shows "preserves I (updateInternalBalance env c a op)" "preserves I (releaseLiquidity c a)"
    "preserves I (consumeReservedLiquidity c a)" "preserves I (releaseBalance u c a n)"
  unfolding updateInternalBalance_def releaseLiquidity_def consumeReservedLiquidity_def releaseBalance_def createLiquidity_def
  using assms by (auto simp: books_frame_def intro!: preserves_intros frame_intros preserves_modify)

lemma frame_swap_books [frame_intros]: "books_frame I \<Longrightarrow> preserves I (swap_books env sb c f t)"
  unfolding swap_books_def swap_debit_def swap_credit_def stack_swap_settle_def
  by (intro preserves_intros frame_intros)

section \<open>A swap settles once\<close>

text \<open>
  Deliveries run in any order and each may have read anything before its transaction: a trace
  of the transactions on one swap, with anything in between that leaves the row of the swap
  alone. The list says which settlements took effect.
\<close>

definition committed :: "'a dbm \<Rightarrow> db \<Rightarrow> 'a option \<times> db" where
  "committed m d = (case m d of (Inl _, _) \<Rightarrow> (None, d) | (Inr x, d') \<Rightarrow> (Some x, d'))"

inductive swap_trace :: "string \<Rightarrow> db \<Rightarrow> bool list \<Rightarrow> db \<Rightarrow> bool" for i d where
  start: "swap_trace i d [] d"
| settle: "swap_trace i d rs d1 \<Longrightarrow> sw_id (sb_swap sb) = i \<Longrightarrow>
     committed (swap_settle_tx env sb c f t p) d1 = (r, d2) \<Longrightarrow> swap_trace i d ((r = Some True) # rs) d2"
| fail: "swap_trace i d rs d1 \<Longrightarrow> sw_id (sb_swap sb) = i \<Longrightarrow>
     committed (swap_failure_tx env event sb) d1 = (r, d2) \<Longrightarrow> swap_trace i d rs d2"
| other: "swap_trace i d rs d1 \<Longrightarrow> swap_by_id i d2 = swap_by_id i d1 \<Longrightarrow> swap_trace i d rs d2"

definition swap_ended :: "string \<Rightarrow> db \<Rightarrow> bool" where
  "swap_ended i d \<longleftrightarrow> (\<exists>x. swap_by_id i d = Some x \<and> terminal_swap (sw_status x))"

lemma terminal_failed [simp]: "terminal_swap (failed_status event)" "terminal_swap ''COMPLETED''"
  by (simp_all add: terminal_swap_def failed_status_def)

lemma swap_by_id_update:
  assumes "\<And>x. sw_id (f x) = sw_id x"
  shows "swap_by_id i (d\<lparr>d_swaps := update_where (\<lambda>x. sw_id x = j) f (d_swaps d)\<rparr>)
    = map_option (\<lambda>x. if sw_id x = j then f x else x) (swap_by_id i d)"
  using assms by (simp add: swap_by_id_def find_update_where)

lemma swap_ended_updSwaps:
  assumes "\<And>x. sw_id (f x) = sw_id x" "\<And>x. terminal_swap (sw_status (f x))"
  shows "preserves (swap_ended i) (updSwaps (\<lambda>x. sw_id x = j) f)"
proof (rule preservesI)
  fix d
  assume "swap_ended i d"
  then obtain x where "swap_by_id i d = Some x" "terminal_swap (sw_status x)" by (auto simp: swap_ended_def)
  with assms show "wp (updSwaps (\<lambda>x. sw_id x = j) f) (\<lambda>_. swap_ended i) (\<lambda>_. swap_ended i) d"
    by (cases "sw_id x = j") (simp_all add: wp_updSwaps swap_ended_def swap_by_id_update [OF assms(1)])
qed

lemma books_frame_ended: "books_frame (swap_ended i)"
  by (simp add: books_frame_def swap_ended_def swap_by_id_def)

lemma ended_records: "preserves (swap_ended i) (swap_records env sb c t p)"
  unfolding swap_records_def
  by (intro preserves_intros swap_ended_updSwaps frame_intros books_frame_ended) simp_all

lemma ended_settle: "preserves (swap_ended i) (swap_settle_tx env sb c f t p)"
  unfolding swap_settle_tx_def
  by (intro preserves_intros frame_intros books_frame_ended ended_records)

lemma ended_failure: "preserves (swap_ended i) (swap_failure_tx env event sb)"
  unfolding swap_failure_tx_def
  by (intro preserves_intros frame_intros books_frame_ended swap_ended_updSwaps) simp_all

lemma records_end:
  assumes "swap_by_id (sw_id (sb_swap sb)) d \<noteq> None" "swap_records env sb c t p d = (Inr u, d')"
  shows "swap_ended (sw_id (sb_swap sb)) d'"
proof -
  let ?i = "sw_id (sb_swap sb)"
  let ?f = "\<lambda>x. x\<lparr>sw_status := ''COMPLETED'', sw_confirmed := True,
        sw_executionPriceOriginal := Some (xc_execution_price c),
        sw_receivedAmountOriginal := Some (xc_received_amount c), sw_amountOriginal := xc_from_amount c\<rparr>"
  obtain x where x: "swap_by_id ?i d = Some x" "sw_id x = ?i"
    using assms(1) find_Some_in by (fastforce simp: swap_by_id_def)
  have "swap_ended ?i (d\<lparr>d_swaps := update_where (\<lambda>x. sw_id x = ?i) ?f (d_swaps d)\<rparr>)"
    using x by (simp add: swap_ended_def swap_by_id_update)
  then have "wp (swap_records env sb c t p) (\<lambda>_. swap_ended ?i) (\<lambda>_. swap_ended ?i) d"
    unfolding swap_records_def wp_then [of "updSwaps _ _"] wp_updSwaps
    by (intro wp_preserves preserves_intros frame_intros books_frame_ended)
  with assms(2) show ?thesis by (simp add: wp_def)
qed

lemma settle_true:
  assumes "swap_settle_tx env sb c f t p d = (Inr True, d')"
  shows "\<not> swap_ended (sw_id (sb_swap sb)) d \<and> swap_ended (sw_id (sb_swap sb)) d'"
proof -
  let ?i = "sw_id (sb_swap sb)"
  from assms have "\<not> swap_done sb d \<and> (\<exists>u d1 v. swap_books env sb c f t d = (Inr u, d1)
      \<and> swap_records env sb c t p d1 = (Inr v, d'))"
    unfolding swap_settle_tx_def run_bind run_get by (auto simp: run_simps split: if_splits)
  then obtain u v d1 where d: "\<not> swap_done sb d" and b: "swap_books env sb c f t d = (Inr u, d1)"
    and r: "swap_records env sb c t p d1 = (Inr v, d')" by blast
  have "d_swaps d1 = d_swaps d"
    using preservesD [OF frame_swap_books [OF books_frame_swaps [of "\<lambda>s. s = d_swaps d"]], of d env sb c f t] b by simp
  then have "swap_by_id ?i d1 = swap_by_id ?i d" by (simp add: swap_by_id_def)
  with d have "swap_by_id ?i d1 \<noteq> None" by (cases "swap_by_id ?i d") (auto simp: swap_done_def)
  with records_end [OF _ r] d show ?thesis by (auto simp: swap_ended_def swap_done_def)
qed

lemma committed_preserves:
  "preserves I m \<Longrightarrow> I d \<Longrightarrow> committed m d = (r, d') \<Longrightarrow> I d'"
  using preservesD [of I m d] by (auto simp: committed_def split: prod.splits sum.splits)

lemma swap_trace_counts:
  assumes "swap_trace i d rs d'"
  shows "length (filter (\<lambda>b. b) rs) \<le> 1 \<and> (True \<in> set rs \<longrightarrow> swap_ended i d')"
  using assms
proof (induction rule: swap_trace.induct)
  case (settle rs d1 sb env c f t p r d2)
  show ?case
  proof (cases "r = Some True")
    case True
    with settle(3) have "swap_settle_tx env sb c f t p d1 = (Inr True, d2)"
      by (auto simp: committed_def split: prod.splits sum.splits)
    from settle_true [OF this] settle(2,4) have "True \<notin> set rs" "swap_ended i d2" by auto
    then have "filter (\<lambda>b. b) rs = []" by (auto simp: filter_empty_conv)
    with \<open>swap_ended i d2\<close> show ?thesis by simp
  next
    case False
    with settle(4) committed_preserves [OF ended_settle _ settle(3), of i] show ?thesis by auto
  qed
next
  case (fail rs d1 sb env event r d2)
  with committed_preserves [OF ended_failure _ fail(3), of i] show ?case by auto
next
  case (other rs d1 d2)
  then show ?case by (simp add: swap_ended_def)
qed simp

text \<open>C8: Whatever the deliveries of one swap read before their transactions, and in whichever order
  settlements and failures run, at most one settlement takes effect: the transaction reads the
  status again under the row lock.\<close>

theorem swap_settles_once:
  assumes "swap_trace i d rs d'"
  shows "length (filter (\<lambda>b. b) rs) \<le> 1"
  using swap_trace_counts [OF assms] by simp


section \<open>What users own\<close>

text \<open>
  Everything a user owns in a currency: balance, stack and locked amount. \<open>net\<close> is what the
  company records beyond it: its own part of the internal balance.
\<close>

definition own :: "string \<Rightarrow> db \<Rightarrow> int" where
  "own c d = sum_list (map (\<lambda>w. w_baseBalance w + w_stackedAmount w + w_lockedAmount w)
     (filter (\<lambda>w. ieq (w_currency w) c) (d_wallets d)))"

definition net :: "string \<Rightarrow> db \<Rightarrow> int" where
  "net c d = internal c d - own c d"

lemma own_parts: "own c d = owed c d + stacked c d + locked c d"
  unfolding own_def owed_def stacked_def locked_def by (simp add: sum_list_addf)

lemma own_update:
  assumes "keys_ok d" "w \<in> set (d_wallets d)" "w_id w = i" "d_wallets d' = update_where (\<lambda>x. w_id x = i) f (d_wallets d)"
    and "\<And>x. w_currency (f x) = w_currency x"
    and "w_baseBalance (f w) + w_stackedAmount (f w) + w_lockedAmount (f w)
      = w_baseBalance w + w_stackedAmount w + w_lockedAmount w + a"
  shows "own c d' = own c d + (if ieq (w_currency w) c then a else 0)"
  unfolding own_def assms(4)
  by (rule sum_update_where [where ident = w_id]) (use assms in \<open>simp_all add: keys_ok_def\<close>)

text \<open>The keys and currencies of the accounts stay.\<close>

definition same_accounts :: "db \<Rightarrow> db \<Rightarrow> bool" where
  "same_accounts d d' \<longleftrightarrow> map (\<lambda>w. (w_id w, w_currency w)) (d_wallets d') = map (\<lambda>w. (w_id w, w_currency w)) (d_wallets d)
     \<and> map (\<lambda>l. (l_id l, l_currency l)) (d_liquidity d') = map (\<lambda>l. (l_id l, l_currency l)) (d_liquidity d)"

lemma same_accounts_refl [simp]: "same_accounts d d"
  by (simp add: same_accounts_def)

lemma same_accounts_trans: "same_accounts a b \<Longrightarrow> same_accounts b c \<Longrightarrow> same_accounts a c"
  by (simp add: same_accounts_def)

lemma same_accounts_keys:
  assumes "same_accounts d d'" "keys_ok d"
  shows "keys_ok d'"
proof -
  have fsts: "map w_id ws = map fst (map (\<lambda>w. (w_id w, w_currency w)) ws)" for ws by (simp add: comp_def)
  have ids: "map l_id ls = map fst (map (\<lambda>l. (l_id l, l_currency l)) ls)" for ls by (simp add: comp_def)
  have cur: "map (\<lambda>l. to_lower (l_currency l)) ls = map (to_lower \<circ> snd) (map (\<lambda>l. (l_id l, l_currency l)) ls)" for ls by simp
  show ?thesis using assms unfolding keys_ok_def fsts ids cur same_accounts_def by simp
qed

lemma same_accounts_currency:
  assumes "same_accounts d d'"
  shows "(\<forall>w \<in> set (d_wallets d'). P (w_id w) (w_currency w)) \<longleftrightarrow> (\<forall>w \<in> set (d_wallets d). P (w_id w) (w_currency w))"
proof -
  have "set (map (\<lambda>w. (w_id w, w_currency w)) (d_wallets d')) = set (map (\<lambda>w. (w_id w, w_currency w)) (d_wallets d))"
    using assms by (simp add: same_accounts_def)
  then have "(\<forall>(i, c) \<in> set (map (\<lambda>w. (w_id w, w_currency w)) (d_wallets d')). P i c)
      \<longleftrightarrow> (\<forall>(i, c) \<in> set (map (\<lambda>w. (w_id w, w_currency w)) (d_wallets d)). P i c)" by simp
  then show ?thesis by (simp add: split_beta)
qed

lemma same_accounts_wallets:
  "(\<And>w. w_id (f w) = w_id w \<and> w_currency (f w) = w_currency w) \<Longrightarrow>
     d_wallets d' = update_where p f (d_wallets d) \<Longrightarrow> d_liquidity d' = d_liquidity d \<Longrightarrow> same_accounts d d'"
  by (simp add: same_accounts_def update_where_def)

lemma internal_subtract_accounts:
  assumes "updateInternalBalance env c a Subtract d = (Inr u, d')"
  shows "same_accounts d d'"
  using assms
  by (auto simp: updateInternalBalance_def run_simps same_accounts_def update_where_def split: option.splits if_splits)

lemma shown_settle:
  "w_id (shown_wallet shown (w_settle a) w) = w_id w" "w_currency (shown_wallet shown (w_settle a) w) = w_currency w"
  "w_settle a w \<noteq> None \<Longrightarrow> w_baseBalance (shown_wallet shown (w_settle a) w) = w_baseBalance w - a"
  "w_stackedAmount (shown_wallet shown (w_settle a) w) = w_stackedAmount w"
  "w_lockedAmount (shown_wallet shown (w_settle a) w) = w_lockedAmount w"
  by (auto simp: shown_wallet_def w_settle_def split: if_splits)

text \<open>The debit of reserved balance, as the webhooks of swaps and vaults write it.\<close>

lemma debit_run:
  assumes "bindM (sqlWallets (\<lambda>x. w_id x = i) (w_settle a)) (\<lambda>rows. thenM (requireM (rows \<noteq> 0) e)
      (thenM (refreshOriginalBalance env i cur) (updateInternalBalance env c f Subtract))) d = (Inr u, d')"
  shows "\<exists>shown d1. guarded_count (\<lambda>x. w_id x = i) (w_settle a) (d_wallets d) \<noteq> 0
    \<and> d_wallets d1 = update_where (\<lambda>x. w_id x = i) (shown_wallet shown (w_settle a)) (d_wallets d)
    \<and> d_liquidity d1 = d_liquidity d \<and> updateInternalBalance env c f Subtract d1 = (Inr u, d')"
proof -
  have same: "w_id (case w_settle a w of None \<Rightarrow> w | Some w' \<Rightarrow> w') = w_id w" for w by (simp add: w_settle_def)
  show ?thesis
    using assms
    unfolding run_bind run_then run_sqlWallets run_require refreshOriginalBalance_run
    apply (elim exE conjE)
    apply hypsubst_thin
    apply (intro exI conjI)
    prefer 4 apply assumption
    by (simp_all add: guarded_update_where update_where_twice same shown_wallet_def [abs_def])
qed

lemma debit_books:
  assumes "keys_ok d" "\<forall>w \<in> set (d_wallets d). w_id w = i \<longrightarrow> ieq (w_currency w) from"
    and "bindM (sqlWallets (\<lambda>x. w_id x = i) (w_settle a)) (\<lambda>rows. thenM (requireM (rows \<noteq> 0) e)
      (thenM (refreshOriginalBalance env i cur) (updateInternalBalance env from f Subtract))) d = (Inr u, d')"
  shows "own c d' = own c d - (if ieq from c then a else 0)
    \<and> internal c d' = internal c d - (if ieq from c then f else 0) \<and> same_accounts d d'"
proof -
  obtain shown d1 where n: "guarded_count (\<lambda>x. w_id x = i) (w_settle a) (d_wallets d) \<noteq> 0"
    and ws: "d_wallets d1 = update_where (\<lambda>x. w_id x = i) (shown_wallet shown (w_settle a)) (d_wallets d)"
    and ls: "d_liquidity d1 = d_liquidity d" and internal: "updateInternalBalance env from f Subtract d1 = (Inr u, d')"
    using debit_run [OF assms(3)] by blast
  obtain w where w: "w \<in> set (d_wallets d)" "w_id w = i" "w_settle a w \<noteq> None"
    using n by (auto simp: guarded_count_def filter_empty_conv)
  have cur: "ieq (w_currency w) c = ieq from c" using ieq_trans_lower assms(2) w by blast
  have sa: "same_accounts d d1" by (rule same_accounts_wallets [OF _ ws ls]) (simp add: shown_settle)
  have "own c d1 = own c d + (if ieq (w_currency w) c then - a else 0)"
    by (rule own_update [OF assms(1) w(1,2) ws]) (simp_all add: shown_settle w)
  moreover have "internal c d' = internal c d1 + (if ieq from c then - f else 0)" "d_wallets d' = d_wallets d1"
    using updateInternalBalance_internal [OF _ internal, of c] assms(1) ls by (simp_all add: keys_ok_def)
  moreover have "internal c d1 = internal c d" "own c d' = own c d1"
    using ls \<open>d_wallets d' = d_wallets d1\<close> by (simp_all add: internal_def own_def)
  ultimately show ?thesis
    using cur same_accounts_trans [OF sa internal_subtract_accounts [OF internal]] by simp
qed


lemma base_of_row: "base_of i d = Some b \<Longrightarrow> \<exists>w \<in> set (d_wallets d). w_id w = i"
  by (auto simp: base_of_def dest: find_Some_in)

text \<open>The unguarded update of a wallet, its display and the internal balance.\<close>

lemma credit_books:
  assumes "keys_ok d" "\<forall>w \<in> set (d_wallets d). w_id w = i \<longrightarrow> ieq (w_currency w) into"
    and g: "\<And>w. w_id (g w) = w_id w" "\<And>w. w_currency (g w) = w_currency w"
      "\<And>w. w_baseBalance (g w) + w_stackedAmount (g w) + w_lockedAmount (g w)
        = w_baseBalance w + w_stackedAmount w + w_lockedAmount w + a"
    and "thenM (updWallets (\<lambda>x. w_id x = i) g) (thenM (refreshOriginalBalance env i cur)
      (updateInternalBalance env into a Add)) d = (Inr u, d')"
  shows "own c d' = own c d + (if ieq into c then a else 0)
    \<and> internal c d' = internal c d + (if ieq into c then a else 0)
    \<and> (\<exists>w shown. w \<in> set (d_wallets d) \<and> w_id w = i
        \<and> d_wallets d' = update_where (\<lambda>x. w_id x = i) (\<lambda>w. (g w)\<lparr>w_originalBalance := shown\<rparr>) (d_wallets d))"
proof -
  have "\<exists>b shown d1. base_of i (d\<lparr>d_wallets := update_where (\<lambda>x. w_id x = i) g (d_wallets d)\<rparr>) = Some b
    \<and> d_wallets d1 = update_where (\<lambda>x. w_id x = i) (\<lambda>w. (g w)\<lparr>w_originalBalance := shown\<rparr>) (d_wallets d)
    \<and> d_liquidity d1 = d_liquidity d \<and> updateInternalBalance env into a Add d1 = (Inr u, d')"
    using assms(6) unfolding run_then run_upd refreshOriginalBalance_run
    apply (elim exE conjE)
    apply hypsubst_thin
    apply (intro exI conjI, assumption)
    prefer 3 apply assumption
    by (simp_all add: update_where_twice g(1))
  then obtain b shown d1 where b: "base_of i (d\<lparr>d_wallets := update_where (\<lambda>x. w_id x = i) g (d_wallets d)\<rparr>) = Some b"
    and ws: "d_wallets d1 = update_where (\<lambda>x. w_id x = i) (\<lambda>w. (g w)\<lparr>w_originalBalance := shown\<rparr>) (d_wallets d)"
    and ls: "d_liquidity d1 = d_liquidity d" and int: "updateInternalBalance env into a Add d1 = (Inr u, d')"
    by blast
  obtain w where w: "w \<in> set (d_wallets d)" "w_id w = i"
    using base_of_row [OF b] by (auto simp: update_where_def g(1) split: if_splits)
  have cur: "ieq (w_currency w) c = ieq into c" using ieq_trans_lower assms(2) w by blast
  have "own c d1 = own c d + (if ieq (w_currency w) c then a else 0)"
    by (rule own_update [OF assms(1) w ws]) (simp_all add: g)
  moreover have "internal c d' = internal c d1 + (if ieq into c then a else 0)" "d_wallets d' = d_wallets d1"
    using updateInternalBalance_internal [OF _ int, of c] assms(1) ls by (simp_all add: keys_ok_def)
  moreover have "internal c d1 = internal c d" "own c d' = own c d1"
    using ls \<open>d_wallets d' = d_wallets d1\<close> by (simp_all add: internal_def own_def)
  ultimately show ?thesis using cur w ws by auto
qed

text \<open>
  What an account is worth, and the statements that leave all of it alone: reservations,
  displays and records.
\<close>

definition w_worth :: "wallet \<Rightarrow> string \<times> int \<times> int \<times> int" where
  "w_worth w = (w_currency w, w_baseBalance w, w_stackedAmount w, w_lockedAmount w)"

definition l_worth :: "liquidity \<Rightarrow> string \<times> int \<times> int \<times> int" where
  "l_worth l = (l_currency l, l_internalBalance l, l_totalAmountStacked l, l_totalLockedPrincipal l)"

definition same_worth :: "db \<Rightarrow> db \<Rightarrow> bool" where
  "same_worth d d' \<longleftrightarrow> map w_worth (d_wallets d') = map w_worth (d_wallets d)
     \<and> map l_worth (d_liquidity d') = map l_worth (d_liquidity d) \<and> d_autoStacks d' = d_autoStacks d"

lemma same_worth_refl [simp]: "same_worth d d"
  by (simp add: same_worth_def)

lemma sum_of_worth:
  assumes "map w_worth ws' = map w_worth ws"
  shows "sum_list (map (\<lambda>w. f (snd (w_worth w))) (filter (\<lambda>w. ieq (w_currency w) c) ws'))
    = sum_list (map (\<lambda>w. f (snd (w_worth w))) (filter (\<lambda>w. ieq (w_currency w) c) ws))"
proof -
  have "map (\<lambda>w. f (snd (w_worth w))) (filter (\<lambda>w. ieq (w_currency w) c) ws)
      = map (f \<circ> snd) (filter (\<lambda>m. ieq (fst m) c) (map w_worth ws))" for ws
    by (induction ws) (auto simp: w_worth_def)
  with assms show ?thesis by simp
qed

lemma sum_of_liquidity_worth:
  assumes "map l_worth ls' = map l_worth ls"
  shows "sum_list (map (\<lambda>l. f (snd (l_worth l))) (filter (\<lambda>l. ieq (l_currency l) c) ls'))
    = sum_list (map (\<lambda>l. f (snd (l_worth l))) (filter (\<lambda>l. ieq (l_currency l) c) ls))"
proof -
  have "map (\<lambda>l. f (snd (l_worth l))) (filter (\<lambda>l. ieq (l_currency l) c) ls)
      = map (f \<circ> snd) (filter (\<lambda>m. ieq (fst m) c) (map l_worth ls))" for ls
    by (induction ls) (auto simp: l_worth_def)
  with assms show ?thesis by simp
qed

lemma same_worth_sums:
  assumes "same_worth d d'"
  shows "own c d' = own c d" "internal c d' = internal c d" "net c d' = net c d" "owed c d' = owed c d"
    "stacked c d' = stacked c d" "locked c d' = locked c d" "total_stacked c d' = total_stacked c d"
    "locked_principal c d' = locked_principal c d" "active_plans d' = active_plans d"
proof -
  have w: "map w_worth (d_wallets d') = map w_worth (d_wallets d)"
    and l: "map l_worth (d_liquidity d') = map l_worth (d_liquidity d)" using assms by (simp_all add: same_worth_def)
  show own: "own c d' = own c d" and internal: "internal c d' = internal c d"
    unfolding own_def internal_def
    using sum_of_worth [OF w, of "\<lambda>(b, s, k). b + s + k" c] sum_of_liquidity_worth [OF l, of fst c]
    by (simp_all add: w_worth_def l_worth_def)
  show "owed c d' = owed c d" "stacked c d' = stacked c d" "locked c d' = locked c d"
    unfolding owed_def stacked_def locked_def
    using sum_of_worth [OF w, of fst c] sum_of_worth [OF w, of "fst \<circ> snd" c] sum_of_worth [OF w, of "snd \<circ> snd" c]
    by (simp_all add: w_worth_def)
  show "total_stacked c d' = total_stacked c d" "locked_principal c d' = locked_principal c d"
    unfolding total_stacked_def locked_principal_def
    using sum_of_liquidity_worth [OF l, of "fst \<circ> snd" c] sum_of_liquidity_worth [OF l, of "snd \<circ> snd" c]
    by (simp_all add: l_worth_def)
  show "net c d' = net c d" using own internal by (simp add: net_def)
  show "active_plans d' = active_plans d" using assms by (simp add: same_worth_def active_plans_def)
qed

lemma worth_statements [frame_intros]:
  "preserves (same_worth d) (updTransactions p f)" "preserves (same_worth d) (updSwaps q g)"
  "preserves (same_worth d) (updVaults r h)" "preserves (same_worth d) (updUsers v l)"
  "preserves (same_worth d) (freshM env)" "preserves (same_worth d) (insertTransaction w)"
  by (auto simp: preserves_wp wp_simps insertTransaction_def same_worth_def split: option.split)

lemma worth_sqlLiquidity:
  assumes "\<And>l l'. v l = Some l' \<Longrightarrow> l_worth l' = l_worth l"
  shows "preserves (same_worth d) (sqlLiquidity k v)"
proof -
  have "map l_worth (guarded_update k v ls) = map l_worth ls" for ls
    using assms by (simp add: guarded_update_def split: option.split)
  then show ?thesis by (simp add: preserves_wp wp_sqlLiquidity same_worth_def)
qed

lemma worth_sqlWallets:
  assumes "\<And>w w'. v w = Some w' \<Longrightarrow> w_worth w' = w_worth w"
  shows "preserves (same_worth d) (sqlWallets k v)"
proof -
  have "map w_worth (guarded_update k v ws) = map w_worth ws" for ws
    using assms by (simp add: guarded_update_def split: option.split)
  then show ?thesis by (simp add: preserves_wp wp_sqlWallets same_worth_def)
qed

lemma worth_reservations [frame_intros]:
  "preserves (same_worth d) (releaseLiquidity cur a)" "preserves (same_worth d) (consumeReservedLiquidity cur a)"
  "preserves (same_worth d) (releaseBalance u cur a n)"
  unfolding releaseLiquidity_def consumeReservedLiquidity_def releaseBalance_def
  by (intro preserves_intros worth_sqlLiquidity worth_sqlWallets;
      auto simp: l_release_def l_consume_def w_release_def l_worth_def w_worth_def split: if_splits)+

lemma worth_records: "preserves (same_worth d) (swap_records env sb cf t p)"
  unfolding swap_records_def by (intro preserves_intros frame_intros)

lemma runs_preserve: "preserves I m \<Longrightarrow> I d \<Longrightarrow> m d = (r, d') \<Longrightarrow> I d'"
  using preservesD [of I m d] by simp


section \<open>A settled swap\<close>

text \<open>The part of an auto-stacking execution, when its plan and the USDT wallet are there.\<close>

lemma stack_settle_run:
  assumes "stack_swap_settle env sb c t received d = (Inr u, d')"
    and "stack_by_id (mget (t_meta t) ''autoStackId'') d = Some a"
    and "List.find (\<lambda>w. w_userId w = sw_userId (sb_swap sb) \<and> w_currency w = ''USDT'') (d_wallets d) = Some w"
  shows "\<exists>u1 d1 d2 y d3 ts. updateInternalBalance env (sb_to sb) received Add d1 = (Inr u1, d2)
    \<and> consumeReservedLiquidity (sb_from sb) (sb_booked sb) (d2\<lparr>d_liquidity := update_where (\<lambda>l. ieq (l_currency l) (sb_to sb))
          (\<lambda>l. l\<lparr>l_totalAmountStacked := l_totalAmountStacked l + received\<rparr>) (d_liquidity d2)\<rparr>) = (Inr y, d3)
    \<and> d' = d3\<lparr>d_transactions := ts\<rparr>
    \<and> d_wallets d1 = update_where (\<lambda>x. w_id x = w_id w) (\<lambda>x. x\<lparr>w_stackedAmount := w_stackedAmount x + received\<rparr>) (d_wallets d)
    \<and> d_autoStacks d1 = update_where (\<lambda>x. a_id x = a_id a) (stack_swapped (swap_date env (sb_data sb)) received a) (d_autoStacks d)
    \<and> d_liquidity d1 = d_liquidity d"
  using assms(1)
  unfolding stack_swap_settle_def run_bind run_get run_then run_upd run_require
  apply (elim exE conjE)
  apply (simp only: assms(2,3) option.case run_then run_upd run_bind run_require)
  apply (elim exE conjE)
  apply hypsubst_thin
  apply (intro exI conjI, assumption, assumption, rule refl)
    apply simp_all
  done

lemma stack_settle_nothing:
  assumes "stack_swap_settle env sb c t received d = (Inr u, d')"
    and "stack_by_id (mget (t_meta t) ''autoStackId'') d = None
      \<or> List.find (\<lambda>w. w_userId w = sw_userId (sb_swap sb) \<and> w_currency w = ''USDT'') (d_wallets d) = None"
  shows "d' = d"
  using assms by (auto simp: stack_swap_settle_def run_simps split: option.splits)

lemma consumeReservedLiquidity_tables:
  assumes "consumeReservedLiquidity cur a d = (Inr b, d')"
  shows "d' = d\<lparr>d_liquidity := d_liquidity d'\<rparr>"
  using assms by (auto simp: consumeReservedLiquidity_def run_simps)

lemma stack_settle_books:
  assumes "keys_ok d" "sb_to sb = ''USDT''" "stack_swap_settle env sb c t received d = (Inr u, d')"
  shows "net x d' = net x d"
proof (cases "stack_by_id (mget (t_meta t) ''autoStackId'') d = None
      \<or> List.find (\<lambda>w. w_userId w = sw_userId (sb_swap sb) \<and> w_currency w = ''USDT'') (d_wallets d) = None")
  case True
  then show ?thesis using stack_settle_nothing [OF assms(3)] by simp
next
  case False
  then obtain a w where a: "stack_by_id (mget (t_meta t) ''autoStackId'') d = Some a"
    and w: "List.find (\<lambda>w. w_userId w = sw_userId (sb_swap sb) \<and> w_currency w = ''USDT'') (d_wallets d) = Some w" by auto
  let ?f = "\<lambda>x :: wallet. x\<lparr>w_stackedAmount := w_stackedAmount x + received\<rparr>"
  obtain u1 d1 d2 y d3 ts where int: "updateInternalBalance env (sb_to sb) received Add d1 = (Inr u1, d2)"
    and con: "consumeReservedLiquidity (sb_from sb) (sb_booked sb) (d2\<lparr>d_liquidity := update_where (\<lambda>l. ieq (l_currency l) (sb_to sb))
          (\<lambda>l. l\<lparr>l_totalAmountStacked := l_totalAmountStacked l + received\<rparr>) (d_liquidity d2)\<rparr>) = (Inr y, d3)"
    and d': "d' = d3\<lparr>d_transactions := ts\<rparr>"
    and ws: "d_wallets d1 = update_where (\<lambda>x. w_id x = w_id w) ?f (d_wallets d)" and ls: "d_liquidity d1 = d_liquidity d"
    using stack_settle_run [OF assms(3) a w] by blast
  have win: "w \<in> set (d_wallets d)" "w_currency w = ''USDT''" using find_Some_in [OF w] by simp_all
  have "own x d1 = own x d + (if ieq (w_currency w) x then received else 0)"
    by (rule own_update [OF assms(1) win(1) refl ws]) simp_all
  moreover have "internal x d2 = internal x d1 + (if ieq (sb_to sb) x then received else 0)" "d_wallets d2 = d_wallets d1"
    using updateInternalBalance_internal [OF _ int, of x] assms(1) by (simp_all add: ls keys_ok_def)
  moreover have "own x d' = own x d2" "internal x d' = internal x d2"
  proof -
    let ?d = "d2\<lparr>d_liquidity := update_where (\<lambda>l. ieq (l_currency l) (sb_to sb))
          (\<lambda>l. l\<lparr>l_totalAmountStacked := l_totalAmountStacked l + received\<rparr>) (d_liquidity d2)\<rparr>"
    have "own x ?d = own x d2" "internal x ?d = internal x d2"
      using internal_frame [where upd = "\<lambda>l. Some (l\<lparr>l_totalAmountStacked := l_totalAmountStacked l + received\<rparr>)"
          and c = x and d = d2 and key = "\<lambda>l. ieq (l_currency l) (sb_to sb)"]
      by (simp_all add: own_def guarded_update_where)
    moreover have "same_worth ?d d3" by (rule runs_preserve [OF worth_reservations(2) _ con]) simp
    ultimately show "own x d' = own x d2" "internal x d' = internal x d2"
      using same_worth_sums(1,2) [of ?d d3 x] by (simp_all add: d' own_def internal_def)
  qed
  moreover have "internal x d1 = internal x d" "own x d2 = own x d1"
    using \<open>d_wallets d2 = d_wallets d1\<close> by (simp_all add: ls internal_def own_def)
  ultimately show ?thesis using assms(2) win(2) by (simp add: net_def)
qed

text \<open>What the settlement relies on: the wallets it was given are those of its currencies.\<close>

definition booking_ok :: "swapBooking \<Rightarrow> db \<Rightarrow> bool" where
  "booking_ok sb d \<longleftrightarrow> (\<forall>w \<in> set (d_wallets d). (w_id w = w_id (sb_fromWallet sb) \<longrightarrow> ieq (w_currency w) (sb_from sb))
     \<and> (w_id w = w_id (sb_toWallet sb) \<longrightarrow> ieq (w_currency w) (sb_to sb)))
     \<and> (stack_swap (sb_linked sb) \<longrightarrow> sb_to sb = ''USDT'')"

lemma booking_ok_same: "same_accounts d d' \<Longrightarrow> booking_ok sb d' = booking_ok sb d"
  using same_accounts_currency [of d d' "\<lambda>i k. (i = w_id (sb_fromWallet sb) \<longrightarrow> ieq k (sb_from sb))
     \<and> (i = w_id (sb_toWallet sb) \<longrightarrow> ieq k (sb_to sb))"]
  by (simp add: booking_ok_def)

lemma ieq_lower [simp]: "ieq (to_lower a) b = ieq a b"
  by (simp add: ieq_def)

lemma swap_debit_books:
  assumes "keys_ok d" "booking_ok sb d" "swap_debit env sb f d = (Inr u, d')"
  shows "own c d' = own c d - (if ieq (sb_from sb) c then sb_reserved sb else 0)
    \<and> internal c d' = internal c d - (if ieq (sb_from sb) c then f else 0) \<and> same_accounts d d'"
  using debit_books [OF assms(1) _ assms(3) [unfolded swap_debit_def], of c] assms(2)
  by (simp add: booking_ok_def ieq_def)

lemma swap_credit_books:
  assumes "keys_ok d" "booking_ok sb d" "swap_credit env sb t d = (Inr u, d')"
  shows "net c d' = net c d"
  using credit_books [OF assms(1) _ _ _ _ assms(3) [unfolded swap_credit_def], of c] assms(2)
  by (simp add: booking_ok_def w_credit_def net_def ieq_def)

lemma updTransactions_accounts:
  "updTransactions p f d = (Inr u, d') \<Longrightarrow> same_accounts d d' \<and> net c d' = net c d
     \<and> d_autoStacks d' = d_autoStacks d \<and> d_wallets d' = d_wallets d \<and> d_liquidity d' = d_liquidity d"
  by (auto simp: run_upd same_accounts_def net_def own_def internal_def)

lemma swap_books_net:
  assumes "keys_ok d" "booking_ok sb d" "swap_books env sb cf f t d = (Inr u, d')"
  shows "net c d' = net c d + (if ieq (sb_from sb) c then sb_reserved sb - f else 0)"
proof -
  obtain u1 d1 u2 d2 where d1: "swap_debit env sb f d = (Inr u1, d1)"
    and d2: "whenM (\<not> stack_swap (sb_linked sb)) (swap_credit env sb t) d1 = (Inr u2, d2)"
    and d3: "(case sb_linked sb of None \<Rightarrow> returnM () | Some x \<Rightarrow>
        thenM (updTransactions (\<lambda>y. t_id y = t_id x) (completed_swap env sb cf f))
          (whenM (stack_swap (sb_linked sb)) (stack_swap_settle env sb cf x t))) d2 = (Inr u, d')"
    using assms(3) unfolding swap_books_def run_then by blast
  note b1 = swap_debit_books [OF assms(1,2) d1, of c]
  have k1: "keys_ok d1" "booking_ok sb d1"
    using same_accounts_keys [OF _ assms(1)] booking_ok_same assms(2) b1 by blast+
  have n2: "net c d2 = net c d1"
    using d2 swap_credit_books [OF k1, of env t u2 d2 c] by (auto simp: run_when split: if_splits)
  have "net c d' = net c d2"
  proof (cases "sb_linked sb")
    case None
    then show ?thesis using d3 by (simp add: run_return)
  next
    case (Some x)
    then obtain u3 d4 where d4: "updTransactions (\<lambda>y. t_id y = t_id x) (completed_swap env sb cf f) d2 = (Inr u3, d4)"
      and d5: "whenM (stack_swap (sb_linked sb)) (stack_swap_settle env sb cf x t) d4 = (Inr u, d')"
      using d3 unfolding run_then by (auto simp: run_then)
    note b4 = updTransactions_accounts [OF d4, of c]
    show ?thesis
    proof (cases "stack_swap (sb_linked sb)")
      case True
      then have "d2 = d1" using d2 by (simp add: run_when)
      then have "keys_ok d4" using same_accounts_keys [OF _ k1(1)] b4 by simp
      then have "net c d' = net c d4"
        by (rule stack_settle_books) (use True k1(2) d5 in \<open>simp_all add: booking_ok_def run_when\<close>)
      with b4 show ?thesis by simp
    next
      case False
      with d5 b4 show ?thesis by (simp add: run_when)
    qed
  qed
  with n2 b1 show ?thesis by (simp add: net_def)
qed

text \<open>C16: A settled swap moves money without making any: in each currency the internal balance and what the
  users own (balance, stack and locked amount) change by the same, except that the company
  keeps the difference between what was reserved and what the provider took.\<close>

theorem swap_conserves:
  assumes "keys_ok d" "booking_ok sb d" "swap_settle_tx env sb cf f t p d = (Inr True, d')"
  shows "net c d' = net c d + (if ieq (sb_from sb) c then sb_reserved sb - f else 0)"
proof -
  from assms(3) obtain u d1 v where b: "swap_books env sb cf f t d = (Inr u, d1)"
    and r: "swap_records env sb cf t p d1 = (Inr v, d')"
    unfolding swap_settle_tx_def run_bind run_get by (auto simp: run_simps split: if_splits)
  from swap_books_net [OF assms(1,2) b, of c] same_worth_sums(3) [OF runs_preserve [OF worth_records same_worth_refl r]]
  show ?thesis by simp
qed


lemma sum_same:
  assumes "\<And>x. P (f x) = P x" "\<And>x. val (f x) = val x"
  shows "sum_list (map val (filter P (update_where p f rows))) = sum_list (map val (filter P rows))"
  using assms by (induction rows) (simp_all add: update_where_def)

lemma updateInternalBalance_cases:
  assumes "updateInternalBalance env cur a op d = (Inr u, d')"
  obtains (created) n where "verifyCurrency cur = Inr n" "liquidity_for n d = None"
      "d' = d\<lparr>d_seq := Suc (d_seq d), d_liquidity := d_liquidity d @ [(new_liquidity (e_cuid env (d_seq d)) n)\<lparr>l_internalBalance := a\<rparr>]\<rparr>"
  | (updated) n l where "verifyCurrency cur = Inr n" "liquidity_for n d = Some l"
      "d' = d\<lparr>d_liquidity := update_where (\<lambda>k. l_id k = l_id l)
        (\<lambda>k. k\<lparr>l_internalBalance := (if op = Add then l_internalBalance k + a else l_internalBalance k - a)\<rparr>) (d_liquidity d)\<rparr>"
proof -
  obtain n where n: "verifyCurrency cur = Inr n"
    using assms by (auto simp: updateInternalBalance_def comp_defs split: sum.splits)
  show thesis
  proof (cases "liquidity_for n d")
    case None
    with assms show thesis
      by (intro created [OF n None]; cases op)
        (auto simp: updateInternalBalance_def comp_defs n createLiquidity_def freshM_def split: if_splits)
  next
    case (Some l)
    with assms show thesis
      by (intro updated [OF n Some]) (auto simp: updateInternalBalance_def comp_defs n updLiquidity_def split: if_splits)
  qed
qed

lemma updateInternalBalance_stacks:
  assumes "updateInternalBalance env cur a op d = (Inr u, d')"
  shows "total_stacked c d' = total_stacked c d \<and> locked_principal c d' = locked_principal c d \<and> d_autoStacks d' = d_autoStacks d
    \<and> (liquidity_for k d \<noteq> None \<longrightarrow> liquidity_for k d' \<noteq> None)"
  using assms
proof (cases rule: updateInternalBalance_cases)
  case (created n)
  then show ?thesis
    by (auto simp: new_liquidity_def total_stacked_def locked_principal_def liquidity_for_def find_None_iff)
next
  case (updated n l)
  then show ?thesis
    by (simp add: total_stacked_def locked_principal_def liquidity_for_def find_update_where sum_same)
qed

lemma updateInternalBalance_accounts:
  assumes "updateInternalBalance env cur a op d = (Inr u, d')" "liquidity_for cur d \<noteq> None"
  shows "same_accounts d d'"
  using assms(1)
proof (cases rule: updateInternalBalance_cases)
  case (created n)
  have "liquidity_for n d = liquidity_for cur d"
    using verifyCurrency_ieq [OF created(1)] by (simp add: liquidity_for_def ieq_def)
  with created assms(2) show ?thesis by simp
qed (simp add: same_accounts_def update_where_def)

lemma debit_stacks:
  assumes "keys_ok d" "swap_debit env sb f d = (Inr u, d')"
  shows "stacked c d' = stacked c d \<and> total_stacked c d' = total_stacked c d \<and> d_autoStacks d' = d_autoStacks d
    \<and> (\<exists>shown. d_wallets d' = update_where (\<lambda>x. w_id x = w_id (sb_fromWallet sb)) (shown_wallet shown (w_settle (sb_reserved sb))) (d_wallets d))
    \<and> (liquidity_for k d \<noteq> None \<longrightarrow> liquidity_for k d' \<noteq> None) \<and> same_accounts d d'"
proof -
  let ?g = "\<lambda>shown. shown_wallet shown (w_settle (sb_reserved sb))"
  have "d_autoStacks d' = d_autoStacks d"
  proof -
    have "preserves (\<lambda>x. d_autoStacks x = d_autoStacks d) (swap_debit env sb f)"
      unfolding swap_debit_def preserves_wp updateInternalBalance_def createLiquidity_def refreshOriginalBalance_def
      by (simp add: wp_simps split: option.split sum.split)
    from runs_preserve [OF this _ assms(2)] show ?thesis by simp
  qed
  moreover obtain shown d1 where ws: "d_wallets d1 = update_where (\<lambda>x. w_id x = w_id (sb_fromWallet sb)) (?g shown) (d_wallets d)"
    and ls: "d_liquidity d1 = d_liquidity d" and int: "updateInternalBalance env (to_lower (sb_from sb)) f Subtract d1 = (Inr u, d')"
    using debit_run [OF assms(2) [unfolded swap_debit_def]] by blast
  have "same_accounts d d1" by (rule same_accounts_wallets [OF _ ws ls]) (simp add: shown_settle)
  then have "same_accounts d d'" using same_accounts_trans internal_subtract_accounts [OF int] by blast
  moreover have w': "d_wallets d' = d_wallets d1" using updateInternalBalance_frame [OF int] by simp
  moreover have "stacked c d' = stacked c d"
    unfolding stacked_def w' ws by (rule sum_same) (simp_all add: shown_settle)
  moreover note updateInternalBalance_stacks [OF int, of c k]
  moreover have "total_stacked c d1 = total_stacked c d" "liquidity_for k d1 = liquidity_for k d"
    using ls by (simp_all add: total_stacked_def liquidity_for_def)
  ultimately show ?thesis using w' ws by auto
qed

text \<open>When the swap of an auto-stacking execution settles, what was received is stacked: the user's
  stacked amount, the company's and the amount of the plan all rise by it, and the plan is
  active with its next execution after the settlement.\<close>

theorem stack_swap_stacks:
  assumes "stack_keys d" "swap_settle_tx env sb cf f received p d = (Inr True, d')"
    and "sb_linked sb = Some t" "stack_swap (sb_linked sb)" "sb_to sb = ''USDT''"
    and "stack_by_id (mget (t_meta t) ''autoStackId'') d = Some a" "a_status a = ASPENDING \<or> a_status a = ASACTIVE"
    and "List.find (\<lambda>w. w_userId w = sw_userId (sb_swap sb) \<and> w_currency w = ''USDT'') (d_wallets d) \<noteq> None"
  shows "stacked ''USDT'' d' = stacked ''USDT'' d + received
    \<and> total_stacked ''USDT'' d' = total_stacked ''USDT'' d + received
    \<and> active_plans d' = active_plans d + received
    \<and> (\<exists>b \<in> set (d_autoStacks d'). a_id b = a_id a \<and> a_status b = ASACTIVE
        \<and> a_nextExecutionAt b > swap_date env (sb_data sb))"
proof -
  have keys: "keys_ok d" and ids: "distinct (map a_id (d_autoStacks d))" using assms(1) by (simp_all add: stack_keys_def)
  obtain u1 d1 u2 d2 u3 d4 v where d1: "swap_debit env sb f d = (Inr u1, d1)"
    and d2: "updTransactions (\<lambda>y. t_id y = t_id t) (completed_swap env sb cf f) d1 = (Inr u2, d2)"
    and d4: "stack_swap_settle env sb cf t received d2 = (Inr u3, d4)"
    and rec: "swap_records env sb cf received p d4 = (Inr v, d')"
    using assms(2,3,4) unfolding swap_settle_tx_def swap_books_def run_bind run_get
    by (auto simp: run_then run_when run_return split: if_splits)
  obtain shown where b1: "stacked ''USDT'' d1 = stacked ''USDT'' d" "total_stacked ''USDT'' d1 = total_stacked ''USDT'' d"
    "d_autoStacks d1 = d_autoStacks d" "liquidity_for ''USDT'' d1 \<noteq> None" "same_accounts d d1"
    and ws1: "d_wallets d1 = update_where (\<lambda>x. w_id x = w_id (sb_fromWallet sb)) (shown_wallet shown (w_settle (sb_reserved sb))) (d_wallets d)"
    using debit_stacks [OF keys d1, of "''USDT''" "''USDT''"] assms(1) by (auto simp: stack_keys_def)
  note b2 = updTransactions_accounts [OF d2]
  have find1: "List.find (\<lambda>w. w_userId w = sw_userId (sb_swap sb) \<and> w_currency w = ''USDT'') (d_wallets d1) \<noteq> None"
    using assms(8) by (simp add: ws1 find_update_where shown_wallet_def w_settle_def)
  then obtain w where w: "List.find (\<lambda>w. w_userId w = sw_userId (sb_swap sb) \<and> w_currency w = ''USDT'') (d_wallets d2) = Some w"
    using b2 by auto
  have a: "stack_by_id (mget (t_meta t) ''autoStackId'') d2 = Some a"
    using assms(6) b2 b1(3) by (simp add: stack_by_id_def)
  let ?f = "\<lambda>x :: wallet. x\<lparr>w_stackedAmount := w_stackedAmount x + received\<rparr>"
  let ?g = "\<lambda>l :: liquidity. l\<lparr>l_totalAmountStacked := l_totalAmountStacked l + received\<rparr>"
  obtain u5 e1 e2 y e3 ts where int: "updateInternalBalance env ''USDT'' received Add e1 = (Inr u5, e2)"
    and con: "consumeReservedLiquidity (sb_from sb) (sb_booked sb)
      (e2\<lparr>d_liquidity := update_where (\<lambda>l. ieq (l_currency l) ''USDT'') ?g (d_liquidity e2)\<rparr>) = (Inr y, e3)"
    and e4: "d4 = e3\<lparr>d_transactions := ts\<rparr>"
    and ws: "d_wallets e1 = update_where (\<lambda>x. w_id x = w_id w) ?f (d_wallets d2)"
    and as: "d_autoStacks e1 = update_where (\<lambda>x. a_id x = a_id a) (stack_swapped (swap_date env (sb_data sb)) received a) (d_autoStacks d2)"
    and ls: "d_liquidity e1 = d_liquidity d2"
    using stack_settle_run [OF d4 a w] assms(5) by auto
  have keys1: "keys_ok d2"
    using b2 b1(5) same_accounts_keys [OF _ keys] same_accounts_trans by blast
  have e1: "stacked ''USDT'' e1 = stacked ''USDT'' d2 + received"
    using wallet_sum_update(2) [OF keys1 _ ws, of "''USDT''"] find_Some_in [OF w] by (simp add: ieq_def)
  have a_in: "a \<in> set (d_autoStacks d)" "a_id a = mget (t_meta t) ''autoStackId''"
    using find_Some_in [OF assms(6) [unfolded stack_by_id_def]] by simp_all
  have plans: "active_plans e1 = active_plans d + received"
    using active_plans_update [OF ids a_in(1), of e1] as b2 b1(3) assms(7)
    by (auto simp: plan_amount_def stack_swapped_def)
  note i = updateInternalBalance_stacks [OF int, of "''USDT''" "''USDT''"]
  have l2: "liquidity_for ''USDT'' e1 \<noteq> None" using b1(4) b2 ls by (simp add: liquidity_for_def)
  have "map w_id (d_wallets e1) = map w_id (d_wallets d2)" by (simp add: ws update_where_def)
  then have "keys_ok e1" using keys1 ls by (simp add: keys_ok_def)
  then have "keys_ok e2" using same_accounts_keys updateInternalBalance_accounts [OF int l2] by blast
  moreover have "map a_id (d_autoStacks e2) = map a_id (d_autoStacks d)"
    using i as b2 b1(3) by (simp add: update_where_def stack_swapped_def)
  ultimately have sk: "stack_keys e2" using ids i l2 by (simp add: stack_keys_def)
  then obtain l where l: "liquidity_for ''USDT'' e2 = Some l" by (auto simp: stack_keys_def)
  let ?d = "e2\<lparr>d_liquidity := update_where (\<lambda>l. ieq (l_currency l) ''USDT'') ?g (d_liquidity e2)\<rparr>"
  have ts: "total_stacked ''USDT'' ?d = total_stacked ''USDT'' e2 + received"
    using total_stacked_update [OF sk l, of ?d ?g "''USDT''"] by (simp add: ieq_def)
  have w1: "same_worth ?d e3" by (rule runs_preserve [OF worth_reservations(2) same_worth_refl con])
  have w2: "same_worth e3 d4" by (simp add: e4 same_worth_def)
  have w3: "same_worth d4 d'" by (rule runs_preserve [OF worth_records same_worth_refl rec])
  note sums = same_worth_sums [OF w3] same_worth_sums [OF w2] same_worth_sums [OF w1]
  have "stacked ''USDT'' d' = stacked ''USDT'' d + received"
    using sums(5,14,23) e1 updateInternalBalance_frame [OF int] b1(1) b2 by (simp add: stacked_def)
  moreover have "total_stacked ''USDT'' d' = total_stacked ''USDT'' d + received"
    using sums(7,16,25) ts i ls b1(2) b2 by (simp add: total_stacked_def)
  moreover have "active_plans d' = active_plans d + received"
    using sums(9,18,27) i plans by (simp add: active_plans_def)
  moreover have "d_autoStacks d' = d_autoStacks e1"
    using w1 w2 w3 i by (simp add: same_worth_def)
  then have "stack_swapped (swap_date env (sb_data sb)) received a a \<in> set (d_autoStacks d')"
    using as b2 b1(3) a_in(1) by (force simp: update_where_def)
  then have "\<exists>b \<in> set (d_autoStacks d'). a_id b = a_id a \<and> a_status b = ASACTIVE
        \<and> a_nextExecutionAt b > swap_date env (sb_data sb)"
    by (rule rev_bexI) (simp add: stack_swapped_def next_execution_later)
  ultimately show ?thesis by blast
qed


section \<open>An example\<close>

text \<open>A swap of 50 BTC base units, with a fee of 2, both reserved: once the user's own, once that of a plan.\<close>

definition swap_example :: swapTransaction where
  "swap_example = \<lparr>sw_id = ''s1'', sw_userId = ''u1'', sw_quidaxAccountId = ''me'', sw_fromCurrency = ''btc'',
     sw_toCurrency = ''usdt'', sw_amountOriginal = ''0.0000005'', sw_quotedPriceOriginal = None, sw_feeOriginal = None, sw_toAmountOriginal = None,
     sw_receivedAmountOriginal = None, sw_quoteId = Some ''r1'', sw_swapId = Some ''p1'', sw_status = ''PENDING'',
     sw_confirmed = False, sw_executionPriceOriginal = None, sw_description = None\<rparr>"

definition swap_data_example :: swapData where
  "swap_data_example = \<lparr>sd_id = ''p1'', sd_from_amount = ''0.0000005'', sd_received_amount = ''0.00000000000000003'',
     sd_execution_price = ''60'', sd_updatedAt = Some 5000\<rparr>"

definition confirmed_example :: swapConfirmed where
  "confirmed_example = \<lparr>xc_status = ''completed'', xc_from_amount = ''0.0000005'',
     xc_received_amount = ''0.00000000000000003'', xc_execution_price = ''60''\<rparr>"

definition own_swap_tx :: transaction where
  "own_swap_tx = (new_transaction ''t1'' ''u1'' ''p1'' ''BTC'' DEBIT CtxSWAP)\<lparr>t_cryptoAmountBase := Some 50, t_platformFeeBase := Some 2\<rparr>"

definition stack_swap_tx :: transaction where
  "stack_swap_tx = (new_transaction ''t1'' ''u1'' ''r1'' ''BTC'' DEBIT CtxAUTOSTACK)\<lparr>t_cryptoAmountBase := Some 50,
     t_platformFeeBase := Some 2, t_meta := [(''autoStackId'', ''a1''), (''paymentType'', ''CRYPTO_WALLET'')]\<rparr>"

definition btc_wallet :: wallet where
  "btc_wallet = wallet_example\<lparr>w_id := ''w2'', w_currency := ''BTC'', w_reservedBalance := 52\<rparr>"

definition btc_liquidity :: liquidity where
  "btc_liquidity = (new_liquidity ''l2'' ''BTC'')\<lparr>l_totalBalance := 500, l_reservedBalance := 50, l_internalBalance := 100\<rparr>"

definition db_swap :: "transaction \<Rightarrow> db" where
  "db_swap t = db_stack\<lparr>d_transactions := [t], d_swaps := [swap_example], d_wallets := [wallet_example, btc_wallet],
     d_liquidity := [liquidity_example, btc_liquidity]\<rparr>"

definition booking_example :: "transaction \<Rightarrow> swapBooking" where
  "booking_example t = \<lparr>sb_swap = swap_example, sb_data = swap_data_example, sb_from = ''BTC'', sb_to = ''USDT'',
     sb_fromWallet = btc_wallet, sb_toWallet = wallet_example, sb_linked = Some t, sb_booked = 50, sb_reserved = 52\<rparr>"

lemma swap_displays:
  "fromBase cv_example (ABigInt 48) ''BTC'' None = Inr ''0.00000048''"
  "fromBase cv_example (ABigInt 130) ''USDT'' None = Inr ''0.00000000000000013''"
  by (simp_all add: cv_example_def currency_eval eval_simps)

lemmas swap_eval = db_swap_def booking_example_def swap_example_def swap_data_example_def confirmed_example_def
  btc_wallet_def btc_liquidity_def stack_eval swap_displays

lemmas swap_tx_eval = swap_settle_tx_def swap_books_def swap_debit_def swap_credit_def swap_records_def
  stack_swap_settle_def swap_done_def swap_by_id_def transaction_by_id_def transaction_by_uniqueId_def stack_by_id_def
  insertTransaction_def freshM_def terminal_swap_def stack_swap_def settled_stack_swap_def comp_defs updWallets_def
  updTransactions_def updSwaps_def updUsers_def updLiquidity_def updAutoStacks_def update_where_def
  refreshOriginalBalance_def base_of_def swap_ngn_def truthy_def w_settle_def w_credit_def completed_swap_def

text \<open>The statements of the ledgers, evaluated.\<close>

lemmas ledger_eval = updateInternalBalance_def verifyCurrency_def consumeReservedLiquidity_def releaseLiquidity_def
  releaseBalance_def network_matches_def wallet_for_def sqlWallets_def sqlLiquidity_def guarded_count_def guarded_update_def
  l_key_def l_consume_def l_release_def w_release_def liquidity_for_def ALLOWED_CURRENCIES_def ieq_def eval_simps

lemma own_swap_runs:
  "fst (swap_settle_tx env_example (booking_example own_swap_tx) confirmed_example 50 30 None (db_swap own_swap_tx)) = Inr True"
  by (simp add: swap_eval swap_tx_eval own_swap_tx_def new_transaction_def swap_credit_row_def ledger_eval mget_def)

lemma stack_swap_runs:
  "fst (swap_settle_tx env_example (booking_example stack_swap_tx) confirmed_example 50 30 None (db_swap stack_swap_tx)) = Inr True"
  by (simp add: swap_eval swap_tx_eval stack_swap_tx_def new_transaction_def ledger_eval mget_def stack_example_def)

lemma db_swap_ok: "stack_keys (db_swap t)" "keys_ok (db_swap t)"
  by (simp_all add: stack_keys_def keys_ok_def swap_eval stack_example_def liquidity_for_def ledger_eval)

lemma booking_example_ok: "booking_ok (booking_example t) (db_swap u)"
  by (simp add: booking_ok_def swap_eval ledger_eval)

theorem swap_settles_once_witness:
  "\<exists>d. swap_trace ''s1'' (db_swap own_swap_tx) [True] d \<and> length (filter (\<lambda>b. b) [True]) \<le> 1"
proof -
  let ?d = "snd (swap_settle_tx env_example (booking_example own_swap_tx) confirmed_example 50 30 None (db_swap own_swap_tx))"
  have "committed (swap_settle_tx env_example (booking_example own_swap_tx) confirmed_example 50 30 None) (db_swap own_swap_tx)
      = (Some True, ?d)"
    by (subst committed_def, subst fst_run [OF own_swap_runs]) simp
  from swap_trace.settle [OF swap_trace.start _ this] have t: "swap_trace ''s1'' (db_swap own_swap_tx) [True] ?d"
    by (simp add: booking_example_def swap_example_def)
  from swap_settles_once [OF t] t show ?thesis by blast
qed

theorem swap_conserves_witness:
  "\<exists>d'. swap_settle_tx env_example (booking_example own_swap_tx) confirmed_example 50 30 None (db_swap own_swap_tx) = (Inr True, d')
     \<and> net ''BTC'' d' = net ''BTC'' (db_swap own_swap_tx) + 2"
proof -
  note run = fst_run [OF own_swap_runs]
  from swap_conserves [OF db_swap_ok(2) booking_example_ok run, of "''BTC''"] run show ?thesis
    by (auto simp: booking_example_def ieq_def)
qed

theorem stack_swap_stacks_witness:
  "\<exists>d'. swap_settle_tx env_example (booking_example stack_swap_tx) confirmed_example 50 30 None (db_swap stack_swap_tx) = (Inr True, d')
     \<and> active_plans d' = active_plans (db_swap stack_swap_tx) + 30"
proof -
  note run = fst_run [OF stack_swap_runs]
  have a: "sb_linked (booking_example stack_swap_tx) = Some stack_swap_tx" "stack_swap (sb_linked (booking_example stack_swap_tx))"
    "sb_to (booking_example stack_swap_tx) = ''USDT''"
    by (simp_all add: booking_example_def stack_swap_def stack_swap_tx_def new_transaction_def mget_def eval_simps)
  have b: "stack_by_id (mget (t_meta stack_swap_tx) ''autoStackId'') (db_swap stack_swap_tx) = Some stack_example"
    "a_status stack_example = ASPENDING \<or> a_status stack_example = ASACTIVE"
    "List.find (\<lambda>w. w_userId w = sw_userId (sb_swap (booking_example stack_swap_tx)) \<and> w_currency w = ''USDT'')
      (d_wallets (db_swap stack_swap_tx)) \<noteq> None"
    by (simp_all add: swap_eval stack_by_id_def stack_swap_tx_def new_transaction_def mget_def stack_example_def)
  from stack_swap_stacks [OF db_swap_ok(1) run a b] run show ?thesis by blast
qed

end
