(* ===== verification/VaultSwaps.thy ===== *)
theory VaultSwaps
  imports SwapBooks
begin

text \<open>
  The books of vault swaps: what the completion of a BTC swap moves when it funds the vault,
  what a failed or short swap gives back, and what happens when a failure is processed
  beside a completion.
\<close>

section \<open>A funded vault\<close>

lemma frame_release_expected [frame_intros]: "books_frame I \<Longrightarrow> preserves I (release_expected a)"
  unfolding release_expected_def Let_def by (intro preserves_intros frame_intros)

lemma frame_fund [frame_intros]: "books_frame I \<Longrightarrow> preserves I (vault_swap_fund env w e r g)"
  unfolding vault_swap_fund_def by (intro preserves_intros frame_intros)

lemma fund_run:
  assumes "vault_swap_fund env w expected received gain d = (Inr u, d')"
  shows "\<exists>u1 d1 u2 d2. thenM (updWallets (\<lambda>x. w_id x = w_id w) (w_fund (received - expected) expected gain))
      (thenM (refreshOriginalBalance env (w_id w) ''USDT'') (updateInternalBalance env ''USDT'' received Add)) d = (Inr u1, d1)
    \<and> release_expected expected d1 = (Inr u2, d2)
    \<and> d' = d2\<lparr>d_liquidity := update_where (\<lambda>l. ieq (l_currency l) ''USDT'') (l_lock expected gain) (d_liquidity d2)\<rparr>"
  using assms unfolding vault_swap_fund_def run_then run_upd by blast

lemma worth_release_expected [frame_intros]: "preserves (same_worth d) (release_expected a)"
  unfolding release_expected_def Let_def by (intro preserves_intros frame_intros)

lemma funded_run:
  assumes "vault_swap_funded env ops sw data v linked expected received d = (Inr u, d')"
  shows "\<exists>usdt btc charge u1 d1 u2 d2 c rate. wallet_for (sw_userId sw) ''USDT'' d = Some usdt
    \<and> wallet_for (sw_userId sw) ''BTC'' d = Some btc
    \<and> (case linked of None \<Rightarrow> Inr 0 | Some t \<Rightarrow> total_sent_of t) = Inr charge
    \<and> vault_swap_debit env (sd_id data) btc charge d = (Inr u1, d1)
    \<and> vault_swap_fund env usdt expected received (xo_gain ops expected (v_interestRatePerAnum v) (vault_days v)) d1 = (Inr u2, d2)
    \<and> d' = d2\<lparr>d_vaults := update_where (\<lambda>x. v_id x = v_id v)
        (activated c expected (xo_gain ops expected (v_interestRatePerAnum v) (vault_days v))
          (vault_fee (VAULT_TRANSACTION_FEE (xo_fee ops)) (expected + xo_gain ops expected (v_interestRatePerAnum v) (vault_days v))) rate)
        (d_vaults d2), d_transactions := d_transactions d', d_swaps := d_swaps d'\<rparr>"
  using assms
  unfolding vault_swap_funded_def run_bind run_then run_get run_some run_lift run_upd Let_def
  apply (elim exE conjE)
  apply hypsubst_thin
  apply (intro exI conjI, assumption, assumption, assumption, assumption, assumption)
  apply (auto simp: run_return run_upd split: option.splits)
  done

lemma liquidity_sum_update:
  assumes "keys_ok d" "liquidity_for k d = Some l"
    and "\<And>x. l_currency (f x) = l_currency x"
  shows "sum_list (map val (filter (\<lambda>x. ieq (l_currency x) c) (update_where (\<lambda>x. ieq (l_currency x) k) f (d_liquidity d))))
    = sum_list (map val (filter (\<lambda>x. ieq (l_currency x) c) (d_liquidity d)))
      + (if ieq k c then val (f l) - val l else (0::int))"
proof -
  have l: "l \<in> set (d_liquidity d)" "ieq (l_currency l) k"
    using find_Some_in [OF assms(2) [unfolded liquidity_for_def]] by simp_all
  have dist: "distinct (map (\<lambda>x. to_lower (l_currency x)) (d_liquidity d))" using assms(1) by (simp add: keys_ok_def)
  have "sum_list (map val (filter (\<lambda>x. ieq (l_currency x) c) (update_where (\<lambda>x. to_lower (l_currency x) = to_lower k) f (d_liquidity d))))
      = sum_list (map val (filter (\<lambda>x. ieq (l_currency x) c) (d_liquidity d)))
        + (if ieq (l_currency l) c then val (f l) - val l else 0)"
    by (rule sum_update_where [OF dist l(1)]) (use l(2) in \<open>simp_all add: assms(3) ieq_def\<close>)
  then show ?thesis using ieq_trans_lower [OF l(2), of c] by (simp add: ieq_def)
qed

lemma wallet_for_currency:
  assumes "keys_ok d" "wallet_for u c d = Some w"
  shows "w \<in> set (d_wallets d)" "\<forall>x \<in> set (d_wallets d). w_id x = w_id w \<longrightarrow> ieq (w_currency x) c"
proof -
  have w: "w \<in> set (d_wallets d)" "ieq (w_currency w) c"
    using find_Some_in [OF assms(2) [unfolded wallet_for_def]] by simp_all
  then show "w \<in> set (d_wallets d)" by simp
  show "\<forall>x \<in> set (d_wallets d). w_id x = w_id w \<longrightarrow> ieq (w_currency x) c"
    using w assms(1) by (auto simp: keys_ok_def distinct_map inj_on_def)
qed

lemma same_accounts_liquidity:
  assumes "same_accounts d d'"
  shows "liquidity_for k d' = None \<longleftrightarrow> liquidity_for k d = None"
proof -
  have "set (map (\<lambda>l. (l_id l, l_currency l)) (d_liquidity d')) = set (map (\<lambda>l. (l_id l, l_currency l)) (d_liquidity d))"
    using assms by (simp add: same_accounts_def)
  then have "(\<forall>(i, c) \<in> set (map (\<lambda>l. (l_id l, l_currency l)) (d_liquidity d')). \<not> ieq c k)
      \<longleftrightarrow> (\<forall>(i, c) \<in> set (map (\<lambda>l. (l_id l, l_currency l)) (d_liquidity d)). \<not> ieq c k)" by simp
  then show ?thesis by (auto simp: liquidity_for_def find_None_iff split_beta)
qed

lemma fund_books:
  assumes "keys_ok d" "\<forall>x \<in> set (d_wallets d). w_id x = w_id w \<longrightarrow> ieq (w_currency x) ''USDT''"
    and "liquidity_for ''USDT'' d \<noteq> None" "vault_swap_fund env w expected received gain d = (Inr u, d')"
  shows "own c d' = own c d + (if ieq ''USDT'' c then received else 0)
    \<and> internal c d' = internal c d + (if ieq ''USDT'' c then received else 0)
    \<and> locked ''USDT'' d' = locked ''USDT'' d + expected
    \<and> locked_principal ''USDT'' d' = locked_principal ''USDT'' d + expected"
proof -
  let ?g = "w_fund (received - expected) expected gain"
  obtain u1 d1 u2 d2 where d1: "thenM (updWallets (\<lambda>x. w_id x = w_id w) ?g)
      (thenM (refreshOriginalBalance env (w_id w) ''USDT'') (updateInternalBalance env ''USDT'' received Add)) d = (Inr u1, d1)"
    and d2: "release_expected expected d1 = (Inr u2, d2)"
    and d': "d' = d2\<lparr>d_liquidity := update_where (\<lambda>l. ieq (l_currency l) ''USDT'') (l_lock expected gain) (d_liquidity d2)\<rparr>"
    using fund_run [OF assms(4)] by blast
  have g: "w_id (?g x) = w_id x" "w_currency (?g x) = w_currency x"
    "w_baseBalance (?g x) + w_stackedAmount (?g x) + w_lockedAmount (?g x)
       = w_baseBalance x + w_stackedAmount x + w_lockedAmount x + received" for x
    by (simp_all add: w_fund_def)
  obtain w' shown where w': "w' \<in> set (d_wallets d)" "w_id w' = w_id w" and b: "own c d1 = own c d + (if ieq ''USDT'' c then received else 0)"
    "internal c d1 = internal c d + (if ieq ''USDT'' c then received else 0)"
    and ws: "d_wallets d1 = update_where (\<lambda>x. w_id x = w_id w) (\<lambda>x. (?g x)\<lparr>w_originalBalance := shown\<rparr>) (d_wallets d)"
    using credit_books [OF assms(1,2) g d1, of c] by blast
  have "locked ''USDT'' d1 = locked ''USDT'' d + expected"
    unfolding locked_def ws
    using sum_update_where [of w_id "d_wallets d" w' "w_id w" "\<lambda>w. ieq (w_currency w) ''USDT''"
        "\<lambda>x. (?g x)\<lparr>w_originalBalance := shown\<rparr>" w_lockedAmount expected] assms(1,2) w'
    by (simp add: keys_ok_def g(2) w_fund_def)
  moreover have "locked_principal ''USDT'' d1 = locked_principal ''USDT'' d" "keys_ok d1" "liquidity_for ''USDT'' d1 \<noteq> None"
  proof -
    obtain b' shown' e where int: "updateInternalBalance env ''USDT'' received Add e = (Inr u1, d1)"
      and e: "d_liquidity e = d_liquidity d" "same_accounts d e"
    proof -
      have "\<exists>e. updateInternalBalance env ''USDT'' received Add e = (Inr u1, d1) \<and> d_liquidity e = d_liquidity d \<and> same_accounts d e"
        using d1 unfolding run_then run_upd refreshOriginalBalance_run
        apply (elim exE conjE)
        apply hypsubst_thin
        apply (intro exI conjI, assumption)
        by (simp_all add: same_accounts_def update_where_def g)
      then show thesis using that by blast
    qed
    have le: "liquidity_for ''USDT'' e \<noteq> None" using assms(3) e(1) by (simp add: liquidity_for_def)
    note i = updateInternalBalance_stacks [OF int, of "''USDT''" "''USDT''"]
    show "locked_principal ''USDT'' d1 = locked_principal ''USDT'' d" using i e(1) by (simp add: locked_principal_def)
    show "keys_ok d1"
      using same_accounts_keys [OF _ assms(1)] same_accounts_trans [OF e(2) updateInternalBalance_accounts [OF int le]] by blast
    show "liquidity_for ''USDT'' d1 \<noteq> None" using i le by blast
  qed
  moreover have w: "same_worth d1 d2" by (rule runs_preserve [OF worth_release_expected same_worth_refl d2])
  moreover have "keys_ok d2 \<and> liquidity_for ''USDT'' d2 \<noteq> None"
  proof -
    have sa: "same_accounts d1 d2"
      using d2 by (auto simp: release_expected_def Let_def run_simps releaseLiquidity_def l_release_def same_accounts_def
          guarded_update_def split: if_splits)
    show ?thesis
      using same_accounts_keys [OF sa \<open>keys_ok d1\<close>] same_accounts_liquidity [OF sa, of "''USDT''"]
        \<open>liquidity_for ''USDT'' d1 \<noteq> None\<close> by (intro conjI) simp_all
  qed
  then obtain l where l: "keys_ok d2" "liquidity_for ''USDT'' d2 = Some l" by auto
  have same: "l_currency (l_lock expected gain x) = l_currency x" for x by (simp add: l_lock_def)
  have "locked_principal ''USDT'' d' = locked_principal ''USDT'' d2 + expected"
    unfolding locked_principal_def d'
    by (simp add: liquidity_sum_update [OF l same]) (simp add: ieq_def l_lock_def)
  moreover have "internal c d' = internal c d2"
    unfolding internal_def d'
    by (simp add: liquidity_sum_update [OF l same]) (simp add: l_lock_def)
  moreover have "own c d' = own c d2" "locked ''USDT'' d' = locked ''USDT'' d2"
    by (simp_all add: d' own_def locked_def)
  ultimately show ?thesis using b same_worth_sums [OF w] by simp
qed

lemma vault_debit_books:
  assumes "keys_ok d" "\<forall>w \<in> set (d_wallets d). w_id w = w_id b \<longrightarrow> ieq (w_currency w) ''BTC''"
    and "vault_swap_debit env i b charge d = (Inr u, d')"
  shows "own c d' = own c d - (if ieq ''BTC'' c then charge else 0)
    \<and> internal c d' = internal c d - (if ieq ''BTC'' c then charge else 0) \<and> same_accounts d d'
    \<and> locked k d' = locked k d \<and> locked_principal k d' = locked_principal k d \<and> d_vaults d' = d_vaults d"
proof -
  note run = assms(3) [unfolded vault_swap_debit_def]
  obtain shown d1 where ws: "d_wallets d1 = update_where (\<lambda>x. w_id x = w_id b) (shown_wallet shown (w_settle charge)) (d_wallets d)"
    and ls: "d_liquidity d1 = d_liquidity d" and int: "updateInternalBalance env ''BTC'' charge Subtract d1 = (Inr u, d')"
    using debit_run [OF run] by blast
  have "locked k d1 = locked k d"
    unfolding locked_def ws by (rule sum_same) (simp_all add: shown_settle)
  moreover have "locked k d' = locked k d1" using updateInternalBalance_frame [OF int] by (simp add: locked_def)
  moreover have "locked_principal k d' = locked_principal k d"
    using updateInternalBalance_stacks [OF int, of k k] ls by (simp add: locked_principal_def)
  moreover have "d_vaults d' = d_vaults d"
  proof -
    have "preserves (\<lambda>x. d_vaults x = d_vaults d) (vault_swap_debit env i b charge)"
      unfolding vault_swap_debit_def
      by (intro preserves_intros frame_intros books_frame_vaults [of "\<lambda>v. v = d_vaults d"])
    from runs_preserve [OF this _ assms(3)] show ?thesis by simp
  qed
  ultimately show ?thesis using debit_books [OF assms(1,2) run, of c] by simp
qed

text \<open>C23: a completed BTC swap that brought at least what was expected funds its vault: the reserved BTC
  leaves the user, the USDT received becomes the user's, the amount expected locked and the
  rest free; in both currencies the company's internal balance follows, so that nothing is
  made or lost; the principal the company records as locked rises with the user's locked
  amount, and the vault is active with that amount.\<close>

theorem vault_swap_funds:
  assumes "keys_ok d" "liquidity_for ''USDT'' d \<noteq> None"
    and "vault_by_id i d = Some v" "v_status v = VPENDING \<or> v_status v = VACTIVE"
    and "linked_vault_tx (sd_id data) (sw_userId sw) d = Some t" "t_status t \<noteq> TxCOMPLETED"
    and "t_totalAmountSentBase t = Some charge" "expected_usdt env sw v = Inr expected"
    and "toBase (e_cv env) (sd_received_amount data) ''USDT'' None = Inr received" "expected \<le> received"
    and "vault_swap_completion_tx env ops sw data i d = (Inr u, d')"
  shows "own ''BTC'' d' = own ''BTC'' d - charge \<and> own ''USDT'' d' = own ''USDT'' d + received
    \<and> (\<forall>c. net c d' = net c d)
    \<and> locked ''USDT'' d' = locked ''USDT'' d + expected
    \<and> locked_principal ''USDT'' d' = locked_principal ''USDT'' d + expected
    \<and> (\<exists>x \<in> set (d_vaults d'). v_id x = i \<and> v_status x = VACTIVE \<and> v_amountLocked x = expected)"
proof -
  have run: "vault_swap_funded env ops sw data v (Some t) expected received d = (Inr u, d')"
    using assms(11) unfolding vault_swap_completion_tx_def run_bind run_get
    using assms(3-10) by (auto simp: run_simps split: if_splits)
  obtain usdt btc u1 d1 u2 d2 c rate g k where uw: "wallet_for (sw_userId sw) ''USDT'' d = Some usdt"
    and bw: "wallet_for (sw_userId sw) ''BTC'' d = Some btc"
    and d1: "vault_swap_debit env (sd_id data) btc charge d = (Inr u1, d1)"
    and d2: "vault_swap_fund env usdt expected received g d1 = (Inr u2, d2)"
    and d': "d' = d2\<lparr>d_vaults := update_where (\<lambda>x. v_id x = v_id v) (activated c expected g k rate) (d_vaults d2),
        d_transactions := d_transactions d', d_swaps := d_swaps d'\<rparr>"
    using funded_run [OF run] assms(7) by (auto simp: total_sent_of_def)
  note b1 = vault_debit_books [OF assms(1) wallet_for_currency(2) [OF assms(1) bw] d1]
  have sa: "same_accounts d d1" using b1 by simp
  note k1 = same_accounts_keys [OF sa assms(1)]
  have l1: "liquidity_for ''USDT'' d1 \<noteq> None" using same_accounts_liquidity [OF sa, of "''USDT''"] assms(2) by simp
  have w1: "\<forall>x \<in> set (d_wallets d1). w_id x = w_id usdt \<longrightarrow> ieq (w_currency x) ''USDT''"
    using same_accounts_currency [OF sa, of "\<lambda>j cur. j = w_id usdt \<longrightarrow> ieq cur ''USDT''"]
      wallet_for_currency(2) [OF assms(1) uw] by simp
  note b2 = fund_books [OF k1 w1 l1 d2]
  have tables: "d_wallets d' = d_wallets d2" "d_liquidity d' = d_liquidity d2" "d_autoStacks d' = d_autoStacks d2"
    "d_vaults d' = update_where (\<lambda>x. v_id x = v_id v) (activated c expected g k rate) (d_vaults d2)"
    by (subst d', simp)+
  have worth: "same_worth d2 d'" by (simp add: same_worth_def tables)
  have "d_vaults d2 = d_vaults d1"
    using runs_preserve [OF frame_fund [OF books_frame_vaults [of "\<lambda>v. v = d_vaults d1"]] refl d2] .
  moreover have v: "v \<in> set (d_vaults d)" "v_id v = i"
    using find_Some_in [OF assms(3) [unfolded vault_by_id_def]] by simp_all
  ultimately have "activated c expected g k rate v \<in> set (d_vaults d')"
    using b1 by (force simp: tables update_where_def)
  then have "\<exists>x \<in> set (d_vaults d'). v_id x = i \<and> v_status x = VACTIVE \<and> v_amountLocked x = expected"
    by (rule rev_bexI) (simp add: activated_def v)
  moreover have "net x d' = net x d" for x
    using b1 [of x] b2 [of x] same_worth_sums(3) [OF worth, of x] by (simp add: net_def)
  moreover have "own ''BTC'' d' = own ''BTC'' d - charge"
    using b1 [of "''BTC''"] b2 [of "''BTC''"] same_worth_sums(1) [OF worth, of "''BTC''"]
    by (simp add: ieq_def eval_simps)
  moreover have "own ''USDT'' d' = own ''USDT'' d + received"
    using b1 [of "''USDT''"] b2 [of "''USDT''"] same_worth_sums(1) [OF worth, of "''USDT''"]
    by (simp add: ieq_def eval_simps)
  moreover have "locked ''USDT'' d' = locked ''USDT'' d + expected"
    "locked_principal ''USDT'' d' = locked_principal ''USDT'' d + expected"
    using b1 b2 same_worth_sums(6,8) [OF worth, of "''USDT''"] by simp_all
  ultimately show ?thesis by blast
qed


section \<open>A failed or short vault swap\<close>

lemma release_expected_back:
  assumes "keys_ok d" "back_liquidity d0 d ''USDT'' a" "0 < a" "d_liquidity e = d_liquidity d"
  shows "release_expected a e = (Inr (), e\<lparr>d_liquidity := d_liquidity d0\<rparr>)"
proof -
  have r: "releaseLiquidity ''USDT'' a e = (Inr (), e\<lparr>d_liquidity := d_liquidity d0\<rparr>)"
    using assms(2,4) by (simp add: back_liquidity_def)
  have k: "keys_ok (d\<lparr>d_liquidity := d_liquidity d\<rparr>)" using assms(1) by simp
  obtain n where n: "verifyCurrency ''USDT'' = Inr n" "guarded_count (l_key n) (l_release a) (d_liquidity e) \<noteq> 0"
    using r assms(3) by (auto simp: releaseLiquidity_eq split: sum.splits if_splits)
  obtain x where x: "x \<in> set (d_liquidity d)" "l_key n x" "l_release a x \<noteq> None"
    using n(2) assms(4) by (auto simp: guarded_count_def filter_empty_conv)
  have key: "l_key ''USDT'' x" using x(2) verifyCurrency_ieq [OF n(1)] by (simp only: l_key_def ieq_def)
  have "liquidity_for ''USDT'' d \<noteq> None"
    using x(1) key unfolding liquidity_for_def l_key_def find_None_iff by blast
  then obtain l where l: "liquidity_for ''USDT'' d = Some l" by auto
  have "x = l" by (rule liquidity_row_unique [OF assms(1) l x(1) key])
  then have "a \<le> l_reservedBalance l" using x(3) by (auto simp: l_release_def split: if_splits)
  moreover have "liquidity_for ''USDT'' e = Some l" using l assms(4) by (simp only: liquidity_for_def)
  ultimately show ?thesis using r by (simp add: release_expected_def comp_defs Let_def)
qed

lemma reserve_accounts:
  assumes "reserveBalance u c a n d = (Inr v, d')"
  shows "same_accounts d d'"
proof -
  obtain i where d': "d' = d\<lparr>d_wallets := guarded_update (\<lambda>v. w_id v = i) (w_reserve a) (d_wallets d)\<rparr>"
    using assms by (auto simp: reserveBalance_eq split: option.splits if_splits)
  have "map (\<lambda>x. (w_id x, w_currency x)) (guarded_update k (w_reserve a) ws) = map (\<lambda>x. (w_id x, w_currency x)) ws" for k ws
    by (simp add: guarded_update_def w_reserve_def)
  then show ?thesis by (simp add: d' same_accounts_def)
qed

lemma reserve_liquidity_accounts:
  assumes "reserveLiquidity c a d = (Inr v, d')"
  shows "same_accounts d d'"
proof -
  obtain n where d': "d' = d\<lparr>d_liquidity := guarded_update (l_key n) (l_reserve a) (d_liquidity d)\<rparr>"
    using assms by (auto simp: reserveLiquidity_eq split: sum.splits)
  have "map (\<lambda>l. (l_id l, l_currency l)) (guarded_update k (l_reserve a) ls) = map (\<lambda>l. (l_id l, l_currency l)) ls" for k ls
    by (simp add: guarded_update_def l_reserve_def)
  then show ?thesis by (simp add: d' same_accounts_def)
qed

lemma ended_vaults:
  "\<forall>x \<in> set (update_where (\<lambda>x. v_id x = i) (\<lambda>x. x\<lparr>v_status := VTERMINATED\<rparr>) (vs :: vault list)). v_id x = i \<longrightarrow> v_status x = VTERMINATED"
  unfolding update_where_def set_map ball_simps
  apply (rule ballI)
  apply (rule impI)
  apply (split if_split_asm)
  apply simp
  apply simp
  done

text \<open>C21: A vault swap that fails, or that brings less than was expected, gives both reservations back: the
  wallets and the company's liquidity are again what they were before the BTC and the USDT were
  reserved, and the vault has ended.\<close>

theorem failed_vault_swap_restores:
  assumes "solvent d0" "keys_ok d0" "0 < charge" "0 < expected"
    and "reserveBalance (sw_userId sw) ''BTC'' charge None d0 = (Inr (), d1)"
    and "reserveLiquidity ''USDT'' expected d1 = (Inr True, d2)"
    and "d_wallets d = d_wallets d2" "d_liquidity d = d_liquidity d2"
    and "vault_by_id i d = Some v" "v_status v = VPENDING"
    and "linked_vault_tx (sd_id data) (sw_userId sw) d = Some t" "t_status t = TxPENDING"
    and "t_totalAmountSentBase t = Some charge" "expected_usdt env sw v = Inr expected"
  shows "(\<exists>d'. vault_swap_failure_tx env sw data event i d = (Inr (), d') \<and> d_wallets d' = d_wallets d0
      \<and> d_liquidity d' = d_liquidity d0 \<and> (\<forall>x \<in> set (d_vaults d'). v_id x = i \<longrightarrow> v_status x = VTERMINATED))
    \<and> (\<forall>received. toBase (e_cv env) (sd_received_amount data) ''USDT'' None = Inr received \<and> received < expected \<longrightarrow>
      (\<exists>d'. vault_swap_completion_tx env ops sw data i d = (Inr (), d') \<and> d_wallets d' = d_wallets d0
      \<and> d_liquidity d' = d_liquidity d0 \<and> (\<forall>x \<in> set (d_vaults d'). v_id x = i \<longrightarrow> v_status x = VTERMINATED)))"
proof -
  have s1: "solvent d1" by (rule solvent_reserved [OF assms(1) _ assms(5)]) (use assms(3) in simp)
  have k1: "keys_ok d1" by (rule same_accounts_keys [OF reserve_accounts [OF assms(5)] assms(2)])
  have k2: "keys_ok d2" by (rule same_accounts_keys [OF reserve_liquidity_accounts [OF assms(6)] k1])
  then have k: "keys_ok d" using assms(7,8) by (simp add: keys_ok_def)
  have "d_wallets d2 = d_wallets d1" using reserveLiquidity_run [OF assms(6)] by (metis db.ext_inject db.surjective db.update_convs(2))
  then have bw: "back_wallets d0 d (sw_userId sw) ''BTC'' charge"
    using wallets_back [OF assms(1,2,5), of d] assms(7) by simp
  have "d_liquidity d1 = d_liquidity d0" using reserveBalance_run [OF assms(5)] by (metis db.ext_inject db.surjective db.update_convs(1))
  then have bl: "back_liquidity d0 d ''USDT'' expected"
    using liquidity_back [OF s1 k1 _ assms(6), of d] assms(4,8) by (simp add: back_liquidity_def)
  have rb: "releaseBalance (sw_userId sw) ''BTC'' charge None e = (Inr (), e\<lparr>d_wallets := d_wallets d0\<rparr>)"
    if "d_wallets e = d_wallets d" for e
    using bw that by (simp only: back_wallets_def)
  note re = release_expected_back [OF k bl assms(4)]
  note upd = updVaults_def updTransactions_def updSwaps_def
  have "\<exists>d'. vault_swap_failure_tx env sw data event i d = (Inr (), d') \<and> d_wallets d' = d_wallets d0
      \<and> d_liquidity d' = d_liquidity d0 \<and> (\<forall>x \<in> set (d_vaults d'). v_id x = i \<longrightarrow> v_status x = VTERMINATED)"
    by (simp add: vault_swap_failure_tx_def comp_defs Let_def rb re upd ended_vaults assms(3,4,9-14))
  moreover have "\<exists>d'. vault_swap_completion_tx env ops sw data i d = (Inr (), d') \<and> d_wallets d' = d_wallets d0
      \<and> d_liquidity d' = d_liquidity d0 \<and> (\<forall>x \<in> set (d_vaults d'). v_id x = i \<longrightarrow> v_status x = VTERMINATED)"
    if "toBase (e_cv env) (sd_received_amount data) ''USDT'' None = Inr received" "received < expected" for received
    by (simp add: vault_swap_completion_tx_def vault_swap_short_def total_sent_of_def comp_defs Let_def rb re upd
        ended_vaults that assms(3,4,9-14))
  ultimately show ?thesis by blast
qed


section \<open>An example\<close>

text \<open>A pending vault whose swap of 52 BTC base units is to bring 30 of USDT.\<close>

definition vault_swap_example :: swapTransaction where
  "vault_swap_example = swap_example\<lparr>sw_toAmountOriginal := Some ''0.00000000000000003'', sw_description := Some ''vault_swap:v1''\<rparr>"

definition vault_swap_data :: swapData where
  "vault_swap_data = swap_data_example\<lparr>sd_execution_price := []\<rparr>"

definition vault_swap_tx :: transaction where
  "vault_swap_tx = (new_transaction ''t1'' ''u1'' ''p1'' ''BTC'' DEBIT CtxVAULT_SWAP)\<lparr>t_totalAmountSentBase := Some 52\<rparr>"

definition btc_vault :: vault where
  "btc_vault = vault_example\<lparr>v_amountLocked := 50, v_status := VPENDING\<rparr>"

definition db_vault_swap :: db where
  "db_vault_swap = db_swap vault_swap_tx\<lparr>d_swaps := [vault_swap_example], d_vaults := [btc_vault]\<rparr>"

definition swap_ops_example :: swapOps where
  "swap_ops_example = \<lparr>xo_gain = (\<lambda>_ _ _. 1), xo_fee = Some 2\<rparr>"

lemma received_example: "toBase cv_example ''0.00000000000000003'' ''USDT'' None = Inr 30"
  by (simp add: cv_example_def currency_eval eval_simps)

lemma vault_swap_display: "fromBase cv_example (ABigInt 100) ''USDT'' None = Inr ''0.0000000000000001''"
  by (simp add: cv_example_def currency_eval eval_simps)

lemmas vault_swap_eval = db_vault_swap_def vault_swap_example_def vault_swap_data_def vault_swap_tx_def btc_vault_def
  vault_example_def new_transaction_def

lemmas vault_swap_tx_eval = vault_swap_completion_tx_def vault_swap_funded_def vault_swap_debit_def vault_swap_fund_def
  release_expected_def linked_vault_tx_def vault_by_id_def expected_usdt_def total_sent_of_def execution_rate_def
  crypto_by_symbol_def updVaults_def received_example vault_swap_display w_fund_def l_lock_def

lemma vault_swap_runs:
  "fst (vault_swap_completion_tx env_example swap_ops_example vault_swap_example vault_swap_data ''v1'' db_vault_swap) = Inr ()"
  by (simp add: vault_swap_eval swap_eval vault_swap_tx_eval swap_tx_eval ledger_eval)

lemma db_vault_swap_ok: "keys_ok db_vault_swap" "liquidity_for ''USDT'' db_vault_swap \<noteq> None"
  by (simp_all add: keys_ok_def vault_swap_eval swap_eval ledger_eval)

lemma vault_swap_inputs:
  "vault_by_id ''v1'' db_vault_swap = Some btc_vault"
  "linked_vault_tx (sd_id vault_swap_data) (sw_userId vault_swap_example) db_vault_swap = Some vault_swap_tx"
  "t_status vault_swap_tx = TxPENDING" "t_totalAmountSentBase vault_swap_tx = Some 52" "v_status btc_vault = VPENDING"
  "expected_usdt env_example vault_swap_example btc_vault = Inr 30"
  "toBase (e_cv env_example) (sd_received_amount vault_swap_data) ''USDT'' None = Inr 30"
  by (simp_all add: vault_by_id_def linked_vault_tx_def expected_usdt_def received_example truthy_def vault_swap_eval swap_eval)

theorem vault_swap_funds_witness:
  "\<exists>d'. vault_swap_completion_tx env_example swap_ops_example vault_swap_example vault_swap_data ''v1'' db_vault_swap = (Inr (), d')
     \<and> own ''BTC'' d' = own ''BTC'' db_vault_swap - 52 \<and> locked ''USDT'' d' = locked ''USDT'' db_vault_swap + 30"
proof -
  note run = fst_run [OF vault_swap_runs]
  have p: "v_status btc_vault = VPENDING \<or> v_status btc_vault = VACTIVE" "t_status vault_swap_tx \<noteq> TxCOMPLETED" "(30::int) \<le> 30"
    by (simp_all add: vault_swap_inputs)
  from vault_swap_funds [OF db_vault_swap_ok vault_swap_inputs(1) p(1) vault_swap_inputs(2) p(2) vault_swap_inputs(4,6,7) p(3) run] run
  show ?thesis by blast
qed

definition db_before_swap :: db where
  "db_before_swap = db_vault_swap\<lparr>d_wallets := [wallet_example, btc_wallet\<lparr>w_reservedBalance := 0\<rparr>]\<rparr>"

theorem failed_vault_swap_restores_witness:
  "\<exists>d d'. map w_reservedBalance (d_wallets d) = [20, 52]
     \<and> vault_swap_failure_tx env_example vault_swap_example vault_swap_data ''swap_transaction.failed'' ''v1'' d = (Inr (), d')
     \<and> d_wallets d' = d_wallets db_before_swap \<and> d_liquidity d' = d_liquidity db_before_swap"
proof -
  let ?r = "reserveBalance (sw_userId vault_swap_example) ''BTC'' 52 None db_before_swap"
  note eval = db_before_swap_def vault_swap_eval swap_eval reserveBalance_eq reserveLiquidity_eq w_reserve_def l_reserve_def ledger_eval
  have "fst ?r = Inr ()" by (simp add: eval)
  note r = fst_run [OF this]
  let ?q = "reserveLiquidity ''USDT'' 30 (snd ?r)"
  have "fst ?q = Inr True" by (simp add: eval)
  note q = fst_run [OF this]
  have d: "d_vaults (snd ?q) = d_vaults db_vault_swap" "d_transactions (snd ?q) = d_transactions db_vault_swap"
    "map w_reservedBalance (d_wallets (snd ?q)) = [20, 52]"
    by (simp_all add: eval)
  have k: "solvent db_before_swap" "keys_ok db_before_swap"
    by (simp_all add: solvent_def wallet_ok_def liquidity_ok_def keys_ok_def eval)
  have v: "vault_by_id ''v1'' (snd ?q) = Some btc_vault"
    "linked_vault_tx (sd_id vault_swap_data) (sw_userId vault_swap_example) (snd ?q) = Some vault_swap_tx"
    using vault_swap_inputs(1,2) d(1,2) by (simp_all add: vault_by_id_def linked_vault_tx_def)
  have pos: "(0::int) < 52" "(0::int) < 30" by simp_all
  note restores = failed_vault_swap_restores [OF k pos r q refl refl v(1) vault_swap_inputs(5) v(2) vault_swap_inputs(3,4,6)]
  obtain d' where "vault_swap_failure_tx env_example vault_swap_example vault_swap_data ''swap_transaction.failed'' ''v1'' (snd ?q) = (Inr (), d')"
    "d_wallets d' = d_wallets db_before_swap" "d_liquidity d' = d_liquidity db_before_swap"
    by (rule restores [where event = "''swap_transaction.failed''", THEN conjunct1, THEN exE]) (elim conjE)
  with d(3) show ?thesis by (intro exI [of _ "snd ?q"] exI [of _ d'] conjI)
qed

text \<open>
  The execution price is written into a column that keeps the price of the quote in base units:
  a price of 60000.5 USDT becomes 60001 base units of USDT.
\<close>

lemma rate_loses_units:
  "execution_rate (env_example\<lparr>e_decValue := (\<lambda>_. Some (120001 / 2))\<rparr>) ''60000.5'' = Inr (Some 60001)"
  by (simp add: execution_rate_def round_column_def)

end
