(* ===== verification/SwapSafety.thy ===== *)
theory SwapSafety
  imports VaultSwaps
begin

text \<open>
  The whole swap handler: it leaves every account solvent, whatever is delivered and whatever
  fails on the way; and the interleavings of two deliveries that it does not exclude.
\<close>

section \<open>Solvency\<close>

lemma solvent_release_expected [preserves_intros]: "preserves solvent (release_expected a)"
  unfolding release_expected_def Let_def by (intro preserves_intros)

lemma solvent_debit: "preserves solvent (bindM (sqlWallets k (w_settle a)) (\<lambda>rows. thenM (requireM (rows \<noteq> 0) e)
    (thenM (refreshOriginalBalance env i cur) (updateInternalBalance env c f op))))"
  by (intro preserves_intros solvent_sqlWallets) (simp add: wallet_ok_account wallet_account.ok_settle)

lemma solvent_insertTransaction [preserves_intros]: "preserves solvent (insertTransaction t)"
  unfolding insertTransaction_def by (intro preserves_intros solvent_modify) simp

lemma solvent_swap_credit: "0 \<le> a \<Longrightarrow> preserves solvent (swap_credit env sb a)"
  unfolding swap_credit_def
  by (intro preserves_intros solvent_updWallets) (simp add: wallet_ok_account wallet_account.ok_credit)

lemma solvent_stack_swap_settle: "preserves solvent (stack_swap_settle env sb c t a)"
  unfolding stack_swap_settle_def
  by (intro preserves_intros solvent_updWallets solvent_updLiquidity) (simp_all add: wallet_ok_def liquidity_ok_def)

lemma solvent_settle_tx:
  assumes "0 \<le> a"
  shows "preserves solvent (swap_settle_tx env sb c f a p)"
  unfolding swap_settle_tx_def swap_books_def swap_debit_def swap_records_def
  by (intro preserves_intros solvent_debit solvent_swap_credit [OF assms] solvent_stack_swap_settle)

lemma solvent_failure_tx: "0 \<le> sb_reserved sb \<Longrightarrow> preserves solvent (swap_failure_tx env event sb)"
  unfolding swap_failure_tx_def by (intro preserves_intros)

lemma solvent_vault_funded:
  assumes "expected \<le> received"
  shows "preserves solvent (vault_swap_funded env ops sw data v linked expected received)"
  unfolding vault_swap_funded_def vault_swap_debit_def vault_swap_fund_def
  by (intro preserves_intros solvent_debit solvent_updWallets solvent_updLiquidity)
    (use assms in \<open>simp_all add: wallet_ok_def liquidity_ok_def w_fund_def l_lock_def\<close>)

definition amounts_ok :: "db \<Rightarrow> bool" where
  "amounts_ok d \<longleftrightarrow> (\<forall>t \<in> set (d_transactions d). 0 \<le> or0 (t_totalAmountSentBase t)
     \<and> 0 \<le> or0 (t_cryptoAmountBase t) + or0 (t_platformFeeBase t))"

lemma linked_vault_amount: "linked_vault_tx i u d = Some t \<Longrightarrow> amounts_ok d \<Longrightarrow> 0 \<le> or0 (t_totalAmountSentBase t)"
  using find_Some_in by (fastforce simp: linked_vault_tx_def amounts_ok_def)

lemma solvent_vault_short:
  assumes "\<And>t. linked = Some t \<Longrightarrow> 0 \<le> or0 (t_totalAmountSentBase t)"
  shows "preserves solvent (vault_swap_short sw data i linked expected)"
proof -
  have sent: "preserves solvent (bindM (liftM (total_sent_of t)) (\<lambda>sent. thenM (releaseBalance u c sent n) (updTransactions p f)))"
    if "linked = Some t" for t u c n p f
    using assms [OF that] unfolding total_sent_of_def or0_def
    by (cases "t_totalAmountSentBase t") (auto simp: preserves_wp wp_bind wp_lift intro!: wp_preserves preserves_intros)
  show ?thesis
    unfolding vault_swap_short_def
    by (cases linked) (auto intro!: preserves_then sent solvent_release_expected solvent_others preserves_return)
qed

lemma solvent_completion:
  assumes "solvent d" "amounts_ok d"
  shows "wp (vault_swap_completion_tx env ops sw data i) (\<lambda>_. solvent) (\<lambda>_ _. True) d"
proof -
  have short: "wp (vault_swap_short sw data i linked expected) (\<lambda>_. solvent) (\<lambda>_. solvent) d"
    if "linked_vault_tx (sd_id data) (sw_userId sw) d = linked" for linked expected
    using that assms by (auto intro!: wp_preserves solvent_vault_short intro: linked_vault_amount)
  have funded: "wp (vault_swap_funded env ops sw data v linked expected received) (\<lambda>_. solvent) (\<lambda>_. solvent) d"
    if "\<not> received < expected" for v linked expected received
    using that assms by (auto intro!: wp_preserves solvent_vault_funded)
  have "wp (vault_swap_completion_tx env ops sw data i) (\<lambda>_. solvent) (\<lambda>_. solvent) d"
    unfolding vault_swap_completion_tx_def wp_bind wp_get wp_if wp_return wp_some wp_lift
    using assms(1) short funded by (simp split: option.split sum.split)
  then show ?thesis by (rule wp_mono) simp_all
qed

lemma solvent_vault_failure: "preserves solvent (vault_swap_failure_tx env sw data event i)"
  unfolding vault_swap_failure_tx_def Let_def by (intro preserves_intros) simp_all

lemma syncAll_on_db [preserves_intros]: "preserves (on_db I) (syncAllToCache env)"
  unfolding syncAllToCache_def by (intro preserves_intros)

lemma dashboard_on_db [preserves_intros]: "preserves (on_db I) (swap_dashboard env i event)"
  unfolding swap_dashboard_def by (intro preserves_intros)

lemma wp_tx_on_db:
  assumes "I (s_db s)" "wp m (\<lambda>_. I) (\<lambda>_ _. True) (s_db s)"
  shows "wp (txM env l m) (\<lambda>_. on_db I) (\<lambda>_. on_db I) s"
proof (cases "e_txFault env l")
  case None
  then show ?thesis unfolding wp_tx on_db_def using assms(1) by (auto intro: wp_mono [OF assms(2)])
next
  case (Some e)
  then show ?thesis using assms(1) by (simp add: wp_tx on_db_def)
qed

lemma solvent_vault_swap_handler:
  assumes "solvent (s_db s)" "amounts_ok (s_db s)"
  shows "wp (processVaultSwapCompletion env ops sw data event i) (\<lambda>_. on_db solvent) (\<lambda>_. on_db solvent) s"
proof -
  have c: "wp (txM env l (vault_swap_completion_tx env ops sw data i)) (\<lambda>_. on_db solvent) (\<lambda>_. on_db solvent) s" for l
    by (rule wp_tx_on_db [OF assms(1) solvent_completion [OF assms]])
  have d: "wp (swap_dashboard env j event) (\<lambda>_. on_db solvent) (\<lambda>_. on_db solvent) s'" if "on_db solvent s'" for s' j
    by (rule wp_preserves [OF dashboard_on_db that])
  have "preserves (on_db solvent) (whenM b (txM env l (vault_swap_failure_tx env sw data event i)))" for b l
    by (intro preserves_intros solvent_vault_failure)
  then have f: "wp (whenM b (txM env l (vault_swap_failure_tx env sw data event i))) (\<lambda>_. on_db solvent) (\<lambda>_. on_db solvent) s" for b l
    using assms(1) by (intro wp_preserves) (simp_all add: on_db_def)
  have "wp (thenM (txM env l (vault_swap_completion_tx env ops sw data i)) (swap_dashboard env j event))
      (\<lambda>_. on_db solvent) (\<lambda>_. on_db solvent) s" for l j
    unfolding wp_then by (rule wp_mono [OF c d]) simp_all
  with f show ?thesis unfolding processVaultSwapCompletion_def by (split if_split) blast
qed

lemma booking_reserved:
  assumes "amounts_ok d" "linked_swap_tx sw i d = linked" "swap_booking env sw data fw tw linked = Inr sb"
    and "\<And>cur a. toBase (e_cv env) (sd_from_amount data) cur None = Inr a \<Longrightarrow> 0 \<le> a"
  shows "0 \<le> sb_reserved sb"
proof (cases linked)
  case None
  with assms(3,4) show ?thesis by (auto simp: swap_booking_def booked_amount_def reserved_amount_def split: sum.splits)
next
  case (Some t)
  then have "t \<in> set (d_transactions d)"
    using assms(2) find_Some_in by (fastforce simp: linked_swap_tx_def split: option.splits)
  with assms(1) have "0 \<le> or0 (t_cryptoAmountBase t) + or0 (t_platformFeeBase t)" by (simp add: amounts_ok_def)
  with Some assms(3) show ?thesis by (auto simp: swap_booking_def reserved_amount_def split: sum.splits)
qed

lemma solvent_swap_settle:
  assumes "\<And>c cur a. xa_confirmed xa = Inr (Some c) \<Longrightarrow> toBase (e_cv env) (xc_received_amount c) cur None = Inr a \<Longrightarrow> 0 \<le> a"
  shows "preserves (on_db solvent) (swap_settle env xa sb event)"
proof -
  have "preserves (on_db solvent) (bindM (liftM (toBase (e_cv env) (xc_received_amount c) cur None)) (\<lambda>a.
      bindM (txM env l (swap_settle_tx env sb c f a p)) k))"
    if "xa_confirmed xa = Inr (Some c)" "\<And>b. preserves (on_db solvent) (k b)" for c cur l f p and k :: "bool \<Rightarrow> unit sysm"
  proof (cases "toBase (e_cv env) (xc_received_amount c) cur None")
    case (Inl e)
    then show ?thesis by (simp add: preserves_def bindM_def liftM_def throwM_def)
  next
    case (Inr a)
    from assms [OF that(1) this] have "preserves (on_db solvent) (bindM (txM env l (swap_settle_tx env sb c f a p)) k)"
      by (intro preserves_bind preserves_tx solvent_settle_tx that(2))
    with Inr show ?thesis by (simp add: preserves_def bindM_def liftM_def returnM_def)
  qed
  note step = this
  show ?thesis
  proof (cases "\<exists>c. xa_confirmed xa = Inr (Some c)")
    case False
    then show ?thesis
      by (cases "xa_confirmed xa"; cases "projr (xa_confirmed xa)")
        (auto simp: swap_settle_def preserves_def bindM_def liftM_def throwM_def returnM_def)
  next
    case True
    then obtain c where c: "xa_confirmed xa = Inr (Some c)" by blast
    have run: "swap_settle env xa sb event = (if xc_status c \<noteq> ''completed'' then returnM ()
        else bindM (liftM (toBase (e_cv env) (xc_from_amount c) (sb_from sb) None)) (\<lambda>f.
          bindM (liftM (toBase (e_cv env) (xc_received_amount c) (sb_to sb) None)) (\<lambda>a.
          bindM (txM env ''swap_settle'' (swap_settle_tx env sb c f a (xa_price xa))) (\<lambda>processed.
          whenM processed (thenM (case sb_linked sb of
              None \<Rightarrow> returnM ()
            | Some t \<Rightarrow> bindM (getM (\<lambda>s. transaction_by_id (t_id t) (s_db s))) (\<lambda>x.
                whenM (x \<noteq> None) (callM (CallNotify (t_id t)))))
            (swap_dashboard env (sd_id (sb_data sb)) event))))))"
      by (simp add: swap_settle_def c bindM_def liftM_def returnM_def)
    show ?thesis
      unfolding run
      by (rule preserves_if, rule preserves_return, rule preserves_bind [OF preserves_lift], rule step [OF c])
        (intro preserves_intros)
  qed
qed

text \<open>C28: the swap webhook leaves every account solvent whatever event it reports, of whichever kind of swap,
  and whatever fails on the way, provided the amounts it is given are not negative.\<close>

theorem swap_keeps_solvent:
  assumes "solvent (s_db s)" "amounts_ok (s_db s)"
    and "\<And>cur a. toBase (e_cv env) (sd_from_amount data) cur None = Inr a \<Longrightarrow> 0 \<le> a"
    and "\<And>c cur a. xa_confirmed xa = Inr (Some c) \<Longrightarrow> toBase (e_cv env) (xc_received_amount c) cur None = Inr a \<Longrightarrow> 0 \<le> a"
  shows "solvent (s_db (snd (swap_process env ops xa data event s)))"
proof -
  have settle: "wp (swap_settle env xa sb event) (\<lambda>_. on_db solvent) (\<lambda>_. on_db solvent) s" for sb
    using assms(1) by (intro wp_preserves solvent_swap_settle assms(4)) (simp_all add: on_db_def)
  have fail: "wp (thenM (txM env l (swap_failure_tx env event sb)) (swap_dashboard env i event)) (\<lambda>_. on_db solvent) (\<lambda>_. on_db solvent) s"
    if "0 \<le> sb_reserved sb" for sb l i
    using assms(1) that by (intro wp_preserves preserves_then preserves_tx solvent_failure_tx dashboard_on_db) (simp_all add: on_db_def)
  have regular: "wp (processRegularSwap env xa sw data event) (\<lambda>_. on_db solvent) (\<lambda>_. on_db solvent) s" for sw
    unfolding processRegularSwap_def wp_bind wp_get wp_case_option wp_return wp_lift wp_if
    using assms(1) settle fail booking_reserved [OF assms(2) refl _ assms(3)]
    by (auto simp: on_db_def split: option.split sum.split)
  have "wp (swap_process env ops xa data event) (\<lambda>_. on_db solvent) (\<lambda>_. on_db solvent) s"
    unfolding swap_process_def wp_bind wp_get wp_case_option wp_return wp_if
    using assms(1) regular solvent_vault_swap_handler [OF assms(1,2)]
    by (simp add: on_db_def split: option.split)
  then show ?thesis by (auto simp: wp_alt on_db_def split: sum.splits)
qed


text \<open>The amounts of the example are not negative in any currency.\<close>

lemma example_amounts:
  assumes "s = ''0.0000005'' \<or> s = ''0.00000000000000003''" "toBase cv_example s cur None = Inr a"
  shows "0 \<le> a"
proof -
  have "\<not> has_exponent (trim s)" using assms(1) by (auto simp: currency_eval eval_simps)
  with assms(2) obtain d where "base_units s (to_lower cur) d (trim s) = Inr a"
    by (auto simp: toBase_no_exponent split: sum.splits)
  with assms(1) show ?thesis by (auto simp: currency_eval eval_simps split: if_splits)
qed

theorem swap_keeps_solvent_witness:
  "solvent (s_db (snd (swap_process env_example swap_ops_example \<lparr>xa_confirmed = Inr (Some confirmed_example), xa_price = None\<rparr>
     swap_data_example COMPLETED_EVENT (sys_stack\<lparr>s_db := db_swap own_swap_tx\<rparr>))))"
proof (rule swap_keeps_solvent)
  show "solvent (s_db (sys_stack\<lparr>s_db := db_swap own_swap_tx\<rparr>))" "amounts_ok (s_db (sys_stack\<lparr>s_db := db_swap own_swap_tx\<rparr>))"
    by (simp_all add: solvent_def wallet_ok_def liquidity_ok_def amounts_ok_def or0_def own_swap_tx_def new_transaction_def swap_eval)
  show "0 \<le> a" if "toBase (e_cv env_example) (sd_from_amount swap_data_example) cur None = Inr a" for cur a
    by (rule example_amounts [of "''0.0000005''" cur]) (use that in \<open>simp_all add: swap_data_example_def\<close>)
  show "0 \<le> a" if "xa_confirmed \<lparr>xa_confirmed = Inr (Some confirmed_example), xa_price = None\<rparr> = Inr (Some c)"
    "toBase (e_cv env_example) (xc_received_amount c) cur None = Inr a" for c cur a
    by (rule example_amounts [of "''0.00000000000000003''" cur]) (use that in \<open>auto simp: confirmed_example_def\<close>)
qed

section \<open>Deliveries the handler does not keep apart\<close>

text \<open>The user has 200 BTC base units, 152 of them reserved: 52 for the swap and 100 for something else.\<close>

definition db_busy :: "db \<Rightarrow> db" where
  "db_busy d = d\<lparr>d_wallets := [wallet_example, btc_wallet\<lparr>w_baseBalance := 200, w_reservedBalance := 152\<rparr>],
     d_liquidity := [liquidity_example, btc_liquidity\<lparr>l_reservedBalance := 150, l_internalBalance := 200\<rparr>]\<rparr>"

lemma busy_display: "fromBase cv_example (ABigInt 148) ''BTC'' None = Inr ''0.00000148''"
  by (simp add: cv_example_def currency_eval eval_simps)

text \<open>The transaction of a failed swap does not read the status of the swap again: a failure that was read
  before the swap settled still runs after it. It releases 52 and 50 of other reservations and
  marks the swap and its transaction as failed, while the user keeps the USDT received.\<close>

theorem failure_after_settlement_releases_again:
  "\<exists>d1 d2. swap_settle_tx env_example (booking_example own_swap_tx) confirmed_example 50 30 None (db_busy (db_swap own_swap_tx)) = (Inr True, d1)
     \<and> map w_reservedBalance (d_wallets d1) = [20, 100] \<and> map w_baseBalance (d_wallets d1) = [130, 148]
     \<and> swap_failure_tx env_example ''swap_transaction.failed'' (booking_example own_swap_tx) d1 = (Inr (), d2)
     \<and> map w_reservedBalance (d_wallets d2) = [20, 48] \<and> map w_baseBalance (d_wallets d2) = [130, 148]
     \<and> map l_reservedBalance (d_liquidity d1) = [50, 100] \<and> map l_reservedBalance (d_liquidity d2) = [50, 50]
     \<and> map sw_status (d_swaps d2) = [''FAILED'']
     \<and> map_option t_status (transaction_by_id ''t1'' d2) = Some TxFAILED"
proof -
  let ?s = "swap_settle_tx env_example (booking_example own_swap_tx) confirmed_example 50 30 None (db_busy (db_swap own_swap_tx))"
  let ?w = "[wallet_example\<lparr>w_baseBalance := 130, w_originalBalance := ''0.00000000000000013''\<rparr>,
    btc_wallet\<lparr>w_baseBalance := 148, w_reservedBalance := 100, w_originalBalance := ''0.00000148''\<rparr>]"
  let ?l = "[liquidity_example\<lparr>l_internalBalance := 130\<rparr>, btc_liquidity\<lparr>l_reservedBalance := 100, l_internalBalance := 150\<rparr>]"
  have "\<exists>d. ?s = (Inr True, d) \<and> d_wallets d = ?w \<and> d_liquidity d = ?l \<and> map sw_id (d_swaps d) = [''s1'']
      \<and> map t_id (take 1 (d_transactions d)) = [''t1'']"
    by (simp add: db_busy_def busy_display swap_eval swap_tx_eval own_swap_tx_def new_transaction_def swap_credit_row_def
        ledger_eval mget_def)
  then obtain d where s: "?s = (Inr True, d)" and w: "d_wallets d = ?w" and l: "d_liquidity d = ?l"
    and sw: "map sw_id (d_swaps d) = [''s1'']" and t: "map t_id (take 1 (d_transactions d)) = [''t1'']"
    by (elim exE conjE)
  obtain x where x: "d_swaps d = [x]" "sw_id x = ''s1''" using sw by auto
  obtain y ys where y: "d_transactions d = y # ys" "t_id y = ''t1''" using t by (cases "d_transactions d") auto
  let ?f = "swap_failure_tx env_example ''swap_transaction.failed'' (booking_example own_swap_tx)"
  have f: "\<exists>d2. ?f d1 = (Inr (), d2) \<and> map w_reservedBalance (d_wallets d2) = [20, 48]
      \<and> map w_baseBalance (d_wallets d2) = [130, 148] \<and> map l_reservedBalance (d_liquidity d2) = [50, 50]
      \<and> map sw_status (d_swaps d2) = [''FAILED''] \<and> map_option t_status (transaction_by_id ''t1'' d2) = Some TxFAILED"
    if "d_wallets d1 = ?w" "d_liquidity d1 = ?l" "d_swaps d1 = [x]" "d_transactions d1 = y # ys" for d1
    by (simp add: swap_failure_tx_def that x(2) y(2) booking_example_def own_swap_tx_def swap_example_def new_transaction_def
        comp_defs updSwaps_def updTransactions_def update_where_def transaction_by_id_def failed_status_def REVERSED_def
        wallet_example_def btc_wallet_def liquidity_example_def btc_liquidity_def new_liquidity_def ledger_eval)
  obtain d2 where "?f d = (Inr (), d2)" "map w_reservedBalance (d_wallets d2) = [20, 48]"
    "map w_baseBalance (d_wallets d2) = [130, 148]" "map l_reservedBalance (d_liquidity d2) = [50, 50]"
    "map sw_status (d_swaps d2) = [''FAILED'']" "map_option t_status (transaction_by_id ''t1'' d2) = Some TxFAILED"
    by (rule f [OF w l x(1) y(1), THEN exE]) (elim conjE)
  moreover have "map w_reservedBalance (d_wallets d) = [20, 100]" "map w_baseBalance (d_wallets d) = [130, 148]"
    "map l_reservedBalance (d_liquidity d) = [50, 100]"
    by (simp_all add: w l wallet_example_def btc_wallet_def liquidity_example_def btc_liquidity_def new_liquidity_def)
  ultimately show ?thesis using s by (intro exI [of _ d] exI [of _ d2] conjI)
qed

text \<open>The transaction of a failed vault swap checks only that the vault has not ended: a failure that was read
  before the swap completed ends the funded vault. The user's 52 BTC units are gone, the 30
  USDT stay locked in a vault that no unlock accepts any more, and 52 of another reservation
  are released.\<close>

theorem failure_ends_funded_vault:
  "\<exists>d1 d2. vault_swap_completion_tx env_example swap_ops_example vault_swap_example vault_swap_data ''v1'' (db_busy db_vault_swap) = (Inr (), d1)
     \<and> map v_status (d_vaults d1) = [VACTIVE]
     \<and> vault_swap_failure_tx env_example vault_swap_example vault_swap_data ''swap_transaction.failed'' ''v1'' d1 = (Inr (), d2)
     \<and> map v_status (d_vaults d2) = [VTERMINATED] \<and> map w_lockedAmount (d_wallets d2) = [30, 0]
     \<and> map w_baseBalance (d_wallets d2) = [100, 148] \<and> map w_reservedBalance (d_wallets d2) = [20, 48]
     \<and> vault_unlock_tx env_example ''u1'' ''v1'' early d2 = (Inl (BadRequest ''Vault already processed''), d2)"
proof -
  let ?c = "vault_swap_completion_tx env_example swap_ops_example vault_swap_example vault_swap_data ''v1'' (db_busy db_vault_swap)"
  let ?f = "vault_swap_failure_tx env_example vault_swap_example vault_swap_data ''swap_transaction.failed'' ''v1''"
  let ?w = "[wallet_example\<lparr>w_lockedAmount := 30, w_totalLockedInterest := 1, w_originalBalance := ''0.0000000000000001''\<rparr>,
    btc_wallet\<lparr>w_baseBalance := 148, w_reservedBalance := 100, w_originalBalance := ''0.00000148''\<rparr>]"
  have "\<exists>d. ?c = (Inr (), d) \<and> d_wallets d = ?w \<and> map l_reservedBalance (d_liquidity d) = [20, 150]
      \<and> map l_currency (d_liquidity d) = [''usdt'', ''btc'']
      \<and> map v_id (d_vaults d) = [''v1''] \<and> map v_status (d_vaults d) = [VACTIVE]
      \<and> d_transactions d = [vault_swap_tx\<lparr>t_status := TxCOMPLETED, t_isProcessed := True, t_executedAt := Some 1000,
           t_description := Some (''Vault funded via BTC swap: 0.0000005 BTC '' @ ARROW @ '' 0.00000000000000003 USDT'')\<rparr>]"
    by (simp add: db_busy_def busy_display vault_swap_eval swap_eval vault_swap_tx_eval swap_tx_eval ledger_eval swap_ops_example_def activated_def)
  then obtain d t where c: "?c = (Inr (), d)" and w: "d_wallets d = ?w" and l: "map l_reservedBalance (d_liquidity d) = [20, 150]"
    "map l_currency (d_liquidity d) = [''usdt'', ''btc'']"
    and v: "map v_id (d_vaults d) = [''v1'']" "map v_status (d_vaults d) = [VACTIVE]"
    and t: "d_transactions d = [t]" "t_uniqueId t = ''p1''" "t_context t = CtxVAULT_SWAP" "t_userId t = ''u1''"
      "t_status t = TxCOMPLETED" "t_totalAmountSentBase t = Some 52"
    by (elim exE conjE) (simp add: vault_swap_tx_def new_transaction_def)
  obtain x where x: "d_vaults d = [x]" "v_id x = ''v1''" "v_status x = VACTIVE" using v by auto
  obtain l1 l2 where l12: "d_liquidity d = [l1, l2]" "l_currency l1 = ''usdt''" "l_reservedBalance l1 = 20" using l by auto
  have f: "\<exists>d2. ?f d = (Inr (), d2) \<and> d_vaults d2 = [x\<lparr>v_status := VTERMINATED\<rparr>] \<and> map w_lockedAmount (d_wallets d2) = [30, 0]
     \<and> map w_baseBalance (d_wallets d2) = [100, 148] \<and> map w_reservedBalance (d_wallets d2) = [20, 48]"
    by (simp add: vault_swap_failure_tx_def comp_defs vault_by_id_def linked_vault_tx_def w l12 x t vault_swap_data_def
        swap_data_example_def vault_swap_example_def swap_example_def expected_usdt_def truthy_def received_example
        release_expected_def updVaults_def updTransactions_def updSwaps_def update_where_def wallet_example_def btc_wallet_def
        ledger_eval)
  then obtain d2 where d2: "?f d = (Inr (), d2)" "d_vaults d2 = [x\<lparr>v_status := VTERMINATED\<rparr>]" "map w_lockedAmount (d_wallets d2) = [30, 0]"
     "map w_baseBalance (d_wallets d2) = [100, 148]" "map w_reservedBalance (d_wallets d2) = [20, 48]"
    by (elim exE conjE)
  have "vault_unlock_tx env_example ''u1'' ''v1'' early d2 = (Inl (BadRequest ''Vault already processed''), d2)"
    by (simp add: vault_unlock_tx_def comp_defs active_vault_def d2(2))
  with c v d2 show ?thesis by (intro exI [of _ d] exI [of _ d2] conjI) simp_all
qed

text \<open>A plan whose swap is under way: 52 of the wallet and 50 of the liquidity are reserved for it, 100 for others.\<close>

definition plan_tx :: transaction where
  "plan_tx = (new_transaction ''t1'' ''u1'' ''r1'' ''BTC'' DEBIT CtxAUTOSTACK)\<lparr>t_cryptoAmountBase := Some 50,
     t_platformFeeBase := Some 2, t_description := Some ''autostack_config:a1'',
     t_meta := [(''liquidityReservationStatus'', ''reserved''), (''liquidityReservationCurrency'', ''BTC''),
       (''liquidityReservationAmount'', ''50''), (''autoStackId'', ''a1''), (''paymentType'', ''CRYPTO_WALLET''),
       (''sourceAsset'', ''BTC''), (''sourceAmountBase'', ''50''), (''autostackInitiationStatus'', ''SUBMITTED''),
       (''autostackSwapId'', ''p1'')]\<rparr>"

definition sys_plan :: sys where
  "sys_plan = sys_stack\<lparr>s_db := db_busy (db_swap plan_tx)\<rparr>"

definition cancel_example :: cancelAnswers where
  "cancel_example = \<lparr>ca_swapStatus = Inr (Some ''pending''), ca_swapCancel = Inr (), ca_orderState = Inr None, ca_orderCancel = Inr ()\<rparr>"

definition unanswered :: swapAnswers where
  "unanswered = \<lparr>xa_confirmed = Inr None, xa_price = None\<rparr>"

lemma fifty: "parse_bigint ''50'' = Inr 50"
  by (simp add: parse_bigint_def amount_char_def eval_simps)

lemma cancelled_plan:
  "\<exists>d. autostack_cancel env_example cancel_example ''u1'' ''a1'' sys_plan
       = (Inr (), sys_plan\<lparr>s_db := d, s_calls := [CallSwapCancel ''p1'']\<rparr>)
     \<and> d_wallets d = [wallet_example, btc_wallet\<lparr>w_baseBalance := 200, w_reservedBalance := 102\<rparr>]
     \<and> d_liquidity d = [liquidity_example, btc_liquidity\<lparr>l_reservedBalance := 100, l_internalBalance := 200\<rparr>]
     \<and> d_swaps d = [swap_example] \<and> d_transactions d = [plan_tx\<lparr>t_meta := cancelled_meta env_example (t_meta plan_tx)\<rparr>]"
proof -
  have c: "config_of ''u1'' ''a1'' (s_db sys_plan) = Some plan_tx"
    by (simp add: config_of_def sys_plan_def db_busy_def db_swap_def plan_tx_def new_transaction_def)
  have m: "is_reserved (t_meta plan_tx)" "mget (t_meta plan_tx) ''liquidityReservationCurrency'' = ''BTC''"
    "mget (t_meta plan_tx) ''liquidityReservationAmount'' = ''50''" "mget (t_meta plan_tx) ''paymentType'' = ''CRYPTO_WALLET''"
    "mget (t_meta plan_tx) ''sourceAsset'' = ''BTC''" "mget (t_meta plan_tx) ''sourceAmountBase'' = ''50''"
    "mget (t_meta plan_tx) ''autostackSwapId'' = ''p1''" "mget (t_meta plan_tx) ''quidaxOrderId'' = []"
    by (simp_all add: is_reserved_def plan_tx_def new_transaction_def mget_def)
  have t: "t_id plan_tx = ''t1''" by (simp add: plan_tx_def new_transaction_def)
  have f: "List.find (\<lambda>a. a_id a = ''a1'' \<and> a_userId a = ''u1'' \<and> a_status a = ASPENDING) (d_autoStacks (s_db sys_plan)) = Some stack_example"
    by (simp add: sys_plan_def db_busy_def swap_eval stack_example_def)
  have tx: "\<exists>d. autostack_cancel_tx env_example ''u1'' stack_example (Some plan_tx) (s_db sys_plan) = (Inr (), d)
     \<and> d_wallets d = [wallet_example, btc_wallet\<lparr>w_baseBalance := 200, w_reservedBalance := 102\<rparr>]
     \<and> d_liquidity d = [liquidity_example, btc_liquidity\<lparr>l_reservedBalance := 100, l_internalBalance := 200\<rparr>]
     \<and> d_swaps d = [swap_example] \<and> d_transactions d = [plan_tx\<lparr>t_meta := cancelled_meta env_example (t_meta plan_tx)\<rparr>]"
    by (simp add: autostack_cancel_tx_def m fifty comp_defs updTransactions_def updAutoStacks_def update_where_def t
        sys_plan_def db_busy_def db_swap_def stack_eval btc_wallet_def btc_liquidity_def stack_example_def ledger_eval)
  then obtain d where d: "autostack_cancel_tx env_example ''u1'' stack_example (Some plan_tx) (s_db sys_plan) = (Inr (), d)"
     "d_wallets d = [wallet_example, btc_wallet\<lparr>w_baseBalance := 200, w_reservedBalance := 102\<rparr>]"
     "d_liquidity d = [liquidity_example, btc_liquidity\<lparr>l_reservedBalance := 100, l_internalBalance := 200\<rparr>]"
     "d_swaps d = [swap_example]" "d_transactions d = [plan_tx\<lparr>t_meta := cancelled_meta env_example (t_meta plan_tx)\<rparr>]"
    by (elim exE conjE)
  have id: "a_id stack_example = ''a1''" by (simp add: stack_example_def)
  have "s_calls sys_plan = []" by (simp add: sys_plan_def sys_stack_def sys_example_def)
  then have "autostack_cancel env_example cancel_example ''u1'' ''a1'' sys_plan
       = (Inr (), sys_plan\<lparr>s_db := d, s_calls := [CallSwapCancel ''p1'']\<rparr>)"
    by (simp add: autostack_cancel_def comp_defs f id c m cancel_example_def ended_state_def opt_str_def callM_def txM_def d(1) eval_simps)
  with d show ?thesis by blast
qed

text \<open>Cancelling a plan while its swap is under way releases its reservation, and the swap stays PENDING; the
  failure the provider then reports for it releases the reservation once more, amount and fee:
  102 units of the wallet and 100 of the liquidity are given back for 52 and 50.\<close>

theorem cancelled_swap_releases_twice:
  "\<exists>s1 s2. autostack_cancel env_example cancel_example ''u1'' ''a1'' sys_plan = (Inr (), s1)
     \<and> swap_process env_example ops unanswered swap_data_example ''swap_transaction.failed'' s1 = (Inr (), s2)
     \<and> map w_reservedBalance (d_wallets (s_db sys_plan)) = [20, 152] \<and> map w_reservedBalance (d_wallets (s_db s2)) = [20, 50]
     \<and> map l_reservedBalance (d_liquidity (s_db sys_plan)) = [50, 150] \<and> map l_reservedBalance (d_liquidity (s_db s2)) = [50, 50]"
proof -
  obtain d where c: "autostack_cancel env_example cancel_example ''u1'' ''a1'' sys_plan
       = (Inr (), sys_plan\<lparr>s_db := d, s_calls := [CallSwapCancel ''p1'']\<rparr>)" (is "_ = (_, ?s1)")
     and d: "d_wallets d = [wallet_example, btc_wallet\<lparr>w_baseBalance := 200, w_reservedBalance := 102\<rparr>]"
     "d_liquidity d = [liquidity_example, btc_liquidity\<lparr>l_reservedBalance := 100, l_internalBalance := 200\<rparr>]"
     "d_swaps d = [swap_example]" "d_transactions d = [plan_tx\<lparr>t_meta := cancelled_meta env_example (t_meta plan_tx)\<rparr>]"
    using cancelled_plan by (elim exE conjE)
  have "\<exists>s2. swap_process env_example ops unanswered swap_data_example ''swap_transaction.failed'' ?s1 = (Inr (), s2)
      \<and> map w_reservedBalance (d_wallets (s_db s2)) = [20, 50] \<and> map l_reservedBalance (d_liquidity (s_db s2)) = [50, 50]"
    by (simp add: swap_process_def processRegularSwap_def d swap_data_example_def swap_example_def terminal_swap_def comp_defs
        wallet_example_def btc_wallet_def liquidity_example_def btc_liquidity_def new_liquidity_def linked_swap_tx_def truthy_def
        plan_tx_def new_transaction_def swap_booking_def booked_amount_def reserved_amount_def or0_def REVERSED_def txM_def
        swap_failure_tx_def updSwaps_def updTransactions_def update_where_def swap_dashboard_def callM_def COMPLETED_EVENT_def
        failed_status_def ledger_eval)
  then obtain s2 where s2: "swap_process env_example ops unanswered swap_data_example ''swap_transaction.failed'' ?s1 = (Inr (), s2)"
    "map w_reservedBalance (d_wallets (s_db s2)) = [20, 50]" "map l_reservedBalance (d_liquidity (s_db s2)) = [50, 50]"
    by (elim exE conjE)
  have "map w_reservedBalance (d_wallets (s_db sys_plan)) = [20, 152]" "map l_reservedBalance (d_liquidity (s_db sys_plan)) = [50, 150]"
    by (simp_all add: sys_plan_def db_busy_def wallet_example_def btc_wallet_def liquidity_example_def btc_liquidity_def new_liquidity_def)
  with c s2 show ?thesis by (intro exI [of _ ?s1] exI [of _ s2] conjI)
qed

end
