(* ===== verification/OrderDone.thy ===== *)
theory OrderDone
  imports SwapWebhook
begin

text \<open>
  The end of an order at the exchange (\<^verbatim>\<open>order-done.handler.ts\<close>). A buy credits the crypto to the user
  (or stacks it) and consumes the NGN the company reserved; a sell brings NGN in and starts the payout
  to the user's bank, or pays a bill; an order that failed gives the reservations back. The sale of the
  collateral of an urgent loan starts the payout of the loan.

  The transactions are definitions of their own (suffix \<open>_tx\<close>), given what the handler read before them.
\<close>

section \<open>Inputs\<close>

record orderData =
  od_reference :: "string option"
  od_id :: "string option"
  od_side :: string
  od_base_unit :: string
  od_quote_unit :: string
  od_status :: "string option"
  od_volume :: "string option"
  od_price :: "string option"
  od_doneAt :: "int option"

text \<open>
  \<open>oo_mul a b\<close> is \<^verbatim>\<open>new Decimal(a).mul(new Decimal(b)).toString()\<close>, \<open>oo_print a\<close> is
  \<^verbatim>\<open>new Decimal(a).toString()\<close> (\<open>None\<close> where they throw); \<open>oo_twoThirds n\<close> is \<^verbatim>\<open>n * 20 / 30\<close> rounded down.
\<close>

record orderOps =
  oo_mul :: "string \<Rightarrow> string \<Rightarrow> string option"
  oo_print :: "string \<Rightarrow> string option"
  oo_twoThirds :: "int \<Rightarrow> int"

text \<open>
  What the payment providers answer: the code of the recipient and the reference and code of the transfer
  (\<open>None\<close> when the answer lacks them), and the answer to the bill.
\<close>

record orderAnswers =
  oa_recipient :: "error + string option"
  oa_transfer :: "error + (string \<times> string) option"
  oa_bill :: "error + string"

definition DECIMAL_ERROR :: error where
  "DECIMAL_ERROR = PlainError ''DecimalError: Invalid argument''"

definition failed_order :: "orderData \<Rightarrow> bool" where
  "failed_order data \<longleftrightarrow> (case od_status data of None \<Rightarrow> False
     | Some x \<Rightarrow> to_lower x \<in> set [''cancelled'', ''rejected'', ''failed''])"

definition tx_ended :: "string \<Rightarrow> db \<Rightarrow> bool" where
  "tx_ended i d \<longleftrightarrow> (case transaction_by_id i d of
       None \<Rightarrow> False | Some x \<Rightarrow> t_status x = TxCOMPLETED \<or> t_status x = TxFAILED)"

text \<open>The NGN reserved for the order, and the status of that reservation.\<close>

definition reserved_of :: "transaction \<Rightarrow> error + int" where
  "reserved_of t = (if mget (t_meta t) ''liquidityReservationAmount'' = [] then Inr (t_fiatAmountBase t)
     else parse_bigint (mget (t_meta t) ''liquidityReservationAmount''))"

definition reservation_status :: "transaction \<Rightarrow> string" where
  "reservation_status t = to_lower (if mget (t_meta t) ''liquidityReservationStatus'' = [] then ''reserved''
     else mget (t_meta t) ''liquidityReservationStatus'')"

definition holds_liquidity :: "transaction \<Rightarrow> int \<Rightarrow> bool" where
  "holds_liquidity t reserved \<longleftrightarrow> reserved > 0 \<and> reservation_status t = ''reserved''"

definition total_sold :: "transaction \<Rightarrow> int" where
  "total_sold t = (case t_totalAmountSentBase t of
       Some a \<Rightarrow> a | None \<Rightarrow> or0 (t_cryptoAmountBase t) + or0 (t_platformFeeBase t))"

definition releaseBalance_quietly :: "string \<Rightarrow> string \<Rightarrow> int \<Rightarrow> unit dbm" where
  "releaseBalance_quietly userId currency amount =
     catchM (releaseBalance userId currency amount None) (\<lambda>_. returnM ())"

section \<open>An order that failed\<close>

definition order_failure_tx :: "env \<Rightarrow> order \<Rightarrow> transaction \<Rightarrow> bool \<Rightarrow> string \<Rightarrow> string \<Rightarrow> int \<Rightarrow> unit dbm" where
  "order_failure_tx env r t isBuy crypto fiat reserved =
     bindM (getM (tx_ended (t_id t))) (\<lambda>ended.
     if ended then returnM ()
     else
       thenM (updTransactions (\<lambda>x. t_id x = t_id t) (\<lambda>x. x\<lparr>t_status := TxFAILED, t_isProcessed := True\<rparr>))
       (thenM (updOrders (\<lambda>x. o_id x = o_id r) (\<lambda>x. x\<lparr>o_status := OrFAILED, o_paymentStatus := PayFAILED\<rparr>))
       (thenM (whenM (\<not> isBuy \<and> t_cryptoAmountBase t \<noteq> None) (releaseBalance_quietly (t_userId t) crypto (total_sold t)))
         (whenM (holds_liquidity t reserved)
           (thenM (releaseLiquidity fiat reserved)
             (updTransactions (\<lambda>x. t_id x = t_id t) (\<lambda>x. x\<lparr>t_meta := mset_all
                [(''liquidityReservationStatus'', ''released''), (''liquidityReleasedAt'', toISOString (e_now env)),
                 (''liquidityReleaseReason'', ''quidax_order_failed'')] (t_meta t)\<rparr>)))))))"

definition order_failed :: "env \<Rightarrow> order \<Rightarrow> transaction \<Rightarrow> bool \<Rightarrow> string \<Rightarrow> string \<Rightarrow> int \<Rightarrow> unit sysm" where
  "order_failed env r t isBuy crypto fiat reserved =
     catchM (txM env ''order_failure'' (order_failure_tx env r t isBuy crypto fiat reserved))
       (\<lambda>e. if isTransientPrismaError e then throwM e else returnM ())"

section \<open>A buy\<close>

record execution =
  ex_crypto :: int
  ex_fiat :: int
  ex_volume :: string
  ex_price :: string
  ex_at :: int

definition executed :: "execution \<Rightarrow> transaction \<Rightarrow> transaction" where
  "executed ex x = x\<lparr>t_executedCryptoAmountBase := Some (ex_crypto ex), t_executedFiatAmountBase := Some (ex_fiat ex),
     t_executionPrice := Some (ex_price ex), t_executedAt := Some (ex_at ex)\<rparr>"

definition card_stack_buy :: "transaction \<Rightarrow> bool" where
  "card_stack_buy t \<longleftrightarrow> t_context t = CtxAUTOSTACK \<and>
     (if mget (t_meta t) ''paymentType'' = [] then t_paymentType t \<noteq> Some CRYPTO_WALLET
      else to_upper (mget (t_meta t) ''paymentType'') \<noteq> ''CRYPTO_WALLET'')"

definition consumed_meta :: "env \<Rightarrow> execution \<Rightarrow> transaction \<Rightarrow> meta" where
  "consumed_meta env ex t =
     (if card_stack_buy t then
        [(''liquidityReservationStatus'', ''consumed''), (''liquidityConsumedAt'', toISOString (e_now env)),
         (''liquidityConsumedReason'', ''autostack_order_done_buy''),
         (''actualReceivedAmountBase'', show_int (ex_crypto ex)), (''actualReceivedAmountOriginal'', ex_volume ex),
         (''principalUsdtAmountBase'', show_int (ex_crypto ex)), (''principalUsdtAmount'', ex_volume ex),
         (''autostackInitiationStatus'', ''COMPLETED''), (''autostackSettlement'', ''buy_order_completed'')]
      else
        [(''liquidityReservationStatus'', ''consumed''), (''liquidityConsumedAt'', toISOString (e_now env)),
         (''liquidityConsumedReason'', ''quidax_order_done_buy'')])"

definition order_consume :: "env \<Rightarrow> order \<Rightarrow> transaction \<Rightarrow> execution \<Rightarrow> string \<Rightarrow> int \<Rightarrow> unit dbm" where
  "order_consume env r t ex fiat reserved =
     whenM (holds_liquidity t reserved)
       (bindM (consumeReservedLiquidity fiat reserved) (\<lambda>ok.
        thenM (requireM ok (PlainError ((if card_stack_buy t then ''Autostack company liquidity consumption failed for order ''
            else ''Company liquidity consumption failed for order '') @ o_id r)))
          (updTransactions (\<lambda>x. t_id x = t_id t) (\<lambda>x. x\<lparr>t_meta := mset_all (consumed_meta env ex t) (t_meta t)\<rparr>))))"

definition buy_wallet :: "transaction \<Rightarrow> string \<Rightarrow> db \<Rightarrow> wallet option" where
  "buy_wallet t crypto d =
     (case truthy (t_receiverWalletAddress t) of
        Some a \<Rightarrow> List.find (\<lambda>w. w_quidaxWalletId w = a) (d_wallets d)
      | None \<Rightarrow> wallet_for (t_userId t) crypto d)"

text \<open>The plan of an auto-stacking buy.\<close>

definition stack_bought :: "execution \<Rightarrow> autoStack \<Rightarrow> autoStack \<Rightarrow> autoStack" where
  "stack_bought ex a x = x\<lparr>
     a_amount := (if a_status a = ASPENDING then ex_crypto ex else a_amount x + ex_crypto ex),
     a_status := ASACTIVE, a_lastExecutedAt := Some (ex_at ex),
     a_nextExecutionAt := getNextExecutionAt (a_frequency a) (ex_at ex),
     a_nextInterestAt := getInterestDate (a_frequency a) (ex_at ex)\<rparr>"

definition order_stack :: "env \<Rightarrow> transaction \<Rightarrow> execution \<Rightarrow> string \<Rightarrow> wallet \<Rightarrow> unit dbm" where
  "order_stack env t ex crypto w =
     thenM (updWallets (\<lambda>x. w_id x = w_id w) (\<lambda>x. x\<lparr>w_stackedAmount := w_stackedAmount x + ex_crypto ex\<rparr>))
     (thenM (bindM (getM (stack_by_id (mget (t_meta t) ''autoStackId''))) (\<lambda>ra.
         case ra of None \<Rightarrow> returnM ()
         | Some a \<Rightarrow> whenM (mget (t_meta t) ''autoStackId'' \<noteq> [])
             (updAutoStacks (\<lambda>x. a_id x = a_id a) (stack_bought ex a))))
     (thenM (updateInternalBalance env crypto (ex_crypto ex) Add)
       (updLiquidity (\<lambda>l. ieq (l_currency l) crypto) (\<lambda>l. l\<lparr>l_totalAmountStacked := l_totalAmountStacked l + ex_crypto ex\<rparr>))))"

definition order_credit :: "env \<Rightarrow> execution \<Rightarrow> string \<Rightarrow> wallet \<Rightarrow> unit dbm" where
  "order_credit env ex crypto w =
     thenM (updWallets (\<lambda>x. w_id x = w_id w) (w_credit (ex_crypto ex)))
     (thenM (refreshOriginalBalance env (w_id w) crypto)
       (updateInternalBalance env crypto (ex_crypto ex) Add))"

fun payment_text :: "paymentType \<Rightarrow> string" where
  "payment_text CARD = ''CARD''"
| "payment_text BANK_TRANSFER = ''BANK_TRANSFER''"
| "payment_text PAYSTACK = ''PAYSTACK''"
| "payment_text CRYPTO_WALLET = ''CRYPTO_WALLET''"

definition order_buy_write ::
    "env \<Rightarrow> order \<Rightarrow> transaction \<Rightarrow> execution \<Rightarrow> string \<Rightarrow> string \<Rightarrow> string \<Rightarrow> int \<Rightarrow> unit dbm" where
  "order_buy_write env r t ex reference crypto fiat reserved =
     thenM (updTransactions (\<lambda>x. t_id x = t_id t) (\<lambda>x. (executed ex x)\<lparr>t_status := TxCOMPLETED, t_isProcessed := True\<rparr>))
     (thenM (updOrders (\<lambda>x. o_id x = o_id r) (\<lambda>x. x\<lparr>o_status := OrCOMPLETED, o_paymentStatus := PayPAID,
        o_paymentReference := Some reference, o_paymentChannel := map_option payment_text (t_paymentType t),
        o_paymentDate := Some (ex_at ex)\<rparr>))
     (thenM (updUsers (\<lambda>u. u_id u = t_userId t) (\<lambda>u. u\<lparr>u_amountBought := u_amountBought u + ex_fiat ex\<rparr>))
     (thenM (order_consume env r t ex fiat reserved)
     (bindM (getM (buy_wallet t crypto)) (\<lambda>rw.
      bindM (someM rw (PlainError (''Buy order '' @ o_id r @ '': wallet not found for user '' @ t_userId t @ '' '' @ crypto))) (\<lambda>w.
        if t_context t = CtxAUTOSTACK then order_stack env t ex crypto w else order_credit env ex crypto w))))))"

text \<open>The status is read again under the row lock.\<close>

definition order_buy_tx ::
    "env \<Rightarrow> order \<Rightarrow> transaction \<Rightarrow> execution \<Rightarrow> string \<Rightarrow> string \<Rightarrow> string \<Rightarrow> int \<Rightarrow> bool dbm" where
  "order_buy_tx env r t ex reference crypto fiat reserved =
     bindM (getM (tx_ended (t_id t))) (\<lambda>ended.
     if ended then returnM False
     else thenM (order_buy_write env r t ex reference crypto fiat reserved) (returnM True))"

definition order_buy_failed_tx :: "env \<Rightarrow> order \<Rightarrow> transaction \<Rightarrow> string \<Rightarrow> int \<Rightarrow> string \<Rightarrow> unit dbm" where
  "order_buy_failed_tx env r t fiat reserved message =
     thenM (updOrders (\<lambda>x. o_id x = o_id r) (\<lambda>x. x\<lparr>o_status := OrFAILED, o_paymentStatus := PayFAILED\<rparr>))
     (thenM (updTransactions (\<lambda>x. t_id x = t_id t) (\<lambda>x. x\<lparr>t_status := TxFAILED, t_isProcessed := True,
        t_meta := mset_all [(''orderDoneFailure'', if message = [] then ''order.done processing failed'' else message),
          (''orderDoneFailedAt'', toISOString (e_now env))] (t_meta t)\<rparr>))
       (whenM (holds_liquidity t reserved) (releaseLiquidity fiat reserved)))"

text \<open>\<open>True\<close>: the buy was settled by this run.\<close>

definition order_buy ::
    "env \<Rightarrow> order \<Rightarrow> transaction \<Rightarrow> execution \<Rightarrow> string \<Rightarrow> string \<Rightarrow> string \<Rightarrow> int \<Rightarrow> bool sysm" where
  "order_buy env r t ex reference crypto fiat reserved =
     catchM (txM env ''order_buy'' (order_buy_tx env r t ex reference crypto fiat reserved))
       (\<lambda>e. if isTransientPrismaError e then throwM e
          else thenM (txM env ''order_buy_failed'' (order_buy_failed_tx env r t fiat reserved (err_msg e)))
            (returnM False))"

section \<open>A sell that pays a bill\<close>

definition bill_flow :: "transaction \<Rightarrow> bool" where
  "bill_flow t \<longleftrightarrow> t_context t = CtxBILL_PAYMENT \<and> mget (t_meta t) ''billingFlow'' = ''true''"

definition bill_submitted :: "meta \<Rightarrow> bool" where
  "bill_submitted m \<longleftrightarrow> to_upper (mget m ''billingStatus'') \<in> set [''PROVIDER_SUBMITTED'', ''COMPLETED'']"

definition current_meta :: "string \<Rightarrow> db \<Rightarrow> meta" where
  "current_meta i d = (case transaction_by_id i d of None \<Rightarrow> [] | Some x \<Rightarrow> t_meta x)"

text \<open>\<open>meta_or m k v\<close> is \<^verbatim>\<open>m.k || v\<close>.\<close>

definition meta_or :: "meta \<Rightarrow> string \<Rightarrow> string \<Rightarrow> string" where
  "meta_or m k v = (if mget m k = [] then v else mget m k)"

definition paying_meta :: "env \<Rightarrow> execution \<Rightarrow> meta \<Rightarrow> meta" where
  "paying_meta env ex m = mset_all
     [(''sellOrderStatus'', ''filled''), (''sellProceedsLiquidityStatus'', ''ADDED''),
      (''sellProceedsLiquidityAddedAt'', meta_or m ''sellProceedsLiquidityAddedAt'' (toISOString (e_now env))),
      (''sellProceedsLiquidityAmountBase'', meta_or m ''sellProceedsLiquidityAmountBase'' (show_int (ex_fiat ex))),
      (''billingStatus'', ''PAYING''), (''billingPayRequestedAt'', toISOString (e_now env))] m"

definition order_bill_tx :: "env \<Rightarrow> order \<Rightarrow> transaction \<Rightarrow> execution \<Rightarrow> string \<Rightarrow> string \<Rightarrow> meta dbm" where
  "order_bill_tx env r t ex reference fiat =
     bindM (getM (current_meta (t_id t))) (\<lambda>m.
     if bill_submitted m then returnM m
     else
       thenM (whenM (mget m ''sellProceedsLiquidityStatus'' \<noteq> ''ADDED'') (addLiquidity env fiat (ex_fiat ex)))
       (thenM (updTransactions (\<lambda>x. t_id x = t_id t) (\<lambda>x. (executed ex x)\<lparr>t_isProcessed := False, t_meta := paying_meta env ex m\<rparr>))
       (thenM (updOrders (\<lambda>x. o_id x = o_id r) (\<lambda>x. x\<lparr>o_status := OrPROCESSING, o_paymentStatus := PayPAID,
          o_paymentReference := Some reference, o_paymentChannel := map_option payment_text (t_paymentType t),
          o_paymentDate := Some (ex_at ex)\<rparr>))
         (returnM (paying_meta env ex m)))))"

definition order_bill_submitted_tx :: "env \<Rightarrow> transaction \<Rightarrow> meta \<Rightarrow> string \<Rightarrow> unit dbm" where
  "order_bill_submitted_tx env t m response =
     thenM (updTransactions (\<lambda>x. t_id x = t_id t) (\<lambda>x. x\<lparr>t_meta := mset_all
        [(''billingStatus'', ''PROVIDER_SUBMITTED''), (''xpresspayResponse'', response),
         (''xpresspaySubmittedAt'', toISOString (e_now env))] m\<rparr>))
       (updBillPayments (\<lambda>x. bp_transactionId x = Some (t_id t)) (\<lambda>x. x\<lparr>bp_status := BpPROCESSING\<rparr>))"

definition order_bill_retry_tx :: "env \<Rightarrow> order \<Rightarrow> transaction \<Rightarrow> meta \<Rightarrow> string \<Rightarrow> unit dbm" where
  "order_bill_retry_tx env r t m message =
     thenM (updTransactions (\<lambda>x. t_id x = t_id t) (\<lambda>x. x\<lparr>t_status := TxPENDING, t_isProcessed := False, t_meta := mset_all
        [(''billingStatus'', ''PROVIDER_SUBMIT_FAILED_RETRYABLE''),
         (''billingFailureReason'', if message = [] then ''unknown'' else message),
         (''billingFailureAt'', toISOString (e_now env)), (''billingRequiresRetry'', ''true'')] m\<rparr>))
     (thenM (updOrders (\<lambda>x. o_id x = o_id r) (\<lambda>x. x\<lparr>o_status := OrPROCESSING, o_paymentStatus := PayPAID\<rparr>))
       (updBillPayments (\<lambda>x. bp_transactionId x = Some (t_id t)) (\<lambda>x. x\<lparr>bp_status := BpPROCESSING\<rparr>)))"

text \<open>The catch block works with the metadata of the first transaction, if that one returned.\<close>

definition pay_bill :: "env \<Rightarrow> orderAnswers \<Rightarrow> transaction \<Rightarrow> meta \<Rightarrow> unit sysm" where
  "pay_bill env oa t m =
     thenM (liftM (case e_decValue env (meta_or m ''billAmountNgn'' ''0'') of None \<Rightarrow> Inl DECIMAL_ERROR | Some _ \<Rightarrow> Inr ()))
     (thenM (callM (CallPayBill (t_id t)))
     (bindM (liftM (oa_bill oa)) (\<lambda>response.
        txM env ''order_bill_submitted'' (order_bill_submitted_tx env t m response))))"

definition order_bill :: "env \<Rightarrow> orderAnswers \<Rightarrow> order \<Rightarrow> transaction \<Rightarrow> execution \<Rightarrow> string \<Rightarrow> string \<Rightarrow> unit sysm" where
  "order_bill env oa r t ex reference fiat =
     bindM (catchM (bindM (txM env ''order_bill'' (order_bill_tx env r t ex reference fiat)) (\<lambda>m. returnM (Some m)))
         (\<lambda>e. thenM (txM env ''order_bill_retry'' (order_bill_retry_tx env r t (t_meta t) (err_msg e))) (returnM None)))
       (\<lambda>paid. case paid of
          None \<Rightarrow> returnM ()
        | Some m \<Rightarrow>
            if bill_submitted m then returnM ()
            else catchM (pay_bill env oa t m)
              (\<lambda>e. txM env ''order_bill_retry'' (order_bill_retry_tx env r t m (err_msg e))))"

section \<open>A sell that pays out\<close>

definition payout_details :: "meta \<Rightarrow> bool" where
  "payout_details m \<longleftrightarrow> mget m ''payoutAccountNumber'' \<noteq> [] \<and> mget m ''payoutBankCode'' \<noteq> []
     \<and> mget m ''payoutAccountName'' \<noteq> []"

definition order_no_bank_tx :: "order \<Rightarrow> transaction \<Rightarrow> string \<Rightarrow> string \<Rightarrow> int \<Rightarrow> unit dbm" where
  "order_no_bank_tx r t crypto fiat reserved =
     thenM (updOrders (\<lambda>x. o_id x = o_id r) (\<lambda>x. x\<lparr>o_status := OrFAILED, o_paymentStatus := PayFAILED\<rparr>))
     (thenM (updTransactions (\<lambda>x. t_id x = t_id t) (\<lambda>x. x\<lparr>t_status := TxFAILED, t_isProcessed := True\<rparr>))
     (thenM (whenM (holds_liquidity t reserved) (releaseLiquidity fiat reserved))
       (whenM (t_cryptoAmountBase t \<noteq> None) (releaseBalance_quietly (t_userId t) crypto (total_sold t)))))"

definition proceeds_meta :: "env \<Rightarrow> execution \<Rightarrow> meta" where
  "proceeds_meta env ex =
     [(''sellOrderStatus'', ''filled''), (''sellProceedsLiquidityStatus'', ''ADDED''),
      (''sellProceedsLiquidityAddedAt'', toISOString (e_now env)),
      (''sellProceedsLiquidityAmountBase'', show_int (ex_fiat ex)),
      (''sellProceedsLiquidityReason'', ''quidax_order_done_sell'')]"

definition order_proceeds_tx :: "env \<Rightarrow> transaction \<Rightarrow> execution \<Rightarrow> string \<Rightarrow> meta dbm" where
  "order_proceeds_tx env t ex fiat =
     bindM (getM (current_meta (t_id t))) (\<lambda>m.
     if mget m ''sellProceedsLiquidityStatus'' = ''ADDED'' then returnM m
     else
       thenM (addLiquidity env fiat (ex_fiat ex))
       (thenM (updTransactions (\<lambda>x. t_id x = t_id t) (\<lambda>x. (executed ex x)\<lparr>t_meta := mset_all (proceeds_meta env ex) m\<rparr>))
         (returnM (mset_all (proceeds_meta env ex) m))))"

definition order_payout_tx :: "order \<Rightarrow> transaction \<Rightarrow> execution \<Rightarrow> meta \<Rightarrow> string \<Rightarrow> string \<Rightarrow> unit dbm" where
  "order_payout_tx r t ex m reference code =
     thenM (updTransactions (\<lambda>x. t_id x = t_id t) (\<lambda>x. (executed ex x)\<lparr>t_isProcessed := False, t_meta := mset_all
        [(''sellOrderStatus'', ''filled''), (''payoutStatus'', ''initiated''), (''payoutReference'', reference),
         (''payoutTransferCode'', code)] m\<rparr>))
       (updOrders (\<lambda>x. o_id x = o_id r) (\<lambda>x. x\<lparr>o_status := OrPROCESSING, o_paymentStatus := PayPENDING,
          o_paymentReference := Some reference, o_paymentChannel := Some ''paystack_transfer''\<rparr>))"

definition retry_count :: "meta \<Rightarrow> int" where
  "retry_count m = (case parse_int (mget m ''payoutRetryCount'') of None \<Rightarrow> 0 | Some n \<Rightarrow> n)"

definition order_payout_retry_tx :: "order \<Rightarrow> transaction \<Rightarrow> meta \<Rightarrow> string \<Rightarrow> unit dbm" where
  "order_payout_retry_tx r t m message =
     thenM (updOrders (\<lambda>x. o_id x = o_id r) (\<lambda>x. x\<lparr>o_status := OrPROCESSING, o_paymentStatus := PayPENDING\<rparr>))
       (updTransactions (\<lambda>x. t_id x = t_id t) (\<lambda>x. x\<lparr>t_status := TxPENDING, t_isProcessed := False, t_meta := mset_all
          [(''sellOrderStatus'', ''filled''), (''payoutStatus'', ''failed_retry_required''),
           (''payoutFailureReason'', message), (''payoutRetryCount'', show_int (retry_count m + 1)),
           (''liquidityReservationStatus'', ''reserved''),
           (''partialSuccessNote'', ''Quidax sell order succeeded but Paystack payout failed; crypto and payout liquidity remain reserved for retry/manual payout'')] m\<rparr>))"

text \<open>
  The metadata are read again before the transaction; the catch block sees those of the transaction
  once it returned (\<open>None\<close>: it did not).
\<close>

definition pay_out :: "env \<Rightarrow> orderAnswers \<Rightarrow> order \<Rightarrow> transaction \<Rightarrow> execution \<Rightarrow> meta \<Rightarrow> meta \<Rightarrow> unit sysm" where
  "pay_out env oa r t ex freshMeta m =
     thenM (callM (CallRecipient (mget freshMeta ''payoutAccountName'') (mget freshMeta ''payoutAccountNumber'')))
     (bindM (liftM (oa_recipient oa)) (\<lambda>rc.
      bindM (someM rc (PlainError (''Failed creating transfer recipient for sell order '' @ o_id r))) (\<lambda>recipient.
      thenM (callM (CallTransfer recipient (t_fiatAmountBase t)))
      (bindM (liftM (oa_transfer oa)) (\<lambda>rt.
       bindM (someM rt (PlainError (''Failed initiating transfer for sell order '' @ o_id r))) (\<lambda>(reference, code).
         txM env ''order_payout'' (order_payout_tx r t ex m reference code)))))))"

definition payout_failed :: "env \<Rightarrow> order \<Rightarrow> transaction \<Rightarrow> meta \<Rightarrow> error \<Rightarrow> unit sysm" where
  "payout_failed env r t m e =
     thenM (txM env ''order_payout_retry'' (order_payout_retry_tx r t m (err_msg e)))
     (thenM (syncAllToCache env) (throwM e))"

definition order_payout :: "env \<Rightarrow> orderAnswers \<Rightarrow> order \<Rightarrow> transaction \<Rightarrow> execution \<Rightarrow> string \<Rightarrow> unit sysm" where
  "order_payout env oa r t ex fiat =
     bindM (getM (\<lambda>s. current_meta (t_id t) (s_db s))) (\<lambda>freshMeta.
     bindM (catchM
         (thenM (requireM (payout_details freshMeta) (PlainError ''Missing payout bank details in transaction metadata''))
           (txM env ''order_proceeds'' (order_proceeds_tx env t ex fiat)))
         (\<lambda>e. thenM (payout_failed env r t (t_meta t) e) (returnM []))) (\<lambda>m.
       catchM (pay_out env oa r t ex freshMeta m) (payout_failed env r t m)))"

definition order_sell ::
    "env \<Rightarrow> orderAnswers \<Rightarrow> order \<Rightarrow> transaction \<Rightarrow> execution \<Rightarrow> string \<Rightarrow> string \<Rightarrow> string \<Rightarrow> int \<Rightarrow> bool sysm" where
  "order_sell env oa r t ex reference crypto fiat reserved =
     (if bill_flow t then thenM (order_bill env oa r t ex reference fiat) (returnM False)
      else if \<not> payout_details (t_meta t)
      then thenM (txM env ''order_no_bank'' (order_no_bank_tx r t crypto fiat reserved)) (returnM False)
      else thenM (order_payout env oa r t ex fiat) (returnM True))"

section \<open>The collateral of an urgent loan\<close>

text \<open>A transaction whose callback calls providers: its writes are undone when it fails, the calls are not.\<close>

definition txSysM :: "env \<Rightarrow> string \<Rightarrow> 'a sysm \<Rightarrow> 'a sysm" where
  "txSysM env label m = (\<lambda>s. case m s of (r, s') \<Rightarrow>
     (case r of
        Inl e \<Rightarrow> (Inl e, s'\<lparr>s_db := s_db s\<rparr>)
      | Inr x \<Rightarrow> (case e_txFault env label of
            Some e \<Rightarrow> (Inl e, s'\<lparr>s_db := s_db s\<rparr>) | None \<Rightarrow> (Inr x, s'))))"

definition loan_by_id :: "string \<Rightarrow> db \<Rightarrow> urgentLoan option" where
  "loan_by_id i d = List.find (\<lambda>l. ul_id l = i) (d_loans d)"

definition loan_over :: "loanStatus \<Rightarrow> bool" where
  "loan_over st \<longleftrightarrow> st \<in> set [LnDISBURSED, LnFAILED, LnREPAID, LnDEADLINE_EXCEEDED]"

definition loan_sold :: "loanStatus \<Rightarrow> bool" where
  "loan_sold st \<longleftrightarrow> st = LnQUIDAX_COMPLETED \<or> st = LnPAYSTACK_COMPLETED"

definition loan_failure_tx :: "string \<Rightarrow> string \<Rightarrow> unit dbm" where
  "loan_failure_tx i status =
     bindM (getM (loan_by_id i)) (\<lambda>fresh.
     if (case fresh of None \<Rightarrow> False | Some l \<Rightarrow> loan_over (ul_status l) \<or> loan_sold (ul_status l)) then returnM ()
     else updLoans (\<lambda>l. ul_id l = i) (\<lambda>l. l\<lparr>ul_status := LnFAILED,
        ul_failureReason := Some (''Quidax sell order failed: '' @ status)\<rparr>))"

text \<open>The collateral sold leaves the balance; two thirds of it are written as collateral held.\<close>

definition w_sell_collateral :: "int \<Rightarrow> int \<Rightarrow> wallet \<Rightarrow> wallet option" where
  "w_sell_collateral a rest w = (if w_baseBalance w \<ge> a
     then Some (w\<lparr>w_baseBalance := w_baseBalance w - a, w_loanCollateralAmount := w_loanCollateralAmount w + rest\<rparr>)
     else None)"

definition order_amounts :: "env \<Rightarrow> orderOps \<Rightarrow> orderData \<Rightarrow> string \<Rightarrow> string \<Rightarrow> error + (int \<times> int)" where
  "order_amounts env ops data crypto fiat =
     (let volume = (case truthy (od_volume data) of None \<Rightarrow> ''0'' | Some v \<Rightarrow> v);
          price = (case truthy (od_price data) of None \<Rightarrow> ''0'' | Some p \<Rightarrow> p)
      in case toBase (e_cv env) volume crypto None of Inl e \<Rightarrow> Inl e | Inr c \<Rightarrow>
         (case oo_mul ops volume price of None \<Rightarrow> Inl DECIMAL_ERROR | Some product \<Rightarrow>
         (case toBase (e_cv env) product fiat None of Inl e \<Rightarrow> Inl e | Inr f \<Rightarrow> Inr (c, f))))"

definition loan_settle :: "env \<Rightarrow> orderOps \<Rightarrow> urgentLoan \<Rightarrow> string \<Rightarrow> int \<Rightarrow> int \<Rightarrow> unit dbm" where
  "loan_settle env ops l fiat c f =
     thenM (requireM (c > 0 \<and> f > 0) (PlainError ''Invalid urgent liquidity Quidax sell execution''))
     (thenM (updateInternalBalance env (ul_collateralAssetSymbol l) c Subtract)
     (thenM (updateInternalBalance env fiat f Add)
     (bindM (getM (\<lambda>d. List.find (\<lambda>w. w_userId w = ul_userId l \<and> (w_currencyId w = Some (ul_collateralAssetId l)
          \<or> ieq (w_currency w) (ul_collateralAssetSymbol l))) (d_wallets d))) (\<lambda>rw.
      bindM (someM rw (PlainError (''Wallet not found for urgent liquidity loan '' @ ul_id l @ '' '' @ ul_collateralAssetSymbol l))) (\<lambda>w.
      bindM (sqlWallets (\<lambda>x. w_id x = w_id w) (w_sell_collateral c (oo_twoThirds ops c))) (\<lambda>n.
      thenM (requireM (n \<noteq> 0) (PlainError (''Insufficient '' @ ul_collateralAssetSymbol l @ '' balance for urgent liquidity loan '' @ ul_id l)))
      (bindM (getM (base_of (w_id w))) (\<lambda>rb.
       bindM (someM rb (PlainError ''TypeError: undefined is not iterable'')) (\<lambda>base.
       bindM (liftM (fromBase (e_cv env) (ABigInt base) (ul_collateralAssetSymbol l) (map_option Net (w_defaultNetwork w)))) (\<lambda>shown.
       thenM (updWallets (\<lambda>x. w_id x = w_id w) (\<lambda>x. x\<lparr>w_originalBalance := shown\<rparr>))
         (updLoans (\<lambda>x. ul_id x = ul_id l) (\<lambda>x. x\<lparr>ul_status := LnQUIDAX_COMPLETED\<rparr>))))))))))))"

definition loan_payout :: "env \<Rightarrow> orderAnswers \<Rightarrow> urgentLoan \<Rightarrow> unit sysm" where
  "loan_payout env oa l =
     thenM (callM (CallRecipient (ul_bankAccountName l) (ul_bankAccountNumber l)))
     (bindM (liftM (oa_recipient oa)) (\<lambda>rc.
      bindM (someM rc (PlainError ''Failed creating transfer recipient for urgent liquidity loan'')) (\<lambda>recipient.
      thenM (callM (CallTransfer recipient (ul_loanAmount l)))
      (bindM (liftM (oa_transfer oa)) (\<lambda>rt.
       bindM (someM rt (PlainError ''Failed initiating transfer for urgent liquidity loan'')) (\<lambda>(reference, code).
         dbM (updLoans (\<lambda>x. ul_id x = ul_id l) (\<lambda>x. x\<lparr>ul_paystackTransferId := Some reference,
            ul_status := LnPAYSTACK_COMPLETED\<rparr>))))))))"

definition processUrgentLiquidityPayout :: "env \<Rightarrow> orderOps \<Rightarrow> orderAnswers \<Rightarrow> string \<Rightarrow> orderData \<Rightarrow> unit sysm" where
  "processUrgentLiquidityPayout env ops oa loanId data =
     txSysM env ''loan_payout''
       (bindM (getM (\<lambda>s. loan_by_id loanId (s_db s))) (\<lambda>fresh.
        if (case fresh of None \<Rightarrow> False | Some l \<Rightarrow>
            loan_over (ul_status l) \<or> loan_sold (ul_status l) \<or> truthy (ul_paystackTransferId l) \<noteq> None) then returnM ()
        else bindM (someM fresh (PlainError ''TypeError: Cannot read properties of null'')) (\<lambda>l.
          let fiat = to_upper (od_quote_unit data) in
          bindM (liftM (order_amounts env ops data (ul_collateralAssetSymbol l) fiat)) (\<lambda>(c, f).
          thenM (dbM (loan_settle env ops l fiat c f)) (loan_payout env oa l)))))"

section \<open>The handler\<close>

definition loan_order :: "env \<Rightarrow> orderOps \<Rightarrow> orderAnswers \<Rightarrow> string \<Rightarrow> orderData \<Rightarrow> unit sysm" where
  "loan_order env ops oa reference data =
     bindM (getM (\<lambda>s. List.find (\<lambda>l. ul_quidaxSwapId l = Some reference) (d_loans (s_db s)))) (\<lambda>rl.
       case rl of
         None \<Rightarrow> returnM ()
       | Some l \<Rightarrow>
           if failed_order data
           then txM env ''loan_failure'' (loan_failure_tx (ul_id l) (to_lower (case od_status data of None \<Rightarrow> [] | Some x \<Rightarrow> x)))
           else processUrgentLiquidityPayout env ops oa (ul_id l) data)"

definition order_execution :: "env \<Rightarrow> orderOps \<Rightarrow> orderData \<Rightarrow> string \<Rightarrow> string \<Rightarrow> error + execution" where
  "order_execution env ops data crypto fiat =
     (case order_amounts env ops data crypto fiat of Inl e \<Rightarrow> Inl e | Inr (c, f) \<Rightarrow>
     (case oo_print ops (case truthy (od_price data) of None \<Rightarrow> ''0'' | Some p \<Rightarrow> p) of
        None \<Rightarrow> Inl DECIMAL_ERROR
      | Some p \<Rightarrow> Inr \<lparr>ex_crypto = c, ex_fiat = f, ex_volume = (case truthy (od_volume data) of None \<Rightarrow> ''0'' | Some v \<Rightarrow> v),
          ex_price = p, ex_at = (case od_doneAt data of None \<Rightarrow> e_now env | Some d \<Rightarrow> d)\<rparr>))"

definition order_settle ::
    "env \<Rightarrow> orderOps \<Rightarrow> orderAnswers \<Rightarrow> order \<Rightarrow> transaction \<Rightarrow> orderData \<Rightarrow> string \<Rightarrow> bool \<Rightarrow> string \<Rightarrow> string \<Rightarrow> int \<Rightarrow> unit sysm" where
  "order_settle env ops oa r t data reference isBuy crypto fiat reserved =
     (if t_status t = TxCOMPLETED \<or> t_status t = TxFAILED then returnM ()
      else
        bindM (getM (\<lambda>s. wallet_for (t_userId t) crypto (s_db s))) (\<lambda>w.
        thenM (requireM (case w of None \<Rightarrow> False | Some x \<Rightarrow> truthy (w_defaultNetwork x) \<noteq> None)
          (PlainError (''Order '' @ o_id r @ '': wallet default network not found for '' @ t_userId t @ '' '' @ crypto)))
        (bindM (liftM (order_execution env ops data crypto fiat)) (\<lambda>ex.
         bindM (if isBuy then order_buy env r t ex reference crypto fiat reserved
                else order_sell env oa r t ex reference crypto fiat reserved) (\<lambda>goOn.
         whenM goOn
           (bindM (getM (\<lambda>s. transaction_by_id (t_id t) (s_db s))) (\<lambda>x.
            thenM (whenM (x \<noteq> None) (callM (CallNotify (t_id t))))
            (thenM (whenM isBuy (callM (CallDashboard (t_id t) (ex_fiat ex + or0 (t_platformFeeBase t)))))
              (syncAllToCache env)))))))))"

definition order_process :: "env \<Rightarrow> orderOps \<Rightarrow> orderAnswers \<Rightarrow> orderData \<Rightarrow> unit sysm" where
  "order_process env ops oa data =
     (case or_else (truthy (od_reference data)) (truthy (od_id data)) of
        None \<Rightarrow> returnM ()
      | Some reference \<Rightarrow>
          let isBuy = (od_side data = ''buy''); crypto = to_upper (od_base_unit data); fiat = to_upper (od_quote_unit data) in
          bindM (getM (\<lambda>s. List.find (\<lambda>x. o_referenceNo x = Some reference) (d_orders (s_db s)))) (\<lambda>ro.
            case ro of
              None \<Rightarrow> loan_order env ops oa reference data
            | Some r \<Rightarrow>
                bindM (getM (\<lambda>s. transaction_by_id (o_transactionId r) (s_db s))) (\<lambda>rt.
                  case rt of
                    None \<Rightarrow> returnM ()
                  | Some t \<Rightarrow>
                      bindM (liftM (reserved_of t)) (\<lambda>reserved.
                      if failed_order data then order_failed env r t isBuy crypto fiat reserved
                      else order_settle env ops oa r t data reference isBuy crypto fiat reserved))))"

end
