(* ===== verification/Send.thy ===== *)
theory Send
  imports StackBooks
begin

text \<open>
  Sending crypto to an address outside (\<^verbatim>\<open>withdrawal.service.ts\<close>): a preview with its fees, the
  confirmation, which reserves the user's balance and the company's liquidity before it asks the
  provider, and the cancellation. What the provider answers later comes in by the withdrawal
  webhook (theory \<open>Withdrawal\<close>).

  The confirmation has three phases, each a definition: the transaction that reserves
  (\<open>send_confirm_tx\<close>), the request with its compensation (\<open>send_request\<close>), and the transaction that
  stores the provider's id (\<open>send_submitted_tx\<close>).
\<close>

section \<open>Preview\<close>

record sendDto =
  sdto_currency :: string
  sdto_amount :: string
  sdto_toAddress :: string
  sdto_network :: "string option"
  sdto_destinationTag :: "string option"

record feeTier =
  ft_min :: string
  ft_max :: string
  ft_type :: string
  ft_value :: string

record feeAnswer =
  fa_status :: string
  fa_message :: "string option"
  fa_dataMessage :: "string option"
  fa_tiers :: "feeTier list"

text \<open>
  \<open>so_pct a p n\<close> is \<^verbatim>\<open>new Decimal(a).mul(new Decimal(p).div(100)).toFixed(n)\<close>; \<open>so_spread n\<close> is
  \<^verbatim>\<open>new Decimal(n).mul(PLATFORM_SPREAD)\<close> rounded down to an integer.
\<close>

record sendOps =
  so_pct :: "string \<Rightarrow> string \<Rightarrow> nat \<Rightarrow> string"
  so_spread :: "int \<Rightarrow> int"

definition QUOTE_TTL_SECONDS :: int where
  "QUOTE_TTL_SECONDS = 300"

definition MIN_TRANSACTION_USDT :: nat where
  "MIN_TRANSACTION_USDT = 2"

definition supported_network :: "string \<Rightarrow> string option \<Rightarrow> bool" where
  "supported_network currency network =
     (case truthy network of None \<Rightarrow> True | Some n \<Rightarrow> n \<in> set (map fst (networks_of currency)))"

fun joined :: "string list \<Rightarrow> string" where
  "joined [] = []"
| "joined [x] = x"
| "joined (x # y # xs) = x @ '', '' @ joined (y # xs)"

text \<open>The first tier that holds the amount decides the network fee.\<close>

fun network_fee :: "env \<Rightarrow> sendOps \<Rightarrow> string \<Rightarrow> nat \<Rightarrow> rat \<Rightarrow> feeTier list \<Rightarrow> error + string" where
  "network_fee env ops amount decimals value [] = Inr ''0''"
| "network_fee env ops amount decimals value (t # ts) =
     (case (e_decValue env (ft_min t), e_decValue env (ft_max t)) of
        (Some lo, Some hi) \<Rightarrow>
          if lo \<le> value \<and> value \<le> hi then
            (if ft_type t = ''flat'' then Inr (ft_value t)
             else if ft_type t = ''percentage'' then Inr (so_pct ops amount (ft_value t) decimals)
             else Inr ''0'')
          else network_fee env ops amount decimals value ts
      | _ \<Rightarrow> Inl (PlainError ''DecimalError: Invalid argument''))"

text \<open>The answer of the fee request, or why there is none.\<close>

definition fee_tiers :: "error + feeAnswer \<Rightarrow> error + feeTier list" where
  "fee_tiers answer =
     (case answer of
        Inl e \<Rightarrow> Inl (BadRequest (if err_msg e = [] then ''Service unavailable to calculate fees'' else err_msg e))
      | Inr a \<Rightarrow>
          if fa_status a = ''success'' then Inr (fa_tiers a)
          else Inl (BadRequest (case or_else (fa_message a) (truthy (fa_dataMessage a)) of
              None \<Rightarrow> ''Service unavailable to calculate fees'' | Some m \<Rightarrow> m)))"

record sendView =
  sv_previewId :: string
  sv_currency :: string
  sv_network :: "string option"
  sv_requestedSendAmount :: string
  sv_networkFee :: string
  sv_transactionFee :: string
  sv_totalToBeDeducted :: string

definition setWithdrawalCooldown :: "env \<Rightarrow> string \<Rightarrow> unit sysm" where
  "setWithdrawalCooldown env userId =
     tempSet env (''confirmation:cooldown:'' @ userId) (TFlag (show_int (e_now env))) (QUOTE_COOLDOWN_SECONDS + 10)"

definition decimal_of :: "env \<Rightarrow> string \<Rightarrow> error + rat" where
  "decimal_of env s = (case e_decValue env s of
       None \<Rightarrow> Inl (PlainError ''DecimalError: Invalid argument'') | Some x \<Rightarrow> Inr x)"

text \<open>The amounts of a preview: what is sent, the two fees and their sum.\<close>

definition send_amounts ::
    "env \<Rightarrow> sendOps \<Rightarrow> string \<Rightarrow> string \<Rightarrow> error + feeAnswer \<Rightarrow> error + (int \<times> string \<times> int \<times> int \<times> int)" where
  "send_amounts env ops currency amount answer =
     (case getDecimals (e_cv env) currency of Inl e \<Rightarrow> Inl e | Inr decimals \<Rightarrow>
     (case toBase (e_cv env) amount currency None of Inl e \<Rightarrow> Inl e | Inr requested \<Rightarrow>
     (case fee_tiers answer of Inl e \<Rightarrow> Inl e | Inr tiers \<Rightarrow>
     (case decimal_of env amount of Inl e \<Rightarrow> Inl e | Inr value \<Rightarrow>
     (case network_fee env ops amount decimals value tiers of Inl e \<Rightarrow> Inl e | Inr netHuman \<Rightarrow>
     (case toBase (e_cv env) netHuman currency None of Inl e \<Rightarrow> Inl e | Inr netFee \<Rightarrow>
        Inr (requested, netHuman, netFee, so_spread ops requested,
             requested + netFee + so_spread ops requested)))))))"

definition previewSend ::
    "env \<Rightarrow> sendOps \<Rightarrow> string \<Rightarrow> error + feeAnswer \<Rightarrow> string \<Rightarrow> sendDto \<Rightarrow> sendView sysm" where
  "previewSend env ops uuid answer userId dto =
     (let currency = to_upper (sdto_currency dto); network = map_option to_upper (sdto_network dto) in
      thenM (dbM (validateNetworkExists userId currency network))
      (bindM (getM (\<lambda>s. wallet_for userId currency (s_db s))) (\<lambda>r.
       bindM (someM r (NotFound ''Wallet not found'')) (\<lambda>wallet.
       thenM (requireM (networks_of (to_lower currency) \<noteq> [])
         (BadRequest (''Currency \"'' @ currency @ ''\" is not supported for withdrawals.'')))
       (thenM (requireM (supported_network (to_lower currency) (map_option to_lower network))
         (BadRequest (''Network \"'' @ to_upper (case sdto_network dto of None \<Rightarrow> [] | Some n \<Rightarrow> n)
            @ ''\" is not supported for '' @ currency @ ''. Supported networks: ''
            @ joined (map (to_upper \<circ> fst) (networks_of (to_lower currency))))))
       (bindM (liftM (send_amounts env ops currency (sdto_amount dto) answer)) (\<lambda>(requested, netHuman, netFee, platformFee, total).
        bindM (liftM (fromBase (e_cv env) (ABigInt platformFee) currency None)) (\<lambda>shownFee.
        bindM (liftM (fromBase (e_cv env) (ABigInt total) currency None)) (\<lambda>shownTotal.
        thenM (tempSet env (''send:'' @ uuid) (TSendPreview \<lparr>sn_previewId = uuid, sn_userId = userId,
            sn_currency = currency, sn_network = network, sn_toAddress = sdto_toAddress dto,
            sn_destinationTag = sdto_destinationTag dto, sn_requestedAmount = sdto_amount dto,
            sn_requestedAmountBase = requested, sn_networkFee = netHuman, sn_networkFeeBase = netFee,
            sn_platformFee = shownFee, sn_platformFeeBase = platformFee,
            sn_walletDefaultNetwork = w_defaultNetwork wallet, sn_totalDeduction = shownTotal,
            sn_totalDeductionBase = total, sn_pinVerified = False, sn_createdAt = e_now env,
            sn_expiresAt = e_now env + QUOTE_TTL_SECONDS * 1000\<rparr>) QUOTE_TTL_SECONDS)
        (thenM (setWithdrawalCooldown env userId)
          (returnM \<lparr>sv_previewId = uuid, sv_currency = currency, sv_network = network,
             sv_requestedSendAmount = sdto_amount dto, sv_networkFee = netHuman,
             sv_transactionFee = shownFee, sv_totalToBeDeducted = shownTotal\<rparr>)))))))))))"

section \<open>Confirmation\<close>

definition send_preview_of :: "env \<Rightarrow> string \<Rightarrow> sys \<Rightarrow> sendPreview option" where
  "send_preview_of env previewId s =
     (case temp_lookup env (''send:'' @ previewId) s of Some (TSendPreview p) \<Rightarrow> Some p | _ \<Rightarrow> None)"

text \<open>The checks before anything is written.\<close>

definition minimum_ok :: "env \<Rightarrow> string \<Rightarrow> int \<Rightarrow> error + bool" where
  "minimum_ok env currency amount =
     (if to_upper currency = ''USDT'' then
        (case toBase (e_cv env) (show_nat MIN_TRANSACTION_USDT) ''usdt'' None of
           Inl e \<Rightarrow> Inl e | Inr least \<Rightarrow> Inr (least \<le> amount))
      else Inr True)"

definition check_send :: "env \<Rightarrow> string \<Rightarrow> string \<Rightarrow> sendPreview sysm" where
  "check_send env userId previewId =
     bindM (getM (send_preview_of env previewId)) (\<lambda>r.
     bindM (someM r (NotFound ''Preview not found or expired'')) (\<lambda>p.
     thenM (requireM (sn_userId p = userId) (Unauthorized ''Unauthorized to confirm this preview''))
     (thenM (requireM (sn_pinVerified p) (BadRequest ''PIN not verified''))
     (thenM (whenM (e_now env > sn_expiresAt p)
        (thenM (tempDel (''send:'' @ previewId)) (throwM (BadRequest ''Preview has expired. Please request a new one.''))))
     (bindM (liftM (minimum_ok env (sn_currency p) (sn_requestedAmountBase p))) (\<lambda>ok.
      thenM (requireM ok (BadRequest (''Minimum transaction amount is '' @ show_nat MIN_TRANSACTION_USDT @ '' USDT'')))
        (returnM p)))))))"

definition send_transaction :: "string \<Rightarrow> string \<Rightarrow> string \<Rightarrow> sendPreview \<Rightarrow> wallet \<Rightarrow> transaction" where
  "send_transaction i userId previewId p w =
     (new_transaction i userId previewId (sn_currency p) DEBIT CtxWITHDRAWAL)\<lparr>
       t_senderWalletId := Some (w_id w), t_senderWalletAddress := truthy (Some (w_quidaxWalletId w)),
       t_receiverWalletAddress := Some (sn_toAddress p), t_network := sn_network p,
       t_cryptoAmountOriginal := Some (sn_requestedAmount p), t_cryptoAmountBase := Some (sn_requestedAmountBase p),
       t_platformFeeBase := Some (sn_platformFeeBase p), t_networkFeeBase := Some (sn_networkFeeBase p),
       t_totalAmountSentBase := Some (sn_totalDeductionBase p), t_totalAmountSentOriginal := Some (sn_totalDeduction p),
       t_platformFeeOriginal := Some (sn_platformFee p), t_networkFeeOriginal := Some (sn_networkFee p),
       t_fiatAmountBase := 0, t_fiatAmountOriginal := Some ''0'', t_status := TxPENDING, t_isProcessed := False\<rparr>"

definition send_withdrawal :: "string \<Rightarrow> string \<Rightarrow> string \<Rightarrow> sendPreview \<Rightarrow> string \<Rightarrow> bool \<Rightarrow> withdrawal" where
  "send_withdrawal i userId previewId p transactionId reserved =
     \<lparr>wd_id = i, wd_userId = userId, wd_providerWithdrawalId = None, wd_reference = Some previewId,
      wd_currency = sn_currency p, wd_network = sn_network p, wd_amount = sn_requestedAmount p,
      wd_fee = Some (sn_networkFee p), wd_total = Some (sn_totalDeduction p), wd_txHash = None,
      wd_recipientType = Some ''external'', wd_recipientAddress = Some (sn_toAddress p),
      wd_destinationTag = truthy (sn_destinationTag p), wd_narration = None, wd_transactionNote = None,
      wd_status = (if reserved then WdPROCESSING else WdPENDING), wd_reason = None,
      wd_completedAtProvider = None, wd_transactionId = Some transactionId\<rparr>"

definition send_failed_liquidity :: "env \<Rightarrow> string \<Rightarrow> string \<Rightarrow> sendPreview \<Rightarrow> failedLiquidity" where
  "send_failed_liquidity env i transactionId p =
     \<lparr>fl_id = i, fl_transactionId = transactionId, fl_transactionType = Some ''WITHDRAWAL'',
      fl_fromCurrency = Some (sn_currency p), fl_toCurrency = None, fl_amountOriginal = Some (sn_totalDeduction p),
      fl_currency = sn_currency p, fl_amountBase = sn_totalDeductionBase p, fl_createdAt = e_now env\<rparr>"

text \<open>A second confirmation of the same preview finds the withdrawal by its reference.\<close>

definition send_existing_tx :: "sendPreview \<Rightarrow> withdrawal \<Rightarrow> (string \<times> string \<times> bool) dbm" where
  "send_existing_tx p wd =
     bindM (getM (linked_transaction wd)) (\<lambda>r.
     bindM (someM r (PlainError ''TypeError: Cannot read properties of null'')) (\<lambda>t.
     thenM (whenM (truthy (t_cryptoAmountOriginal t) = None \<or> t_cryptoAmountOriginal t = Some ''0'')
         (updTransactions (\<lambda>x. t_id x = t_id t) (\<lambda>x. x\<lparr>t_cryptoAmountOriginal := Some (sn_requestedAmount p)\<rparr>)))
       (returnM (t_id t, wd_id wd, False))))"

definition send_new_tx :: "env \<Rightarrow> string \<Rightarrow> string \<Rightarrow> sendPreview \<Rightarrow> (string \<times> string \<times> bool) dbm" where
  "send_new_tx env userId previewId p =
     thenM (reserveBalance userId (sn_currency p) (sn_totalDeductionBase p) (Some (sn_walletDefaultNetwork p)))
     (bindM (getM (wallet_for userId (sn_currency p))) (\<lambda>r.
      bindM (someM r (NotFound ''Wallet not found'')) (\<lambda>w.
      bindM (freshM env) (\<lambda>ti.
      thenM (insertTransaction (send_transaction ti userId previewId p w))
      (bindM (reserveLiquidity (sn_currency p) (sn_totalDeductionBase p)) (\<lambda>reserved.
       bindM (freshM env) (\<lambda>wi.
       thenM (insertWithdrawal (send_withdrawal wi userId previewId p ti reserved))
       (thenM (whenM (\<not> reserved)
          (bindM (freshM env) (\<lambda>fi. insertFailedLiquidity (send_failed_liquidity env fi ti p))))
         (returnM (ti, wi, reserved))))))))))"

definition send_confirm_tx :: "env \<Rightarrow> string \<Rightarrow> string \<Rightarrow> sendPreview \<Rightarrow> (string \<times> string \<times> bool) dbm" where
  "send_confirm_tx env userId previewId p =
     bindM (getM (withdrawal_by_reference previewId)) (\<lambda>r.
       case r of Some wd \<Rightarrow> send_existing_tx p wd | None \<Rightarrow> send_new_tx env userId previewId p)"

text \<open>The compensation of a request that failed.\<close>

definition compensateFailedWithdrawal_tx :: "string \<Rightarrow> string \<Rightarrow> string \<Rightarrow> string \<Rightarrow> int \<Rightarrow> string \<Rightarrow> unit dbm" where
  "compensateFailedWithdrawal_tx transactionId withdrawalId userId currency amount reason =
     thenM (releaseBalance userId currency amount None)
     (thenM (releaseLiquidity currency amount)
     (thenM (updTransactions (\<lambda>x. t_id x = transactionId) (\<lambda>x. x\<lparr>t_status := TxFAILED, t_isProcessed := False\<rparr>))
       (updWithdrawals (\<lambda>x. wd_id x = withdrawalId) (\<lambda>x. x\<lparr>wd_status := WdFAILED, wd_reason := Some reason\<rparr>))))"

definition compensateFailedWithdrawal :: "env \<Rightarrow> string \<Rightarrow> string \<Rightarrow> string \<Rightarrow> string \<Rightarrow> int \<Rightarrow> string \<Rightarrow> unit sysm" where
  "compensateFailedWithdrawal env transactionId withdrawalId userId currency amount reason =
     txM env ''send_compensate'' (compensateFailedWithdrawal_tx transactionId withdrawalId userId currency amount reason)"

record sendAnswer =
  wa_status :: string
  wa_message :: "string option"
  wa_id :: "string option"

text \<open>What \<^verbatim>\<open>axios\<close> throws is its own error, with a message.\<close>

definition axios :: "string + 'a \<Rightarrow> error + 'a" where
  "axios r = (case r of Inl m \<Rightarrow> Inl (ProviderError m) | Inr a \<Rightarrow> Inr a)"

text \<open>
  The request. The compensation of a refusal runs inside the \<^verbatim>\<open>try\<close>: when it fails itself, with
  something other than a \<^verbatim>\<open>BadRequestException\<close>, the handler compensates again.
\<close>

definition send_request ::
    "env \<Rightarrow> string + sendAnswer \<Rightarrow> string \<Rightarrow> string \<Rightarrow> sendPreview \<Rightarrow> string \<Rightarrow> string \<Rightarrow> string sysm" where
  "send_request env answer userId previewId p ti wi =
     thenM (callM (CallWithdraw previewId (to_lower (sn_currency p)) (sn_requestedAmount p)))
     (catchM
       (bindM (liftM (axios answer)) (\<lambda>a.
          case (if wa_status a = ''success'' then truthy (wa_id a) else None) of
            Some i \<Rightarrow> returnM i
          | None \<Rightarrow> thenM (compensateFailedWithdrawal env ti wi userId (sn_currency p) (sn_totalDeductionBase p)
                (case truthy (wa_message a) of None \<Rightarrow> ''Provider rejected the withdrawal request'' | Some m \<Rightarrow> m))
              (throwM (BadRequest (''Withdrawal initiation failed: ''
                @ (case truthy (wa_message a) of None \<Rightarrow> ''Unknown error'' | Some m \<Rightarrow> m))))))
       (\<lambda>e. case e of
            BadRequest m \<Rightarrow> throwM e
          | _ \<Rightarrow> thenM (compensateFailedWithdrawal env ti wi userId (sn_currency p) (sn_totalDeductionBase p)
                (''Provider API error: '' @ err_msg e))
              (throwM (BadRequest ''Something went wrong. Please try again shortly.''))))"

definition send_submitted_tx :: "string \<Rightarrow> string \<Rightarrow> string \<Rightarrow> unit dbm" where
  "send_submitted_tx ti wi providerId =
     thenM (setUniqueId ti providerId)
     (bindM (getM (\<lambda>d. List.find (\<lambda>x. wd_providerWithdrawalId x = Some providerId \<and> wd_id x \<noteq> wi) (d_withdrawals d))) (\<lambda>dup.
      thenM (requireM (dup = None) (PrismaError ''P2002''))
        (updWithdrawals (\<lambda>x. wd_id x = wi) (\<lambda>x. x\<lparr>wd_providerWithdrawalId := Some providerId\<rparr>))))"

record sendResult =
  sr_transactionId :: string
  sr_withdrawalId :: string
  sr_providerWithdrawalId :: "string option"

definition confirmSend ::
    "env \<Rightarrow> string + sendAnswer \<Rightarrow> string \<Rightarrow> string \<Rightarrow> sendResult sysm" where
  "confirmSend env answer userId previewId =
     thenM (enforceConfirmationCooldown env userId)
     (bindM (check_send env userId previewId) (\<lambda>p.
      bindM (txM env ''send_confirm'' (send_confirm_tx env userId previewId p)) (\<lambda>(ti, wi, reserved).
      bindM (getM (\<lambda>s. transaction_by_id ti (s_db s))) (\<lambda>t.
      thenM (whenM (t \<noteq> None) (callM (CallNotify ti)))
      (if \<not> reserved
       then returnM \<lparr>sr_transactionId = ti, sr_withdrawalId = wi, sr_providerWithdrawalId = None\<rparr>
       else bindM (send_request env answer userId previewId p ti wi) (\<lambda>providerId.
         thenM (txM env ''send_submitted'' (send_submitted_tx ti wi providerId))
         (thenM (tempDel (''send:'' @ previewId))
           (returnM \<lparr>sr_transactionId = ti, sr_withdrawalId = wi, sr_providerWithdrawalId = Some providerId\<rparr>))))))))"

section \<open>Cancellation\<close>

text \<open>
  The checks are on rows read before the transaction. Without a provider id no request is taken to
  have been made; liquidity is released when the record is PROCESSING.
\<close>

fun withdrawal_status_text :: "withdrawalStatus \<Rightarrow> string" where
  "withdrawal_status_text WdPENDING = ''PENDING''"
| "withdrawal_status_text WdPROCESSING = ''PROCESSING''"
| "withdrawal_status_text WdSUCCESS = ''SUCCESS''"
| "withdrawal_status_text WdREJECTED = ''REJECTED''"
| "withdrawal_status_text WdFAILED = ''FAILED''"

definition cancel_rows :: "string \<Rightarrow> string \<Rightarrow> (transaction \<times> withdrawal) sysm" where
  "cancel_rows userId transactionId =
     bindM (getM (\<lambda>s. transaction_by_id transactionId (s_db s))) (\<lambda>r.
     bindM (someM r (NotFound ''Transaction not found'')) (\<lambda>t.
     thenM (requireM (t_userId t = userId) (Unauthorized ''You cannot cancel this transaction''))
     (thenM (requireM (t_context t = CtxWITHDRAWAL) (BadRequest ''This transaction is not a withdrawal''))
     (thenM (requireM (\<not> t_isProcessed t) (Conflict ''Withdrawal already finalized and cannot be cancelled''))
     (bindM (getM (\<lambda>s. List.find (\<lambda>x. wd_transactionId x = Some (t_id t) \<and> wd_userId x = userId) (d_withdrawals (s_db s)))) (\<lambda>q.
      bindM (someM q (NotFound ''Related withdrawal not found'')) (\<lambda>wd.
      thenM (requireM (wd_status wd = WdPENDING \<or> wd_status wd = WdPROCESSING)
        (BadRequest (''Withdrawal cannot be cancelled. Current status: '' @ withdrawal_status_text (wd_status wd))))
        (returnM (t, wd)))))))))"

definition cancel_tx :: "string \<Rightarrow> transaction \<Rightarrow> withdrawal \<Rightarrow> bool \<Rightarrow> string \<Rightarrow> unit dbm" where
  "cancel_tx userId t wd liquidityToo reason =
     thenM (releaseBalance userId (t_currency t) (total_sent t) (Some (t_network t)))
     (thenM (whenM liquidityToo (releaseLiquidity (t_currency t) (total_sent t)))
     (thenM (updWithdrawals (\<lambda>x. wd_id x = wd_id wd) (\<lambda>x. x\<lparr>wd_status := WdFAILED, wd_reason := Some reason\<rparr>))
       (updTransactions (\<lambda>x. t_id x = t_id t) (\<lambda>x. x\<lparr>t_status := TxFAILED, t_isProcessed := False\<rparr>))))"

definition cancelWithdrawal ::
    "env \<Rightarrow> error + sendAnswer \<Rightarrow> string \<Rightarrow> string \<Rightarrow> unit sysm" where
  "cancelWithdrawal env answer userId transactionId =
     bindM (cancel_rows userId transactionId) (\<lambda>(t, wd).
       case truthy (wd_providerWithdrawalId wd) of
         None \<Rightarrow> txM env ''send_cancel'' (cancel_tx userId t wd (wd_status wd = WdPROCESSING) ''Cancelled by user (pre-provider)'')
       | Some i \<Rightarrow>
           thenM (callM (CallWithdrawCancel i))
           (bindM (catchM (liftM answer) (\<lambda>e. throwM (BadRequest (if err_msg e = []
                then ''Failed to cancel withdrawal with provider'' else err_msg e)))) (\<lambda>a.
            thenM (requireM (wa_status a = ''success'') (BadRequest (case truthy (wa_message a) of
                None \<Rightarrow> ''Failed to cancel withdrawal with provider'' | Some m \<Rightarrow> m)))
              (txM env ''send_cancel'' (cancel_tx userId t wd True ''Cancelled by user'')))))"

end
