(* ===== verification/Quotes.thy ===== *)
theory Quotes
  imports Send
begin

text \<open>
  Quotes (\<^verbatim>\<open>quotation.service.ts\<close>): the prices of a buy, a sell and a swap with their buffers and fees, the
  store that keeps a quote for five minutes, and the PIN that releases it for confirmation.

  decimal.js is a parameter: a \<^verbatim>\<open>Decimal\<close> is the number it holds, \<open>quoteOps\<close> has its arithmetic, and a
  string that is no number gives \<open>DecimalError\<close>. The ticker and the caches of currencies are the feeds.
\<close>

section \<open>Feeds\<close>

record quoteOps =
  qo_add :: "rat \<Rightarrow> rat \<Rightarrow> rat"
  qo_sub :: "rat \<Rightarrow> rat \<Rightarrow> rat"
  qo_mul :: "rat \<Rightarrow> rat \<Rightarrow> rat"
  qo_div :: "rat \<Rightarrow> rat \<Rightarrow> rat"
  qo_fixed :: "rat \<Rightarrow> nat \<Rightarrow> string"

record quoteTier =
  qt_orderType :: "string option"
  qt_bufferPercent :: "string option"
  qt_minAmount :: "string option"
  qt_maxAmount :: "string option"

record quoteConfig =
  qc_defaultBufferPercent :: "string option"
  qc_maxBufferPercent :: "string option"
  qc_tiers :: "quoteTier list"

record quoteFeeds =
  qf_price :: "string \<Rightarrow> string option"
  qf_crypto :: "string \<Rightarrow> quoteConfig option"
  qf_fiat :: "string option"

record quoteView =
  qv_id :: string
  qv_crypto :: string
  qv_network :: string
  qv_fiatCurrency :: string
  qv_amount :: string
  qv_marketRate :: string
  qv_bufferedRate :: string
  qv_bufferSpread :: string
  qv_transactionFee :: string
  qv_total :: string
  qv_bufferPercent :: string

definition NAIRA :: string where
  "NAIRA = [CHR 0xE2, CHR 0x82, CHR 0xA6]"

definition PLATFORM_SPREAD :: rat where
  "PLATFORM_SPREAD = 5 / 1000"

section \<open>Buffers\<close>

record tier =
  ti_orderType :: "string option"
  ti_percent :: rat
  ti_min :: "int option"
  ti_max :: "int option"

definition percent_of :: "env \<Rightarrow> string option \<Rightarrow> error + rat" where
  "percent_of env s = (case truthy s of None \<Rightarrow> Inr 0 | Some x \<Rightarrow> decimal_of env x)"

definition limit_of :: "env \<Rightarrow> quoteOps \<Rightarrow> string option \<Rightarrow> error + int option" where
  "limit_of env ops s =
     (case truthy s of
        None \<Rightarrow> Inr None
      | Some x \<Rightarrow> (case decimal_of env x of Inl e \<Rightarrow> Inl e | Inr v \<Rightarrow> map_sum id Some (parse_bigint (qo_fixed ops v 0))))"

fun normalized_tiers :: "env \<Rightarrow> quoteOps \<Rightarrow> quoteTier list \<Rightarrow> error + tier list" where
  "normalized_tiers env ops [] = Inr []"
| "normalized_tiers env ops (t # ts) =
     (case percent_of env (qt_bufferPercent t) of Inl e \<Rightarrow> Inl e | Inr p \<Rightarrow>
     (case limit_of env ops (qt_minAmount t) of Inl e \<Rightarrow> Inl e | Inr lo \<Rightarrow>
     (case limit_of env ops (qt_maxAmount t) of Inl e \<Rightarrow> Inl e | Inr hi \<Rightarrow>
     (case normalized_tiers env ops ts of Inl e \<Rightarrow> Inl e | Inr rest \<Rightarrow>
        Inr (\<lparr>ti_orderType = qt_orderType t, ti_percent = p, ti_min = lo, ti_max = hi\<rparr> # rest)))))"

definition quote_tier_matches :: "string \<Rightarrow> int \<Rightarrow> tier \<Rightarrow> bool" where
  "quote_tier_matches orderType amount t \<longleftrightarrow>
     (case truthy (ti_orderType t) of None \<Rightarrow> True | Some o1 \<Rightarrow> to_lower o1 = orderType)
     \<and> (case (ti_min t, ti_max t) of (Some lo, Some hi) \<Rightarrow> lo \<le> amount \<and> amount \<le> hi | _ \<Rightarrow> False)"

text \<open>The percentage: that of the first tier that holds the amount, else the default, and never more than the cap.\<close>

definition buffer_percent :: "string \<Rightarrow> int \<Rightarrow> rat \<Rightarrow> rat \<Rightarrow> tier list \<Rightarrow> rat option" where
  "buffer_percent orderType amount dflt cap tiers =
     (let p = (case List.find (quote_tier_matches orderType amount) tiers of
          Some t \<Rightarrow> ti_percent t | None \<Rightarrow> if dflt > 0 then dflt else 0)
      in if p = 0 \<and> tiers = [] \<and> \<not> dflt > 0 then None
         else Some (if cap > 0 \<and> p > cap then cap else p))"

definition getEffectiveBufferPercent ::
    "env \<Rightarrow> quoteOps \<Rightarrow> quoteFeeds \<Rightarrow> string \<Rightarrow> string \<Rightarrow> int \<Rightarrow> error + rat" where
  "getEffectiveBufferPercent env ops feeds symbol orderType amount =
     (case qf_crypto feeds symbol of
        None \<Rightarrow> Inl (NotFound (''Cryptocurrency '' @ symbol @ '' not found''))
      | Some c \<Rightarrow>
         (case percent_of env (qc_defaultBufferPercent c) of Inl e \<Rightarrow> Inl e | Inr dflt \<Rightarrow>
         (case percent_of env (qc_maxBufferPercent c) of Inl e \<Rightarrow> Inl e | Inr cap \<Rightarrow>
         (case normalized_tiers env ops (qc_tiers c) of Inl e \<Rightarrow> Inl e | Inr tiers \<Rightarrow>
         (case buffer_percent orderType amount dflt cap tiers of
            None \<Rightarrow> Inl (BadRequest (''No buffer configuration for '' @ symbol @ ''. Cannot place '' @ orderType @ '' order.''))
          | Some p \<Rightarrow> Inr (qo_div ops p 100))))))"

section \<open>Prices and minima\<close>

definition price_of :: "env \<Rightarrow> quoteFeeds \<Rightarrow> string \<Rightarrow> (error + rat) option" where
  "price_of env feeds pair =
     (case truthy (qf_price feeds pair) of
        None \<Rightarrow> None
      | Some s \<Rightarrow> (case e_decValue env s of
            None \<Rightarrow> Some (Inl (PlainError ''DecimalError: Invalid argument''))
          | Some v \<Rightarrow> if v \<le> 0 then None else Some (Inr v)))"

definition price_or :: "error \<Rightarrow> (error + rat) option \<Rightarrow> error + rat" where
  "price_or e p = (case p of None \<Rightarrow> Inl e | Some r \<Rightarrow> r)"

definition market_price :: "env \<Rightarrow> quoteFeeds \<Rightarrow> string \<Rightarrow> error + rat" where
  "market_price env feeds pair = price_or (NotFound (''No valid price for '' @ pair)) (price_of env feeds pair)"

definition validateMinimumAmount ::
    "env \<Rightarrow> quoteOps \<Rightarrow> quoteFeeds \<Rightarrow> rat \<Rightarrow> string \<Rightarrow> rat option \<Rightarrow> error + unit" where
  "validateMinimumAmount env ops feeds fiatValue symbol cryptoAmount =
     (case price_of env feeds ''usdtngn'' of
        None \<Rightarrow> Inl (NotFound ''No valid USDT/NGN price available'')
      | Some p \<Rightarrow>
          if to_upper symbol = ''USDT'' \<and> (case cryptoAmount of None \<Rightarrow> False | Some a \<Rightarrow> 2 \<le> a) then Inr ()
          else (case p of Inl e \<Rightarrow> Inl e | Inr price \<Rightarrow>
            if fiatValue < qo_mul ops price 2
            then Inl (BadRequest (''Minimum transaction amount is 2 USDT ('' @ NAIRA @ qo_fixed ops (qo_mul ops price 2) 2 @ '')''))
            else Inr ()))"

definition validateSwapMinimumAmount :: "env \<Rightarrow> quoteOps \<Rightarrow> quoteFeeds \<Rightarrow> rat \<Rightarrow> string \<Rightarrow> error + unit" where
  "validateSwapMinimumAmount env ops feeds amount symbol =
     (let enough = (\<lambda>v. if v < (2::rat) then Inl (BadRequest ''Minimum swap amount is 2 USDT equivalent'') else Inr ());
          none = NotFound ''Unable to determine price for minimum amount validation''
      in if to_upper symbol = ''USDT'' then enough amount
         else (case price_of env feeds (to_lower symbol @ ''usdt'') of
             Some p \<Rightarrow> (case p of Inl e \<Rightarrow> Inl e | Inr v \<Rightarrow> enough (qo_mul ops amount v))
           | None \<Rightarrow>
               (case (price_of env feeds (to_lower symbol @ ''ngn''), price_of env feeds ''usdtngn'') of
                  (Some p, Some u) \<Rightarrow>
                    (case p of Inl e \<Rightarrow> Inl e | Inr v \<Rightarrow>
                    (case u of Inl e \<Rightarrow> Inl e | Inr w \<Rightarrow> enough (qo_div ops (qo_mul ops amount v) w)))
                | _ \<Rightarrow> Inl none)))"

definition quote_minor :: "env \<Rightarrow> quoteOps \<Rightarrow> rat \<Rightarrow> string \<Rightarrow> error + int" where
  "quote_minor env ops v currency =
     (case getDecimals (e_cv env) (to_lower currency) of Inl e \<Rightarrow> Inl e
      | Inr d \<Rightarrow> toBase (e_cv env) (qo_fixed ops v d) currency None)"

definition resolveQuoteNetwork :: "string \<Rightarrow> string \<Rightarrow> string sysm" where
  "resolveQuoteNetwork userId symbol =
     bindM (getM (\<lambda>s. wallet_for userId symbol (s_db s))) (\<lambda>r.
     bindM (someM r (NotFound (''Wallet for '' @ symbol @ '' not found''))) (\<lambda>w.
       someM (truthy (w_defaultNetwork w))
         (BadRequest (''Network is required for '' @ symbol @ '' because this wallet has no default network''))))"

definition getBaseFiat :: "env \<Rightarrow> quoteFeeds \<Rightarrow> error + string" where
  "getBaseFiat env feeds =
     (case qf_fiat feeds of
        None \<Rightarrow> Inl (NotFound (''Base fiat currency '' @ to_upper BASE_CURRENCY @ '' not configured''))
      | Some code \<Rightarrow> (case getDecimals (e_cv env) (to_lower code) of Inl e \<Rightarrow> Inl e | Inr _ \<Rightarrow> Inr code))"

section \<open>A buy quote\<close>

definition buy_prices :: "env \<Rightarrow> quoteOps \<Rightarrow> quoteFeeds \<Rightarrow> string \<Rightarrow> string \<Rightarrow> string \<Rightarrow> error + buyQuote" where
  "buy_prices env ops feeds symbol code amount =
     (case getDecimals (e_cv env) symbol of Inl e \<Rightarrow> Inl e | Inr d \<Rightarrow>
     (case decimal_of env amount of Inl e \<Rightarrow> Inl e | Inr a \<Rightarrow>
     (case toBase (e_cv env) (qo_fixed ops a d) symbol None of Inl e \<Rightarrow> Inl e | Inr volume \<Rightarrow>
     (case market_price env feeds (to_lower symbol @ to_lower code) of Inl e \<Rightarrow> Inl e | Inr market \<Rightarrow>
     (case getEffectiveBufferPercent env ops feeds symbol ''buy'' volume of Inl e \<Rightarrow> Inl e | Inr factor \<Rightarrow>
      let buffered = qo_mul ops market (qo_add ops 1 factor);
          base = qo_mul ops a buffered;
          fee = qo_mul ops base PLATFORM_SPREAD
      in (case validateMinimumAmount env ops feeds base symbol None of Inl e \<Rightarrow> Inl e | Inr _ \<Rightarrow>
         (case quote_minor env ops market code of Inl e \<Rightarrow> Inl e | Inr m \<Rightarrow>
         (case quote_minor env ops buffered code of Inl e \<Rightarrow> Inl e | Inr b \<Rightarrow>
         (case quote_minor env ops (qo_sub ops buffered market) code of Inl e \<Rightarrow> Inl e | Inr sp \<Rightarrow>
         (case quote_minor env ops fee code of Inl e \<Rightarrow> Inl e | Inr f \<Rightarrow>
         (case quote_minor env ops (qo_add ops base fee) code of Inl e \<Rightarrow> Inl e | Inr t \<Rightarrow>
           Inr \<lparr>bq_quoteId = [], bq_userId = [], bq_crypto = symbol, bq_network = [], bq_fiatCurrency = code,
             bq_volumeCryptoMinor = volume, bq_marketPriceMinor = m, bq_bufferedPriceMinor = b, bq_bufferSpreadMinor = sp,
             bq_platformFeeMinor = f, bq_totalFiatMinor = t, bq_bufferPercent = qo_fixed ops (qo_mul ops factor 100) 2,
             bq_paymentMethodId = [], bq_cardId = None, bq_pinVerified = False, bq_expiresAt = 0\<rparr>)))))))))))"

definition getBuyQuote ::
    "env \<Rightarrow> quoteOps \<Rightarrow> quoteFeeds \<Rightarrow> string \<Rightarrow> string \<Rightarrow> string \<Rightarrow> string \<Rightarrow> quoteView sysm" where
  "getBuyQuote env ops feeds quoteId userId crypto amount =
     bindM (resolveQuoteNetwork userId (to_upper crypto)) (\<lambda>network.
     bindM (liftM (getBaseFiat env feeds)) (\<lambda>code.
     bindM (liftM (buy_prices env ops feeds (to_upper crypto) code amount)) (\<lambda>p.
     let q = p\<lparr>bq_quoteId := quoteId, bq_userId := userId, bq_network := network,
           bq_expiresAt := e_now env + QUOTE_TTL_SECONDS * 1000\<rparr>
     in thenM (tempSet env (''buy:'' @ quoteId) (TBuyQuote q) QUOTE_TTL_SECONDS)
        (bindM (liftM (formatCryptoForQuote (e_cv env) (ABigInt (bq_volumeCryptoMinor q)) (bq_crypto q) None)) (\<lambda>volume.
         bindM (liftM (fromBase (e_cv env) (ABigInt (bq_marketPriceMinor q)) code None)) (\<lambda>market.
         bindM (liftM (fromBase (e_cv env) (ABigInt (bq_bufferedPriceMinor q)) code None)) (\<lambda>buffered.
         bindM (liftM (fromBase (e_cv env) (ABigInt (bq_bufferSpreadMinor q)) code None)) (\<lambda>spread.
         bindM (liftM (fromBase (e_cv env) (ABigInt (bq_platformFeeMinor q)) code None)) (\<lambda>fee.
         bindM (liftM (fromBase (e_cv env) (ABigInt (bq_totalFiatMinor q)) code None)) (\<lambda>whole.
           returnM \<lparr>qv_id = quoteId, qv_crypto = bq_crypto q, qv_network = network, qv_fiatCurrency = code, qv_amount = volume,
             qv_marketRate = market, qv_bufferedRate = buffered, qv_bufferSpread = spread, qv_transactionFee = fee,
             qv_total = whole, qv_bufferPercent = bq_bufferPercent q\<rparr>)))))))
     )))"

section \<open>A sell quote\<close>

text \<open>
  The fee of a sell is taken in crypto on top of what is sold; what the user receives is the
  product of amount and buffered price.
\<close>

definition sell_prices :: "env \<Rightarrow> quoteOps \<Rightarrow> quoteFeeds \<Rightarrow> string \<Rightarrow> string \<Rightarrow> string \<Rightarrow> error + sellQuote" where
  "sell_prices env ops feeds symbol code amount =
     (case getDecimals (e_cv env) symbol of Inl e \<Rightarrow> Inl e | Inr d \<Rightarrow>
     (case decimal_of env amount of Inl e \<Rightarrow> Inl e | Inr a \<Rightarrow>
     (case toBase (e_cv env) (qo_fixed ops a d) symbol None of Inl e \<Rightarrow> Inl e | Inr exact \<Rightarrow>
     (case market_price env feeds (to_lower symbol @ to_lower code) of Inl e \<Rightarrow> Inl e | Inr market \<Rightarrow>
     (case getEffectiveBufferPercent env ops feeds symbol ''sell'' exact of Inl e \<Rightarrow> Inl e | Inr factor \<Rightarrow>
      let buffered = qo_mul ops market (qo_sub ops 1 factor);
          gross = qo_mul ops a buffered
      in (case validateMinimumAmount env ops feeds gross symbol (Some a) of Inl e \<Rightarrow> Inl e | Inr _ \<Rightarrow>
         (case quote_minor env ops market code of Inl e \<Rightarrow> Inl e | Inr m \<Rightarrow>
         (case quote_minor env ops buffered code of Inl e \<Rightarrow> Inl e | Inr b \<Rightarrow>
         (case quote_minor env ops (qo_sub ops market buffered) code of Inl e \<Rightarrow> Inl e | Inr sp \<Rightarrow>
         (case quote_minor env ops gross code of Inl e \<Rightarrow> Inl e | Inr g \<Rightarrow>
         (case toBase (e_cv env) (qo_fixed ops (qo_mul ops a PLATFORM_SPREAD) d) symbol None of Inl e \<Rightarrow> Inl e | Inr f \<Rightarrow>
           Inr \<lparr>lq_quoteId = [], lq_userId = [], lq_crypto = symbol, lq_network = [], lq_fiatCurrency = code,
             lq_exactCryptoMinor = exact, lq_marketPriceMinor = m, lq_bufferedPriceMinor = b, lq_bufferSpreadMinor = sp,
             lq_grossFiatMinor = g, lq_platformFeeMinor = f, lq_netFiatMinor = g,
             lq_bufferPercent = qo_fixed ops (qo_mul ops factor 100) 2, lq_bankAccountId = None, lq_pinVerified = False,
             lq_expiresAt = 0\<rparr>)))))))))))"

definition getSellQuote ::
    "env \<Rightarrow> quoteOps \<Rightarrow> quoteFeeds \<Rightarrow> string \<Rightarrow> string \<Rightarrow> string \<Rightarrow> string \<Rightarrow> string option \<Rightarrow> quoteView sysm" where
  "getSellQuote env ops feeds quoteId userId crypto amount network =
     bindM (liftM (getBaseFiat env feeds)) (\<lambda>code.
     thenM (dbM (validateNetworkExists userId (to_upper crypto) network))
     (bindM (resolveQuoteNetwork userId (to_upper crypto)) (\<lambda>_.
     bindM (liftM (sell_prices env ops feeds (to_upper crypto) code amount)) (\<lambda>p.
     let q = p\<lparr>lq_quoteId := quoteId, lq_userId := userId,
           lq_network := (case truthy network of None \<Rightarrow> ''N/A'' | Some n \<Rightarrow> n),
           lq_expiresAt := e_now env + QUOTE_TTL_SECONDS * 1000\<rparr>
     in thenM (tempSet env (''sell:'' @ quoteId) (TSellQuote q) QUOTE_TTL_SECONDS)
        (bindM (liftM (formatCryptoForQuote (e_cv env) (ABigInt (lq_exactCryptoMinor q)) (lq_crypto q) None)) (\<lambda>shown.
         bindM (liftM (fromBase (e_cv env) (ABigInt (lq_marketPriceMinor q)) code None)) (\<lambda>market.
         bindM (liftM (fromBase (e_cv env) (ABigInt (lq_bufferedPriceMinor q)) code None)) (\<lambda>buffered.
         bindM (liftM (fromBase (e_cv env) (ABigInt (lq_bufferSpreadMinor q)) code None)) (\<lambda>spread.
         bindM (liftM (fromBase (e_cv env) (ABigInt (lq_grossFiatMinor q)) code None)) (\<lambda>_.
         bindM (liftM (fromBase (e_cv env) (ABigInt (lq_platformFeeMinor q)) (lq_crypto q) None)) (\<lambda>fee.
         bindM (liftM (fromBase (e_cv env) (ABigInt (lq_netFiatMinor q)) code None)) (\<lambda>whole.
           returnM \<lparr>qv_id = quoteId, qv_crypto = lq_crypto q, qv_network = lq_network q, qv_fiatCurrency = code, qv_amount = shown,
             qv_marketRate = market, qv_bufferedRate = buffered, qv_bufferSpread = spread, qv_transactionFee = fee,
             qv_total = whole, qv_bufferPercent = lq_bufferPercent q\<rparr>))))))))))))"

section \<open>A swap quote\<close>

record swapAnswer =
  qa_status :: string
  qa_message :: "string option"
  qa_id :: "string option"
  qa_quoted_price :: "string option"

record swapQuoteView =
  wv_id :: string
  wv_from :: string
  wv_to :: string
  wv_amountIn :: string
  wv_estimatedOut :: string
  wv_conversionFee :: string
  wv_marketRate :: string
  wv_protectedRate :: string
  wv_bufferAmount :: string
  wv_bufferPercent :: string
  wv_totalBufferPercent :: string

text \<open>The provider's quotation: its id and its price, the target amount for one unit of the source.\<close>

definition swap_quotation :: "env \<Rightarrow> error + swapAnswer \<Rightarrow> string \<Rightarrow> string \<Rightarrow> error + (string \<times> string \<times> rat)" where
  "swap_quotation env answer from into =
     (case answer of Inl e \<Rightarrow> Inl e | Inr a \<Rightarrow>
        if qa_status a \<noteq> ''success'' then Inl (BadRequest (''Swap not available for '' @ from @ '' '' @ ARROW @ '' '' @ into @ ''. ''
          @ (case truthy (qa_message a) of None \<Rightarrow> ''Failed to get swap quote'' | Some m \<Rightarrow> m)))
        else (case truthy (qa_id a) of None \<Rightarrow> Inl (BadRequest ''Swapping is unavailable at the moment'') | Some i \<Rightarrow>
          (case truthy (qa_quoted_price a) of None \<Rightarrow> Inl (BadRequest ''Swap not available at the moment'') | Some p \<Rightarrow>
          (case e_decValue env p of None \<Rightarrow> Inl (PlainError ''DecimalError: Invalid argument'') | Some v \<Rightarrow>
            if v \<le> 0 then Inl (BadRequest ''Swap not available at the moment'') else Inr (i, p, v)))))"

record swapPrices =
  sp_out :: rat
  sp_bufferAmount :: rat
  sp_rate :: rat
  sp_factor :: rat
  sp_totalPercent :: rat

text \<open>The floor of the rate: both buffers taken off.\<close>

definition swap_prices ::
    "env \<Rightarrow> quoteOps \<Rightarrow> quoteFeeds \<Rightarrow> string \<Rightarrow> string \<Rightarrow> nat \<Rightarrow> rat \<Rightarrow> int \<Rightarrow> rat \<Rightarrow> error + swapPrices" where
  "swap_prices env ops feeds from into toDecimals a exact rate =
     (case validateSwapMinimumAmount env ops feeds a from of Inl e \<Rightarrow> Inl e | Inr _ \<Rightarrow>
     (case getEffectiveBufferPercent env ops feeds from ''sell'' exact of Inl e \<Rightarrow> Inl e | Inr sell \<Rightarrow>
     (case toBase (e_cv env) (qo_fixed ops (qo_mul ops a rate) toDecimals) into None of Inl e \<Rightarrow> Inl e | Inr outMinor \<Rightarrow>
     (case getEffectiveBufferPercent env ops feeds into ''buy'' outMinor of Inl e \<Rightarrow> Inl e | Inr buy \<Rightarrow>
      let protected = qo_mul ops rate (qo_mul ops (qo_sub ops 1 sell) (qo_sub ops 1 buy));
          out = qo_mul ops a protected
      in Inr \<lparr>sp_out = out, sp_bufferAmount = qo_sub ops (qo_mul ops a rate) out, sp_rate = protected, sp_factor = sell,
           sp_totalPercent = qo_mul ops (qo_sub ops 1 (qo_div ops protected rate)) 100\<rparr>))))"

definition swap_minors :: "env \<Rightarrow> quoteOps \<Rightarrow> string \<Rightarrow> string \<Rightarrow> nat \<Rightarrow> nat \<Rightarrow> rat \<Rightarrow> int \<Rightarrow> rat \<Rightarrow> swapPrices \<Rightarrow> error + swapQuote" where
  "swap_minors env ops from into fromDecimals toDecimals a exact rate p =
     (let base = (\<lambda>v d c. toBase (e_cv env) (qo_fixed ops v d) c None) in
      case base (qo_mul ops a PLATFORM_SPREAD) fromDecimals from of Inl e \<Rightarrow> Inl e | Inr fee \<Rightarrow>
     (case base (sp_out p) toDecimals into of Inl e \<Rightarrow> Inl e | Inr out \<Rightarrow>
     (case base rate toDecimals into of Inl e \<Rightarrow> Inl e | Inr market \<Rightarrow>
     (case base (sp_rate p) toDecimals into of Inl e \<Rightarrow> Inl e | Inr protected \<Rightarrow>
     (case base (qo_sub ops rate (sp_rate p)) toDecimals into of Inl e \<Rightarrow> Inl e | Inr spread \<Rightarrow>
        Inr \<lparr>xq_quoteId = [], xq_userId = [], xq_from = from, xq_to = into, xq_fromNetwork = [], xq_toNetwork = [],
          xq_toDecimals = toDecimals, xq_exactFromMinor = exact, xq_estimatedOutMinor = out, xq_platformFeeMinor = fee,
          xq_marketRateMinor = market, xq_protectedRateMinor = protected, xq_bufferSpreadMinor = spread,
          xq_bufferPercent = qo_fixed ops (qo_mul ops (sp_factor p) 100) 2,
          xq_totalBufferPercent = qo_fixed ops (sp_totalPercent p) 2, xq_pinVerified = False, xq_expiresAt = 0,
          xq_quotationId = []\<rparr>)))))"

definition getSwapQuote ::
    "env \<Rightarrow> quoteOps \<Rightarrow> quoteFeeds \<Rightarrow> error + swapAnswer \<Rightarrow> string \<Rightarrow> string \<Rightarrow> string \<Rightarrow> string \<Rightarrow> string \<Rightarrow> swapQuoteView sysm" where
  "getSwapQuote env ops feeds answer quoteId userId from0 to0 amount =
     (let from = to_upper from0; into = to_upper to0;
          net = (\<lambda>w. case truthy (w_defaultNetwork w) of None \<Rightarrow> ''default'' | Some n \<Rightarrow> n) in
      bindM (getM (\<lambda>s. wallet_for userId from (s_db s))) (\<lambda>rf.
      bindM (getM (\<lambda>s. wallet_for userId into (s_db s))) (\<lambda>rt.
      bindM (someM rf (NotFound (''Wallet for '' @ from @ '' not found''))) (\<lambda>wf.
      bindM (someM rt (NotFound (''Wallet for '' @ into @ '' not found''))) (\<lambda>wt.
      bindM (liftM (getDecimals (e_cv env) from)) (\<lambda>fromDecimals.
      bindM (liftM (getDecimals (e_cv env) into)) (\<lambda>toDecimals.
      bindM (liftM (decimal_of env amount)) (\<lambda>a.
      bindM (liftM (toBase (e_cv env) (qo_fixed ops a fromDecimals) from None)) (\<lambda>exact.
      thenM (callM (CallSwapRequest (to_lower from) (to_lower into) (qo_fixed ops a fromDecimals)))
      (bindM (liftM (swap_quotation env answer from into)) (\<lambda>(quotationId, pairPrice, rate).
       bindM (liftM (swap_prices env ops feeds from into toDecimals a exact rate)) (\<lambda>p.
       bindM (liftM (swap_minors env ops from into fromDecimals toDecimals a exact rate p)) (\<lambda>m.
       let q = m\<lparr>xq_quoteId := quoteId, xq_userId := userId, xq_fromNetwork := net wf, xq_toNetwork := net wt,
             xq_expiresAt := e_now env + QUOTE_TTL_SECONDS * 1000, xq_quotationId := quotationId\<rparr>
       in thenM (tempSet env (''swap:'' @ quoteId) (TSwapQuote q) QUOTE_TTL_SECONDS)
          (bindM (liftM (fromBase (e_cv env) (ABigInt (xq_estimatedOutMinor q)) into None)) (\<lambda>out.
           bindM (liftM (fromBase (e_cv env) (ABigInt (xq_platformFeeMinor q)) from None)) (\<lambda>fee.
             returnM \<lparr>wv_id = quoteId, wv_from = from, wv_to = into, wv_amountIn = amount, wv_estimatedOut = out,
               wv_conversionFee = fee, wv_marketRate = pairPrice, wv_protectedRate = qo_fixed ops (sp_rate p) toDecimals,
               wv_bufferAmount = qo_fixed ops (sp_bufferAmount p) toDecimals, wv_bufferPercent = xq_bufferPercent q,
               wv_totalBufferPercent = xq_totalBufferPercent q\<rparr>))))))))))))))))"

section \<open>The store of quotes\<close>

definition quote_keys :: "string \<Rightarrow> string list" where
  "quote_keys i = map (\<lambda>k. k @ i) [''buy:'', ''sell:'', ''swap:'', ''send:'']"

definition quote_expiry :: "tempValue \<Rightarrow> int option" where
  "quote_expiry v = (case v of
       TBuyQuote q \<Rightarrow> Some (bq_expiresAt q) | TSellQuote q \<Rightarrow> Some (lq_expiresAt q)
     | TSwapQuote q \<Rightarrow> Some (xq_expiresAt q) | TSendPreview q \<Rightarrow> Some (sn_expiresAt q) | _ \<Rightarrow> None)"

fun first_quote :: "env \<Rightarrow> string list \<Rightarrow> sys \<Rightarrow> (string \<times> tempValue) option" where
  "first_quote env [] s = None"
| "first_quote env (k # ks) s = (case temp_lookup env k s of Some v \<Rightarrow> Some (k, v) | None \<Rightarrow> first_quote env ks s)"

definition quote_over :: "env \<Rightarrow> tempValue \<Rightarrow> bool" where
  "quote_over env v \<longleftrightarrow> (case quote_expiry v of None \<Rightarrow> False | Some t \<Rightarrow> e_now env > t)"

definition getQuote :: "env \<Rightarrow> string \<Rightarrow> tempValue option sysm" where
  "getQuote env quoteId =
     bindM (getM (first_quote env (quote_keys quoteId))) (\<lambda>r.
       case r of
         None \<Rightarrow> returnM None
       | Some (k, v) \<Rightarrow> if quote_over env v then thenM (tempDel k) (returnM None) else returnM (Some v))"

definition updateQuote :: "env \<Rightarrow> string \<Rightarrow> int \<Rightarrow> tempValue \<Rightarrow> unit sysm" where
  "updateQuote env key expiresAt v =
     whenM (expiresAt - e_now env > 0) (tempSet env key v (- ((e_now env - expiresAt) div 1000)))"

definition deleteQuote :: "string \<Rightarrow> unit sysm" where
  "deleteQuote quoteId =
     thenM (tempDel (''buy:'' @ quoteId)) (thenM (tempDel (''sell:'' @ quoteId)) (tempDel (''swap:'' @ quoteId)))"

text \<open>The owner of a quote that has a PIN to verify, its key, and the quote with the PIN verified.\<close>

definition quote_pin :: "tempValue \<Rightarrow> (string \<times> bool \<times> string \<times> tempValue) option" where
  "quote_pin v = (case v of
       TBuyQuote q \<Rightarrow> Some (bq_userId q, bq_pinVerified q, ''buy:'', TBuyQuote (q\<lparr>bq_pinVerified := True\<rparr>))
     | TSellQuote q \<Rightarrow> Some (lq_userId q, lq_pinVerified q, ''sell:'', TSellQuote (q\<lparr>lq_pinVerified := True\<rparr>))
     | TSwapQuote q \<Rightarrow> Some (xq_userId q, xq_pinVerified q, ''swap:'', TSwapQuote (q\<lparr>xq_pinVerified := True\<rparr>))
     | TSendPreview q \<Rightarrow> Some (sn_userId q, sn_pinVerified q, ''send:'', TSendPreview (q\<lparr>sn_pinVerified := True\<rparr>))
     | _ \<Rightarrow> None)"

text \<open>\<open>pinOk h\<close>: the PIN given matches the hash \<open>h\<close> (\<^verbatim>\<open>compareHash\<close>). The time of the verification, which the code
  stores in the quote and nothing reads (\<^verbatim>\<open>pinVerifiedAt\<close>), is left out.\<close>

definition verifyPinForQuote :: "env \<Rightarrow> (string \<Rightarrow> bool) \<Rightarrow> string \<Rightarrow> string \<Rightarrow> string sysm" where
  "verifyPinForQuote env pinOk userId quoteId =
     bindM (getQuote env quoteId) (\<lambda>r.
     bindM (someM r (NotFound ''Quote not found or has expired'')) (\<lambda>v.
     bindM (someM (quote_pin v)
         (BadRequest ''Invalid quote state. Please request a quote preview first before verifying PIN.'')) (\<lambda>(owner, was, prefix, verified).
     thenM (requireM (owner = userId) (Unauthorized ''You are not authorized to verify this quote''))
     (bindM (getM (\<lambda>s. user_by_id userId (s_db s))) (\<lambda>u.
      bindM (someM (case u of None \<Rightarrow> None | Some x \<Rightarrow> truthy (u_pin x)) (BadRequest ''Set PIN first'')) (\<lambda>pin.
      thenM (requireM (pinOk pin) (Unauthorized ''Invalid PIN''))
      (thenM (tempSet env (prefix @ quoteId) verified QUOTE_TTL_SECONDS)
        (returnM (if was then ''PIN is already verified for this quote'' else ''PIN verified successfully'')))))))))"


section \<open>What the PIN does\<close>

text \<open>The id of a quote is used for one key only: it is a fresh \<^verbatim>\<open>uuid\<close>.\<close>

definition quote_at :: "string \<Rightarrow> string \<Rightarrow> sys \<Rightarrow> bool" where
  "quote_at prefix i s \<longleftrightarrow> prefix \<in> {''buy:'', ''sell:'', ''swap:'', ''send:''}
     \<and> (\<forall>k \<in> set (quote_keys i). k \<noteq> prefix @ i \<longrightarrow> s_temp s k = None)"

lemma first_quote_at:
  assumes "quote_at prefix i s"
  shows "first_quote env (quote_keys i) s = map_option (Pair (prefix @ i)) (temp_lookup env (prefix @ i) s)"
proof -
  have "prefix = ''buy:'' \<or> prefix = ''sell:'' \<or> prefix = ''swap:'' \<or> prefix = ''send:''"
    using assms by (simp add: quote_at_def)
  moreover have "\<forall>k \<in> set (quote_keys i). k \<noteq> prefix @ i \<longrightarrow> temp_lookup env k s = None"
    using assms by (simp add: quote_at_def temp_lookup_def)
  ultimately show ?thesis
    by (elim disjE) (simp_all add: quote_keys_def split: option.split)
qed

lemma getQuote_at:
  assumes "quote_at prefix i s"
  shows "fst (getQuote env i s) = Inr (case temp_lookup env (prefix @ i) s of
      None \<Rightarrow> None | Some v \<Rightarrow> if quote_over env v then None else Some v)"
  by (simp add: getQuote_def first_quote_at [OF assms] comp_defs tempDel_def split: option.split)

lemma quote_pin_expiry: "quote_pin v = Some (u, was, p, w) \<Longrightarrow> quote_expiry w = quote_expiry v"
  by (auto simp: quote_pin_def quote_expiry_def split: tempValue.splits)

text \<open>C33: when the verification of a PIN succeeds, the user owns the quote and the PIN matches theirs; the quote is then
  the same with the PIN verified, and it can be confirmed until the time it had from the start: verifying the
  PIN writes it with a new time to live but never past its expiry.\<close>

theorem pin_releases_quote:
  assumes "quote_at prefix i s" "temp_lookup env (prefix @ i) s = Some v" "quote_expiry v = Some x"
    and "quote_pin v = Some (owner, was, prefix, verified)"
    and "verifyPinForQuote env pinOk userId i s = (Inr m, s')" "e_now env \<le> t"
  shows "owner = userId \<and> (\<exists>u pin. user_by_id userId (s_db s) = Some u \<and> u_pin u = Some pin \<and> pinOk pin)
    \<and> fst (getQuote (env\<lparr>e_now := t\<rparr>) i s')
        = Inr (if t \<le> x \<and> t < e_now env + QUOTE_TTL_SECONDS * 1000 then Some verified else None)"
proof -
  have q: "fst (getQuote env i s) = Inr (if quote_over env v then None else Some v)"
    using getQuote_at [OF assms(1), of env] assms(2) by simp
  have run: "\<not> quote_over env v" "owner = userId" "\<exists>u pin. user_by_id userId (s_db s) = Some u \<and> u_pin u = Some pin \<and> pinOk pin"
    "s' = s\<lparr>s_temp := (s_temp s)(prefix @ i \<mapsto> (verified, Some (e_now env + QUOTE_TTL_SECONDS * 1000)))\<rparr>"
    using assms(5) unfolding verifyPinForQuote_def getQuote_def
    by (auto simp: first_quote_at [OF assms(1), of env, unfolded assms(2), simplified] assms(4) comp_defs tempSet_def tempDel_def truthy_def QUOTE_TTL_SECONDS_def
        split: if_splits option.splits)
  have "quote_at prefix i s'" using assms(1) by (auto simp: run(4) quote_at_def)
  moreover have "temp_lookup (env\<lparr>e_now := t\<rparr>) (prefix @ i) s'
      = (if t < e_now env + QUOTE_TTL_SECONDS * 1000 then Some verified else None)"
    by (simp add: run(4) temp_lookup_def live_def)
  moreover have "quote_over (env\<lparr>e_now := t\<rparr>) verified \<longleftrightarrow> x < t"
    using quote_pin_expiry [OF assms(4)] assms(3) by (simp add: quote_over_def)
  ultimately show ?thesis using run(2,3) getQuote_at [of prefix i s' "env\<lparr>e_now := t\<rparr>"] by auto
qed

definition buy_quote_example :: buyQuote where
  "buy_quote_example = \<lparr>bq_quoteId = ''b1'', bq_userId = ''u1'', bq_crypto = ''BTC'', bq_network = ''btc'', bq_fiatCurrency = ''NGN'',
     bq_volumeCryptoMinor = 10, bq_marketPriceMinor = 100, bq_bufferedPriceMinor = 110, bq_bufferSpreadMinor = 10,
     bq_platformFeeMinor = 2, bq_totalFiatMinor = 300, bq_bufferPercent = ''10.00'', bq_paymentMethodId = ''pm1'',
     bq_cardId = None, bq_pinVerified = False, bq_expiresAt = 301000\<rparr>"

theorem pin_releases_quote_witness:
  "\<exists>s'. verifyPinForQuote env_example (\<lambda>h. h = ''pin'') ''u1'' ''b1''
       (sys_example\<lparr>s_temp := [''buy:b1'' \<mapsto> (TBuyQuote buy_quote_example, Some 301000)]\<rparr>) = (Inr ''PIN verified successfully'', s')
     \<and> fst (getQuote (env_example\<lparr>e_now := 2000\<rparr>) ''b1'' s') = Inr (Some (TBuyQuote (buy_quote_example\<lparr>bq_pinVerified := True\<rparr>)))"
proof -
  let ?s = "sys_example\<lparr>s_temp := [''buy:b1'' \<mapsto> (TBuyQuote buy_quote_example, Some 301000)]\<rparr>"
  have at: "quote_at ''buy:'' ''b1'' ?s" by (simp add: quote_at_def quote_keys_def)
  have v: "temp_lookup env_example (''buy:'' @ ''b1'') ?s = Some (TBuyQuote buy_quote_example)"
    by (simp add: temp_lookup_def live_def env_example_def)
  have "fst (verifyPinForQuote env_example (\<lambda>h. h = ''pin'') ''u1'' ''b1'' ?s) = Inr ''PIN verified successfully''"
    by (simp add: verifyPinForQuote_def getQuote_def quote_keys_def temp_lookup_def live_def env_example_def quote_over_def
        quote_expiry_def quote_pin_def buy_quote_example_def comp_defs sys_example_def db_example_def user_by_id_def truthy_def tempSet_def)
  note run = fst_run [OF this]
  have x: "quote_expiry (TBuyQuote buy_quote_example) = Some 301000"
    "quote_pin (TBuyQuote buy_quote_example) = Some (''u1'', False, ''buy:'', TBuyQuote (buy_quote_example\<lparr>bq_pinVerified := True\<rparr>))"
    by (simp_all add: quote_expiry_def quote_pin_def buy_quote_example_def)
  have "e_now env_example \<le> 2000" "2000 < e_now env_example + QUOTE_TTL_SECONDS * 1000"
    by (simp_all add: env_example_def QUOTE_TTL_SECONDS_def)
  with pin_releases_quote [OF at v x run, of 2000] run show ?thesis by auto
qed

end
