(* ===== verification/Sell.thy ===== *)
theory Sell
  imports OrderDone Quotes
begin

text \<open>
  Selling crypto for NGN (\<^verbatim>\<open>sell.service.ts\<close>): the preview chooses the bank account, the confirmation
  reserves the user's crypto and the company's NGN, checks what the payment provider holds, and places
  the order at the exchange. What the exchange does with it comes in by the order webhook (theory
  \<open>OrderDone\<close>). Outside production the providers are bypassed and the sell is completed at once.
\<close>

section \<open>Inputs\<close>

text \<open>
  \<open>sl_bypass\<close>: the process does not run in production. \<open>sl_single\<close> and \<open>sl_fallback\<close> are what the ticker
  answers, \<open>sl_paystack\<close> the cached balance at the payment provider (its id, the total and the reserved
  part), \<open>sl_order\<close> what the exchange answers to the order.
\<close>

record orderAnswer =
  pa_status :: string
  pa_reference :: "string option"
  pa_id :: "string option"

record sellWorld =
  sl_bypass :: bool
  sl_single :: "string option"
  sl_fallback :: "string option"
  sl_paystack :: "(string \<times> string \<times> string option) option"
  sl_order :: "error + orderAnswer"

record sellView =
  vs_previewId :: string
  vs_cryptoAmount :: string
  vs_grossFiat :: string
  vs_platformFee :: string
  vs_bufferSpread :: string
  vs_estimatedNgn :: string
  vs_marketRate :: string
  vs_bufferedRate :: string
  vs_expiresIn :: int
  vs_bankAccount :: bankAccount

record sellResult =
  lr_message :: string
  lr_transaction :: "(string \<times> txStatus) option"
  lr_sold :: "string option"
  lr_status :: "string option"

section \<open>Preview\<close>

text \<open>The id of a quote is fresh, so the quote found for it is one for a sell.\<close>

definition getSellQuoteById :: "env \<Rightarrow> string \<Rightarrow> sellQuote sysm" where
  "getSellQuoteById env quoteId =
     bindM (getQuote env quoteId) (\<lambda>r.
       case r of Some (TSellQuote q) \<Rightarrow> returnM q | _ \<Rightarrow> throwM (NotFound ''Sell quote not found or expired''))"

definition bank_account_of :: "string \<Rightarrow> string \<Rightarrow> db \<Rightarrow> bankAccount option" where
  "bank_account_of i userId d = List.find (\<lambda>b. ba_id b = i \<and> ba_userId b = userId) (d_bankAccounts d)"

definition previewSell :: "env \<Rightarrow> string \<Rightarrow> string \<Rightarrow> string \<Rightarrow> sellView sysm" where
  "previewSell env userId quoteId bankAccountId =
     bindM (getSellQuoteById env quoteId) (\<lambda>q.
     thenM (requireM (lq_userId q = userId) (Unauthorized ''Quote does not belong to this user''))
     (bindM (getM (\<lambda>s. bank_account_of bankAccountId userId (s_db s))) (\<lambda>r.
      bindM (someM r (NotFound ''Bank account not found'')) (\<lambda>bank.
      thenM (updateQuote env (''sell:'' @ lq_quoteId q) (lq_expiresAt q) (TSellQuote (q\<lparr>lq_bankAccountId := Some bankAccountId\<rparr>)))
      (bindM (liftM (fromBase (e_cv env) (ABigInt (lq_exactCryptoMinor q)) (lq_crypto q) None)) (\<lambda>amount.
       bindM (liftM (fromBase (e_cv env) (ABigInt (lq_grossFiatMinor q)) (lq_fiatCurrency q) None)) (\<lambda>gross.
       bindM (liftM (fromBase (e_cv env) (ABigInt (lq_platformFeeMinor q)) (lq_crypto q) None)) (\<lambda>fee.
       bindM (liftM (fromBase (e_cv env) (ABigInt (lq_bufferSpreadMinor q)) (lq_fiatCurrency q) None)) (\<lambda>spread.
       bindM (liftM (fromBase (e_cv env) (ABigInt (lq_netFiatMinor q)) (lq_fiatCurrency q) None)) (\<lambda>ngn.
       bindM (liftM (fromBase (e_cv env) (ABigInt (lq_marketPriceMinor q)) (lq_fiatCurrency q) None)) (\<lambda>market.
       bindM (liftM (fromBase (e_cv env) (ABigInt (lq_bufferedPriceMinor q)) (lq_fiatCurrency q) None)) (\<lambda>buffered.
         returnM \<lparr>vs_previewId = quoteId, vs_cryptoAmount = amount, vs_grossFiat = gross, vs_platformFee = fee,
           vs_bufferSpread = spread, vs_estimatedNgn = ngn, vs_marketRate = market, vs_bufferedRate = buffered,
           vs_expiresIn = max 0 ((lq_expiresAt q - e_now env) div 1000), vs_bankAccount = bank\<rparr>))))))))))))"

section \<open>Completion without providers\<close>

definition sell_total :: "sellQuote \<Rightarrow> int" where
  "sell_total q = lq_exactCryptoMinor q + lq_platformFeeMinor q"

definition sell_debit :: "env \<Rightarrow> string \<Rightarrow> string \<Rightarrow> int \<Rightarrow> unit dbm" where
  "sell_debit env userId crypto a =
     (let mine = (\<lambda>w. w_userId w = userId \<and> ieq (w_currency w) crypto) in
      bindM (getM (\<lambda>d. List.find (\<lambda>w. mine w \<and> w_settle a w \<noteq> None) (d_wallets d))) (\<lambda>r.
      thenM (sqlWallets mine (w_settle a))
      (bindM (someM r (BadRequest (''Insufficient reserved '' @ crypto @ '' balance''))) (\<lambda>w.
       bindM (liftM (fromBase (e_cv env) (ABigInt (w_baseBalance w - a)) crypto None)) (\<lambda>shown.
         updWallets mine (\<lambda>x. x\<lparr>w_originalBalance := shown\<rparr>))))))"

definition nonproduction_meta :: "env \<Rightarrow> string \<Rightarrow> meta" where
  "nonproduction_meta env previewId =
     [(''providerBypass'', ''true''), (''providerBypassReason'', ''non_production_sell_confirm''),
      (''quidaxOrderReference'', previewId), (''sellOrderStatus'', ''completed_without_provider''),
      (''payoutStatus'', ''success''), (''payoutReference'', previewId),
      (''liquidityReservationStatus'', ''released''), (''liquidityReleasedAt'', toISOString (e_now env)),
      (''liquidityReleaseReason'', ''non_production_sell_confirm'')]"

definition nonproduction_order :: "env \<Rightarrow> string \<Rightarrow> order \<Rightarrow> order" where
  "nonproduction_order env previewId x = x\<lparr>o_status := OrCOMPLETED, o_paymentStatus := PayPAID,
     o_paymentReference := Some previewId, o_paymentChannel := Some ''non_production_bypass'',
     o_paymentDate := Some (e_now env), o_referenceNo := Some previewId\<rparr>"

definition nonproduction_write :: "env \<Rightarrow> sellQuote \<Rightarrow> string \<Rightarrow> string \<Rightarrow> meta \<Rightarrow> unit dbm" where
  "nonproduction_write env q previewId transactionId m =
     bindM (liftM (fromBase (e_cv env) (ABigInt (lq_bufferedPriceMinor q)) (lq_fiatCurrency q) None)) (\<lambda>price.
       updTransactions (\<lambda>x. t_id x = transactionId) (\<lambda>x. x\<lparr>t_status := TxCOMPLETED, t_isProcessed := True,
         t_executedCryptoAmountBase := Some (lq_exactCryptoMinor q), t_executedFiatAmountBase := Some (lq_netFiatMinor q),
         t_executionPrice := Some price, t_executedAt := Some (e_now env),
         t_meta := mset_all (nonproduction_meta env previewId) m\<rparr>))"

definition completeNonProductionSellConfirm_tx ::
    "env \<Rightarrow> sellQuote \<Rightarrow> string \<Rightarrow> string \<Rightarrow> string \<Rightarrow> meta \<Rightarrow> unit dbm" where
  "completeNonProductionSellConfirm_tx env q userId previewId transactionId m =
     bindM (getM (order_by_transaction transactionId)) (\<lambda>r.
     thenM (whenM (case r of None \<Rightarrow> True | Some x \<Rightarrow> o_status x \<noteq> OrCOMPLETED)
       (sell_debit env userId (to_upper (lq_crypto q)) (sell_total q)))
     (thenM (case r of None \<Rightarrow> returnM ()
         | Some x \<Rightarrow> updOrders (\<lambda>y. o_id y = o_id x) (nonproduction_order env previewId))
       (nonproduction_write env q previewId transactionId m)))"

definition nonproduction_tx :: "env \<Rightarrow> sellQuote \<Rightarrow> string \<Rightarrow> string \<Rightarrow> string \<Rightarrow> transaction \<Rightarrow> unit dbm" where
  "nonproduction_tx env q userId previewId orderId t =
     thenM (sell_debit env userId (to_upper (lq_crypto q)) (sell_total q))
     (thenM (updOrders (\<lambda>y. o_id y = orderId) (nonproduction_order env previewId))
       (nonproduction_write env q previewId (t_id t) (t_meta t)))"

section \<open>Reservation\<close>

definition sell_params :: "string \<Rightarrow> string \<Rightarrow> wallet \<Rightarrow> sellQuote \<Rightarrow> bankAccount \<Rightarrow> bool \<Rightarrow>
    string \<Rightarrow> string \<Rightarrow> string \<Rightarrow> string \<Rightarrow> string \<Rightarrow> txParams" where
  "sell_params userId previewId w q bank covered amount ngn fee buffer whole =
     \<lparr>p_userId = userId, p_receiverWalletAddress = None, p_senderWalletAddress = Some (w_quidaxWalletId w),
      p_paymentType = None,
      p_paymentMetadata = [(''quoteId'', previewId), (''payoutBankAccountId'', ba_id bank),
        (''payoutAccountNumber'', ba_bankAccountNumber bank), (''payoutBankCode'', ba_bankCode bank),
        (''payoutAccountName'', ba_bankAccountName bank),
        (''liquidityReservationStatus'', if covered then ''reserved'' else ''insufficient'')],
      p_platformWalletAddress = None, p_transactionUniqueId = previewId,
      p_network = (if lq_network q = ''N/A'' then None else Some (lq_network q)), p_currency = to_upper (lq_crypto q),
      p_cryptoAmountBase = Some (lq_exactCryptoMinor q), p_fiatAmountBase = lq_netFiatMinor q,
      p_cryptoAmountOriginal = Some amount, p_fiatAmountOriginal = Some ngn,
      p_platformFeeBase = Some (lq_platformFeeMinor q), p_platformFeeOriginal = Some fee,
      p_bufferAmountBase = Some (lq_bufferSpreadMinor q), p_bufferAmountOriginal = Some buffer,
      p_totalAmountSentBase = Some (sell_total q), p_totalAmountSentOriginal = Some whole,
      p_transactionType = DEBIT, p_transactionContext = CtxSELL, p_status = Some TxPENDING\<rparr>"

definition sell_order :: "string \<Rightarrow> string \<Rightarrow> string \<Rightarrow> string \<Rightarrow> sellQuote \<Rightarrow> bool \<Rightarrow> string \<Rightarrow> string \<Rightarrow> order" where
  "sell_order i transactionId userId previewId q covered amount ngn =
     \<lparr>o_id = i, o_transactionId = transactionId, o_userId = userId, o_cryptoAmountBase = Some (lq_exactCryptoMinor q),
      o_cryptoAmountOriginal = Some amount, o_fiatAmountBase = lq_netFiatMinor q, o_fiatAmountOriginal = Some ngn,
      o_fiatCurrency = (if lq_fiatCurrency q = [] then to_upper BASE_CURRENCY else lq_fiatCurrency q),
      o_status = (if covered then OrPENDING else OrFAILED), o_type = OSELL, o_referenceNo = Some previewId,
      o_paymentStatus = PayPENDING, o_paymentReference = None, o_paymentChannel = None,
      o_paymentAmountBase = Some (lq_netFiatMinor q), o_paymentAmountOriginal = Some ngn, o_paymentDate = None\<rparr>"

definition failed_liquidity_row :: "env \<Rightarrow> string \<Rightarrow> string \<Rightarrow> int \<Rightarrow> failedLiquidity" where
  "failed_liquidity_row env i transactionId amount =
     \<lparr>fl_id = i, fl_transactionId = transactionId, fl_transactionType = None, fl_fromCurrency = None, fl_toCurrency = None,
      fl_amountOriginal = None, fl_currency = BASE_CURRENCY, fl_amountBase = amount, fl_createdAt = e_now env\<rparr>"

datatype sellPlaced = SellDuplicate string txStatus | SellQueued string | SellReserved transaction string

definition sell_liquidity :: "env \<Rightarrow> bool \<Rightarrow> int \<Rightarrow> transaction \<Rightarrow> string \<Rightarrow> bool \<Rightarrow> sellPlaced dbm" where
  "sell_liquidity env bypass net t orderId covered =
     (let queue = bindM (freshM env) (\<lambda>i. thenM (insertFailedLiquidity (failed_liquidity_row env i (t_id t) net))
            (returnM (SellQueued (t_id t))))
      in if \<not> covered then queue
         else bindM (if bypass then returnM True else reserveLiquidity BASE_CURRENCY net) (\<lambda>reserved.
           if \<not> reserved then queue
           else thenM (updTransactions (\<lambda>x. t_id x = t_id t)
                 (\<lambda>x. x\<lparr>t_meta := mset_all [(''liquidityReservationStatus'', ''reserved'')] (t_meta t)\<rparr>))
             (returnM (SellReserved t orderId))))"

definition sell_reserve_tx ::
    "env \<Rightarrow> bool \<Rightarrow> string \<Rightarrow> string \<Rightarrow> wallet \<Rightarrow> sellQuote \<Rightarrow> bankAccount \<Rightarrow> string \<Rightarrow> string \<Rightarrow> sellPlaced dbm" where
  "sell_reserve_tx env bypass userId previewId w q bank amount ngn =
     bindM (getM (transaction_by_uniqueId previewId)) (\<lambda>existing.
       case existing of
         Some x \<Rightarrow> returnM (SellDuplicate (t_id x) (t_status x))
       | None \<Rightarrow>
           thenM (reserveBalance userId (lq_crypto q) (sell_total q) (Some (w_defaultNetwork w)))
           (bindM (if bypass then returnM (lq_netFiatMinor q) else getAvailableLiquidity BASE_CURRENCY) (\<lambda>available.
            let covered = (bypass \<or> available \<ge> lq_netFiatMinor q) in
            bindM (liftM (fromBase (e_cv env) (ABigInt (lq_platformFeeMinor q)) (to_upper (lq_crypto q)) None)) (\<lambda>fee.
            bindM (liftM (fromBase (e_cv env) (ABigInt (lq_bufferSpreadMinor q)) (lq_fiatCurrency q) None)) (\<lambda>buffer.
            bindM (liftM (fromBase (e_cv env) (ABigInt (sell_total q)) (to_upper (lq_crypto q)) None)) (\<lambda>whole.
            bindM (createTransaction env (sell_params userId previewId w q bank covered amount ngn fee buffer whole)) (\<lambda>t.
            bindM (freshM env) (\<lambda>orderId.
            thenM (insertOrder (sell_order orderId (t_id t) userId previewId q covered amount ngn))
              (sell_liquidity env bypass (lq_netFiatMinor q) t orderId covered)))))))))"

text \<open>The alert to the administrator is queued inside the transaction.\<close>

definition sell_place :: "env \<Rightarrow> bool \<Rightarrow> string \<Rightarrow> string \<Rightarrow> wallet \<Rightarrow> sellQuote \<Rightarrow> bankAccount \<Rightarrow> string \<Rightarrow> string \<Rightarrow> sellPlaced sysm" where
  "sell_place env bypass userId previewId w q bank amount ngn =
     txSysM env ''sell_reserve''
       (bindM (dbM (sell_reserve_tx env bypass userId previewId w q bank amount ngn)) (\<lambda>p.
        thenM (case p of SellQueued i \<Rightarrow> callM (CallAlert i) | _ \<Rightarrow> returnM ()) (returnM p)))"

section \<open>The payment provider's balance\<close>

definition PAYSTACK_WALLET :: string where
  "PAYSTACK_WALLET = ''company_paystack_ngn_balance''"

definition paystack_available :: "(string \<times> string \<times> string option) option \<Rightarrow> error + int" where
  "paystack_available cache =
     (case cache of
        None \<Rightarrow> Inr 0
      | Some (i, whole, kept) \<Rightarrow>
         (case (if i = PAYSTACK_WALLET then parse_bigint (if whole = [] then ''0'' else whole) else Inr 0) of
            Inl e \<Rightarrow> Inl e
          | Inr t \<Rightarrow> (case parse_bigint (case truthy kept of None \<Rightarrow> ''0'' | Some h \<Rightarrow> h) of
              Inl e \<Rightarrow> Inl e | Inr r \<Rightarrow> Inr (t - r))))"

definition upsertFailedLiquidity :: "env \<Rightarrow> (failedLiquidity \<Rightarrow> failedLiquidity) \<Rightarrow> failedLiquidity \<Rightarrow> unit dbm" where
  "upsertFailedLiquidity env f r =
     bindM (getM (failed_by_transaction (fl_transactionId r))) (\<lambda>x.
     if x = None then bindM (freshM env) (\<lambda>i. insertFailedLiquidity (r\<lparr>fl_id := i\<rparr>))
     else modifyM (\<lambda>d. d\<lparr>d_failedLiquidity :=
       update_where (\<lambda>y. fl_transactionId y = fl_transactionId r) f (d_failedLiquidity d)\<rparr>))"

definition sell_paystack_tx :: "env \<Rightarrow> sellQuote \<Rightarrow> transaction \<Rightarrow> string \<Rightarrow> unit dbm" where
  "sell_paystack_tx env q t ngn =
     (let shortage = (\<lambda>x. x\<lparr>fl_transactionType := Some ''SELL'', fl_fromCurrency := Some (lq_crypto q),
            fl_toCurrency := Some (if lq_fiatCurrency q = [] then to_upper BASE_CURRENCY else lq_fiatCurrency q),
            fl_amountOriginal := Some ngn, fl_currency := BASE_CURRENCY, fl_amountBase := lq_netFiatMinor q\<rparr>)
      in thenM (releaseLiquidity BASE_CURRENCY (lq_netFiatMinor q))
         (thenM (upsertFailedLiquidity env shortage (shortage (failed_liquidity_row env [] (t_id t) (lq_netFiatMinor q))))
           (updTransactions (\<lambda>x. t_id x = t_id t) (\<lambda>x. x\<lparr>t_meta := mset_all
              [(''liquidityReservationStatus'', ''insufficient''), (''providerLiquiditySource'', ''paystack'')] (t_meta t)\<rparr>))))"

section \<open>The order\<close>

definition sell_refused_tx :: "sellQuote \<Rightarrow> string \<Rightarrow> transaction \<Rightarrow> string \<Rightarrow> string \<Rightarrow> unit dbm" where
  "sell_refused_tx q userId t orderId response =
     thenM (releaseBalance userId (lq_crypto q) (sell_total q) None)
     (thenM (releaseLiquidity BASE_CURRENCY (lq_netFiatMinor q))
     (thenM (updTransactions (\<lambda>x. t_id x = t_id t) (\<lambda>x. x\<lparr>t_status := TxFAILED, t_isProcessed := True,
        t_meta := mset_all [(''sellOrderStatus'', ''failed''), (''sellOrderFailureResponse'', response),
          (''liquidityReservationStatus'', ''released''), (''liquidityReleaseReason'', ''sell_order_placement_failed'')] (t_meta t)\<rparr>))
       (updOrders (\<lambda>x. o_id x = orderId) (\<lambda>x. x\<lparr>o_status := OrFAILED, o_paymentStatus := PayFAILED\<rparr>))))"

definition sell_submitted_tx :: "transaction \<Rightarrow> string \<Rightarrow> orderAnswer \<Rightarrow> unit dbm" where
  "sell_submitted_tx t orderId a =
     (let reference = or_else (pa_reference a) (pa_id a);
          entries = (\<lambda>k v. case v of None \<Rightarrow> [] | Some x \<Rightarrow> [(k, x)])
      in thenM (updOrders (\<lambda>x. o_id x = orderId)
           (\<lambda>x. case reference of None \<Rightarrow> x | Some r \<Rightarrow> x\<lparr>o_referenceNo := Some r\<rparr>))
         (updTransactions (\<lambda>x. t_id x = t_id t) (\<lambda>x. x\<lparr>t_meta := mset_all
            (entries ''quidaxOrderReference'' reference @ entries ''quidaxOrderId'' (pa_id a) @ [(''sellOrderStatus'', ''submitted'')])
            (t_meta t)\<rparr>)))"

text \<open>The request; only an answer that is not a success is compensated, an exception is passed on as it is.\<close>

definition sell_order_request ::
    "env \<Rightarrow> sellWorld \<Rightarrow> sellQuote \<Rightarrow> string \<Rightarrow> transaction \<Rightarrow> string \<Rightarrow> string \<Rightarrow> orderAnswer sysm" where
  "sell_order_request env world q userId t orderId amount =
     thenM (callM (CallOrder (to_lower (lq_crypto q) @ BASE_CURRENCY) ''sell'' amount))
     (bindM (liftM (sl_order world)) (\<lambda>a.
      if pa_status a = ''success'' then returnM a
      else thenM (txM env ''sell_refused'' (sell_refused_tx q userId t orderId (pa_status a)))
        (throwM (BadGateway ''Failed to place sell order''))))"

section \<open>Confirmation\<close>

definition check_sell_quote :: "env \<Rightarrow> string \<Rightarrow> string \<Rightarrow> sellQuote sysm" where
  "check_sell_quote env userId previewId =
     bindM (getSellQuoteById env previewId) (\<lambda>q.
     thenM (requireM (lq_userId q = userId) (Unauthorized ''Not your quote''))
     (thenM (requireM (lq_pinVerified q) (Unauthorized ''PIN not verified'')) (returnM q)))"

definition check_sell :: "env \<Rightarrow> sellWorld \<Rightarrow> string \<Rightarrow> sellQuote \<Rightarrow> wallet sysm" where
  "check_sell env world userId q =
     bindM (getM (\<lambda>s. wallet_for userId (to_upper (lq_crypto q)) (s_db s))) (\<lambda>r.
     bindM (someM (case r of None \<Rightarrow> None | Some w \<Rightarrow> if w_quidaxWalletId w = [] then None else Some w)
         (BadRequest (''Wallet not found for '' @ lq_crypto q))) (\<lambda>w.
     bindM (liftM (minimum_ok env (lq_crypto q) (lq_exactCryptoMinor q))) (\<lambda>ok.
     thenM (requireM ok (BadRequest (''Minimum transaction amount is '' @ show_nat MIN_TRANSACTION_USDT @ '' USDT'')))
     (thenM (whenM (\<not> sl_bypass world)
         (bindM (liftM (fromBase (e_cv env) (ABigInt (lq_bufferedPriceMinor q)) (lq_fiatCurrency q) None)) (\<lambda>price.
            liftM (checkPriceSlippage env (sl_single world) (sl_fallback world) price False))))
       (returnM w)))))"

definition sell_view :: "string \<Rightarrow> string \<Rightarrow> string option \<Rightarrow> sellResult" where
  "sell_view message amount status =
     \<lparr>lr_message = message, lr_transaction = None, lr_sold = Some amount, lr_status = status\<rparr>"

definition sell_submitted_view :: "string \<Rightarrow> txStatus \<Rightarrow> sellResult" where
  "sell_submitted_view i status =
     \<lparr>lr_message = ''Sell already submitted'', lr_transaction = Some (i, status), lr_sold = None, lr_status = None\<rparr>"

definition QUEUED :: string where
  "QUEUED = ''Sell order is queued for processing''"

definition PLACED :: string where
  "PLACED = ''Sell order placed successfully.''"

definition sell_existing :: "env \<Rightarrow> sellWorld \<Rightarrow> string \<Rightarrow> string \<Rightarrow> sellQuote \<Rightarrow> transaction \<Rightarrow> sellResult sysm" where
  "sell_existing env world userId previewId q t =
     thenM (whenM (sl_bypass world \<and> t_status t \<noteq> TxCOMPLETED)
       (thenM (txM env ''sell_nonproduction'' (completeNonProductionSellConfirm_tx env q userId previewId (t_id t) (t_meta t)))
       (thenM (deleteQuote previewId) (callM (CallNotify (t_id t))))))
     (returnM (sell_submitted_view (t_id t) (if sl_bypass world then TxCOMPLETED else t_status t)))"

definition sell_continue ::
    "env \<Rightarrow> sellWorld \<Rightarrow> string \<Rightarrow> string \<Rightarrow> sellQuote \<Rightarrow> transaction \<Rightarrow> string \<Rightarrow> string \<Rightarrow> string \<Rightarrow> sellResult sysm" where
  "sell_continue env world userId previewId q t orderId amount ngn =
     bindM (liftM (paystack_available (sl_paystack world))) (\<lambda>available.
     if available < lq_netFiatMinor q
     then thenM (txM env ''sell_paystack'' (sell_paystack_tx env q t ngn))
       (thenM (deleteQuote previewId) (returnM (sell_view QUEUED amount None)))
     else
       bindM (sell_order_request env world q userId t orderId amount) (\<lambda>a.
       thenM (txM env ''sell_submitted'' (sell_submitted_tx t orderId a))
       (thenM (deleteQuote previewId)
       (bindM (getM (\<lambda>s. transaction_by_id (t_id t) (s_db s))) (\<lambda>x.
        thenM (whenM (x \<noteq> None) (callM (CallNotify (t_id t))))
          (returnM (sell_view PLACED amount (Some ''PROCESSING''))))))))"

definition confirmSell :: "env \<Rightarrow> sellWorld \<Rightarrow> string \<Rightarrow> string \<Rightarrow> sellResult sysm" where
  "confirmSell env world userId previewId =
     thenM (enforceConfirmationCooldown env userId)
     (bindM (check_sell_quote env userId previewId) (\<lambda>q.
      bindM (check_sell env world userId q) (\<lambda>w.
      bindM (liftM (fromBase (e_cv env) (ABigInt (lq_exactCryptoMinor q)) (to_upper (lq_crypto q)) None)) (\<lambda>amount.
      bindM (liftM (fromBase (e_cv env) (ABigInt (lq_netFiatMinor q)) (lq_fiatCurrency q) None)) (\<lambda>ngn.
      bindM (getM (\<lambda>s. transaction_by_uniqueId previewId (s_db s))) (\<lambda>existing.
        case existing of
          Some t \<Rightarrow> sell_existing env world userId previewId q t
        | None \<Rightarrow>
            bindM (getM (\<lambda>s. case lq_bankAccountId q of None \<Rightarrow> List.find (\<lambda>b. ba_userId b = userId) (d_bankAccounts (s_db s))
               | Some i \<Rightarrow> bank_account_of i userId (s_db s))) (\<lambda>rb.
            bindM (someM rb (BadRequest ''No bank account found for payout'')) (\<lambda>bank.
            bindM (sell_place env (sl_bypass world) userId previewId w q bank amount ngn) (\<lambda>placed.
              case placed of
                SellDuplicate i status \<Rightarrow> thenM (deleteQuote previewId) (returnM (sell_submitted_view i status))
              | SellQueued i \<Rightarrow> thenM (deleteQuote previewId) (returnM (sell_view QUEUED amount None))
              | SellReserved t orderId \<Rightarrow>
                  if sl_bypass world
                  then thenM (txM env ''sell_nonproduction'' (nonproduction_tx env q userId previewId orderId t))
                    (thenM (deleteQuote previewId)
                    (thenM (callM (CallNotify (t_id t))) (returnM (sell_view PLACED amount (Some ''COMPLETED'')))))
                  else sell_continue env world userId previewId q t orderId amount ngn)))))))))"

end
