(* ===== verification/Paystack.thy ===== *)
theory Paystack
  imports OrderDone Send
begin

text \<open>
  The webhook of the payment provider (\<^verbatim>\<open>payment-status.handler.ts\<close>): a card charge that succeeded places the
  buy order it pays for, one that failed releases the NGN reserved for it; a transfer that succeeded
  settles the payout of a sell or disburses a loan, one that failed opens the payout again.
\<close>

section \<open>Inputs\<close>

record chargeData =
  ch_status :: string
  ch_reference :: string
  ch_amount :: int
  ch_gateway_response :: string
  ch_channel :: string

text \<open>The answer of the verification: its status, its message and the data, when there are any.\<close>

record verification =
  ve_status :: bool
  ve_message :: string
  ve_data :: "chargeData option"

record placedOrder =
  po_status :: string
  po_message :: "string option"
  po_reference :: "string option"
  po_id :: "string option"

text \<open>
  \<open>py_naira n\<close> prints kobo as naira, \<open>py_print\<close> a decimal, \<open>py_value p a\<close> is the product of two decimals with two
  digits, \<open>py_date\<close> reads a date (all \<open>None\<close> or as decimal.js and \<^verbatim>\<open>Date\<close> give them).
\<close>

record paystackOps =
  py_naira :: "int \<Rightarrow> string"
  py_print :: "rat \<Rightarrow> string"
  py_value :: "string \<Rightarrow> string \<Rightarrow> string option"
  py_date :: "string \<Rightarrow> int option"

record paystackAnswers =
  an_verify :: "error + verification"
  an_order :: "error + placedOrder"
  an_price :: "string option"

definition meta_true :: "meta \<Rightarrow> string \<Rightarrow> bool" where
  "meta_true m k \<longleftrightarrow> mget m k \<noteq> [] \<and> mget m k \<noteq> ''false''"

text \<open>The fields of the charge, as they are spread into the metadata.\<close>

definition charge_meta :: "chargeData \<Rightarrow> meta" where
  "charge_meta c = [(''status'', ch_status c), (''reference'', ch_reference c), (''amount'', show_int (ch_amount c)),
     (''gateway_response'', ch_gateway_response c), (''channel'', ch_channel c)]"

definition set_meta :: "string \<Rightarrow> meta \<Rightarrow> unit dbm" where
  "set_meta i m = updTransactions (\<lambda>x. t_id x = i) (\<lambda>x. x\<lparr>t_meta := m\<rparr>)"

section \<open>A charge that succeeded\<close>

text \<open>An auto-stacking purchase is claimed for a quarter of an hour.\<close>

definition stack_claimed :: "env \<Rightarrow> paystackOps \<Rightarrow> meta \<Rightarrow> bool" where
  "stack_claimed env ops m \<longleftrightarrow>
     meta_true m ''autostackPaystackWebhookProcessing'' \<and> mget m ''autostackBuyOrderRequestedAt'' \<noteq> []
     \<and> (case py_date ops (mget m ''autostackBuyOrderRequestedAt'') of None \<Rightarrow> False | Some d \<Rightarrow> e_now env - d < 15 * 60 * 1000)"

definition handleAutoStackSuccess_tx :: "env \<Rightarrow> paystackOps \<Rightarrow> transaction \<Rightarrow> chargeData \<Rightarrow> bool dbm" where
  "handleAutoStackSuccess_tx env ops t c =
     bindM (getM (\<lambda>d. case transaction_by_id (t_id t) d of None \<Rightarrow> t_meta t | Some x \<Rightarrow> t_meta x)) (\<lambda>m.
     if stack_claimed env ops m \<or> meta_true m ''quidaxOrderProcessing'' \<or> meta_true m ''quidaxOrderReference''
       \<or> meta_true m ''quidaxOrderId'' \<or> meta_true m ''autostackBuyOrderSubmittedAt''
     then returnM True
     else thenM (set_meta (t_id t) (mset_all [(''autostackFlow'', ''BUY_ORDER''), (''autostackPaystackWebhookProcessing'', ''true''),
            (''autostackBuyOrderRequestedAt'', toISOString (e_now env))] (mset_all (t_meta t) (mset_all (charge_meta c) m))))
       (returnM False))"

text \<open>
  The claim of an order: under the row lock, unless the reservation was released or an order was
  claimed before. The metadata it read, when the claim is won.
\<close>

definition charge_claim_tx :: "transaction \<Rightarrow> chargeData \<Rightarrow> meta option dbm" where
  "charge_claim_tx t c =
     bindM (getM (current_meta (t_id t))) (\<lambda>m.
     if mget m ''liquidityReservationStatus'' = ''released'' then returnM None
     else if meta_true m ''quidaxOrderReference'' \<or> meta_true m ''quidaxOrderId'' \<or> meta_true m ''quidaxOrderProcessing''
     then returnM None
     else thenM (set_meta (t_id t) (mset_all [(''currency'', t_currency t), (''quidaxOrderProcessing'', ''true'')]
            (mset_all (charge_meta c) m)))
       (returnM (Some m)))"

definition charge_refused :: "transaction \<Rightarrow> chargeData \<Rightarrow> meta \<Rightarrow> string option \<Rightarrow> unit dbm" where
  "charge_refused t c m message =
     set_meta (t_id t) (mset_all [(''currency'', t_currency t), (''quidaxOrderStatus'', ''failed''),
       (''lastQuidaxError'', case message of None \<Rightarrow> ''order placement failed'' | Some x \<Rightarrow> x),
       (''buyOrderStatus'', ''failed_pending_resolution''), (''autostackPaystackWebhookProcessing'', ''false'')]
       (mset_all (charge_meta c) m))"

definition charged_order :: "paystackOps \<Rightarrow> env \<Rightarrow> string \<Rightarrow> transaction \<Rightarrow> chargeData \<Rightarrow> string option \<Rightarrow> order" where
  "charged_order ops env i t c reference =
     \<lparr>o_id = i, o_transactionId = t_id t, o_userId = t_userId t, o_cryptoAmountBase = t_cryptoAmountBase t,
      o_cryptoAmountOriginal = t_cryptoAmountOriginal t, o_fiatAmountBase = t_fiatAmountBase t,
      o_fiatAmountOriginal = t_fiatAmountOriginal t, o_fiatCurrency = to_upper BASE_CURRENCY, o_status = OrPENDING,
      o_type = OBUY, o_referenceNo = reference, o_paymentStatus = PayPAID, o_paymentReference = Some (ch_reference c),
      o_paymentChannel = Some (ch_channel c), o_paymentAmountBase = Some (ch_amount c),
      o_paymentAmountOriginal = Some (py_naira ops (ch_amount c)), o_paymentDate = Some (e_now env)\<rparr>"

definition charge_placed_tx ::
    "env \<Rightarrow> paystackOps \<Rightarrow> transaction \<Rightarrow> chargeData \<Rightarrow> meta \<Rightarrow> placedOrder \<Rightarrow> unit dbm" where
  "charge_placed_tx env ops t c m p =
     (let reference = or_else (po_reference p) (po_id p);
          entries = (\<lambda>k v. case v of None \<Rightarrow> [] | Some x \<Rightarrow> [(k, x)])
      in bindM (getM (order_by_transaction (t_id t))) (\<lambda>r.
         thenM (case r of
             Some x \<Rightarrow> updOrders (\<lambda>y. o_transactionId y = t_id t) (\<lambda>y. (case reference of None \<Rightarrow> y
                 | Some n \<Rightarrow> y\<lparr>o_referenceNo := Some n\<rparr>)\<lparr>o_status := OrPENDING, o_type := OBUY, o_paymentStatus := PayPAID,
                 o_paymentReference := Some (ch_reference c), o_paymentChannel := Some (ch_channel c),
                 o_paymentDate := Some (e_now env)\<rparr>)
           | None \<Rightarrow> bindM (freshM env) (\<lambda>i. insertOrder (charged_order ops env i t c reference)))
           (set_meta (t_id t) (mset_all ([(''currency'', t_currency t)] @ entries ''quidaxOrderReference'' reference
              @ entries ''quidaxOrderId'' (po_id p) @ [(''quidaxOrderProcessing'', ''false''),
                (''autostackPaystackWebhookProcessing'', ''false''), (''autostackBuyOrderSubmittedAt'', toISOString (e_now env))])
              (mset_all (charge_meta c) m)))))"

definition charge_volume :: "env \<Rightarrow> transaction \<Rightarrow> error + rat" where
  "charge_volume env t =
     (case decimal_of env (case t_cryptoAmountOriginal t of None \<Rightarrow> ''0'' | Some a \<Rightarrow> a) of
        Inl e \<Rightarrow> Inl e
      | Inr v \<Rightarrow> if v \<le> 0 then Inl (BadRequest ''Invalid crypto volume for buy order'') else Inr v)"

definition handleSuccess :: "env \<Rightarrow> paystackOps \<Rightarrow> paystackAnswers \<Rightarrow> transaction \<Rightarrow> chargeData \<Rightarrow> unit sysm" where
  "handleSuccess env ops ans t c =
     bindM (if t_context t = CtxAUTOSTACK then txM env ''charge_stack'' (handleAutoStackSuccess_tx env ops t c) else returnM False)
       (\<lambda>handled.
     if handled then returnM ()
     else
       bindM (liftM (charge_volume env t)) (\<lambda>volume.
       bindM (txM env ''charge_claim'' (charge_claim_tx t c)) (\<lambda>claim.
         case claim of
           None \<Rightarrow> returnM ()
         | Some m \<Rightarrow>
             thenM (callM (CallOrder (to_lower (t_currency t) @ BASE_CURRENCY) ''buy'' (py_print ops volume)))
             (bindM (liftM (an_order ans)) (\<lambda>p.
              if po_status p \<noteq> ''success''
              then thenM (dbM (charge_refused t c m (po_message p)))
                (throwM (PlainError ''Buy order placement failed. Queued retry will re-attempt.''))
              else txM env ''charge_placed'' (charge_placed_tx env ops t c m p))))))"

section \<open>A charge that failed\<close>

definition handleFailure_tx :: "env \<Rightarrow> string \<Rightarrow> chargeData \<Rightarrow> unit dbm" where
  "handleFailure_tx env i c =
     bindM (getM (transaction_by_id i)) (\<lambda>r.
     bindM (someM r (NotFound (''Transaction not found: '' @ i))) (\<lambda>t.
     bindM (liftM (reserved_of t)) (\<lambda>reserved.
     let m = t_meta t; released = (mget m ''liquidityReservationStatus'' = ''released'') in
     thenM (whenM (\<not> released \<and> reserved > 0 \<and> mget m ''liquidityReservationStatus'' = ''reserved'')
       (releaseLiquidity BASE_CURRENCY reserved))
     (updTransactions (\<lambda>x. t_id x = i) (\<lambda>x. x\<lparr>t_status := TxFAILED, t_isProcessed := True, t_meta := mset_all
        ([(''provider'', ''Paystack''), (''reference'', ch_reference c), (''gateway_response'', ch_gateway_response c),
          (''verifiedAmount'', show_int (ch_amount c)), (''processedAt'', toISOString (e_now env)),
          (''liquidityReservationStatus'', ''released'')]
          @ (if released then [] else [(''liquidityReleasedAt'', toISOString (e_now env)), (''liquidityReleaseReason'', ''payment_failed'')])) m\<rparr>)))))"

text \<open>The mark is written in a second statement, over the metadata the first one read.\<close>

definition processed_meta :: "env \<Rightarrow> string \<Rightarrow> meta \<Rightarrow> meta" where
  "processed_meta env event m =
     mset_all [(''paystackWebhookProcessedAt'', toISOString (e_now env)), (''paystackWebhookEvent'', event)] m"

definition markPaystackWebhookProcessed :: "env \<Rightarrow> string \<Rightarrow> string \<Rightarrow> unit sysm" where
  "markPaystackWebhookProcessed env i event =
     bindM (getM (\<lambda>s. current_meta i (s_db s))) (\<lambda>m. dbM (set_meta i (processed_meta env event m)))"

definition charge_process :: "env \<Rightarrow> paystackOps \<Rightarrow> paystackAnswers \<Rightarrow> string option \<Rightarrow> unit sysm" where
  "charge_process env ops ans reference =
     bindM (someM (truthy reference) (BadRequest ''Missing transaction reference'')) (\<lambda>ref.
     bindM (getM (\<lambda>s. transaction_by_uniqueId ref (s_db s))) (\<lambda>r.
     bindM (someM r (NotFound (''Transaction not found for reference '' @ ref))) (\<lambda>t.
     if t_status t = TxSUCCESS \<or> t_status t = TxFAILED then returnM ()
     else
       bindM (liftM (an_verify ans)) (\<lambda>v.
       bindM (someM (if ve_status v then ve_data v else None) (BadRequest (''Verification failed: '' @ ve_message v))) (\<lambda>c.
       thenM (if ch_status c = ''success'' then handleSuccess env ops ans t c
              else txM env ''charge_failure'' (handleFailure_tx env (t_id t) c))
       (thenM (markPaystackWebhookProcessed env (t_id t) ''charge.success'')
         (callM (CallNotify (t_id t)))))))))"

section \<open>A transfer that succeeded\<close>

definition loan_disbursed_tx :: "string \<Rightarrow> unit dbm" where
  "loan_disbursed_tx i =
     bindM (getM (loan_by_id i)) (\<lambda>r.
     if (case r of None \<Rightarrow> False | Some l \<Rightarrow> ul_status l \<in> set [LnDISBURSED, LnREPAID, LnDEADLINE_EXCEEDED]) then returnM ()
     else if (case r of None \<Rightarrow> True | Some l \<Rightarrow> ul_status l \<noteq> LnQUIDAX_COMPLETED) then returnM ()
     else updLoans (\<lambda>l. ul_id l = i) (\<lambda>l. l\<lparr>ul_status := LnDISBURSED\<rparr>))"

definition sent_base :: "transaction \<Rightarrow> int" where
  "sent_base t = (case t_totalAmountSentBase t of Some a \<Rightarrow> a | None \<Rightarrow> or0 (t_cryptoAmountBase t))"

text \<open>The debit names the currency as the transaction spells it.\<close>

definition payout_wallet :: "transaction \<Rightarrow> wallet \<Rightarrow> bool" where
  "payout_wallet t w \<longleftrightarrow> w_userId w = t_userId t \<and> w_currency w = t_currency t"

definition w_debit :: "int \<Rightarrow> wallet \<Rightarrow> wallet option" where
  "w_debit a w = (if w_baseBalance w \<ge> a then Some (w\<lparr>w_baseBalance := w_baseBalance w - a\<rparr>) else None)"

definition payout_debit :: "env \<Rightarrow> transaction \<Rightarrow> unit dbm" where
  "payout_debit env t =
     bindM (getM (\<lambda>d. List.find (\<lambda>w. payout_wallet t w \<and> w_debit (sent_base t) w \<noteq> None) (d_wallets d))) (\<lambda>r.
     thenM (sqlWallets (payout_wallet t) (w_debit (sent_base t)))
     (bindM (someM r (PlainError (''Sell payout '' @ t_id t @ '': insufficient '' @ t_currency t @ '' balance to finalize''))) (\<lambda>w.
      bindM (liftM (fromBase (e_cv env) (ABigInt (w_baseBalance w - sent_base t)) (t_currency t) None)) (\<lambda>shown.
        updWallets (payout_wallet t) (\<lambda>x. x\<lparr>w_originalBalance := shown\<rparr>)))))"

text \<open>What was sold, in kobo at the price of the day.\<close>

definition sold_naira :: "env \<Rightarrow> paystackOps \<Rightarrow> string option \<Rightarrow> transaction \<Rightarrow> error + int" where
  "sold_naira env ops price t =
     (case truthy price of None \<Rightarrow> Inr 0 | Some p \<Rightarrow>
     (case decimal_of env p of Inl e \<Rightarrow> Inl e | Inr v \<Rightarrow>
        if v \<le> 0 then Inr 0
        else (case (case truthy (t_cryptoAmountOriginal t) of Some a \<Rightarrow> Inr a
               | None \<Rightarrow> fromBase (e_cv env) (ABigInt (sent_base t)) (t_currency t) None) of
            Inl e \<Rightarrow> Inl e
          | Inr a \<Rightarrow> (case py_value ops p a of None \<Rightarrow> Inl DECIMAL_ERROR | Some x \<Rightarrow> toBase (e_cv env) x ''ngn'' None))))"

definition payout_records :: "env \<Rightarrow> order \<Rightarrow> transaction \<Rightarrow> unit dbm" where
  "payout_records env r t =
     thenM (updOrders (\<lambda>x. o_id x = o_id r) (\<lambda>x. x\<lparr>o_status := OrCOMPLETED, o_paymentStatus := PayPAID, o_paymentDate := Some (e_now env)\<rparr>))
       (updTransactions (\<lambda>x. t_id x = t_id t) (\<lambda>x. x\<lparr>t_status := TxCOMPLETED, t_isProcessed := True, t_meta := mset_all
          [(''payoutStatus'', ''success''), (''payoutSettledAt'', toISOString (e_now env)),
           (''liquidityReservationStatus'', ''released''), (''liquidityReleasedAt'', toISOString (e_now env)),
           (''liquidityReleaseReason'', ''sell_payout_paid'')] (t_meta t)\<rparr>))"

definition payout_shortfall :: "env \<Rightarrow> transaction \<Rightarrow> unit dbm" where
  "payout_shortfall env t =
     bindM (isInternalBalanceExceeding (to_lower (t_currency t))) (\<lambda>exceeds.
       whenM exceeds (bindM (freshM env) (\<lambda>i. insertFailedLiquidity
         \<lparr>fl_id = i, fl_transactionId = t_id t, fl_transactionType = None, fl_fromCurrency = None, fl_toCurrency = None,
          fl_amountOriginal = None, fl_currency = to_lower (t_currency t), fl_amountBase = sent_base t, fl_createdAt = e_now env\<rparr>)))"

definition payout_tx :: "env \<Rightarrow> paystackOps \<Rightarrow> string option \<Rightarrow> order \<Rightarrow> transaction \<Rightarrow> unit dbm" where
  "payout_tx env ops price r t =
     thenM (releaseLiquidity BASE_CURRENCY (t_fiatAmountBase t))
     (thenM (releaseBalance (t_userId t) (t_currency t) (sent_base t) None)
     (thenM (payout_debit env t)
     (bindM (liftM (sold_naira env ops price t)) (\<lambda>sold.
      thenM (updUsers (\<lambda>u. u_id u = t_userId t) (\<lambda>u. u\<lparr>u_amountSold := u_amountSold u + sold\<rparr>))
      (thenM (payout_records env r t)
      (thenM (updateInternalBalance env (t_currency t) (sent_base t) Subtract)
        (payout_shortfall env t)))))))"

definition handleTransferSuccess :: "env \<Rightarrow> paystackOps \<Rightarrow> string option \<Rightarrow> string option \<Rightarrow> unit sysm" where
  "handleTransferSuccess env ops price reference =
     (case truthy reference of
        None \<Rightarrow> returnM ()
      | Some ref \<Rightarrow>
          bindM (getM (\<lambda>s. List.find (\<lambda>x. o_paymentReference x = Some ref \<and> o_type x = OSELL) (d_orders (s_db s)))) (\<lambda>ro.
            case ro of
              None \<Rightarrow>
                bindM (getM (\<lambda>s. List.find (\<lambda>l. ul_paystackTransferId l = Some ref) (d_loans (s_db s)))) (\<lambda>rl.
                  case rl of None \<Rightarrow> returnM () | Some l \<Rightarrow> txM env ''loan_disbursed'' (loan_disbursed_tx (ul_id l)))
            | Some r \<Rightarrow>
                bindM (getM (\<lambda>s. transaction_by_id (o_transactionId r) (s_db s))) (\<lambda>rt.
                  case rt of
                    None \<Rightarrow> returnM ()
                  | Some t \<Rightarrow>
                      if mget (t_meta t) ''payoutStatus'' = ''success'' \<or> sent_base t \<le> 0 then returnM ()
                      else thenM (txM env ''payout'' (payout_tx env ops price r t))
                        (thenM (callM (CallDashboard (t_id t) (t_fiatAmountBase t))) (syncAllToCache env)))))"

section \<open>A transfer that failed\<close>

definition loan_transfer_failed_tx :: "string \<Rightarrow> string \<Rightarrow> unit dbm" where
  "loan_transfer_failed_tx i event =
     bindM (getM (loan_by_id i)) (\<lambda>r.
     if (case r of None \<Rightarrow> False | Some l \<Rightarrow> loan_over (ul_status l)) then returnM ()
     else updLoans (\<lambda>l. ul_id l = i) (\<lambda>l. l\<lparr>ul_status := LnFAILED, ul_failureReason := Some (''Paystack transfer failed: '' @ event)\<rparr>))"

definition transfer_failed_tx :: "env \<Rightarrow> order \<Rightarrow> transaction \<Rightarrow> string \<Rightarrow> unit dbm" where
  "transfer_failed_tx env r t event =
     thenM (updOrders (\<lambda>x. o_id x = o_id r) (\<lambda>x. x\<lparr>o_status := OrPROCESSING, o_paymentStatus := PayFAILED\<rparr>))
       (updTransactions (\<lambda>x. t_id x = t_id t) (\<lambda>x. x\<lparr>t_status := TxPENDING, t_isProcessed := False, t_meta := mset_all
          [(''payoutStatus'', ''failed_retry_required''), (''payoutFailedAt'', toISOString (e_now env)),
           (''payoutFailureEvent'', event), (''liquidityReservationStatus'', ''reserved''),
           (''payoutFailureNote'', ''Paystack payout failed; crypto and payout liquidity remain reserved for retry/manual payout'')]
          (t_meta t)\<rparr>))"

definition handleTransferFailure :: "env \<Rightarrow> string option \<Rightarrow> string \<Rightarrow> unit sysm" where
  "handleTransferFailure env reference event =
     (case truthy reference of
        None \<Rightarrow> returnM ()
      | Some ref \<Rightarrow>
          bindM (getM (\<lambda>s. List.find (\<lambda>x. o_paymentReference x = Some ref) (d_orders (s_db s)))) (\<lambda>ro.
            case ro of
              None \<Rightarrow>
                bindM (getM (\<lambda>s. List.find (\<lambda>l. ul_paystackTransferId l = Some ref) (d_loans (s_db s)))) (\<lambda>rl.
                  case rl of None \<Rightarrow> returnM ()
                  | Some l \<Rightarrow> txM env ''loan_transfer_failed'' (loan_transfer_failed_tx (ul_id l) event))
            | Some r \<Rightarrow>
                bindM (getM (\<lambda>s. transaction_by_id (o_transactionId r) (s_db s))) (\<lambda>rt.
                  case rt of
                    None \<Rightarrow> returnM ()
                  | Some t \<Rightarrow>
                      if mget (t_meta t) ''payoutStatus'' = ''failed'' then returnM ()
                      else txM env ''transfer_failed'' (transfer_failed_tx env r t event))))"

section \<open>The webhook\<close>

definition paystack_process ::
    "env \<Rightarrow> paystackOps \<Rightarrow> paystackAnswers \<Rightarrow> string \<Rightarrow> string option \<Rightarrow> unit sysm" where
  "paystack_process env ops ans event reference =
     (if event = ''charge.success'' then charge_process env ops ans reference
      else if event = ''transfer.success'' then handleTransferSuccess env ops (an_price ans) reference
      else if event = ''transfer.failed'' \<or> event = ''transfer.reversed'' then handleTransferFailure env reference event
      else returnM ())"

end
