(* ===== verification/SwapService.thy ===== *)
theory SwapService
  imports StackBooks
begin

text \<open>
  Swapping one crypto for another (\<^verbatim>\<open>swap.service.ts\<close>): the preview of a quote and its
  confirmation, which refreshes the provider's quotation, reserves the user's balance and the company's
  liquidity, asks the provider, and records the swap. The end comes in by the swap webhook
  (theory \<open>SwapWebhook\<close>).
\<close>

section \<open>Preview\<close>

record swapView =
  xv_previewId :: string
  xv_from :: string
  xv_to :: string
  xv_amountIn :: string
  xv_platformFee :: string
  xv_estimatedOut :: string
  xv_marketRate :: string
  xv_protectedRate :: string
  xv_bufferSpread :: string
  xv_expiresIn :: int
  xv_pinVerified :: bool

definition swap_quote_of :: "env \<Rightarrow> string \<Rightarrow> sys \<Rightarrow> swapQuote option" where
  "swap_quote_of env quoteId s =
     (case temp_lookup env (''swap:'' @ quoteId) s of Some (TSwapQuote q) \<Rightarrow> Some q | _ \<Rightarrow> None)"

definition previewSwap :: "env \<Rightarrow> string \<Rightarrow> string \<Rightarrow> swapView sysm" where
  "previewSwap env userId quoteId =
     bindM (getM (swap_quote_of env quoteId)) (\<lambda>r.
     bindM (someM r (NotFound ''Swap quote not found or expired'')) (\<lambda>q.
     thenM (requireM (xq_userId q = userId) (Unauthorized ''Quote does not belong to this user''))
     (thenM (whenM (e_now env > xq_expiresAt q)
        (thenM (tempDel (''swap:'' @ quoteId))
          (throwM (BadRequest ''Swap quote has expired. Please request a new one.''))))
     (bindM (liftM (fromBase (e_cv env) (ABigInt (xq_exactFromMinor q)) (xq_from q) None)) (\<lambda>amountIn.
      bindM (liftM (fromBase (e_cv env) (ABigInt (xq_platformFeeMinor q)) (xq_from q) None)) (\<lambda>fee.
      bindM (liftM (fromBase (e_cv env) (ABigInt (xq_estimatedOutMinor q)) (xq_to q) None)) (\<lambda>out.
      bindM (liftM (fromBase (e_cv env) (ABigInt (xq_marketRateMinor q)) (xq_to q) None)) (\<lambda>market.
      bindM (liftM (fromBase (e_cv env) (ABigInt (xq_protectedRateMinor q)) (xq_to q) None)) (\<lambda>protected.
      bindM (liftM (fromBase (e_cv env) (ABigInt (xq_bufferSpreadMinor q)) (xq_to q) None)) (\<lambda>spread.
        returnM \<lparr>xv_previewId = quoteId, xv_from = xq_from q, xv_to = xq_to q, xv_amountIn = amountIn,
          xv_platformFee = fee, xv_estimatedOut = out, xv_marketRate = market, xv_protectedRate = protected,
          xv_bufferSpread = spread, xv_expiresIn = max 0 ((xq_expiresAt q - e_now env) div 1000),
          xv_pinVerified = xq_pinVerified q\<rparr>))))))))))"

section \<open>What the provider answers\<close>

text \<open>
  \<open>ra_id\<close> and \<open>ra_price\<close> are the id and the quoted price of the refreshed quotation; the fields of
  \<open>swapConfirmAnswer\<close> those of the confirmed swap that the code reads. \<open>ss_fixed\<close> is \<^verbatim>\<open>toFixed\<close> of a
  decimal, \<open>ss_sum\<close> the printed sum of two.
\<close>

record refreshAnswer =
  ra_id :: "string option"
  ra_price :: string

record swapConfirmAnswer =
  ca_id :: "string option"
  ca_status :: "string option"
  ca_execution_price :: "string option"
  ca_received_amount :: "string option"
  ca_quotation :: "string option"
  ca_from_amount :: string
  ca_updatedAt :: "int option"

record swapSvcOps =
  ss_fixed :: "rat \<Rightarrow> nat \<Rightarrow> string"
  ss_sum :: "string \<Rightarrow> string \<Rightarrow> string"

section \<open>Confirmation\<close>

fun has_substring :: "string \<Rightarrow> string \<Rightarrow> bool" where
  "has_substring needle [] = (needle = [])"
| "has_substring needle (c # cs) = (starts_with needle (c # cs) \<or> has_substring needle cs)"

definition check_swap_quote :: "env \<Rightarrow> string \<Rightarrow> string \<Rightarrow> swapQuote sysm" where
  "check_swap_quote env userId quoteId =
     bindM (getM (swap_quote_of env quoteId)) (\<lambda>r.
     bindM (someM r (NotFound ''Swap quote not found or expired'')) (\<lambda>q.
     thenM (requireM (xq_userId q = userId) (Unauthorized ''Not your quote''))
     (thenM (requireM (xq_pinVerified q) (Unauthorized ''PIN not verified''))
     (thenM (whenM (e_now env > xq_expiresAt q)
        (thenM (tempDel (''swap:'' @ quoteId)) (throwM (BadRequest ''Quote expired.''))))
       (returnM q)))))"

definition swap_minimum :: "env \<Rightarrow> swapQuote \<Rightarrow> error + bool" where
  "swap_minimum env q =
     (if to_upper (xq_from q) \<noteq> ''USDT'' then Inr True
      else (case fromBase (e_cv env) (ABigInt (xq_exactFromMinor q)) (xq_from q) None of
          Inl e \<Rightarrow> Inl e
        | Inr amount \<Rightarrow> (case e_decValue env amount of
              None \<Rightarrow> Inl (PlainError ''DecimalError: Invalid argument'')
            | Some x \<Rightarrow> Inr (2 \<le> x))))"

text \<open>The refreshed quotation may not be worse than the rate the quote protects.\<close>

definition rate_guard :: "env \<Rightarrow> swapSvcOps \<Rightarrow> swapQuote \<Rightarrow> error + refreshAnswer \<Rightarrow> error + string" where
  "rate_guard env ops q answer =
     (case answer of Inl e \<Rightarrow> Inl e | Inr a \<Rightarrow>
     (case truthy (ra_id a) of None \<Rightarrow> Inl (BadRequest ''Cannot complete swap at the moment. Try again later.'') | Some i \<Rightarrow>
     (case e_decValue env (ra_price a) of None \<Rightarrow> Inl (PlainError ''DecimalError: Invalid argument'') | Some quoted \<Rightarrow>
     (case fromBase (e_cv env) (ABigInt (xq_protectedRateMinor q)) (xq_to q) None of Inl e \<Rightarrow> Inl e | Inr p \<Rightarrow>
     (case e_decValue env p of None \<Rightarrow> Inl (PlainError ''DecimalError: Invalid argument'') | Some protected \<Rightarrow>
        if quoted < protected
        then Inl (BadRequest (''Swap rate slipped. Quoted: '' @ ss_fixed ops quoted (xq_toDecimals q)
          @ '' < Protected: '' @ ss_fixed ops protected (xq_toDecimals q) @ ''.''))
        else Inr i)))))"

definition swap_reserved :: "swapQuote \<Rightarrow> int" where
  "swap_reserved q = xq_exactFromMinor q + xq_platformFeeMinor q"

definition swap_params :: "string \<Rightarrow> string \<Rightarrow> string option \<Rightarrow> swapQuote \<Rightarrow> string \<Rightarrow> string \<Rightarrow> string \<Rightarrow> txParams" where
  "swap_params userId quoteId network q human fee whole =
     \<lparr>p_userId = userId, p_receiverWalletAddress = None, p_senderWalletAddress = None, p_paymentType = None,
      p_paymentMetadata = [], p_platformWalletAddress = None, p_transactionUniqueId = quoteId,
      p_network = truthy network, p_currency = to_upper (xq_from q), p_cryptoAmountBase = Some (xq_exactFromMinor q),
      p_fiatAmountBase = 0, p_cryptoAmountOriginal = Some human, p_fiatAmountOriginal = Some ''0'',
      p_platformFeeBase = Some (xq_platformFeeMinor q), p_platformFeeOriginal = Some fee,
      p_bufferAmountBase = None, p_bufferAmountOriginal = None, p_totalAmountSentBase = Some (swap_reserved q),
      p_totalAmountSentOriginal = Some whole, p_transactionType = DEBIT, p_transactionContext = CtxSWAP,
      p_status = Some TxPENDING\<rparr>"

definition swap_failed_liquidity :: "env \<Rightarrow> string \<Rightarrow> string \<Rightarrow> swapQuote \<Rightarrow> string \<Rightarrow> failedLiquidity" where
  "swap_failed_liquidity env i transactionId q human =
     \<lparr>fl_id = i, fl_transactionId = transactionId, fl_transactionType = Some ''SWAP'',
      fl_fromCurrency = Some (to_upper (xq_from q)), fl_toCurrency = Some (to_upper (xq_to q)),
      fl_amountOriginal = Some human, fl_currency = to_upper (xq_from q), fl_amountBase = xq_exactFromMinor q,
      fl_createdAt = e_now env\<rparr>"

text \<open>The transaction that records and reserves: its id, and whether the company could cover it.\<close>

definition swap_reserve_tx :: "env \<Rightarrow> string \<Rightarrow> string \<Rightarrow> string option \<Rightarrow> swapQuote \<Rightarrow> string \<Rightarrow> (transaction \<times> bool) dbm" where
  "swap_reserve_tx env userId quoteId network q human =
     bindM (liftM (fromBase (e_cv env) (ABigInt (xq_platformFeeMinor q)) (xq_from q) None)) (\<lambda>fee.
     bindM (liftM (fromBase (e_cv env) (ABigInt (swap_reserved q)) (xq_from q) None)) (\<lambda>whole.
     bindM (createTransaction env (swap_params userId quoteId network q human fee whole)) (\<lambda>t.
     thenM (reserveBalance userId (xq_from q) (swap_reserved q) (Some network))
     (bindM (reserveLiquidity (xq_from q) (xq_exactFromMinor q)) (\<lambda>reserved.
      thenM (whenM (\<not> reserved)
        (bindM (freshM env) (\<lambda>fi. insertFailedLiquidity (swap_failed_liquidity env fi (t_id t) q human))))
       (returnM (t, reserved)))))))"

definition swap_reservation_error :: "error \<Rightarrow> error" where
  "swap_reservation_error e = (case e of
       BadRequest m \<Rightarrow> if has_substring ''insufficient'' (to_lower m) then e
         else BadRequest ''Cannot confrim swap at the moment. Please try again later''
     | _ \<Rightarrow> BadRequest ''Cannot confrim swap at the moment. Please try again later'')"

text \<open>The confirmation of the provider must have the shape of a swap transaction.\<close>

definition confirmed_shape :: "error + swapConfirmAnswer option \<Rightarrow> error + (string \<times> swapConfirmAnswer)" where
  "confirmed_shape answer =
     (case answer of
        Inl e \<Rightarrow> Inl e
      | Inr r \<Rightarrow> (case r of
            None \<Rightarrow> Inl (BadRequest ''Unexpected confirm response from swap provider.'')
          | Some a \<Rightarrow>
              (case truthy (ca_id a) of
                 None \<Rightarrow> Inl (BadRequest ''Unexpected confirm response from swap provider.'')
               | Some i \<Rightarrow>
                   if truthy (ca_execution_price a) \<noteq> None \<and> truthy (ca_status a) \<noteq> None
                     \<and> truthy (ca_received_amount a) \<noteq> None \<and> truthy (ca_quotation a) \<noteq> None
                   then Inr (i, a)
                   else Inl (BadRequest ''Unexpected confirm response from swap provider.''))))"

definition swap_compensate_tx :: "string \<Rightarrow> string option \<Rightarrow> swapQuote \<Rightarrow> transaction \<Rightarrow> string \<Rightarrow> unit dbm" where
  "swap_compensate_tx userId network q t message =
     thenM (releaseBalance userId (xq_from q) (swap_reserved q) (Some network))
     (thenM (releaseLiquidity (xq_from q) (xq_exactFromMinor q))
       (updTransactions (\<lambda>x. t_id x = t_id t) (\<lambda>x. x\<lparr>t_status := TxFAILED, t_isProcessed := True,
          t_meta := mset_all [(''swapOrderStatus'', ''failed''), (''swapOrderFailureResponse'',
            if message = [] then ''Unknown error'' else message)] (t_meta t)\<rparr>)))"

definition swap_description :: "string \<Rightarrow> string \<Rightarrow> string" where
  "swap_description from into = ''Swap '' @ from @ '' '' @ ARROW @ '' '' @ into"

definition swap_row :: "string \<Rightarrow> string \<Rightarrow> string \<Rightarrow> string \<Rightarrow> swapQuote \<Rightarrow> string \<Rightarrow> swapConfirmAnswer \<Rightarrow> string \<Rightarrow> string \<Rightarrow> swapTransaction" where
  "swap_row i userId quidaxId quoteId q swapId a rate fee =
     \<lparr>sw_id = i, sw_userId = userId, sw_quidaxAccountId = quidaxId, sw_fromCurrency = to_upper (xq_from q),
      sw_toCurrency = to_upper (xq_to q), sw_amountOriginal = ca_from_amount a, sw_quotedPriceOriginal = Some rate,
      sw_feeOriginal = Some fee, sw_toAmountOriginal = ca_received_amount a, sw_receivedAmountOriginal = None,
      sw_quoteId = Some quoteId, sw_swapId = Some swapId, sw_status = ''PENDING'', sw_confirmed = False,
      sw_executionPriceOriginal = ca_execution_price a, sw_description = Some (swap_description (xq_from q) (xq_to q))\<rparr>"

definition swap_record_tx ::
    "env \<Rightarrow> swapSvcOps \<Rightarrow> string \<Rightarrow> string \<Rightarrow> string \<Rightarrow> swapQuote \<Rightarrow> transaction \<Rightarrow> string \<Rightarrow> swapConfirmAnswer \<Rightarrow> string dbm" where
  "swap_record_tx env ops userId quidaxId quoteId q t swapId a =
     bindM (liftM (fromBase (e_cv env) (ABigInt (xq_platformFeeMinor q)) (xq_from q) None)) (\<lambda>fee.
     bindM (liftM (case e_decValue env (ca_from_amount a) of
         None \<Rightarrow> Inl (PlainError ''DecimalError: Invalid argument'') | Some _ \<Rightarrow> Inr (ss_sum ops (ca_from_amount a) fee))) (\<lambda>whole.
     thenM (setUniqueId (t_id t) swapId)
     (thenM (updTransactions (\<lambda>x. t_id x = t_id t) (\<lambda>x. x\<lparr>t_cryptoAmountOriginal := Some (ca_from_amount a),
         t_platformFeeOriginal := Some fee, t_totalAmountSentOriginal := Some whole,
         t_executedCryptoAmountBase := Some (xq_exactFromMinor q), t_executionPrice := ca_execution_price a,
         t_executedAt := Some (case ca_updatedAt a of None \<Rightarrow> e_now env | Some d \<Rightarrow> d)\<rparr>))
     (bindM (liftM (fromBase (e_cv env) (ABigInt (xq_protectedRateMinor q)) (xq_to q) None)) (\<lambda>rate.
      bindM (freshM env) (\<lambda>i.
      thenM (createSwap (swap_row i userId quidaxId quoteId q swapId a rate fee))
        (returnM i)))))))"

record swapResult =
  xr_swapRecordId :: "string option"
  xr_quidaxSwapId :: "string option"
  xr_status :: "string option"
  xr_message :: string

definition AWAITING :: string where
  "AWAITING = ''Swap request successful. Awaiting confirmation''"

definition SUBMITTED :: string where
  "SUBMITTED = ''Swap already submitted.''"

text \<open>The provider call with its compensation, and the records of the swap.\<close>

definition swap_confirm ::
    "env \<Rightarrow> error + swapConfirmAnswer option \<Rightarrow> string \<Rightarrow> string \<Rightarrow> string option \<Rightarrow> swapQuote \<Rightarrow> transaction \<Rightarrow> string
       \<Rightarrow> (string \<times> swapConfirmAnswer) sysm" where
  "swap_confirm env answer userId quoteId network q t refreshed =
     thenM (callM (CallSwapConfirm refreshed))
     (catchM (liftM (confirmed_shape answer))
       (\<lambda>e. thenM (txM env ''swap_compensate'' (swap_compensate_tx userId network q t (err_msg e)))
         (thenM (tempDel (''swap:'' @ quoteId))
           (throwM (BadRequest (if err_msg e = [] then ''Swap failed.'' else err_msg e))))))"

definition confirmSwap ::
    "env \<Rightarrow> swapSvcOps \<Rightarrow> error + refreshAnswer \<Rightarrow> error + swapConfirmAnswer option \<Rightarrow> string \<Rightarrow> string \<Rightarrow> swapResult sysm" where
  "confirmSwap env ops refresh answer userId quoteId =
     thenM (enforceConfirmationCooldown env userId)
     (bindM (check_swap_quote env userId quoteId) (\<lambda>q.
      bindM (getM (\<lambda>s. wallet_for userId (xq_from q) (s_db s))) (\<lambda>rf.
      bindM (getM (\<lambda>s. wallet_for userId (xq_to q) (s_db s))) (\<lambda>rt.
      thenM (requireM (rt \<noteq> None) (NotFound ''Swap wallet not found''))
      (bindM (someM rf (NotFound ''Swap wallet not found'')) (\<lambda>fromWallet.
       bindM (liftM (swap_minimum env q)) (\<lambda>enough.
       thenM (requireM enough (BadRequest ''Minimum swap amount is 2 USDT equivalent''))
       (bindM (getM (\<lambda>s. List.find (\<lambda>x. sw_quoteId x = Some quoteId \<and> sw_userId x = userId) (d_swaps (s_db s)))) (\<lambda>existing.
        case existing of
          Some x \<Rightarrow> returnM \<lparr>xr_swapRecordId = Some (sw_id x), xr_quidaxSwapId = sw_swapId x,
            xr_status = Some (sw_status x), xr_message = SUBMITTED\<rparr>
        | None \<Rightarrow>
            bindM (dbM (getQuidaxUserId userId)) (\<lambda>quidaxId.
            bindM (liftM (fromBase (e_cv env) (ABigInt (xq_exactFromMinor q)) (xq_from q) None)) (\<lambda>human.
            thenM (callM (CallSwapRefresh (xq_quotationId q) human))
            (bindM (liftM (rate_guard env ops q refresh)) (\<lambda>refreshed.
             bindM (catchM (txM env ''swap_reserve'' (swap_reserve_tx env userId quoteId (w_defaultNetwork fromWallet) q human))
               (\<lambda>e. throwM (swap_reservation_error e))) (\<lambda>(t, reserved).
             if \<not> reserved
             then thenM (tempDel (''swap:'' @ quoteId))
               (returnM \<lparr>xr_swapRecordId = None, xr_quidaxSwapId = None, xr_status = None, xr_message = AWAITING\<rparr>)
             else
               bindM (swap_confirm env answer userId quoteId (w_defaultNetwork fromWallet) q t refreshed) (\<lambda>(swapId, a).
               bindM (catchM (txM env ''swap_record'' (swap_record_tx env ops userId quidaxId quoteId q t swapId a))
                 (\<lambda>e. throwM (BadRequest ''Swap failed during finalization. Please contact support.''))) (\<lambda>i.
               thenM (tempDel (''swap:'' @ quoteId))
               (thenM (callM (CallNotify (t_id t)))
                 (returnM \<lparr>xr_swapRecordId = Some i, xr_quidaxSwapId = Some swapId, xr_status = None,
                    xr_message = AWAITING\<rparr>))))))))))))))))))"

end
