(* ===== verification/Books.thy ===== *)
theory Books
  imports VaultSwaps
begin

text \<open>
  The books of a currency, as an abstraction of the wallet and liquidity tables: six totals that
  form a group under addition, and for every ledger operation the posting it adds to them. What
  a transaction does to the books is then the sum of the postings of its operations.
\<close>

section \<open>The totals and their group\<close>

datatype books = Books (bk_balance: int) (bk_held: int) (bk_kept: int) (bk_internal: int) (bk_funds: int) (bk_reserved: int)

instantiation books :: ab_group_add
begin

definition zero_books :: books where
  "zero_books = Books 0 0 0 0 0 0"

definition plus_books :: "books \<Rightarrow> books \<Rightarrow> books" where
  "plus_books x y = Books (bk_balance x + bk_balance y) (bk_held x + bk_held y) (bk_kept x + bk_kept y)
     (bk_internal x + bk_internal y) (bk_funds x + bk_funds y) (bk_reserved x + bk_reserved y)"

definition uminus_books :: "books \<Rightarrow> books" where
  "uminus_books x = Books (- bk_balance x) (- bk_held x) (- bk_kept x) (- bk_internal x) (- bk_funds x) (- bk_reserved x)"

definition minus_books :: "books \<Rightarrow> books \<Rightarrow> books" where
  "minus_books x y = x + - (y :: books)"

instance
  by intro_classes
    (simp_all add: zero_books_def plus_books_def uminus_books_def minus_books_def books.expand)

end

lemma books_add [simp]:
  "Books a b c d e f + Books a' b' c' d' e' f' = Books (a + a') (b + b') (c + c') (d + d') (e + e') (f + f')"
  "- Books a b c d e f = Books (- a) (- b) (- c) (- d) (- e) (- f)"
  "Books a b c d e f - Books a' b' c' d' e' f' = Books (a - a') (b - b') (c - c') (d - d') (e - e') (f - f')"
  by (simp_all add: plus_books_def uminus_books_def minus_books_def)

lemma books_sel [simp]:
  "bk_balance (x + y) = bk_balance x + bk_balance y" "bk_held (x + y) = bk_held x + bk_held y"
  "bk_kept (x + y) = bk_kept x + bk_kept y" "bk_internal (x + y) = bk_internal x + bk_internal y"
  "bk_funds (x + y) = bk_funds x + bk_funds y" "bk_reserved (x + y) = bk_reserved x + bk_reserved y"
  "bk_balance 0 = 0" "bk_held 0 = 0" "bk_kept 0 = 0" "bk_internal 0 = 0" "bk_funds 0 = 0" "bk_reserved 0 = 0"
  by (simp_all add: plus_books_def zero_books_def)

text \<open>What the users have, and what of it is held; what is stacked or locked; what the company counts as
  its own and the users' together, its funds at the provider, and what of them is reserved.\<close>

definition w_total :: "(wallet \<Rightarrow> int) \<Rightarrow> string \<Rightarrow> db \<Rightarrow> int" where
  "w_total val c d = sum_list (map val (filter (\<lambda>w. ieq (w_currency w) c) (d_wallets d)))"

definition l_total :: "(liquidity \<Rightarrow> int) \<Rightarrow> string \<Rightarrow> db \<Rightarrow> int" where
  "l_total val c d = sum_list (map val (filter (\<lambda>l. ieq (l_currency l) c) (d_liquidity d)))"

definition books :: "string \<Rightarrow> db \<Rightarrow> books" where
  "books c d = Books (w_total w_baseBalance c d) (w_total w_reservedBalance c d)
     (w_total (\<lambda>w. w_stackedAmount w + w_lockedAmount w) c d)
     (l_total l_internalBalance c d) (l_total l_totalBalance c d) (l_total l_reservedBalance c d)"

lemma books_tables:
  "d_wallets d' = d_wallets d \<Longrightarrow> d_liquidity d' = d_liquidity d \<Longrightarrow> books c d' = books c d"
  by (simp add: books_def w_total_def l_total_def)

lemma books_owed: "bk_balance (books c d) = owed c d" "bk_internal (books c d) = internal c d"
  by (simp_all add: books_def owed_def internal_def w_total_def l_total_def)

lemma books_own: "own c d = bk_balance (books c d) + bk_kept (books c d)"
  by (simp add: books_def own_def w_total_def sum_list_addf)

lemma books_solvent:
  assumes "solvent d"
  shows "0 \<le> bk_held (books c d)" "bk_held (books c d) \<le> bk_balance (books c d)"
    "0 \<le> bk_reserved (books c d)" "bk_reserved (books c d) \<le> bk_funds (books c d)"
proof -
  have w: "list_all wallet_ok ws \<Longrightarrow> 0 \<le> sum_list (map w_reservedBalance (filter P ws))
      \<and> sum_list (map w_reservedBalance (filter P ws)) \<le> sum_list (map w_baseBalance (filter P ws))" for P ws
    by (induction ws) (auto simp: wallet_ok_def)
  have l: "list_all liquidity_ok ls \<Longrightarrow> 0 \<le> sum_list (map l_reservedBalance (filter P ls))
      \<and> sum_list (map l_reservedBalance (filter P ls)) \<le> sum_list (map l_totalBalance (filter P ls))" for P ls
    by (induction ls) (auto simp: liquidity_ok_def)
  show "0 \<le> bk_held (books c d)" "bk_held (books c d) \<le> bk_balance (books c d)"
    "0 \<le> bk_reserved (books c d)" "bk_reserved (books c d) \<le> bk_funds (books c d)"
    using w l assms by (simp_all add: books_def w_total_def l_total_def solvent_def)
qed

section \<open>Postings\<close>

text \<open>\<open>posted d p d'\<close>: from \<open>d\<close> to \<open>d'\<close> the books of every currency moved by \<open>p\<close>, on the same rows.\<close>

definition entry :: "string \<Rightarrow> books \<Rightarrow> string \<Rightarrow> books" where
  "entry cur b c = (if ieq cur c then b else 0)"

definition posted :: "db \<Rightarrow> (string \<Rightarrow> books) \<Rightarrow> db \<Rightarrow> bool" where
  "posted d p d' \<longleftrightarrow> (\<forall>c. books c d' = books c d + p c) \<and> same_accounts d d'"

lemma postedI: "(\<And>c. books c d' = books c d + p c) \<Longrightarrow> same_accounts d d' \<Longrightarrow> posted d p d'"
  by (simp add: posted_def)

lemma posted_books: "posted d p d' \<Longrightarrow> books c d' = books c d + p c"
  by (simp add: posted_def)

lemma posted_keys: "posted d p d' \<Longrightarrow> keys_ok d \<Longrightarrow> keys_ok d'"
  using same_accounts_keys by (auto simp: posted_def)

lemma posted_row: "posted d p d' \<Longrightarrow> liquidity_for c d \<noteq> None \<Longrightarrow> liquidity_for c d' \<noteq> None"
  using same_accounts_liquidity [of d d' c] by (auto simp: posted_def)

lemma posted_trans: "posted d p e \<Longrightarrow> posted e q f \<Longrightarrow> posted d (\<lambda>c. p c + q c) f"
  using same_accounts_trans [of d e f] by (simp add: posted_def add.assoc)

lemma posted_eq: "posted d p d' \<Longrightarrow> (\<And>c. p c = q c) \<Longrightarrow> posted d q d'"
  by (simp add: posted_def)

lemma posted_tables: "d_wallets d' = d_wallets d \<Longrightarrow> d_liquidity d' = d_liquidity d \<Longrightarrow> posted d (\<lambda>_. 0) d'"
  by (simp add: posted_def books_def w_total_def l_total_def same_accounts_def)

lemma posted_nothing: "posted d (entry cur 0) d"
  by (simp add: posted_def entry_def)

lemma posted_cong:
  "posted d p d' \<Longrightarrow> d_wallets e = d_wallets d \<Longrightarrow> d_liquidity e = d_liquidity d \<Longrightarrow>
     d_wallets e' = d_wallets d' \<Longrightarrow> d_liquidity e' = d_liquidity d' \<Longrightarrow> posted e p e'"
  by (simp add: posted_def same_accounts_def books_def w_total_def l_total_def)

lemma entry_add: "entry cur a c + entry cur b c = entry cur (a + b) c"
  by (simp add: entry_def)

lemma entry_zero [simp]: "entry cur 0 c = 0" "entry cur (Books 0 0 0 0 0 0) c = 0"
  by (simp_all add: entry_def zero_books_def)

lemma entry_lower [simp]: "entry (to_lower cur) b = entry cur b"
  by (simp add: entry_def fun_eq_iff)

section \<open>Postings on wallets\<close>

lemma w_total_update:
  assumes "keys_ok d" "\<forall>w \<in> set (d_wallets d). w_id w = i \<longrightarrow> ieq (w_currency w) cur"
    and "w \<in> set (d_wallets d)" "w_id w = i" "d_wallets d' = update_where (\<lambda>x. w_id x = i) f (d_wallets d)"
    and "\<And>x. w_currency (f x) = w_currency x" "val (f w) = val w + a"
  shows "w_total val c d' = w_total val c d + (if ieq cur c then a else 0)"
proof -
  have "ieq (w_currency w) c = ieq cur c" using ieq_trans_lower assms(2-4) by blast
  with sum_update_where [of w_id "d_wallets d" w i "\<lambda>w. ieq (w_currency w) c" f val a] assms
  show ?thesis by (simp add: w_total_def keys_ok_def)
qed

text \<open>One wallet row is written; the liquidity table is not.\<close>

lemma wallet_posting:
  assumes "keys_ok d" "\<forall>w \<in> set (d_wallets d). w_id w = i \<longrightarrow> ieq (w_currency w) cur"
    and "w \<in> set (d_wallets d)" "w_id w = i" "d_wallets d' = update_where (\<lambda>x. w_id x = i) f (d_wallets d)"
    and "d_liquidity d' = d_liquidity d" "\<And>x. w_currency (f x) = w_currency x" "\<And>x. w_id (f x) = w_id x"
    and "w_baseBalance (f w) = w_baseBalance w + a" "w_reservedBalance (f w) = w_reservedBalance w + h"
    and "w_stackedAmount (f w) + w_lockedAmount (f w) = w_stackedAmount w + w_lockedAmount w + k"
  shows "posted d (entry cur (Books a h k 0 0 0)) d'"
proof (rule postedI)
  fix c
  note t = w_total_update [OF assms(1-5,7)]
  show "books c d' = books c d + entry cur (Books a h k 0 0 0) c"
    using t [of w_baseBalance a c, OF assms(9)] t [of w_reservedBalance h c, OF assms(10)]
      t [of "\<lambda>w. w_stackedAmount w + w_lockedAmount w" k c, OF assms(11)] assms(6)
    by (simp add: books_def l_total_def zero_books_def entry_def)
next
  show "same_accounts d d'" by (rule same_accounts_wallets [OF _ assms(5,6)]) (simp add: assms(7,8))
qed

lemma guarded_row:
  assumes "guarded_count (\<lambda>x. ident x = i) upd rows \<noteq> 0"
  obtains r where "r \<in> set rows" "ident r = i" "upd r \<noteq> None"
  using assms by (auto simp: guarded_count_def filter_empty_conv)

text \<open>A guarded update of the wallet \<open>i\<close> that found it.\<close>

lemma guarded_wallet_posting:
  assumes "keys_ok d" "\<forall>w \<in> set (d_wallets d). w_id w = i \<longrightarrow> ieq (w_currency w) cur"
    and "guarded_count (\<lambda>x. w_id x = i) upd (d_wallets d) \<noteq> 0"
    and "d_wallets d' = guarded_update (\<lambda>x. w_id x = i) upd (d_wallets d)" "d_liquidity d' = d_liquidity d"
    and "\<And>x y. upd x = Some y \<Longrightarrow> w_currency y = w_currency x \<and> w_id y = w_id x
      \<and> w_baseBalance y = w_baseBalance x + a \<and> w_reservedBalance y = w_reservedBalance x + h
      \<and> w_stackedAmount y + w_lockedAmount y = w_stackedAmount x + w_lockedAmount x + k"
  shows "posted d (entry cur (Books a h k 0 0 0)) d'"
proof -
  obtain w where w: "w \<in> set (d_wallets d)" "w_id w = i" "upd w \<noteq> None" by (rule guarded_row [OF assms(3)])
  let ?f = "\<lambda>r. case upd r of None \<Rightarrow> r | Some r' \<Rightarrow> r'"
  have f: "w_currency (?f x) = w_currency x" "w_id (?f x) = w_id x" for x
    using assms(6) by (auto split: option.splits)
  have g: "w_baseBalance (?f w) = w_baseBalance w + a" "w_reservedBalance (?f w) = w_reservedBalance w + h"
    "w_stackedAmount (?f w) + w_lockedAmount (?f w) = w_stackedAmount w + w_lockedAmount w + k"
    using assms(6) w(3) by auto
  show ?thesis by (rule wallet_posting [OF assms(1,2) w(1,2) assms(4) [unfolded guarded_update_where] assms(5) f g])
qed

lemma reserveBalance_posting:
  assumes "keys_ok d" "reserveBalance u cur a n d = (Inr v, d')"
  shows "posted d (entry cur (Books 0 a 0 0 0 0)) d'"
proof -
  obtain w where w: "wallet_for u cur d = Some w" and n: "guarded_count (\<lambda>x. w_id x = w_id w) (w_reserve a) (d_wallets d) \<noteq> 0"
    and d': "d' = d\<lparr>d_wallets := guarded_update (\<lambda>x. w_id x = w_id w) (w_reserve a) (d_wallets d)\<rparr>"
    using assms(2) by (auto simp: reserveBalance_eq split: option.splits if_splits)
  show ?thesis
    by (rule guarded_wallet_posting [OF assms(1) wallet_for_currency(2) [OF assms(1) w] n])
      (auto simp: d' w_reserve_def split: if_splits)
qed

lemma releaseBalance_posting:
  assumes "keys_ok d" "releaseBalance u cur a n d = (Inr v, d')"
  shows "posted d (entry cur (Books 0 (- a) 0 0 0 0)) d'"
proof -
  obtain w where w: "wallet_for u cur d = Some w" and n: "guarded_count (\<lambda>x. w_id x = w_id w) (w_release a) (d_wallets d) \<noteq> 0"
    and d': "d' = d\<lparr>d_wallets := guarded_update (\<lambda>x. w_id x = w_id w) (w_release a) (d_wallets d)\<rparr>"
    using assms(2) by (auto simp: releaseBalance_eq split: option.splits if_splits)
  show ?thesis
    by (rule guarded_wallet_posting [OF assms(1) wallet_for_currency(2) [OF assms(1) w] n])
      (auto simp: d' w_release_def split: if_splits)
qed

section \<open>Postings on liquidity\<close>

lemma l_total_guarded:
  assumes "keys_ok d" "verifyCurrency cur = Inr n" "guarded_count (l_key n) upd (d_liquidity d) \<noteq> 0"
    and "\<And>x y. upd x = Some y \<Longrightarrow> l_currency y = l_currency x \<and> val y = val x + a"
  shows "l_total val c (d\<lparr>d_liquidity := guarded_update (l_key n) upd (d_liquidity d)\<rparr>)
    = l_total val c d + (if ieq cur c then a else (0::int))"
proof -
  let ?f = "\<lambda>r. case upd r of None \<Rightarrow> r | Some r' \<Rightarrow> r'"
  obtain l where l: "l \<in> set (d_liquidity d)" "l_key n l" "upd l \<noteq> None"
    using assms(3) by (auto simp: guarded_count_def filter_empty_conv)
  have key: "l_key n x \<longleftrightarrow> to_lower (l_currency x) = to_lower (l_currency l)" for x
    using l(2) by (simp add: l_key_def ieq_def)
  have f: "l_currency (?f x) = l_currency x" for x using assms(4) by (auto split: option.splits)
  have c: "ieq (l_currency l) c = ieq cur c"
    using verifyCurrency_ieq [OF assms(2)] l(2) by (simp add: l_key_def ieq_def)
  have d: "distinct (map (\<lambda>x. to_lower (l_currency x)) (d_liquidity d))" using assms(1) by (simp add: keys_ok_def)
  have v: "val (?f l) = val l + a" using l(3) assms(4) by auto
  have k: "l_key n = (\<lambda>x. to_lower (l_currency x) = to_lower (l_currency l))" using key by auto
  have "sum_list (map val (filter (\<lambda>x. ieq (l_currency x) c)
      (update_where (\<lambda>x. to_lower (l_currency x) = to_lower (l_currency l)) ?f (d_liquidity d))))
    = sum_list (map val (filter (\<lambda>x. ieq (l_currency x) c) (d_liquidity d))) + (if ieq (l_currency l) c then a else 0)"
    by (rule sum_update_where [where ident = "\<lambda>x. to_lower (l_currency x)"]) (use d l(1) v f in simp_all)
  then show ?thesis using c by (simp add: l_total_def guarded_update_where k)
qed

text \<open>A guarded update of the row of a currency that found it.\<close>

lemma liquidity_posting:
  assumes "keys_ok d" "verifyCurrency cur = Inr n" "guarded_count (l_key n) upd (d_liquidity d) \<noteq> 0"
    and "\<And>x y. upd x = Some y \<Longrightarrow> l_currency y = l_currency x \<and> l_id y = l_id x
      \<and> l_internalBalance y = l_internalBalance x \<and> l_totalBalance y = l_totalBalance x + f
      \<and> l_reservedBalance y = l_reservedBalance x + r"
  shows "posted d (entry cur (Books 0 0 0 0 f r)) (d\<lparr>d_liquidity := guarded_update (l_key n) upd (d_liquidity d)\<rparr>)"
proof (rule postedI)
  fix c
  note t = l_total_guarded [OF assms(1-3)]
  show "books c (d\<lparr>d_liquidity := guarded_update (l_key n) upd (d_liquidity d)\<rparr>)
      = books c d + entry cur (Books 0 0 0 0 f r) c"
    using t [of l_totalBalance f c] t [of l_reservedBalance r c] t [of l_internalBalance 0 c] assms(4)
    by (auto simp add: books_def w_total_def zero_books_def entry_def)
next
  have "map (\<lambda>l. (l_id l, l_currency l)) (guarded_update (l_key n) upd ls) = map (\<lambda>l. (l_id l, l_currency l)) ls" for ls
    using assms(4) by (auto simp: guarded_update_def split: option.splits)
  then show "same_accounts d (d\<lparr>d_liquidity := guarded_update (l_key n) upd (d_liquidity d)\<rparr>)"
    by (simp add: same_accounts_def)
qed

lemma liquidity_missed:
  "guarded_count (l_key n) upd rows = 0 \<Longrightarrow> guarded_update (l_key n) upd rows = rows"
  by (rule guarded_update_none)

lemma reserveLiquidity_posting:
  assumes "keys_ok d" "reserveLiquidity cur a d = (Inr ok, d')"
  shows "posted d (entry cur (if ok then Books 0 0 0 0 0 a else 0)) d'"
proof -
  obtain n where n: "verifyCurrency cur = Inr n" "ok = (guarded_count (l_key n) (l_reserve a) (d_liquidity d) > 0)"
    and d': "d' = d\<lparr>d_liquidity := guarded_update (l_key n) (l_reserve a) (d_liquidity d)\<rparr>"
    using assms(2) by (auto simp: reserveLiquidity_eq split: sum.splits)
  show ?thesis
  proof (cases ok)
    case True
    have "posted d (entry cur (Books 0 0 0 0 0 a)) d'"
      unfolding d' by (rule liquidity_posting [OF assms(1) n(1)])
        (use n(2) True in \<open>auto simp: l_reserve_def split: if_splits\<close>)
    with True show ?thesis by simp
  next
    case False
    with n(2) show ?thesis by (simp add: d' liquidity_missed posted_nothing)
  qed
qed

lemma releaseLiquidity_posting:
  assumes "keys_ok d" "releaseLiquidity cur a d = (Inr v, d')"
  shows "posted d (entry cur (if 0 < a then Books 0 0 0 0 0 (- a) else 0)) d'"
proof -
  obtain n where n: "verifyCurrency cur = Inr n"
    using assms(2) by (auto simp: releaseLiquidity_eq split: sum.splits)
  show ?thesis
  proof (cases "0 < a")
    case True
    then have m: "guarded_count (l_key n) (l_release a) (d_liquidity d) \<noteq> 0"
      and d': "d' = d\<lparr>d_liquidity := guarded_update (l_key n) (l_release a) (d_liquidity d)\<rparr>"
      using assms(2) by (auto simp: releaseLiquidity_eq n split: if_splits)
    have "posted d (entry cur (Books 0 0 0 0 0 (- a))) d'"
      unfolding d' by (rule liquidity_posting [OF assms(1) n m]) (auto simp: l_release_def split: if_splits)
    with True show ?thesis by simp
  next
    case False
    then have "d' = d" using assms(2) by (auto simp: releaseLiquidity_eq n split: if_splits)
    with False show ?thesis by (simp add: posted_nothing)
  qed
qed

lemma consumeReservedLiquidity_posting:
  assumes "keys_ok d" "consumeReservedLiquidity cur a d = (Inr ok, d')"
  shows "posted d (entry cur (if ok then Books 0 0 0 0 (- a) (- a) else 0)) d'"
proof -
  obtain n where n: "verifyCurrency cur = Inr n" "ok = (guarded_count (l_key n) (l_consume a) (d_liquidity d) > 0)"
    and d': "d' = d\<lparr>d_liquidity := guarded_update (l_key n) (l_consume a) (d_liquidity d)\<rparr>"
    using assms(2) by (auto simp: consumeReservedLiquidity_def sqlLiquidity_def comp_defs split: sum.splits)
  show ?thesis
  proof (cases ok)
    case True
    have "posted d (entry cur (Books 0 0 0 0 (- a) (- a))) d'"
      unfolding d' by (rule liquidity_posting [OF assms(1) n(1)])
        (use n(2) True in \<open>auto simp: l_consume_def split: if_splits\<close>)
    with True show ?thesis by simp
  next
    case False
    with n(2) show ?thesis by (simp add: d' liquidity_missed posted_nothing)
  qed
qed

lemma reduceLiquidity_posting:
  assumes "keys_ok d" "reduceLiquidity cur a d = (Inr ok, d')"
  shows "posted d (entry cur (if ok then Books 0 0 0 0 (- a) 0 else 0)) d'"
proof -
  obtain n where n: "verifyCurrency cur = Inr n" "ok = (guarded_count (l_key n) (l_reduce a) (d_liquidity d) > 0)"
    and d': "d' = d\<lparr>d_liquidity := guarded_update (l_key n) (l_reduce a) (d_liquidity d)\<rparr>"
    using assms(2) by (auto simp: reduceLiquidity_def sqlLiquidity_def comp_defs split: sum.splits)
  show ?thesis
  proof (cases ok)
    case True
    have "posted d (entry cur (Books 0 0 0 0 (- a) 0)) d'"
      unfolding d' by (rule liquidity_posting [OF assms(1) n(1)])
        (use n(2) True in \<open>auto simp: l_reduce_def split: if_splits\<close>)
    with True show ?thesis by simp
  next
    case False
    with n(2) show ?thesis by (simp add: d' liquidity_missed posted_nothing)
  qed
qed

text \<open>The internal balance, in a currency that has a row.\<close>

lemma updateInternalBalance_posting:
  assumes "keys_ok d" "updateInternalBalance env cur a op d = (Inr v, d')" "op = Subtract \<or> liquidity_for cur d \<noteq> None"
  shows "posted d (entry cur (Books 0 0 0 (if op = Add then a else - a) 0 0)) d'"
proof (rule postedI)
  show "same_accounts d d'"
    using assms(2,3) internal_subtract_accounts updateInternalBalance_accounts by blast
  fix c
  have row: "l_total l_totalBalance c d' = l_total l_totalBalance c d \<and> l_total l_reservedBalance c d' = l_total l_reservedBalance c d"
    using assms(2)
  proof (cases rule: updateInternalBalance_cases)
    case (created n)
    then show ?thesis by (simp add: l_total_def new_liquidity_def)
  next
    case (updated n l)
    then show ?thesis by (simp add: l_total_def sum_same)
  qed
  have i: "l_total l_internalBalance c d' = l_total l_internalBalance c d + (if ieq cur c then if op = Add then a else - a else 0)"
    "d_wallets d' = d_wallets d"
    using updateInternalBalance_internal [OF _ assms(2), of c] assms(1) by (simp_all add: keys_ok_def internal_def l_total_def)
  show "books c d' = books c d + entry cur (Books 0 0 0 (if op = Add then a else - a) 0 0) c"
    using row i by (simp add: books_def w_total_def zero_books_def entry_def)
qed

lemma addLiquidity_posting:
  assumes "keys_ok d" "addLiquidity env cur a d = (Inr v, d')" "liquidity_for cur d \<noteq> None"
  shows "posted d (entry cur (Books 0 0 0 0 a 0)) d'"
proof (rule postedI)
  obtain n where n: "verifyCurrency cur = Inr n"
    using assms(2) by (auto simp: addLiquidity_def comp_defs split: sum.splits)
  have "liquidity_for n d = liquidity_for cur d"
    using verifyCurrency_ieq [OF n] by (simp add: liquidity_for_def ieq_def)
  then obtain l where l: "liquidity_for n d = Some l" using assms(3) by auto
  then have d': "d' = d\<lparr>d_liquidity := update_where (\<lambda>k. l_id k = l_id l) (l_add a) (d_liquidity d)\<rparr>"
    using assms(2) n by (simp add: addLiquidity_def run_simps)
  have in_l: "l \<in> set (d_liquidity d)" "ieq (l_currency l) n"
    using find_Some_in [OF l [unfolded liquidity_for_def]] by simp_all
  show "same_accounts d d'" by (simp add: d' same_accounts_def update_where_def l_add_def)
  fix c
  have "ieq (l_currency l) c = ieq cur c" using in_l(2) verifyCurrency_ieq [OF n] by (simp add: ieq_def)
  moreover have "sum_list (map l_totalBalance (filter (\<lambda>l. ieq (l_currency l) c) (update_where (\<lambda>k. l_id k = l_id l) (l_add a) (d_liquidity d))))
      = sum_list (map l_totalBalance (filter (\<lambda>l. ieq (l_currency l) c) (d_liquidity d))) + (if ieq (l_currency l) c then a else 0)"
    by (rule sum_update_where [where ident = l_id]) (use assms(1) in_l in \<open>simp_all add: keys_ok_def l_add_def\<close>)
  ultimately show "books c d' = books c d + entry cur (Books 0 0 0 0 a 0) c"
    by (simp add: d' books_def w_total_def l_total_def zero_books_def entry_def sum_same l_add_def)
qed

text \<open>The display of a balance, and the debit and the credit of a wallet.\<close>

lemma refreshOriginalBalance_posting:
  assumes "refreshOriginalBalance env i cur d = (Inr v, d')"
  shows "posted d (\<lambda>_. 0) d'"
proof -
  obtain shown where d': "d' = d\<lparr>d_wallets := update_where (\<lambda>w. w_id w = i) (\<lambda>w. w\<lparr>w_originalBalance := shown\<rparr>) (d_wallets d)\<rparr>"
    using assms by (auto simp: refreshOriginalBalance_run)
  show ?thesis
    by (rule postedI)
      (simp add: d' books_def w_total_def l_total_def sum_same, simp add: d' same_accounts_def update_where_def)
qed

lemma settle_wallet_posting:
  assumes "keys_ok d" "\<forall>w \<in> set (d_wallets d). w_id w = i \<longrightarrow> ieq (w_currency w) cur"
    and "sqlWallets (\<lambda>x. w_id x = i) (w_settle a) d = (Inr n, d')" "n \<noteq> 0"
  shows "posted d (entry cur (Books (- a) (- a) 0 0 0 0)) d'"
  by (rule guarded_wallet_posting [OF assms(1,2), of "w_settle a"])
    (use assms(3,4) in \<open>auto simp: run_sqlWallets w_settle_def split: if_splits\<close>)


section \<open>Debits and credits\<close>

text \<open>The debit of a reservation, as every settlement writes it: wallet, display and internal balance.\<close>

lemma debit_posting:
  assumes "keys_ok d" "\<forall>w \<in> set (d_wallets d). w_id w = i \<longrightarrow> ieq (w_currency w) from"
    and "bindM (sqlWallets (\<lambda>x. w_id x = i) (w_settle a)) (\<lambda>rows. thenM (requireM (rows \<noteq> 0) e)
      (thenM (refreshOriginalBalance env i cur) (updateInternalBalance env from f Subtract))) d = (Inr u, d')"
  shows "posted d (entry from (Books (- a) (- a) 0 (- f) 0 0)) d'"
proof -
  obtain shown d1 where n: "guarded_count (\<lambda>x. w_id x = i) (w_settle a) (d_wallets d) \<noteq> 0"
    and ws: "d_wallets d1 = update_where (\<lambda>x. w_id x = i) (shown_wallet shown (w_settle a)) (d_wallets d)"
    and ls: "d_liquidity d1 = d_liquidity d" and int: "updateInternalBalance env from f Subtract d1 = (Inr u, d')"
    using debit_run [OF assms(3)] by blast
  obtain w where w: "w \<in> set (d_wallets d)" "w_id w = i" "w_settle a w \<noteq> None" by (rule guarded_row [OF n])
  have p1: "posted d (entry from (Books (- a) (- a) 0 0 0 0)) d1"
    by (rule wallet_posting [OF assms(1,2) w(1,2) ws ls])
      (use w(3) in \<open>auto simp: shown_settle shown_wallet_def w_settle_def split: if_splits\<close>)
  note p2 = updateInternalBalance_posting [OF posted_keys [OF p1 assms(1)] int, simplified]
  show ?thesis by (rule posted_eq [OF posted_trans [OF p1 p2]]) (simp add: entry_add)
qed

text \<open>The credit: an update of the wallet, its display and the internal balance.\<close>

lemma credit_posting:
  assumes "keys_ok d" "\<forall>w \<in> set (d_wallets d). w_id w = i \<longrightarrow> ieq (w_currency w) into" "liquidity_for into d \<noteq> None"
    and g: "\<And>w. w_id (g w) = w_id w" "\<And>w. w_currency (g w) = w_currency w" "\<And>w. w_reservedBalance (g w) = w_reservedBalance w"
      "\<And>w. w_baseBalance (g w) = w_baseBalance w + b"
      "\<And>w. w_stackedAmount (g w) + w_lockedAmount (g w) = w_stackedAmount w + w_lockedAmount w + k"
    and run: "thenM (updWallets (\<lambda>x. w_id x = i) g) (thenM (refreshOriginalBalance env i cur)
      (updateInternalBalance env into a Add)) d = (Inr u, d')"
  shows "posted d (entry into (Books b 0 k a 0 0)) d'"
proof -
  let ?f = "\<lambda>shown w. (g w)\<lparr>w_originalBalance := shown\<rparr>"
  obtain bal shown d1 where row: "base_of i (d\<lparr>d_wallets := update_where (\<lambda>x. w_id x = i) g (d_wallets d)\<rparr>) = Some bal"
    and d1: "d1 = d\<lparr>d_wallets := update_where (\<lambda>x. w_id x = i) (\<lambda>w. w\<lparr>w_originalBalance := shown\<rparr>)
      (update_where (\<lambda>x. w_id x = i) g (d_wallets d))\<rparr>"
    and int: "updateInternalBalance env into a Add d1 = (Inr u, d')"
    using run unfolding run_then run_upd refreshOriginalBalance_run by auto
  have ws: "d_wallets d1 = update_where (\<lambda>x. w_id x = i) (?f shown) (d_wallets d)"
    by (simp add: d1 update_where_twice g(1))
  obtain w where w: "w \<in> set (d_wallets d)" "w_id w = i"
    using base_of_row [OF row] by (auto simp: update_where_def g(1) split: if_splits)
  have p1: "posted d (entry into (Books b 0 k 0 0 0)) d1"
    by (rule wallet_posting [OF assms(1,2) w ws]) (simp_all add: d1 g)
  have "liquidity_for into d1 \<noteq> None" by (rule posted_row [OF p1 assms(3)])
  note p2 = updateInternalBalance_posting [OF posted_keys [OF p1 assms(1)] int disjI2 [OF this], simplified]
  show ?thesis by (rule posted_eq [OF posted_trans [OF p1 p2]]) (simp add: entry_add)
qed

end
