(* ===== verification/SendBooks.thy ===== *)
theory SendBooks
  imports Send Books
begin

text \<open>
  A withdrawal from the request to its end: what the confirmation reserves is taken by the
  success webhook and given back by every other end, once. Where this fails, an example.
\<close>

section \<open>What the confirmation does\<close>

lemma reserve_any_network:
  "reserveBalance u c a n d = (Inr v, d') \<Longrightarrow> reserveBalance u c a None d = (Inr v, d')"
  by (auto simp: reserveBalance_eq network_matches_def split: option.splits if_splits)

lemma reserveLiquidity_table:
  assumes "reserveLiquidity c a e = (Inr r, e')" "d_liquidity e = d_liquidity d"
  shows "reserveLiquidity c a d = (Inr r, d\<lparr>d_liquidity := d_liquidity e'\<rparr>)"
  using assms by (auto simp: reserveLiquidity_eq split: sum.splits)

lemma send_new_run:
  assumes "send_new_tx env u pid p d = (Inr (ti, wi, r), d')"
  shows "\<exists>d1 w. reserveBalance u (sn_currency p) (sn_totalDeductionBase p) None d = (Inr (), d1)
    \<and> reserveLiquidity (sn_currency p) (sn_totalDeductionBase p) d = (Inr r, d\<lparr>d_liquidity := d_liquidity d'\<rparr>)
    \<and> d_wallets d' = d_wallets d1 \<and> wallet_for u (sn_currency p) d1 = Some w
    \<and> d_transactions d' = d_transactions d @ [send_transaction ti u pid p w]
    \<and> d_withdrawals d' = d_withdrawals d @ [send_withdrawal wi u pid p ti r]"
proof -
  have "\<exists>v d1 w d2. reserveBalance u (sn_currency p) (sn_totalDeductionBase p) (Some (sn_walletDefaultNetwork p)) d = (Inr v, d1)
    \<and> reserveLiquidity (sn_currency p) (sn_totalDeductionBase p)
      (d1\<lparr>d_seq := Suc (d_seq d1), d_transactions := d_transactions d1 @ [send_transaction ti u pid p w]\<rparr>) = (Inr r, d2)
    \<and> wallet_for u (sn_currency p) d1 = Some w
    \<and> d_wallets d' = d_wallets d2 \<and> d_liquidity d' = d_liquidity d2 \<and> d_transactions d' = d_transactions d2
    \<and> d_withdrawals d' = d_withdrawals d2 @ [send_withdrawal wi u pid p ti r]"
    using assms
    unfolding send_new_tx_def run_bind run_then run_get run_some run_fresh run_insertTransaction run_inserts run_return run_when prod.inject
    apply (elim exE conjE)
    apply (split if_split_asm)
    subgoal
      apply (elim exE conjE)
      apply hypsubst_thin
      by simp
    subgoal
      apply hypsubst_thin
      by simp
    done
  then obtain d1 w d2 where b: "reserveBalance u (sn_currency p) (sn_totalDeductionBase p) (Some (sn_walletDefaultNetwork p)) d = (Inr (), d1)"
    and w: "wallet_for u (sn_currency p) d1 = Some w"
    and l: "reserveLiquidity (sn_currency p) (sn_totalDeductionBase p)
      (d1\<lparr>d_seq := Suc (d_seq d1), d_transactions := d_transactions d1 @ [send_transaction ti u pid p w]\<rparr>) = (Inr r, d2)"
    and d': "d_wallets d' = d_wallets d2" "d_liquidity d' = d_liquidity d2" "d_transactions d' = d_transactions d2"
      "d_withdrawals d' = d_withdrawals d2 @ [send_withdrawal wi u pid p ti r]"
    by auto
  have d1: "d1 = d\<lparr>d_wallets := d_wallets d1\<rparr>" by (rule reserveBalance_run [OF b])
  have "d_liquidity d1 = d_liquidity d" "d_transactions d1 = d_transactions d" "d_withdrawals d1 = d_withdrawals d"
    by (subst d1, simp)+
  moreover have "d_wallets d2 = d_wallets d1" "d_transactions d2 = d_transactions d1 @ [send_transaction ti u pid p w]"
    "d_withdrawals d2 = d_withdrawals d1"
    by (subst reserveLiquidity_run [OF l], simp)+
  moreover have "reserveLiquidity (sn_currency p) (sn_totalDeductionBase p) d = (Inr r, d\<lparr>d_liquidity := d_liquidity d2\<rparr>)"
    by (rule reserveLiquidity_table [OF l]) (simp add: \<open>d_liquidity d1 = d_liquidity d\<close>)
  ultimately show ?thesis using reserve_any_network [OF b] w d' by auto
qed

text \<open>Both reservations can be undone in every state that has the balances the confirmation left.\<close>

lemma send_back:
  assumes "solvent d" "keys_ok d" "0 \<le> sn_totalDeductionBase p" "send_new_tx env u pid p d = (Inr (ti, wi, True), d')"
    and "d_wallets e = d_wallets d'" "d_liquidity e = d_liquidity d'"
  shows "releaseBalance u (sn_currency p) (sn_totalDeductionBase p) None e = (Inr (), e\<lparr>d_wallets := d_wallets d\<rparr>)"
    and "d_liquidity f = d_liquidity e \<Longrightarrow>
      releaseLiquidity (sn_currency p) (sn_totalDeductionBase p) f = (Inr (), f\<lparr>d_liquidity := d_liquidity d\<rparr>)"
proof -
  obtain d1 w where b: "reserveBalance u (sn_currency p) (sn_totalDeductionBase p) None d = (Inr (), d1)"
    and l: "reserveLiquidity (sn_currency p) (sn_totalDeductionBase p) d = (Inr True, d\<lparr>d_liquidity := d_liquidity d'\<rparr>)"
    and ws: "d_wallets d' = d_wallets d1"
    using send_new_run [OF assms(4)] by blast
  have "back_wallets d e u (sn_currency p) (sn_totalDeductionBase p)"
    by (rule wallets_back [OF assms(1,2) b]) (simp add: assms(5) ws)
  then show "releaseBalance u (sn_currency p) (sn_totalDeductionBase p) None e = (Inr (), e\<lparr>d_wallets := d_wallets d\<rparr>)"
    by (simp add: back_wallets_def)
  assume "d_liquidity f = d_liquidity e"
  moreover have "back_liquidity d e (sn_currency p) (sn_totalDeductionBase p)"
    by (rule liquidity_back [OF assms(1-3) l]) (simp add: assms(6))
  ultimately show "releaseLiquidity (sn_currency p) (sn_totalDeductionBase p) f = (Inr (), f\<lparr>d_liquidity := d_liquidity d\<rparr>)"
    by (simp add: back_liquidity_def)
qed

lemma releaseBalance_network:
  assumes "releaseBalance u c a None d = (Inr v, d')" "\<And>w. wallet_for u c d = Some w \<Longrightarrow> w_defaultNetwork w = n"
  shows "releaseBalance u c a (Some n) d = (Inr v, d')"
  using assms by (auto simp: releaseBalance_eq network_matches_def split: option.splits if_splits)

lemma releaseBalance_wallet: "releaseBalance u c a n d = (Inr v, d') \<Longrightarrow> wallet_for u c d \<noteq> None"
  by (auto simp: releaseBalance_eq split: option.splits)

lemma send_transaction_simps [simp]:
  "t_id (send_transaction ti u pid p w) = ti" "t_userId (send_transaction ti u pid p w) = u"
  "t_currency (send_transaction ti u pid p w) = sn_currency p" "t_network (send_transaction ti u pid p w) = sn_network p"
  "total_sent (send_transaction ti u pid p w) = sn_totalDeductionBase p"
  "platform_fee (send_transaction ti u pid p w) = sn_platformFeeBase p"
  "t_fiatAmountBase (send_transaction ti u pid p w) = 0"
  "t_context (send_transaction ti u pid p w) = CtxWITHDRAWAL" "\<not> t_isProcessed (send_transaction ti u pid p w)"
  by (simp_all add: send_transaction_def new_transaction_def total_sent_def platform_fee_def)

lemma send_withdrawal_simps [simp]:
  "wd_id (send_withdrawal wi u pid p ti r) = wi" "wd_currency (send_withdrawal wi u pid p ti r) = sn_currency p"
  "wd_reference (send_withdrawal wi u pid p ti r) = Some pid" "wd_userId (send_withdrawal wi u pid p ti r) = u"
  "wd_transactionId (send_withdrawal wi u pid p ti r) = Some ti"
  by (simp_all add: send_withdrawal_def)

text \<open>A withdrawal that does not succeed gives back exactly what its confirmation reserved. Whether the
  provider refuses the request, the rejection webhook arrives or the user cancels: wallets and
  company liquidity are again what they were before the confirmation.\<close>

theorem send_given_back:
  assumes "solvent d" "keys_ok d" "0 \<le> sn_totalDeductionBase p" "send_new_tx env u pid p d = (Inr (ti, wi, True), d')"
    and "d_wallets e = d_wallets d'" "d_liquidity e = d_liquidity d'"
    and "t = send_transaction ti u pid p w" "wd = send_withdrawal wi u pid p ti True"
  shows "(\<exists>e'. compensateFailedWithdrawal_tx ti wi u (sn_currency p) (sn_totalDeductionBase p) reason e = (Inr (), e')
      \<and> d_wallets e' = d_wallets d \<and> d_liquidity e' = d_liquidity d)
    \<and> (\<not> wd_success event \<longrightarrow> (\<exists>e'. user_withdrawal_tx env' event pid wd t c a f e = (Inr (), e')
      \<and> d_wallets e' = d_wallets d \<and> d_liquidity e' = d_liquidity d))
    \<and> ((\<forall>x. wallet_for u (sn_currency p) e = Some x \<longrightarrow> w_defaultNetwork x = sn_network p) \<longrightarrow>
      (\<exists>e'. cancel_tx u t wd True reason e = (Inr (), e') \<and> d_wallets e' = d_wallets d \<and> d_liquidity e' = d_liquidity d))"
proof -
  note undo = send_back [OF assms(1-4)]
  note upd = updTransactions_def updWithdrawals_def
  have 1: "\<exists>e'. compensateFailedWithdrawal_tx ti wi u (sn_currency p) (sn_totalDeductionBase p) reason e = (Inr (), e')
      \<and> d_wallets e' = d_wallets d \<and> d_liquidity e' = d_liquidity d"
    by (simp add: compensateFailedWithdrawal_tx_def comp_defs undo [OF assms(5,6)] upd)
  have 2: "\<exists>e'. cancel_tx u t wd True reason e = (Inr (), e') \<and> d_wallets e' = d_wallets d \<and> d_liquidity e' = d_liquidity d"
    if n: "\<forall>x. wallet_for u (sn_currency p) e = Some x \<longrightarrow> w_defaultNetwork x = sn_network p"
    by (simp add: cancel_tx_def comp_defs assms(7,8) releaseBalance_network [OF undo(1) [OF assms(5,6)] n [rule_format]]
        undo(2) [OF assms(5,6)] upd)
  have 3: "\<exists>e'. user_withdrawal_tx env' event pid wd t c a f e = (Inr (), e')
      \<and> d_wallets e' = d_wallets d \<and> d_liquidity e' = d_liquidity d" if e: "\<not> wd_success event"
  proof -
  let ?e = "e\<lparr>d_withdrawals := update_where (\<lambda>x. wd_id x = wi) (settled_withdrawal env' event t c) (d_withdrawals e)\<rparr>"
  have "wallet_for u (sn_currency p) e \<noteq> None" by (rule releaseBalance_wallet [OF undo(1) [OF assms(5,6)]])
  then obtain x where x: "wallet_for u (sn_currency p) e = Some x" by auto
  have "releaseBalance u (sn_currency p) (sn_totalDeductionBase p) None ?e = (Inr (), ?e\<lparr>d_wallets := d_wallets d\<rparr>)"
    by (rule undo(1)) (simp_all add: assms(5,6))
  moreover have "releaseLiquidity (sn_currency p) (sn_totalDeductionBase p) (?e\<lparr>d_wallets := d_wallets d\<rparr>)
      = (Inr (), ?e\<lparr>d_wallets := d_wallets d, d_liquidity := d_liquidity d\<rparr>)"
    by (subst undo(2) [OF assms(5,6)]) simp_all
  ultimately show ?thesis
    by (simp add: user_withdrawal_tx_def settle_rejected_def comp_defs assms(7,8) x e upd)
  qed
  from 1 2 3 show ?thesis by blast
qed


section \<open>What the postings of a withdrawal add up to\<close>

lemma send_new_posting:
  assumes "keys_ok d" "send_new_tx env u pid p d = (Inr (ti, wi, r), d')"
  shows "posted d (entry (sn_currency p) (Books 0 (sn_totalDeductionBase p) 0 0 0 (if r then sn_totalDeductionBase p else 0))) d'"
proof -
  obtain d1 where b: "reserveBalance u (sn_currency p) (sn_totalDeductionBase p) None d = (Inr (), d1)"
    and l: "reserveLiquidity (sn_currency p) (sn_totalDeductionBase p) d = (Inr r, d\<lparr>d_liquidity := d_liquidity d'\<rparr>)"
    and ws: "d_wallets d' = d_wallets d1"
    using send_new_run [OF assms(2)] by blast
  have d1: "d_liquidity d1 = d_liquidity d" by (subst reserveBalance_run [OF b], simp)
  note p1 = reserveBalance_posting [OF assms(1) b]
  have "reserveLiquidity (sn_currency p) (sn_totalDeductionBase p) d1 = (Inr r, d1\<lparr>d_liquidity := d_liquidity d'\<rparr>)"
    using reserveLiquidity_table [OF l, of d1] d1 by simp
  note p2 = reserveLiquidity_posting [OF posted_keys [OF p1 assms(1)] this]
  have p3: "posted (d1\<lparr>d_liquidity := d_liquidity d'\<rparr>) (\<lambda>_. 0) d'" by (rule posted_tables) (simp_all add: ws)
  show ?thesis
    by (rule posted_eq [OF posted_trans [OF posted_trans [OF p1 p2] p3]]) (cases r; simp add: entry_def zero_books_def)
qed

lemma shown_settle_posting:
  assumes "keys_ok d" "wallet_for u cur d = Some w"
    and "guarded_count (\<lambda>x. w_id x = w_id w) (w_settle a) (d_wallets d) \<noteq> 0"
  shows "posted d (entry cur (Books (- a) (- a) 0 0 0 0))
    (d\<lparr>d_wallets := update_where (\<lambda>x. w_id x = w_id w) (\<lambda>x. x\<lparr>w_originalBalance := shown\<rparr>)
        (guarded_update (\<lambda>x. w_id x = w_id w) (w_settle a) (d_wallets d))\<rparr>)"
proof (rule wallet_posting [OF assms(1) wallet_for_currency(2) [OF assms(1,2)] wallet_for_currency(1) [OF assms(1,2)] refl])
  let ?f = "\<lambda>x. (case w_settle a x of None \<Rightarrow> x | Some y \<Rightarrow> y)\<lparr>w_originalBalance := shown\<rparr>"
  show "d_wallets (d\<lparr>d_wallets := update_where (\<lambda>x. w_id x = w_id w) (\<lambda>x. x\<lparr>w_originalBalance := shown\<rparr>)
      (guarded_update (\<lambda>x. w_id x = w_id w) (w_settle a) (d_wallets d))\<rparr>) = update_where (\<lambda>x. w_id x = w_id w) ?f (d_wallets d)"
    by (simp add: guarded_update_where update_where_def w_settle_def)
  have "w_settle a w \<noteq> None"
    by (rule guarded_count_unique [OF _ wallet_for_currency(1) [OF assms(1,2)] refl assms(3)]) (use assms(1) in \<open>simp add: keys_ok_def\<close>)
  then show "w_baseBalance (?f w) = w_baseBalance w + - a" "w_reservedBalance (?f w) = w_reservedBalance w + - a"
    by (auto simp: w_settle_def split: if_splits)
qed (simp_all add: w_settle_def)

lemma settle_success_posting:
  assumes "keys_ok d" "wallet_for u cur d = Some w" "0 \<le> platform_fee t" "settle_success env cur ref t w d = (Inr x, d')"
  shows "posted d (entry cur (Books (- total_sent t) (- total_sent t) 0 (platform_fee t - total_sent t)
    (platform_fee t - total_sent t) (- total_sent t))) d'"
proof -
  obtain shown d2 d3 where
    n: "guarded_count (\<lambda>x. w_id x = w_id w) (w_settle (total_sent t)) (d_wallets d) \<noteq> 0"
    and i: "updateInternalBalance env (to_lower cur) (total_sent t - platform_fee t) Subtract
      (d\<lparr>d_wallets := update_where (\<lambda>x. w_id x = w_id w) (\<lambda>x. x\<lparr>w_originalBalance := shown\<rparr>)
        (guarded_update (\<lambda>x. w_id x = w_id w) (w_settle (total_sent t)) (d_wallets d))\<rparr>) = (Inr (), d2)"
    and c: "consumeReservedLiquidity cur (total_sent t - platform_fee t) d2 = (Inr True, d3)"
    and r: "if platform_fee t > 0 then releaseLiquidity cur (platform_fee t) d3 = (Inr (), d') else d' = d3"
    using settle_success_run [OF assms(4)] by blast
  note p1 = shown_settle_posting [OF assms(1,2) n, of shown]
  note k1 = posted_keys [OF p1 assms(1)]
  note p2 = updateInternalBalance_posting [OF k1 i, simplified]
  note k2 = posted_keys [OF p2 k1]
  note p3 = consumeReservedLiquidity_posting [OF k2 c]
  have p4: "posted d3 (entry cur (Books 0 0 0 0 0 (- platform_fee t))) d'"
  proof (cases "0 < platform_fee t")
    case True
    then show ?thesis using releaseLiquidity_posting [OF posted_keys [OF p3 k2], of cur "platform_fee t" "()" d'] r by simp
  next
    case False
    with r assms(3) show ?thesis by (auto intro!: posted_tables [THEN posted_eq])
  qed
  show ?thesis
    by (rule posted_eq [OF posted_trans [OF posted_trans [OF posted_trans [OF p1 p2] p3] p4]]) (simp add: entry_add)
qed

lemma user_withdrawal_posting:
  assumes "keys_ok d" "0 \<le> platform_fee t" "user_withdrawal_tx env event ref wd t conf a f d = (Inr x, d')" "wd_success event"
  shows "posted d (entry (wd_currency wd) (Books (- total_sent t) (- total_sent t) 0 (platform_fee t - total_sent t)
    (platform_fee t - total_sent t) (- total_sent t))) d'"
proof -
  let ?d1 = "d\<lparr>d_withdrawals := update_where (\<lambda>x. wd_id x = wd_id wd) (settled_withdrawal env event t conf) (d_withdrawals d)\<rparr>"
  obtain w d2 where w: "wallet_for (t_userId t) (wd_currency wd) d = Some w"
    and d2: "settle_success env (wd_currency wd) ref t w ?d1 = (Inr (), d2)"
    and d': "d_wallets d' = d_wallets d2" "d_liquidity d' = d_liquidity d2"
    using user_withdrawal_run [OF assms(3)] assms(4) by (auto split: if_splits)
  have k: "keys_ok ?d1" "wallet_for (t_userId t) (wd_currency wd) ?d1 = Some w"
    using assms(1) w by (simp_all add: keys_ok_def wallet_for_def)
  show ?thesis by (rule posted_cong [OF settle_success_posting [OF k assms(2) d2]]) (simp_all add: d')
qed

text \<open>C3: a withdrawal that succeeds takes its total from the user and, less the platform fee, from the
  company's funds and internal balance, and leaves nothing reserved: whatever else happened between the
  confirmation and the success webhook only adds its own postings.\<close>

theorem send_settles:
  assumes "keys_ok d" "0 \<le> sn_platformFeeBase p" "send_new_tx env u pid p d = (Inr (ti, wi, True), d')"
    and "posted d' other e" "wd_success event"
    and "user_withdrawal_tx env' event pid (send_withdrawal wi u pid p ti True) (send_transaction ti u pid p w) c a f e = (Inr x, e')"
  shows "posted d (\<lambda>k. other k + entry (sn_currency p) (Books (- sn_totalDeductionBase p) 0 0
    (sn_platformFeeBase p - sn_totalDeductionBase p) (sn_platformFeeBase p - sn_totalDeductionBase p) 0) k) e'"
proof -
  note p1 = send_new_posting [OF assms(1,3)]
  note k = posted_keys [OF assms(4) posted_keys [OF p1 assms(1)]]
  have "0 \<le> platform_fee (send_transaction ti u pid p w)" using assms(2) by simp
  note p3 = user_withdrawal_posting [OF k this assms(6,5), simplified]
  show ?thesis
    by (rule posted_eq [OF posted_trans [OF posted_trans [OF p1 assms(4)] p3]]) (simp add: entry_def)
qed


section \<open>The whole confirmation\<close>

text \<open>What the provider's answer must be for the code to take the request as accepted.\<close>

definition accepted :: "string + sendAnswer \<Rightarrow> string option" where
  "accepted answer = (case answer of Inl _ \<Rightarrow> None
     | Inr a \<Rightarrow> if wa_status a = ''success'' then truthy (wa_id a) else None)"

lemma wp_run: "m s = (Inr x, s') \<Longrightarrow> wp m Q E s = Q x s'"
  by (simp add: wp_def)

lemma wp_enforce: "Q () s \<Longrightarrow> (\<And>e. E e s) \<Longrightarrow> wp (enforceConfirmationCooldown env u) Q E s"
  by (auto simp: enforceConfirmationCooldown_def tempGet_def wp_simps Let_def split: option.split tempValue.split)

lemma wp_check_send:
  assumes "\<And>p. send_preview_of env pid s = Some p \<Longrightarrow> sn_userId p = u \<Longrightarrow> sn_pinVerified p \<Longrightarrow> Q p s"
    and "\<And>e s'. s_db s' = s_db s \<Longrightarrow> E e s'"
  shows "wp (check_send env u pid) Q E s"
  using assms by (auto simp: check_send_def tempDel_def wp_simps split: option.split sum.split)

lemma compensation_runs:
  assumes "solvent d" "keys_ok d" "0 \<le> sn_totalDeductionBase p" "send_new_tx env u pid p d = (Inr (ti, wi, True), s_db s)"
    and "e_txFault env ''send_compensate'' = None"
  shows "\<exists>e'. compensateFailedWithdrawal env ti wi u (sn_currency p) (sn_totalDeductionBase p) reason s = (Inr (), s\<lparr>s_db := e'\<rparr>)
    \<and> d_wallets e' = d_wallets d \<and> d_liquidity e' = d_liquidity d
    \<and> d_withdrawals e' = update_where (\<lambda>x. wd_id x = wi) (\<lambda>x. x\<lparr>wd_status := WdFAILED, wd_reason := Some reason\<rparr>)
      (d_withdrawals (s_db s))"
proof -
  note undo = send_back [OF assms(1-4) refl refl]
  show ?thesis
    by (simp add: compensateFailedWithdrawal_def compensateFailedWithdrawal_tx_def txM_def assms(5) comp_defs undo
        updTransactions_def updWithdrawals_def)
      (rule exI, rule conjI, rule refl, simp)
qed

text \<open>The withdrawals the provider was asked for.\<close>

definition withdraw_requests :: "sys \<Rightarrow> call list" where
  "withdraw_requests s = filter (\<lambda>c. case c of CallWithdraw _ _ _ \<Rightarrow> True | _ \<Rightarrow> False) (s_calls s)"

lemma withdraw_requests_notify [simp]: "withdraw_requests (s\<lparr>s_calls := s_calls s @ [CallNotify i]\<rparr>) = withdraw_requests s"
  by (simp add: withdraw_requests_def)

lemma withdraw_requests_db [simp]: "withdraw_requests (s\<lparr>s_db := d\<rparr>) = withdraw_requests s"
  by (simp add: withdraw_requests_def)

lemma send_request_refused:
  assumes "solvent d" "keys_ok d" "0 \<le> sn_totalDeductionBase p" "send_new_tx env u pid p d = (Inr (ti, wi, True), s_db s)"
    and "accepted answer = None" "e_txFault env ''send_compensate'' = None"
  shows "wp (send_request env answer u pid p ti wi) (\<lambda>_ _. False)
    (\<lambda>_ s'. d_wallets (s_db s') = d_wallets d \<and> d_liquidity (s_db s') = d_liquidity d) s"
proof -
  let ?R = "\<lambda>_ s'. d_wallets (s_db s') = d_wallets d \<and> d_liquidity (s_db s') = d_liquidity d"
  let ?s = "s\<lparr>s_calls := s_calls s @ [CallWithdraw pid (to_lower (sn_currency p)) (sn_requestedAmount p)]\<rparr>"
  have new: "send_new_tx env u pid p d = (Inr (ti, wi, True), s_db ?s)" using assms(4) by simp
  have comp: "wp (thenM (compensateFailedWithdrawal env ti wi u (sn_currency p) (sn_totalDeductionBase p) reason) (throwM e))
      (\<lambda>_ _. False) E ?s" if "\<And>s'. ?R e s' \<Longrightarrow> E e s'" for reason e E
    using that compensation_runs [OF assms(1-3) new assms(6), of reason] by (auto simp: wp_def thenM_def bindM_def throwM_def)
  show ?thesis
  proof (cases answer)
    case (Inl m)
    have "wp (thenM (compensateFailedWithdrawal env ti wi u (sn_currency p) (sn_totalDeductionBase p) (''Provider API error: '' @ err_msg (ProviderError m)))
        (throwM (BadRequest ''Something went wrong. Please try again shortly.''))) (\<lambda>_ _. False) ?R ?s"
      by (rule comp) simp
    with Inl show ?thesis by (simp add: send_request_def axios_def wp_simps)
  next
    case (Inr a)
    with assms(5) have none: "(if wa_status a = ''success'' then truthy (wa_id a) else None) = None"
      by (simp add: accepted_def)
    show ?thesis
      unfolding send_request_def axios_def wp_then [of "callM _"] wp_call wp_catch wp_bind wp_lift Inr sum.case none option.case
      by (rule comp) (simp add: wp_throw)
  qed
qed


section \<open>An example\<close>

definition send_example :: sendPreview where
  "send_example = \<lparr>sn_previewId = ''p1'', sn_userId = ''u1'', sn_currency = ''BTC'', sn_network = None,
     sn_toAddress = ''a1'', sn_destinationTag = None, sn_requestedAmount = ''0.00000037'', sn_requestedAmountBase = 37,
     sn_networkFee = ''0.00000002'', sn_networkFeeBase = 2, sn_platformFee = ''0.00000001'', sn_platformFeeBase = 1,
     sn_walletDefaultNetwork = Some ''trc20'', sn_totalDeduction = ''0.0000004'', sn_totalDeductionBase = 40,
     sn_pinVerified = True, sn_createdAt = 0, sn_expiresAt = 2000\<rparr>"

definition db_send :: db where
  "db_send = db_example\<lparr>d_wallets := [wallet_example, btc_wallet], d_liquidity := [liquidity_example, btc_liquidity]\<rparr>"

definition sys_send :: sys where
  "sys_send = sys_example\<lparr>s_db := db_send, s_temp := [''send:p1'' \<mapsto> (TSendPreview send_example, None)]\<rparr>"

lemmas send_eval = db_send_def sys_send_def send_example_def btc_wallet_def btc_liquidity_def withdrawal_eval

lemmas send_tx_eval = send_confirm_tx_def send_new_tx_def send_transaction_def send_withdrawal_def insertTransaction_def
  insertWithdrawal_def transaction_by_uniqueId_def transaction_by_id_def freshM_def withdrawal_by_reference_def truthy_def
  reserveBalance_eq reserveLiquidity_eq w_reserve_def l_reserve_def comp_defs ledger_eval

lemma db_send_ok: "solvent db_send" "keys_ok db_send"
  by (simp_all add: send_eval solvent_def wallet_ok_def liquidity_ok_def keys_ok_def eval_simps)

lemma send_new_example:
  "\<exists>d'. send_new_tx env_example ''u1'' ''p1'' send_example db_send = (Inr (show_nat 0, show_nat 1, True), d')
     \<and> d_withdrawals d' = [send_withdrawal (show_nat 1) ''u1'' ''p1'' send_example (show_nat 0) True]
     \<and> d_transactions d' = [send_transaction (show_nat 0) ''u1'' ''p1'' send_example btc_wallet]"
  by (simp add: send_eval send_tx_eval)


theorem send_given_back_witness:
  "\<exists>d' e'. send_new_tx env_example ''u1'' ''p1'' send_example db_send = (Inr (show_nat 0, show_nat 1, True), d')
     \<and> compensateFailedWithdrawal_tx (show_nat 0) (show_nat 1) ''u1'' ''BTC'' 40 ''refused'' d' = (Inr (), e')
     \<and> d_wallets e' = d_wallets db_send \<and> d_liquidity e' = d_liquidity db_send"
proof -
  obtain d' where run: "send_new_tx env_example ''u1'' ''p1'' send_example db_send = (Inr (show_nat 0, show_nat 1, True), d')"
    using send_new_example by blast
  have p: "0 \<le> sn_totalDeductionBase send_example" "sn_currency send_example = ''BTC''" "sn_totalDeductionBase send_example = 40"
    by (simp_all add: send_example_def)
  from send_given_back [OF db_send_ok p(1) run refl refl refl refl, THEN conjunct1, of "''refused''"] run show ?thesis
    unfolding p by blast
qed

theorem send_settles_witness:
  "\<exists>d' e'. send_new_tx env_example ''u1'' ''p1'' send_example db_send = (Inr (show_nat 0, show_nat 1, True), d')
     \<and> user_withdrawal_tx env_example ''withdraw.successful'' ''p1'' (send_withdrawal (show_nat 1) ''u1'' ''p1'' send_example (show_nat 0) True)
         (send_transaction (show_nat 0) ''u1'' ''p1'' send_example btc_wallet) answer_example 37 2 d' = (Inr (), e')
     \<and> posted db_send (entry ''BTC'' (Books (- 40) 0 0 (- 39) (- 39) 0)) e'"
proof -
  obtain d' where run: "send_new_tx env_example ''u1'' ''p1'' send_example db_send = (Inr (show_nat 0, show_nat 1, True), d')"
    using send_new_example by blast
  let ?tx = "user_withdrawal_tx env_example ''withdraw.successful'' ''p1'' (send_withdrawal (show_nat 1) ''u1'' ''p1'' send_example (show_nat 0) True)
         (send_transaction (show_nat 0) ''u1'' ''p1'' send_example btc_wallet) answer_example 37 2"
  have d': "d' = snd (send_new_tx env_example ''u1'' ''p1'' send_example db_send)" by (simp add: run)
  have shown: "fromBase cv_example (ABigInt 60) ''BTC'' None = Inr ''0.0000006''"
    by (simp add: cv_example_def currency_eval eval_simps)
  have "fst (?tx d') = Inr ()" unfolding d'
    by (simp add: send_eval send_tx_eval shown user_withdrawal_tx_def settle_success_def wd_success_def total_sent_def
        platform_fee_def updWithdrawals_def updTransactions_def refreshOriginalBalance_def base_of_def updWallets_def
        update_where_def w_settle_def updLiquidity_def)
  note tx = fst_run [OF this]
  have p: "0 \<le> sn_platformFeeBase send_example" "sn_currency send_example = ''BTC''" "sn_totalDeductionBase send_example = 40"
    "sn_platformFeeBase send_example = 1"
    by (simp_all add: send_example_def)
  have s: "wd_success ''withdraw.successful''" by (simp add: wd_success_def)
  have "posted db_send (entry ''BTC'' (Books (- 40) 0 0 (- 39) (- 39) 0)) (snd (?tx d'))"
    using send_settles [OF db_send_ok(2) p(1) run posted_tables [OF refl refl] s tx] by (simp add: p posted_def)
  with run tx show ?thesis by blast
qed

lemma sys_send_refused:
  "\<exists>s'. confirmSend env_example (Inl ''timeout'') ''u1'' ''p1'' sys_send
      = (Inl (BadRequest ''Something went wrong. Please try again shortly.''), s')
    \<and> map wd_status (d_withdrawals (s_db s')) = [WdFAILED] \<and> map wd_reference (d_withdrawals (s_db s')) = [Some ''p1'']"
  by (simp add: confirmSend_def send_eval send_tx_eval enforceConfirmationCooldown_def tempGet_def temp_lookup_def check_send_def
      send_preview_of_def minimum_ok_def txM_def callM_def send_request_def axios_def compensateFailedWithdrawal_def
      compensateFailedWithdrawal_tx_def updTransactions_def updWithdrawals_def update_where_def live_def)


text \<open>A request whose answer is lost counts as refused: the confirmation gives the user the balance back and
  marks the withdrawal FAILED, so that the success webhook of a withdrawal the provider did carry out is
  ignored, and the user keeps what was sent.\<close>

theorem lost_answer_keeps_balance:
  "\<exists>s'. confirmSend env_example (Inl ''timeout'') ''u1'' ''p1'' sys_send
      = (Inl (BadRequest ''Something went wrong. Please try again shortly.''), s')
    \<and> withdrawal_process env' ''withdraw.successful'' (Some ''p1'') fetched price s' = (Inr (), s')"
proof -
  obtain s' where run: "confirmSend env_example (Inl ''timeout'') ''u1'' ''p1'' sys_send
      = (Inl (BadRequest ''Something went wrong. Please try again shortly.''), s')"
    and st: "map wd_status (d_withdrawals (s_db s')) = [WdFAILED]" "map wd_reference (d_withdrawals (s_db s')) = [Some ''p1'']"
    by (rule exE [OF sys_send_refused]) (elim conjE)
  obtain x where "d_withdrawals (s_db s') = [x]" "wd_status x = WdFAILED" "wd_reference x = Some ''p1''"
    using st by (auto simp: map_eq_Cons_conv)
  then have w: "withdrawal_by_reference ''p1'' (s_db s') = Some x" "terminal (wd_status x)"
    by (simp_all add: withdrawal_by_reference_def terminal_def)
  have c: "truthy (Some ''p1'') = Some ''p1''" "\<not> company_reference ''p1''"
    by (simp_all add: truthy_def company_reference_def eval_simps)
  have "withdrawal_process env' ''withdraw.successful'' (Some ''p1'') fetched price s' = (Inr (), s')"
    using w(2) by (simp add: withdrawal_process_def c w(1) handle_user_withdrawal_def bindM_def getM_def returnM_def split: option.split)
  with run show ?thesis by blast
qed

end
