(* ===== verification/SwapFlow.thy ===== *)
theory SwapFlow
  imports SwapService SendBooks SwapSafety
begin

text \<open>
  A swap from the confirmation of its quote to its end: the reservations of the confirmation are given
  back exactly by every failure, and a settlement adds up to what the swap is: the source amount and
  the fee leave the user, what was received comes in, and nothing stays reserved.
\<close>

section \<open>What the confirmation reserves\<close>

lemma reserveBalance_table:
  assumes "reserveBalance u c a n e = (Inr v, e')" "d_wallets e = d_wallets d"
  shows "reserveBalance u c a n d = (Inr v, d\<lparr>d_wallets := d_wallets e'\<rparr>)"
  using assms by (auto simp: reserveBalance_eq wallet_for_def split: option.splits if_splits)

lemma swap_reserve_run:
  assumes "swap_reserve_tx env u qid n q human d = (Inr (t, r), d')"
  shows "reserveBalance u (xq_from q) (swap_reserved q) (Some n) d = (Inr (), d\<lparr>d_wallets := d_wallets d'\<rparr>)"
    and "reserveLiquidity (xq_from q) (xq_exactFromMinor q) d = (Inr r, d\<lparr>d_liquidity := d_liquidity d'\<rparr>)"
    and "t_cryptoAmountBase t = Some (xq_exactFromMinor q)" "t_platformFeeBase t = Some (xq_platformFeeMinor q)"
      "t_context t = CtxSWAP" "t_userId t = u" "d_transactions d' = d_transactions d @ [t]" "d_swaps d' = d_swaps d"
proof -
  have "\<exists>fee whole v d2 d3. transaction_of_params (e_cuid env (d_seq d)) (swap_params u qid n q human fee whole) = t
    \<and> reserveBalance u (xq_from q) (swap_reserved q) (Some n) (d\<lparr>d_seq := Suc (d_seq d), d_transactions := d_transactions d @ [t]\<rparr>) = (Inr v, d2)
    \<and> reserveLiquidity (xq_from q) (xq_exactFromMinor q) d2 = (Inr r, d3)
    \<and> d_wallets d' = d_wallets d3 \<and> d_liquidity d' = d_liquidity d3 \<and> d_transactions d' = d_transactions d3 \<and> d_swaps d' = d_swaps d3"
    using assms
    unfolding swap_reserve_tx_def run_bind run_then run_lift createTransaction_def run_fresh run_insertTransaction run_inserts run_return run_when prod.inject
    apply (elim exE conjE)
    apply (split if_split_asm)
    subgoal
      apply (elim exE conjE)
      apply hypsubst_thin
      apply simp
      by (intro exI, rule refl)
    subgoal
      apply hypsubst_thin
      apply simp
      by (intro exI, rule refl)
    done
  then obtain fee whole d2 d3 where t: "t = transaction_of_params (e_cuid env (d_seq d)) (swap_params u qid n q human fee whole)"
    and b: "reserveBalance u (xq_from q) (swap_reserved q) (Some n) (d\<lparr>d_seq := Suc (d_seq d), d_transactions := d_transactions d @ [t]\<rparr>) = (Inr (), d2)"
    and l: "reserveLiquidity (xq_from q) (xq_exactFromMinor q) d2 = (Inr r, d3)"
    and d': "d_wallets d' = d_wallets d3" "d_liquidity d' = d_liquidity d3" "d_transactions d' = d_transactions d3" "d_swaps d' = d_swaps d3"
    by auto
  have d2: "d_liquidity d2 = d_liquidity d" "d_transactions d2 = d_transactions d @ [t]" "d_swaps d2 = d_swaps d"
    by (subst reserveBalance_run [OF b], simp)+
  have d3: "d_wallets d3 = d_wallets d2" "d_transactions d3 = d_transactions d2" "d_swaps d3 = d_swaps d2"
    by (subst reserveLiquidity_run [OF l], simp)+
  show "reserveBalance u (xq_from q) (swap_reserved q) (Some n) d = (Inr (), d\<lparr>d_wallets := d_wallets d'\<rparr>)"
    using reserveBalance_table [OF b, of d] by (simp add: d' d3)
  show "reserveLiquidity (xq_from q) (xq_exactFromMinor q) d = (Inr r, d\<lparr>d_liquidity := d_liquidity d'\<rparr>)"
    using reserveLiquidity_table [OF l, of d] by (simp add: d2 d')
  show "t_cryptoAmountBase t = Some (xq_exactFromMinor q)" "t_platformFeeBase t = Some (xq_platformFeeMinor q)"
      "t_context t = CtxSWAP" "t_userId t = u"
    by (simp_all add: t transaction_of_params_def swap_params_def new_transaction_def)
  show "d_transactions d' = d_transactions d @ [t]" "d_swaps d' = d_swaps d" by (simp_all add: d' d3 d2)
qed

text \<open>Undoing it, in every state that has these balances, by the quote's currency or its upper case.\<close>

lemma swap_back:
  assumes "solvent d" "keys_ok d" "0 \<le> xq_exactFromMinor q" "swap_reserve_tx env u qid n q human d = (Inr (t, True), d')"
    and "d_wallets e = d_wallets d'" "d_liquidity e = d_liquidity d'"
  shows "releaseBalance u (xq_from q) (swap_reserved q) None e = (Inr (), e\<lparr>d_wallets := d_wallets d\<rparr>)"
    and "d_liquidity f = d_liquidity e \<Longrightarrow>
      releaseLiquidity (xq_from q) (xq_exactFromMinor q) f = (Inr (), f\<lparr>d_liquidity := d_liquidity d\<rparr>)"
    and "releaseBalance u (xq_from q) (swap_reserved q) (Some n) e = (Inr (), e\<lparr>d_wallets := d_wallets d\<rparr>)"
proof -
  note r = swap_reserve_run [OF assms(4)]
  have "back_wallets d e u (xq_from q) (swap_reserved q)"
    by (rule wallets_back [OF assms(1,2) reserve_any_network [OF r(1)]]) (simp add: assms(5))
  then show b: "releaseBalance u (xq_from q) (swap_reserved q) None e = (Inr (), e\<lparr>d_wallets := d_wallets d\<rparr>)"
    by (simp add: back_wallets_def)
  have "back_liquidity d e (xq_from q) (xq_exactFromMinor q)"
    by (rule liquidity_back [OF assms(1-3) r(2)]) (simp add: assms(6))
  then show "d_liquidity f = d_liquidity e \<Longrightarrow>
      releaseLiquidity (xq_from q) (xq_exactFromMinor q) f = (Inr (), f\<lparr>d_liquidity := d_liquidity d\<rparr>)"
    by (simp add: back_liquidity_def)
  obtain w where w: "wallet_for u (xq_from q) d = Some w" "network_matches (Some n) w"
    and ws: "d_wallets d' = guarded_update (\<lambda>v. w_id v = w_id w) (w_reserve (swap_reserved q)) (d_wallets d)"
    using r(1) by (auto simp: reserveBalance_eq dest!: arg_cong [where f = d_wallets] split: option.splits if_splits)
  have "wallet_for u (xq_from q) e = Some (if w_reserve (swap_reserved q) w = None then w else the (w_reserve (swap_reserved q) w))"
    using w(1) unfolding wallet_for_def assms(5) ws by (subst find_guarded_update) (auto simp: w_reserve_def split: if_splits)
  then show "releaseBalance u (xq_from q) (swap_reserved q) (Some n) e = (Inr (), e\<lparr>d_wallets := d_wallets d\<rparr>)"
    using b w(2) by (auto simp: releaseBalance_eq network_matches_def w_reserve_def split: if_splits option.splits)
qed

lemma releaseBalance_upper: "releaseBalance u (to_upper c) a n d = (Inr v, d') \<longleftrightarrow> releaseBalance u c a n d = (Inr v, d')"
proof -
  have "wallet_for u (to_upper c) d = wallet_for u c d" by (simp add: wallet_for_def ieq_def)
  then show ?thesis by (auto simp: releaseBalance_eq split: option.splits if_splits)
qed

lemma releaseLiquidity_upper: "releaseLiquidity (to_upper c) a d = (Inr v, d') \<longleftrightarrow> releaseLiquidity c a d = (Inr v, d')"
  by (auto simp: releaseLiquidity_eq verifyCurrency_def Let_def split: sum.splits if_splits)


lemma updSwaps_tables: "updSwaps p f d = (Inr (), d\<lparr>d_swaps := update_where p f (d_swaps d)\<rparr>)"
  by (simp add: updSwaps_def modifyM_def)

text \<open>A swap that fails gives back exactly what its confirmation reserved, whether the provider
  refuses it at once or reports the failure or the reversal later by webhook.\<close>

theorem swap_given_back:
  assumes "solvent d" "keys_ok d" "0 \<le> xq_exactFromMinor q" "swap_reserve_tx env u qid n q human d = (Inr (t, True), d')"
    and "d_wallets e = d_wallets d'" "d_liquidity e = d_liquidity d'"
    and "sw_userId sw = u" "to_upper (sw_fromCurrency sw) = to_upper (xq_from q)"
    and "t_cryptoAmountBase t' = t_cryptoAmountBase t" "t_platformFeeBase t' = t_platformFeeBase t"
    and "swap_booking env' sw data fw tw (Some t') = Inr sb"
  shows "(\<exists>e'. swap_compensate_tx u n q t message e = (Inr (), e') \<and> d_wallets e' = d_wallets d \<and> d_liquidity e' = d_liquidity d)
    \<and> (\<exists>e'. swap_failure_tx env' event sb e = (Inr (), e') \<and> d_wallets e' = d_wallets d \<and> d_liquidity e' = d_liquidity d)"
proof
  note undo = swap_back [OF assms(1-6)]
  show "\<exists>e'. swap_compensate_tx u n q t message e = (Inr (), e') \<and> d_wallets e' = d_wallets d \<and> d_liquidity e' = d_liquidity d"
    by (simp add: swap_compensate_tx_def comp_defs undo(2,3) updTransactions_def)
  have sb: "sw_userId (sb_swap sb) = u" "sb_from sb = to_upper (xq_from q)" "sb_booked sb = xq_exactFromMinor q"
    "sb_reserved sb = swap_reserved q"
    using assms(7-11) swap_reserve_run(3,4) [OF assms(4)]
    by (auto simp: swap_booking_def booked_amount_def reserved_amount_def or0_def swap_reserved_def)
  have b: "releaseBalance u (to_upper (xq_from q)) (swap_reserved q) None e = (Inr (), e\<lparr>d_wallets := d_wallets d\<rparr>)"
    using undo(1) by (simp only: releaseBalance_upper)
  have l': "releaseLiquidity (to_upper (xq_from q)) (xq_exactFromMinor q) f = (Inr (), f\<lparr>d_liquidity := d_liquidity d\<rparr>)"
    if "d_liquidity f = d_liquidity e" for f
    using undo(2) [OF that] by (simp only: releaseLiquidity_upper)
  show "\<exists>e'. swap_failure_tx env' event sb e = (Inr (), e') \<and> d_wallets e' = d_wallets d \<and> d_liquidity e' = d_liquidity d"
    by (cases "sb_linked sb") (simp_all add: swap_failure_tx_def comp_defs sb b l' updTransactions_def updSwaps_def)
qed

section \<open>What the postings of a swap add up to\<close>

lemma swap_reserve_posting:
  assumes "keys_ok d" "swap_reserve_tx env u qid n q human d = (Inr (t, r), d')"
  shows "posted d (entry (xq_from q) (Books 0 (swap_reserved q) 0 0 0 (if r then xq_exactFromMinor q else 0))) d'"
proof -
  note r = swap_reserve_run [OF assms(2)]
  note p1 = reserveBalance_posting [OF assms(1) r(1)]
  have "reserveLiquidity (xq_from q) (xq_exactFromMinor q) (d\<lparr>d_wallets := d_wallets d'\<rparr>)
      = (Inr r, d\<lparr>d_wallets := d_wallets d', d_liquidity := d_liquidity d'\<rparr>)"
    using reserveLiquidity_table [OF r(2), of "d\<lparr>d_wallets := d_wallets d'\<rparr>"] by simp
  note p2 = reserveLiquidity_posting [OF posted_keys [OF p1 assms(1)] this]
  have p3: "posted (d\<lparr>d_wallets := d_wallets d', d_liquidity := d_liquidity d'\<rparr>) (\<lambda>_. 0) d'"
    by (rule posted_tables) simp_all
  show ?thesis
    by (rule posted_eq [OF posted_trans [OF posted_trans [OF p1 p2] p3]]) (cases r; simp add: entry_def zero_books_def)
qed

definition own_swap :: "swapBooking \<Rightarrow> bool" where
  "own_swap sb \<longleftrightarrow> \<not> stack_swap (sb_linked sb) \<and> 0 < sb_booked sb"

lemma swap_settle_posting:
  assumes "keys_ok d" "booking_ok sb d" "own_swap sb" "liquidity_for (sb_to sb) d \<noteq> None"
    and "swap_settle_tx env sb cf f t price d = (Inr True, d')"
  shows "posted d (\<lambda>c. entry (sb_from sb) (Books (- sb_reserved sb) (- sb_reserved sb) 0 (- f) 0 (- sb_booked sb)) c
    + entry (sb_to sb) (Books t 0 0 t 0 0) c) d'"
proof -
  from assms(5) obtain u d1 v where b: "swap_books env sb cf f t d = (Inr u, d1)"
    and r: "swap_records env sb cf t price d1 = (Inr v, d')"
    unfolding swap_settle_tx_def run_bind run_get by (auto simp: run_simps split: if_splits)
  have own: "\<not> stack_swap (sb_linked sb)" "0 < sb_booked sb" using assms(3) by (simp_all add: own_swap_def)
  obtain u1 e1 u2 e2 where e1: "swap_debit env sb f d = (Inr u1, e1)" and e2: "swap_credit env sb t e1 = (Inr u2, e2)"
    and e3: "d_wallets d1 = d_wallets e2" "d_liquidity d1 = d_liquidity e2"
    using b own(1) by (auto simp: swap_books_def run_simps split: option.splits)
  have w: "\<forall>w \<in> set (d_wallets d). w_id w = w_id (sb_fromWallet sb) \<longrightarrow> ieq (w_currency w) (to_lower (sb_from sb))"
    using assms(2) by (simp add: booking_ok_def ieq_def)
  note p1 = debit_posting [OF assms(1) w e1 [unfolded swap_debit_def]]
  note k1 = posted_keys [OF p1 assms(1)]
  have bk: "booking_ok sb e1" using booking_ok_same p1 assms(2) by (auto simp: posted_def)
  have w1: "\<forall>w \<in> set (d_wallets e1). w_id w = w_id (sb_toWallet sb) \<longrightarrow> ieq (w_currency w) (to_lower (sb_to sb))"
    using bk by (simp add: booking_ok_def ieq_def)
  have l1: "liquidity_for (to_lower (sb_to sb)) e1 \<noteq> None"
    using posted_row [OF p1 assms(4)] by (simp add: liquidity_for_def ieq_def)
  have p2: "posted e1 (entry (to_lower (sb_to sb)) (Books t 0 0 t 0 0)) e2"
    by (rule credit_posting [OF k1 w1 l1 _ _ _ _ _ e2 [unfolded swap_credit_def]]) (simp_all add: w_credit_def)
  have p3: "posted e2 (\<lambda>_. 0) d1" by (rule posted_tables) (simp_all add: e3)
  note k3 = posted_keys [OF p3 posted_keys [OF p2 k1]]
  let ?row = "bindM (freshM env) (\<lambda>i. insertTransaction (swap_credit_row env i sb cf t))"
  obtain u3 e7 u4 e4 u5 e5 ngn u6 where e7: "updSwaps (\<lambda>x. sw_id x = sw_id (sb_swap sb)) (\<lambda>x. x\<lparr>sw_status := ''COMPLETED'', sw_confirmed := True,
        sw_executionPriceOriginal := Some (xc_execution_price cf),
        sw_receivedAmountOriginal := Some (xc_received_amount cf), sw_amountOriginal := xc_from_amount cf\<rparr>) d1 = (Inr u3, e7)"
    and row: "whenM (\<not> stack_swap (sb_linked sb) \<and> transaction_by_uniqueId (sd_id (sb_data sb) @ ''-credit'') e7 = None) ?row e7 = (Inr u4, e4)"
    and rel: "whenM (\<not> stack_swap (sb_linked sb)) (releaseLiquidity (sb_from sb) (sb_booked sb)) e4 = (Inr u5, e5)"
    and users: "updUsers (\<lambda>u. u_id u = sw_userId (sb_swap sb)) (\<lambda>u. u\<lparr>u_amountSent := u_amountSent u + ngn\<rparr>) e5 = (Inr u6, d')"
    using r unfolding swap_records_def run_then run_bind run_get run_lift by (elim exE conjE, hypsubst_thin) (rule that, assumption+)
  have e4: "d_wallets e4 = d_wallets d1" "d_liquidity e4 = d_liquidity d1"
    using row e7 by (auto simp: run_when run_bind run_fresh run_insertTransaction run_upd split: if_splits)
  have e5: "releaseLiquidity (sb_from sb) (sb_booked sb) e4 = (Inr u5, e5)" using rel own(1) by (simp add: run_when)
  have e6: "d_wallets d' = d_wallets e5" "d_liquidity d' = d_liquidity e5" using users by (simp_all add: run_upd)
  have p4: "posted d1 (\<lambda>_. 0) e4" by (rule posted_tables [OF e4])
  note p5 = releaseLiquidity_posting [OF posted_keys [OF p4 k3] e5]
  have p6: "posted e5 (\<lambda>_. 0) d'" by (rule posted_tables [OF e6])
  show ?thesis
    by (rule posted_eq [OF posted_trans [OF posted_trans [OF posted_trans [OF posted_trans [OF posted_trans [OF p1 p2] p3] p4] p5] p6]])
      (use own(2) in \<open>simp add: entry_def split del: if_split; simp add: zero_books_def\<close>)
qed

text \<open>C4: a swap that settles takes the source amount and the fee from the user's balance, what the provider
  took from the company's internal balance, and adds what was received to both in the other currency; of
  the reservations of its confirmation nothing is left, whatever was posted in between.\<close>

theorem swap_flow_settles:
  assumes "keys_ok d" "swap_reserve_tx env u qid n q human d = (Inr (t, True), d')" "posted d' other e"
    and "own_swap sb" "booking_ok sb e" "liquidity_for (sb_to sb) e \<noteq> None"
    and "to_upper (sw_fromCurrency sw) = to_upper (xq_from q)"
    and "t_cryptoAmountBase t' = t_cryptoAmountBase t" "t_platformFeeBase t' = t_platformFeeBase t"
    and "swap_booking env' sw data fw tw (Some t') = Inr sb"
    and "swap_settle_tx env' sb cf taken received price e = (Inr True, e')"
  shows "posted d (\<lambda>c. other c + entry (xq_from q) (Books (- swap_reserved q) 0 0 (- taken) 0 0) c
    + entry (sb_to sb) (Books received 0 0 received 0 0) c) e'"
proof -
  note p1 = swap_reserve_posting [OF assms(1,2)]
  note k = posted_keys [OF assms(3) posted_keys [OF p1 assms(1)]]
  have sb: "sb_from sb = to_upper (xq_from q)" "sb_booked sb = xq_exactFromMinor q" "sb_reserved sb = swap_reserved q"
    using assms(7-10) swap_reserve_run(3,4) [OF assms(2)]
    by (auto simp: swap_booking_def booked_amount_def reserved_amount_def or0_def swap_reserved_def)
  have up: "entry (to_upper (xq_from q)) b = entry (xq_from q) b" for b by (simp add: entry_def ieq_def fun_eq_iff)
  note p3 = swap_settle_posting [OF k assms(5,4,6,11), unfolded sb up]
  show ?thesis
    by (rule posted_eq [OF posted_trans [OF posted_trans [OF p1 assms(3)] p3]]) (simp add: entry_def)
qed


section \<open>The whole confirmation\<close>

lemma wp_check_swap_quote:
  assumes "\<And>q. swap_quote_of env qid s = Some q \<Longrightarrow> xq_userId q = u \<Longrightarrow> xq_pinVerified q \<Longrightarrow> Q q s"
    and "\<And>e s'. s_db s' = s_db s \<Longrightarrow> E e s'"
  shows "wp (check_swap_quote env u qid) Q E s"
  using assms by (auto simp: check_swap_quote_def tempDel_def wp_simps split: option.split sum.split)

lemma wp_quidax: "(\<And>x. Q x s) \<Longrightarrow> (\<And>e. E e s) \<Longrightarrow> wp (dbM (getQuidaxUserId u)) Q E s"
  by (auto simp: getQuidaxUserId_def wp_simps split: option.split)

lemma swap_confirm_refused:
  assumes "solvent d" "keys_ok d" "0 \<le> xq_exactFromMinor q" "swap_reserve_tx env u qid n q human d = (Inr (t, True), s_db s)"
    and "confirmed_shape answer = Inl e" "e_txFault env ''swap_compensate'' = None"
  shows "wp (swap_confirm env answer u qid n q t refreshed) (\<lambda>_ _. False)
    (\<lambda>_ s'. d_wallets (s_db s') = d_wallets d \<and> d_liquidity (s_db s') = d_liquidity d) s"
proof -
  note undo = swap_back [OF assms(1-4) refl refl]
  show ?thesis
    by (simp add: swap_confirm_def wp_simps assms(5,6) swap_compensate_tx_def)
      (simp add: wp_def undo comp_defs updTransactions_def tempDel_def)
qed

text \<open>The swaps the provider was asked to confirm.\<close>

definition swap_confirms :: "sys \<Rightarrow> call list" where
  "swap_confirms s = filter (\<lambda>c. case c of CallSwapConfirm _ \<Rightarrow> True | _ \<Rightarrow> False) (s_calls s)"

lemma swap_confirms_simps [simp]:
  "swap_confirms (s\<lparr>s_calls := s_calls s @ [CallSwapRefresh i m]\<rparr>) = swap_confirms s"
  "swap_confirms (s\<lparr>s_db := d\<rparr>) = swap_confirms s"
  "swap_confirms (s\<lparr>s_temp := t\<rparr>) = swap_confirms s"
  by (simp_all add: swap_confirms_def)

text \<open>C18: a confirmation whose swap the provider does not confirm ends in an error that leaves wallets and
  company liquidity as they were, if the compensation itself meets no fault, and so does one that fails
  before, by a rate that slipped or a refused reservation. It succeeds only where the provider was not
  asked: the quote was confirmed before, and the record of that swap is returned, or the swap is queued for
  lack of liquidity.\<close>

theorem refused_swap_restores:
  assumes "solvent (s_db s)" "keys_ok (s_db s)" "\<forall>q. swap_quote_of env qid s = Some q \<longrightarrow> 0 \<le> xq_exactFromMinor q"
    and "confirmed_shape answer = Inl e" "e_txFault env ''swap_compensate'' = None"
    and "confirmSwap env ops refresh answer u qid s = (r, s')"
  shows "case r of
      Inl err \<Rightarrow> d_wallets (s_db s') = d_wallets (s_db s) \<and> d_liquidity (s_db s') = d_liquidity (s_db s)
    | Inr x \<Rightarrow> swap_confirms s' = swap_confirms s
        \<and> (\<forall>i. xr_swapRecordId x = Some i \<longrightarrow> i \<in> sw_id ` set (d_swaps (s_db s)))"
proof -
  let ?Q = "\<lambda>x s'. swap_confirms s' = swap_confirms s
    \<and> (\<forall>i. xr_swapRecordId x = Some i \<longrightarrow> i \<in> sw_id ` set (d_swaps (s_db s)))"
  let ?R = "\<lambda>e s'. d_wallets (s_db s') = d_wallets (s_db s) \<and> d_liquidity (s_db s') = d_liquidity (s_db s)"
  have "wp (confirmSwap env ops refresh answer u qid) ?Q ?R s"
    unfolding confirmSwap_def wp_then [of "enforceConfirmationCooldown env u"] wp_bind [of "check_swap_quote env u qid"]
  proof (rule wp_enforce, rule wp_check_swap_quote, goal_cases)
    case (1 q)
    note q = 1(1)
    have found: "List.find P xs = Some x \<Longrightarrow> x \<in> set xs" for P xs and x :: swapTransaction
      by (rule conjunct1 [OF find_Some_in])
    let ?tail = "\<lambda>n human refreshed quidaxId. bindM (catchM (txM env ''swap_reserve'' (swap_reserve_tx env u qid n q human))
               (\<lambda>e. throwM (swap_reservation_error e))) (\<lambda>(t, reserved).
             if \<not> reserved
             then thenM (tempDel (''swap:'' @ qid))
               (returnM \<lparr>xr_swapRecordId = None, xr_quidaxSwapId = None, xr_status = None, xr_message = AWAITING\<rparr>)
             else
               bindM (swap_confirm env answer u qid n q t refreshed) (\<lambda>(swapId, a).
               bindM (catchM (txM env ''swap_record'' (swap_record_tx env ops u quidaxId qid q t swapId a))
                 (\<lambda>e. throwM (BadRequest ''Swap failed during finalization. Please contact support.''))) (\<lambda>i.
               thenM (tempDel (''swap:'' @ qid))
               (thenM (callM (CallNotify (t_id t)))
                 (returnM \<lparr>xr_swapRecordId = Some i, xr_quidaxSwapId = Some swapId, xr_status = None,
                    xr_message = AWAITING\<rparr>)))))"
    have tail: "wp (?tail n human refreshed quidaxId) ?Q ?R s1" if s1: "s_db s1 = s_db s" "swap_confirms s1 = swap_confirms s" for n human refreshed quidaxId s1
    proof (cases "fst (swap_reserve_tx env u qid n q human (s_db s))")
      case (Inl x)
      then show ?thesis unfolding wp_bind [of "catchM _ _"] wp_catch wp_tx
        by (simp add: wp_alt s1 throwM_def split: option.split)
    next
      case (Inr r)
      obtain t res where r: "r = (t, res)" by (cases r)
      obtain d1 where run: "swap_reserve_tx env u qid n q human (s_db s) = (Inr (t, res), d1)"
        using Inr r by (metis prod.collapse)
      have conf: "wp (swap_confirm env answer u qid n q t refreshed) Q ?R s2" if "s_db s2 = d1" res for s2 Q
        by (rule wp_mono [OF swap_confirm_refused [OF assms(1,2) _ _ assms(4,5)]]) (use run that q assms(3) in auto)
      show ?thesis
        unfolding wp_bind [of "catchM _ _"] wp_catch wp_tx
        by (cases res) (auto simp: s1 run wp_run [of "swap_reserve_tx env u qid n q human"] wp_bind wp_then wp_throw
            wp_tempDel wp_return conf split: option.split)
    qed
    show ?case
      by (auto simp: wp_bind [of "getM _"] wp_bind [of "someM _ _"] wp_bind [of "liftM _"] wp_then [of "requireM _ _"] wp_get wp_require
          wp_some wp_lift wp_return wp_bind [of "dbM _"] wp_then [of "callM _"] wp_call simp del: append.simps
          intro!: wp_quidax tail intro: imageI found split: option.split sum.split)
  qed simp_all
  with assms(6) show ?thesis by (simp add: wp_def split: sum.splits)
qed


section \<open>An example\<close>

definition quote_example :: swapQuote where
  "quote_example = \<lparr>xq_quoteId = ''s1'', xq_userId = ''u1'', xq_from = ''BTC'', xq_to = ''USDT'', xq_fromNetwork = ''btc'',
     xq_toNetwork = ''bep20'', xq_toDecimals = 18, xq_exactFromMinor = 37, xq_estimatedOutMinor = 30,
     xq_platformFeeMinor = 1, xq_marketRateMinor = 0, xq_protectedRateMinor = 0, xq_bufferSpreadMinor = 0,
     xq_bufferPercent = ''1'', xq_totalBufferPercent = ''1'', xq_pinVerified = True, xq_expiresAt = 2000,
     xq_quotationId = ''k1''\<rparr>"

definition sys_quote :: sys where
  "sys_quote = sys_example\<lparr>s_db := db_send, s_temp := [''swap:s1'' \<mapsto> (TSwapQuote quote_example, None)]\<rparr>"

definition env_quote :: env where
  "env_quote = env_example\<lparr>e_decValue := (\<lambda>_. Some 1)\<rparr>"

definition swap_confirmed_example :: swapConfirmAnswer where
  "swap_confirmed_example = \<lparr>ca_id = Some ''x1'', ca_status = Some ''initiated'', ca_execution_price = Some ''1'',
     ca_received_amount = Some ''0.00000000000000003'', ca_quotation = Some ''k1'', ca_from_amount = ''0.00000037'', ca_updatedAt = None\<rparr>"

definition refresh_example :: refreshAnswer where
  "refresh_example = \<lparr>ra_id = Some ''k2'', ra_price = ''1''\<rparr>"

definition svc_ops_example :: swapSvcOps where
  "svc_ops_example = \<lparr>ss_fixed = (\<lambda>_ _. ''1''), ss_sum = (\<lambda>_ _. ''0.00000038'')\<rparr>"

lemma swap_quote_displays:
  "fromBase cv_example (ABigInt 1) ''BTC'' None = Inr ''0.00000001''"
  "fromBase cv_example (ABigInt 37) ''BTC'' None = Inr ''0.00000037''"
  "fromBase cv_example (ABigInt 38) ''BTC'' None = Inr ''0.00000038''"
  "fromBase cv_example (ABigInt 62) ''BTC'' None = Inr ''0.00000062''"
  "fromBase cv_example (ABigInt 0) ''USDT'' None = Inr ''0''"
  "fromBase cv_example (ABigInt 130) ''USDT'' None = Inr ''0.00000000000000013''"
  by (simp_all add: cv_example_def currency_eval eval_simps)

lemmas quote_eval = quote_example_def sys_quote_def env_quote_def swap_confirmed_example_def refresh_example_def
  svc_ops_example_def swap_quote_displays swap_reserve_tx_def swap_reserved_def createTransaction_def
  transaction_of_params_def swap_params_def send_eval send_tx_eval

lemma swap_reserve_example:
  "\<exists>t d'. swap_reserve_tx env_quote ''u1'' ''s1'' (Some ''trc20'') quote_example ''0.00000037'' db_send = (Inr (t, True), d')
     \<and> t_id t = show_nat 0 \<and> t_uniqueId t = ''s1''"
  by (simp add: quote_eval)

theorem swap_given_back_witness:
  "\<exists>t d' e'. swap_reserve_tx env_quote ''u1'' ''s1'' (Some ''trc20'') quote_example ''0.00000037'' db_send = (Inr (t, True), d')
     \<and> swap_compensate_tx ''u1'' (Some ''trc20'') quote_example t ''refused'' d' = (Inr (), e')
     \<and> d_wallets e' = d_wallets db_send \<and> d_liquidity e' = d_liquidity db_send"
proof -
  obtain t d' where run: "swap_reserve_tx env_quote ''u1'' ''s1'' (Some ''trc20'') quote_example ''0.00000037'' db_send = (Inr (t, True), d')"
    using swap_reserve_example by blast
  have q: "0 \<le> xq_exactFromMinor quote_example" by (simp add: quote_example_def)
  let ?sw = "swap_row ''r1'' ''u1'' ''q9'' ''s1'' quote_example ''x1'' swap_confirmed_example ''0'' ''0.00000001''"
  have sw: "sw_userId ?sw = ''u1''" "to_upper (sw_fromCurrency ?sw) = to_upper (xq_from quote_example)"
    by (simp_all add: swap_row_def quote_example_def eval_simps)
  have "\<exists>sb. swap_booking env_quote ?sw swap_data_example btc_wallet wallet_example (Some t) = Inr sb"
    by (simp add: swap_booking_def booked_amount_def)
  then obtain sb where sb: "swap_booking env_quote ?sw swap_data_example btc_wallet wallet_example (Some t) = Inr sb" by blast
  from swap_given_back [OF db_send_ok q run refl refl sw refl refl sb, THEN conjunct1, of "''refused''"] run
  show ?thesis by blast
qed

definition db_quote :: "db \<Rightarrow> db" where
  "db_quote d = d\<lparr>d_swaps := [swap_row ''r1'' ''u1'' ''q9'' ''s1'' quote_example ''x1'' swap_confirmed_example ''0'' ''0.00000001'']\<rparr>"


definition quote_row :: swapTransaction where
  "quote_row = swap_row ''r1'' ''u1'' ''q9'' ''s1'' quote_example ''x1'' swap_confirmed_example ''0'' ''0.00000001''"

theorem swap_flow_settles_witness:
  "\<exists>t d' sb e'. swap_reserve_tx env_quote ''u1'' ''s1'' (Some ''trc20'') quote_example ''0.00000037'' db_send = (Inr (t, True), d')
     \<and> swap_settle_tx env_quote sb confirmed_example 37 30 None (db_quote d') = (Inr True, e')
     \<and> posted db_send (\<lambda>c. entry ''BTC'' (Books (- 38) 0 0 (- 37) 0 0) c + entry ''USDT'' (Books 30 0 0 30 0 0) c) e'"
proof -
  let ?run = "swap_reserve_tx env_quote ''u1'' ''s1'' (Some ''trc20'') quote_example ''0.00000037'' db_send"
  obtain t d' where run: "?run = (Inr (t, True), d')" and id: "t_id t = show_nat 0" "t_uniqueId t = ''s1''"
    using swap_reserve_example by blast
  have td: "t = fst (projr (fst ?run))" "d' = snd ?run" by (simp_all add: run)
  let ?sb = "\<lparr>sb_swap = quote_row, sb_data = swap_data_example, sb_from = ''BTC'', sb_to = ''USDT'', sb_fromWallet = btc_wallet,
    sb_toWallet = wallet_example, sb_linked = Some t, sb_booked = 37, sb_reserved = 38\<rparr>"
  have sb: "swap_booking env_quote quote_row swap_data_example btc_wallet wallet_example (Some t) = Inr ?sb"
    using swap_reserve_run(3,4) [OF run]
    by (simp add: swap_booking_def booked_amount_def reserved_amount_def or0_def quote_row_def swap_row_def quote_example_def eval_simps)
  have "fst (swap_settle_tx env_quote ?sb confirmed_example 37 30 None (db_quote d')) = Inr True" unfolding td
    by (simp add: quote_eval swap_eval swap_tx_eval quote_row_def swap_row_def db_quote_def swap_credit_row_def)
  note tx = fst_run [OF this]
  have own: "own_swap ?sb" "booking_ok ?sb (db_quote d')" "liquidity_for (sb_to ?sb) (db_quote d') \<noteq> None"
    unfolding td by (simp_all add: own_swap_def booking_ok_def stack_swap_def quote_eval db_quote_def new_transaction_def mget_def)
  have up: "to_upper (sw_fromCurrency quote_row) = to_upper (xq_from quote_example)"
    by (simp add: quote_row_def swap_row_def quote_example_def eval_simps)
  have p: "posted d' (\<lambda>_. 0) (db_quote d')" by (rule posted_tables) (simp_all add: db_quote_def)
  have "posted db_send (\<lambda>c. entry ''BTC'' (Books (- 38) 0 0 (- 37) 0 0) c + entry ''USDT'' (Books 30 0 0 30 0 0) c)
      (snd (swap_settle_tx env_quote ?sb confirmed_example 37 30 None (db_quote d')))"
    using swap_flow_settles [OF db_send_ok(2) run p own up refl refl sb tx]
    by (simp add: quote_example_def swap_reserved_def)
  with run tx show ?thesis by blast
qed

theorem refused_swap_restores_witness:
  "\<exists>s'. confirmSwap env_quote svc_ops_example (Inr refresh_example) (Inl (ProviderError ''timeout'')) ''u1'' ''s1'' sys_quote
      = (Inl (BadRequest ''timeout''), s')
    \<and> d_wallets (s_db s') = d_wallets (s_db sys_quote) \<and> d_liquidity (s_db s') = d_liquidity (s_db sys_quote)"
proof -
  have "\<exists>s'. confirmSwap env_quote svc_ops_example (Inr refresh_example) (Inl (ProviderError ''timeout'')) ''u1'' ''s1'' sys_quote
      = (Inl (BadRequest ''timeout''), s')"
    by (simp add: quote_eval confirmSwap_def enforceConfirmationCooldown_def tempGet_def temp_lookup_def check_swap_quote_def
      swap_quote_of_def swap_minimum_def txM_def callM_def dbM_def getQuidaxUserId_def user_by_id_def rate_guard_def swap_confirm_def confirmed_shape_def
      swap_compensate_tx_def updTransactions_def update_where_def live_def tempDel_def err_msg_def)
  then obtain s' where run: "confirmSwap env_quote svc_ops_example (Inr refresh_example) (Inl (ProviderError ''timeout'')) ''u1'' ''s1'' sys_quote
      = (Inl (BadRequest ''timeout''), s')" by (elim exE)
  have q: "\<forall>q. swap_quote_of env_quote ''s1'' sys_quote = Some q \<longrightarrow> 0 \<le> xq_exactFromMinor q"
    by (simp add: quote_eval swap_quote_of_def temp_lookup_def live_def)
  have c: "confirmed_shape (Inl (ProviderError ''timeout'')) = Inl (ProviderError ''timeout'')" "e_txFault env_quote ''swap_compensate'' = None"
    "s_db sys_quote = db_send"
    by (simp_all add: confirmed_shape_def env_quote_def env_example_def sys_quote_def)
  from refused_swap_restores [OF db_send_ok [folded c(3)] q c(1,2) run] run show ?thesis by auto
qed

text \<open>When the records of a confirmed swap cannot be written, the swap is under way at the provider, the
  reservations stay, and no row knows it: the webhook that reports its end does nothing.\<close>

theorem unrecorded_swap_keeps_reservation:
  "\<exists>s'. confirmSwap (env_quote\<lparr>e_txFault := (\<lambda>l. if l = ''swap_record'' then Some (PrismaError ''P2028'') else None)\<rparr>)
        svc_ops_example (Inr refresh_example) (Inr (Some swap_confirmed_example)) ''u1'' ''s1'' sys_quote
      = (Inl (BadRequest ''Swap failed during finalization. Please contact support.''), s')
    \<and> map w_reservedBalance (d_wallets (s_db s')) = [20, 90]
    \<and> swap_process env' sops answers (swap_data_example\<lparr>sd_id := ''x1''\<rparr>) event s' = (Inr (), s')"
proof -
  have "\<exists>s'. confirmSwap (env_quote\<lparr>e_txFault := (\<lambda>l. if l = ''swap_record'' then Some (PrismaError ''P2028'') else None)\<rparr>)
        svc_ops_example (Inr refresh_example) (Inr (Some swap_confirmed_example)) ''u1'' ''s1'' sys_quote
      = (Inl (BadRequest ''Swap failed during finalization. Please contact support.''), s')
    \<and> map w_reservedBalance (d_wallets (s_db s')) = [20, 90] \<and> d_swaps (s_db s') = []"
    by (simp add: quote_eval confirmSwap_def enforceConfirmationCooldown_def tempGet_def temp_lookup_def check_swap_quote_def
      swap_quote_of_def swap_minimum_def txM_def callM_def dbM_def getQuidaxUserId_def user_by_id_def rate_guard_def swap_confirm_def confirmed_shape_def
      updTransactions_def update_where_def live_def tempDel_def err_msg_def)
  then obtain s' where run: "confirmSwap (env_quote\<lparr>e_txFault := (\<lambda>l. if l = ''swap_record'' then Some (PrismaError ''P2028'') else None)\<rparr>)
        svc_ops_example (Inr refresh_example) (Inr (Some swap_confirmed_example)) ''u1'' ''s1'' sys_quote
      = (Inl (BadRequest ''Swap failed during finalization. Please contact support.''), s')"
    and r: "map w_reservedBalance (d_wallets (s_db s')) = [20, 90]" and none: "d_swaps (s_db s') = []"
    by (elim exE conjE)
  have "swap_process env' sops answers (swap_data_example\<lparr>sd_id := ''x1''\<rparr>) event s' = (Inr (), s')"
    by (simp add: swap_process_def bindM_def getM_def returnM_def none)
  with run r show ?thesis by (intro exI [of _ s'] conjI)
qed

end
