(* ===== verification/OrderBooks.thy ===== *)
theory OrderBooks
  imports OrderDone SwapFlow
begin

text \<open>
  The books of orders: what a settled buy posts, that it settles once, and what a repeated or a failed
  processing of a sell or a loan does.
\<close>

section \<open>A settled buy\<close>

definition buy_entry :: "transaction \<Rightarrow> int \<Rightarrow> books" where
  "buy_entry t c = (if t_context t = CtxAUTOSTACK then Books 0 0 c c 0 0 else Books c 0 0 c 0 0)"

lemma stack_wallet_posting:
  assumes "keys_ok d" "\<forall>x \<in> set (d_wallets d). w_id x = w_id w \<longrightarrow> ieq (w_currency x) cur" "w \<in> set (d_wallets d)"
  shows "posted d (entry cur (Books 0 0 a 0 0 0))
    (d\<lparr>d_wallets := update_where (\<lambda>x. w_id x = w_id w) (\<lambda>x. x\<lparr>w_stackedAmount := w_stackedAmount x + a\<rparr>) (d_wallets d)\<rparr>)"
  by (rule wallet_posting [OF assms(1,2,3) refl, where f = "\<lambda>x. x\<lparr>w_stackedAmount := w_stackedAmount x + a\<rparr>"]) simp_all

lemma order_stack_posting:
  assumes "keys_ok d" "\<forall>x \<in> set (d_wallets d). w_id x = w_id w \<longrightarrow> ieq (w_currency x) cur" "w \<in> set (d_wallets d)"
    and "liquidity_for cur d \<noteq> None" "order_stack env t ex cur w d = (Inr u, d')"
  shows "posted d (entry cur (Books 0 0 (ex_crypto ex) (ex_crypto ex) 0 0)) d'"
proof -
  note p1 = stack_wallet_posting [OF assms(1-3), of "ex_crypto ex"]
  let ?d1 = "d\<lparr>d_wallets := update_where (\<lambda>x. w_id x = w_id w) (\<lambda>x. x\<lparr>w_stackedAmount := w_stackedAmount x + ex_crypto ex\<rparr>) (d_wallets d)\<rparr>"
  obtain d2 v d3 where d2: "d_wallets d2 = d_wallets ?d1" "d_liquidity d2 = d_liquidity ?d1"
    and d3: "updateInternalBalance env cur (ex_crypto ex) Add d2 = (Inr v, d3)"
    and d': "d' = d3\<lparr>d_liquidity := update_where (\<lambda>l. ieq (l_currency l) cur)
      (\<lambda>l. l\<lparr>l_totalAmountStacked := l_totalAmountStacked l + ex_crypto ex\<rparr>) (d_liquidity d3)\<rparr>"
  proof -
    obtain u1 e1 u2 e2 u3 e3 where a: "updWallets (\<lambda>x. w_id x = w_id w) (\<lambda>x. x\<lparr>w_stackedAmount := w_stackedAmount x + ex_crypto ex\<rparr>) d = (Inr u1, e1)"
      and b: "bindM (getM (stack_by_id (mget (t_meta t) ''autoStackId''))) (\<lambda>ra.
         case ra of None \<Rightarrow> returnM ()
         | Some a \<Rightarrow> whenM (mget (t_meta t) ''autoStackId'' \<noteq> [])
             (updAutoStacks (\<lambda>x. a_id x = a_id a) (stack_bought ex a))) e1 = (Inr u2, e2)"
      and c: "updateInternalBalance env cur (ex_crypto ex) Add e2 = (Inr u3, e3)"
      and e: "updLiquidity (\<lambda>l. ieq (l_currency l) cur) (\<lambda>l. l\<lparr>l_totalAmountStacked := l_totalAmountStacked l + ex_crypto ex\<rparr>) e3 = (Inr u, d')"
      using assms(5) unfolding order_stack_def run_then by blast
    have "d_wallets e2 = d_wallets e1 \<and> d_liquidity e2 = d_liquidity e1"
      using b unfolding run_bind run_get by (auto simp: run_return run_when run_upd split: option.splits if_splits)
    with a c e show thesis by (intro that [of e2 u3 e3]) (simp_all add: run_upd)
  qed
  have p2: "posted ?d1 (\<lambda>_. 0) d2" by (rule posted_tables [OF d2])
  note k2 = posted_keys [OF p2 posted_keys [OF p1 assms(1)]]
  have l2: "liquidity_for cur d2 \<noteq> None" using posted_row [OF p2 posted_row [OF p1 assms(4)]] .
  note p3 = updateInternalBalance_posting [OF k2 d3 disjI2 [OF l2], simplified]
  have p4: "posted d3 (\<lambda>_. 0) d'"
    by (rule postedI)
      (simp add: d' books_def w_total_def l_total_def sum_same, simp add: d' same_accounts_def update_where_def)
  show ?thesis
    by (rule posted_eq [OF posted_trans [OF posted_trans [OF posted_trans [OF p1 p2] p3] p4]]) (simp add: entry_add)
qed

lemma buy_tx_run:
  assumes "order_buy_tx env r t ex reference crypto fiat reserved d = (Inr True, d')"
  obtains e1 u e2 w v where "\<not> tx_ended (t_id t) d" "d_wallets e1 = d_wallets d" "d_liquidity e1 = d_liquidity d"
    "order_consume env r t ex fiat reserved e1 = (Inr u, e2)" "buy_wallet t crypto e2 = Some w"
    "(if t_context t = CtxAUTOSTACK then order_stack env t ex crypto w else order_credit env ex crypto w) e2 = (Inr v, d')"
proof -
  obtain u where n: "\<not> tx_ended (t_id t) d" and body: "order_buy_write env r t ex reference crypto fiat reserved d = (Inr u, d')"
    using assms by (auto simp: order_buy_tx_def run_simps split: if_splits)
  obtain u1 f1 u2 f2 u3 f3 u4 e2 w v where a: "updTransactions (\<lambda>x. t_id x = t_id t) (\<lambda>x. (executed ex x)\<lparr>t_status := TxCOMPLETED, t_isProcessed := True\<rparr>) d = (Inr u1, f1)"
    and b: "updOrders (\<lambda>x. o_id x = o_id r) (\<lambda>x. x\<lparr>o_status := OrCOMPLETED, o_paymentStatus := PayPAID,
          o_paymentReference := Some reference, o_paymentChannel := map_option payment_text (t_paymentType t),
          o_paymentDate := Some (ex_at ex)\<rparr>) f1 = (Inr u2, f2)"
    and c: "updUsers (\<lambda>u. u_id u = t_userId t) (\<lambda>u. u\<lparr>u_amountBought := u_amountBought u + ex_fiat ex\<rparr>) f2 = (Inr u3, f3)"
    and e: "order_consume env r t ex fiat reserved f3 = (Inr u4, e2)" and w: "buy_wallet t crypto e2 = Some w"
    and v: "(if t_context t = CtxAUTOSTACK then order_stack env t ex crypto w else order_credit env ex crypto w) e2 = (Inr v, d')"
    using body unfolding order_buy_write_def run_bind run_then run_get run_some by blast
  from a b c have "d_wallets f3 = d_wallets d" "d_liquidity f3 = d_liquidity d" by (simp_all add: run_upd run_upd_more)
  then show thesis by (rule that [OF n _ _ e w v])
qed

lemma order_consume_posting:
  assumes "keys_ok d" "order_consume env r t ex fiat reserved d = (Inr u, d')"
  shows "posted d (entry fiat (if holds_liquidity t reserved then Books 0 0 0 0 (- reserved) (- reserved) else 0)) d'"
proof (cases "holds_liquidity t reserved")
  case True
  then obtain e where e: "consumeReservedLiquidity fiat reserved d = (Inr True, e)"
    and d': "d_wallets d' = d_wallets e" "d_liquidity d' = d_liquidity e"
    using assms(2) by (auto simp: order_consume_def run_simps)
  note p1 = consumeReservedLiquidity_posting [OF assms(1) e]
  have p2: "posted e (\<lambda>_. 0) d'" by (rule posted_tables [OF d'])
  show ?thesis by (rule posted_eq [OF posted_trans [OF p1 p2]]) (simp add: True)
next
  case False
  with assms(2) show ?thesis by (simp add: order_consume_def run_simps posted_nothing)
qed

lemma buy_settles_posting:
  assumes "keys_ok d" "liquidity_for crypto d \<noteq> None"
    and "\<forall>w. buy_wallet t crypto d = Some w \<longrightarrow> ieq (w_currency w) crypto"
    and "order_buy_tx env r t ex reference crypto fiat reserved d = (Inr True, d')"
  shows "posted d (\<lambda>c. entry fiat (if holds_liquidity t reserved then Books 0 0 0 0 (- reserved) (- reserved) else 0) c
    + entry crypto (buy_entry t (ex_crypto ex)) c) d'"
proof -
  obtain e1 u e2 w v where e1: "d_wallets e1 = d_wallets d" "d_liquidity e1 = d_liquidity d"
    and e2: "order_consume env r t ex fiat reserved e1 = (Inr u, e2)" and w: "buy_wallet t crypto e2 = Some w"
    and e3: "(if t_context t = CtxAUTOSTACK then order_stack env t ex crypto w else order_credit env ex crypto w) e2 = (Inr v, d')"
    using buy_tx_run [OF assms(4)] by metis
  have p1: "posted d (\<lambda>_. 0) e1" by (rule posted_tables [OF e1])
  note k1 = posted_keys [OF p1 assms(1)]
  note p2 = order_consume_posting [OF k1 e2]
  note k2 = posted_keys [OF p2 k1]
  have l2: "liquidity_for crypto e2 \<noteq> None" using posted_row [OF p2 posted_row [OF p1 assms(2)]] .
  have ws: "d_wallets e2 = d_wallets d"
    using e2 e1 by (auto simp: order_consume_def run_simps consumeReservedLiquidity_def split: if_splits)
  have bw: "buy_wallet t crypto d = Some w" using w ws by (simp add: buy_wallet_def wallet_for_def split: option.splits)
  then have in_w: "w \<in> set (d_wallets e2)"
    using ws by (auto simp: buy_wallet_def wallet_for_def dest: find_Some_in split: option.splits)
  have cur: "\<forall>x \<in> set (d_wallets e2). w_id x = w_id w \<longrightarrow> ieq (w_currency x) crypto"
    using k2 in_w assms(3) bw by (auto simp: keys_ok_def distinct_map inj_on_def)
  have p3: "posted e2 (entry crypto (buy_entry t (ex_crypto ex))) d'"
  proof (cases "t_context t = CtxAUTOSTACK")
    case True
    with order_stack_posting [OF k2 cur in_w l2] e3 show ?thesis by (simp add: buy_entry_def)
  next
    case False
    with e3 have c: "order_credit env ex crypto w e2 = (Inr v, d')" by simp
    have "posted e2 (entry crypto (Books (ex_crypto ex) 0 0 (ex_crypto ex) 0 0)) d'"
      by (rule credit_posting [OF k2 cur l2 _ _ _ _ _ c [unfolded order_credit_def]]) (simp_all add: w_credit_def)
    with False show ?thesis by (simp add: buy_entry_def)
  qed
  show ?thesis by (rule posted_eq [OF posted_trans [OF posted_trans [OF p1 p2] p3]]) simp
qed

text \<open>A buy that settles gives the user the crypto that was executed, on the balance or stacked, raises the
  company's internal balance by the same, and takes the reserved NGN from the company's funds: the
  reservation is consumed and nothing else moves.\<close>

theorem buy_settles:
  assumes "keys_ok d" "liquidity_for crypto d \<noteq> None"
    and "\<forall>w. buy_wallet t crypto d = Some w \<longrightarrow> ieq (w_currency w) crypto"
    and "order_buy_tx env r t ex reference crypto fiat reserved d = (Inr True, d')"
  shows "posted d (\<lambda>c. entry fiat (if holds_liquidity t reserved then Books 0 0 0 0 (- reserved) (- reserved) else 0) c
    + entry crypto (buy_entry t (ex_crypto ex)) c) d'"
  by (rule buy_settles_posting [OF assms])

section \<open>A buy settles once\<close>

lemma committed_run: "m d = (Inr x, d') \<Longrightarrow> committed m d = (Some x, d')"
  by (simp add: committed_def)

text \<open>
  The transactions on one buy, in any order, with anything in between that keeps the row of
  its transaction. The list says which settlements took effect.
\<close>

inductive order_trace :: "string \<Rightarrow> db \<Rightarrow> bool list \<Rightarrow> db \<Rightarrow> bool" for i d where
  start: "order_trace i d [] d"
| settle: "order_trace i d rs d1 \<Longrightarrow> t_id t = i \<Longrightarrow>
     committed (order_buy_tx env r t ex reference crypto fiat reserved) d1 = (x, d2) \<Longrightarrow>
     order_trace i d ((x = Some True) # rs) d2"
| fail: "order_trace i d rs d1 \<Longrightarrow> t_id t = i \<Longrightarrow>
     committed (order_failure_tx env r t isBuy crypto fiat reserved) d1 = (y, d2) \<Longrightarrow> order_trace i d rs d2"
| abort: "order_trace i d rs d1 \<Longrightarrow> t_id t = i \<Longrightarrow>
     committed (order_buy_failed_tx env r t fiat reserved message) d1 = (z, d2) \<Longrightarrow> order_trace i d rs d2"
| other: "order_trace i d rs d1 \<Longrightarrow> transaction_by_id i d2 = transaction_by_id i d1 \<Longrightarrow> order_trace i d rs d2"


text \<open>What the row of one transaction satisfies, kept by every statement on another table.\<close>

definition tx_row :: "string \<Rightarrow> (transaction \<Rightarrow> bool) \<Rightarrow> db \<Rightarrow> bool" where
  "tx_row i Q d \<longleftrightarrow> (case transaction_by_id i d of None \<Rightarrow> False | Some x \<Rightarrow> Q x)"

lemma tx_ended_row: "tx_ended i = tx_row i (\<lambda>x. t_status x = TxCOMPLETED \<or> t_status x = TxFAILED)"
  by (simp add: fun_eq_iff tx_ended_def tx_row_def)

lemma tx_row_update:
  assumes "\<And>x. t_id (f x) = t_id x" "\<And>x. Q x \<Longrightarrow> Q (f x)"
  shows "preserves (tx_row i Q) (updTransactions (\<lambda>x. t_id x = j) f)"
proof (rule preservesI)
  fix d
  assume "tx_row i Q d"
  moreover have "List.find (\<lambda>x. t_id x = i) (update_where (\<lambda>x. t_id x = j) f (d_transactions d))
      = map_option (\<lambda>x. if t_id x = j then f x else x) (List.find (\<lambda>x. t_id x = i) (d_transactions d))"
    by (rule find_update_where) (simp add: assms(1))
  ultimately show "wp (updTransactions (\<lambda>x. t_id x = j) f) (\<lambda>_. tx_row i Q) (\<lambda>_. tx_row i Q) d"
    using assms(2) by (auto simp: wp_simps tx_row_def transaction_by_id_def split: option.splits)
qed

lemma tx_row_frame:
  "preserves (tx_row i Q) (sqlWallets k u)" "preserves (tx_row i Q) (sqlLiquidity q v)"
  "preserves (tx_row i Q) (updWallets p f)" "preserves (tx_row i Q) (updLiquidity r g)"
  "preserves (tx_row i Q) (updOrders h m)" "preserves (tx_row i Q) (updUsers b l)"
  "preserves (tx_row i Q) (updAutoStacks a j)" "preserves (tx_row i Q) (refreshOriginalBalance env w c)" "preserves (tx_row i Q) (freshM env)"
  by (auto simp: tx_row_def transaction_by_id_def preserves_wp wp_simps refreshOriginalBalance_def split: option.split sum.split)

lemma tx_row_ledger:
  "preserves (tx_row i Q) (updateInternalBalance env c a op)" "preserves (tx_row i Q) (releaseLiquidity c a)"
  "preserves (tx_row i Q) (consumeReservedLiquidity c a)" "preserves (tx_row i Q) (releaseBalance u c a n)"
  unfolding updateInternalBalance_def releaseLiquidity_def consumeReservedLiquidity_def releaseBalance_def createLiquidity_def
  by (auto simp: tx_row_def transaction_by_id_def intro!: preserves_intros tx_row_frame preserves_modify)

lemmas tx_row_frames = tx_row_frame tx_row_ledger

lemma tx_row_consume:
  "(\<And>x m. Q x \<Longrightarrow> Q (x\<lparr>t_meta := m\<rparr>)) \<Longrightarrow> preserves (tx_row i Q) (order_consume env r t ex fiat reserved)"
  unfolding order_consume_def by (intro preserves_intros tx_row_frames tx_row_update) simp_all

lemma tx_row_buy_rest:
  "preserves (tx_row i Q) (order_stack env t ex crypto w)" "preserves (tx_row i Q) (order_credit env ex crypto w)"
  unfolding order_stack_def order_credit_def by (intro preserves_intros tx_row_frames)+

text \<open>A property of the row that ending the transaction gives, and that new metadata keep.\<close>

definition of_ended :: "(transaction \<Rightarrow> bool) \<Rightarrow> bool" where
  "of_ended Q \<longleftrightarrow> (\<forall>x m. Q x \<longrightarrow> Q (x\<lparr>t_meta := m\<rparr>))
     \<and> (\<forall>x. t_status x = TxCOMPLETED \<or> t_status x = TxFAILED \<longrightarrow> Q x)"

lemma of_ended_simps [simp]: "of_ended (\<lambda>_. True)" "of_ended (\<lambda>x. t_status x = TxCOMPLETED \<or> t_status x = TxFAILED)"
  by (simp_all add: of_ended_def)

lemma tx_row_order:
  assumes "of_ended Q"
  shows "preserves (tx_row i Q) (order_buy_tx env r t ex reference crypto fiat reserved)"
    "preserves (tx_row i Q) (order_failure_tx env r t isBuy crypto fiat reserved)"
    "preserves (tx_row i Q) (order_buy_failed_tx env r t fiat reserved message)"
  unfolding order_buy_tx_def order_buy_write_def order_failure_tx_def order_buy_failed_tx_def releaseBalance_quietly_def
  using assms
  by (auto simp: of_ended_def executed_def intro!: preserves_intros tx_row_frames tx_row_update tx_row_consume tx_row_buy_rest)

lemma buy_true_ends:
  assumes "tx_row (t_id t) (\<lambda>_. True) d" "order_buy_tx env r t ex reference crypto fiat reserved d = (Inr True, d')"
  shows "\<not> tx_ended (t_id t) d \<and> tx_ended (t_id t) d'"
proof -
  let ?E = "tx_row (t_id t) (\<lambda>x. t_status x = TxCOMPLETED \<or> t_status x = TxFAILED)"
  have n: "\<not> tx_ended (t_id t) d" and b: "order_buy_write env r t ex reference crypto fiat reserved d = (Inr (), d')"
    using assms(2) by (auto simp: order_buy_tx_def run_simps split: if_splits)
  have "?E (d\<lparr>d_transactions := update_where (\<lambda>x. t_id x = t_id t)
      (\<lambda>x. (executed ex x)\<lparr>t_status := TxCOMPLETED, t_isProcessed := True\<rparr>) (d_transactions d)\<rparr>)"
    using assms(1) by (auto simp: tx_row_def executed_def split: option.splits)
  then have "wp (order_buy_write env r t ex reference crypto fiat reserved) (\<lambda>_. ?E) (\<lambda>_. ?E) d"
    unfolding order_buy_write_def wp_then [of "updTransactions _ _"] wp_updTransactions
    by (intro wp_preserves preserves_intros tx_row_frames tx_row_consume tx_row_buy_rest) simp_all
  with b n show ?thesis by (simp add: wp_def tx_ended_row)
qed

lemma order_trace_counts:
  assumes "order_trace i d rs d'" "transaction_by_id i d \<noteq> None"
  shows "length (filter (\<lambda>b. b) rs) \<le> 1 \<and> (True \<in> set rs \<longrightarrow> tx_ended i d') \<and> tx_row i (\<lambda>_. True) d'"
  using assms
proof (induction rule: order_trace.induct)
  case start
  then show ?case by (auto simp: tx_row_def)
next
  case (settle rs d1 t env r ex reference crypto fiat reserved x d2)
  note row = committed_preserves [OF tx_row_order(1) _ settle(3), of _ i]
  show ?case
  proof (cases "x = Some True")
    case True
    with settle(3) have "order_buy_tx env r t ex reference crypto fiat reserved d1 = (Inr True, d2)"
      by (auto simp: committed_def split: prod.splits sum.splits)
    from buy_true_ends [OF _ this] settle(2,4,5) have "True \<notin> set rs" "tx_ended i d2" by auto
    then have "filter (\<lambda>b. b) rs = []" by (auto simp: filter_empty_conv)
    with \<open>tx_ended i d2\<close> row [of "\<lambda>_. True"] settle(4,5) show ?thesis by simp
  next
    case False
    with settle(4,5) row [of "\<lambda>_. True"] row [of "\<lambda>x. t_status x = TxCOMPLETED \<or> t_status x = TxFAILED"]
    show ?thesis by (auto simp: tx_ended_row)
  qed
next
  case (fail rs d1 t env r isBuy crypto fiat reserved y d2)
  note row = committed_preserves [OF tx_row_order(2) _ fail(3), of _ i]
  from fail(4,5) row [of "\<lambda>_. True"] row [of "\<lambda>x. t_status x = TxCOMPLETED \<or> t_status x = TxFAILED"]
  show ?case by (auto simp: tx_ended_row)
next
  case (abort rs d1 t env r fiat reserved message z d2)
  note row = committed_preserves [OF tx_row_order(3) _ abort(3), of _ i]
  from abort(4,5) row [of "\<lambda>_. True"] row [of "\<lambda>x. t_status x = TxCOMPLETED \<or> t_status x = TxFAILED"]
  show ?case by (auto simp: tx_ended_row)
next
  case (other rs d1 d2)
  then show ?case by (simp add: tx_ended_def tx_row_def)
qed

text \<open>C7: whatever the deliveries of one buy order read before their transactions, and in whichever order
  settlements, failures and the handling of a failed settlement run, at most one settlement takes effect.\<close>

theorem buy_settles_once:
  assumes "order_trace i d rs d'" "transaction_by_id i d \<noteq> None"
  shows "length (filter (\<lambda>b. b) rs) \<le> 1"
  using order_trace_counts [OF assms] by simp

section \<open>An example\<close>

definition ngn_liquidity :: liquidity where
  "ngn_liquidity = (new_liquidity ''l3'' ''NGN'')\<lparr>l_totalBalance := 5000, l_reservedBalance := 400, l_internalBalance := 100\<rparr>"

definition order_example :: order where
  "order_example = \<lparr>o_id = ''o1'', o_transactionId = ''t1'', o_userId = ''u1'', o_cryptoAmountBase = Some 10,
     o_cryptoAmountOriginal = None, o_fiatAmountBase = 300, o_fiatAmountOriginal = None, o_fiatCurrency = ''NGN'',
     o_status = OrPENDING, o_type = OBUY, o_referenceNo = Some ''ref1'', o_paymentStatus = PayPENDING,
     o_paymentReference = None, o_paymentChannel = None, o_paymentAmountBase = None, o_paymentAmountOriginal = None,
     o_paymentDate = None\<rparr>"

definition buy_example :: transaction where
  "buy_example = (new_transaction ''t1'' ''u1'' ''n1'' ''BTC'' CREDIT CtxBUY)\<lparr>t_fiatAmountBase := 300\<rparr>"

definition sell_example :: transaction where
  "sell_example = (new_transaction ''t1'' ''u1'' ''n1'' ''BTC'' DEBIT CtxSELL)\<lparr>t_fiatAmountBase := 300,
     t_cryptoAmountBase := Some 10, t_meta := [(''payoutAccountNumber'', ''0123''), (''payoutBankCode'', ''058''),
       (''payoutAccountName'', ''Ada'')]\<rparr>"

definition db_order :: "transaction \<Rightarrow> db" where
  "db_order t = db_example\<lparr>d_wallets := [btc_wallet], d_liquidity := [btc_liquidity, ngn_liquidity],
     d_transactions := [t], d_orders := [order_example]\<rparr>"

definition data_example :: "string \<Rightarrow> orderData" where
  "data_example side = \<lparr>od_reference = Some ''ref1'', od_id = None, od_side = side, od_base_unit = ''btc'',
     od_quote_unit = ''ngn'', od_status = Some ''done'', od_volume = Some ''0.0000001'', od_price = Some ''300000'', od_doneAt = None\<rparr>"

definition order_ops_example :: orderOps where
  "order_ops_example = \<lparr>oo_mul = (\<lambda>_ _. Some ''3''), oo_print = Some, oo_twoThirds = (\<lambda>n. n * 20 div 30)\<rparr>"

definition order_answers_example :: orderAnswers where
  "order_answers_example = \<lparr>oa_recipient = Inr (Some ''RCP''), oa_transfer = Inr (Some (''T1'', ''TRF'')), oa_bill = Inr ''ok''\<rparr>"

definition execution_example :: execution where
  "execution_example = \<lparr>ex_crypto = 10, ex_fiat = 300, ex_volume = ''0.0000001'', ex_price = ''300000'', ex_at = 1000\<rparr>"

lemmas order_eval = db_order_def ngn_liquidity_def order_example_def data_example_def order_ops_example_def
  order_answers_example_def execution_example_def buy_example_def sell_example_def btc_wallet_def btc_liquidity_def withdrawal_eval

lemma amounts_example: "toBase cv_example ''0.0000001'' ''BTC'' None = Inr 10" "toBase cv_example ''3'' ''NGN'' None = Inr 300"
  by (simp_all add: cv_example_def currency_eval eval_simps)

lemma execution_example_run:
  "order_execution env_example order_ops_example (data_example side) ''BTC'' ''NGN'' = Inr execution_example"
  by (simp add: order_execution_def order_amounts_def data_example_def order_ops_example_def env_example_def execution_example_def
      amounts_example truthy_def)

lemma shown_110: "fromBase cv_example (ABigInt 110) ''BTC'' None = Inr ''0.0000011''"
  by (simp add: cv_example_def currency_eval eval_simps)

lemmas order_tx_eval = tx_ended_def transaction_by_id_def reserved_of_def reservation_status_def holds_liquidity_def
  executed_def order_consume_def buy_wallet_def order_credit_def order_buy_write_def order_buy_tx_def card_stack_buy_def
  updTransactions_def updOrders_def updUsers_def updWallets_def updLiquidity_def update_where_def refreshOriginalBalance_def base_of_def
  truthy_def consumeReservedLiquidity_def updateInternalBalance_def wallet_for_def mget_def mset_all_def
  comp_defs ledger_eval

lemma buy_example_run:
  "fst (order_buy_tx env_example order_example buy_example execution_example ''ref1'' ''BTC'' ''NGN'' 300 (db_order buy_example)) = Inr True"
  by (simp add: order_eval order_tx_eval shown_110 w_credit_def)

lemma db_order_ok: "keys_ok (db_order t)" "solvent (db_order t)"
  by (simp_all add: order_eval solvent_def wallet_ok_def liquidity_ok_def keys_ok_def eval_simps)

theorem buy_settles_witness:
  "\<exists>d'. order_buy_tx env_example order_example buy_example execution_example ''ref1'' ''BTC'' ''NGN'' 300 (db_order buy_example)
      = (Inr True, d') \<and> posted (db_order buy_example)
        (\<lambda>c. entry ''NGN'' (Books 0 0 0 0 (- 300) (- 300)) c + entry ''BTC'' (Books 10 0 0 10 0 0) c) d'"
proof -
  note run = fst_run [OF buy_example_run]
  have "liquidity_for ''BTC'' (db_order buy_example) \<noteq> None"
    by (simp add: order_eval liquidity_for_def ieq_def eval_simps)
  moreover have "\<forall>w. buy_wallet buy_example ''BTC'' (db_order buy_example) = Some w \<longrightarrow> ieq (w_currency w) ''BTC''"
    by (simp add: order_eval buy_wallet_def wallet_for_def truthy_def ieq_def eval_simps)
  moreover have "holds_liquidity buy_example 300" "buy_entry buy_example (ex_crypto execution_example) = Books 10 0 0 10 0 0"
    by (simp_all add: holds_liquidity_def reservation_status_def buy_entry_def buy_example_def new_transaction_def
        execution_example_def mget_def eval_simps)
  ultimately show ?thesis
    using buy_settles [OF db_order_ok(1) _ _ run] run by auto
qed

theorem buy_settles_once_witness:
  "\<exists>d'. order_trace ''t1'' (db_order buy_example) [True] d' \<and> length (filter (\<lambda>b. b) [True]) \<le> 1"
proof -
  let ?m = "order_buy_tx env_example order_example buy_example execution_example ''ref1'' ''BTC'' ''NGN'' 300"
  let ?d = "snd (?m (db_order buy_example))"
  have "t_id buy_example = ''t1''" by (simp add: buy_example_def new_transaction_def)
  moreover have "committed ?m (db_order buy_example) = (Some True, ?d)"
    by (rule committed_run) (rule fst_run [OF buy_example_run])
  ultimately have "order_trace ''t1'' (db_order buy_example) [Some True = Some True] ?d"
    by (rule order_trace.settle [OF order_trace.start])
  then have "order_trace ''t1'' (db_order buy_example) [True] ?d" by simp
  moreover have "transaction_by_id ''t1'' (db_order buy_example) \<noteq> None"
    by (simp add: order_eval transaction_by_id_def)
  ultimately show ?thesis using buy_settles_once by blast
qed

section \<open>Amounts the settlement cannot write\<close>

lemma toBase_too_long:
  assumes "\<not> has_exponent (trim amount)" "parse_amount (trim amount) = Some (neg, w, f)" "2 < length f" "is_fiat (to_lower cur)"
  shows "\<exists>e. toBase cv amount cur None = Inl e"
proof (cases "resolve_decimals cv (to_lower cur) None")
  case (Inl e)
  then show ?thesis by (simp add: toBase_def Let_def)
next
  case (Inr k)
  have "k = 2" using resolve_decimals_fiat [OF Inr] assms(4) by simp
  with Inr assms(1,2,3) show ?thesis
    by (simp add: toBase_def Let_def normalize_amount_def base_units_def)
qed

text \<open>The amount in NGN of a done order is the product of volume and price, and it must be a whole number of
  kobo: with a third decimal the handler fails at every delivery, before it has written anything, so
  the order stays pending although the exchange carried it out.\<close>

theorem unscaled_order_never_settles:
  assumes "or_else (truthy (od_reference data)) (truthy (od_id data)) = Some reference"
    and "List.find (\<lambda>x. o_referenceNo x = Some reference) (d_orders (s_db s)) = Some r"
    and "transaction_by_id (o_transactionId r) (s_db s) = Some t" "t_status t \<noteq> TxCOMPLETED" "t_status t \<noteq> TxFAILED"
    and "\<not> failed_order data" "is_fiat (to_lower (to_upper (od_quote_unit data)))"
    and "truthy (od_volume data) = Some v" "truthy (od_price data) = Some p" "oo_mul ops v p = Some product"
    and "\<not> has_exponent (trim product)" "parse_amount (trim product) = Some (neg, w, f)" "2 < length f"
  shows "\<exists>e. order_process env ops oa data s = (Inl e, s)"
proof -
  obtain e where e: "order_amounts env ops data (to_upper (od_base_unit data)) (to_upper (od_quote_unit data)) = Inl e"
    using toBase_too_long [OF assms(11-13,7), of "e_cv env"] assms(8-10)
    by (cases "toBase (e_cv env) v (to_upper (od_base_unit data)) None") (auto simp: order_amounts_def)
  then have x: "order_execution env ops data (to_upper (od_base_unit data)) (to_upper (od_quote_unit data)) = Inl e"
    by (simp add: order_execution_def)
  show ?thesis
    by (cases "reserved_of t")
      (auto simp: order_process_def assms(1-6) order_settle_def x comp_defs Let_def split: option.split)
qed

theorem unscaled_order_never_settles_witness:
  "\<exists>e. order_process env_example (order_ops_example\<lparr>oo_mul := (\<lambda>_ _. Some ''3.125'')\<rparr>) order_answers_example (data_example ''buy'')
      (sys_example\<lparr>s_db := db_order buy_example\<rparr>) = (Inl e, sys_example\<lparr>s_db := db_order buy_example\<rparr>)"
  by (rule unscaled_order_never_settles [where reference = "''ref1''" and r = order_example and t = buy_example
        and v = "''0.0000001''" and p = "''300000''" and product = "''3.125''" and neg = False and w = "''3''" and f = "''125''"])
    (simp_all add: order_eval truthy_def or_else_def transaction_by_id_def failed_order_def currency_eval eval_simps)

section \<open>Deliveries that repeat\<close>

definition transfers :: "sys \<Rightarrow> nat" where
  "transfers s = length (filter (\<lambda>c. case c of CallTransfer _ _ \<Rightarrow> True | _ \<Rightarrow> False) (s_calls s))"

lemma run_syncAll: "\<exists>s'. syncAllToCache env s = (Inr (), s') \<and> s_db s' = s_db s \<and> s_calls s' = s_calls s"
proof -
  have "\<exists>s'. forM ls (\<lambda>l. setCache env (l_currency l) (cache_of_row env l)) s = (Inr (), s')
      \<and> s_db s' = s_db s \<and> s_calls s' = s_calls s" for ls
  proof (induction ls arbitrary: s)
    case (Cons l ls)
    show ?case
      using Cons [of "snd (setCache env (l_currency l) (cache_of_row env l) s)"]
      unfolding forM.simps run_then by (auto simp: setCache_def modifyM_def)
  qed (simp add: comp_defs)
  then show ?thesis by (simp add: syncAllToCache_def comp_defs)
qed

lemma syncAll_simps [simp]: "fst (syncAllToCache env s) = Inr ()" "s_db (snd (syncAllToCache env s)) = s_db s"
  "s_calls (snd (syncAllToCache env s)) = s_calls s"
  using run_syncAll [of env s] by auto

text \<open>C40: Neither the status of the payout nor that of the proceeds stops a second payout: as long as the transaction of
  a sell has not ended, every delivery of its \<^verbatim>\<open>order.done\<close> sends the user's NGN once more, also
  when the proceeds were added and a transfer was started by an earlier one.\<close>

theorem begun_sell_pays_again:
  assumes "or_else (truthy (od_reference data)) (truthy (od_id data)) = Some reference" "od_side data \<noteq> ''buy''"
    and "List.find (\<lambda>x. o_referenceNo x = Some reference) (d_orders (s_db s)) = Some r"
    and "transaction_by_id (o_transactionId r) (s_db s) = Some t" "t_id t = o_transactionId r" "t_status t \<noteq> TxCOMPLETED" "t_status t \<noteq> TxFAILED"
    and "\<not> failed_order data" "reserved_of t = Inr reserved" "\<not> bill_flow t" "payout_details (t_meta t)"
    and "mget (t_meta t) ''payoutStatus'' = ''initiated''" "mget (t_meta t) ''sellProceedsLiquidityStatus'' = ''ADDED''"
    and "wallet_for (t_userId t) (to_upper (od_base_unit data)) (s_db s) = Some w" "truthy (w_defaultNetwork w) \<noteq> None"
    and "order_execution env ops data (to_upper (od_base_unit data)) (to_upper (od_quote_unit data)) = Inr ex"
    and "oa_recipient oa = Inr (Some rc)" "oa_transfer oa = Inr (Some tr)" "e_txFault env = (\<lambda>_. None)"
  shows "\<exists>s'. order_process env ops oa data s = (Inr (), s') \<and> transfers s' = transfers s + 1"
proof -
  obtain reference' code where tr: "tr = (reference', code)" by (cases tr)
  have m: "current_meta (t_id t) (s_db s) = t_meta t" using assms(4,5) by (simp add: current_meta_def)
  have p: "fst (order_payout env oa r t ex (to_upper (od_quote_unit data)) s) = Inr ()"
    "s_calls (snd (order_payout env oa r t ex (to_upper (od_quote_unit data)) s)) = s_calls s @
      [CallRecipient (mget (t_meta t) ''payoutAccountName'') (mget (t_meta t) ''payoutAccountNumber''), CallTransfer rc (t_fiatAmountBase t)]"
    using assms(11,13,17-19)
    by (simp_all add: order_payout_def pay_out_def m tr comp_defs txM_def callM_def order_proceeds_tx_def order_payout_tx_def
        updTransactions_def updOrders_def)
  obtain s1 where p1: "order_payout env oa r t ex (to_upper (od_quote_unit data)) s = (Inr (), s1)" "transfers s1 = transfers s + 1"
    using fst_run [OF p(1)] p(2) by (fastforce simp: transfers_def)
  have "order_process env ops oa data s = order_settle env ops oa r t data reference False (to_upper (od_base_unit data)) (to_upper (od_quote_unit data)) reserved s"
    using assms(1-4,8,9) by (simp add: order_process_def comp_defs Let_def)
  also have "\<dots> = syncAllToCache env (if transaction_by_id (t_id t) (s_db s1) \<noteq> None
      then s1\<lparr>s_calls := s_calls s1 @ [CallNotify (t_id t)]\<rparr> else s1)"
    using p1(1) assms(6,7,10,11,14-16) by (auto simp: order_settle_def order_sell_def comp_defs callM_def)
  finally show ?thesis
    using run_syncAll [of env "if transaction_by_id (t_id t) (s_db s1) \<noteq> None
        then s1\<lparr>s_calls := s_calls s1 @ [CallNotify (t_id t)]\<rparr> else s1"] p1(2)
    by (auto simp: transfers_def split: if_splits)
qed

definition sell_begun :: sys where
  "sell_begun = sys_example\<lparr>s_db := (db_order sell_example)\<lparr>d_transactions := [sell_example\<lparr>t_meta :=
     mset_all [(''payoutStatus'', ''initiated''), (''sellProceedsLiquidityStatus'', ''ADDED'')] (t_meta sell_example)\<rparr>]\<rparr>\<rparr>"

theorem begun_sell_pays_again_witness:
  "\<exists>s'. order_process env_example order_ops_example order_answers_example (data_example ''sell'') sell_begun = (Inr (), s')
     \<and> transfers s' = transfers sell_begun + 1"
proof -
  let ?t = "sell_example\<lparr>t_meta :=
     mset_all [(''payoutStatus'', ''initiated''), (''sellProceedsLiquidityStatus'', ''ADDED'')] (t_meta sell_example)\<rparr>"
  have up: "to_upper (od_base_unit (data_example ''sell'')) = ''BTC''" "to_upper (od_quote_unit (data_example ''sell'')) = ''NGN''"
    by (simp_all add: data_example_def eval_simps)
  show ?thesis
    by (rule begun_sell_pays_again [where reference = "''ref1''" and r = order_example and t = ?t and reserved = 300
          and w = btc_wallet and ex = execution_example and rc = "''RCP''" and tr = "(''T1'', ''TRF'')"], unfold up)
      (rule execution_example_run | simp add: sell_begun_def order_eval truthy_def or_else_def transaction_by_id_def failed_order_def
        reserved_of_def bill_flow_def payout_details_def mget_def mset_all_def wallet_for_def ieq_def eval_simps)+
qed


section \<open>The sale of collateral\<close>

definition collateral_wallet :: "urgentLoan \<Rightarrow> db \<Rightarrow> wallet option" where
  "collateral_wallet l d = List.find (\<lambda>w. w_userId w = ul_userId l \<and> (w_currencyId w = Some (ul_collateralAssetId l)
     \<or> ieq (w_currency w) (ul_collateralAssetSymbol l))) (d_wallets d)"

lemma loan_settle_run:
  assumes "loan_settle env ops l fiat c f d = (Inr u, d')"
  obtains v1 d1 v2 d2 w shown where
    "updateInternalBalance env (ul_collateralAssetSymbol l) c Subtract d = (Inr v1, d1)"
    "updateInternalBalance env fiat f Add d1 = (Inr v2, d2)" "collateral_wallet l d2 = Some w"
    "guarded_count (\<lambda>x. w_id x = w_id w) (w_sell_collateral c (oo_twoThirds ops c)) (d_wallets d2) \<noteq> 0"
    "d_wallets d' = update_where (\<lambda>x. w_id x = w_id w) (\<lambda>x. x\<lparr>w_originalBalance := shown\<rparr>)
       (guarded_update (\<lambda>x. w_id x = w_id w) (w_sell_collateral c (oo_twoThirds ops c)) (d_wallets d2))"
    "d_liquidity d' = d_liquidity d2"
proof -
  obtain v1 d1 v2 d2 w n d3 base shown e1 e2 where
    a: "updateInternalBalance env (ul_collateralAssetSymbol l) c Subtract d = (Inr v1, d1)"
    and b: "updateInternalBalance env fiat f Add d1 = (Inr v2, d2)" and w: "collateral_wallet l d2 = Some w"
    and s: "sqlWallets (\<lambda>x. w_id x = w_id w) (w_sell_collateral c (oo_twoThirds ops c)) d2 = (Inr n, d3)" and n: "n \<noteq> 0"
    and u: "updWallets (\<lambda>x. w_id x = w_id w) (\<lambda>x. x\<lparr>w_originalBalance := shown\<rparr>) d3 = (Inr e1, e2)"
    and x: "updLoans (\<lambda>x. ul_id x = ul_id l) (\<lambda>x. x\<lparr>ul_status := LnQUIDAX_COMPLETED\<rparr>) e2 = (Inr u, d')"
    using assms unfolding loan_settle_def collateral_wallet_def [symmetric] run_bind run_then run_get run_some run_lift run_require
    by (elim exE conjE, hypsubst_thin) (rule that, assumption+)
  show thesis by (rule that [OF a b w]) (use s n u x in \<open>auto simp: run_sqlWallets run_upd run_upd_more\<close>)
qed

text \<open>The sale of the collateral of an urgent loan takes the executed crypto from the user's balance and from
  the company's internal balance alike, and adds the proceeds to the internal balance of the other
  currency.\<close>

theorem loan_sale_posts:
  assumes "keys_ok d" "liquidity_for fiat d \<noteq> None"
    and "\<forall>w. collateral_wallet l d = Some w \<longrightarrow> ieq (w_currency w) (ul_collateralAssetSymbol l)"
    and "loan_settle env ops l fiat c f d = (Inr u, d')"
  shows "posted d (\<lambda>k. entry (ul_collateralAssetSymbol l) (Books (- c) 0 0 (- c) 0 0) k + entry fiat (Books 0 0 0 f 0 0) k) d'"
  using assms(4)
proof (rule loan_settle_run)
  fix v1 d1 v2 d2 w shown
  assume a: "updateInternalBalance env (ul_collateralAssetSymbol l) c Subtract d = (Inr v1, d1)"
    and b: "updateInternalBalance env fiat f Add d1 = (Inr v2, d2)" and w: "collateral_wallet l d2 = Some w"
    and n: "guarded_count (\<lambda>x. w_id x = w_id w) (w_sell_collateral c (oo_twoThirds ops c)) (d_wallets d2) \<noteq> 0"
    and ws: "d_wallets d' = update_where (\<lambda>x. w_id x = w_id w) (\<lambda>x. x\<lparr>w_originalBalance := shown\<rparr>)
       (guarded_update (\<lambda>x. w_id x = w_id w) (w_sell_collateral c (oo_twoThirds ops c)) (d_wallets d2))"
    and ls: "d_liquidity d' = d_liquidity d2"
  note p1 = updateInternalBalance_posting [OF assms(1) a disjI1 [OF refl], simplified]
  note k1 = posted_keys [OF p1 assms(1)]
  note p2 = updateInternalBalance_posting [OF k1 b disjI2 [OF posted_row [OF p1 assms(2)]], simplified]
  note k2 = posted_keys [OF p2 k1]
  have "d_wallets d2 = d_wallets d"
    using updateInternalBalance_frame [OF a] updateInternalBalance_frame [OF b] by simp
  then have in_w: "w \<in> set (d_wallets d2)" "ieq (w_currency w) (ul_collateralAssetSymbol l)"
    using w assms(3) by (auto simp: collateral_wallet_def dest: find_Some_in)
  then have cur: "\<forall>x \<in> set (d_wallets d2). w_id x = w_id w \<longrightarrow> ieq (w_currency x) (ul_collateralAssetSymbol l)"
    using k2 by (auto simp: keys_ok_def distinct_map inj_on_def)
  let ?d3 = "d2\<lparr>d_wallets := guarded_update (\<lambda>x. w_id x = w_id w) (w_sell_collateral c (oo_twoThirds ops c)) (d_wallets d2)\<rparr>"
  have p3: "posted d2 (entry (ul_collateralAssetSymbol l) (Books (- c) 0 0 0 0 0)) ?d3"
    by (rule guarded_wallet_posting [OF k2 cur n]) (auto simp: w_sell_collateral_def split: if_splits)
  note k3 = posted_keys [OF p3 k2]
  have p4: "posted ?d3 (\<lambda>_. 0) d'"
    by (rule postedI, simp add: books_def w_total_def l_total_def sum_same ws ls)
      (simp add: ws ls same_accounts_def update_where_def)
  show ?thesis
    by (rule posted_eq [OF posted_trans [OF posted_trans [OF posted_trans [OF p1 p2] p3] p4]]) (simp add: entry_add entry_def)
qed

text \<open>The debit checks the collateral against the whole balance, not against what is left of it beside the
  reservations for withdrawals and swaps: when it is more than that, the sale succeeds and leaves the
  accounts insolvent.\<close>

theorem loan_sale_breaks_solvency:
  assumes "keys_ok d" "collateral_wallet l d = Some w" "w_baseBalance w - c < w_reservedBalance w"
    and "loan_settle env ops l fiat c f d = (Inr u, d')"
  shows "\<not> solvent d'"
  using assms(4)
proof (rule loan_settle_run)
  fix v1 d1 v2 d2 x shown
  assume a: "updateInternalBalance env (ul_collateralAssetSymbol l) c Subtract d = (Inr v1, d1)"
    and b: "updateInternalBalance env fiat f Add d1 = (Inr v2, d2)" and x: "collateral_wallet l d2 = Some x"
    and n: "guarded_count (\<lambda>y. w_id y = w_id x) (w_sell_collateral c (oo_twoThirds ops c)) (d_wallets d2) \<noteq> 0"
    and ws: "d_wallets d' = update_where (\<lambda>y. w_id y = w_id x) (\<lambda>y. y\<lparr>w_originalBalance := shown\<rparr>)
       (guarded_update (\<lambda>y. w_id y = w_id x) (w_sell_collateral c (oo_twoThirds ops c)) (d_wallets d2))"
  have "d_wallets d2 = d_wallets d" using updateInternalBalance_frame [OF a] updateInternalBalance_frame [OF b] by simp
  then have w: "x = w" "w \<in> set (d_wallets d2)" and k: "distinct (map w_id (d_wallets d2))"
    using x assms(1,2) by (auto simp: collateral_wallet_def keys_ok_def dest: find_Some_in)
  obtain r where "r \<in> set (d_wallets d2)" "w_id r = w_id w" "w_sell_collateral c (oo_twoThirds ops c) r \<noteq> None"
    using guarded_row [OF n] w(1) by blast
  with k w(2) have s: "w_sell_collateral c (oo_twoThirds ops c) w \<noteq> None" by (auto simp: distinct_map inj_on_def)
  let ?y = "(the (w_sell_collateral c (oo_twoThirds ops c) w))\<lparr>w_originalBalance := shown\<rparr>"
  have "?y \<in> set (d_wallets d')"
    using w s unfolding ws update_where_def guarded_update_def set_map image_image
    by (intro image_eqI [of _ _ w]) (auto simp: w_sell_collateral_def split: if_splits)
  moreover have "w_baseBalance ?y < w_reservedBalance ?y"
    using s assms(3) by (auto simp: w_sell_collateral_def split: if_splits)
  ultimately show ?thesis by (fastforce simp: solvent_def wallet_ok_def list_all_iff)
qed

definition loan_example :: urgentLoan where
  "loan_example = \<lparr>ul_id = ''ln1'', ul_userId = ''u1'', ul_quoteId = ''q1'', ul_collateralAssetId = ''c1'',
     ul_collateralAssetSymbol = ''BTC'', ul_loanAmount = 200, ul_interestAmount = 20, ul_totalRepayable = 220, ul_dueDate = 5000,
     ul_status = LnPENDING, ul_collateralAmountAsset = 90, ul_bankAccountName = ''Ada'', ul_bankAccountNumber = ''0123'',
     ul_bankCode = ''058'', ul_liquidityValue = 300, ul_quidaxSwapId = Some ''ref9'', ul_paystackTransferId = None,
     ul_failureReason = None\<rparr>"

definition db_loan :: db where
  "db_loan = (db_order buy_example)\<lparr>d_loans := [loan_example], d_wallets := [btc_wallet\<lparr>w_defaultNetwork := None\<rparr>]\<rparr>"

lemma loan_run: "fst (loan_settle env_example order_ops_example loan_example ''NGN'' 90 300 db_loan) = Inr ()"
proof -
  have shown: "fromBase cv_example (ABigInt 10) ''BTC'' None = Inr ''0.0000001''"
    by (simp add: cv_example_def currency_eval eval_simps)
  show ?thesis
    by (simp add: loan_settle_def db_loan_def loan_example_def order_eval order_tx_eval shown w_sell_collateral_def updLoans_def)
qed

lemma db_loan_ok: "keys_ok db_loan" "solvent db_loan"
  by (simp_all add: db_loan_def order_eval solvent_def wallet_ok_def liquidity_ok_def keys_ok_def eval_simps)

theorem loan_sale_posts_witness:
  "\<exists>d'. loan_settle env_example order_ops_example loan_example ''NGN'' 90 300 db_loan = (Inr (), d')
     \<and> posted db_loan (\<lambda>k. entry ''BTC'' (Books (- 90) 0 0 (- 90) 0 0) k + entry ''NGN'' (Books 0 0 0 300 0 0) k) d'"
proof -
  note run = fst_run [OF loan_run]
  have f: "liquidity_for ''NGN'' db_loan \<noteq> None" and b: "ul_collateralAssetSymbol loan_example = ''BTC''"
    and w: "collateral_wallet loan_example db_loan = Some (btc_wallet\<lparr>w_defaultNetwork := None\<rparr>)"
    by (simp_all add: db_loan_def loan_example_def order_eval liquidity_for_def collateral_wallet_def ieq_def eval_simps)
  have "ieq (w_currency (btc_wallet\<lparr>w_defaultNetwork := None\<rparr>)) ''BTC''"
    by (simp add: btc_wallet_def ieq_def)
  then have "\<forall>w. collateral_wallet loan_example db_loan = Some w \<longrightarrow> ieq (w_currency w) (ul_collateralAssetSymbol loan_example)"
    by (simp only: w b option.inject) simp
  from loan_sale_posts [OF db_loan_ok(1) f this run] run show ?thesis unfolding b by blast
qed

theorem loan_sale_breaks_solvency_witness:
  "solvent db_loan \<and> (\<exists>d'. loan_settle env_example order_ops_example loan_example ''NGN'' 90 300 db_loan = (Inr (), d') \<and> \<not> solvent d')"
proof -
  note run = fst_run [OF loan_run]
  have w: "collateral_wallet loan_example db_loan = Some (btc_wallet\<lparr>w_defaultNetwork := None\<rparr>)"
    by (simp add: db_loan_def loan_example_def order_eval collateral_wallet_def)
  have "w_baseBalance (btc_wallet\<lparr>w_defaultNetwork := None\<rparr>) - 90 < w_reservedBalance (btc_wallet\<lparr>w_defaultNetwork := None\<rparr>)"
    by (simp add: btc_wallet_def wallet_example_def)
  from loan_sale_breaks_solvency [OF db_loan_ok(1) w this run] run db_loan_ok(2) show ?thesis by blast
qed

end
