(* ===== verification/SellBooks.thy ===== *)
theory SellBooks
  imports Sell Paystack OrderBooks
begin

text \<open>
  A sell from the confirmation of its quote to the payout: what the confirmation reserves, what a
  refusal gives back, and what the settlement of the payout takes. Where this fails, an example.
\<close>

section \<open>What the confirmation reserves\<close>

lemma sell_liquidity_run:
  assumes "sell_liquidity env False amt t oid covered d = (Inr (SellReserved t' oid'), d')"
  shows "t' = t" "oid' = oid" "reserveLiquidity BASE_CURRENCY amt d = (Inr True, d\<lparr>d_liquidity := d_liquidity d'\<rparr>)"
    "d_wallets d' = d_wallets d" "covered"
    "d_transactions d' = update_where (\<lambda>x. t_id x = t_id t)
      (\<lambda>x. x\<lparr>t_meta := mset_all [(''liquidityReservationStatus'', ''reserved'')] (t_meta t)\<rparr>) (d_transactions d)"
    "d_orders d' = d_orders d"
proof -
  obtain d1 where r: "reserveLiquidity BASE_CURRENCY amt d = (Inr True, d1)" "covered" and t: "t' = t" "oid' = oid"
    and d': "d' = d1\<lparr>d_transactions := update_where (\<lambda>x. t_id x = t_id t)
      (\<lambda>x. x\<lparr>t_meta := mset_all [(''liquidityReservationStatus'', ''reserved'')] (t_meta t)\<rparr>) (d_transactions d1)\<rparr>"
    using assms by (auto simp: sell_liquidity_def Let_def run_simps split: if_splits)
  have d1: "d1 = d\<lparr>d_liquidity := d_liquidity d1\<rparr>" by (rule reserveLiquidity_run [OF r(1)])
  show "t' = t" "oid' = oid" "covered" by fact+
  show "reserveLiquidity BASE_CURRENCY amt d = (Inr True, d\<lparr>d_liquidity := d_liquidity d'\<rparr>)"
    using r(1) d1 by (simp add: d')
  show "d_wallets d' = d_wallets d" "d_orders d' = d_orders d"
    "d_transactions d' = update_where (\<lambda>x. t_id x = t_id t)
      (\<lambda>x. x\<lparr>t_meta := mset_all [(''liquidityReservationStatus'', ''reserved'')] (t_meta t)\<rparr>) (d_transactions d)"
    unfolding d' by (subst d1, simp)+
qed

lemma getAvailable_run: "getAvailableLiquidity c d = (Inr a, d') \<Longrightarrow> d' = d"
  by (auto simp: getAvailableLiquidity_def run_simps)

lemma sell_reserve_run:
  assumes "sell_reserve_tx env False u pid w q bank amount ngn d = (Inr (SellReserved t oid), d')"
  shows "reserveBalance u (lq_crypto q) (sell_total q) (Some (w_defaultNetwork w)) d = (Inr (), d\<lparr>d_wallets := d_wallets d'\<rparr>)"
    and "reserveLiquidity BASE_CURRENCY (lq_netFiatMinor q) d = (Inr True, d\<lparr>d_liquidity := d_liquidity d'\<rparr>)"
    and "t_userId t = u" "t_currency t = to_upper (lq_crypto q)" "t_totalAmountSentBase t = None"
      "t_cryptoAmountBase t = Some (lq_exactCryptoMinor q)" "t_platformFeeBase t = Some (lq_platformFeeMinor q)"
      "t_fiatAmountBase t = lq_netFiatMinor q" "t_context t = CtxSELL"
      "t_meta t = [(''quoteId'', pid), (''payoutBankAccountId'', ba_id bank),
        (''payoutAccountNumber'', ba_bankAccountNumber bank), (''payoutBankCode'', ba_bankCode bank),
        (''payoutAccountName'', ba_bankAccountName bank), (''liquidityReservationStatus'', ''reserved'')]"
      "\<exists>x. transaction_by_uniqueId pid d' = Some x"
proof -
  let ?t = "\<lambda>d1 c fee buffer whole. transaction_of_params (e_cuid env (d_seq d1)) (sell_params u pid w q bank c amount ngn fee buffer whole)"
  have "\<exists>v d1 c fee buffer whole d2 oid'. reserveBalance u (lq_crypto q) (sell_total q) (Some (w_defaultNetwork w)) d = (Inr v, d1)
    \<and> d_wallets d2 = d_wallets d1 \<and> d_liquidity d2 = d_liquidity d1
    \<and> (\<exists>ts. d_transactions d2 = ts @ [?t d1 c fee buffer whole])
    \<and> sell_liquidity env False (lq_netFiatMinor q) (?t d1 c fee buffer whole) oid' c d2 = (Inr (SellReserved t oid), d')"
    using assms
    unfolding sell_reserve_tx_def run_bind run_get
    apply (elim exE conjE)
    apply hypsubst_thin
    apply (split option.split_asm)
    subgoal
      unfolding Let_def run_bind run_then run_lift createTransaction_def run_fresh run_insertTransaction run_inserts run_return if_False prod.inject
      apply (elim exE conjE)
      apply (drule getAvailable_run)
      apply hypsubst_thin
      apply (intro exI conjI)
          apply assumption
         prefer 4
         apply assumption
        apply simp_all
      done
    subgoal by (simp add: returnM_def)
    done
  then obtain d1 c fee buffer whole d2 oid' where
    b: "reserveBalance u (lq_crypto q) (sell_total q) (Some (w_defaultNetwork w)) d = (Inr (), d1)"
    and d2: "d_wallets d2 = d_wallets d1" "d_liquidity d2 = d_liquidity d1"
      "\<exists>ts. d_transactions d2 = ts @ [?t d1 c fee buffer whole]"
    and l: "sell_liquidity env False (lq_netFiatMinor q) (?t d1 c fee buffer whole) oid' c d2 = (Inr (SellReserved t oid), d')"
    by auto
  note l = sell_liquidity_run [OF l]
  have d1: "d_liquidity d1 = d_liquidity d" by (subst reserveBalance_run [OF b], simp)
  show "reserveBalance u (lq_crypto q) (sell_total q) (Some (w_defaultNetwork w)) d = (Inr (), d\<lparr>d_wallets := d_wallets d'\<rparr>)"
    using reserveBalance_table [OF b refl] by (simp add: l(4) d2)
  show "reserveLiquidity BASE_CURRENCY (lq_netFiatMinor q) d = (Inr True, d\<lparr>d_liquidity := d_liquidity d'\<rparr>)"
    using reserveLiquidity_table [OF l(3), of d] by (simp add: d2 d1)
  show "t_userId t = u" "t_currency t = to_upper (lq_crypto q)" "t_totalAmountSentBase t = None"
      "t_cryptoAmountBase t = Some (lq_exactCryptoMinor q)" "t_platformFeeBase t = Some (lq_platformFeeMinor q)"
      "t_fiatAmountBase t = lq_netFiatMinor q" "t_context t = CtxSELL"
      "t_meta t = [(''quoteId'', pid), (''payoutBankAccountId'', ba_id bank),
        (''payoutAccountNumber'', ba_bankAccountNumber bank), (''payoutBankCode'', ba_bankCode bank),
        (''payoutAccountName'', ba_bankAccountName bank), (''liquidityReservationStatus'', ''reserved'')]"
    using l(1,5) by (simp_all add: transaction_of_params_def sell_params_def new_transaction_def)
  have "t_uniqueId t = pid" using l(1) by (simp add: transaction_of_params_def sell_params_def new_transaction_def)
  moreover obtain ts where "d_transactions d2 = ts @ [t]" using d2(3) l(1) by auto
  moreover have "List.find (\<lambda>x. t_uniqueId x = t_uniqueId t) (ts @ [t]) \<noteq> None" for ts
    by (auto simp: find_None_iff)
  ultimately show "\<exists>x. transaction_by_uniqueId pid d' = Some x"
    unfolding transaction_by_uniqueId_def l(6) by (subst find_update_where) auto
qed

text \<open>Undoing it, in every state that has these balances.\<close>

lemma sell_back:
  assumes "solvent d" "keys_ok d" "0 \<le> lq_netFiatMinor q"
    and "sell_reserve_tx env False u pid w q bank amount ngn d = (Inr (SellReserved t oid), d')"
    and "d_wallets e = d_wallets d'" "d_liquidity e = d_liquidity d'"
  shows "releaseBalance u (lq_crypto q) (sell_total q) None e = (Inr (), e\<lparr>d_wallets := d_wallets d\<rparr>)"
    and "d_liquidity f = d_liquidity e \<Longrightarrow>
      releaseLiquidity BASE_CURRENCY (lq_netFiatMinor q) f = (Inr (), f\<lparr>d_liquidity := d_liquidity d\<rparr>)"
proof -
  note r = sell_reserve_run [OF assms(4)]
  have "back_wallets d e u (lq_crypto q) (sell_total q)"
    by (rule wallets_back [OF assms(1,2) reserve_any_network [OF r(1)]]) (simp add: assms(5))
  then show "releaseBalance u (lq_crypto q) (sell_total q) None e = (Inr (), e\<lparr>d_wallets := d_wallets d\<rparr>)"
    by (simp add: back_wallets_def)
  have "back_liquidity d e BASE_CURRENCY (lq_netFiatMinor q)"
    by (rule liquidity_back [OF assms(1-3) r(2)]) (simp add: assms(6))
  then show "d_liquidity f = d_liquidity e \<Longrightarrow>
      releaseLiquidity BASE_CURRENCY (lq_netFiatMinor q) f = (Inr (), f\<lparr>d_liquidity := d_liquidity d\<rparr>)"
    by (simp add: back_liquidity_def)
qed

lemma sell_reserve_posting:
  assumes "keys_ok d" "sell_reserve_tx env False u pid w q bank amount ngn d = (Inr (SellReserved t oid), d')"
  shows "posted d (\<lambda>c. entry (lq_crypto q) (Books 0 (sell_total q) 0 0 0 0) c
    + entry BASE_CURRENCY (Books 0 0 0 0 0 (lq_netFiatMinor q)) c) d'"
proof -
  note r = sell_reserve_run [OF assms(2)]
  note p1 = reserveBalance_posting [OF assms(1) r(1)]
  have "reserveLiquidity BASE_CURRENCY (lq_netFiatMinor q) (d\<lparr>d_wallets := d_wallets d'\<rparr>)
      = (Inr True, d\<lparr>d_wallets := d_wallets d', d_liquidity := d_liquidity d'\<rparr>)"
    using reserveLiquidity_table [OF r(2), of "d\<lparr>d_wallets := d_wallets d'\<rparr>"] by simp
  note p2 = reserveLiquidity_posting [OF posted_keys [OF p1 assms(1)] this]
  have p3: "posted (d\<lparr>d_wallets := d_wallets d', d_liquidity := d_liquidity d'\<rparr>) (\<lambda>_. 0) d'"
    by (rule posted_tables) simp_all
  show ?thesis by (rule posted_eq [OF posted_trans [OF posted_trans [OF p1 p2] p3]]) simp
qed

text \<open>C19: A sell the exchange answers without success is refused as a whole: the user's balance and the
  company's NGN are what they were before the confirmation.\<close>

theorem refused_sell_restores:
  assumes "solvent d" "keys_ok d" "0 \<le> lq_netFiatMinor q"
    and "sell_reserve_tx env False u pid w q bank amount ngn d = (Inr (SellReserved t oid), s_db s)"
    and "sl_order world = Inr a" "pa_status a \<noteq> ''success''" "e_txFault env ''sell_refused'' = None"
  shows "\<exists>s'. sell_order_request env world q u t oid volume s = (Inl (BadGateway ''Failed to place sell order''), s')
    \<and> d_wallets (s_db s') = d_wallets d \<and> d_liquidity (s_db s') = d_liquidity d"
proof -
  note undo = sell_back [OF assms(1-4) refl refl]
  show ?thesis
    by (simp add: sell_order_request_def sell_refused_tx_def txM_def callM_def assms(5-7) comp_defs undo
        updTransactions_def updOrders_def)
qed

text \<open>But when the request to the exchange fails with an exception, as it does for every answer that is no 2xx,
  nothing is compensated: the balance and the NGN stay reserved, and a new confirmation of the quote
  answers that the sell was submitted already.\<close>

theorem failed_sell_request_keeps_reservation:
  assumes "keys_ok d" "sell_reserve_tx env False u pid w q bank amount ngn d = (Inr (SellReserved t oid), s_db s)"
    and "sl_order world = Inl err" "\<not> sl_bypass world'"
  shows "\<exists>s'. sell_order_request env world q u t oid volume s = (Inl err, s')
    \<and> posted d (\<lambda>c. entry (lq_crypto q) (Books 0 (sell_total q) 0 0 0 0) c
        + entry BASE_CURRENCY (Books 0 0 0 0 0 (lq_netFiatMinor q)) c) (s_db s')
    \<and> (\<exists>x. transaction_by_uniqueId pid (s_db s') = Some x
        \<and> sell_existing env world' u pid q x s' = (Inr (sell_submitted_view (t_id x) (t_status x)), s'))"
proof -
  note p = sell_reserve_posting [OF assms(1,2)]
  obtain x where x: "transaction_by_uniqueId pid (s_db s) = Some x" using sell_reserve_run(11) [OF assms(2)] by blast
  show ?thesis
    by (simp add: sell_order_request_def assms(3) callM_def comp_defs p x sell_existing_def assms(4))
qed

section \<open>What the settlement of the payout takes\<close>

text \<open>A user has at most one wallet of each spelling of a currency: \<^verbatim>\<open>@@unique([userId, currency])\<close>.\<close>

definition one_wallet :: "db \<Rightarrow> bool" where
  "one_wallet d \<longleftrightarrow> distinct (map (\<lambda>w. (w_userId w, w_currency w)) (d_wallets d))"

lemma payout_debit_posting:
  assumes "keys_ok d" "one_wallet d" "payout_debit env t d = (Inr u, d')"
  shows "posted d (entry (t_currency t) (Books (- sent_base t) 0 0 0 0 0)) d'"
proof -
  let ?f = "\<lambda>shown x. (case w_debit (sent_base t) x of None \<Rightarrow> x | Some y \<Rightarrow> y)\<lparr>w_originalBalance := shown\<rparr>"
  obtain w shown where w: "List.find (\<lambda>w. payout_wallet t w \<and> w_debit (sent_base t) w \<noteq> None) (d_wallets d) = Some w"
    and ls: "d_liquidity d' = d_liquidity d"
    and ws: "d_wallets d' = update_where (payout_wallet t) (\<lambda>x. x\<lparr>w_originalBalance := shown\<rparr>)
      (guarded_update (payout_wallet t) (w_debit (sent_base t)) (d_wallets d))"
    using assms(3) by (auto simp: payout_debit_def run_simps)
  have w1: "w \<in> set (d_wallets d)" "payout_wallet t w" "w_debit (sent_base t) w \<noteq> None"
    using find_Some_in [OF w] by auto
  have same: "payout_wallet t x \<longleftrightarrow> w_id x = w_id w" if "x \<in> set (d_wallets d)" for x
    using that w1(1,2) assms(1,2) by (auto simp: keys_ok_def one_wallet_def payout_wallet_def distinct_map inj_on_def)
  have keep: "payout_wallet t (case w_debit (sent_base t) x of None \<Rightarrow> x | Some y \<Rightarrow> y) = payout_wallet t x" for x
    by (auto simp: w_debit_def payout_wallet_def)
  have ws': "d_wallets d' = update_where (\<lambda>x. w_id x = w_id w) (?f shown) (d_wallets d)"
    unfolding ws update_where_def guarded_update_def map_map by (rule map_cong [OF refl]) (auto simp: same keep)
  have cur: "\<forall>x \<in> set (d_wallets d). w_id x = w_id w \<longrightarrow> ieq (w_currency x) (t_currency t)"
    using same by (metis payout_wallet_def ieq_def)
  show ?thesis
    by (rule wallet_posting [OF assms(1) cur w1(1) refl ws' ls])
      (use w1(3) in \<open>auto simp: w_debit_def split: if_splits\<close>)
qed

lemma releaseBalance_spelling:
  assumes "releaseBalance u c a n d = (Inr v, d')"
  shows "map (\<lambda>w. (w_userId w, w_currency w)) (d_wallets d') = map (\<lambda>w. (w_userId w, w_currency w)) (d_wallets d)"
proof -
  obtain key where d': "d_wallets d' = guarded_update key (w_release a) (d_wallets d)"
    using assms that by (auto simp: releaseBalance_eq split: option.splits if_splits)
  show ?thesis by (simp add: d' guarded_update_def w_release_def)
qed

lemma payout_tx_run:
  assumes "payout_tx env ops price r t d = (Inr u, d')"
  obtains d1 d2 d3 d4 d5 u1 u2 u3 u5 where "releaseLiquidity BASE_CURRENCY (t_fiatAmountBase t) d = (Inr u1, d1)"
    "d_wallets d1 = d_wallets d"
    "releaseBalance (t_userId t) (t_currency t) (sent_base t) None d1 = (Inr u2, d2)"
    "payout_debit env t d2 = (Inr u3, d3)" "d_wallets d4 = d_wallets d3" "d_liquidity d4 = d_liquidity d3"
    "updateInternalBalance env (t_currency t) (sent_base t) Subtract d4 = (Inr u5, d5)"
    "d_wallets d' = d_wallets d5" "d_liquidity d' = d_liquidity d5"
proof -
  obtain u1 d1 u2 d2 u3 d3 sold u4 e1 u5 e2 u6 e3 where
    a: "releaseLiquidity BASE_CURRENCY (t_fiatAmountBase t) d = (Inr u1, d1)"
    and b: "releaseBalance (t_userId t) (t_currency t) (sent_base t) None d1 = (Inr u2, d2)"
    and c: "payout_debit env t d2 = (Inr u3, d3)"
    and e1: "updUsers (\<lambda>u. u_id u = t_userId t) (\<lambda>u. u\<lparr>u_amountSold := u_amountSold u + sold\<rparr>) d3 = (Inr u4, e1)"
    and e2: "payout_records env r t e1 = (Inr u5, e2)"
    and i: "updateInternalBalance env (t_currency t) (sent_base t) Subtract e2 = (Inr u6, e3)"
    and e3: "payout_shortfall env t e3 = (Inr u, d')"
    using assms unfolding payout_tx_def run_bind run_then run_lift by blast
  have "d_wallets d1 = d_wallets d" using a by (auto simp: releaseLiquidity_eq split: sum.splits if_splits)
  moreover have "d_wallets e2 = d_wallets d3" "d_liquidity e2 = d_liquidity d3"
    using e1 e2 by (auto simp: payout_records_def run_simps)
  moreover have "d_wallets d' = d_wallets e3" "d_liquidity d' = d_liquidity e3"
    using e3 by (auto simp: payout_shortfall_def isInternalBalanceExceeding_def run_simps split: if_splits)
  ultimately show thesis using a b c i by (intro that)
qed

lemma payout_posting:
  assumes "keys_ok d" "one_wallet d" "payout_tx env ops price r t d = (Inr u, d')"
  shows "posted d (\<lambda>c. entry (t_currency t) (Books (- sent_base t) (- sent_base t) 0 (- sent_base t) 0 0) c
    + entry BASE_CURRENCY (if 0 < t_fiatAmountBase t then Books 0 0 0 0 0 (- t_fiatAmountBase t) else 0) c) d'"
  using assms(3)
proof (rule payout_tx_run)
  fix d1 d2 d3 d4 d5 u1 u2 u3 u5
  assume a: "releaseLiquidity BASE_CURRENCY (t_fiatAmountBase t) d = (Inr u1, d1)" and ws: "d_wallets d1 = d_wallets d"
    and b: "releaseBalance (t_userId t) (t_currency t) (sent_base t) None d1 = (Inr u2, d2)"
    and c: "payout_debit env t d2 = (Inr u3, d3)"
    and d4: "d_wallets d4 = d_wallets d3" "d_liquidity d4 = d_liquidity d3"
    and e: "updateInternalBalance env (t_currency t) (sent_base t) Subtract d4 = (Inr u5, d5)"
    and d': "d_wallets d' = d_wallets d5" "d_liquidity d' = d_liquidity d5"
  note p1 = releaseLiquidity_posting [OF assms(1) a]
  note k1 = posted_keys [OF p1 assms(1)]
  note p2 = releaseBalance_posting [OF k1 b]
  note k2 = posted_keys [OF p2 k1]
  have "one_wallet d2" using releaseBalance_spelling [OF b] assms(2) by (simp add: one_wallet_def ws)
  note p3 = payout_debit_posting [OF k2 this c]
  note k3 = posted_keys [OF p3 k2]
  have p4: "posted d3 (\<lambda>_. 0) d4" by (rule posted_tables [OF d4])
  note p5 = updateInternalBalance_posting [OF posted_keys [OF p4 k3] e disjI1 [OF refl], simplified]
  have p6: "posted d5 (\<lambda>_. 0) d'" by (rule posted_tables [OF d'])
  show ?thesis
    by (rule posted_eq [OF posted_trans [OF posted_trans [OF posted_trans [OF posted_trans [OF posted_trans [OF p1 p2] p3] p4] p5] p6]])
      (simp add: entry_add entry_def)
qed

lemma entry_upper: "entry (to_upper c) b = entry c b"
  by (simp add: entry_def ieq_def fun_eq_iff)

text \<open>A sell that is paid out takes the crypto sold from the user and from the company's internal balance and
  frees the NGN reserved for it. The platform fee, which the confirmation reserved with the crypto, is
  neither taken nor given back: \<^verbatim>\<open>createTransaction\<close> does not store the total, so the settlement
  falls back to the crypto amount, and the fee stays reserved on the user's balance for good.\<close>

theorem sell_fee_stays_reserved:
  assumes "keys_ok d" "0 < lq_netFiatMinor q"
    and "sell_reserve_tx env False u pid w q bank amount ngn d = (Inr (SellReserved t oid), d')"
    and "posted d' other e" "one_wallet e" "payout_tx env' ops price r t' e = (Inr x, e')"
    and "t_currency t' = t_currency t" "t_totalAmountSentBase t' = t_totalAmountSentBase t"
    and "t_cryptoAmountBase t' = t_cryptoAmountBase t" "t_fiatAmountBase t' = t_fiatAmountBase t"
  shows "posted d (\<lambda>k. other k + entry (lq_crypto q)
    (Books (- lq_exactCryptoMinor q) (lq_platformFeeMinor q) 0 (- lq_exactCryptoMinor q) 0 0) k) e'"
proof -
  note p1 = sell_reserve_posting [OF assms(1,3)]
  note r = sell_reserve_run(3-9) [OF assms(3)]
  have sent: "sent_base t' = lq_exactCryptoMinor q" "t_fiatAmountBase t' = lq_netFiatMinor q" "t_currency t' = to_upper (lq_crypto q)"
    using assms(7-10) r by (simp_all add: sent_base_def or0_def)
  note p3 = payout_posting [OF posted_keys [OF assms(4) posted_keys [OF p1 assms(1)]] assms(5,6), unfolded sent entry_upper]
  show ?thesis
    by (rule posted_eq [OF posted_trans [OF posted_trans [OF p1 assms(4)] p3]])
      (use assms(2) in \<open>simp add: entry_def sell_total_def flip: zero_books_def\<close>)
qed

text \<open>The debit of the settlement compares the currency of the wallet with the upper case name the sell was
  recorded with, while every other statement ignores case: for a user whose wallet is spelled in
  lower case, as the account worker creates it, no transfer that succeeds is ever settled.\<close>

theorem payout_needs_spelling:
  assumes "truthy reference = Some ref"
    and "List.find (\<lambda>x. o_paymentReference x = Some ref \<and> o_type x = OSELL) (d_orders (s_db s)) = Some r"
    and "transaction_by_id (o_transactionId r) (s_db s) = Some t"
    and "mget (t_meta t) ''payoutStatus'' \<noteq> ''success''" "0 < sent_base t"
    and "\<forall>w \<in> set (d_wallets (s_db s)). w_userId w = t_userId t \<longrightarrow> w_currency w \<noteq> t_currency t"
  shows "\<exists>e. handleTransferSuccess env ops price reference s = (Inl e, s)"
proof -
  have "fst (payout_tx env ops price r t (s_db s)) \<noteq> Inr u" for u
  proof
    assume "fst (payout_tx env ops price r t (s_db s)) = Inr u"
    from fst_run [OF this] obtain d1 d2 d3 u2 u3 where ws: "d_wallets d1 = d_wallets (s_db s)"
      and b: "releaseBalance (t_userId t) (t_currency t) (sent_base t) None d1 = (Inr u2, d2)"
      and c: "payout_debit env t d2 = (Inr u3, d3)"
      by (rule payout_tx_run)
    obtain w where "w \<in> set (d_wallets d2)" "payout_wallet t w"
      using c by (auto simp: payout_debit_def run_simps dest: find_Some_in)
    then have "(t_userId t, t_currency t) \<in> set (map (\<lambda>w. (w_userId w, w_currency w)) (d_wallets d2))"
      by (auto simp: payout_wallet_def image_iff intro: bexI [of _ w])
    with assms(6) show False unfolding releaseBalance_spelling [OF b] ws by auto
  qed
  then obtain e where "fst (payout_tx env ops price r t (s_db s)) = Inl e"
    by (cases "fst (payout_tx env ops price r t (s_db s))") auto
  then show ?thesis
    using assms(1-5)
    by (cases "payout_tx env ops price r t (s_db s)") (auto simp: handleTransferSuccess_def comp_defs txM_def split: option.split)
qed

section \<open>An example\<close>

definition sell_quote_example :: sellQuote where
  "sell_quote_example = \<lparr>lq_quoteId = ''s1'', lq_userId = ''u1'', lq_crypto = ''BTC'', lq_network = ''N/A'', lq_fiatCurrency = ''NGN'',
     lq_exactCryptoMinor = 10, lq_marketPriceMinor = 100, lq_bufferedPriceMinor = 90, lq_bufferSpreadMinor = 10,
     lq_grossFiatMinor = 300, lq_platformFeeMinor = 1, lq_netFiatMinor = 300, lq_bufferPercent = ''10.00'',
     lq_bankAccountId = Some ''ba1'', lq_pinVerified = True, lq_expiresAt = 301000\<rparr>"

definition bank_example :: bankAccount where
  "bank_example = \<lparr>ba_id = ''ba1'', ba_userId = ''u1'', ba_bankName = ''GTB'', ba_bankAccountName = ''Ada'',
     ba_bankAccountNumber = ''0123'', ba_bankCode = ''058''\<rparr>"

definition db_sell :: db where
  "db_sell = (db_order buy_example)\<lparr>d_transactions := [], d_orders := []\<rparr>"

definition sell_tx_example :: transaction where
  "sell_tx_example = transaction_of_params (show_nat 0) (sell_params ''u1'' ''s1'' btc_wallet sell_quote_example bank_example True
     ''0.0000001'' ''3'' ''0.00000001'' ''0.10'' ''0.00000011'')"

lemmas sell_eval = db_sell_def sell_quote_example_def bank_example_def sell_tx_example_def sell_params_def transaction_of_params_def order_eval

lemmas sell_tx_eval = sell_reserve_tx_def sell_liquidity_def createTransaction_def insertTransaction_def insertOrder_def sell_order_def
  transaction_by_uniqueId_def order_by_transaction_def getAvailableLiquidity_def available_of_def freshM_def sell_total_def
  reserveBalance_eq reserveLiquidity_eq w_reserve_def l_reserve_def BASE_CURRENCY_def network_matches_def
  updTransactions_def update_where_def wallet_for_def comp_defs ledger_eval

lemma shown_sell: "fromBase cv_example (ABigInt 1) ''BTC'' None = Inr ''0.00000001''"
  "fromBase cv_example (ABigInt 11) ''BTC'' None = Inr ''0.00000011''" "fromBase cv_example (ABigInt 10) ''NGN'' None = Inr ''0.10''"
  "fromBase cv_example (ABigInt 90) ''BTC'' None = Inr ''0.0000009''"
  by (simp_all add: cv_example_def currency_eval eval_simps)

lemma sell_reserve_example:
  "fst (sell_reserve_tx env_example False ''u1'' ''s1'' btc_wallet sell_quote_example bank_example ''0.0000001'' ''3'' db_sell)
     = Inr (SellReserved sell_tx_example (show_nat 1))"
  by (simp add: sell_eval sell_tx_eval shown_sell)

lemma db_sell_ok: "solvent db_sell" "keys_ok db_sell"
  by (simp_all add: sell_eval solvent_def wallet_ok_def liquidity_ok_def keys_ok_def eval_simps)

definition sell_world_example :: "error + orderAnswer \<Rightarrow> sellWorld" where
  "sell_world_example answer = \<lparr>sl_bypass = False, sl_single = None, sl_fallback = None, sl_paystack = None, sl_order = answer\<rparr>"

definition sell_db :: db where
  "sell_db = snd (sell_reserve_tx env_example False ''u1'' ''s1'' btc_wallet sell_quote_example bank_example ''0.0000001'' ''3'' db_sell)"

lemmas sell_run = fst_run [OF sell_reserve_example, folded sell_db_def]

lemma sell_quote_simps [simp]: "lq_netFiatMinor sell_quote_example = 300" "lq_crypto sell_quote_example = ''BTC''"
  "sell_total sell_quote_example = 11" "lq_exactCryptoMinor sell_quote_example = 10" "lq_platformFeeMinor sell_quote_example = 1"
  by (simp_all add: sell_quote_example_def sell_total_def)

theorem refused_sell_restores_witness:
  "\<exists>s'. sell_order_request env_example (sell_world_example (Inr \<lparr>pa_status = ''error'', pa_reference = None, pa_id = None\<rparr>))
      sell_quote_example ''u1'' sell_tx_example (show_nat 1) ''0.0000001'' (sys_example\<lparr>s_db := sell_db\<rparr>)
      = (Inl (BadGateway ''Failed to place sell order''), s')
    \<and> d_wallets (s_db s') = d_wallets db_sell \<and> d_liquidity (s_db s') = d_liquidity db_sell"
proof (rule refused_sell_restores [OF db_sell_ok])
  show "sell_reserve_tx env_example False ''u1'' ''s1'' btc_wallet sell_quote_example bank_example ''0.0000001'' ''3'' db_sell
      = (Inr (SellReserved sell_tx_example (show_nat 1)), s_db (sys_example\<lparr>s_db := sell_db\<rparr>))"
    using sell_run by simp
  show "sl_order (sell_world_example (Inr \<lparr>pa_status = ''error'', pa_reference = None, pa_id = None\<rparr>))
      = Inr \<lparr>pa_status = ''error'', pa_reference = None, pa_id = None\<rparr>"
    by (simp add: sell_world_example_def)
  show "e_txFault env_example ''sell_refused'' = None" by (simp add: env_example_def)
qed simp_all

theorem failed_sell_request_keeps_reservation_witness:
  "\<exists>s'. sell_order_request env_example (sell_world_example (Inl (ProviderError ''timeout'')))
      sell_quote_example ''u1'' sell_tx_example (show_nat 1) ''0.0000001'' (sys_example\<lparr>s_db := sell_db\<rparr>)
      = (Inl (ProviderError ''timeout''), s')
    \<and> posted db_sell (\<lambda>c. entry ''BTC'' (Books 0 11 0 0 0 0) c + entry BASE_CURRENCY (Books 0 0 0 0 0 300) c) (s_db s')"
proof -
  have "sell_reserve_tx env_example False ''u1'' ''s1'' btc_wallet sell_quote_example bank_example ''0.0000001'' ''3'' db_sell
      = (Inr (SellReserved sell_tx_example (show_nat 1)), s_db (sys_example\<lparr>s_db := sell_db\<rparr>))"
    using sell_run by simp
  moreover have "sl_order (sell_world_example (Inl (ProviderError ''timeout''))) = Inl (ProviderError ''timeout'')"
    "\<not> sl_bypass (sell_world_example (Inl (ProviderError ''timeout'')))"
    by (simp_all add: sell_world_example_def)
  ultimately show ?thesis
    using failed_sell_request_keeps_reservation [OF db_sell_ok(2)] by fastforce
qed

definition paystack_ops_example :: paystackOps where
  "paystack_ops_example = \<lparr>py_naira = show_int, py_print = (\<lambda>_. ''0''), py_value = (\<lambda>_ _. None), py_date = (\<lambda>_. None)\<rparr>"

lemmas payout_eval = payout_tx_def payout_debit_def payout_records_def payout_shortfall_def sold_naira_def sent_base_def payout_wallet_def
  w_debit_def releaseLiquidity_eq releaseBalance_eq w_release_def l_release_def isInternalBalanceExceeding_def updateInternalBalance_def
  updUsers_def updOrders_def updWallets_def updLiquidity_def truthy_def or0_def

lemma payout_example:
  "fst (payout_tx env_example paystack_ops_example None order_example sell_tx_example sell_db) = Inr ()"
  by (simp add: sell_db_def sell_eval sell_tx_eval shown_sell payout_eval)

theorem sell_fee_stays_reserved_witness:
  "\<exists>e'. payout_tx env_example paystack_ops_example None order_example sell_tx_example sell_db = (Inr (), e')
    \<and> posted db_sell (entry ''BTC'' (Books (- 10) 1 0 (- 10) 0 0)) e'"
proof -
  note run = fst_run [OF payout_example]
  have "one_wallet sell_db" by (simp add: one_wallet_def sell_db_def sell_eval sell_tx_eval shown_sell)
  from sell_fee_stays_reserved [OF db_sell_ok(2) _ sell_run posted_nothing this run refl refl refl refl] run
  show ?thesis by auto
qed

definition sys_spelled :: sys where
  "sys_spelled = sys_example\<lparr>s_db := (db_order sell_example)\<lparr>d_wallets := [btc_wallet\<lparr>w_currency := ''btc''\<rparr>],
     d_orders := [order_example\<lparr>o_type := OSELL, o_paymentReference := Some ''T1''\<rparr>]\<rparr>\<rparr>"

theorem payout_needs_spelling_witness:
  "\<exists>e. handleTransferSuccess env_example paystack_ops_example None (Some ''T1'') sys_spelled = (Inl e, sys_spelled)"
  by (rule payout_needs_spelling [where ref = "''T1''" and r = "order_example\<lparr>o_type := OSELL, o_paymentReference := Some ''T1''\<rparr>"
        and t = sell_example])
    (simp_all add: sys_spelled_def order_eval transaction_by_id_def truthy_def mget_def sent_base_def or0_def)

section \<open>Transfers that fail after they succeeded\<close>

text \<open>A transfer that is reported failed or reversed reopens its sell even when the payout had been settled: the
  handler asks for a status it never writes. The transaction is pending again and its metadata say that
  crypto and NGN are reserved, while the settlement has freed both: a retried payout settles a second time.\<close>

theorem settled_sell_reopens:
  assumes "truthy reference = Some ref"
    and "List.find (\<lambda>x. o_paymentReference x = Some ref) (d_orders (s_db s)) = Some r"
    and "transaction_by_id (o_transactionId r) (s_db s) = Some t"
    and "mget (t_meta t) ''payoutStatus'' = ''success''" "e_txFault env ''transfer_failed'' = None"
  shows "\<exists>s' x. handleTransferFailure env reference event s = (Inr (), s')
    \<and> d_wallets (s_db s') = d_wallets (s_db s) \<and> d_liquidity (s_db s') = d_liquidity (s_db s)
    \<and> transaction_by_id (o_transactionId r) (s_db s') = Some x \<and> t_status x = TxPENDING
    \<and> reservation_status x = ''reserved'' \<and> mget (t_meta x) ''payoutStatus'' \<noteq> ''success''"
proof -
  have i: "t_id t = o_transactionId r" using assms(3) find_Some_in by (fastforce simp: transaction_by_id_def)
  let ?f = "\<lambda>x. x\<lparr>t_status := TxPENDING, t_isProcessed := False, t_meta := mset_all
          [(''payoutStatus'', ''failed_retry_required''), (''payoutFailedAt'', toISOString (e_now env)),
           (''payoutFailureEvent'', event), (''liquidityReservationStatus'', ''reserved''),
           (''payoutFailureNote'', ''Paystack payout failed; crypto and payout liquidity remain reserved for retry/manual payout'')]
          (t_meta t)\<rparr>"
  let ?d = "(s_db s)\<lparr>d_orders := update_where (\<lambda>x. o_id x = o_id r) (\<lambda>x. x\<lparr>o_status := OrPROCESSING, o_paymentStatus := PayFAILED\<rparr>) (d_orders (s_db s))\<rparr>"
  have "handleTransferFailure env reference event s = (Inr (), s\<lparr>s_db := ?d\<lparr>d_transactions := update_where (\<lambda>x. t_id x = t_id t) ?f (d_transactions ?d)\<rparr>\<rparr>)"
    by (simp add: handleTransferFailure_def assms comp_defs txM_def transfer_failed_tx_def updOrders_def updTransactions_def)
  moreover have "transaction_by_id (o_transactionId r) (?d\<lparr>d_transactions := update_where (\<lambda>x. t_id x = t_id t) ?f (d_transactions ?d)\<rparr>) = Some (?f t)"
    unfolding i using assms(3) by (subst transaction_by_id_update) (simp_all add: transaction_by_id_def)
  ultimately show ?thesis
    by (simp add: reservation_status_def mget_def mset_all_def eval_simps)
qed

theorem settled_sell_reopens_witness:
  "\<exists>s' x. handleTransferFailure env_example (Some ''T1'') ''transfer.reversed''
      (sys_spelled\<lparr>s_db := (s_db sys_spelled)\<lparr>d_transactions := [sell_example\<lparr>t_status := TxCOMPLETED, t_meta := [(''payoutStatus'', ''success'')]\<rparr>]\<rparr>\<rparr>) = (Inr (), s')
    \<and> transaction_by_id ''t1'' (s_db s') = Some x \<and> t_status x = TxPENDING \<and> reservation_status x = ''reserved''"
proof -
  let ?s = "sys_spelled\<lparr>s_db := (s_db sys_spelled)\<lparr>d_transactions := [sell_example\<lparr>t_status := TxCOMPLETED, t_meta := [(''payoutStatus'', ''success'')]\<rparr>]\<rparr>\<rparr>"
  have h: "List.find (\<lambda>x. o_paymentReference x = Some ''T1'') (d_orders (s_db ?s)) = Some (order_example\<lparr>o_type := OSELL, o_paymentReference := Some ''T1''\<rparr>)"
    "transaction_by_id (o_transactionId (order_example\<lparr>o_type := OSELL, o_paymentReference := Some ''T1''\<rparr>)) (s_db ?s)
       = Some (sell_example\<lparr>t_status := TxCOMPLETED, t_meta := [(''payoutStatus'', ''success'')]\<rparr>)"
    "mget (t_meta (sell_example\<lparr>t_status := TxCOMPLETED, t_meta := [(''payoutStatus'', ''success'')]\<rparr>)) ''payoutStatus'' = ''success''"
    "e_txFault env_example ''transfer_failed'' = None" "truthy (Some ''T1'') = Some ''T1''"
    by (simp_all add: sys_spelled_def order_eval transaction_by_id_def mget_def truthy_def)
  have i: "o_transactionId (order_example\<lparr>o_type := OSELL, o_paymentReference := Some ''T1''\<rparr>) = ''t1''"
    by (simp add: order_example_def)
  from settled_sell_reopens [OF h(5) h(1-4), of "''transfer.reversed''"] show ?thesis unfolding i by blast
qed

end
