(* ===== verification/ChargeBooks.thy ===== *)
theory ChargeBooks
  imports Paystack OrderBooks "HOL-Library.Multiset"
begin

text \<open>
  Charges: the claim that lets one delivery of a successful charge place its order at the exchange.
\<close>

section \<open>Orders placed for a charge\<close>

definition order_claimed :: "meta \<Rightarrow> bool" where
  "order_claimed m \<longleftrightarrow> meta_true m ''quidaxOrderReference'' \<or> meta_true m ''quidaxOrderId'' \<or> meta_true m ''quidaxOrderProcessing''"

text \<open>Metadata under which no order is placed: one was claimed, or the reservation was released.\<close>

definition order_closed :: "meta \<Rightarrow> bool" where
  "order_closed m \<longleftrightarrow> order_claimed m \<or> mget m ''liquidityReservationStatus'' = ''released''"

definition claimed :: "string \<Rightarrow> db \<Rightarrow> bool" where
  "claimed i = tx_row i (\<lambda>x. order_claimed (t_meta x))"

definition closed :: "string \<Rightarrow> db \<Rightarrow> bool" where
  "closed i = tx_row i (\<lambda>x. order_closed (t_meta x))"

text \<open>
  Where a delivery of the event stands: it has read the row; it has been through the auto-stacking lock;
  it has won the claim; it has asked the exchange for the order; its processing is done and the mark of
  \<^verbatim>\<open>markPaystackWebhookProcessed\<close> is to be written; it has read the metadata for the mark.
\<close>

datatype chargePhase =
    ChRead transaction
  | ChStacked transaction
  | ChWon transaction meta
  | ChAsked transaction meta
  | ChMark
  | ChMarking meta

text \<open>
  Any number of deliveries of events on one charged buy, each at its phase, their transactions and
  statements interleaved in any order, with anything in between that keeps the row and its notes of a
  claim or a release. Three numbers are counted: the orders the exchange was asked for, those it
  refused, and the marks that were written over metadata changed since it was read. A delivery can end
  anywhere, by a fault or a crash, and be delivered again.
\<close>

inductive charge_run :: "string \<Rightarrow> txContext \<Rightarrow> db \<Rightarrow> chargePhase multiset \<Rightarrow> nat \<Rightarrow> nat \<Rightarrow> nat \<Rightarrow> db \<Rightarrow> bool"
    for i ctx d where
  start: "charge_run i ctx d {#} 0 0 0 d"
| read: "charge_run i ctx d P n k s d1 \<Longrightarrow> transaction_by_id i d1 = Some t \<Longrightarrow> t_context t = ctx \<Longrightarrow>
     charge_run i ctx d (add_mset (ChRead t) P) n k s d1"
| stack: "charge_run i ctx d (add_mset (ChRead t) P) n k s d1 \<Longrightarrow> ctx = CtxAUTOSTACK \<Longrightarrow>
     committed (handleAutoStackSuccess_tx env ops t c) d1 = (Some handled, d2) \<Longrightarrow>
     charge_run i ctx d (add_mset (if handled then ChMark else ChStacked t) P) n k s d2"
| claim: "charge_run i ctx d (add_mset (if ctx = CtxAUTOSTACK then ChStacked t else ChRead t) P) n k s d1 \<Longrightarrow>
     committed (charge_claim_tx t c) d1 = (Some x, d2) \<Longrightarrow>
     charge_run i ctx d (add_mset (case x of None \<Rightarrow> ChMark | Some m \<Rightarrow> ChWon t m) P) n k s d2"
| ask: "charge_run i ctx d (add_mset (ChWon t m) P) n k s d1 \<Longrightarrow>
     charge_run i ctx d (add_mset (ChAsked t m) P) (Suc n) k s d1"
| refused: "charge_run i ctx d (add_mset (ChAsked t m) P) n k s d1 \<Longrightarrow>
     committed (charge_refused t c m message) d1 = (y, d2) \<Longrightarrow> charge_run i ctx d P n (Suc k) s d2"
| placed: "charge_run i ctx d (add_mset (ChAsked t m) P) n k s d1 \<Longrightarrow> po_id p = Some j \<Longrightarrow> j \<notin> {[], ''false''} \<Longrightarrow>
     committed (charge_placed_tx env ops t c m p) d1 = (Some u, d2) \<Longrightarrow> charge_run i ctx d (add_mset ChMark P) n k s d2"
| failed: "charge_run i ctx d (add_mset (ChRead t) P) n k s d1 \<Longrightarrow>
     committed (handleFailure_tx env (t_id t) c) d1 = (Some u, d2) \<Longrightarrow> charge_run i ctx d (add_mset ChMark P) n k s d2"
| mark_read: "charge_run i ctx d (add_mset ChMark P) n k s d1 \<Longrightarrow>
     charge_run i ctx d (add_mset (ChMarking (current_meta i d1)) P) n k s d1"
| mark_write: "charge_run i ctx d (add_mset (ChMarking m) P) n k s d1 \<Longrightarrow>
     committed (set_meta i (processed_meta env event m)) d1 = (u, d2) \<Longrightarrow>
     charge_run i ctx d P n k (if current_meta i d1 = m then s else Suc s) d2"
| lost: "charge_run i ctx d (add_mset p P) n k s d1 \<Longrightarrow> charge_run i ctx d P n k s d1"
| other: "charge_run i ctx d P n k s d1 \<Longrightarrow> tx_row i (\<lambda>_. True) d2 \<Longrightarrow> (claimed i d1 \<longrightarrow> claimed i d2) \<Longrightarrow>
     (closed i d1 \<longrightarrow> closed i d2) \<Longrightarrow> charge_run i ctx d P n k s d2"

lemma transaction_by_id_updated:
  assumes "\<And>x. t_id (f x) = t_id x"
  shows "transaction_by_id i (d\<lparr>d_transactions := update_where (\<lambda>x. t_id x = j) f (d_transactions d)\<rparr>)
    = (if i = j then map_option f (transaction_by_id i d) else transaction_by_id i d)"
proof -
  have "List.find (\<lambda>x. t_id x = i) (update_where (\<lambda>x. t_id x = j) f ts)
      = (if i = j then map_option f (List.find (\<lambda>x. t_id x = i) ts) else List.find (\<lambda>x. t_id x = i) ts)" for ts
    by (induction ts) (auto simp: update_where_def assms)
  then show ?thesis by (simp add: transaction_by_id_def)
qed

lemma claimed_row:
  "claimed i d \<longleftrightarrow> (case transaction_by_id i d of None \<Rightarrow> False | Some x \<Rightarrow> order_claimed (t_meta x))"
  by (simp add: claimed_def tx_row_def)

lemma order_claimed_simps [simp]:
  "k \<notin> {''quidaxOrderReference'', ''quidaxOrderId'', ''quidaxOrderProcessing''} \<Longrightarrow>
     order_claimed ((k, v) # m) = order_claimed m"
  "v \<notin> {[], ''false''} \<Longrightarrow> order_claimed ((''quidaxOrderProcessing'', v) # m)"
  "v \<notin> {[], ''false''} \<Longrightarrow> order_claimed ((''quidaxOrderId'', v) # m)"
  by (auto simp: order_claimed_def meta_true_def mget_def)

lemma claimed_wins:
  assumes "charge_claim_tx t c d = (Inr (Some m), d')" "transaction_by_id (t_id t) d \<noteq> None"
  shows "\<not> claimed (t_id t) d \<and> claimed (t_id t) d'"
proof -
  have m: "\<not> order_claimed (current_meta (t_id t) d)" and d': "d' = d\<lparr>d_transactions := update_where (\<lambda>x. t_id x = t_id t)
      (\<lambda>x. x\<lparr>t_meta := mset_all [(''currency'', t_currency t), (''quidaxOrderProcessing'', ''true'')]
            (mset_all (charge_meta c) (current_meta (t_id t) d))\<rparr>) (d_transactions d)\<rparr>"
    using assms(1) by (auto simp: charge_claim_tx_def run_simps set_meta_def order_claimed_def split: if_splits)
  show ?thesis
    using assms(2) m by (auto simp: claimed_row d' transaction_by_id_updated mset_all_def current_meta_def split: option.splits)
qed

lemma tx_row_insertOrder: "preserves (tx_row i Q) (insertOrder r)"
  by (auto simp: tx_row_def transaction_by_id_def preserves_wp wp_simps)

lemma tx_row_set_meta: "preserves (tx_row i (\<lambda>_. True)) (set_meta j m)"
  unfolding set_meta_def by (rule tx_row_update) simp_all

lemma row_kept:
  "preserves (tx_row i (\<lambda>_. True)) (charge_claim_tx t c)" "preserves (tx_row i (\<lambda>_. True)) (charge_refused t c m message)"
  "preserves (tx_row i (\<lambda>_. True)) (charge_placed_tx env ops t c m p)"
  "preserves (tx_row i (\<lambda>_. True)) (handleAutoStackSuccess_tx env ops t c)" "preserves (tx_row i (\<lambda>_. True)) (handleFailure_tx env j c)"
  unfolding charge_claim_tx_def charge_refused_def charge_placed_tx_def handleAutoStackSuccess_tx_def handleFailure_tx_def Let_def
  by (intro preserves_intros tx_row_frames tx_row_set_meta tx_row_insertOrder tx_row_update; simp)+

lemma claimed_kept:
  "claimed (t_id t) d \<Longrightarrow> charge_claim_tx t c d = (Inr r1, d') \<Longrightarrow> claimed (t_id t) d'"
  "claimed (t_id t) d \<Longrightarrow> handleAutoStackSuccess_tx env ops t c d = (Inr r2, d') \<Longrightarrow> claimed (t_id t) d'"
  by (auto simp: claimed_row charge_claim_tx_def handleAutoStackSuccess_tx_def run_simps current_meta_def order_claimed_def
      split: option.splits if_splits)

lemma failure_notes:
  assumes "handleFailure_tx env i c d = (Inr u, d')"
  shows "(claimed i d \<longrightarrow> claimed i d') \<and> closed i d'"
proof -
  let ?rest = "\<lambda>t. if mget (t_meta t) ''liquidityReservationStatus'' = ''released'' then []
     else [(''liquidityReleasedAt'', toISOString (e_now env)), (''liquidityReleaseReason'', ''payment_failed'')]"
  obtain t reserved d1 u1 where t: "transaction_by_id i d = Some t"
    and w: "whenM (mget (t_meta t) ''liquidityReservationStatus'' \<noteq> ''released'' \<and> reserved > 0
      \<and> mget (t_meta t) ''liquidityReservationStatus'' = ''reserved'') (releaseLiquidity BASE_CURRENCY reserved) d = (Inr u1, d1)"
    and x: "updTransactions (\<lambda>x. t_id x = i) (\<lambda>x. x\<lparr>t_status := TxFAILED, t_isProcessed := True,
        t_meta := mset_all ([(''provider'', ''Paystack''), (''reference'', ch_reference c), (''gateway_response'', ch_gateway_response c),
          (''verifiedAmount'', show_int (ch_amount c)), (''processedAt'', toISOString (e_now env)),
          (''liquidityReservationStatus'', ''released'')] @ ?rest t) (t_meta t)\<rparr>) d1 = (Inr u, d')"
    using assms unfolding handleFailure_tx_def Let_def run_bind run_then run_get run_some run_lift by blast
  have "d_transactions d1 = d_transactions d"
    using w by (auto simp: run_when releaseLiquidity_eq split: if_splits sum.splits)
  then have "transaction_by_id i d1 = Some t" using t by (simp add: transaction_by_id_def)
  then show ?thesis
    using t x by (auto simp: claimed_row closed_def order_closed_def tx_row_def run_upd transaction_by_id_updated mset_all_def
        mget_def split: if_splits)
qed

lemma claimed_placed:
  assumes "tx_row (t_id t) (\<lambda>_. True) d" "po_id p = Some j" "j \<notin> {[], ''false''}" "charge_placed_tx env ops t c m p d = (Inr u, d')"
  shows "claimed (t_id t) d'"
proof -
  let ?e = "\<lambda>k v. case v of None \<Rightarrow> [] | Some x \<Rightarrow> [(k, x)]"
  let ?r = "or_else (po_reference p) (po_id p)"
  obtain u1 d1 where o1: "(case order_by_transaction (t_id t) d of
             Some x \<Rightarrow> updOrders (\<lambda>y. o_transactionId y = t_id t) (\<lambda>y. (case ?r of None \<Rightarrow> y
                 | Some n \<Rightarrow> y\<lparr>o_referenceNo := Some n\<rparr>)\<lparr>o_status := OrPENDING, o_type := OBUY, o_paymentStatus := PayPAID,
                 o_paymentReference := Some (ch_reference c), o_paymentChannel := Some (ch_channel c),
                 o_paymentDate := Some (e_now env)\<rparr>)
           | None \<Rightarrow> bindM (freshM env) (\<lambda>i. insertOrder (charged_order ops env i t c ?r))) d = (Inr u1, d1)"
    and x: "set_meta (t_id t) (mset_all ([(''currency'', t_currency t)] @ ?e ''quidaxOrderReference'' ?r
              @ ?e ''quidaxOrderId'' (po_id p) @ [(''quidaxOrderProcessing'', ''false''),
                (''autostackPaystackWebhookProcessing'', ''false''), (''autostackBuyOrderSubmittedAt'', toISOString (e_now env))])
              (mset_all (charge_meta c) m)) d1 = (Inr u, d')"
    using assms(4) unfolding charge_placed_tx_def Let_def run_bind run_then run_get by blast
  have "d_transactions d1 = d_transactions d"
    using o1 by (auto simp: run_simps split: option.splits)
  then have "transaction_by_id (t_id t) d1 = transaction_by_id (t_id t) d" by (simp add: transaction_by_id_def)
  moreover have "order_claimed ((''quidaxOrderReference'', n) # (''quidaxOrderId'', j) # rest)" for n rest
    using assms(3) by (simp add: order_claimed_def meta_true_def mget_def)
  ultimately show ?thesis
    using assms(1-3) x
    by (auto simp: tx_row_def claimed_row set_meta_def run_upd transaction_by_id_updated mset_all_def split: option.splits)
qed

lemma committed_cases:
  assumes "committed m d = (x, d')"
  obtains (ran) y where "x = Some y" "m d = (Inr y, d')" | (undone) "x = None" "d' = d"
  using assms by (auto simp: committed_def split: prod.splits sum.splits)

lemma committed_run_Some: "committed m d = (Some y, d') \<Longrightarrow> m d = (Inr y, d')"
  by (auto simp: committed_def split: prod.splits sum.splits)

lemma claim_lost: "charge_claim_tx t c d = (Inr None, d') \<Longrightarrow> tx_row (t_id t) (\<lambda>_. True) d \<Longrightarrow> closed (t_id t) d'"
  by (auto simp: charge_claim_tx_def run_simps closed_def tx_row_def order_closed_def order_claimed_def current_meta_def
      split: if_splits option.splits)

lemma claim_won: "charge_claim_tx t c d = (Inr (Some m), d') \<Longrightarrow> tx_row (t_id t) (\<lambda>_. True) d \<Longrightarrow> \<not> closed (t_id t) d"
  by (auto simp: charge_claim_tx_def run_simps closed_def tx_row_def order_closed_def order_claimed_def current_meta_def
      split: if_splits option.splits)

lemma claimed_closed: "claimed i d \<Longrightarrow> closed i d"
  by (auto simp: claimed_def closed_def tx_row_def order_closed_def split: option.splits)

lemma mark_written:
  assumes "committed (set_meta i (processed_meta env event m)) d = (u, d')" "tx_row i (\<lambda>_. True) d"
  shows "tx_row i (\<lambda>_. True) d'" "order_claimed m \<Longrightarrow> claimed i d'" "order_closed m \<Longrightarrow> closed i d'"
proof -
  have "d' = d\<lparr>d_transactions := update_where (\<lambda>x. t_id x = i) (\<lambda>x. x\<lparr>t_meta := processed_meta env event m\<rparr>) (d_transactions d)\<rparr>"
    using assms(1) by (simp add: committed_def set_meta_def updTransactions_def modifyM_def)
  with assms(2) show "tx_row i (\<lambda>_. True) d'" "order_claimed m \<Longrightarrow> claimed i d'" "order_closed m \<Longrightarrow> closed i d'"
    by (auto simp: processed_meta_def claimed_def closed_def tx_row_def mset_all_def order_closed_def mget_def split: option.splits)
qed

lemma current_row:
  "claimed i d \<Longrightarrow> order_claimed (current_meta i d)" "closed i d \<Longrightarrow> order_closed (current_meta i d)"
  by (auto simp: claimed_def closed_def tx_row_def current_meta_def split: option.splits)

definition phase_tx :: "chargePhase \<Rightarrow> transaction option" where
  "phase_tx p = (case p of ChRead t \<Rightarrow> Some t | ChStacked t \<Rightarrow> Some t | ChWon t _ \<Rightarrow> Some t | ChAsked t _ \<Rightarrow> Some t | _ \<Rightarrow> None)"

definition wins :: "chargePhase multiset \<Rightarrow> nat" where
  "wins P = size (filter_mset (\<lambda>p. case p of ChWon _ _ \<Rightarrow> True | _ \<Rightarrow> False) P)"

lemma wins_simps [simp]: "wins {#} = 0"
  "wins (add_mset p P) = wins P + (case p of ChWon _ _ \<Rightarrow> 1 | _ \<Rightarrow> 0)"
  by (auto simp: wins_def split: chargePhase.split)

text \<open>What holds of a run. The last part is of a run without refusals on a buy of a user.\<close>

definition charge_inv :: "string \<Rightarrow> chargePhase multiset \<Rightarrow> nat \<Rightarrow> nat \<Rightarrow> nat \<Rightarrow> db \<Rightarrow> bool" where
  "charge_inv i P n k s e \<longleftrightarrow> tx_row i (\<lambda>_. True) e \<and> (\<forall>p\<in>#P. \<forall>t. phase_tx p = Some t \<longrightarrow> t_id t = i)
     \<and> n + wins P \<le> k + s + (if claimed i e then 1 else 0)"

definition plain_inv :: "string \<Rightarrow> chargePhase multiset \<Rightarrow> nat \<Rightarrow> db \<Rightarrow> bool" where
  "plain_inv i P n e \<longleftrightarrow> n + wins P \<le> (if closed i e then 1 else 0) \<and> (ChMark \<in># P \<longrightarrow> closed i e)
     \<and> (\<forall>m. ChMarking m \<in># P \<longrightarrow> order_closed m)"

lemma charge_run_inv:
  assumes "charge_run i ctx d P n k s e" "tx_row i (\<lambda>_. True) d"
  shows "charge_inv i P n k s e"
  using assms
proof (induction rule: charge_run.induct)
  case start
  then show ?case by (simp add: charge_inv_def)
next
  case (read P n k s d1 t)
  then show ?case by (auto simp: charge_inv_def phase_tx_def transaction_by_id_def dest: find_Some_in)
next
  case (stack t P n k s d1 env ops c handled d2)
  then have t: "t_id t = i" by (simp add: charge_inv_def phase_tx_def)
  from stack claimed_kept(2) [of t d1 env ops c, OF _ committed_run_Some [OF stack(3)]]
    committed_preserves [OF row_kept(4) _ stack(3), of i]
  show ?case by (auto simp: charge_inv_def phase_tx_def t split: if_splits)
next
  case (claim t P n k s d1 c x d2)
  then have t: "t_id t = i" by (auto simp: charge_inv_def phase_tx_def split: if_splits)
  note run = committed_run_Some [OF claim(2)]
  have d2: "tx_row i (\<lambda>_. True) d2" using claim committed_preserves [OF row_kept(1) _ claim(2), of i] by (auto simp: charge_inv_def)
  show ?case
  proof (cases x)
    case None
    with claim d2 t claimed_kept(1) [OF _ run] show ?thesis by (auto simp: charge_inv_def phase_tx_def split: if_splits)
  next
    case (Some m)
    with claim d2 t claimed_wins [of t c d1 m d2] run show ?thesis
      by (auto simp: charge_inv_def phase_tx_def tx_row_def split: if_splits option.splits)
  qed
next
  case (refused t m P n k s d1 c message y d2)
  with committed_preserves [OF row_kept(2) _ refused(2), of i] show ?case by (auto simp: charge_inv_def split: if_splits)
next
  case (placed t m P n k s d1 p j env ops c u d2)
  then have t: "t_id t = i" by (simp add: charge_inv_def phase_tx_def)
  from placed claimed_placed [OF _ placed(2,3) committed_run_Some [OF placed(4)]]
    committed_preserves [OF row_kept(3) _ placed(4), of i]
  show ?case by (auto simp: charge_inv_def phase_tx_def t split: if_splits)
next
  case (failed t P n k s d1 env c u d2)
  then have t: "t_id t = i" by (simp add: charge_inv_def phase_tx_def)
  from failed failure_notes [OF committed_run_Some [OF failed(2)]]
    committed_preserves [OF row_kept(5) _ failed(2), of i]
  show ?case by (auto simp: charge_inv_def phase_tx_def t split: if_splits)
next
  case (mark_write m P n k s d1 env event u d2)
  then have "tx_row i (\<lambda>_. True) d1" by (simp add: charge_inv_def)
  with mark_write mark_written [OF mark_write(2)] current_row(1) [of i d1] show ?case
    by (auto simp: charge_inv_def split: if_splits)
qed (auto simp: charge_inv_def phase_tx_def split: if_splits)

lemma charge_run_plain:
  assumes "charge_run i ctx d P n k s e" "tx_row i (\<lambda>_. True) d" "ctx \<noteq> CtxAUTOSTACK" "k = 0"
  shows "plain_inv i P n e"
  using assms
proof (induction rule: charge_run.induct)
  case (claim t P n k s d1 c x d2)
  note inv = charge_run_inv [OF claim(1,4)]
  have t: "t_id t = i" "tx_row i (\<lambda>_. True) d1" using inv claim(5) by (auto simp: charge_inv_def phase_tx_def)
  note run = committed_run_Some [OF claim(2)]
  show ?case
  proof (cases x)
    case None
    with claim t claim_lost [of t c d1 d2] run show ?thesis by (auto simp: plain_inv_def split: if_splits)
  next
    case (Some m)
    then have "\<not> closed i d1" "closed i d2"
      using claim_won [of t c d1 m d2] claimed_wins [of t c d1 m d2] claimed_closed run t
      by (auto simp: tx_row_def split: option.splits)
    with Some claim show ?thesis by (auto simp: plain_inv_def split: if_splits)
  qed
next
  case (placed t m P n k s d1 p j env ops c u d2)
  note inv = charge_run_inv [OF placed(1) placed(6)]
  then have "closed i d2" using claimed_closed [OF claimed_placed [OF _ placed(2,3) committed_run_Some [OF placed(4)]]]
    by (auto simp: charge_inv_def phase_tx_def)
  with placed show ?case by (auto simp: plain_inv_def split: if_splits)
next
  case (failed t P n k s d1 env c u d2)
  note inv = charge_run_inv [OF failed(1) failed(4)]
  then have "closed i d2" using failure_notes [OF committed_run_Some [OF failed(2)]]
    by (auto simp: charge_inv_def phase_tx_def)
  with failed show ?case by (auto simp: plain_inv_def split: if_splits)
next
  case (mark_read P n k s d1)
  with current_row(2) [of i d1] show ?case by (auto simp: plain_inv_def split: if_splits)
next
  case (mark_write m P n k s d1 env event u d2)
  note inv = charge_run_inv [OF mark_write(1) mark_write(4)]
  with mark_write mark_written(3) [OF mark_write(2)] have "closed i d2" by (auto simp: plain_inv_def charge_inv_def)
  with mark_write show ?case by (auto simp: plain_inv_def split: if_splits)
qed (auto simp: plain_inv_def split: if_splits)

text \<open>C9: however often the events of a charge are delivered, interleaved or one after the other, and wherever a
  delivery fails, the exchange is asked for at most one order more than it refused orders and than marks were
  written over metadata that had changed since it was read; for a buy of a user, at most once altogether if it
  refused none. The exchange is taken to name the order it places.\<close>

theorem charge_orders_once:
  assumes "charge_run i ctx d P n k s d'" "transaction_by_id i d \<noteq> None"
  shows "n \<le> Suc (k + s) \<and> (ctx \<noteq> CtxAUTOSTACK \<and> k = 0 \<longrightarrow> n \<le> 1)"
proof -
  have d: "tx_row i (\<lambda>_. True) d" using assms(2) by (auto simp: tx_row_def)
  from charge_run_inv [OF assms(1) d] have "n \<le> Suc (k + s)" by (auto simp: charge_inv_def split: if_splits)
  moreover from charge_run_plain [OF assms(1) d] have "ctx \<noteq> CtxAUTOSTACK \<Longrightarrow> k = 0 \<Longrightarrow> n \<le> 1"
    by (auto simp: plain_inv_def split: if_splits)
  ultimately show ?thesis by blast
qed

definition charge_example :: chargeData where
  "charge_example = \<lparr>ch_status = ''success'', ch_reference = ''n1'', ch_amount = 300, ch_gateway_response = ''ok'', ch_channel = ''card''\<rparr>"

theorem charge_orders_once_witness:
  "\<exists>P d'. charge_run ''t1'' (t_context buy_example) (db_order buy_example) P 1 0 0 d' \<and> (1::nat) \<le> Suc 0"
proof -
  let ?m = "charge_claim_tx buy_example charge_example"
  have "fst (?m (db_order buy_example)) = Inr (Some [])"
    by (simp add: charge_claim_tx_def current_meta_def meta_true_def mget_def set_meta_def updTransactions_def order_eval
        transaction_by_id_def comp_defs)
  then have c: "committed ?m (db_order buy_example) = (Some (Some []), snd (?m (db_order buy_example)))"
    by (rule committed_run [OF fst_run])
  have i: "t_context buy_example \<noteq> CtxAUTOSTACK" "transaction_by_id ''t1'' (db_order buy_example) = Some buy_example"
    by (simp_all add: order_eval transaction_by_id_def)
  note r = charge_run.read [OF charge_run.start i(2) refl]
  have "charge_run ''t1'' (t_context buy_example) (db_order buy_example) {#ChWon buy_example []#} 0 0 0 (snd (?m (db_order buy_example)))"
    using charge_run.claim [OF _ c, of "''t1''" "t_context buy_example" "db_order buy_example" "{#}"] r i(1) by simp
  note a = charge_run.ask [OF this]
  with charge_orders_once [OF a] i(2) show ?thesis by auto
qed

section \<open>The handler is such a run\<close>

definition orders_asked :: "sys \<Rightarrow> nat" where
  "orders_asked e = length (filter (\<lambda>c. case c of CallOrder _ _ _ \<Rightarrow> True | _ \<Rightarrow> False) (s_calls e))"

text \<open>A run has come to this state, with as many orders counted as calls were made since \<open>e0\<close>.\<close>

definition comes_to :: "string \<Rightarrow> txContext \<Rightarrow> db \<Rightarrow> nat \<Rightarrow> nat \<Rightarrow> sys \<Rightarrow> chargePhase multiset \<Rightarrow> sys \<Rightarrow> bool" where
  "comes_to i ctx d n s e0 P e \<longleftrightarrow>
     (\<exists>n' k'. charge_run i ctx d P n' k' s (s_db e) \<and> n' + orders_asked e0 = n + orders_asked e)"

lemma comes_to_lost: "comes_to i ctx d n s e0 (add_mset p P) e \<Longrightarrow> comes_to i ctx d n s e0 P e"
  by (auto simp: comes_to_def intro: charge_run.lost)

lemma comes_to_db: "(\<And>n k. charge_run i ctx d P n k s (s_db e) \<Longrightarrow> charge_run i ctx d P' n k s d2)
    \<Longrightarrow> comes_to i ctx d n s e0 P e \<Longrightarrow> comes_to i ctx d n s e0 P' (e\<lparr>s_db := d2\<rparr>)"
  by (force simp: comes_to_def orders_asked_def)

lemma tx_step:
  "(\<And>x d2. committed m (s_db e) = (Some x, d2) \<Longrightarrow> Q x (e\<lparr>s_db := d2\<rparr>)) \<Longrightarrow> (\<And>err. E err e) \<Longrightarrow> wp (txM env l m) Q E e"
  by (auto simp: wp_def txM_def committed_def split: option.split sum.split prod.split)

definition names_orders :: "paystackAnswers \<Rightarrow> bool" where
  "names_orders ans \<longleftrightarrow> (\<forall>p. an_order ans = Inr p \<longrightarrow> po_status p = ''success''
     \<longrightarrow> (\<exists>j. po_id p = Some j \<and> j \<notin> {[], ''false''}))"

lemma handleSuccess_run:
  assumes "comes_to i ctx d n s e0 (add_mset (ChRead t) P) e" "t_context t = ctx" "names_orders ans"
  shows "wp (handleSuccess env ops ans t c) (\<lambda>_. comes_to i ctx d n s e0 (add_mset ChMark P)) (\<lambda>_. comes_to i ctx d n s e0 P) e"
proof -
  let ?R = "comes_to i ctx d n s e0"
  let ?order = "\<lambda>volume m. thenM (callM (CallOrder (to_lower (t_currency t) @ BASE_CURRENCY) ''buy'' (py_print ops volume)))
             (bindM (liftM (an_order ans)) (\<lambda>p.
              if po_status p \<noteq> ''success''
              then thenM (dbM (charge_refused t c m (po_message p)))
                (throwM (PlainError ''Buy order placement failed. Queued retry will re-attempt.''))
              else txM env ''charge_placed'' (charge_placed_tx env ops t c m p)))"
  have order: "wp (?order volume m) (\<lambda>_. ?R (add_mset ChMark P)) (\<lambda>_. ?R P) e1"
    if won: "?R (add_mset (ChWon t m) P) e1" for volume m e1
  proof -
    let ?e = "e1\<lparr>s_calls := s_calls e1 @ [CallOrder (to_lower (t_currency t) @ BASE_CURRENCY) ''buy'' (py_print ops volume)]\<rparr>"
    have asked: "?R (add_mset (ChAsked t m) P) ?e"
      using won by (force simp: comes_to_def orders_asked_def dest: charge_run.ask)
    have refused: "wp (dbM (charge_refused t c m msg)) (\<lambda>_. ?R P) (\<lambda>_. ?R P) ?e" for msg
    proof -
      obtain d2 where d2: "charge_refused t c m msg (s_db ?e) = (Inr (), d2)"
        by (simp add: charge_refused_def set_meta_def updTransactions_def modifyM_def)
      then have "committed (charge_refused t c m msg) (s_db ?e) = (Some (), d2)" by (simp add: committed_def)
      with asked have "?R P (?e\<lparr>s_db := d2\<rparr>)" by (auto simp: comes_to_def orders_asked_def intro: charge_run.refused)
      with d2 show ?thesis by (simp add: dbM_def wp_def)
    qed
    have placed: "wp (txM env ''charge_placed'' (charge_placed_tx env ops t c m p)) (\<lambda>_. ?R (add_mset ChMark P)) (\<lambda>_. ?R P) ?e"
      if "po_id p = Some j" "j \<notin> {[], ''false''}" for p j
      by (rule tx_step, rule comes_to_db [OF _ asked], erule charge_run.placed [OF _ that], assumption, rule comes_to_lost [OF asked])
    show ?thesis
      unfolding wp_then [of "callM _"] wp_call wp_bind wp_lift wp_if wp_then wp_throw
      using assms(3) comes_to_lost [OF asked]
      by (auto simp: names_orders_def simp del: append.simps split: sum.split intro!: refused intro: placed)
  qed
  have rest: "wp (bindM (liftM (charge_volume env t)) (\<lambda>volume. bindM (txM env ''charge_claim'' (charge_claim_tx t c)) (\<lambda>claim.
      case claim of None \<Rightarrow> returnM () | Some m \<Rightarrow> ?order volume m))) (\<lambda>_. ?R (add_mset ChMark P)) (\<lambda>_. ?R P) e1"
    if at: "?R (add_mset (if ctx = CtxAUTOSTACK then ChStacked t else ChRead t) P) e1" for e1
  proof -
    have claim: "wp (txM env ''charge_claim'' (charge_claim_tx t c))
        (\<lambda>x. ?R (add_mset (case x of None \<Rightarrow> ChMark | Some m \<Rightarrow> ChWon t m) P)) (\<lambda>_. ?R P) e1"
      by (rule tx_step, rule comes_to_db [OF _ at], erule charge_run.claim, assumption, rule comes_to_lost [OF at])
    have after: "wp (case x of None \<Rightarrow> returnM () | Some m \<Rightarrow> ?order volume m) (\<lambda>_. ?R (add_mset ChMark P)) (\<lambda>_. ?R P) e2"
      if "?R (add_mset (case x of None \<Rightarrow> ChMark | Some m \<Rightarrow> ChWon t m) P) e2" for x volume e2
      using that order by (cases x) (simp_all add: wp_return)
    show ?thesis unfolding wp_bind [of "liftM _"] wp_lift wp_bind [of "txM _ _ _"]
      by (auto split: sum.split intro: comes_to_lost [OF at] intro!: wp_mono [OF claim] after)
  qed
  show ?thesis
  proof (cases "ctx = CtxAUTOSTACK")
    case False
    then show ?thesis using assms(1,2) rest [of e] by (simp add: handleSuccess_def wp_bind wp_return)
  next
    case True
    have stack: "wp (txM env ''charge_stack'' (handleAutoStackSuccess_tx env ops t c))
        (\<lambda>handled. ?R (add_mset (if handled then ChMark else ChStacked t) P)) (\<lambda>_. ?R P) e"
      by (rule tx_step, rule comes_to_db [OF _ assms(1)], erule charge_run.stack [OF _ True], assumption,
          rule comes_to_lost [OF assms(1)])
    show ?thesis unfolding handleSuccess_def wp_bind [of "if _ then _ else _"] using True assms(2)
      by (auto intro!: wp_mono [OF stack] rest [unfolded True if_P [OF refl]] simp: wp_return)
  qed
qed

theorem charge_process_run:
  assumes "charge_run i ctx d P n k s (s_db e)" "names_orders ans"
    and "transaction_by_uniqueId ref (s_db e) = Some t" "t_context t = ctx" "transaction_by_id i (s_db e) = Some t"
    and "charge_process env ops ans (Some ref) e = (r, e')"
  shows "\<exists>n' k'. charge_run i ctx d P n' k' s (s_db e') \<and> n' + orders_asked e = n + orders_asked e'"
proof -
  let ?R = "comes_to i ctx d n s e"
  have id: "t_id t = i" using assms(5) by (auto simp: transaction_by_id_def dest: find_Some_in)
  have read: "?R (add_mset (ChRead t) P) e" and there: "?R P e"
    using assms(1) charge_run.read [OF assms(1,5,4)] by (auto simp: comes_to_def)
  have mark: "wp (thenM (markPaystackWebhookProcessed env (t_id t) ev) (callM (CallNotify (t_id t)))) (\<lambda>_. ?R P) (\<lambda>_. ?R P) e1"
    if "?R (add_mset ChMark P) e1" for e1 ev
  proof -
    let ?m = "current_meta i (s_db e1)"
    obtain d2 where d2: "set_meta i (processed_meta env ev ?m) (s_db e1) = (Inr (), d2)"
      by (simp add: set_meta_def updTransactions_def modifyM_def)
    then have "committed (set_meta i (processed_meta env ev ?m)) (s_db e1) = (Some (), d2)" by (simp add: committed_def)
    note marked = charge_run.mark_write [OF charge_run.mark_read this, of ctx d P, simplified]
    have "?R P (e1\<lparr>s_db := d2\<rparr>)" by (rule comes_to_db [OF marked that])
    moreover from this have "?R P (e1\<lparr>s_db := d2, s_calls := s_calls e1 @ [CallNotify i]\<rparr>)"
      by (simp add: comes_to_def orders_asked_def)
    ultimately show ?thesis
      by (simp add: markPaystackWebhookProcessed_def id thenM_def bindM_def getM_def dbM_def d2 callM_def modifyM_def wp_def)
  qed
  have fail: "wp (txM env ''charge_failure'' (handleFailure_tx env (t_id t) c)) (\<lambda>_. ?R (add_mset ChMark P)) (\<lambda>_. ?R P) e" for c
    by (rule tx_step, rule comes_to_db [OF _ read], erule charge_run.failed, assumption, rule there)
  have "wp (charge_process env ops ans (Some ref)) (\<lambda>_. ?R P) (\<lambda>_. ?R P) e"
    unfolding charge_process_def wp_bind [of "someM _ _"] wp_some wp_bind [of "getM _"] wp_get assms(3) wp_bind [of "liftM _"] wp_lift
      wp_if [of "t_status t = TxSUCCESS \<or> _"] wp_then [of "if _ then _ else _"]
    by (auto simp: wp_return assms(3) truthy_def wp_bind [of "liftM (an_verify _)"] wp_lift wp_bind [of "someM _ _"] wp_some
        wp_then [of "handleSuccess _ _ _ _ _"] wp_then [of "txM _ _ _"] simp del: append.simps split: option.split sum.split if_splits intro: there intro!: wp_mono [OF fail] mark
        wp_mono [OF handleSuccess_run [OF read assms(4,2)]])
  with assms(6) show ?thesis by (auto simp: wp_def comes_to_def split: sum.splits)
qed

end
