(* ===== verification/StackRuns.thy ===== *)
theory StackRuns
  imports ChargeBooks
begin

text \<open>
  Attempts to execute one auto-stack transaction: the processing lock lets at most one of them through,
  as long as nobody else writes over its note in the metadata and it is not given up after a quarter of
  an hour; and the webhook of the card's charge, which does write over it.
\<close>

section \<open>Attempts at one execution\<close>

text \<open>The row of the transaction says that its execution is under way or over.\<close>

definition busy_meta :: "meta \<Rightarrow> bool" where
  "busy_meta m \<longleftrightarrow> submitted m \<or> to_upper (mget m ''autostackInitiationStatus'') = ''PROCESSING''"

definition busy :: "string \<Rightarrow> sys \<Rightarrow> bool" where
  "busy i s \<longleftrightarrow> tx_row i (\<lambda>x. busy_meta (t_meta x)) (s_db s)"

definition row_there :: "string \<Rightarrow> sys \<Rightarrow> bool" where
  "row_there i s \<longleftrightarrow> tx_row i (\<lambda>_. True) (s_db s)"

text \<open>An attempt is the transaction that takes the lock and, if it is taken, the execution.\<close>

definition stack_claim :: "env \<Rightarrow> transaction \<Rightarrow> meta option sysm" where
  "stack_claim env t = txM env ''autostack_claim'' (autostack_claim env (t_id t) (t_meta t))"

definition stack_execution ::
    "env \<Rightarrow> stackOps \<Rightarrow> stackAnswers \<Rightarrow> autoStack \<Rightarrow> transaction \<Rightarrow> meta \<Rightarrow> unit sysm" where
  "stack_execution env ops sa a t m =
     bindM (liftM (stack_params env a t m)) (\<lambda>p.
       catchM (autostack_execute env ops sa a t m p)
         (\<lambda>err. thenM (txM env ''autostack_fail'' (autostack_fail_tx env (a_userId a) (t_id t) p err)) (throwM err)))"

lemma attempt_split:
  "initiatePendingAutoStack env ops sa a t =
     bindM (stack_claim env t) (\<lambda>claim. case claim of None \<Rightarrow> returnM () | Some m \<Rightarrow> stack_execution env ops sa a t m)"
  unfolding initiatePendingAutoStack_def stack_claim_def stack_execution_def ..

text \<open>
  Any number of attempts at one transaction, each with the row it read and the metadata it claimed,
  interleaved with one another and with anything else that keeps the row. Counted are the executions
  that returned without an error, the changes by others that took the note of an execution out of the
  row, and the locks taken over from an attempt that still held one.
\<close>

inductive stack_run ::
    "string \<Rightarrow> sys \<Rightarrow> (transaction \<times> meta) multiset \<Rightarrow> nat \<Rightarrow> nat \<Rightarrow> nat \<Rightarrow> sys \<Rightarrow> bool" for i s0 where
  start: "stack_run i s0 {#} 0 0 0 s0"
| claim: "stack_run i s0 P n e x s \<Longrightarrow> t_id t = i \<Longrightarrow> stack_claim env t s = (Inr (Some m), s') \<Longrightarrow>
     stack_run i s0 (add_mset (t, m) P) n e (if busy i s then Suc x else x) s'"
| finish: "stack_run i s0 (add_mset (t, m) P) n e x s \<Longrightarrow> t_id t = i \<Longrightarrow>
     stack_execution env ops sa a t m s = (r, s') \<Longrightarrow>
     stack_run i s0 P (case r of Inl err \<Rightarrow> n | Inr u \<Rightarrow> Suc n) e x s'"
| lost: "stack_run i s0 (add_mset p P) n e x s \<Longrightarrow> stack_run i s0 P n e x s"
| other: "stack_run i s0 P n e x s \<Longrightarrow> row_there i s' \<Longrightarrow>
     stack_run i s0 P n (if busy i s \<and> \<not> busy i s' then Suc e else e) x s'"

lemma tx_row_there: "tx_row i (\<lambda>_. True) d \<longleftrightarrow> tx_there i d"
  by (simp add: tx_row_def tx_there_def split: option.split)

lemma done_busy: "tx_done i (s_db s) \<Longrightarrow> busy i s"
  by (auto simp: tx_done_def busy_def tx_row_def busy_meta_def split: option.splits)

lemma tx_row_more:
  "preserves (tx_row i Q) (reserveBalance u c a n)" "preserves (tx_row i Q) (reserveLiquidity c a)"
  "preserves (tx_row i Q) (shown_db env a c)" "preserves (tx_row i Q) (createSwap r)"
  unfolding reserveBalance_def reserveLiquidity_def shown_db_def createSwap_def createLiquidity_def
  by (auto simp: tx_row_def transaction_by_id_def intro!: preserves_intros tx_row_frame preserves_modify)

lemma tx_row_quietly: "preserves (tx_row i Q) m \<Longrightarrow> preserves (tx_row i Q) (quietly m)"
  unfolding quietly_def by (intro preserves_intros)

lemma on_db_row: "row_there i = on_db (tx_row i (\<lambda>_. True))"
  by (simp add: fun_eq_iff row_there_def on_db_def)

lemma row_there_rest:
  "preserves (row_there i) (stack_execution env ops sa a t m)"
  unfolding on_db_row stack_execution_def autostack_execute_def autostack_swap_def autostack_card_def autostack_fail_tx_def
    autostack_wallet_tx_def autostack_reserve_tx_def autostack_swap_tx_def autostack_card_tx_def Let_def
  by (intro preserves_intros tx_row_frames tx_row_more tx_row_quietly tx_row_update; simp)

lemma claim_taken:
  assumes "stack_claim env t s = (Inr (Some m), s')" "row_there (t_id t) s"
  shows "row_there (t_id t) s' \<and> busy (t_id t) s'"
proof -
  have "wp (autostack_claim env (t_id t) (t_meta t))
    (\<lambda>c d. c \<noteq> None \<longrightarrow> tx_row (t_id t) (\<lambda>x. busy_meta (t_meta x)) d) (\<lambda>_ _. True) (s_db s)"
    using assms(2) unfolding autostack_claim_def
    by (auto simp: wp_simps Let_def row_there_def tx_row_def claimed_meta_def busy_meta_def eval_simps split: option.splits)
  then have "wp (stack_claim env t) (\<lambda>c e. c \<noteq> None \<longrightarrow> busy (t_id t) e) (\<lambda>_ _. True) s"
    by (simp add: stack_claim_def wp_tx busy_def split: option.split)
  with assms(1) have "busy (t_id t) s'" by (simp add: wp_def)
  then show ?thesis by (auto simp: busy_def row_there_def tx_row_def split: option.splits)
qed

lemma execution_done:
  assumes "stack_execution env ops sa a t m s = (Inr u, s')" "row_there (t_id t) s"
  shows "busy (t_id t) s'"
proof -
  have there: "tx_there (t_id t) (s_db s)" using assms(2) by (simp add: row_there_def tx_row_there)
  have any: "wp k (\<lambda>_ _. True) (\<lambda>_ _. True) d" for k :: "unit dbm" and d by (simp add: wp_alt split: sum.split)
  have "wp (stack_execution env ops sa a t m) (\<lambda>_ e. tx_done (t_id t) (s_db e)) (\<lambda>_ _. True) s"
    unfolding stack_execution_def by (auto simp: wp_bind wp_lift wp_catch wp_then wp_throw wp_tx any split: sum.split option.split
        intro!: wp_mono [OF execute_done [OF there]])
  with assms(1) show ?thesis by (auto simp: wp_def intro: done_busy)
qed

lemma stack_run_counts:
  assumes "stack_run i s0 P n e x s" "row_there i s0"
  shows "row_there i s \<and> n + size P \<le> e + x + (if busy i s then 1 else 0)"
  using assms
proof (induction rule: stack_run.induct)
  case (claim P n e x s t env m s')
  with claim_taken [of env t s m s'] show ?case by (auto split: if_splits)
next
  case (finish t m P n e x s env ops sa a r s')
  from preservesD [OF row_there_rest, of i s env ops sa a t m] finish have "row_there i s'" by simp
  with finish execution_done [of env ops sa a t m s _ s'] show ?case by (cases r) (auto split: if_splits)
qed (auto split: if_splits)


text \<open>An attempt of the code is such a run, and while the note stands no attempt does anything.\<close>

lemma attempt_is_run:
  assumes "stack_run i s0 P n e x s" "t_id t = i" "initiatePendingAutoStack env ops sa a t s = (r, s')" "s' \<noteq> s" "row_there i s"
    "\<not> busy i s"
  shows "stack_run i s0 P (case r of Inl err \<Rightarrow> n | Inr u \<Rightarrow> Suc n) e x s'"
proof -
  obtain c s1 where c: "stack_claim env t s = (c, s1)" by (cases "stack_claim env t s")
  show ?thesis
  proof (cases c)
    case (Inl err)
    with c have "s1 = s" by (auto simp: stack_claim_def txM_def split: option.splits prod.splits sum.splits)
    with Inl c assms(3,4) show ?thesis by (simp add: attempt_split bindM_def)
  next
    case (Inr y)
    show ?thesis
    proof (cases y)
      case None
      with c Inr assms(3) have "s' = s1" by (simp add: attempt_split bindM_def returnM_def)
      moreover have "s1 = s" using c Inr None assms(5)
        by (auto simp: stack_claim_def run_tx claim_there [of "t_id t"] assms(2) row_there_def tx_row_there dest: claim_there)
      ultimately show ?thesis using assms(4) by simp
    next
      case (Some m)
      with c Inr have "stack_claim env t s = (Inr (Some m), s1)" by simp
      from stack_run.claim [OF assms(1,2) this] assms(6) have "stack_run i s0 (add_mset (t, m) P) n e x s1" by simp
      moreover have "stack_execution env ops sa a t m s1 = (r, s')"
        using assms(3) c Inr Some by (simp add: attempt_split bindM_def)
      ultimately show ?thesis by (rule stack_run.finish [OF _ assms(2)])
    qed
  qed
qed


section \<open>The webhook of the charge\<close>

lemma mget_mset_in: "mget m k \<noteq> [] \<Longrightarrow> mget (mset_all m b) k = mget m k"
  by (induction m) (auto simp: mget_def mset_all_def)

text \<open>The webhook of a card charge puts back the metadata it read before it took the row lock. A delivery
  that read the row while the attempt was under way takes the note of the submitted charge out again, and
  after a quarter of an hour the next attempt takes the lock, and charges the card once more.\<close>

theorem webhook_reopens_execution:
  assumes "handleAutoStackSuccess_tx env ops t c d = (Inr False, d')" "transaction_by_id (t_id t) d \<noteq> None"
    and "to_upper (mget (t_meta t) ''autostackInitiationStatus'') = ''PROCESSING''"
    and "mget (t_meta t) ''autostackInitiatedAt'' \<noteq> []" "\<not> fresh_processing (e_now env') (t_meta t)"
  shows "\<exists>m d''. autostack_claim env' (t_id t) old d' = (Inr (Some m), d'')"
proof -
  obtain x where x: "transaction_by_id (t_id t) d' = Some x"
    and st: "mget (t_meta x) ''autostackInitiationStatus'' = mget (t_meta t) ''autostackInitiationStatus''"
    and at: "mget (t_meta x) ''autostackInitiatedAt'' = mget (t_meta t) ''autostackInitiatedAt''"
  proof -
    have "mget (t_meta t) ''autostackInitiationStatus'' \<noteq> []" using assms(3) by (auto simp: to_upper_def)
    with assms(1,2,4) that show thesis
      by (auto simp: handleAutoStackSuccess_tx_def run_simps set_meta_def transaction_by_id_updated mget_mset_in split: if_splits)
  qed
  have "\<not> fresh_processing (e_now env') (t_meta x)" using assms(4,5) at by (simp add: fresh_processing_def)
  with x st assms(3) show ?thesis by (auto simp: autostack_claim_def run_simps Let_def comp_defs updTransactions_def)
qed

end
