(* ===== verification/Bills.thy ===== *)
theory Bills
  imports Sell OrderDone
begin

text \<open>
  Paying a bill from the USDT wallet (\<^verbatim>\<open>bills.service.ts\<close>): the quote, and the confirmation, which reserves
  the user's USDT and the company's NGN and has the USDT sold. When the order is filled, the order
  webhook (theory \<open>OrderDone\<close>) pays the bill; the bill provider then reports the end of the payment
  (\<^verbatim>\<open>xpresspay-webhook.handler.ts\<close>), and a scheduler repeats payments the provider did not take
  (\<^verbatim>\<open>bill-payment-retry.scheduler.ts\<close>, theory \<open>BillRetry\<close>).
\<close>

section \<open>Categories and quotes\<close>

definition BILL_CATEGORIES :: "(string \<times> string) list" where
  "BILL_CATEGORIES = [(''cat_airtime'', ''airtime''), (''cat_tv_subscription'', ''tv_subscription''), (''cat_data'', ''data''),
     (''cat_electricity'', ''electricity''), (''cat_betting'', ''betting'')]"

definition bill_category :: "string \<Rightarrow> error + string" where
  "bill_category categoryId =
     (case map_of BILL_CATEGORIES categoryId of None \<Rightarrow> Inl (BadRequest ''Invalid bill category id'') | Some k \<Rightarrow> Inr k)"

record billDto =
  bd_categoryId :: string
  bd_billerCode :: string
  bd_customerReference :: string
  bd_amount :: string
  bd_walletCurrency :: string
  bd_productCode :: "string option"

definition BILL_QUOTE_TTL_SECONDS :: int where
  "BILL_QUOTE_TTL_SECONDS = QUOTE_TTL_SECONDS"

definition BILL_QUOTE_KEY_PREFIX :: string where
  "BILL_QUOTE_KEY_PREFIX = ''bill:quote:''"

text \<open>\<^verbatim>\<open>toDecimalPlaces(6, Decimal.ROUND_CEIL)\<close>\<close>

definition ceil6 :: "rat \<Rightarrow> rat" where
  "ceil6 x = of_int \<lceil>x * 1000000\<rceil> / 1000000"

text \<open>What is sold, the fee, and their sum, as decimals.\<close>

definition bill_decimals :: "quoteOps \<Rightarrow> rat \<Rightarrow> rat \<Rightarrow> rat \<times> rat \<times> rat" where
  "bill_decimals ops bill rate =
     (let crypto = ceil6 (qo_div ops bill rate); fee = ceil6 (qo_mul ops crypto PLATFORM_SPREAD)
      in (crypto, fee, ceil6 (qo_add ops crypto fee)))"

definition bill_amounts :: "env \<Rightarrow> quoteOps \<Rightarrow> rat \<Rightarrow> rat \<Rightarrow> error + (int \<times> int)" where
  "bill_amounts env ops crypto fee =
     (case toBase (e_cv env) (qo_fixed ops crypto 6) ''USDT'' None of Inl e \<Rightarrow> Inl e | Inr c \<Rightarrow>
     (case toBase (e_cv env) (qo_fixed ops fee 6) ''USDT'' None of Inl e \<Rightarrow> Inl e | Inr f \<Rightarrow> Inr (c, f)))"

definition bill_rate :: "env \<Rightarrow> string option \<Rightarrow> error + rat" where
  "bill_rate env price =
     (case truthy price of
        None \<Rightarrow> Inl (BadRequest ''Unable to fetch USDT/NGN rate'')
      | Some p \<Rightarrow>
         (case decimal_of env p of Inl e \<Rightarrow> Inl e
          | Inr v \<Rightarrow> if v \<le> 0 then Inl (BadRequest ''Unable to fetch USDT/NGN rate'') else Inr v))"

record billView =
  bv_quoteId :: string
  bv_amountToReceive :: string
  bv_rate :: string
  bv_transactionFee :: string
  bv_amountToPay :: string
  bv_expiresIn :: int

text \<open>\<open>price\<close> is the ticker's USDT/NGN, \<open>validation\<close> the provider's answer to the customer reference.\<close>

definition bill_quote ::
    "env \<Rightarrow> quoteOps \<Rightarrow> string option \<Rightarrow> error + string \<Rightarrow> string \<Rightarrow> string \<Rightarrow> billDto \<Rightarrow> billView sysm" where
  "bill_quote env ops price validation uuid userId dto =
     bindM (liftM (bill_category (bd_categoryId dto))) (\<lambda>category.
     thenM (requireM (to_upper (bd_walletCurrency dto) = ''USDT'') (BadRequest ''Only USDT wallet is supported for bills''))
     (bindM (getM (\<lambda>s. wallet_for userId ''USDT'' (s_db s))) (\<lambda>rw.
      bindM (someM rw (NotFound ''USDT wallet not found'')) (\<lambda>w.
      bindM (liftM (bill_rate env price)) (\<lambda>rate.
      bindM (liftM (decimal_of env (bd_amount dto))) (\<lambda>bill.
        case bill_decimals ops bill rate of (crypto, fee, whole) \<Rightarrow>
          bindM (liftM (bill_amounts env ops crypto fee)) (\<lambda>(c, f).
          thenM (requireM (w_baseBalance w - w_reservedBalance w \<ge> c + f) (BadRequest ''Insufficient balance''))
          (thenM (bindM (liftM validation) (\<lambda>v. returnM ()))
          (thenM (tempSet env (BILL_QUOTE_KEY_PREFIX @ uuid) (TBillQuote \<lparr>iq_quoteId = uuid, iq_userId = userId,
              iq_walletId = w_id w, iq_category = category, iq_billerCode = bd_billerCode dto,
              iq_customerReference = bd_customerReference dto, iq_productCode = bd_productCode dto,
              iq_billAmountNgn = qo_fixed ops bill 2, iq_cryptoAmount = qo_fixed ops crypto 6,
              iq_feeAmount = qo_fixed ops fee 6, iq_totalToPay = qo_fixed ops whole 6, iq_cryptoMinor = c, iq_feeMinor = f,
              iq_totalMinor = c + f, iq_expiresAt = e_now env + BILL_QUOTE_TTL_SECONDS * 1000\<rparr>) BILL_QUOTE_TTL_SECONDS)
            (returnM \<lparr>bv_quoteId = uuid, bv_amountToReceive = qo_fixed ops bill 2, bv_rate = qo_fixed ops rate 2,
               bv_transactionFee = qo_fixed ops fee 6, bv_amountToPay = qo_fixed ops whole 6,
               bv_expiresIn = BILL_QUOTE_TTL_SECONDS\<rparr>))))))))))"

section \<open>Confirmation\<close>

text \<open>\<open>pinOk h\<close>: the PIN given matches the hash \<open>h\<close>.\<close>

definition check_user_pin :: "(string \<Rightarrow> bool) \<Rightarrow> string \<Rightarrow> string \<Rightarrow> unit sysm" where
  "check_user_pin pinOk userId message =
     bindM (getM (\<lambda>s. user_by_id userId (s_db s))) (\<lambda>u.
     bindM (someM (case u of None \<Rightarrow> None | Some x \<Rightarrow> truthy (u_pin x)) (BadRequest message)) (\<lambda>pin.
       requireM (pinOk pin) (BadRequest message)))"

definition bill_quote_of :: "env \<Rightarrow> string \<Rightarrow> sys \<Rightarrow> billQuote option" where
  "bill_quote_of env quoteId s =
     (case temp_lookup env (BILL_QUOTE_KEY_PREFIX @ quoteId) s of Some (TBillQuote q) \<Rightarrow> Some q | _ \<Rightarrow> None)"

definition check_bill_quote :: "env \<Rightarrow> string \<Rightarrow> string \<Rightarrow> billQuote sysm" where
  "check_bill_quote env userId quoteId =
     bindM (getM (bill_quote_of env quoteId)) (\<lambda>r.
     bindM (someM r (NotFound ''Bill quote not found or expired'')) (\<lambda>q.
     thenM (requireM (iq_userId q = userId) (BadRequest ''Invalid quote owner''))
     (thenM (requireM (\<not> e_now env > iq_expiresAt q) (BadRequest ''Bill quote expired''))
       (returnM q))))"

definition bill_meta :: "string \<Rightarrow> billQuote \<Rightarrow> int \<Rightarrow> meta" where
  "bill_meta quoteId q net =
     [(''billingFlow'', ''true''), (''billingStatus'', ''PENDING_ORDER''), (''quoteId'', quoteId), (''category'', iq_category q),
      (''billerCode'', iq_billerCode q), (''customerReference'', iq_customerReference q),
      (''productCode'', case iq_productCode q of None \<Rightarrow> [] | Some c \<Rightarrow> c), (''billAmountNgn'', iq_billAmountNgn q),
      (''billCryptoAmountBase'', show_int (iq_cryptoMinor q)), (''billCryptoAmountOriginal'', iq_cryptoAmount q),
      (''platformFeeAmountBase'', show_int (iq_feeMinor q)), (''platformFeeAmountOriginal'', iq_feeAmount q),
      (''totalSellAmountBase'', show_int (iq_totalMinor q)), (''totalSellAmountOriginal'', iq_totalToPay q),
      (''liquidityReservationStatus'', ''reserved''), (''liquidityReservationCurrency'', BASE_CURRENCY),
      (''liquidityReservationAmount'', show_int net)]"

definition bill_transaction :: "string \<Rightarrow> string \<Rightarrow> string \<Rightarrow> string \<Rightarrow> billQuote \<Rightarrow> int \<Rightarrow> wallet \<Rightarrow> transaction" where
  "bill_transaction i reference userId quoteId q net w =
     (new_transaction i userId reference ''USDT'' DEBIT CtxBILL_PAYMENT)\<lparr>
       t_cryptoAmountBase := Some (iq_cryptoMinor q), t_cryptoAmountOriginal := Some (iq_cryptoAmount q),
       t_totalAmountSentBase := Some (iq_totalMinor q), t_totalAmountSentOriginal := Some (iq_totalToPay q),
       t_fiatAmountBase := net, t_fiatAmountOriginal := Some (iq_billAmountNgn q),
       t_platformFeeBase := Some (iq_feeMinor q), t_platformFeeOriginal := Some (iq_feeAmount q),
       t_status := TxPENDING, t_paymentType := Some CRYPTO_WALLET, t_senderWalletId := Some (w_id w),
       t_description := Some (''Bill payment: '' @ iq_category q), t_meta := bill_meta quoteId q net\<rparr>"

definition bill_order :: "string \<Rightarrow> string \<Rightarrow> string \<Rightarrow> string \<Rightarrow> billQuote \<Rightarrow> int \<Rightarrow> order" where
  "bill_order i reference transactionId userId q net =
     \<lparr>o_id = i, o_transactionId = transactionId, o_userId = userId, o_cryptoAmountBase = Some (iq_totalMinor q),
      o_cryptoAmountOriginal = Some (iq_totalToPay q), o_fiatAmountBase = net, o_fiatAmountOriginal = Some (iq_billAmountNgn q),
      o_fiatCurrency = ''NGN'', o_status = OrPENDING, o_type = OSELL, o_referenceNo = Some reference, o_paymentStatus = PayPENDING,
      o_paymentReference = None, o_paymentChannel = None, o_paymentAmountBase = Some net,
      o_paymentAmountOriginal = Some (iq_billAmountNgn q), o_paymentDate = None\<rparr>"

definition bill_by_transaction :: "string \<Rightarrow> db \<Rightarrow> billPayment option" where
  "bill_by_transaction i d = List.find (\<lambda>b. bp_transactionId b = Some i) (d_billPayments d)"

definition insertBillPayment :: "billPayment \<Rightarrow> unit dbm" where
  "insertBillPayment b =
     bindM (getM (\<lambda>d. List.find (\<lambda>x. bp_transactionId x \<noteq> None \<and> bp_transactionId x = bp_transactionId b) (d_billPayments d))) (\<lambda>x.
       if x = None then modifyM (\<lambda>d. d\<lparr>d_billPayments := d_billPayments d @ [b]\<rparr>) else throwM (PrismaError ''P2002''))"

definition bill_reserve_tx ::
    "env \<Rightarrow> string \<Rightarrow> string \<Rightarrow> string \<Rightarrow> billQuote \<Rightarrow> int \<Rightarrow> (transaction \<times> string) dbm" where
  "bill_reserve_tx env reference userId quoteId q net =
     bindM (getM (\<lambda>d. List.find (\<lambda>w. w_id w = iq_walletId q) (d_wallets d))) (\<lambda>rw.
     bindM (someM rw (NotFound ''Wallet not found'')) (\<lambda>w.
     thenM (reserveBalance userId ''USDT'' (iq_totalMinor q) (Some (w_defaultNetwork w)))
     (bindM (reserveLiquidity BASE_CURRENCY net) (\<lambda>reserved.
      thenM (requireM reserved (BadRequest ''Insufficient company NGN liquidity''))
      (bindM (freshM env) (\<lambda>i.
       let t = bill_transaction i reference userId quoteId q net w in
       thenM (insertTransaction t)
       (bindM (freshM env) (\<lambda>b.
        thenM (insertBillPayment \<lparr>bp_id = b, bp_userId = userId, bp_transactionId = Some i, bp_status = BpPENDING\<rparr>)
        (bindM (freshM env) (\<lambda>oi.
         thenM (insertOrder (bill_order oi reference i userId q net)) (returnM (t, b))))))))))))"

definition bill_recorded_tx :: "transaction \<Rightarrow> string \<Rightarrow> string option \<Rightarrow> string option \<Rightarrow> unit dbm" where
  "bill_recorded_tx t billId reference orderId =
     bindM (getM (current_meta (t_id t))) (\<lambda>m.
     thenM (updTransactions (\<lambda>x. t_id x = t_id t) (\<lambda>x. x\<lparr>t_meta := mset_all
        [(''billingStatus'', ''PROCESSING''), (''quidaxOrderReference'', case reference of None \<Rightarrow> [] | Some r \<Rightarrow> r),
         (''quidaxOrderId'', case orderId of None \<Rightarrow> [] | Some r \<Rightarrow> r)] m\<rparr>))
     (thenM (updOrders (\<lambda>x. o_transactionId x = t_id t) (\<lambda>x. case reference of None \<Rightarrow> x | Some r \<Rightarrow> x\<lparr>o_referenceNo := Some r\<rparr>))
       (updBillPayments (\<lambda>x. bp_id x = billId) (\<lambda>x. x\<lparr>bp_status := BpPROCESSING\<rparr>))))"

text \<open>The exchange took the order, but its reference could not be stored.\<close>

definition bill_unrecorded_tx :: "env \<Rightarrow> transaction \<Rightarrow> string \<Rightarrow> string option \<Rightarrow> string option \<Rightarrow> unit dbm" where
  "bill_unrecorded_tx env t billId reference orderId =
     (let entries = (\<lambda>k v. case truthy v of None \<Rightarrow> [] | Some x \<Rightarrow> [(k, x)]) in
      bindM (getM (current_meta (t_id t))) (\<lambda>m.
      thenM (updTransactions (\<lambda>x. t_id x = t_id t) (\<lambda>x. x\<lparr>t_status := TxPENDING, t_isProcessed := False, t_meta := mset_all
         ([(''billingStatus'', ''ORDER_REFERENCE_PERSIST_FAILED''), (''billingRequiresReconciliation'', ''true''),
           (''billingReconciliationReason'', ''quidax_order_accepted_but_local_reference_persist_failed''),
           (''billingReconciliationAt'', toISOString (e_now env))]
          @ entries ''quidaxOrderReference'' reference @ entries ''quidaxOrderId'' orderId) m\<rparr>))
      (thenM (updOrders (\<lambda>x. o_transactionId x = t_id t)
         (\<lambda>x. (case truthy reference of None \<Rightarrow> x | Some r \<Rightarrow> x\<lparr>o_referenceNo := Some r\<rparr>)
            \<lparr>o_status := OrPROCESSING, o_paymentStatus := PayPENDING\<rparr>))
        (updBillPayments (\<lambda>x. bp_id x = billId) (\<lambda>x. x\<lparr>bp_status := BpPROCESSING\<rparr>)))))"

text \<open>The order was not taken: both releases are tried, and whatever they throw is dropped.\<close>

definition bill_refused_tx :: "env \<Rightarrow> string \<Rightarrow> billQuote \<Rightarrow> int \<Rightarrow> transaction \<Rightarrow> string \<Rightarrow> unit dbm" where
  "bill_refused_tx env userId q net t billId =
     bindM (getM (current_meta (t_id t))) (\<lambda>m.
     thenM (releaseBalance_quietly userId ''USDT'' (iq_totalMinor q))
     (thenM (catchM (releaseLiquidity BASE_CURRENCY net) (\<lambda>_. returnM ()))
     (thenM (updTransactions (\<lambda>x. t_id x = t_id t) (\<lambda>x. x\<lparr>t_status := TxFAILED, t_meta := mset_all
        [(''liquidityReservationStatus'', ''released''), (''liquidityReleasedAt'', toISOString (e_now env)),
         (''liquidityReleaseReason'', ''quidax_order_submit_failed''), (''billingStatus'', ''FAILED_ORDER_SUBMIT'')] m\<rparr>))
       (updBillPayments (\<lambda>x. bp_id x = billId) (\<lambda>x. x\<lparr>bp_status := BpFAILED\<rparr>)))))"

text \<open>\<^verbatim>\<open>error.response.data\<close> is there for a provider's error only.\<close>

definition bill_error :: "error \<Rightarrow> error" where
  "bill_error e = BadRequest (case e of ProviderError m \<Rightarrow> (if m = [] then ''Bill payment failed'' else m) | _ \<Rightarrow> ''Bill payment failed'')"

text \<open>The reference of the transaction, and whether the order still has to be reconciled.\<close>

definition bill_request ::
    "env \<Rightarrow> error + orderAnswer \<Rightarrow> string \<Rightarrow> string \<Rightarrow> billQuote \<Rightarrow> int \<Rightarrow> transaction \<Rightarrow> string \<Rightarrow> (string \<times> bool) sysm" where
  "bill_request env answer userId quoteId q net t billId =
     (let refused = (\<lambda>e. thenM (txM env ''bill_refused'' (bill_refused_tx env userId q net t billId)) (throwM (bill_error e))) in
      thenM (callM (CallOrder ''usdtngn'' ''sell'' (iq_totalToPay q)))
      (case answer of
         Inl e \<Rightarrow> refused e
       | Inr a \<Rightarrow>
           if pa_status a \<noteq> ''success'' then refused (BadRequest ''Something went wrong, try again later.'')
           else let reference = or_else (pa_reference a) (pa_id a) in
             bindM (catchM (thenM (txM env ''bill_recorded'' (bill_recorded_tx t billId reference (pa_id a))) (returnM False))
                 (\<lambda>_. thenM (txM env ''bill_unrecorded'' (bill_unrecorded_tx env t billId reference (pa_id a))) (returnM True)))
               (\<lambda>reconcile. thenM (tempDel (BILL_QUOTE_KEY_PREFIX @ quoteId)) (returnM (t_uniqueId t, reconcile)))))"

definition confirmBill ::
    "env \<Rightarrow> (string \<Rightarrow> bool) \<Rightarrow> error + orderAnswer \<Rightarrow> string \<Rightarrow> string \<Rightarrow> string \<Rightarrow> (string \<times> bool) sysm" where
  "confirmBill env pinOk answer reference userId quoteId =
     thenM (check_user_pin pinOk userId ''Invalid pin'')
     (bindM (check_bill_quote env userId quoteId) (\<lambda>q.
      bindM (liftM (toBase (e_cv env) (iq_billAmountNgn q) ''NGN'' None)) (\<lambda>net.
      bindM (txM env ''bill_reserve'' (bill_reserve_tx env reference userId quoteId q net)) (\<lambda>(t, b).
        bill_request env answer userId quoteId q net t b))))"

section \<open>The end of the payment\<close>

text \<open>
  The payload of the provider; \<open>xp_successful\<close> is \<open>None\<close> when \<^verbatim>\<open>IsSuccessful\<close> is no boolean, \<open>xp_reference\<close>
  the first of its three references.
\<close>

record xpressPayload =
  xp_reference :: "string option"
  xp_successful :: "bool option"
  xp_status :: string
  xp_text :: string

definition isTerminalFailure :: "xpressPayload \<Rightarrow> bool" where
  "isTerminalFailure p \<longleftrightarrow> xp_successful p = Some False \<and> to_upper (trim (xp_status p)) \<in> set
     [''99'', ''FAILED'', ''FAILURE'', ''REVERSED'', ''CANCELLED'', ''CANCELED'', ''DECLINED'', ''ERROR'']"

definition bill_paid :: "xpressPayload \<Rightarrow> bool" where
  "bill_paid p \<longleftrightarrow> xp_successful p = Some True \<and> xp_status p = ''00''"

definition bill_sent :: "transaction \<Rightarrow> int" where
  "bill_sent t = (case t_totalAmountSentBase t of Some a \<Rightarrow> a | None \<Rightarrow> or0 (t_cryptoAmountBase t))"

definition bill_write :: "transaction \<Rightarrow> string \<Rightarrow> txStatus \<Rightarrow> bool \<Rightarrow> meta \<Rightarrow> billStatus \<Rightarrow> orderStatus \<Rightarrow> paymentStatus \<Rightarrow> unit dbm" where
  "bill_write t billId status processed m bill ord pay =
     thenM (updTransactions (\<lambda>x. t_id x = t_id t) (\<lambda>x. x\<lparr>t_status := status, t_isProcessed := processed, t_meta := m\<rparr>))
     (thenM (updBillPayments (\<lambda>x. bp_id x = billId) (\<lambda>x. x\<lparr>bp_status := bill\<rparr>))
       (updOrders (\<lambda>x. o_transactionId x = t_id t) (\<lambda>x. x\<lparr>o_status := ord, o_paymentStatus := pay\<rparr>)))"

text \<open>A success after the reservations were released is left to a person.\<close>

definition bill_late_tx :: "env \<Rightarrow> xpressPayload \<Rightarrow> transaction \<Rightarrow> string \<Rightarrow> meta \<Rightarrow> unit dbm" where
  "bill_late_tx env p t billId m =
     bill_write t billId TxPENDING False (mset_all
       [(''xpresspayWebhook'', xp_text p), (''xpresspayWebhookStatus'', ''SUCCESS_AFTER_RELEASE''),
        (''billingStatus'', ''MANUAL_RECONCILIATION_REQUIRED''), (''billingManualReviewRequired'', ''true''),
        (''billingRequiresRetry'', ''false''),
        (''billingReconciliationReason'', ''xpresspay_success_after_reservation_released''),
        (''billingReconciliationAt'', toISOString (e_now env))] m) BpPROCESSING OrPROCESSING PayPAID"

text \<open>\<^verbatim>\<open>GREATEST("baseBalance" - total, 0)\<close>, and the balance shown with six decimals.\<close>

definition bill_debit :: "env \<Rightarrow> string \<Rightarrow> string \<Rightarrow> int \<Rightarrow> unit dbm" where
  "bill_debit env walletId currency a =
     thenM (updWallets (\<lambda>w. w_id w = walletId) (\<lambda>w. w\<lparr>w_baseBalance := max (w_baseBalance w - a) 0\<rparr>))
     (bindM (getM (base_of walletId)) (\<lambda>rb.
      bindM (someM rb (PlainError ''TypeError: undefined is not iterable'')) (\<lambda>base.
      bindM (liftM (fromBase (e_cv env) (ABigInt base) currency (Some (Dec 6)))) (\<lambda>shown.
        updWallets (\<lambda>w. w_id w = walletId) (\<lambda>w. w\<lparr>w_originalBalance := shown\<rparr>)))))"

definition bill_settle :: "env \<Rightarrow> transaction \<Rightarrow> string \<Rightarrow> transaction \<Rightarrow> unit dbm" where
  "bill_settle env latest walletId t =
     thenM (releaseBalance (t_userId latest) (t_currency latest) (bill_sent t) None)
     (thenM (bill_debit env walletId (t_currency latest) (bill_sent t))
     (bindM (consumeReservedLiquidity BASE_CURRENCY (t_fiatAmountBase t)) (\<lambda>ok.
      thenM (requireM ok (PlainError ''Unable to consume reserved bill payment liquidity''))
        (updateInternalBalance env (t_currency latest) (bill_sent t) Subtract))))"

definition bill_settled_meta :: "env \<Rightarrow> xpressPayload \<Rightarrow> meta \<Rightarrow> meta" where
  "bill_settled_meta env p m = mset_all
     [(''liquidityReservationStatus'', ''consumed''), (''liquidityConsumedAt'', toISOString (e_now env)),
      (''liquidityConsumedReason'', ''bill_payment_completed''), (''xpresspayWebhook'', xp_text p),
      (''xpresspayWebhookStatus'', ''COMPLETED''), (''billingStatus'', ''COMPLETED''),
      (''userBalanceReservationStatus'', ''consumed''), (''userBalanceConsumedAt'', toISOString (e_now env)),
      (''userBalanceConsumeReason'', ''bill_payment_completed'')] m"

text \<open>A release that may fail: the metadata it leads to.\<close>

definition tried_release :: "unit dbm \<Rightarrow> (string \<times> string) list \<Rightarrow> string \<Rightarrow> meta \<Rightarrow> (bool \<times> meta) dbm" where
  "tried_release release ok key m =
     catchM (thenM release (returnM (True, mset_all ok m)))
       (\<lambda>e. returnM (False, mset_all [(key, err_msg e), (''billingManualReviewRequired'', ''true'')] m))"

definition bill_release_user :: "env \<Rightarrow> transaction \<Rightarrow> transaction \<Rightarrow> meta \<Rightarrow> meta dbm" where
  "bill_release_user env latest t m =
     (if truthy (t_senderWalletId latest) \<noteq> None \<and> bill_sent t > 0 \<and> mget m ''userBalanceReservationStatus'' \<noteq> ''released''
      then bindM (tried_release (releaseBalance (t_userId latest) (t_currency latest) (bill_sent t) None)
          [(''userBalanceReservationStatus'', ''released''), (''userBalanceReleasedAt'', toISOString (e_now env)),
           (''userBalanceReleaseReason'', ''bill_payment_failed'')] ''userBalanceReleaseError'' m) (\<lambda>(ok, m'). returnM m')
      else returnM m)"

definition bill_release_company :: "transaction \<Rightarrow> meta \<Rightarrow> (bool \<times> meta) dbm" where
  "bill_release_company t m =
     (if mget m ''liquidityReservationStatus'' = ''reserved''
      then tried_release (releaseLiquidity BASE_CURRENCY (t_fiatAmountBase t)) [] ''liquidityReleaseError'' m
      else returnM (False, m))"

definition bill_failed_meta :: "env \<Rightarrow> xpressPayload \<Rightarrow> bool \<Rightarrow> meta \<Rightarrow> meta" where
  "bill_failed_meta env p released m = mset_all
     ((if released then [(''liquidityReservationStatus'', ''released''), (''liquidityReleasedAt'', toISOString (e_now env)),
         (''liquidityReleaseReason'', ''bill_payment_failed'')] else [])
      @ [(''xpresspayWebhook'', xp_text p), (''xpresspayWebhookStatus'', ''FAILED''), (''billingStatus'', ''FAILED'')]) m"

definition bill_failed_tx :: "env \<Rightarrow> xpressPayload \<Rightarrow> transaction \<Rightarrow> string \<Rightarrow> transaction \<Rightarrow> unit dbm" where
  "bill_failed_tx env p latest billId t =
     bindM (bill_release_user env latest t (t_meta latest)) (\<lambda>m.
     bindM (bill_release_company t m) (\<lambda>(released, m').
       bill_write t billId TxFAILED True (bill_failed_meta env p released m') BpFAILED OrFAILED PayFAILED))"

definition bill_pending_tx :: "env \<Rightarrow> xpressPayload \<Rightarrow> transaction \<Rightarrow> string \<Rightarrow> transaction \<Rightarrow> unit dbm" where
  "bill_pending_tx env p latest billId t =
     bill_write t billId TxPENDING False (mset_all
       [(''xpresspayPendingAt'', toISOString (e_now env)), (''xpresspayWebhook'', xp_text p),
        (''xpresspayWebhookStatus'', ''PENDING''), (''billingStatus'', ''PENDING'')] (t_meta latest)) BpPENDING OrPROCESSING PayPENDING"

definition bill_end_tx :: "env \<Rightarrow> xpressPayload \<Rightarrow> transaction \<Rightarrow> string \<Rightarrow> unit dbm" where
  "bill_end_tx env p t billId =
     bindM (getM (transaction_by_id (t_id t))) (\<lambda>rl.
       case rl of
         None \<Rightarrow> returnM ()
       | Some latest \<Rightarrow>
           (let m = t_meta latest; status = mget m ''xpresspayWebhookStatus'' in
            if status = ''COMPLETED'' \<or> status = ''FAILED'' \<and> isTerminalFailure p then returnM ()
            else if bill_paid p then
              (if mget m ''liquidityReservationStatus'' = ''released'' \<or> status = ''FAILED'' then bill_late_tx env p t billId m
               else (case truthy (t_senderWalletId latest) of
                       None \<Rightarrow> returnM ()
                     | Some walletId \<Rightarrow>
                         if bill_sent t \<le> 0 then returnM ()
                         else thenM (bill_settle env latest walletId t)
                           (bill_write t billId TxCOMPLETED True (bill_settled_meta env p m) BpCOMPLETED OrCOMPLETED PayPAID)))
            else if isTerminalFailure p then bill_failed_tx env p latest billId t
            else bill_pending_tx env p latest billId t))"

definition xpresspay_process :: "env \<Rightarrow> xpressPayload \<Rightarrow> unit sysm" where
  "xpresspay_process env p =
     (case truthy (xp_reference p) of
        None \<Rightarrow> returnM ()
      | Some r \<Rightarrow>
          bindM (getM (\<lambda>s. List.find (\<lambda>x. t_id x = r \<or> t_uniqueId x = r) (d_transactions (s_db s)))) (\<lambda>rt.
            case rt of
              None \<Rightarrow> returnM ()
            | Some t \<Rightarrow>
                bindM (getM (\<lambda>s. bill_by_transaction (t_id t) (s_db s))) (\<lambda>rb.
                  case rb of
                    None \<Rightarrow> returnM ()
                  | Some b \<Rightarrow> txM env ''bill_end'' (bill_end_tx env p t (bp_id b)))))"

end
