(* ===== verification/Ranges.thy ===== *)
theory Ranges
  imports Deposit
begin

text \<open>
  The terms of urgent loans: the settings and the repayment ranges an administrator keeps
  (\<^verbatim>\<open>urgent-liquidity-settings.service.ts\<close>), and the cache the loan service reads them from
  (\<^verbatim>\<open>urgent-liquidity-cache.service.ts\<close>). The two tables and the two cache entries are a state of their
  own (\<open>termStore\<close>). An amount that is stored is rounded by its column \<^verbatim>\<open>Decimal(78, 0)\<close>.
\<close>

section \<open>State\<close>

record urgentSettings =
  us_id :: string
  us_maxLoanRequest :: int
  us_loanFeePercent :: rat
  us_settlementPercent :: rat
  us_collateralPercent :: rat
  us_liquidationDeadlineDays :: int
  us_liquidationFeePercent :: rat

record repaymentRange =
  rr_id :: string
  rr_settingsId :: string
  rr_from :: int
  rr_to :: int
  rr_days :: int
  rr_currency :: string

text \<open>\<open>ts_all\<close> and \<open>ts_only\<close> are the entries \<^verbatim>\<open>urgentLiquidity:all\<close> and \<^verbatim>\<open>urgentLiquidity:settings\<close>, which do not expire.\<close>

record termStore =
  ts_settings :: "urgentSettings list"
  ts_ranges :: "repaymentRange list"
  ts_all :: "(urgentSettings \<times> repaymentRange list) option"
  ts_only :: "urgentSettings option"
  ts_seq :: nat

type_synonym 'a termm = "(termStore, error, 'a) comp"

definition first_settings :: "termStore \<Rightarrow> urgentSettings option" where
  "first_settings ts = (case ts_settings ts of [] \<Rightarrow> None | x # _ \<Rightarrow> Some x)"

section \<open>The cache\<close>

definition ranges_of :: "string \<Rightarrow> termStore \<Rightarrow> repaymentRange list" where
  "ranges_of settingsId ts = sort_key rr_from (filter (\<lambda>r. rr_settingsId r = settingsId) (ts_ranges ts))"

definition getWithFallback :: "(urgentSettings \<times> repaymentRange list) option termm" where
  "getWithFallback =
     bindM (getM ts_all) (\<lambda>cached.
       if cached \<noteq> None then returnM cached
       else bindM (getM first_settings) (\<lambda>r.
         case r of
           None \<Rightarrow> returnM None
         | Some x \<Rightarrow>
             bindM (getM (ranges_of (us_id x))) (\<lambda>rs.
               thenM (modifyM (\<lambda>ts. ts\<lparr>ts_all := Some (x, rs)\<rparr>)) (returnM (Some (x, rs))))))"

definition getSettingsOnly :: "urgentSettings option termm" where
  "getSettingsOnly =
     bindM (getM ts_only) (\<lambda>cached.
       if cached \<noteq> None then returnM cached
       else bindM (getM first_settings) (\<lambda>r.
         case r of
           None \<Rightarrow> returnM None
         | Some x \<Rightarrow> thenM (modifyM (\<lambda>ts. ts\<lparr>ts_only := Some x\<rparr>)) (returnM (Some x))))"

definition refreshUrgentLiquidityCache :: "unit termm" where
  "refreshUrgentLiquidityCache = modifyM (\<lambda>ts.
     case first_settings ts of
       None \<Rightarrow> ts
     | Some x \<Rightarrow> ts\<lparr>ts_all := Some (x, ranges_of (us_id x) ts), ts_only := Some x\<rparr>)"

definition refreshSettingsCache :: "unit termm" where
  "refreshSettingsCache = modifyM (\<lambda>ts. ts\<lparr>ts_only := first_settings ts\<rparr>)"

definition refreshRepaymentRangesCache :: "unit termm" where
  "refreshRepaymentRangesCache =
     bindM (getM (\<lambda>ts. sort_key rr_from (ts_ranges ts))) (\<lambda>rs.
     bindM (getM ts_all) (\<lambda>current.
       case current of
         Some (x, _) \<Rightarrow> modifyM (\<lambda>ts. ts\<lparr>ts_all := Some (x, rs)\<rparr>)
       | None \<Rightarrow> refreshUrgentLiquidityCache))"

definition invalidateUrgentLiquidityCache :: "unit termm" where
  "invalidateUrgentLiquidityCache = modifyM (\<lambda>ts. ts\<lparr>ts_all := None, ts_only := None\<rparr>)"

section \<open>Settings\<close>

definition SETTINGS_MISSING :: error where
  "SETTINGS_MISSING = NotFound ''Urgent liquidity settings not found. Please run the seed to initialize.''"

definition getTermSettings :: "(urgentSettings \<times> repaymentRange list) termm" where
  "getTermSettings = bindM getWithFallback (\<lambda>cached. someM cached SETTINGS_MISSING)"

record settingsDto =
  sd_maxLoanRequest :: "rat option"
  sd_loanFeePercent :: "rat option"
  sd_settlementPercent :: "rat option"
  sd_collateralPercent :: "rat option"
  sd_liquidationDeadlineDays :: "int option"
  sd_liquidationFeePercent :: "rat option"

text \<open>What a column without decimals keeps of an amount that is not negative, and \<^verbatim>\<open>toDecimalPlaces(2, ROUND_UP)\<close>.\<close>

definition integer_column :: "rat \<Rightarrow> int" where
  "integer_column x = \<lfloor>x + 1 / 2\<rfloor>"

definition up2 :: "rat \<Rightarrow> rat" where
  "up2 x = of_int \<lceil>x * 100\<rceil> / 100"

definition percent_field :: "string \<Rightarrow> rat option \<Rightarrow> error + rat option" where
  "percent_field name v =
     (case v of
        None \<Rightarrow> Inr None
      | Some x \<Rightarrow> if x < 0 \<or> x > 100 then Inl (BadRequest (name @ '' must be between 0 and 100'')) else Inr (Some (up2 x)))"

definition given :: "'a option \<Rightarrow> 'a \<Rightarrow> 'a" where
  "given v old = (case v of None \<Rightarrow> old | Some x \<Rightarrow> x)"

definition updated_settings :: "settingsDto \<Rightarrow> error + (urgentSettings \<Rightarrow> urgentSettings)" where
  "updated_settings dto =
     (if (case sd_maxLoanRequest dto of Some x \<Rightarrow> x < 0 | None \<Rightarrow> False) then Inl (BadRequest ''maxLoanRequest must be non-negative'')
      else case percent_field ''loanFeePercent'' (sd_loanFeePercent dto) of Inl e \<Rightarrow> Inl e | Inr fee \<Rightarrow>
      (case percent_field ''settlementPercent'' (sd_settlementPercent dto) of Inl e \<Rightarrow> Inl e | Inr settlement \<Rightarrow>
      (case percent_field ''collateralPercent'' (sd_collateralPercent dto) of Inl e \<Rightarrow> Inl e | Inr collateral \<Rightarrow>
      (if (case sd_liquidationDeadlineDays dto of Some n \<Rightarrow> n < 1 | None \<Rightarrow> False)
       then Inl (BadRequest ''liquidationDeadlineDays must be at least 1'')
       else case percent_field ''liquidationFeePercent'' (sd_liquidationFeePercent dto) of Inl e \<Rightarrow> Inl e | Inr liquidation \<Rightarrow>
         Inr (\<lambda>x. x\<lparr>us_maxLoanRequest := given (map_option integer_column (sd_maxLoanRequest dto)) (us_maxLoanRequest x),
           us_loanFeePercent := given fee (us_loanFeePercent x),
           us_settlementPercent := given settlement (us_settlementPercent x),
           us_collateralPercent := given collateral (us_collateralPercent x),
           us_liquidationDeadlineDays := given (sd_liquidationDeadlineDays dto) (us_liquidationDeadlineDays x),
           us_liquidationFeePercent := given liquidation (us_liquidationFeePercent x)\<rparr>)))))"

definition updateSettings :: "settingsDto \<Rightarrow> urgentSettings termm" where
  "updateSettings dto =
     bindM (getM first_settings) (\<lambda>r.
     bindM (someM r SETTINGS_MISSING) (\<lambda>x.
     bindM (liftM (updated_settings dto)) (\<lambda>change.
     thenM (modifyM (\<lambda>ts. ts\<lparr>ts_settings := update_where (\<lambda>y. us_id y = us_id x) change (ts_settings ts)\<rparr>))
     (thenM refreshSettingsCache (returnM (change x))))))"

section \<open>Repayment ranges\<close>

text \<open>The three cases of the code.\<close>

definition ranges_overlap :: "rat \<Rightarrow> rat \<Rightarrow> rat \<Rightarrow> rat \<Rightarrow> bool" where
  "ranges_overlap a b from to \<longleftrightarrow> a \<ge> from \<and> a \<le> to \<or> b \<ge> from \<and> b \<le> to \<or> a < from \<and> b > to"

text \<open>\<open>show_dec\<close> is \<^verbatim>\<open>Decimal.toString\<close>.\<close>

definition checkRangeOverlap ::
    "(rat \<Rightarrow> string) \<Rightarrow> string \<Rightarrow> rat \<Rightarrow> rat \<Rightarrow> string \<Rightarrow> string option \<Rightarrow> termStore \<Rightarrow> error + unit" where
  "checkRangeOverlap show_dec settingsId a b currency excludeId ts =
     (case List.find (\<lambda>r. ranges_overlap a b (of_int (rr_from r)) (of_int (rr_to r)))
         (filter (\<lambda>r. rr_settingsId r = settingsId \<and> rr_currency r = currency \<and> Some (rr_id r) \<noteq> excludeId) (ts_ranges ts)) of
        None \<Rightarrow> Inr ()
      | Some r \<Rightarrow> Inl (BadRequest (''Repayment range overlaps with existing range ('' @ show_dec (of_int (rr_from r)) @ '' - ''
          @ show_dec (of_int (rr_to r)) @ '')'')))"

record rangeDto =
  rd_from :: rat
  rd_to :: rat
  rd_days :: int
  rd_currency :: "string option"

definition getRepaymentRange :: "string \<Rightarrow> repaymentRange termm" where
  "getRepaymentRange rangeId =
     bindM (getM (\<lambda>ts. List.find (\<lambda>r. rr_id r = rangeId) (ts_ranges ts))) (\<lambda>r.
       someM r (NotFound ''Repayment range not found''))"

definition range_exists :: "repaymentRange \<Rightarrow> repaymentRange list \<Rightarrow> bool" where
  "range_exists x rs \<longleftrightarrow> (\<exists>r \<in> set rs. rr_id r \<noteq> rr_id x \<and> rr_settingsId r = rr_settingsId x \<and> rr_currency r = rr_currency x
     \<and> rr_from r = rr_from x \<and> rr_to r = rr_to x)"

definition insertRange :: "env \<Rightarrow> string \<Rightarrow> rat \<Rightarrow> rat \<Rightarrow> int \<Rightarrow> string \<Rightarrow> repaymentRange termm" where
  "insertRange env settingsId a b days currency =
     bindM (getM ts_seq) (\<lambda>n.
     let x = \<lparr>rr_id = e_cuid env n, rr_settingsId = settingsId, rr_from = integer_column a, rr_to = integer_column b,
       rr_days = days, rr_currency = currency\<rparr> in
     bindM (getM (\<lambda>ts. range_exists x (ts_ranges ts))) (\<lambda>dup.
     thenM (requireM (\<not> dup) (PrismaError ''P2002''))
     (thenM (modifyM (\<lambda>ts. ts\<lparr>ts_ranges := ts_ranges ts @ [x], ts_seq := Suc n\<rparr>)) (returnM x))))"

definition createRepaymentRange :: "env \<Rightarrow> (rat \<Rightarrow> string) \<Rightarrow> rangeDto \<Rightarrow> repaymentRange termm" where
  "createRepaymentRange env show_dec dto =
     bindM (getM first_settings) (\<lambda>r.
     bindM (someM r SETTINGS_MISSING) (\<lambda>x.
     thenM (requireM (\<not> rd_from dto \<ge> rd_to dto) (BadRequest ''from amount must be less than to amount''))
     (let currency = (case truthy (rd_currency dto) of None \<Rightarrow> ''NGN'' | Some c \<Rightarrow> c) in
      thenM (bindM (getM (checkRangeOverlap show_dec (us_id x) (rd_from dto) (rd_to dto) currency None)) liftM)
      (catchM
        (bindM (insertRange env (us_id x) (rd_from dto) (rd_to dto) (rd_days dto) (to_upper currency)) (\<lambda>y.
         thenM refreshRepaymentRangesCache (returnM y)))
        (\<lambda>e. throwM (if e = PrismaError ''P2002'' then BadRequest (''Repayment range already exists for currency ''
            @ to_upper currency @ '' with this amount range'') else e))))))"

record rangeUpdate =
  ru_from :: "rat option"
  ru_to :: "rat option"
  ru_days :: "int option"
  ru_currency :: "string option"

definition updateRepaymentRange :: "(rat \<Rightarrow> string) \<Rightarrow> string \<Rightarrow> rangeUpdate \<Rightarrow> repaymentRange termm" where
  "updateRepaymentRange show_dec rangeId dto =
     bindM (getM (\<lambda>ts. List.find (\<lambda>r. rr_id r = rangeId) (ts_ranges ts))) (\<lambda>r.
     bindM (someM r (NotFound ''Repayment range not found'')) (\<lambda>x.
     let a = given (ru_from dto) (of_int (rr_from x)); b = given (ru_to dto) (of_int (rr_to x));
         currency = (case truthy (map_option to_upper (ru_currency dto)) of None \<Rightarrow> rr_currency x | Some c \<Rightarrow> c);
         y = x\<lparr>rr_from := given (map_option integer_column (ru_from dto)) (rr_from x),
           rr_to := given (map_option integer_column (ru_to dto)) (rr_to x), rr_days := given (ru_days dto) (rr_days x),
           rr_currency := (if ru_currency dto = None then rr_currency x else to_upper currency)\<rparr> in
     thenM (requireM (\<not> (ru_from dto \<noteq> None \<and> ru_to dto \<noteq> None \<and> a \<ge> b)) (BadRequest ''from amount must be less than to amount''))
     (thenM (bindM (getM (checkRangeOverlap show_dec (rr_settingsId x) a b currency (Some rangeId))) liftM)
     (thenM (bindM (getM (\<lambda>ts. range_exists y (ts_ranges ts))) (\<lambda>dup. requireM (\<not> dup) (PrismaError ''P2002'')))
     (thenM (modifyM (\<lambda>ts. ts\<lparr>ts_ranges := update_where (\<lambda>r. rr_id r = rangeId) (\<lambda>_. y) (ts_ranges ts)\<rparr>))
     (thenM refreshRepaymentRangesCache (returnM y)))))))"

definition deleteRepaymentRange :: "string \<Rightarrow> unit termm" where
  "deleteRepaymentRange rangeId =
     bindM (getM (\<lambda>ts. List.find (\<lambda>r. rr_id r = rangeId) (ts_ranges ts))) (\<lambda>r.
     bindM (someM r (NotFound ''Repayment range not found'')) (\<lambda>_.
     thenM (modifyM (\<lambda>ts. ts\<lparr>ts_ranges := filter (\<lambda>r. rr_id r \<noteq> rangeId) (ts_ranges ts)\<rparr>)) refreshRepaymentRangesCache))"

section \<open>Many ranges at once\<close>

text \<open>A range that is valid becomes its amounts, its currency and its days.\<close>

definition valid_range :: "(rat \<Rightarrow> string) \<Rightarrow> string \<Rightarrow> termStore \<Rightarrow> rangeDto \<Rightarrow> (rat \<times> rat \<times> string \<times> int) option" where
  "valid_range show_dec settingsId ts dto =
     (let currency = to_upper (case truthy (rd_currency dto) of None \<Rightarrow> ''NGN'' | Some c \<Rightarrow> c) in
      if rd_from dto \<ge> rd_to dto then None
      else (case checkRangeOverlap show_dec settingsId (rd_from dto) (rd_to dto) currency None ts of
          Inl e \<Rightarrow> None | Inr u \<Rightarrow> Some (rd_from dto, rd_to dto, currency, rd_days dto)))"

text \<open>The first pair of one currency that overlaps.\<close>

fun overlapping_pair :: "(rat \<times> rat) list \<Rightarrow> ((rat \<times> rat) \<times> (rat \<times> rat)) option" where
  "overlapping_pair [] = None"
| "overlapping_pair ((a, b) # rs) =
     (case List.find (\<lambda>(from, to). ranges_overlap a b from to) rs of
        Some r \<Rightarrow> Some ((a, b), r) | None \<Rightarrow> overlapping_pair rs)"

definition new_overlap :: "(rat \<times> rat \<times> string \<times> int) list \<Rightarrow> ((rat \<times> rat) \<times> (rat \<times> rat)) option" where
  "new_overlap rs =
     (let currencies = rev (remdups (rev (map (\<lambda>(a, b, c, n). c) rs)));
          pairs = map (\<lambda>cur. overlapping_pair (map (\<lambda>(a, b, c, n). (a, b)) (filter (\<lambda>(a, b, c, n). c = cur) rs))) currencies
      in (case List.find (\<lambda>p. p \<noteq> None) pairs of None \<Rightarrow> None | Some p \<Rightarrow> p))"

definition checkNewRangesOverlap :: "(rat \<Rightarrow> string) \<Rightarrow> (rat \<times> rat \<times> string \<times> int) list \<Rightarrow> error + unit" where
  "checkNewRangesOverlap show_dec rs =
     (case new_overlap rs of
        None \<Rightarrow> Inr ()
      | Some ((a, b), (from, to)) \<Rightarrow> Inl (BadRequest (''New repayment ranges have overlapping amounts: '' @ show_dec a @ '' - ''
          @ show_dec b @ '' overlaps with '' @ show_dec from @ '' - '' @ show_dec to)))"

text \<open>All inserts in one transaction: none of them stays when one fails.\<close>

fun insertRanges :: "env \<Rightarrow> string \<Rightarrow> (rat \<times> rat \<times> string \<times> int) list \<Rightarrow> repaymentRange list termm" where
  "insertRanges env settingsId [] = returnM []"
| "insertRanges env settingsId ((a, b, c, n) # rs) =
     bindM (insertRange env settingsId a b n c) (\<lambda>x. bindM (insertRanges env settingsId rs) (\<lambda>xs. returnM (x # xs)))"

definition atomicM :: "'a termm \<Rightarrow> 'a termm" where
  "atomicM m = (\<lambda>ts. case m ts of (Inl e, _) \<Rightarrow> (Inl e, ts) | (Inr x, ts') \<Rightarrow> (Inr x, ts'))"

definition bulkCreateRepaymentRanges :: "env \<Rightarrow> (rat \<Rightarrow> string) \<Rightarrow> rangeDto list \<Rightarrow> repaymentRange list termm" where
  "bulkCreateRepaymentRanges env show_dec dtos =
     thenM (requireM (dtos \<noteq> []) (BadRequest ''No ranges provided''))
     (bindM (getM first_settings) (\<lambda>r.
      bindM (someM r SETTINGS_MISSING) (\<lambda>x.
      bindM (getM (\<lambda>ts. map (valid_range show_dec (us_id x) ts) dtos)) (\<lambda>vs.
      thenM (requireM (\<forall>v \<in> set vs. v \<noteq> None) (BadRequest (show_nat (length (filter (\<lambda>v. v = None) vs))
          @ '' range(s) failed validation. Please review the errors and try again.'')))
      (let ranges = List.map_filter id vs in
       thenM (liftM (checkNewRangesOverlap show_dec ranges))
       (catchM
         (bindM (atomicM (insertRanges env (us_id x) ranges)) (\<lambda>ys. thenM refreshRepaymentRangesCache (returnM ys)))
         (\<lambda>e. throwM (if e = PrismaError ''P2002'' then BadRequest ''One or more repayment ranges already exist. Please check for duplicates.''
            else e))))))))"

end
