(* ===== verification/Loans.thy ===== *)
theory Loans
  imports Bills Ranges
begin

text \<open>
  Urgent loans (\<^verbatim>\<open>urgent-liquidity.service.ts\<close>): a user borrows naira against a balance; the quote, the
  preview with the terms, and the confirmation, which has the collateral sold at the exchange. The
  order webhook (theory \<open>OrderDone\<close>) books the sale and pays the loan out.

  Arithmetic of decimal.js is \<open>quoteOps\<close>, its \<^verbatim>\<open>toString\<close> is \<open>show_dec\<close>, the answer of the settings cache
  (theory \<open>Ranges\<close>) is \<open>terms\<close>, the ticker's answer is \<open>price\<close>. What the database client makes of a number it
  is given for a text column is \<open>text_column\<close>. The server's calendar is UTC.
\<close>

section \<open>A quote\<close>

definition URGENT_LIQUIDITY_QUOTE_TTL :: int where
  "URGENT_LIQUIDITY_QUOTE_TTL = 600"

record loanDto =
  ld_loanAmount :: string
  ld_collateralAssetId :: string

record loanView =
  lv_quoteId :: "string option"
  lv_asset :: string
  lv_assetId :: string
  lv_balance :: string
  lv_balanceValueNgn :: string
  lv_maxLoan :: string
  lv_hasSufficientBalance :: bool
  lv_message :: "string option"

definition loan_toBase :: "env \<Rightarrow> (rat \<Rightarrow> string) \<Rightarrow> rat \<Rightarrow> string \<Rightarrow> error + int" where
  "loan_toBase env show_dec amount currency = toBase (e_cv env) (show_dec amount) currency None"

definition userFacingStatus :: "loanStatus \<Rightarrow> loanStatus" where
  "userFacingStatus st = (if st = LnQUIDAX_COMPLETED \<or> st = LnPAYSTACK_COMPLETED then LnPENDING else st)"

definition loan_rate :: "env \<Rightarrow> string \<Rightarrow> string option \<Rightarrow> error + rat" where
  "loan_rate env symbol price =
     (case (if symbol = ''NGN'' then Some ''1'' else truthy price) of
        None \<Rightarrow> Inl (BadRequest (''Unable to fetch '' @ symbol @ ''/NGN conversion rate''))
      | Some p \<Rightarrow> (case decimal_of env p of Inl e \<Rightarrow> Inl e
          | Inr v \<Rightarrow> if v \<le> 0 then Inl (BadRequest (''Invalid conversion rate for '' @ symbol)) else Inr v))"

text \<open>The whole balance counts, whatever part of it is reserved.\<close>

definition loan_limit :: "env \<Rightarrow> quoteOps \<Rightarrow> string \<Rightarrow> rat \<Rightarrow> wallet \<Rightarrow> error + (string \<times> rat \<times> rat)" where
  "loan_limit env ops symbol rate w =
     (case fromBase (e_cv env) (ABigInt (w_baseBalance w)) symbol None of Inl e \<Rightarrow> Inl e | Inr shown \<Rightarrow>
     (case decimal_of env shown of Inl e \<Rightarrow> Inl e | Inr b \<Rightarrow>
        let v = qo_mul ops b rate in Inr (shown, v, qo_mul ops v (1 / 2))))"

definition loan_quote_of ::
    "env \<Rightarrow> quoteOps \<Rightarrow> (rat \<Rightarrow> string) \<Rightarrow> string \<Rightarrow> string \<Rightarrow> loanDto \<Rightarrow> string \<Rightarrow> rat \<Rightarrow> rat \<Rightarrow> wallet \<Rightarrow> string \<Rightarrow> error + loanQuote" where
  "loan_quote_of env ops show_dec quoteId userId dto symbol rate amount w shown =
     (let collateral = show_dec (qo_div ops amount rate) in
      case loan_toBase env show_dec amount ''NGN'' of Inl e \<Rightarrow> Inl e | Inr base \<Rightarrow>
      (case decimal_of env collateral of Inl e \<Rightarrow> Inl e | Inr c \<Rightarrow>
      (case loan_toBase env show_dec c symbol of Inl e \<Rightarrow> Inl e | Inr cbase \<Rightarrow>
        Inr \<lparr>hq_quoteId = quoteId, hq_userId = userId, hq_assetId = ld_collateralAssetId dto, hq_asset = symbol,
          hq_walletBalanceBase = w_baseBalance w, hq_walletBalanceOriginal = shown, hq_loanAmount = ld_loanAmount dto,
          hq_loanAmountBase = base, hq_collateralAmountOriginal = collateral, hq_collateralAmountBase = cbase,
          hq_tickerRate = show_dec rate, hq_bankAccountId = None\<rparr>)))"

definition loan_quote ::
    "env \<Rightarrow> quoteOps \<Rightarrow> (rat \<Rightarrow> string) \<Rightarrow> string option \<Rightarrow> string \<Rightarrow> string \<Rightarrow> loanDto \<Rightarrow> loanView sysm" where
  "loan_quote env ops show_dec price uuid userId dto =
     bindM (getM (\<lambda>s. crypto_by_id (ld_collateralAssetId dto) (s_db s))) (\<lambda>ra.
     bindM (someM ra (NotFound ''Collateral asset not found'')) (\<lambda>asset.
     let symbol = to_upper (c_symbol asset); quoteId = ''urgent-liquidity:'' @ uuid in
     bindM (liftM (loan_rate env symbol price)) (\<lambda>rate.
     bindM (getM (\<lambda>s. wallet_by_currencyId userId (c_id asset) (s_db s))) (\<lambda>rw.
     bindM (someM rw (NotFound (''Wallet not found for '' @ symbol))) (\<lambda>w.
     bindM (liftM (loan_limit env ops symbol rate w)) (\<lambda>(shown, v, most).
     bindM (liftM (decimal_of env (ld_loanAmount dto))) (\<lambda>amount.
       let view = \<lparr>lv_quoteId = None, lv_asset = symbol, lv_assetId = c_id asset, lv_balance = shown,
         lv_balanceValueNgn = qo_fixed ops v 2, lv_maxLoan = qo_fixed ops most 2, lv_hasSufficientBalance = False,
         lv_message = Some (''Max loan allowed is '' @ qo_fixed ops most 2 @ '' NGN (50% of '' @ symbol @ '' value)'')\<rparr> in
       if \<not> amount \<le> most then returnM view
       else
         bindM (liftM (loan_quote_of env ops show_dec quoteId userId dto symbol rate amount w shown)) (\<lambda>q.
         thenM (tempSet env quoteId (TLoanQuote q) URGENT_LIQUIDITY_QUOTE_TTL)
           (returnM (view\<lparr>lv_quoteId := Some quoteId, lv_hasSufficientBalance := True, lv_message := None\<rparr>))))))))))"

section \<open>Terms\<close>

text \<open>The currency of a range is not looked at.\<close>

definition findRepaymentRange :: "repaymentRange list \<Rightarrow> rat \<Rightarrow> repaymentRange option" where
  "findRepaymentRange ranges amount = List.find (\<lambda>r. amount \<ge> of_int (rr_from r) \<and> amount \<le> of_int (rr_to r)) ranges"

text \<open>The amount, the interest, both together, the days and the due date.\<close>

definition loan_terms :: "env \<Rightarrow> quoteOps \<Rightarrow> urgentSettings \<times> repaymentRange list \<Rightarrow> loanQuote \<Rightarrow> error + (rat \<times> rat \<times> rat \<times> int \<times> int)" where
  "loan_terms env ops terms q =
     (case decimal_of env (hq_loanAmount q) of Inl e \<Rightarrow> Inl e | Inr amount \<Rightarrow>
        let interest = qo_div ops (qo_mul ops amount (us_loanFeePercent (fst terms))) 100;
            days = (case findRepaymentRange (snd terms) amount of None \<Rightarrow> 30 | Some r \<Rightarrow> rr_days r)
        in Inr (amount, interest, qo_add ops amount interest, days, e_now env + days * 86400000))"

definition stored_loan_quote :: "env \<Rightarrow> string \<Rightarrow> sys \<Rightarrow> loanQuote option" where
  "stored_loan_quote env quoteId s = (case temp_lookup env quoteId s of Some (TLoanQuote q) \<Rightarrow> Some q | _ \<Rightarrow> None)"

definition check_loan_quote :: "env \<Rightarrow> string \<Rightarrow> string \<Rightarrow> loanQuote sysm" where
  "check_loan_quote env userId quoteId =
     bindM (getM (stored_loan_quote env quoteId)) (\<lambda>r.
     bindM (someM r (NotFound ''Quote not found or expired'')) (\<lambda>q.
     thenM (requireM (hq_userId q = userId) (BadRequest ''Quote does not belong to authenticated user'')) (returnM q)))"

definition TERMS_MISSING :: error where
  "TERMS_MISSING = NotFound ''Urgent liquidity settings not configured. Please contact support.''"

text \<open>A quote without a bank account asks for any account of the user.\<close>

definition loan_account :: "string \<Rightarrow> string option \<Rightarrow> db \<Rightarrow> bankAccount option" where
  "loan_account userId i d = List.find (\<lambda>b. (i = None \<or> Some (ba_id b) = i) \<and> ba_userId b = userId) (d_bankAccounts d)"

definition collateral_value :: "env \<Rightarrow> quoteOps \<Rightarrow> loanQuote \<Rightarrow> error + rat" where
  "collateral_value env ops q =
     (case decimal_of env (hq_collateralAmountOriginal q) of Inl e \<Rightarrow> Inl e | Inr c \<Rightarrow>
     (case decimal_of env (hq_tickerRate q) of Inl e \<Rightarrow> Inl e | Inr r \<Rightarrow> Inr (qo_mul ops c r)))"

record loanPreview =
  lp_quoteId :: string
  lp_balanceValueNgn :: string
  lp_loanAmount :: string
  lp_interestRate :: rat
  lp_interestAmount :: string
  lp_totalRepayable :: string
  lp_repaymentDurationDays :: int
  lp_dueDate :: int
  lp_settlementPercent :: rat
  lp_collateralPercent :: rat
  lp_collateralAmountAsset :: string
  lp_collateralAmountNgn :: string
  lp_bankAccountId :: string

definition loan_preview_view ::
    "env \<Rightarrow> quoteOps \<Rightarrow> urgentSettings \<Rightarrow> loanQuote \<Rightarrow> bankAccount \<Rightarrow> rat \<times> rat \<times> rat \<times> int \<times> int \<Rightarrow> error + loanPreview" where
  "loan_preview_view env ops settings q b = (\<lambda>(amount, interest, whole, days, due).
     (case decimal_of env (hq_walletBalanceOriginal q) of Inl e \<Rightarrow> Inl e | Inr balance \<Rightarrow>
     (case decimal_of env (hq_tickerRate q) of Inl e \<Rightarrow> Inl e | Inr rate \<Rightarrow>
     (case collateral_value env ops q of Inl e \<Rightarrow> Inl e | Inr c \<Rightarrow>
       Inr \<lparr>lp_quoteId = hq_quoteId q, lp_balanceValueNgn = qo_fixed ops (qo_mul ops balance rate) 2,
         lp_loanAmount = qo_fixed ops amount 2, lp_interestRate = us_loanFeePercent settings,
         lp_interestAmount = qo_fixed ops interest 2, lp_totalRepayable = qo_fixed ops whole 2,
         lp_repaymentDurationDays = days, lp_dueDate = due, lp_settlementPercent = us_settlementPercent settings,
         lp_collateralPercent = us_collateralPercent settings, lp_collateralAmountAsset = hq_collateralAmountOriginal q,
         lp_collateralAmountNgn = qo_fixed ops c 2, lp_bankAccountId = ba_id b\<rparr>))))"

definition loan_preview ::
    "env \<Rightarrow> quoteOps \<Rightarrow> (urgentSettings \<times> repaymentRange list) option \<Rightarrow> string \<Rightarrow> string \<Rightarrow> string \<Rightarrow> loanPreview sysm" where
  "loan_preview env ops terms userId quoteId bankAccountId =
     bindM (check_loan_quote env userId quoteId) (\<lambda>q.
     bindM (getM (\<lambda>s. loan_account userId (Some bankAccountId) (s_db s))) (\<lambda>rb.
     bindM (someM rb (NotFound ''Bank account not found'')) (\<lambda>b.
     bindM (someM terms TERMS_MISSING) (\<lambda>t.
     bindM (liftM (loan_terms env ops t q)) (\<lambda>v.
     thenM (tempSet env quoteId (TLoanQuote (q\<lparr>hq_bankAccountId := Some (ba_id b)\<rparr>)) URGENT_LIQUIDITY_QUOTE_TTL)
       (liftM (loan_preview_view env ops (fst t) q b v)))))))"

section \<open>Confirmation\<close>

definition loan_row ::
    "env \<Rightarrow> quoteOps \<Rightarrow> (rat \<Rightarrow> string) \<Rightarrow> string \<Rightarrow> loanQuote \<Rightarrow> bankAccount \<Rightarrow> rat \<times> rat \<times> rat \<times> int \<times> int \<Rightarrow> string \<Rightarrow> error + urgentLoan" where
  "loan_row env ops show_dec userId q b = (\<lambda>(amount, interest, whole, days, due) i.
     (case loan_toBase env show_dec interest ''NGN'' of Inl e \<Rightarrow> Inl e | Inr interestBase \<Rightarrow>
     (case loan_toBase env show_dec whole ''NGN'' of Inl e \<Rightarrow> Inl e | Inr wholeBase \<Rightarrow>
     (case collateral_value env ops q of Inl e \<Rightarrow> Inl e | Inr c \<Rightarrow>
     (case loan_toBase env show_dec c ''NGN'' of Inl e \<Rightarrow> Inl e | Inr liquidity \<Rightarrow>
       Inr \<lparr>ul_id = i, ul_userId = userId, ul_quoteId = hq_quoteId q, ul_collateralAssetId = hq_assetId q,
         ul_collateralAssetSymbol = hq_asset q, ul_loanAmount = hq_loanAmountBase q, ul_interestAmount = interestBase,
         ul_totalRepayable = wholeBase, ul_dueDate = due, ul_status = LnPENDING,
         ul_collateralAmountAsset = hq_collateralAmountBase q, ul_bankAccountName = ba_bankAccountName b,
         ul_bankAccountNumber = ba_bankAccountNumber b, ul_bankCode = ba_bankCode b, ul_liquidityValue = liquidity,
         ul_quidaxSwapId = None, ul_paystackTransferId = None, ul_failureReason = None\<rparr>)))))"

definition insertLoan :: "urgentLoan \<Rightarrow> unit dbm" where
  "insertLoan l =
     bindM (getM (\<lambda>d. List.find (\<lambda>x. ul_quoteId x = ul_quoteId l) (d_loans d))) (\<lambda>x.
       if x = None then modifyM (\<lambda>d. d\<lparr>d_loans := d_loans d @ [l]\<rparr>) else throwM (PrismaError ''P2002''))"

record loanAnswer =
  la_status :: string
  la_id :: "string option"
  la_message :: "string option"

definition EM_DASH :: string where
  "EM_DASH = [CHR 0xE2, CHR 0x80, CHR 0x94]"

text \<open>Whatever fails after the loan was created, the storing of the order's id included, fails the loan.\<close>

definition loan_sell :: "env \<Rightarrow> error + loanAnswer \<Rightarrow> loanQuote \<Rightarrow> urgentLoan \<Rightarrow> unit sysm" where
  "loan_sell env answer q l =
     catchM
       (thenM (callM (CallOrder (to_lower (hq_asset q) @ ''ngn'') ''sell'' (hq_collateralAmountOriginal q)))
       (bindM (liftM answer) (\<lambda>a.
          case (if la_status a = ''success'' then truthy (la_id a) else None) of
            None \<Rightarrow> throwM (PlainError (case truthy (la_message a) of None \<Rightarrow> ''Quidax sell order placement failed'' | Some m \<Rightarrow> m))
          | Some i \<Rightarrow> txM env ''loan_order'' (updLoans (\<lambda>x. ul_id x = ul_id l) (\<lambda>x. x\<lparr>ul_quidaxSwapId := Some i\<rparr>)))))
       (\<lambda>e. thenM (dbM (updLoans (\<lambda>x. ul_id x = ul_id l)
            (\<lambda>x. x\<lparr>ul_status := LnFAILED, ul_failureReason := Some (''Collateral sell failed: '' @ err_msg e)\<rparr>)))
          (throwM (BadRequest (''Loan creation failed: collateral sell error '' @ EM_DASH @ '' '' @ err_msg e))))"

definition confirmLoan ::
    "env \<Rightarrow> quoteOps \<Rightarrow> (rat \<Rightarrow> string) \<Rightarrow> (string \<Rightarrow> error + string) \<Rightarrow> (string \<Rightarrow> bool) \<Rightarrow> error + loanAnswer
       \<Rightarrow> (urgentSettings \<times> repaymentRange list) option \<Rightarrow> string \<Rightarrow> string \<Rightarrow> (string \<times> loanStatus) sysm" where
  "confirmLoan env ops show_dec text_column pinOk answer terms userId quoteId =
     thenM (check_user_pin pinOk userId ''Invalid PIN'')
     (bindM (check_loan_quote env userId quoteId) (\<lambda>q.
      bindM (someM terms TERMS_MISSING) (\<lambda>t.
      bindM (liftM (loan_terms env ops t q)) (\<lambda>v.
      bindM (getM (\<lambda>s. loan_account userId (hq_bankAccountId q) (s_db s))) (\<lambda>rb.
      bindM (someM rb (NotFound ''Bank account not found'')) (\<lambda>b.
      bindM (dbM (freshM env)) (\<lambda>i.
      bindM (liftM (loan_row env ops show_dec userId q b v i)) (\<lambda>l.
      bindM (liftM (text_column (hq_loanAmount q))) (\<lambda>_.
      thenM (dbM (insertLoan l))
      (thenM (loan_sell env answer q l)
      (thenM (tempDel quoteId) (returnM (ul_id l, userFacingStatus (ul_status l))))))))))))))"

section \<open>Overview and history\<close>

definition loan_overview :: "env \<Rightarrow> string \<Rightarrow> string sysm" where
  "loan_overview env userId =
     bindM (getM (\<lambda>s. sum_list (map ul_loanAmount (filter (\<lambda>l. ul_userId l = userId) (d_loans (s_db s)))))) (\<lambda>amount.
       liftM (fromBase (e_cv env) (ABigInt amount) ''NGN'' None))"

record loanItem =
  li_id :: string
  li_collateralAsset :: string
  li_dueDate :: int
  li_status :: loanStatus
  li_accountNumber :: string

definition loan_item :: "urgentLoan \<Rightarrow> loanItem" where
  "loan_item l = \<lparr>li_id = ul_id l, li_collateralAsset = ul_collateralAssetSymbol l, li_dueDate = ul_dueDate l,
     li_status = userFacingStatus (ul_status l), li_accountNumber = ul_bankAccountNumber l\<rparr>"

text \<open>The page, its number, the limit, the number of loans and of pages. Rows stand in the order they were created.\<close>

definition loan_history :: "string \<Rightarrow> int \<Rightarrow> int \<Rightarrow> (loanItem list \<times> int \<times> int \<times> nat \<times> int) sysm" where
  "loan_history userId page limit =
     (let safeLimit = min (max (if limit = 0 then 20 else limit) 1) 50;
          safePage = max (if page = 0 then 1 else page) 1 in
      bindM (getM (\<lambda>s. rev (filter (\<lambda>l. ul_userId l = userId) (d_loans (s_db s))))) (\<lambda>rows.
        returnM (map loan_item (take (nat safeLimit) (drop (nat ((safePage - 1) * safeLimit)) rows)), safePage, safeLimit,
          length rows, - ((- int (length rows)) div safeLimit))))"

end
