(* ===== verification/RangeSafety.thy ===== *)
theory RangeSafety
  imports Ranges
begin

text \<open>
  The repayment ranges stay disjoint, as long as amounts are whole and bounds change together; with a
  currency in lower case they do not. What the cache shows of the settings.
\<close>

section \<open>The requests of an administrator\<close>

datatype termOp =
    UpdateSettings settingsDto
  | CreateRange rangeDto
  | UpdateRange string rangeUpdate
  | DeleteRange string
  | BulkCreate "rangeDto list"
  | ReadTerms

definition run_op :: "env \<Rightarrow> (rat \<Rightarrow> string) \<Rightarrow> termOp \<Rightarrow> termStore \<Rightarrow> termStore" where
  "run_op env show_dec x ts =
     (case x of
        UpdateSettings dto \<Rightarrow> snd (updateSettings dto ts)
      | CreateRange dto \<Rightarrow> snd (createRepaymentRange env show_dec dto ts)
      | UpdateRange i dto \<Rightarrow> snd (updateRepaymentRange show_dec i dto ts)
      | DeleteRange i \<Rightarrow> snd (deleteRepaymentRange i ts)
      | BulkCreate dtos \<Rightarrow> snd (bulkCreateRepaymentRanges env show_dec dtos ts)
      | ReadTerms \<Rightarrow> snd (getTermSettings ts))"

section \<open>The settings the cache shows\<close>

definition shows_settings :: "urgentSettings \<Rightarrow> termStore \<Rightarrow> bool" where
  "shows_settings x ts \<longleftrightarrow> (\<exists>rs. ts_all ts = Some (x, rs))"

lemma shows_modify:
  "(\<And>ts. ts_all (f ts) = ts_all ts) \<Longrightarrow> preserves (shows_settings x) (modifyM f)"
  by (auto simp: preserves_wp wp_simps shows_settings_def)

lemma shows_refresh [preserves_intros]: "preserves (shows_settings x) refreshRepaymentRangesCache"
  by (auto simp: preserves_wp wp_simps shows_settings_def refreshRepaymentRangesCache_def)

lemma shows_atomic: "preserves I m \<Longrightarrow> preserves I (atomicM m)"
  by (auto simp: preserves_wp wp_def atomicM_def split: prod.splits sum.splits)

lemma shows_insert: "preserves (shows_settings x) (insertRange env i a b n c)"
  unfolding insertRange_def Let_def by (intro preserves_intros shows_modify) simp

lemma shows_inserts: "preserves (shows_settings x) (insertRanges env i rs)"
  by (induction env i rs rule: insertRanges.induct) (simp_all, (intro preserves_intros shows_insert)+, assumption)

lemma shows_ops:
  "preserves (shows_settings x) (updateSettings sdto)" "preserves (shows_settings x) (createRepaymentRange env show_dec dto)"
  "preserves (shows_settings x) (updateRepaymentRange show_dec i udto)" "preserves (shows_settings x) (deleteRepaymentRange i)"
  "preserves (shows_settings x) (bulkCreateRepaymentRanges env show_dec dtos)"
  unfolding updateSettings_def createRepaymentRange_def updateRepaymentRange_def deleteRepaymentRange_def bulkCreateRepaymentRanges_def
    refreshSettingsCache_def Let_def
  by (intro preserves_intros shows_modify shows_refresh shows_insert shows_atomic shows_inserts; simp)+

lemma shows_run_op:
  assumes "shows_settings x ts"
  shows "shows_settings x (run_op env show_dec p ts)"
proof -
  have "shows_settings x (snd (getTermSettings ts))"
    using assms by (auto simp: shows_settings_def getTermSettings_def getWithFallback_def comp_defs)
  then show ?thesis
    using assms preservesD [OF shows_ops(1)] preservesD [OF shows_ops(2)] preservesD [OF shows_ops(3)] preservesD [OF shows_ops(4)]
      preservesD [OF shows_ops(5)]
    by (cases p) (simp_all add: run_op_def)
qed

text \<open>Once the settings are cached, no change an administrator makes to them is ever seen by those who read them: the
  update refreshes another entry than the one that is read.\<close>

theorem updated_settings_unseen:
  assumes "ts_all ts = Some (x, rs)"
  shows "\<exists>rs'. fst (getTermSettings (fold (run_op env show_dec) ops ts)) = Inr (x, rs')"
proof -
  have "shows_settings x (fold (run_op env show_dec) ops ts)"
    by (rule fold_invariant [where Q = "\<lambda>_. True"]) (use assms in \<open>auto simp: shows_run_op\<close>, auto simp: shows_settings_def)
  then show ?thesis by (auto simp: shows_settings_def getTermSettings_def getWithFallback_def comp_defs)
qed

section \<open>Disjoint ranges\<close>

definition apart :: "repaymentRange \<Rightarrow> repaymentRange \<Rightarrow> bool" where
  "apart r s \<longleftrightarrow> rr_settingsId r \<noteq> rr_settingsId s \<or> rr_currency r \<noteq> rr_currency s \<or> rr_to r < rr_from s \<or> rr_to s < rr_from r"

definition range_ok :: "repaymentRange \<Rightarrow> bool" where
  "range_ok r \<longleftrightarrow> rr_from r < rr_to r \<and> to_upper (rr_currency r) = rr_currency r"

definition ranges_ok :: "env \<Rightarrow> termStore \<Rightarrow> bool" where
  "ranges_ok env ts \<longleftrightarrow> list_all range_ok (ts_ranges ts) \<and> sorted_wrt apart (ts_ranges ts)
     \<and> distinct (map rr_id (ts_ranges ts)) \<and> (\<forall>r \<in> set (ts_ranges ts). \<exists>n < ts_seq ts. rr_id r = e_cuid env n)"

text \<open>Whole amounts, a currency in capitals, and bounds that change together.\<close>

definition whole :: "rat \<Rightarrow> bool" where
  "whole x \<longleftrightarrow> of_int \<lfloor>x\<rfloor> = x"

definition capitals :: "string option \<Rightarrow> bool" where
  "capitals c \<longleftrightarrow> (case c of None \<Rightarrow> True | Some x \<Rightarrow> to_upper x = x)"

definition plain_op :: "termOp \<Rightarrow> bool" where
  "plain_op x \<longleftrightarrow> (case x of
       CreateRange dto \<Rightarrow> whole (rd_from dto) \<and> whole (rd_to dto) \<and> capitals (rd_currency dto)
     | UpdateRange i dto \<Rightarrow> (case (ru_from dto, ru_to dto) of
         (None, None) \<Rightarrow> True | (Some a, Some b) \<Rightarrow> whole a \<and> whole b | _ \<Rightarrow> False)
     | BulkCreate dtos \<Rightarrow> list_all (\<lambda>dto. whole (rd_from dto) \<and> whole (rd_to dto)) dtos
     | _ \<Rightarrow> True)"

lemma to_upper_upper [simp]: "to_upper (to_upper s) = to_upper s"
  by (metis to_upper_lower to_lower_upper)

lemma whole_cases: "whole x \<Longrightarrow> (\<And>i. x = of_int i \<Longrightarrow> P) \<Longrightarrow> P"
  by (metis whole_def)

lemma integer_column_whole [simp]: "integer_column (of_int i) = i"
  by (simp add: integer_column_def floor_eq_iff)

lemma integer_column_numeral [simp]: "integer_column (numeral n) = numeral n" "integer_column 1 = 1"
  using integer_column_whole [of "numeral n"] integer_column_whole [of 1] by simp_all

text \<open>The check of the code, on bounds that are in order: the two intervals have a point in common.\<close>

lemma overlap_iff:
  "a \<le> b \<Longrightarrow> from \<le> to \<Longrightarrow> ranges_overlap a b from to \<longleftrightarrow> \<not> (b < from \<or> to < a)"
  by (auto simp: ranges_overlap_def)

lemma overlap_sym: "a \<le> b \<Longrightarrow> from \<le> to \<Longrightarrow> ranges_overlap a b from to = ranges_overlap from to a b"
  by (auto simp: overlap_iff)

lemma overlap_apart:
  "rr_from r < rr_to r \<Longrightarrow> rr_from s < rr_to s \<Longrightarrow>
     apart r s \<longleftrightarrow> rr_settingsId r \<noteq> rr_settingsId s \<or> rr_currency r \<noteq> rr_currency s
       \<or> \<not> ranges_overlap (of_int (rr_from r)) (of_int (rr_to r)) (of_int (rr_from s)) (of_int (rr_to s))"
  by (auto simp: apart_def overlap_iff)

lemma apart_sym: "apart r s \<Longrightarrow> apart s r"
  by (auto simp: apart_def)

lemma checked_apart:
  assumes "checkRangeOverlap show_dec i (of_int a) (of_int b) c ex ts = Inr u" "a < b" "list_all range_ok (ts_ranges ts)"
    and "r \<in> set (ts_ranges ts)" "Some (rr_id r) \<noteq> ex" "rr_from x = a" "rr_to x = b" "rr_settingsId x = i" "rr_currency x = c"
  shows "apart r x"
proof -
  have "rr_from r < rr_to r" using assms(3,4) by (auto simp: list_all_iff range_ok_def)
  moreover have "rr_settingsId r = i \<and> rr_currency r = c \<longrightarrow>
      \<not> ranges_overlap (of_int a) (of_int b) (of_int (rr_from r)) (of_int (rr_to r))"
    using assms(1,4,5) by (auto simp: checkRangeOverlap_def find_None_iff split: option.splits)
  ultimately show ?thesis using assms(2,6-9) by (auto simp: apart_def overlap_iff)
qed

lemma ranges_ok_cong:
  "ranges_ok env ts \<Longrightarrow> ts_ranges ts' = ts_ranges ts \<Longrightarrow> ts_seq ts' = ts_seq ts \<Longrightarrow> ranges_ok env ts'"
  by (simp add: ranges_ok_def)

lemma refresh_ranges [simp]: "ts_ranges (snd (refreshRepaymentRangesCache ts)) = ts_ranges ts"
  "ts_seq (snd (refreshRepaymentRangesCache ts)) = ts_seq ts" "fst (refreshRepaymentRangesCache ts) = Inr ()"
  by (auto simp: refreshRepaymentRangesCache_def refreshUrgentLiquidityCache_def comp_defs split: option.splits)

lemma refresh_run: "refreshRepaymentRangesCache ts = (r, ts') \<Longrightarrow> r = Inr () \<and> ts_ranges ts' = ts_ranges ts \<and> ts_seq ts' = ts_seq ts"
  using refresh_ranges [of ts] by simp

lemma insert_ok:
  assumes "inj (e_cuid env)" "ranges_ok env ts" "range_ok x" "rr_id x = e_cuid env (ts_seq ts)" "\<forall>r \<in> set (ts_ranges ts). apart r x"
  shows "ranges_ok env (ts\<lparr>ts_ranges := ts_ranges ts @ [x], ts_seq := Suc (ts_seq ts)\<rparr>)"
proof -
  have "rr_id x \<notin> set (map rr_id (ts_ranges ts))"
    using assms(1,2,4) by (fastforce simp: ranges_ok_def inj_eq)
  then show ?thesis
    using assms(2-5) by (auto simp: ranges_ok_def sorted_wrt_append less_Suc_eq)
qed

definition new_range :: "env \<Rightarrow> string \<Rightarrow> rat \<Rightarrow> rat \<Rightarrow> int \<Rightarrow> string \<Rightarrow> termStore \<Rightarrow> repaymentRange" where
  "new_range env i a b days c ts = \<lparr>rr_id = e_cuid env (ts_seq ts), rr_settingsId = i, rr_from = integer_column a,
     rr_to = integer_column b, rr_days = days, rr_currency = c\<rparr>"

lemma insertRange_eq:
  "insertRange env i a b days c ts =
     (let x = new_range env i a b days c ts in
      if range_exists x (ts_ranges ts) then (Inl (PrismaError ''P2002''), ts)
      else (Inr x, ts\<lparr>ts_ranges := ts_ranges ts @ [x], ts_seq := Suc (ts_seq ts)\<rparr>))"
  by (simp add: insertRange_def new_range_def comp_defs Let_def)

lemma insertRange_ok:
  assumes "inj (e_cuid env)" "ranges_ok env ts" "a < b" "to_upper c = c"
    and "\<forall>r \<in> set (ts_ranges ts). apart r (new_range env i (of_int a) (of_int b) days c ts)"
    and "insertRange env i (of_int a) (of_int b) days c ts = (res, ts')"
  shows "ranges_ok env ts'"
proof -
  let ?x = "new_range env i (of_int a) (of_int b) days c ts"
  have "ranges_ok env (ts\<lparr>ts_ranges := ts_ranges ts @ [?x], ts_seq := Suc (ts_seq ts)\<rparr>)"
    by (rule insert_ok [OF assms(1,2) _ _ assms(5)]) (simp_all add: range_ok_def new_range_def assms(3,4))
  then show ?thesis using assms(2,6) by (auto simp: insertRange_eq Let_def split: if_splits)
qed

lemma create_ok:
  assumes "inj (e_cuid env)" "ranges_ok env ts" "plain_op (CreateRange dto)"
  shows "ranges_ok env (snd (createRepaymentRange env show_dec dto ts))"
proof (cases "\<exists>x u. first_settings ts = Some x \<and> rd_from dto < rd_to dto
    \<and> checkRangeOverlap show_dec (us_id x) (rd_from dto) (rd_to dto) (case truthy (rd_currency dto) of None \<Rightarrow> ''NGN'' | Some c \<Rightarrow> c) None ts = Inr u")
  case True
  let ?c = "case truthy (rd_currency dto) of None \<Rightarrow> ''NGN'' | Some c \<Rightarrow> c"
  from True obtain x u where x: "first_settings ts = Some x" "rd_from dto < rd_to dto"
    "checkRangeOverlap show_dec (us_id x) (rd_from dto) (rd_to dto) ?c None ts = Inr u" by blast
  from assms(3) obtain a b where ab: "rd_from dto = of_int a" "rd_to dto = of_int b" by (auto simp: plain_op_def elim!: whole_cases)
  have c: "to_upper ?c = ?c" using assms(3)
    by (auto simp: plain_op_def capitals_def truthy_def eval_simps split: option.splits)
  have ok: "list_all range_ok (ts_ranges ts)" using assms(2) by (simp add: ranges_ok_def)
  have "\<forall>r \<in> set (ts_ranges ts). apart r (new_range env (us_id x) (of_int a) (of_int b) (rd_days dto) ?c ts)"
    using checked_apart [OF x(3) [unfolded ab] _ ok] x(2) by (simp add: ab new_range_def)
  then have i: "ranges_ok env (snd (insertRange env (us_id x) (rd_from dto) (rd_to dto) (rd_days dto) ?c ts))"
    using insertRange_ok [OF assms(1,2) _ c] x(2) by (metis ab of_int_less_iff prod.collapse)
  obtain r ts1 where ins: "insertRange env (us_id x) (rd_from dto) (rd_to dto) (rd_days dto) ?c ts = (r, ts1)" by fastforce
  have "ts_ranges (snd (createRepaymentRange env show_dec dto ts)) = ts_ranges ts1
      \<and> ts_seq (snd (createRepaymentRange env show_dec dto ts)) = ts_seq ts1"
    using x ins c by (auto simp: createRepaymentRange_def comp_defs Let_def split: sum.splits prod.splits
        dest!: refresh_run)
  with i ins show ?thesis by (auto intro: ranges_ok_cong)
next
  case False
  then have "snd (createRepaymentRange env show_dec dto ts) = ts"
    by (cases "first_settings ts"; cases "rd_from dto < rd_to dto";
        cases "checkRangeOverlap show_dec (us_id (the (first_settings ts))) (rd_from dto) (rd_to dto) (case truthy (rd_currency dto) of None \<Rightarrow> ''NGN'' | Some c \<Rightarrow> c) None ts")
      (auto simp: createRepaymentRange_def comp_defs Let_def)
  with assms(2) show ?thesis by simp
qed

lemma update_apart:
  assumes "sorted_wrt R xs" "distinct (map k xs)" "\<And>x. x \<in> set xs \<Longrightarrow> k x \<noteq> i \<Longrightarrow> R x y" "\<And>a b. R a b \<Longrightarrow> R b a"
  shows "sorted_wrt R (update_where (\<lambda>x. k x = i) (\<lambda>_. y) xs)"
  using assms
proof (induction xs)
  case (Cons x xs)
  have IH: "sorted_wrt R (update_where (\<lambda>x. k x = i) (\<lambda>_. y) xs)" by (rule Cons.IH) (use Cons.prems in auto)
  have "R (if k x = i then y else x) z" if z: "z \<in> set (update_where (\<lambda>x. k x = i) (\<lambda>_. y) xs)" for z
  proof -
    obtain w where w: "w \<in> set xs" "z = (if k w = i then y else w)" using z by (auto simp: update_where_def)
    show ?thesis
    proof (cases "k x = i")
      case True
      then have "k w \<noteq> i" using Cons.prems(2) w(1) by (metis distinct.simps(2) image_eqI list.set_map list.simps(9))
      with True w Cons.prems(3,4) show ?thesis by (metis list.set_intros(2))
    next
      case False
      with w Cons.prems show ?thesis by auto
    qed
  qed
  with IH show ?case by (simp add: update_where_def)
qed (simp add: update_where_def)

lemma update_ok:
  assumes "ranges_ok env ts" "plain_op (UpdateRange i dto)"
  shows "ranges_ok env (snd (updateRepaymentRange show_dec i dto ts))"
proof (cases "List.find (\<lambda>r. rr_id r = i) (ts_ranges ts)")
  case None
  with assms(1) show ?thesis by (simp add: updateRepaymentRange_def comp_defs)
next
  case (Some x)
  then have x: "x \<in> set (ts_ranges ts)" "rr_id x = i" using find_Some_in [OF Some] by simp_all
  have okx: "range_ok x" and ok: "list_all range_ok (ts_ranges ts)" using assms(1) x(1) by (auto simp: ranges_ok_def list_all_iff)
  obtain a b where ab: "given (ru_from dto) (of_int (rr_from x)) = of_int a" "given (map_option integer_column (ru_from dto)) (rr_from x) = a"
    "given (ru_to dto) (of_int (rr_to x)) = of_int b" "given (map_option integer_column (ru_to dto)) (rr_to x) = b"
    "ru_from dto \<noteq> None \<and> ru_to dto \<noteq> None \<or> a < b"
    using assms(2) okx by (auto simp: plain_op_def given_def range_ok_def split: option.splits elim!: whole_cases)
  let ?c = "case truthy (map_option to_upper (ru_currency dto)) of None \<Rightarrow> rr_currency x | Some c \<Rightarrow> c"
  have c: "(if ru_currency dto = None then rr_currency x else to_upper ?c) = ?c" "to_upper ?c = ?c"
    using okx by (auto simp: range_ok_def truthy_def split: option.splits)
  let ?y = "x\<lparr>rr_from := a, rr_to := b, rr_days := given (ru_days dto) (rr_days x), rr_currency := ?c\<rparr>"
  let ?ts = "ts\<lparr>ts_ranges := update_where (\<lambda>r. rr_id r = i) (\<lambda>_. ?y) (ts_ranges ts)\<rparr>"
  show ?thesis
  proof (cases "a < b \<and> checkRangeOverlap show_dec (rr_settingsId x) (of_int a) (of_int b) ?c (Some i) ts = Inr ()
      \<and> \<not> range_exists ?y (ts_ranges ts)")
    case True
    then have "a < b" by simp
    note chk = checked_apart [OF conjunct1 [OF conjunct2 [OF True]] this ok]
    have "sorted_wrt apart (update_where (\<lambda>r. rr_id r = i) (\<lambda>_. ?y) (ts_ranges ts))"
      by (rule update_apart [where k = rr_id]) (use assms(1) in \<open>auto simp: ranges_ok_def intro: chk apart_sym\<close>)
    then have "sorted_wrt apart (ts_ranges ?ts)" by simp
    moreover have "list_all range_ok (ts_ranges ?ts)"
      using ok \<open>a < b\<close> c(2) by (auto simp: list_all_iff update_where_def range_ok_def)
    moreover have ids: "map rr_id (ts_ranges ?ts) = map rr_id (ts_ranges ts)" using x(2) by (auto simp: update_where_def)
    moreover have "\<forall>r \<in> set (ts_ranges ?ts). \<exists>n < ts_seq ts. rr_id r = e_cuid env n"
      using assms(1) x by (auto simp: ranges_ok_def update_where_def)
    ultimately have k: "ranges_ok env ?ts" using assms(1) by (simp only: ranges_ok_def) simp
    have "ts_ranges (snd (updateRepaymentRange show_dec i dto ts)) = ts_ranges ?ts
        \<and> ts_seq (snd (updateRepaymentRange show_dec i dto ts)) = ts_seq ?ts"
      using True Some ab c(1) by (auto simp: updateRepaymentRange_def comp_defs Let_def split: sum.splits prod.splits dest!: refresh_run)
    with k show ?thesis by (blast intro: ranges_ok_cong)
  next
    case False
    then have "snd (updateRepaymentRange show_dec i dto ts) = ts"
      using Some ab c(1)
      by (cases "checkRangeOverlap show_dec (rr_settingsId x) (of_int a) (of_int b) ?c (Some i) ts")
        (auto simp: updateRepaymentRange_def comp_defs Let_def)
    with assms(1) show ?thesis by simp
  qed
qed

lemma delete_ok: "ranges_ok env ts \<Longrightarrow> ranges_ok env (snd (deleteRepaymentRange i ts))"
proof -
  assume ok: "ranges_ok env ts"
  have "ranges_ok env (ts\<lparr>ts_ranges := filter (\<lambda>r. rr_id r \<noteq> i) (ts_ranges ts)\<rparr>)"
    using ok by (auto simp: ranges_ok_def list_all_iff sorted_wrt_filter distinct_map inj_on_def)
  moreover have "snd (deleteRepaymentRange i ts) = ts
      \<or> ts_ranges (snd (deleteRepaymentRange i ts)) = filter (\<lambda>r. rr_id r \<noteq> i) (ts_ranges ts)
        \<and> ts_seq (snd (deleteRepaymentRange i ts)) = ts_seq ts"
    by (auto simp: deleteRepaymentRange_def comp_defs split: option.splits)
  ultimately show ?thesis using ok by (auto intro: ranges_ok_cong)
qed

section \<open>Many ranges\<close>

text \<open>The ranges that were checked lie apart from those in the table, and from each other.\<close>

definition to_insert :: "env \<Rightarrow> string \<Rightarrow> (rat \<times> rat \<times> string \<times> int) list \<Rightarrow> termStore \<Rightarrow> bool" where
  "to_insert env i rs ts \<longleftrightarrow> (\<forall>(a, b, c, n) \<in> set rs. whole a \<and> whole b \<and> a < b \<and> to_upper c = c
       \<and> (\<forall>r \<in> set (ts_ranges ts). apart r (new_range env i a b n c ts)))
     \<and> sorted_wrt (\<lambda>(a, b, c, n) (a', b', c', n'). c = c' \<longrightarrow> \<not> ranges_overlap a b a' b') rs"

lemma new_range_simps [simp]:
  "rr_from (new_range env i a b n c ts) = integer_column a" "rr_to (new_range env i a b n c ts) = integer_column b"
  "rr_currency (new_range env i a b n c ts) = c" "rr_settingsId (new_range env i a b n c ts) = i"
  by (simp_all add: new_range_def)

lemma insertRanges_ok:
  assumes "inj (e_cuid env)" "ranges_ok env ts" "to_insert env i rs ts" "insertRanges env i rs ts = (Inr xs, ts')"
  shows "ranges_ok env ts'"
  using assms(2-4)
proof (induction rs arbitrary: ts xs)
  case Nil
  then show ?case by (simp add: returnM_def)
next
  case (Cons v rs)
  obtain a b c n where v: "v = (of_int a, of_int b, c, n)" "a < b" "to_upper c = c"
    and ap: "\<forall>r \<in> set (ts_ranges ts). apart r (new_range env i (of_int a) (of_int b) n c ts)"
    using Cons.prems(2) by (cases v) (auto simp: to_insert_def elim!: whole_cases)
  obtain x ts1 ys where ins: "insertRange env i (of_int a) (of_int b) n c ts = (Inr x, ts1)"
    and rest: "insertRanges env i rs ts1 = (Inr ys, ts')"
    using Cons.prems(3) v(1) by (auto simp: run_simps)
  have x: "x = new_range env i (of_int a) (of_int b) n c ts" "ts_ranges ts1 = ts_ranges ts @ [x]"
    using ins by (auto simp: insertRange_eq Let_def split: if_splits)
  have "to_insert env i rs ts1" unfolding to_insert_def
  proof (intro conjI ballI; clarify?)
    fix a' b' c' n'
    assume w: "(a', b', c', n') \<in> set rs"
    then have p: "whole a' \<and> whole b' \<and> a' < b' \<and> to_upper c' = c'"
      "\<forall>r \<in> set (ts_ranges ts). apart r (new_range env i a' b' n' c' ts)"
      and o: "c = c' \<longrightarrow> \<not> ranges_overlap (of_int a) (of_int b) a' b'"
      using Cons.prems(2) v(1) by (fastforce simp: to_insert_def)+
    obtain a1 b1 where ab: "a' = of_int a1" "b' = of_int b1" using p(1) by (auto elim!: whole_cases)
    have "apart x (new_range env i a' b' n' c' ts1)"
      using o p(1) v(2) by (auto simp: x(1) ab apart_def overlap_iff)
    moreover have "apart r (new_range env i a' b' n' c' ts1)" if "r \<in> set (ts_ranges ts)" for r
      using p(2) that by (simp add: apart_def)
    ultimately show "whole a' \<and> whole b' \<and> a' < b' \<and> to_upper c' = c'
        \<and> (\<forall>r \<in> set (ts_ranges ts1). apart r (new_range env i a' b' n' c' ts1))"
      using p(1) by (auto simp: x(2))
  qed (use Cons.prems(2) in \<open>simp add: to_insert_def\<close>)
  from Cons.IH [OF insertRange_ok [OF assms(1) Cons.prems(1) v(2,3) ap ins] this rest] show ?case .
qed

lemma overlapping_pair_none:
  "overlapping_pair rs = None \<Longrightarrow> sorted_wrt (\<lambda>(a, b) (a', b'). \<not> ranges_overlap a b a' b') rs"
  by (induction rs rule: overlapping_pair.induct) (auto simp: find_None_iff split: option.splits)

lemma sorted_by_key:
  "(\<And>c. c \<in> k ` set xs \<Longrightarrow> sorted_wrt P (filter (\<lambda>x. k x = c) xs)) \<Longrightarrow> sorted_wrt (\<lambda>x y. k x = k y \<longrightarrow> P x y) xs"
proof (induction xs)
  case (Cons x xs)
  have "sorted_wrt P (filter (\<lambda>x. k x = c) xs)" if "c \<in> k ` set xs" for c
    using Cons.prems [of c] that by (auto split: if_splits)
  with Cons.IH Cons.prems [of "k x"] show ?case by auto
qed simp

lemma new_overlap_none:
  assumes "new_overlap rs = None"
  shows "sorted_wrt (\<lambda>(a, b, c, n) (a', b', c', n'). c = c' \<longrightarrow> \<not> ranges_overlap a b a' b') rs"
proof -
  let ?k = "\<lambda>(a :: rat, b :: rat, c :: string, n :: int). c"
  have f: "sorted_wrt (\<lambda>(a, b, c, n) (a', b', c', n'). \<not> ranges_overlap a b a' b') (filter (\<lambda>x. ?k x = cur) rs)"
    if "cur \<in> ?k ` set rs" for cur
  proof -
    let ?g = "\<lambda>cur. overlapping_pair (map (\<lambda>(a, b, c, n). (a, b)) (filter (\<lambda>(a, b, c, n). c = cur) rs))"
    have "List.find (\<lambda>p. p \<noteq> None) (map ?g (rev (remdups (rev (map ?k rs))))) = None"
      using assms find_Some_in by (fastforce simp: new_overlap_def Let_def split: option.splits)
    moreover have "?g cur \<in> set (map ?g (rev (remdups (rev (map ?k rs)))))"
      unfolding set_map set_rev set_remdups by (rule imageI) (rule that)
    ultimately have "?g cur = None" unfolding find_None_iff by blast
    from overlapping_pair_none [OF this] show ?thesis
      by (simp add: sorted_wrt_map case_prod_beta')
  qed
  from sorted_by_key [of ?k rs, OF f] show ?thesis by (simp add: case_prod_beta')
qed

lemma valid_range_some:
  assumes "valid_range show_dec i ts dto = Some (a, b, c, n)" "list_all range_ok (ts_ranges ts)"
    and "whole (rd_from dto)" "whole (rd_to dto)"
  shows "whole a \<and> whole b \<and> a < b \<and> to_upper c = c \<and> (\<forall>r \<in> set (ts_ranges ts). apart r (new_range env i a b n c ts))"
proof -
  have v: "a = rd_from dto" "b = rd_to dto" "a < b" "to_upper c = c" "checkRangeOverlap show_dec i a b c None ts = Inr ()"
    using assms(1) by (auto simp: valid_range_def Let_def split: if_splits sum.splits)
  obtain x y where xy: "a = of_int x" "b = of_int y" using v(1,2) assms(3,4) by (metis whole_def)
  then have col: "integer_column a = x" "integer_column b = y" by simp_all
  have "apart r (new_range env i a b n c ts)" if "r \<in> set (ts_ranges ts)" for r
    using checked_apart [OF v(5) [unfolded xy] _ assms(2) that, of "new_range env i a b n c ts"] v(3) xy by (simp add: col)
  then show ?thesis using v assms(3,4) by simp
qed

lemma bulk_ok:
  assumes "inj (e_cuid env)" "ranges_ok env ts" "plain_op (BulkCreate dtos)"
  shows "ranges_ok env (snd (bulkCreateRepaymentRanges env show_dec dtos ts))"
proof (cases "first_settings ts")
  case None
  with assms(2) show ?thesis by (simp add: bulkCreateRepaymentRanges_def comp_defs)
next
  case (Some x)
  let ?vs = "map (valid_range show_dec (us_id x) ts) dtos"
  let ?rs = "List.map_filter id ?vs"
  have ok: "list_all range_ok (ts_ranges ts)" using assms(2) by (simp add: ranges_ok_def)
  show ?thesis
  proof (cases "dtos \<noteq> [] \<and> (\<forall>v \<in> set ?vs. v \<noteq> None) \<and> new_overlap ?rs = None")
    case True
    have "to_insert env (us_id x) ?rs ts" unfolding to_insert_def
    proof (intro conjI ballI; clarify?)
      fix a b c n
      assume "(a, b, c, n) \<in> set ?rs"
      then obtain dto where dto: "dto \<in> set dtos" "valid_range show_dec (us_id x) ts dto = Some (a, b, c, n)"
        by (auto simp: List.map_filter_def)
      have "whole (rd_from dto)" "whole (rd_to dto)" using assms(3) dto(1) by (auto simp: plain_op_def list_all_iff)
      from valid_range_some [OF dto(2) ok this] show "whole a \<and> whole b \<and> a < b \<and> to_upper c = c
          \<and> (\<forall>r \<in> set (ts_ranges ts). apart r (new_range env (us_id x) a b n c ts))" .
    qed (rule new_overlap_none, use True in simp)
    note ins = insertRanges_ok [OF assms(1,2) this]
    obtain r ts1 where run: "insertRanges env (us_id x) ?rs ts = (r, ts1)" by fastforce
    have "snd (bulkCreateRepaymentRanges env show_dec dtos ts) = (case r of Inl e \<Rightarrow> ts | Inr ys \<Rightarrow> snd (refreshRepaymentRangesCache ts1))"
      using True Some run by (auto simp: bulkCreateRepaymentRanges_def checkNewRangesOverlap_def comp_defs Let_def atomicM_def
          split: sum.splits prod.splits dest!: refresh_run)
    with ins run assms(2) show ?thesis by (cases r) (auto intro: ranges_ok_cong)
  next
    case False
    then have "snd (bulkCreateRepaymentRanges env show_dec dtos ts) = ts"
      using Some by (auto simp: bulkCreateRepaymentRanges_def checkNewRangesOverlap_def comp_defs Let_def split: option.splits)
    with assms(2) show ?thesis by simp
  qed
qed

section \<open>Any requests\<close>

lemma run_op_ok:
  assumes "inj (e_cuid env)" "ranges_ok env ts" "plain_op x"
  shows "ranges_ok env (run_op env show_dec x ts)"
proof -
  have "ts_ranges (snd (updateSettings dto ts)) = ts_ranges ts \<and> ts_seq (snd (updateSettings dto ts)) = ts_seq ts" for dto
    by (simp add: updateSettings_def refreshSettingsCache_def comp_defs split: option.split sum.split)
  moreover have "ts_ranges (snd (getTermSettings ts)) = ts_ranges ts \<and> ts_seq (snd (getTermSettings ts)) = ts_seq ts"
    by (simp add: getTermSettings_def getWithFallback_def comp_defs split: option.split sum.split)
  ultimately show ?thesis
    using assms create_ok update_ok delete_ok bulk_ok
    by (cases x) (auto simp: run_op_def intro: ranges_ok_cong)
qed


text \<open>A currency in small letters escapes the check, which compares it as it was given, while it is stored in
  capitals: a range is created whatever ranges of its currency it overlaps.\<close>

theorem small_letters_overlap:
  assumes "first_settings ts = Some x" "list_all range_ok (ts_ranges ts)" "rd_from dto < rd_to dto"
    and "rd_currency dto = Some c" "to_upper c \<noteq> c"
    and "\<not> range_exists (new_range env (us_id x) (rd_from dto) (rd_to dto) (rd_days dto) (to_upper c) ts) (ts_ranges ts)"
  shows "\<exists>y ts'. createRepaymentRange env show_dec dto ts = (Inr y, ts') \<and> ts_ranges ts' = ts_ranges ts @ [y]
    \<and> rr_currency y = to_upper c \<and> rr_from y = integer_column (rd_from dto) \<and> rr_to y = integer_column (rd_to dto)"
proof -
  have c: "truthy (Some c) = Some c" using assms(4,5) by (auto simp: truthy_def to_upper_def)
  have "rr_currency r \<noteq> c" if "r \<in> set (ts_ranges ts)" for r
    using assms(2,5) that by (auto simp: list_all_iff range_ok_def)
  then have chk: "checkRangeOverlap show_dec (us_id x) (rd_from dto) (rd_to dto) c None ts = Inr ()"
    by (auto simp: checkRangeOverlap_def find_None_iff split: option.split dest!: find_Some_in)
  obtain ts' where r: "refreshRepaymentRangesCache (ts\<lparr>ts_ranges := ts_ranges ts @
      [new_range env (us_id x) (rd_from dto) (rd_to dto) (rd_days dto) (to_upper c) ts], ts_seq := Suc (ts_seq ts)\<rparr>) = (Inr (), ts')"
    using refresh_run by (metis surj_pair)
  from refresh_run [OF this] show ?thesis
    using assms chk r by (simp add: createRepaymentRange_def insertRange_eq c comp_defs Let_def)
qed

section \<open>An example\<close>

definition term_settings_example :: urgentSettings where
  "term_settings_example = \<lparr>us_id = ''s1'', us_maxLoanRequest = 100000, us_loanFeePercent = 5, us_settlementPercent = 10,
     us_collateralPercent = 15, us_liquidationDeadlineDays = 7, us_liquidationFeePercent = 5\<rparr>"

definition terms_example :: termStore where
  "terms_example = \<lparr>ts_settings = [term_settings_example], ts_ranges = [], ts_all = Some (term_settings_example, []),
     ts_only = Some term_settings_example, ts_seq = 0\<rparr>"

definition range_example :: "rat \<Rightarrow> rat \<Rightarrow> string option \<Rightarrow> rangeDto" where
  "range_example a b c = \<lparr>rd_from = a, rd_to = b, rd_days = 30, rd_currency = c\<rparr>"

definition counting_env :: env where
  "counting_env = env_example\<lparr>e_cuid := (\<lambda>n. replicate n CHR ''x'')\<rparr>"

definition fee_change :: settingsDto where
  "fee_change = \<lparr>sd_maxLoanRequest = None, sd_loanFeePercent = Some 9, sd_settlementPercent = None, sd_collateralPercent = None,
     sd_liquidationDeadlineDays = None, sd_liquidationFeePercent = None\<rparr>"

theorem updated_settings_unseen_witness:
  "\<exists>rs. fst (getTermSettings (fold (run_op env_example (\<lambda>_. [])) [UpdateSettings fee_change] terms_example)) = Inr (term_settings_example, rs)
    \<and> us_loanFeePercent term_settings_example = 5"
proof -
  have "ts_all terms_example = Some (term_settings_example, [])" by (simp add: terms_example_def)
  moreover have "us_loanFeePercent term_settings_example = 5" by (simp add: term_settings_example_def)
  ultimately show ?thesis using updated_settings_unseen by blast
qed

lemmas range_eval = terms_example_def range_example_def term_settings_example_def first_settings_def checkRangeOverlap_def new_range_def
  insertRange_eq range_exists_def createRepaymentRange_def refreshRepaymentRangesCache_def comp_defs truthy_def


theorem small_letters_overlap_witness:
  "\<exists>y ts'. createRepaymentRange counting_env (\<lambda>_. []) (range_example 2 4 (Some ''ngn''))
      (run_op counting_env (\<lambda>_. []) (CreateRange (range_example 1 5 None)) terms_example) = (Inr y, ts')
    \<and> rr_currency y = ''NGN'' \<and> rr_from y = 2 \<and> rr_to y = 4"
proof -
  let ?ts = "run_op counting_env (\<lambda>_. []) (CreateRange (range_example 1 5 None)) terms_example"
  have ts: "ts_ranges ?ts = [\<lparr>rr_id = [], rr_settingsId = ''s1'', rr_from = 1, rr_to = 5, rr_days = 30, rr_currency = ''NGN''\<rparr>]"
    "ts_settings ?ts = [term_settings_example]"
    by (simp_all add: run_op_def range_eval counting_env_def eval_simps)
  have "first_settings ?ts = Some term_settings_example" by (simp add: first_settings_def ts)
  moreover have "list_all range_ok (ts_ranges ?ts)" by (simp add: ts range_ok_def eval_simps)
  moreover have "\<not> range_exists (new_range counting_env ''s1'' 2 4 30 ''NGN'' ?ts) (ts_ranges ?ts)"
    by (simp add: ts range_exists_def new_range_def)
  moreover have "rd_from (range_example 2 4 (Some ''ngn'')) = 2" "rd_to (range_example 2 4 (Some ''ngn'')) = 4"
    "rd_days (range_example 2 4 (Some ''ngn'')) = 30" "rd_currency (range_example 2 4 (Some ''ngn'')) = Some ''ngn''"
    by (simp_all add: range_example_def)
  moreover have "to_upper ''ngn'' = ''NGN''" "us_id term_settings_example = ''s1''"
    "integer_column 2 = 2" "integer_column 4 = 4" by (simp_all add: eval_simps term_settings_example_def)
  ultimately show ?thesis using small_letters_overlap [of ?ts term_settings_example "range_example 2 4 (Some ''ngn'')" "''ngn''" counting_env "\<lambda>_. []"]
    by (simp del: ex_simps) blast
qed

end
