(* ===== verification/Buy.thy ===== *)
theory Buy
  imports Sell
begin

text \<open>
  Buying crypto with NGN (\<^verbatim>\<open>buy.service.ts\<close>): the preview chooses how to pay, the confirmation reserves
  the company's NGN and asks the payment provider for the money. The payment comes in by the webhook
  of the payment provider (theory \<open>Paystack\<close>), which places the order; its end comes in by the order
  webhook (theory \<open>OrderDone\<close>). Outside production the providers are bypassed and the buy is
  completed at once.
\<close>

section \<open>Inputs\<close>

text \<open>
  \<open>by_bypass\<close>: the process does not run in production. \<open>by_single\<close> and \<open>by_fallback\<close> are what the ticker
  answers, \<open>by_charge\<close> and \<open>by_init\<close> what the payment provider answers to the charge of a saved card
  (its reference) and to a payment that is to be made by transfer (its reference and address); \<open>None\<close>
  is an answer without success.
\<close>

record buyWorld =
  by_bypass :: bool
  by_single :: "string option"
  by_fallback :: "string option"
  by_charge :: "error + string option"
  by_init :: "error + (string \<times> string) option"

record buyView =
  vb_previewId :: string
  vb_fiatAmount :: string
  vb_estimatedCrypto :: string
  vb_platformFee :: string
  vb_bufferSpread :: string
  vb_marketRate :: string
  vb_bufferedRate :: string
  vb_expiresIn :: int
  vb_paymentType :: paymentType
  vb_card :: "(string \<times> string) option"

record buyResult =
  br_message :: string
  br_transactionId :: string
  br_status :: "txStatus option"
  br_payment :: "(string \<times> string) option"

definition getPaymentMethods :: "(string \<times> paymentType) list" where
  "getPaymentMethods = [(''1083464737464'', CARD), (''3646737378364'', PAYSTACK)]"

definition buy_quote_of :: "env \<Rightarrow> string \<Rightarrow> sys \<Rightarrow> buyQuote option" where
  "buy_quote_of env quoteId s =
     (case temp_lookup env (''buy:'' @ quoteId) s of Some (TBuyQuote q) \<Rightarrow> Some q | _ \<Rightarrow> None)"

section \<open>Preview\<close>

definition saved_card :: "string \<Rightarrow> string \<Rightarrow> db \<Rightarrow> paymentCard option" where
  "saved_card i userId d = List.find (\<lambda>k. pc_id k = i \<and> pc_userId k = userId \<and> pc_reusable k) (d_paymentCards d)"

text \<open>The card that is to be charged: its type and its last digits; none for a payment by transfer.\<close>

definition chosen_card :: "string \<Rightarrow> paymentType \<Rightarrow> string option \<Rightarrow> (string \<times> string) option sysm" where
  "chosen_card userId pay cardId =
     (if pay = CARD then
        bindM (someM (truthy cardId) (BadRequest ''cardId is required when paymentType is CARD'')) (\<lambda>i.
        bindM (getM (\<lambda>s. saved_card i userId (s_db s))) (\<lambda>r.
        bindM (someM r (BadRequest ''Invalid or unauthorized card'')) (\<lambda>k.
          returnM (Some (case truthy (pc_cardType k) of None \<Rightarrow> ''Debit Card'' | Some x \<Rightarrow> x, pc_last4 k)))))
      else returnM None)"

definition paying_with :: "paymentType \<Rightarrow> string \<Rightarrow> string option \<Rightarrow> buyQuote \<Rightarrow> buyQuote" where
  "paying_with pay methodId cardId q =
     (if pay = CARD then q\<lparr>bq_paymentMethodId := methodId, bq_cardId := cardId\<rparr>
      else if pay = PAYSTACK then q\<lparr>bq_paymentMethodId := methodId\<rparr> else q)"

definition previewBuy :: "env \<Rightarrow> string \<Rightarrow> string \<Rightarrow> string \<Rightarrow> string option \<Rightarrow> buyView sysm" where
  "previewBuy env userId quoteId methodId cardId =
     bindM (getM (buy_quote_of env quoteId)) (\<lambda>r.
     bindM (someM r (NotFound ''Buy quote not found or expired'')) (\<lambda>q.
     thenM (requireM (bq_userId q = userId) (Unauthorized ''Quote does not belong to this user''))
     (thenM (whenM (e_now env > bq_expiresAt q)
        (thenM (tempDel (''buy:'' @ quoteId))
          (throwM (BadRequest ''Buy quote has expired. Please request a new one.''))))
     (bindM (someM (map_of getPaymentMethods methodId) (BadRequest ''Invalid payment method ID'')) (\<lambda>pay.
      bindM (chosen_card userId pay cardId) (\<lambda>card.
      thenM (tempSet env (''buy:'' @ quoteId) (TBuyQuote (paying_with pay methodId cardId q))
        (max 1 ((bq_expiresAt q - e_now env) div 1000)))
      (bindM (liftM (fromBase (e_cv env) (ABigInt (bq_totalFiatMinor q)) (bq_fiatCurrency q) None)) (\<lambda>fiat.
       bindM (liftM (fromBase (e_cv env) (ABigInt (bq_volumeCryptoMinor q)) (bq_crypto q) None)) (\<lambda>amount.
       bindM (liftM (fromBase (e_cv env) (ABigInt (bq_platformFeeMinor q)) (bq_fiatCurrency q) None)) (\<lambda>fee.
       bindM (liftM (fromBase (e_cv env) (ABigInt (bq_bufferSpreadMinor q)) (bq_fiatCurrency q) None)) (\<lambda>spread.
       bindM (liftM (fromBase (e_cv env) (ABigInt (bq_marketPriceMinor q)) (bq_fiatCurrency q) None)) (\<lambda>market.
       bindM (liftM (fromBase (e_cv env) (ABigInt (bq_bufferedPriceMinor q)) (bq_fiatCurrency q) None)) (\<lambda>buffered.
         returnM \<lparr>vb_previewId = quoteId, vb_fiatAmount = fiat, vb_estimatedCrypto = amount, vb_platformFee = fee,
           vb_bufferSpread = spread, vb_marketRate = market, vb_bufferedRate = buffered,
           vb_expiresIn = max 0 ((bq_expiresAt q - e_now env) div 1000), vb_paymentType = pay, vb_card = card\<rparr>)))))))))))))"

section \<open>Completion without providers\<close>

definition buy_credit :: "env \<Rightarrow> string \<Rightarrow> string \<Rightarrow> int \<Rightarrow> unit dbm" where
  "buy_credit env userId crypto a =
     (let mine = (\<lambda>w. w_userId w = userId \<and> ieq (w_currency w) crypto) in
      bindM (getM (wallet_for userId crypto)) (\<lambda>r.
      thenM (updWallets mine (w_credit a))
      (bindM (someM r (NotFound (''Wallet not found for '' @ crypto))) (\<lambda>w.
       bindM (liftM (fromBase (e_cv env) (ABigInt (w_baseBalance w + a)) crypto None)) (\<lambda>shown.
         updWallets mine (\<lambda>x. x\<lparr>w_originalBalance := shown\<rparr>))))))"

definition bought_order :: "env \<Rightarrow> buyQuote \<Rightarrow> string \<Rightarrow> string \<Rightarrow> string \<Rightarrow> string \<Rightarrow> string \<Rightarrow> string \<Rightarrow> order" where
  "bought_order env q i transactionId userId previewId amount fiat =
     \<lparr>o_id = i, o_transactionId = transactionId, o_userId = userId, o_cryptoAmountBase = Some (bq_volumeCryptoMinor q),
      o_cryptoAmountOriginal = Some amount, o_fiatAmountBase = bq_totalFiatMinor q, o_fiatAmountOriginal = Some fiat,
      o_fiatCurrency = bq_fiatCurrency q, o_status = OrCOMPLETED, o_type = OBUY, o_referenceNo = Some previewId,
      o_paymentStatus = PayPAID, o_paymentReference = Some previewId, o_paymentChannel = Some ''non_production_bypass'',
      o_paymentAmountBase = Some (bq_totalFiatMinor q), o_paymentAmountOriginal = Some fiat,
      o_paymentDate = Some (e_now env)\<rparr>"

definition upsert_bought_order :: "env \<Rightarrow> buyQuote \<Rightarrow> string \<Rightarrow> string \<Rightarrow> string \<Rightarrow> string \<Rightarrow> string \<Rightarrow> unit dbm" where
  "upsert_bought_order env q transactionId userId previewId amount fiat =
     bindM (getM (order_by_transaction transactionId)) (\<lambda>r.
       case r of
         Some x \<Rightarrow> updOrders (\<lambda>y. o_transactionId y = transactionId)
             (\<lambda>y. (nonproduction_order env previewId y)\<lparr>o_type := OBUY\<rparr>)
       | None \<Rightarrow> bindM (freshM env) (\<lambda>i. insertOrder (bought_order env q i transactionId userId previewId amount fiat)))"

definition bought_meta :: "string \<Rightarrow> meta" where
  "bought_meta previewId =
     [(''providerBypass'', ''true''), (''providerBypassReason'', ''non_production_buy_confirm''),
      (''paystackReference'', previewId), (''quidaxOrderReference'', previewId),
      (''buyOrderStatus'', ''completed_without_provider'')]"

definition bought_write :: "env \<Rightarrow> buyQuote \<Rightarrow> string \<Rightarrow> string \<Rightarrow> meta \<Rightarrow> unit dbm" where
  "bought_write env q previewId transactionId m =
     bindM (liftM (fromBase (e_cv env) (ABigInt (bq_bufferedPriceMinor q)) (bq_fiatCurrency q) None)) (\<lambda>price.
       updTransactions (\<lambda>x. t_id x = transactionId) (\<lambda>x. x\<lparr>t_status := TxCOMPLETED, t_isProcessed := True,
         t_executedCryptoAmountBase := Some (bq_volumeCryptoMinor q), t_executedFiatAmountBase := Some (bq_totalFiatMinor q),
         t_executionPrice := Some price, t_executedAt := Some (e_now env), t_meta := mset_all (bought_meta previewId) m\<rparr>))"

text \<open>The completion of a transaction that an earlier confirmation left, and of a new one.\<close>

definition completeNonProductionBuyConfirm_tx ::
    "env \<Rightarrow> buyQuote \<Rightarrow> string \<Rightarrow> string \<Rightarrow> string \<Rightarrow> meta \<Rightarrow> string \<Rightarrow> string \<Rightarrow> unit dbm" where
  "completeNonProductionBuyConfirm_tx env q userId previewId transactionId m amount fiat =
     bindM (getM (order_by_transaction transactionId)) (\<lambda>r.
     thenM (whenM (case r of None \<Rightarrow> True | Some x \<Rightarrow> o_status x \<noteq> OrCOMPLETED)
       (buy_credit env userId (to_upper (bq_crypto q)) (bq_volumeCryptoMinor q)))
     (thenM (upsert_bought_order env q transactionId userId previewId amount fiat)
       (bought_write env q previewId transactionId m)))"

definition buy_bypass_tx :: "env \<Rightarrow> buyQuote \<Rightarrow> string \<Rightarrow> string \<Rightarrow> transaction \<Rightarrow> string \<Rightarrow> string \<Rightarrow> unit dbm" where
  "buy_bypass_tx env q userId previewId t amount fiat =
     thenM (buy_credit env userId (to_upper (bq_crypto q)) (bq_volumeCryptoMinor q))
     (thenM (upsert_bought_order env q (t_id t) userId previewId amount fiat)
       (bought_write env q previewId (t_id t) (t_meta t)))"

section \<open>Reservation\<close>

text \<open>What the company has to spend at the exchange: what the user pays, less the platform fee.\<close>

definition buy_liquidity :: "buyQuote \<Rightarrow> int" where
  "buy_liquidity q = bq_totalFiatMinor q - bq_platformFeeMinor q"

definition deposit_reference :: "string \<Rightarrow> string" where
  "deposit_reference previewId = ''company-deposit-'' @ previewId"

definition buy_params :: "string \<Rightarrow> string \<Rightarrow> wallet \<Rightarrow> buyQuote \<Rightarrow> paymentType \<Rightarrow> bool \<Rightarrow> string \<Rightarrow> string \<Rightarrow> string \<Rightarrow> string \<Rightarrow> txParams" where
  "buy_params userId previewId w q pay reserved amount fiat buffer fee =
     \<lparr>p_userId = userId, p_receiverWalletAddress = Some (w_quidaxWalletId w), p_senderWalletAddress = None,
      p_paymentType = Some pay,
      p_paymentMetadata = [(''companyDepositReference'', deposit_reference previewId),
        (''liquidityReservationStatus'', if reserved then ''reserved'' else ''insufficient''),
        (''liquidityReservationAmount'', show_int (buy_liquidity q)),
        (''liquidityReservationCurrency'', BASE_CURRENCY), (''paymentMethodId'', bq_paymentMethodId q),
        (''cardId'', case bq_cardId q of None \<Rightarrow> [] | Some i \<Rightarrow> i)],
      p_platformWalletAddress = None, p_transactionUniqueId = previewId, p_network = Some (bq_network q),
      p_currency = to_upper (bq_crypto q), p_cryptoAmountBase = Some (bq_volumeCryptoMinor q),
      p_fiatAmountBase = bq_totalFiatMinor q, p_cryptoAmountOriginal = Some amount, p_fiatAmountOriginal = Some fiat,
      p_platformFeeBase = Some (bq_platformFeeMinor q), p_platformFeeOriginal = Some fee,
      p_bufferAmountBase = Some (bq_bufferSpreadMinor q), p_bufferAmountOriginal = Some buffer,
      p_totalAmountSentBase = None, p_totalAmountSentOriginal = None,
      p_transactionType = CREDIT, p_transactionContext = CtxBUY, p_status = Some TxPENDING\<rparr>"

datatype buyPlaced = BuyDuplicate string txStatus | BuyQueued transaction | BuyReserved transaction

definition buy_reserve_tx ::
    "env \<Rightarrow> bool \<Rightarrow> string \<Rightarrow> string \<Rightarrow> wallet \<Rightarrow> buyQuote \<Rightarrow> paymentType \<Rightarrow> string \<Rightarrow> string \<Rightarrow> buyPlaced dbm" where
  "buy_reserve_tx env bypass userId previewId w q pay amount fiat =
     bindM (getM (transaction_by_uniqueId previewId)) (\<lambda>existing.
       case existing of
         Some x \<Rightarrow> returnM (BuyDuplicate (t_id x) (t_status x))
       | None \<Rightarrow>
           bindM (if bypass then returnM True else reserveLiquidity BASE_CURRENCY (buy_liquidity q)) (\<lambda>reserved.
           bindM (liftM (fromBase (e_cv env) (ABigInt (bq_bufferSpreadMinor q)) (bq_fiatCurrency q) None)) (\<lambda>buffer.
           bindM (liftM (fromBase (e_cv env) (ABigInt (bq_platformFeeMinor q)) (bq_fiatCurrency q) None)) (\<lambda>fee.
           bindM (createTransaction env (buy_params userId previewId w q pay reserved amount fiat buffer fee)) (\<lambda>t.
             if reserved then returnM (BuyReserved t)
             else bindM (freshM env) (\<lambda>i. thenM (insertFailedLiquidity (failed_liquidity_row env i (t_id t) (buy_liquidity q)))
               (returnM (BuyQueued t))))))))"

text \<open>The alert to the administrator is queued inside the transaction.\<close>

definition buy_place ::
    "env \<Rightarrow> bool \<Rightarrow> string \<Rightarrow> string \<Rightarrow> wallet \<Rightarrow> buyQuote \<Rightarrow> paymentType \<Rightarrow> string \<Rightarrow> string \<Rightarrow> buyPlaced sysm" where
  "buy_place env bypass userId previewId w q pay amount fiat =
     txSysM env ''buy_reserve''
       (bindM (dbM (buy_reserve_tx env bypass userId previewId w q pay amount fiat)) (\<lambda>p.
        thenM (case p of BuyQueued t \<Rightarrow> callM (CallAlert (t_id t)) | _ \<Rightarrow> returnM ()) (returnM p)))"

section \<open>Payment\<close>

text \<open>
  What follows an answer without success: two writes, each of its own. An exception of the payment
  provider is passed on as it is.
\<close>

definition buy_refused :: "env \<Rightarrow> buyQuote \<Rightarrow> transaction \<Rightarrow> string \<Rightarrow> 'a sysm" where
  "buy_refused env q t message =
     thenM (releaseLiquidity_direct env BASE_CURRENCY (buy_liquidity q))
     (thenM (dbM (updTransactions (\<lambda>x. t_id x = t_id t) (\<lambda>x. x\<lparr>t_status := TxFAILED\<rparr>)))
       (throwM (InternalServerError message)))"

definition buy_paid_meta :: "transaction \<Rightarrow> meta \<Rightarrow> unit sysm" where
  "buy_paid_meta t m =
     dbM (updTransactions (\<lambda>x. t_id x = t_id t) (\<lambda>x. x\<lparr>t_meta := mset_all m (t_meta t)\<rparr>))"

definition buy_result :: "string \<Rightarrow> string \<Rightarrow> txStatus \<Rightarrow> (string \<times> string) option \<Rightarrow> buyResult" where
  "buy_result message transactionId status payment =
     \<lparr>br_message = message, br_transactionId = transactionId, br_status = Some status, br_payment = payment\<rparr>"

definition CARD_PAID :: string where
  "CARD_PAID = ''Card payment successful. Your transaction is being processed.''"

definition PAYMENT_READY :: string where
  "PAYMENT_READY = ''Payment initialization successful''"

definition BUY_SUBMITTED :: string where
  "BUY_SUBMITTED = ''Buy already submitted''"

definition buy_card :: "env \<Rightarrow> buyWorld \<Rightarrow> string \<Rightarrow> buyQuote \<Rightarrow> transaction \<Rightarrow> buyResult sysm" where
  "buy_card env world previewId q t =
     bindM (someM (truthy (bq_cardId q)) (BadRequest ''Card not found in quote'')) (\<lambda>card.
     thenM (callM (CallChargeCard card previewId (bq_totalFiatMinor q)))
     (bindM (liftM (by_charge world)) (\<lambda>a.
       case a of
         None \<Rightarrow> buy_refused env q t ''Card charge failed''
       | Some reference \<Rightarrow>
           thenM (buy_paid_meta t [(''paystackReference'', reference), (''cardId'', card)])
           (thenM (tempDel (''buy:'' @ previewId)) (returnM (buy_result CARD_PAID (t_id t) TxPENDING None))))))"

definition buy_transfer :: "env \<Rightarrow> buyWorld \<Rightarrow> string \<Rightarrow> buyQuote \<Rightarrow> transaction \<Rightarrow> buyResult sysm" where
  "buy_transfer env world previewId q t =
     thenM (callM (CallInitPayment previewId (bq_totalFiatMinor q)))
     (bindM (liftM (by_init world)) (\<lambda>a.
       case a of
         None \<Rightarrow> buy_refused env q t ''Payment initialization failed''
       | Some (reference, url) \<Rightarrow>
           thenM (buy_paid_meta t [(''paystackReference'', reference), (''channels'', ''bank_transfer'')])
           (thenM (tempDel (''buy:'' @ previewId))
             (returnM (buy_result PAYMENT_READY (t_id t) TxPENDING (Some (reference, url)))))))"

section \<open>Confirmation\<close>

definition check_buy_quote :: "env \<Rightarrow> string \<Rightarrow> string \<Rightarrow> buyQuote sysm" where
  "check_buy_quote env userId previewId =
     bindM (getM (buy_quote_of env previewId)) (\<lambda>r.
     bindM (someM r (NotFound ''Buy quote not found or expired'')) (\<lambda>q.
     thenM (requireM (bq_userId q = userId) (Unauthorized ''Not your quote''))
     (thenM (requireM (bq_pinVerified q) (Unauthorized ''PIN not verified''))
     (thenM (whenM (e_now env > bq_expiresAt q)
        (thenM (tempDel (''buy:'' @ previewId)) (throwM (BadRequest ''Quote expired. Please request a new one.''))))
       (returnM q)))))"

definition check_buy :: "env \<Rightarrow> buyWorld \<Rightarrow> string \<Rightarrow> buyQuote \<Rightarrow> (wallet \<times> paymentType) sysm" where
  "check_buy env world userId q =
     bindM (getM (\<lambda>s. wallet_for userId (to_upper (bq_crypto q)) (s_db s))) (\<lambda>r.
     bindM (someM (case r of None \<Rightarrow> None | Some w \<Rightarrow> if w_quidaxWalletId w = [] then None else Some w)
         (NotFound (''Wallet not found for '' @ bq_crypto q))) (\<lambda>w.
     bindM (liftM (minimum_ok env (bq_crypto q) (bq_volumeCryptoMinor q))) (\<lambda>ok.
     thenM (requireM ok (BadRequest (''Minimum transaction amount is '' @ show_nat MIN_TRANSACTION_USDT @ '' USDT'')))
     (thenM (whenM (\<not> by_bypass world)
         (bindM (liftM (fromBase (e_cv env) (ABigInt (bq_bufferedPriceMinor q)) (bq_fiatCurrency q) None)) (\<lambda>price.
            liftM (checkPriceSlippage env (by_single world) (by_fallback world) price True))))
     (bindM (someM (map_of getPaymentMethods (bq_paymentMethodId q)) (BadRequest ''Payment method not found'')) (\<lambda>pay.
      bindM (getM (\<lambda>s. user_by_id userId (s_db s))) (\<lambda>u.
      thenM (requireM (u \<noteq> None) (NotFound ''User not found'')) (returnM (w, pay)))))))))"

definition buy_existing ::
    "env \<Rightarrow> buyWorld \<Rightarrow> string \<Rightarrow> string \<Rightarrow> buyQuote \<Rightarrow> transaction \<Rightarrow> string \<Rightarrow> string \<Rightarrow> buyResult sysm" where
  "buy_existing env world userId previewId q t amount fiat =
     thenM (whenM (by_bypass world \<and> t_status t \<noteq> TxCOMPLETED)
       (thenM (txM env ''buy_nonproduction''
          (completeNonProductionBuyConfirm_tx env q userId previewId (t_id t) (t_meta t) amount fiat))
       (thenM (tempDel (''buy:'' @ previewId)) (callM (CallNotify (t_id t))))))
     (returnM (buy_result BUY_SUBMITTED (t_id t) (if by_bypass world then TxCOMPLETED else t_status t) None))"

definition buy_bypassed ::
    "env \<Rightarrow> string \<Rightarrow> string \<Rightarrow> buyQuote \<Rightarrow> paymentType \<Rightarrow> transaction \<Rightarrow> string \<Rightarrow> string \<Rightarrow> buyResult sysm" where
  "buy_bypassed env userId previewId q pay t amount fiat =
     thenM (txM env ''buy_nonproduction'' (buy_bypass_tx env q userId previewId t amount fiat))
     (thenM (tempDel (''buy:'' @ previewId))
     (thenM (callM (CallNotify (t_id t)))
       (if pay = CARD then returnM (buy_result CARD_PAID (t_id t) TxCOMPLETED None)
        else if pay = PAYSTACK
        then returnM (buy_result PAYMENT_READY (t_id t) TxCOMPLETED
          (Some (previewId, ''https://checkout.paystack.com/mock-'' @ previewId)))
        else throwM (BadRequest ''Unsupported payment type''))))"

definition buy_continue ::
    "env \<Rightarrow> buyWorld \<Rightarrow> string \<Rightarrow> buyQuote \<Rightarrow> paymentType \<Rightarrow> transaction \<Rightarrow> buyResult sysm" where
  "buy_continue env world previewId q pay t =
     (if pay = CARD then buy_card env world previewId q t
      else if pay = PAYSTACK then buy_transfer env world previewId q t
      else throwM (BadRequest ''Unsupported payment type''))"

definition confirmBuy :: "env \<Rightarrow> buyWorld \<Rightarrow> string \<Rightarrow> string \<Rightarrow> buyResult sysm" where
  "confirmBuy env world userId previewId =
     thenM (enforceConfirmationCooldown env userId)
     (bindM (check_buy_quote env userId previewId) (\<lambda>q.
      bindM (check_buy env world userId q) (\<lambda>(w, pay).
      bindM (liftM (fromBase (e_cv env) (ABigInt (bq_totalFiatMinor q)) (bq_fiatCurrency q) None)) (\<lambda>fiat.
      bindM (liftM (fromBase (e_cv env) (ABigInt (bq_volumeCryptoMinor q)) (to_upper (bq_crypto q)) None)) (\<lambda>amount.
      bindM (getM (\<lambda>s. transaction_by_uniqueId previewId (s_db s))) (\<lambda>existing.
        case existing of
          Some t \<Rightarrow> buy_existing env world userId previewId q t amount fiat
        | None \<Rightarrow>
            bindM (buy_place env (by_bypass world) userId previewId w q pay amount fiat) (\<lambda>placed.
              case placed of
                BuyDuplicate i status \<Rightarrow>
                  thenM (tempDel (''buy:'' @ previewId)) (returnM (buy_result BUY_SUBMITTED i status None))
              | BuyQueued t \<Rightarrow>
                  thenM (whenM (\<not> by_bypass world) (callM (CallNotify (t_id t))))
                  (thenM (tempDel (''buy:'' @ previewId))
                    (returnM \<lparr>br_message = ''Buy transaction queued. You will be notified.'', br_transactionId = t_id t,
                       br_status = None, br_payment = None\<rparr>))
              | BuyReserved t \<Rightarrow>
                  if by_bypass world then buy_bypassed env userId previewId q pay t amount fiat
                  else thenM (callM (CallNotify (t_id t))) (buy_continue env world previewId q pay t))))))))"

end
