(* ===== verification/FailedLiquidity.thy ===== *)
theory FailedLiquidity
  imports SwapService Buy
begin

text \<open>
  The queue of the orders the company's liquidity did not cover (\<^verbatim>\<open>failed-company-liquidity.service.ts\<close>):
  sells, swaps, withdrawals and buys whose confirmation left a \<open>failedLiquidity\<close> record. A run of the
  hourly scheduler first expires the records that are too old, then tries the oldest of the rest: it
  reserves the liquidity and resumes the order at the provider, and gives the liquidity back when that
  fails. An administrator can try one record.
\<close>

section \<open>Inputs\<close>

text \<open>
  What the providers answer while one record is tried: the order of a sell, the two steps of a swap and
  the ticker between them, the withdrawal, and the two ways to pay a buy. An identifier that the answer
  lacks is \<open>None\<close>.
\<close>

record retryWorld =
  rw_order :: "error + orderAnswer"
  rw_quotation :: "error + string option"
  rw_single :: "string option"
  rw_fallback :: "string option"
  rw_confirm :: "error + string option"
  rw_withdraw :: "error + sendAnswer"
  rw_charge :: "error + string option"
  rw_init :: "error + (string \<times> string) option"

datatype retryOutcome = Activated string | NotActivated string

fun activated_record :: "retryOutcome \<Rightarrow> bool" where
  "activated_record (Activated i) = True"
| "activated_record (NotActivated r) = False"

section \<open>Records\<close>

definition isRetryableTransaction :: "transaction \<Rightarrow> bool" where
  "isRetryableTransaction t \<longleftrightarrow> t_status t = TxPENDING \<and> \<not> t_isProcessed t"

text \<open>What the confirmation reserved of the user's balance, as the columns of the transaction tell it.\<close>

definition queued_amount :: "transaction \<Rightarrow> int" where
  "queued_amount t = (case t_totalAmountSentBase t of Some a \<Rightarrow> a | None \<Rightarrow> or0 (t_cryptoAmountBase t))"

definition getUserReservedBalanceRelease :: "transaction \<Rightarrow> (string \<times> int) option" where
  "getUserReservedBalanceRelease t =
     (if t_context t = CtxBUY then None
      else if t_context t \<notin> {CtxSELL, CtxSWAP, CtxWITHDRAWAL} then None
      else if queued_amount t \<le> 0 then None
      else Some (t_currency t, queued_amount t))"

definition failed_by_id :: "string \<Rightarrow> db \<Rightarrow> failedLiquidity option" where
  "failed_by_id i d = List.find (\<lambda>x. fl_id x = i) (d_failedLiquidity d)"

text \<open>The rows are kept in the order of their creation.\<close>

definition getPending :: "nat \<Rightarrow> db \<Rightarrow> failedLiquidity list" where
  "getPending limit d = take limit (d_failedLiquidity d)"

text \<open>\<^verbatim>\<open>delete\<close> throws when the row is gone.\<close>

definition delete_record :: "string \<Rightarrow> unit dbm" where
  "delete_record i =
     bindM (getM (failed_by_id i)) (\<lambda>r.
     thenM (requireM (r \<noteq> None) (PrismaError ''P2025'')) (deleteFailedLiquidity i))"

section \<open>Resuming an order\<close>

definition resume_sell_tx :: "string \<Rightarrow> string \<Rightarrow> string option \<Rightarrow> unit dbm" where
  "resume_sell_tx orderId transactionId reference =
     thenM (updOrders (\<lambda>x. o_id x = orderId)
       (\<lambda>x. (case reference of None \<Rightarrow> x | Some r \<Rightarrow> x\<lparr>o_referenceNo := Some r\<rparr>)
          \<lparr>o_status := OrPROCESSING, o_paymentStatus := PayPENDING\<rparr>))
     (thenM (case reference of None \<Rightarrow> returnM () | Some r \<Rightarrow> setUniqueId transactionId r)
       (updTransactions (\<lambda>x. t_id x = transactionId) (\<lambda>x. x\<lparr>t_status := TxPENDING\<rparr>)))"

definition resumeSell :: "env \<Rightarrow> retryWorld \<Rightarrow> string \<Rightarrow> bool sysm" where
  "resumeSell env world transactionId =
     bindM (getM (\<lambda>s. order_by_transaction transactionId (s_db s))) (\<lambda>ro.
     bindM (getM (\<lambda>s. transaction_by_id transactionId (s_db s))) (\<lambda>rt.
       case (ro, rt) of
         (Some r, Some t) \<Rightarrow>
           (case truthy (o_cryptoAmountOriginal r) of
              None \<Rightarrow> returnM False
            | Some volume \<Rightarrow>
                thenM (callM (CallOrder (to_lower (t_currency t) @ BASE_CURRENCY) ''sell'' volume))
                (case rw_order world of
                   Inl e \<Rightarrow> returnM False
                 | Inr a \<Rightarrow>
                     if pa_status a \<noteq> ''success'' then returnM False
                     else thenM (txM env ''retry_sell'' (resume_sell_tx (o_id r) transactionId (or_else (pa_reference a) (pa_id a))))
                       (returnM True)))
       | _ \<Rightarrow> returnM False))"

text \<open>The latest swap of the quote.\<close>

definition swap_of_quote :: "transaction \<Rightarrow> db \<Rightarrow> swapTransaction option" where
  "swap_of_quote t d =
     List.find (\<lambda>x. sw_quoteId x = Some (t_uniqueId t) \<and> sw_userId x = t_userId t) (rev (d_swaps d))"

definition swap_slipped :: "env \<Rightarrow> retryWorld \<Rightarrow> swapTransaction \<Rightarrow> bool" where
  "swap_slipped env world x =
     (case truthy (sw_quotedPriceOriginal x) of
        None \<Rightarrow> False
      | Some p \<Rightarrow> (case checkPriceSlippage env (rw_single world) (rw_fallback world) p False of Inl e \<Rightarrow> True | Inr u \<Rightarrow> False))"

definition answered_id :: "error + string option \<Rightarrow> string option" where
  "answered_id a = (case a of Inl e \<Rightarrow> None | Inr i \<Rightarrow> truthy i)"

definition resume_swap_at :: "env \<Rightarrow> retryWorld \<Rightarrow> string \<Rightarrow> string \<Rightarrow> swapTransaction \<Rightarrow> bool sysm" where
  "resume_swap_at env world from into x =
     thenM (callM (CallSwapRequest (to_lower from) (to_lower into) (sw_amountOriginal x)))
     (case answered_id (rw_quotation world) of
        None \<Rightarrow> returnM False
      | Some quotation \<Rightarrow>
          if swap_slipped env world x then returnM False
          else thenM (callM (CallSwapConfirm quotation))
            (case answered_id (rw_confirm world) of
               None \<Rightarrow> returnM False
             | Some i \<Rightarrow>
                 thenM (dbM (updSwaps (\<lambda>y. sw_id y = sw_id x)
                     (\<lambda>y. y\<lparr>sw_swapId := Some i, sw_status := ''processing'', sw_confirmed := True\<rparr>)))
                   (returnM True)))"

definition resumeSwap :: "env \<Rightarrow> retryWorld \<Rightarrow> failedLiquidity \<Rightarrow> string \<Rightarrow> bool sysm" where
  "resumeSwap env world failed transactionId =
     bindM (getM (\<lambda>s. transaction_by_id transactionId (s_db s))) (\<lambda>rt.
     bindM (getM (\<lambda>s. case rt of None \<Rightarrow> None | Some t \<Rightarrow> swap_of_quote t (s_db s))) (\<lambda>rx.
       case (rx, truthy (fl_fromCurrency failed), truthy (fl_toCurrency failed)) of
         (Some x, Some from, Some into) \<Rightarrow> resume_swap_at env world from into x
       | _ \<Rightarrow> returnM False))"

definition resume_withdrawal_tx :: "string \<Rightarrow> string \<Rightarrow> string \<Rightarrow> unit dbm" where
  "resume_withdrawal_tx withdrawalId transactionId providerId =
     bindM (getM (\<lambda>d. List.find (\<lambda>x. wd_providerWithdrawalId x = Some providerId \<and> wd_id x \<noteq> withdrawalId) (d_withdrawals d))) (\<lambda>dup.
     thenM (requireM (dup = None) (PrismaError ''P2002''))
     (thenM (updWithdrawals (\<lambda>x. wd_id x = withdrawalId)
       (\<lambda>x. x\<lparr>wd_providerWithdrawalId := Some providerId, wd_status := WdPROCESSING\<rparr>))
     (thenM (setUniqueId transactionId providerId)
       (updTransactions (\<lambda>x. t_id x = transactionId) (\<lambda>x. x\<lparr>t_status := TxPENDING\<rparr>)))))"

definition resumeWithdrawal :: "env \<Rightarrow> retryWorld \<Rightarrow> string \<Rightarrow> bool sysm" where
  "resumeWithdrawal env world transactionId =
     bindM (getM (\<lambda>s. List.find (\<lambda>x. wd_transactionId x = Some transactionId) (d_withdrawals (s_db s)))) (\<lambda>rw.
     bindM (getM (\<lambda>s. transaction_by_id transactionId (s_db s))) (\<lambda>rt.
       case (rw, rt) of
         (Some wd, Some t) \<Rightarrow>
           thenM (callM (CallWithdraw (case truthy (wd_reference wd) of None \<Rightarrow> t_uniqueId t | Some r \<Rightarrow> r) (wd_currency wd) (wd_amount wd)))
           (bindM (liftM (rw_withdraw world)) (\<lambda>a.
              case (if wa_status a = ''success'' then truthy (wa_id a) else None) of
                None \<Rightarrow> returnM False
              | Some i \<Rightarrow> thenM (txM env ''retry_withdrawal'' (resume_withdrawal_tx (wd_id wd) transactionId i)) (returnM True)))
       | _ \<Rightarrow> returnM False))"

text \<open>Only a resumed buy records that its liquidity is reserved.\<close>

definition resumed_buy :: "transaction \<Rightarrow> meta \<Rightarrow> unit sysm" where
  "resumed_buy t m =
     dbM (updTransactions (\<lambda>x. t_id x = t_id t)
       (\<lambda>x. x\<lparr>t_meta := mset_all (m @ [(''liquidityReservationStatus'', ''reserved'')]) (t_meta t), t_status := TxPENDING\<rparr>))"

definition resume_buy_card :: "retryWorld \<Rightarrow> transaction \<Rightarrow> bool sysm" where
  "resume_buy_card world t =
     (case truthy (Some (mget (t_meta t) ''cardId'')) of
        None \<Rightarrow> returnM False
      | Some cardId \<Rightarrow>
          thenM (callM (CallChargeCard cardId (t_uniqueId t) (t_fiatAmountBase t)))
          (bindM (liftM (rw_charge world)) (\<lambda>a.
             case a of
               None \<Rightarrow> returnM False
             | Some reference \<Rightarrow> thenM (resumed_buy t [(''paystackReference'', reference)]) (returnM True))))"

definition resume_buy_transfer :: "retryWorld \<Rightarrow> transaction \<Rightarrow> bool sysm" where
  "resume_buy_transfer world t =
     thenM (callM (CallInitPayment (t_uniqueId t) (t_fiatAmountBase t)))
     (bindM (liftM (rw_init world)) (\<lambda>a.
        case a of
          None \<Rightarrow> returnM False
        | Some (reference, url) \<Rightarrow>
            thenM (resumed_buy t [(''paystackReference'', reference), (''channels'', ''bank_transfer''), (''authorizationUrl'', url)])
              (returnM True)))"

definition resumeBuy :: "retryWorld \<Rightarrow> string \<Rightarrow> bool sysm" where
  "resumeBuy world transactionId =
     bindM (getM (\<lambda>s. transaction_by_id transactionId (s_db s))) (\<lambda>rt.
       case rt of
         None \<Rightarrow> returnM False
       | Some t \<Rightarrow>
           bindM (getM (\<lambda>s. user_by_id (t_userId t) (s_db s))) (\<lambda>ru.
             if (case ru of None \<Rightarrow> True | Some u \<Rightarrow> u_email u = []) then returnM False
             else if t_fiatAmountBase t \<le> 0 then returnM False
             else if t_paymentType t = Some CARD then resume_buy_card world t
             else resume_buy_transfer world t))"

section \<open>Trying a record\<close>

definition resume_order :: "env \<Rightarrow> retryWorld \<Rightarrow> failedLiquidity \<Rightarrow> transaction \<Rightarrow> bool sysm" where
  "resume_order env world failed t =
     (if t_context t = CtxSELL then resumeSell env world (t_id t)
      else if t_context t = CtxSWAP then resumeSwap env world failed (t_id t)
      else if t_context t = CtxWITHDRAWAL then resumeWithdrawal env world (t_id t)
      else if t_context t = CtxBUY then resumeBuy world (t_id t)
      else returnM False)"

text \<open>
  The liquidity is reserved in a transaction of its own, so that the cache is not refreshed; it is
  released without one. Whatever the resumption throws counts as a failure.
\<close>

definition retry_reserved :: "env \<Rightarrow> retryWorld \<Rightarrow> failedLiquidity \<Rightarrow> transaction \<Rightarrow> retryOutcome sysm" where
  "retry_reserved env world failed t =
     bindM (catchM (resume_order env world failed t) (\<lambda>e. returnM False)) (\<lambda>success.
       if \<not> success
       then thenM (releaseLiquidity_direct env (fl_currency failed) (fl_amountBase failed))
         (returnM (NotActivated ''provider_failed''))
       else thenM (dbM (delete_record (fl_id failed))) (returnM (Activated (t_id t))))"

definition processFailedRecord :: "env \<Rightarrow> retryWorld \<Rightarrow> string \<Rightarrow> retryOutcome sysm" where
  "processFailedRecord env world i =
     bindM (getM (\<lambda>s. failed_by_id i (s_db s))) (\<lambda>rf.
     bindM (getM (\<lambda>s. case rf of None \<Rightarrow> None | Some f \<Rightarrow> transaction_by_id (fl_transactionId f) (s_db s))) (\<lambda>rt.
       case (rf, rt) of
         (Some failed, Some t) \<Rightarrow>
           if \<not> isRetryableTransaction t
           then thenM (dbM (delete_record i)) (returnM (NotActivated ''transaction_not_retryable''))
           else bindM (txM env ''retry_reserve'' (reserveLiquidity (fl_currency failed) (fl_amountBase failed))) (\<lambda>reserved.
             if \<not> reserved then returnM (NotActivated ''insufficient_liquidity'')
             else retry_reserved env world failed t)
       | _ \<Rightarrow> returnM (NotActivated ''not_found'')))"

definition activateAndProcess :: "env \<Rightarrow> retryWorld \<Rightarrow> string \<Rightarrow> retryOutcome sysm" where
  "activateAndProcess env world i =
     bindM (getM (\<lambda>s. failed_by_id i (s_db s))) (\<lambda>rf.
     bindM (getM (\<lambda>s. case rf of None \<Rightarrow> None | Some f \<Rightarrow> transaction_by_id (fl_transactionId f) (s_db s))) (\<lambda>rt.
       case (rf, rt) of
         (Some failed, Some t) \<Rightarrow>
           bindM (getAvailableLiquidity_direct env (fl_currency failed)) (\<lambda>available.
             if available < fl_amountBase failed then returnM (NotActivated ''insufficient_liquidity'')
             else processFailedRecord env world (fl_id failed))
       | _ \<Rightarrow> returnM (NotActivated ''not_found'')))"

section \<open>Expiry\<close>

definition expire_record_tx :: "failedLiquidity \<Rightarrow> transaction \<Rightarrow> unit dbm" where
  "expire_record_tx failed t =
     thenM (case getUserReservedBalanceRelease t of
         None \<Rightarrow> returnM ()
       | Some (currency, amount) \<Rightarrow> releaseBalance (t_userId t) currency amount None)
     (thenM (updTransactions (\<lambda>x. t_id x = t_id t) (\<lambda>x. x\<lparr>t_status := TxFAILED, t_isProcessed := True\<rparr>))
       (delete_record (fl_id failed)))"

definition expire_record :: "env \<Rightarrow> failedLiquidity \<Rightarrow> transaction \<Rightarrow> unit sysm" where
  "expire_record env failed t =
     catchM
       (if \<not> isRetryableTransaction t then dbM (delete_record (fl_id failed))
        else txM env ''retry_expire'' (expire_record_tx failed t))
       (\<lambda>e. returnM ())"

text \<open>The records and their transactions are read once, before the first is expired.\<close>

definition STALE_LIMIT :: nat where
  "STALE_LIMIT = 200"

definition stale_records :: "env \<Rightarrow> int \<Rightarrow> db \<Rightarrow> (failedLiquidity \<times> transaction option) list" where
  "stale_records env maxAgeDays d =
     map (\<lambda>f. (f, transaction_by_id (fl_transactionId f) d))
       (take STALE_LIMIT (filter (\<lambda>f. fl_createdAt f < e_now env - maxAgeDays * 24 * 60 * 60 * 1000) (d_failedLiquidity d)))"

definition expireStaleFailedRecords :: "env \<Rightarrow> int \<Rightarrow> unit sysm" where
  "expireStaleFailedRecords env maxAgeDays =
     bindM (getM (\<lambda>s. stale_records env maxAgeDays (s_db s))) (\<lambda>stale.
       forM stale (\<lambda>(f, rt). case rt of None \<Rightarrow> returnM () | Some t \<Rightarrow> expire_record env f t))"

section \<open>A run\<close>

definition MAX_AGE_DAYS :: int where
  "MAX_AGE_DAYS = 3"

definition retry_record :: "env \<Rightarrow> (string \<Rightarrow> retryWorld) \<Rightarrow> failedLiquidity \<Rightarrow> nat sysm" where
  "retry_record env worlds item =
     catchM
       (bindM (getAvailableLiquidity_direct env (fl_currency item)) (\<lambda>available.
          if available < fl_amountBase item then returnM 0
          else bindM (processFailedRecord env (worlds (fl_id item)) (fl_id item)) (\<lambda>r.
            returnM (if activated_record r then 1 else 0))))
       (\<lambda>e. returnM 0)"

fun retry_records :: "env \<Rightarrow> (string \<Rightarrow> retryWorld) \<Rightarrow> failedLiquidity list \<Rightarrow> nat sysm" where
  "retry_records env worlds [] = returnM 0"
| "retry_records env worlds (item # items) =
     bindM (retry_record env worlds item) (\<lambda>n.
     bindM (retry_records env worlds items) (\<lambda>m. returnM (n + m)))"

text \<open>How many records were scanned, and how many of them activated.\<close>

definition autoProcessEligible :: "env \<Rightarrow> (string \<Rightarrow> retryWorld) \<Rightarrow> nat \<Rightarrow> (nat \<times> nat) sysm" where
  "autoProcessEligible env worlds limit =
     thenM (expireStaleFailedRecords env MAX_AGE_DAYS)
     (bindM (getM (\<lambda>s. getPending limit (s_db s))) (\<lambda>pendings.
      bindM (retry_records env worlds pendings) (\<lambda>processed.
        returnM (length pendings, processed))))"

section \<open>The scheduler\<close>

text \<open>When a job since last, and when it is due next (\<^verbatim>\<open>scheduler-execution-state.service.ts\<close>).\<close>

type_synonym jobStates = "string \<Rightarrow> (int \<times> int option) option"

definition isDue :: "string \<Rightarrow> int \<Rightarrow> jobStates \<Rightarrow> bool" where
  "isDue job now states =
     (case states job of None \<Rightarrow> True | Some (since, due) \<Rightarrow> (case due of None \<Rightarrow> True | Some t \<Rightarrow> t \<le> now))"

definition markExecuted :: "string \<Rightarrow> int \<Rightarrow> int \<Rightarrow> jobStates \<Rightarrow> jobStates" where
  "markExecuted job since due states = states(job \<mapsto> (since, Some due))"

definition RETRY_JOB :: string where
  "RETRY_JOB = ''scheduler.failed-company-liquidity''"

definition RETRY_LIMIT :: nat where
  "RETRY_LIMIT = 25"

definition retry_scheduler ::
    "env \<Rightarrow> (string \<Rightarrow> retryWorld) \<Rightarrow> jobStates \<times> sys \<Rightarrow> (error + unit) \<times> jobStates \<times> sys" where
  "retry_scheduler env worlds = (\<lambda>(states, s).
     if \<not> isDue RETRY_JOB (e_now env) states then (Inr (), states, s)
     else (case autoProcessEligible env worlds RETRY_LIMIT s of (r, s') \<Rightarrow>
       (case r of
          Inl e \<Rightarrow> (Inl e, states, s')
        | Inr n \<Rightarrow> (Inr (), markExecuted RETRY_JOB (e_now env) (e_now env + 60 * 60 * 1000) states, s'))))"

end
