(* ===== verification/BillRetry.thy ===== *)
theory BillRetry
  imports Bills FailedLiquidity
begin

text \<open>
  The scheduler that repairs bill payments (\<^verbatim>\<open>bill-payment-retry.scheduler.ts\<close>): it stores the reference
  of an order the exchange took when the confirmation could not, and repeats a payment the bill provider
  did not take, at most five times. When the last try fails, the reservations are given back.
\<close>

section \<open>What is due\<close>

definition BILL_BATCH_SIZE :: nat where
  "BILL_BATCH_SIZE = 25"

definition BILL_MAX_ATTEMPTS :: int where
  "BILL_MAX_ATTEMPTS = 5"

definition BILL_RETRY_JOB :: string where
  "BILL_RETRY_JOB = ''scheduler.bill-payment-retry''"

text \<open>\<open>parse_date\<close> is \<^verbatim>\<open>Date.parse\<close> (\<open>None\<close>: \<^verbatim>\<open>NaN\<close>).\<close>

definition safeDateDue :: "(string \<Rightarrow> int option) \<Rightarrow> string \<Rightarrow> int \<Rightarrow> bool \<Rightarrow> bool" where
  "safeDateDue parse_date value dueAt missingIsDue =
     (if value = [] then missingIsDue else (case parse_date value of None \<Rightarrow> True | Some t \<Rightarrow> t \<le> dueAt))"

definition billing_status :: "meta \<Rightarrow> string" where
  "billing_status m = to_upper (mget m ''billingStatus'')"

definition bill_retry_due :: "(string \<Rightarrow> int option) \<Rightarrow> int \<Rightarrow> meta \<Rightarrow> bool" where
  "bill_retry_due parse_date now m =
     (if billing_status m = ''ORDER_REFERENCE_PERSIST_FAILED'' then mget m ''billingRequiresReconciliation'' \<noteq> ''false''
      else if billing_status m = ''PROVIDER_SUBMIT_FAILED_RETRYABLE'' then safeDateDue parse_date (mget m ''billingNextRetryAt'') now True
      else if billing_status m = ''PAYING_RETRY''
      then safeDateDue parse_date (mget m ''billingRetryLockedAt'') (now - 15 * 60 * 1000) True
      else False)"

text \<open>\<open>by_update\<close> sorts the rows by \<^verbatim>\<open>updatedAt\<close>, a column the model leaves out.\<close>

definition retry_candidates :: "(transaction list \<Rightarrow> transaction list) \<Rightarrow> db \<Rightarrow> transaction list" where
  "retry_candidates by_update d = take (BILL_BATCH_SIZE * 4) (by_update
     (filter (\<lambda>t. t_context t = CtxBILL_PAYMENT \<and> t_status t = TxPENDING \<and> mget (t_meta t) ''billingStatus'' \<in> set
        [''ORDER_REFERENCE_PERSIST_FAILED'', ''PROVIDER_SUBMIT_FAILED_RETRYABLE'', ''PAYING_RETRY'']) (d_transactions d)))"

section \<open>Storing the reference of an order\<close>

definition reconcileAcceptedOrder_tx :: "env \<Rightarrow> string \<Rightarrow> unit dbm" where
  "reconcileAcceptedOrder_tx env i =
     bindM (getM (transaction_by_id i)) (\<lambda>rt.
     bindM (getM (bill_by_transaction i)) (\<lambda>rb.
       case (rt, rb) of
         (Some t, Some b) \<Rightarrow>
           (let m = t_meta t; reference = trim (meta_or m ''quidaxOrderReference'' (mget m ''quidaxOrderId'')) in
            if t_status t \<noteq> TxPENDING \<or> billing_status m \<noteq> ''ORDER_REFERENCE_PERSIST_FAILED''
                \<and> mget m ''billingRequiresReconciliation'' \<noteq> ''true'' then returnM ()
            else if reference = [] then
              updTransactions (\<lambda>x. t_id x = i) (\<lambda>x. x\<lparr>t_meta := mset_all
                [(''billingStatus'', ''ORDER_REFERENCE_RECONCILIATION_FAILED''), (''billingManualReviewRequired'', ''true''),
                 (''billingRequiresReconciliation'', ''true''), (''billingReconciliationReason'', ''missing_quidax_order_reference''),
                 (''billingReconciliationAttemptedAt'', toISOString (e_now env))] m\<rparr>)
            else
              thenM (updTransactions (\<lambda>x. t_id x = i) (\<lambda>x. x\<lparr>t_meta := mset_all
                [(''billingStatus'', ''PROCESSING''), (''billingRequiresReconciliation'', ''false''),
                 (''billingManualReviewRequired'', ''false''), (''billingReconciledAt'', toISOString (e_now env)),
                 (''quidaxOrderReference'', reference)] m\<rparr>))
              (thenM (updOrders (\<lambda>x. o_transactionId x = i)
                 (\<lambda>x. x\<lparr>o_referenceNo := Some reference, o_status := OrPROCESSING, o_paymentStatus := PayPENDING\<rparr>))
                (updBillPayments (\<lambda>x. bp_id x = bp_id b) (\<lambda>x. x\<lparr>bp_status := BpPROCESSING\<rparr>))))
       | _ \<Rightarrow> returnM ()))"

section \<open>Repeating a payment\<close>

definition billing_retries :: "meta \<Rightarrow> int" where
  "billing_retries m = (case parse_int (mget m ''billingRetryCount'') of None \<Rightarrow> 0 | Some n \<Rightarrow> n)"

text \<open>The claim, under the row lock: the transaction as it was read, and the metadata that were written.\<close>

definition bill_claim_tx :: "env \<Rightarrow> string \<Rightarrow> (transaction \<times> meta) option dbm" where
  "bill_claim_tx env i =
     bindM (getM (transaction_by_id i)) (\<lambda>rt.
     bindM (getM (bill_by_transaction i)) (\<lambda>rb.
       case (rt, rb) of
         (Some t, Some b) \<Rightarrow>
           (let m = t_meta t;
                next_meta = mset_all [(''billingStatus'', ''PAYING_RETRY''), (''billingRetryLockedAt'', toISOString (e_now env)),
                  (''billingRequiresRetry'', ''true'')] m in
            if t_status t \<noteq> TxPENDING \<or> billing_status m \<notin> set [''PROVIDER_SUBMIT_FAILED_RETRYABLE'', ''PAYING_RETRY'']
                \<or> billing_retries m \<ge> BILL_MAX_ATTEMPTS then returnM None
            else thenM (updTransactions (\<lambda>x. t_id x = i) (\<lambda>x. x\<lparr>t_meta := next_meta\<rparr>)) (returnM (Some (t, next_meta))))
       | _ \<Rightarrow> returnM None))"

definition bill_repaid_tx :: "env \<Rightarrow> transaction \<Rightarrow> meta \<Rightarrow> string \<Rightarrow> unit dbm" where
  "bill_repaid_tx env t m response =
     thenM (updTransactions (\<lambda>x. t_id x = t_id t) (\<lambda>x. x\<lparr>t_meta := mset_all
        [(''billingStatus'', ''PROVIDER_SUBMITTED''), (''billingRequiresRetry'', ''false''),
         (''billingRetriedAt'', toISOString (e_now env)), (''xpresspayResponse'', response),
         (''xpresspaySubmittedAt'', toISOString (e_now env))] m\<rparr>))
       (updBillPayments (\<lambda>x. bp_transactionId x = Some (t_id t)) (\<lambda>x. x\<lparr>bp_status := BpPROCESSING\<rparr>))"

text \<open>\<^verbatim>\<open>toBigInt(a || b || 0)\<close> of the metadata and the columns; a decimal is an object, which is never falsy.\<close>

definition meta_amount :: "meta \<Rightarrow> string \<Rightarrow> int option \<Rightarrow> error + int" where
  "meta_amount m k column = (if mget m k = [] then Inr (or0 column) else parse_bigint (mget m k))"

definition claimed_user_amount :: "transaction \<Rightarrow> meta \<Rightarrow> error + int" where
  "claimed_user_amount t m = meta_amount m ''totalSellAmountBase''
     (case t_totalAmountSentBase t of Some a \<Rightarrow> Some a | None \<Rightarrow> t_cryptoAmountBase t)"

definition claimed_company_amount :: "transaction \<Rightarrow> meta \<Rightarrow> error + int" where
  "claimed_company_amount t m = meta_amount m ''liquidityReservationAmount'' (Some (t_fiatAmountBase t))"

definition retry_failure_meta :: "env \<Rightarrow> bool \<Rightarrow> int \<Rightarrow> string \<Rightarrow> meta \<Rightarrow> meta" where
  "retry_failure_meta env exhausted attempt message m = mset_all
     [(''billingStatus'', if exhausted then ''PROVIDER_SUBMIT_RETRY_EXHAUSTED'' else ''PROVIDER_SUBMIT_FAILED_RETRYABLE''),
      (''billingRequiresRetry'', if exhausted then ''false'' else ''true''),
      (''billingManualReviewRequired'', if exhausted then ''true'' else ''false''),
      (''billingRetryCount'', show_int attempt),
      (''billingNextRetryAt'', if exhausted then [] else toISOString (e_now env + min 60 (2 ^ nat attempt * 5) * 60 * 1000)),
      (''billingFailureAt'', toISOString (e_now env)), (''billingFailureReason'', if message = [] then ''unknown'' else message)] m"

definition exhausted_release_user :: "env \<Rightarrow> transaction \<Rightarrow> int \<Rightarrow> meta \<Rightarrow> (bool \<times> meta) dbm" where
  "exhausted_release_user env t a m =
     (if a > 0 \<and> mget m ''userBalanceReservationStatus'' \<noteq> ''released''
      then tried_release (releaseBalance (t_userId t) (t_currency t) a None)
        [(''userBalanceReservationStatus'', ''released''), (''userBalanceReleasedAt'', toISOString (e_now env)),
         (''userBalanceReleaseReason'', ''bill_payment_provider_retry_exhausted'')] ''userBalanceReleaseError'' m
      else returnM (True, m))"

definition exhausted_release_company :: "env \<Rightarrow> int \<Rightarrow> meta \<Rightarrow> (bool \<times> meta) dbm" where
  "exhausted_release_company env a m =
     (if a > 0 \<and> mget m ''liquidityReservationStatus'' = ''reserved''
      then tried_release (releaseLiquidity BASE_CURRENCY a)
        [(''liquidityReservationStatus'', ''released''), (''liquidityReleasedAt'', toISOString (e_now env)),
         (''liquidityReleaseReason'', ''bill_payment_provider_retry_exhausted'')] ''liquidityReleaseError'' m
      else returnM (True, m))"

definition bill_retry_failed_tx :: "env \<Rightarrow> transaction \<Rightarrow> meta \<Rightarrow> string \<Rightarrow> unit dbm" where
  "bill_retry_failed_tx env t m message =
     (let attempt = billing_retries (t_meta t) + 1; exhausted = attempt \<ge> BILL_MAX_ATTEMPTS;
          m' = retry_failure_meta env exhausted attempt message m;
          write = (\<lambda>ended m. updTransactions (\<lambda>x. t_id x = t_id t)
            (\<lambda>x. x\<lparr>t_status := (if ended then TxFAILED else TxPENDING), t_isProcessed := ended, t_meta := m\<rparr>))
      in if \<not> exhausted then write False m'
         else
           bindM (liftM (claimed_user_amount t m)) (\<lambda>a.
           bindM (liftM (claimed_company_amount t m)) (\<lambda>c.
           bindM (exhausted_release_user env t a m') (\<lambda>(ok, m1).
           bindM (exhausted_release_company env c m1) (\<lambda>(ok', m2).
           thenM (write (ok \<and> ok') m2)
           (thenM (updBillPayments (\<lambda>x. bp_transactionId x = Some (t_id t)) (\<lambda>x. x\<lparr>bp_status := BpFAILED\<rparr>))
             (updOrders (\<lambda>x. o_transactionId x = t_id t) (\<lambda>x. x\<lparr>o_status := OrFAILED, o_paymentStatus := PayFAILED\<rparr>))))))))"

definition bill_retry_one :: "env \<Rightarrow> error + string \<Rightarrow> string \<Rightarrow> unit sysm" where
  "bill_retry_one env answer i =
     bindM (txM env ''bill_claim'' (bill_claim_tx env i)) (\<lambda>claim.
       case claim of
         None \<Rightarrow> returnM ()
       | Some (t, m) \<Rightarrow>
           catchM
             (thenM (callM (CallPayBill (t_id t)))
             (bindM (liftM answer) (\<lambda>response. txM env ''bill_repaid'' (bill_repaid_tx env t m response))))
             (\<lambda>e. txM env ''bill_retry_failed'' (bill_retry_failed_tx env t m (err_msg e))))"

section \<open>A run\<close>

definition repair_bill :: "env \<Rightarrow> (string \<Rightarrow> error + string) \<Rightarrow> transaction \<Rightarrow> unit sysm" where
  "repair_bill env answers t =
     catchM
       (if billing_status (t_meta t) = ''ORDER_REFERENCE_PERSIST_FAILED''
        then txM env ''bill_reconcile'' (reconcileAcceptedOrder_tx env (t_id t))
        else bill_retry_one env (answers (t_id t)) (t_id t))
       (\<lambda>_. returnM ())"

definition bill_retry_run ::
    "env \<Rightarrow> (string \<Rightarrow> int option) \<Rightarrow> (transaction list \<Rightarrow> transaction list) \<Rightarrow> (string \<Rightarrow> error + string) \<Rightarrow> unit sysm" where
  "bill_retry_run env parse_date by_update answers =
     bindM (getM (\<lambda>s. take BILL_BATCH_SIZE (filter (\<lambda>t. bill_retry_due parse_date (e_now env) (t_meta t))
         (retry_candidates by_update (s_db s))))) (\<lambda>rows.
       forM rows (repair_bill env answers))"

definition bill_retry_scheduler ::
    "env \<Rightarrow> (string \<Rightarrow> int option) \<Rightarrow> (transaction list \<Rightarrow> transaction list) \<Rightarrow> (string \<Rightarrow> error + string)
       \<Rightarrow> jobStates \<times> sys \<Rightarrow> (error + unit) \<times> jobStates \<times> sys" where
  "bill_retry_scheduler env parse_date by_update answers = (\<lambda>(states, s).
     if \<not> isDue BILL_RETRY_JOB (e_now env) states then (Inr (), states, s)
     else (case bill_retry_run env parse_date by_update answers s of (r, s') \<Rightarrow>
       (case r of
          Inl e \<Rightarrow> (Inl e, states, s')
        | Inr u \<Rightarrow> (Inr (), markExecuted BILL_RETRY_JOB (e_now env) (e_now env + 15 * 60 * 1000) states, s'))))"

end
