(* ===== verification/BuyBooks.thy ===== *)
theory BuyBooks
  imports Buy SellBooks StackJobs
begin

text \<open>
  A buy from the confirmation of its quote to the settlement of its order: what the confirmation
  reserves, what an answer without success gives back, and what the settled order takes.
\<close>

section \<open>What the confirmation reserves\<close>

lemma buy_reserve_run:
  assumes "buy_reserve_tx env False u pid w q pay amount fiat d = (Inr (BuyReserved t), d')"
  shows "reserveLiquidity BASE_CURRENCY (buy_liquidity q) d = (Inr True, d\<lparr>d_liquidity := d_liquidity d'\<rparr>)"
    and "d_wallets d' = d_wallets d" "d_transactions d' = d_transactions d @ [t]"
    and "\<exists>i buffer fee. t = transaction_of_params i (buy_params u pid w q pay True amount fiat buffer fee)"
    and "transaction_by_uniqueId pid d = None"
proof -
  obtain d1 i buffer fee where none: "transaction_by_uniqueId pid d = None"
    and r: "reserveLiquidity BASE_CURRENCY (buy_liquidity q) d = (Inr True, d1)"
    and t: "t = transaction_of_params i (buy_params u pid w q pay True amount fiat buffer fee)"
    and d': "d' = d1\<lparr>d_seq := Suc (d_seq d1), d_transactions := d_transactions d1 @ [t]\<rparr>"
    using assms unfolding buy_reserve_tx_def
    by (auto simp: run_simps createTransaction_def split: option.splits if_splits)
  have d1: "d1 = d\<lparr>d_liquidity := d_liquidity d1\<rparr>" by (rule reserveLiquidity_run [OF r])
  show "reserveLiquidity BASE_CURRENCY (buy_liquidity q) d = (Inr True, d\<lparr>d_liquidity := d_liquidity d'\<rparr>)"
    using r d1 by (simp add: d')
  show "d_wallets d' = d_wallets d" "d_transactions d' = d_transactions d @ [t]"
    unfolding d' by (subst d1, simp)+
  show "\<exists>i buffer fee. t = transaction_of_params i (buy_params u pid w q pay True amount fiat buffer fee)"
    using t by blast
  show "transaction_by_uniqueId pid d = None" by (rule none)
qed

lemma lower_reserved: "to_lower ''reserved'' = ''reserved''"
  by (simp add: eval_simps)

lemma buy_reserve_fields:
  assumes "buy_reserve_tx env False u pid w q pay amount fiat d = (Inr (BuyReserved t), d')"
  shows "t_context t = CtxBUY" "t_userId t = u" "t_uniqueId t = pid" "t_status t = TxPENDING"
    "reserved_of t = Inr (buy_liquidity q)" "reservation_status t = ''reserved''"
  using buy_reserve_run(4) [OF assms]
  by (auto simp: transaction_of_params_def buy_params_def new_transaction_def reserved_of_def reservation_status_def
      mget_def lower_reserved)

lemma buy_reserve_found:
  assumes "buy_reserve_tx env False u pid w q pay amount fiat d = (Inr (BuyReserved t), d')"
  shows "transaction_by_uniqueId pid d' = Some t"
  using buy_reserve_run(3,5) [OF assms] buy_reserve_fields(3) [OF assms]
  by (simp add: transaction_by_uniqueId_def find_fresh)

lemma buy_reserve_posting:
  assumes "keys_ok d" "buy_reserve_tx env False u pid w q pay amount fiat d = (Inr (BuyReserved t), d')"
  shows "posted d (entry BASE_CURRENCY (Books 0 0 0 0 0 (buy_liquidity q))) d'"
proof -
  note r = buy_reserve_run [OF assms(2)]
  note p = reserveLiquidity_posting [OF assms(1) r(1), simplified]
  show ?thesis by (rule posted_cong [OF p refl refl]) (simp_all add: r(2))
qed

lemma buy_back:
  assumes "solvent d" "keys_ok d" "0 \<le> buy_liquidity q"
    and "buy_reserve_tx env False u pid w q pay amount fiat d = (Inr (BuyReserved t), d')"
    and "d_liquidity f = d_liquidity d'"
  shows "releaseLiquidity BASE_CURRENCY (buy_liquidity q) f = (Inr (), f\<lparr>d_liquidity := d_liquidity d\<rparr>)"
proof -
  have "back_liquidity d d' BASE_CURRENCY (buy_liquidity q)"
    by (rule liquidity_back [OF assms(1-3) buy_reserve_run(1) [OF assms(4)]]) simp
  then show ?thesis using assms(5) by (simp add: back_liquidity_def)
qed

section \<open>What the settlement takes\<close>

text \<open>C5: a buy that is confirmed, paid and settled: whatever is posted in between, the user gets the crypto that was
  executed, the internal balance rises by it, and the company's NGN falls by what the confirmation
  reserved, so that nothing of the buy stays reserved.\<close>

theorem buy_flow_settles:
  assumes "keys_ok d" "0 < buy_liquidity q"
    and "buy_reserve_tx env False u pid w q pay amount fiat d = (Inr (BuyReserved t), d1)" "posted d1 other e"
    and "t_context t' = t_context t" "reservation_status t' = reservation_status t" "reserved_of t = Inr reserved"
    and "liquidity_for crypto d \<noteq> None" "\<forall>w. buy_wallet t' crypto e = Some w \<longrightarrow> ieq (w_currency w) crypto"
    and "ieq unit BASE_CURRENCY" "order_buy_tx env' r t' ex reference crypto unit reserved e = (Inr True, e')"
  shows "posted d (\<lambda>c. other c + entry BASE_CURRENCY (Books 0 0 0 0 (- buy_liquidity q) 0) c
    + entry crypto (Books (ex_crypto ex) 0 0 (ex_crypto ex) 0 0) c) e'"
proof -
  note f = buy_reserve_fields [OF assms(3)]
  have r: "reserved = buy_liquidity q" using f(5) assms(7) by simp
  have h: "holds_liquidity t' reserved" using assms(2,6) f(6) by (simp add: holds_liquidity_def r)
  have b: "buy_entry t' (ex_crypto ex) = Books (ex_crypto ex) 0 0 (ex_crypto ex) 0 0"
    using assms(5) f(1) by (simp add: buy_entry_def)
  have u: "entry unit = entry BASE_CURRENCY" using assms(10) by (simp add: entry_def ieq_def fun_eq_iff)
  note p1 = buy_reserve_posting [OF assms(1,3)]
  note p2 = posted_trans [OF p1 assms(4)]
  note p3 = buy_settles_posting [OF posted_keys [OF p2 assms(1)] posted_row [OF p2 assms(8)] assms(9,11)]
  show ?thesis
    by (rule posted_eq [OF posted_trans [OF p2 p3]]) (use h in \<open>simp add: b u r entry_def\<close>)
qed

section \<open>What an answer without success gives back\<close>

lemma sync_quietly_db: "\<exists>s'. sync_quietly env c s = (Inr (), s') \<and> s_db s' = s_db s"
  by (auto simp: sync_quietly_def syncCurrencyToCache_def setCache_def comp_defs split: option.splits sum.splits prod.splits)

lemma releaseLiquidity_direct_db:
  assumes "releaseLiquidity c a (s_db s) = (Inr (), d)"
  shows "\<exists>s'. releaseLiquidity_direct env c a s = (Inr (), s') \<and> s_db s' = d"
  using sync_quietly_db [of env c "s\<lparr>s_db := d\<rparr>"]
  by (auto simp: releaseLiquidity_direct_def comp_defs dbM_def assms)

text \<open>A payment the provider answers without success gives back the company's NGN and fails the transaction, whose
  metadata go on saying that the NGN is reserved.\<close>

theorem refused_buy_restores:
  assumes "solvent d" "keys_ok d" "0 \<le> buy_liquidity q"
    and "buy_reserve_tx env False u pid w q pay amount fiat d = (Inr (BuyReserved t), s_db s)"
    and "by_charge world = Inr None" "by_init world = Inr None"
    and "pay = CARD \<and> truthy (bq_cardId q) \<noteq> None \<or> pay = PAYSTACK" "\<forall>x \<in> set (d_transactions d). t_id x \<noteq> t_id t"
  shows "\<exists>s' m x. buy_continue env world pid q pay t s = (Inl (InternalServerError m), s')
    \<and> d_wallets (s_db s') = d_wallets d \<and> d_liquidity (s_db s') = d_liquidity d
    \<and> transaction_by_id (t_id t) (s_db s') = Some x \<and> t_status x = TxFAILED \<and> reservation_status x = ''reserved''"
proof -
  note r = buy_reserve_run [OF assms(4)]
  let ?d = "(s_db s)\<lparr>d_liquidity := d_liquidity d\<rparr>"
  have undo: "releaseLiquidity BASE_CURRENCY (buy_liquidity q) (s_db s) = (Inr (), ?d)"
    by (rule buy_back [OF assms(1-4) refl])
  have row: "transaction_by_id (t_id t) ?d = Some t"
    using assms(8) by (auto simp: transaction_by_id_def r(3) find_None_iff intro: find_fresh)
  have refused: "\<exists>s'. buy_refused env q t m s0 = (Inl (InternalServerError m), s')
      \<and> d_wallets (s_db s') = d_wallets d \<and> d_liquidity (s_db s') = d_liquidity d
      \<and> transaction_by_id (t_id t) (s_db s') = Some (t\<lparr>t_status := TxFAILED\<rparr>)" if "s_db s0 = s_db s" for m :: string and s0 :: sys
  proof -
    have "releaseLiquidity BASE_CURRENCY (buy_liquidity q) (s_db s0) = (Inr (), ?d)" using undo that by simp
    from releaseLiquidity_direct_db [OF this, of env]
    obtain s1 where s1: "releaseLiquidity_direct env BASE_CURRENCY (buy_liquidity q) s0 = (Inr (), s1)" "s_db s1 = ?d"
      by blast
    show ?thesis using row by (simp add: buy_refused_def comp_defs dbM_def updTransactions_def s1 r(2) transaction_by_id_def find_same_id)
  qed
  have "reservation_status (t\<lparr>t_status := TxFAILED\<rparr>) = ''reserved''"
    using buy_reserve_fields(6) [OF assms(4)] by (simp add: reservation_status_def split: if_splits)
  moreover have "\<exists>m c. buy_continue env world pid q pay t s = buy_refused env q t m (s\<lparr>s_calls := c\<rparr>)"
    using assms(5-7) by (auto simp: buy_continue_def buy_card_def buy_transfer_def comp_defs callM_def split: option.splits)
  then obtain m c where "buy_continue env world pid q pay t s = buy_refused env q t m (s\<lparr>s_calls := c\<rparr>)" by blast
  moreover note refused [of "s\<lparr>s_calls := c\<rparr>" m, simplified]
  ultimately show ?thesis by auto
qed

text \<open>But a request to the payment provider that ends with an exception leaves the NGN reserved and the
  transaction pending, and a new confirmation of the quote answers that the buy was submitted already: it
  asks for no payment, so that the buy is never paid.\<close>

theorem failed_buy_payment_keeps_reservation:
  assumes "keys_ok d" "buy_reserve_tx env False u pid w q pay amount fiat d = (Inr (BuyReserved t), s_db s)"
    and "by_charge world = Inl err" "by_init world = Inl err"
    and "pay = CARD \<and> truthy (bq_cardId q) \<noteq> None \<or> pay = PAYSTACK" "\<not> by_bypass world'"
  shows "\<exists>s'. buy_continue env world pid q pay t s = (Inl err, s')
    \<and> posted d (entry BASE_CURRENCY (Books 0 0 0 0 0 (buy_liquidity q))) (s_db s')
    \<and> transaction_by_uniqueId pid (s_db s') = Some t
    \<and> buy_existing env world' u pid q t amount' fiat' s' = (Inr (buy_result BUY_SUBMITTED (t_id t) TxPENDING None), s')"
proof -
  note p = buy_reserve_posting [OF assms(1,2)] and f = buy_reserve_found [OF assms(2)]
  have "\<exists>s0. s_db s0 = s_db s \<and> buy_continue env world pid q pay t s = (Inl err, s0)"
    using assms(3-5) by (auto simp: buy_continue_def buy_card_def buy_transfer_def comp_defs callM_def split: option.splits)
  then obtain s0 where "s_db s0 = s_db s" "buy_continue env world pid q pay t s = (Inl err, s0)" by blast
  moreover have "buy_existing env world' u pid q t amount' fiat' s0 = (Inr (buy_result BUY_SUBMITTED (t_id t) TxPENDING None), s0)"
    using assms(6) buy_reserve_fields(4) [OF assms(2)] by (simp add: buy_existing_def comp_defs)
  ultimately show ?thesis using p f by auto
qed

section \<open>An example\<close>

definition bought_quote_example :: buyQuote where
  "bought_quote_example = \<lparr>bq_quoteId = ''b1'', bq_userId = ''u1'', bq_crypto = ''BTC'', bq_network = ''N/A'', bq_fiatCurrency = ''NGN'',
     bq_volumeCryptoMinor = 10, bq_marketPriceMinor = 100, bq_bufferedPriceMinor = 110, bq_bufferSpreadMinor = 10,
     bq_platformFeeMinor = 10, bq_totalFiatMinor = 300, bq_bufferPercent = ''10.00'', bq_paymentMethodId = ''3646737378364'',
     bq_cardId = None, bq_pinVerified = True, bq_expiresAt = 301000\<rparr>"

definition buy_tx_example :: transaction where
  "buy_tx_example = transaction_of_params (show_nat 0)
     (buy_params ''u1'' ''b1'' btc_wallet bought_quote_example PAYSTACK True ''0.0000001'' ''3'' ''0.10'' ''0.10'')"

definition buy_world_example :: "error + string option \<Rightarrow> error + (string \<times> string) option \<Rightarrow> buyWorld" where
  "buy_world_example charge init = \<lparr>by_bypass = False, by_single = None, by_fallback = None, by_charge = charge, by_init = init\<rparr>"

lemma buy_quote_simps [simp]: "buy_liquidity bought_quote_example = 290"
  by (simp add: bought_quote_example_def buy_liquidity_def)

lemmas buy_eval = sell_eval bought_quote_example_def buy_tx_example_def buy_params_def

lemma buy_reserve_example:
  "fst (buy_reserve_tx env_example False ''u1'' ''b1'' btc_wallet bought_quote_example PAYSTACK ''0.0000001'' ''3'' db_sell)
     = Inr (BuyReserved buy_tx_example)"
  by (simp add: buy_eval buy_reserve_tx_def buy_liquidity_def sell_tx_eval shown_sell)

definition buy_db :: db where
  "buy_db = snd (buy_reserve_tx env_example False ''u1'' ''b1'' btc_wallet bought_quote_example PAYSTACK ''0.0000001'' ''3'' db_sell)"

lemmas buy_run = fst_run [OF buy_reserve_example, folded buy_db_def]

lemma buy_order_example:
  "fst (order_buy_tx env_example order_example buy_tx_example execution_example ''ref1'' ''BTC'' ''NGN'' 290 buy_db) = Inr True"
  by (simp add: buy_db_def buy_eval buy_reserve_tx_def buy_liquidity_def sell_tx_eval shown_sell order_tx_eval shown_110 w_credit_def)

theorem buy_flow_settles_witness:
  "\<exists>e'. order_buy_tx env_example order_example buy_tx_example execution_example ''ref1'' ''BTC'' ''NGN'' 290 buy_db = (Inr True, e')
    \<and> posted db_sell (\<lambda>c. entry BASE_CURRENCY (Books 0 0 0 0 (- 290) 0) c + entry ''BTC'' (Books 10 0 0 10 0 0) c) e'"
proof -
  note run = fst_run [OF buy_order_example]
  have "liquidity_for ''BTC'' db_sell \<noteq> None" "ieq ''NGN'' BASE_CURRENCY"
    by (simp_all add: buy_eval liquidity_for_def ieq_def BASE_CURRENCY_def eval_simps)
  moreover have "\<forall>w. buy_wallet buy_tx_example ''BTC'' buy_db = Some w \<longrightarrow> ieq (w_currency w) ''BTC''"
    using buy_reserve_run(2) [OF buy_run]
    by (auto simp: buy_eval buy_wallet_def wallet_for_def truthy_def ieq_def eval_simps)
  moreover have "reserved_of buy_tx_example = Inr 290" "ex_crypto execution_example = 10"
    using buy_reserve_fields(5) [OF buy_run] by (simp_all add: execution_example_def)
  ultimately show ?thesis
    using buy_flow_settles [OF db_sell_ok(2) _ buy_run posted_tables [OF refl refl] refl refl, where reserved = 290 and crypto = "''BTC''"] run by (auto simp: posted_def)
qed

theorem refused_buy_restores_witness:
  "\<exists>s' m x. buy_continue env_example (buy_world_example (Inr None) (Inr None)) ''b1'' bought_quote_example PAYSTACK buy_tx_example
      (sys_example\<lparr>s_db := buy_db\<rparr>) = (Inl (InternalServerError m), s')
    \<and> d_wallets (s_db s') = d_wallets db_sell \<and> d_liquidity (s_db s') = d_liquidity db_sell
    \<and> transaction_by_id (t_id buy_tx_example) (s_db s') = Some x \<and> t_status x = TxFAILED \<and> reservation_status x = ''reserved''"
  by (rule refused_buy_restores [OF db_sell_ok, where u = "''u1''" and w = btc_wallet and amount = "''0.0000001''" and fiat = "''3''"])
    (simp_all add: buy_run buy_world_example_def, simp add: db_sell_def)

theorem failed_buy_payment_keeps_reservation_witness:
  "\<exists>s'. buy_continue env_example (buy_world_example (Inl (ProviderError ''timeout'')) (Inl (ProviderError ''timeout''))) ''b1''
      bought_quote_example PAYSTACK buy_tx_example (sys_example\<lparr>s_db := buy_db\<rparr>) = (Inl (ProviderError ''timeout''), s')
    \<and> posted db_sell (entry BASE_CURRENCY (Books 0 0 0 0 0 290)) (s_db s')"
proof -
  have r: "buy_reserve_tx env_example False ''u1'' ''b1'' btc_wallet bought_quote_example PAYSTACK ''0.0000001'' ''3'' db_sell
      = (Inr (BuyReserved buy_tx_example), s_db (sys_example\<lparr>s_db := buy_db\<rparr>))"
    using buy_run by simp
  have w: "by_charge (buy_world_example (Inl e) (Inl e)) = Inl e" "by_init (buy_world_example (Inl e) (Inl e)) = Inl e"
    "\<not> by_bypass (buy_world_example (Inl e) (Inl e))" for e
    by (simp_all add: buy_world_example_def)
  from failed_buy_payment_keeps_reservation [OF db_sell_ok(2) r w(1,2) disjI2 [OF refl] w(3)] show ?thesis by (simp del: ex_simps) blast
qed

end
