(* ===== verification/FailedBooks.thy ===== *)
theory FailedBooks
  imports FailedLiquidity BuyBooks SwapFlow
begin

text \<open>
  What a retry of the queue of orders without liquidity does to the books: it reserves the liquidity of
  the orders it activates and nothing else, activates a record at most once, and completes what the
  confirmation began. Where this fails, an example.
\<close>

section \<open>The tables a resumption leaves alone\<close>

definition kept_money :: "db \<Rightarrow> db \<Rightarrow> bool" where
  "kept_money d e \<longleftrightarrow> d_wallets e = d_wallets d \<and> d_liquidity e = d_liquidity d \<and> d_failedLiquidity e = d_failedLiquidity d"

lemma kept_money_refl [simp]: "kept_money d d"
  by (simp add: kept_money_def)

lemma kept_money_upd [preserves_intros]:
  "preserves (kept_money d) (updOrders pr fr)" "preserves (kept_money d) (updTransactions pt ft)"
  "preserves (kept_money d) (updWithdrawals pw fw)" "preserves (kept_money d) (updSwaps ps fs)"
  "preserves (kept_money d) (setUniqueId i u)"
  by (auto simp: preserves_wp wp_simps kept_money_def setUniqueId_def split: option.split)

lemma kept_money_case_sum [preserves_intros]:
  "(\<And>e. x = Inl e \<Longrightarrow> preserves I (f e)) \<Longrightarrow> (\<And>y. x = Inr y \<Longrightarrow> preserves I (g y))
     \<Longrightarrow> preserves I (case x of Inl e \<Rightarrow> f e | Inr y \<Rightarrow> g y)"
  by (cases x) simp_all

lemma kept_money_resume: "preserves (on_db (kept_money d)) (resume_order env world failed t)"
  unfolding resume_order_def resumeSell_def resumeSwap_def resumeWithdrawal_def resumeBuy_def resume_sell_tx_def
    resume_swap_at_def resume_withdrawal_tx_def resumed_buy_def resume_buy_card_def resume_buy_transfer_def
  by (intro preserves_intros; simp split: prod.split option.split; intro conjI allI impI preserves_intros)

lemma resume_run:
  assumes "catchM (resume_order env world failed t) (\<lambda>e. returnM False) s = (r, s')"
  shows "kept_money (s_db s) (s_db s')" "\<exists>b. r = Inr b"
proof -
  have "preserves (on_db (kept_money (s_db s))) (catchM (resume_order env world failed t) (\<lambda>e. returnM False))"
    by (intro preserves_intros kept_money_resume)
  from preservesD [OF this, of s] assms show "kept_money (s_db s) (s_db s')" by (simp add: on_db_def)
  show "\<exists>b. r = Inr b" using assms by (auto simp: comp_defs split: prod.splits sum.splits)
qed

section \<open>One record\<close>

text \<open>A record that is tried has its liquidity; when it fails, it is given back.\<close>

lemma retry_reserved_run:
  assumes "solvent d" "keys_ok d" "0 \<le> fl_amountBase failed"
    and "reserveLiquidity (fl_currency failed) (fl_amountBase failed) d = (Inr True, s_db s)" "failed_by_id (fl_id failed) d = Some failed"
    and "retry_reserved env world failed t s = (r, s')"
  shows "r = Inr (Activated (t_id t)) \<and> d_wallets (s_db s') = d_wallets d \<and> d_liquidity (s_db s') = d_liquidity (s_db s)
      \<and> d_failedLiquidity (s_db s') = filter (\<lambda>x. fl_id x \<noteq> fl_id failed) (d_failedLiquidity d)
    \<or> r = Inr (NotActivated ''provider_failed'') \<and> d_wallets (s_db s') = d_wallets d \<and> d_liquidity (s_db s') = d_liquidity d
      \<and> d_failedLiquidity (s_db s') = d_failedLiquidity d"
proof -
  have l: "s_db s = d\<lparr>d_liquidity := d_liquidity (s_db s)\<rparr>" by (rule reserveLiquidity_run [OF assms(4)])
  have base: "d_wallets (s_db s) = d_wallets d" "d_failedLiquidity (s_db s) = d_failedLiquidity d" by (subst l, simp)+
  obtain b s1 where run: "catchM (resume_order env world failed t) (\<lambda>e. returnM False) s = (Inr b, s1)"
    using resume_run(2) by (metis surj_pair)
  have k: "d_wallets (s_db s1) = d_wallets d" "d_liquidity (s_db s1) = d_liquidity (s_db s)" "d_failedLiquidity (s_db s1) = d_failedLiquidity d"
    using resume_run(1) [OF run] base by (simp_all add: kept_money_def)
  have body: "(if \<not> b then thenM (releaseLiquidity_direct env (fl_currency failed) (fl_amountBase failed)) (returnM (NotActivated ''provider_failed''))
      else thenM (dbM (delete_record (fl_id failed))) (returnM (Activated (t_id t)))) s1 = (r, s')"
    using assms(6) run unfolding retry_reserved_def by (simp add: bindM_def)
  show ?thesis
  proof (cases b)
    case True
    have "failed_by_id (fl_id failed) (s_db s1) \<noteq> None" using assms(5) by (simp add: failed_by_id_def k(3))
    with body True show ?thesis
      by (auto simp: delete_record_def deleteFailedLiquidity_def dbM_def comp_defs k)
  next
    case False
    have "back_liquidity d (s_db s1) (fl_currency failed) (fl_amountBase failed)"
      by (rule liquidity_back [OF assms(1-4)]) (rule k(2))
    then have "releaseLiquidity (fl_currency failed) (fl_amountBase failed) (s_db s1) = (Inr (), (s_db s1)\<lparr>d_liquidity := d_liquidity d\<rparr>)"
      by (simp add: back_liquidity_def)
    from releaseLiquidity_direct_db [OF this, of env] obtain s2 where s2: "releaseLiquidity_direct env (fl_currency failed) (fl_amountBase failed) s1 = (Inr (), s2)"
      "s_db s2 = (s_db s1)\<lparr>d_liquidity := d_liquidity d\<rparr>" by blast
    with body False show ?thesis by (auto simp: comp_defs k)
  qed
qed

definition queue_ok :: "db \<Rightarrow> bool" where
  "queue_ok d \<longleftrightarrow> (\<forall>f \<in> set (d_failedLiquidity d). 0 \<le> fl_amountBase f)"

text \<open>A run either tries a record or leaves everything but the queue as it was.\<close>

definition idle_run :: "error + retryOutcome \<Rightarrow> db \<Rightarrow> db \<Rightarrow> bool" where
  "idle_run r d e \<longleftrightarrow> (\<forall>t. r \<noteq> Inr (Activated t)) \<and> d_wallets e = d_wallets d \<and> d_liquidity e = d_liquidity d
     \<and> set (d_failedLiquidity e) \<subseteq> set (d_failedLiquidity d)"

lemma reserve_in_tx:
  assumes "txM env l (reserveLiquidity c a) s = (x, s1)"
  shows "case x of Inl e \<Rightarrow> s1 = s
    | Inr ok \<Rightarrow> reserveLiquidity c a (s_db s) = (Inr ok, s_db s1) \<and> (\<not> ok \<longrightarrow> s_db s1 = s_db s)"
  using assms by (auto simp: txM_def reserveLiquidity_eq guarded_update_none split: option.splits prod.splits sum.splits)

lemma process_cases:
  assumes "processFailedRecord env world i s = (r, s')"
  shows "idle_run r (s_db s) (s_db s') \<or> (\<exists>f t s1. failed_by_id i (s_db s) = Some f
    \<and> transaction_by_id (fl_transactionId f) (s_db s) = Some t
    \<and> reserveLiquidity (fl_currency f) (fl_amountBase f) (s_db s) = (Inr True, s_db s1)
    \<and> retry_reserved env world f t s1 = (r, s'))"
proof (cases "failed_by_id i (s_db s)")
  case None
  then show ?thesis using assms by (auto simp: processFailedRecord_def comp_defs idle_run_def)
next
  case (Some f)
  note f = this
  show ?thesis
  proof (cases "transaction_by_id (fl_transactionId f) (s_db s)")
    case None
    then show ?thesis using assms f by (auto simp: processFailedRecord_def comp_defs idle_run_def)
  next
    case (Some t)
    obtain x s1 where x: "txM env ''retry_reserve'' (reserveLiquidity (fl_currency f) (fl_amountBase f)) s = (x, s1)" by fastforce
    show ?thesis
    proof (cases "isRetryableTransaction t")
      case False
      then show ?thesis using assms f Some
        by (auto simp: processFailedRecord_def delete_record_def deleteFailedLiquidity_def dbM_def comp_defs idle_run_def)
    next
      case True
      with assms f Some x reserve_in_tx [OF x] show ?thesis
        by (cases x) (auto simp: processFailedRecord_def comp_defs idle_run_def split: if_splits)
    qed
  qed
qed

lemma failed_by_id_in: "failed_by_id i d = Some f \<Longrightarrow> f \<in> set (d_failedLiquidity d) \<and> fl_id f = i"
  using find_Some_in by (fastforce simp: failed_by_id_def)

lemma retry_result:
  assumes "solvent (s_db s)" "keys_ok (s_db s)" "queue_ok (s_db s)" "processFailedRecord env world i s = (r, s')"
  shows "idle_run r (s_db s) (s_db s') \<or> (\<exists>f. r = Inr (Activated (fl_transactionId f)) \<and> failed_by_id i (s_db s) = Some f
    \<and> reserveLiquidity (fl_currency f) (fl_amountBase f) (s_db s) = (Inr True, (s_db s)\<lparr>d_liquidity := d_liquidity (s_db s')\<rparr>)
    \<and> d_wallets (s_db s') = d_wallets (s_db s)
    \<and> d_failedLiquidity (s_db s') = filter (\<lambda>x. fl_id x \<noteq> i) (d_failedLiquidity (s_db s)))"
  using process_cases [OF assms(4)]
proof (elim disjE exE conjE)
  fix f t s1
  assume f: "failed_by_id i (s_db s) = Some f" and t: "transaction_by_id (fl_transactionId f) (s_db s) = Some t"
    and ok: "reserveLiquidity (fl_currency f) (fl_amountBase f) (s_db s) = (Inr True, s_db s1)"
    and run: "retry_reserved env world f t s1 = (r, s')"
  have i: "fl_id f = i" and a: "0 \<le> fl_amountBase f"
    using failed_by_id_in [OF f] assms(3) by (auto simp: queue_ok_def)
  have ti: "t_id t = fl_transactionId f" using find_Some_in [OF t [unfolded transaction_by_id_def]] by simp
  have l: "s_db s1 = (s_db s)\<lparr>d_liquidity := d_liquidity (s_db s1)\<rparr>" by (rule reserveLiquidity_run [OF ok])
  have "reserveLiquidity (fl_currency f) (fl_amountBase f) (s_db s) = (Inr True, (s_db s)\<lparr>d_liquidity := d_liquidity (s_db s1)\<rparr>)"
    using ok l by simp
  with retry_reserved_run [OF assms(1,2) a ok _ run] f i ti show ?thesis by (auto simp: idle_run_def)
qed simp


section \<open>A record is activated once\<close>

definition record_gone :: "string \<Rightarrow> db \<Rightarrow> bool" where
  "record_gone i d \<longleftrightarrow> failed_by_id i d = None"

lemma record_gone_frames [preserves_intros]:
  "preserves (record_gone i) (updOrders pr fr)" "preserves (record_gone i) (updTransactions pt ft)"
  "preserves (record_gone i) (updWithdrawals pw fw)" "preserves (record_gone i) (updSwaps ps fs)"
  "preserves (record_gone i) (setUniqueId j u)" "preserves (record_gone i) (sqlWallets k v)"
  "preserves (record_gone i) (sqlLiquidity k' v')"
  by (auto simp: preserves_wp wp_simps record_gone_def failed_by_id_def setUniqueId_def split: option.split)

lemma record_gone_delete [preserves_intros]: "preserves (record_gone i) (delete_record j)"
  by (auto simp: preserves_wp wp_simps record_gone_def failed_by_id_def delete_record_def deleteFailedLiquidity_def
      find_None_iff)

lemma record_gone_ledger [preserves_intros]:
  "preserves (record_gone i) (reserveLiquidity c a)" "preserves (record_gone i) (releaseLiquidity c a)"
  "preserves (record_gone i) (releaseBalance u c a n)"
  unfolding reserveLiquidity_def releaseLiquidity_def releaseBalance_def by (intro preserves_intros)+

lemma record_gone_resume [preserves_intros]: "preserves (on_db (record_gone i)) (resume_order env world failed t)"
  unfolding resume_order_def resumeSell_def resumeSwap_def resumeWithdrawal_def resumeBuy_def resume_sell_tx_def
    resume_swap_at_def resume_withdrawal_tx_def resumed_buy_def resume_buy_card_def resume_buy_transfer_def
  by (intro preserves_intros; simp split: prod.split option.split; intro conjI allI impI preserves_intros)

lemma record_gone_retry:
  "preserves (on_db (record_gone i)) (retry_reserved env world failed t)"
  "preserves (on_db (record_gone i)) (processFailedRecord env world j)"
  "preserves (on_db (record_gone i)) (expireStaleFailedRecords env days)"
proof -
  show r: "preserves (on_db (record_gone i)) (retry_reserved env world failed t)" for failed t
    unfolding retry_reserved_def releaseLiquidity_direct_def by (intro preserves_intros)
  show "preserves (on_db (record_gone i)) (processFailedRecord env world j)"
    unfolding processFailedRecord_def
    by (intro preserves_intros; simp split: prod.split option.split; intro conjI allI impI preserves_intros r)
  show "preserves (on_db (record_gone i)) (expireStaleFailedRecords env days)"
    unfolding expireStaleFailedRecords_def expire_record_def expire_record_tx_def
    by (intro preserves_intros; simp split: prod.split option.split; intro conjI allI impI preserves_intros)
qed

lemma activated_gone:
  assumes "processFailedRecord env world i s = (Inr (Activated t), s')"
  shows "\<not> record_gone i (s_db s) \<and> record_gone i (s_db s')"
proof -
  obtain f t' s1 where f: "failed_by_id i (s_db s) = Some f" and run: "retry_reserved env world f t' s1 = (Inr (Activated t), s')"
    using process_cases [OF assms] by (auto simp: idle_run_def)
  have i: "fl_id f = i" using failed_by_id_in [OF f] by simp
  obtain s2 where "dbM (delete_record i) s2 = (Inr (), s')"
    using run i by (auto simp: retry_reserved_def run_simps split: if_splits)
  then have "record_gone i (s_db s')"
    by (auto simp: dbM_def delete_record_def deleteFailedLiquidity_def run_simps record_gone_def failed_by_id_def find_None_iff
        split: prod.splits)
  with f show ?thesis by (simp add: record_gone_def)
qed

text \<open>
  Any sequence of tries of any records, expiries and anything else that does not reuse the id of the
  record; the number counts the activations of the record \<open>i\<close>.
\<close>

inductive retry_trace :: "string \<Rightarrow> db \<Rightarrow> nat \<Rightarrow> db \<Rightarrow> bool" for i d where
  start: "retry_trace i d 0 d"
| attempt: "retry_trace i d n (s_db s) \<Longrightarrow> processFailedRecord env world j s = (r, s') \<Longrightarrow>
     retry_trace i d (n + (if j = i \<and> (\<exists>t. r = Inr (Activated t)) then 1 else 0)) (s_db s')"
| expire: "retry_trace i d n (s_db s) \<Longrightarrow> expireStaleFailedRecords env days s = (x, s') \<Longrightarrow> retry_trace i d n (s_db s')"
| other: "retry_trace i d n d1 \<Longrightarrow> (record_gone i d1 \<longrightarrow> record_gone i d2) \<Longrightarrow> retry_trace i d n d2"

lemma retry_trace_counts: "retry_trace i d n e \<Longrightarrow> n \<le> 1 \<and> (n = 1 \<longrightarrow> record_gone i e)"
proof (induction rule: retry_trace.induct)
  case (attempt n s env world j r s')
  have keep: "record_gone i (s_db s) \<Longrightarrow> record_gone i (s_db s')"
    using preservesD [OF record_gone_retry(2), of i s env world j] attempt(2) by (simp add: on_db_def)
  show ?case
  proof (cases "j = i \<and> (\<exists>t. r = Inr (Activated t))")
    case True
    then obtain t where "processFailedRecord env world i s = (Inr (Activated t), s')" using attempt(2) by auto
    from activated_gone [OF this] attempt(3) True show ?thesis by auto
  next
    case False
    with attempt(3) keep show ?thesis by auto
  qed
next
  case (expire n s env days x s')
  have "record_gone i (s_db s) \<Longrightarrow> record_gone i (s_db s')"
    using preservesD [OF record_gone_retry(3), of i s env days] expire(2) by (simp add: on_db_def)
  with expire(3) show ?case by auto
qed auto

text \<open>C13: however often the scheduler and the administrators try a queued order, one after the other, with any answers
  and faults, it is activated at most once.\<close>

theorem retry_activates_once:
  assumes "retry_trace i d n e"
  shows "n \<le> 1"
  using retry_trace_counts [OF assms] by simp

text \<open>Two tries of one record that run at the same time both resume it: the second, which read the record and
  reserved before the first had deleted it, places the order again, and ends with an exception that
  leaves its reservation.\<close>

theorem retry_race_resumes_twice:
  assumes "record_gone (fl_id failed) (s_db s)" "resume_order env world failed t s = (Inr True, s1)"
  shows "retry_reserved env world failed t s = (Inl (PrismaError ''P2025''), s1) \<and> d_liquidity (s_db s1) = d_liquidity (s_db s)"
proof -
  have run: "catchM (resume_order env world failed t) (\<lambda>e. returnM False) s = (Inr True, s1)"
    using assms(2) by (simp add: catchM_def)
  have "d_failedLiquidity (s_db s1) = d_failedLiquidity (s_db s)" "d_liquidity (s_db s1) = d_liquidity (s_db s)"
    using resume_run(1) [OF run] by (simp_all add: kept_money_def)
  with assms(1) run show ?thesis
    by (simp add: retry_reserved_def bindM_def thenM_def delete_record_def record_gone_def failed_by_id_def dbM_def getM_def
        requireM_def throwM_def)
qed

section \<open>A queued withdrawal\<close>

lemma retry_posting:
  assumes "solvent (s_db s)" "keys_ok (s_db s)" "queue_ok (s_db s)" "failed_by_id i (s_db s) = Some f"
    and "processFailedRecord env world i s = (Inr (Activated t), s')"
  shows "posted (s_db s) (entry (fl_currency f) (Books 0 0 0 0 0 (fl_amountBase f))) (s_db s')"
proof -
  have ws: "d_wallets (s_db s') = d_wallets (s_db s)"
    and ok: "reserveLiquidity (fl_currency f) (fl_amountBase f) (s_db s) = (Inr True, (s_db s)\<lparr>d_liquidity := d_liquidity (s_db s')\<rparr>)"
    using retry_result [OF assms(1-3,5)] assms(4) by (auto simp: idle_run_def)
  show ?thesis
    by (rule posted_cong [OF reserveLiquidity_posting [OF assms(2) ok, simplified] refl refl]) (simp_all add: ws)
qed

text \<open>A withdrawal that was queued for lack of liquidity, activated later and then reported successful ends with the
  same books as one that was covered from the start, whatever was posted before and after the activation.\<close>

theorem queued_send_settles:
  assumes "keys_ok d" "0 \<le> sn_platformFeeBase p" "send_new_tx env u pid p d = (Inr (ti, wi, False), d1)"
    and "posted d1 before (s_db s)" "solvent (s_db s)" "queue_ok (s_db s)"
    and "failed_by_id i (s_db s) = Some (send_failed_liquidity env i ti p)"
    and "processFailedRecord env' world i s = (Inr (Activated ti), s')" "posted (s_db s') after' e" "wd_success event"
    and "user_withdrawal_tx env'' event ref (send_withdrawal wi u pid p ti True) (send_transaction ti u pid p w) c a fee e = (Inr x, e')"
  shows "posted d (\<lambda>k. before k + after' k + entry (sn_currency p) (Books (- sn_totalDeductionBase p) 0 0
    (sn_platformFeeBase p - sn_totalDeductionBase p) (sn_platformFeeBase p - sn_totalDeductionBase p) 0) k) e'"
proof -
  note p1 = send_new_posting [OF assms(1,3)]
  note k1 = posted_keys [OF assms(4) posted_keys [OF p1 assms(1)]]
  note p2 = retry_posting [OF assms(5) k1 assms(6,7,8), unfolded send_failed_liquidity_def, simplified]
  note k2 = posted_keys [OF assms(9) posted_keys [OF p2 k1]]
  have "0 \<le> platform_fee (send_transaction ti u pid p w)" using assms(2) by simp
  note p3 = user_withdrawal_posting [OF k2 this assms(11,10), simplified]
  show ?thesis
    by (rule posted_eq [OF posted_trans [OF posted_trans [OF posted_trans [OF posted_trans [OF p1 assms(4)] p2] assms(9)] p3]])
      (simp add: entry_def)
qed

lemma expire_run:
  assumes "expire_record_tx f t d = (Inr x, d')" "getUserReservedBalanceRelease t = Some (cur, a)"
  obtains d1 where "releaseBalance (t_userId t) cur a None d = (Inr (), d1)" "d_wallets d' = d_wallets d1" "d_liquidity d' = d_liquidity d1"
  using assms that by (auto simp: expire_record_tx_def delete_record_def deleteFailedLiquidity_def run_simps run_upd)

text \<open>The expiry of a queued withdrawal gives the user back exactly what its confirmation reserved.\<close>

theorem expired_send_restores:
  assumes "solvent d" "keys_ok d" "0 < sn_totalDeductionBase p" "send_new_tx env u pid p d = (Inr (ti, wi, False), d1)"
    and "d_wallets e = d_wallets d1" "d_liquidity e = d_liquidity d1"
    and "expire_record_tx f (send_transaction ti u pid p w) e = (Inr x, e')"
  shows "d_wallets e' = d_wallets d \<and> d_liquidity e' = d_liquidity d"
proof -
  obtain d2 w' where b: "reserveBalance u (sn_currency p) (sn_totalDeductionBase p) None d = (Inr (), d2)"
    and l: "reserveLiquidity (sn_currency p) (sn_totalDeductionBase p) d = (Inr False, d\<lparr>d_liquidity := d_liquidity d1\<rparr>)"
    and ws: "d_wallets d1 = d_wallets d2"
    using send_new_run [OF assms(4)] by blast
  have "d_liquidity d1 = d_liquidity d" using reserveLiquidity_posting [OF assms(2) l] l
    by (auto simp: reserveLiquidity_eq guarded_update_none split: sum.splits dest: arg_cong [where f = d_liquidity])
  have g: "getUserReservedBalanceRelease (send_transaction ti u pid p w) = Some (sn_currency p, sn_totalDeductionBase p)"
    using assms(3) by (simp add: getUserReservedBalanceRelease_def queued_amount_def send_transaction_def new_transaction_def)
  have uid: "t_userId (send_transaction ti u pid p w) = u" by (simp add: send_transaction_def new_transaction_def)
  have "back_wallets d e u (sn_currency p) (sn_totalDeductionBase p)"
    by (rule wallets_back [OF assms(1,2) b]) (simp add: assms(5) ws)
  then have "releaseBalance u (sn_currency p) (sn_totalDeductionBase p) None e = (Inr (), e\<lparr>d_wallets := d_wallets d\<rparr>)"
    by (simp add: back_wallets_def)
  with expire_run [OF assms(7) g] \<open>d_liquidity d1 = d_liquidity d\<close> assms(6) uid show ?thesis by auto
qed

section \<open>Queued swaps and sells\<close>

lemma swap_reserve_total:
  assumes "swap_reserve_tx env u qid n q human d = (Inr (t, r), d')"
  shows "t_totalAmountSentBase t = None" "t_currency t = to_upper (xq_from q)"
  using assms by (auto simp: swap_reserve_tx_def createTransaction_def run_simps transaction_of_params_def swap_params_def new_transaction_def)

text \<open>A swap that is queued cannot be resumed: its retry looks for the record of the swap, which is only written once
  the provider has confirmed it. When the queued swap expires, the platform fee that was reserved with
  it is not given back.\<close>

theorem queued_swap_loses_fee:
  assumes "keys_ok d" "swap_reserve_tx env u qid n q human d = (Inr (t, False), d')" "0 < xq_exactFromMinor q"
    and "d_wallets (s_db s) = d_wallets d'" "d_liquidity (s_db s) = d_liquidity d'"
    and "\<forall>x \<in> set (d_swaps (s_db s)). sw_quoteId x \<noteq> Some (t_uniqueId t)" "transaction_by_id (t_id t) (s_db s) = Some t"
  shows "resume_order env' world f t s = (Inr False, s)
    \<and> (\<forall>x e'. expire_record_tx f t (s_db s) = (Inr x, e') \<longrightarrow> posted d (entry (xq_from q) (Books 0 (xq_platformFeeMinor q) 0 0 0 0)) e')"
proof (intro conjI allI impI)
  note r = swap_reserve_run [OF assms(2)]
  have "swap_of_quote t (s_db s) = None" using assms(6) by (auto simp: swap_of_quote_def find_None_iff)
  then show "resume_order env' world f t s = (Inr False, s)"
    using assms(7) by (simp add: resume_order_def r(5) resumeSwap_def comp_defs)
  fix x e'
  assume e': "expire_record_tx f t (s_db s) = (Inr x, e')"
  have g: "getUserReservedBalanceRelease t = Some (t_currency t, xq_exactFromMinor q)"
    using assms(3) swap_reserve_total [OF assms(2)] r by (simp add: getUserReservedBalanceRelease_def queued_amount_def or0_def)
  obtain d1 where b: "releaseBalance u (t_currency t) (xq_exactFromMinor q) None (s_db s) = (Inr (), d1)"
    and d1: "d_wallets e' = d_wallets d1" "d_liquidity e' = d_liquidity d1"
    using expire_run [OF e' g] r(6) by metis
  note p1 = posted_trans [OF swap_reserve_posting [OF assms(1,2)] posted_tables [OF assms(4,5)]]
  note p2 = releaseBalance_posting [OF posted_keys [OF p1 assms(1)] b]
  have c: "ieq (t_currency t) = ieq (xq_from q)" using swap_reserve_total [OF assms(2)] by (simp add: ieq_def fun_eq_iff)
  show "posted d (entry (xq_from q) (Books 0 (xq_platformFeeMinor q) 0 0 0 0)) e'"
    by (rule posted_eq [OF posted_trans [OF posted_trans [OF p1 p2] posted_tables [OF d1]]])
      (simp add: entry_def c swap_reserved_def zero_books_def)
qed

lemma tx_row_delete: "preserves (tx_row i Q) (delete_record j)"
  by (auto simp: preserves_wp wp_simps tx_row_def transaction_by_id_def delete_record_def deleteFailedLiquidity_def)

lemma tx_row_setUniqueId:
  "(\<And>x v. Q x \<Longrightarrow> Q (x\<lparr>t_uniqueId := v\<rparr>)) \<Longrightarrow> preserves (tx_row i Q) (setUniqueId j u)"
  unfolding setUniqueId_def by (intro preserves_intros tx_row_update) simp_all

lemma tx_row_resume_sell:
  "preserves (on_db (tx_row i (\<lambda>x. t_meta x = m))) (resumeSell env world j)"
  unfolding resumeSell_def resume_sell_tx_def
  by (intro preserves_intros; simp split: prod.split option.split;
      intro conjI allI impI preserves_intros tx_row_frames tx_row_update tx_row_setUniqueId) simp_all

lemma unreserved_failure_liquidity:
  assumes "\<not> holds_liquidity t reserved"
  shows "d_liquidity (snd (order_failure_tx env r t b crypto fiat reserved d)) = d_liquidity d"
proof -
  have "preserves (\<lambda>e. d_liquidity e = d_liquidity d) (order_failure_tx env r t b crypto fiat reserved)"
    unfolding order_failure_tx_def releaseBalance_quietly_def releaseBalance_def using assms
    by (intro preserves_intros) (auto simp: preserves_wp wp_simps)
  from preservesD [OF this] show ?thesis by simp
qed

lemma activated_id:
  assumes "retry_reserved env world f x s = (Inr (Activated i), s')"
  shows "i = t_id x"
proof -
  obtain b s1 where "(if \<not> b then thenM (releaseLiquidity_direct env (fl_currency f) (fl_amountBase f)) (returnM (NotActivated ''provider_failed''))
      else thenM (dbM (delete_record (fl_id f))) (returnM (Activated (t_id x)))) s1 = (Inr (Activated i), s')"
    using assms unfolding retry_reserved_def run_bind by blast
  then show ?thesis by (cases b) (auto simp: run_then run_return)
qed

lemma resumed_sell_row:
  assumes "processFailedRecord env world i s = (Inr (Activated (t_id t)), s')"
    and "transaction_by_id (t_id t) (s_db s) = Some t" "t_context t = CtxSELL"
  shows "on_db (tx_row (t_id t) (\<lambda>x. t_meta x = t_meta t)) s'"
proof -
  let ?I = "on_db (tx_row (t_id t) (\<lambda>x. t_meta x = t_meta t))"
  obtain f x s1 where x: "transaction_by_id (fl_transactionId f) (s_db s) = Some x"
    and ok: "reserveLiquidity (fl_currency f) (fl_amountBase f) (s_db s) = (Inr True, s_db s1)"
    and run: "retry_reserved env world f x s1 = (Inr (Activated (t_id t)), s')"
    using process_cases [OF assms(1)] by (auto simp: idle_run_def)
  have "t_id t = t_id x" by (rule activated_id [OF run])
  then have "x = t" using x assms(2) find_Some_in [OF x [unfolded transaction_by_id_def]] by simp
  have "d_transactions (s_db s1) = d_transactions (s_db s)" by (subst reserveLiquidity_run [OF ok], simp)
  then have "?I s1" using assms(2) by (simp add: on_db_def tx_row_def transaction_by_id_def)
  moreover have r: "resume_order env world f t = resumeSell env world (t_id t)" using assms(3) by (simp add: resume_order_def)
  have "preserves ?I (retry_reserved env world f t)"
    unfolding retry_reserved_def releaseLiquidity_direct_def r
    by (intro preserves_intros tx_row_resume_sell tx_row_delete tx_row_frames)
  ultimately have "?I (snd (retry_reserved env world f t s1))" by (rule preservesD [rotated])
  with run \<open>x = t\<close> show ?thesis by simp
qed

text \<open>A resumed sell goes on with the mark that its liquidity was insufficient, although the retry has reserved it:
  when its order then fails, the company's NGN stays reserved.\<close>

theorem resumed_sell_failure_keeps_ngn:
  assumes "solvent (s_db s)" "keys_ok (s_db s)" "queue_ok (s_db s)" "failed_by_id i (s_db s) = Some f"
    and "processFailedRecord env world i s = (Inr (Activated (t_id t)), s')"
    and "transaction_by_id (t_id t) (s_db s) = Some t" "t_context t = CtxSELL" "reservation_status t = ''insufficient''"
  shows "\<exists>t'. transaction_by_id (t_id t) (s_db s') = Some t' \<and> t_meta t' = t_meta t
    \<and> posted (s_db s) (entry (fl_currency f) (Books 0 0 0 0 0 (fl_amountBase f))) (s_db s')
    \<and> d_liquidity (snd (order_failure_tx env' r t' False crypto fiat reserved (s_db s'))) = d_liquidity (s_db s')"
proof -
  have "on_db (tx_row (t_id t) (\<lambda>x. t_meta x = t_meta t)) s'"
    using resumed_sell_row [OF assms(5,6,7)] .
  then obtain t' where t': "transaction_by_id (t_id t) (s_db s') = Some t'" "t_meta t' = t_meta t"
    by (auto simp: on_db_def tx_row_def split: option.splits)
  have "reservation_status t' = ''insufficient''" using t'(2) assms(8) unfolding reservation_status_def by presburger
  then have "d_liquidity (snd (order_failure_tx env' r t' False crypto fiat reserved (s_db s'))) = d_liquidity (s_db s')"
    using unreserved_failure_liquidity by (simp add: holds_liquidity_def)
  with t' retry_posting [OF assms(1-5)] show ?thesis by blast
qed

section \<open>Examples\<close>

text \<open>A withdrawal that lacks liquidity, and the same once the company has funds again.\<close>

definition db_low :: db where
  "db_low = db_send\<lparr>d_liquidity := [liquidity_example, btc_liquidity\<lparr>l_totalBalance := 60\<rparr>]\<rparr>"

definition db_queued :: db where
  "db_queued = snd (send_new_tx env_example ''u1'' ''p1'' send_example db_low)"

definition sys_refilled :: sys where
  "sys_refilled = sys_example\<lparr>s_db := db_queued\<lparr>d_liquidity := [liquidity_example, btc_liquidity]\<rparr>\<rparr>"

definition retry_world_example :: retryWorld where
  "retry_world_example = \<lparr>rw_order = Inr \<lparr>pa_status = ''success'', pa_reference = Some ''r9'', pa_id = None\<rparr>, rw_quotation = Inr None,
     rw_single = None, rw_fallback = None, rw_confirm = Inr None,
     rw_withdraw = Inr \<lparr>wa_status = ''success'', wa_message = None, wa_id = Some ''q1''\<rparr>, rw_charge = Inr None, rw_init = Inr None\<rparr>"

lemma db_low_ok: "solvent db_low" "keys_ok db_low"
  by (simp_all add: db_low_def send_eval solvent_def wallet_ok_def liquidity_ok_def keys_ok_def eval_simps)

lemma send_queued_example: "fst (send_new_tx env_example ''u1'' ''p1'' send_example db_low) = Inr (show_nat 0, show_nat 1, False)"
  by (simp add: db_low_def send_eval send_tx_eval insertFailedLiquidity_def failed_by_transaction_def send_failed_liquidity_def)

lemmas send_queued_run = fst_run [OF send_queued_example, folded db_queued_def]

lemma show_two [simp]: "show_nat (Suc (Suc 0)) = ''2''"
  by (simp only: numeral_2_eq_2 [symmetric]) (simp add: eval_simps)

lemma db_queued_rows:
  "d_failedLiquidity db_queued = [send_failed_liquidity env_example (show_nat 2) (show_nat 0) send_example]"
  "d_transactions db_queued = [send_transaction (show_nat 0) ''u1'' ''p1'' send_example btc_wallet]"
  "d_withdrawals db_queued = [send_withdrawal (show_nat 1) ''u1'' ''p1'' send_example (show_nat 0) False]"
  "d_liquidity db_queued = d_liquidity db_low" "map w_id (d_wallets db_queued) = map w_id (d_wallets db_low)"
  "list_all wallet_ok (d_wallets db_queued)"
  by (simp_all add: db_queued_def db_low_def send_eval send_tx_eval insertFailedLiquidity_def failed_by_transaction_def
      send_failed_liquidity_def wallet_ok_def)

lemma refilled_ok: "solvent (s_db sys_refilled)" "keys_ok (s_db sys_refilled)" "queue_ok (s_db sys_refilled)"
  "failed_by_id (show_nat 2) (s_db sys_refilled) = Some (send_failed_liquidity env_example (show_nat 2) (show_nat 0) send_example)"
  using db_low_ok(2) db_queued_rows
  by (simp_all add: sys_refilled_def solvent_def keys_ok_def queue_ok_def failed_by_id_def send_failed_liquidity_def send_eval
      liquidity_ok_def eval_simps)

lemmas retry_eval = processFailedRecord_def retry_reserved_def resume_order_def resumeWithdrawal_def resume_withdrawal_tx_def
  setUniqueId_def updWithdrawals_def delete_record_def deleteFailedLiquidity_def txM_def dbM_def callM_def
  isRetryableTransaction_def failed_by_id_def retry_world_example_def

lemma retry_example: "fst (processFailedRecord env_example retry_world_example (show_nat 2) sys_refilled) = Inr (Activated (show_nat 0))"
  by (simp add: sys_refilled_def db_queued_rows send_failed_liquidity_def send_eval send_tx_eval retry_eval updTransactions_def update_where_def)

lemmas retry_run = fst_run [OF retry_example]


theorem retry_activates_once_witness:
  "\<exists>e. retry_trace (show_nat 2) (s_db sys_refilled) 1 e \<and> (1::nat) \<le> 1"
proof -
  have "retry_trace (show_nat 2) (s_db sys_refilled) 1 (s_db (snd (processFailedRecord env_example retry_world_example (show_nat 2) sys_refilled)))"
    using retry_trace.attempt [OF retry_trace.start retry_run, of "show_nat 2"] by simp
  with retry_activates_once [OF this] show ?thesis by blast
qed

theorem retry_race_resumes_twice_witness:
  "\<exists>s1. retry_reserved env_example retry_world_example (send_failed_liquidity env_example (show_nat 2) (show_nat 0) send_example)
      (send_transaction (show_nat 0) ''u1'' ''p1'' send_example btc_wallet)
      (sys_refilled\<lparr>s_db := (s_db sys_refilled)\<lparr>d_failedLiquidity := []\<rparr>\<rparr>) = (Inl (PrismaError ''P2025''), s1)"
proof -
  let ?s = "sys_refilled\<lparr>s_db := (s_db sys_refilled)\<lparr>d_failedLiquidity := []\<rparr>\<rparr>"
  let ?m = "resume_order env_example retry_world_example (send_failed_liquidity env_example (show_nat 2) (show_nat 0) send_example)
      (send_transaction (show_nat 0) ''u1'' ''p1'' send_example btc_wallet)"
  have "fst (?m ?s) = Inr True"
    by (simp add: sys_refilled_def db_queued_rows send_failed_liquidity_def send_eval send_tx_eval retry_eval updTransactions_def update_where_def)
  from retry_race_resumes_twice [OF _ fst_run [OF this]] show ?thesis by (auto simp: record_gone_def failed_by_id_def)
qed

lemma refilled_posting: "posted db_queued (entry ''BTC'' (Books 0 0 0 0 440 0)) (s_db sys_refilled)"
proof -
  have ls: "d_liquidity db_queued = [liquidity_example, btc_liquidity\<lparr>l_totalBalance := 60\<rparr>]"
    using db_queued_rows(4) by (simp add: db_low_def)
  have "addLiquidity env_example ''BTC'' 440 db_queued = (Inr (), s_db sys_refilled)" "liquidity_for ''BTC'' db_queued \<noteq> None"
    by (simp_all add: addLiquidity_def sys_refilled_def ls liquidity_for_def verifyCurrency_def ALLOWED_CURRENCIES_def ieq_def
        btc_liquidity_def liquidity_example_def new_liquidity_def updLiquidity_def update_where_def l_add_def comp_defs eval_simps)
  moreover have "keys_ok db_queued"
    using refilled_ok(2) ls by (simp add: keys_ok_def sys_refilled_def)
  ultimately show ?thesis using addLiquidity_posting by blast
qed

theorem queued_send_settles_witness:
  "\<exists>s' e'. processFailedRecord env_example retry_world_example (show_nat 2) sys_refilled = (Inr (Activated (show_nat 0)), s')
    \<and> user_withdrawal_tx env_example ''withdraw.successful'' ''p1'' (send_withdrawal (show_nat 1) ''u1'' ''p1'' send_example (show_nat 0) True)
         (send_transaction (show_nat 0) ''u1'' ''p1'' send_example btc_wallet) answer_example 37 2 (s_db s') = (Inr (), e')
    \<and> posted db_low (entry ''BTC'' (Books (- 40) 0 0 (- 39) 401 0)) e'"
proof -
  let ?s = "snd (processFailedRecord env_example retry_world_example (show_nat 2) sys_refilled)"
  let ?tx = "user_withdrawal_tx env_example ''withdraw.successful'' ''p1'' (send_withdrawal (show_nat 1) ''u1'' ''p1'' send_example (show_nat 0) True)
         (send_transaction (show_nat 0) ''u1'' ''p1'' send_example btc_wallet) answer_example 37 2"
  have shown: "fromBase cv_example (ABigInt 60) ''BTC'' None = Inr ''0.0000006''"
    by (simp add: cv_example_def currency_eval eval_simps)
  have "fst (?tx (s_db ?s)) = Inr ()"
    by (simp add: sys_refilled_def db_queued_def db_low_def send_eval send_tx_eval insertFailedLiquidity_def failed_by_transaction_def
        send_failed_liquidity_def retry_eval updTransactions_def
        shown user_withdrawal_tx_def settle_success_def wd_success_def total_sent_def
        platform_fee_def refreshOriginalBalance_def base_of_def updWallets_def
        update_where_def w_settle_def updLiquidity_def)
  note tx = fst_run [OF this]
  have p: "0 \<le> sn_platformFeeBase send_example" "sn_currency send_example = ''BTC''" "sn_totalDeductionBase send_example = 40"
    "sn_platformFeeBase send_example = 1"
    by (simp_all add: send_example_def)
  have sc: "wd_success ''withdraw.successful''" by (simp add: wd_success_def)
  have "posted db_low (entry ''BTC'' (Books (- 40) 0 0 (- 39) 401 0)) (snd (?tx (s_db ?s)))"
    using queued_send_settles [OF db_low_ok(2) p(1) send_queued_run refilled_posting refilled_ok(1,3,4) retry_run
        posted_tables [OF refl refl] sc tx] by (simp add: p entry_add)
  with retry_run tx show ?thesis by blast
qed

theorem expired_send_restores_witness:
  "\<exists>e'. expire_record_tx (send_failed_liquidity env_example (show_nat 2) (show_nat 0) send_example)
      (send_transaction (show_nat 0) ''u1'' ''p1'' send_example btc_wallet) db_queued = (Inr (), e')
    \<and> d_wallets e' = d_wallets db_low \<and> d_liquidity e' = d_liquidity db_low"
proof -
  let ?m = "expire_record_tx (send_failed_liquidity env_example (show_nat 2) (show_nat 0) send_example)
      (send_transaction (show_nat 0) ''u1'' ''p1'' send_example btc_wallet)"
  have "fst (?m db_queued) = Inr ()"
    by (simp add: db_queued_def db_low_def send_eval send_tx_eval insertFailedLiquidity_def failed_by_transaction_def
        send_failed_liquidity_def retry_eval updTransactions_def expire_record_tx_def getUserReservedBalanceRelease_def
        queued_amount_def releaseBalance_eq w_release_def)
  note run = fst_run [OF this]
  have "0 < sn_totalDeductionBase send_example" by (simp add: send_example_def)
  from expired_send_restores [OF db_low_ok this send_queued_run refl refl run] run show ?thesis by blast
qed

theorem queued_swap_loses_fee_witness:
  "\<exists>t d' e'. swap_reserve_tx env_quote ''u1'' ''s1'' (Some ''trc20'') quote_example ''0.00000037'' db_low = (Inr (t, False), d')
    \<and> resume_order env_example retry_world_example (swap_failed_liquidity env_quote (show_nat 1) (show_nat 0) quote_example ''0.00000037'') t (sys_example\<lparr>s_db := d'\<rparr>) = (Inr False, sys_example\<lparr>s_db := d'\<rparr>)
    \<and> expire_record_tx (swap_failed_liquidity env_quote (show_nat 1) (show_nat 0) quote_example ''0.00000037'') t d' = (Inr (), e')
    \<and> posted db_low (entry ''BTC'' (Books 0 1 0 0 0 0)) e'"
proof -
  let ?f = "swap_failed_liquidity env_quote (show_nat 1) (show_nat 0) quote_example ''0.00000037''"
  let ?m = "swap_reserve_tx env_quote ''u1'' ''s1'' (Some ''trc20'') quote_example ''0.00000037''"
  obtain t where t: "fst (?m db_low) = Inr (t, False)" "fst (expire_record_tx ?f t (snd (?m db_low))) = Inr ()"
    "d_swaps (snd (?m db_low)) = []" "d_transactions (snd (?m db_low)) = [t]"
    by (simp add: db_low_def quote_eval insertFailedLiquidity_def failed_by_transaction_def swap_failed_liquidity_def
        expire_record_tx_def getUserReservedBalanceRelease_def queued_amount_def releaseBalance_eq w_release_def or0_def
        updTransactions_def delete_record_def deleteFailedLiquidity_def failed_by_id_def)
  have q: "0 < xq_exactFromMinor quote_example" "xq_from quote_example = ''BTC''" "xq_platformFeeMinor quote_example = 1"
    by (simp_all add: quote_example_def)
  note run = fst_run [OF t(1)] and expired = fst_run [OF t(2)]
  have h: "resume_order env_example retry_world_example ?f t (sys_example\<lparr>s_db := snd (?m db_low)\<rparr>) = (Inr False, sys_example\<lparr>s_db := snd (?m db_low)\<rparr>)
    \<and> (\<forall>x e'. expire_record_tx ?f t (snd (?m db_low)) = (Inr x, e') \<longrightarrow> posted db_low (entry ''BTC'' (Books 0 1 0 0 0 0)) e')"
    using queued_swap_loses_fee [OF db_low_ok(2) run q(1), of "sys_example\<lparr>s_db := snd (?m db_low)\<rparr>"] t(3,4)
    by (simp add: transaction_by_id_def q)
  show ?thesis
    by (rule exI [of _ t], rule exI [of _ "snd (?m db_low)"]) (use h run expired in blast)
qed

definition sell_waiting :: transaction where
  "sell_waiting = sell_example\<lparr>t_meta := [(''liquidityReservationStatus'', ''insufficient'')]\<rparr>"

definition sys_waiting :: sys where
  "sys_waiting = sys_example\<lparr>s_db := (db_order sell_waiting)\<lparr>
     d_orders := [order_example\<lparr>o_type := OSELL, o_cryptoAmountOriginal := Some ''0.0000001''\<rparr>],
     d_failedLiquidity := [failed_liquidity_row env_example ''f1'' ''t1'' 300]\<rparr>\<rparr>"

lemma sell_retry_example: "fst (processFailedRecord env_example retry_world_example ''f1'' sys_waiting) = Inr (Activated ''t1'')"
  by (simp add: sys_waiting_def sell_waiting_def failed_liquidity_row_def order_eval send_tx_eval retry_eval resumeSell_def
      resume_sell_tx_def order_by_transaction_def or_else_def updOrders_def updTransactions_def update_where_def BASE_CURRENCY_def)

theorem resumed_sell_failure_keeps_ngn_witness:
  "\<exists>s' t'. processFailedRecord env_example retry_world_example ''f1'' sys_waiting = (Inr (Activated ''t1''), s')
    \<and> transaction_by_id ''t1'' (s_db s') = Some t'
    \<and> posted (s_db sys_waiting) (entry BASE_CURRENCY (Books 0 0 0 0 0 300)) (s_db s')
    \<and> d_liquidity (snd (order_failure_tx env_example order_example t' False ''BTC'' ''NGN'' 300 (s_db s'))) = d_liquidity (s_db s')"
proof -
  have h: "solvent (s_db sys_waiting)" "keys_ok (s_db sys_waiting)" "queue_ok (s_db sys_waiting)"
    "failed_by_id ''f1'' (s_db sys_waiting) = Some (failed_liquidity_row env_example ''f1'' ''t1'' 300)"
    "transaction_by_id (t_id sell_waiting) (s_db sys_waiting) = Some sell_waiting" "t_context sell_waiting = CtxSELL"
    "reservation_status sell_waiting = ''insufficient''" "t_id sell_waiting = ''t1''"
    using db_order_ok [of sell_waiting]
    by (simp_all add: sys_waiting_def solvent_def keys_ok_def queue_ok_def failed_by_id_def failed_liquidity_row_def sell_waiting_def
        order_eval transaction_by_id_def reservation_status_def mget_def eval_simps)
  have f: "fl_currency (failed_liquidity_row env_example ''f1'' ''t1'' 300) = BASE_CURRENCY"
    "fl_amountBase (failed_liquidity_row env_example ''f1'' ''t1'' 300) = 300"
    by (simp_all add: failed_liquidity_row_def)
  note run = fst_run [OF sell_retry_example]
  from resumed_sell_failure_keeps_ngn [OF h(1-4) run [folded h(8)] h(5-7), of env_example order_example "''BTC''" "''NGN''" 300] run
  show ?thesis by (auto simp: f h(8))
qed

end
