(* ===== verification/BillBooks.thy ===== *)
theory BillBooks
  imports BillRetry FailedBooks
begin

text \<open>
  A bill from its confirmation to the report of the bill provider: what is reserved and given back,
  what the settlement takes, that it happens once, and where the metadata are written from an older
  reading.
\<close>

section \<open>What the confirmation reserves\<close>

lemma insertBillPayment_run: "insertBillPayment b d = (Inr v, d') \<Longrightarrow> d' = d\<lparr>d_billPayments := d_billPayments d @ [b]\<rparr>"
  by (auto simp: insertBillPayment_def run_simps split: if_splits)

lemma bill_reserve_run:
  assumes "bill_reserve_tx env ref u qid q ngn d = (Inr (t, b), d')"
  shows "reserveBalance u ''USDT'' (iq_totalMinor q) None d = (Inr (), d\<lparr>d_wallets := d_wallets d'\<rparr>)"
    and "reserveLiquidity BASE_CURRENCY ngn d = (Inr True, d\<lparr>d_liquidity := d_liquidity d'\<rparr>)"
    and "\<exists>i w. t = bill_transaction i ref u qid q ngn w \<and> w_id w = iq_walletId q" "d_transactions d' = d_transactions d @ [t]"
proof -
  have "\<exists>w v d1 ok d2 i. List.find (\<lambda>w. w_id w = iq_walletId q) (d_wallets d) = Some w
    \<and> reserveBalance u ''USDT'' (iq_totalMinor q) (Some (w_defaultNetwork w)) d = (Inr v, d1)
    \<and> reserveLiquidity BASE_CURRENCY ngn d1 = (Inr ok, d2) \<and> ok \<and> t = bill_transaction i ref u qid q ngn w
    \<and> d_wallets d' = d_wallets d2 \<and> d_liquidity d' = d_liquidity d2 \<and> d_transactions d' = d_transactions d2 @ [t]"
    using assms unfolding bill_reserve_tx_def Let_def run_bind run_then run_get run_some run_require run_fresh
      run_insertTransaction run_inserts run_return prod.inject
    apply (elim exE conjE)
    apply hypsubst_thin
    apply (drule insertBillPayment_run)
    apply hypsubst_thin
    apply (intro exI conjI)
          apply assumption
         apply assumption
        apply assumption
       apply simp_all
    done
  then obtain w d1 d2 i where w: "List.find (\<lambda>w. w_id w = iq_walletId q) (d_wallets d) = Some w"
    and r: "reserveBalance u ''USDT'' (iq_totalMinor q) (Some (w_defaultNetwork w)) d = (Inr (), d1)"
    and l: "reserveLiquidity BASE_CURRENCY ngn d1 = (Inr True, d2)"
    and t: "t = bill_transaction i ref u qid q ngn w"
    and d': "d_wallets d' = d_wallets d2" "d_liquidity d' = d_liquidity d2" "d_transactions d' = d_transactions d2 @ [t]"
    by auto
  have d1: "d_liquidity d1 = d_liquidity d" "d_transactions d1 = d_transactions d" by (subst reserveBalance_run [OF r], simp)+
  have d2: "d_wallets d2 = d_wallets d1" "d_transactions d2 = d_transactions d1" by (subst reserveLiquidity_run [OF l], simp)+
  show "reserveBalance u ''USDT'' (iq_totalMinor q) None d = (Inr (), d\<lparr>d_wallets := d_wallets d'\<rparr>)"
    using reserveBalance_table [OF reserve_any_network [OF r] refl] by (simp add: d' d2)
  show "reserveLiquidity BASE_CURRENCY ngn d = (Inr True, d\<lparr>d_liquidity := d_liquidity d'\<rparr>)"
    using reserveLiquidity_table [OF l, of d] by (simp add: d1 d')
  show "\<exists>i w. t = bill_transaction i ref u qid q ngn w \<and> w_id w = iq_walletId q"
    using t find_Some_in [OF w] by blast
  show "d_transactions d' = d_transactions d @ [t]" by (simp add: d' d2 d1)
qed

lemma bill_transaction_simps [simp]:
  "t_userId (bill_transaction i ref u qid q ngn w) = u" "t_currency (bill_transaction i ref u qid q ngn w) = ''USDT''"
  "bill_sent (bill_transaction i ref u qid q ngn w) = iq_totalMinor q" "t_fiatAmountBase (bill_transaction i ref u qid q ngn w) = ngn"
  "t_senderWalletId (bill_transaction i ref u qid q ngn w) = Some (w_id w)" "t_id (bill_transaction i ref u qid q ngn w) = i"
  "t_meta (bill_transaction i ref u qid q ngn w) = bill_meta qid q ngn"
  by (simp_all add: bill_transaction_def new_transaction_def bill_sent_def)

lemma bill_reserve_posting:
  assumes "keys_ok d" "bill_reserve_tx env ref u qid q ngn d = (Inr (t, b), d')"
  shows "posted d (\<lambda>c. entry ''USDT'' (Books 0 (iq_totalMinor q) 0 0 0 0) c + entry BASE_CURRENCY (Books 0 0 0 0 0 ngn) c) d'"
proof -
  note r = bill_reserve_run [OF assms(2)]
  note p1 = reserveBalance_posting [OF assms(1) r(1)]
  have "reserveLiquidity BASE_CURRENCY ngn (d\<lparr>d_wallets := d_wallets d'\<rparr>)
      = (Inr True, d\<lparr>d_wallets := d_wallets d', d_liquidity := d_liquidity d'\<rparr>)"
    using reserveLiquidity_table [OF r(2), of "d\<lparr>d_wallets := d_wallets d'\<rparr>"] by simp
  note p2 = reserveLiquidity_posting [OF posted_keys [OF p1 assms(1)] this]
  have p3: "posted (d\<lparr>d_wallets := d_wallets d', d_liquidity := d_liquidity d'\<rparr>) (\<lambda>_. 0) d'" by (rule posted_tables) simp_all
  show ?thesis by (rule posted_eq [OF posted_trans [OF posted_trans [OF p1 p2] p3]]) simp
qed

text \<open>A bill whose USDT the exchange does not take, whatever it answers or throws, gives back the user's balance and
  the company's NGN.\<close>

theorem refused_bill_restores:
  assumes "solvent d" "keys_ok d" "0 \<le> ngn" "bill_reserve_tx env ref u qid q ngn d = (Inr (t, b), s_db s)"
    and "case answer of Inl e \<Rightarrow> True | Inr a \<Rightarrow> pa_status a \<noteq> ''success''" "e_txFault env ''bill_refused'' = None"
  shows "\<exists>m s'. bill_request env answer u qid q ngn t b s = (Inl (BadRequest m), s')
    \<and> d_wallets (s_db s') = d_wallets d \<and> d_liquidity (s_db s') = d_liquidity d"
proof -
  note r = bill_reserve_run [OF assms(4)]
  have "back_wallets d (s_db s) u ''USDT'' (iq_totalMinor q)" by (rule wallets_back [OF assms(1,2) r(1)]) simp
  then have b: "releaseBalance u ''USDT'' (iq_totalMinor q) None (s_db s) = (Inr (), (s_db s)\<lparr>d_wallets := d_wallets d\<rparr>)"
    by (simp add: back_wallets_def)
  have "back_liquidity d (s_db s) BASE_CURRENCY ngn" by (rule liquidity_back [OF assms(1-3) r(2)]) simp
  then have l: "releaseLiquidity BASE_CURRENCY ngn ((s_db s)\<lparr>d_wallets := d_wallets d\<rparr>)
      = (Inr (), (s_db s)\<lparr>d_wallets := d_wallets d, d_liquidity := d_liquidity d\<rparr>)"
    by (simp add: back_liquidity_def)
  have "\<exists>s'. txM env ''bill_refused'' (bill_refused_tx env u q ngn t b) s0 = (Inr (), s')
      \<and> d_wallets (s_db s') = d_wallets d \<and> d_liquidity (s_db s') = d_liquidity d" if "s_db s0 = s_db s" for s0
    by (simp add: txM_def assms(6) bill_refused_tx_def releaseBalance_quietly_def comp_defs that b l
        updTransactions_def updBillPayments_def)
  from this [of "s\<lparr>s_calls := s_calls s @ [CallOrder ''usdtngn'' ''sell'' (iq_totalToPay q)]\<rparr>"] assms(5) show ?thesis
    by (cases answer) (auto simp: bill_request_def callM_def comp_defs bill_error_def)
qed

section \<open>What the settlement takes\<close>

lemma bill_debit_posting:
  assumes "keys_ok d" "\<forall>w \<in> set (d_wallets d). w_id w = i \<longrightarrow> ieq (w_currency w) cur \<and> a \<le> w_baseBalance w"
    and "bill_debit env i c a d = (Inr v, d')"
  shows "posted d (entry cur (Books (- a) 0 0 0 0 0)) d'"
proof -
  let ?f = "\<lambda>shown w. w\<lparr>w_baseBalance := max (w_baseBalance w - a) 0, w_originalBalance := shown\<rparr>"
  obtain base shown where row: "base_of i (d\<lparr>d_wallets := update_where (\<lambda>w. w_id w = i) (\<lambda>w. w\<lparr>w_baseBalance := max (w_baseBalance w - a) 0\<rparr>) (d_wallets d)\<rparr>) = Some base"
    and d': "d_wallets d' = update_where (\<lambda>w. w_id w = i) (?f shown) (d_wallets d)" "d_liquidity d' = d_liquidity d"
    using assms(3) by (auto simp: bill_debit_def run_simps run_upd update_where_twice)
  obtain w where w: "w \<in> set (d_wallets d)" "w_id w = i"
    using base_of_row [OF row] by (auto simp: update_where_def split: if_splits)
  have "\<forall>w \<in> set (d_wallets d). w_id w = i \<longrightarrow> ieq (w_currency w) cur" using assms(2) by blast
  then show ?thesis
    by (rule wallet_posting [OF assms(1) _ w d']) (use assms(2) w in auto)
qed

lemma bill_settle_posting:
  assumes "keys_ok d" "solvent d" "wallet_for (t_userId latest) (t_currency latest) d = Some w" "0 \<le> bill_sent t"
    and "bill_settle env latest (w_id w) t d = (Inr v, d')"
  shows "posted d (\<lambda>c. entry (t_currency latest) (Books (- bill_sent t) (- bill_sent t) 0 (- bill_sent t) 0 0) c
    + entry BASE_CURRENCY (Books 0 0 0 0 (- t_fiatAmountBase t) (- t_fiatAmountBase t)) c) d'"
proof -
  obtain v1 d1 v2 d2 d3 where r: "releaseBalance (t_userId latest) (t_currency latest) (bill_sent t) None d = (Inr v1, d1)"
    and b: "bill_debit env (w_id w) (t_currency latest) (bill_sent t) d1 = (Inr v2, d2)"
    and c: "consumeReservedLiquidity BASE_CURRENCY (t_fiatAmountBase t) d2 = (Inr True, d3)"
    and i: "updateInternalBalance env (t_currency latest) (bill_sent t) Subtract d3 = (Inr v, d')"
    using assms(5) by (auto simp: bill_settle_def run_simps)
  note p1 = releaseBalance_posting [OF assms(1) r]
  note k1 = posted_keys [OF p1 assms(1)]
  have d1: "d_wallets d1 = guarded_update (\<lambda>x. w_id x = w_id w) (w_release (bill_sent t)) (d_wallets d)"
    and n: "guarded_count (\<lambda>x. w_id x = w_id w) (w_release (bill_sent t)) (d_wallets d) \<noteq> 0"
    using r assms(3) by (auto simp: releaseBalance_eq split: option.splits if_splits)
  have all: "ieq (w_currency x) (t_currency latest)" "bill_sent t \<le> w_baseBalance x"
    if x: "x \<in> set (d_wallets d1)" "w_id x = w_id w" for x
  proof -
    obtain y where y: "y \<in> set (d_wallets d)" "w_id y = w_id w" "w_release (bill_sent t) y \<noteq> None" by (rule guarded_row [OF n])
    have u: "z = y" if "z \<in> set (d_wallets d)" "w_id z = w_id w" for z
      using assms(1) y that by (auto simp: keys_ok_def distinct_map inj_on_def)
    obtain z where z: "z \<in> set (d_wallets d)" "w_id z = w_id w"
      "x = (case w_release (bill_sent t) z of None \<Rightarrow> z | Some z' \<Rightarrow> z')"
      using x by (auto simp: d1 guarded_update_def w_release_def split: if_splits option.splits)
    have "wallet_ok y" using assms(2) y(1) by (simp add: solvent_def list_all_iff)
    with u [OF z(1,2)] y z(3) wallet_for_currency(2) [OF assms(1,3)]
    show "ieq (w_currency x) (t_currency latest)" "bill_sent t \<le> w_baseBalance x"
      by (auto simp: w_release_def wallet_ok_def split: if_splits)
  qed
  note p2 = bill_debit_posting [OF k1 _ b, of "t_currency latest"]
  have p2: "posted d1 (entry (t_currency latest) (Books (- bill_sent t) 0 0 0 0 0)) d2" by (rule p2) (use all in blast)
  note k2 = posted_keys [OF p2 k1]
  note p3 = consumeReservedLiquidity_posting [OF k2 c, simplified]
  note p4 = updateInternalBalance_posting [OF posted_keys [OF p3 k2] i, simplified]
  show ?thesis
    by (rule posted_eq [OF posted_trans [OF posted_trans [OF posted_trans [OF p1 p2] p3] p4]]) (simp add: entry_def)
qed

section \<open>A report of success\<close>

definition bill_done :: "transaction \<Rightarrow> bool" where
  "bill_done x \<longleftrightarrow> mget (t_meta x) ''xpresspayWebhookStatus'' = ''COMPLETED''"

definition bill_open :: "transaction \<Rightarrow> bool" where
  "bill_open x \<longleftrightarrow> mget (t_meta x) ''xpresspayWebhookStatus'' \<notin> {''COMPLETED'', ''FAILED''}
     \<and> mget (t_meta x) ''liquidityReservationStatus'' \<noteq> ''released''"

text \<open>The user's wallet, as a row of the transaction names it.\<close>

definition bill_wallet :: "transaction \<Rightarrow> db \<Rightarrow> bool" where
  "bill_wallet x d \<longleftrightarrow> (\<exists>w. wallet_for (t_userId x) (t_currency x) d = Some w \<and> truthy (t_senderWalletId x) = Some (w_id w))"

definition bill_entry :: "transaction \<Rightarrow> int \<Rightarrow> int \<Rightarrow> string \<Rightarrow> books" where
  "bill_entry x a ngn c = entry (t_currency x) (Books (- a) (- a) 0 (- a) 0 0) c + entry BASE_CURRENCY (Books 0 0 0 0 (- ngn) (- ngn)) c"

lemma settled_meta_done: "mget (bill_settled_meta env p m) ''xpresspayWebhookStatus'' = ''COMPLETED''"
  by (simp add: bill_settled_meta_def mget_def mset_all_def eval_simps)

lemma bill_write_row:
  assumes "bill_write t b st pr m bs os ps d = (Inr v, d')"
  shows "d_wallets d' = d_wallets d" "d_liquidity d' = d_liquidity d"
    and "transaction_by_id (t_id t) d' = map_option (\<lambda>x. x\<lparr>t_status := st, t_isProcessed := pr, t_meta := m\<rparr>) (transaction_by_id (t_id t) d)"
proof -
  have d': "d' = d\<lparr>d_transactions := update_where (\<lambda>x. t_id x = t_id t) (\<lambda>x. x\<lparr>t_status := st, t_isProcessed := pr, t_meta := m\<rparr>) (d_transactions d),
      d_billPayments := d_billPayments d', d_orders := d_orders d'\<rparr>"
    using assms by (auto simp: bill_write_def run_simps run_upd updBillPayments_def)
  show "d_wallets d' = d_wallets d" "d_liquidity d' = d_liquidity d" by (subst d', simp)+
  show "transaction_by_id (t_id t) d' = map_option (\<lambda>x. x\<lparr>t_status := st, t_isProcessed := pr, t_meta := m\<rparr>) (transaction_by_id (t_id t) d)"
    by (subst d') (cases "transaction_by_id (t_id t) d"; simp add: transaction_by_id_def find_update_where map_option_case; auto dest: find_Some_in)
qed

lemma bill_settle_rows: "preserves (tx_row i Q) (bill_settle env latest w t)"
  unfolding bill_settle_def bill_debit_def by (intro preserves_intros tx_row_frames)

lemma bill_paid_run:
  assumes "bill_end_tx env p t b d = (Inr v, d')" "bill_paid p" "d_wallets d' \<noteq> d_wallets d \<or> d_liquidity d' \<noteq> d_liquidity d"
  shows "tx_row (t_id t) (\<lambda>x. \<not> bill_done x) d \<and> tx_row (t_id t) bill_done d'"
proof -
  obtain latest where l: "transaction_by_id (t_id t) d = Some latest"
    using assms(1,3) by (auto simp: bill_end_tx_def run_simps split: option.splits)
  have n: "\<not> bill_done latest" using assms(1,3) l by (auto simp: bill_end_tx_def run_simps bill_done_def)
  have "d_wallets d' = d_wallets d \<and> d_liquidity d' = d_liquidity d" if "bill_late_tx env p t b (t_meta latest) d = (Inr v, d')"
    using bill_write_row [OF that [unfolded bill_late_tx_def]] by simp
  with assms l n obtain w d1 where "bill_settle env latest w t d = (Inr (), d1)"
    and wr: "bill_write t b TxCOMPLETED True (bill_settled_meta env p (t_meta latest)) BpCOMPLETED OrCOMPLETED PayPAID d1 = (Inr v, d')"
    by (auto simp: bill_end_tx_def run_simps bill_done_def Let_def split: if_splits option.splits)
  then have "tx_row (t_id t) (\<lambda>_. True) d1" using preservesD [OF bill_settle_rows, of "t_id t" "\<lambda>_. True" d env latest w t] l by (simp add: tx_row_def)
  with bill_write_row(3) [OF wr] l n show ?thesis by (auto simp: tx_row_def bill_done_def settled_meta_done split: option.splits)
qed

lemma bill_done_end: "preserves (tx_row i bill_done) (bill_end_tx env p t b)"
proof (cases "t_id t = i")
  case True
  have "bill_end_tx env p t b d = (Inr (), d)" if "tx_row i bill_done d" for d
    using that True by (auto simp: bill_end_tx_def tx_row_def bill_done_def comp_defs split: option.splits)
  then show ?thesis by (auto simp: preserves_wp wp_def)
next
  case False
  have u: "preserves (tx_row i bill_done) (updTransactions (\<lambda>x. t_id x = t_id t) f)"
    "preserves (tx_row i bill_done) (updBillPayments pb fb)" if "\<And>x. t_id (f x) = t_id x" for f pb fb
    using that False by (auto simp: preserves_wp wp_simps tx_row_def transaction_by_id_def find_update_where updBillPayments_def
        split: option.splits dest!: find_Some_in)
  show ?thesis
    unfolding bill_end_tx_def bill_late_tx_def bill_failed_tx_def bill_pending_tx_def bill_write_def bill_release_user_def
      bill_release_company_def tried_release_def Let_def
    by (intro preserves_intros tx_row_frames bill_settle_rows u;
        simp split: prod.split option.split; intro conjI allI impI preserves_intros tx_row_frames bill_settle_rows u) simp_all
qed

text \<open>
  Any sequence of reports on one bill, with what each had read before its transaction, and of other
  steps, provided these do not reopen the row of a completed bill. The list tells which reports of
  success moved money.
\<close>

inductive bill_trace :: "string \<Rightarrow> db \<Rightarrow> bool list \<Rightarrow> db \<Rightarrow> bool" for i d where
  start: "bill_trace i d [] d"
| report: "bill_trace i d rs d1 \<Longrightarrow> t_id t = i \<Longrightarrow> committed (bill_end_tx env p t b) d1 = (x, d2) \<Longrightarrow>
     bill_trace i d ((bill_paid p \<and> (d_wallets d2 \<noteq> d_wallets d1 \<or> d_liquidity d2 \<noteq> d_liquidity d1)) # rs) d2"
| other: "bill_trace i d rs d1 \<Longrightarrow> (tx_row i bill_done d1 \<longrightarrow> tx_row i bill_done d2) \<Longrightarrow> bill_trace i d rs d2"

lemma bill_trace_counts:
  "bill_trace i d rs e \<Longrightarrow> length (filter (\<lambda>b. b) rs) \<le> 1 \<and> (True \<in> set rs \<longrightarrow> tx_row i bill_done e)"
proof (induction rule: bill_trace.induct)
  case (report rs d1 t env p b x d2)
  note keep = committed_preserves [OF bill_done_end _ report(3)]
  show ?case
  proof (cases "bill_paid p \<and> (d_wallets d2 \<noteq> d_wallets d1 \<or> d_liquidity d2 \<noteq> d_liquidity d1)")
    case True
    with report(3) obtain v where "bill_end_tx env p t b d1 = (Inr v, d2)"
      by (auto simp: committed_def split: prod.splits sum.splits)
    from bill_paid_run [OF this] True report(2) have "tx_row i (\<lambda>x. \<not> bill_done x) d1" "tx_row i bill_done d2" by auto
    with report(4) have "True \<notin> set rs" by (auto simp: tx_row_def split: option.splits)
    then have "filter (\<lambda>b. b) rs = []" by (auto simp: filter_empty_conv)
    with \<open>tx_row i bill_done d2\<close> show ?thesis by simp
  next
    case False
    with report(4) keep show ?thesis by auto
  qed
qed auto


lemma bill_paid_posting:
  assumes "keys_ok d" "solvent d" "transaction_by_id (t_id t) d = Some x" "bill_open x" "bill_wallet x d"
    and "bill_paid p" "0 < bill_sent t" "bill_end_tx env p t b d = (Inr v, d')"
  shows "posted d (bill_entry x (bill_sent t) (t_fiatAmountBase t)) d'" "tx_row (t_id t) bill_done d'"
proof -
  obtain w where w: "wallet_for (t_userId x) (t_currency x) d = Some w" "truthy (t_senderWalletId x) = Some (w_id w)"
    using assms(5) by (auto simp: bill_wallet_def)
  obtain d1 where s: "bill_settle env x (w_id w) t d = (Inr (), d1)"
    and wr: "bill_write t b TxCOMPLETED True (bill_settled_meta env p (t_meta x)) BpCOMPLETED OrCOMPLETED PayPAID d1 = (Inr v, d')"
    using assms w by (auto simp: bill_end_tx_def run_simps bill_open_def Let_def)
  note wr = bill_write_row [OF wr]
  have "posted d (bill_entry x (bill_sent t) (t_fiatAmountBase t)) d1"
    using bill_settle_posting [OF assms(1,2) w(1) _ s] assms(7) by (simp add: bill_entry_def [abs_def])
  then show "posted d (bill_entry x (bill_sent t) (t_fiatAmountBase t)) d'"
    by (rule posted_cong) (simp_all add: wr)
  have "tx_row (t_id t) (\<lambda>_. True) d1" using preservesD [OF bill_settle_rows, of "t_id t" "\<lambda>_. True" d env x "w_id w" t] s assms(3) by (simp add: tx_row_def)
  with wr(3) show "tx_row (t_id t) bill_done d'" by (auto simp: tx_row_def bill_done_def settled_meta_done split: option.splits)
qed

lemma bill_settle_same: "preserves (\<lambda>e. d_transactions e = d_transactions d) (bill_settle env x w t)"
  unfolding bill_settle_def bill_debit_def releaseBalance_def consumeReservedLiquidity_def updateInternalBalance_def createLiquidity_def
  by (intro preserves_intros; auto simp: preserves_wp wp_simps intro!: preserves_intros)

lemma bill_paid_row:
  assumes "transaction_by_id (t_id t) d = Some x" "bill_open x" "bill_wallet x d" "bill_paid p" "0 < bill_sent t" "bill_end_tx env p t b d = (Inr v, d')"
  shows "\<exists>st pr m. transaction_by_id (t_id t) d' = Some (x\<lparr>t_status := st, t_isProcessed := pr, t_meta := m\<rparr>)"
proof -
  obtain w d1 where s: "bill_settle env x w t d = (Inr (), d1)"
    and wr: "bill_write t b TxCOMPLETED True (bill_settled_meta env p (t_meta x)) BpCOMPLETED OrCOMPLETED PayPAID d1 = (Inr v, d')"
    using assms by (auto simp: bill_wallet_def bill_end_tx_def run_simps bill_open_def Let_def)
  have "d_transactions d1 = d_transactions d" using preservesD [OF bill_settle_same, of d d env x w t] s by simp
  then have "transaction_by_id (t_id t) d1 = Some x" using assms(1) by (simp add: transaction_by_id_def)
  with bill_write_row(3) [OF wr] show ?thesis by auto
qed

text \<open>C6: a bill that is reserved, sold and paid takes the user's USDT and the company's NGN that were reserved for it, and
  nothing else, whatever was posted in between, the sale's proceeds among it.\<close>

theorem bill_settles:
  assumes "keys_ok d" "bill_reserve_tx env ref u qid q ngn d = (Inr (t, b), d1)" "posted d1 between e" "solvent e"
    and "transaction_by_id (t_id t) e = Some x" "t_userId x = u" "t_currency x = ''USDT''" "bill_open x" "bill_wallet x e"
    and "bill_paid p" "0 < iq_totalMinor q" "bill_end_tx env' p t b e = (Inr v, e')"
  shows "posted d (\<lambda>c. between c + entry ''USDT'' (Books (- iq_totalMinor q) 0 0 (- iq_totalMinor q) 0 0) c
    + entry BASE_CURRENCY (Books 0 0 0 0 (- ngn) 0) c) e'"
proof -
  note p1 = bill_reserve_posting [OF assms(1,2)]
  note k1 = posted_keys [OF assms(3) posted_keys [OF p1 assms(1)]]
  obtain i w where t: "t = bill_transaction i ref u qid q ngn w" using bill_reserve_run(3) [OF assms(2)] by blast
  have "0 < bill_sent t" using t assms(11) by simp
  note p2 = bill_paid_posting(1) [OF k1 assms(4,5,8,9,10) this assms(12)]
  show ?thesis
    by (rule posted_eq [OF posted_trans [OF posted_trans [OF p1 assms(3)] p2]]) (simp add: bill_entry_def t assms(7) entry_def)
qed

text \<open>The webhook of the order asks the bill provider for the payment and then writes the metadata as they were before
  it asked. When the provider's report arrives in between, the bill is open again, and a repeated
  report of success takes the user's USDT and the company's NGN a second time.\<close>

theorem late_submission_charges_twice:
  assumes "keys_ok d" "solvent d" "transaction_by_id (t_id t) d = Some x" "bill_open x" "bill_wallet x d" "0 < bill_sent t"
    and "bill_paid p" "bill_end_tx env p t b d = (Inr v, d1)"
    and "order_bill_submitted_tx env' t (t_meta x) response d1 = (Inr v', d2)" "solvent d2" "bill_wallet x d2"
    and "bill_end_tx env'' p t b d2 = (Inr v'', d3)"
  shows "posted d (\<lambda>c. bill_entry x (bill_sent t) (t_fiatAmountBase t) c + bill_entry x (bill_sent t) (t_fiatAmountBase t) c) d3"
proof -
  note p1 = bill_paid_posting(1) [OF assms(1-5,7,6,8)]
  let ?m = "mset_all [(''billingStatus'', ''PROVIDER_SUBMITTED''), (''xpresspayResponse'', response),
    (''xpresspaySubmittedAt'', toISOString (e_now env'))] (t_meta x)"
  have d2: "d_wallets d2 = d_wallets d1" "d_liquidity d2 = d_liquidity d1"
    and tx: "d_transactions d2 = update_where (\<lambda>x. t_id x = t_id t) (\<lambda>x. x\<lparr>t_meta := ?m\<rparr>) (d_transactions d1)"
    using assms(9) by (auto simp: order_bill_submitted_tx_def run_simps run_upd updBillPayments_def)
  obtain st pr m where row: "transaction_by_id (t_id t) d1 = Some (x\<lparr>t_status := st, t_isProcessed := pr, t_meta := m\<rparr>)"
    using bill_paid_row [OF assms(3,4,5,7,6,8)] by blast
  let ?y = "x\<lparr>t_status := st, t_isProcessed := pr, t_meta := ?m\<rparr>"
  have "transaction_by_id (t_id t) d2 = Some ?y"
    using row find_Some_in [OF assms(3) [unfolded transaction_by_id_def]]
    by (simp add: transaction_by_id_def tx find_update_where)
  moreover have "bill_open ?y" using assms(4) by (simp add: bill_open_def mget_def mset_all_def eval_simps)
  moreover have "bill_wallet ?y d2" using assms(11) by (simp add: bill_wallet_def)
  ultimately have "posted d2 (bill_entry ?y (bill_sent t) (t_fiatAmountBase t)) d3"
    using bill_paid_posting(1) [OF _ assms(10) _ _ _ assms(7,6,12)] posted_keys [OF posted_trans [OF p1 posted_tables [OF d2]] assms(1)] by blast
  then have "posted d2 (bill_entry x (bill_sent t) (t_fiatAmountBase t)) d3" by (simp add: bill_entry_def [abs_def])
  from posted_trans [OF posted_trans [OF p1 posted_tables [OF d2]] this] show ?thesis by (rule posted_eq) simp
qed

section \<open>An example\<close>

definition bill_quote_example :: billQuote where
  "bill_quote_example = \<lparr>iq_quoteId = ''i1'', iq_userId = ''u1'', iq_walletId = ''w1'', iq_category = ''airtime'', iq_billerCode = ''mtn'',
     iq_customerReference = ''0803'', iq_productCode = None, iq_billAmountNgn = ''3.00'', iq_cryptoAmount = ''0.000010'',
     iq_feeAmount = ''0.000001'', iq_totalToPay = ''0.000011'', iq_cryptoMinor = 10, iq_feeMinor = 1, iq_totalMinor = 11,
     iq_expiresAt = 301000\<rparr>"

definition db_bills :: db where
  "db_bills = db_example\<lparr>d_liquidity := [liquidity_example, ngn_liquidity]\<rparr>"

definition bill_tx_example :: transaction where
  "bill_tx_example = bill_transaction (show_nat 0) ''bill1'' ''u1'' ''i1'' bill_quote_example 300 wallet_example"

definition paid_example :: xpressPayload where
  "paid_example = \<lparr>xp_reference = Some ''bill1'', xp_successful = Some True, xp_status = ''00'', xp_text = ''{}''\<rparr>"

lemmas bill_eval = db_bills_def bill_quote_example_def order_eval

lemma db_bills_ok: "solvent db_bills" "keys_ok db_bills"
  by (simp_all add: bill_eval solvent_def wallet_ok_def liquidity_ok_def keys_ok_def eval_simps)

lemma bill_reserve_example:
  "fst (bill_reserve_tx env_example ''bill1'' ''u1'' ''i1'' bill_quote_example 300 db_bills) = Inr (bill_tx_example, show_nat 1)"
  by (simp add: bill_tx_example_def bill_reserve_tx_def bill_eval sell_tx_eval insertBillPayment_def bill_order_def bill_transaction_def)

definition bill_db :: db where
  "bill_db = snd (bill_reserve_tx env_example ''bill1'' ''u1'' ''i1'' bill_quote_example 300 db_bills)"

lemmas bill_run = fst_run [OF bill_reserve_example, folded bill_db_def]

theorem refused_bill_restores_witness:
  "\<exists>m s'. bill_request env_example (Inl (ProviderError ''no market'')) ''u1'' ''i1'' bill_quote_example 300 bill_tx_example (show_nat 1)
      (sys_example\<lparr>s_db := bill_db\<rparr>) = (Inl (BadRequest m), s')
    \<and> d_wallets (s_db s') = d_wallets db_bills \<and> d_liquidity (s_db s') = d_liquidity db_bills"
proof -
  have "bill_reserve_tx env_example ''bill1'' ''u1'' ''i1'' bill_quote_example 300 db_bills
      = (Inr (bill_tx_example, show_nat 1), s_db (sys_example\<lparr>s_db := bill_db\<rparr>))"
    using bill_run by (simp only: sys.select_convs sys.update_convs sys.surjective) simp
  from refused_bill_restores [OF db_bills_ok _ this, of "Inl (ProviderError ''no market'')"] show ?thesis
    by (simp add: env_example_def)
qed

lemma bill_debit_example: "fromBase cv_example (ABigInt 89) ''USDT'' (Some (Dec 6)) = Inr ''0.000089''"
  by (simp add: cv_example_def currency_eval eval_simps)

lemma bill_debit_again: "fromBase cv_example (ABigInt 78) ''USDT'' (Some (Dec 6)) = Inr ''0.000078''"
  by (simp add: cv_example_def currency_eval eval_simps)

lemma bill_tx_example_simps:
  "bill_sent bill_tx_example = 11" "t_fiatAmountBase bill_tx_example = 300" "t_id bill_tx_example = show_nat 0"
  "bill_open bill_tx_example" "bill_paid paid_example" "t_currency bill_tx_example = ''USDT''" "t_userId bill_tx_example = ''u1''"
  "t_senderWalletId bill_tx_example = Some ''w1''"
proof -
  show "bill_open bill_tx_example" by (simp add: bill_tx_example_def bill_open_def bill_meta_def mget_def)
qed (simp_all add: bill_tx_example_def paid_example_def bill_paid_def bill_quote_example_def wallet_example_def)

definition bill_wallets :: "int \<Rightarrow> int \<Rightarrow> string \<Rightarrow> wallet list" where
  "bill_wallets base reserved shown = [wallet_example\<lparr>w_baseBalance := base, w_reservedBalance := reserved, w_originalBalance := shown\<rparr>]"

definition bill_companies :: "int \<Rightarrow> int \<Rightarrow> int \<Rightarrow> int \<Rightarrow> liquidity list" where
  "bill_companies usdt t r i = [liquidity_example\<lparr>l_internalBalance := usdt\<rparr>,
     ngn_liquidity\<lparr>l_totalBalance := t, l_reservedBalance := r, l_internalBalance := i\<rparr>]"

lemmas bill_rows = bill_wallets_def bill_companies_def order_eval

lemma bill_db_accounts: "d_wallets bill_db = bill_wallets 100 31 ''0''" "d_liquidity bill_db = bill_companies 100 5000 700 100"
proof -
  note r = bill_reserve_run [OF bill_run]
  show "d_wallets bill_db = bill_wallets 100 31 ''0''"
    using r(1) by (simp add: bill_eval bill_rows sell_tx_eval)
  show "d_liquidity bill_db = bill_companies 100 5000 700 100"
    using r(2) by (simp add: bill_eval bill_rows sell_tx_eval)
qed

lemma bill_accounts_ok:
  assumes "d_wallets d = bill_wallets base reserved shown" "t_userId x = ''u1''" "t_currency x = ''USDT''" "t_senderWalletId x = Some ''w1''"
  shows "bill_wallet x d"
    and "0 \<le> reserved \<Longrightarrow> reserved \<le> base \<Longrightarrow> d_liquidity d = bill_companies usdt t r i \<Longrightarrow> 0 \<le> r \<Longrightarrow> r \<le> t \<Longrightarrow> solvent d"
  using assms by (simp_all add: bill_wallet_def wallet_for_def bill_rows truthy_def ieq_def eval_simps solvent_def wallet_ok_def liquidity_ok_def)

lemmas bill_tx_eval = bill_settle_def bill_debit_def base_of_def updWallets_def updLiquidity_def sell_tx_eval

lemma bill_settle_example:
  assumes "d_wallets d = bill_wallets base reserved shown" "d_liquidity d = bill_companies usdt t r i"
    and "t_userId x = ''u1''" "t_currency x = ''USDT''" "11 \<le> reserved" "300 \<le> r" "300 \<le> t" "11 \<le> base" "11 \<le> usdt"
    and "fromBase cv_example (ABigInt (base - 11)) ''USDT'' (Some (Dec 6)) = Inr shown'"
  shows "bill_settle env_example x ''w1'' bill_tx_example d
    = (Inr (), d\<lparr>d_wallets := bill_wallets (base - 11) (reserved - 11) shown',
        d_liquidity := bill_companies (usdt - 11) (t - 300) (r - 300) i\<rparr>)"
  using assms by (simp add: bill_tx_eval bill_rows bill_tx_example_simps)

lemma bill_end_open:
  assumes "transaction_by_id (t_id t) d = Some x" "bill_open x" "truthy (t_senderWalletId x) = Some w" "bill_paid p" "0 < bill_sent t"
    and "bill_settle env x w t d = (Inr (), d1)"
  shows "\<exists>d'. bill_end_tx env p t b d = (Inr (), d') \<and> d_wallets d' = d_wallets d1 \<and> d_liquidity d' = d_liquidity d1"
  using assms by (simp add: bill_end_tx_def bill_open_def Let_def bill_write_def updBillPayments_def comp_defs updTransactions_def updOrders_def)

lemma bill_first:
  "\<exists>d1. bill_end_tx env_example paid_example bill_tx_example (show_nat 1) bill_db = (Inr (), d1)
    \<and> d_wallets d1 = bill_wallets 89 20 ''0.000089'' \<and> d_liquidity d1 = bill_companies 89 4700 400 100"
proof -
  have "transaction_by_id (show_nat 0) bill_db = Some bill_tx_example"
    using bill_reserve_run(4) [OF bill_run] by (simp add: transaction_by_id_def bill_eval bill_tx_example_simps)
  moreover note bill_settle_example [OF bill_db_accounts bill_tx_example_simps(7,6), where shown' = "''0.000089''"]
  ultimately show ?thesis
    using bill_end_open [of bill_tx_example bill_db bill_tx_example "''w1''" paid_example env_example _ "show_nat 1"] bill_debit_example
    by (simp add: bill_tx_example_simps truthy_def)
qed


lemma bill_db_row: "transaction_by_id (t_id bill_tx_example) bill_db = Some bill_tx_example"
  using bill_reserve_run(4) [OF bill_run] by (simp add: transaction_by_id_def bill_eval bill_tx_example_simps)

theorem bill_settles_witness:
  "\<exists>e'. bill_end_tx env_example paid_example bill_tx_example (show_nat 1) bill_db = (Inr (), e')
    \<and> posted db_bills (\<lambda>c. entry ''USDT'' (Books (- 11) 0 0 (- 11) 0 0) c + entry BASE_CURRENCY (Books 0 0 0 0 (- 300) 0) c) e'"
proof -
  obtain d1 where d1: "bill_end_tx env_example paid_example bill_tx_example (show_nat 1) bill_db = (Inr (), d1)" using bill_first by blast
  have q: "iq_totalMinor bill_quote_example = 11" by (simp add: bill_quote_example_def)
  have "solvent bill_db" by (rule bill_accounts_ok(2) [OF bill_db_accounts(1) bill_tx_example_simps(7,6,8) _ _ bill_db_accounts(2)]) simp_all
  from bill_settles [OF db_bills_ok(2) bill_run posted_tables [OF refl refl] this bill_db_row bill_tx_example_simps(7,6,4)
      bill_accounts_ok(1) [OF bill_db_accounts(1) bill_tx_example_simps(7,6,8)] bill_tx_example_simps(5) _ d1] d1
  show ?thesis by (auto simp: q)
qed

theorem late_submission_charges_twice_witness:
  "\<exists>d3. posted bill_db (\<lambda>c. bill_entry bill_tx_example 11 300 c + bill_entry bill_tx_example 11 300 c) d3"
proof -
  obtain d1 where d1: "bill_end_tx env_example paid_example bill_tx_example (show_nat 1) bill_db = (Inr (), d1)"
    "d_wallets d1 = bill_wallets 89 20 ''0.000089''" "d_liquidity d1 = bill_companies 89 4700 400 100" using bill_first by blast
  obtain d2 where d2: "order_bill_submitted_tx env_example bill_tx_example (t_meta bill_tx_example) ''ok'' d1 = (Inr (), d2)"
      "d_wallets d2 = d_wallets d1" "d_liquidity d2 = d_liquidity d1"
      "d_transactions d2 = update_where (\<lambda>x. t_id x = t_id bill_tx_example) (\<lambda>x. x\<lparr>t_meta := mset_all
        [(''billingStatus'', ''PROVIDER_SUBMITTED''), (''xpresspayResponse'', ''ok''),
         (''xpresspaySubmittedAt'', toISOString (e_now env_example))] (t_meta bill_tx_example)\<rparr>) (d_transactions d1)"
    by (simp add: order_bill_submitted_tx_def comp_defs updTransactions_def updBillPayments_def)
  note w = bill_accounts_ok(1) [OF bill_db_accounts(1) bill_tx_example_simps(7,6,8)]
  obtain st pr m where row: "transaction_by_id (t_id bill_tx_example) d1 = Some (bill_tx_example\<lparr>t_status := st, t_isProcessed := pr, t_meta := m\<rparr>)"
    using bill_paid_row [OF bill_db_row bill_tx_example_simps(4) w bill_tx_example_simps(5) _ d1(1)] by (auto simp: bill_tx_example_simps)
  let ?y = "bill_tx_example\<lparr>t_status := st, t_isProcessed := pr, t_meta := mset_all
        [(''billingStatus'', ''PROVIDER_SUBMITTED''), (''xpresspayResponse'', ''ok''),
         (''xpresspaySubmittedAt'', toISOString (e_now env_example))] (t_meta bill_tx_example)\<rparr>"
  have y: "transaction_by_id (t_id bill_tx_example) d2 = Some ?y" using row by (simp add: transaction_by_id_def d2(4) find_update_where)
  have o: "bill_open ?y" using bill_tx_example_simps(4) by (simp add: bill_open_def mget_def mset_all_def eval_simps)
  have a: "d_wallets d2 = bill_wallets 89 20 ''0.000089''" "d_liquidity d2 = bill_companies 89 4700 400 100" using d1 d2 by simp_all
  note bill_settle_example [OF a, of ?y, where shown' = "''0.000078''"]
  then obtain d3 where d3: "bill_end_tx env_example paid_example bill_tx_example (show_nat 1) d2 = (Inr (), d3)"
    using bill_end_open [OF y o, of "''w1''" paid_example env_example _ "show_nat 1"] bill_debit_again by (auto simp: bill_tx_example_simps truthy_def)
  have "solvent bill_db" by (rule bill_accounts_ok(2) [OF bill_db_accounts(1) bill_tx_example_simps(7,6,8) _ _ bill_db_accounts(2)]) simp_all
  moreover have "solvent d2" by (rule bill_accounts_ok(2) [OF a(1) bill_tx_example_simps(7,6,8) _ _ a(2)]) simp_all
  moreover have "keys_ok bill_db" by (rule posted_keys [OF bill_reserve_posting [OF db_bills_ok(2) bill_run] db_bills_ok(2)])
  ultimately show ?thesis
    using late_submission_charges_twice [OF _ _ bill_db_row bill_tx_example_simps(4) w _ bill_tx_example_simps(5) d1(1) d2(1) _
        bill_accounts_ok(1) [OF a(1) bill_tx_example_simps(7,6,8)] d3] by (auto simp: bill_tx_example_simps)
qed

end
