(* ===== verification/LoanBooks.thy ===== *)
theory LoanBooks
  imports Loans RangeSafety BillBooks
begin

text \<open>
  What a loan holds of its collateral: nothing, so that one balance backs any number of loans. What becomes of
  an order whose id could not be stored. Among disjoint ranges there is one for each amount.
\<close>

section \<open>The accounts\<close>

definition accounts_kept :: "db \<Rightarrow> db \<Rightarrow> bool" where
  "accounts_kept d e \<longleftrightarrow> d_wallets e = d_wallets d \<and> d_liquidity e = d_liquidity d \<and> d_cryptoCurrencies e = d_cryptoCurrencies d"

lemma accounts_kept_statements [preserves_intros]:
  "preserves (accounts_kept d) (updLoans p f)" "preserves (accounts_kept d) (freshM env)" "preserves (accounts_kept d) (insertLoan l)"
  by (auto simp: preserves_wp wp_simps accounts_kept_def insertLoan_def)

lemma accounts_kept_confirm:
  "preserves (on_db (accounts_kept d)) (confirmLoan env ops show_dec text_column pinOk answer terms u qid)"
  unfolding confirmLoan_def check_user_pin_def check_loan_quote_def loan_sell_def
  by (intro preserves_intros)

lemma loan_quote_run:
  assumes "loan_quote env ops show_dec price uuid u dto s = (Inr v, s')"
  shows "s_db s' = s_db s"
    and "(s_db s2 = s_db s \<or> d_wallets (s_db s2) = d_wallets (s_db s) \<and> d_cryptoCurrencies (s_db s2) = d_cryptoCurrencies (s_db s)) \<Longrightarrow>
      lv_quoteId v \<noteq> None \<Longrightarrow>
      fst (loan_quote env ops show_dec price uuid' u dto s2) = Inr (v\<lparr>lv_quoteId := Some (''urgent-liquidity:'' @ uuid')\<rparr>)"
  using assms
  by (auto simp: loan_quote_def Let_def comp_defs tempSet_def crypto_by_id_def wallet_by_currencyId_def loan_quote_of_def
      split: option.splits sum.splits prod.splits if_splits)

text \<open>A loan reserves nothing of its collateral: whatever becomes of its confirmation, the balances are as they were, and
  the same loan is quoted again on the same balance.\<close>

theorem loans_share_collateral:
  assumes "loan_quote env ops show_dec price uuid u dto s = (Inr v, s1)" "lv_quoteId v \<noteq> None"
    and "confirmLoan env ops show_dec text_column pinOk answer terms u qid s1 = (r, s2)"
  shows "d_wallets (s_db s2) = d_wallets (s_db s) \<and> d_liquidity (s_db s2) = d_liquidity (s_db s)
    \<and> fst (loan_quote env ops show_dec price uuid' u dto s2) = Inr (v\<lparr>lv_quoteId := Some (''urgent-liquidity:'' @ uuid')\<rparr>)"
proof -
  have "accounts_kept (s_db s1) (s_db s2)"
    using preservesD [OF accounts_kept_confirm, of "s_db s1" s1 env ops show_dec text_column pinOk answer terms u qid] assms(3)
    by (simp add: on_db_def accounts_kept_def)
  then have k: "d_wallets (s_db s2) = d_wallets (s_db s)" "d_liquidity (s_db s2) = d_liquidity (s_db s)"
    "d_cryptoCurrencies (s_db s2) = d_cryptoCurrencies (s_db s)"
    using loan_quote_run(1) [OF assms(1)] by (simp_all add: accounts_kept_def)
  with loan_quote_run(2) [OF assms(1) _ assms(2), of s2 uuid'] show ?thesis by simp
qed

section \<open>The order of a loan\<close>

text \<open>When the exchange has taken the order but its id cannot be stored, the loan is reported as failed; the order's
  webhook then finds no loan, so that the collateral is sold and neither booked nor paid out.\<close>

theorem unrecorded_loan_sale:
  assumes "e_txFault env ''loan_order'' = Some e" "la_status a = ''success''" "la_id a = Some i" "i \<noteq> []"
    and "\<forall>x \<in> set (d_loans (s_db s)). ul_quidaxSwapId x \<noteq> Some i"
    and "List.find (\<lambda>x. ul_id x = ul_id l) (d_loans (s_db s)) = Some l"
  shows "\<exists>m s'. loan_sell env (Inr a) q l s = (Inl (BadRequest m), s')
    \<and> CallOrder (to_lower (hq_asset q) @ ''ngn'') ''sell'' (hq_collateralAmountOriginal q) \<in> set (s_calls s')
    \<and> (\<exists>x. List.find (\<lambda>x. ul_id x = ul_id l) (d_loans (s_db s')) = Some x \<and> ul_status x = LnFAILED)
    \<and> loan_order env' oo oa i data s' = (Inr (), s')"
proof -
  let ?f = "\<lambda>x. x\<lparr>ul_status := LnFAILED, ul_failureReason := Some (''Collateral sell failed: '' @ err_msg e)\<rparr>"
  let ?s = "s\<lparr>s_calls := s_calls s @ [CallOrder (to_lower (hq_asset q) @ ''ngn'') ''sell'' (hq_collateralAmountOriginal q)],
    s_db := (s_db s)\<lparr>d_loans := update_where (\<lambda>x. ul_id x = ul_id l) ?f (d_loans (s_db s))\<rparr>\<rparr>"
  have run: "\<exists>m. loan_sell env (Inr a) q l s = (Inl (BadRequest m), ?s)"
    using assms(1-4) by (simp add: loan_sell_def callM_def comp_defs txM_def updLoans_def dbM_def truthy_def)
  have "List.find (\<lambda>x. ul_quidaxSwapId x = Some i) (d_loans (s_db ?s)) = None"
    using assms(5) by (auto simp: find_None_iff update_where_def)
  then have none: "loan_order env' oo oa i data ?s = (Inr (), ?s)" by (simp add: loan_order_def comp_defs)
  have "List.find (\<lambda>x. ul_id x = ul_id l) (d_loans (s_db ?s)) = Some (?f l)"
    using assms(6) by (simp add: find_update_where)
  then have "\<exists>x. List.find (\<lambda>x. ul_id x = ul_id l) (d_loans (s_db ?s)) = Some x \<and> ul_status x = LnFAILED" by simp
  with run none show ?thesis by auto
qed

section \<open>The range of an amount\<close>

text \<open>Among disjoint ranges of one currency the order of the list does not matter.\<close>

lemma repayment_range_unique:
  assumes "ranges_ok env ts" "\<forall>r \<in> set (ts_ranges ts). rr_settingsId r = i \<and> rr_currency r = c" "set rs = set (ts_ranges ts)"
    and "r \<in> set (ts_ranges ts)" "of_int (rr_from r) \<le> amount" "amount \<le> of_int (rr_to r)"
  shows "findRepaymentRange rs amount = Some r"
proof -
  have u: "x = r" if "x \<in> set rs" "amount \<ge> of_int (rr_from x) \<and> amount \<le> of_int (rr_to x)" for x
  proof (rule ccontr)
    assume "x \<noteq> r"
    have "apart x r" using assms(1,3,4) that(1) \<open>x \<noteq> r\<close> apart_sym
      by (auto simp: ranges_ok_def sorted_wrt_iff_nth_less in_set_conv_nth) (metis linorder_neqE_nat)
    moreover have "rr_settingsId x = rr_settingsId r" "rr_currency x = rr_currency r" using assms(2-4) that(1) by auto
    ultimately have "rr_to x < rr_from r \<or> rr_to r < rr_from x" by (simp add: apart_def)
    with that(2) assms(5,6) show False by (metis (full_types) not_less of_int_less_iff order_trans)
  qed
  obtain x where "findRepaymentRange rs amount = Some x"
    using assms(3-6) by (cases "findRepaymentRange rs amount") (auto simp: findRepaymentRange_def find_None_iff)
  with u [of x] show ?thesis using find_Some_in by (fastforce simp: findRepaymentRange_def)
qed

section \<open>An example\<close>

definition loan_ops_example :: quoteOps where
  "loan_ops_example = \<lparr>qo_add = (+), qo_sub = (-), qo_mul = (*), qo_div = (/), qo_fixed = (\<lambda>_ _. ''0.50'')\<rparr>"

definition loan_env :: env where
  "loan_env = env_example\<lparr>e_decValue := map_of [(''1000000'', 1000000), (''0.000001'', 1 / 1000000), (''0.5'', 1 / 2),
     (''0.0000005'', 1 / 2000000)], e_txFault := (\<lambda>l. if l = ''loan_order'' then Some (PlainError ''timeout'') else None)\<rparr>"

definition show_loan :: "rat \<Rightarrow> string" where
  "show_loan x = (if x = 1 / 2 then ''0.5'' else if x = 1000000 then ''1000000'' else ''0.0000005'')"

definition sys_loan :: sys where
  "sys_loan = sys_example\<lparr>s_db := (db_order buy_example)\<lparr>d_cryptoCurrencies := [\<lparr>c_id = ''c1'', c_symbol = ''BTC''\<rparr>],
     d_loans := [loan_example\<lparr>ul_quidaxSwapId := None\<rparr>]\<rparr>\<rparr>"

definition loan_dto_example :: loanDto where
  "loan_dto_example = \<lparr>ld_loanAmount = ''0.5'', ld_collateralAssetId = ''c1''\<rparr>"

definition loan_view_example :: loanView where
  "loan_view_example = \<lparr>lv_quoteId = Some ''urgent-liquidity:z'', lv_asset = ''BTC'', lv_assetId = ''c1'', lv_balance = ''0.000001'',
     lv_balanceValueNgn = ''0.50'', lv_maxLoan = ''0.50'', lv_hasSufficientBalance = True, lv_message = None\<rparr>"

lemma loan_units: "fromBase cv_example (ABigInt 100) ''BTC'' None = Inr ''0.000001''" "toBase cv_example ''0.5'' ''NGN'' None = Inr 50"
  "toBase cv_example ''0.0000005'' ''BTC'' None = Inr 50"
  by (simp add: cv_example_def currency_eval eval_simps)+

lemma loan_quote_example:
  "fst (loan_quote loan_env loan_ops_example show_loan (Some ''1000000'') ''z'' ''u1'' loan_dto_example sys_loan) = Inr loan_view_example"
proof -
  have "to_upper ''BTC'' = ''BTC''" by (simp add: eval_simps)
  then show ?thesis
    by (simp add: loan_quote_def loan_env_def loan_ops_example_def show_loan_def sys_loan_def loan_dto_example_def loan_view_example_def
        order_eval crypto_by_id_def wallet_by_currencyId_def loan_rate_def loan_limit_def loan_quote_of_def loan_toBase_def decimal_of_def
        loan_units tempSet_def comp_defs Let_def truthy_def)
qed

theorem loans_share_collateral_witness:
  "\<exists>s1 r s2. loan_quote loan_env loan_ops_example show_loan (Some ''1000000'') ''z'' ''u1'' loan_dto_example sys_loan = (Inr loan_view_example, s1)
    \<and> confirmLoan loan_env loan_ops_example show_loan Inr (\<lambda>_. True) (Inl (PlainError ''down'')) (Some (term_settings_example, [])) ''u1''
        ''urgent-liquidity:z'' s1 = (r, s2)
    \<and> fst (loan_quote loan_env loan_ops_example show_loan (Some ''1000000'') ''y'' ''u1'' loan_dto_example s2)
        = Inr (loan_view_example\<lparr>lv_quoteId := Some ''urgent-liquidity:y''\<rparr>)"
proof -
  have v: "lv_quoteId loan_view_example \<noteq> None" by (simp add: loan_view_example_def)
  note q = fst_run [OF loan_quote_example]
  let ?s1 = "snd (loan_quote loan_env loan_ops_example show_loan (Some ''1000000'') ''z'' ''u1'' loan_dto_example sys_loan)"
  obtain r s2 where c: "confirmLoan loan_env loan_ops_example show_loan Inr (\<lambda>_. True) (Inl (PlainError ''down''))
      (Some (term_settings_example, [])) ''u1'' ''urgent-liquidity:z'' ?s1 = (r, s2)" by (metis surj_pair)
  from loans_share_collateral [OF q v c, of "''y''"] q c show ?thesis by auto
qed

theorem unrecorded_loan_sale_witness:
  "\<exists>m s'. loan_sell loan_env (Inr \<lparr>la_status = ''success'', la_id = Some ''o9'', la_message = None\<rparr>)
      \<lparr>hq_quoteId = ''z'', hq_userId = ''u1'', hq_assetId = ''c1'', hq_asset = ''BTC'', hq_walletBalanceBase = 100,
        hq_walletBalanceOriginal = ''0.000001'', hq_loanAmount = ''0.5'', hq_loanAmountBase = 50, hq_collateralAmountOriginal = ''0.0000005'',
        hq_collateralAmountBase = 50, hq_tickerRate = ''1000000'', hq_bankAccountId = None\<rparr>
      (loan_example\<lparr>ul_quidaxSwapId := None\<rparr>) sys_loan = (Inl (BadRequest m), s')
    \<and> loan_order env_example order_ops_example order_answers_example ''o9'' (data_example ''sell'') s' = (Inr (), s')"
proof -
  let ?l = "loan_example\<lparr>ul_quidaxSwapId := None\<rparr>"
  have "List.find (\<lambda>x. ul_id x = ul_id ?l) (d_loans (s_db sys_loan)) = Some ?l"
    "\<forall>x \<in> set (d_loans (s_db sys_loan)). ul_quidaxSwapId x \<noteq> Some ''o9''"
    by (simp_all add: sys_loan_def loan_example_def)
  moreover have "e_txFault loan_env ''loan_order'' = Some (PlainError ''timeout'')" by (simp add: loan_env_def)
  ultimately show ?thesis
    using unrecorded_loan_sale [of loan_env "PlainError ''timeout''" "\<lparr>la_status = ''success'', la_id = Some ''o9'', la_message = None\<rparr>" "''o9''" sys_loan ?l]
    by (simp del: ex_simps) blast
qed

end
