(* ===== verification/Auth.thy ===== *)
theory Auth
  imports Deposit
begin

text \<open>
  What authentication stands on: the rows of users, admins, roles and tokens, the Redis
  store (\<^verbatim>\<open>redis.service.ts\<close>, \<^verbatim>\<open>temp-store.service.ts\<close>), one-time passwords
  (\<^verbatim>\<open>otp.service.ts\<close>), the tokens (\<^verbatim>\<open>token.service.ts\<close>) and the guard of every
  authenticated route (\<^verbatim>\<open>auth.guard.ts\<close>).

  Arguments for what is outside, in the record \<open>authEnv\<close> of a request: the clock, the id
  generators, \<^verbatim>\<open>Math.random\<close>, bcrypt (\<open>ae_hash\<close> with this request's salts, \<open>ae_match\<close>),
  the JWT library (\<open>ae_sign\<close>; \<open>ae_verify\<close> is \<open>None\<close> where verification throws), the
  outcomes of the captcha and of storing a notification, and the fault a transaction
  meets. Redis is taken to answer; a value written as JSON is kept as what \<^verbatim>\<open>get\<close> parses it
  to.
\<close>

section \<open>Rows\<close>

datatype userType = INDIVIDUAL | CORPORATE | ADMIN

datatype userStatus = StACTIVE | StFLAGGED | StPENDING | StDELETED

datatype tokenType = TkREFRESH | TkACCESS | TkEMAIL_VERIFICATION | TkPASSWORD_RESET | TkPASSWORD_CHANGE

datatype accountStatus = AcACTIVE | AcINACTIVE | AcBANNED | AcSUSPENDED | AcDEACTIVATED

datatype adminRole = SUPER_ADMIN | PLAIN_ADMIN

record profile =
  pf_firstName :: string
  pf_lastName :: string
  pf_phoneNumber :: string
  pf_country :: string
  pf_gender :: string
  pf_dateOfBirth :: string
  pf_residentialAddress :: string

record account =
  ac_id :: string
  ac_email :: string
  ac_profile :: "profile option"
  ac_userType :: userType
  ac_pin :: "string option"
  ac_isEmailVerified :: bool
  ac_isTwoFactorEnabled :: bool
  ac_status :: userStatus
  ac_flaggedReason :: "string option"
  ac_refreshToken :: "string option"
  ac_createdAt :: int

record admin =
  ad_id :: string
  ad_email :: string
  ad_password :: string
  ad_firstName :: string
  ad_lastName :: string
  ad_fullName :: string
  ad_phoneNumber :: "string option"
  ad_gender :: "string option"
  ad_residentialAddress :: "string option"
  ad_country :: "string option"
  ad_role :: adminRole
  ad_internalRoleId :: "string option"
  ad_accountStatus :: accountStatus
  ad_refreshToken :: "string option"

record tokenRow =
  tk_token :: string
  tk_type :: tokenType
  tk_userType :: userType
  tk_userId :: "string option"
  tk_adminId :: "string option"
  tk_expiresAt :: int
  tk_isRevoked :: bool

text \<open>A role with the ids of its permissions, the rows of the join table.\<close>

record role =
  ro_id :: string
  ro_title :: string
  ro_description :: "string option"
  ro_isActive :: bool
  ro_permissions :: "string list"

text \<open>The JSON \<^verbatim>\<open>associatedData\<close> of a user's row of \<^verbatim>\<open>generals\<close>, by the keys the code uses.\<close>

record accountMeta =
  am_signType :: "string option"
  am_lastLoginDate :: "int option"
  am_passwordChangedAt :: "int list option"
  am_onboardingCompletedAt :: "int option"

record general =
  g_id :: string
  g_tableID :: string
  g_associatedData :: "accountMeta option"

record device =
  dv_userId :: string
  dv_token :: string
  dv_platform :: string
  dv_deviceName :: "string option"
  dv_isActive :: bool
  dv_lastUsedAt :: int

record authDb =
  h_accounts :: "account list"
  h_admins :: "admin list"
  h_tokens :: "tokenRow list"
  h_roles :: "role list"
  h_permissions :: "string list"
  h_generals :: "general list"
  h_devices :: "device list"
  h_percentages :: "(string \<times> int) list"
  h_seq :: nat

section \<open>The temp store and the log\<close>

record cachedRole =
  cr_id :: string
  cr_title :: string
  cr_permissions :: "string list"
  cr_isActive :: bool

text \<open>What a key holds: a number, a text, a time (an ISO text), a registration, a role.\<close>

datatype authValue = KNum int | KText string | KStamp int | KReg string int | KRole cachedRole

datatype authEvent =
    Mail string string "string option"
  | Push string string string
  | StatsUpdate bool int userStatus
  | SubaccountJob string string string string
  | ResetLink string string string

record authSys =
  as_db :: authDb
  as_temp :: "string \<Rightarrow> (authValue \<times> int option) option"
  as_log :: "authEvent list"

datatype secretKind = AccessSecret | RefreshSecret | EmailSecret | ResetSecret | ChangeSecret

record jwtPayload =
  jp_id :: string
  jp_sub :: "string option"
  jp_userType :: "userType option"
  jp_type :: "tokenType option"
  jp_role :: "adminRole option"
  jp_internalRoleId :: "string option"
  jp_accountStatus :: "accountStatus option"

record authEnv =
  ae_now :: int
  ae_cuid :: "nat \<Rightarrow> string"
  ae_uuid :: string
  ae_random :: rat
  ae_hash :: "string \<Rightarrow> string"
  ae_match :: "string \<Rightarrow> string \<Rightarrow> bool"
  ae_sign :: "secretKind \<Rightarrow> string \<Rightarrow> jwtPayload \<Rightarrow> string"
  ae_verify :: "secretKind \<Rightarrow> string \<Rightarrow> jwtPayload option"
  ae_accessExpiration :: string
  ae_refreshExpiration :: string
  ae_push :: "string \<Rightarrow> error option"
  ae_captcha :: "string \<Rightarrow> error option"
  ae_parseDate :: "string \<Rightarrow> int option"
  ae_superAdminKey :: "string option"
  ae_adminUrl :: string
  ae_txFault :: "string \<Rightarrow> error option"

type_synonym 'a authM = "(authSys, error, 'a) comp"

section \<open>Statements\<close>

definition onDb :: "(authDb \<Rightarrow> authDb) \<Rightarrow> authSys \<Rightarrow> authSys" where
  "onDb f s = s\<lparr>as_db := f (as_db s)\<rparr>"

definition readA :: "(authDb \<Rightarrow> 'a) \<Rightarrow> 'a authM" where
  "readA f = getM (\<lambda>s. f (as_db s))"

text \<open>
  \<^verbatim>\<open>prisma.$transaction\<close>: when the callback throws, or the transaction meets a fault, the
  database is what it was; the temp store and the log keep what was done to them.
\<close>

definition authTx :: "authEnv \<Rightarrow> string \<Rightarrow> 'a authM \<Rightarrow> 'a authM" where
  "authTx env label m = (\<lambda>s. case m s of (r, s') \<Rightarrow>
     (case r of
        Inl e \<Rightarrow> (Inl e, s'\<lparr>as_db := as_db s\<rparr>)
      | Inr x \<Rightarrow> (case ae_txFault env label of
            None \<Rightarrow> (Inr x, s')
          | Some e \<Rightarrow> (Inl e, s'\<lparr>as_db := as_db s\<rparr>))))"

definition freshA :: "authEnv \<Rightarrow> string authM" where
  "freshA env = bindM (readA (\<lambda>d. ae_cuid env (h_seq d)))
     (\<lambda>i. thenM (modifyM (onDb (\<lambda>d. d\<lparr>h_seq := Suc (h_seq d)\<rparr>))) (returnM i))"

definition account_by_id :: "string \<Rightarrow> authDb \<Rightarrow> account option" where
  "account_by_id i d = List.find (\<lambda>a. ac_id a = i) (h_accounts d)"

definition account_by_email :: "string \<Rightarrow> authDb \<Rightarrow> account option" where
  "account_by_email m d = List.find (\<lambda>a. ac_email a = m) (h_accounts d)"

definition account_like :: "string \<Rightarrow> authDb \<Rightarrow> account option" where
  "account_like m d = List.find (\<lambda>a. ieq (ac_email a) m) (h_accounts d)"

definition admin_by_id :: "string \<Rightarrow> authDb \<Rightarrow> admin option" where
  "admin_by_id i d = List.find (\<lambda>a. ad_id a = i) (h_admins d)"

definition admin_by_email :: "string \<Rightarrow> authDb \<Rightarrow> admin option" where
  "admin_by_email m d = List.find (\<lambda>a. ad_email a = m) (h_admins d)"

definition token_row :: "string \<Rightarrow> authDb \<Rightarrow> tokenRow option" where
  "token_row t d = List.find (\<lambda>x. tk_token x = t) (h_tokens d)"

text \<open>Prisma's \<^verbatim>\<open>update\<close> by a unique key throws \<^verbatim>\<open>P2025\<close> when there is no such row.\<close>

definition updAccountWhere :: "(account \<Rightarrow> bool) \<Rightarrow> (account \<Rightarrow> account) \<Rightarrow> unit authM" where
  "updAccountWhere key f = bindM (readA (\<lambda>d. list_ex key (h_accounts d))) (\<lambda>found.
     thenM (requireM found (PrismaError ''P2025''))
       (modifyM (onDb (\<lambda>d. d\<lparr>h_accounts := update_where key f (h_accounts d)\<rparr>))))"

definition updAccount :: "string \<Rightarrow> (account \<Rightarrow> account) \<Rightarrow> unit authM" where
  "updAccount i f = updAccountWhere (\<lambda>a. ac_id a = i) f"

definition updAdmin :: "string \<Rightarrow> (admin \<Rightarrow> admin) \<Rightarrow> unit authM" where
  "updAdmin i f = bindM (readA (admin_by_id i)) (\<lambda>r.
     thenM (requireM (r \<noteq> None) (PrismaError ''P2025''))
       (modifyM (onDb (\<lambda>d. d\<lparr>h_admins := update_where (\<lambda>a. ad_id a = i) f (h_admins d)\<rparr>))))"

definition updToken :: "string \<Rightarrow> (tokenRow \<Rightarrow> tokenRow) \<Rightarrow> unit authM" where
  "updToken t f = bindM (readA (token_row t)) (\<lambda>r.
     thenM (requireM (r \<noteq> None) (PrismaError ''P2025''))
       (modifyM (onDb (\<lambda>d. d\<lparr>h_tokens := update_where (\<lambda>x. tk_token x = t) f (h_tokens d)\<rparr>))))"

definition createAccount :: "account \<Rightarrow> unit authM" where
  "createAccount a = bindM (readA (account_by_email (ac_email a))) (\<lambda>r.
     thenM (requireM (r = None) (PrismaError ''P2002''))
       (modifyM (onDb (\<lambda>d. d\<lparr>h_accounts := h_accounts d @ [a]\<rparr>))))"

definition createAdmin :: "admin \<Rightarrow> unit authM" where
  "createAdmin a = bindM (readA (admin_by_email (ad_email a))) (\<lambda>r.
     thenM (requireM (r = None) (PrismaError ''P2002''))
       (modifyM (onDb (\<lambda>d. d\<lparr>h_admins := h_admins d @ [a]\<rparr>))))"

text \<open>The unique constraints of \<^verbatim>\<open>tokens\<close>: the token, \<open>(userId, type)\<close>, \<open>(adminId, type)\<close>.\<close>

definition token_conflict :: "tokenRow \<Rightarrow> tokenRow \<Rightarrow> bool" where
  "token_conflict x y \<longleftrightarrow> tk_token x = tk_token y
     \<or> tk_userId x \<noteq> None \<and> tk_userId x = tk_userId y \<and> tk_type x = tk_type y
     \<or> tk_adminId x \<noteq> None \<and> tk_adminId x = tk_adminId y \<and> tk_type x = tk_type y"

definition createToken :: "tokenRow \<Rightarrow> unit authM" where
  "createToken x = bindM (readA (\<lambda>d. list_ex (token_conflict x) (h_tokens d))) (\<lambda>taken.
     thenM (requireM (\<not> taken) (PrismaError ''P2002''))
       (modifyM (onDb (\<lambda>d. d\<lparr>h_tokens := h_tokens d @ [x]\<rparr>))))"

text \<open>\<^verbatim>\<open>upsert\<close> of the refresh token of one owner, selected by \<open>key\<close>.\<close>

definition upsertToken :: "(tokenRow \<Rightarrow> bool) \<Rightarrow> tokenRow \<Rightarrow> unit authM" where
  "upsertToken key x = bindM (readA (\<lambda>d. List.find key (h_tokens d))) (\<lambda>r.
     case r of
       None \<Rightarrow> createToken x
     | Some _ \<Rightarrow> bindM (readA (\<lambda>d. list_ex (\<lambda>y. \<not> key y \<and> tk_token y = tk_token x) (h_tokens d))) (\<lambda>taken.
         thenM (requireM (\<not> taken) (PrismaError ''P2002''))
           (modifyM (onDb (\<lambda>d. d\<lparr>h_tokens := update_where key
             (\<lambda>y. y\<lparr>tk_token := tk_token x, tk_expiresAt := tk_expiresAt x, tk_isRevoked := False\<rparr>) (h_tokens d)\<rparr>)))))"

definition logA :: "authEvent \<Rightarrow> unit authM" where
  "logA x = modifyM (\<lambda>s. s\<lparr>as_log := as_log s @ [x]\<rparr>)"

text \<open>A notification is stored before it is sent; only storing it can throw.\<close>

definition pushA :: "authEnv \<Rightarrow> string \<Rightarrow> string \<Rightarrow> string \<Rightarrow> unit authM" where
  "pushA env userId title body =
     (case ae_push env title of Some e \<Rightarrow> throwM e | None \<Rightarrow> logA (Push userId title body))"

section \<open>Redis\<close>

definition key_live :: "authEnv \<Rightarrow> string \<Rightarrow> authSys \<Rightarrow> authValue option" where
  "key_live env k s =
     (case as_temp s k of
        None \<Rightarrow> None
      | Some (v, x) \<Rightarrow> if live (ae_now env) x then (if v = KText [] then None else Some v) else None)"

definition keyGet :: "authEnv \<Rightarrow> string \<Rightarrow> authValue option authM" where
  "keyGet env k = getM (key_live env k)"

definition keySet :: "authEnv \<Rightarrow> string \<Rightarrow> authValue \<Rightarrow> int option \<Rightarrow> unit authM" where
  "keySet env k v ttl = modifyM (\<lambda>s. s\<lparr>as_temp := (as_temp s)
     (k \<mapsto> (v, case ttl of None \<Rightarrow> None | Some t \<Rightarrow> if t = 0 then None else Some (ae_now env + t * 1000)))\<rparr>)"

definition keyDel :: "string \<Rightarrow> unit authM" where
  "keyDel k = modifyM (\<lambda>s. s\<lparr>as_temp := (as_temp s)(k := None)\<rparr>)"

text \<open>\<^verbatim>\<open>TTL\<close>: seconds left, -1 without an expiry, -2 without the key.\<close>

definition keyTtl :: "authEnv \<Rightarrow> string \<Rightarrow> int authM" where
  "keyTtl env k = getM (\<lambda>s. case as_temp s k of
       None \<Rightarrow> -2
     | Some (_, None) \<Rightarrow> -1
     | Some (_, Some t) \<Rightarrow> (if t \<le> ae_now env then -2 else (t - ae_now env + 500) div 1000))"

section \<open>One-time passwords\<close>

datatype otpPurpose = OtpSignup | OtpPinReset | OtpPinChange | OtpEnable2fa | OtpLogin2fa | OtpGeneric

definition purpose_name :: "otpPurpose \<Rightarrow> string" where
  "purpose_name p = (case p of
      OtpSignup \<Rightarrow> ''signup'' | OtpPinReset \<Rightarrow> ''pin_reset'' | OtpPinChange \<Rightarrow> ''pin_change''
    | OtpEnable2fa \<Rightarrow> ''enable_2fa'' | OtpLogin2fa \<Rightarrow> ''login_2fa'' | OtpGeneric \<Rightarrow> ''generic'')"

definition otp_key :: "string \<Rightarrow> otpPurpose \<Rightarrow> string" where
  "otp_key email p = ''otp:'' @ purpose_name p @ '':'' @ trim (to_lower email)"

definition generateOtp :: "authEnv \<Rightarrow> int" where
  "generateOtp env = \<lfloor>100000 + ae_random env * 900000\<rfloor>"

definition toMinutes :: "int \<Rightarrow> int" where
  "toMinutes seconds = seconds div 60"

definition issueOtp :: "authEnv \<Rightarrow> string \<Rightarrow> int \<Rightarrow> int option \<Rightarrow> otpPurpose \<Rightarrow> (string \<times> int) authM" where
  "issueOtp env email expirationTime manualOtp p =
     thenM (requireM (email \<noteq> []) (PlainError ''Email is required to issue OTP''))
     (let k = otp_key email p in
      bindM (keyGet env k) (\<lambda>existing.
      thenM (whenM (existing \<noteq> None) (bindM (keyTtl env k) (\<lambda>t. whenM (t > 0) (keyDel k))))
      (let otp = (case manualOtp of None \<Rightarrow> generateOtp env | Some n \<Rightarrow> if n = 0 then generateOtp env else n) in
       thenM (keySet env k (KNum otp) (Some expirationTime))
         (returnM (show_int otp, toMinutes expirationTime)))))"

text \<open>\<^verbatim>\<open>toString()\<close> of what \<^verbatim>\<open>get\<close> returned; only numbers are stored under the key of a password.\<close>

definition value_text :: "authValue \<Rightarrow> string" where
  "value_text v = (case v of KNum n \<Rightarrow> show_int n | KText t \<Rightarrow> t | _ \<Rightarrow> ''[object Object]'')"

definition verifyOtp :: "authEnv \<Rightarrow> string \<Rightarrow> string \<Rightarrow> bool \<Rightarrow> otpPurpose \<Rightarrow> bool authM" where
  "verifyOtp env otp email keepAlive p =
     (if email = [] then returnM False
      else let k = otp_key email p in
        bindM (keyGet env k) (\<lambda>stored.
        bindM (someM stored (NotFound ''OTP not found'')) (\<lambda>v.
          if value_text v \<noteq> otp then returnM False
          else thenM (whenM (\<not> keepAlive) (keyDel k)) (returnM True))))"

section \<open>Tokens\<close>

record subject =
  su_id :: string
  su_userType :: userType
  su_role :: "adminRole option"
  su_internalRoleId :: "string option"
  su_accountStatus :: "accountStatus option"

definition access_payload :: "subject \<Rightarrow> jwtPayload" where
  "access_payload u = \<lparr>jp_id = su_id u, jp_sub = None, jp_userType = Some (su_userType u), jp_type = None,
     jp_role = su_role u, jp_internalRoleId = truthy (su_internalRoleId u), jp_accountStatus = su_accountStatus u\<rparr>"

definition generateAccessToken :: "authEnv \<Rightarrow> subject \<Rightarrow> string" where
  "generateAccessToken env u = ae_sign env AccessSecret (ae_accessExpiration env) (access_payload u)"

definition refresh_payload :: "string \<Rightarrow> userType \<Rightarrow> jwtPayload" where
  "refresh_payload userId ty = \<lparr>jp_id = userId, jp_sub = None, jp_userType = Some ty, jp_type = Some TkREFRESH,
     jp_role = None, jp_internalRoleId = None, jp_accountStatus = None\<rparr>"

definition generateRefreshToken :: "authEnv \<Rightarrow> string \<Rightarrow> userType \<Rightarrow> string" where
  "generateRefreshToken env userId ty =
     ae_sign env RefreshSecret (ae_refreshExpiration env) (refresh_payload userId ty)"

definition generateTokens :: "authEnv \<Rightarrow> subject \<Rightarrow> string \<times> string" where
  "generateTokens env u = (generateAccessToken env u, generateRefreshToken env (su_id u) (su_userType u))"

definition user_subject :: "string \<Rightarrow> userType \<Rightarrow> subject" where
  "user_subject i ty = \<lparr>su_id = i, su_userType = ty, su_role = None, su_internalRoleId = None,
     su_accountStatus = None\<rparr>"

definition admin_subject :: "admin \<Rightarrow> subject" where
  "admin_subject a = \<lparr>su_id = ad_id a, su_userType = ADMIN, su_role = Some (ad_role a),
     su_internalRoleId = ad_internalRoleId a, su_accountStatus = Some (ad_accountStatus a)\<rparr>"

text \<open>What \<^verbatim>\<open>verifyRefreshToken\<close> returns: an object with the two fields \<^verbatim>\<open>id\<close> and \<^verbatim>\<open>userType\<close>.\<close>

definition identity :: "string \<Rightarrow> userType \<Rightarrow> jwtPayload" where
  "identity i ty = \<lparr>jp_id = i, jp_sub = None, jp_userType = Some ty, jp_type = None,
     jp_role = None, jp_internalRoleId = None, jp_accountStatus = None\<rparr>"

definition refresh_row :: "string \<Rightarrow> authDb \<Rightarrow> tokenRow option" where
  "refresh_row t d = List.find (\<lambda>x. tk_token x = t \<and> tk_type x = TkREFRESH \<and> \<not> tk_isRevoked x) (h_tokens d)"

definition verifyRefreshToken :: "authEnv \<Rightarrow> string \<Rightarrow> jwtPayload authM" where
  "verifyRefreshToken env refreshToken =
     bindM (someM (ae_verify env RefreshSecret refreshToken) (Unauthorized ''Invalid or expired refresh token'')) (\<lambda>decoded.
     thenM (requireM (jp_type decoded = Some TkREFRESH) (Unauthorized ''Invalid refresh token payload''))
     (bindM (readA (refresh_row refreshToken)) (\<lambda>r.
      bindM (someM r (Unauthorized ''Refresh token revoked or invalid'')) (\<lambda>t.
      if jp_userType decoded = Some ADMIN then
        bindM (readA (admin_by_id (case truthy (tk_adminId t) of Some i \<Rightarrow> i | None \<Rightarrow> jp_id decoded))) (\<lambda>a.
        bindM (someM a (Unauthorized ''Admin not found'')) (\<lambda>a. returnM (identity (ad_id a) ADMIN)))
      else
        bindM (readA (\<lambda>d. case tk_userId t of None \<Rightarrow> None | Some i \<Rightarrow> account_by_id i d)) (\<lambda>u.
        bindM (someM u (Unauthorized ''User not found'')) (\<lambda>u. returnM (identity (ac_id u) (ac_userType u))))))))"

definition getSecretForTokenType :: "tokenType \<Rightarrow> error + secretKind" where
  "getSecretForTokenType ty = (case ty of
      TkREFRESH \<Rightarrow> Inr RefreshSecret
    | TkEMAIL_VERIFICATION \<Rightarrow> Inr EmailSecret
    | TkPASSWORD_RESET \<Rightarrow> Inr ResetSecret
    | TkPASSWORD_CHANGE \<Rightarrow> Inr ChangeSecret
    | TkACCESS \<Rightarrow> Inl (PlainError ''Invalid token type''))"

datatype expiry = ExpSeconds int | ExpText string

definition unit_millis :: "char \<Rightarrow> int option" where
  "unit_millis c = (if c = CHR ''s'' then Some 1000 else if c = CHR ''m'' then Some 60000
     else if c = CHR ''h'' then Some 3600000 else if c = CHR ''d'' then Some 86400000 else None)"

definition parseExpiresIn :: "expiry \<Rightarrow> error + int" where
  "parseExpiresIn e = (case e of
      ExpSeconds n \<Rightarrow> Inr (n * 1000)
    | ExpText t \<Rightarrow>
        if t = [] \<or> butlast t = [] \<or> \<not> list_all is_digit (butlast t)
        then Inl (PlainError ''Invalid expiresIn format'')
        else (case unit_millis (last t) of
                None \<Rightarrow> Inl (PlainError ''Invalid expiresIn format'')
              | Some u \<Rightarrow> Inr (int (digits_nat (butlast t)) * u)))"

definition typed_payload :: "string \<Rightarrow> tokenType \<Rightarrow> jwtPayload" where
  "typed_payload i ty = \<lparr>jp_id = i, jp_sub = None, jp_userType = None, jp_type = Some ty,
     jp_role = None, jp_internalRoleId = None, jp_accountStatus = None\<rparr>"

definition generateToken :: "authEnv \<Rightarrow> string \<Rightarrow> userType \<Rightarrow> tokenType \<Rightarrow> string \<Rightarrow> string authM" where
  "generateToken env i userType ty expiresIn =
     bindM (liftM (getSecretForTokenType ty)) (\<lambda>secret.
     let token = ae_sign env secret expiresIn (typed_payload i ty) in
     bindM (liftM (parseExpiresIn (ExpText expiresIn))) (\<lambda>ms.
     thenM (createToken \<lparr>tk_token = token, tk_type = ty, tk_userType = userType,
         tk_userId = (if userType = ADMIN then None else Some i),
         tk_adminId = (if userType = ADMIN then Some i else None),
         tk_expiresAt = ae_now env + ms, tk_isRevoked = False\<rparr>)
       (returnM token)))"

definition generateEmailVerificationToken :: "authEnv \<Rightarrow> string \<Rightarrow> userType \<Rightarrow> string authM" where
  "generateEmailVerificationToken env i userType = generateToken env i userType TkEMAIL_VERIFICATION ''24h''"

definition generateResetPasswordToken :: "authEnv \<Rightarrow> string \<Rightarrow> userType \<Rightarrow> string authM" where
  "generateResetPasswordToken env i userType = generateToken env i userType TkPASSWORD_RESET ''15m''"

definition verifyToken :: "authEnv \<Rightarrow> string \<Rightarrow> tokenType \<Rightarrow> tokenRow authM" where
  "verifyToken env token ty =
     bindM (liftM (getSecretForTokenType ty)) (\<lambda>secret.
     bindM (someM (ae_verify env secret token) (PlainError ''JsonWebTokenError'')) (\<lambda>payload.
     thenM (requireM (jp_type payload = Some ty) (Unauthorized ''Invalid token type''))
     (bindM (readA (token_row token)) (\<lambda>r.
      someM (case r of None \<Rightarrow> None | Some t \<Rightarrow> if tk_expiresAt t < ae_now env then None else Some t)
        (Unauthorized ''Token invalid or expired'')))))"

definition token_user :: "tokenRow \<Rightarrow> authDb \<Rightarrow> account option" where
  "token_user t d = (case tk_userId t of None \<Rightarrow> None | Some i \<Rightarrow> account_by_id i d)"

definition token_admin :: "tokenRow \<Rightarrow> authDb \<Rightarrow> admin option" where
  "token_admin t d = (case tk_adminId t of None \<Rightarrow> None | Some i \<Rightarrow> admin_by_id i d)"

definition type_error :: error where
  "type_error = PlainError ''TypeError''"

definition revokeToken :: "string \<Rightarrow> unit authM" where
  "revokeToken token = updToken token (\<lambda>t. t\<lparr>tk_isRevoked := True\<rparr>)"

definition verifyEmailToken :: "authEnv \<Rightarrow> string \<Rightarrow> account authM" where
  "verifyEmailToken env token =
     bindM (verifyToken env token TkEMAIL_VERIFICATION) (\<lambda>t.
     bindM (readA (token_user t)) (\<lambda>r.
     bindM (someM r type_error) (\<lambda>u.
     thenM (requireM (\<not> ac_isEmailVerified u) (Unauthorized ''Email already verified''))
     (thenM (updAccount (ac_id u) (\<lambda>a. a\<lparr>ac_isEmailVerified := True\<rparr>))
     (thenM (revokeToken token) (returnM u))))))"

text \<open>\<^verbatim>\<open>{ id, userType, userId }\<close>.\<close>

definition verifyPasswordResetToken :: "authEnv \<Rightarrow> string \<Rightarrow> (string option \<times> userType \<times> string option) authM" where
  "verifyPasswordResetToken env token =
     bindM (verifyToken env token TkPASSWORD_RESET) (\<lambda>t.
     bindM (readA (token_admin t)) (\<lambda>a.
     bindM (readA (token_user t)) (\<lambda>u.
       returnM (case a of
           Some a \<Rightarrow> (Some (ad_id a), tk_userType t, truthy (tk_adminId t))
         | None \<Rightarrow> (case u of Some u \<Rightarrow> (Some (ac_id u), tk_userType t, tk_userId t)
                            | None \<Rightarrow> (None, tk_userType t, None))))))"

definition revokePasswordResetToken :: "string \<Rightarrow> unit authM" where
  "revokePasswordResetToken token = updToken token (\<lambda>t. t\<lparr>tk_isRevoked := True\<rparr>)"

definition revokeAllUserTokens :: "string \<Rightarrow> tokenType option \<Rightarrow> unit authM" where
  "revokeAllUserTokens userId ty =
     modifyM (onDb (\<lambda>d. d\<lparr>h_tokens := update_where
       (\<lambda>t. tk_userId t = Some userId \<and> (case ty of None \<Rightarrow> True | Some k \<Rightarrow> k = TkREFRESH \<or> tk_type t = k))
       (\<lambda>t. t\<lparr>tk_isRevoked := True\<rparr>) (h_tokens d)\<rparr>))"

section \<open>The guards of the routes\<close>

text \<open>\<^verbatim>\<open>header.split(' ')\<close>, of which the first two parts count.\<close>

definition extractTokenFromHeader :: "string option \<Rightarrow> string option" where
  "extractTokenFromHeader header =
     (case header of
        None \<Rightarrow> None
      | Some h \<Rightarrow>
          let ty = takeWhile (\<lambda>c. c \<noteq> CHR '' '') h;
              rest = drop (length ty) h
          in if ty = ''Bearer'' \<and> rest \<noteq> [] then Some (takeWhile (\<lambda>c. c \<noteq> CHR '' '') (tl rest)) else None)"

definition USER_NOT_AUTHORIZE :: string where
  "USER_NOT_AUTHORIZE = ''Kindly login''"

definition canActivate :: "authEnv \<Rightarrow> string option \<Rightarrow> jwtPayload authM" where
  "canActivate env header =
     bindM (someM (truthy (extractTokenFromHeader header)) (Unauthorized USER_NOT_AUTHORIZE)) (\<lambda>token.
     bindM (someM (ae_verify env AccessSecret token) (PlainError ''JsonWebTokenError'')) (\<lambda>payload.
     thenM (whenM (jp_userType payload \<noteq> Some ADMIN)
       (bindM (readA (account_by_id (jp_id payload))) (\<lambda>r.
        bindM (someM r (Unauthorized USER_NOT_AUTHORIZE)) (\<lambda>u.
        requireM (ac_status u \<noteq> StFLAGGED) (Forbidden ''Something went wrong. Contact support.'')))))
     (returnM payload)))"

text \<open>The passport strategy (\<^verbatim>\<open>jwt-strategy.ts\<close>), which reads the subject of the token from \<^verbatim>\<open>sub\<close>.\<close>

definition findAdminById :: "string \<Rightarrow> subject authM" where
  "findAdminById i =
     bindM (readA (admin_by_id i)) (\<lambda>r.
     bindM (someM r (NotFound ''Admin not found'')) (\<lambda>a. returnM (admin_subject a)))"

definition findUserById :: "string \<Rightarrow> subject authM" where
  "findUserById i =
     bindM (readA (account_by_id i)) (\<lambda>r.
     bindM (someM r (NotFound ''User not found'')) (\<lambda>u. returnM (user_subject (ac_id u) (ac_userType u))))"

definition strategy_validate :: "jwtPayload \<Rightarrow> subject authM" where
  "strategy_validate payload =
     (case (truthy (jp_sub payload), jp_userType payload) of
        (Some i, Some ADMIN) \<Rightarrow> findAdminById i
      | (Some i, Some _) \<Rightarrow> findUserById i
      | _ \<Rightarrow> throwM (Unauthorized ''Unauthorized''))"

section \<open>Weakest preconditions\<close>

text \<open>A successful run, as a weakest precondition.\<close>

lemma run_wp: "m s = (Inr y, s') \<longleftrightarrow> wp m (\<lambda>x s1. x = y \<and> s1 = s') (\<lambda>_ _. False) s"
  by (auto simp: wp_def split: prod.splits sum.splits)

lemma wp_readA [wp_simps]: "wp (readA f) Q E s = Q (f (as_db s)) s"
  by (simp add: readA_def wp_simps)

lemma wp_authTx [wp_simps]:
  "wp (authTx env label m) Q E s =
     wp m (\<lambda>x s'. case ae_txFault env label of None \<Rightarrow> Q x s' | Some e \<Rightarrow> E e (s'\<lparr>as_db := as_db s\<rparr>))
       (\<lambda>e s'. E e (s'\<lparr>as_db := as_db s\<rparr>)) s"
  by (simp add: wp_def authTx_def split: prod.splits sum.splits option.splits)

lemma wp_freshA [wp_simps]:
  "wp (freshA env) Q E s = Q (ae_cuid env (h_seq (as_db s))) (s\<lparr>as_db := (as_db s)\<lparr>h_seq := Suc (h_seq (as_db s))\<rparr>\<rparr>)"
  by (simp add: freshA_def onDb_def wp_simps)

lemma wp_logA [wp_simps]: "wp (logA x) Q E s = Q () (s\<lparr>as_log := as_log s @ [x]\<rparr>)"
  by (simp add: logA_def wp_simps)

lemma wp_pushA [wp_simps]:
  "wp (pushA env u t b) Q E s = (case ae_push env t of
      Some e \<Rightarrow> E e s | None \<Rightarrow> Q () (s\<lparr>as_log := as_log s @ [Push u t b]\<rparr>))"
  by (simp add: pushA_def wp_simps split: option.splits)

lemma wp_keyGet [wp_simps]: "wp (keyGet env k) Q E s = Q (key_live env k s) s"
  by (simp add: keyGet_def wp_simps)

lemma wp_keySet [wp_simps]:
  "wp (keySet env k v ttl) Q E s = Q () (s\<lparr>as_temp := (as_temp s)
     (k \<mapsto> (v, case ttl of None \<Rightarrow> None | Some t \<Rightarrow> if t = 0 then None else Some (ae_now env + t * 1000)))\<rparr>)"
  by (simp add: keySet_def wp_simps)

lemma wp_keyDel [wp_simps]: "wp (keyDel k) Q E s = Q () (s\<lparr>as_temp := (as_temp s)(k := None)\<rparr>)"
  by (simp add: keyDel_def wp_simps)

lemma run_if [run_simps]:
  "(if b then m else k) s = (Inr y, s') \<longleftrightarrow> (if b then m s = (Inr y, s') else k s = (Inr y, s'))"
  by simp

lemma run_readA [run_simps]: "readA f s = (Inr y, s') \<longleftrightarrow> y = f (as_db s) \<and> s' = s"
  by (auto simp: readA_def run_simps)

lemma run_keyGet [run_simps]: "keyGet env k s = (Inr y, s') \<longleftrightarrow> y = key_live env k s \<and> s' = s"
  by (auto simp: keyGet_def run_simps)

lemma run_keySet [run_simps]:
  "keySet env k v ttl s = (Inr y, s') \<longleftrightarrow> s' = s\<lparr>as_temp := (as_temp s)
     (k \<mapsto> (v, case ttl of None \<Rightarrow> None | Some t \<Rightarrow> if t = 0 then None else Some (ae_now env + t * 1000)))\<rparr>"
  by (auto simp: keySet_def run_simps)

lemma run_keyDel [run_simps]:
  "keyDel k s = (Inr y, s') \<longleftrightarrow> s' = s\<lparr>as_temp := (as_temp s)(k := None)\<rparr>"
  by (auto simp: keyDel_def run_simps)

lemma run_logA [run_simps]: "logA x s = (Inr y, s') \<longleftrightarrow> s' = s\<lparr>as_log := as_log s @ [x]\<rparr>"
  by (auto simp: logA_def run_simps)

lemma run_pushA [run_simps]:
  "pushA env u t b s = (Inr y, s') \<longleftrightarrow> ae_push env t = None \<and> s' = s\<lparr>as_log := as_log s @ [Push u t b]\<rparr>"
  by (auto simp: pushA_def run_simps split: option.splits)

lemma run_freshA [run_simps]:
  "freshA env s = (Inr i, s') \<longleftrightarrow> i = ae_cuid env (h_seq (as_db s))
     \<and> s' = s\<lparr>as_db := (as_db s)\<lparr>h_seq := Suc (h_seq (as_db s))\<rparr>\<rparr>"
  by (auto simp: freshA_def onDb_def run_simps)

lemma run_authTx [run_simps]:
  "authTx env label m s = (Inr x, s') \<longleftrightarrow> m s = (Inr x, s') \<and> ae_txFault env label = None"
  by (auto simp: authTx_def split: prod.splits sum.splits option.splits)

lemma keyTtl_state [simp]: "snd (keyTtl env k s) = s"
  by (simp add: keyTtl_def getM_def)

section \<open>One-time passwords: lemmas\<close>

lemma generateOtp_range:
  assumes "0 \<le> ae_random env" and "ae_random env < 1"
  shows "100000 \<le> generateOtp env" and "generateOtp env \<le> 999999"
  using assms by (auto simp: generateOtp_def le_floor_iff floor_le_iff)

text \<open>The state after issuing a password, in one step.\<close>

lemma wp_issueOtp [wp_simps]:
  "wp (issueOtp env email t None p) Q E s =
     (if email = [] then E (PlainError ''Email is required to issue OTP'') s
      else Q (show_int (generateOtp env), toMinutes t)
        (s\<lparr>as_temp := (as_temp s)(otp_key email p \<mapsto>
           (KNum (generateOtp env), if t = 0 then None else Some (ae_now env + t * 1000)))\<rparr>))"
  by (simp add: issueOtp_def wp_simps Let_def keyTtl_def fun_upd_def cong: if_cong)

lemma run_issueOtp [run_simps]:
  "issueOtp env email t None p s = (Inr y, s') \<longleftrightarrow> email \<noteq> [] \<and> y = (show_int (generateOtp env), toMinutes t)
     \<and> s' = s\<lparr>as_temp := (as_temp s)(otp_key email p \<mapsto>
           (KNum (generateOtp env), if t = 0 then None else Some (ae_now env + t * 1000)))\<rparr>"
  by (auto simp: run_wp wp_issueOtp)

lemma wp_verifyOtp [wp_simps]:
  "wp (verifyOtp env otp email False p) Q E s =
     (if email = [] then Q False s
      else (case key_live env (otp_key email p) s of
          None \<Rightarrow> E (NotFound ''OTP not found'') s
        | Some v \<Rightarrow> if value_text v \<noteq> otp then Q False s
            else Q True (s\<lparr>as_temp := (as_temp s)(otp_key email p := None)\<rparr>)))"
  by (simp add: verifyOtp_def wp_simps Let_def split: option.splits)

lemma run_verifyOtp [run_simps]:
  "verifyOtp env otp email False p s = (Inr True, s') \<longleftrightarrow> email \<noteq> []
     \<and> (\<exists>v. key_live env (otp_key email p) s = Some v \<and> value_text v = otp)
     \<and> s' = s\<lparr>as_temp := (as_temp s)(otp_key email p := None)\<rparr>"
  by (auto simp: verifyOtp_def run_simps Let_def split: if_splits)

end
