(* ===== verification/Users.thy ===== *)
theory Users
  imports Auth
begin

text \<open>
  The users' side of authentication (\<^verbatim>\<open>users.service.ts\<close>): sign-up by an e-mailed code,
  the first PIN, the reset and the change of a PIN, login with an optional second factor,
  and the flagging of an account by failed attempts or by an admin
  (\<^verbatim>\<open>admin-users.service.ts\<close>).
\<close>

section \<open>Keys and limits\<close>

definition REGISTRATION_TTL :: int where "REGISTRATION_TTL = 24 * 60 * 60"

definition REG_KEY :: "string \<Rightarrow> string" where "REG_KEY i = ''registration:'' @ i"

definition PIN_RESET_TOKEN_TTL_SECONDS :: int where "PIN_RESET_TOKEN_TTL_SECONDS = 5 * 60"

definition normal_email :: "string \<Rightarrow> string" where
  "normal_email email = to_lower (trim email)"

definition PIN_RESET_TOKEN_KEY :: "string \<Rightarrow> string" where
  "PIN_RESET_TOKEN_KEY email = ''pin_reset_token:'' @ normal_email email"

definition MAX_ATTEMPTS :: int where "MAX_ATTEMPTS = 4"

definition ATTEMPT_TTL_SECONDS :: int where "ATTEMPT_TTL_SECONDS = 30 * 60"

definition PIN_CHANGE_ATTEMPT_KEY :: "string \<Rightarrow> string" where
  "PIN_CHANGE_ATTEMPT_KEY userId = ''pin_change_attempts:'' @ userId"

definition LOGIN_ATTEMPT_LIMIT :: int where "LOGIN_ATTEMPT_LIMIT = 5"

definition LOGIN_ATTEMPT_TTL_SECONDS :: int where "LOGIN_ATTEMPT_TTL_SECONDS = 5 * 60"

definition LOGIN_ATTEMPT_KEY :: "string \<Rightarrow> string" where
  "LOGIN_ATTEMPT_KEY userId = ''login_attempts:'' @ userId"

definition RESEND_COOLDOWN_SECONDS :: int where "RESEND_COOLDOWN_SECONDS = 60"

definition RESEND_MAX_PER_HOUR :: int where "RESEND_MAX_PER_HOUR = 5"

definition RESEND_KEY :: "string \<Rightarrow> string" where
  "RESEND_KEY email = ''resend_otp_attempts:'' @ email"

definition LAST_RESEND_KEY :: "string \<Rightarrow> string" where
  "LAST_RESEND_KEY email = ''last_resend:'' @ email"

definition FORGOT_PIN_KEY :: "string \<Rightarrow> string" where
  "FORGOT_PIN_KEY email = ''forgot_pin_attempts:'' @ email"

definition REG_LOOKUP_KEY :: "string \<Rightarrow> string" where
  "REG_LOOKUP_KEY email = ''reg_lookup:'' @ email"

text \<open>The counters are only ever stored as numbers.\<close>

definition attempts_of :: "authValue option \<Rightarrow> int" where
  "attempts_of v = (case v of Some (KNum n) \<Rightarrow> n | _ \<Rightarrow> 0)"

section \<open>Helpers\<close>

definition getUserById :: "string \<Rightarrow> account authM" where
  "getUserById userId =
     bindM (readA (account_by_id userId)) (\<lambda>r. someM r (NotFound ''User not found''))"

definition empty_meta :: accountMeta where
  "empty_meta = \<lparr>am_signType = None, am_lastLoginDate = None, am_passwordChangedAt = None,
     am_onboardingCompletedAt = None\<rparr>"

definition mergeMetaData :: "accountMeta option \<Rightarrow> (accountMeta \<Rightarrow> accountMeta) \<Rightarrow> accountMeta option" where
  "mergeMetaData m patch = Some (patch (case m of None \<Rightarrow> empty_meta | Some x \<Rightarrow> x))"

definition user_general :: "string \<Rightarrow> authDb \<Rightarrow> general option" where
  "user_general userId d = List.find (\<lambda>g. g_tableID g = userId) (h_generals d)"

definition updGenerals :: "(general \<Rightarrow> bool) \<Rightarrow> (general \<Rightarrow> general) \<Rightarrow> unit authM" where
  "updGenerals p f = modifyM (onDb (\<lambda>d. d\<lparr>h_generals := update_where p f (h_generals d)\<rparr>))"

text \<open>A new PIN is recorded in the history of the metadata, when there is metadata.\<close>

definition record_pin_change :: "string \<Rightarrow> int \<Rightarrow> unit authM" where
  "record_pin_change userId now =
     bindM (readA (user_general userId)) (\<lambda>r.
       case (case r of None \<Rightarrow> None | Some g \<Rightarrow> g_associatedData g) of
         None \<Rightarrow> returnM ()
       | Some m \<Rightarrow>
           let history = (case am_passwordChangedAt m of None \<Rightarrow> [] | Some h \<Rightarrow> h)
           in updGenerals (\<lambda>g. g_tableID g = userId)
                (\<lambda>g. g\<lparr>g_associatedData := mergeMetaData (Some m)
                   (\<lambda>x. x\<lparr>am_passwordChangedAt := Some (history @ [now])\<rparr>)\<rparr>))"

record deviceDto =
  dd_token :: "string option"
  dd_platform :: "string option"
  dd_name :: "string option"

definition addDeviceToken :: "authEnv \<Rightarrow> string \<Rightarrow> string \<Rightarrow> string \<Rightarrow> string option \<Rightarrow> unit authM" where
  "addDeviceToken env userId token platform name =
     bindM (readA (\<lambda>d. list_ex (\<lambda>v. dv_userId v = userId \<and> dv_token v = token) (h_devices d))) (\<lambda>exists.
       modifyM (onDb (\<lambda>d. d\<lparr>h_devices :=
         (if exists then update_where (\<lambda>v. dv_userId v = userId \<and> dv_token v = token)
            (\<lambda>v. v\<lparr>dv_isActive := True, dv_lastUsedAt := ae_now env\<rparr>) (h_devices d)
          else h_devices d @ [\<lparr>dv_userId = userId, dv_token = token, dv_platform = platform,
            dv_deviceName = name, dv_isActive = True, dv_lastUsedAt = ae_now env\<rparr>])\<rparr>)))"

definition rememberDevice :: "authEnv \<Rightarrow> string \<Rightarrow> deviceDto \<Rightarrow> unit authM" where
  "rememberDevice env userId dv =
     (case (truthy (dd_token dv), truthy (dd_platform dv)) of
        (Some t, Some p) \<Rightarrow> addDeviceToken env userId t p (dd_name dv)
      | _ \<Rightarrow> returnM ())"

section \<open>Sign-up\<close>

definition initiateClientSignUp :: "authEnv \<Rightarrow> string \<Rightarrow> unit authM" where
  "initiateClientSignUp env email = authTx env ''signup''
     (bindM (readA (account_by_email email)) (\<lambda>r.
      thenM (requireM (r = None) (Conflict ''Account already exists for this email.''))
      (bindM (issueOtp env email 600 None OtpSignup) (\<lambda>(otp, timeLeft).
       logA (Mail email ''SIGNUP_INITIATE'' (Some otp))))))"

datatype resendResult = MustWait int | CodeSent string int

text \<open>The seconds of the cool-down that are left.\<close>

definition cooldown_left :: "authEnv \<Rightarrow> authValue option \<Rightarrow> int" where
  "cooldown_left env v = (case v of
      Some (KStamp t) \<Rightarrow> RESEND_COOLDOWN_SECONDS - (ae_now env - t) div 1000
    | _ \<Rightarrow> 0)"

definition resendOtp :: "authEnv \<Rightarrow> string \<Rightarrow> resendResult authM" where
  "resendOtp env email =
     (let m = normal_email email in
      bindM (readA (account_by_email m)) (\<lambda>u.
      thenM (requireM (case u of None \<Rightarrow> True | Some a \<Rightarrow> \<not> ac_isEmailVerified a)
        (BadRequest ''This email is already verified. Please log in.''))
      (bindM (keyGet env (RESEND_KEY m)) (\<lambda>raw.
       thenM (requireM (attempts_of raw < RESEND_MAX_PER_HOUR)
         (BadRequest ''Too many resend requests. Please try again in 1 hour or contact support.''))
       (bindM (keyGet env (LAST_RESEND_KEY m)) (\<lambda>last.
        if cooldown_left env last > 0 then returnM (MustWait (cooldown_left env last))
        else
          bindM (issueOtp env m 600 None OtpSignup) (\<lambda>(otp, timeLeft).
          thenM (keySet env (RESEND_KEY m) (KNum (attempts_of raw + 1)) (Some 3600))
          (thenM (keySet env (LAST_RESEND_KEY m) (KStamp (ae_now env)) (Some RESEND_COOLDOWN_SECONDS))
          (thenM (logA (Mail m ''SIGNUP_INITIATE'' (Some otp)))
          (returnM (CodeSent m RESEND_COOLDOWN_SECONDS)))))))))))"

definition resendOnboardingOtp :: "authEnv \<Rightarrow> string \<Rightarrow> string \<Rightarrow> resendResult authM" where
  "resendOnboardingOtp env email captchaToken =
     (case ae_captcha env captchaToken of Some e \<Rightarrow> throwM e | None \<Rightarrow> resendOtp env email)"

datatype verifyResult = PinResetToken string int | RegistrationId string

definition otp_valid :: "authEnv \<Rightarrow> string \<Rightarrow> string \<Rightarrow> otpPurpose \<Rightarrow> string \<Rightarrow> unit authM" where
  "otp_valid env otp email p message =
     bindM (verifyOtp env otp email False p) (\<lambda>ok. requireM ok (BadRequest message))"

definition issueResetToken :: "authEnv \<Rightarrow> string \<Rightarrow> string \<Rightarrow> verifyResult authM" where
  "issueResetToken env m otp =
     thenM (otp_valid env otp m OtpPinReset ''Invalid or expired OTP'')
     (thenM (keySet env (PIN_RESET_TOKEN_KEY m) (KText (ae_uuid env)) (Some PIN_RESET_TOKEN_TTL_SECONDS))
     (returnM (PinResetToken (ae_uuid env) PIN_RESET_TOKEN_TTL_SECONDS)))"

definition openRegistration :: "authEnv \<Rightarrow> string \<Rightarrow> string \<Rightarrow> verifyResult authM" where
  "openRegistration env m otp =
     thenM (otp_valid env otp m OtpSignup ''Invalid or expired OTP'')
     (bindM (keyGet env (REG_LOOKUP_KEY m)) (\<lambda>existing.
      thenM (case existing of None \<Rightarrow> returnM () | Some v \<Rightarrow> keyDel (REG_KEY (value_text v)))
      (thenM (keySet env (REG_KEY (ae_uuid env)) (KReg m (ae_now env)) (Some REGISTRATION_TTL))
      (returnM (RegistrationId (ae_uuid env))))))"

definition verifyCode :: "authEnv \<Rightarrow> string \<Rightarrow> string \<Rightarrow> verifyResult authM" where
  "verifyCode env email otp =
     (let m = normal_email email in
      bindM (keyGet env (''otp:pin_reset:'' @ m)) (\<lambda>pinResetOtp.
        if pinResetOtp \<noteq> None then issueResetToken env m otp else openRegistration env m otp))"

text \<open>\<^verbatim>\<open>/^\d{4}-\d{2}-\d{2}$/\<close>.\<close>

definition iso_date :: "string \<Rightarrow> bool" where
  "iso_date t \<longleftrightarrow> length t = 10 \<and> list_all is_digit (take 4 t) \<and> t ! 4 = CHR ''-''
     \<and> list_all is_digit (take 2 (drop 5 t)) \<and> t ! 7 = CHR ''-'' \<and> list_all is_digit (drop 8 t)"

definition new_account :: "authEnv \<Rightarrow> string \<Rightarrow> string \<Rightarrow> profile \<Rightarrow> account" where
  "new_account env i email dto = \<lparr>ac_id = i, ac_email = email, ac_profile = Some dto, ac_userType = INDIVIDUAL,
     ac_pin = None, ac_isEmailVerified = True, ac_isTwoFactorEnabled = False, ac_status = StPENDING,
     ac_flaggedReason = None, ac_refreshToken = None, ac_createdAt = ae_now env\<rparr>"

definition SESSION_MILLIS :: int where "SESSION_MILLIS = 7 * 24 * 60 * 60 * 1000"

definition session_row :: "authEnv \<Rightarrow> string \<Rightarrow> userType \<Rightarrow> string \<Rightarrow> tokenRow" where
  "session_row env userId ty token = \<lparr>tk_token = token, tk_type = TkREFRESH, tk_userType = ty,
     tk_userId = Some userId, tk_adminId = None, tk_expiresAt = ae_now env + SESSION_MILLIS, tk_isRevoked = False\<rparr>"

definition signup_tx :: "authEnv \<Rightarrow> string \<Rightarrow> profile \<Rightarrow> (string \<times> string) authM" where
  "signup_tx env email dto = authTx env ''complete-signup''
     (bindM (readA (account_by_email email)) (\<lambda>r.
      thenM (requireM (r = None) (Conflict ''Account already exists''))
      (bindM (freshA env) (\<lambda>i.
       thenM (createAccount (new_account env i email dto))
       (bindM (freshA env) (\<lambda>gi.
        thenM (modifyM (onDb (\<lambda>d. d\<lparr>h_generals := h_generals d @
          [\<lparr>g_id = gi, g_tableID = i, g_associatedData = Some \<lparr>am_signType = Some ''DIRECT'',
             am_lastLoginDate = Some (ae_now env), am_passwordChangedAt = Some [],
             am_onboardingCompletedAt = Some (ae_now env)\<rparr>\<rparr>]\<rparr>)))
        (let tokens = generateTokens env (user_subject i INDIVIDUAL) in
         thenM (createToken (session_row env i INDIVIDUAL (snd tokens))) (returnM tokens))))))))"

definition completeClientSignUp :: "authEnv \<Rightarrow> string \<Rightarrow> profile \<Rightarrow> (string \<times> string) authM" where
  "completeClientSignUp env registrationId dto =
     bindM (keyGet env (REG_KEY registrationId)) (\<lambda>raw.
     bindM (someM raw (BadRequest ''Registration session expired or invalid. Please restart signup.'')) (\<lambda>v.
     bindM (case v of KReg m _ \<Rightarrow> returnM m | _ \<Rightarrow> throwM (PlainError ''SyntaxError'')) (\<lambda>email.
     let birth = trim (pf_dateOfBirth dto) in
     thenM (requireM (iso_date birth) (BadRequest ''Date of birth must be YYYY-MM-DD''))
     (thenM (requireM (ae_parseDate env birth \<noteq> None) (BadRequest ''Invalid date''))
     (bindM (signup_tx env email (dto\<lparr>pf_dateOfBirth := birth\<rparr>)) (\<lambda>tokens.
      thenM (keyDel (REG_KEY registrationId)) (returnM tokens)))))))"

definition first_name :: "account \<Rightarrow> string" where
  "first_name a = (case ac_profile a of None \<Rightarrow> '''' | Some p \<Rightarrow> pf_firstName p)"

definition last_name :: "account \<Rightarrow> string" where
  "last_name a = (case ac_profile a of None \<Rightarrow> '''' | Some p \<Rightarrow> pf_lastName p)"

definition createPercentage :: "string \<Rightarrow> int \<Rightarrow> unit authM" where
  "createPercentage userId now =
     bindM (readA (\<lambda>d. (userId, now) \<in> set (h_percentages d))) (\<lambda>taken.
       thenM (requireM (\<not> taken) (PrismaError ''P2002''))
         (modifyM (onDb (\<lambda>d. d\<lparr>h_percentages := h_percentages d @ [(userId, now)]\<rparr>))))"

definition setUserPin :: "authEnv \<Rightarrow> string \<Rightarrow> string \<Rightarrow> deviceDto \<Rightarrow> unit authM" where
  "setUserPin env userId pin dv =
     bindM (readA (account_by_id userId)) (\<lambda>r.
     bindM (someM r (NotFound ''User not found'')) (\<lambda>user.
     thenM (requireM (truthy (ac_pin user) = None) (BadRequest ''PIN already set''))
     (thenM (updAccount userId (\<lambda>a. a\<lparr>ac_pin := Some (ae_hash env (trim pin)), ac_status := StACTIVE\<rparr>))
     (thenM (rememberDevice env userId dv)
     (thenM (createPercentage userId (ae_now env))
     (thenM (record_pin_change userId (ae_now env))
     (thenM (logA (StatsUpdate True (ac_createdAt user) StACTIVE))
     (thenM (logA (SubaccountJob userId (ac_email user) (first_name user) (last_name user)))
     (thenM (logA (Mail (ac_email user) ''SIGNUP_COMPLETED'' None))
     (pushA env userId ''Welcome to Ogaboss!''
        ''Your account has been created successfully. Welcome aboard!''))))))))))"

section \<open>The reset of a PIN\<close>

definition otp_body :: "string \<Rightarrow> string \<Rightarrow> int \<Rightarrow> string" where
  "otp_body what otp timeLeft =
     ''Your '' @ what @ '' code is '' @ otp @ ''. Valid for '' @ show_int timeLeft @ '' minutes.''"

definition forgotPin :: "authEnv \<Rightarrow> string \<Rightarrow> bool authM" where
  "forgotPin env email =
     (let m = normal_email email in
      bindM (keyGet env (FORGOT_PIN_KEY m)) (\<lambda>raw.
      thenM (requireM (attempts_of raw < RESEND_MAX_PER_HOUR)
        (BadRequest ''Too many requests. Please try again in 1 hour or contact support.''))
      (bindM (readA (account_by_email m)) (\<lambda>r.
       case r of
         None \<Rightarrow> returnM False
       | Some user \<Rightarrow>
           bindM (issueOtp env (ac_email user) 600 None OtpPinReset) (\<lambda>(otp, timeLeft).
           thenM (keySet env (FORGOT_PIN_KEY m) (KNum (attempts_of raw + 1)) (Some 3600))
           (thenM (logA (Mail (ac_email user) ''RESET_PIN'' (Some otp)))
           (thenM (pushA env (ac_id user) ''PIN Reset Request'' (otp_body ''PIN reset'' otp timeLeft))
           (returnM True))))))))"

definition resetPin :: "authEnv \<Rightarrow> string \<Rightarrow> string \<Rightarrow> string \<Rightarrow> unit authM" where
  "resetPin env email pinResetToken newPin =
     (let m = normal_email email in
      thenM (authTx env ''reset-pin''
        (bindM (readA (account_by_email m)) (\<lambda>r.
         bindM (someM r (NotFound ''User not found'')) (\<lambda>user.
         bindM (keyGet env (PIN_RESET_TOKEN_KEY m)) (\<lambda>stored.
         thenM (requireM (stored = Some (KText pinResetToken)) (BadRequest ''Invalid or expired PIN reset token''))
         (thenM (updAccountWhere (\<lambda>a. ac_email a = m) (\<lambda>a. a\<lparr>ac_pin := Some (ae_hash env newPin)\<rparr>))
         (record_pin_change (ac_id user) (ae_now env))))))))
      (keyDel (PIN_RESET_TOKEN_KEY m)))"

section \<open>Login\<close>

record loginDto =
  ld_email :: string
  ld_pin :: string
  ld_device :: deviceDto

record sessionView =
  sv_email :: string
  sv_isVerified :: bool
  sv_isTwoFactorEnabled :: bool
  sv_accessToken :: string
  sv_refreshToken :: string

datatype loginResult = RequiresTwoFactor | LoggedIn sessionView

definition recordFailedLoginAttempt :: "authEnv \<Rightarrow> string \<Rightarrow> int authM" where
  "recordFailedLoginAttempt env userId =
     bindM (keyGet env (LOGIN_ATTEMPT_KEY userId)) (\<lambda>raw.
       let attempts = attempts_of raw + 1 in
       thenM (keySet env (LOGIN_ATTEMPT_KEY userId) (KNum attempts) (Some LOGIN_ATTEMPT_TTL_SECONDS))
         (returnM attempts))"

definition clearLoginAttempts :: "string \<Rightarrow> unit authM" where
  "clearLoginAttempts userId = keyDel (LOGIN_ATTEMPT_KEY userId)"

definition sendLoginTwoFactorOtp :: "authEnv \<Rightarrow> string \<Rightarrow> loginResult authM" where
  "sendLoginTwoFactorOtp env userId =
     bindM (getUserById userId) (\<lambda>user.
     thenM (requireM (ac_isTwoFactorEnabled user) (BadRequest ''2FA is not enabled for this user''))
     (bindM (issueOtp env (ac_email user) 300 None OtpLogin2fa) (\<lambda>(otp, timeLeft).
      thenM (logA (Mail (ac_email user) ''LOGIN_2FA'' (Some otp)))
      (thenM (pushA env (ac_id user) ''Login Verification'' (otp_body ''login verification'' otp timeLeft))
      (returnM RequiresTwoFactor)))))"

text \<open>The same tail of both logins: metadata and refresh token in one transaction, then the device.\<close>

definition session_tx :: "authEnv \<Rightarrow> account \<Rightarrow> sessionView authM" where
  "session_tx env user = authTx env ''login''
     (bindM (readA (user_general (ac_id user))) (\<lambda>r.
      thenM (case r of
          None \<Rightarrow> returnM ()
        | Some g \<Rightarrow> updGenerals (\<lambda>x. g_id x = g_id g)
            (\<lambda>x. x\<lparr>g_associatedData := mergeMetaData (g_associatedData g)
               (\<lambda>m. m\<lparr>am_lastLoginDate := Some (ae_now env)\<rparr>)\<rparr>))
      (let tokens = generateTokens env (user_subject (ac_id user) (ac_userType user)) in
       thenM (upsertToken (\<lambda>t. tk_userId t = Some (ac_id user) \<and> tk_type t = TkREFRESH)
           (session_row env (ac_id user) (ac_userType user) (snd tokens)))
         (returnM \<lparr>sv_email = ac_email user, sv_isVerified = ac_isEmailVerified user,
            sv_isTwoFactorEnabled = ac_isTwoFactorEnabled user,
            sv_accessToken = fst tokens, sv_refreshToken = snd tokens\<rparr>))))"

definition openSession :: "authEnv \<Rightarrow> account \<Rightarrow> deviceDto \<Rightarrow> loginResult authM" where
  "openSession env user dv =
     bindM (session_tx env user) (\<lambda>view.
       thenM (rememberDevice env (ac_id user) dv) (returnM (LoggedIn view)))"

definition failedLogin :: "authEnv \<Rightarrow> string \<Rightarrow> loginResult authM" where
  "failedLogin env userId =
     bindM (recordFailedLoginAttempt env userId) (\<lambda>attempts.
       thenM (whenM (attempts \<ge> LOGIN_ATTEMPT_LIMIT) (updAccount userId (\<lambda>a. a\<lparr>ac_status := StFLAGGED,
           ac_flaggedReason := Some ''Account locked due to multiple failed login attempts''\<rparr>)))
         (throwM (BadRequest ''Invalid credentials'')))"

definition validateUser :: "authEnv \<Rightarrow> loginDto \<Rightarrow> loginResult authM" where
  "validateUser env dto =
     bindM (readA (account_like (trim (ld_email dto)))) (\<lambda>r.
     bindM (someM r (NotFound ''Incorrect credentials'')) (\<lambda>user.
     bindM (someM (truthy (ac_pin user)) (BadRequest ''Set PIN first'')) (\<lambda>pin.
     thenM (requireM (ac_status user \<noteq> StDELETED) (Forbidden ''This account does not exist.''))
     (if \<not> ae_match env (ld_pin dto) pin then failedLogin env (ac_id user)
      else thenM (clearLoginAttempts (ac_id user))
        (if ac_isTwoFactorEnabled user then sendLoginTwoFactorOtp env (ac_id user)
         else openSession env user (ld_device dto))))))"

definition verifyLoginTwoFactor :: "authEnv \<Rightarrow> string \<Rightarrow> string \<Rightarrow> deviceDto \<Rightarrow> loginResult authM" where
  "verifyLoginTwoFactor env email otp dv =
     bindM (readA (account_like (trim email))) (\<lambda>r.
     bindM (someM r (NotFound ''User not found'')) (\<lambda>user.
     thenM (requireM (ac_isTwoFactorEnabled user) (BadRequest ''2FA is not enabled for this user''))
     (thenM (otp_valid env otp (ac_email user) OtpLogin2fa ''Invalid or expired OTP'')
     (openSession env user dv))))"

section \<open>The change of a PIN\<close>

definition incrementPinChangeAttempts :: "authEnv \<Rightarrow> string \<Rightarrow> int authM" where
  "incrementPinChangeAttempts env userId =
     bindM (keyGet env (PIN_CHANGE_ATTEMPT_KEY userId)) (\<lambda>raw.
       let attempts = attempts_of raw + 1 in
       thenM (keySet env (PIN_CHANGE_ATTEMPT_KEY userId) (KNum attempts) (Some ATTEMPT_TTL_SECONDS))
         (returnM attempts))"

definition wrongPinChange :: "authEnv \<Rightarrow> account \<Rightarrow> int authM" where
  "wrongPinChange env user =
     bindM (incrementPinChangeAttempts env (ac_id user)) (\<lambda>attempts.
       if attempts \<ge> MAX_ATTEMPTS then
         thenM (updAccount (ac_id user) (\<lambda>a. a\<lparr>ac_status := StFLAGGED\<rparr>))
         (thenM (logA (Mail (ac_email user) ''ACCOUNT_LOCKED'' None))
         (thenM (pushA env (ac_id user) ''Account Locked''
            ''Your account has been locked due to too many failed PIN attempts. Please try again in 30 minutes.'')
         (throwM (BadRequest ''Too many attempts. Account locked for 30 minutes.''))))
       else throwM (BadRequest (show_int (MAX_ATTEMPTS - attempts) @ '' attempts remaining'')))"

definition initiatePinChange :: "authEnv \<Rightarrow> string \<Rightarrow> string \<Rightarrow> int authM" where
  "initiatePinChange env userId currentPin =
     bindM (getUserById userId) (\<lambda>user.
     bindM (someM (truthy (ac_pin user)) (BadRequest ''No PIN set'')) (\<lambda>pin.
     thenM (requireM (ac_status user \<noteq> StDELETED) (Forbidden ''This account has been deleted''))
     (thenM (requireM (ac_status user \<noteq> StFLAGGED) (Forbidden ''This account is flagged. Contact support.''))
     (if \<not> ae_match env currentPin pin then wrongPinChange env user
      else bindM (issueOtp env (ac_email user) 600 None OtpPinChange) (\<lambda>(otp, timeLeft).
        thenM (logA (Mail (ac_email user) ''PIN_CHANGE_OTP'' (Some otp)))
        (thenM (pushA env (ac_id user) ''PIN Change Request'' (otp_body ''PIN change'' otp timeLeft))
        (thenM (keyDel (PIN_CHANGE_ATTEMPT_KEY userId))
        (returnM timeLeft))))))))"

definition confirmPinChange :: "authEnv \<Rightarrow> string \<Rightarrow> string \<Rightarrow> string \<Rightarrow> unit authM" where
  "confirmPinChange env userId otp newPin =
     bindM (getUserById userId) (\<lambda>user.
     thenM (otp_valid env otp (ac_email user) OtpPinChange ''Invalid OTP'')
     (thenM (updAccount userId (\<lambda>a. a\<lparr>ac_pin := Some (ae_hash env newPin)\<rparr>))
     (keyDel (PIN_CHANGE_ATTEMPT_KEY userId))))"

definition userRequestToDeleteAccount :: "authEnv \<Rightarrow> string \<Rightarrow> unit authM" where
  "userRequestToDeleteAccount env userId =
     bindM (getUserById userId) (\<lambda>user.
     thenM (logA (StatsUpdate False (ac_createdAt user) StDELETED))
     (updAccount userId (\<lambda>a. a\<lparr>ac_status := StDELETED\<rparr>)))"

section \<open>The second factor\<close>

definition initiateTwoFactor :: "authEnv \<Rightarrow> string \<Rightarrow> string \<Rightarrow> int authM" where
  "initiateTwoFactor env userId currentPin =
     bindM (getUserById userId) (\<lambda>user.
     thenM (requireM (\<not> ac_isTwoFactorEnabled user) (BadRequest ''2FA is already enabled''))
     (bindM (someM (truthy (ac_pin user)) (BadRequest ''Set PIN first before enabling 2FA'')) (\<lambda>pin.
      thenM (requireM (ae_match env currentPin pin) (BadRequest ''Invalid PIN''))
      (bindM (issueOtp env (ac_email user) 600 None OtpEnable2fa) (\<lambda>(otp, timeLeft).
       thenM (logA (Mail (ac_email user) ''ENABLE_2FA'' (Some otp)))
       (thenM (pushA env (ac_id user) ''Enable 2FA'' (otp_body ''2FA verification'' otp timeLeft))
       (returnM timeLeft)))))))"

definition verifyTwoFactor :: "authEnv \<Rightarrow> string \<Rightarrow> string \<Rightarrow> unit authM" where
  "verifyTwoFactor env userId otp =
     bindM (getUserById userId) (\<lambda>user.
     thenM (requireM (\<not> ac_isTwoFactorEnabled user) (BadRequest ''2FA is already enabled''))
     (thenM (otp_valid env otp (ac_email user) OtpEnable2fa ''Invalid or expired OTP'')
     (updAccount userId (\<lambda>a. a\<lparr>ac_isTwoFactorEnabled := True\<rparr>))))"

text \<open>bcrypt throws when there is no hash to compare with.\<close>

definition disableTwoFactor :: "authEnv \<Rightarrow> string \<Rightarrow> string \<Rightarrow> unit authM" where
  "disableTwoFactor env userId currentPin =
     bindM (getUserById userId) (\<lambda>user.
     thenM (requireM (ac_isTwoFactorEnabled user) (BadRequest ''2FA is not enabled''))
     (bindM (someM (ac_pin user) (PlainError ''data and hash arguments required'')) (\<lambda>pin.
      thenM (requireM (ae_match env currentPin pin) (BadRequest ''Invalid PIN''))
      (updAccount userId (\<lambda>a. a\<lparr>ac_isTwoFactorEnabled := False\<rparr>)))))"

section \<open>Flagging by an admin\<close>

definition flagUser :: "string \<Rightarrow> string \<Rightarrow> unit authM" where
  "flagUser userId reason =
     bindM (readA (account_by_id userId)) (\<lambda>r.
     bindM (someM r (NotFound ''User not found'')) (\<lambda>user.
     thenM (requireM (ac_status user \<noteq> StDELETED) (BadRequest ''Cannot flag a deleted user''))
     (thenM (requireM (ac_status user \<noteq> StFLAGGED) (BadRequest ''User is already flagged''))
     (updAccount userId (\<lambda>a. a\<lparr>ac_status := StFLAGGED, ac_flaggedReason := Some (trim reason)\<rparr>)))))"

definition unflagUser :: "string \<Rightarrow> unit authM" where
  "unflagUser userId =
     bindM (readA (account_by_id userId)) (\<lambda>r.
     bindM (someM r (NotFound ''User not found'')) (\<lambda>user.
     thenM (requireM (ac_status user = StFLAGGED) (BadRequest ''User is not flagged''))
     (updAccount userId (\<lambda>a. a\<lparr>ac_status := StACTIVE, ac_flaggedReason := None\<rparr>))))"

end
