(* ===== verification/Admins.thy ===== *)
theory Admins
  imports Users
begin

text \<open>
  The sessions (\<^verbatim>\<open>auth.service.ts\<close>): logout and the refresh of an access token; and the
  admins' side of authentication (\<^verbatim>\<open>admin.service.ts\<close>): login, the first super admin, the
  reset of a password by an e-mailed link.
\<close>

section \<open>Admins\<close>

definition findAdminByEmail :: "string \<Rightarrow> admin option authM" where
  "findAdminByEmail email = readA (\<lambda>d. List.find (\<lambda>a. ieq (ad_email a) email) (h_admins d))"

definition validateAdminLogin :: "authEnv \<Rightarrow> string \<Rightarrow> string \<Rightarrow> admin authM" where
  "validateAdminLogin env email password =
     bindM (findAdminByEmail email) (\<lambda>r.
     bindM (someM r (Unauthorized ''Invalid email or password'')) (\<lambda>a.
     thenM (requireM (ae_match env password (ad_password a)) (Unauthorized ''Invalid email or password''))
       (returnM a)))"

definition admin_session_row :: "authEnv \<Rightarrow> string \<Rightarrow> string \<Rightarrow> tokenRow" where
  "admin_session_row env adminId token = \<lparr>tk_token = token, tk_type = TkREFRESH, tk_userType = ADMIN,
     tk_userId = None, tk_adminId = Some adminId, tk_expiresAt = ae_now env + SESSION_MILLIS,
     tk_isRevoked = False\<rparr>"

definition validateAdmin :: "authEnv \<Rightarrow> string \<Rightarrow> string \<Rightarrow> (string \<times> string) authM" where
  "validateAdmin env email password =
     bindM (validateAdminLogin env email password) (\<lambda>a.
     let tokens = generateTokens env (admin_subject a) in
     thenM (upsertToken (\<lambda>t. tk_adminId t = Some (ad_id a) \<and> tk_type t = TkREFRESH)
         (admin_session_row env (ad_id a) (snd tokens)))
       (returnM tokens))"

definition addSuperAdmin ::
    "authEnv \<Rightarrow> string \<Rightarrow> string \<Rightarrow> string \<Rightarrow> string \<Rightarrow> string \<Rightarrow> string authM" where
  "addSuperAdmin env email password firstName lastName superAdminKey =
     thenM (requireM (ae_superAdminKey env = Some superAdminKey) (Unauthorized ''Invalid key to create Super Admin''))
     (bindM (readA (admin_by_email email)) (\<lambda>existing.
      thenM (requireM (existing = None) (Conflict ''Admin already exists''))
      (bindM (readA (\<lambda>d. List.find (\<lambda>r. ro_title r = ''MASTER'') (h_roles d))) (\<lambda>master.
       bindM (someM master (BadRequest ''MASTER role not found'')) (\<lambda>role.
       bindM (freshA env) (\<lambda>i.
       thenM (createAdmin \<lparr>ad_id = i, ad_email = email, ad_password = ae_hash env password,
           ad_firstName = firstName, ad_lastName = lastName, ad_fullName = firstName @ '' '' @ lastName,
           ad_phoneNumber = None, ad_gender = None, ad_residentialAddress = None, ad_country = None,
           ad_role = SUPER_ADMIN, ad_internalRoleId = Some (ro_id role), ad_accountStatus = AcACTIVE,
           ad_refreshToken = None\<rparr>)
         (returnM i)))))))"

definition forgotPassword :: "authEnv \<Rightarrow> string \<Rightarrow> unit authM" where
  "forgotPassword env email =
     bindM (findAdminByEmail email) (\<lambda>r. case r of
         None \<Rightarrow> returnM ()
       | Some a \<Rightarrow>
           bindM (generateResetPasswordToken env (ad_id a) ADMIN) (\<lambda>token.
             logA (ResetLink (ad_email a) (trim (ad_fullName a))
               (ae_adminUrl env @ ''/reset-password?token='' @ token))))"

definition resetPassword :: "authEnv \<Rightarrow> string \<Rightarrow> string \<Rightarrow> unit authM" where
  "resetPassword env token newPassword =
     bindM (verifyPasswordResetToken env token) (\<lambda>(i, _, _).
     bindM (someM (truthy i) (BadRequest ''Invalid or expired reset token'')) (\<lambda>adminId.
     bindM (readA (admin_by_id adminId)) (\<lambda>r.
     bindM (someM r (BadRequest ''Invalid or expired reset token'')) (\<lambda>a.
     thenM (requireM (ad_accountStatus a = AcACTIVE) (BadRequest ''Cannot reset password. Account is not active.''))
     (thenM (updAdmin adminId (\<lambda>a. a\<lparr>ad_password := ae_hash env newPassword\<rparr>))
     (revokePasswordResetToken token))))))"

section \<open>Sessions\<close>

definition logout :: "authEnv \<Rightarrow> string \<Rightarrow> unit authM" where
  "logout env refreshToken =
     bindM (verifyRefreshToken env refreshToken) (\<lambda>user.
     thenM (if jp_userType user = Some ADMIN
            then updAdmin (jp_id user) (\<lambda>a. a\<lparr>ad_refreshToken := None\<rparr>)
            else updAccount (jp_id user) (\<lambda>a. a\<lparr>ac_refreshToken := None\<rparr>))
     (revokeToken refreshToken))"

definition refreshAccessToken :: "authEnv \<Rightarrow> string \<Rightarrow> string authM" where
  "refreshAccessToken env refreshToken =
     bindM (verifyRefreshToken env refreshToken) (\<lambda>decoded.
     thenM (requireM (jp_type decoded = Some TkREFRESH) (Unauthorized ''Invalid token type''))
     (bindM (readA (refresh_row refreshToken)) (\<lambda>r.
      bindM (someM r (Unauthorized ''Refresh token revoked or invalid'')) (\<lambda>stored.
      thenM (requireM (ae_now env \<le> tk_expiresAt stored) (Unauthorized ''Refresh token expired''))
      (if jp_userType decoded = Some ADMIN then
         bindM (readA (admin_by_id (jp_id decoded))) (\<lambda>a.
         bindM (someM a (Unauthorized ''Admin not found'')) (\<lambda>a.
           returnM (generateAccessToken env (admin_subject a))))
       else
         bindM (readA (account_by_id (jp_id decoded))) (\<lambda>u.
         bindM (someM u (Unauthorized ''User not found'')) (\<lambda>u.
           returnM (generateAccessToken env (user_subject (ac_id u) (ac_userType u))))))))))"

section \<open>Sessions: lemmas\<close>

text \<open>What a verified refresh token says, and what it was checked against.\<close>

lemma verifyRefreshToken_run:
  "verifyRefreshToken env t s = (Inr p, s') \<longleftrightarrow>
     s' = s \<and> (\<exists>decoded row. ae_verify env RefreshSecret t = Some decoded \<and> jp_type decoded = Some TkREFRESH
       \<and> refresh_row t (as_db s) = Some row
       \<and> (if jp_userType decoded = Some ADMIN
          then \<exists>a. admin_by_id (case truthy (tk_adminId row) of Some i \<Rightarrow> i | None \<Rightarrow> jp_id decoded) (as_db s) = Some a
                 \<and> p = identity (ad_id a) ADMIN
          else \<exists>u. token_user row (as_db s) = Some u \<and> p = identity (ac_id u) (ac_userType u)))"
  by (cases "ae_verify env RefreshSecret t"; cases "refresh_row t (as_db s)")
    (simp_all add: verifyRefreshToken_def run_simps token_user_def, blast)

lemma identity_type [simp]: "jp_type (identity i ty) = None"
  by (simp add: identity_def)

lemma verifyRefreshToken_type: "verifyRefreshToken env t s = (Inr p, s') \<Longrightarrow> jp_type p = None"
  by (auto simp: verifyRefreshToken_run split: if_splits)

lemma refresh_row_live: "refresh_row t d = Some r \<Longrightarrow> r \<in> set (h_tokens d) \<and> tk_token r = t \<and> \<not> tk_isRevoked r"
  unfolding refresh_row_def by (drule find_Some_in) simp

lemma find_map_None: "(\<And>x. \<not> p (f x)) \<Longrightarrow> List.find p (map f xs) = None"
  by (induction xs) simp_all

lemma refresh_row_revoked:
  "refresh_row t (d\<lparr>h_tokens := update_where (\<lambda>x. tk_token x = t) (\<lambda>x. x\<lparr>tk_isRevoked := True\<rparr>) (h_tokens d)\<rparr>) = None"
  unfolding refresh_row_def update_where_def by simp (rule find_map_None, simp)

lemma find_id_Some: "List.find (\<lambda>a. f a = i) xs = Some a \<Longrightarrow> f a = i"
  by (drule find_Some_in) simp

lemma admin_by_id_id: "admin_by_id i d = Some a \<Longrightarrow> ad_id a = i"
  unfolding admin_by_id_def by (rule find_id_Some)

lemma account_by_id_id: "account_by_id i d = Some a \<Longrightarrow> ac_id a = i"
  unfolding account_by_id_def by (rule find_id_Some)

text \<open>The refresh of an access token never succeeds: what it checks the type of has none.\<close>

lemma refreshAccess_run: "\<not> refreshAccessToken env t s = (Inr x, s')"
  using verifyRefreshToken_type [of env t s] by (fastforce simp: refreshAccessToken_def run_bind run_then run_require)

lemma revokeToken_run:
  "revokeToken t s = (Inr u, s') \<longleftrightarrow> token_row t (as_db s) \<noteq> None
     \<and> s' = onDb (\<lambda>d. d\<lparr>h_tokens := update_where (\<lambda>x. tk_token x = t) (\<lambda>x. x\<lparr>tk_isRevoked := True\<rparr>) (h_tokens d)\<rparr>) s"
  by (auto simp: revokeToken_def updToken_def run_simps)

text \<open>After a logout the refresh token is refused.\<close>

lemma logout_run: "logout env t s = (Inr u, s') \<Longrightarrow> refresh_row t (as_db s') = None"
  by (auto simp: logout_def run_bind run_then revokeToken_run onDb_def refresh_row_revoked)

section \<open>Password resets: lemmas\<close>

lemma verifyToken_run:
  "verifyToken env token TkPASSWORD_RESET s = (Inr t, s') \<longleftrightarrow> s' = s
     \<and> (\<exists>payload. ae_verify env ResetSecret token = Some payload \<and> jp_type payload = Some TkPASSWORD_RESET)
     \<and> token_row token (as_db s) = Some t \<and> ae_now env \<le> tk_expiresAt t"
  by (cases "ae_verify env ResetSecret token"; cases "token_row token (as_db s)")
    (auto simp: verifyToken_def getSecretForTokenType_def run_simps)

text \<open>The admin whose password a link of the token sets.\<close>

definition reset_target :: "tokenRow \<Rightarrow> authDb \<Rightarrow> string option" where
  "reset_target t d = (case token_admin t d of
      Some a \<Rightarrow> truthy (Some (ad_id a)) | None \<Rightarrow> truthy (map_option ac_id (token_user t d)))"

lemma verifyPasswordResetToken_run:
  "verifyPasswordResetToken env token s = (Inr r, s') \<Longrightarrow>
     \<exists>t. verifyToken env token TkPASSWORD_RESET s = (Inr t, s') \<and> truthy (fst r) = reset_target t (as_db s)"
  by (fastforce simp: verifyPasswordResetToken_def run_simps reset_target_def verifyToken_run split: option.splits)

lemma verifyPasswordResetToken_ok:
  "verifyToken env token TkPASSWORD_RESET s = (Inr t, s) \<Longrightarrow>
     \<exists>r. verifyPasswordResetToken env token s = (Inr r, s) \<and> truthy (fst r) = reset_target t (as_db s)"
  by (fastforce simp: verifyPasswordResetToken_def bindM_def readA_def getM_def returnM_def reset_target_def
      split: option.splits)

lemma updAdmin_run:
  "updAdmin i f s = (Inr u, s') \<longleftrightarrow> admin_by_id i (as_db s) \<noteq> None
     \<and> s' = onDb (\<lambda>d. d\<lparr>h_admins := update_where (\<lambda>a. ad_id a = i) f (h_admins d)\<rparr>) s"
  by (auto simp: updAdmin_def run_simps)

definition password_set :: "string \<Rightarrow> string \<Rightarrow> string \<Rightarrow> authDb \<Rightarrow> authDb" where
  "password_set i hashed token d = d\<lparr>
     h_admins := update_where (\<lambda>a. ad_id a = i) (\<lambda>a. a\<lparr>ad_password := hashed\<rparr>) (h_admins d),
     h_tokens := update_where (\<lambda>x. tk_token x = token) (\<lambda>x. x\<lparr>tk_isRevoked := True\<rparr>) (h_tokens d)\<rparr>"

lemma resetPassword_run:
  assumes "resetPassword env token pw s = (Inr u, s')"
  shows "\<exists>t i a. verifyToken env token TkPASSWORD_RESET s = (Inr t, s) \<and> reset_target t (as_db s) = Some i
       \<and> admin_by_id i (as_db s) = Some a \<and> ad_accountStatus a = AcACTIVE
       \<and> s' = onDb (password_set i (ae_hash env pw) token) s"
proof -
  obtain r s1 i a where r: "verifyPasswordResetToken env token s = (Inr r, s1)" "truthy (fst r) = Some i"
    and a: "admin_by_id i (as_db s1) = Some a" "ad_accountStatus a = AcACTIVE"
    and s': "s' = onDb (password_set i (ae_hash env pw) token) s1"
    using assms by (auto simp: resetPassword_def run_simps updAdmin_run revokePasswordResetToken_def updToken_def
        onDb_def password_set_def)
  obtain t where t: "verifyToken env token TkPASSWORD_RESET s = (Inr t, s1)" "reset_target t (as_db s) = Some i"
    using verifyPasswordResetToken_run [OF r(1)] r(2) by auto
  then have "s1 = s" by (simp add: verifyToken_run)
  then show ?thesis using t a s' by blast
qed

lemma resetPassword_ok:
  assumes "verifyToken env token TkPASSWORD_RESET s = (Inr t, s)" and "reset_target t (as_db s) = Some i"
    and "admin_by_id i (as_db s) = Some a" and "ad_accountStatus a = AcACTIVE"
  shows "resetPassword env token pw s = (Inr (), onDb (password_set i (ae_hash env pw) token) s)"
proof -
  obtain r where "verifyPasswordResetToken env token s = (Inr r, s)" "truthy (fst r) = Some i"
    using verifyPasswordResetToken_ok [OF assms(1)] assms(2) by auto
  then show ?thesis using assms
    by (cases r) (auto simp: resetPassword_def run_simps updAdmin_run revokePasswordResetToken_def updToken_def onDb_def
      password_set_def verifyToken_run token_row_def)
qed

end
