(* ===== verification/Roles.thy ===== *)
theory Roles
  imports Admins
begin

text \<open>
  Internal roles: their management and that of the internal admins
  (\<^verbatim>\<open>internal-user.service.ts\<close>), the two Redis caches the guard reads
  (\<^verbatim>\<open>roleCache.service.ts\<close>, \<^verbatim>\<open>adminRoleCache.service.ts\<close>) and the guard itself
  (\<^verbatim>\<open>admin.role.guard.ts\<close>).

  The cache of a role is refreshed inside the transaction that changes the role, but through
  the client outside of it: as PostgreSQL isolates transactions, it reads the rows as they
  were committed before. \<open>refreshRoleCacheFrom\<close> has the database it reads as an argument.
\<close>

section \<open>The caches\<close>

definition ROLE_KEY :: "string \<Rightarrow> string" where
  "ROLE_KEY roleId = ''internalRole:'' @ roleId"

definition ADMIN_ROLE_KEY :: "string \<Rightarrow> string" where
  "ADMIN_ROLE_KEY adminId = ''admin:internalRoleId:'' @ adminId"

definition role_by_id :: "string \<Rightarrow> authDb \<Rightarrow> role option" where
  "role_by_id i d = List.find (\<lambda>r. ro_id r = i) (h_roles d)"

definition role_by_title :: "string \<Rightarrow> authDb \<Rightarrow> role option" where
  "role_by_title t d = List.find (\<lambda>r. ro_title r = t) (h_roles d)"

definition cached_of :: "role \<Rightarrow> cachedRole" where
  "cached_of r = \<lparr>cr_id = ro_id r, cr_title = ro_title r, cr_permissions = ro_permissions r, cr_isActive = ro_isActive r\<rparr>"

definition getRoleById :: "authEnv \<Rightarrow> string \<Rightarrow> cachedRole option authM" where
  "getRoleById env roleId =
     bindM (keyGet env (ROLE_KEY roleId)) (\<lambda>v. case v of
         Some (KRole c) \<Rightarrow> returnM (Some c)
       | _ \<Rightarrow> bindM (readA (role_by_id roleId)) (\<lambda>r. case r of
             None \<Rightarrow> returnM None
           | Some x \<Rightarrow> thenM (keySet env (ROLE_KEY roleId) (KRole (cached_of x)) None)
               (returnM (Some (cached_of x)))))"

definition refreshRoleCacheFrom :: "authEnv \<Rightarrow> authDb \<Rightarrow> string \<Rightarrow> unit authM" where
  "refreshRoleCacheFrom env d roleId = (case role_by_id roleId d of
      None \<Rightarrow> keyDel (ROLE_KEY roleId)
    | Some r \<Rightarrow> keySet env (ROLE_KEY roleId) (KRole (cached_of r)) None)"

definition refreshRoleCache :: "authEnv \<Rightarrow> string \<Rightarrow> unit authM" where
  "refreshRoleCache env roleId = bindM (readA (\<lambda>d. d)) (\<lambda>d. refreshRoleCacheFrom env d roleId)"

definition refreshAllRolesCache :: "authEnv \<Rightarrow> unit authM" where
  "refreshAllRolesCache env = bindM (readA h_roles) (\<lambda>roles.
     forM roles (\<lambda>r. keySet env (ROLE_KEY (ro_id r)) (KRole (cached_of r)) None))"

definition deleteRoleCache :: "string \<Rightarrow> unit authM" where
  "deleteRoleCache roleId = keyDel (ROLE_KEY roleId)"

definition getPermissions :: "authEnv \<Rightarrow> string \<Rightarrow> string list authM" where
  "getPermissions env roleId = bindM (getRoleById env roleId) (\<lambda>r.
     returnM (case r of None \<Rightarrow> [] | Some c \<Rightarrow> cr_permissions c))"

definition isRoleActive :: "authEnv \<Rightarrow> string \<Rightarrow> bool authM" where
  "isRoleActive env roleId = bindM (getRoleById env roleId) (\<lambda>r.
     returnM (case r of None \<Rightarrow> False | Some c \<Rightarrow> cr_isActive c))"

definition cacheAdminRole :: "authEnv \<Rightarrow> string \<Rightarrow> string option \<Rightarrow> unit authM" where
  "cacheAdminRole env adminId internalRoleId = (case truthy internalRoleId of
      None \<Rightarrow> returnM ()
    | Some r \<Rightarrow> keySet env (ADMIN_ROLE_KEY adminId) (KText r) None)"

definition getAdminInternalRoleId :: "authEnv \<Rightarrow> string \<Rightarrow> string authM" where
  "getAdminInternalRoleId env adminId =
     bindM (keyGet env (ADMIN_ROLE_KEY adminId)) (\<lambda>v. case v of
         Some (KText r) \<Rightarrow> returnM r
       | _ \<Rightarrow> bindM (readA (admin_by_id adminId)) (\<lambda>a.
           bindM (someM (case a of None \<Rightarrow> None | Some x \<Rightarrow> truthy (ad_internalRoleId x))
             (PlainError (''Admin '' @ adminId @ '' has no valid internalRoleId''))) (\<lambda>r.
           thenM (cacheAdminRole env adminId (Some r)) (returnM r))))"

definition cacheAllAdminRoles :: "authEnv \<Rightarrow> unit authM" where
  "cacheAllAdminRoles env = bindM (readA h_admins) (\<lambda>admins.
     forM admins (\<lambda>a. cacheAdminRole env (ad_id a) (ad_internalRoleId a)))"

definition onAdminRoleUpdated :: "authEnv \<Rightarrow> string \<Rightarrow> string option \<Rightarrow> unit authM" where
  "onAdminRoleUpdated env adminId newInternalRoleId = cacheAdminRole env adminId newInternalRoleId"

definition onAdminCreated :: "authEnv \<Rightarrow> string \<Rightarrow> string option \<Rightarrow> unit authM" where
  "onAdminCreated env adminId internalRoleId = cacheAdminRole env adminId internalRoleId"

definition onAdminDeleted :: "string \<Rightarrow> unit authM" where
  "onAdminDeleted adminId = keyDel (ADMIN_ROLE_KEY adminId)"

text \<open>What the daily scheduler (\<^verbatim>\<open>admin-dashboard.scheduler.ts\<close>) does with the caches, and the start of the server.\<close>

definition refreshCaches :: "authEnv \<Rightarrow> unit authM" where
  "refreshCaches env = thenM (cacheAllAdminRoles env) (refreshAllRolesCache env)"

section \<open>The guard\<close>

definition USER_NOT_AUTHORIZED :: string where "USER_NOT_AUTHORIZED = ''Unathourized user''"
definition ACCESS_DENIED :: string where "ACCESS_DENIED = ''Access denied''"
definition ROLE_CHANGED :: string where "ROLE_CHANGED = ''Access denied. Role changed''"

definition role_permits :: "authEnv \<Rightarrow> string \<Rightarrow> string list \<Rightarrow> unit authM" where
  "role_permits env roleId required =
     bindM (getRoleById env roleId) (\<lambda>r.
     bindM (someM (case r of None \<Rightarrow> None | Some c \<Rightarrow> if cr_isActive c then Some c else None) (Forbidden ''Inactive role'')) (\<lambda>c.
     thenM (requireM (cr_permissions c \<noteq> []) (Forbidden USER_NOT_AUTHORIZED))
     (requireM (list_all (\<lambda>p. p \<in> set (cr_permissions c)) required) (Forbidden USER_NOT_AUTHORIZED))))"

definition rolesGuard :: "authEnv \<Rightarrow> bool \<Rightarrow> string list \<Rightarrow> jwtPayload option \<Rightarrow> unit authM" where
  "rolesGuard env superAdminRequired required request =
     bindM (someM (case request of None \<Rightarrow> None | Some u \<Rightarrow> if jp_userType u = Some ADMIN then Some u else None)
       (Forbidden USER_NOT_AUTHORIZED)) (\<lambda>user.
     thenM (requireM (jp_accountStatus user = Some AcACTIVE) (Forbidden ACCESS_DENIED))
     (thenM (requireM (\<not> superAdminRequired \<or> jp_role user = Some SUPER_ADMIN) (Forbidden USER_NOT_AUTHORIZED))
     (if jp_role user = Some SUPER_ADMIN then returnM ()
      else bindM (getAdminInternalRoleId env (jp_id user)) (\<lambda>cachedRoleId.
        bindM (someM (truthy (jp_internalRoleId user)) (Forbidden ''Role assignment mismatch detected'')) (\<lambda>roleId.
        thenM (requireM (cachedRoleId = roleId) (Forbidden ROLE_CHANGED))
        (if required = [] then returnM () else role_permits env roleId required))))))"

section \<open>Roles\<close>

definition requireSuperAdmin :: "string \<Rightarrow> unit authM" where
  "requireSuperAdmin adminId = bindM (readA (admin_by_id adminId)) (\<lambda>a.
     requireM (case a of None \<Rightarrow> False | Some x \<Rightarrow> ad_role x = SUPER_ADMIN) (Forbidden USER_NOT_AUTHORIZE))"

record roleDto =
  rd_title :: "string option"
  rd_description :: "string option"
  rd_isActive :: "bool option"
  rd_permissions :: "string list option"

text \<open>\<^verbatim>\<open>findMany({ id: { in: ids } })\<close>, and the comparison of its length.\<close>

definition validPermissions :: "string list \<Rightarrow> string list authM" where
  "validPermissions ids = bindM (readA (\<lambda>d. filter (\<lambda>p. p \<in> set ids) (h_permissions d))) (\<lambda>found.
     thenM (requireM (length found = length ids) (BadRequest ''One or more permission IDs are invalid'')) (returnM found))"

definition createRole :: "authEnv \<Rightarrow> string \<Rightarrow> string \<Rightarrow> string option \<Rightarrow> string list \<Rightarrow> role authM" where
  "createRole env superAdminId title description permissions =
     thenM (requireSuperAdmin superAdminId)
     (bindM (readA (\<lambda>d. d)) (\<lambda>committed. authTx env ''create-role''
       (bindM (readA (role_by_title title)) (\<lambda>existing.
        thenM (requireM (existing = None) (Conflict (''Role \"'' @ title @ ''\" already exists'')))
        (bindM (if permissions = [] then returnM [] else validPermissions permissions) (\<lambda>found.
         bindM (freshA env) (\<lambda>i.
         let role = \<lparr>ro_id = i, ro_title = trim title, ro_description = truthy (map_option trim description),
           ro_isActive = True, ro_permissions = found\<rparr> in
         bindM (readA (role_by_title (trim title))) (\<lambda>taken.
         thenM (requireM (taken = None) (PrismaError ''P2002''))
         (thenM (modifyM (onDb (\<lambda>d. d\<lparr>h_roles := h_roles d @ [role]\<rparr>)))
         (thenM (refreshRoleCacheFrom env committed i)
         (returnM role)))))))))))"

definition updRole :: "string \<Rightarrow> (role \<Rightarrow> role) \<Rightarrow> unit authM" where
  "updRole i f = modifyM (onDb (\<lambda>d. d\<lparr>h_roles := update_where (\<lambda>r. ro_id r = i) f (h_roles d)\<rparr>))"

definition admins_of_role :: "string \<Rightarrow> authDb \<Rightarrow> admin list" where
  "admins_of_role i d = filter (\<lambda>a. ad_internalRoleId a = Some i) (h_admins d)"

text \<open>The new title, if it is one; \<open>None\<close> leaves the title.\<close>

definition newTitle :: "role \<Rightarrow> string option \<Rightarrow> string option authM" where
  "newTitle role title = (case title of
      None \<Rightarrow> returnM None
    | Some t \<Rightarrow>
        (if trim t = ro_title role then returnM None
         else bindM (readA (role_by_title (trim t))) (\<lambda>existing.
           thenM (requireM (existing = None) (Conflict (''Role title \"'' @ trim t @ ''\" already exists'')))
             (returnM (Some (trim t))))))"

definition role_update :: "string option \<Rightarrow> string option \<Rightarrow> bool option \<Rightarrow> string list option \<Rightarrow> role \<Rightarrow> role" where
  "role_update title description active permissions r = r\<lparr>
     ro_title := (case title of None \<Rightarrow> ro_title r | Some t \<Rightarrow> t),
     ro_description := (case description of None \<Rightarrow> ro_description r | Some x \<Rightarrow> Some (trim x)),
     ro_isActive := (case active of None \<Rightarrow> ro_isActive r | Some b \<Rightarrow> b),
     ro_permissions := (case permissions of None \<Rightarrow> ro_permissions r | Some ps \<Rightarrow> ps)\<rparr>"

definition updateRole :: "authEnv \<Rightarrow> string \<Rightarrow> string \<Rightarrow> roleDto \<Rightarrow> string authM" where
  "updateRole env superAdminId roleId dto =
     thenM (requireSuperAdmin superAdminId)
     (bindM (readA (\<lambda>d. d)) (\<lambda>committed. authTx env ''update-role''
       (bindM (readA (role_by_id roleId)) (\<lambda>r.
        bindM (someM r (NotFound ''Role not found'')) (\<lambda>role.
        thenM (requireM (ro_title role \<noteq> ''MASTER'') (Forbidden ACCESS_DENIED))
        (bindM (newTitle role (rd_title dto)) (\<lambda>title.
         bindM (readA (admins_of_role roleId)) (\<lambda>admins.
         thenM (requireM (rd_isActive dto \<noteq> Some False \<or> admins = [])
           (BadRequest ''Cannot deactivate role assigned to admins''))
         (bindM (case rd_permissions dto of None \<Rightarrow> returnM None
                 | Some ids \<Rightarrow> bindM (validPermissions ids) (\<lambda>found. returnM (Some found))) (\<lambda>permissions.
          if title = None \<and> rd_description dto = None \<and> rd_isActive dto = None \<and> permissions = None
          then returnM ''No changes made''
          else
            thenM (updRole roleId (role_update title (rd_description dto) (rd_isActive dto) permissions))
            (thenM (refreshRoleCacheFrom env committed roleId)
            (returnM ''Role updated successfully''))))))))))))"

definition deleteRole :: "authEnv \<Rightarrow> string \<Rightarrow> string \<Rightarrow> unit authM" where
  "deleteRole env superAdminId roleId =
     thenM (requireSuperAdmin superAdminId)
     (bindM (readA (role_by_id roleId)) (\<lambda>r.
      bindM (someM r (NotFound ''Role not found'')) (\<lambda>role.
      thenM (requireM (ro_title role \<noteq> ''MASTER'') (Forbidden ''Cannot delete the MASTER role''))
      (bindM (readA (admins_of_role roleId)) (\<lambda>admins.
       thenM (requireM (admins = []) (BadRequest ''Cannot delete role assigned to admins''))
       (thenM (modifyM (onDb (\<lambda>d. d\<lparr>h_roles := filter (\<lambda>x. ro_id x \<noteq> roleId) (h_roles d)\<rparr>)))
       (refreshRoleCache env roleId)))))))"

section \<open>Internal admins\<close>

text \<open>\<^verbatim>\<open>const [firstName, ...rest] = fullName.trim().split(' ')\<close>, with the defaults.\<close>

definition split_name :: "string \<Rightarrow> string \<times> string" where
  "split_name fullName =
     (let t = trim fullName; f = takeWhile (\<lambda>c. c \<noteq> CHR '' '') t; rest = drop (Suc (length f)) t
      in (if f = [] then ''Admin'' else f, if rest = [] then ''User'' else rest))"

text \<open>A role can be given when the cache has it, active and not the master role.\<close>

definition assignableRole :: "authEnv \<Rightarrow> string \<Rightarrow> error \<Rightarrow> unit authM" where
  "assignableRole env roleId missing =
     bindM (getRoleById env roleId) (\<lambda>r.
     bindM (someM r missing) (\<lambda>c.
     thenM (requireM (cr_isActive c) (BadRequest (''Role \"'' @ cr_title c @ ''\" is inactive and cannot be assigned'')))
     (requireM (cr_title c \<noteq> ''MASTER'') (Forbidden ''Role access denied''))))"

record internalUserDto =
  iu_fullName :: string
  iu_email :: string
  iu_password :: string
  iu_phoneNumber :: "string option"
  iu_gender :: "string option"
  iu_residentialAddress :: "string option"
  iu_country :: "string option"
  iu_internalRoleId :: "string option"

definition createInternalUser :: "authEnv \<Rightarrow> string \<Rightarrow> internalUserDto \<Rightarrow> string authM" where
  "createInternalUser env superAdminId dto =
     thenM (requireSuperAdmin superAdminId)
     (thenM (case truthy (iu_internalRoleId dto) of
         None \<Rightarrow> returnM ()
       | Some r \<Rightarrow> assignableRole env r (BadRequest ''Internal role does not exist''))
     (bindM (readA (admin_by_email (iu_email dto))) (\<lambda>existing.
      thenM (requireM (existing = None) (BadRequest ''Email already in use''))
      (bindM (freshA env) (\<lambda>i.
       thenM (createAdmin \<lparr>ad_id = i, ad_email = iu_email dto, ad_password = ae_hash env (iu_password dto),
          ad_firstName = fst (split_name (iu_fullName dto)), ad_lastName = snd (split_name (iu_fullName dto)),
          ad_fullName = trim (iu_fullName dto), ad_phoneNumber = truthy (iu_phoneNumber dto),
          ad_gender = truthy (iu_gender dto), ad_residentialAddress = truthy (iu_residentialAddress dto),
          ad_country = truthy (iu_country dto), ad_role = PLAIN_ADMIN,
          ad_internalRoleId = truthy (iu_internalRoleId dto), ad_accountStatus = AcACTIVE, ad_refreshToken = None\<rparr>)
       (thenM (onAdminCreated env i (truthy (iu_internalRoleId dto)))
       (returnM i)))))))"

text \<open>\<^verbatim>\<open>null\<close> as a role is \<open>Some None\<close>, a field that is left out \<open>None\<close>.\<close>

record updateUserDto =
  uu_fullName :: "string option"
  uu_email :: "string option"
  uu_phoneNumber :: "string option"
  uu_gender :: "string option"
  uu_residentialAddress :: "string option"
  uu_country :: "string option"
  uu_internalRoleId :: "string option option"
  uu_accountStatus :: "accountStatus option"

definition no_user_changes :: "updateUserDto \<Rightarrow> bool" where
  "no_user_changes dto \<longleftrightarrow> uu_fullName dto = None \<and> uu_email dto = None \<and> uu_phoneNumber dto = None
     \<and> uu_gender dto = None \<and> uu_residentialAddress dto = None \<and> uu_country dto = None
     \<and> uu_internalRoleId dto = None \<and> uu_accountStatus dto = None"

definition admin_update :: "updateUserDto \<Rightarrow> admin \<Rightarrow> admin" where
  "admin_update dto a = a\<lparr>
     ad_firstName := (case uu_fullName dto of None \<Rightarrow> ad_firstName a | Some n \<Rightarrow> fst (split_name n)),
     ad_lastName := (case uu_fullName dto of None \<Rightarrow> ad_lastName a | Some n \<Rightarrow> snd (split_name n)),
     ad_fullName := (case uu_fullName dto of None \<Rightarrow> ad_fullName a | Some n \<Rightarrow> trim n),
     ad_email := (case uu_email dto of None \<Rightarrow> ad_email a | Some m \<Rightarrow> m),
     ad_phoneNumber := (case uu_phoneNumber dto of None \<Rightarrow> ad_phoneNumber a | Some p \<Rightarrow> truthy (Some p)),
     ad_gender := (case uu_gender dto of None \<Rightarrow> ad_gender a | Some g \<Rightarrow> truthy (Some g)),
     ad_residentialAddress := (case uu_residentialAddress dto of None \<Rightarrow> ad_residentialAddress a | Some r \<Rightarrow> truthy (Some r)),
     ad_country := (case uu_country dto of None \<Rightarrow> ad_country a | Some c \<Rightarrow> truthy (Some c)),
     ad_internalRoleId := (case uu_internalRoleId dto of None \<Rightarrow> ad_internalRoleId a | Some r \<Rightarrow> r),
     ad_accountStatus := (case uu_accountStatus dto of None \<Rightarrow> ad_accountStatus a | Some st \<Rightarrow> st)\<rparr>"

datatype updateResult = AlreadyStatus accountStatus | NoChanges | UserUpdated

definition updateInternalUser :: "authEnv \<Rightarrow> string \<Rightarrow> string \<Rightarrow> updateUserDto \<Rightarrow> updateResult authM" where
  "updateInternalUser env superAdminId adminId dto =
     thenM (requireSuperAdmin superAdminId)
     (bindM (readA (admin_by_id adminId)) (\<lambda>r.
      bindM (someM r (NotFound ''Admin not found'')) (\<lambda>target.
      thenM (requireM (ad_role target \<noteq> SUPER_ADMIN) (Forbidden ''Cannot modify Super Admin''))
      (thenM (case uu_email dto of
          None \<Rightarrow> returnM ()
        | Some m \<Rightarrow> whenM (m \<noteq> ad_email target) (bindM (readA (admin_by_email m)) (\<lambda>existing.
            requireM (existing = None) (BadRequest ''Email already in use''))))
      (thenM (case uu_internalRoleId dto of
          Some (Some i) \<Rightarrow> assignableRole env i
            (BadRequest (''Internal role with ID \"'' @ i @ ''\" does not exist''))
        | _ \<Rightarrow> returnM ())
      (if uu_accountStatus dto = Some (ad_accountStatus target) then returnM (AlreadyStatus (ad_accountStatus target))
       else if no_user_changes dto then returnM NoChanges
       else
         thenM (updAdmin adminId (admin_update dto))
         (thenM (whenM (uu_accountStatus dto = Some AcDEACTIVATED) (onAdminRoleUpdated env adminId None))
         (thenM (case uu_internalRoleId dto of None \<Rightarrow> returnM () | Some i \<Rightarrow> onAdminRoleUpdated env adminId i)
         (returnM UserUpdated)))))))))"

definition revokeAllInternalAccess :: "authEnv \<Rightarrow> string \<Rightarrow> string \<Rightarrow> bool authM" where
  "revokeAllInternalAccess env superAdminId targetAdminId =
     thenM (requireSuperAdmin superAdminId)
     (bindM (readA (admin_by_id targetAdminId)) (\<lambda>r.
      bindM (someM r (NotFound ''Admin not found'')) (\<lambda>target.
      thenM (requireM (ad_role target \<noteq> SUPER_ADMIN) (Forbidden ''Cannot revoke access from Super Admin''))
      (if truthy (ad_internalRoleId target) = None then returnM False
       else
         thenM (updAdmin targetAdminId (\<lambda>a. a\<lparr>ad_internalRoleId := None\<rparr>))
         (thenM (onAdminRoleUpdated env targetAdminId None)
         (returnM True))))))"

end
