(* ===== verification/AuthSteps.thy ===== *)
theory AuthSteps
  imports Admins
begin

text \<open>
  Authentication as one machine: the requests as actions, and the interface between an
  invariant of its state and the operations (\<open>auth_invariant\<close>): what a property has to
  respect of the statements is assumed there once, and that every operation keeps it is
  proved once.
\<close>

section \<open>The machine\<close>

datatype authAction =
    Signup string
  | ResendOnboarding string string
  | Resend string
  | VerifyCode string string
  | CompleteSignup string profile
  | SetPin string string deviceDto
  | ForgotPin string
  | ResetPin string string string
  | Login loginDto
  | LoginTwoFactor string string deviceDto
  | InitiatePinChange string string
  | ConfirmPinChange string string string
  | DeleteAccount string
  | InitiateTwoFactor string string
  | VerifyTwoFactor string string
  | DisableTwoFactor string string
  | Flag string string
  | Unflag string
  | AdminLogin string string
  | AddSuperAdmin string string string string string
  | ForgotPassword string
  | ResetPassword string string
  | Logout string
  | RefreshAccess string

definition perform :: "authEnv \<Rightarrow> authAction \<Rightarrow> authSys \<Rightarrow> authSys" where
  "perform env x s = (case x of
      Signup email \<Rightarrow> snd (initiateClientSignUp env email s)
    | ResendOnboarding email captcha \<Rightarrow> snd (resendOnboardingOtp env email captcha s)
    | Resend email \<Rightarrow> snd (resendOtp env email s)
    | VerifyCode email otp \<Rightarrow> snd (verifyCode env email otp s)
    | CompleteSignup i dto \<Rightarrow> snd (completeClientSignUp env i dto s)
    | SetPin i pin dv \<Rightarrow> snd (setUserPin env i pin dv s)
    | ForgotPin email \<Rightarrow> snd (forgotPin env email s)
    | ResetPin email token pin \<Rightarrow> snd (resetPin env email token pin s)
    | Login dto \<Rightarrow> snd (validateUser env dto s)
    | LoginTwoFactor email otp dv \<Rightarrow> snd (verifyLoginTwoFactor env email otp dv s)
    | InitiatePinChange i pin \<Rightarrow> snd (initiatePinChange env i pin s)
    | ConfirmPinChange i otp pin \<Rightarrow> snd (confirmPinChange env i otp pin s)
    | DeleteAccount i \<Rightarrow> snd (userRequestToDeleteAccount env i s)
    | InitiateTwoFactor i pin \<Rightarrow> snd (initiateTwoFactor env i pin s)
    | VerifyTwoFactor i otp \<Rightarrow> snd (verifyTwoFactor env i otp s)
    | DisableTwoFactor i pin \<Rightarrow> snd (disableTwoFactor env i pin s)
    | Flag i reason \<Rightarrow> snd (flagUser i reason s)
    | Unflag i \<Rightarrow> snd (unflagUser i s)
    | AdminLogin email password \<Rightarrow> snd (validateAdmin env email password s)
    | AddSuperAdmin email password first final key \<Rightarrow> snd (addSuperAdmin env email password first final key s)
    | ForgotPassword email \<Rightarrow> snd (forgotPassword env email s)
    | ResetPassword token password \<Rightarrow> snd (resetPassword env token password s)
    | Logout token \<Rightarrow> snd (logout env token s)
    | RefreshAccess token \<Rightarrow> snd (refreshAccessToken env token s))"

fun run_auth :: "(authEnv \<times> authAction) list \<Rightarrow> authSys \<Rightarrow> authSys" where
  "run_auth [] s = s"
| "run_auth ((env, x) # xs) s = run_auth xs (perform env x s)"

text \<open>Prisma's generator gives a new id for every row.\<close>

definition ids_from :: "(nat \<Rightarrow> string) \<Rightarrow> (authEnv \<times> authAction) list \<Rightarrow> bool" where
  "ids_from cuid xs \<longleftrightarrow> inj cuid \<and> list_all (\<lambda>(env, _). ae_cuid env = cuid) xs"

definition no_accounts :: authSys where
  "no_accounts = \<lparr>as_db = \<lparr>h_accounts = [], h_admins = [], h_tokens = [], h_roles = [], h_permissions = [],
     h_generals = [], h_devices = [], h_percentages = [], h_seq = 0\<rparr>, as_temp = Map.empty, as_log = []\<rparr>"

section \<open>E-mail addresses and keys\<close>

lemma is_space_lower [simp]: "is_space (lower_char c) = is_space c"
proof (cases "(65::nat) \<le> of_char c \<and> of_char c \<le> (90::nat)")
  case True
  then have "(of_char c + 32) mod 256 = (of_char c + 32 :: nat)" by simp
  with True show ?thesis by (simp add: lower_char_def is_space_def)
next
  case False
  then show ?thesis by (auto simp add: lower_char_def)
qed

lemma dropWhile_lower: "dropWhile is_space (map lower_char s) = map lower_char (dropWhile is_space s)"
  by (induction s) simp_all

lemma trim_lower: "trim (to_lower s) = to_lower (trim s)"
  by (simp add: trim_def to_lower_def rev_map dropWhile_lower)

lemma dropWhile_rev_dropWhile:
  "dropWhile p (rev (dropWhile p (rev (dropWhile p s)))) = rev (dropWhile p (rev (dropWhile p s)))"
proof (cases "dropWhile p s")
  case Nil
  show ?thesis unfolding Nil by simp
next
  case (Cons c t)
  then have c: "\<not> p c" by (simp add: dropWhile_eq_Cons_conv)
  have "rev (dropWhile p (rev t @ [c])) = c # rev (dropWhile p (rev t))"
    using c by (simp add: dropWhile_append3 dropWhile_append)
  then show ?thesis using Cons c by simp
qed

lemma trim_trim [simp]: "trim (trim s) = trim s"
  by (simp add: trim_def dropWhile_rev_dropWhile)

lemma normal_normal [simp]: "normal_email (normal_email m) = normal_email m"
  by (simp add: normal_email_def trim_lower)

lemma otp_key_normal: "otp_key m p = ''otp:'' @ purpose_name p @ '':'' @ normal_email m"
  by (simp add: otp_key_def normal_email_def trim_lower)

lemma pin_reset_key: "''otp:pin_reset:'' @ normal_email m = otp_key m OtpPinReset"
  by (simp add: otp_key_normal purpose_name_def)

text \<open>Keys of different kinds differ, and an OTP key tells its purpose and address.\<close>

lemma otp_key_eq [simp]: "otp_key m p = otp_key m' p' \<longleftrightarrow> p = p' \<and> normal_email m = normal_email m'"
  by (cases p; cases p') (auto simp: otp_key_normal purpose_name_def)

lemma reset_key_eq [simp]: "PIN_RESET_TOKEN_KEY m = PIN_RESET_TOKEN_KEY m' \<longleftrightarrow> normal_email m = normal_email m'"
  by (simp add: PIN_RESET_TOKEN_KEY_def)

lemma keys_differ [simp]:
  "otp_key m p \<noteq> PIN_RESET_TOKEN_KEY m'" "otp_key m p \<noteq> REG_KEY i" "otp_key m p \<noteq> RESEND_KEY e"
  "otp_key m p \<noteq> LAST_RESEND_KEY e" "otp_key m p \<noteq> FORGOT_PIN_KEY e" "otp_key m p \<noteq> LOGIN_ATTEMPT_KEY i"
  "otp_key m p \<noteq> PIN_CHANGE_ATTEMPT_KEY i" "otp_key m p \<noteq> REG_LOOKUP_KEY e"
  "PIN_RESET_TOKEN_KEY m \<noteq> REG_KEY i" "PIN_RESET_TOKEN_KEY m \<noteq> RESEND_KEY e"
  "PIN_RESET_TOKEN_KEY m \<noteq> LAST_RESEND_KEY e" "PIN_RESET_TOKEN_KEY m \<noteq> FORGOT_PIN_KEY e"
  "PIN_RESET_TOKEN_KEY m \<noteq> LOGIN_ATTEMPT_KEY i" "PIN_RESET_TOKEN_KEY m \<noteq> PIN_CHANGE_ATTEMPT_KEY i"
  by (simp_all add: otp_key_def PIN_RESET_TOKEN_KEY_def REG_KEY_def RESEND_KEY_def LAST_RESEND_KEY_def
      FORGOT_PIN_KEY_def LOGIN_ATTEMPT_KEY_def PIN_CHANGE_ATTEMPT_KEY_def REG_LOOKUP_KEY_def)

lemmas keys_differ' [simp] = keys_differ [symmetric]

section \<open>Transactions\<close>

lemma preserves_case_prod [preserves_intros]:
  "(\<And>a b. preserves I (f a b)) \<Longrightarrow> preserves I (case p of (a, b) \<Rightarrow> f a b)"
  by (simp add: split_beta)

text \<open>A transaction of database statements alone leaves the temp store and the log.\<close>

definition outside :: "(string \<Rightarrow> (authValue \<times> int option) option) \<Rightarrow> authEvent list \<Rightarrow> authSys \<Rightarrow> bool" where
  "outside temp lg s \<longleftrightarrow> as_temp s = temp \<and> as_log s = lg"

lemma outside_statements [preserves_intros]:
  "preserves (outside temp lg) (readA f)" "preserves (outside temp lg) (keyGet env k)"
  "preserves (outside temp lg) (freshA env)" "preserves (outside temp lg) (modifyM (onDb g))"
  by (rule preservesI, simp add: wp_simps outside_def onDb_def)+

lemma outside_rows [preserves_intros]:
  "preserves (outside temp lg) (createToken t)" "preserves (outside temp lg) (updGenerals p q)"
  "preserves (outside temp lg) (updAccountWhere k f)" "preserves (outside temp lg) (createAccount a)"
  unfolding createToken_def updGenerals_def updAccountWhere_def createAccount_def by (intro preserves_intros)+

lemma outside_more_rows [preserves_intros]:
  "preserves (outside temp lg) (upsertToken key t)" "preserves (outside temp lg) (record_pin_change i n)"
  unfolding upsertToken_def record_pin_change_def Let_def by (intro preserves_intros)+

lemma preserves_authTx:
  assumes "preserves I m" and "\<And>temp lg. preserves (outside temp lg) m"
  shows "preserves I (authTx env label m)"
  unfolding preserves_def
proof (intro allI impI)
  fix s assume s: "I s"
  obtain r s' where m: "m s = (r, s')" by fastforce
  have "I s'" using assms(1) s m by (auto simp: preserves_def)
  moreover have "as_temp s' = as_temp s" "as_log s' = as_log s"
    using preservesD [OF assms(2) [of "as_temp s" "as_log s"], of s] m by (simp_all add: outside_def)
  then have "s'\<lparr>as_db := as_db s\<rparr> = s" by (intro authSys.equality) simp_all
  ultimately show "I (snd (authTx env label m s))"
    using s m by (cases r; cases "ae_txFault env label") (simp_all add: authTx_def)
qed

text \<open>A transaction that only reads the database.\<close>

lemma db_statements [preserves_intros]:
  "preserves (\<lambda>s. as_db s = d) (readA f)" "preserves (\<lambda>s. as_db s = d) (keyGet env k)"
  "preserves (\<lambda>s. as_db s = d) (keySet env k v t)" "preserves (\<lambda>s. as_db s = d) (keyDel k)"
  "preserves (\<lambda>s. as_db s = d) (keyTtl env k)" "preserves (\<lambda>s. as_db s = d) (logA x)"
  by (rule preservesI, simp add: wp_simps keyTtl_def)+

lemma preserves_authTx_read:
  assumes "preserves I m" and "\<And>d. preserves (\<lambda>s. as_db s = d) m"
  shows "preserves I (authTx env label m)"
  unfolding preserves_def
proof (intro allI impI)
  fix s assume s: "I s"
  obtain r s' where m: "m s = (r, s')" by fastforce
  have s': "I s'" using assms(1) s m by (auto simp: preserves_def)
  have "as_db s' = as_db s" using preservesD [OF assms(2) [of "as_db s"], of s] m by simp
  then have "s'\<lparr>as_db := as_db s\<rparr> = s'" by (intro authSys.equality) simp_all
  then show "I (snd (authTx env label m s))"
    using s' m by (cases r; cases "ae_txFault env label") (simp_all add: authTx_def)
qed

section \<open>The interface of an invariant\<close>

text \<open>
  \<open>good\<close> are the updates of an account the invariant respects, \<open>calm\<close> the keys with values
  it lets be set.
\<close>

locale auth_invariant =
  fixes I :: "authSys \<Rightarrow> bool" and good :: "(account \<Rightarrow> account) \<Rightarrow> bool" and calm :: "string \<Rightarrow> authValue \<Rightarrow> bool"
  assumes I_del: "I s \<Longrightarrow> I (s\<lparr>as_temp := (as_temp s)(k := None)\<rparr>)"
    and I_set: "calm k v \<Longrightarrow> I s \<Longrightarrow> I (s\<lparr>as_temp := (as_temp s)(k \<mapsto> (v, x))\<rparr>)"
    and I_log: "I s \<Longrightarrow> I (s\<lparr>as_log := as_log s @ l\<rparr>)"
    and I_accounts: "good f \<Longrightarrow> I s \<Longrightarrow> I (onDb (\<lambda>d. d\<lparr>h_accounts := update_where p f (h_accounts d)\<rparr>) s)"
    and I_new_token: "I s \<Longrightarrow> I (onDb (\<lambda>d. d\<lparr>h_tokens := h_tokens d @ [t]\<rparr>) s)"
    and I_tokens: "(\<And>t. tk_userId (g t) = tk_userId t \<and> tk_adminId (g t) = tk_adminId t \<and> tk_type (g t) = tk_type t)
      \<Longrightarrow> I s \<Longrightarrow> I (onDb (\<lambda>d. d\<lparr>h_tokens := update_where q g (h_tokens d)\<rparr>) s)"
    and I_rest: "(\<And>d. h_accounts (u d) = h_accounts d \<and> h_tokens (u d) = h_tokens d \<and> h_seq d \<le> h_seq (u d))
      \<Longrightarrow> I s \<Longrightarrow> I (onDb u s)"
    and good_updates: "good (\<lambda>a. a\<lparr>ac_status := st\<rparr>)" "good (\<lambda>a. a\<lparr>ac_status := st, ac_flaggedReason := r\<rparr>)"
      "good (\<lambda>a. a\<lparr>ac_isTwoFactorEnabled := False\<rparr>)" "good (\<lambda>a. a\<lparr>ac_refreshToken := None\<rparr>)"
    and calm_keys: "calm (RESEND_KEY e) (KNum n)" "calm (LAST_RESEND_KEY e) (KStamp n)"
      "calm (FORGOT_PIN_KEY e) (KNum n)" "calm (LOGIN_ATTEMPT_KEY i) (KNum n)"
      "calm (PIN_CHANGE_ATTEMPT_KEY i) (KNum n)" "calm (REG_KEY i) (KReg (normal_email e) n)"
      "calm (otp_key e OtpSignup) (KNum n)" "calm (otp_key e OtpLogin2fa) (KNum n)"
begin

lemma keep_statements [preserves_intros]:
  "preserves I (readA f)" "preserves I (keyGet env k)" "preserves I (keyTtl env k)" "preserves I (keyDel k)"
  "preserves I (logA x)"
  by (rule preservesI, simp add: wp_simps keyTtl_def I_del I_log)+

lemma keep_push [preserves_intros]: "preserves I (pushA env u t b)"
  by (rule preservesI) (simp add: wp_simps I_log split: option.splits)

lemma keep_set: "calm k v \<Longrightarrow> preserves I (keySet env k v ttl)"
  by (rule preservesI) (simp add: wp_simps I_set)

lemma keep_rest:
  "(\<And>d. h_accounts (u d) = h_accounts d \<and> h_tokens (u d) = h_tokens d \<and> h_seq d \<le> h_seq (u d))
     \<Longrightarrow> preserves I (modifyM (onDb u))"
  by (rule preservesI) (simp add: wp_simps I_rest)

lemma keep_tokens:
  "(\<And>t. tk_userId (g t) = tk_userId t \<and> tk_adminId (g t) = tk_adminId t \<and> tk_type (g t) = tk_type t)
     \<Longrightarrow> preserves I (modifyM (onDb (\<lambda>d. d\<lparr>h_tokens := update_where q g (h_tokens d)\<rparr>)))"
  by (rule preservesI) (simp add: wp_simps I_tokens)

lemma keep_new_token [preserves_intros]: "preserves I (modifyM (onDb (\<lambda>d. d\<lparr>h_tokens := h_tokens d @ [t]\<rparr>)))"
  by (rule preservesI) (simp add: wp_simps I_new_token)

lemma keep_updAccountWhere: "good f \<Longrightarrow> preserves I (updAccountWhere p f)"
  by (rule preservesI) (simp add: updAccountWhere_def wp_simps I_accounts)

lemma keep_updAccount: "good f \<Longrightarrow> preserves I (updAccount i f)"
  by (simp add: updAccount_def keep_updAccountWhere)

lemmas keep_rules = keep_set keep_rest keep_tokens keep_updAccount keep_updAccountWhere

lemma keep_fresh [preserves_intros]: "preserves I (freshA env)"
  unfolding freshA_def by (intro preserves_intros keep_rules; simp)

lemma keep_tables [preserves_intros]:
  "preserves I (createToken t)" "preserves I (updAdmin j h)" "preserves I (createAdmin a)"
  "preserves I (updGenerals p q)" "preserves I (createPercentage u n)" "preserves I (addDeviceToken env u x y z)"
  unfolding createToken_def updAdmin_def createAdmin_def updGenerals_def createPercentage_def addDeviceToken_def
  by (intro preserves_intros keep_rules; simp)+

lemma keep_more_tables [preserves_intros]:
  "preserves I (upsertToken key t)" "preserves I (record_pin_change i n)"
  "preserves I (revokeToken k)" "preserves I (revokePasswordResetToken k)" "preserves I (getUserById i)"
  unfolding upsertToken_def record_pin_change_def revokeToken_def revokePasswordResetToken_def updToken_def
    getUserById_def Let_def
  by (intro preserves_intros keep_rules; simp)+

lemma keep_rememberDevice [preserves_intros]: "preserves I (rememberDevice env i dv)"
  by (cases "truthy (dd_token dv)"; cases "truthy (dd_platform dv)") (simp_all add: rememberDevice_def preserves_intros)

lemma keep_verifyOtp [preserves_intros]: "preserves I (verifyOtp env otp e keep p)"
  unfolding verifyOtp_def Let_def by (intro preserves_intros)

lemma keep_otp_valid [preserves_intros]: "preserves I (otp_valid env otp e p m)"
  unfolding otp_valid_def by (intro preserves_intros)

lemma keep_issueOtp: "(\<And>n. calm (otp_key e p) (KNum n)) \<Longrightarrow> preserves I (issueOtp env e t None p)"
  unfolding issueOtp_def Let_def by (intro preserves_intros keep_rules; simp)

lemma keep_issueOtp_calm [preserves_intros]:
  "preserves I (issueOtp env e t None OtpSignup)" "preserves I (issueOtp env e t None OtpLogin2fa)"
  by (simp_all add: keep_issueOtp calm_keys)

lemma keep_resendOtp [preserves_intros]: "preserves I (resendOtp env e)"
  unfolding resendOtp_def Let_def by (intro preserves_intros keep_rules; simp add: calm_keys)

lemma keep_session_tx [preserves_intros]: "preserves I (session_tx env user)"
  unfolding session_tx_def Let_def by (intro preserves_authTx preserves_intros)

lemma keep_openSession [preserves_intros]: "preserves I (openSession env user dv)"
  unfolding openSession_def by (intro preserves_intros)

lemma keep_failedLogin [preserves_intros]: "preserves I (failedLogin env i)"
  unfolding failedLogin_def recordFailedLoginAttempt_def Let_def
  by (intro preserves_intros keep_rules; simp add: calm_keys good_updates)

lemma keep_sendLogin [preserves_intros]: "preserves I (sendLoginTwoFactorOtp env i)"
  unfolding sendLoginTwoFactorOtp_def by (intro preserves_intros)

lemma keep_wrongPinChange [preserves_intros]: "preserves I (wrongPinChange env user)"
  unfolding wrongPinChange_def incrementPinChangeAttempts_def Let_def
  by (intro preserves_intros keep_rules; simp add: calm_keys good_updates)

lemma keep_verifyRefreshToken [preserves_intros]: "preserves I (verifyRefreshToken env t)"
  unfolding verifyRefreshToken_def by (intro preserves_intros)

lemma keep_verifyToken [preserves_intros]: "preserves I (verifyToken env t ty)"
  unfolding verifyToken_def by (intro preserves_intros)

lemma keep_openRegistration [preserves_intros]: "preserves I (openRegistration env (normal_email m) otp)"
  unfolding openRegistration_def by (intro preserves_intros keep_rules; simp add: calm_keys)

lemma keep_signup: "preserves I (initiateClientSignUp env e)"
  unfolding initiateClientSignUp_def
  by (intro preserves_authTx_read preserves_intros; simp add: issueOtp_def Let_def; intro preserves_intros)

text \<open>The operations that any such invariant survives.\<close>

lemma keep_users:
  "preserves I (resendOnboardingOtp env e c)"
  "preserves I (validateUser env dto)"
  "preserves I (verifyLoginTwoFactor env e otp dv)"
  "preserves I (userRequestToDeleteAccount env i)"
  "preserves I (disableTwoFactor env i pin)"
  "preserves I (flagUser i reason)"
  "preserves I (unflagUser i)"
  unfolding resendOnboardingOtp_def validateUser_def verifyLoginTwoFactor_def userRequestToDeleteAccount_def
    disableTwoFactor_def flagUser_def unflagUser_def clearLoginAttempts_def
  by (intro preserves_intros keep_rules; simp add: good_updates)+

lemma keep_admins:
  "preserves I (validateAdmin env e pw)"
  "preserves I (addSuperAdmin env e pw first final k)"
  "preserves I (forgotPassword env e)"
  "preserves I (resetPassword env t pw)"
  "preserves I (logout env t)"
  "preserves I (refreshAccessToken env t)"
  unfolding validateAdmin_def validateAdminLogin_def findAdminByEmail_def addSuperAdmin_def forgotPassword_def
    generateResetPasswordToken_def generateToken_def resetPassword_def verifyPasswordResetToken_def
    logout_def refreshAccessToken_def Let_def
  by (intro preserves_intros keep_rules; simp add: good_updates)+

text \<open>The operations that set a PIN or switch on the second factor, for an invariant that allows it.\<close>

lemma keep_pins:
  assumes "\<And>h. good (\<lambda>a. a\<lparr>ac_pin := Some h\<rparr>)"
  shows "preserves I (confirmPinChange env i otp pin)" and "preserves I (resetPin env e t pin)"
  unfolding confirmPinChange_def resetPin_def Let_def
  by (intro preserves_authTx preserves_intros keep_rules; simp add: assms)+

lemma keep_first_pin:
  assumes "\<And>h st. good (\<lambda>a. a\<lparr>ac_pin := Some h, ac_status := st\<rparr>)"
  shows "preserves I (setUserPin env i pin dv)"
  unfolding setUserPin_def by (intro preserves_intros keep_rules; simp add: assms)

lemma keep_second_factor:
  assumes "good (\<lambda>a. a\<lparr>ac_isTwoFactorEnabled := True\<rparr>)"
  shows "preserves I (verifyTwoFactor env i otp)"
  unfolding verifyTwoFactor_def by (intro preserves_intros keep_rules; simp add: assms)

text \<open>The operations that store a code, for an invariant that is not about the temp store.\<close>

lemma keep_codes:
  assumes "\<And>k v. calm k v"
  shows "preserves I (verifyCode env e otp)" "preserves I (forgotPin env e)"
    "preserves I (initiatePinChange env i pin)" "preserves I (initiateTwoFactor env i pin)"
  unfolding verifyCode_def issueResetToken_def forgotPin_def initiatePinChange_def initiateTwoFactor_def Let_def
  by (intro preserves_intros keep_rules keep_issueOtp; simp add: assms)+

lemma keep_complete:
  assumes "\<And>a s. I s \<Longrightarrow> I (onDb (\<lambda>d. d\<lparr>h_accounts := h_accounts d @ [a]\<rparr>) s)"
  shows "preserves I (completeClientSignUp env i dto)"
proof -
  have "preserves I (createAccount a)" for a
    by (rule preservesI) (simp add: createAccount_def wp_simps assms)
  then show ?thesis unfolding completeClientSignUp_def signup_tx_def Let_def
    by (intro preserves_authTx preserves_intros keep_rules; simp split: authValue.splits add: preserves_intros)
qed

end

end
