(* ===== verification/AuthSafety.thy ===== *)
theory AuthSafety
  imports AuthSteps
begin

text \<open>
  What every state of the authentication machine satisfies, and what a run of it can and
  cannot do to an account.
\<close>

section \<open>The invariant\<close>

text \<open>
  Accounts have distinct ids and distinct addresses in normal form, and a second factor only
  with a PIN. A live code or reset token was mailed to its address, a code that enables a
  second factor belongs to an account with a PIN, a registration is for a normal address.
\<close>

definition accounts_ok :: "(nat \<Rightarrow> string) \<Rightarrow> nat \<Rightarrow> account list \<Rightarrow> bool" where
  "accounts_ok cuid n accs \<longleftrightarrow> distinct (map ac_id accs) \<and> distinct (map ac_email accs)
     \<and> (\<forall>a \<in> set accs. ac_id a \<in> cuid ` {..<n} \<and> normal_email (ac_email a) = ac_email a
          \<and> (ac_isTwoFactorEnabled a \<longrightarrow> ac_pin a \<noteq> None))"

definition mailed :: "string \<Rightarrow> string \<Rightarrow> authEvent list \<Rightarrow> bool" where
  "mailed m kind lg \<longleftrightarrow> (\<exists>e code. normal_email e = normal_email m \<and> Mail e kind (Some code) \<in> set lg)"

definition key_ok :: "account list \<Rightarrow> authEvent list \<Rightarrow> string \<Rightarrow> authValue \<Rightarrow> bool" where
  "key_ok accs lg k v \<longleftrightarrow>
     (\<forall>m. k = otp_key m OtpPinReset \<or> k = PIN_RESET_TOKEN_KEY m \<longrightarrow> mailed m ''RESET_PIN'' lg)
   \<and> (\<forall>m. k = otp_key m OtpPinChange \<longrightarrow> mailed m ''PIN_CHANGE_OTP'' lg)
   \<and> (\<forall>m. k = otp_key m OtpEnable2fa \<longrightarrow> (\<exists>a \<in> set accs. ac_email a = normal_email m \<and> ac_pin a \<noteq> None))
   \<and> (\<forall>m t. v = KReg m t \<longrightarrow> normal_email m = m)"

definition auth_ok :: "(nat \<Rightarrow> string) \<Rightarrow> authSys \<Rightarrow> bool" where
  "auth_ok cuid s \<longleftrightarrow> accounts_ok cuid (h_seq (as_db s)) (h_accounts (as_db s))
     \<and> (\<forall>k v x. as_temp s k = Some (v, x) \<longrightarrow> key_ok (h_accounts (as_db s)) (as_log s) k v)"

lemma mailed_append: "mailed m kind lg \<Longrightarrow> mailed m kind (lg @ l)"
  by (auto simp: mailed_def)

lemma mailed_now [simp]: "mailed m kind (lg @ Mail m kind (Some code) # l)"
  by (auto simp: mailed_def)

lemma mailed_normal [simp]: "mailed (normal_email m) kind lg = mailed m kind lg"
  by (simp add: mailed_def)

definition harmless :: "string \<Rightarrow> authValue \<Rightarrow> bool" where
  "harmless k v \<longleftrightarrow> (\<forall>accs lg. key_ok accs lg k v)"

lemma harmless_keys [simp]:
  "harmless (RESEND_KEY e) (KNum n)" "harmless (LAST_RESEND_KEY e) (KStamp n)"
  "harmless (FORGOT_PIN_KEY e) (KNum n)" "harmless (LOGIN_ATTEMPT_KEY i) (KNum n)"
  "harmless (PIN_CHANGE_ATTEMPT_KEY i) (KNum n)" "harmless (REG_KEY i) (KReg (normal_email m) t)"
  "harmless (otp_key m OtpSignup) (KNum n)" "harmless (otp_key m OtpLogin2fa) (KNum n)"
  by (simp_all add: harmless_def key_ok_def)

lemma key_ok_mono:
  assumes "key_ok accs lg k v" and "\<And>m kind. mailed m kind lg \<Longrightarrow> mailed m kind lg'"
    and "\<And>a. a \<in> set accs \<Longrightarrow> ac_pin a \<noteq> None \<Longrightarrow> \<exists>b \<in> set accs'. ac_email b = ac_email a \<and> ac_pin b \<noteq> None"
  shows "key_ok accs' lg' k v"
  using assms unfolding key_ok_def by metis

text \<open>The temp store and the log may grow by what the invariant allows.\<close>

lemma auth_ok_grow:
  assumes "auth_ok cuid s" and "\<And>m kind. mailed m kind (as_log s) \<Longrightarrow> mailed m kind lg"
    and "\<And>k v x. temp k = Some (v, x) \<Longrightarrow> as_temp s k = Some (v, x) \<or> key_ok (h_accounts (as_db s)) lg k v"
  shows "auth_ok cuid (s\<lparr>as_temp := temp, as_log := lg\<rparr>)"
  using assms key_ok_mono [OF _ assms(2)] unfolding auth_ok_def by (auto, metis)

lemma auth_ok_log: "auth_ok cuid s \<Longrightarrow> auth_ok cuid (s\<lparr>as_log := as_log s @ l\<rparr>)"
  using auth_ok_grow [of cuid s "as_log s @ l" "as_temp s"] by (simp add: mailed_append)

lemma auth_ok_temp:
  assumes "auth_ok cuid s"
    and "\<And>k v x. temp k = Some (v, x) \<Longrightarrow> as_temp s k = Some (v, x) \<or> key_ok (h_accounts (as_db s)) (as_log s) k v"
  shows "auth_ok cuid (s\<lparr>as_temp := temp\<rparr>)"
  using auth_ok_grow [OF assms(1), of "as_log s" temp] assms(2) by simp

lemma auth_ok_del: "auth_ok cuid s \<Longrightarrow> auth_ok cuid (s\<lparr>as_temp := (as_temp s)(k := None)\<rparr>)"
  by (erule auth_ok_temp) (simp split: if_splits)

lemma auth_ok_set:
  "auth_ok cuid s \<Longrightarrow> key_ok (h_accounts (as_db s)) (as_log s) k v
     \<Longrightarrow> auth_ok cuid (s\<lparr>as_temp := (as_temp s)(k \<mapsto> (v, x))\<rparr>)"
  by (erule auth_ok_temp) (auto split: if_splits)

lemma auth_ok_db:
  assumes "auth_ok cuid s" and "h_accounts d = h_accounts (as_db s)" and "h_seq (as_db s) \<le> h_seq d"
  shows "auth_ok cuid (s\<lparr>as_db := d\<rparr>)"
  using assms unfolding auth_ok_def accounts_ok_def by (auto intro: order_less_le_trans)

definition tame :: "(account \<Rightarrow> account) \<Rightarrow> bool" where
  "tame f \<longleftrightarrow> (\<forall>a. ac_id (f a) = ac_id a \<and> ac_email (f a) = ac_email a
     \<and> (ac_pin a \<noteq> None \<longrightarrow> ac_pin (f a) \<noteq> None)
     \<and> (ac_isTwoFactorEnabled (f a) \<longrightarrow> ac_isTwoFactorEnabled a \<or> ac_pin (f a) \<noteq> None))"

lemma map_update_where: "(\<And>a. g (f a) = g a) \<Longrightarrow> map g (update_where p f xs) = map g xs"
  by (simp add: update_where_def)

lemma accounts_ok_update:
  assumes "accounts_ok cuid n accs" and "\<And>a. ac_id (f a) = ac_id a \<and> ac_email (f a) = ac_email a"
    and "\<And>a. a \<in> set accs \<Longrightarrow> p a \<Longrightarrow> ac_isTwoFactorEnabled (f a) \<Longrightarrow> ac_pin (f a) \<noteq> None"
  shows "accounts_ok cuid n (update_where p f accs)"
proof -
  have "map ac_id (update_where p f accs) = map ac_id accs" "map ac_email (update_where p f accs) = map ac_email accs"
    using assms(2) by (simp_all add: map_update_where)
  then show ?thesis using assms unfolding accounts_ok_def by (simp, auto simp: update_where_def)
qed

lemma update_keeps_pins:
  assumes "\<And>a. ac_email (f a) = ac_email a \<and> (ac_pin a \<noteq> None \<longrightarrow> ac_pin (f a) \<noteq> None)"
    and "a \<in> set accs" and "ac_pin a \<noteq> None"
  shows "\<exists>b \<in> set (update_where p f accs). ac_email b = ac_email a \<and> ac_pin b \<noteq> None"
proof
  show "(if p a then f a else a) \<in> set (update_where p f accs)" using assms(2) by (simp add: update_where_def)
  show "ac_email (if p a then f a else a) = ac_email a \<and> ac_pin (if p a then f a else a) \<noteq> None"
    using assms(1) assms(3) by simp
qed

lemma auth_ok_update:
  assumes "auth_ok cuid s" and "tame f"
  shows "auth_ok cuid (s\<lparr>as_db := (as_db s)\<lparr>h_accounts := update_where p f (h_accounts (as_db s))\<rparr>\<rparr>)"
proof -
  let ?accs = "h_accounts (as_db s)"
  have "accounts_ok cuid (h_seq (as_db s)) (update_where p f ?accs)"
    using assms by (intro accounts_ok_update) (auto simp: auth_ok_def accounts_ok_def tame_def)
  moreover have "key_ok (update_where p f ?accs) (as_log s) k v" if "key_ok ?accs (as_log s) k v" for k v
    using assms(2) by (intro key_ok_mono [OF that] update_keeps_pins) (auto simp: tame_def)
  ultimately show ?thesis using assms(1) by (auto simp: auth_ok_def)
qed

lemma tame_updates [simp]:
  "tame (\<lambda>a. a\<lparr>ac_status := st\<rparr>)" "tame (\<lambda>a. a\<lparr>ac_status := st, ac_flaggedReason := r\<rparr>)"
  "tame (\<lambda>a. a\<lparr>ac_pin := Some h\<rparr>)" "tame (\<lambda>a. a\<lparr>ac_pin := Some h, ac_status := st\<rparr>)"
  "tame (\<lambda>a. a\<lparr>ac_isTwoFactorEnabled := False\<rparr>)" "tame (\<lambda>a. a\<lparr>ac_refreshToken := t\<rparr>)"
  by (simp_all add: tame_def)

interpretation ok: auth_invariant "auth_ok cuid" tame harmless for cuid
  by unfold_locales (simp_all add: auth_ok_del auth_ok_set harmless_def auth_ok_log onDb_def auth_ok_update auth_ok_db
    harmless_keys [unfolded harmless_def])

section \<open>The codes\<close>

lemma mailed_cong: "mailed m kind lg \<Longrightarrow> normal_email m = normal_email m' \<Longrightarrow> mailed m' kind lg"
  by (simp add: mailed_def)

lemma key_live_ok:
  "auth_ok cuid s \<Longrightarrow> key_live env k s = Some v \<Longrightarrow> key_ok (h_accounts (as_db s)) (as_log s) k v"
  by (auto simp: auth_ok_def key_live_def split: option.splits if_splits)

definition reset_mailed :: "(nat \<Rightarrow> string) \<Rightarrow> string \<Rightarrow> authSys \<Rightarrow> bool" where
  "reset_mailed cuid m s \<longleftrightarrow> auth_ok cuid s \<and> mailed m ''RESET_PIN'' (as_log s)"

lemma reset_mailed_statements [preserves_intros]:
  "preserves (reset_mailed cuid m) (keyGet env k)" "preserves (reset_mailed cuid m) (keyDel k)"
  by (rule preservesI, simp add: wp_simps reset_mailed_def auth_ok_del)+

lemma reset_token_ok: "mailed m ''RESET_PIN'' lg \<Longrightarrow> key_ok accs lg (PIN_RESET_TOKEN_KEY m) (KText u)"
  by (auto simp: key_ok_def intro: mailed_cong)

lemma reset_mailed_token [preserves_intros]:
  "preserves (reset_mailed cuid m) (keySet env (PIN_RESET_TOKEN_KEY m) (KText u) t)"
  by (rule preservesI) (simp add: wp_simps reset_mailed_def auth_ok_set reset_token_ok)

lemma ok_issueResetToken: "preserves (reset_mailed cuid m) (issueResetToken env m otp)"
  unfolding issueResetToken_def otp_valid_def verifyOtp_def Let_def by (intro preserves_intros)

lemma ok_verifyCode: "preserves (auth_ok cuid) (verifyCode env e otp)"
proof (rule preservesI)
  fix s assume s: "auth_ok cuid s"
  let ?m = "normal_email e"
  show "wp (verifyCode env e otp) (\<lambda>_. auth_ok cuid) (\<lambda>_. auth_ok cuid) s"
  proof (cases "key_live env (otp_key ?m OtpPinReset) s")
    case None
    then show ?thesis using s ok.keep_openRegistration [of cuid env e otp]
      by (simp add: verifyCode_def wp_simps pin_reset_key [symmetric] preserves_wp)
  next
    case (Some v)
    then have "reset_mailed cuid ?m s" using s key_live_ok [OF s Some] by (auto simp: reset_mailed_def key_ok_def)
    then have "wp (issueResetToken env ?m otp) (\<lambda>_. reset_mailed cuid ?m) (\<lambda>_. reset_mailed cuid ?m) s"
      using ok_issueResetToken [of cuid ?m env otp] by (simp add: preserves_wp)
    then show ?thesis using Some
      by (simp add: verifyCode_def wp_simps pin_reset_key [symmetric]) (auto simp: reset_mailed_def elim: wp_mono)
  qed
qed

text \<open>The operations that mail a code and store it: the log grows with the temp store.\<close>

lemma auth_ok_code:
  assumes "auth_ok cuid s" and "key_ok (h_accounts (as_db s)) lg k v" and "as_log s @ l = lg"
    and "\<And>j w x. temp j = Some (w, x) \<Longrightarrow> j = k \<and> w = v \<or> as_temp s j = Some (w, x) \<or> harmless j w"
  shows "auth_ok cuid (s\<lparr>as_temp := temp, as_log := lg\<rparr>)"
proof (rule auth_ok_grow [OF assms(1)])
  show "mailed m kind (as_log s) \<Longrightarrow> mailed m kind lg" for m kind
    using mailed_append assms(3) by auto
  show "as_temp s j = Some (w, x) \<or> key_ok (h_accounts (as_db s)) lg j w" if "temp j = Some (w, x)" for j w x
    using assms(4) [OF that] assms(2) by (auto simp: harmless_def)
qed

lemma auth_ok_code_swap:
  assumes "auth_ok cuid s" and "key_ok (h_accounts (as_db s)) lg k v" and "as_log s @ l = lg"
    and "\<And>j w x. temp j = Some (w, x) \<Longrightarrow> j = k \<and> w = v \<or> as_temp s j = Some (w, x) \<or> harmless j w"
  shows "auth_ok cuid (s\<lparr>as_log := lg, as_temp := temp\<rparr>)"
proof -
  have "s\<lparr>as_log := lg, as_temp := temp\<rparr> = s\<lparr>as_temp := temp, as_log := lg\<rparr>" by simp
  then show ?thesis using auth_ok_code [OF assms(1-3), of temp] assms(4) by metis
qed

lemma codes_ok:
  "mailed m ''RESET_PIN'' lg \<Longrightarrow> key_ok accs lg (otp_key m OtpPinReset) (KNum n)"
  "mailed m ''PIN_CHANGE_OTP'' lg \<Longrightarrow> key_ok accs lg (otp_key m OtpPinChange) (KNum n)"
  "a \<in> set accs \<Longrightarrow> ac_email a = normal_email m \<Longrightarrow> ac_pin a \<noteq> None \<Longrightarrow> key_ok accs lg (otp_key m OtpEnable2fa) (KNum n)"
  by (auto simp: key_ok_def intro: mailed_cong)

lemma ok_forgotPin: "preserves (auth_ok cuid) (forgotPin env e)"
proof (rule preservesI)
  fix s assume s: "auth_ok cuid s"
  note code = auth_ok_code [OF s codes_ok(1)]
  show "wp (forgotPin env e) (\<lambda>_. auth_ok cuid) (\<lambda>_. auth_ok cuid) s"
    by (auto simp: forgotPin_def wp_simps Let_def s intro!: code split: option.splits if_splits)
qed

lemma ok_initiatePinChange: "preserves (auth_ok cuid) (initiatePinChange env i pin)"
proof (rule preservesI)
  fix s assume s: "auth_ok cuid s"
  note code = auth_ok_code [OF s codes_ok(2)] auth_ok_code_swap [OF s codes_ok(2)]
  have wrong: "wp (wrongPinChange env a) (\<lambda>_. auth_ok cuid) (\<lambda>_. auth_ok cuid) s" for a
    using ok.keep_wrongPinChange [of cuid env a] s by (simp add: preserves_wp)
  show "wp (initiatePinChange env i pin) (\<lambda>_. auth_ok cuid) (\<lambda>_. auth_ok cuid) s"
    by (auto simp: initiatePinChange_def getUserById_def wp_simps s wrong intro!: code split: option.splits if_splits)
qed

lemma account_by_id_in: "account_by_id i d = Some a \<Longrightarrow> a \<in> set (h_accounts d) \<and> ac_id a = i"
  unfolding account_by_id_def by (drule find_Some_in) simp

lemma ok_initiateTwoFactor: "preserves (auth_ok cuid) (initiateTwoFactor env i pin)"
proof (rule preservesI)
  fix s assume s: "auth_ok cuid s"
  have "key_ok (h_accounts (as_db s)) lg (otp_key (ac_email a) OtpEnable2fa) (KNum n)"
    if "account_by_id i (as_db s) = Some a" "truthy (ac_pin a) = Some p" for a p lg n
    using account_by_id_in [OF that(1)] that(2) s
    by (intro codes_ok) (auto simp: auth_ok_def accounts_ok_def truthy_def split: option.splits)
  note code = auth_ok_code [OF s this]
  show "wp (initiateTwoFactor env i pin) (\<lambda>_. auth_ok cuid) (\<lambda>_. auth_ok cuid) s"
    by (auto simp: initiateTwoFactor_def getUserById_def wp_simps s intro!: code split: option.splits if_splits)
qed

text \<open>A second factor is switched on by a code, and a code is there only with a PIN.\<close>

lemma enable_ok:
  assumes "auth_ok cuid s" and "account_by_id i (as_db s) = Some a"
    and "key_live env (otp_key (ac_email a) OtpEnable2fa) s = Some v"
  shows "ac_pin a \<noteq> None"
proof -
  have a: "a \<in> set (h_accounts (as_db s))" using account_by_id_in [OF assms(2)] by simp
  then have "normal_email (ac_email a) = ac_email a" using assms(1) by (simp add: auth_ok_def accounts_ok_def)
  moreover have "\<exists>b \<in> set (h_accounts (as_db s)). ac_email b = normal_email (ac_email a) \<and> ac_pin b \<noteq> None"
    using key_live_ok [OF assms(1,3)] unfolding key_ok_def by blast
  ultimately obtain b where b: "b \<in> set (h_accounts (as_db s))" "ac_email b = ac_email a" "ac_pin b \<noteq> None"
    by auto
  have "distinct (map ac_email (h_accounts (as_db s)))" using assms(1) by (simp add: auth_ok_def accounts_ok_def)
  then have "b = a" using a b by (metis distinct_map inj_onD)
  then show ?thesis using b by simp
qed

lemma auth_ok_enable:
  assumes "auth_ok cuid s" and "account_by_id i (as_db s) = Some a" and "ac_pin a \<noteq> None"
  shows "auth_ok cuid (s\<lparr>as_db := (as_db s)\<lparr>h_accounts := update_where (\<lambda>a. ac_id a = i)
     (\<lambda>a. a\<lparr>ac_isTwoFactorEnabled := True\<rparr>) (h_accounts (as_db s))\<rparr>\<rparr>)"
proof -
  let ?accs = "h_accounts (as_db s)" and ?f = "\<lambda>a. a\<lparr>ac_isTwoFactorEnabled := True\<rparr>"
  have ok: "accounts_ok cuid (h_seq (as_db s)) ?accs" using assms(1) by (simp add: auth_ok_def)
  have "b = a" if "b \<in> set ?accs" "ac_id b = i" for b
    using that account_by_id_in [OF assms(2)] ok by (metis accounts_ok_def distinct_map inj_onD)
  then have "accounts_ok cuid (h_seq (as_db s)) (update_where (\<lambda>a. ac_id a = i) ?f ?accs)"
    using ok assms(3) by (intro accounts_ok_update) auto
  moreover have "key_ok (update_where p ?f ?accs) (as_log s) k v" if "key_ok ?accs (as_log s) k v" for k v p
    by (intro key_ok_mono [OF that] update_keeps_pins) auto
  ultimately show ?thesis using assms(1) by (auto simp: auth_ok_def)
qed

lemma ok_verifyTwoFactor: "preserves (auth_ok cuid) (verifyTwoFactor env i otp)"
proof (rule preservesI)
  fix s assume s: "auth_ok cuid s"
  have on: "auth_ok cuid (s\<lparr>as_temp := (as_temp s)(k := None), as_db := (as_db s)\<lparr>h_accounts :=
      update_where (\<lambda>a. ac_id a = i) (\<lambda>a. a\<lparr>ac_isTwoFactorEnabled := True\<rparr>) (h_accounts (as_db s))\<rparr>\<rparr>)"
    if "account_by_id i (as_db s) = Some a" "key_live env (otp_key (ac_email a) OtpEnable2fa) s = Some v" for a v k
    using auth_ok_enable [OF auth_ok_del [OF s, of k], of i a] enable_ok [OF s that] that(1) by simp
  show "wp (verifyTwoFactor env i otp) (\<lambda>_. auth_ok cuid) (\<lambda>_. auth_ok cuid) s"
    using s by (auto simp: verifyTwoFactor_def getUserById_def otp_valid_def updAccount_def updAccountWhere_def onDb_def wp_simps
      auth_ok_del intro!: on split: option.splits if_splits)
qed

text \<open>A new account has a new id and an address that is not taken.\<close>

lemma auth_ok_create:
  assumes "auth_ok cuid s" and "inj cuid" and "account_by_email m (as_db s) = None" and "normal_email m = m"
    and "ac_id a = cuid (h_seq (as_db s))" and "ac_email a = m" and "\<not> ac_isTwoFactorEnabled a"
    and "h_accounts d = h_accounts (as_db s) @ [a]" and "h_seq (as_db s) < h_seq d"
  shows "auth_ok cuid (s\<lparr>as_db := d\<rparr>)"
proof -
  let ?accs = "h_accounts (as_db s)"
  have ok: "accounts_ok cuid (h_seq (as_db s)) ?accs" using assms(1) by (simp add: auth_ok_def)
  have m: "m \<notin> ac_email ` set ?accs" using assms(3) by (auto simp: account_by_email_def find_None_iff)
  have i: "cuid (h_seq (as_db s)) \<notin> ac_id ` set ?accs"
    using ok assms(2) by (force simp: accounts_ok_def inj_eq)
  have "accounts_ok cuid (h_seq d) (?accs @ [a])"
    using ok m i assms(4-7,9) unfolding accounts_ok_def by (auto intro: order_less_trans)
  moreover have "key_ok (?accs @ [a]) (as_log s) k v" if "key_ok ?accs (as_log s) k v" for k v
    by (rule key_ok_mono [OF that]) auto
  ultimately show ?thesis using assms(1,8) by (auto simp: auth_ok_def)
qed

lemma ok_signup_tx:
  assumes "ae_cuid env = cuid" and "inj cuid" and "normal_email m = m" and "auth_ok cuid s"
  shows "wp (signup_tx env m dto) (\<lambda>_. auth_ok cuid) (\<lambda>_. auth_ok cuid) s"
proof -
  note create = auth_ok_create [OF assms(4,2) _ assms(3), unfolded account_by_email_def]
  show ?thesis
    using assms(4) by (auto simp: assms(1) signup_tx_def wp_simps createAccount_def createToken_def onDb_def Let_def new_account_def
      account_by_email_def intro!: create split: option.splits if_splits)
qed

lemma ok_completeClientSignUp:
  assumes "ae_cuid env = cuid" and "inj cuid"
  shows "preserves (auth_ok cuid) (completeClientSignUp env i dto)"
proof (rule preservesI)
  fix s assume s: "auth_ok cuid s"
  have "normal_email m = m" if "key_live env (REG_KEY i) s = Some (KReg m t)" for m t
    using key_live_ok [OF s that] by (auto simp: key_ok_def)
  note tx = ok_signup_tx [OF assms this s]
  show "wp (completeClientSignUp env i dto) (\<lambda>_. auth_ok cuid) (\<lambda>_. auth_ok cuid) s"
    by (auto simp: completeClientSignUp_def wp_simps Let_def s auth_ok_del intro!: wp_mono [OF tx]
      split: option.splits authValue.splits if_splits)
qed

section \<open>Every run\<close>

lemma perform_ok:
  assumes "ae_cuid env = cuid" and "inj cuid" and "auth_ok cuid s"
  shows "auth_ok cuid (perform env x s)"
  using assms(3) by (cases x) (simp_all add: perform_def preservesD [OF ok.keep_signup] preservesD [OF ok.keep_resendOtp]
    preservesD [OF ok.keep_users(1)] preservesD [OF ok.keep_users(2)] preservesD [OF ok.keep_users(3)]
    preservesD [OF ok.keep_users(4)] preservesD [OF ok.keep_users(5)] preservesD [OF ok.keep_users(6)]
    preservesD [OF ok.keep_users(7)] preservesD [OF ok.keep_admins(1)] preservesD [OF ok.keep_admins(2)]
    preservesD [OF ok.keep_admins(3)] preservesD [OF ok.keep_admins(4)] preservesD [OF ok.keep_admins(5)]
    preservesD [OF ok.keep_admins(6)] preservesD [OF ok.keep_pins(1)] preservesD [OF ok.keep_pins(2)]
    preservesD [OF ok.keep_first_pin] preservesD [OF ok_verifyCode] preservesD [OF ok_forgotPin]
    preservesD [OF ok_initiatePinChange] preservesD [OF ok_initiateTwoFactor] preservesD [OF ok_verifyTwoFactor]
    preservesD [OF ok_completeClientSignUp [OF assms(1,2)]])

lemma run_ok: "ids_from cuid xs \<Longrightarrow> auth_ok cuid s \<Longrightarrow> auth_ok cuid (run_auth xs s)"
  by (induction xs s rule: run_auth.induct) (auto simp: ids_from_def perform_ok)

lemma no_accounts_ok: "auth_ok cuid no_accounts"
  by (simp add: auth_ok_def accounts_ok_def no_accounts_def)

end
