(* ===== verification/AuthRuns.thy ===== *)
theory AuthRuns
  imports AuthSafety
begin

text \<open>
  What a run of the authentication machine does: who can change a PIN, how often an admin
  can ask for a reset link and use it, how long a session lives, what locks an account.
\<close>

section \<open>The PIN of an account\<close>

definition holds_pin :: "string \<Rightarrow> string \<Rightarrow> string option \<Rightarrow> authSys \<Rightarrow> bool" where
  "holds_pin i e p s \<longleftrightarrow> (\<forall>a \<in> set (h_accounts (as_db s)). ac_id a = i \<longrightarrow> ac_email a = e \<and> ac_pin a = p)"

definition pin_kept :: "(account \<Rightarrow> account) \<Rightarrow> bool" where
  "pin_kept f \<longleftrightarrow> (\<forall>a. ac_id (f a) = ac_id a \<and> ac_email (f a) = ac_email a \<and> ac_pin (f a) = ac_pin a)"

lemma pin_kept_updates [simp]:
  "pin_kept (\<lambda>a. a\<lparr>ac_status := st\<rparr>)" "pin_kept (\<lambda>a. a\<lparr>ac_status := st, ac_flaggedReason := r\<rparr>)"
  "pin_kept (\<lambda>a. a\<lparr>ac_isTwoFactorEnabled := b\<rparr>)" "pin_kept (\<lambda>a. a\<lparr>ac_refreshToken := t\<rparr>)"
  by (simp_all add: pin_kept_def)

lemma holds_pin_update: "pin_kept f \<Longrightarrow> holds_pin i e p s \<Longrightarrow>
    holds_pin i e p (onDb (\<lambda>d. d\<lparr>h_accounts := update_where q f (h_accounts d)\<rparr>) s)"
  by (auto simp: holds_pin_def onDb_def update_where_def pin_kept_def)

interpretation pin: auth_invariant "holds_pin i e p" pin_kept "\<lambda>_ _. True" for i e p
  by unfold_locales (simp_all add: holds_pin_update, simp_all add: holds_pin_def onDb_def)

lemma pin_other:
  assumes "\<And>a. q a \<Longrightarrow> ac_id a \<noteq> i \<or> ac_email a \<noteq> e" and "\<And>a. ac_id (f a) = ac_id a"
  shows "preserves (holds_pin i e p) (updAccountWhere q f)"
  using assms by (intro preservesI) (fastforce simp: updAccountWhere_def wp_simps holds_pin_def onDb_def update_where_def)

lemma pin_other_set: "j \<noteq> i \<Longrightarrow> preserves (holds_pin i e p) (setUserPin env j pin dv)"
  unfolding setUserPin_def updAccount_def by (intro preserves_intros pin_other; simp)

lemma pin_other_confirm: "j \<noteq> i \<Longrightarrow> preserves (holds_pin i e p) (confirmPinChange env j otp pin)"
  unfolding confirmPinChange_def updAccount_def by (intro preserves_intros pin_other; simp)

lemma pin_other_reset: "normal_email m \<noteq> e \<Longrightarrow> preserves (holds_pin i e p) (resetPin env m t pin)"
  unfolding resetPin_def Let_def by (intro preserves_authTx preserves_intros pin_other; auto)

lemma first_pin_only: "account_by_id i (as_db s) = Some a \<Longrightarrow> truthy (ac_pin a) \<noteq> None \<Longrightarrow> snd (setUserPin env i pin dv s) = s"
  by (auto simp: setUserPin_def bindM_def readA_def getM_def someM_def returnM_def thenM_def requireM_def throwM_def)

lemma confirm_needs_code:
  assumes "account_by_id i (as_db s) = Some a" and "key_live env (otp_key (ac_email a) OtpPinChange) s = None"
  shows "snd (confirmPinChange env i otp pin s) = s"
proof -
  have "wp (confirmPinChange env i otp pin) (\<lambda>_ s'. s' = s) (\<lambda>_ s'. s' = s) s"
    using assms by (auto simp: confirmPinChange_def getUserById_def otp_valid_def wp_simps split: option.splits)
  then show ?thesis by (auto simp: wp_alt split: sum.splits)
qed

lemma reset_needs_token:
  assumes "key_live env (PIN_RESET_TOKEN_KEY m) s = None"
  shows "snd (resetPin env m t pin s) = s"
proof -
  have k: "PIN_RESET_TOKEN_KEY (normal_email m) = PIN_RESET_TOKEN_KEY m" by (simp add: PIN_RESET_TOKEN_KEY_def)
  have "wp (resetPin env m t pin) (\<lambda>_ s'. s' = s) (\<lambda>_ s'. s' = s) s"
    using assms by (auto simp: resetPin_def Let_def wp_simps k split: option.splits)
  then show ?thesis by (auto simp: wp_alt split: sum.splits)
qed

text \<open>A sign-up only adds an account, with a new id.\<close>

definition grown :: "string \<Rightarrow> account list \<Rightarrow> authSys \<Rightarrow> bool" where
  "grown i accs s \<longleftrightarrow> (\<exists>l. h_accounts (as_db s) = accs @ l \<and> (\<forall>a \<in> set l. ac_id a = i))"

lemma signup_grows:
  "wp (signup_tx env m dto) (\<lambda>_. grown (ae_cuid env (h_seq (as_db s))) (h_accounts (as_db s)))
     (\<lambda>_. grown (ae_cuid env (h_seq (as_db s))) (h_accounts (as_db s))) s"
  by (auto simp: signup_tx_def wp_simps createAccount_def createToken_def onDb_def Let_def new_account_def grown_def
      split: option.splits)

lemma complete_grows:
  "grown (ae_cuid env (h_seq (as_db s))) (h_accounts (as_db s)) (snd (completeClientSignUp env j dto s))"
proof -
  have "wp (completeClientSignUp env j dto) (\<lambda>_. grown (ae_cuid env (h_seq (as_db s))) (h_accounts (as_db s)))
     (\<lambda>_. grown (ae_cuid env (h_seq (as_db s))) (h_accounts (as_db s))) s"
    by (auto simp: completeClientSignUp_def wp_simps Let_def intro!: wp_mono [OF signup_grows]
      split: option.splits authValue.splits) (simp_all add: grown_def)
  then show ?thesis by (auto simp: wp_alt split: sum.splits)
qed

lemma holds_pin_found:
  "auth_ok cuid s \<Longrightarrow> a \<in> set (h_accounts (as_db s)) \<Longrightarrow> holds_pin (ac_id a) (ac_email a) (ac_pin a) s"
  unfolding holds_pin_def auth_ok_def accounts_ok_def by (metis distinct_map inj_onD)

lemma found_by_id:
  assumes "auth_ok cuid s" and "a \<in> set (h_accounts (as_db s))"
  shows "account_by_id (ac_id a) (as_db s) = Some a"
proof (cases "account_by_id (ac_id a) (as_db s)")
  case None
  then show ?thesis using assms(2) by (auto simp: account_by_id_def find_None_iff)
next
  case (Some b)
  then show ?thesis using account_by_id_in [OF Some] assms unfolding auth_ok_def accounts_ok_def
    by (metis distinct_map inj_onD)
qed

lemma token_mailed:
  "auth_ok cuid s \<Longrightarrow> key_live env (PIN_RESET_TOKEN_KEY m) s = Some v \<Longrightarrow> mailed m ''RESET_PIN'' (as_log s)"
  using key_live_ok [of cuid s env "PIN_RESET_TOKEN_KEY m" v] unfolding key_ok_def by blast

lemma change_mailed:
  "auth_ok cuid s \<Longrightarrow> key_live env (otp_key m OtpPinChange) s = Some v \<Longrightarrow> mailed m ''PIN_CHANGE_OTP'' (as_log s)"
  using key_live_ok [of cuid s env "otp_key m OtpPinChange" v] unfolding key_ok_def by blast

lemma pin_step:
  assumes ok: "auth_ok cuid s" and env: "ae_cuid env = cuid" "inj cuid"
    and a: "a \<in> set (h_accounts (as_db s))" "ac_pin a = Some p" "p \<noteq> []"
    and none: "\<not> mailed (ac_email a) ''RESET_PIN'' (as_log s)" "\<not> mailed (ac_email a) ''PIN_CHANGE_OTP'' (as_log s)"
  shows "holds_pin (ac_id a) (ac_email a) (ac_pin a) (perform env x s)"
proof -
  let ?H = "holds_pin (ac_id a) (ac_email a) (ac_pin a)"
  have H: "?H s" using holds_pin_found [OF ok a(1)] .
  have found: "account_by_id (ac_id a) (as_db s) = Some a" using found_by_id [OF ok a(1)] .
  have normal: "normal_email (ac_email a) = ac_email a" using ok a(1) by (simp add: auth_ok_def accounts_ok_def)
  show ?thesis
  proof (cases x)
    case (SetPin j pin dv)
    have "truthy (ac_pin a) \<noteq> None" using a by (simp add: truthy_def)
    then show ?thesis using SetPin H first_pin_only [OF found] preservesD [OF pin_other_set]
      by (cases "j = ac_id a") (simp_all add: perform_def)
  next
    case (ConfirmPinChange j otp pin)
    have "key_live env (otp_key (ac_email a) OtpPinChange) s = None"
      using change_mailed [OF ok, of env "ac_email a"] none(2) by (cases "key_live env (otp_key (ac_email a) OtpPinChange) s") auto
    then show ?thesis using ConfirmPinChange H confirm_needs_code [OF found] preservesD [OF pin_other_confirm]
      by (cases "j = ac_id a") (simp_all add: perform_def)
  next
    case (ResetPin m t pin)
    have "key_live env (PIN_RESET_TOKEN_KEY m) s = None" if "normal_email m = ac_email a"
    proof (cases "key_live env (PIN_RESET_TOKEN_KEY m) s")
      case (Some v)
      have "mailed m ''RESET_PIN'' (as_log s)" using token_mailed [OF ok Some] .
      from mailed_cong [OF this, of "ac_email a"] show ?thesis using none(1) that normal by simp
    qed
    then show ?thesis using ResetPin H reset_needs_token preservesD [OF pin_other_reset]
      by (cases "normal_email m = ac_email a") (simp_all add: perform_def)
  next
    case (CompleteSignup j dto)
    have "ac_id a \<noteq> ae_cuid env (h_seq (as_db s))"
      using ok a(1) env by (auto simp: auth_ok_def accounts_ok_def inj_eq)
    then show ?thesis using complete_grows [of env s j dto] CompleteSignup H
      by (auto simp: perform_def grown_def holds_pin_def)
  qed (simp_all add: perform_def H preservesD [OF pin.keep_signup] preservesD [OF pin.keep_resendOtp] preservesD [OF pin.keep_users(1)]
    preservesD [OF pin.keep_users(2)] preservesD [OF pin.keep_users(3)] preservesD [OF pin.keep_users(4)] preservesD [OF pin.keep_users(5)]
    preservesD [OF pin.keep_users(6)] preservesD [OF pin.keep_users(7)] preservesD [OF pin.keep_admins(1)] preservesD [OF pin.keep_admins(2)]
    preservesD [OF pin.keep_admins(3)] preservesD [OF pin.keep_admins(4)] preservesD [OF pin.keep_admins(5)] preservesD [OF pin.keep_admins(6)]
    preservesD [OF pin.keep_codes(1)] preservesD [OF pin.keep_codes(2)] preservesD [OF pin.keep_codes(3)] preservesD [OF pin.keep_codes(4)]
    preservesD [OF pin.keep_second_factor])
qed

section \<open>An example run\<close>

text \<open>Sign-up, first PIN, and the reset of the PIN by a mailed code.\<close>

definition demo_env :: "int \<Rightarrow> string \<Rightarrow> authEnv" where
  "demo_env t uuid = \<lparr>ae_now = t, ae_cuid = (\<lambda>n. replicate (Suc n) (CHR ''c'')), ae_uuid = uuid, ae_random = 0,
     ae_hash = (\<lambda>p. CHR ''h'' # p), ae_match = (\<lambda>p h. h = CHR ''h'' # p),
     ae_sign = (\<lambda>k _ p. (if k = AccessSecret then ''a-'' else if k = RefreshSecret then ''r-'' else ''p-'') @ jp_id p),
     ae_verify = (\<lambda>k t. if k = ResetSecret then Some (typed_payload (drop 2 t) TkPASSWORD_RESET)
        else if k = RefreshSecret then Some (refresh_payload (drop 2 t) INDIVIDUAL)
        else Some (identity (drop 2 t) INDIVIDUAL)),
     ae_accessExpiration = ''15m'', ae_refreshExpiration = ''7d'', ae_push = (\<lambda>_. None), ae_captcha = (\<lambda>_. None),
     ae_parseDate = (\<lambda>_. Some 0), ae_superAdminKey = None, ae_adminUrl = [], ae_txFault = (\<lambda>_. None)\<rparr>"

definition demo_profile :: profile where
  "demo_profile = \<lparr>pf_firstName = ''Ada'', pf_lastName = ''Obi'', pf_phoneNumber = ''1'', pf_country = ''NG'',
     pf_gender = ''FEMALE'', pf_dateOfBirth = ''1990-01-01'', pf_residentialAddress = ''Lagos''\<rparr>"

definition demo_device :: deviceDto where
  "demo_device = \<lparr>dd_token = None, dd_platform = None, dd_name = None\<rparr>"

definition demo_signup :: "(authEnv \<times> authAction) list" where
  "demo_signup = [(demo_env 0 [], Signup ''a@b''), (demo_env 1 ''r'', VerifyCode ''a@b'' ''100000''),
     (demo_env 2 [], CompleteSignup ''r'' demo_profile), (demo_env 3 [], SetPin ''c'' ''111111'' demo_device)]"

definition demo_reset :: "(authEnv \<times> authAction) list" where
  "demo_reset = demo_signup @ [(demo_env 4 [], ForgotPin ''a@b''), (demo_env 5 ''k'', VerifyCode ''a@b'' ''100000'')]"

definition demo_account :: "string \<Rightarrow> account" where
  "demo_account pin = \<lparr>ac_id = ''c'', ac_email = ''a@b'', ac_profile = Some demo_profile, ac_userType = INDIVIDUAL,
     ac_pin = Some pin, ac_isEmailVerified = True, ac_isTwoFactorEnabled = False, ac_status = StACTIVE,
     ac_flaggedReason = None, ac_refreshToken = None, ac_createdAt = 2\<rparr>"

lemma snd_is: "wp m (\<lambda>_ s'. s' = t) (\<lambda>_ s'. s' = t) s \<Longrightarrow> snd (m s) = t"
  by (auto simp: wp_alt split: sum.splits)

lemma demo_email [simp]: "normal_email ''a@b'' = ''a@b''"
  by code_simp

lemma demo_otp [simp]: "generateOtp (demo_env t u) = 100000"
  by (simp add: generateOtp_def demo_env_def)

lemma demo_show: "show_int 100000 = ''100000''" "show_int 10 = ''10''"
  by (simp_all add: eval_simps)

lemma demo_fields [simp]:
  "ae_now (demo_env t u) = t" "ae_cuid (demo_env t u) n = replicate (Suc n) (CHR ''c'')" "ae_uuid (demo_env t u) = u"
  "ae_hash (demo_env t u) p = CHR ''h'' # p" "ae_push (demo_env t u) k = None" "ae_txFault (demo_env t u) k = None"
  "ae_parseDate (demo_env t u) k = Some 0"
  by (simp_all add: demo_env_def)

lemma demo_step1:
  "perform (demo_env 0 []) (Signup ''a@b'') no_accounts = no_accounts\<lparr>
     as_temp := [otp_key ''a@b'' OtpSignup \<mapsto> (KNum 100000, Some 600000)],
     as_log := [Mail ''a@b'' ''SIGNUP_INITIATE'' (Some ''100000'')]\<rparr>"
  by (simp add: perform_def) (rule snd_is, simp add: initiateClientSignUp_def wp_simps no_accounts_def account_by_email_def demo_show)

lemma verifyCode_key:
  "verifyCode env e otp = bindM (keyGet env (otp_key (normal_email e) OtpPinReset)) (\<lambda>r.
     if r \<noteq> None then issueResetToken env (normal_email e) otp else openRegistration env (normal_email e) otp)"
  by (simp only: verifyCode_def Let_def) (simp only: otp_key_normal purpose_name_def otpPurpose.simps normal_normal append_Cons append_Nil append_assoc)

lemma demo_step2:
  "perform (demo_env 1 ''r'') (VerifyCode ''a@b'' ''100000'') (no_accounts\<lparr>
     as_temp := [otp_key ''a@b'' OtpSignup \<mapsto> (KNum 100000, Some 600000)], as_log := lg\<rparr>)
   = no_accounts\<lparr>as_temp := [REG_KEY ''r'' \<mapsto> (KReg ''a@b'' 1, Some 86400001)], as_log := lg\<rparr>"
  by (simp add: perform_def) (rule snd_is, simp add: verifyCode_key wp_simps no_accounts_def key_live_def live_def
     openRegistration_def otp_valid_def value_text_def demo_show REGISTRATION_TTL_def fun_upd_twist)

definition demo_meta :: "int list \<Rightarrow> general" where
  "demo_meta h = \<lparr>g_id = ''cc'', g_tableID = ''c'', g_associatedData = Some \<lparr>am_signType = Some ''DIRECT'',
     am_lastLoginDate = Some 2, am_passwordChangedAt = Some h, am_onboardingCompletedAt = Some 2\<rparr>\<rparr>"

definition demo_db :: "account \<Rightarrow> int list \<Rightarrow> (string \<times> int) list \<Rightarrow> authDb" where
  "demo_db a h p = (as_db no_accounts)\<lparr>h_accounts := [a],
     h_tokens := [session_row (demo_env 2 []) ''c'' INDIVIDUAL ''r-c''], h_generals := [demo_meta h],
     h_percentages := p, h_seq := 2\<rparr>"

lemmas demo_defs = demo_db_def demo_meta_def demo_account_def no_accounts_def key_live_def live_def onDb_def
  account_by_email_def account_by_id_def truthy_def eval_simps demo_show

lemma demo_step3:
  "perform (demo_env 2 []) (CompleteSignup ''r'' demo_profile) (no_accounts\<lparr>
     as_temp := [REG_KEY ''r'' \<mapsto> (KReg ''a@b'' 1, Some 86400001)], as_log := lg\<rparr>)
   = \<lparr>as_db = demo_db ((demo_account [])\<lparr>ac_pin := None, ac_status := StPENDING\<rparr>) [] [], as_temp = Map.empty, as_log = lg\<rparr>"
  by (simp add: perform_def) (rule snd_is, simp add: completeClientSignUp_def wp_simps demo_defs
     iso_date_def demo_profile_def signup_tx_def createAccount_def createToken_def new_account_def
     generateTokens_def generateRefreshToken_def user_subject_def demo_env_def refresh_payload_def numeral_2_eq_2)

lemma demo_step4:
  "perform (demo_env 3 []) (SetPin ''c'' ''111111'' demo_device)
     \<lparr>as_db = demo_db ((demo_account [])\<lparr>ac_pin := None, ac_status := StPENDING\<rparr>) [] [], as_temp = Map.empty, as_log = lg\<rparr>
   = \<lparr>as_db = demo_db (demo_account ''h111111'') [3] [(''c'', 3)], as_temp = Map.empty, as_log = lg @ [StatsUpdate True 2 StACTIVE,
       SubaccountJob ''c'' ''a@b'' ''Ada'' ''Obi'', Mail ''a@b'' ''SIGNUP_COMPLETED'' None, Push ''c'' ''Welcome to Ogaboss!''
         ''Your account has been created successfully. Welcome aboard!'']\<rparr>"
  by (simp add: perform_def) (rule snd_is, simp add: setUserPin_def wp_simps demo_defs demo_profile_def first_name_def last_name_def
    updAccount_def updAccountWhere_def update_where_def rememberDevice_def demo_device_def createPercentage_def
    record_pin_change_def user_general_def updGenerals_def mergeMetaData_def)

lemma demo_step5:
  "perform (demo_env 4 []) (ForgotPin ''a@b'') \<lparr>as_db = demo_db (demo_account ''h111111'') h p, as_temp = Map.empty, as_log = lg\<rparr>
   = \<lparr>as_db = demo_db (demo_account ''h111111'') h p,
      as_temp = [otp_key ''a@b'' OtpPinReset \<mapsto> (KNum 100000, Some 600004), FORGOT_PIN_KEY ''a@b'' \<mapsto> (KNum 1, Some 3600004)],
      as_log = lg @ [Mail ''a@b'' ''RESET_PIN'' (Some ''100000''), Push ''c'' ''PIN Reset Request'' (otp_body ''PIN reset'' ''100000'' 10)]\<rparr>"
  by (simp add: perform_def) (rule snd_is, simp add: forgotPin_def wp_simps demo_defs attempts_of_def RESEND_MAX_PER_HOUR_def toMinutes_def)

lemma demo_step6:
  "perform (demo_env 5 ''k'') (VerifyCode ''a@b'' ''100000'') \<lparr>as_db = d,
      as_temp = [otp_key ''a@b'' OtpPinReset \<mapsto> (KNum 100000, Some 600004), FORGOT_PIN_KEY ''a@b'' \<mapsto> (KNum 1, Some 3600004)], as_log = lg\<rparr>
   = \<lparr>as_db = d, as_temp = [FORGOT_PIN_KEY ''a@b'' \<mapsto> (KNum 1, Some 3600004), PIN_RESET_TOKEN_KEY ''a@b'' \<mapsto> (KText ''k'', Some 300005)], as_log = lg\<rparr>"
  by (simp add: perform_def) (rule snd_is, simp add: verifyCode_key wp_simps key_live_def live_def issueResetToken_def otp_valid_def
    value_text_def demo_show PIN_RESET_TOKEN_TTL_SECONDS_def fun_upd_twist)

lemma demo_step7:
  "perform (demo_env 6 []) (ResetPin ''a@b'' ''k'' ''222222'') \<lparr>as_db = demo_db (demo_account ''h111111'') [3] p,
      as_temp = [FORGOT_PIN_KEY ''a@b'' \<mapsto> (KNum 1, Some 3600004), PIN_RESET_TOKEN_KEY ''a@b'' \<mapsto> (KText ''k'', Some 300005)], as_log = lg\<rparr>
   = \<lparr>as_db = demo_db (demo_account ''h222222'') [3, 6] p, as_temp = [FORGOT_PIN_KEY ''a@b'' \<mapsto> (KNum 1, Some 3600004)], as_log = lg\<rparr>"
  by (simp add: perform_def) (rule snd_is, simp add: resetPin_def wp_simps demo_defs updAccountWhere_def update_where_def
    record_pin_change_def user_general_def updGenerals_def mergeMetaData_def)

lemma demo_ids: "ids_from (\<lambda>n. replicate (Suc n) (CHR ''c'')) (demo_reset @ [(demo_env 6 [], x)])"
  by (simp add: ids_from_def demo_reset_def demo_signup_def inj_def fun_eq_iff demo_env_def)

text \<open>C30: A PIN that is set changes only after a code was mailed to the address of its account:
  the code of a PIN reset or of a PIN change.\<close>

theorem pin_change_needs_mailed_code:
  assumes "ids_from cuid (xs @ [(env, x)])" and "s = run_auth xs no_accounts"
    and "a \<in> set (h_accounts (as_db s))" and "ac_pin a = Some p" and "p \<noteq> []"
    and "b \<in> set (h_accounts (as_db (perform env x s)))" and "ac_id b = ac_id a" and "ac_pin b \<noteq> ac_pin a"
  shows "mailed (ac_email a) ''RESET_PIN'' (as_log s) \<or> mailed (ac_email a) ''PIN_CHANGE_OTP'' (as_log s)"
proof (rule ccontr)
  assume none: "\<not> ?thesis"
  have ids: "ids_from cuid xs" "inj cuid" "ae_cuid env = cuid" using assms(1) by (auto simp: ids_from_def)
  then have "auth_ok cuid s" using run_ok no_accounts_ok assms(2) by simp
  then have "holds_pin (ac_id a) (ac_email a) (ac_pin a) (perform env x s)"
    using pin_step [OF _ ids(3,2) assms(3-5)] none by simp
  then show False using assms(6-8) by (simp add: holds_pin_def)
qed

theorem pin_change_needs_mailed_code_witness:
  "mailed ''a@b'' ''RESET_PIN'' (as_log (run_auth demo_reset no_accounts))
     \<or> mailed ''a@b'' ''PIN_CHANGE_OTP'' (as_log (run_auth demo_reset no_accounts))"
  using pin_change_needs_mailed_code [OF demo_ids refl, of "demo_account ''h111111''" "''h111111''" "demo_account ''h222222''" "ResetPin ''a@b'' ''k'' ''222222''"]
  by (simp add: demo_reset_def demo_signup_def demo_step1 demo_step2 demo_step3 demo_step4 demo_step5 demo_step6 demo_step7)
    (simp add: demo_db_def demo_account_def)

section \<open>The accounts\<close>

text \<open>In every state a run reaches, accounts differ in id and in address, every address is in
  normal form, so that a login in any spelling finds the one account it is for, and an account
  with a second factor has a PIN, so that switching it off never meets a missing hash.\<close>

theorem accounts_stay_sound:
  assumes "ids_from cuid xs" and "s = run_auth xs no_accounts" and "a \<in> set (h_accounts (as_db s))"
  shows "(\<forall>b \<in> set (h_accounts (as_db s)). (ac_id b = ac_id a \<or> ac_email b = ac_email a) = (b = a))
     \<and> (\<forall>m. normal_email m = ac_email a \<longrightarrow> account_like (trim m) (as_db s) = Some a)
     \<and> (ac_isTwoFactorEnabled a \<longrightarrow> ac_pin a \<noteq> None)
     \<and> fst (disableTwoFactor env (ac_id a) pin s) \<noteq> Inl (PlainError ''data and hash arguments required'')"
proof -
  have ok: "auth_ok cuid s" using run_ok [OF assms(1) no_accounts_ok] assms(2) by simp
  then have acc: "accounts_ok cuid (h_seq (as_db s)) (h_accounts (as_db s))" by (simp add: auth_ok_def)
  have same: "(ac_id b = ac_id a \<or> ac_email b = ac_email a) = (b = a)" if "b \<in> set (h_accounts (as_db s))" for b
    using that assms(3) acc unfolding accounts_ok_def by (metis distinct_map inj_onD)
  have like: "account_like (trim m) (as_db s) = Some a" if m: "normal_email m = ac_email a" for m
  proof (cases "account_like (trim m) (as_db s)")
    case None
    have "to_lower (ac_email a) = ac_email a" using assms(3) acc by (metis accounts_ok_def normal_email_def to_lower_lower)
    then have "ieq (ac_email a) (trim m)" using m by (simp add: ieq_def normal_email_def)
    then show ?thesis using None assms(3) by (auto simp: account_like_def find_None_iff)
  next
    case (Some b)
    then have b: "b \<in> set (h_accounts (as_db s))" "ieq (ac_email b) (trim m)"
      unfolding account_like_def by (auto dest: find_Some_in)
    have "to_lower (ac_email b) = ac_email b" using b(1) acc by (metis accounts_ok_def normal_email_def to_lower_lower)
    then have "ac_email b = ac_email a" using b(2) m by (simp add: ieq_def normal_email_def)
    then show ?thesis using same [OF b(1)] Some by simp
  qed
  have pin: "ac_isTwoFactorEnabled a \<longrightarrow> ac_pin a \<noteq> None" using acc assms(3) by (simp add: accounts_ok_def)
  have "wp (disableTwoFactor env (ac_id a) pin) (\<lambda>_ _. True) (\<lambda>e _. e \<noteq> PlainError ''data and hash arguments required'') s"
    using pin by (auto simp: disableTwoFactor_def getUserById_def wp_simps found_by_id [OF ok assms(3)] updAccount_def
        updAccountWhere_def split: option.splits)
  then have "fst (disableTwoFactor env (ac_id a) pin s) \<noteq> Inl (PlainError ''data and hash arguments required'')"
    by (auto simp: wp_alt split: sum.splits)
  then show ?thesis using same like pin by blast
qed

lemma demo_reset_state:
  "h_accounts (as_db (run_auth demo_reset no_accounts)) = [demo_account ''h111111'']"
  by (simp add: demo_reset_def demo_signup_def demo_step1 demo_step2 demo_step3 demo_step4 demo_step5 demo_step6)
    (simp add: demo_db_def)

theorem accounts_stay_sound_witness:
  "account_like (trim ''A@b '') (as_db (run_auth demo_reset no_accounts)) = Some (demo_account ''h111111'')"
proof -
  have "ids_from (\<lambda>n. replicate (Suc n) (CHR ''c'')) demo_reset"
    using demo_ids by (simp add: ids_from_def)
  moreover have "normal_email ''A@b '' = ''a@b''" by code_simp
  ultimately show ?thesis
    using accounts_stay_sound [OF _ refl, of _ demo_reset "demo_account ''h111111''"]
    by (simp add: demo_reset_state demo_account_def)
qed

end
