(* ===== verification/Locks.thy ===== *)
theory Locks
  imports AuthRuns
begin

text \<open>
  Access: what the guard of a route admits, what a run of wrong PINs does to an account, how
  many codes a run of requests gets, and what ends a session.
\<close>

section \<open>The guard\<close>

lemma guard_wp:
  "wp (canActivate env h) (\<lambda>p s'. s' = s \<and> (\<exists>token. extractTokenFromHeader h = Some token
       \<and> ae_verify env AccessSecret token = Some p
       \<and> (jp_userType p = Some ADMIN \<or> (\<exists>a. account_by_id (jp_id p) (as_db s) = Some a \<and> ac_status a \<noteq> StFLAGGED))))
     (\<lambda>_ s'. s' = s) s"
  by (auto simp: canActivate_def wp_simps truthy_def split: option.splits if_splits)

text \<open>What the guard of the authenticated routes admits carries a bearer token that verifies
  with the access secret, and names an admin, or an account that exists and is not flagged;
  the guard changes nothing.\<close>

theorem guard_admits:
  assumes "canActivate env h s = (r, s')"
  shows "s' = s \<and> (\<forall>p. r = Inr p \<longrightarrow> (\<exists>token. extractTokenFromHeader h = Some token
     \<and> ae_verify env AccessSecret token = Some p
     \<and> (jp_userType p = Some ADMIN \<or> (\<exists>a \<in> set (h_accounts (as_db s)). ac_id a = jp_id p \<and> ac_status a \<noteq> StFLAGGED))))"
  using guard_wp [of env h s] assms by (auto simp: wp_def dest!: account_by_id_in split: sum.splits)

lemma guard_refuses:
  assumes "account_by_id i (as_db s) = Some a" and "ac_status a = StFLAGGED"
    and "canActivate env h s = (Inr p, s')"
  shows "jp_userType p = Some ADMIN \<or> jp_id p \<noteq> i"
  using guard_wp [of env h s] assms by (auto simp: wp_def)

text \<open>A request that the guard admits it admits in every state with the same account status.\<close>

lemma guard_run:
  "canActivate env h s = (Inr p, s) \<longleftrightarrow> (\<exists>token. truthy (extractTokenFromHeader h) = Some token
     \<and> ae_verify env AccessSecret token = Some p
     \<and> (jp_userType p = Some ADMIN \<or> (\<exists>a. account_by_id (jp_id p) (as_db s) = Some a \<and> ac_status a \<noteq> StFLAGGED)))"
  by (auto simp: canActivate_def run_simps)

section \<open>Flagging and deletion\<close>

definition update_account :: "string \<Rightarrow> (account \<Rightarrow> account) \<Rightarrow> authDb \<Rightarrow> authDb" where
  "update_account i f d = d\<lparr>h_accounts := update_where (\<lambda>a. ac_id a = i) f (h_accounts d)\<rparr>"

lemma find_update:
  "(\<And>a. p (f a) = p a) \<Longrightarrow> List.find p (update_where q f xs) = map_option (\<lambda>a. if q a then f a else a) (List.find p xs)"
  by (induction xs) (auto simp: update_where_def)

lemma by_id_update:
  "(\<And>a. ac_id (f a) = ac_id a) \<Longrightarrow> account_by_id i (update_account i f d) = map_option f (account_by_id i d)"
  by (cases "account_by_id i d", simp_all add: account_by_id_def update_account_def find_update)
    (drule find_Some_in, simp)

lemma like_update:
  "(\<And>a. ac_email (f a) = ac_email a) \<Longrightarrow>
     account_like m (update_account i f d) = map_option (\<lambda>a. if ac_id a = i then f a else a) (account_like m d)"
  by (simp add: account_like_def update_account_def find_update)

lemma updAccount_run:
  "updAccount i f s = (Inr u, s') \<longleftrightarrow> list_ex (\<lambda>a. ac_id a = i) (h_accounts (as_db s)) \<and> s' = onDb (update_account i f) s"
  by (auto simp: updAccount_def updAccountWhere_def run_simps onDb_def update_account_def)

text \<open>The deletion of an account does not end its sessions: a bearer token the guard admits
  before, it admits after, although a login is refused.\<close>

theorem deleted_account_keeps_access:
  assumes "userRequestToDeleteAccount env i s = (Inr (), s')" and "canActivate env' h s = (Inr p, s)" and "jp_id p = i"
  shows "(\<exists>a. account_by_id i (as_db s') = Some a \<and> ac_status a = StDELETED) \<and> canActivate env' h s' = (Inr p, s')"
proof -
  obtain a where a: "account_by_id i (as_db s) = Some a"
    and s': "as_db s' = update_account i (\<lambda>a. a\<lparr>ac_status := StDELETED\<rparr>) (as_db s)"
    using assms(1) by (auto simp: userRequestToDeleteAccount_def getUserById_def run_simps updAccount_run onDb_def)
  have new: "account_by_id i (as_db s') = Some (a\<lparr>ac_status := StDELETED\<rparr>)"
    using a by (simp add: s' by_id_update)
  then show ?thesis using assms(2,3) by (auto simp: guard_run)
qed

section \<open>Wrong PINs\<close>

definition after_wrong_pin :: "authEnv \<Rightarrow> string \<Rightarrow> int \<Rightarrow> authSys \<Rightarrow> authSys" where
  "after_wrong_pin env i n s = s\<lparr>
     as_temp := (as_temp s)(LOGIN_ATTEMPT_KEY i \<mapsto> (KNum n, Some (ae_now env + 300000))),
     as_db := (if n \<ge> 5 then update_account i (\<lambda>a. a\<lparr>ac_status := StFLAGGED,
        ac_flaggedReason := Some ''Account locked due to multiple failed login attempts''\<rparr>) (as_db s) else as_db s)\<rparr>"

lemma wrong_login_step:
  assumes "account_like (trim (ld_email dto)) (as_db s) = Some a" and "truthy (ac_pin a) = Some h"
    and "ac_status a \<noteq> StDELETED" and "\<not> ae_match env (ld_pin dto) h"
  shows "perform env (Login dto) s = after_wrong_pin env (ac_id a)
     (attempts_of (key_live env (LOGIN_ATTEMPT_KEY (ac_id a)) s) + 1) s"
proof -
  let ?t = "after_wrong_pin env (ac_id a) (attempts_of (key_live env (LOGIN_ATTEMPT_KEY (ac_id a)) s) + 1) s"
  have "a \<in> set (h_accounts (as_db s))"
    using assms(1) unfolding account_like_def by (drule_tac find_Some_in) simp
  then have "list_ex (\<lambda>b. ac_id b = ac_id a) (h_accounts (as_db s))" by (auto simp: list_ex_iff)
  then have "wp (validateUser env dto) (\<lambda>_ s'. s' = ?t) (\<lambda>_ s'. s' = ?t) s"
    using assms by (simp add: validateUser_def failedLogin_def recordFailedLoginAttempt_def Let_def wp_simps
      LOGIN_ATTEMPT_LIMIT_def LOGIN_ATTEMPT_TTL_SECONDS_def updAccount_def updAccountWhere_def onDb_def update_account_def
      after_wrong_pin_def)
  then show ?thesis by (simp add: perform_def snd_is)
qed

definition login_run :: "(authEnv \<times> loginDto) list \<Rightarrow> (authEnv \<times> authAction) list" where
  "login_run tries = map (\<lambda>(env, dto). (env, Login dto)) tries"

text \<open>
  The account under attack: its addresses find it, its PIN is \<open>h\<close>; \<open>k\<close> wrong PINs are
  counted until \<open>t\<close> plus five minutes, and five flag it.
\<close>

definition attacked :: "string set \<Rightarrow> string \<Rightarrow> string \<Rightarrow> nat \<Rightarrow> int \<Rightarrow> authSys \<Rightarrow> bool" where
  "attacked ms i h k t s \<longleftrightarrow>
     (\<exists>a. (\<forall>m \<in> ms. account_like (trim m) (as_db s) = Some a) \<and> ac_id a = i \<and> truthy (ac_pin a) = Some h
        \<and> ac_status a \<noteq> StDELETED)
   \<and> (\<forall>n x. as_temp s (LOGIN_ATTEMPT_KEY i) = Some (KNum n, x) \<longrightarrow> 0 \<le> n)
   \<and> (k = 0 \<or> (\<exists>n. as_temp s (LOGIN_ATTEMPT_KEY i) = Some (KNum n, Some (t + 300000)) \<and> int k \<le> n))
   \<and> (5 \<le> k \<longrightarrow> (\<exists>b. account_by_id i (as_db s) = Some b \<and> ac_status b = StFLAGGED))"

lemma attacked_step:
  assumes "attacked ms i h k t s" and "ld_email dto \<in> ms" and "\<not> ae_match env (ld_pin dto) h"
    and "k = 0 \<or> ae_now env < t + 300000"
  shows "attacked ms i h (Suc k) (ae_now env) (perform env (Login dto) s)"
proof -
  obtain a where a: "\<And>m. m \<in> ms \<Longrightarrow> account_like (trim m) (as_db s) = Some a" "ac_id a = i"
      "truthy (ac_pin a) = Some h" "ac_status a \<noteq> StDELETED"
    using assms(1) by (auto simp: attacked_def)
  let ?n = "attempts_of (key_live env (LOGIN_ATTEMPT_KEY i) s)"
  have n: "int k \<le> ?n"
    using assms(1,4) by (auto simp: attacked_def attempts_of_def key_live_def live_def split: option.splits authValue.splits)
  have step: "perform env (Login dto) s = after_wrong_pin env i (?n + 1) s"
    using wrong_login_step [OF a(1) [OF assms(2)] a(3,4)] assms(3) a(2) by simp
  have "a \<in> set (h_accounts (as_db s))"
    using a(1) [OF assms(2)] unfolding account_like_def by (drule_tac find_Some_in) simp
  then obtain b where b: "account_by_id i (as_db s) = Some b"
    using a(2) by (cases "account_by_id i (as_db s)") (auto simp: account_by_id_def find_None_iff)
  show ?thesis unfolding step using n a b by (auto simp: attacked_def after_wrong_pin_def like_update by_id_update)
qed

lemma attacked_run:
  assumes "attacked ms i h k t s" and "\<forall>(env, dto) \<in> set tries. ld_email dto \<in> ms \<and> \<not> ae_match env (ld_pin dto) h"
    and "successively (\<lambda>(e, _) (e', _). ae_now e' < ae_now e + 300000) tries"
    and "k = 0 \<or> tries = [] \<or> ae_now (fst (hd tries)) < t + 300000"
  shows "\<exists>t'. attacked ms i h (k + length tries) t' (run_auth (login_run tries) s)"
  using assms
proof (induction tries arbitrary: k t s)
  case Nil
  then show ?case by (auto simp: login_run_def)
next
  case (Cons x tries)
  obtain env dto where x: "x = (env, dto)" by fastforce
  have "attacked ms i h (Suc k) (ae_now env) (perform env (Login dto) s)"
    using attacked_step [OF Cons.prems(1)] Cons.prems(2,4) x by auto
  moreover have "tries = [] \<or> ae_now (fst (hd tries)) < ae_now env + 300000"
    using Cons.prems(3) x by (cases tries) auto
  moreover have "successively (\<lambda>(e, _) (e', _). ae_now e' < ae_now e + 300000) tries"
    using Cons.prems(3) by (cases tries) (auto simp: successively_Cons)
  ultimately show ?case using Cons.IH [of "Suc k" "ae_now env" "perform env (Login dto) s"] Cons.prems(2)
    by (simp add: x login_run_def)
qed

text \<open>C31: Five logins with a wrong PIN, each within five minutes of the one before, flag the
  account, and from then on the guard refuses every token of it.\<close>

theorem wrong_pins_lock:
  assumes "5 \<le> length tries" and "account_like (trim m) (as_db s) = Some a" and "truthy (ac_pin a) = Some h"
    and "ac_status a \<noteq> StDELETED" and "as_temp s (LOGIN_ATTEMPT_KEY (ac_id a)) = None"
    and "\<forall>(env, dto) \<in> set tries. ld_email dto = m \<and> \<not> ae_match env (ld_pin dto) h"
    and "successively (\<lambda>(e, _) (e', _). ae_now e' < ae_now e + 300000) tries"
  shows "(\<exists>b. account_by_id (ac_id a) (as_db (run_auth (login_run tries) s)) = Some b \<and> ac_status b = StFLAGGED)
    \<and> (\<forall>env header p s'. canActivate env header (run_auth (login_run tries) s) = (Inr p, s')
      \<longrightarrow> jp_userType p = Some ADMIN \<or> jp_id p \<noteq> ac_id a)"
proof -
  have "attacked {m} (ac_id a) h 0 0 s" using assms by (auto simp: attacked_def)
  from attacked_run [OF this _ assms(7)] assms(6)
  obtain t' where "attacked {m} (ac_id a) h (length tries) t' (run_auth (login_run tries) s)" by force
  then have "\<exists>b. account_by_id (ac_id a) (as_db (run_auth (login_run tries) s)) = Some b \<and> ac_status b = StFLAGGED"
    using assms(1) by (auto simp: attacked_def)
  then show ?thesis using guard_refuses by blast
qed

section \<open>Codes on request\<close>

definition codes_sent :: "string \<Rightarrow> authSys \<Rightarrow> nat" where
  "codes_sent m s = length (filter (\<lambda>x. case x of Mail to kind (Some _) \<Rightarrow> to = m \<and> kind = ''SIGNUP_INITIATE'' | _ \<Rightarrow> False)
     (as_log s))"

lemma resend_step:
  "let s' = perform env (Resend e) s; m = normal_email e; n = attempts_of (key_live env (RESEND_KEY m) s) in
   s' = s \<or> n < 5 \<and> codes_sent m s' = codes_sent m s + 1
     \<and> as_temp s' (RESEND_KEY m) = Some (KNum (n + 1), Some (ae_now env + 3600000))"
proof -
  let ?m = "normal_email e"
  let ?n = "attempts_of (key_live env (RESEND_KEY ?m) s)"
  let ?P = "\<lambda>s'. s' = s \<or> ?n < 5 \<and> codes_sent ?m s' = codes_sent ?m s + 1
     \<and> as_temp s' (RESEND_KEY ?m) = Some (KNum (?n + 1), Some (ae_now env + 3600000))"
  have [simp]: "LAST_RESEND_KEY x \<noteq> RESEND_KEY y" "RESEND_KEY y \<noteq> LAST_RESEND_KEY x" for x y
    by (simp_all add: LAST_RESEND_KEY_def RESEND_KEY_def)
  have "wp (resendOtp env e) (\<lambda>_. ?P) (\<lambda>_. ?P) s"
    by (simp add: resendOtp_def Let_def wp_simps RESEND_MAX_PER_HOUR_def codes_sent_def)
  then show ?thesis by (simp add: perform_def Let_def wp_alt split: sum.splits)
qed

definition resend_run :: "string \<Rightarrow> authEnv list \<Rightarrow> (authEnv \<times> authAction) list" where
  "resend_run e envs = map (\<lambda>env. (env, Resend e)) envs"

text \<open>Nothing sent yet, or a count that outlives the hour up to \<open>t\<close>.\<close>

definition metered :: "string \<Rightarrow> nat \<Rightarrow> int \<Rightarrow> authSys \<Rightarrow> bool" where
  "metered m c t s \<longleftrightarrow> (\<forall>n x. as_temp s (RESEND_KEY m) = Some (KNum n, x) \<longrightarrow> 0 \<le> n)
     \<and> (codes_sent m s = c \<or> (\<exists>n x. as_temp s (RESEND_KEY m) = Some (KNum n, Some x) \<and> t < x
          \<and> int (codes_sent m s) \<le> int c + n \<and> n \<le> 5))"

lemma metered_step:
  assumes "metered (normal_email e) c t s" and "ae_now env \<le> t" and "t < ae_now env + 3600000"
  shows "metered (normal_email e) c t (perform env (Resend e) s)"
proof -
  let ?m = "normal_email e" and ?s = "perform env (Resend e) s"
  let ?n = "attempts_of (key_live env (RESEND_KEY ?m) s)"
  from resend_step [of env e s, unfolded Let_def] show ?thesis
  proof
    assume "?s = s" then show ?thesis using assms(1) by simp
  next
    assume new: "?n < 5 \<and> codes_sent ?m ?s = codes_sent ?m s + 1
       \<and> as_temp ?s (RESEND_KEY ?m) = Some (KNum (?n + 1), Some (ae_now env + 3600000))"
    have "0 \<le> ?n" "int (codes_sent ?m s) \<le> int c + ?n"
      using assms(1,2) by (auto simp: metered_def attempts_of_def key_live_def live_def split: option.splits authValue.splits)
    then show ?thesis using new assms(3) by (auto simp: metered_def)
  qed
qed

text \<open>Within an hour an address gets at most five codes by asking for them again.\<close>

theorem resends_bounded:
  assumes "\<forall>env \<in> set envs. t0 \<le> ae_now env \<and> ae_now env < t0 + 3600000"
    and "as_temp s (RESEND_KEY (normal_email e)) = None"
  shows "codes_sent (normal_email e) (run_auth (resend_run e envs) s) \<le> codes_sent (normal_email e) s + 5"
proof -
  have "metered (normal_email e) c (t0 + 3599999) (run_auth (resend_run e envs) s)"
    if "metered (normal_email e) c (t0 + 3599999) s" for c s
    using that assms(1)
  proof (induction envs arbitrary: s)
    case Nil
    then show ?case by (simp add: resend_run_def)
  next
    case (Cons env envs)
    have "metered (normal_email e) c (t0 + 3599999) (perform env (Resend e) s)"
      using metered_step [OF Cons.prems(1), of env] Cons.prems(2) by simp
    then show ?case using Cons.IH Cons.prems(2) by (simp add: resend_run_def)
  qed
  from this [of "codes_sent (normal_email e) s" s] show ?thesis using assms(2) by (auto simp: metered_def)
qed

section \<open>Examples\<close>

definition demo_state :: authSys where
  "demo_state = \<lparr>as_db = demo_db (demo_account ''h111111'') [] [], as_temp = Map.empty, as_log = []\<rparr>"

lemma demo_state_simps [simp]:
  "account_by_id ''c'' (as_db demo_state) = Some (demo_account ''h111111'')"
  "account_like (trim ''a@b'') (as_db demo_state) = Some (demo_account ''h111111'')"
  "as_temp demo_state = Map.empty"
  by (simp_all add: demo_state_def demo_defs account_like_def ieq_def)

lemma demo_account_simps [simp]:
  "ac_id (demo_account p) = ''c''" "ac_status (demo_account p) = StACTIVE" "ac_pin (demo_account p) = Some p"
  by (simp_all add: demo_account_def)

lemma demo_bearer: "canActivate (demo_env t u) (Some ''Bearer a-c'') demo_state = (Inr (identity ''c'' INDIVIDUAL), demo_state)"
  by (simp add: guard_run extractTokenFromHeader_def truthy_def) (simp add: demo_env_def identity_def)

theorem guard_admits_witness:
  "\<exists>token. extractTokenFromHeader (Some ''Bearer a-c'') = Some token
     \<and> ae_verify (demo_env 0 []) AccessSecret token = Some (identity ''c'' INDIVIDUAL)"
  using guard_admits [OF demo_bearer [of 0 "[]"]] by auto

lemma demo_delete:
  "userRequestToDeleteAccount (demo_env 0 []) ''c'' demo_state = (Inr (), onDb (update_account ''c'' (\<lambda>a. a\<lparr>ac_status := StDELETED\<rparr>))
     (demo_state\<lparr>as_log := [StatsUpdate False 2 StDELETED]\<rparr>))"
  by (auto simp: userRequestToDeleteAccount_def getUserById_def run_simps updAccount_run)
    (simp_all add: demo_state_def demo_defs)

theorem deleted_account_keeps_access_witness:
  "\<exists>s'. userRequestToDeleteAccount (demo_env 0 []) ''c'' demo_state = (Inr (), s')
     \<and> canActivate (demo_env 1 []) (Some ''Bearer a-c'') s' = (Inr (identity ''c'' INDIVIDUAL), s')"
  using deleted_account_keeps_access [OF demo_delete demo_bearer [of 1 "[]"]] demo_delete by (auto simp: identity_def)

definition demo_login :: "string \<Rightarrow> loginDto" where
  "demo_login pin = \<lparr>ld_email = ''a@b'', ld_pin = pin, ld_device = demo_device\<rparr>"

theorem wrong_pins_lock_witness:
  "\<exists>b. account_by_id ''c'' (as_db (run_auth (login_run (replicate 5 (demo_env 0 [], demo_login ''0''))) demo_state)) = Some b
     \<and> ac_status b = StFLAGGED"
proof -
  have "successively (\<lambda>(e, _) (e', _). ae_now e' < ae_now e + 300000) (replicate 5 (demo_env 0 [], demo_login ''0''))"
    by (simp add: numeral_eq_Suc)
  moreover have "\<forall>(env, dto) \<in> set (replicate 5 (demo_env 0 [], demo_login ''0'')). ld_email dto = ''a@b'' \<and> \<not> ae_match env (ld_pin dto) ''h111111''"
    by (simp add: demo_login_def demo_env_def)
  ultimately show ?thesis
    using wrong_pins_lock [of "replicate 5 (demo_env 0 [], demo_login ''0'')" "''a@b''" demo_state "demo_account ''h111111''" "''h111111''"]
    by (simp add: truthy_def)
qed

theorem resends_bounded_witness:
  "codes_sent ''a@b'' (run_auth (resend_run ''a@b'' (replicate 7 (demo_env 0 []))) no_accounts) \<le> 5"
  using resends_bounded [of "replicate 7 (demo_env 0 [])" 0 no_accounts "''a@b''"]
  by (simp add: codes_sent_def no_accounts_def)

end
