(* ===== verification/Links.thy ===== *)
theory Links
  imports Locks
begin

text \<open>Sessions and reset links: what ends a session, how often a link can be asked for and used.\<close>

section \<open>Sessions\<close>

text \<open>No request for a new access token succeeds, whatever the refresh token and the state:
  the verified token, of which the type is checked, is returned without its type.\<close>

theorem refresh_never_succeeds:
  "\<exists>e. fst (refreshAccessToken env refreshToken s) = Inl e"
proof (cases "fst (refreshAccessToken env refreshToken s)")
  case (Inr x)
  then show ?thesis using fst_run [OF Inr] refreshAccess_run by blast
qed auto

text \<open>A logout ends the session of its refresh token: the token is refused afterwards, at any
  time.\<close>

theorem logout_ends_session:
  assumes "logout env refreshToken s = (Inr (), s')"
  shows "\<exists>e. fst (verifyRefreshToken env' refreshToken s') = Inl e"
proof (cases "fst (verifyRefreshToken env' refreshToken s')")
  case (Inr p)
  then show ?thesis using fst_run [OF Inr] logout_run [OF assms] by (auto simp: verifyRefreshToken_run)
qed auto

section \<open>Reset links\<close>

definition has_link :: "string \<Rightarrow> authSys \<Rightarrow> bool" where
  "has_link i s \<longleftrightarrow> (\<exists>t \<in> set (h_tokens (as_db s)). tk_adminId t = Some i \<and> tk_type t = TkPASSWORD_RESET)"

lemma has_link_accounts: "has_link i (onDb (\<lambda>d. d\<lparr>h_accounts := f d\<rparr>) s) = has_link i s"
  by (simp add: has_link_def onDb_def)

lemma has_link_update:
  assumes "\<And>t. tk_userId (g t) = tk_userId t \<and> tk_adminId (g t) = tk_adminId t \<and> tk_type (g t) = tk_type t"
    and "has_link i s"
  shows "has_link i (onDb (\<lambda>d. d\<lparr>h_tokens := update_where q g (h_tokens d)\<rparr>) s)"
proof -
  obtain t where t: "t \<in> set (h_tokens (as_db s))" "tk_adminId t = Some i" "tk_type t = TkPASSWORD_RESET"
    using assms(2) by (auto simp: has_link_def)
  then have "(if q t then g t else t) \<in> set (update_where q g (h_tokens (as_db s)))" by (simp add: update_where_def)
  then show ?thesis using t assms(1) unfolding has_link_def onDb_def by (intro bexI) auto
qed

interpretation link: auth_invariant "has_link i" "\<lambda>_. True" "\<lambda>_ _. True" for i
proof (unfold_locales, simp_all add: has_link_accounts has_link_update)
qed (auto simp: has_link_def onDb_def)

lemma link_complete: "preserves (has_link i) (completeClientSignUp env j dto)"
  by (rule link.keep_complete) (simp add: has_link_accounts)

lemma link_perform: "has_link i s \<Longrightarrow> has_link i (perform env x s)"
  by (cases x) (simp_all add: perform_def preservesD [OF link.keep_signup] preservesD [OF link.keep_resendOtp]
    preservesD [OF link.keep_users(1)] preservesD [OF link.keep_users(2)] preservesD [OF link.keep_users(3)]
    preservesD [OF link.keep_users(4)] preservesD [OF link.keep_users(5)] preservesD [OF link.keep_users(6)]
    preservesD [OF link.keep_users(7)] preservesD [OF link.keep_admins(1)] preservesD [OF link.keep_admins(2)]
    preservesD [OF link.keep_admins(3)] preservesD [OF link.keep_admins(4)] preservesD [OF link.keep_admins(5)]
    preservesD [OF link.keep_admins(6)] preservesD [OF link.keep_pins(1)] preservesD [OF link.keep_pins(2)]
    preservesD [OF link.keep_first_pin] preservesD [OF link.keep_second_factor] preservesD [OF link.keep_codes(1)]
    preservesD [OF link.keep_codes(2)] preservesD [OF link.keep_codes(3)] preservesD [OF link.keep_codes(4)]
    preservesD [OF link_complete])

lemma link_run: "has_link i s \<Longrightarrow> has_link i (run_auth xs s)"
  by (induction xs s rule: run_auth.induct) (simp_all add: link_perform)

definition admin_like :: "string \<Rightarrow> authDb \<Rightarrow> admin option" where
  "admin_like email d = List.find (\<lambda>a. ieq (ad_email a) email) (h_admins d)"

lemma reset_millis: "parseExpiresIn (ExpText ''15m'') = Inr 900000"
  by code_simp

lemma forgotPassword_wp:
  assumes "admin_like email (as_db s) = Some a"
  shows "wp (forgotPassword env email) Q E s =
    (let t = \<lparr>tk_token = ae_sign env ResetSecret ''15m'' (typed_payload (ad_id a) TkPASSWORD_RESET), tk_type = TkPASSWORD_RESET,
         tk_userType = ADMIN, tk_userId = None, tk_adminId = Some (ad_id a), tk_expiresAt = ae_now env + 900000, tk_isRevoked = False\<rparr>
     in if list_ex (token_conflict t) (h_tokens (as_db s)) then E (PrismaError ''P2002'') s
        else Q () (s\<lparr>as_db := (as_db s)\<lparr>h_tokens := h_tokens (as_db s) @ [t]\<rparr>,
          as_log := as_log s @ [ResetLink (ad_email a) (trim (ad_fullName a)) (ae_adminUrl env @ ''/reset-password?token='' @ tk_token t)]\<rparr>))"
  using assms by (simp add: forgotPassword_def findAdminByEmail_def admin_like_def wp_simps generateResetPasswordToken_def
    generateToken_def getSecretForTokenType_def reset_millis createToken_def onDb_def Let_def)

lemma link_conflict:
  assumes "has_link i s" and "tk_adminId t = Some i" and "tk_type t = TkPASSWORD_RESET"
  shows "list_ex (token_conflict t) (h_tokens (as_db s))"
proof -
  obtain x where x: "x \<in> set (h_tokens (as_db s))" "tk_adminId x = Some i" "tk_type x = TkPASSWORD_RESET"
    using assms(1) by (auto simp: has_link_def)
  then have "token_conflict t x" using assms(2,3) by (simp add: token_conflict_def)
  then show ?thesis using x(1) by (auto simp: list_ex_iff)
qed

text \<open>An admin gets one reset link, ever: after a request that succeeded, every later request
  for the same admin fails on the unique constraint of the token table and sends nothing, as
  no operation removes the row of the first link, used or expired.\<close>

theorem second_reset_link_refused:
  assumes "forgotPassword env email s = (Inr (), s1)" and "admin_like email (as_db s) = Some a"
    and "admin_like email' (as_db (run_auth xs s1)) = Some b" and "ad_id b = ad_id a"
  shows "forgotPassword env' email' (run_auth xs s1) = (Inl (PrismaError ''P2002''), run_auth xs s1)"
proof -
  have "wp (forgotPassword env email) (\<lambda>_ s'. has_link (ad_id a) s') (\<lambda>_ _. True) s"
    by (simp add: forgotPassword_wp [OF assms(2)] Let_def has_link_def)
  then have "has_link (ad_id a) (run_auth xs s1)" using assms(1) link_run by (auto simp: wp_def)
  note conflict = link_conflict [OF this]
  have "wp (forgotPassword env' email') (\<lambda>_ _. False) (\<lambda>e s'. e = PrismaError ''P2002'' \<and> s' = run_auth xs s1) (run_auth xs s1)"
    using assms(4) by (simp add: forgotPassword_wp [OF assms(3)] Let_def conflict)
  then show ?thesis by (auto simp: wp_def split: prod.splits sum.splits)
qed

text \<open>The row of the link, and whom it is for, after the password was set.\<close>

lemma find_token_update:
  "token_row token (d\<lparr>h_admins := as, h_tokens := update_where (\<lambda>x. tk_token x = token) (\<lambda>x. x\<lparr>tk_isRevoked := True\<rparr>) (h_tokens d)\<rparr>)
     = map_option (\<lambda>x. x\<lparr>tk_isRevoked := True\<rparr>) (token_row token d)"
  by (cases "token_row token d", simp_all add: token_row_def find_update) (drule find_Some_in, simp)

lemma admin_by_id_update:
  "admin_by_id j (d\<lparr>h_admins := update_where (\<lambda>x. ad_id x = i) (\<lambda>x. x\<lparr>ad_password := pw\<rparr>) (h_admins d), h_tokens := ts\<rparr>)
     = map_option (\<lambda>x. if ad_id x = i then x\<lparr>ad_password := pw\<rparr> else x) (admin_by_id j d)"
  by (simp add: admin_by_id_def find_update)

lemma target_kept: "reset_target (t\<lparr>tk_isRevoked := True\<rparr>) (password_set i pw token d) = reset_target t d"
  by (auto simp: reset_target_def token_admin_def token_user_def password_set_def admin_by_id_update account_by_id_def
      split: option.splits)

text \<open>A reset link stays good after it was used: until it expires, it sets the password again,
  although its token is marked revoked, as verification does not look at the mark.\<close>

theorem reset_link_reusable:
  assumes "resetPassword env token password s = (Inr (), s1)" and "token_row token (as_db s) = Some t"
    and "ae_verify env' ResetSecret token = ae_verify env ResetSecret token" and "ae_now env' \<le> tk_expiresAt t"
  shows "(\<exists>t'. token_row token (as_db s1) = Some t' \<and> tk_isRevoked t')
     \<and> (\<exists>i s2. resetPassword env' token password' s1 = (Inr (), s2)
          \<and> (\<exists>a. admin_by_id i (as_db s2) = Some a \<and> ad_password a = ae_hash env' password'))"
proof -
  obtain i a where v: "verifyToken env token TkPASSWORD_RESET s = (Inr t, s)" and i: "reset_target t (as_db s) = Some i"
    and a: "admin_by_id i (as_db s) = Some a" "ad_accountStatus a = AcACTIVE"
    and s1: "s1 = onDb (password_set i (ae_hash env password) token) s"
    using resetPassword_run [OF assms(1)] assms(2) by (auto simp: verifyToken_run)
  let ?t = "t\<lparr>tk_isRevoked := True\<rparr>"
  have row: "token_row token (as_db s1) = Some ?t"
    using assms(2) by (simp add: s1 onDb_def password_set_def find_token_update)
  have v1: "verifyToken env' token TkPASSWORD_RESET s1 = (Inr ?t, s1)"
    using v assms(3,4) row by (simp add: verifyToken_run)
  have i1: "reset_target ?t (as_db s1) = Some i" using i by (simp add: s1 onDb_def target_kept)
  have ai: "ad_id a = i" using a(1) by (rule admin_by_id_id)
  then have a1: "admin_by_id i (as_db s1) = Some (a\<lparr>ad_password := ae_hash env password\<rparr>)"
    using a(1) by (simp add: s1 onDb_def password_set_def admin_by_id_update)
  have "resetPassword env' token password' s1 = (Inr (), onDb (password_set i (ae_hash env' password') token) s1)"
    using resetPassword_ok [OF v1 i1 a1] a(2) by simp
  moreover have "admin_by_id i (as_db (onDb (password_set i (ae_hash env' password') token) s1))
      = Some (a\<lparr>ad_password := ae_hash env' password'\<rparr>)"
    using a1 ai by (simp add: onDb_def password_set_def admin_by_id_update)
  ultimately show ?thesis
    by (intro conjI exI [of _ ?t] exI [of _ i] exI [of _ "onDb (password_set i (ae_hash env' password') token) s1"]
      exI [of _ "a\<lparr>ad_password := ae_hash env' password'\<rparr>"] row) simp_all
qed

section \<open>Examples\<close>

lemma demo_logout: "fst (logout (demo_env 0 []) ''r-c'' demo_state) = Inr ()"
  by (simp add: logout_def verifyRefreshToken_def demo_state_def demo_defs comp_defs readA_def demo_env_def refresh_payload_def
    refresh_row_def session_row_def identity_def updAccount_def updAccountWhere_def revokeToken_def updToken_def token_row_def)

theorem logout_ends_session_witness:
  "\<exists>e. fst (verifyRefreshToken (demo_env 1 []) ''r-c'' (snd (logout (demo_env 0 []) ''r-c'' demo_state))) = Inl e"
  by (rule logout_ends_session [OF fst_run [OF demo_logout]])

definition demo_admin :: admin where
  "demo_admin = \<lparr>ad_id = ''x'', ad_email = ''x@y'', ad_password = ''h0'', ad_firstName = ''X'', ad_lastName = ''Y'',
     ad_fullName = ''X Y'', ad_phoneNumber = None, ad_gender = None, ad_residentialAddress = None, ad_country = None,
     ad_role = SUPER_ADMIN, ad_internalRoleId = None, ad_accountStatus = AcACTIVE, ad_refreshToken = None\<rparr>"

definition admin_state :: authSys where
  "admin_state = onDb (\<lambda>d. d\<lparr>h_admins := [demo_admin]\<rparr>) no_accounts"

definition link_row :: tokenRow where
  "link_row = \<lparr>tk_token = ''p-x'', tk_type = TkPASSWORD_RESET, tk_userType = ADMIN, tk_userId = None, tk_adminId = Some ''x'',
     tk_expiresAt = 900000, tk_isRevoked = False\<rparr>"

definition link_state :: authSys where
  "link_state = snd (forgotPassword (demo_env 0 []) ''x@y'' admin_state)"

lemma admin_state_like: "admin_like ''x@y'' (as_db admin_state) = Some demo_admin"
  by (simp add: admin_like_def admin_state_def onDb_def demo_admin_def ieq_def)

lemma link_state_is:
  "forgotPassword (demo_env 0 []) ''x@y'' admin_state = (Inr (), link_state)"
  "link_state = admin_state\<lparr>as_db := (as_db admin_state)\<lparr>h_tokens := [link_row]\<rparr>,
     as_log := [ResetLink ''x@y'' ''X Y'' ''/reset-password?token=p-x'']\<rparr>"
proof -
  have "wp (forgotPassword (demo_env 0 []) ''x@y'') (\<lambda>_ s'. s' = admin_state\<lparr>as_db := (as_db admin_state)\<lparr>h_tokens := [link_row]\<rparr>,
     as_log := [ResetLink ''x@y'' ''X Y'' ''/reset-password?token=p-x'']\<rparr>) (\<lambda>_ _. False) admin_state"
    by (simp add: forgotPassword_wp [OF admin_state_like] Let_def)
      (simp add: admin_state_def onDb_def no_accounts_def demo_admin_def demo_env_def typed_payload_def link_row_def eval_simps)
  then show "forgotPassword (demo_env 0 []) ''x@y'' admin_state = (Inr (), link_state)"
    and "link_state = admin_state\<lparr>as_db := (as_db admin_state)\<lparr>h_tokens := [link_row]\<rparr>,
     as_log := [ResetLink ''x@y'' ''X Y'' ''/reset-password?token=p-x'']\<rparr>"
    by (auto simp: wp_def link_state_def split: prod.splits sum.splits)
qed

theorem second_reset_link_refused_witness:
  "forgotPassword (demo_env 999999999 []) ''X@y'' link_state = (Inl (PrismaError ''P2002''), link_state)"
proof -
  have "ieq ''x@y'' ''X@y''" by code_simp
  then have "admin_like ''X@y'' (as_db link_state) = Some demo_admin"
    by (simp add: link_state_is(2) admin_like_def admin_state_def onDb_def demo_admin_def)
  then show ?thesis
    using second_reset_link_refused [OF link_state_is(1) admin_state_like, of "''X@y''" "[]"] by simp
qed

lemma demo_reset_link:
  "resetPassword (demo_env 1 []) ''p-x'' ''new'' link_state
     = (Inr (), onDb (password_set ''x'' (ae_hash (demo_env 1 []) ''new'') ''p-x'') link_state)"
proof (rule resetPassword_ok)
  show "verifyToken (demo_env 1 []) ''p-x'' TkPASSWORD_RESET link_state = (Inr link_row, link_state)"
    by (simp add: verifyToken_run link_state_is(2) token_row_def link_row_def) (simp add: demo_env_def typed_payload_def)
  show "reset_target link_row (as_db link_state) = Some ''x''"
    by (simp add: reset_target_def token_admin_def link_row_def link_state_is(2) admin_by_id_def admin_state_def onDb_def
      demo_admin_def truthy_def)
  show "admin_by_id ''x'' (as_db link_state) = Some demo_admin"
    by (simp add: link_state_is(2) admin_by_id_def admin_state_def onDb_def demo_admin_def)
  show "ad_accountStatus demo_admin = AcACTIVE" by (simp add: demo_admin_def)
qed

theorem reset_link_reusable_witness:
  "\<exists>s1 s2. resetPassword (demo_env 1 []) ''p-x'' ''new'' link_state = (Inr (), s1)
     \<and> resetPassword (demo_env 2 []) ''p-x'' ''again'' s1 = (Inr (), s2)"
proof -
  have "token_row ''p-x'' (as_db link_state) = Some link_row"
    by (simp add: link_state_is(2) token_row_def link_row_def)
  moreover have "ae_verify (demo_env 2 []) = ae_verify (demo_env 1 [])" "ae_now (demo_env 2 []) \<le> tk_expiresAt link_row"
    by (simp_all add: demo_env_def link_row_def)
  ultimately show ?thesis
    using reset_link_reusable [OF demo_reset_link, of link_row "demo_env 2 []" "''again''"] demo_reset_link by auto
qed

end
