(* ===== verification/RoleSafety.thy ===== *)
theory RoleSafety
  imports Roles Links
begin

text \<open>
  What the guard of the admins grants, and which changes of roles and admins it sees: it
  decides by the token and by two caches, so a change that leaves both is without effect.
\<close>

section \<open>What the guard sees\<close>

definition role_seen :: "authEnv \<Rightarrow> string \<Rightarrow> authSys \<Rightarrow> cachedRole option" where
  "role_seen env roleId s = (case key_live env (ROLE_KEY roleId) s of
      Some (KRole c) \<Rightarrow> Some c | _ \<Rightarrow> map_option cached_of (role_by_id roleId (as_db s)))"

definition admin_role_seen :: "authEnv \<Rightarrow> string \<Rightarrow> authSys \<Rightarrow> string option" where
  "admin_role_seen env i s = (case key_live env (ADMIN_ROLE_KEY i) s of
      Some (KText r) \<Rightarrow> Some r
    | _ \<Rightarrow> (case admin_by_id i (as_db s) of None \<Rightarrow> None | Some a \<Rightarrow> truthy (ad_internalRoleId a)))"

text \<open>The policy: what a token may do, given the roles as the guard sees them.\<close>

definition role_allows :: "cachedRole option \<Rightarrow> string list \<Rightarrow> bool" where
  "role_allows c required \<longleftrightarrow> (case c of None \<Rightarrow> False
     | Some c \<Rightarrow> cr_isActive c \<and> cr_permissions c \<noteq> [] \<and> set required \<subseteq> set (cr_permissions c))"

definition policy :: "authEnv \<Rightarrow> bool \<Rightarrow> string list \<Rightarrow> jwtPayload \<Rightarrow> authSys \<Rightarrow> bool" where
  "policy env superAdminRequired required p s \<longleftrightarrow>
     jp_userType p = Some ADMIN \<and> jp_accountStatus p = Some AcACTIVE
   \<and> (jp_role p = Some SUPER_ADMIN
      \<or> \<not> superAdminRequired \<and> (\<exists>r. truthy (jp_internalRoleId p) = Some r \<and> admin_role_seen env (jp_id p) s = Some r
          \<and> (required = [] \<or> role_allows (role_seen env r s) required)))"

lemma role_keys_differ [simp]:
  "ROLE_KEY r \<noteq> ADMIN_ROLE_KEY i" "ADMIN_ROLE_KEY i \<noteq> ROLE_KEY r"
  "ROLE_KEY r = ROLE_KEY r' \<longleftrightarrow> r = r'" "ADMIN_ROLE_KEY i = ADMIN_ROLE_KEY i' \<longleftrightarrow> i = i'"
  by (simp_all add: ROLE_KEY_def ADMIN_ROLE_KEY_def)

lemma key_live_other [simp]: "k \<noteq> k' \<Longrightarrow> key_live env k (s\<lparr>as_temp := (as_temp s)(k' := v)\<rparr>) = key_live env k s"
  by (simp add: key_live_def)

lemma key_live_db [simp]: "key_live env k (s\<lparr>as_db := d\<rparr>) = key_live env k s"
  by (simp add: key_live_def)

lemma wp_getRoleById:
  "wp (getRoleById env r) (\<lambda>c s'. c = role_seen env r s \<and> as_db s' = as_db s) (\<lambda>_ _. False) s"
  by (auto simp: getRoleById_def wp_simps role_seen_def split: option.splits authValue.splits)

lemma wp_role_permits:
  "wp (role_permits env r required) (\<lambda>_ _. role_allows (role_seen env r s) required)
     (\<lambda>_ _. \<not> role_allows (role_seen env r s) required) s"
  unfolding role_permits_def wp_bind
  by (rule wp_mono [OF wp_getRoleById]) (auto simp: wp_simps role_allows_def list_all_iff subset_iff split: option.splits)

lemma role_seen_other: "as_db s' = as_db s \<Longrightarrow> (\<And>k. k \<noteq> ADMIN_ROLE_KEY i \<Longrightarrow> as_temp s' k = as_temp s k) \<Longrightarrow> role_seen env r s' = role_seen env r s"
  by (auto simp: role_seen_def key_live_def split: option.split authValue.split)

lemma wp_getAdminInternalRoleId:
  "wp (getAdminInternalRoleId env i)
     (\<lambda>r s'. admin_role_seen env i s = Some r \<and> as_db s' = as_db s \<and> (\<forall>k. k \<noteq> ADMIN_ROLE_KEY i \<longrightarrow> as_temp s' k = as_temp s k))
     (\<lambda>_ _. admin_role_seen env i s = None) s"
  by (auto simp: getAdminInternalRoleId_def cacheAdminRole_def wp_simps admin_role_seen_def
      split: option.splits authValue.splits)

lemma wp_guard:
  "wp (rolesGuard env needSuper required (Some p)) (\<lambda>_ _. policy env needSuper required p s) (\<lambda>_ _. \<not> policy env needSuper required p s) s"
proof -
  have "wp (getAdminInternalRoleId env (jp_id p)) (\<lambda>cached. wp (bindM (someM (truthy (jp_internalRoleId p)) (Forbidden ''Role assignment mismatch detected''))
      (\<lambda>roleId. thenM (requireM (cached = roleId) (Forbidden ROLE_CHANGED))
         (if required = [] then returnM () else role_permits env roleId required)))
      (\<lambda>_ _. policy env needSuper required p s) (\<lambda>_ _. \<not> policy env needSuper required p s))
      (\<lambda>_ _. \<not> policy env needSuper required p s) s"
    if "jp_userType p = Some ADMIN" "jp_accountStatus p = Some AcACTIVE" "jp_role p \<noteq> Some SUPER_ADMIN" "\<not> needSuper"
  proof (rule wp_mono [OF wp_getAdminInternalRoleId])
    fix cached and s1 :: authSys
    assume c: "admin_role_seen env (jp_id p) s = Some cached \<and> as_db s1 = as_db s
      \<and> (\<forall>k. k \<noteq> ADMIN_ROLE_KEY (jp_id p) \<longrightarrow> as_temp s1 k = as_temp s k)"
    then have seen: "role_seen env r s1 = role_seen env r s" for r by (intro role_seen_other) auto
    show "wp (bindM (someM (truthy (jp_internalRoleId p)) (Forbidden ''Role assignment mismatch detected''))
      (\<lambda>roleId. thenM (requireM (cached = roleId) (Forbidden ROLE_CHANGED))
         (if required = [] then returnM () else role_permits env roleId required)))
      (\<lambda>_ _. policy env needSuper required p s) (\<lambda>_ _. \<not> policy env needSuper required p s) s1"
      using c that by (auto simp: wp_simps policy_def seen intro!: wp_mono [OF wp_role_permits] split: option.splits)
  qed (use that in \<open>simp add: policy_def\<close>)
  then show ?thesis by (auto simp: rolesGuard_def wp_simps policy_def)
qed

lemma guard_iff: "fst (rolesGuard env needSuper required (Some p) s) = Inr () \<longleftrightarrow> policy env needSuper required p s"
  using wp_guard [of env needSuper required p s] by (auto simp: wp_alt split: sum.splits)

text \<open>C32: The guard of the admins implements the policy: it admits a request exactly when the token
  is an active admin's and of a super admin, or, where none is required, carries the role the
  guard sees for the admin, and that role, if permissions are asked for, is active and has them.\<close>

theorem roles_guard_policy:
  "fst (rolesGuard env superAdminRequired required (Some p) s) = Inr () \<longleftrightarrow>
     jp_userType p = Some ADMIN \<and> jp_accountStatus p = Some AcACTIVE
   \<and> (jp_role p = Some SUPER_ADMIN
      \<or> \<not> superAdminRequired \<and> (\<exists>r. truthy (jp_internalRoleId p) = Some r \<and> admin_role_seen env (jp_id p) s = Some r
          \<and> (required = [] \<or> role_allows (role_seen env r s) required)))"
  by (simp add: guard_iff policy_def)

section \<open>Changes the guard does not see\<close>

text \<open>The caches hold what their services write, without an expiry.\<close>

definition caches_ok :: "authSys \<Rightarrow> bool" where
  "caches_ok s \<longleftrightarrow>
     (\<forall>i v x. as_temp s (ADMIN_ROLE_KEY i) = Some (v, x) \<longrightarrow> x = None \<and> (\<exists>r. v = KText r \<and> r \<noteq> []))
   \<and> (\<forall>r v x. as_temp s (ROLE_KEY r) = Some (v, x) \<longrightarrow> x = None \<and> (\<exists>c. v = KRole c))"

lemma admin_role_cached:
  "caches_ok s \<Longrightarrow> as_temp s (ADMIN_ROLE_KEY i) = Some (KText r, x) \<Longrightarrow> admin_role_seen env i s = Some r"
  unfolding caches_ok_def admin_role_seen_def key_live_def by (fastforce simp: live_def)

lemma caches_ok_set:
  "caches_ok s \<Longrightarrow> caches_ok (s\<lparr>as_temp := (as_temp s)(ROLE_KEY r \<mapsto> (KRole c, None))\<rparr>)"
  "caches_ok s \<Longrightarrow> q \<noteq> [] \<Longrightarrow> caches_ok (s\<lparr>as_temp := (as_temp s)(ADMIN_ROLE_KEY i \<mapsto> (KText q, None))\<rparr>)"
  by (auto simp: caches_ok_def)

lemma role_seen_always:
  "caches_ok s \<Longrightarrow> as_temp s' = as_temp s \<Longrightarrow> h_roles (as_db s') = h_roles (as_db s) \<Longrightarrow> role_seen env' r s' = role_seen env r s"
  unfolding caches_ok_def role_seen_def key_live_def role_by_id_def
  by (cases "as_temp s (ROLE_KEY r)") (fastforce simp: live_def)+

text \<open>What a request that is admitted leaves: the admin's role is cached.\<close>

definition granted :: "authEnv \<Rightarrow> string list \<Rightarrow> jwtPayload \<Rightarrow> authSys \<Rightarrow> bool" where
  "granted env required p s \<longleftrightarrow> caches_ok s \<and> (\<exists>r. truthy (jp_internalRoleId p) = Some r
     \<and> (\<exists>x. as_temp s (ADMIN_ROLE_KEY (jp_id p)) = Some (KText r, x))
     \<and> (required = [] \<or> role_allows (role_seen env r s) required))"

lemma wp_getRoleById_caches:
  "caches_ok s \<Longrightarrow> wp (getRoleById env r)
     (\<lambda>c s'. c = role_seen env r s \<and> as_db s' = as_db s \<and> caches_ok s' \<and> role_seen env r s' = role_seen env r s
        \<and> (\<forall>i. as_temp s' (ADMIN_ROLE_KEY i) = as_temp s (ADMIN_ROLE_KEY i))) (\<lambda>_ _. False) s"
  by (auto simp: getRoleById_def wp_simps role_seen_def key_live_def live_def caches_ok_set
      split: option.split authValue.split)

lemma wp_getAdminInternalRoleId_caches:
  "caches_ok s \<Longrightarrow> wp (getAdminInternalRoleId env i)
     (\<lambda>r s'. as_db s' = as_db s \<and> caches_ok s' \<and> (\<exists>x. as_temp s' (ADMIN_ROLE_KEY i) = Some (KText r, x))) (\<lambda>_ _. True) s"
  by (auto simp: getAdminInternalRoleId_def cacheAdminRole_def wp_simps key_live_def caches_ok_set truthy_def
      split: option.splits authValue.splits if_splits)

lemma wp_role_permits_caches:
  "caches_ok s \<Longrightarrow> wp (role_permits env r required)
     (\<lambda>_ s'. as_db s' = as_db s \<and> caches_ok s' \<and> (\<forall>i. as_temp s' (ADMIN_ROLE_KEY i) = as_temp s (ADMIN_ROLE_KEY i))
        \<and> role_allows (role_seen env r s') required) (\<lambda>_ _. True) s"
  unfolding role_permits_def wp_bind
  by (rule wp_mono [OF wp_getRoleById_caches])
    (auto simp: wp_simps role_allows_def list_all_iff subset_iff split: option.splits)

lemma wp_guard_granted:
  assumes "caches_ok s" "jp_role p \<noteq> Some SUPER_ADMIN"
  shows "wp (rolesGuard env needSuper required (Some p)) (\<lambda>_ s'. granted env required p s' \<and> as_db s' = as_db s) (\<lambda>_ _. True) s"
proof -
  have "wp (getAdminInternalRoleId env (jp_id p)) (\<lambda>cached. wp (bindM (someM (truthy (jp_internalRoleId p)) (Forbidden ''Role assignment mismatch detected''))
      (\<lambda>roleId. thenM (requireM (cached = roleId) (Forbidden ROLE_CHANGED))
         (if required = [] then returnM () else role_permits env roleId required)))
      (\<lambda>_ s'. granted env required p s' \<and> as_db s' = as_db s) (\<lambda>_ _. True)) (\<lambda>_ _. True) s"
    by (rule wp_mono [OF wp_getAdminInternalRoleId_caches])
      (use assms in \<open>auto simp: wp_simps granted_def split: option.split intro!: wp_mono [OF wp_role_permits_caches]\<close>)
  then show ?thesis using assms(2) by (auto simp: rolesGuard_def wp_simps)
qed

lemma guard_granted:
  assumes "rolesGuard env needSuper required (Some p) s = (Inr (), s1)" "caches_ok s" "jp_role p \<noteq> Some SUPER_ADMIN"
  shows "granted env required p s1 \<and> as_db s1 = as_db s"
  using wp_guard_granted [OF assms(2,3), of env needSuper required] assms(1) by (simp add: wp_alt)

text \<open>A grant lasts as long as the caches and the roles stay.\<close>

lemma grant_lasts:
  assumes g: "rolesGuard env needSuper required (Some p) s = (Inr (), s1)" and ok: "caches_ok s"
    and super: "jp_role p \<noteq> Some SUPER_ADMIN"
    and same: "as_temp s2 = as_temp s1" "h_roles (as_db s2) = h_roles (as_db s1)"
  shows "fst (rolesGuard env' needSuper required (Some p) s2) = Inr ()"
proof -
  have gr: "granted env required p s1" using guard_granted [OF g ok super] by simp
  have pol: "policy env needSuper required p s" using guard_iff [of env needSuper required p s] g by simp
  have ok1: "caches_ok s1" using gr by (simp add: granted_def)
  have ok2: "caches_ok s2" using ok1 same(1) by (simp add: caches_ok_def)
  have seen: "role_seen env' r s2 = role_seen env r s1" for r using role_seen_always [OF ok1 same] .
  have "policy env' needSuper required p s2"
    using gr pol super seen admin_role_cached [OF ok2] same(1) unfolding granted_def policy_def by fastforce
  then show ?thesis by (simp add: guard_iff)
qed

lemma grant_row:
  "rolesGuard env needSuper required (Some p) s = (Inr (), s1) \<Longrightarrow> caches_ok s \<Longrightarrow> jp_role p \<noteq> Some SUPER_ADMIN \<Longrightarrow>
     as_db s1 = as_db s"
  using guard_granted by blast

section \<open>Changes of an admin: lemmas\<close>

definition admin_set :: "string \<Rightarrow> (admin \<Rightarrow> admin) \<Rightarrow> authSys \<Rightarrow> authSys" where
  "admin_set i f s = onDb (\<lambda>d. d\<lparr>h_admins := update_where (\<lambda>a. ad_id a = i) f (h_admins d)\<rparr>) s"

lemma admin_set_simps [simp]:
  "as_temp (admin_set i f s) = as_temp s" "h_roles (as_db (admin_set i f s)) = h_roles (as_db s)"
  by (simp_all add: admin_set_def onDb_def)

lemma admin_set_row:
  "admin_by_id i (as_db s) = Some a \<Longrightarrow> (\<And>x. ad_id (f x) = ad_id x) \<Longrightarrow> admin_by_id i (as_db (admin_set i f s)) = Some (f a)"
  by (simp add: admin_by_id_def admin_set_def onDb_def find_update) (drule find_id_Some, simp)

lemma requireSuperAdmin_run: "requireSuperAdmin i s = (Inr u, s') \<Longrightarrow> s' = s"
  by (auto simp: requireSuperAdmin_def run_simps)

lemma revoke_run:
  "revokeAllInternalAccess env superId i s = (Inr True, s') \<Longrightarrow>
     (\<exists>a. admin_by_id i (as_db s) = Some a) \<and> s' = admin_set i (\<lambda>a. a\<lparr>ad_internalRoleId := None\<rparr>) s"
  by (auto simp: revokeAllInternalAccess_def run_simps updAdmin_run onAdminRoleUpdated_def cacheAdminRole_def truthy_def
      admin_set_def dest: requireSuperAdmin_run split: if_splits)

lemma deactivate_run:
  "updateInternalUser env superId i dto s = (Inr UserUpdated, s') \<Longrightarrow> uu_internalRoleId dto \<in> {None, Some None} \<Longrightarrow>
     (\<exists>a. admin_by_id i (as_db s) = Some a) \<and> s' = admin_set i (admin_update dto) s"
  by (auto simp: updateInternalUser_def run_simps updAdmin_run onAdminRoleUpdated_def cacheAdminRole_def truthy_def
      admin_set_def dest: requireSuperAdmin_run split: if_splits option.splits)

section \<open>Changes the guard does not see\<close>

text \<open>The revocation of an admin's access, as the code has it, has no effect on an admin at
  work: it answers that the access is revoked and takes the role from the admin's row, but the
  guard goes on admitting the admin's token wherever it did, at any time.\<close>

theorem revocation_without_effect:
  assumes "caches_ok s" and "jp_role p \<noteq> Some SUPER_ADMIN"
    and "rolesGuard env needSuper required (Some p) s = (Inr (), s1)"
    and "revokeAllInternalAccess env' superId (jp_id p) s1 = (Inr True, s2)"
  shows "(\<exists>a. admin_by_id (jp_id p) (as_db s2) = Some a \<and> ad_internalRoleId a = None)
    \<and> fst (rolesGuard env'' needSuper required (Some p) s2) = Inr ()"
proof -
  obtain a where a: "admin_by_id (jp_id p) (as_db s1) = Some a"
    and s2: "s2 = admin_set (jp_id p) (\<lambda>a. a\<lparr>ad_internalRoleId := None\<rparr>) s1"
    using revoke_run [OF assms(4)] by blast
  have "fst (rolesGuard env'' needSuper required (Some p) s2) = Inr ()"
    by (rule grant_lasts [OF assms(3,1,2)]) (simp_all add: s2)
  moreover have "admin_by_id (jp_id p) (as_db s2) = Some (a\<lparr>ad_internalRoleId := None\<rparr>)"
    unfolding s2 by (rule admin_set_row [OF a]) simp
  ultimately show ?thesis by simp
qed

text \<open>The same of the deactivation of an admin, also when it takes the role: the row says
  deactivated, the guard goes by the status in the token.\<close>

theorem deactivation_without_effect:
  assumes "caches_ok s" and "jp_role p \<noteq> Some SUPER_ADMIN"
    and "rolesGuard env needSuper required (Some p) s = (Inr (), s1)"
    and "updateInternalUser env' superId (jp_id p) dto s1 = (Inr UserUpdated, s2)"
    and "uu_accountStatus dto = Some AcDEACTIVATED" and "uu_internalRoleId dto \<in> {None, Some None}"
  shows "(\<exists>a. admin_by_id (jp_id p) (as_db s2) = Some a \<and> ad_accountStatus a = AcDEACTIVATED)
    \<and> fst (rolesGuard env'' needSuper required (Some p) s2) = Inr ()"
proof -
  obtain a where a: "admin_by_id (jp_id p) (as_db s1) = Some a" and s2: "s2 = admin_set (jp_id p) (admin_update dto) s1"
    using deactivate_run [OF assms(4,6)] by blast
  have "fst (rolesGuard env'' needSuper required (Some p) s2) = Inr ()"
    by (rule grant_lasts [OF assms(3,1,2)]) (simp_all add: s2)
  moreover have "admin_by_id (jp_id p) (as_db s2) = Some (admin_update dto a)"
    unfolding s2 by (rule admin_set_row [OF a]) (simp add: admin_update_def)
  ultimately show ?thesis using assms(5) by (simp add: admin_update_def)
qed

section \<open>A change of role\<close>

lemma truthy_Some: "truthy x = Some r \<Longrightarrow> x = Some r"
  by (auto simp: truthy_def split: option.splits if_splits)

lemma truthy_nonempty: "truthy x = Some r \<Longrightarrow> r \<noteq> []"
  by (auto simp: truthy_def split: option.splits if_splits)

lemma assign_run:
  assumes "updateInternalUser env superId i dto s = (Inr UserUpdated, s')" and "uu_internalRoleId dto = Some (Some r)" "r \<noteq> []"
  shows "as_temp s' (ADMIN_ROLE_KEY i) = Some (KText r, None)"
  using assms
  by (auto simp: updateInternalUser_def run_simps onAdminRoleUpdated_def cacheAdminRole_def truthy_def split: if_splits)

text \<open>When an admin gets another role, the tokens made out to the role before are refused from
  then on, for every request and at any time.\<close>

theorem role_change_refused:
  assumes "updateInternalUser env superId (jp_id p) dto s = (Inr UserUpdated, s')"
    and "uu_internalRoleId dto = Some (Some r)" and "r \<noteq> []"
    and "jp_role p \<noteq> Some SUPER_ADMIN" and "jp_internalRoleId p \<noteq> Some r"
  shows "\<exists>e. fst (rolesGuard env' needSuper required (Some p) s') = Inl e"
proof -
  have "admin_role_seen env' (jp_id p) s' = Some r"
    using assign_run [OF assms(1,2,3)] assms(3) by (simp add: admin_role_seen_def key_live_def live_def)
  then have "\<not> policy env' needSuper required p s'"
    using assms(4,5) by (auto simp: policy_def dest: truthy_Some)
  then show ?thesis using guard_iff [of env' needSuper required p s']
    by (cases "fst (rolesGuard env' needSuper required (Some p) s')") auto
qed

section \<open>A change of a role\<close>

lemma validPermissions_run: "validPermissions ids s = (Inr x, s') \<Longrightarrow> s' = s \<and> x = filter (\<lambda>p. p \<in> set ids) (h_permissions (as_db s))"
  by (auto simp: validPermissions_def run_simps)

lemma newTitle_run: "newTitle role t s = (Inr x, s') \<Longrightarrow> s' = s"
  by (auto simp: newTitle_def run_simps split: option.splits if_splits)

lemma authTx_run: "authTx env l m s = (Inr x, s') \<Longrightarrow> m s = (Inr x, s')"
  by (auto simp: authTx_def split: prod.splits sum.splits option.splits)

definition role_set :: "string \<Rightarrow> (role \<Rightarrow> role) \<Rightarrow> authSys \<Rightarrow> authSys" where
  "role_set i f s = onDb (\<lambda>d. d\<lparr>h_roles := update_where (\<lambda>r. ro_id r = i) f (h_roles d)\<rparr>) s"

definition new_permissions :: "roleDto \<Rightarrow> authDb \<Rightarrow> string list option" where
  "new_permissions dto d = map_option (\<lambda>ids. filter (\<lambda>p. p \<in> set ids) (h_permissions d)) (rd_permissions dto)"

lemma updateRole_run:
  assumes "updateRole env superId i dto s = (Inr ''Role updated successfully'', s')"
  shows "\<exists>role title. role_by_id i (as_db s) = Some role
    \<and> s' = (let s1 = role_set i (role_update title (rd_description dto) (rd_isActive dto) (new_permissions dto (as_db s))) s
            in s1\<lparr>as_temp := (as_temp s1)(ROLE_KEY i \<mapsto> (KRole (cached_of role), None))\<rparr>)"
  using assms unfolding updateRole_def
  by (auto simp: run_simps updRole_def refreshRoleCacheFrom_def role_set_def Let_def new_permissions_def
      dest!: requireSuperAdmin_run authTx_run newTitle_run validPermissions_run split: if_splits option.splits)

lemma role_update_id [simp]: "ro_id (role_update t d a ps r) = ro_id r"
  by (simp add: role_update_def)

lemma role_set_row:
  "role_by_id i (as_db s) = Some a \<Longrightarrow> (\<And>x. ro_id (f x) = ro_id x) \<Longrightarrow> role_by_id i (as_db (role_set i f s)) = Some (f a)"
  by (simp add: role_by_id_def role_set_def onDb_def find_update) (drule find_id_Some, simp)

text \<open>A change of a role is not seen by the guard: the row has the new permissions and the new
  state, but the cache is written from the row before, as the refresh inside the transaction
  reads outside of it; so what the role allowed it still allows.\<close>

theorem role_edit_unseen:
  assumes "updateRole env superId r dto s = (Inr ''Role updated successfully'', s')"
  shows "\<exists>old new. role_by_id r (as_db s) = Some old \<and> role_by_id r (as_db s') = Some new
    \<and> ro_isActive new = (case rd_isActive dto of None \<Rightarrow> ro_isActive old | Some b \<Rightarrow> b)
    \<and> ro_permissions new = (case rd_permissions dto of None \<Rightarrow> ro_permissions old
        | Some ids \<Rightarrow> filter (\<lambda>p. p \<in> set ids) (h_permissions (as_db s)))
    \<and> role_seen env' r s' = Some (cached_of old)"
proof -
  let ?f = "\<lambda>title. role_update title (rd_description dto) (rd_isActive dto) (new_permissions dto (as_db s))"
  obtain old title where old: "role_by_id r (as_db s) = Some old"
    and s': "s' = (role_set r (?f title) s)\<lparr>as_temp := (as_temp (role_set r (?f title) s))(ROLE_KEY r \<mapsto> (KRole (cached_of old), None))\<rparr>"
    using updateRole_run [OF assms] by (auto simp: Let_def)
  have "role_by_id r (as_db s') = Some (?f title old)"
    using role_set_row [OF old, of "?f title"] by (simp add: s')
  moreover have "role_seen env' r s' = Some (cached_of old)"
    by (simp add: s' role_seen_def key_live_def live_def)
  ultimately show ?thesis using old
    by (intro exI [of _ old] exI [of _ "?f title old"]) (simp add: role_update_def new_permissions_def split: option.splits)
qed

section \<open>The refresh of the caches\<close>

text \<open>The temp store with a key written for every row.\<close>

fun written :: "('r \<Rightarrow> 'k) \<Rightarrow> ('r \<Rightarrow> 'v) \<Rightarrow> 'r list \<Rightarrow> ('k \<rightharpoonup> 'v) \<Rightarrow> 'k \<rightharpoonup> 'v" where
  "written k w [] m = m"
| "written k w (x # xs) m = written k w xs (m(k x \<mapsto> w x))"

lemma written_other: "y \<notin> k ` set xs \<Longrightarrow> written k w xs m y = m y"
  by (induction xs arbitrary: m) auto

lemma written_found: "distinct (map k xs) \<Longrightarrow> x \<in> set xs \<Longrightarrow> written k w xs m (k x) = Some (w x)"
  by (induction xs arbitrary: m) (auto simp: written_other)

lemma wp_cache_all:
  "wp (forM xs (\<lambda>x. keySet env (k x) (v x) None)) Q E s
     = Q () (s\<lparr>as_temp := written k (\<lambda>x. (v x, None)) xs (as_temp s)\<rparr>)"
  by (induction xs arbitrary: s) (simp_all add: wp_simps)

definition with_role :: "admin list \<Rightarrow> admin list" where
  "with_role xs = filter (\<lambda>a. truthy (ad_internalRoleId a) \<noteq> None) xs"

lemma cacheAll_admins:
  "forM xs (\<lambda>a. cacheAdminRole env (ad_id a) (ad_internalRoleId a))
     = forM (with_role xs) (\<lambda>a. keySet env (ADMIN_ROLE_KEY (ad_id a)) (KText (the (truthy (ad_internalRoleId a)))) None)"
  by (induction xs) (auto simp: with_role_def cacheAdminRole_def thenM_def bindM_def returnM_def fun_eq_iff split: sum.split prod.split)

definition refreshed :: "authDb \<Rightarrow> (string \<rightharpoonup> authValue \<times> int option) \<Rightarrow> string \<rightharpoonup> authValue \<times> int option" where
  "refreshed d m = written (\<lambda>r. ROLE_KEY (ro_id r)) (\<lambda>r. (KRole (cached_of r), None)) (h_roles d)
     (written (\<lambda>a. ADMIN_ROLE_KEY (ad_id a)) (\<lambda>a. (KText (the (truthy (ad_internalRoleId a))), None)) (with_role (h_admins d)) m)"

lemma refreshCaches_run:
  assumes "refreshCaches env s = (Inr u, s')"
  shows "s' = s\<lparr>as_temp := refreshed (as_db s) (as_temp s)\<rparr>"
proof -
  have "wp (refreshCaches env) (\<lambda>_ t. t = s\<lparr>as_temp := refreshed (as_db s) (as_temp s)\<rparr>) (\<lambda>_ _. False) s"
    by (simp add: refreshCaches_def cacheAllAdminRoles_def refreshAllRolesCache_def wp_simps cacheAll_admins wp_cache_all refreshed_def)
  with assms show ?thesis by (simp add: wp_alt)
qed

lemma refreshed_role:
  "distinct (map ro_id (h_roles d)) \<Longrightarrow> r \<in> set (h_roles d) \<Longrightarrow> refreshed d m (ROLE_KEY (ro_id r)) = Some (KRole (cached_of r), None)"
  unfolding refreshed_def
  by (rule written_found [of "\<lambda>r. ROLE_KEY (ro_id r)"]) (auto simp: distinct_map inj_on_def)

lemma refreshed_admin_from:
  "refreshed d m (ADMIN_ROLE_KEY i) = written (\<lambda>a. ADMIN_ROLE_KEY (ad_id a))
     (\<lambda>a. (KText (the (truthy (ad_internalRoleId a))), None)) (with_role (h_admins d)) m (ADMIN_ROLE_KEY i)"
  unfolding refreshed_def by (rule written_other) auto

lemma refreshed_admin:
  "distinct (map ad_id (h_admins d)) \<Longrightarrow> a \<in> set (h_admins d) \<Longrightarrow> truthy (ad_internalRoleId a) = Some q \<Longrightarrow>
     refreshed d m (ADMIN_ROLE_KEY (ad_id a)) = Some (KText q, None)"
  unfolding refreshed_admin_from
  by (subst written_found [of "\<lambda>a. ADMIN_ROLE_KEY (ad_id a)"]) (auto simp: distinct_map inj_on_def with_role_def)

lemma refreshed_no_role:
  "distinct (map ad_id (h_admins d)) \<Longrightarrow> a \<in> set (h_admins d) \<Longrightarrow> truthy (ad_internalRoleId a) = None \<Longrightarrow>
     refreshed d m (ADMIN_ROLE_KEY (ad_id a)) = m (ADMIN_ROLE_KEY (ad_id a))"
  unfolding refreshed_admin_from
  by (rule written_other) (auto simp: distinct_map inj_on_def with_role_def)

text \<open>The refresh of the caches shows the guard the rows: after it, every role is seen as its
  row has it, and every admin that has a role with the role of the row; but an admin without a
  role is left as it was, so a revoked one stays what the cache has.\<close>

theorem refresh_shows_rows:
  assumes "refreshCaches env s = (Inr u, s')"
    and "distinct (map ro_id (h_roles (as_db s)))" and "distinct (map ad_id (h_admins (as_db s)))"
  shows "(\<forall>r \<in> set (h_roles (as_db s)). role_seen env' (ro_id r) s' = Some (cached_of r))
    \<and> (\<forall>a \<in> set (h_admins (as_db s)). \<forall>q. truthy (ad_internalRoleId a) = Some q \<longrightarrow> admin_role_seen env' (ad_id a) s' = Some q)
    \<and> (\<forall>a \<in> set (h_admins (as_db s)). truthy (ad_internalRoleId a) = None \<longrightarrow>
         admin_role_seen env' (ad_id a) s' = admin_role_seen env' (ad_id a) s)"
proof -
  have s': "s' = s\<lparr>as_temp := refreshed (as_db s) (as_temp s)\<rparr>" using refreshCaches_run [OF assms(1)] .
  have "role_seen env' (ro_id r) s' = Some (cached_of r)" if "r \<in> set (h_roles (as_db s))" for r
    by (simp add: s' role_seen_def key_live_def live_def refreshed_role [OF assms(2) that])
  moreover have "admin_role_seen env' (ad_id a) s' = Some q"
    if "a \<in> set (h_admins (as_db s))" "truthy (ad_internalRoleId a) = Some q" for a q
    using truthy_nonempty [OF that(2)]
    by (simp add: s' admin_role_seen_def key_live_def live_def refreshed_admin [OF assms(3) that])
  moreover have "admin_role_seen env' (ad_id a) s' = admin_role_seen env' (ad_id a) s"
    if "a \<in> set (h_admins (as_db s))" "truthy (ad_internalRoleId a) = None" for a
    by (auto simp: s' admin_role_seen_def key_live_def refreshed_no_role [OF assms(3) that] split: option.split authValue.split)
  ultimately show ?thesis by blast
qed

section \<open>Examples\<close>

definition a_super :: admin where
  "a_super = demo_admin"

definition a_worker :: admin where
  "a_worker = demo_admin\<lparr>ad_id := ''y'', ad_email := ''y@y'', ad_role := PLAIN_ADMIN, ad_internalRoleId := Some ''r''\<rparr>"

definition a_role :: role where
  "a_role = \<lparr>ro_id = ''r'', ro_title = ''Support'', ro_description = None, ro_isActive = True, ro_permissions = [''p'', ''q'']\<rparr>"

definition another_role :: role where
  "another_role = a_role\<lparr>ro_id := ''z'', ro_title := ''Finance''\<rparr>"

definition role_state :: authSys where
  "role_state = onDb (\<lambda>d. d\<lparr>h_admins := [a_super, a_worker], h_roles := [a_role, another_role], h_permissions := [''p'', ''q'']\<rparr>) no_accounts"

definition a_token :: jwtPayload where
  "a_token = (identity ''y'' ADMIN)\<lparr>jp_accountStatus := Some AcACTIVE, jp_role := Some PLAIN_ADMIN, jp_internalRoleId := Some ''r''\<rparr>"

definition work_state :: authSys where
  "work_state = role_state\<lparr>as_temp := [ADMIN_ROLE_KEY ''y'' \<mapsto> (KText ''r'', None), ROLE_KEY ''r'' \<mapsto> (KRole (cached_of a_role), None)]\<rparr>"

lemmas role_demo = role_state_def a_super_def a_worker_def a_role_def another_role_def a_token_def demo_admin_def onDb_def no_accounts_def
  identity_def

lemma no_caches: "caches_ok role_state"
  by (simp add: caches_ok_def role_demo)

lemma demo_grant: "rolesGuard (demo_env 0 []) False [''p''] (Some a_token) role_state = (Inr (), work_state)"
proof -
  have "wp (rolesGuard (demo_env 0 []) False [''p''] (Some a_token)) (\<lambda>_ t. t = work_state) (\<lambda>_ _. False) role_state"
    by (simp add: rolesGuard_def getAdminInternalRoleId_def cacheAdminRole_def role_permits_def getRoleById_def wp_simps role_demo
      truthy_def key_live_def admin_by_id_def role_by_id_def cached_of_def work_state_def)
  then show ?thesis by (auto simp: wp_def split: prod.splits sum.splits)
qed

lemma run_is: "wp m (\<lambda>x t. x = y) (\<lambda>_ _. False) s \<Longrightarrow> m s = (Inr y, snd (m s))"
  by (auto simp: wp_def split: prod.splits sum.splits)

lemma demo_revoke: "revokeAllInternalAccess (demo_env 1 []) ''x'' ''y'' work_state
    = (Inr True, snd (revokeAllInternalAccess (demo_env 1 []) ''x'' ''y'' work_state))"
  by (rule run_is) (simp add: revokeAllInternalAccess_def requireSuperAdmin_def updAdmin_def onAdminRoleUpdated_def cacheAdminRole_def
    wp_simps work_state_def role_demo admin_by_id_def truthy_def)

lemma token_fields: "jp_id a_token = ''y''" "jp_role a_token \<noteq> Some SUPER_ADMIN" "jp_internalRoleId a_token = Some ''r''"
  by (simp_all add: a_token_def identity_def)

theorem revocation_without_effect_witness:
  "\<exists>s2 a. revokeAllInternalAccess (demo_env 1 []) ''x'' ''y'' work_state = (Inr True, s2)
    \<and> admin_by_id ''y'' (as_db s2) = Some a \<and> ad_internalRoleId a = None
    \<and> fst (rolesGuard (demo_env 9999999 []) False [''p''] (Some a_token) s2) = Inr ()"
  using revocation_without_effect [OF no_caches token_fields(2) demo_grant, unfolded token_fields(1), OF demo_revoke, of "demo_env 9999999 []"]
    demo_revoke by blast

definition no_update :: updateUserDto where
  "no_update = \<lparr>uu_fullName = None, uu_email = None, uu_phoneNumber = None, uu_gender = None, uu_residentialAddress = None,
     uu_country = None, uu_internalRoleId = None, uu_accountStatus = None\<rparr>"

definition dismissal :: updateUserDto where
  "dismissal = no_update\<lparr>uu_internalRoleId := Some None, uu_accountStatus := Some AcDEACTIVATED\<rparr>"

lemma demo_dismissal: "updateInternalUser (demo_env 1 []) ''x'' ''y'' dismissal work_state
    = (Inr UserUpdated, snd (updateInternalUser (demo_env 1 []) ''x'' ''y'' dismissal work_state))"
  by (rule run_is) (simp add: updateInternalUser_def requireSuperAdmin_def updAdmin_def onAdminRoleUpdated_def cacheAdminRole_def
    wp_simps work_state_def role_demo admin_by_id_def truthy_def dismissal_def no_update_def no_user_changes_def)

theorem deactivation_without_effect_witness:
  "\<exists>s2 a. updateInternalUser (demo_env 1 []) ''x'' ''y'' dismissal work_state = (Inr UserUpdated, s2)
    \<and> admin_by_id ''y'' (as_db s2) = Some a \<and> ad_accountStatus a = AcDEACTIVATED
    \<and> fst (rolesGuard (demo_env 9999999 []) False [''p''] (Some a_token) s2) = Inr ()"
proof -
  have "uu_accountStatus dismissal = Some AcDEACTIVATED" "uu_internalRoleId dismissal \<in> {None, Some None}"
    by (simp_all add: dismissal_def no_update_def)
  from deactivation_without_effect [OF no_caches token_fields(2) demo_grant, unfolded token_fields(1), OF demo_dismissal this,
      of "demo_env 9999999 []"]
  show ?thesis using demo_dismissal by blast
qed

definition transfer :: updateUserDto where
  "transfer = no_update\<lparr>uu_internalRoleId := Some (Some ''z'')\<rparr>"

lemma demo_transfer: "updateInternalUser (demo_env 1 []) ''x'' ''y'' transfer work_state
    = (Inr UserUpdated, snd (updateInternalUser (demo_env 1 []) ''x'' ''y'' transfer work_state))"
  by (rule run_is) (simp add: updateInternalUser_def requireSuperAdmin_def updAdmin_def onAdminRoleUpdated_def cacheAdminRole_def
    assignableRole_def getRoleById_def key_live_def role_by_id_def cached_of_def
    wp_simps work_state_def role_demo admin_by_id_def truthy_def transfer_def no_update_def no_user_changes_def)

theorem role_change_refused_witness:
  "\<exists>s2 e. updateInternalUser (demo_env 1 []) ''x'' ''y'' transfer work_state = (Inr UserUpdated, s2)
    \<and> fst (rolesGuard (demo_env 2 []) False [''p''] (Some a_token) s2) = Inl e"
proof -
  have "uu_internalRoleId transfer = Some (Some ''z'')" "''z'' \<noteq> []" by (simp_all add: transfer_def no_update_def)
  from role_change_refused [of _ _ a_token, unfolded token_fields(1), OF demo_transfer this token_fields(2), of "demo_env 2 []"]
  show ?thesis using demo_transfer by (auto simp: token_fields)
qed

definition restriction :: roleDto where
  "restriction = \<lparr>rd_title = None, rd_description = None, rd_isActive = None, rd_permissions = Some [''q'']\<rparr>"

lemma demo_restriction: "updateRole (demo_env 1 []) ''x'' ''r'' restriction work_state
    = (Inr ''Role updated successfully'', snd (updateRole (demo_env 1 []) ''x'' ''r'' restriction work_state))"
  by (rule run_is) (simp add: updateRole_def requireSuperAdmin_def newTitle_def validPermissions_def updRole_def
    refreshRoleCacheFrom_def role_by_id_def cached_of_def admins_of_role_def
    wp_simps work_state_def role_demo admin_by_id_def truthy_def restriction_def demo_fields)

theorem role_edit_unseen_witness:
  "\<exists>s2 new. updateRole (demo_env 1 []) ''x'' ''r'' restriction work_state = (Inr ''Role updated successfully'', s2)
    \<and> role_by_id ''r'' (as_db s2) = Some new \<and> ro_permissions new = [''q'']
    \<and> role_seen (demo_env 9999999 []) ''r'' s2 = Some (cached_of a_role)"
proof -
  have "role_by_id ''r'' (as_db work_state) = Some a_role" by (simp add: work_state_def role_demo role_by_id_def)
  moreover have "h_permissions (as_db work_state) = [''p'', ''q'']" by (simp add: work_state_def role_demo)
  ultimately show ?thesis using role_edit_unseen [OF demo_restriction, of "demo_env 9999999 []"] demo_restriction
    by (auto simp: restriction_def)
qed

lemma demo_refresh: "refreshCaches (demo_env 1 []) role_state = (Inr (), snd (refreshCaches (demo_env 1 []) role_state))"
  by (rule run_is) (simp add: refreshCaches_def cacheAllAdminRoles_def refreshAllRolesCache_def wp_simps cacheAll_admins wp_cache_all)

theorem refresh_shows_rows_witness:
  "\<exists>s2. refreshCaches (demo_env 1 []) role_state = (Inr (), s2)
    \<and> role_seen (demo_env 9 []) ''r'' s2 = Some (cached_of a_role) \<and> admin_role_seen (demo_env 9 []) ''y'' s2 = Some ''r''"
proof -
  have "distinct (map ro_id (h_roles (as_db role_state)))" "distinct (map ad_id (h_admins (as_db role_state)))"
    by (simp_all add: role_demo)
  from refresh_shows_rows [OF demo_refresh this, of "demo_env 9 []"]
  show ?thesis using demo_refresh by (intro exI conjI) (auto simp: role_demo truthy_def)
qed

theorem roles_guard_policy_witness:
  "fst (rolesGuard (demo_env 0 []) False [''p''] (Some a_token) role_state) = Inr ()
    \<and> fst (rolesGuard (demo_env 0 []) True [''p''] (Some a_token) role_state) \<noteq> Inr ()"
  using demo_grant roles_guard_policy [of "demo_env 0 []" True "[''p'']" a_token role_state] token_fields(2) by simp

end
