(* ===== verification/Spec2Isabelle.thy ===== *)
theory Spec2Isabelle
  imports StackJobs SwapSafety SellBooks StackRuns LoanBooks RoleSafety
begin

text \<open>
  A verification development for the money flows of the backend (a NestJS service over
  PostgreSQL through Prisma, Redis, and BullMQ queues). File names below are under
  \<^verbatim>\<open>src/src\<close>.

  \<^bold>\<open>The program.\<close> Users hold wallets in crypto currencies; the company holds liquidity rows, one
  per currency. A wallet row has a base balance, a reserved balance, a stacked and a locked
  amount, all integers in base units (\<^verbatim>\<open>Decimal(78, 0)\<close>). A liquidity row has the balance held
  at the provider, the reserved part, the internal balance (what the company and its users
  own together) and the locked principal and interest it owes. Services reserve before they ask a
  provider, and webhooks settle or release later. Requests and webhook deliveries run
  concurrently: what protects the books is the guarded SQL update (\<^verbatim>\<open>UPDATE ... WHERE\<close> the balance
  suffices), the row lock, the transaction, and the unique keys.

  \<^bold>\<open>The theories\<close>, in the order they build on each other:
  \<^item> \<open>Prelude\<close>: computations that throw or return (\<open>comp\<close>), their combinators (sequencing,
    \<^verbatim>\<open>try/catch\<close>, loops over a list), the weakest precondition \<open>wp\<close>, closure of an invariant
    \<open>preserves\<close>, and tables with the two forms of update the code issues. Collections:
    \<open>wp_simps\<close>, \<open>run_simps\<close>, \<open>preserves_intros\<close>, \<open>comp_defs\<close>, \<open>eval_simps\<close>.
  \<^item> \<open>Currency\<close>: \<^verbatim>\<open>shared/utils/currency-precision.util.ts\<close> and the tables of
    \<^verbatim>\<open>shared/constants\<close>.
  \<^item> \<open>Store\<close>: the rows of the Prisma schema, the database, Redis, the request log;
    \<open>txM\<close> is \<^verbatim>\<open>prisma.$transaction\<close>.
  \<^item> \<open>Account\<close>: the locale \<open>account\<close>, the contract of a row with reservations.
  \<^item> \<open>Ledger\<close>: \<^verbatim>\<open>modules/transaction/services/company-liquidity.service.ts\<close> and
    \<^verbatim>\<open>transaction.service.ts\<close>; the two interpretations of \<open>account\<close>, \<open>liquidity_account\<close> and
    \<open>wallet_account\<close>.
  \<^item> \<open>Webhook\<close>: \<^verbatim>\<open>modules/webhook/service/webhook-idempotency.service.ts\<close> and the endpoints of
    \<^verbatim>\<open>webhook.controller.ts\<close>.
  \<^item> \<open>Deposit\<close>, \<open>Withdrawal\<close>: the handlers of the same names under
    \<^verbatim>\<open>modules/webhook/quidax/handlers\<close>.
  \<^item> \<open>Vault\<close>: \<^verbatim>\<open>modules/vault/services/vault.service.ts\<close>.
  \<^item> \<open>Dates\<close>: the ECMAScript calendar and the scheduling functions of
    \<^verbatim>\<open>modules/autostack/services/autostack.service.ts\<close>; \<open>AutoStack\<close>: the rest of that service;
    \<open>StackBooks\<close>: what its transactions do to the books.
  \<^item> \<open>StackJobs\<close>: \<^verbatim>\<open>modules/scheduler/schedulers/autostack-interest.scheduler.ts\<close>.
  \<^item> \<open>SwapWebhook\<close>: \<^verbatim>\<open>modules/webhook/quidax/handlers/swap-transaction.handler.ts\<close>, for swaps of
    a user, swaps that fund a vault and swaps that execute an auto-stacking plan;
    \<open>SwapBooks\<close>: what the settlement does to the books; \<open>VaultSwaps\<close>: the vault it funds or
    ends; \<open>SwapSafety\<close>: solvency, and the orders of webhooks the handler does not exclude.
  \<^item> \<open>Books\<close>: the sums of all accounts in one currency as a vector (\<open>books\<close>, an abelian group), and
    \<open>posted\<close>: between two databases exactly these vectors were added.
  \<^item> \<open>Send\<close>, \<open>SwapService\<close>, \<open>Quotes\<close>, \<open>Sell\<close>: \<^verbatim>\<open>withdrawal.service.ts\<close>, \<^verbatim>\<open>swap.service.ts\<close>,
    \<^verbatim>\<open>quotation.service.ts\<close> and \<^verbatim>\<open>sell.service.ts\<close> of \<^verbatim>\<open>modules/transaction/services\<close>.
  \<^item> \<open>OrderDone\<close>: \<^verbatim>\<open>modules/webhook/quidax/handlers/order-done.handler.ts\<close>; \<open>Paystack\<close>:
    \<^verbatim>\<open>modules/webhook/paystack/handlers/payment-status.handler.ts\<close>.
  \<^item> \<open>Buy\<close>: \<^verbatim>\<open>modules/transaction/services/buy.service.ts\<close>; \<open>FailedLiquidity\<close>:
    \<^verbatim>\<open>failed-company-liquidity.service.ts\<close> there, with its scheduler.
  \<^item> \<open>Bills\<close>: \<^verbatim>\<open>modules/bills/bills.service.ts\<close> and
    \<^verbatim>\<open>modules/webhook/xpresspay/xpresspay-webhook.handler.ts\<close>; \<open>BillRetry\<close>:
    \<^verbatim>\<open>modules/scheduler/schedulers/bill-payment-retry.scheduler.ts\<close>.
  \<^item> \<open>Loans\<close>: \<^verbatim>\<open>modules/urgent-liquidity/services/urgent-liquidity.service.ts\<close>; \<open>Ranges\<close>: its settings
    and repayment ranges (\<^verbatim>\<open>modules/admin/currencies/services/urgent-liquidity-settings.service.ts\<close>) and
    their cache.
  \<^item> \<open>SendBooks\<close>, \<open>SwapFlow\<close>, \<open>OrderBooks\<close>, \<open>SellBooks\<close>, \<open>ChargeBooks\<close>, \<open>BuyBooks\<close>, \<open>FailedBooks\<close>,
    \<open>BillBooks\<close>, \<open>LoanBooks\<close>: what a request and the webhook or the retry that ends it do together;
    \<open>RangeSafety\<close>: what administrators can do to the ranges; \<open>StackRuns\<close>: attempts at one auto-stacking
    execution.
  \<^item> \<open>Auth\<close>: the rows, the keys and the tokens of authentication, \<^verbatim>\<open>shared/services/otp.service.ts\<close> and
    \<^verbatim>\<open>token.service.ts\<close>, \<^verbatim>\<open>core/guards/auth.guard.ts\<close>, in a state of its own (\<open>authSys\<close>), which the
    money flows do not touch; \<open>Users\<close>: \<^verbatim>\<open>modules/auth/users/users.service.ts\<close>; \<open>Admins\<close>:
    \<^verbatim>\<open>modules/auth/auth.service.ts\<close> and \<^verbatim>\<open>modules/auth/admin/admin.service.ts\<close>; \<open>Roles\<close>:
    \<^verbatim>\<open>modules/admin/Internal-user/internal-user.service.ts\<close>, the caches of roles
    (\<^verbatim>\<open>infrastructure/databases/redis\<close>) and \<^verbatim>\<open>core/guards/admin.role.guard.ts\<close>.
  \<^item> \<open>AuthSteps\<close>: the requests as the actions of one machine and the locale \<open>auth_invariant\<close> for what they
    keep; \<open>AuthSafety\<close>, \<open>AuthRuns\<close>, \<open>Locks\<close>, \<open>Links\<close>, \<open>RoleSafety\<close>: what its runs can and cannot do.

  \<^bold>\<open>How the model corresponds to the code.\<close> A service method is a definition with its name (or the
  name with the component in front) whose arguments are the parameters of the method and the
  outside world; its value is a computation on \<open>sys\<close>, and what runs inside
  \<^verbatim>\<open>prisma.$transaction\<close> is a computation on \<open>db\<close>, a definition of its own with suffix
  \<open>_tx\<close>, so that interleavings of transactions can be stated. An exception is an \<open>error\<close>, the
  message or the code the callers look at. The statements of a method come in the order of the
  source. Where a method reads, then asks a provider, then writes, the phases are separate
  definitions and the method is their composition.

  \<^bold>\<open>Outside the model, as arguments:\<close> the answers of the exchange, the card processor and the
  ticker; decimal.js and bcrypt; generated identifiers; the clock; settings and caches of
  configuration. A claim holds for all of them, unless it names what it relies on.
  Decimals that raw SQL returns are taken to be printed plainly. Log lines, audit events, mails and
  notifications are left out: nothing reads them back; where a mail carries a code it is an entry of
  the log of \<open>authSys\<close>.

  \<^bold>\<open>What the lemmas show.\<close>
  \<^item> \<open>Currency\<close>: conversions are exact, scale with the decimals of the network and read back what
    they print.
  \<^item> \<open>Account\<close>, \<open>Ledger\<close>: a row of either ledger refines an abstract account of named holds:
    the reserved balance is the sum of what is held and never exceeds the balance; a
    reservation is undone exactly. A row of that kind is called \<open>solvent\<close>.
  \<^item> \<open>Webhook\<close>: of any deliveries of one event one job is queued, unless the queue does not take it; that job is lost.
  \<^item> \<open>Deposit\<close>, \<open>Withdrawal\<close>, \<open>Vault\<close>, \<open>AutoStack\<close>: each handler, whatever fails on the way, keeps
    every account solvent; money moves between the sums without being made
    (\<open>gap\<close>: internal balance less what users own; \<open>stacked\<close>, \<open>total_stacked\<close>, \<open>active_plans\<close>);
    each deposit, withdrawal, vault and execution takes effect at most once. Where the code does not
    ensure this, the failing interleaving is a theorem on a concrete state: those are the
    theorems on races and on amounts that stay reserved.
  \<^item> \<open>SwapBooks\<close>, \<open>VaultSwaps\<close>, \<open>SwapSafety\<close>: along any trace of settlements and failures of
    one swap (\<open>swap_trace\<close>) it is settled once; a settlement keeps, for every currency, the
    internal balance less what users own (\<open>net\<close>), an auto-stacking swap stacks what was received,
    a vault swap locks what was promised and pays the surplus out, and a failed one gives both
    reservations back.
  \<^item> \<open>SendBooks\<close>, \<open>SwapFlow\<close>, \<open>OrderBooks\<close>, \<open>SellBooks\<close>: the postings of a confirmation and
    of the webhook that settles it add up to the change they owe, whatever was posted in between
    (\<open>posted\<close>); a confirmation the provider refuses leaves the accounts as they were; where a
    failure is not compensated, the amount that stays is stated.
  \<^item> \<open>OrderBooks\<close>, \<open>ChargeBooks\<close>: along any trace of deliveries of one buy order (\<open>order_trace\<close>) it
    is settled once; along any run of deliveries of one charge (\<open>charge_run\<close>), their transactions and unlocked
    writes interleaved, orders are asked for no oftener than refusals and stale writes of metadata allow,
    and the handler of the event is such a run (\<open>charge_process_run\<close>). \<open>StackRuns\<close>: the same for attempts at
    an auto-stacking execution (\<open>stack_run\<close>), and the webhook that takes its note out.
  \<^item> \<open>BuyBooks\<close>, \<open>FailedBooks\<close>, \<open>BillBooks\<close>: the same for buys, for orders that were queued for lack of
    liquidity and for bills; a try of a queued order is all or nothing and activates it once
    (\<open>retry_trace\<close>), a bill is settled once along any trace of reports (\<open>bill_trace\<close>), and what breaks
    this: writes of metadata from an older reading, tries that overlap.
  \<^item> \<open>RangeSafety\<close>: ranges of one currency stay disjoint under the requests of administrators that the
    check sees; changed settings are not. \<open>LoanBooks\<close>: a loan holds nothing of its collateral.
  \<^item> \<open>AuthSafety\<close>, \<open>AuthRuns\<close>: in every run accounts stay distinct and found by their address, and a PIN that
    is set changes only after a code was mailed to its owner. \<open>Locks\<close>, \<open>Links\<close>: wrong PINs lock an account,
    requests for codes are bounded, a logout ends a session; reset links can be used again and not asked
    for again. \<open>RoleSafety\<close>: the guard of the admins decides as its policy, by two caches; a change of
    role is seen at once, a revocation and a change of the permissions of a role are not.
  \<^item> \<open>Quotes\<close>: the PIN releases a quote for its owner and not past its expiry.
  \<^item> \<open>Dates\<close>: the calendar reads back what it prints, and the schedule moves on.
  \<^item> \<open>StackJobs\<close>: a dispatch run queues each due plan once.

  \<^bold>\<open>Bounds and fuel.\<close> Amounts are unbounded integers, as \<^verbatim>\<open>BigInt\<close> and \<^verbatim>\<open>Decimal(78, 0)\<close> are here;
  the database would reject a number of more than 78 digits, which is not modelled. The year
  of a day is found by searching up from an estimate that is never too large
  (\<open>year_up\<close>, a recursion with a measure). The dispatch loop has a number of rounds as
  fuel; one round more than the number of plans that are due is enough, since every round but the
  last queues a plan (\<open>dispatch_queues_due\<close>).

  \<^bold>\<open>Not modelled:\<close> KYC, administration (but for roles, flagged users and the terms of loans) and reports, which
  are mostly calls of providers and reads of rows; \<^verbatim>\<open>getTransactionLimits\<close> (a report) and the methods
  nothing calls (\<^verbatim>\<open>compensateFailedBuyOrder\<close>, \<^verbatim>\<open>setSwapQuoteCooldown\<close>); the plumbing of queues and timers; HTTP
  clients and connection handling. The
  model of Redis answers every call: its failures and the expiry of locks in the middle of a
  request are left out, except where an entry carries its time to live.
\<close>

end
